(* ===== verification/Go_Prelude.thy ===== *)
theory Go_Prelude
  imports Main "HOL-Library.Multiset" "HOL-Library.List_Lexorder" "HOL-Library.Char_ord"
begin

text \<open>
  What the registry's Go code uses of the language and its standard library, as HOL functions:
  64-bit signed integers with their wrap-around, byte strings and the functions of the packages
  \<open>strings\<close> and \<open>strconv\<close> the code calls, time readings, slices that may be nil, and the
  \<open>range\<close> statement, whose visiting order the runtime chooses.  The theory also declares the
  collections of simplification rules the component theories share and the generic list and
  option lemmas their proofs use.
\<close>

named_theorems go_simps \<open>unfolding rules for small model functions\<close>
named_theorems store_defs \<open>definitions of the storage operations\<close>
named_theorems registry_defs \<open>definitions of the registry operations\<close>

section \<open>Integers\<close>

text \<open>
  \<open>int\<close> and \<open>int64\<close> are both 64 bits wide on the platforms the registry is built for.  A value
  is an \<^typ>\<open>int\<close>, and every addition of the code that can leave the range is wrapped by
  \<open>i64\<close>, which is two's complement reduction.
\<close>

definition i64 :: "int \<Rightarrow> int" where
  "i64 x = (x + 2 ^ 63) mod 2 ^ 64 - 2 ^ 63"

definition max_int64 :: int where
  "max_int64 = 2 ^ 63 - 1"

definition in_i64 :: "int \<Rightarrow> bool" where
  "in_i64 x \<longleftrightarrow> - (2 ^ 63) \<le> x \<and> x < 2 ^ 63"

lemma i64_id [simp]: "in_i64 x \<Longrightarrow> i64 x = x"
  by (simp add: i64_def in_i64_def)

lemma i64_range: "in_i64 (i64 x)"
  by (simp add: i64_def in_i64_def)

lemma i64_succ: "in_i64 x \<Longrightarrow> x < max_int64 \<Longrightarrow> i64 (x + 1) = x + 1"
  by (rule i64_id) (simp add: in_i64_def max_int64_def)

lemma i64_wraps: "i64 (max_int64 + 1) = - (2 ^ 63)"
  by (simp add: i64_def max_int64_def)

section \<open>Slices, pointers and time\<close>

text \<open>
  A slice or map whose nil-ness the code observes (through \<open>reflect.DeepEqual\<close> or a comparison
  with \<open>nil\<close>) is an \<open>option\<close>; \<open>None\<close> is nil.  Ranging over nil visits nothing.
\<close>

type_synonym 'a slice = "'a list option"

definition slice_list :: "'a slice \<Rightarrow> 'a list" where
  "slice_list s = (case s of None \<Rightarrow> [] | Some xs \<Rightarrow> xs)"

lemma slice_list_simps [simp]: "slice_list None = []" "slice_list (Some xs) = xs"
  by (simp_all add: slice_list_def)

text \<open>Appending to a nil slice allocates it, unless nothing is appended.\<close>

definition slice_of :: "'a list \<Rightarrow> 'a slice" where
  "slice_of xs = (if xs = [] then None else Some xs)"

lemma slice_list_slice_of [simp]: "slice_list (slice_of xs) = xs"
  by (simp add: slice_of_def)

text \<open>A time reading is a number of nanoseconds since the epoch.\<close>

type_synonym go_time = int

definition UnixMilli :: "go_time \<Rightarrow> int" where
  "UnixMilli t = t div 1000000"

section \<open>The order of a range statement\<close>

text \<open>
  Ranging over a Go map visits every entry once, in an order the runtime chooses afresh each
  time.  Where the order can be observed, the operation takes it as an argument: a function that
  rearranges the list of entries.
\<close>

type_synonym 'a order = "'a list \<Rightarrow> 'a list"

definition range_order :: "'a order \<Rightarrow> bool" where
  "range_order it \<longleftrightarrow> (\<forall>xs. mset (it xs) = mset xs)"

lemma range_order_set [simp]: "range_order it \<Longrightarrow> set (it xs) = set xs"
  unfolding range_order_def by (metis set_mset_mset)

lemma range_order_id [simp]: "range_order (\<lambda>xs. xs)"
  by (simp add: range_order_def)

lemma range_order_rev [simp]: "range_order rev"
  by (simp add: range_order_def)

lemma find_Some_range:
  "range_order it \<Longrightarrow> List.find P (it xs) = Some x \<Longrightarrow> x \<in> set xs \<and> P x"
  by (metis find_Some_iff nth_mem range_order_set)

lemma find_None_range:
  "range_order it \<Longrightarrow> List.find P (it xs) = None \<longleftrightarrow> (\<forall>x\<in>set xs. \<not> P x)"
  using range_order_set [of it xs] by (metis find_None_iff)

section \<open>Strings\<close>

text \<open>
  A Go string is a sequence of bytes: an Isabelle \<^typ>\<open>string\<close>, whose order under
  \<open>HOL-Library.List_Lexorder\<close> is Go's.
\<close>

definition HasPrefix :: "string \<Rightarrow> string \<Rightarrow> bool" where
  "HasPrefix s p \<longleftrightarrow> take (length p) s = p"

lemma HasPrefix_append [simp]: "HasPrefix (p @ s) p"
  by (simp add: HasPrefix_def)

lemma HasPrefix_iff: "HasPrefix s p \<longleftrightarrow> (\<exists>r. s = p @ r)"
  unfolding HasPrefix_def by (metis append_eq_conv_conj append_take_drop_id)

text \<open>\<open>strings.Index\<close> for a separator of one byte: the position of its first occurrence.\<close>

fun IndexByte :: "string \<Rightarrow> char \<Rightarrow> nat option" where
  "IndexByte [] c = None"
| "IndexByte (x # xs) c = (if x = c then Some 0 else map_option Suc (IndexByte xs c))"

lemma IndexByte_Some:
  "IndexByte s c = Some i \<Longrightarrow> i < length s \<and> s ! i = c \<and> c \<notin> set (take i s)"
  by (induction s arbitrary: i) (auto split: if_splits)

lemma IndexByte_None: "IndexByte s c = None \<longleftrightarrow> c \<notin> set s"
  by (induction s) auto

lemma IndexByte_append: "c \<notin> set xs \<Longrightarrow> IndexByte (xs @ c # ys) c = Some (length xs)"
  by (induction xs) auto

text \<open>\<open>strings.Split\<close> for a separator of one byte; never empty.\<close>

fun SplitByte :: "string \<Rightarrow> char \<Rightarrow> string list" where
  "SplitByte [] c = [[]]"
| "SplitByte (x # xs) c =
     (if x = c then [] # SplitByte xs c
      else (case SplitByte xs c of [] \<Rightarrow> [[x]] | y # ys \<Rightarrow> (x # y) # ys))"

lemma SplitByte_nonempty: "SplitByte s c \<noteq> []"
  by (induction s) (auto split: list.splits)

lemma SplitByte_parts: "p \<in> set (SplitByte s c) \<Longrightarrow> c \<notin> set p"
  by (induction s arbitrary: p) (auto split: if_splits list.splits)

lemma SplitByte_no_sep: "c \<notin> set s \<Longrightarrow> SplitByte s c = [s]"
  by (induction s) auto

lemma SplitByte_append:
  "c \<notin> set xs \<Longrightarrow> SplitByte (xs @ c # ys) c = xs # SplitByte ys c"
  by (induction xs) auto

text \<open>\<open>strings.Join\<close>.\<close>

fun Join :: "string list \<Rightarrow> string \<Rightarrow> string" where
  "Join [] sep = []"
| "Join [x] sep = x"
| "Join (x # xs) sep = x @ sep @ Join xs sep"

text \<open>
  The UTF-8 encodings of the white space characters \<open>strings.TrimSpace\<close> removes.
\<close>

definition white_space :: "string list" where
  "white_space =
     [[CHR 0x09], [CHR 0x0A], [CHR 0x0B], [CHR 0x0C], [CHR 0x0D], [CHR 0x20], [CHR 0xC2, CHR 0x85],
      [CHR 0xC2, CHR 0xA0], [CHR 0xE1, CHR 0x9A, CHR 0x80], [CHR 0xE2, CHR 0x80, CHR 0x80],
      [CHR 0xE2, CHR 0x80, CHR 0x81], [CHR 0xE2, CHR 0x80, CHR 0x82], [CHR 0xE2, CHR 0x80, CHR 0x83],
      [CHR 0xE2, CHR 0x80, CHR 0x84], [CHR 0xE2, CHR 0x80, CHR 0x85], [CHR 0xE2, CHR 0x80, CHR 0x86],
      [CHR 0xE2, CHR 0x80, CHR 0x87], [CHR 0xE2, CHR 0x80, CHR 0x88], [CHR 0xE2, CHR 0x80, CHR 0x89],
      [CHR 0xE2, CHR 0x80, CHR 0x8A], [CHR 0xE2, CHR 0x80, CHR 0xA8], [CHR 0xE2, CHR 0x80, CHR 0xA9],
      [CHR 0xE2, CHR 0x80, CHR 0xAF], [CHR 0xE2, CHR 0x81, CHR 0x9F], [CHR 0xE3, CHR 0x80, CHR 0x80]]"

fun strip_pre :: "string list \<Rightarrow> string \<Rightarrow> string option" where
  "strip_pre [] s = None"
| "strip_pre (w # ws) s =
     (if w \<noteq> [] \<and> HasPrefix s w then Some (drop (length w) s) else strip_pre ws s)"

lemma strip_pre_length: "strip_pre ws s = Some s' \<Longrightarrow> length s' < length s"
  by (induction ws) (auto simp: HasPrefix_iff split: if_splits)

function trim_left :: "string list \<Rightarrow> string \<Rightarrow> string" where
  "trim_left ws s = (case strip_pre ws s of None \<Rightarrow> s | Some s' \<Rightarrow> trim_left ws s')"
  by pat_completeness auto
termination
  by (relation "measure (\<lambda>(ws, s). length s)") (auto simp: strip_pre_length)

declare trim_left.simps [simp del]

definition TrimSpace :: "string \<Rightarrow> string" where
  "TrimSpace s = rev (trim_left (map rev white_space) (rev (trim_left white_space s)))"

text \<open>
  \<open>strings.ToUpper\<close>: ASCII letters, and the two characters outside ASCII whose upper case is
  an ASCII letter (the dotless i and the long s).  The bytes of other characters are kept: their
  upper case is never ASCII, and the code compares the result with ASCII literals only.
\<close>

definition upper_byte :: "char \<Rightarrow> char" where
  "upper_byte c = (let n = (of_char c :: int) in if 97 \<le> n \<and> n \<le> 122 then char_of (n - 32) else c)"

fun ToUpper :: "string \<Rightarrow> string" where
  "ToUpper [] = []"
| "ToUpper [c] = [upper_byte c]"
| "ToUpper (c # d # s) =
     (if c = CHR 0xC4 \<and> d = CHR 0xB1 then CHR ''I'' # ToUpper s
      else if c = CHR 0xC5 \<and> d = CHR 0xBF then CHR ''S'' # ToUpper s
      else upper_byte c # ToUpper (d # s))"

section \<open>Decimal numerals\<close>

text \<open>\<open>strconv.Itoa\<close> and \<open>strconv.Atoi\<close>.\<close>

definition digit_char :: "nat \<Rightarrow> char" where
  "digit_char d = char_of (48 + d)"

definition digit_value :: "char \<Rightarrow> nat option" where
  "digit_value c = (let n = (of_char c :: nat) in if 48 \<le> n \<and> n \<le> 57 then Some (n - 48) else None)"

fun nat_digits :: "nat \<Rightarrow> string" where
  "nat_digits n = (if n < 10 then [digit_char n] else nat_digits (n div 10) @ [digit_char (n mod 10)])"

declare nat_digits.simps [simp del]

definition Itoa :: "int \<Rightarrow> string" where
  "Itoa n = (if n < 0 then CHR ''-'' # nat_digits (nat (- n)) else nat_digits (nat n))"

fun digits_val :: "nat \<Rightarrow> string \<Rightarrow> nat option" where
  "digits_val acc [] = Some acc"
| "digits_val acc (c # cs) =
     (case digit_value c of None \<Rightarrow> None | Some d \<Rightarrow> digits_val (10 * acc + d) cs)"

definition Atoi :: "string \<Rightarrow> int option" where
  "Atoi s =
     (let (neg, ds) = (case s of [] \<Rightarrow> (False, [])
                       | c # cs \<Rightarrow> if c = CHR ''-'' then (True, cs)
                                   else if c = CHR ''+'' then (False, cs) else (False, s))
      in if ds = [] then None
         else case digits_val 0 ds of None \<Rightarrow> None
              | Some n \<Rightarrow> (let v = (if neg then - int n else int n)
                           in if in_i64 v then Some v else None))"

lemma digit_value_digit_char [simp]: "d < 10 \<Longrightarrow> digit_value (digit_char d) = Some d"
  by (simp add: digit_value_def digit_char_def)

lemma digits_val_append:
  "digits_val acc (xs @ ys) =
     (case digits_val acc xs of None \<Rightarrow> None | Some a \<Rightarrow> digits_val a ys)"
  by (induction xs arbitrary: acc) (auto split: option.splits)

lemma digits_val_nat_digits: "digits_val 0 (nat_digits n) = Some n"
proof (induction n rule: nat_digits.induct)
  case (1 n)
  show ?case
  proof (cases "n < 10")
    case True
    then show ?thesis by (subst nat_digits.simps) simp
  next
    case False
    with 1 show ?thesis by (subst nat_digits.simps) (simp add: digits_val_append)
  qed
qed

lemma nat_digits_chars: "c \<in> set (nat_digits n) \<Longrightarrow> \<exists>d<10. c = digit_char d"
proof (induction n rule: nat_digits.induct)
  case (1 n)
  then show ?case
    by (subst (asm) (2) nat_digits.simps) (auto split: if_splits intro: exI [of _ "n mod 10"])
qed

lemma nat_digits_nonempty [simp]: "nat_digits n \<noteq> []"
  by (subst nat_digits.simps) simp

lemma digit_char_inj [simp]: "d < 10 \<Longrightarrow> e < 10 \<Longrightarrow> digit_char d = digit_char e \<longleftrightarrow> d = e"
  by (metis digit_value_digit_char option.inject)

lemma digit_value_other [simp]:
  "digit_value CHR ''-'' = None" "digit_value CHR ''+'' = None"
  "digit_value (char_of (0::nat)) = None"
  by (simp_all add: digit_value_def)

lemma digit_char_ne:
  "digit_value c = None \<Longrightarrow> d < 10 \<Longrightarrow> digit_char d \<noteq> c"
  by (metis digit_value_digit_char option.distinct(1))

lemma nat_digits_no_sep: "digit_value c = None \<Longrightarrow> c \<notin> set (nat_digits n)"
  using digit_char_ne nat_digits_chars by metis

lemma Itoa_no_sep: "digit_value c = None \<Longrightarrow> c \<noteq> CHR ''-'' \<Longrightarrow> c \<notin> set (Itoa n)"
  by (auto simp: Itoa_def nat_digits_no_sep)

text \<open>Printing an integer and reading it back gives the integer.\<close>

lemma Atoi_Itoa: "in_i64 n \<Longrightarrow> Atoi (Itoa n) = Some n"
proof (cases "n < 0")
  case True
  assume "in_i64 n"
  with True show ?thesis
    by (simp add: Atoi_def Itoa_def digits_val_nat_digits)
next
  case False
  assume r: "in_i64 n"
  obtain c cs where ds: "nat_digits (nat n) = c # cs"
    by (meson nat_digits_nonempty neq_Nil_conv)
  then have "c \<noteq> CHR ''-''" "c \<noteq> CHR ''+''"
    using nat_digits_no_sep [of "CHR ''-''" "nat n"] nat_digits_no_sep [of "CHR ''+''" "nat n"]
    by auto
  with False r ds digits_val_nat_digits [of "nat n"] show ?thesis
    by (simp add: Atoi_def Itoa_def)
qed

lemma nat_digits_inj: "nat_digits m = nat_digits n \<longleftrightarrow> m = n"
  by (metis digits_val_nat_digits option.inject)

lemma Itoa_inj: "Itoa m = Itoa n \<longleftrightarrow> m = n"
proof
  assume eq: "Itoa m = Itoa n"
  have sign: "\<not> k < 0 \<Longrightarrow> hd (Itoa k) \<noteq> CHR ''-''" for k
    using nat_digits_no_sep [of "CHR ''-''" "nat k"]
    by (metis Itoa_def digit_value_other(1) list.set_sel(1) nat_digits_nonempty)
  have neg: "k < 0 \<Longrightarrow> hd (Itoa k) = CHR ''-''" for k
    by (simp add: Itoa_def)
  have "m < 0 \<longleftrightarrow> n < 0"
    using eq sign neg by metis
  with eq show "m = n"
    by (auto simp: Itoa_def nat_digits_inj split: if_splits)
qed simp

section \<open>Lists\<close>

text \<open>Two lists with distinct sort keys and the same elements are sorted to the same list.\<close>

lemma sort_key_mset_eq:
  assumes "mset xs = mset ys" and "distinct (map f xs)"
  shows "sort_key f xs = sort_key f ys"
proof (rule properties_for_sort_key [symmetric])
  show "mset (sort_key f xs) = mset ys" using assms(1) by simp
  show "sorted (map f (sort_key f xs))" by simp
  fix k assume "k \<in> set (sort_key f xs)"
  have d: "distinct (map f ys)" using assms
    by (metis mset_eq_imp_distinct_iff mset_map)
  have one: "[x\<leftarrow>zs. f k = f x] = [k]" if "distinct (map f zs)" "k \<in> set zs" for zs
    using that by (induction zs) (auto simp: filter_empty_conv, metis image_eqI)
  have "k \<in> set ys" using \<open>k \<in> set (sort_key f xs)\<close> assms(1)
    by (metis set_mset_mset mset_sort)
  moreover have "distinct (map f (sort_key f xs))"
    using assms(2) by (metis mset_eq_imp_distinct_iff mset_map mset_sort)
  ultimately show "[x\<leftarrow>sort_key f xs. f k = f x] = [x\<leftarrow>ys. f k = f x]"
    using one d \<open>k \<in> set (sort_key f xs)\<close> by metis
qed

lemma sort_mset_eq: "mset xs = mset ys \<Longrightarrow> sort xs = sort ys"
  by (metis properties_for_sort mset_sort sorted_sort)

lemma set_map_filter: "y \<in> set (List.map_filter f xs) \<longleftrightarrow> (\<exists>x\<in>set xs. f x = Some y)"
  by (force simp: List.map_filter_def)

section \<open>Searching a text\<close>

text \<open>\<open>strings.Index\<close>: the position of the first occurrence.\<close>

fun strings_Index :: "string \<Rightarrow> string \<Rightarrow> nat option" where
  "strings_Index s sub =
     (if HasPrefix s sub then Some 0
      else case s of [] \<Rightarrow> None | c # cs \<Rightarrow> map_option Suc (strings_Index cs sub))"

declare strings_Index.simps [simp del]

lemma Index_Some:
  "strings_Index s sub = Some i \<Longrightarrow> (\<exists>u v. s = u @ sub @ v \<and> length u = i) \<and> (\<forall>u v. s = u @ sub @ v \<longrightarrow> i \<le> length u)"
proof (induction s arbitrary: i)
  case Nil
  then show ?case by (subst (asm) strings_Index.simps) (auto simp: HasPrefix_iff split: if_splits)
next
  case (Cons c s)
  show ?case
  proof (cases "HasPrefix (c # s) sub")
    case True
    then show ?thesis using Cons.prems by (subst (asm) strings_Index.simps) (auto simp: HasPrefix_iff)
  next
    case False
    then obtain j where j: "strings_Index s sub = Some j" "i = Suc j"
      using Cons.prems by (subst (asm) strings_Index.simps) auto
    from Cons.IH [OF j(1)] obtain u v where uv: "s = u @ sub @ v" "length u = j"
      and least: "\<And>u v. s = u @ sub @ v \<Longrightarrow> j \<le> length u" by blast
    have "c # s = (c # u) @ sub @ v \<and> length (c # u) = i" using uv j(2) by simp
    moreover have "i \<le> length w" if "c # s = w @ sub @ x" for w x
    proof (cases w)
      case Nil
      then show ?thesis using that False by (auto simp: HasPrefix_iff)
    next
      case (Cons d w')
      then show ?thesis using that least [of w' x] j(2) by simp
    qed
    ultimately show ?thesis by blast
  qed
qed

lemma Index_None: "strings_Index s sub = None \<Longrightarrow> s \<noteq> u @ sub @ v"
proof (induction s arbitrary: u)
  case Nil
  then show ?case by (subst (asm) strings_Index.simps) (auto simp: HasPrefix_iff split: if_splits)
next
  case (Cons c s)
  have no: "\<not> HasPrefix (c # s) sub" "strings_Index s sub = None"
    using Cons.prems by (subst (asm) strings_Index.simps, auto split: if_splits)+
  then show ?case using Cons.IH [OF no(2)] by (cases u) (auto simp: HasPrefix_iff)
qed

end
