(* ===== verification/Go_Map.thy ===== *)
theory Go_Map
  imports Go_Prelude "HOL-Library.DAList"
begin

text \<open>
  Go maps.  A map is an association list with distinct keys (the type \<open>alist\<close> of
  \<open>HOL-Library.DAList\<close>), so that \<open>range\<close> has entries to visit and witnesses can be computed.
  The locale \<open>go_map\<close> states what the code relies on - the laws of reading, storing, deleting
  and ranging - and proves once what the components use of them: which entries a scan meets, that
  sorting the keys a range collects gives the same list for every visiting order, and what the
  ``largest version so far'' loop computes.  The interpretation \<open>gm\<close> discharges the laws.
\<close>

type_synonym ('k, 'v) gomap = "('k, 'v) alist"

abbreviation gm_get :: "('k, 'v) gomap \<Rightarrow> 'k \<Rightarrow> 'v option" where
  "gm_get \<equiv> DAList.lookup"

abbreviation gm_put :: "'k \<Rightarrow> 'v \<Rightarrow> ('k, 'v) gomap \<Rightarrow> ('k, 'v) gomap" where
  "gm_put \<equiv> DAList.update"

abbreviation gm_del :: "'k \<Rightarrow> ('k, 'v) gomap \<Rightarrow> ('k, 'v) gomap" where
  "gm_del \<equiv> DAList.delete"

abbreviation gm_empty :: "('k, 'v) gomap" where
  "gm_empty \<equiv> DAList.empty"

abbreviation gm_entries :: "('k, 'v) gomap \<Rightarrow> ('k \<times> 'v) list" where
  "gm_entries \<equiv> DAList.impl_of"

text \<open>Reading a missing key gives the zero value of the element type.\<close>

definition gm_get0 :: "'v \<Rightarrow> ('k, 'v) gomap \<Rightarrow> 'k \<Rightarrow> 'v" where
  "gm_get0 z m k = (case gm_get m k of None \<Rightarrow> z | Some v \<Rightarrow> v)"

definition gm_keys :: "('k, 'v) gomap \<Rightarrow> 'k list" where
  "gm_keys m = map fst (gm_entries m)"

text \<open>A loop that assigns through the pointers a map holds.\<close>

lift_definition gm_map_vals :: "('k \<Rightarrow> 'v \<Rightarrow> 'v) \<Rightarrow> ('k, 'v) gomap \<Rightarrow> ('k, 'v) gomap"
  is "AList.map_ran" by (simp add: distinct_map_ran)

text \<open>A map literal, and the map a \<open>make\<close> followed by a loop of stores builds.\<close>

definition gm_of_list :: "('k \<times> 'v) list \<Rightarrow> ('k, 'v) gomap" where
  "gm_of_list kvs = fold (\<lambda>(k, v) m. gm_put k v m) kvs gm_empty"

definition gm_put_all :: "('k \<times> 'v) list \<Rightarrow> ('k, 'v) gomap \<Rightarrow> ('k, 'v) gomap" where
  "gm_put_all kvs m = fold (\<lambda>(k, v) m. gm_put k v m) kvs m"

text \<open>
  \<open>reflect.DeepEqual\<close> on maps: the same number of entries, and every entry of the first has an
  equal one in the second; on nilable maps, nil equals nil only.
\<close>

definition gm_deep_eq :: "('v \<Rightarrow> 'v \<Rightarrow> bool) \<Rightarrow> ('k, 'v) gomap \<Rightarrow> ('k, 'v) gomap \<Rightarrow> bool" where
  "gm_deep_eq eq m n \<longleftrightarrow>
     length (gm_entries m) = length (gm_entries n) \<and>
     list_all (\<lambda>(k, v). case gm_get n k of None \<Rightarrow> False | Some w \<Rightarrow> eq v w) (gm_entries m)"

definition opt_deep_eq :: "('a \<Rightarrow> 'a \<Rightarrow> bool) \<Rightarrow> 'a option \<Rightarrow> 'a option \<Rightarrow> bool" where
  "opt_deep_eq eq x y =
     (case (x, y) of (None, None) \<Rightarrow> True | (Some a, Some b) \<Rightarrow> eq a b | _ \<Rightarrow> False)"

text \<open>The loop that keeps the largest key greater than the start value whose entry passes a test.\<close>

definition max_key :: "('v \<Rightarrow> bool) \<Rightarrow> (int \<times> 'v) list \<Rightarrow> int \<Rightarrow> int" where
  "max_key P es l0 = fold (\<lambda>(k, v) l. if P v \<and> k > l then k else l) es l0"

lemmas gm_eval = DAList.update.rep_eq DAList.delete.rep_eq DAList.empty.rep_eq
  DAList.lookup.rep_eq DAList.filter.rep_eq gm_map_vals.rep_eq

locale go_map =
  fixes get :: "'m \<Rightarrow> 'k \<Rightarrow> 'v option"
    and put :: "'k \<Rightarrow> 'v \<Rightarrow> 'm \<Rightarrow> 'm"
    and del :: "'k \<Rightarrow> 'm \<Rightarrow> 'm"
    and entries :: "'m \<Rightarrow> ('k \<times> 'v) list"
  assumes get_put: "get (put k v m) = (get m)(k \<mapsto> v)"
    and get_del: "get (del k m) = (get m)(k := None)"
    and get_entries: "get m = map_of (entries m)"
    and distinct_keys: "distinct (map fst (entries m))"
begin

lemma entry_iff: "(k, v) \<in> set (entries m) \<longleftrightarrow> get m k = Some v"
  by (simp add: distinct_keys get_entries)

lemma no_entries: "entries m = [] \<longleftrightarrow> get m = Map.empty"
  by (metis get_entries map_of_eq_empty_iff)

lemma finite_dom: "finite (dom (get m))"
  by (simp add: finite_dom_map_of get_entries)

lemma scan_ex: "(\<exists>e\<in>set (entries m). P e) \<longleftrightarrow> (\<exists>k v. get m k = Some v \<and> P (k, v))"
  using entry_iff by fastforce

lemma scan_all: "(\<forall>e\<in>set (entries m). P e) \<longleftrightarrow> (\<forall>k v. get m k = Some v \<longrightarrow> P (k, v))"
  using entry_iff by fastforce

lemma entries_mset_eq:
  assumes "get m = get n" shows "mset (entries m) = mset (entries n)"
proof -
  have "(k, v) \<in> set (entries m) \<longleftrightarrow> (k, v) \<in> set (entries n)" for k v
    by (simp add: entry_iff assms)
  then have "set (entries m) = set (entries n)" by auto
  moreover have "distinct (entries x)" for x
    using distinct_keys [of x] by (simp add: distinct_map)
  ultimately show ?thesis
    by (simp add: set_eq_iff_mset_eq_distinct)
qed

lemma length_entries_eq: "get m = get n \<Longrightarrow> length (entries m) = length (entries n)"
  using entries_mset_eq by (metis size_mset)

lemma keys_of_filter_distinct: "distinct (map fst (filter P (entries m)))"
  using distinct_keys by (rule distinct_map_fst_filter)

text \<open>What a range collects and sorts does not depend on the visiting order.\<close>

lemma sorted_scan_eq:
  assumes "get m = get n"
  shows "sort (map f (filter P (entries m))) = sort (map f (filter P (entries n)))"
  using entries_mset_eq [OF assms] by (intro sort_mset_eq) (metis mset_filter mset_map)

end

interpretation gm: go_map "DAList.lookup" "DAList.update" "DAList.delete" "DAList.impl_of"
proof
  fix k :: 'a and v :: 'b and m :: "('a, 'b) alist"
  show "DAList.lookup (DAList.update k v m) = (DAList.lookup m)(k \<mapsto> v)"
    by (simp add: fun_eq_iff lookup_update)
  show "DAList.lookup (DAList.delete k m) = (DAList.lookup m)(k := None)"
    by simp
  show "DAList.lookup m = map_of (DAList.impl_of m)"
    by (simp add: lookup.rep_eq)
  show "distinct (map fst (DAList.impl_of m))"
    by simp
qed

lemmas gm_laws = gm.get_put gm.get_del

lemma gm_get_empty [simp]: "gm_get gm_empty = Map.empty"
  by (simp add: fun_eq_iff)

lemma gm_get_map_vals [simp]: "gm_get (gm_map_vals f m) k = map_option (f k) (gm_get m k)"
  by (transfer) (simp add: map_ran_conv)

lemma gm_entries_empty [simp]: "gm_entries gm_empty = []"
  by (simp add: empty.rep_eq)

lemma gm_entries_put_ne [simp]: "gm_entries (gm_put k v m) \<noteq> []"
  by (simp add: update.rep_eq)

lemma gm_get_filter: "gm_get (DAList.filter P m) k = Some v \<longleftrightarrow> gm_get m k = Some v \<and> P (k, v)"
  unfolding gm.entry_iff [symmetric] by (auto simp: filter.rep_eq)

lemma gm_get_put_all: "gm_get (gm_put_all kvs m) = gm_get m ++ map_of (rev kvs)"
  unfolding gm_put_all_def
  by (induction kvs arbitrary: m)
    (auto simp: gm_laws map_add_def fun_eq_iff split: option.splits)

lemma gm_get_of_list: "gm_get (gm_of_list kvs) = map_of (rev kvs)"
  using gm_get_put_all [of kvs gm_empty] by (simp add: gm_put_all_def gm_of_list_def)

text \<open>A list of declarations with distinct keys as a map.\<close>

lemma gm_get_keyed:
  assumes "distinct (map key xs)"
  shows "gm_get (gm_of_list (map (\<lambda>x. (key x, x)) xs)) k = List.find (\<lambda>x. key x = k) xs"
  using assms
proof (induction xs rule: rev_induct)
  case (snoc x xs)
  have "List.find (\<lambda>y. key y = k) (xs @ [x]) =
      (case List.find (\<lambda>y. key y = k) xs of None \<Rightarrow> if key x = k then Some x else None | Some y \<Rightarrow> Some y)"
    by (induction xs) auto
  moreover have "List.find (\<lambda>y. key y = k) xs = None" if "key x = k"
    using snoc.prems that by (simp add: find_None_iff) (metis image_eqI)
  ultimately show ?case
    using snoc by (auto simp: gm_get_of_list split: option.split)
qed (simp add: gm_get_of_list)

lemma find_keyed:
  assumes "distinct (map key xs)"
  shows "List.find (\<lambda>x. key x = k) xs = Some x \<longleftrightarrow> x \<in> set xs \<and> key x = k"
  using assms by (induction xs) auto

lemma gm_get_copy: "gm_get (gm_put_all (gm_entries n) m) = gm_get m ++ gm_get n"
proof -
  have "map_of (rev (gm_entries n)) = map_of (gm_entries n)"
    by (subst map_of_inject_set) (simp_all add: rev_map [symmetric])
  then show ?thesis by (metis gm_get_put_all gm.get_entries)
qed

lemma gm_keys_set: "set (gm_keys m) = dom (gm_get m)"
  by (simp add: gm_keys_def gm.get_entries dom_map_of_conv_image_fst)

lemma card_dom_gm: "card (dom (gm_get m)) = length (gm_entries m)"
  by (metis distinct_card gm.distinct_keys gm_keys_def gm_keys_set length_map)

lemma gm_deep_eq_iff: "gm_deep_eq (=) m n \<longleftrightarrow> gm_get m = gm_get n"
proof
  assume eq: "gm_deep_eq (=) m n"
  then have sub: "gm_get m k = Some v \<Longrightarrow> gm_get n k = Some v" for k v
    by (force simp: gm_deep_eq_def list_all_iff gm.entry_iff [symmetric] split: option.splits
        simp del: gm.entry_iff)
  have "dom (gm_get m) \<subseteq> dom (gm_get n)" using sub by auto
  moreover have "card (dom (gm_get m)) = card (dom (gm_get n))"
    using eq by (simp add: card_dom_gm gm_deep_eq_def)
  ultimately have "dom (gm_get m) = dom (gm_get n)"
    by (simp add: card_subset_eq gm.finite_dom)
  then show "gm_get m = gm_get n"
    using sub by (metis domIff ext not_None_eq)
next
  assume "gm_get m = gm_get n"
  then show "gm_deep_eq (=) m n"
    by (auto simp: gm_deep_eq_def list_all_iff gm.entry_iff dest: gm.length_entries_eq
        split: option.splits)
qed

section \<open>The largest-key loop\<close>

lemma max_key_Cons [simp]:
  "max_key P ((k, v) # es) l = max_key P es (if P v \<and> k > l then k else l)"
  by (simp add: max_key_def)

lemma max_key_Nil [simp]: "max_key P [] l = l"
  by (simp add: max_key_def)

lemma max_key_ge: "l \<le> max_key P es l"
  by (induction es arbitrary: l) (auto, smt (verit))

lemma max_key_bound: "(k, v) \<in> set es \<Longrightarrow> P v \<Longrightarrow> k \<le> max_key P es l"
proof (induction es arbitrary: l)
  case (Cons e es)
  then show ?case
    using max_key_ge [of k P es] max_key_ge [of l P es] by (cases e) auto
qed simp

lemma max_key_hit:
  "max_key P es l = l \<or> (\<exists>v. (max_key P es l, v) \<in> set es \<and> P v \<and> max_key P es l > l)"
proof (induction es arbitrary: l)
  case (Cons e es)
  obtain k v where e: "e = (k, v)" by force
  show ?case
  proof (cases "P v \<and> k > l")
    case True
    with Cons.IH [of k] e show ?thesis by auto
  next
    case False
    with Cons.IH [of l] e show ?thesis by auto
  qed
qed simp

text \<open>The loop finds no key iff no entry above the start passes, and otherwise the largest one.\<close>

lemma max_key_gm:
  assumes "max_key P (gm_entries m) 0 = k" "k \<noteq> 0"
  shows "\<exists>v. gm_get m k = Some v \<and> P v \<and> 0 < k \<and>
             (\<forall>k' v'. gm_get m k' = Some v' \<and> P v' \<longrightarrow> k' \<le> k)"
  using max_key_hit [of P "gm_entries m" 0] max_key_bound [of _ _ "gm_entries m" P 0] assms
  by (auto simp: gm.entry_iff)

lemma max_key_gm_zero:
  "max_key P (gm_entries m) 0 = 0 \<longleftrightarrow> (\<forall>k v. gm_get m k = Some v \<and> P v \<longrightarrow> k \<le> 0)"
  using max_key_hit [of P "gm_entries m" 0] max_key_bound [of _ _ "gm_entries m" P 0]
  by (auto simp: gm.entry_iff)

lemma max_key_gm_eq:
  assumes "gm_get m k = Some v" "P v" "0 < k"
    and "\<And>k' v'. gm_get m k' = Some v' \<Longrightarrow> P v' \<Longrightarrow> k' \<le> k"
  shows "max_key P (gm_entries m) 0 = k"
  using max_key_hit [of P "gm_entries m" 0] max_key_bound [of k v "gm_entries m" P 0] assms
  by (auto simp: gm.entry_iff intro: order_antisym)

end
