(* ===== verification/Go_Float.thy ===== *)
theory Go_Float
  imports Go_Prelude Complex_Main
begin

text \<open>
  The type \<open>float64\<close>, as far as the code uses it: comparison, division rounded to nearest even,
  \<open>math.Round\<close>, \<open>math.Abs\<close>, subtraction, and the text \<open>fmt\<close> gives a number under \<open>%v\<close> (the
  shortest decimal that reads back as the number).  A finite number is the rational it stands for;
  the negative zero, the infinities and the not-a-number value are constructors of their own.
\<close>

datatype go_float = Fin rat | NegZero | PosInf | NegInf | NaN

text \<open>The number itself, both zeros being 0.\<close>

fun f_val :: "go_float \<Rightarrow> rat" where
  "f_val (Fin r) = r"
| "f_val _ = 0"

fun f_finite :: "go_float \<Rightarrow> bool" where
  "f_finite (Fin r) = True"
| "f_finite NegZero = True"
| "f_finite _ = False"

section \<open>Comparison\<close>

definition f_eq :: "go_float \<Rightarrow> go_float \<Rightarrow> bool" where
  "f_eq x y \<longleftrightarrow> (if f_finite x \<and> f_finite y then f_val x = f_val y else x = y \<and> x \<noteq> NaN)"

definition f_less :: "go_float \<Rightarrow> go_float \<Rightarrow> bool" where
  "f_less x y \<longleftrightarrow>
     x \<noteq> NaN \<and> y \<noteq> NaN \<and>
     (if f_finite x \<and> f_finite y then f_val x < f_val y
      else (x = NegInf \<and> y \<noteq> NegInf) \<or> (y = PosInf \<and> x \<noteq> PosInf))"

lemma f_eq_refl [simp]: "x \<noteq> NaN \<Longrightarrow> f_eq x x"
  by (simp add: f_eq_def)

lemma f_less_irrefl [simp]: "\<not> f_less x x"
  by (cases x) (auto simp: f_less_def)

section \<open>Rounding\<close>

definition pow2 :: "int \<Rightarrow> rat" where
  "pow2 e = (if 0 \<le> e then of_int (2 ^ nat e) else 1 / of_int (2 ^ nat (- e)))"

definition pow10 :: "int \<Rightarrow> rat" where
  "pow10 e = (if 0 \<le> e then of_int (10 ^ nat e) else 1 / of_int (10 ^ nat (- e)))"

function bit_length :: "int \<Rightarrow> int" where
  "bit_length n = (if n \<le> 0 then 0 else 1 + bit_length (n div 2))"
  by pat_completeness auto
termination
  by (relation "measure nat") auto

declare bit_length.simps [simp del]

text \<open>The exponent \<open>e\<close> with \<open>2\<^sup>e \<le> a < 2\<^sup>e\<^sup>+\<^sup>1\<close> of a positive number.\<close>

definition exponent2 :: "rat \<Rightarrow> int" where
  "exponent2 a =
     (let (n, d) = quotient_of a;
          e = bit_length n - bit_length d
      in if pow2 e \<le> a then e else e - 1)"

definition round_even :: "rat \<Rightarrow> int" where
  "round_even x =
     (let f = \<lfloor>x\<rfloor>; r = x - of_int f
      in if r < 1 / 2 then f else if 1 / 2 < r then f + 1 else if even f then f else f + 1)"

text \<open>
  The nearest \<open>float64\<close>, ties to even: 53 significant bits, the least exponent \<open>-1074\<close>, infinity
  from \<open>2\<^sup>1\<^sup>0\<^sup>2\<^sup>4\<close> on, and a zero that keeps the sign.
\<close>

definition round_f64 :: "rat \<Rightarrow> go_float" where
  "round_f64 r =
     (if r = 0 then Fin 0
      else let a = \<bar>r\<bar>; q = max (exponent2 a - 52) (- 1074);
               v = of_int (round_even (a / pow2 q)) * pow2 q
           in if v = 0 then (if r < 0 then NegZero else Fin 0)
              else if pow2 1024 \<le> v then (if r < 0 then NegInf else PosInf)
              else Fin (if r < 0 then - v else v))"

lemma round_f64_one: "round_f64 1 = Fin 1"
  by code_simp

lemma round_f64_third: "round_f64 (1 / 3) = Fin (6004799503160661 / 2 ^ 54)"
  by code_simp

definition f_neg :: "go_float \<Rightarrow> bool" where
  "f_neg x \<longleftrightarrow> x = NegZero \<or> x = NegInf \<or> (case x of Fin r \<Rightarrow> r < 0 | _ \<Rightarrow> False)"

definition f_div :: "go_float \<Rightarrow> go_float \<Rightarrow> go_float" where
  "f_div x y =
     (let neg = (f_neg x \<noteq> f_neg y); zero = (if neg then NegZero else Fin 0); inf = (if neg then NegInf else PosInf)
      in if x = NaN \<or> y = NaN then NaN
         else if \<not> f_finite x then (if f_finite y then inf else NaN)
         else if \<not> f_finite y then zero
         else if f_val y = 0 then (if f_val x = 0 then NaN else inf)
         else if f_val x = 0 then zero
         else round_f64 (f_val x / f_val y))"

text \<open>\<open>math.Round\<close>: half away from zero.\<close>

fun f_round :: "go_float \<Rightarrow> go_float" where
  "f_round (Fin r) =
     (let n = \<lfloor>\<bar>r\<bar> + 1 / 2\<rfloor>
      in if n = 0 then (if r < 0 then NegZero else Fin 0) else Fin (if r < 0 then - of_int n else of_int n))"
| "f_round x = x"

fun f_sub :: "go_float \<Rightarrow> go_float \<Rightarrow> go_float" where
  "f_sub NaN y = NaN"
| "f_sub x NaN = NaN"
| "f_sub PosInf PosInf = NaN"
| "f_sub NegInf NegInf = NaN"
| "f_sub PosInf y = PosInf"
| "f_sub NegInf y = NegInf"
| "f_sub x PosInf = NegInf"
| "f_sub x NegInf = PosInf"
| "f_sub NegZero (Fin r) = (if r = 0 then NegZero else round_f64 (- r))"
| "f_sub x y = round_f64 (f_val x - f_val y)"

fun f_abs :: "go_float \<Rightarrow> go_float" where
  "f_abs (Fin r) = Fin \<bar>r\<bar>"
| "f_abs NegZero = Fin 0"
| "f_abs NegInf = PosInf"
| "f_abs x = x"

fun f_minus :: "go_float \<Rightarrow> go_float" where
  "f_minus (Fin r) = (if r = 0 then NegZero else Fin (- r))"
| "f_minus NegZero = Fin 0"
| "f_minus PosInf = NegInf"
| "f_minus NegInf = PosInf"
| "f_minus NaN = NaN"

definition f_add :: "go_float \<Rightarrow> go_float \<Rightarrow> go_float" where
  "f_add x y = f_sub x (f_minus y)"

definition f_mul :: "go_float \<Rightarrow> go_float \<Rightarrow> go_float" where
  "f_mul x y =
     (let neg = (f_neg x \<noteq> f_neg y); zero = (if neg then NegZero else Fin 0); inf = (if neg then NegInf else PosInf)
      in if x = NaN \<or> y = NaN then NaN
         else if f_finite x \<and> f_finite y
         then (if f_val x = 0 \<or> f_val y = 0 then zero else round_f64 (f_val x * f_val y))
         else if (f_finite x \<and> f_val x = 0) \<or> (f_finite y \<and> f_val y = 0) then NaN
         else inf)"

text \<open>The conversion \<open>float64(n)\<close> of an integer.\<close>

definition f_of_int :: "int \<Rightarrow> go_float" where
  "f_of_int n = round_f64 (of_int n)"

lemma f_div_self:
  assumes "f_finite x" "f_val x \<noteq> 0"
  shows "f_div x x = Fin 1"
proof -
  have "x \<noteq> NaN" using assms(1) by auto
  with assms show ?thesis by (simp add: f_div_def Let_def round_f64_one)
qed

lemma f_round_one: "f_round (Fin 1) = Fin 1"
  by code_simp

lemma f_sub_one: "f_abs (f_sub (Fin 1) (Fin 1)) = Fin 0"
  by code_simp

section \<open>The text of a number\<close>

function dec_digits :: "int \<Rightarrow> string" where
  "dec_digits n =
     (if n < 10 then [digit_char (nat n)] else dec_digits (n div 10) @ [digit_char (nat (n mod 10))])"
  by pat_completeness auto
termination
  by (relation "measure nat") auto

declare dec_digits.simps [simp del]

text \<open>
  The exponent \<open>k\<close> with \<open>10\<^sup>k\<^sup>-\<^sup>1 \<le> a < 10\<^sup>k\<close>: the position of the decimal point when the digits
  are written \<open>0.d\<^sub>1d\<^sub>2\<dots>\<close>.  It is estimated from the numbers of digits and corrected.
\<close>

definition point10 :: "rat \<Rightarrow> int" where
  "point10 a =
     (let (n, d) = quotient_of a;
          k = int (length (dec_digits n)) - int (length (dec_digits d))
      in if pow10 k \<le> a then k + 1 else k)"

text \<open>A decimal of \<open>n\<close> digits next to \<open>a\<close> that reads back as \<open>a\<close>, the closer one first.\<close>

definition reads_back :: "rat \<Rightarrow> int \<Rightarrow> rat \<Rightarrow> bool" where
  "reads_back a c u \<longleftrightarrow> round_f64 (of_int c * u) = Fin a"

definition decimal :: "rat \<Rightarrow> int \<Rightarrow> nat \<Rightarrow> int option" where
  "decimal a k n =
     (let u = pow10 (k - int n); lo = \<lfloor>a / u\<rfloor>;
          near = (if 2 * (a / u - of_int lo) \<le> 1 then lo else lo + 1); far = 2 * lo + 1 - near
      in if reads_back a near u then Some near else if reads_back a far u then Some far else None)"

fun shortest_from :: "rat \<Rightarrow> int \<Rightarrow> nat \<Rightarrow> nat \<Rightarrow> int \<times> int" where
  "shortest_from a k n 0 = (round_even (a / pow10 (k - int n)), k - int n)"
| "shortest_from a k n (Suc m) =
     (case decimal a k n of Some c \<Rightarrow> (c, k - int n) | None \<Rightarrow> shortest_from a k (Suc n) m)"

fun strip_zeros :: "string \<Rightarrow> string" where
  "strip_zeros [] = []"
| "strip_zeros (c # cs) = (if c = CHR ''0'' then strip_zeros cs else c # cs)"

text \<open>The digits and the position of the decimal point of the shortest decimal.\<close>

definition shortest :: "rat \<Rightarrow> string \<times> int" where
  "shortest a =
     (let (c, e) = shortest_from a (point10 a) 1 16; ds = dec_digits c
      in (rev (strip_zeros (rev ds)), int (length ds) + e))"

definition fmtE :: "string \<Rightarrow> int \<Rightarrow> string" where
  "fmtE ds e =
     take 1 ds @ (if length ds > 1 then CHR ''.'' # drop 1 ds else []) @ ''e'' @
     (if e < 0 then ''-'' else ''+'') @
     (let x = dec_digits \<bar>e\<bar> in if length x < 2 then CHR ''0'' # x else x)"

definition fmtF :: "string \<Rightarrow> int \<Rightarrow> string" where
  "fmtF ds dp =
     (if dp \<le> 0 then ''0.'' @ replicate (nat (- dp)) (CHR ''0'') @ ds
      else if int (length ds) \<le> dp then ds @ replicate (nat dp - length ds) (CHR ''0'')
      else take (nat dp) ds @ ''.'' @ drop (nat dp) ds)"

definition fmt_positive :: "rat \<Rightarrow> string" where
  "fmt_positive a =
     (let (ds, dp) = shortest a; e = dp - 1
      in if e < - 4 \<or> 6 \<le> e then fmtE ds e else fmtF ds dp)"

fun fmt_float :: "go_float \<Rightarrow> string" where
  "fmt_float (Fin r) =
     (if r = 0 then ''0'' else if r < 0 then CHR ''-'' # fmt_positive (- r) else fmt_positive r)"
| "fmt_float NegZero = ''-0''"
| "fmt_float PosInf = ''+Inf''"
| "fmt_float NegInf = ''-Inf''"
| "fmt_float NaN = ''NaN''"

lemma fmt_float_samples:
  "fmt_float (Fin 10) = ''10''" "fmt_float (Fin (- 5 / 2)) = ''-2.5''" "fmt_float (Fin 1000000) = ''1e+06''"
  "fmt_float (round_f64 (1 / 10)) = ''0.1''"
  by code_simp+

section \<open>What rounding keeps\<close>

lemma pow2_powi: "pow2 e = 2 powi e"
  by (simp add: pow2_def power_int_def inverse_eq_divide power_one_over)

lemma pow2_pos [simp]: "0 < pow2 e" "pow2 e \<noteq> 0" "0 \<le> pow2 e"
  by (simp_all add: pow2_powi less_imp_le)

lemma pow2_add: "pow2 (a + b) = pow2 a * pow2 b"
  by (simp add: pow2_powi power_int_add)

lemma pow2_nat: "0 \<le> e \<Longrightarrow> pow2 e = of_int (2 ^ nat e)"
  by (simp add: pow2_def)

lemma pow2_mono: "a \<le> b \<Longrightarrow> pow2 a \<le> pow2 b"
  unfolding pow2_powi by (rule power_int_increasing) simp_all

lemma bit_length_bounds:
  assumes "0 < n"
  shows "pow2 (bit_length n - 1) \<le> of_int n" "of_int n < pow2 (bit_length n)"
proof -
  have "1 \<le> bit_length n \<and> 2 ^ nat (bit_length n - 1) \<le> n \<and> n < 2 ^ nat (bit_length n)"
    using assms
  proof (induction n rule: bit_length.induct)
    case (1 n)
    show ?case
    proof (cases "n = 1")
      case True
      then show ?thesis by (subst (1 2 3) bit_length.simps, subst (1 2 3) bit_length.simps) simp
    next
      case False
      let ?h = "n div 2" let ?b = "bit_length (n div 2)"
      have "0 < ?h" using False "1.prems" by simp
      then have IH: "1 \<le> ?b" "2 ^ nat (?b - 1) \<le> ?h" "?h < 2 ^ nat ?b" using 1 by auto
      have b: "bit_length n = 1 + ?b" using "1.prems" by (subst bit_length.simps) simp
      have s: "nat ?b = Suc (nat (?b - 1))" "nat (1 + ?b) = Suc (nat ?b)" using IH(1) by auto
      show ?thesis using IH by (simp add: b s(2)) (auto simp: s(1))
    qed
  qed
  then have b: "1 \<le> bit_length n" "2 ^ nat (bit_length n - 1) \<le> n" "n < 2 ^ nat (bit_length n)" by auto
  show "pow2 (bit_length n - 1) \<le> of_int n" using b(1,2) by (simp only: pow2_nat of_int_le_iff)
  show "of_int n < pow2 (bit_length n)" using b(1,3) by (simp only: pow2_nat of_int_less_iff)
qed

lemma exponent2_bounds:
  assumes "0 < a" shows "pow2 (exponent2 a) \<le> a" "a < pow2 (exponent2 a + 1)"
proof -
  obtain n d where q: "quotient_of a = (n, d)" by (cases "quotient_of a")
  have d: "0 < d" using quotient_of_denom_pos [OF q] .
  have a: "a = of_int n / of_int d" using quotient_of_div [OF q] .
  have n: "0 < n" using assms d by (simp add: a zero_less_divide_iff)
  let ?e = "bit_length n - bit_length d"
  have "a < pow2 (bit_length n) / pow2 (bit_length d - 1)"
    unfolding a using bit_length_bounds [OF n] bit_length_bounds [OF d] d n
    by (intro frac_less) (auto intro: less_imp_le)
  also have "\<dots> = pow2 (?e + 1)" by (simp add: pow2_powi field_simps power_int_add power_int_diff)
  finally have hi: "a < pow2 (?e + 1)" .
  have "pow2 (bit_length n - 1) / pow2 (bit_length d) \<le> a"
    unfolding a using bit_length_bounds [OF n] bit_length_bounds [OF d] d n by (intro frac_le) auto
  then have lo: "pow2 (?e - 1) \<le> a" by (simp add: pow2_powi field_simps power_int_add power_int_diff)
  have e: "exponent2 a = (if pow2 ?e \<le> a then ?e else ?e - 1)" by (simp add: exponent2_def q Let_def)
  show "pow2 (exponent2 a) \<le> a" using lo by (simp add: e)
  show "a < pow2 (exponent2 a + 1)" using hi by (simp add: e)
qed

lemma round_even_bounds:
  "of_int n \<le> x \<Longrightarrow> n \<le> round_even x" "x \<le> of_int n \<Longrightarrow> round_even x \<le> n"
proof -
  show "n \<le> round_even x" if "of_int n \<le> x"
  proof -
    have "n \<le> \<lfloor>x\<rfloor>" using that by (simp add: le_floor_iff)
    then show ?thesis by (simp add: round_even_def Let_def)
  qed
  show "round_even x \<le> n" if "x \<le> of_int n"
  proof (cases "\<lfloor>x\<rfloor> = n")
    case True
    then have "x = of_int n" using that of_int_floor_le [of x] by simp
    then show ?thesis by (simp add: round_even_def)
  next
    case False
    moreover have "\<lfloor>x\<rfloor> \<le> n" using that by (simp add: floor_le_iff)
    ultimately show ?thesis by (simp add: round_even_def Let_def)
  qed
qed

text \<open>The significand is a whole number, and of an integer up to \<open>2\<^sup>5\<^sup>3\<close> a whole number too.\<close>

definition unit_exponent :: "rat \<Rightarrow> int" where
  "unit_exponent r = max (exponent2 r - 52) (- 1074)"

lemma round_f64_pos:
  assumes "0 < r"
  shows "round_f64 r =
    (let v = of_int (round_even (r / pow2 (unit_exponent r))) * pow2 (unit_exponent r)
     in if v = 0 then Fin 0 else if pow2 1024 \<le> v then PosInf else Fin v)"
  using assms by (simp add: round_f64_def unit_exponent_def Let_def)

lemma scaled_integer:
  "q \<le> 0 \<Longrightarrow> of_int n / pow2 q = of_int (n * 2 ^ nat (- q))"
  by (simp add: pow2_def)

lemma large_unit:
  assumes "0 < r" "0 < unit_exponent r" shows "of_int (2 ^ 53) \<le> r"
proof -
  have "53 \<le> exponent2 r" using assms(2) by (simp add: unit_exponent_def)
  then have "pow2 53 \<le> r" using exponent2_bounds(1) [OF assms(1)] pow2_mono by (meson order_trans)
  then show ?thesis by (simp add: pow2_def)
qed

lemma significand_lower:
  assumes "0 < r" "0 \<le> n" "n \<le> 2 ^ 53" "of_int n \<le> r"
  shows "of_int n \<le> of_int (round_even (r / pow2 (unit_exponent r))) * pow2 (unit_exponent r)"
proof (cases "unit_exponent r \<le> 0")
  case True
  have "of_int (n * 2 ^ nat (- unit_exponent r)) \<le> r / pow2 (unit_exponent r)"
    unfolding scaled_integer [OF True, symmetric] using assms(4) by (simp add: divide_right_mono)
  then have "n * 2 ^ nat (- unit_exponent r) \<le> round_even (r / pow2 (unit_exponent r))" by (rule round_even_bounds)
  then have "of_int n / pow2 (unit_exponent r) \<le> of_int (round_even (r / pow2 (unit_exponent r)))"
    unfolding scaled_integer [OF True] by (simp only: of_int_le_iff)
  then show ?thesis by (simp add: pos_divide_le_eq)
next
  case False
  let ?e = "exponent2 r"
  have u: "unit_exponent r = ?e - 52" "53 \<le> ?e" using False by (auto simp: unit_exponent_def)
  have "pow2 52 = pow2 ?e / pow2 (?e - 52)" by (simp add: pow2_powi power_int_diff)
  also have "\<dots> \<le> r / pow2 (?e - 52)" using exponent2_bounds(1) [OF assms(1)] by (simp add: divide_right_mono)
  finally have "of_int (2 ^ 52) \<le> r / pow2 (?e - 52)" by (simp add: pow2_def)
  then have "2 ^ 52 \<le> round_even (r / pow2 (?e - 52))" by (rule round_even_bounds)
  then have "of_int (2 ^ 52) * pow2 (?e - 52) \<le> of_int (round_even (r / pow2 (?e - 52))) * pow2 (?e - 52)"
    by (intro mult_right_mono) (simp_all only: of_int_le_iff pow2_pos)
  moreover have "of_int (2 ^ 52) * pow2 (?e - 52) = pow2 ?e"
    using pow2_add [of 52 "?e - 52"] by (simp add: pow2_def [of 52])
  moreover have "pow2 53 \<le> pow2 ?e" using u(2) by (rule pow2_mono)
  moreover have "of_int n \<le> pow2 53"
  proof -
    have "pow2 53 = of_int (2 ^ 53)" by (simp add: pow2_def)
    with assms(3) show ?thesis by (simp only: of_int_le_iff)
  qed
  ultimately show ?thesis unfolding u(1) by linarith
qed

lemma significand_upper:
  assumes "0 < r" "n \<le> 2 ^ 53" "r \<le> of_int n"
  shows "of_int (round_even (r / pow2 (unit_exponent r))) * pow2 (unit_exponent r) \<le> of_int n"
proof (cases "unit_exponent r \<le> 0")
  case True
  have "r / pow2 (unit_exponent r) \<le> of_int (n * 2 ^ nat (- unit_exponent r))"
    unfolding scaled_integer [OF True, symmetric] using assms(3) by (simp add: divide_right_mono)
  then have "round_even (r / pow2 (unit_exponent r)) \<le> n * 2 ^ nat (- unit_exponent r)" by (rule round_even_bounds)
  then have "of_int (round_even (r / pow2 (unit_exponent r))) \<le> of_int n / pow2 (unit_exponent r)"
    unfolding scaled_integer [OF True] by (simp only: of_int_le_iff)
  then show ?thesis by (simp add: pos_le_divide_eq)
next
  case False
  then have "of_int (2 ^ 53) \<le> r" using large_unit [OF assms(1)] by simp
  moreover have "of_int n \<le> (of_int (2 ^ 53) :: rat)" using assms(2) by (simp only: of_int_le_iff)
  ultimately have r: "r = of_int (2 ^ 53)" "n = 2 ^ 53"
    using assms(3) by (simp_all only: order_antisym_conv flip: of_int_eq_iff [where 'a = rat])
  have "unit_exponent (of_int (2 ^ 53)) = 1" "round_even (of_int (2 ^ 53) / pow2 1) = 2 ^ 52" by code_simp+
  then show ?thesis unfolding r by (simp add: pow2_def)
qed

lemma round_lower:
  assumes "0 \<le> n" "n \<le> 2 ^ 53" "of_int n \<le> r"
  shows "round_f64 r = PosInf \<or> (\<exists>v. round_f64 r = Fin v \<and> of_int n \<le> v)"
proof (cases "r = 0")
  case True
  with assms show ?thesis by (simp add: round_f64_def)
next
  case False
  have "0 \<le> (of_int n :: rat)" using assms(1) by simp
  with False assms(3) have "0 < r" by linarith
  from significand_lower [OF this assms] show ?thesis
    unfolding round_f64_pos [OF \<open>0 < r\<close>] Let_def by auto
qed

lemma round_upper:
  assumes "0 \<le> r" "n \<le> 2 ^ 53" "r \<le> of_int n"
  shows "\<exists>v. round_f64 r = Fin v \<and> v \<le> of_int n"
proof (cases "r = 0")
  case True
  with assms show ?thesis by (simp add: round_f64_def)
next
  case False
  then have "0 < r" using assms(1) by simp
  note up = significand_upper [OF this assms(2,3)]
  have "of_int n \<le> (of_int (2 ^ 53) :: rat)" using assms(2) by (simp only: of_int_le_iff)
  also have "\<dots> < pow2 1024" by (simp add: pow2_def)
  finally have "\<not> pow2 1024 \<le> of_int (round_even (r / pow2 (unit_exponent r))) * pow2 (unit_exponent r)"
    using up by linarith
  then show ?thesis using up assms unfolding round_f64_pos [OF \<open>0 < r\<close>] Let_def by auto
qed

lemma f_of_int_exact:
  assumes "0 \<le> n" "n \<le> 2 ^ 53" shows "f_of_int n = Fin (of_int n)"
proof -
  obtain v where v: "round_f64 (of_int n) = Fin v" "v \<le> of_int n"
    using round_upper [of "of_int n" n] assms by auto
  moreover have "of_int n \<le> v" using round_lower [OF assms, of "of_int n"] v(1) by auto
  ultimately show ?thesis by (simp add: f_of_int_def)
qed

end
