(* ===== verification/Json_Value.thy ===== *)
theory Json_Value
  imports Go_Map Go_Float "HOL-Library.List_Lexorder" "HOL-Library.Char_ord"
begin

text \<open>
  Decoded JSON, as \<open>encoding/json\<close> delivers it in a value of type \<open>interface{}\<close>: nil, a bool, a
  \<open>float64\<close>, a string, a \<open>[]interface{}\<close> or a \<open>map[string]interface{}\<close>.  An object is the list of
  its entries (with distinct keys, \<open>json_wf\<close>); reading a key that is missing gives nil.  The theory
  also has \<open>reflect.DeepEqual\<close>, the comparison of two interface values by \<open>==\<close> (which panics on
  two maps or two slices) and the text of a value under \<open>%v\<close>.
\<close>

datatype json =
    JNull
  | JBool bool
  | JNum go_float
  | JStr string
  | JArr "json list"
  | JObj "(string \<times> json) list"

type_synonym jmap = "(string \<times> json) list"

text \<open>The expression \<open>m[k]\<close> and the test \<open>_, ok := m[k]\<close>.\<close>

definition jget :: "jmap \<Rightarrow> string \<Rightarrow> json" where
  "jget m k = (case map_of m k of None \<Rightarrow> JNull | Some v \<Rightarrow> v)"

definition jhas :: "jmap \<Rightarrow> string \<Rightarrow> bool" where
  "jhas m k \<longleftrightarrow> map_of m k \<noteq> None"

text \<open>Type assertions: \<open>v.(map[string]interface{})\<close>, \<open>v.([]interface{})\<close>, \<open>v.(string)\<close>, \<open>v.(bool)\<close>.\<close>

fun as_map :: "json \<Rightarrow> jmap option" where
  "as_map (JObj m) = Some m"
| "as_map _ = None"

fun as_slice :: "json \<Rightarrow> json list option" where
  "as_slice (JArr xs) = Some xs"
| "as_slice _ = None"

fun as_string :: "json \<Rightarrow> string option" where
  "as_string (JStr s) = Some s"
| "as_string _ = None"

fun as_bool :: "json \<Rightarrow> bool option" where
  "as_bool (JBool b) = Some b"
| "as_bool _ = None"

lemma as_Some [simp]:
  "as_map v = Some m \<longleftrightarrow> v = JObj m" "as_slice v = Some xs \<longleftrightarrow> v = JArr xs"
  "as_string v = Some s \<longleftrightarrow> v = JStr s" "as_bool v = Some b \<longleftrightarrow> v = JBool b"
  "Some m = as_map v \<longleftrightarrow> v = JObj m" "Some xs = as_slice v \<longleftrightarrow> v = JArr xs"
  by (cases v; auto)+

section \<open>Well-formed values\<close>

text \<open>Every object of a value satisfies \<open>P\<close>.\<close>

fun json_all :: "(jmap \<Rightarrow> bool) \<Rightarrow> json \<Rightarrow> bool" where
  "json_all P (JArr xs) \<longleftrightarrow> list_all (json_all P) xs"
| "json_all P (JObj m) \<longleftrightarrow> P m \<and> list_all (\<lambda>(k, v). json_all P v) m"
| "json_all P _ \<longleftrightarrow> True"

text \<open>Every number of a value satisfies \<open>P\<close>.\<close>

fun json_nums :: "(go_float \<Rightarrow> bool) \<Rightarrow> json \<Rightarrow> bool" where
  "json_nums P (JNum x) \<longleftrightarrow> P x"
| "json_nums P (JArr xs) \<longleftrightarrow> list_all (json_nums P) xs"
| "json_nums P (JObj m) \<longleftrightarrow> list_all (\<lambda>(k, v). json_nums P v) m"
| "json_nums P _ \<longleftrightarrow> True"

text \<open>What a decoder delivers: distinct keys and finite numbers.\<close>

definition json_wf :: "json \<Rightarrow> bool" where
  "json_wf v \<longleftrightarrow> json_all (\<lambda>m. distinct (map fst m)) v \<and> json_nums f_finite v"

lemma jget_Some: "map_of m k = Some v \<Longrightarrow> jget m k = v"
  by (simp add: jget_def)

lemma jget_mem: "jget m k \<noteq> JNull \<Longrightarrow> (k, jget m k) \<in> set m"
  by (auto simp: jget_def split: option.splits dest: map_of_SomeD)

lemma jget_has: "jget m k \<noteq> JNull \<Longrightarrow> jhas m k"
  by (auto simp: jget_def jhas_def split: option.splits)

lemma jhas_jget: "jhas m k \<Longrightarrow> map_of m k = Some (jget m k)"
  by (auto simp: jget_def jhas_def)

lemma jhas_mem: "jhas m k \<longleftrightarrow> k \<in> fst ` set m"
  by (simp add: jhas_def map_of_eq_None_iff)

lemma json_all_member:
  "json_all P (JObj m) \<Longrightarrow> (k, v) \<in> set m \<Longrightarrow> json_all P v"
  by (auto simp: list_all_iff)

lemma json_all_element: "json_all P (JArr xs) \<Longrightarrow> v \<in> set xs \<Longrightarrow> json_all P v"
  by (auto simp: list_all_iff)

lemma json_all_get: "json_all P (JObj m) \<Longrightarrow> json_all P (jget m k)"
  by (cases "jget m k = JNull") (auto dest!: jget_mem simp: list_all_iff)

lemma json_wf_member: "json_wf (JObj m) \<Longrightarrow> (k, v) \<in> set m \<Longrightarrow> json_wf v"
  by (auto simp: json_wf_def list_all_iff)

lemma json_wf_element: "json_wf (JArr xs) \<Longrightarrow> v \<in> set xs \<Longrightarrow> json_wf v"
  by (auto simp: json_wf_def list_all_iff)

lemma json_wf_get: "json_wf (JObj m) \<Longrightarrow> json_wf (jget m k)"
  by (cases "jget m k = JNull") (auto dest!: jget_mem simp: json_wf_def list_all_iff)

lemma json_wf_distinct: "json_wf (JObj m) \<Longrightarrow> distinct (map fst m)"
  by (simp add: json_wf_def)

text \<open>Sizes: what an object or array holds is smaller.\<close>

lemma size_entry: "(k, v) \<in> set m \<Longrightarrow> size v < size (JObj m)"
  by (induction m) auto

lemma size_element: "v \<in> set xs \<Longrightarrow> size v < size (JArr xs)"
  by (induction xs) auto

lemma size_get: "jget m k = v \<Longrightarrow> v \<noteq> JNull \<Longrightarrow> size v < size (JObj m)"
  using jget_mem size_entry by blast

section \<open>Equality\<close>

text \<open>\<open>reflect.DeepEqual\<close>.\<close>

function (sequential) deep_eq :: "json \<Rightarrow> json \<Rightarrow> bool" where
  "deep_eq JNull JNull = True"
| "deep_eq (JBool a) (JBool b) = (a = b)"
| "deep_eq (JNum x) (JNum y) = f_eq x y"
| "deep_eq (JStr s) (JStr t) = (s = t)"
| "deep_eq (JArr xs) (JArr ys) \<longleftrightarrow> list_all2 deep_eq xs ys"
| "deep_eq (JObj m) (JObj n) \<longleftrightarrow>
     length m = length n \<and>
     list_all (\<lambda>(k, v). case map_of n k of None \<Rightarrow> False | Some w \<Rightarrow> deep_eq v w) m"
| "deep_eq _ _ = False"
  by pat_completeness auto
termination
proof (relation "measure (\<lambda>(v, w). size v)")
  show "((x, y), JArr xs, JArr ys) \<in> measure (\<lambda>(v, w). size v)" if "x \<in> set xs" for x y xs ys
    using size_element [OF that] by simp
  show "((v, w), JObj m, JObj n) \<in> measure (\<lambda>(v, w). size v)" if "e \<in> set m" "(k, v) = e" for e k v w m n
    using size_entry [of k v m] that by simp
qed simp

lemma deep_eq_refl: "json_wf v \<Longrightarrow> deep_eq v v"
proof (induction v)
  case (JNum x)
  then show ?case by (cases x) (auto simp: json_wf_def f_eq_def)
next
  case (JArr xs)
  then show ?case by (auto simp: list_all2_same dest: json_wf_element)
next
  case (JObj m)
  have "case map_of m k of None \<Rightarrow> False | Some w \<Rightarrow> deep_eq v w" if kv: "(k, v) \<in> set m" for k v
  proof -
    have "map_of m k = Some v" using kv json_wf_distinct [OF JObj.prems] by simp
    moreover have "deep_eq v v" by (rule JObj.IH [OF kv]) (use kv JObj.prems json_wf_member in auto)
    ultimately show ?thesis by simp
  qed
  then show ?case by (auto simp: list_all_iff)
qed auto

text \<open>Two interface values compared by \<open>==\<close>: \<open>None\<close> is the panic on uncomparable values.\<close>

fun iface_eq :: "json \<Rightarrow> json \<Rightarrow> bool option" where
  "iface_eq (JArr _) (JArr _) = None"
| "iface_eq (JObj _) (JObj _) = None"
| "iface_eq (JNum x) (JNum y) = Some (f_eq x y)"
| "iface_eq v w = Some (v = w)"

section \<open>The text of a value\<close>

text \<open>
  \<open>fmt.Sprintf("%v", v)\<close>.  The entries of a map are printed in the order of their keys.
\<close>

fun fmt_v :: "json \<Rightarrow> string" where
  "fmt_v JNull = ''<nil>''"
| "fmt_v (JBool b) = (if b then ''true'' else ''false'')"
| "fmt_v (JNum x) = fmt_float x"
| "fmt_v (JStr s) = s"
| "fmt_v (JArr xs) = ''['' @ Join (map fmt_v xs) '' '' @ '']''"
| "fmt_v (JObj m) =
     ''map['' @ Join (map (\<lambda>(k, t). k @ '':'' @ t) (sort_key fst (map (\<lambda>(k, v). (k, fmt_v v)) m))) '' '' @ '']''"

end
