(* ===== verification/Storage_Types.thy ===== *)
theory Storage_Types
  imports Go_Map
begin

text \<open>
  The records of \<open>internal/storage/storage.go\<close>, field by field, and its sentinel errors.  Field
  names carry a prefix for their struct.  A pointer field is an \<open>option\<close>.  Maps and slices inside
  \<open>Metadata\<close>, \<open>RuleSet\<close> and \<open>Rule\<close> are nilable, because registration compares such values
  with \<open>reflect.DeepEqual\<close>, which tells nil from empty; the comparison is defined here.
\<close>

datatype storage_error =
    ErrNotFound | ErrSubjectNotFound | ErrSchemaNotFound | ErrVersionNotFound | ErrInvalidVersion
  | ErrSubjectDeleted | ErrSubjectNotSoftDeleted | ErrVersionNotSoftDeleted | ErrSchemaExists
  | ErrUserNotFound | ErrUserExists | ErrAPIKeyNotFound | ErrAPIKeyExists | ErrAPIKeyNameExists
  | ErrInvalidAPIKey | ErrAPIKeyExpired | ErrAPIKeyDisabled | ErrUserDisabled | ErrInvalidRole
  | ErrPermissionDenied | ErrSchemaIDConflict | ErrOperationNotPermitted | ErrExporterNotFound
  | ErrExporterExists | ErrKEKNotFound | ErrKEKExists | ErrKEKSoftDeleted | ErrDEKNotFound
  | ErrDEKExists | ErrDEKSoftDeleted

type_synonym SchemaType = string

definition SchemaTypeAvro :: SchemaType where "SchemaTypeAvro = ''AVRO''"
definition SchemaTypeProtobuf :: SchemaType where "SchemaTypeProtobuf = ''PROTOBUF''"
definition SchemaTypeJSON :: SchemaType where "SchemaTypeJSON = ''JSON''"

definition ParseSchemaType :: "string \<Rightarrow> SchemaType \<times> bool" where
  "ParseSchemaType raw =
     (if raw = [] then (SchemaTypeAvro, True)
      else if raw \<in> {SchemaTypeAvro, SchemaTypeProtobuf, SchemaTypeJSON} then (raw, True)
      else ([], False))"

record Metadata =
  md_Tags :: "(string, string slice) gomap option"
  md_Properties :: "(string, string) gomap option"
  md_Sensitive :: "string slice"

record Rule =
  ru_Name :: string
  ru_Doc :: string
  ru_Kind :: string
  ru_Mode :: string
  ru_Type :: string
  ru_Tags :: "string slice"
  ru_Params :: "(string, string) gomap option"
  ru_Expr :: string
  ru_OnSuccess :: string
  ru_OnFailure :: string
  ru_Disabled :: bool
  ru_EnableAt :: "int option"

record RuleSet =
  rs_MigrationRules :: "Rule slice"
  rs_DomainRules :: "Rule slice"
  rs_EncodingRules :: "Rule slice"

record Reference =
  rf_Name :: string
  rf_Subject :: string
  rf_Version :: int
  rf_Schema :: string

record SchemaRecord =
  sr_ID :: int
  sr_Subject :: string
  sr_Version :: int
  sr_SchemaType :: SchemaType
  sr_Schema :: string
  sr_References :: "Reference list"
  sr_Metadata :: "Metadata option"
  sr_RuleSet :: "RuleSet option"
  sr_Fingerprint :: string
  sr_Deleted :: bool
  sr_CreatedAt :: go_time

record SubjectVersion =
  sv_Subject :: string
  sv_Version :: int

record ConfigRecord =
  cf_Subject :: string
  cf_CompatibilityLevel :: string
  cf_Normalize :: "bool option"
  cf_ValidateFields :: "bool option"
  cf_Alias :: string
  cf_CompatibilityGroup :: string
  cf_DefaultMetadata :: "Metadata option"
  cf_OverrideMetadata :: "Metadata option"
  cf_DefaultRuleSet :: "RuleSet option"
  cf_OverrideRuleSet :: "RuleSet option"
  cf_AliasForDeks :: string
  cf_CompatibilityPolicy :: string

record ModeRecord =
  mo_Subject :: string
  mo_Mode :: string

record UserRecord =
  us_ID :: int
  us_Username :: string
  us_Email :: string
  us_PasswordHash :: string
  us_Role :: string
  us_Enabled :: bool
  us_CreatedAt :: go_time
  us_UpdatedAt :: go_time

record APIKeyRecord =
  ak_ID :: int
  ak_UserID :: int
  ak_KeyHash :: string
  ak_KeyPrefix :: string
  ak_Name :: string
  ak_Role :: string
  ak_Enabled :: bool
  ak_CreatedAt :: go_time
  ak_ExpiresAt :: go_time
  ak_LastUsed :: "go_time option"

record ExporterRecord =
  ex_Name :: string
  ex_ContextType :: string
  ex_Context :: string
  ex_Subjects :: "string list"
  ex_SubjectRenameFormat :: string
  ex_Config :: "(string, string) gomap option"
  ex_CreatedAt :: go_time
  ex_UpdatedAt :: go_time

record ExporterStatusRecord =
  es_Name :: string
  es_State :: string
  es_Offset :: int
  es_Ts :: int
  es_Trace :: string

record KEKRecord =
  kek_Name :: string
  kek_KmsType :: string
  kek_KmsKeyID :: string
  kek_KmsProps :: "(string, string) gomap option"
  kek_Doc :: string
  kek_Shared :: bool
  kek_Deleted :: bool
  kek_Ts :: int
  kek_CreatedAt :: go_time
  kek_UpdatedAt :: go_time

record DEKRecord =
  dek_KEKName :: string
  dek_Subject :: string
  dek_Version :: int
  dek_Algorithm :: string
  dek_EncryptedKeyMaterial :: string
  dek_KeyMaterial :: string
  dek_Deleted :: bool
  dek_Ts :: int

record ListSchemasParams =
  lp_SubjectPrefix :: string
  lp_Deleted :: bool
  lp_LatestOnly :: bool
  lp_Offset :: int
  lp_Limit :: int

section \<open>Zero values\<close>

definition Metadata_zero :: Metadata where
  "Metadata_zero = \<lparr>md_Tags = None, md_Properties = None, md_Sensitive = None\<rparr>"

definition RuleSet_zero :: RuleSet where
  "RuleSet_zero = \<lparr>rs_MigrationRules = None, rs_DomainRules = None, rs_EncodingRules = None\<rparr>"

definition ConfigRecord_zero :: ConfigRecord where
  "ConfigRecord_zero =
     \<lparr>cf_Subject = [], cf_CompatibilityLevel = [], cf_Normalize = None, cf_ValidateFields = None,
      cf_Alias = [], cf_CompatibilityGroup = [], cf_DefaultMetadata = None,
      cf_OverrideMetadata = None, cf_DefaultRuleSet = None, cf_OverrideRuleSet = None,
      cf_AliasForDeks = [], cf_CompatibilityPolicy = []\<rparr>"

definition ExporterStatusRecord_zero :: ExporterStatusRecord where
  "ExporterStatusRecord_zero =
     \<lparr>es_Name = [], es_State = [], es_Offset = 0, es_Ts = 0, es_Trace = []\<rparr>"

section \<open>Deep equality\<close>

text \<open>\<open>reflect.DeepEqual\<close> on \<open>Metadata\<close>, \<open>Rule\<close> and \<open>RuleSet\<close> values.\<close>

definition Metadata_deep_eq :: "Metadata \<Rightarrow> Metadata \<Rightarrow> bool" where
  "Metadata_deep_eq a b \<longleftrightarrow>
     opt_deep_eq (gm_deep_eq (=)) (md_Tags a) (md_Tags b) \<and>
     opt_deep_eq (gm_deep_eq (=)) (md_Properties a) (md_Properties b) \<and>
     md_Sensitive a = md_Sensitive b"

definition Rule_deep_eq :: "Rule \<Rightarrow> Rule \<Rightarrow> bool" where
  "Rule_deep_eq a b \<longleftrightarrow>
     ru_Name a = ru_Name b \<and> ru_Doc a = ru_Doc b \<and> ru_Kind a = ru_Kind b \<and>
     ru_Mode a = ru_Mode b \<and> ru_Type a = ru_Type b \<and> ru_Tags a = ru_Tags b \<and>
     opt_deep_eq (gm_deep_eq (=)) (ru_Params a) (ru_Params b) \<and>
     ru_Expr a = ru_Expr b \<and> ru_OnSuccess a = ru_OnSuccess b \<and>
     ru_OnFailure a = ru_OnFailure b \<and> ru_Disabled a = ru_Disabled b \<and>
     ru_EnableAt a = ru_EnableAt b"

definition RuleSet_deep_eq :: "RuleSet \<Rightarrow> RuleSet \<Rightarrow> bool" where
  "RuleSet_deep_eq a b \<longleftrightarrow>
     opt_deep_eq (list_all2 Rule_deep_eq) (rs_MigrationRules a) (rs_MigrationRules b) \<and>
     opt_deep_eq (list_all2 Rule_deep_eq) (rs_DomainRules a) (rs_DomainRules b) \<and>
     opt_deep_eq (list_all2 Rule_deep_eq) (rs_EncodingRules a) (rs_EncodingRules b)"

text \<open>An equivalence, given once for whatever comparison the components are built from.\<close>

locale deep_equality =
  fixes deq :: "'a \<Rightarrow> 'a \<Rightarrow> bool"
  assumes deq_refl: "deq a a"
    and deq_sym: "deq a b \<Longrightarrow> deq b a"
    and deq_trans: "deq a b \<Longrightarrow> deq b c \<Longrightarrow> deq a c"
begin

lemma deq_cong: "deq a b \<Longrightarrow> deq a c \<longleftrightarrow> deq b c"
  using deq_sym deq_trans by blast

lemma deq_cong2: "deq a b \<Longrightarrow> deq c a \<longleftrightarrow> deq c b"
  using deq_sym deq_trans by blast

lemma deep_equality_option: "deep_equality (opt_deep_eq deq)"
  by unfold_locales
    (auto simp: opt_deep_eq_def deq_refl split: option.splits intro: deq_sym deq_trans)

lemma deep_equality_list: "deep_equality (list_all2 deq)"
proof
  show "list_all2 deq a a" for a by (simp add: deq_refl list_all2_refl)
  show "list_all2 deq a b \<Longrightarrow> list_all2 deq b a" for a b
    by (simp add: list_all2_conv_all_nth deq_sym)
  show "list_all2 deq a b \<Longrightarrow> list_all2 deq b c \<Longrightarrow> list_all2 deq a c" for a b c
    by (rule list_all2_trans [of deq deq deq]) (rule deq_trans)
qed

end

interpretation map_deq: deep_equality "gm_deep_eq ((=) :: 'v \<Rightarrow> 'v \<Rightarrow> bool) :: ('k, 'v) gomap \<Rightarrow> _"
  by unfold_locales (simp_all add: gm_deep_eq_iff)

interpretation map_opt_deq:
  deep_equality "opt_deep_eq (gm_deep_eq ((=) :: 'v \<Rightarrow> 'v \<Rightarrow> bool) :: ('k, 'v) gomap \<Rightarrow> _)"
  by (rule map_deq.deep_equality_option)

interpretation md_deq: deep_equality Metadata_deep_eq
  by unfold_locales
    (auto simp: Metadata_deep_eq_def map_opt_deq.deq_refl
      intro: map_opt_deq.deq_sym map_opt_deq.deq_trans)

interpretation ru_deq: deep_equality Rule_deep_eq
  by unfold_locales
    (auto simp: Rule_deep_eq_def map_opt_deq.deq_refl
      intro: map_opt_deq.deq_sym map_opt_deq.deq_trans)

interpretation rules_deq: deep_equality "opt_deep_eq (list_all2 Rule_deep_eq)"
  by (rule deep_equality.deep_equality_option [OF ru_deq.deep_equality_list])

interpretation rs_deq: deep_equality RuleSet_deep_eq
  by unfold_locales
    (auto simp: RuleSet_deep_eq_def rules_deq.deq_refl
      intro: rules_deq.deq_sym rules_deq.deq_trans)

end
