(* ===== verification/Memory_Store.thy ===== *)
theory Memory_Store
  imports Storage_Types
begin

text \<open>
  The in-memory storage backend, \<open>internal/storage/memory/store.go\<close>: its state and the
  operations on schemas, subjects and contexts.  Each method is a function of the store; a method
  that writes returns the new store beside its result.  The mutex of the Go code makes every
  method atomic, so a method is one function here.  \<open>*storage.SchemaRecord\<close> arguments that a
  method fills in are returned.  A read of the clock is an argument.
\<close>

type_synonym 'a result = "storage_error + 'a"

definition DefaultContext :: string where
  "DefaultContext = ''.''"

record subjectVersionInfo =
  si_schemaID :: int
  si_version :: int
  si_deleted :: bool
  si_createdAt :: go_time
  si_metadata :: "Metadata option"
  si_ruleSet :: "RuleSet option"

type_synonym version_map = "(int, subjectVersionInfo) gomap"

record contextStore =
  cs_schemas :: "(int, SchemaRecord) gomap"
  cs_subjectVersions :: "(string, version_map) gomap"
  cs_nextSubjectVersion :: "(string, int) gomap"
  cs_fingerprints :: "(string, int) gomap"
  cs_idToSubjectVersions :: "(int, SubjectVersion list) gomap"
  cs_configs :: "(string, ConfigRecord) gomap"
  cs_modes :: "(string, ModeRecord) gomap"
  cs_globalConfig :: "ConfigRecord option"
  cs_globalMode :: "ModeRecord option"
  cs_nextID :: int

definition newContextStore :: contextStore where
  "newContextStore =
     \<lparr>cs_schemas = gm_empty, cs_subjectVersions = gm_empty, cs_nextSubjectVersion = gm_empty,
      cs_fingerprints = gm_empty, cs_idToSubjectVersions = gm_empty, cs_configs = gm_empty,
      cs_modes = gm_empty, cs_globalConfig = None, cs_globalMode = None, cs_nextID = 1\<rparr>"

record Store =
  st_contexts :: "(string, contextStore) gomap"
  st_users :: "(int, UserRecord) gomap"
  st_usersByUsername :: "(string, int) gomap"
  st_nextUserID :: int
  st_apiKeys :: "(int, APIKeyRecord) gomap"
  st_apiKeysByHash :: "(string, int) gomap"
  st_nextAPIKeyID :: int
  st_exporters :: "(string, ExporterRecord) gomap"
  st_exporterStatuses :: "(string, ExporterStatusRecord) gomap"
  st_keks :: "(string, KEKRecord) gomap"
  st_deks :: "(string, (string, (int, DEKRecord) gomap) gomap) gomap"

definition NewStore :: Store where
  "NewStore =
     \<lparr>st_contexts = gm_put DefaultContext newContextStore gm_empty, st_users = gm_empty,
      st_usersByUsername = gm_empty, st_nextUserID = 1, st_apiKeys = gm_empty,
      st_apiKeysByHash = gm_empty, st_nextAPIKeyID = 1, st_exporters = gm_empty,
      st_exporterStatuses = gm_empty, st_keks = gm_empty, st_deks = gm_empty\<rparr>"

text \<open>
  \<open>getOrCreateContext\<close> returns a pointer into the map; the caller's assignments through it are
  written back by \<open>Store_putContext\<close>.
\<close>

definition Store_getOrCreateContext :: "Store \<Rightarrow> string \<Rightarrow> contextStore" where
  "Store_getOrCreateContext s registryCtx =
     (case gm_get (st_contexts s) registryCtx of Some cs \<Rightarrow> cs | None \<Rightarrow> newContextStore)"

definition Store_getContext :: "Store \<Rightarrow> string \<Rightarrow> contextStore option" where
  "Store_getContext s registryCtx = gm_get (st_contexts s) registryCtx"

definition Store_putContext :: "Store \<Rightarrow> string \<Rightarrow> contextStore \<Rightarrow> Store" where
  "Store_putContext s registryCtx cs = s\<lparr>st_contexts := gm_put registryCtx cs (st_contexts s)\<rparr>"

section \<open>Creating a schema version\<close>

definition normalizeMetadata :: "Metadata option \<Rightarrow> Metadata" where
  "normalizeMetadata m = (case m of None \<Rightarrow> Metadata_zero | Some m' \<Rightarrow> m')"

definition normalizeRuleSet :: "RuleSet option \<Rightarrow> RuleSet" where
  "normalizeRuleSet r = (case r of None \<Rightarrow> RuleSet_zero | Some r' \<Rightarrow> r')"

text \<open>The loop body's test: a live version with the same content, metadata and rules.\<close>

definition is_duplicate :: "contextStore \<Rightarrow> SchemaRecord \<Rightarrow> subjectVersionInfo \<Rightarrow> bool" where
  "is_duplicate cs record info \<longleftrightarrow>
     \<not> si_deleted info \<and>
     (case gm_get (cs_schemas cs) (si_schemaID info) of
        None \<Rightarrow> False
      | Some existingSchema \<Rightarrow>
          sr_Fingerprint existingSchema = sr_Fingerprint record \<and>
          Metadata_deep_eq (normalizeMetadata (si_metadata info))
            (normalizeMetadata (sr_Metadata record)) \<and>
          RuleSet_deep_eq (normalizeRuleSet (si_ruleSet info))
            (normalizeRuleSet (sr_RuleSet record)))"

definition subject_versions :: "contextStore \<Rightarrow> string \<Rightarrow> version_map" where
  "subject_versions cs subject = gm_get0 gm_empty (cs_subjectVersions cs) subject"

definition ensure_subject :: "contextStore \<Rightarrow> string \<Rightarrow> contextStore" where
  "ensure_subject cs subject =
     (case gm_get (cs_subjectVersions cs) subject of
        None \<Rightarrow> cs\<lparr>cs_subjectVersions := gm_put subject gm_empty (cs_subjectVersions cs)\<rparr>
      | Some _ \<Rightarrow> cs)"

definition stored_content :: "int \<Rightarrow> SchemaRecord \<Rightarrow> SchemaRecord" where
  "stored_content schemaID record =
     \<lparr>sr_ID = schemaID, sr_Subject = [], sr_Version = 0, sr_SchemaType = sr_SchemaType record,
      sr_Schema = sr_Schema record, sr_References = sr_References record, sr_Metadata = None,
      sr_RuleSet = None, sr_Fingerprint = sr_Fingerprint record, sr_Deleted = False,
      sr_CreatedAt = 0\<rparr>"

text \<open>Reusing the ID of known content, or assigning the next one and storing the content.\<close>

definition assign_schema_id :: "contextStore \<Rightarrow> SchemaRecord \<Rightarrow> contextStore \<times> int" where
  "assign_schema_id cs record =
     (case gm_get (cs_fingerprints cs) (sr_Fingerprint record) of
        Some existingID \<Rightarrow> (cs, existingID)
      | None \<Rightarrow>
          (let schemaID = cs_nextID cs
           in (cs\<lparr>cs_nextID := i64 (cs_nextID cs + 1),
                  cs_fingerprints := gm_put (sr_Fingerprint record) schemaID (cs_fingerprints cs),
                  cs_schemas := gm_put schemaID (stored_content schemaID record) (cs_schemas cs)\<rparr>,
               schemaID)))"

definition new_version_info :: "int \<Rightarrow> int \<Rightarrow> go_time \<Rightarrow> SchemaRecord \<Rightarrow> subjectVersionInfo" where
  "new_version_info schemaID version now record =
     \<lparr>si_schemaID = schemaID, si_version = version, si_deleted = False, si_createdAt = now,
      si_metadata = sr_Metadata record, si_ruleSet = sr_RuleSet record\<rparr>"

definition add_version :: "contextStore \<Rightarrow> string \<Rightarrow> int \<Rightarrow> subjectVersionInfo \<Rightarrow> contextStore" where
  "add_version cs subject version info =
     cs\<lparr>cs_subjectVersions :=
          gm_put subject (gm_put version info (subject_versions cs subject)) (cs_subjectVersions cs),
        cs_idToSubjectVersions :=
          gm_put (si_schemaID info)
            (gm_get0 [] (cs_idToSubjectVersions cs) (si_schemaID info) @
               [\<lparr>sv_Subject = subject, sv_Version = version\<rparr>])
            (cs_idToSubjectVersions cs)\<rparr>"

definition ctx_CreateSchema ::
  "(int \<times> subjectVersionInfo) order \<Rightarrow> go_time \<Rightarrow> go_time \<Rightarrow> contextStore \<Rightarrow> SchemaRecord \<Rightarrow>
     contextStore \<times> SchemaRecord \<times> storage_error option" where
  "ctx_CreateSchema it now now' cs record =
     (let cs1 = ensure_subject cs (sr_Subject record)
      in case List.find (\<lambda>(_, info). is_duplicate cs1 record info)
                (it (gm_entries (subject_versions cs1 (sr_Subject record)))) of
           Some (_, info) \<Rightarrow>
             (cs1, record\<lparr>sr_ID := si_schemaID info, sr_Version := si_version info\<rparr>,
              Some ErrSchemaExists)
         | None \<Rightarrow>
             (let (cs2, schemaID) = assign_schema_id cs1 record;
                  version = i64 (gm_get0 0 (cs_nextSubjectVersion cs2) (sr_Subject record) + 1);
                  cs3 = cs2\<lparr>cs_nextSubjectVersion :=
                          gm_put (sr_Subject record) version (cs_nextSubjectVersion cs2)\<rparr>;
                  cs4 = add_version cs3 (sr_Subject record) version
                          (new_version_info schemaID version now record)
              in (cs4, record\<lparr>sr_ID := schemaID, sr_Version := version, sr_CreatedAt := now'\<rparr>,
                  None)))"

definition Store_CreateSchema ::
  "(int \<times> subjectVersionInfo) order \<Rightarrow> go_time \<Rightarrow> go_time \<Rightarrow> Store \<Rightarrow> string \<Rightarrow> SchemaRecord \<Rightarrow>
     Store \<times> SchemaRecord \<times> storage_error option" where
  [store_defs]: "Store_CreateSchema it now now' s registryCtx record =
     (let (cs, record', err) =
            ctx_CreateSchema it now now' (Store_getOrCreateContext s registryCtx) record
      in (Store_putContext s registryCtx cs, record', err))"

section \<open>Reading schemas\<close>

definition Store_GetSchemaByID :: "Store \<Rightarrow> string \<Rightarrow> int \<Rightarrow> SchemaRecord result" where
  [store_defs]: "Store_GetSchemaByID s registryCtx i =
     (case Store_getContext s registryCtx of
        None \<Rightarrow> Inl ErrSchemaNotFound
      | Some cs \<Rightarrow> (case gm_get (cs_schemas cs) i of
                      None \<Rightarrow> Inl ErrSchemaNotFound | Some schema \<Rightarrow> Inr schema))"

text \<open>The copy with subject and version filled in, which six methods build.\<close>

definition fill_record :: "SchemaRecord \<Rightarrow> string \<Rightarrow> int \<Rightarrow> subjectVersionInfo \<Rightarrow> SchemaRecord" where
  "fill_record schema subject version info =
     \<lparr>sr_ID = sr_ID schema, sr_Subject = subject, sr_Version = version,
      sr_SchemaType = sr_SchemaType schema, sr_Schema = sr_Schema schema,
      sr_References = sr_References schema, sr_Metadata = si_metadata info,
      sr_RuleSet = si_ruleSet info, sr_Fingerprint = sr_Fingerprint schema,
      sr_Deleted = si_deleted info, sr_CreatedAt = si_createdAt info\<rparr>"

definition live :: "subjectVersionInfo \<Rightarrow> bool" where
  "live info \<longleftrightarrow> \<not> si_deleted info"

definition ctx_GetSchemaBySubjectVersion ::
  "contextStore \<Rightarrow> string \<Rightarrow> int \<Rightarrow> SchemaRecord result" where
  "ctx_GetSchemaBySubjectVersion cs subject version0 =
     (let versions = subject_versions cs subject
      in if gm_entries versions = [] then Inl ErrSubjectNotFound
         else (let latestVersion = max_key live (gm_entries versions) 0
               in if version0 = -1 \<and> latestVersion = 0 then Inl ErrSubjectNotFound
                  else (let version = (if version0 = -1 then latestVersion else version0)
                        in case gm_get versions version of
                             None \<Rightarrow> Inl ErrVersionNotFound
                           | Some info \<Rightarrow>
                               if si_deleted info then Inl ErrVersionNotFound
                               else (case gm_get (cs_schemas cs) (si_schemaID info) of
                                       None \<Rightarrow> Inl ErrSchemaNotFound
                                     | Some schema \<Rightarrow>
                                         Inr (fill_record schema subject version info)))))"

definition Store_GetSchemaBySubjectVersion ::
  "Store \<Rightarrow> string \<Rightarrow> string \<Rightarrow> int \<Rightarrow> SchemaRecord result" where
  [store_defs]: "Store_GetSchemaBySubjectVersion s registryCtx subject version =
     (case Store_getContext s registryCtx of
        None \<Rightarrow> Inl ErrSubjectNotFound
      | Some cs \<Rightarrow> ctx_GetSchemaBySubjectVersion cs subject version)"

text \<open>
  The records a range over a version map collects: the entries that pass the filter and whose
  content is stored.
\<close>

definition collect_records ::
  "contextStore \<Rightarrow> string \<Rightarrow> (int \<times> subjectVersionInfo \<Rightarrow> bool) \<Rightarrow> version_map \<Rightarrow>
     SchemaRecord list" where
  "collect_records cs subject P versions =
     List.map_filter
       (\<lambda>(version, info).
          if P (version, info)
          then map_option (\<lambda>schema. fill_record schema subject version info)
                 (gm_get (cs_schemas cs) (si_schemaID info))
          else None)
       (gm_entries versions)"

definition ctx_GetSchemasBySubject ::
  "contextStore \<Rightarrow> string \<Rightarrow> bool \<Rightarrow> SchemaRecord list result" where
  "ctx_GetSchemasBySubject cs subject includeDeleted =
     (let versions = subject_versions cs subject
      in if gm_entries versions = [] then Inl ErrSubjectNotFound
         else (let schemas = collect_records cs subject
                               (\<lambda>(_, info). includeDeleted \<or> \<not> si_deleted info) versions
               in if schemas = [] then Inl ErrSubjectNotFound
                  else Inr (sort_key sr_Version schemas)))"

definition Store_GetSchemasBySubject ::
  "Store \<Rightarrow> string \<Rightarrow> string \<Rightarrow> bool \<Rightarrow> SchemaRecord list result" where
  [store_defs]: "Store_GetSchemasBySubject s registryCtx subject includeDeleted =
     (case Store_getContext s registryCtx of
        None \<Rightarrow> Inl ErrSubjectNotFound
      | Some cs \<Rightarrow> ctx_GetSchemasBySubject cs subject includeDeleted)"

definition ctx_GetSchemaByFingerprint ::
  "(int \<times> subjectVersionInfo) order \<Rightarrow> contextStore \<Rightarrow> string \<Rightarrow> string \<Rightarrow> bool \<Rightarrow>
     SchemaRecord result" where
  "ctx_GetSchemaByFingerprint it cs subject fingerprint includeDeleted =
     (let versions = subject_versions cs subject
      in if gm_entries versions = [] then Inl ErrSubjectNotFound
         else if \<not> includeDeleted \<and> \<not> list_ex (\<lambda>(_, info). \<not> si_deleted info) (gm_entries versions)
              then Inl ErrSubjectNotFound
         else (case List.find
                      (\<lambda>(_, info). \<not> (si_deleted info \<and> \<not> includeDeleted) \<and>
                         (case gm_get (cs_schemas cs) (si_schemaID info) of
                            None \<Rightarrow> False
                          | Some schema \<Rightarrow> sr_Fingerprint schema = fingerprint))
                      (it (gm_entries versions)) of
                 None \<Rightarrow> Inl ErrSchemaNotFound
               | Some (version, info) \<Rightarrow>
                   Inr (fill_record (the (gm_get (cs_schemas cs) (si_schemaID info)))
                          subject version info)))"

definition Store_GetSchemaByFingerprint ::
  "(int \<times> subjectVersionInfo) order \<Rightarrow> Store \<Rightarrow> string \<Rightarrow> string \<Rightarrow> string \<Rightarrow> bool \<Rightarrow>
     SchemaRecord result" where
  [store_defs]: "Store_GetSchemaByFingerprint it s registryCtx subject fingerprint includeDeleted =
     (case Store_getContext s registryCtx of
        None \<Rightarrow> Inl ErrSubjectNotFound
      | Some cs \<Rightarrow> ctx_GetSchemaByFingerprint it cs subject fingerprint includeDeleted)"

definition Store_GetSchemaByGlobalFingerprint ::
  "Store \<Rightarrow> string \<Rightarrow> string \<Rightarrow> SchemaRecord result" where
  [store_defs]: "Store_GetSchemaByGlobalFingerprint s registryCtx fingerprint =
     (case Store_getContext s registryCtx of
        None \<Rightarrow> Inl ErrSchemaNotFound
      | Some cs \<Rightarrow>
          (case gm_get (cs_fingerprints cs) fingerprint of
             None \<Rightarrow> Inl ErrSchemaNotFound
           | Some i \<Rightarrow> (case gm_get (cs_schemas cs) i of
                          None \<Rightarrow> Inl ErrSchemaNotFound | Some schema \<Rightarrow> Inr schema)))"

text \<open>The loop body that keeps the largest live version and its info.\<close>

definition later_live ::
  "int \<times> subjectVersionInfo \<Rightarrow> int \<times> subjectVersionInfo option \<Rightarrow> int \<times> subjectVersionInfo option" where
  "later_live = (\<lambda>(v, info) (lv, li).
     if \<not> si_deleted info \<and> v > lv then (v, Some info) else (lv, li))"

definition ctx_GetLatestSchema :: "contextStore \<Rightarrow> string \<Rightarrow> SchemaRecord result" where
  "ctx_GetLatestSchema cs subject =
     (let versions = subject_versions cs subject
      in if gm_entries versions = [] then Inl ErrSubjectNotFound
         else (let (latestVersion, latestInfo) =
                     fold later_live (gm_entries versions) (0, None)
               in case latestInfo of
                    None \<Rightarrow> Inl ErrSubjectNotFound
                  | Some info \<Rightarrow>
                      (case gm_get (cs_schemas cs) (si_schemaID info) of
                         None \<Rightarrow> Inl ErrSchemaNotFound
                       | Some schema \<Rightarrow> Inr (fill_record schema subject latestVersion info))))"

definition Store_GetLatestSchema :: "Store \<Rightarrow> string \<Rightarrow> string \<Rightarrow> SchemaRecord result" where
  [store_defs]: "Store_GetLatestSchema s registryCtx subject =
     (case Store_getContext s registryCtx of
        None \<Rightarrow> Inl ErrSubjectNotFound
      | Some cs \<Rightarrow> ctx_GetLatestSchema cs subject)"

end
