(* ===== verification/Memory_Subjects.thy ===== *)
theory Memory_Subjects
  imports Memory_Store
begin

text \<open>
  The in-memory backend, continued: deletion of versions and subjects, listings, ID sequence,
  import, reverse references and the look-ups by schema ID
  (\<open>internal/storage/memory/store.go\<close>).
\<close>

section \<open>Deletion\<close>

text \<open>
  The block that \<open>DeleteSchema\<close> and \<open>DeleteSubject\<close> share: drop one subject-version from the
  reverse index of its schema ID, and the content with it when no other version uses it.
\<close>

definition release_schema :: "string \<Rightarrow> int \<Rightarrow> int \<Rightarrow> contextStore \<Rightarrow> contextStore" where
  "release_schema subject version schemaID cs =
     (let svs = gm_get0 [] (cs_idToSubjectVersions cs) schemaID;
          newSvs = filter (\<lambda>sv. sv_Subject sv \<noteq> subject \<or> sv_Version sv \<noteq> version) svs
      in if newSvs = []
         then cs\<lparr>cs_fingerprints :=
                   (case gm_get (cs_schemas cs) schemaID of
                      None \<Rightarrow> cs_fingerprints cs
                    | Some schema \<Rightarrow> gm_del (sr_Fingerprint schema) (cs_fingerprints cs)),
                 cs_schemas := gm_del schemaID (cs_schemas cs),
                 cs_idToSubjectVersions := gm_del schemaID (cs_idToSubjectVersions cs)\<rparr>
         else cs\<lparr>cs_idToSubjectVersions := gm_put schemaID newSvs (cs_idToSubjectVersions cs)\<rparr>)"

definition ctx_DeleteSchema ::
  "contextStore \<Rightarrow> string \<Rightarrow> int \<Rightarrow> bool \<Rightarrow> contextStore \<times> storage_error option" where
  "ctx_DeleteSchema cs subject version permanent =
     (let versions = subject_versions cs subject
      in if gm_entries versions = [] then (cs, Some ErrSubjectNotFound)
         else (case gm_get versions version of
                 None \<Rightarrow> (cs, Some ErrVersionNotFound)
               | Some info \<Rightarrow>
                   if permanent \<and> \<not> si_deleted info then (cs, Some ErrVersionNotSoftDeleted)
                   else if permanent
                   then (release_schema subject version (si_schemaID info)
                           (cs\<lparr>cs_subjectVersions :=
                                gm_put subject (gm_del version versions) (cs_subjectVersions cs)\<rparr>),
                         None)
                   else (cs\<lparr>cs_subjectVersions :=
                             gm_put subject (gm_put version (info\<lparr>si_deleted := True\<rparr>) versions)
                               (cs_subjectVersions cs)\<rparr>,
                         None)))"

definition Store_DeleteSchema ::
  "Store \<Rightarrow> string \<Rightarrow> string \<Rightarrow> int \<Rightarrow> bool \<Rightarrow> Store \<times> storage_error option" where
  [store_defs]: "Store_DeleteSchema s registryCtx subject version permanent =
     (case Store_getContext s registryCtx of
        None \<Rightarrow> (s, Some ErrSubjectNotFound)
      | Some cs \<Rightarrow>
          (let (cs', err) = ctx_DeleteSchema cs subject version permanent
           in (Store_putContext s registryCtx cs', err)))"

definition ctx_DeleteSubject ::
  "contextStore \<Rightarrow> string \<Rightarrow> bool \<Rightarrow> contextStore \<times> int list result" where
  "ctx_DeleteSubject cs subject permanent =
     (let versions = subject_versions cs subject
      in if gm_entries versions = [] then (cs, Inl ErrSubjectNotFound)
         else (let allDeleted = list_all (\<lambda>(_, info). si_deleted info) (gm_entries versions)
               in if permanent \<and> \<not> allDeleted then (cs, Inl ErrSubjectNotSoftDeleted)
                  else if \<not> permanent \<and> allDeleted then (cs, Inl ErrSubjectDeleted)
                  else
                    (let deletedVersions =
                           sort (map fst (filter (\<lambda>(_, info). \<not> (si_deleted info \<and> \<not> permanent))
                                            (gm_entries versions)))
                     in if permanent
                        then (let cs1 = fold (\<lambda>(version, info).
                                                release_schema subject version (si_schemaID info))
                                          (gm_entries versions) cs
                              in (cs1\<lparr>cs_subjectVersions := gm_del subject (cs_subjectVersions cs1),
                                      cs_nextSubjectVersion := gm_del subject (cs_nextSubjectVersion cs1),
                                      cs_configs := gm_del subject (cs_configs cs1),
                                      cs_modes := gm_del subject (cs_modes cs1)\<rparr>,
                                  Inr deletedVersions))
                        else (cs\<lparr>cs_subjectVersions :=
                                  gm_put subject
                                    (gm_map_vals (\<lambda>_ info. info\<lparr>si_deleted := True\<rparr>) versions)
                                    (cs_subjectVersions cs)\<rparr>,
                              Inr deletedVersions))))"

definition Store_DeleteSubject ::
  "Store \<Rightarrow> string \<Rightarrow> string \<Rightarrow> bool \<Rightarrow> Store \<times> int list result" where
  [store_defs]: "Store_DeleteSubject s registryCtx subject permanent =
     (case Store_getContext s registryCtx of
        None \<Rightarrow> (s, Inl ErrSubjectNotFound)
      | Some cs \<Rightarrow>
          (let (cs', r) = ctx_DeleteSubject cs subject permanent
           in (Store_putContext s registryCtx cs', r)))"

section \<open>Subjects and contexts\<close>

definition has_live :: "version_map \<Rightarrow> bool" where
  "has_live versions \<longleftrightarrow> list_ex (\<lambda>(_, info). \<not> si_deleted info) (gm_entries versions)"

definition Store_ListSubjects :: "Store \<Rightarrow> string \<Rightarrow> bool \<Rightarrow> string list result" where
  [store_defs]: "Store_ListSubjects s registryCtx includeDeleted =
     (case Store_getContext s registryCtx of
        None \<Rightarrow> Inr []
      | Some cs \<Rightarrow>
          Inr (sort (map fst (filter (\<lambda>(_, versions). includeDeleted \<or> has_live versions)
                                (gm_entries (cs_subjectVersions cs))))))"

definition Store_SubjectExists :: "Store \<Rightarrow> string \<Rightarrow> string \<Rightarrow> bool result" where
  [store_defs]: "Store_SubjectExists s registryCtx subject =
     (case Store_getContext s registryCtx of
        None \<Rightarrow> Inr False
      | Some cs \<Rightarrow> Inr (has_live (subject_versions cs subject)))"

definition Store_ListContexts :: "Store \<Rightarrow> string list result" where
  [store_defs]: "Store_ListContexts s = Inr (sort (gm_keys (st_contexts s)))"

section \<open>IDs and import\<close>

definition Store_NextID :: "Store \<Rightarrow> string \<Rightarrow> Store \<times> int result" where
  [store_defs]: "Store_NextID s registryCtx =
     (let cs = Store_getOrCreateContext s registryCtx
      in (Store_putContext s registryCtx (cs\<lparr>cs_nextID := i64 (cs_nextID cs + 1)\<rparr>),
          Inr (cs_nextID cs)))"

definition Store_GetMaxSchemaID :: "Store \<Rightarrow> string \<Rightarrow> int result" where
  [store_defs]: "Store_GetMaxSchemaID s registryCtx =
     (case Store_getContext s registryCtx of
        None \<Rightarrow> Inr 0 | Some cs \<Rightarrow> Inr (i64 (cs_nextID cs - 1)))"

definition Store_SetNextID :: "Store \<Rightarrow> string \<Rightarrow> int \<Rightarrow> Store \<times> storage_error option" where
  [store_defs]: "Store_SetNextID s registryCtx i =
     (Store_putContext s registryCtx ((Store_getOrCreateContext s registryCtx)\<lparr>cs_nextID := i\<rparr>),
      None)"

definition ctx_ImportSchema ::
  "go_time \<Rightarrow> go_time \<Rightarrow> contextStore \<Rightarrow> SchemaRecord \<Rightarrow>
     contextStore \<times> SchemaRecord \<times> storage_error option" where
  "ctx_ImportSchema now now' cs record =
     (let existing = gm_get (cs_schemas cs) (sr_ID record)
      in if (case existing of None \<Rightarrow> False
             | Some e \<Rightarrow> sr_Fingerprint e \<noteq> sr_Fingerprint record)
         then (cs, record, Some ErrSchemaIDConflict)
         else
           (let subject = sr_Subject record;
                version = sr_Version record;
                cs1 = ensure_subject cs subject
            in if gm_get (subject_versions cs1 subject) version \<noteq> None
               then (cs1, record, Some ErrSchemaExists)
               else
                 (let cs2 = (if existing = None
                             then cs1\<lparr>cs_schemas :=
                                       gm_put (sr_ID record) (stored_content (sr_ID record) record)
                                         (cs_schemas cs1)\<rparr>
                             else cs1);
                      cs3 = cs2\<lparr>cs_fingerprints :=
                                 gm_put (sr_Fingerprint record) (sr_ID record)
                                   (cs_fingerprints cs2)\<rparr>;
                      cs4 = (if version \<ge> gm_get0 0 (cs_nextSubjectVersion cs3) subject
                             then cs3\<lparr>cs_nextSubjectVersion :=
                                       gm_put subject version (cs_nextSubjectVersion cs3)\<rparr>
                             else cs3);
                      cs5 = add_version cs4 subject version
                              (new_version_info (sr_ID record) version now record)
                  in (cs5, record\<lparr>sr_CreatedAt := now'\<rparr>, None))))"

definition Store_ImportSchema ::
  "go_time \<Rightarrow> go_time \<Rightarrow> Store \<Rightarrow> string \<Rightarrow> SchemaRecord \<Rightarrow>
     Store \<times> SchemaRecord \<times> storage_error option" where
  [store_defs]: "Store_ImportSchema now now' s registryCtx record =
     (let (cs, record', err) =
            ctx_ImportSchema now now' (Store_getOrCreateContext s registryCtx) record
      in (Store_putContext s registryCtx cs, record', err))"

section \<open>References and look-ups by schema ID\<close>

definition ctx_GetReferencedBy :: "contextStore \<Rightarrow> string \<Rightarrow> int \<Rightarrow> SubjectVersion list" where
  "ctx_GetReferencedBy cs subject version =
     concat (map (\<lambda>(subj, versions).
       List.map_filter
         (\<lambda>(ver, info).
            if si_deleted info then None
            else (case gm_get (cs_schemas cs) (si_schemaID info) of
                    None \<Rightarrow> None
                  | Some schema \<Rightarrow>
                      if list_ex (\<lambda>ref. rf_Subject ref = subject \<and> rf_Version ref = version)
                           (sr_References schema)
                      then Some \<lparr>sv_Subject = subj, sv_Version = ver\<rparr> else None))
         (gm_entries versions)) (gm_entries (cs_subjectVersions cs)))"

definition Store_GetReferencedBy ::
  "Store \<Rightarrow> string \<Rightarrow> string \<Rightarrow> int \<Rightarrow> SubjectVersion list result" where
  [store_defs]: "Store_GetReferencedBy s registryCtx subject version =
     (case Store_getContext s registryCtx of
        None \<Rightarrow> Inr [] | Some cs \<Rightarrow> Inr (ctx_GetReferencedBy cs subject version))"

text \<open>The reverse-index entries whose version is present and passes the deleted filter.\<close>

definition visible_users :: "contextStore \<Rightarrow> int \<Rightarrow> bool \<Rightarrow> SubjectVersion list" where
  "visible_users cs i includeDeleted =
     filter (\<lambda>sv. case gm_get (cs_subjectVersions cs) (sv_Subject sv) of
                    None \<Rightarrow> False
                  | Some versions \<Rightarrow>
                      (case gm_get versions (sv_Version sv) of
                         None \<Rightarrow> False
                       | Some info \<Rightarrow> includeDeleted \<or> \<not> si_deleted info))
       (gm_get0 [] (cs_idToSubjectVersions cs) i)"

definition Store_GetSubjectsBySchemaID ::
  "Store \<Rightarrow> string \<Rightarrow> int \<Rightarrow> bool \<Rightarrow> string list result" where
  [store_defs]: "Store_GetSubjectsBySchemaID s registryCtx i includeDeleted =
     (case Store_getContext s registryCtx of
        None \<Rightarrow> Inl ErrSchemaNotFound
      | Some cs \<Rightarrow>
          if gm_get (cs_schemas cs) i = None then Inl ErrSchemaNotFound
          else Inr (sort (remdups (map sv_Subject (visible_users cs i includeDeleted)))))"

definition Store_GetVersionsBySchemaID ::
  "Store \<Rightarrow> string \<Rightarrow> int \<Rightarrow> bool \<Rightarrow> SubjectVersion list result" where
  [store_defs]: "Store_GetVersionsBySchemaID s registryCtx i includeDeleted =
     (case Store_getContext s registryCtx of
        None \<Rightarrow> Inl ErrSchemaNotFound
      | Some cs \<Rightarrow>
          if gm_get (cs_schemas cs) i = None then Inl ErrSchemaNotFound
          else Inr (visible_users cs i includeDeleted))"

section \<open>Listing schemas\<close>

text \<open>
  \<open>sort.Slice\<close> is not stable: records of one ID come out in an order nobody fixes, which the
  argument \<open>it\<close> stands for.
\<close>

definition latest_for_listing :: "ListSchemasParams \<Rightarrow> version_map \<Rightarrow> int" where
  "latest_for_listing params versions =
     max_key (\<lambda>info. lp_Deleted params \<or> \<not> si_deleted info) (gm_entries versions) 0"

definition list_subject_schemas ::
  "contextStore \<Rightarrow> ListSchemasParams \<Rightarrow> string \<times> version_map \<Rightarrow> SchemaRecord list" where
  "list_subject_schemas cs params = (\<lambda>(subject, versions).
     if lp_SubjectPrefix params \<noteq> [] \<and> \<not> HasPrefix subject (lp_SubjectPrefix params) then []
     else collect_records cs subject
            (\<lambda>(version, info).
               (lp_Deleted params \<or> \<not> si_deleted info) \<and>
               (lp_LatestOnly params \<longrightarrow>
                  latest_for_listing params versions > 0 \<and>
                  version = latest_for_listing params versions))
            versions)"

definition page :: "int \<Rightarrow> int \<Rightarrow> 'a list \<Rightarrow> 'a list" where
  "page offset limit xs =
     (if offset > 0 \<and> offset \<ge> int (length xs) then []
      else (let ys = (if offset > 0 then drop (nat offset) xs else xs)
            in if limit > 0 \<and> limit < int (length ys) then take (nat limit) ys else ys))"

definition Store_ListSchemas ::
  "SchemaRecord order \<Rightarrow> Store \<Rightarrow> string \<Rightarrow> ListSchemasParams \<Rightarrow> SchemaRecord list result" where
  [store_defs]: "Store_ListSchemas it s registryCtx params =
     (case Store_getContext s registryCtx of
        None \<Rightarrow> Inr []
      | Some cs \<Rightarrow>
          (let results = concat (map (list_subject_schemas cs params)
                                   (gm_entries (cs_subjectVersions cs)))
           in Inr (page (lp_Offset params) (lp_Limit params) (sort_key sr_ID (it results)))))"

end
