(* ===== verification/Memory_Config.thy ===== *)
theory Memory_Config
  imports Memory_Store
begin

text \<open>
  The in-memory backend, continued: compatibility configurations and modes, per subject and per
  context (\<open>internal/storage/memory/store.go\<close>).
\<close>

definition Store_GetConfig :: "Store \<Rightarrow> string \<Rightarrow> string \<Rightarrow> ConfigRecord result" where
  [store_defs]: "Store_GetConfig s registryCtx subject =
     (case Store_getContext s registryCtx of
        None \<Rightarrow> Inl ErrNotFound
      | Some cs \<Rightarrow> (case gm_get (cs_configs cs) subject of
                      None \<Rightarrow> Inl ErrNotFound | Some config \<Rightarrow> Inr config))"

definition Store_SetConfig ::
  "Store \<Rightarrow> string \<Rightarrow> string \<Rightarrow> ConfigRecord \<Rightarrow> Store \<times> storage_error option" where
  [store_defs]: "Store_SetConfig s registryCtx subject config =
     (let cs = Store_getOrCreateContext s registryCtx
      in (Store_putContext s registryCtx
            (cs\<lparr>cs_configs := gm_put subject (config\<lparr>cf_Subject := subject\<rparr>) (cs_configs cs)\<rparr>),
          None))"

definition Store_DeleteConfig :: "Store \<Rightarrow> string \<Rightarrow> string \<Rightarrow> Store \<times> storage_error option" where
  [store_defs]: "Store_DeleteConfig s registryCtx subject =
     (case Store_getContext s registryCtx of
        None \<Rightarrow> (s, Some ErrNotFound)
      | Some cs \<Rightarrow>
          if gm_get (cs_configs cs) subject = None then (s, Some ErrNotFound)
          else (Store_putContext s registryCtx
                  (cs\<lparr>cs_configs := gm_del subject (cs_configs cs)\<rparr>), None))"

definition Store_GetGlobalConfig :: "Store \<Rightarrow> string \<Rightarrow> ConfigRecord result" where
  [store_defs]: "Store_GetGlobalConfig s registryCtx =
     (case Store_getContext s registryCtx of
        None \<Rightarrow> Inl ErrNotFound
      | Some cs \<Rightarrow> (case cs_globalConfig cs of
                      None \<Rightarrow> Inl ErrNotFound | Some config \<Rightarrow> Inr config))"

definition Store_SetGlobalConfig ::
  "Store \<Rightarrow> string \<Rightarrow> ConfigRecord \<Rightarrow> Store \<times> storage_error option" where
  [store_defs]: "Store_SetGlobalConfig s registryCtx config =
     (let cs = Store_getOrCreateContext s registryCtx
      in (Store_putContext s registryCtx
            (cs\<lparr>cs_globalConfig := Some (config\<lparr>cf_Subject := []\<rparr>)\<rparr>), None))"

definition Store_DeleteGlobalConfig :: "Store \<Rightarrow> string \<Rightarrow> Store \<times> storage_error option" where
  [store_defs]: "Store_DeleteGlobalConfig s registryCtx =
     (case Store_getContext s registryCtx of
        None \<Rightarrow> (s, None)
      | Some cs \<Rightarrow> (Store_putContext s registryCtx (cs\<lparr>cs_globalConfig := None\<rparr>), None))"

definition Store_GetMode :: "Store \<Rightarrow> string \<Rightarrow> string \<Rightarrow> ModeRecord result" where
  [store_defs]: "Store_GetMode s registryCtx subject =
     (case Store_getContext s registryCtx of
        None \<Rightarrow> Inl ErrNotFound
      | Some cs \<Rightarrow> (case gm_get (cs_modes cs) subject of
                      None \<Rightarrow> Inl ErrNotFound | Some mode \<Rightarrow> Inr mode))"

definition Store_SetMode ::
  "Store \<Rightarrow> string \<Rightarrow> string \<Rightarrow> ModeRecord \<Rightarrow> Store \<times> storage_error option" where
  [store_defs]: "Store_SetMode s registryCtx subject mode =
     (let cs = Store_getOrCreateContext s registryCtx
      in (Store_putContext s registryCtx
            (cs\<lparr>cs_modes := gm_put subject (mode\<lparr>mo_Subject := subject\<rparr>) (cs_modes cs)\<rparr>),
          None))"

definition Store_DeleteMode :: "Store \<Rightarrow> string \<Rightarrow> string \<Rightarrow> Store \<times> storage_error option" where
  [store_defs]: "Store_DeleteMode s registryCtx subject =
     (case Store_getContext s registryCtx of
        None \<Rightarrow> (s, Some ErrNotFound)
      | Some cs \<Rightarrow>
          if gm_get (cs_modes cs) subject = None then (s, Some ErrNotFound)
          else (Store_putContext s registryCtx
                  (cs\<lparr>cs_modes := gm_del subject (cs_modes cs)\<rparr>), None))"

definition Store_GetGlobalMode :: "Store \<Rightarrow> string \<Rightarrow> ModeRecord result" where
  [store_defs]: "Store_GetGlobalMode s registryCtx =
     (case Store_getContext s registryCtx of
        None \<Rightarrow> Inl ErrNotFound
      | Some cs \<Rightarrow> (case cs_globalMode cs of
                      None \<Rightarrow> Inl ErrNotFound | Some mode \<Rightarrow> Inr mode))"

definition Store_SetGlobalMode ::
  "Store \<Rightarrow> string \<Rightarrow> ModeRecord \<Rightarrow> Store \<times> storage_error option" where
  [store_defs]: "Store_SetGlobalMode s registryCtx mode =
     (let cs = Store_getOrCreateContext s registryCtx
      in (Store_putContext s registryCtx
            (cs\<lparr>cs_globalMode := Some (mode\<lparr>mo_Subject := []\<rparr>)\<rparr>), None))"

definition Store_DeleteGlobalMode :: "Store \<Rightarrow> string \<Rightarrow> Store \<times> storage_error option" where
  [store_defs]: "Store_DeleteGlobalMode s registryCtx =
     (case Store_getContext s registryCtx of
        None \<Rightarrow> (s, None)
      | Some cs \<Rightarrow> (Store_putContext s registryCtx (cs\<lparr>cs_globalMode := None\<rparr>), None))"

end
