(* ===== verification/Registry_Context.thy ===== *)
theory Registry_Context
  imports Memory_Store
begin

text \<open>
  Registry contexts: subject names with a context prefix, context names, and how a request's
  context is found (\<open>internal/context/context.go\<close>, \<open>internal/api/context_middleware.go\<close>,
  \<open>internal/api/handlers/context_helpers.go\<close>).  A request is its two URL parameters; the request
  context is the value stored under the registry's key, \<open>None\<close> when there is none.
\<close>

definition GlobalContext :: string where
  "GlobalContext = ''.__GLOBAL''"

definition WithRegistryContext :: "string option \<Rightarrow> string \<Rightarrow> string option" where
  "WithRegistryContext ctx registryCtx = Some registryCtx"

definition RegistryContextFromRequest :: "string option \<Rightarrow> string" where
  "RegistryContextFromRequest ctx =
     (case ctx of None \<Rightarrow> DefaultContext | Some s \<Rightarrow> if s \<noteq> [] then s else DefaultContext)"

definition ResolveSubject :: "string \<Rightarrow> string \<times> string" where
  "ResolveSubject subject =
     (if HasPrefix subject '':.''
      then (let rest = drop 2 subject
            in case IndexByte rest (CHR '':'') of
                 Some idx \<Rightarrow>
                   if idx > 0 then (''.'' @ take idx rest, drop (idx + 1) rest)
                   else (DefaultContext, subject)
               | None \<Rightarrow> (DefaultContext, subject))
      else (DefaultContext, subject))"

definition FormatSubject :: "string \<Rightarrow> string \<Rightarrow> string" where
  "FormatSubject registryCtx subject =
     (if registryCtx = DefaultContext \<or> registryCtx = [] then subject
      else '':'' @ registryCtx @ '':'' @ subject)"

definition isAlphaNumeric :: "char \<Rightarrow> bool" where
  "isAlphaNumeric c \<longleftrightarrow>
     (let n = (of_char c :: nat)
      in (97 \<le> n \<and> n \<le> 122) \<or> (65 \<le> n \<and> n \<le> 90) \<or> (48 \<le> n \<and> n \<le> 57))"

definition IsValidContextName :: "string \<Rightarrow> bool" where
  "IsValidContextName name =
     (if name = [] \<or> length name > 255 then False
      else if name = DefaultContext then True
      else list_all (\<lambda>c. isAlphaNumeric c \<or> c = CHR ''-'' \<or> c = CHR ''_'' \<or> c = CHR ''.'') name)"

definition NormalizeContextName :: "string \<Rightarrow> string" where
  "NormalizeContextName name =
     (if name = '':.:'' \<or> name = [] then DefaultContext
      else if \<not> HasPrefix name ''.'' then ''.'' @ name
      else name)"

definition IsGlobalContext :: "string \<Rightarrow> bool" where
  "IsGlobalContext name \<longleftrightarrow> name = GlobalContext"

section \<open>The context of a request\<close>

datatype middleware_outcome = InvalidContext | Next "string option"

definition contextExtractionMiddleware :: "string \<Rightarrow> string option \<Rightarrow> middleware_outcome" where
  "contextExtractionMiddleware ctxParam ctx =
     (if ctxParam = [] then Next ctx
      else (let registryCtx = NormalizeContextName ctxParam
            in if \<not> IsValidContextName registryCtx then InvalidContext
               else Next (WithRegistryContext ctx registryCtx)))"

definition resolveSubjectAndContext :: "string option \<Rightarrow> string \<Rightarrow> string \<times> string" where
  "resolveSubjectAndContext ctx rawSubject =
     (let (resolvedCtx, resolvedSubject) = ResolveSubject rawSubject
      in if resolvedCtx \<noteq> DefaultContext then (resolvedCtx, resolvedSubject)
         else (RegistryContextFromRequest ctx, rawSubject))"

definition rejectGlobalContext :: "string \<Rightarrow> bool" where
  "rejectGlobalContext registryCtx = IsGlobalContext registryCtx"

section \<open>Properties\<close>

lemma resolve_qualified:
  assumes "CHR '':'' \<notin> set name" "name \<noteq> []"
  shows "ResolveSubject ('':.'' @ name @ '':'' @ subject) = (''.'' @ name, subject)"
proof -
  have "IndexByte (name @ CHR '':'' # subject) (CHR '':'') = Some (length name)"
    by (rule IndexByte_append [OF assms(1)])
  with assms(2) show ?thesis by (simp add: ResolveSubject_def HasPrefix_def)
qed

lemma resolve_parts:
  "ResolveSubject subject = (c, s) \<Longrightarrow>
     (c = DefaultContext \<and> s = subject) \<or> (c \<noteq> DefaultContext \<and> subject = '':'' @ c @ '':'' @ s)"
  by (auto simp: ResolveSubject_def Let_def HasPrefix_iff DefaultContext_def
      dest!: IndexByte_Some split: if_splits option.splits) (metis id_take_nth_drop)+

lemma valid_no_colon: "IsValidContextName c \<Longrightarrow> CHR '':'' \<notin> set c"
  by (auto simp: IsValidContextName_def DefaultContext_def isAlphaNumeric_def list_all_iff
      split: if_splits)

text \<open>
  Formatting a subject with a normalised, valid context and resolving the result gives the
  context and the subject back; in the default context exactly the subjects that carry no context
  prefix survive the round trip.
\<close>

lemma format_resolve_roundtrip:
  assumes "IsValidContextName c" "HasPrefix c ''.''"
  shows "ResolveSubject (FormatSubject c s) = (c, s) \<longleftrightarrow>
     c \<noteq> DefaultContext \<or> fst (ResolveSubject s) = DefaultContext"
proof (cases "c = DefaultContext")
  case True
  then show ?thesis using resolve_parts [of s] by (cases "ResolveSubject s") (auto simp: FormatSubject_def)
next
  case False
  from assms(2) obtain name where c: "c = ''.'' @ name" by (auto simp: HasPrefix_iff)
  with False have "name \<noteq> []" by (auto simp: DefaultContext_def)
  moreover have "CHR '':'' \<notin> set name" using valid_no_colon [OF assms(1)] c by simp
  ultimately show ?thesis using resolve_qualified [of name s] False c by (simp add: FormatSubject_def)
qed

lemma format_resolve_roundtrip_witness:
  "ResolveSubject (FormatSubject ''.team'' ''orders'') = (''.team'', ''orders'')"
  using format_resolve_roundtrip [of "''.team''" "''orders''"]
  by (simp add: IsValidContextName_def DefaultContext_def isAlphaNumeric_def HasPrefix_def)

text \<open>
  Resolving a subject loses nothing and invents nothing: the answer is the default context
  with the subject as it stands, or a named context of which the subject is the qualified form.
\<close>

lemma resolve_is_faithful:
  "FormatSubject (fst (ResolveSubject subject)) (snd (ResolveSubject subject)) = subject \<and>
   HasPrefix (fst (ResolveSubject subject)) ''.''"
proof -
  obtain c s where r: "ResolveSubject subject = (c, s)" by force
  have "HasPrefix c ''.''"
    using r by (auto simp: ResolveSubject_def Let_def HasPrefix_def DefaultContext_def
        split: if_splits option.splits)
  moreover have "FormatSubject c s = subject"
    using resolve_parts [OF r] \<open>HasPrefix c ''.''\<close>
    by (auto simp: FormatSubject_def HasPrefix_def)
  ultimately show ?thesis by (simp add: r)
qed

text \<open>
  A context named in the URL path reaches a handler only when it is valid and normalised; a
  qualified subject overrides it without any such check, so a handler can be given a context name
  that \<open>IsValidContextName\<close> refuses.
\<close>

lemma path_context_checked_subject_context_not:
  "(contextExtractionMiddleware ctxParam ctx = Next (Some c) \<longrightarrow> ctxParam \<noteq> [] \<longrightarrow>
      IsValidContextName c \<and> HasPrefix c ''.'') \<and>
   resolveSubjectAndContext ctx '':.no such name!:orders'' = (''.no such name!'', ''orders'') \<and>
   \<not> IsValidContextName ''.no such name!''"
proof -
  have "ResolveSubject ('':.'' @ ''no such name!'' @ '':'' @ ''orders'') = (''.'' @ ''no such name!'', ''orders'')"
    by (rule resolve_qualified) simp_all
  then have "resolveSubjectAndContext ctx '':.no such name!:orders'' = (''.no such name!'', ''orders'')"
    by (simp add: resolveSubjectAndContext_def DefaultContext_def)
  moreover have "\<not> IsValidContextName ''.no such name!''"
    by (simp add: IsValidContextName_def DefaultContext_def isAlphaNumeric_def)
  moreover have "HasPrefix (NormalizeContextName ctxParam) ''.''"
    by (auto simp: NormalizeContextName_def HasPrefix_def DefaultContext_def)
  ultimately show ?thesis
    by (auto simp: contextExtractionMiddleware_def Let_def WithRegistryContext_def split: if_splits)
qed

lemma path_context_checked_subject_context_not_witness:
  "contextExtractionMiddleware ''team'' None = Next (Some ''.team'') \<and>
   IsValidContextName ''.team'' \<and> HasPrefix ''.team'' ''.''"
proof -
  have "contextExtractionMiddleware ''team'' None = Next (Some ''.team'')"
    by (simp add: contextExtractionMiddleware_def NormalizeContextName_def WithRegistryContext_def
        IsValidContextName_def DefaultContext_def isAlphaNumeric_def HasPrefix_def)
  with path_context_checked_subject_context_not show ?thesis by blast
qed

end
