(* ===== verification/Rule_Validation.thy ===== *)
theory Rule_Validation
  imports Storage_Types
begin

text \<open>
  Validation of data-contract rules (\<open>internal/rules/validator.go\<close>).  An error is its text.
\<close>

definition validKinds :: "string list" where
  "validKinds = [''CONDITION'', ''TRANSFORM'']"

definition validDomainModes :: "string list" where
  "validDomainModes = [''WRITE'', ''READ'', ''WRITEREAD'']"

definition validMigrationModes :: "string list" where
  "validMigrationModes = [''UPGRADE'', ''DOWNGRADE'', ''UPDOWN'']"

definition validEncodingModes :: "string list" where
  "validEncodingModes = [''WRITE'', ''READ'', ''WRITEREAD'']"

definition validActions :: "string list" where
  "validActions = ['''', ''NONE'', ''DLQ'', ''ERROR'']"

definition isValidAction :: "string \<Rightarrow> bool" where
  "isValidAction action \<longleftrightarrow>
     action \<in> set validActions \<or>
     list_all (\<lambda>p. TrimSpace p \<in> set validActions) (SplitByte action (CHR '',''))"

definition quoted :: "string \<Rightarrow> string" where
  "quoted s = [CHR 0x27] @ s @ [CHR 0x27]"

definition validateRule :: "Rule \<Rightarrow> string \<Rightarrow> nat \<Rightarrow> string list \<Rightarrow> string option" where
  "validateRule r category index validModes =
     (if TrimSpace (ru_Name r) = []
      then Some (''invalid rule: '' @ category @ ''['' @ Itoa (int index) @ '']: name is required'')
      else if ru_Kind r \<notin> set validKinds
      then Some (''invalid rule '' @ quoted (ru_Name r) @
                 '': kind must be CONDITION or TRANSFORM, got '' @ quoted (ru_Kind r))
      else if ru_Mode r \<notin> set validModes
      then Some (''invalid rule '' @ quoted (ru_Name r) @ '': invalid mode '' @ quoted (ru_Mode r) @
                 '' for '' @ category)
      else if \<not> isValidAction (ru_OnSuccess r)
      then Some (''invalid rule '' @ quoted (ru_Name r) @
                 '': onSuccess must be NONE, DLQ, or ERROR (comma-separated for dual-mode), got '' @
                 quoted (ru_OnSuccess r))
      else if \<not> isValidAction (ru_OnFailure r)
      then Some (''invalid rule '' @ quoted (ru_Name r) @
                 '': onFailure must be NONE, DLQ, or ERROR (comma-separated for dual-mode), got '' @
                 quoted (ru_OnFailure r))
      else None)"

text \<open>A loop over one slice of rules, stopping at the first error.\<close>

fun validate_rules :: "Rule list \<Rightarrow> string \<Rightarrow> nat \<Rightarrow> string list \<Rightarrow> string option" where
  "validate_rules [] category i validModes = None"
| "validate_rules (r # rs) category i validModes =
     (case validateRule r category i validModes of
        Some err \<Rightarrow> Some err
      | None \<Rightarrow> validate_rules rs category (i + 1) validModes)"

definition ValidateRuleSet :: "RuleSet option \<Rightarrow> string option" where
  "ValidateRuleSet rs =
     (case rs of
        None \<Rightarrow> None
      | Some s \<Rightarrow>
          (case validate_rules (slice_list (rs_DomainRules s)) ''domainRules'' 0 validDomainModes of
             Some err \<Rightarrow> Some err
           | None \<Rightarrow>
               (case validate_rules (slice_list (rs_MigrationRules s)) ''migrationRules'' 0
                       validMigrationModes of
                  Some err \<Rightarrow> Some err
                | None \<Rightarrow>
                    validate_rules (slice_list (rs_EncodingRules s)) ''encodingRules'' 0
                      validEncodingModes)))"

section \<open>Acceptance\<close>

definition rule_ok :: "string list \<Rightarrow> Rule \<Rightarrow> bool" where
  "rule_ok validModes r \<longleftrightarrow>
     TrimSpace (ru_Name r) \<noteq> [] \<and> ru_Kind r \<in> set validKinds \<and> ru_Mode r \<in> set validModes \<and>
     isValidAction (ru_OnSuccess r) \<and> isValidAction (ru_OnFailure r)"

lemma validateRule_None: "validateRule r category i modes = None \<longleftrightarrow> rule_ok modes r"
  by (auto simp: validateRule_def rule_ok_def)

lemma validate_rules_None: "validate_rules rs category i modes = None \<longleftrightarrow> (\<forall>r\<in>set rs. rule_ok modes r)"
proof (induction rs arbitrary: i)
  case (Cons r rs)
  then show ?case
    using validateRule_None [of r category i modes] by (auto split: option.splits)
qed simp

lemma validate_ok:
  "ValidateRuleSet (Some s) = None \<longleftrightarrow>
     (\<forall>r\<in>set (slice_list (rs_DomainRules s)). rule_ok validDomainModes r) \<and>
     (\<forall>r\<in>set (slice_list (rs_MigrationRules s)). rule_ok validMigrationModes r) \<and>
     (\<forall>r\<in>set (slice_list (rs_EncodingRules s)). rule_ok validEncodingModes r)"
  using validate_rules_None [of "slice_list (rs_DomainRules s)" "''domainRules''" 0 validDomainModes]
    validate_rules_None [of "slice_list (rs_MigrationRules s)" "''migrationRules''" 0 validMigrationModes]
    validate_rules_None [of "slice_list (rs_EncodingRules s)" "''encodingRules''" 0 validEncodingModes]
  by (auto simp: ValidateRuleSet_def split: option.splits)

end
