(* ===== verification/Compat_Modes.thy ===== *)
theory Compat_Modes
  imports Storage_Types
begin

text \<open>
  Compatibility modes, results and the checker that applies a mode to a subject's history
  (\<open>internal/compatibility/modes.go\<close>, \<open>result.go\<close>, \<open>checker.go\<close>).  \<open>Check\<close> copies the messages
  of a type-specific checker and thereby marks its own result; it is right only for checkers that
  report every incompatibility with a message, which the locale \<open>schema_checker\<close> states.
\<close>

section \<open>Modes\<close>

type_synonym Mode = string

definition ModeNone :: Mode where "ModeNone = ''NONE''"
definition ModeBackward :: Mode where "ModeBackward = ''BACKWARD''"
definition ModeBackwardTransitive :: Mode where "ModeBackwardTransitive = ''BACKWARD_TRANSITIVE''"
definition ModeForward :: Mode where "ModeForward = ''FORWARD''"
definition ModeForwardTransitive :: Mode where "ModeForwardTransitive = ''FORWARD_TRANSITIVE''"
definition ModeFull :: Mode where "ModeFull = ''FULL''"
definition ModeFullTransitive :: Mode where "ModeFullTransitive = ''FULL_TRANSITIVE''"

lemmas mode_names = ModeNone_def ModeBackward_def ModeBackwardTransitive_def ModeForward_def
  ModeForwardTransitive_def ModeFull_def ModeFullTransitive_def

definition Mode_IsValid :: "Mode \<Rightarrow> bool" where
  "Mode_IsValid m \<longleftrightarrow>
     m \<in> {ModeNone, ModeBackward, ModeBackwardTransitive, ModeForward, ModeForwardTransitive,
          ModeFull, ModeFullTransitive}"

definition Mode_IsTransitive :: "Mode \<Rightarrow> bool" where
  "Mode_IsTransitive m \<longleftrightarrow> m \<in> {ModeBackwardTransitive, ModeForwardTransitive, ModeFullTransitive}"

definition Mode_RequiresBackward :: "Mode \<Rightarrow> bool" where
  "Mode_RequiresBackward m \<longleftrightarrow>
     m \<in> {ModeBackward, ModeBackwardTransitive, ModeFull, ModeFullTransitive}"

definition Mode_RequiresForward :: "Mode \<Rightarrow> bool" where
  "Mode_RequiresForward m \<longleftrightarrow>
     m \<in> {ModeForward, ModeForwardTransitive, ModeFull, ModeFullTransitive}"

definition ParseMode :: "string \<Rightarrow> Mode \<times> bool" where
  "ParseMode s = (let mode = s in (mode, Mode_IsValid mode))"

section \<open>Results\<close>

record Result =
  re_IsCompatible :: bool
  re_Messages :: "string list"

definition NewCompatibleResult :: Result where
  "NewCompatibleResult = \<lparr>re_IsCompatible = True, re_Messages = []\<rparr>"

definition NewIncompatibleResult :: "string list \<Rightarrow> Result" where
  "NewIncompatibleResult messages = \<lparr>re_IsCompatible = False, re_Messages = messages\<rparr>"

definition Result_AddMessage :: "Result \<Rightarrow> string \<Rightarrow> Result" where
  "Result_AddMessage r msg = r\<lparr>re_Messages := re_Messages r @ [msg], re_IsCompatible := False\<rparr>"

definition Result_Merge :: "Result \<Rightarrow> Result \<Rightarrow> Result" where
  "Result_Merge r other =
     (if \<not> re_IsCompatible other
      then r\<lparr>re_IsCompatible := False, re_Messages := re_Messages r @ re_Messages other\<rparr>
      else r)"

text \<open>A result is honest when it has a message exactly when it reports an incompatibility.\<close>

definition honest :: "Result \<Rightarrow> bool" where
  "honest r \<longleftrightarrow> (re_IsCompatible r \<longleftrightarrow> re_Messages r = [])"

lemma honest_results [simp, intro]:
  "honest NewCompatibleResult"
  "msgs \<noteq> [] \<Longrightarrow> honest (NewIncompatibleResult msgs)"
  "honest (Result_AddMessage r msg)"
  "honest r \<Longrightarrow> honest q \<Longrightarrow> honest (Result_Merge r q)"
  by (auto simp: honest_def NewCompatibleResult_def NewIncompatibleResult_def Result_AddMessage_def
      Result_Merge_def)

lemma compatible_results [simp]:
  "re_IsCompatible NewCompatibleResult"
  "\<not> re_IsCompatible (NewIncompatibleResult msgs)"
  "\<not> re_IsCompatible (Result_AddMessage r msg)"
  "re_IsCompatible (Result_Merge r q) \<longleftrightarrow> re_IsCompatible r \<and> re_IsCompatible q"
  by (auto simp: NewCompatibleResult_def NewIncompatibleResult_def Result_AddMessage_def
      Result_Merge_def)

text \<open>Loops over a result.\<close>

lemma fold_verdict:
  assumes "\<And>x result. re_IsCompatible (f x result) \<longleftrightarrow> re_IsCompatible result \<and> P x"
  shows "re_IsCompatible (fold f xs result) \<longleftrightarrow> re_IsCompatible result \<and> list_all P xs"
  by (induction xs arbitrary: result) (auto simp: assms)

lemma fold_honest:
  assumes "\<And>x r. x \<in> set xs \<Longrightarrow> honest r \<Longrightarrow> honest (f x r)" "honest r"
  shows "honest (fold f xs r)"
  using assms by (induction xs arbitrary: r) auto

section \<open>The checker\<close>

record SchemaWithRefs =
  sw_Schema :: string
  sw_References :: "Reference list"

type_synonym SchemaChecker = "SchemaWithRefs \<Rightarrow> SchemaWithRefs \<Rightarrow> Result"

record Checker =
  ch_checkers :: "(SchemaType, SchemaChecker) gomap"

definition NewChecker :: Checker where
  "NewChecker = \<lparr>ch_checkers = gm_empty\<rparr>"

definition Checker_Register :: "Checker \<Rightarrow> SchemaType \<Rightarrow> SchemaChecker \<Rightarrow> Checker" where
  "Checker_Register c schemaType checker =
     c\<lparr>ch_checkers := gm_put schemaType checker (ch_checkers c)\<rparr>"

definition direction_messages :: "string \<Rightarrow> nat \<Rightarrow> Result \<Rightarrow> Result \<Rightarrow> Result" where
  "direction_messages direction i checkResult result =
     (if \<not> re_IsCompatible checkResult
      then fold (\<lambda>msg result.
             Result_AddMessage result
               (direction @ '' compatibility check failed against version '' @ Itoa (int i + 1) @
                '': '' @ msg)) (re_Messages checkResult) result
      else result)"

definition check_one ::
  "SchemaChecker \<Rightarrow> Mode \<Rightarrow> SchemaWithRefs \<Rightarrow> nat \<times> SchemaWithRefs \<Rightarrow> Result \<Rightarrow> Result" where
  "check_one checker mode newSchema = (\<lambda>(i, existingSchema) result.
     (let result1 = (if Mode_RequiresBackward mode
                     then direction_messages ''BACKWARD'' i (checker newSchema existingSchema) result
                     else result)
      in if Mode_RequiresForward mode
         then direction_messages ''FORWARD'' i (checker existingSchema newSchema) result1
         else result1))"

definition Checker_Check ::
  "Checker \<Rightarrow> Mode \<Rightarrow> SchemaType \<Rightarrow> SchemaWithRefs \<Rightarrow> SchemaWithRefs list \<Rightarrow> Result" where
  "Checker_Check c mode schemaType newSchema existingSchemas =
     (if mode = ModeNone then NewCompatibleResult
      else if existingSchemas = [] then NewCompatibleResult
      else case gm_get (ch_checkers c) schemaType of
             None \<Rightarrow> NewIncompatibleResult [''no compatibility checker for schema type: '' @ schemaType]
           | Some checker \<Rightarrow>
               (let schemasToCheck = (if Mode_IsTransitive mode then existingSchemas
                                      else [existingSchemas ! (length existingSchemas - 1)])
                in fold (check_one checker mode newSchema)
                     (zip [0..<length schemasToCheck] schemasToCheck) NewCompatibleResult))"

definition Checker_CheckPair ::
  "Checker \<Rightarrow> Mode \<Rightarrow> SchemaType \<Rightarrow> SchemaWithRefs \<Rightarrow> SchemaWithRefs \<Rightarrow> Result" where
  "Checker_CheckPair c mode schemaType newSchema existingSchema =
     Checker_Check c mode schemaType newSchema [existingSchema]"

section \<open>What a mode demands\<close>

definition pair_ok :: "SchemaChecker \<Rightarrow> Mode \<Rightarrow> SchemaWithRefs \<Rightarrow> SchemaWithRefs \<Rightarrow> bool" where
  "pair_ok checker mode new old \<longleftrightarrow>
     (Mode_RequiresBackward mode \<longrightarrow> re_IsCompatible (checker new old)) \<and>
     (Mode_RequiresForward mode \<longrightarrow> re_IsCompatible (checker old new))"

definition mode_ok :: "SchemaChecker \<Rightarrow> Mode \<Rightarrow> SchemaWithRefs \<Rightarrow> SchemaWithRefs list \<Rightarrow> bool" where
  "mode_ok checker mode new olds \<longleftrightarrow>
     (if Mode_IsTransitive mode then list_all (pair_ok checker mode new) olds
      else olds = [] \<or> pair_ok checker mode new (last olds))"

locale schema_checker =
  fixes check :: SchemaChecker
  assumes check_honest: "honest (check reader writer)"
begin

lemma direction_verdict:
  "re_IsCompatible (direction_messages d i (check x y) result) \<longleftrightarrow>
     re_IsCompatible result \<and> re_IsCompatible (check x y)"
proof (cases "re_IsCompatible (check x y)")
  case False
  then have "re_Messages (check x y) \<noteq> []" using check_honest by (auto simp: honest_def)
  then obtain msgs msg where m: "re_Messages (check x y) = msgs @ [msg]" by (metis append_butlast_last_id)
  show ?thesis using False by (simp add: direction_messages_def m)
qed (simp add: direction_messages_def)

lemma check_one_verdict:
  "re_IsCompatible (check_one check mode new (i, old) result) \<longleftrightarrow>
     re_IsCompatible result \<and> pair_ok check mode new old"
  by (auto simp: check_one_def pair_ok_def direction_verdict Let_def)

lemma check_all_verdict:
  "re_IsCompatible (fold (check_one check mode new) ies result) \<longleftrightarrow>
     re_IsCompatible result \<and> list_all (\<lambda>(i, old). pair_ok check mode new old) ies"
proof (induction ies arbitrary: result)
  case (Cons e ies)
  then show ?case by (cases e) (auto simp: check_one_verdict)
qed simp

lemma Check_verdict:
  assumes "gm_get (ch_checkers c) schemaType = Some check"
  shows "re_IsCompatible (Checker_Check c mode schemaType new olds) \<longleftrightarrow> mode_ok check mode new olds"
proof (cases "olds = [] \<or> mode = ModeNone")
  case False
  have "list_all (\<lambda>(i, old). P old) (zip [0..<length xs] xs) \<longleftrightarrow> list_all P xs"
    for P and xs :: "SchemaWithRefs list"
    by (auto simp: list_all_length)
  with False assms show ?thesis
    by (auto simp: Checker_Check_def Let_def check_all_verdict mode_ok_def last_conv_nth)
qed (auto simp: Checker_Check_def mode_ok_def pair_ok_def Mode_IsTransitive_def
    Mode_RequiresBackward_def Mode_RequiresForward_def mode_names)

end

text \<open>A stronger mode: more directions or more of the history.\<close>

definition mode_le :: "Mode \<Rightarrow> Mode \<Rightarrow> bool" where
  "mode_le m n \<longleftrightarrow>
     (Mode_RequiresBackward m \<longrightarrow> Mode_RequiresBackward n) \<and>
     (Mode_RequiresForward m \<longrightarrow> Mode_RequiresForward n) \<and>
     (Mode_IsTransitive m \<longrightarrow> Mode_IsTransitive n)"

lemma mode_ok_mono:
  assumes "mode_le m n" "mode_ok checker n new olds"
  shows "mode_ok checker m new olds"
  using assms last_in_set [of olds]
  by (auto simp: mode_le_def mode_ok_def pair_ok_def list_all_iff split: if_splits)

lemma registered [simp]:
  "gm_get (ch_checkers (Checker_Register c schemaType check)) schemaType = Some check"
  by (simp add: Checker_Register_def gm_laws)

text \<open>A checker for the witnesses: a reader reads what has its own text.\<close>

definition text_checker :: SchemaChecker where
  "text_checker reader writer =
     (if sw_Schema reader = sw_Schema writer then NewCompatibleResult
      else NewIncompatibleResult [''different text''])"

interpretation text_checker: schema_checker text_checker
  by unfold_locales (simp add: text_checker_def)

text \<open>
  The verdict of a compatibility check is what the mode demands: nothing under NONE or on
  an empty history; otherwise, against the latest version or, for a transitive mode, against every
  version, the new schema reads the old (BACKWARD, FULL) and the old reads the new (FORWARD, FULL).
\<close>

lemma compatibility_verdict:
  assumes "\<And>reader writer. honest (check reader writer)"
  shows "re_IsCompatible (Checker_Check (Checker_Register c schemaType check) mode schemaType new olds) \<longleftrightarrow>
     mode_ok check mode new olds"
proof -
  have "schema_checker check" using assms by unfold_locales
  then show ?thesis by (rule schema_checker.Check_verdict) simp
qed

lemma compatibility_verdict_witness:
  "\<not> re_IsCompatible (Checker_Check (Checker_Register NewChecker ''AVRO'' text_checker) ModeFull ''AVRO''
       \<lparr>sw_Schema = ''a'', sw_References = []\<rparr> [\<lparr>sw_Schema = ''b'', sw_References = []\<rparr>])"
  using compatibility_verdict [of text_checker NewChecker "''AVRO''" ModeFull, OF text_checker.check_honest]
  by (simp add: mode_ok_def pair_ok_def text_checker_def Mode_IsTransitive_def
      Mode_RequiresBackward_def mode_names)

text \<open>
  Stronger modes admit less: a schema accepted under a mode is accepted under every mode that
  demands no more directions and no more of the history; FULL_TRANSITIVE implies all of them.
\<close>

lemma stronger_mode_admits_less:
  assumes "\<And>reader writer. honest (check reader writer)" "mode_le m n"
    and "re_IsCompatible (Checker_Check (Checker_Register c schemaType check) n schemaType new olds)"
  shows "re_IsCompatible (Checker_Check (Checker_Register c schemaType check) m schemaType new olds)"
proof -
  have "schema_checker check" using assms(1) by unfold_locales
  then show ?thesis
    using assms(3) mode_ok_mono [OF assms(2)] schema_checker.Check_verdict [OF _ registered] by blast
qed

lemma stronger_mode_admits_less_witness:
  "re_IsCompatible (Checker_Check (Checker_Register NewChecker ''AVRO'' text_checker) ModeForward ''AVRO''
     \<lparr>sw_Schema = ''a'', sw_References = []\<rparr> [\<lparr>sw_Schema = ''a'', sw_References = []\<rparr>])"
proof (rule stronger_mode_admits_less [OF text_checker.check_honest])
  show "mode_le ModeForward ModeFullTransitive"
    by (simp add: mode_le_def Mode_IsTransitive_def Mode_RequiresBackward_def Mode_RequiresForward_def
        mode_names)
  show "re_IsCompatible (Checker_Check (Checker_Register NewChecker ''AVRO'' text_checker)
     ModeFullTransitive ''AVRO'' \<lparr>sw_Schema = ''a'', sw_References = []\<rparr>
     [\<lparr>sw_Schema = ''a'', sw_References = []\<rparr>])"
    by (simp add: text_checker.Check_verdict [OF registered] mode_ok_def pair_ok_def text_checker_def)
qed

end
