(* ===== verification/Registry_Config.thy ===== *)
theory Registry_Config
  imports Memory_Subjects Memory_Config Registry_Context Rule_Validation Compat_Modes
begin

text \<open>
  The registry service (\<open>internal/registry/registry.go\<close>, \<open>registry_helpers.go\<close>, \<open>errors.go\<close>): its
  state, and configuration and mode with their fallback chains.  The service's own fields do not
  change after start-up and are the argument \<open>r\<close>; the storage behind it is the in-memory store, the
  argument \<open>s\<close>, and an operation that writes returns the new store.  Parsers, the parsed schemas they
  return (of a type \<open>'p\<close>), SHA-256 and the key management services are not code of this repository's
  core and are fields of the record.
\<close>

section \<open>The service\<close>

type_synonym 'p Parser = "string \<Rightarrow> Reference list \<Rightarrow> string + 'p"

text \<open>The methods of \<open>schema.ParsedSchema\<close> the registry calls.\<close>

record 'p ParsedSchema =
  ps_CanonicalString :: "'p \<Rightarrow> string"
  ps_Fingerprint :: "'p \<Rightarrow> string"
  ps_FormattedString :: "'p \<Rightarrow> string \<Rightarrow> string"
  ps_Normalize :: "'p \<Rightarrow> 'p"
  ps_HasTopLevelField :: "'p \<Rightarrow> string \<Rightarrow> bool"

text \<open>The methods of \<open>kms.Provider\<close> the registry calls; each returns an error text or bytes.\<close>

record KmsProvider =
  kp_Wrap :: "string \<Rightarrow> string \<Rightarrow> (string, string) gomap option \<Rightarrow> string + string"
  kp_Unwrap :: "string \<Rightarrow> string \<Rightarrow> (string, string) gomap option \<Rightarrow> string + string"
  kp_GenerateDataKey ::
    "string \<Rightarrow> string \<Rightarrow> (string, string) gomap option \<Rightarrow> string + string \<times> string"

record 'p Registry =
  rg_schemaParser :: "(SchemaType, 'p Parser) gomap"
  rg_parsed :: "'p ParsedSchema"
  rg_sha256 :: "string \<Rightarrow> string"
  rg_compatChecker :: Checker
  rg_defaultConfig :: string
  rg_kmsRegistry :: "(string, KmsProvider) gomap option"

text \<open>A reference that storage cannot resolve, with storage's error.\<close>

datatype ref_error = RefError Reference storage_error

datatype registry_error =
    StorageError storage_error
  | UnsupportedSchemaType SchemaType
  | FailedResolveReferences ref_error
  | FailedResolveUnmarked ref_error
  | InvalidSchema string
  | InvalidRuleSet string
  | FailedGetExisting storage_error
  | FailedResolveExisting ref_error
  | IncompatibleSchema "string list"
  | FailedToStore storage_error
  | FailedAdvanceIDs storage_error
  | ImportIDConflict int
  | ReferenceExists
  | ReferenceExistsTo string int
  | InvalidVersion string
  | SubjectNotFoundFor string
  | VersionNotFoundFor int string
  | InvalidCompatibility string
  | InvalidMode string
  | FailedGlobalMode storage_error
  | FailedCheckMode registry_error

type_synonym 'a reg_result = "registry_error + 'a"

section \<open>Configuration\<close>

definition Registry_GetConfig :: "'p Registry \<Rightarrow> Store \<Rightarrow> string \<Rightarrow> string \<Rightarrow> string result" where
  [registry_defs]: "Registry_GetConfig r s registryCtx subject =
     (let rest =
        (case Store_GetGlobalConfig s registryCtx of
           Inr config \<Rightarrow> Inr (cf_CompatibilityLevel config)
         | Inl _ \<Rightarrow>
             (case (if registryCtx \<noteq> GlobalContext then Store_GetGlobalConfig s GlobalContext
                    else Inl ErrNotFound) of
                Inr config \<Rightarrow> Inr (cf_CompatibilityLevel config)
              | Inl _ \<Rightarrow> Inr (rg_defaultConfig r)))
      in if subject \<noteq> []
         then (case Store_GetConfig s registryCtx subject of
                 Inr config \<Rightarrow> Inr (cf_CompatibilityLevel config)
               | Inl err \<Rightarrow> if err \<noteq> ErrNotFound then Inl err else rest)
         else rest)"

definition Registry_GetSubjectConfig ::
  "'p Registry \<Rightarrow> Store \<Rightarrow> string \<Rightarrow> string \<Rightarrow> string result" where
  [registry_defs]: "Registry_GetSubjectConfig r s registryCtx subject =
     (if subject = [] then Inl ErrNotFound
      else (case Store_GetConfig s registryCtx subject of
              Inl err \<Rightarrow> Inl err | Inr config \<Rightarrow> Inr (cf_CompatibilityLevel config)))"

definition Registry_GetSubjectConfigFull ::
  "'p Registry \<Rightarrow> Store \<Rightarrow> string \<Rightarrow> string \<Rightarrow> ConfigRecord result" where
  [registry_defs]: "Registry_GetSubjectConfigFull r s registryCtx subject =
     Store_GetConfig s registryCtx subject"

definition Registry_GetGlobalConfig :: "'p Registry \<Rightarrow> Store \<Rightarrow> string \<Rightarrow> string result" where
  [registry_defs]: "Registry_GetGlobalConfig r s registryCtx =
     (case Store_GetGlobalConfig s registryCtx of
        Inl err \<Rightarrow> Inl err | Inr config \<Rightarrow> Inr (cf_CompatibilityLevel config))"

definition Registry_GetConfigFull ::
  "'p Registry \<Rightarrow> Store \<Rightarrow> string \<Rightarrow> string \<Rightarrow> ConfigRecord result" where
  [registry_defs]: "Registry_GetConfigFull r s registryCtx subject =
     (let rest =
        (case Store_GetGlobalConfig s registryCtx of
           Inr config \<Rightarrow> Inr config
         | Inl _ \<Rightarrow>
             (case (if registryCtx \<noteq> GlobalContext then Store_GetGlobalConfig s GlobalContext
                    else Inl ErrNotFound) of
                Inr config \<Rightarrow> Inr config
              | Inl _ \<Rightarrow> Inr (ConfigRecord_zero\<lparr>cf_CompatibilityLevel := rg_defaultConfig r\<rparr>)))
      in if subject \<noteq> []
         then (case Store_GetConfig s registryCtx subject of
                 Inr config \<Rightarrow> Inr config
               | Inl err \<Rightarrow> if err \<noteq> ErrNotFound then Inl err else rest)
         else rest)"

definition Registry_GetGlobalConfigDirect ::
  "'p Registry \<Rightarrow> Store \<Rightarrow> string \<Rightarrow> ConfigRecord result" where
  [registry_defs]: "Registry_GetGlobalConfigDirect r s registryCtx =
     (case Store_GetGlobalConfig s registryCtx of
        Inr config \<Rightarrow> Inr config
      | Inl _ \<Rightarrow> Inr (ConfigRecord_zero\<lparr>cf_CompatibilityLevel := rg_defaultConfig r\<rparr>))"

definition isValidCompatibility :: "string \<Rightarrow> bool" where
  "isValidCompatibility level \<longleftrightarrow>
     level \<in> {''NONE'', ''BACKWARD'', ''BACKWARD_TRANSITIVE'', ''FORWARD'', ''FORWARD_TRANSITIVE'',
              ''FULL'', ''FULL_TRANSITIVE''}"

record SetConfigOpts =
  so_Alias :: string
  so_CompatibilityGroup :: string
  so_ValidateFields :: "bool option"
  so_DefaultMetadata :: "Metadata option"
  so_OverrideMetadata :: "Metadata option"
  so_DefaultRuleSet :: "RuleSet option"
  so_OverrideRuleSet :: "RuleSet option"
  so_AliasForDeks :: string
  so_CompatibilityPolicy :: string

definition apply_config_opts :: "SetConfigOpts \<Rightarrow> ConfigRecord \<Rightarrow> ConfigRecord" where
  "apply_config_opts opt config =
     config\<lparr>cf_Alias := so_Alias opt, cf_CompatibilityGroup := so_CompatibilityGroup opt,
            cf_ValidateFields := so_ValidateFields opt, cf_DefaultMetadata := so_DefaultMetadata opt,
            cf_OverrideMetadata := so_OverrideMetadata opt, cf_DefaultRuleSet := so_DefaultRuleSet opt,
            cf_OverrideRuleSet := so_OverrideRuleSet opt, cf_AliasForDeks := so_AliasForDeks opt,
            cf_CompatibilityPolicy := so_CompatibilityPolicy opt\<rparr>"

definition Registry_SetConfig ::
  "'p Registry \<Rightarrow> Store \<Rightarrow> string \<Rightarrow> string \<Rightarrow> string \<Rightarrow> bool option \<Rightarrow> SetConfigOpts option \<Rightarrow>
     Store \<times> registry_error option" where
  [registry_defs]: "Registry_SetConfig r s registryCtx subject level0 normalizeOpt opts =
     (let level = ToUpper level0
      in if \<not> isValidCompatibility level then (s, Some (InvalidCompatibility level))
         else
           (let config = ConfigRecord_zero\<lparr>cf_CompatibilityLevel := level, cf_Normalize := normalizeOpt\<rparr>;
                invalid = (case opts of
                             None \<Rightarrow> None
                           | Some opt \<Rightarrow>
                               (case ValidateRuleSet (so_DefaultRuleSet opt) of
                                  Some err \<Rightarrow> Some err
                                | None \<Rightarrow> ValidateRuleSet (so_OverrideRuleSet opt)));
                config' = (case opts of None \<Rightarrow> config | Some opt \<Rightarrow> apply_config_opts opt config)
            in case invalid of
                 Some err \<Rightarrow> (s, Some (InvalidRuleSet err))
               | None \<Rightarrow>
                   (let (s', err) = (if subject = [] then Store_SetGlobalConfig s registryCtx config'
                                     else Store_SetConfig s registryCtx subject config')
                    in (s', map_option StorageError err))))"

definition Registry_DeleteGlobalConfig ::
  "'p Registry \<Rightarrow> Store \<Rightarrow> string \<Rightarrow> Store \<times> string result" where
  [registry_defs]: "Registry_DeleteGlobalConfig r s registryCtx =
     (let prevLevel = (case Store_GetGlobalConfig s registryCtx of
                         Inl _ \<Rightarrow> rg_defaultConfig r | Inr config \<Rightarrow> cf_CompatibilityLevel config)
      in case Store_DeleteGlobalConfig s registryCtx of
           (s', Some err) \<Rightarrow> (s', Inl err)
         | (s', None) \<Rightarrow> (s', Inr prevLevel))"

definition Registry_DeleteConfig ::
  "'p Registry \<Rightarrow> Store \<Rightarrow> string \<Rightarrow> string \<Rightarrow> Store \<times> string result" where
  [registry_defs]: "Registry_DeleteConfig r s registryCtx subject =
     (if subject = [] then Registry_DeleteGlobalConfig r s registryCtx
      else (case Store_GetConfig s registryCtx subject of
              Inl err \<Rightarrow> (s, Inl err)
            | Inr config \<Rightarrow>
                (case Store_DeleteConfig s registryCtx subject of
                   (s', Some err) \<Rightarrow> (s', Inl err)
                 | (s', None) \<Rightarrow> (s', Inr (cf_CompatibilityLevel config)))))"

text \<open>
  The chain for an optional setting: a level that does not set it is passed over, also when it
  has a configuration.
\<close>

definition config_chain :: "(ConfigRecord \<Rightarrow> bool option) \<Rightarrow> Store \<Rightarrow> string \<Rightarrow> string \<Rightarrow> bool" where
  "config_chain setting s registryCtx subject =
     (let pick = (\<lambda>res. case res of Inl _ \<Rightarrow> None | Inr config \<Rightarrow> setting config);
          subjectLevel = (if subject \<noteq> [] then pick (Store_GetConfig s registryCtx subject) else None);
          contextLevel = pick (Store_GetGlobalConfig s registryCtx);
          globalLevel = (if registryCtx \<noteq> GlobalContext
                         then pick (Store_GetGlobalConfig s GlobalContext) else None)
      in case subjectLevel of
           Some b \<Rightarrow> b
         | None \<Rightarrow> (case contextLevel of
                      Some b \<Rightarrow> b
                    | None \<Rightarrow> (case globalLevel of Some b \<Rightarrow> b | None \<Rightarrow> False)))"

definition Registry_isNormalizeEnabled :: "'p Registry \<Rightarrow> Store \<Rightarrow> string \<Rightarrow> string \<Rightarrow> bool" where
  [registry_defs]: "Registry_isNormalizeEnabled r s registryCtx subject =
     config_chain cf_Normalize s registryCtx subject"

definition Registry_isValidateFieldsEnabled :: "'p Registry \<Rightarrow> Store \<Rightarrow> string \<Rightarrow> string \<Rightarrow> bool" where
  [registry_defs]: "Registry_isValidateFieldsEnabled r s registryCtx subject =
     config_chain cf_ValidateFields s registryCtx subject"

section \<open>Modes\<close>

definition isValidMode :: "string \<Rightarrow> bool" where
  "isValidMode mode \<longleftrightarrow> mode \<in> {''READWRITE'', ''READONLY'', ''READONLY_OVERRIDE'', ''IMPORT''}"

definition Registry_GetSubjectMode :: "'p Registry \<Rightarrow> Store \<Rightarrow> string \<Rightarrow> string \<Rightarrow> string result" where
  [registry_defs]: "Registry_GetSubjectMode r s registryCtx subject =
     (if subject = [] then Inl ErrNotFound
      else (case Store_GetMode s registryCtx subject of
              Inl err \<Rightarrow> Inl err | Inr mode \<Rightarrow> Inr (mo_Mode mode)))"

definition Registry_GetGlobalMode :: "'p Registry \<Rightarrow> Store \<Rightarrow> string \<Rightarrow> string result" where
  [registry_defs]: "Registry_GetGlobalMode r s registryCtx =
     (case Store_GetGlobalMode s registryCtx of
        Inl err \<Rightarrow> Inl err | Inr mode \<Rightarrow> Inr (mo_Mode mode))"

definition Registry_resolveGlobalMode :: "'p Registry \<Rightarrow> Store \<Rightarrow> string" where
  [registry_defs]: "Registry_resolveGlobalMode r s =
     (case Store_GetGlobalMode s DefaultContext of
        Inr mode \<Rightarrow> mo_Mode mode
      | Inl _ \<Rightarrow> (case Store_GetGlobalMode s GlobalContext of
                    Inr mode \<Rightarrow> mo_Mode mode
                  | Inl _ \<Rightarrow> ''READWRITE''))"

definition Registry_GetMode :: "'p Registry \<Rightarrow> Store \<Rightarrow> string \<Rightarrow> string \<Rightarrow> string reg_result" where
  [registry_defs]: "Registry_GetMode r s registryCtx subject =
     (let rest =
        (case Store_GetGlobalMode s registryCtx of
           Inr mode \<Rightarrow> Inr (mo_Mode mode)
         | Inl err \<Rightarrow>
             if err \<noteq> ErrNotFound then Inl (FailedGlobalMode err)
             else (case (if registryCtx \<noteq> GlobalContext then Store_GetGlobalMode s GlobalContext
                         else Inl ErrNotFound) of
                     Inr mode \<Rightarrow> Inr (mo_Mode mode)
                   | Inl _ \<Rightarrow> Inr ''READWRITE''))
      in if Registry_resolveGlobalMode r s = ''READONLY_OVERRIDE'' then Inr ''READONLY_OVERRIDE''
         else if subject \<noteq> []
         then (case Store_GetMode s registryCtx subject of
                 Inr mode \<Rightarrow> Inr (mo_Mode mode)
               | Inl err \<Rightarrow> if err \<noteq> ErrNotFound then Inl (StorageError err) else rest)
         else rest)"

definition Registry_GetGlobalModeDirect :: "'p Registry \<Rightarrow> Store \<Rightarrow> string \<Rightarrow> string reg_result" where
  [registry_defs]: "Registry_GetGlobalModeDirect r s registryCtx =
     (case Store_GetGlobalMode s registryCtx of
        Inr mode \<Rightarrow> Inr (mo_Mode mode)
      | Inl err \<Rightarrow> if err = ErrNotFound then Inr ''READWRITE'' else Inl (FailedGlobalMode err))"

definition Registry_hasSubjects :: "'p Registry \<Rightarrow> Store \<Rightarrow> string \<Rightarrow> string \<Rightarrow> bool result" where
  [registry_defs]: "Registry_hasSubjects r s registryCtx subject =
     (if subject = []
      then (case Store_ListSubjects s registryCtx False of
              Inl err \<Rightarrow> Inl err | Inr subjects \<Rightarrow> Inr (subjects \<noteq> []))
      else Store_SubjectExists s registryCtx subject)"

definition Registry_SetMode ::
  "'p Registry \<Rightarrow> Store \<Rightarrow> string \<Rightarrow> string \<Rightarrow> string \<Rightarrow> bool \<Rightarrow> Store \<times> registry_error option" where
  [registry_defs]: "Registry_SetMode r s registryCtx subject mode0 force =
     (let mode = ToUpper mode0;
          blocked = (if mode = ''IMPORT'' \<and> \<not> force \<and>
                        Registry_GetMode r s registryCtx subject \<noteq> Inr ''IMPORT''
                     then (case Registry_hasSubjects r s registryCtx subject of
                             Inl err \<Rightarrow> Some (StorageError err)
                           | Inr hasSchemas \<Rightarrow>
                               if hasSchemas then Some (StorageError ErrOperationNotPermitted) else None)
                     else None)
      in if \<not> isValidMode mode then (s, Some (InvalidMode mode))
         else case blocked of
                Some err \<Rightarrow> (s, Some err)
              | None \<Rightarrow>
                  (let modeRecord = \<lparr>mo_Subject = [], mo_Mode = mode\<rparr>;
                       (s', err) = (if subject = [] then Store_SetGlobalMode s registryCtx modeRecord
                                    else Store_SetMode s registryCtx subject modeRecord)
                   in (s', map_option StorageError err)))"

definition Registry_DeleteGlobalMode :: "'p Registry \<Rightarrow> Store \<Rightarrow> string \<Rightarrow> Store \<times> string result" where
  [registry_defs]: "Registry_DeleteGlobalMode r s registryCtx =
     (let prevMode = (case Store_GetGlobalMode s registryCtx of
                        Inl _ \<Rightarrow> ''READWRITE'' | Inr mode \<Rightarrow> mo_Mode mode)
      in case Store_DeleteGlobalMode s registryCtx of
           (s', Some err) \<Rightarrow> (s', Inl err)
         | (s', None) \<Rightarrow> (s', Inr prevMode))"

definition Registry_DeleteMode ::
  "'p Registry \<Rightarrow> Store \<Rightarrow> string \<Rightarrow> string \<Rightarrow> Store \<times> string result" where
  [registry_defs]: "Registry_DeleteMode r s registryCtx subject =
     (if subject = [] then Registry_DeleteGlobalMode r s registryCtx
      else (case Store_GetMode s registryCtx subject of
              Inl err \<Rightarrow> (s, Inl err)
            | Inr mode \<Rightarrow>
                (case Store_DeleteMode s registryCtx subject of
                   (s', Some err) \<Rightarrow> (s', Inl err)
                 | (s', None) \<Rightarrow> (s', Inr (mo_Mode mode)))))"

section \<open>Helpers of the handlers\<close>

definition Registry_CheckModeForWrite ::
  "'p Registry \<Rightarrow> Store \<Rightarrow> string \<Rightarrow> string \<Rightarrow> string reg_result" where
  [registry_defs]: "Registry_CheckModeForWrite r s registryCtx subject =
     (case Registry_GetMode r s registryCtx subject of
        Inl err \<Rightarrow> Inl (FailedCheckMode err)
      | Inr mode \<Rightarrow> if mode = ''READONLY'' \<or> mode = ''READONLY_OVERRIDE'' then Inr mode else Inr [])"

definition Registry_ResolveAlias :: "'p Registry \<Rightarrow> Store \<Rightarrow> string \<Rightarrow> string \<Rightarrow> string" where
  [registry_defs]: "Registry_ResolveAlias r s registryCtx subject =
     (if subject = [] then subject
      else (case Registry_GetSubjectConfigFull r s registryCtx subject of
              Inr config \<Rightarrow> if cf_Alias config \<noteq> [] then cf_Alias config else subject
            | Inl _ \<Rightarrow> subject))"

definition ParseVersion :: "string \<Rightarrow> int result" where
  "ParseVersion v =
     (if v = ''latest'' \<or> v = ''-1'' then Inr (-1)
      else (case Atoi v of
              None \<Rightarrow> Inl ErrInvalidVersion
            | Some n \<Rightarrow> if n < 1 then Inl ErrInvalidVersion else Inr n))"

end
