(* ===== verification/Registry_Metadata.thy ===== *)
theory Registry_Metadata
  imports Registry_Config
begin

text \<open>
  Metadata and rule sets during registration (\<open>internal/registry/registry.go\<close>): the transient
  property \<open>confluent:version\<close>, comparison for deduplication, the merge of configured defaults,
  request and overrides, the compatibility group and the reserved fields.  The lemmas show what a
  merge leaves of each side, that rule names stay unique, and that the property a response carries
  does not disturb the comparison when a client sends it back.
\<close>

section \<open>The property confluent:version\<close>

definition confluent_version :: string where
  "confluent_version = ''confluent:version''"

record RegisterOpts =
  ro_Normalize :: bool
  ro_Metadata :: "Metadata option"
  ro_RuleSet :: "RuleSet option"

definition extractConfluentVersionTarget :: "Metadata option \<Rightarrow> int" where
  "extractConfluentVersionTarget meta =
     (case meta of
        None \<Rightarrow> 0
      | Some m \<Rightarrow>
          (case md_Properties m of
             None \<Rightarrow> 0
           | Some props \<Rightarrow>
               (case gm_get props confluent_version of
                  None \<Rightarrow> 0
                | Some cvStr \<Rightarrow>
                    (case Atoi cvStr of None \<Rightarrow> 0 | Some cv \<Rightarrow> if cv \<le> 0 then 0 else cv))))"

definition stripConfluentVersion :: "Metadata option \<Rightarrow> Metadata option" where
  "stripConfluentVersion meta =
     (case meta of
        None \<Rightarrow> None
      | Some m \<Rightarrow>
          (case md_Properties m of
             None \<Rightarrow> meta
           | Some props \<Rightarrow>
               if gm_get props confluent_version = None then meta
               else
                 (let kept = DAList.filter (\<lambda>(k, v). k \<noteq> confluent_version) props;
                      newProps = (if gm_entries kept = [] then None else Some kept);
                      result = m\<lparr>md_Properties := newProps\<rparr>
                  in if md_Properties result = None \<and> md_Tags result = None \<and> md_Sensitive result = None
                     then None else Some result)))"

definition metadataEqual :: "Metadata option \<Rightarrow> Metadata option \<Rightarrow> bool" where
  "metadataEqual a b \<longleftrightarrow>
     a = None \<and> b = None \<or>
     Metadata_deep_eq (case a of None \<Rightarrow> Metadata_zero | Some m \<Rightarrow> m)
                      (case b of None \<Rightarrow> Metadata_zero | Some m \<Rightarrow> m)"

definition metadataEqualForDedup :: "Metadata option \<Rightarrow> Metadata option \<Rightarrow> bool" where
  "metadataEqualForDedup a b = metadataEqual (stripConfluentVersion a) (stripConfluentVersion b)"

definition ruleSetEqual :: "RuleSet option \<Rightarrow> RuleSet option \<Rightarrow> bool" where
  "ruleSetEqual a b \<longleftrightarrow>
     a = None \<and> b = None \<or>
     RuleSet_deep_eq (case a of None \<Rightarrow> RuleSet_zero | Some m \<Rightarrow> m)
                     (case b of None \<Rightarrow> RuleSet_zero | Some m \<Rightarrow> m)"

definition autoPopulateConfluentVersion :: "SchemaRecord \<Rightarrow> SchemaRecord" where
  "autoPopulateConfluentVersion record =
     (if sr_Version record \<le> 0 then record
      else
        (let meta = (case sr_Metadata record of None \<Rightarrow> Metadata_zero | Some m \<Rightarrow> m);
             props = (case md_Properties meta of None \<Rightarrow> gm_empty | Some p \<Rightarrow> p)
         in record\<lparr>sr_Metadata :=
              Some (meta\<lparr>md_Properties :=
                Some (gm_put confluent_version (Itoa (sr_Version record)) props)\<rparr>)\<rparr>))"

section \<open>Merging\<close>

definition nilable_entries :: "('k, 'v) gomap option \<Rightarrow> ('k \<times> 'v) list" where
  "nilable_entries m = (case m of None \<Rightarrow> [] | Some m' \<Rightarrow> gm_entries m')"

definition merge_maps ::
  "('k, 'v) gomap option \<Rightarrow> ('k, 'v) gomap option \<Rightarrow> ('k, 'v) gomap option" where
  "merge_maps base override =
     (if base \<noteq> None \<or> override \<noteq> None
      then Some (gm_put_all (nilable_entries override) (gm_put_all (nilable_entries base) gm_empty))
      else None)"

text \<open>Appending each entry not appended before.\<close>

definition append_new :: "string list \<Rightarrow> string list \<Rightarrow> string list" where
  "append_new xs acc = fold (\<lambda>x acc. if x \<in> set acc then acc else acc @ [x]) xs acc"

definition merge_sensitive :: "string slice \<Rightarrow> string slice \<Rightarrow> string slice" where
  "merge_sensitive base override =
     (if base \<noteq> None \<or> override \<noteq> None
      then slice_of (append_new (slice_list override) (append_new (slice_list base) []))
      else None)"

definition mergeMetadata :: "Metadata option \<Rightarrow> Metadata option \<Rightarrow> Metadata option" where
  "mergeMetadata base override =
     (case (base, override) of
        (None, _) \<Rightarrow> override
      | (_, None) \<Rightarrow> base
      | (Some b, Some v) \<Rightarrow>
          Some \<lparr>md_Tags = merge_maps (md_Tags b) (md_Tags v),
                md_Properties = merge_maps (md_Properties b) (md_Properties v),
                md_Sensitive = merge_sensitive (md_Sensitive b) (md_Sensitive v)\<rparr>)"

definition mergeRules :: "Rule slice \<Rightarrow> Rule slice \<Rightarrow> Rule slice" where
  "mergeRules base override =
     (if slice_list base = [] \<and> slice_list override = [] then None
      else if slice_list base = [] then override
      else if slice_list override = [] then base
      else
        (let overrideMap = gm_of_list (map (\<lambda>r. (ru_Name r, r)) (slice_list override));
             replaced = map (\<lambda>r. case gm_get overrideMap (ru_Name r) of Some o' \<Rightarrow> o' | None \<Rightarrow> r)
                          (slice_list base);
             seen = map ru_Name (filter (\<lambda>r. gm_get overrideMap (ru_Name r) \<noteq> None) (slice_list base))
         in Some (replaced @ filter (\<lambda>r. ru_Name r \<notin> set seen) (slice_list override))))"

definition mergeRuleSet :: "RuleSet option \<Rightarrow> RuleSet option \<Rightarrow> RuleSet option" where
  "mergeRuleSet base override =
     (case (base, override) of
        (None, _) \<Rightarrow> override
      | (_, None) \<Rightarrow> base
      | (Some b, Some v) \<Rightarrow>
          Some \<lparr>rs_MigrationRules = mergeRules (rs_MigrationRules b) (rs_MigrationRules v),
                rs_DomainRules = mergeRules (rs_DomainRules b) (rs_DomainRules v),
                rs_EncodingRules = mergeRules (rs_EncodingRules b) (rs_EncodingRules v)\<rparr>)"

definition Registry_maybeSetMetadataRuleSet ::
  "'p Registry \<Rightarrow> Store \<Rightarrow> string \<Rightarrow> string \<Rightarrow> RegisterOpts \<Rightarrow> SchemaRecord option \<Rightarrow> RegisterOpts" where
  [registry_defs]: "Registry_maybeSetMetadataRuleSet r s registryCtx subject opts prevSchema =
     (case Registry_GetConfigFull r s registryCtx subject of
        Inl _ \<Rightarrow> opts
      | Inr config \<Rightarrow>
          (let specificMeta =
                 (case ro_Metadata opts of
                    None \<Rightarrow> (case prevSchema of None \<Rightarrow> None | Some p \<Rightarrow> sr_Metadata p)
                  | Some m \<Rightarrow> Some m);
               merged = mergeMetadata (mergeMetadata (cf_DefaultMetadata config) specificMeta)
                          (cf_OverrideMetadata config);
               opts1 = (if merged \<noteq> None then opts\<lparr>ro_Metadata := merged\<rparr> else opts);
               specificRules =
                 (case ro_RuleSet opts1 of
                    None \<Rightarrow> (case prevSchema of None \<Rightarrow> None | Some p \<Rightarrow> sr_RuleSet p)
                  | Some m \<Rightarrow> Some m);
               mergedRules = mergeRuleSet (mergeRuleSet (cf_DefaultRuleSet config) specificRules)
                               (cf_OverrideRuleSet config)
           in if mergedRules \<noteq> None then opts1\<lparr>ro_RuleSet := mergedRules\<rparr> else opts1))"

section \<open>Compatibility groups and reserved fields\<close>

definition group_value :: "string \<Rightarrow> Metadata option \<Rightarrow> string" where
  "group_value groupKey meta =
     (case meta of
        None \<Rightarrow> []
      | Some m \<Rightarrow> (case md_Properties m of None \<Rightarrow> [] | Some props \<Rightarrow> gm_get0 [] props groupKey))"

definition Registry_filterByCompatibilityGroup ::
  "'p Registry \<Rightarrow> Store \<Rightarrow> string \<Rightarrow> string \<Rightarrow> Metadata option \<Rightarrow> SchemaRecord list \<Rightarrow>
     SchemaRecord list" where
  [registry_defs]: "Registry_filterByCompatibilityGroup r s registryCtx subject newMeta schemas =
     (if schemas = [] then schemas
      else (case Registry_GetSubjectConfigFull r s registryCtx subject of
              Inl _ \<Rightarrow> schemas
            | Inr config \<Rightarrow>
                if cf_CompatibilityGroup config = [] then schemas
                else (let groupKey = cf_CompatibilityGroup config
                      in filter (\<lambda>sch. group_value groupKey (sr_Metadata sch) = group_value groupKey newMeta)
                           schemas)))"

text \<open>The set of reserved names; nil and empty are not told apart by its callers.\<close>

definition getReservedFields :: "Metadata option \<Rightarrow> (string, bool) gomap" where
  "getReservedFields metadata =
     (case metadata of
        None \<Rightarrow> gm_empty
      | Some m \<Rightarrow>
          (case md_Properties m of
             None \<Rightarrow> gm_empty
           | Some props \<Rightarrow>
               (let val = gm_get0 [] props ''confluent:reserved''
                in if val = [] then gm_empty
                   else gm_of_list (map (\<lambda>f. (f, True))
                          (filter (\<lambda>f. f \<noteq> []) (map TrimSpace (SplitByte val (CHR '',''))))))))"

definition removed_message :: "string \<Rightarrow> string" where
  "removed_message field =
     ''The new schema has reserved field '' @ field @
     '' removed from its metadata which is present in the old schema''  @ [CHR 0x27] @ ''s metadata.''"

definition conflict_message :: "string \<Rightarrow> string" where
  "conflict_message field =
     ''The new schema has field that conflicts with the reserved field '' @ field @ ''.''"

definition Registry_validateReservedFields ::
  "string order \<Rightarrow> string order \<Rightarrow> 'p Registry \<Rightarrow> Store \<Rightarrow> string \<Rightarrow> string \<Rightarrow> 'p \<Rightarrow> Metadata option \<Rightarrow>
     string list" where
  [registry_defs]:
  "Registry_validateReservedFields it it' r s registryCtx subject parsed metadata =
     (let reservedFields = getReservedFields metadata;
          prevReserved = (case Store_GetLatestSchema s registryCtx subject of
                            Inl _ \<Rightarrow> gm_empty | Inr latest \<Rightarrow> getReservedFields (sr_Metadata latest));
          removed = filter (\<lambda>f. \<not> gm_get0 False reservedFields f) (it (gm_keys prevReserved));
          conflicts = filter (ps_HasTopLevelField (rg_parsed r) parsed) (it' (gm_keys reservedFields))
      in map removed_message removed @ map conflict_message conflicts)"

section \<open>Comparison\<close>

lemma metadataEqual_iff:
  "metadataEqual a b \<longleftrightarrow> Metadata_deep_eq (normalizeMetadata a) (normalizeMetadata b)"
  by (auto simp: metadataEqual_def normalizeMetadata_def md_deq.deq_refl split: option.splits)

lemma ruleSetEqual_iff:
  "ruleSetEqual a b \<longleftrightarrow> RuleSet_deep_eq (normalizeRuleSet a) (normalizeRuleSet b)"
  by (auto simp: ruleSetEqual_def normalizeRuleSet_def rs_deq.deq_refl split: option.splits)

interpretation meta_eq: deep_equality metadataEqual
  by unfold_locales
    (auto simp: metadataEqual_iff md_deq.deq_refl intro: md_deq.deq_sym md_deq.deq_trans)

interpretation rules_eq: deep_equality ruleSetEqual
  by unfold_locales
    (auto simp: ruleSetEqual_iff rs_deq.deq_refl intro: rs_deq.deq_sym rs_deq.deq_trans)

interpretation dedup_eq: deep_equality metadataEqualForDedup
  by unfold_locales
    (auto simp: metadataEqualForDedup_def meta_eq.deq_refl intro: meta_eq.deq_sym meta_eq.deq_trans)

text \<open>Whether metadata carry \<open>confluent:version\<close>.\<close>

definition has_confluent_version :: "Metadata option \<Rightarrow> bool" where
  "has_confluent_version meta \<longleftrightarrow>
     (\<exists>m props. meta = Some m \<and> md_Properties m = Some props \<and>
        gm_get props confluent_version \<noteq> None)"

lemma strip_unchanged: "\<not> has_confluent_version meta \<Longrightarrow> stripConfluentVersion meta = meta"
  by (auto simp: stripConfluentVersion_def has_confluent_version_def split: option.splits)

lemma gm_get_without_key:
  "gm_get (DAList.filter (\<lambda>(x, v). x \<noteq> k) m) = (gm_get m)(k := None)"
proof
  fix x
  have "gm_get (DAList.filter (\<lambda>(x, v). x \<noteq> k) m) x = Some v \<longleftrightarrow> ((gm_get m)(k := None)) x = Some v" for v
    by (auto simp: gm_get_filter)
  then show "gm_get (DAList.filter (\<lambda>(x, v). x \<noteq> k) m) x = ((gm_get m)(k := None)) x"
    by (metis option.exhaust)
qed

lemma strip_has_none: "\<not> has_confluent_version (stripConfluentVersion meta)"
proof (cases "has_confluent_version meta")
  case True
  then obtain m props where "meta = Some m" "md_Properties m = Some props"
    "gm_get props confluent_version \<noteq> None"
    by (auto simp: has_confluent_version_def)
  then show ?thesis
    by (simp add: stripConfluentVersion_def has_confluent_version_def gm_get_without_key Let_def)
next
  case False
  then show ?thesis by (simp add: strip_unchanged)
qed

lemma strip_idem: "stripConfluentVersion (stripConfluentVersion meta) = stripConfluentVersion meta"
  by (rule strip_unchanged) (rule strip_has_none)

lemma target_without: "\<not> has_confluent_version meta \<Longrightarrow> extractConfluentVersionTarget meta = 0"
  by (auto simp: extractConfluentVersionTarget_def has_confluent_version_def split: option.splits)

lemma auto_target:
  assumes "0 < sr_Version rec" "in_i64 (sr_Version rec)"
  shows "extractConfluentVersionTarget (sr_Metadata (autoPopulateConfluentVersion rec)) = sr_Version rec"
  using assms by (simp add: extractConfluentVersionTarget_def autoPopulateConfluentVersion_def Let_def
      gm_laws Atoi_Itoa)

text \<open>Metadata whose property map, when present, is not empty.\<close>

definition no_empty_properties :: "Metadata option \<Rightarrow> bool" where
  "no_empty_properties meta \<longleftrightarrow>
     (case meta of None \<Rightarrow> True | Some m \<Rightarrow> md_Properties m \<noteq> Some gm_empty)"

lemma filter_put_absent:
  "gm_get props k = None \<Longrightarrow>
     gm_get (DAList.filter (\<lambda>(x, v). x \<noteq> k) (gm_put k w props)) = gm_get props"
  by (auto simp: gm_get_without_key gm_laws fun_eq_iff)

lemma gm_entries_Nil_iff: "gm_entries m = [] \<longleftrightarrow> m = gm_empty"
  by (metis gm_entries_empty impl_of_inject)

lemma strip_auto:
  assumes "\<not> has_confluent_version (sr_Metadata rec)" "no_empty_properties (sr_Metadata rec)"
  shows "metadataEqual (stripConfluentVersion (sr_Metadata (autoPopulateConfluentVersion rec)))
           (sr_Metadata rec)"
proof (cases "sr_Version rec \<le> 0")
  case True
  with assms show ?thesis
    by (simp add: autoPopulateConfluentVersion_def strip_unchanged meta_eq.deq_refl)
next
  case False
  define m where "m = (case sr_Metadata rec of None \<Rightarrow> Metadata_zero | Some m \<Rightarrow> m)"
  define props where "props = (case md_Properties m of None \<Rightarrow> gm_empty | Some p \<Rightarrow> p)"
  define kept where "kept = DAList.filter (\<lambda>(k, v). k \<noteq> confluent_version)
                              (gm_put confluent_version (Itoa (sr_Version rec)) props)"
  have absent: "gm_get props confluent_version = None"
    using assms(1) by (auto simp: props_def m_def has_confluent_version_def Metadata_zero_def
        split: option.splits)
  have get: "gm_get kept = gm_get props"
    unfolding kept_def by (rule filter_put_absent [OF absent])
  then have empty: "gm_entries kept = [] \<longleftrightarrow> md_Properties m = None"
    using assms(2) gm.no_entries [of kept] gm.no_entries [of props]
    by (auto simp: props_def m_def no_empty_properties_def Metadata_zero_def gm_entries_Nil_iff
        split: option.splits)
  have auto: "sr_Metadata (autoPopulateConfluentVersion rec) =
      Some (m\<lparr>md_Properties := Some (gm_put confluent_version (Itoa (sr_Version rec)) props)\<rparr>)"
    using False by (simp add: autoPopulateConfluentVersion_def m_def props_def Let_def)
  have norm: "normalizeMetadata (sr_Metadata rec) = m"
    by (simp add: normalizeMetadata_def m_def)
  have deq: "opt_deep_eq (gm_deep_eq (=)) (if gm_entries kept = [] then None else Some kept) (md_Properties m)"
    using empty get by (auto simp: opt_deep_eq_def gm_deep_eq_iff props_def split: option.splits)
  show ?thesis
    using deq unfolding metadataEqual_iff norm auto
    by (simp add: stripConfluentVersion_def normalizeMetadata_def Metadata_deep_eq_def Let_def
        gm_laws kept_def [symmetric] map_opt_deq.deq_refl Metadata_zero_def
        split: option.splits if_splits)
qed

section \<open>Merging\<close>

lemma append_new_set: "set (append_new xs acc) = set acc \<union> set xs"
  unfolding append_new_def by (induction xs arbitrary: acc) auto

lemma append_new_distinct: "distinct acc \<Longrightarrow> distinct (append_new xs acc)"
  unfolding append_new_def by (induction xs arbitrary: acc) auto

lemma merge_sensitive_set:
  "set (slice_list (merge_sensitive a b)) = set (slice_list a) \<union> set (slice_list b)"
  "distinct (slice_list (merge_sensitive a b))"
  by (auto simp: merge_sensitive_def append_new_set append_new_distinct)

definition nilable_get :: "('k, 'v) gomap option \<Rightarrow> 'k \<Rightarrow> 'v option" where
  "nilable_get m k = (case m of None \<Rightarrow> None | Some m' \<Rightarrow> gm_get m' k)"

lemma merge_maps_get: "nilable_get (merge_maps a b) = nilable_get a ++ nilable_get b"
proof -
  have "gm_get (gm_put_all (nilable_entries m) n) = gm_get n ++ nilable_get m" for m and n :: "('a, 'b) gomap"
    by (cases m)
      (simp_all add: nilable_entries_def nilable_get_def [abs_def] gm_get_copy map_add_def fun_eq_iff
        gm_put_all_def [of "[]"])
  then show ?thesis
    by (auto simp: merge_maps_def nilable_get_def [abs_def] fun_eq_iff map_add_def split: option.splits)
qed

definition rule_named :: "Rule slice \<Rightarrow> string \<Rightarrow> Rule option" where
  "rule_named rs name = List.find (\<lambda>r. ru_Name r = name) (slice_list rs)"

definition names_unique :: "Rule slice \<Rightarrow> bool" where
  "names_unique rs \<longleftrightarrow> distinct (map ru_Name (slice_list rs))"

lemma find_names: "List.find (\<lambda>r. ru_Name r = name) rs = map_of (map (\<lambda>r. (ru_Name r, r)) rs) name"
  by (induction rs) auto

lemma map_of_names_rev:
  assumes "distinct (map ru_Name rs)"
  shows "map_of (rev (map (\<lambda>r. (ru_Name r, r)) rs)) = map_of (map (\<lambda>r. (ru_Name r, r)) rs)"
  using assms by (intro map_of_inject_set [THEN iffD2]) (simp_all add: rev_map [symmetric] comp_def)

abbreviation by_name :: "Rule list \<Rightarrow> string \<Rightarrow> Rule option" where
  "by_name rs \<equiv> map_of (map (\<lambda>r. (ru_Name r, r)) rs)"

definition override_rule :: "Rule list \<Rightarrow> Rule \<Rightarrow> Rule" where
  "override_rule os r = (case by_name os (ru_Name r) of Some o' \<Rightarrow> o' | None \<Rightarrow> r)"

lemma by_name_SomeD: "by_name rs n = Some r \<Longrightarrow> ru_Name r = n \<and> r \<in> set rs"
  by (auto dest!: map_of_SomeD)

lemma by_name_None: "by_name rs n = None \<longleftrightarrow> n \<notin> ru_Name ` set rs"
  by (force simp: map_of_eq_None_iff)

lemma override_rule_name [simp]: "ru_Name (override_rule os r) = ru_Name r"
  by (auto simp: override_rule_def dest: by_name_SomeD split: option.splits)

lemma mergeRules_list:
  assumes "names_unique override"
  shows "slice_list (mergeRules base override) =
     map (override_rule (slice_list override)) (slice_list base) @
     filter (\<lambda>r. ru_Name r \<notin> ru_Name ` set (slice_list base)) (slice_list override)"
proof -
  define bs os where "bs = slice_list base" and "os = slice_list override"
  have rest: "filter (\<lambda>r. ru_Name r \<notin> set (map ru_Name (filter (\<lambda>r. by_name os (ru_Name r) \<noteq> None) bs))) os
      = filter (\<lambda>r. ru_Name r \<notin> ru_Name ` set bs) os"
  proof (rule filter_cong [OF refl])
    fix r assume "r \<in> set os"
    then have "ru_Name r \<in> ru_Name ` set os" by simp
    then show "ru_Name r \<notin> set (map ru_Name (filter (\<lambda>r. by_name os (ru_Name r) \<noteq> None) bs)) \<longleftrightarrow>
        ru_Name r \<notin> ru_Name ` set bs"
      unfolding by_name_None by (force simp: image_iff)
  qed
  have uniq: "map_of (rev (map (\<lambda>r. (ru_Name r, r)) os)) = by_name os"
    using assms by (intro map_of_names_rev) (simp add: names_unique_def os_def)
  have "override_rule [] = (\<lambda>r. r)" by (simp add: override_rule_def fun_eq_iff)
  then show ?thesis
    unfolding mergeRules_def bs_def [symmetric] os_def [symmetric] Let_def gm_get_of_list uniq rest
    by (auto simp: bs_def os_def override_rule_def [abs_def])
qed

lemma by_name_override:
  "by_name (map (override_rule os) bs) n = map_option (override_rule os) (by_name bs n)"
  by (induction bs) auto

lemma by_name_filter:
  "n \<notin> N \<Longrightarrow> by_name (filter (\<lambda>r. ru_Name r \<notin> N) os) n = by_name os n"
  by (induction os) auto

lemma by_name_append: "by_name (xs @ ys) n = (case by_name xs n of None \<Rightarrow> by_name ys n | Some r \<Rightarrow> Some r)"
  by (simp add: map_add_def)

lemma rule_named_by_name: "rule_named rs n = by_name (slice_list rs) n"
  by (simp add: rule_named_def find_names)

text \<open>The merge takes the overriding rule of a name where there is one, and keeps names unique.\<close>

lemma mergeRules_named:
  assumes "names_unique override"
  shows "rule_named (mergeRules base override) = rule_named base ++ rule_named override"
proof
  fix n
  define bs os where "bs = slice_list base" and "os = slice_list override"
  have "rule_named (mergeRules base override) n =
      (case map_option (override_rule os) (by_name bs n) of
         None \<Rightarrow> by_name (filter (\<lambda>r. ru_Name r \<notin> ru_Name ` set bs) os) n | Some r \<Rightarrow> Some r)"
    unfolding bs_def os_def rule_named_by_name mergeRules_list [OF assms]
    by (simp only: by_name_append by_name_override)
  also have "\<dots> = (case by_name os n of None \<Rightarrow> by_name bs n | Some r \<Rightarrow> Some r)"
  proof (cases "by_name bs n")
    case None
    then have "by_name (filter (\<lambda>r. ru_Name r \<notin> ru_Name ` set bs) os) n = by_name os n"
      by (intro by_name_filter by_name_None [THEN iffD1])
    then show ?thesis unfolding None by (simp split: option.splits)
  next
    case (Some b)
    then have "ru_Name b = n" using by_name_SomeD by blast
    then show ?thesis unfolding Some by (simp add: override_rule_def split: option.splits)
  qed
  finally show "rule_named (mergeRules base override) n = (rule_named base ++ rule_named override) n"
    by (simp only: rule_named_by_name map_add_def bs_def os_def)
qed

lemma mergeRules_unique:
  assumes "names_unique base" "names_unique override"
  shows "names_unique (mergeRules base override)"
proof -
  have disj: "x \<in> set (slice_list base) \<Longrightarrow> ru_Name x = ru_Name y \<Longrightarrow>
      ru_Name y \<notin> ru_Name ` set (slice_list base) \<Longrightarrow> False" for x y
    by (metis image_eqI)
  show ?thesis
    using assms unfolding names_unique_def mergeRules_list [OF assms(2)]
    by (auto simp: comp_def distinct_map_filter intro: disj)
qed

text \<open>What metadata say, nil or not: a property, a tag, the sensitive fields.\<close>

definition meta_prop :: "Metadata option \<Rightarrow> string \<Rightarrow> string option" where
  "meta_prop meta = nilable_get (Option.bind meta md_Properties)"

definition meta_tag :: "Metadata option \<Rightarrow> string \<Rightarrow> string slice option" where
  "meta_tag meta = nilable_get (Option.bind meta md_Tags)"

definition meta_sensitive :: "Metadata option \<Rightarrow> string set" where
  "meta_sensitive meta = set (slice_list (Option.bind meta md_Sensitive))"

lemma nilable_get_None [simp]: "nilable_get None = Map.empty"
  by (simp add: nilable_get_def fun_eq_iff)

lemma mergeMetadata_says:
  "meta_prop (mergeMetadata a b) = meta_prop a ++ meta_prop b"
  "meta_tag (mergeMetadata a b) = meta_tag a ++ meta_tag b"
  "meta_sensitive (mergeMetadata a b) = meta_sensitive a \<union> meta_sensitive b"
  by (cases a; cases b; simp add: meta_prop_def meta_tag_def meta_sensitive_def mergeMetadata_def
      merge_maps_get merge_sensitive_set)+

lemma mergeRuleSet_rules:
  assumes "sel \<in> {rs_MigrationRules, rs_DomainRules, rs_EncodingRules}"
    and "names_unique (Option.bind a sel)" "names_unique (Option.bind b sel)"
  shows "rule_named (Option.bind (mergeRuleSet a b) sel) = rule_named (Option.bind a sel) ++ rule_named (Option.bind b sel)"
    and "names_unique (Option.bind (mergeRuleSet a b) sel)"
proof -
  have none: "rule_named None = Map.empty" by (simp add: rule_named_def fun_eq_iff)
  show "rule_named (Option.bind (mergeRuleSet a b) sel) = rule_named (Option.bind a sel) ++ rule_named (Option.bind b sel)"
    using assms mergeRules_named by (cases a; cases b) (auto simp: mergeRuleSet_def none)
  show "names_unique (Option.bind (mergeRuleSet a b) sel)"
    using assms mergeRules_unique by (cases a; cases b) (auto simp: mergeRuleSet_def)
qed

end
