(* ===== verification/Memory_Invariant.thy ===== *)
theory Memory_Invariant
  imports Memory_Subjects
begin

text \<open>
  The invariant of a context of the in-memory backend and its preservation.  A context keeps four
  redundant maps: the versions of each subject, the content by ID, the IDs by fingerprint, and the
  reverse index from IDs to the versions that use them.  \<open>index_inv\<close> says how they agree; it is
  stated over a view \<open>V\<close> of the versions and a set \<open>P\<close> of IDs whose content is stored but not yet
  used, so that it can also be stated in the middle of an operation.
\<close>

type_synonym version_view = "string \<Rightarrow> int \<Rightarrow> subjectVersionInfo option"

definition versions_of :: "contextStore \<Rightarrow> version_view" where
  "versions_of cs subject = gm_get (subject_versions cs subject)"

definition users_of :: "contextStore \<Rightarrow> int \<Rightarrow> SubjectVersion list" where
  "users_of cs i = gm_get0 [] (cs_idToSubjectVersions cs) i"

definition index_inv :: "int set \<Rightarrow> version_view \<Rightarrow> contextStore \<Rightarrow> bool" where
  "index_inv P V cs \<longleftrightarrow>
     (\<forall>i sv. sv \<in> set (users_of cs i) \<longleftrightarrow>
        (\<exists>info. V (sv_Subject sv) (sv_Version sv) = Some info \<and> si_schemaID info = i)) \<and>
     (\<forall>i. distinct (users_of cs i)) \<and>
     (\<forall>i. gm_get (cs_schemas cs) i \<noteq> None \<longleftrightarrow> users_of cs i \<noteq> [] \<or> i \<in> P) \<and>
     (\<forall>i r. gm_get (cs_schemas cs) i = Some r \<longrightarrow> sr_ID r = i) \<and>
     (\<forall>fp i. gm_get (cs_fingerprints cs) fp = Some i \<longrightarrow>
        (\<exists>r. gm_get (cs_schemas cs) i = Some r \<and> sr_Fingerprint r = fp))"

definition counters_inv :: "version_view \<Rightarrow> contextStore \<Rightarrow> bool" where
  "counters_inv V cs \<longleftrightarrow>
     (\<forall>subject version info. V subject version = Some info \<longrightarrow>
        si_version info = version \<and> 1 \<le> version \<and>
        version \<le> gm_get0 0 (cs_nextSubjectVersion cs) subject) \<and>
     (\<forall>subject. 0 \<le> gm_get0 0 (cs_nextSubjectVersion cs) subject \<and>
        gm_get0 0 (cs_nextSubjectVersion cs) subject \<le> max_int64)"

definition ctx_inv :: "contextStore \<Rightarrow> bool" where
  "ctx_inv cs \<longleftrightarrow> index_inv {} (versions_of cs) cs \<and> counters_inv (versions_of cs) cs"

text \<open>The IDs in use lie below the sequence.\<close>

definition ids_below :: "contextStore \<Rightarrow> bool" where
  "ids_below cs \<longleftrightarrow> (\<forall>i. gm_get (cs_schemas cs) i \<noteq> None \<longrightarrow> i < cs_nextID cs)"

section \<open>Elementary facts\<close>

lemma gm_get0_put [simp]: "gm_get0 z (gm_put k v m) k' = (if k' = k then v else gm_get0 z m k')"
  by (simp add: gm_get0_def gm_laws)

lemma gm_get0_del [simp]: "gm_get0 z (gm_del k m) k' = (if k' = k then z else gm_get0 z m k')"
  by (simp add: gm_get0_def gm_laws)

lemma gm_get0_empty [simp]: "gm_get0 z gm_empty k = z"
  by (simp add: gm_get0_def)

lemma subject_versions_put [simp]:
  "subject_versions (cs\<lparr>cs_subjectVersions := gm_put s vm m\<rparr>) s' =
     (if s' = s then vm else gm_get0 gm_empty m s')"
  by (simp add: subject_versions_def)

lemma subject_versions_ensure [simp]:
  "subject_versions (ensure_subject cs s) s' = subject_versions cs s'"
  by (auto simp: subject_versions_def ensure_subject_def gm_get0_def gm_laws split: option.splits)

lemma versions_of_ensure [simp]: "versions_of (ensure_subject cs s) = versions_of cs"
  by (simp add: versions_of_def fun_eq_iff)

lemma versions_of_cong:
  "cs_subjectVersions cs' = cs_subjectVersions cs \<Longrightarrow> versions_of cs' = versions_of cs"
  by (simp add: versions_of_def subject_versions_def fun_eq_iff)

lemma ensure_subject_fields [simp]:
  "cs_schemas (ensure_subject cs s) = cs_schemas cs"
  "cs_fingerprints (ensure_subject cs s) = cs_fingerprints cs"
  "cs_idToSubjectVersions (ensure_subject cs s) = cs_idToSubjectVersions cs"
  "cs_nextSubjectVersion (ensure_subject cs s) = cs_nextSubjectVersion cs"
  "cs_nextID (ensure_subject cs s) = cs_nextID cs"
  "cs_configs (ensure_subject cs s) = cs_configs cs"
  "cs_modes (ensure_subject cs s) = cs_modes cs"
  "cs_globalConfig (ensure_subject cs s) = cs_globalConfig cs"
  "cs_globalMode (ensure_subject cs s) = cs_globalMode cs"
  by (auto simp: ensure_subject_def split: option.splits)

text \<open>The invariant reads four fields only.\<close>

lemma index_inv_cong:
  assumes "cs_schemas cs' = cs_schemas cs" "cs_fingerprints cs' = cs_fingerprints cs"
    and "cs_idToSubjectVersions cs' = cs_idToSubjectVersions cs"
  shows "index_inv P V cs' = index_inv P V cs"
  by (simp add: index_inv_def users_of_def assms)

lemma counters_inv_cong:
  "cs_nextSubjectVersion cs' = cs_nextSubjectVersion cs \<Longrightarrow> counters_inv V cs' = counters_inv V cs"
  by (simp add: counters_inv_def)

lemma index_inv_ensure [simp]: "index_inv P V (ensure_subject cs s) = index_inv P V cs"
  by (rule index_inv_cong) simp_all

lemma counters_inv_ensure [simp]: "counters_inv V (ensure_subject cs s) = counters_inv V cs"
  by (rule counters_inv_cong) simp

lemma ctx_inv_ensure [simp]: "ctx_inv (ensure_subject cs s) = ctx_inv cs"
  by (simp add: ctx_inv_def)

lemma ctx_inv_new: "ctx_inv newContextStore"
  by (simp add: ctx_inv_def index_inv_def counters_inv_def users_of_def versions_of_def
      subject_versions_def newContextStore_def max_int64_def)

lemma ids_below_new: "ids_below newContextStore"
  by (simp add: ids_below_def newContextStore_def)

lemma index_invD:
  assumes "index_inv P V cs"
  shows index_users: "sv \<in> set (users_of cs i) \<longleftrightarrow>
          (\<exists>info. V (sv_Subject sv) (sv_Version sv) = Some info \<and> si_schemaID info = i)"
    and index_distinct: "distinct (users_of cs i)"
    and index_content: "gm_get (cs_schemas cs) i \<noteq> None \<longleftrightarrow> users_of cs i \<noteq> [] \<or> i \<in> P"
    and index_ID: "gm_get (cs_schemas cs) i = Some r \<Longrightarrow> sr_ID r = i"
    and index_fp: "gm_get (cs_fingerprints cs) fp = Some i \<Longrightarrow>
          \<exists>r. gm_get (cs_schemas cs) i = Some r \<and> sr_Fingerprint r = fp"
  using assms by (auto simp: index_inv_def)

lemma version_content:
  assumes "index_inv P V cs" "V subject version = Some info"
  shows "\<exists>r. gm_get (cs_schemas cs) (si_schemaID info) = Some r \<and> sr_ID r = si_schemaID info"
proof -
  have "\<lparr>sv_Subject = subject, sv_Version = version\<rparr> \<in> set (users_of cs (si_schemaID info))"
    using index_users [OF assms(1)] assms(2) by auto
  then have "gm_get (cs_schemas cs) (si_schemaID info) \<noteq> None"
    using index_content [OF assms(1)] by (metis list.set_cases list.distinct(1))
  then show ?thesis using index_ID [OF assms(1)] by blast
qed

section \<open>Adding a version\<close>

lemma assign_schema_id_index:
  assumes inv: "index_inv {} V cs" and fresh: "gm_get (cs_schemas cs) (cs_nextID cs) = None"
    and asg: "assign_schema_id cs record = (cs', i)"
  shows "index_inv {i} V cs'"
proof (cases "gm_get (cs_fingerprints cs) (sr_Fingerprint record)")
  case None
  with asg have cs': "cs' = cs\<lparr>cs_nextID := i64 (cs_nextID cs + 1),
        cs_fingerprints := gm_put (sr_Fingerprint record) i (cs_fingerprints cs),
        cs_schemas := gm_put i (stored_content i record) (cs_schemas cs)\<rparr>"
    and i: "i = cs_nextID cs"
    by (auto simp: assign_schema_id_def Let_def)
  from inv fresh show ?thesis
    unfolding cs' i index_inv_def users_of_def
    by (auto simp: gm_laws stored_content_def) (metis option.distinct(1))
next
  case (Some j)
  with asg have "cs' = cs" "i = j" by (simp_all add: assign_schema_id_def)
  moreover have "users_of cs j \<noteq> []"
    using index_fp [OF inv Some] index_content [OF inv, of j] by auto
  ultimately show ?thesis using inv by (auto simp: index_inv_def)
qed

lemma users_of_add_version:
  "users_of (add_version cs subject version info) i =
     users_of cs i @ (if i = si_schemaID info
                      then [\<lparr>sv_Subject = subject, sv_Version = version\<rparr>] else [])"
  by (simp add: users_of_def add_version_def)

lemma versions_of_add_version:
  "versions_of (add_version cs subject version info) =
     (versions_of cs)(subject := (versions_of cs subject)(version \<mapsto> info))"
  by (simp add: versions_of_def add_version_def subject_versions_def fun_eq_iff gm_laws)

lemma add_version_fields [simp]:
  "cs_schemas (add_version cs subject version info) = cs_schemas cs"
  "cs_fingerprints (add_version cs subject version info) = cs_fingerprints cs"
  "cs_nextSubjectVersion (add_version cs subject version info) = cs_nextSubjectVersion cs"
  "cs_nextID (add_version cs subject version info) = cs_nextID cs"
  by (simp_all add: add_version_def)

lemma add_version_index:
  assumes inv: "index_inv {si_schemaID info} V cs" and new: "V subject version = None"
  shows "index_inv {} (V(subject := (V subject)(version \<mapsto> info)))
           (add_version cs subject version info)"
proof -
  have fresh: "\<lparr>sv_Subject = subject, sv_Version = version\<rparr> \<notin> set (users_of cs i)" for i
    using index_users [OF inv] new by simp
  have users: "sv \<in> set (users_of (add_version cs subject version info) i) \<longleftrightarrow>
      (\<exists>info'. (V(subject := (V subject)(version \<mapsto> info))) (sv_Subject sv) (sv_Version sv)
         = Some info' \<and> si_schemaID info' = i)" for sv i
  proof (cases "sv = \<lparr>sv_Subject = subject, sv_Version = version\<rparr>")
    case True
    then show ?thesis using fresh by (auto simp: users_of_add_version)
  next
    case False
    then have "\<not> (sv_Subject sv = subject \<and> sv_Version sv = version)" by auto
    then show ?thesis using False index_users [OF inv]
      by (auto simp: users_of_add_version)
  qed
  have content: "gm_get (cs_schemas cs) i \<noteq> None \<longleftrightarrow>
      users_of (add_version cs subject version info) i \<noteq> []" for i
    using index_content [OF inv, of i] by (auto simp: users_of_add_version)
  show ?thesis
    unfolding index_inv_def
    using users content index_distinct [OF inv] fresh index_ID [OF inv] index_fp [OF inv]
    by (auto simp: users_of_add_version)
qed

section \<open>Releasing a version\<close>

lemma release_fields [simp]:
  "cs_subjectVersions (release_schema subject version i cs) = cs_subjectVersions cs"
  "cs_nextSubjectVersion (release_schema subject version i cs) = cs_nextSubjectVersion cs"
  "cs_nextID (release_schema subject version i cs) = cs_nextID cs"
  by (simp_all add: release_schema_def Let_def)

lemma users_of_release:
  "users_of (release_schema subject version i cs) j =
     (if j = i then filter (\<lambda>sv. sv_Subject sv \<noteq> subject \<or> sv_Version sv \<noteq> version) (users_of cs i)
      else users_of cs j)"
  by (auto simp: users_of_def release_schema_def Let_def)

lemma release_schemas:
  "gm_get (cs_schemas (release_schema subject version i cs)) j =
     (if j = i \<and> users_of (release_schema subject version i cs) i = [] then None
      else gm_get (cs_schemas cs) j)"
  by (simp add: users_of_release) (simp add: release_schema_def Let_def gm_laws users_of_def)

lemma release_fingerprints:
  assumes "gm_get (cs_fingerprints (release_schema subject version i cs)) fp = Some j"
  shows "gm_get (cs_fingerprints cs) fp = Some j \<and>
     (users_of (release_schema subject version i cs) i = [] \<longrightarrow>
        (\<forall>r. gm_get (cs_schemas cs) i = Some r \<longrightarrow> sr_Fingerprint r \<noteq> fp))"
  using assms
  by (auto simp: users_of_release release_schema_def Let_def users_of_def gm_laws
      split: option.splits if_splits)

lemma release_index:
  assumes inv: "index_inv {} V cs" and info: "V subject version = Some info"
  shows "index_inv {} (V(subject := (V subject)(version := None)))
           (release_schema subject version (si_schemaID info) cs)"
    (is "index_inv _ ?V ?cs")
proof -
  have users: "sv \<in> set (users_of ?cs i) \<longleftrightarrow>
      (\<exists>info'. ?V (sv_Subject sv) (sv_Version sv) = Some info' \<and> si_schemaID info' = i)" for sv i
    using index_users [OF inv, of sv i] info by (auto simp: users_of_release)
  have content: "gm_get (cs_schemas ?cs) i \<noteq> None \<longleftrightarrow> users_of ?cs i \<noteq> []" for i
    using index_content [OF inv, of i] by (auto simp: release_schemas users_of_release)
  have fp: "\<exists>r. gm_get (cs_schemas ?cs) j = Some r \<and> sr_Fingerprint r = fp"
    if "gm_get (cs_fingerprints ?cs) fp = Some j" for fp j
    using release_fingerprints [OF that] index_fp [OF inv, of fp j]
    by (auto simp: release_schemas)
  show ?thesis
    unfolding index_inv_def
    using users content fp index_distinct [OF inv] index_ID [OF inv]
    by (auto simp: users_of_release release_schemas split: if_splits)
qed

section \<open>The operations keep the invariant\<close>

lemma is_duplicate_ensure [simp]: "is_duplicate (ensure_subject cs s) = is_duplicate cs"
  by (simp add: is_duplicate_def fun_eq_iff)

text \<open>The two outcomes of \<open>CreateSchema\<close>.\<close>

lemma ctx_CreateSchema_exists:
  assumes "range_order it" and "ctx_CreateSchema it now now' cs record = (cs', record', Some e)"
  shows "e = ErrSchemaExists \<and> cs' = ensure_subject cs (sr_Subject record) \<and>
     (\<exists>version info. versions_of cs (sr_Subject record) version = Some info \<and>
        is_duplicate cs record info \<and>
        record' = record\<lparr>sr_ID := si_schemaID info, sr_Version := si_version info\<rparr>)"
  using assms
  by (auto simp: ctx_CreateSchema_def Let_def versions_of_def gm.entry_iff
      split: option.splits prod.splits dest!: find_Some_range) blast

lemma ctx_CreateSchema_created:
  assumes "range_order it" and "ctx_CreateSchema it now now' cs record = (cs', record', None)"
  obtains cs2 schemaID version where
    "assign_schema_id (ensure_subject cs (sr_Subject record)) record = (cs2, schemaID)"
    "version = i64 (gm_get0 0 (cs_nextSubjectVersion cs) (sr_Subject record) + 1)"
    "cs' = add_version (cs2\<lparr>cs_nextSubjectVersion :=
                gm_put (sr_Subject record) version (cs_nextSubjectVersion cs2)\<rparr>)
              (sr_Subject record) version (new_version_info schemaID version now record)"
    "record' = record\<lparr>sr_ID := schemaID, sr_Version := version, sr_CreatedAt := now'\<rparr>"
    "cs_nextSubjectVersion cs2 = cs_nextSubjectVersion cs"
    "versions_of cs2 = versions_of cs"
    "\<And>v info. versions_of cs (sr_Subject record) v = Some info \<Longrightarrow> \<not> is_duplicate cs record info"
proof -
  obtain cs2 schemaID where asg:
    "assign_schema_id (ensure_subject cs (sr_Subject record)) record = (cs2, schemaID)"
    by force
  then have f: "cs_nextSubjectVersion cs2 = cs_nextSubjectVersion cs"
    and "cs_subjectVersions cs2 = cs_subjectVersions (ensure_subject cs (sr_Subject record))"
    by (auto simp: assign_schema_id_def Let_def split: option.splits)
  then have f2: "versions_of cs2 = versions_of cs"
    using versions_of_cong versions_of_ensure by metis
  from assms asg have "List.find (\<lambda>(_, info). is_duplicate cs record info)
      (it (gm_entries (subject_versions cs (sr_Subject record)))) = None"
    by (auto simp: ctx_CreateSchema_def Let_def split: option.splits prod.splits)
  then have "\<And>v info. versions_of cs (sr_Subject record) v = Some info \<Longrightarrow>
      \<not> is_duplicate cs record info"
    using find_None_range [OF assms(1)]
    by (simp add: versions_of_def) (metis (no_types, lifting) gm.entry_iff case_prodI)
  with that asg f f2 assms show thesis
    by (auto simp: ctx_CreateSchema_def Let_def split: option.splits prod.splits)
qed

lemma counters_next_fresh:
  assumes "counters_inv V cs" "gm_get0 0 (cs_nextSubjectVersion cs) subject < max_int64"
  shows "i64 (gm_get0 0 (cs_nextSubjectVersion cs) subject + 1) =
           gm_get0 0 (cs_nextSubjectVersion cs) subject + 1"
    and "V subject (gm_get0 0 (cs_nextSubjectVersion cs) subject + 1) = None"
proof -
  let ?n = "gm_get0 0 (cs_nextSubjectVersion cs) subject"
  have "0 \<le> ?n" using assms(1) by (simp add: counters_inv_def)
  with assms(2) show "i64 (?n + 1) = ?n + 1"
    by (intro i64_succ) (auto simp: in_i64_def max_int64_def)
  show "V subject (?n + 1) = None"
    using assms(1) by (cases "V subject (?n + 1)") (auto simp: counters_inv_def dest!: spec)
qed

lemma counters_add:
  assumes inv: "counters_inv V cs" and n: "gm_get0 0 (cs_nextSubjectVersion cs') subject = n"
    and oth: "\<And>s. s \<noteq> subject \<Longrightarrow>
          gm_get0 0 (cs_nextSubjectVersion cs') s = gm_get0 0 (cs_nextSubjectVersion cs) s"
    and mono: "gm_get0 0 (cs_nextSubjectVersion cs) subject \<le> n"
    and v: "1 \<le> version" "version \<le> n" "n \<le> max_int64" "si_version info = version"
  shows "counters_inv (V(subject := (V subject)(version \<mapsto> info))) cs'"
  unfolding counters_inv_def
proof (intro conjI allI impI)
  fix s v' info'
  assume "(V(subject := (V subject)(version \<mapsto> info))) s v' = Some info'"
  then show "si_version info' = v'" "1 \<le> v'" "v' \<le> gm_get0 0 (cs_nextSubjectVersion cs') s"
    using inv n oth mono v by (auto simp: counters_inv_def split: if_splits) force+
next
  fix s
  show "0 \<le> gm_get0 0 (cs_nextSubjectVersion cs') s"
    "gm_get0 0 (cs_nextSubjectVersion cs') s \<le> max_int64"
    using inv n oth mono v by (cases "s = subject"; force simp: counters_inv_def)+
qed

theorem ctx_CreateSchema_inv:
  assumes it: "range_order it" and inv: "ctx_inv cs"
    and fresh: "gm_get (cs_schemas cs) (cs_nextID cs) = None"
    and room: "gm_get0 0 (cs_nextSubjectVersion cs) (sr_Subject record) < max_int64"
    and run: "ctx_CreateSchema it now now' cs record = (cs', record', err)"
  shows "ctx_inv cs'"
proof (cases err)
  case (Some e)
  with ctx_CreateSchema_exists [OF it] run inv show ?thesis by (metis ctx_inv_ensure)
next
  case None
  with run obtain cs2 schemaID version where r:
    "assign_schema_id (ensure_subject cs (sr_Subject record)) record = (cs2, schemaID)"
    "version = i64 (gm_get0 0 (cs_nextSubjectVersion cs) (sr_Subject record) + 1)"
    "cs' = add_version (cs2\<lparr>cs_nextSubjectVersion :=
                gm_put (sr_Subject record) version (cs_nextSubjectVersion cs2)\<rparr>)
              (sr_Subject record) version (new_version_info schemaID version now record)"
    "cs_nextSubjectVersion cs2 = cs_nextSubjectVersion cs" "versions_of cs2 = versions_of cs"
    by (auto elim: ctx_CreateSchema_created [OF it])
  let ?n = "gm_get0 0 (cs_nextSubjectVersion cs) (sr_Subject record)"
  let ?info = "new_version_info schemaID version now record"
  let ?cs3 = "cs2\<lparr>cs_nextSubjectVersion :=
                gm_put (sr_Subject record) version (cs_nextSubjectVersion cs2)\<rparr>"
  from inv have i: "index_inv {} (versions_of cs) cs" and c: "counters_inv (versions_of cs) cs"
    by (simp_all add: ctx_inv_def)
  have v: "version = ?n + 1" and new: "versions_of cs (sr_Subject record) version = None"
    using counters_next_fresh [OF c room] r(2) by simp_all
  have V3: "versions_of ?cs3 = versions_of cs"
    using r(5) versions_of_cong [of ?cs3 cs2] by simp
  have "index_inv {schemaID} (versions_of cs) cs2"
    using assign_schema_id_index [OF _ _ r(1), of "versions_of cs"] i fresh by simp
  then have "index_inv {si_schemaID ?info} (versions_of cs) ?cs3"
    by (simp add: new_version_info_def index_inv_def users_of_def)
  then have "index_inv {} (versions_of cs') cs'"
    using add_version_index [where V = "versions_of cs", OF _ new, of ?info ?cs3] r(3) V3 by (simp add: versions_of_add_version)
  moreover have "counters_inv (versions_of cs') cs'"
  proof -
    have "0 \<le> ?n" using c by (simp add: counters_inv_def)
    then show ?thesis
      using room unfolding r(3) versions_of_add_version V3
      by (intro counters_add [OF c, where n = version])
        (auto simp: v r(4) new_version_info_def max_int64_def)
  qed
  ultimately show ?thesis by (simp add: ctx_inv_def)
qed

lemma ctx_ImportSchema_exists:
  assumes "ctx_ImportSchema now now' cs record = (cs', record', Some e)"
  shows "cs' = cs \<or> cs' = ensure_subject cs (sr_Subject record)"
  using assms by (auto simp: ctx_ImportSchema_def Let_def split: if_splits)

lemma ctx_ImportSchema_created:
  assumes "ctx_ImportSchema now now' cs record = (cs', record', None)"
  obtains cs4 where
    "cs' = add_version cs4 (sr_Subject record) (sr_Version record)
             (new_version_info (sr_ID record) (sr_Version record) now record)"
    "record' = record\<lparr>sr_CreatedAt := now'\<rparr>"
    "versions_of cs4 = versions_of cs"
    "versions_of cs (sr_Subject record) (sr_Version record) = None"
    "cs_idToSubjectVersions cs4 = cs_idToSubjectVersions cs"
    "cs_nextID cs4 = cs_nextID cs"
    "gm_get (cs_fingerprints cs4) = (gm_get (cs_fingerprints cs))(sr_Fingerprint record \<mapsto> sr_ID record)"
    "gm_get (cs_schemas cs4) =
       (case gm_get (cs_schemas cs) (sr_ID record) of
          None \<Rightarrow> (gm_get (cs_schemas cs))(sr_ID record \<mapsto> stored_content (sr_ID record) record)
        | Some _ \<Rightarrow> gm_get (cs_schemas cs))"
    "\<And>r. gm_get (cs_schemas cs) (sr_ID record) = Some r \<Longrightarrow> sr_Fingerprint r = sr_Fingerprint record"
    "cs_nextSubjectVersion cs4 =
       (if sr_Version record \<ge> gm_get0 0 (cs_nextSubjectVersion cs) (sr_Subject record)
        then gm_put (sr_Subject record) (sr_Version record) (cs_nextSubjectVersion cs)
        else cs_nextSubjectVersion cs)"
proof -
  define cs2 where "cs2 = (let cs1 = ensure_subject cs (sr_Subject record) in
     if gm_get (cs_schemas cs) (sr_ID record) = None
     then cs1\<lparr>cs_schemas := gm_put (sr_ID record) (stored_content (sr_ID record) record)
                              (cs_schemas cs1)\<rparr> else cs1)"
  define cs3 where "cs3 = cs2\<lparr>cs_fingerprints :=
     gm_put (sr_Fingerprint record) (sr_ID record) (cs_fingerprints cs2)\<rparr>"
  define cs4 where "cs4 =
     (if sr_Version record \<ge> gm_get0 0 (cs_nextSubjectVersion cs3) (sr_Subject record)
      then cs3\<lparr>cs_nextSubjectVersion := gm_put (sr_Subject record) (sr_Version record)
                                            (cs_nextSubjectVersion cs3)\<rparr> else cs3)"
  have "cs_subjectVersions cs4 = cs_subjectVersions (ensure_subject cs (sr_Subject record))"
    by (simp add: cs4_def cs3_def cs2_def Let_def)
  then have V: "versions_of cs4 = versions_of cs"
    using versions_of_cong versions_of_ensure by metis
  have fields: "cs_idToSubjectVersions cs4 = cs_idToSubjectVersions cs"
    "cs_nextID cs4 = cs_nextID cs"
    "gm_get (cs_fingerprints cs4) = (gm_get (cs_fingerprints cs))(sr_Fingerprint record \<mapsto> sr_ID record)"
    "gm_get (cs_schemas cs4) =
       (case gm_get (cs_schemas cs) (sr_ID record) of
          None \<Rightarrow> (gm_get (cs_schemas cs))(sr_ID record \<mapsto> stored_content (sr_ID record) record)
        | Some _ \<Rightarrow> gm_get (cs_schemas cs))"
    "cs_nextSubjectVersion cs4 =
       (if sr_Version record \<ge> gm_get0 0 (cs_nextSubjectVersion cs) (sr_Subject record)
        then gm_put (sr_Subject record) (sr_Version record) (cs_nextSubjectVersion cs)
        else cs_nextSubjectVersion cs)"
    by (simp_all add: cs4_def cs3_def cs2_def Let_def gm_laws split: option.splits)
  from assms have run:
    "cs' = add_version cs4 (sr_Subject record) (sr_Version record)
             (new_version_info (sr_ID record) (sr_Version record) now record)"
    "record' = record\<lparr>sr_CreatedAt := now'\<rparr>"
    "versions_of cs (sr_Subject record) (sr_Version record) = None"
    "\<And>r. gm_get (cs_schemas cs) (sr_ID record) = Some r \<Longrightarrow> sr_Fingerprint r = sr_Fingerprint record"
    by (auto simp: ctx_ImportSchema_def Let_def versions_of_def cs4_def cs3_def cs2_def
        split: if_splits option.splits)
  show thesis by (rule that [OF run(1,2) V run(3) fields(1,2,3,4) run(4) fields(5)])
qed

theorem ctx_ImportSchema_inv:
  assumes inv: "ctx_inv cs" and v: "1 \<le> sr_Version record" "sr_Version record \<le> max_int64"
    and run: "ctx_ImportSchema now now' cs record = (cs', record', err)"
  shows "ctx_inv cs'"
proof (cases err)
  case (Some e)
  with ctx_ImportSchema_exists run inv show ?thesis by (metis ctx_inv_ensure)
next
  case None
  with run have "ctx_ImportSchema now now' cs record = (cs', record', None)" by simp
  then obtain cs4 where r:
    "cs' = add_version cs4 (sr_Subject record) (sr_Version record)
             (new_version_info (sr_ID record) (sr_Version record) now record)"
    "versions_of cs4 = versions_of cs"
    "versions_of cs (sr_Subject record) (sr_Version record) = None"
    "cs_idToSubjectVersions cs4 = cs_idToSubjectVersions cs"
    "gm_get (cs_fingerprints cs4) = (gm_get (cs_fingerprints cs))(sr_Fingerprint record \<mapsto> sr_ID record)"
    "gm_get (cs_schemas cs4) =
       (case gm_get (cs_schemas cs) (sr_ID record) of
          None \<Rightarrow> (gm_get (cs_schemas cs))(sr_ID record \<mapsto> stored_content (sr_ID record) record)
        | Some _ \<Rightarrow> gm_get (cs_schemas cs))"
    "\<And>r. gm_get (cs_schemas cs) (sr_ID record) = Some r \<Longrightarrow> sr_Fingerprint r = sr_Fingerprint record"
    "cs_nextSubjectVersion cs4 =
       (if sr_Version record \<ge> gm_get0 0 (cs_nextSubjectVersion cs) (sr_Subject record)
        then gm_put (sr_Subject record) (sr_Version record) (cs_nextSubjectVersion cs)
        else cs_nextSubjectVersion cs)"
    by (rule ctx_ImportSchema_created) blast
  let ?info = "new_version_info (sr_ID record) (sr_Version record) now record"
  from inv have i: "index_inv {} (versions_of cs) cs" and c: "counters_inv (versions_of cs) cs"
    by (simp_all add: ctx_inv_def)
  have "index_inv {si_schemaID ?info} (versions_of cs) cs4"
    using i r(7) unfolding index_inv_def users_of_def r(4,5,6)
    by (auto simp: new_version_info_def stored_content_def split: option.splits)
      (metis option.distinct(1))+
  then have "index_inv {} (versions_of cs') cs'"
    unfolding r(1) versions_of_add_version r(2) using r(3) by (rule add_version_index)
  moreover have "counters_inv (versions_of cs') cs'"
    unfolding r(1) versions_of_add_version r(2)
    using v c by (intro counters_add [OF c, where n =
        "max (sr_Version record) (gm_get0 0 (cs_nextSubjectVersion cs) (sr_Subject record))"])
      (auto simp: r(8) new_version_info_def counters_inv_def)
  ultimately show ?thesis by (simp add: ctx_inv_def)
qed

text \<open>Flags are not part of the index, so soft deletion keeps it.\<close>

lemma index_inv_reflag:
  assumes "\<And>s v. map_option si_schemaID (V' s v) = map_option si_schemaID (V s v)"
  shows "index_inv P V' cs = index_inv P V cs"
proof -
  have "(\<exists>info. V' s v = Some info \<and> si_schemaID info = i) \<longleftrightarrow>
        (\<exists>info. V s v = Some info \<and> si_schemaID info = i)" for s v i
    using assms [of s v] by (cases "V' s v"; cases "V s v") auto
  then show ?thesis by (simp add: index_inv_def)
qed

lemma counters_inv_sub:
  assumes "counters_inv V cs"
    and "\<And>s v info'. V' s v = Some info' \<Longrightarrow> \<exists>info. V s v = Some info \<and> si_version info' = si_version info"
    and "cs_nextSubjectVersion cs' = cs_nextSubjectVersion cs"
  shows "counters_inv V' cs'"
  using assms(1) unfolding counters_inv_def assms(3) by (metis assms(2))

lemma versions_of_put:
  "versions_of (cs\<lparr>cs_subjectVersions := gm_put s vm (cs_subjectVersions cs)\<rparr>) =
     (versions_of cs)(s := gm_get vm)"
  by (simp add: versions_of_def subject_versions_def fun_eq_iff)

lemma index_put [simp]:
  "index_inv P V (cs\<lparr>cs_subjectVersions := m\<rparr>) = index_inv P V cs"
  by (rule index_inv_cong) simp_all

lemma versions_of_release [simp]: "versions_of (release_schema s v i cs) = versions_of cs"
  by (rule versions_of_cong) simp

theorem ctx_DeleteSchema_inv:
  assumes inv: "ctx_inv cs"
    and run: "ctx_DeleteSchema cs subject version permanent = (cs', err)"
  shows "ctx_inv cs'"
proof (cases err)
  case (Some e)
  with run inv show ?thesis
    by (auto simp: ctx_DeleteSchema_def Let_def split: if_splits option.splits)
next
  case None
  with run obtain info where info: "versions_of cs subject version = Some info"
    by (auto simp: ctx_DeleteSchema_def Let_def versions_of_def split: if_splits option.splits)
  from inv have i: "index_inv {} (versions_of cs) cs" and c: "counters_inv (versions_of cs) cs"
    by (simp_all add: ctx_inv_def)
  show ?thesis
  proof (cases permanent)
    case True
    let ?cs1 = "cs\<lparr>cs_subjectVersions :=
      gm_put subject (gm_del version (subject_versions cs subject)) (cs_subjectVersions cs)\<rparr>"
    have cs': "cs' = release_schema subject version (si_schemaID info) ?cs1"
      using run None True info
      by (auto simp: ctx_DeleteSchema_def Let_def versions_of_def split: if_splits option.splits)
    have V: "versions_of cs' = (versions_of cs)(subject := (versions_of cs subject)(version := None))"
      by (simp add: cs' versions_of_put gm_laws) (simp add: versions_of_def)
    have "index_inv {} (versions_of cs') cs'"
      unfolding V using release_index [of "versions_of cs" ?cs1, OF _ info] i by (simp add: cs')
    moreover have "counters_inv (versions_of cs') cs'"
      by (rule counters_inv_sub [OF c]) (auto simp: V split: if_splits, simp add: cs')
    ultimately show ?thesis by (simp add: ctx_inv_def)
  next
    case False
    have cs': "cs' = cs\<lparr>cs_subjectVersions := gm_put subject
        (gm_put version (info\<lparr>si_deleted := True\<rparr>) (subject_versions cs subject))
        (cs_subjectVersions cs)\<rparr>"
      using run None False info
      by (auto simp: ctx_DeleteSchema_def Let_def versions_of_def split: if_splits option.splits)
    have V: "versions_of cs' = (versions_of cs)(subject :=
        (versions_of cs subject)(version \<mapsto> info\<lparr>si_deleted := True\<rparr>))"
      by (simp add: cs' versions_of_put gm_laws) (simp add: versions_of_def)
    have "index_inv {} (versions_of cs') cs"
      using i info by (subst index_inv_reflag [of _ "versions_of cs"]) (auto simp: V)
    then have "index_inv {} (versions_of cs') cs'" by (simp add: cs')
    moreover have "counters_inv (versions_of cs') cs'"
      by (rule counters_inv_sub [OF c]) (use info in \<open>auto simp: V split: if_splits\<close>, simp add: cs')
    ultimately show ?thesis by (simp add: ctx_inv_def)
  qed
qed

lemma release_all_index:
  assumes "index_inv {} V cs" "distinct (map fst es)"
    and "\<And>version info. (version, info) \<in> set es \<Longrightarrow> V subject version = Some info"
  shows "index_inv {} (V(subject := V subject |` (- fst ` set es)))
     (fold (\<lambda>(version, info). release_schema subject version (si_schemaID info)) es cs)"
  using assms
proof (induction es arbitrary: V cs)
  case (Cons e es)
  obtain version info where e: "e = (version, info)" by force
  let ?V = "V(subject := (V subject)(version := None))"
  have "index_inv {} ?V (release_schema subject version (si_schemaID info) cs)"
    using Cons.prems e by (intro release_index) auto
  then have "index_inv {} (?V(subject := ?V subject |` (- fst ` set es)))
     (fold (\<lambda>(version, info). release_schema subject version (si_schemaID info)) es
        (release_schema subject version (si_schemaID info) cs))"
  proof (rule Cons.IH)
    show "distinct (map fst es)" using Cons.prems(2) by simp
    show "?V subject v = Some i" if "(v, i) \<in> set es" for v i
      using Cons.prems(2) Cons.prems(3) [of v i] that e by (auto simp: rev_image_eqI)
  qed
  moreover have "(V subject)(version := None) |` (- fst ` set es) = V subject |` (- fst ` set (e # es))"
    by (auto simp: e restrict_map_def fun_eq_iff)
  ultimately show ?case unfolding e by (simp add: fun_upd_def [symmetric])
qed (simp add: restrict_map_def)

lemma release_all_fields [simp]:
  "cs_subjectVersions (fold (\<lambda>(version, info). release_schema s version (si_schemaID info)) es cs)
     = cs_subjectVersions cs"
  "cs_nextSubjectVersion (fold (\<lambda>(version, info). release_schema s version (si_schemaID info)) es cs)
     = cs_nextSubjectVersion cs"
  "cs_nextID (fold (\<lambda>(version, info). release_schema s version (si_schemaID info)) es cs)
     = cs_nextID cs"
  by (induction es arbitrary: cs) auto

theorem ctx_DeleteSubject_inv:
  assumes inv: "ctx_inv cs"
    and run: "ctx_DeleteSubject cs subject permanent = (cs', res)"
  shows "ctx_inv cs'"
proof (cases res)
  case (Inl e)
  with run inv show ?thesis
    by (auto simp: ctx_DeleteSubject_def Let_def split: if_splits)
next
  case (Inr deleted)
  from inv have i: "index_inv {} (versions_of cs) cs" and c: "counters_inv (versions_of cs) cs"
    by (simp_all add: ctx_inv_def)
  let ?es = "gm_entries (subject_versions cs subject)"
  show ?thesis
  proof (cases permanent)
    case True
    let ?cs1 = "fold (\<lambda>(version, info). release_schema subject version (si_schemaID info)) ?es cs"
    have cs': "cs' = ?cs1\<lparr>cs_subjectVersions := gm_del subject (cs_subjectVersions ?cs1),
        cs_nextSubjectVersion := gm_del subject (cs_nextSubjectVersion ?cs1),
        cs_configs := gm_del subject (cs_configs ?cs1), cs_modes := gm_del subject (cs_modes ?cs1)\<rparr>"
      using run Inr True by (auto simp: ctx_DeleteSubject_def Let_def split: if_splits)
    have V: "versions_of cs' = (versions_of cs)(subject := Map.empty)"
      by (simp add: cs' versions_of_def subject_versions_def fun_eq_iff)
    have "versions_of cs subject |` (- fst ` set ?es) = Map.empty"
      using gm.entry_iff [of _ _ "subject_versions cs subject"]
      by (auto simp: restrict_map_def fun_eq_iff versions_of_def) (metis fst_conv image_eqI not_None_eq)
    with release_all_index [OF i, of ?es subject] have "index_inv {} (versions_of cs') ?cs1"
      by (simp add: V versions_of_def gm.entry_iff)
    then have "index_inv {} (versions_of cs') cs'"
      by (simp add: index_inv_def users_of_def cs')
    moreover have "counters_inv (versions_of cs') cs'"
      using c by (auto simp: counters_inv_def V max_int64_def, auto simp: cs')
    ultimately show ?thesis by (simp add: ctx_inv_def)
  next
    case False
    have cs': "cs' = cs\<lparr>cs_subjectVersions := gm_put subject
        (gm_map_vals (\<lambda>_ info. info\<lparr>si_deleted := True\<rparr>) (subject_versions cs subject))
        (cs_subjectVersions cs)\<rparr>"
      using run Inr False by (auto simp: ctx_DeleteSubject_def Let_def split: if_splits)
    have V: "versions_of cs' s v = (if s = subject
        then map_option (\<lambda>info. info\<lparr>si_deleted := True\<rparr>) (versions_of cs s v)
        else versions_of cs s v)" for s v
      by (simp add: cs' versions_of_put) (simp add: versions_of_def)
    have "index_inv {} (versions_of cs') cs"
      using i by (subst index_inv_reflag [of _ "versions_of cs"])
        (auto simp: V option.map_comp comp_def)
    then have "index_inv {} (versions_of cs') cs'" by (simp add: cs')
    moreover have "counters_inv (versions_of cs') cs'"
      by (rule counters_inv_sub [OF c]) (auto simp: V split: if_splits, simp add: cs')
    ultimately show ?thesis by (simp add: ctx_inv_def)
  qed
qed

end
