(* ===== verification/Memory_Histories.thy ===== *)
theory Memory_Histories
  imports Memory_Invariant Memory_Config
begin

text \<open>
  Histories of the in-memory backend.  \<open>store_step c\<close> is one write of a client in the context
  \<open>c\<close>: registration, deletion, ID allocation, configuration and mode changes.  Over these
  histories the store keeps more than \<open>ctx_inv\<close>: IDs lie below the sequence and no two IDs carry
  one fingerprint, so that content has one ID.  Import chooses IDs itself and is not such a step;
  its own guarantees are in \<open>Memory_Invariant\<close>.
\<close>

section \<open>One ID for one content\<close>

definition dedup_inv :: "contextStore \<Rightarrow> bool" where
  "dedup_inv cs \<longleftrightarrow>
     (\<forall>i r. gm_get (cs_schemas cs) i = Some r \<longrightarrow>
        gm_get (cs_fingerprints cs) (sr_Fingerprint r) = Some i)"

definition native_inv :: "contextStore \<Rightarrow> bool" where
  "native_inv cs \<longleftrightarrow>
     ctx_inv cs \<and> ids_below cs \<and> dedup_inv cs \<and> 1 \<le> cs_nextID cs \<and> cs_nextID cs \<le> max_int64"

lemma native_inv_new: "native_inv newContextStore"
  using ctx_inv_new ids_below_new
  by (simp add: native_inv_def dedup_inv_def) (simp add: newContextStore_def max_int64_def)

lemma native_invD:
  assumes "native_inv cs"
  shows native_ctx: "ctx_inv cs" and native_below: "ids_below cs" and native_dedup: "dedup_inv cs"
    and native_index: "index_inv {} (versions_of cs) cs"
    and native_counters: "counters_inv (versions_of cs) cs"
    and native_fresh: "gm_get (cs_schemas cs) (cs_nextID cs) = None"
    and native_nextID: "1 \<le> cs_nextID cs" "cs_nextID cs \<le> max_int64"
  using assms by (auto simp: native_inv_def ctx_inv_def ids_below_def)

text \<open>What the ID bookkeeping reads.\<close>

lemma native_inv_cong:
  assumes "cs_schemas cs' = cs_schemas cs" "cs_fingerprints cs' = cs_fingerprints cs"
    and "cs_idToSubjectVersions cs' = cs_idToSubjectVersions cs"
    and "cs_nextSubjectVersion cs' = cs_nextSubjectVersion cs"
    and "cs_subjectVersions cs' = cs_subjectVersions cs" "cs_nextID cs' = cs_nextID cs"
  shows "native_inv cs' = native_inv cs"
  using versions_of_cong [OF assms(5)] index_inv_cong [OF assms(1-3)] counters_inv_cong [OF assms(4)]
  by (simp add: native_inv_def ctx_inv_def ids_below_def dedup_inv_def assms)

lemma native_inv_config [simp]:
  "native_inv (cs\<lparr>cs_configs := m\<rparr>) = native_inv cs"
  "native_inv (cs\<lparr>cs_modes := n\<rparr>) = native_inv cs"
  "native_inv (cs\<lparr>cs_globalConfig := g\<rparr>) = native_inv cs"
  "native_inv (cs\<lparr>cs_globalMode := h\<rparr>) = native_inv cs"
  by (rule native_inv_cong; simp)+

text \<open>The capacity of the two counters, which a registration uses up by one each.\<close>

definition has_room :: "contextStore \<Rightarrow> string \<Rightarrow> bool" where
  "has_room cs subject \<longleftrightarrow>
     cs_nextID cs < max_int64 \<and> gm_get0 0 (cs_nextSubjectVersion cs) subject < max_int64"

lemma assign_schema_id_cases:
  assumes "assign_schema_id cs record = (cs', i)"
  obtains "gm_get (cs_fingerprints cs) (sr_Fingerprint record) = Some i" "cs' = cs"
  | "gm_get (cs_fingerprints cs) (sr_Fingerprint record) = None" "i = cs_nextID cs"
    "cs' = cs\<lparr>cs_nextID := i64 (cs_nextID cs + 1),
        cs_fingerprints := gm_put (sr_Fingerprint record) i (cs_fingerprints cs),
        cs_schemas := gm_put i (stored_content i record) (cs_schemas cs)\<rparr>"
  using assms by (auto simp: assign_schema_id_def Let_def split: option.splits)

lemma assign_schema_id_native:
  assumes dedup: "dedup_inv cs" and below: "ids_below cs"
    and n: "1 \<le> cs_nextID cs" "cs_nextID cs < max_int64"
    and asg: "assign_schema_id cs record = (cs', i)"
  shows "dedup_inv cs' \<and> ids_below cs' \<and> cs_nextID cs \<le> cs_nextID cs' \<and> cs_nextID cs' \<le> max_int64"
  using asg
proof (cases rule: assign_schema_id_cases)
  case 1
  with assms show ?thesis by simp
next
  case 2
  have "i64 (cs_nextID cs + 1) = cs_nextID cs + 1"
    using n by (intro i64_succ) (auto simp: in_i64_def max_int64_def)
  then show ?thesis
    using assms 2 by (auto simp: dedup_inv_def ids_below_def gm_laws stored_content_def) force
qed

theorem ctx_CreateSchema_native:
  assumes it: "range_order it" and inv: "native_inv cs"
    and room: "has_room cs (sr_Subject record)"
    and run: "ctx_CreateSchema it now now' cs record = (cs', record', err)"
  shows "native_inv cs'"
proof -
  note parts = native_invD [OF inv]
  have ctx: "ctx_inv cs'"
    using ctx_CreateSchema_inv [OF it _ _ _ run] parts room by (simp add: has_room_def)
  show ?thesis
  proof (cases err)
    case (Some e)
    with ctx_CreateSchema_exists [OF it] run
    have cs': "cs' = ensure_subject cs (sr_Subject record)" by metis
    from parts ctx show ?thesis by (simp add: native_inv_def dedup_inv_def ids_below_def cs')
  next
    case None
    with run obtain cs2 schemaID version where r:
      "assign_schema_id (ensure_subject cs (sr_Subject record)) record = (cs2, schemaID)"
      "cs' = add_version (cs2\<lparr>cs_nextSubjectVersion :=
                  gm_put (sr_Subject record) version (cs_nextSubjectVersion cs2)\<rparr>)
                (sr_Subject record) version (new_version_info schemaID version now record)"
      by (auto elim: ctx_CreateSchema_created [OF it])
    have "dedup_inv cs2 \<and> ids_below cs2 \<and> cs_nextID cs \<le> cs_nextID cs2 \<and> cs_nextID cs2 \<le> max_int64"
      using assign_schema_id_native [OF _ _ _ _ r(1)] parts room
      by (simp add: has_room_def dedup_inv_def ids_below_def)
    with ctx parts(7) show ?thesis
      by (simp add: native_inv_def r(2) dedup_inv_def ids_below_def)
  qed
qed

lemma dedup_below_fields [simp]:
  "dedup_inv (cs\<lparr>cs_subjectVersions := a\<rparr>) = dedup_inv cs"
  "dedup_inv (cs\<lparr>cs_nextSubjectVersion := b\<rparr>) = dedup_inv cs"
  "dedup_inv (cs\<lparr>cs_configs := m\<rparr>) = dedup_inv cs"
  "dedup_inv (cs\<lparr>cs_modes := n\<rparr>) = dedup_inv cs"
  "ids_below (cs\<lparr>cs_subjectVersions := a\<rparr>) = ids_below cs"
  "ids_below (cs\<lparr>cs_nextSubjectVersion := b\<rparr>) = ids_below cs"
  "ids_below (cs\<lparr>cs_configs := m\<rparr>) = ids_below cs"
  "ids_below (cs\<lparr>cs_modes := n\<rparr>) = ids_below cs"
  by (simp_all add: dedup_inv_def ids_below_def)

lemma release_native:
  assumes dedup: "dedup_inv cs" and below: "ids_below cs"
  shows "dedup_inv (release_schema subject version i cs) \<and>
         ids_below (release_schema subject version i cs)"
proof (cases "users_of (release_schema subject version i cs) i = []")
  case False
  then have "cs_schemas (release_schema subject version i cs) = cs_schemas cs"
    "cs_fingerprints (release_schema subject version i cs) = cs_fingerprints cs"
    by (auto simp: users_of_def release_schema_def Let_def split: if_splits)
  with assms show ?thesis by (simp add: dedup_inv_def ids_below_def)
next
  case True
  have gone: "filter (\<lambda>sv. sv_Subject sv \<noteq> subject \<or> sv_Version sv \<noteq> version)
      (gm_get0 [] (cs_idToSubjectVersions cs) i) = []"
    using True by (simp add: users_of_release) (simp add: users_of_def)
  have "gm_get (cs_fingerprints (release_schema subject version i cs)) fp = Some j"
    if "gm_get (cs_fingerprints cs) fp = Some j" "j \<noteq> i" for fp j
    using that dedup gone
    by (auto simp: release_schema_def Let_def gm_laws dedup_inv_def split: option.splits)
  with dedup show ?thesis
    using below by (auto simp: dedup_inv_def ids_below_def release_schemas True split: if_splits)
qed

lemma release_all_native:
  assumes "dedup_inv cs" "ids_below cs"
  shows "dedup_inv (fold (\<lambda>(version, info). release_schema subject version (si_schemaID info)) es cs) \<and>
         ids_below (fold (\<lambda>(version, info). release_schema subject version (si_schemaID info)) es cs)"
  using assms
proof (induction es arbitrary: cs)
  case (Cons e es)
  with release_native show ?case by (cases e) auto
qed simp

theorem ctx_DeleteSchema_native:
  assumes "native_inv cs" and run: "ctx_DeleteSchema cs subject version permanent = (cs', err)"
  shows "native_inv cs'"
proof -
  note parts = native_invD [OF assms(1)]
  have "dedup_inv cs' \<and> ids_below cs' \<and> cs_nextID cs' = cs_nextID cs"
    using run parts release_native
    by (auto simp: ctx_DeleteSchema_def Let_def split: if_splits option.splits)
  then show ?thesis
    using parts ctx_DeleteSchema_inv [OF parts(1) run] by (simp add: native_inv_def)
qed

theorem ctx_DeleteSubject_native:
  assumes "native_inv cs" and run: "ctx_DeleteSubject cs subject permanent = (cs', res)"
  shows "native_inv cs'"
proof -
  note parts = native_invD [OF assms(1)]
  have "dedup_inv cs' \<and> ids_below cs' \<and> cs_nextID cs' = cs_nextID cs"
    using run parts release_all_native [OF parts(3,2), of subject "gm_entries (subject_versions cs subject)"]
    by (auto simp: ctx_DeleteSubject_def Let_def split: if_splits)
  then show ?thesis
    using parts ctx_DeleteSubject_inv [OF parts(1) run] by (simp add: native_inv_def)
qed

section \<open>Steps of the store\<close>

inductive store_step :: "string \<Rightarrow> Store \<Rightarrow> Store \<Rightarrow> bool" for c :: string where
  step_create: "range_order it \<Longrightarrow> has_room (Store_getOrCreateContext s c) (sr_Subject record) \<Longrightarrow>
    Store_CreateSchema it now now' s c record = (s', record', err) \<Longrightarrow> store_step c s s'"
| step_delete: "Store_DeleteSchema s c subject version permanent = (s', err) \<Longrightarrow> store_step c s s'"
| step_delete_subject: "Store_DeleteSubject s c subject permanent = (s', res) \<Longrightarrow> store_step c s s'"
| step_next_id: "cs_nextID (Store_getOrCreateContext s c) < max_int64 \<Longrightarrow>
    Store_NextID s c = (s', res) \<Longrightarrow> store_step c s s'"
| step_set_config: "Store_SetConfig s c subject config = (s', err) \<Longrightarrow> store_step c s s'"
| step_delete_config: "Store_DeleteConfig s c subject = (s', err) \<Longrightarrow> store_step c s s'"
| step_set_global_config: "Store_SetGlobalConfig s c config = (s', err) \<Longrightarrow> store_step c s s'"
| step_delete_global_config: "Store_DeleteGlobalConfig s c = (s', err) \<Longrightarrow> store_step c s s'"
| step_set_mode: "Store_SetMode s c subject mode = (s', err) \<Longrightarrow> store_step c s s'"
| step_delete_mode: "Store_DeleteMode s c subject = (s', err) \<Longrightarrow> store_step c s s'"
| step_set_global_mode: "Store_SetGlobalMode s c mode = (s', err) \<Longrightarrow> store_step c s s'"
| step_delete_global_mode: "Store_DeleteGlobalMode s c = (s', err) \<Longrightarrow> store_step c s s'"

inductive store_reach :: "Store \<Rightarrow> bool" where
  reach_new: "store_reach NewStore"
| reach_step: "store_reach s \<Longrightarrow> store_step c s s' \<Longrightarrow> store_reach s'"

definition store_inv :: "Store \<Rightarrow> bool" where
  "store_inv s \<longleftrightarrow> (\<forall>c cs. Store_getContext s c = Some cs \<longrightarrow> native_inv cs)"

lemma getContext_put [simp]:
  "Store_getContext (Store_putContext s c cs) c' = (if c' = c then Some cs else Store_getContext s c')"
  by (simp add: Store_getContext_def Store_putContext_def)

lemma getOrCreate_put [simp]:
  "Store_getOrCreateContext (Store_putContext s c cs) c' =
     (if c' = c then cs else Store_getOrCreateContext s c')"
  by (simp add: Store_getOrCreateContext_def Store_putContext_def)

lemma getOrCreate_get: "Store_getContext s c = Some cs \<Longrightarrow> Store_getOrCreateContext s c = cs"
  by (simp add: Store_getContext_def Store_getOrCreateContext_def)

lemma store_inv_getOrCreate: "store_inv s \<Longrightarrow> native_inv (Store_getOrCreateContext s c)"
  by (auto simp: store_inv_def Store_getOrCreateContext_def Store_getContext_def native_inv_new
      split: option.splits)

lemma store_inv_get: "Store_getContext s c = Some cs \<Longrightarrow> store_inv s \<Longrightarrow> native_inv cs"
  by (auto simp: store_inv_def)

lemma store_inv_put: "store_inv s \<Longrightarrow> native_inv cs \<Longrightarrow> store_inv (Store_putContext s c cs)"
  by (auto simp: store_inv_def)

lemma NextID_native:
  assumes "native_inv cs" "cs_nextID cs < max_int64"
  shows "native_inv (cs\<lparr>cs_nextID := i64 (cs_nextID cs + 1)\<rparr>)"
proof -
  note parts = native_invD [OF assms(1)]
  have "i64 (cs_nextID cs + 1) = cs_nextID cs + 1"
    using assms parts by (intro i64_succ) (auto simp: in_i64_def max_int64_def)
  moreover have "ctx_inv (cs\<lparr>cs_nextID := n\<rparr>)" for n
    using parts(1) versions_of_cong [of "cs\<lparr>cs_nextID := n\<rparr>" cs]
    by (simp add: ctx_inv_def index_inv_def counters_inv_def users_of_def)
  ultimately show ?thesis
    using assms parts by (auto simp: native_inv_def dedup_inv_def ids_below_def)
qed

lemma store_step_inv:
  assumes "store_step c s s'" "store_inv s"
  shows "store_inv s'"
  using assms
proof (induction rule: store_step.induct)
  case (step_create it s record' now now' s' r err)
  then show ?case
    by (auto simp: Store_CreateSchema_def split: prod.splits intro!: store_inv_put
        intro: ctx_CreateSchema_native store_inv_getOrCreate)
next
  case (step_delete s subject version permanent s' err)
  then show ?case
    by (auto simp: Store_DeleteSchema_def split: prod.splits option.splits intro!: store_inv_put
        intro: ctx_DeleteSchema_native store_inv_get)
next
  case (step_delete_subject s subject permanent s' res)
  then show ?case
    by (auto simp: Store_DeleteSubject_def split: prod.splits option.splits intro!: store_inv_put
        intro: ctx_DeleteSubject_native store_inv_get)
next
  case (step_next_id s s' res)
  then show ?case
    by (auto simp: Store_NextID_def Let_def intro!: store_inv_put NextID_native store_inv_getOrCreate)
qed (auto simp: store_defs Let_def split: option.splits if_splits
      intro!: store_inv_put store_inv_getOrCreate intro: store_inv_get)

lemma store_inv_new: "store_inv NewStore"
  using native_inv_new
  by (auto simp: store_inv_def NewStore_def Store_getContext_def gm_laws split: if_splits)

theorem store_reach_inv: "store_reach s \<Longrightarrow> store_inv s"
  by (induction rule: store_reach.induct) (auto intro: store_inv_new store_step_inv)

end
