(* ===== verification/Memory_Schemas.thy ===== *)
theory Memory_Schemas
  imports Memory_Histories
begin

text \<open>
  What the schema operations of the in-memory backend return, on stores that satisfy the
  invariant: look-up of a version and of the latest version against the version view, the effect
  of \<open>CreateSchema\<close>, the two phases of deletion with the collection of unused content, listings,
  and the effect of import on the ID sequence.
\<close>

section \<open>Look-ups\<close>

lemma versions_of_empty: "gm_entries (subject_versions cs subject) = [] \<longleftrightarrow> versions_of cs subject = Map.empty"
  by (simp add: versions_of_def gm.no_entries)

text \<open>Under the invariant a look-up never misses content.\<close>

lemma get_version:
  assumes inv: "ctx_inv cs" and v: "version \<noteq> -1"
  shows "ctx_GetSchemaBySubjectVersion cs subject version =
    (case versions_of cs subject version of
       None \<Rightarrow> Inl (if versions_of cs subject = Map.empty then ErrSubjectNotFound else ErrVersionNotFound)
     | Some info \<Rightarrow>
         if si_deleted info then Inl ErrVersionNotFound
         else Inr (fill_record (the (gm_get (cs_schemas cs) (si_schemaID info))) subject version info))"
proof (cases "versions_of cs subject = Map.empty")
  case True
  then show ?thesis by (simp add: ctx_GetSchemaBySubjectVersion_def versions_of_empty Let_def)
next
  case False
  from inv have i: "index_inv {} (versions_of cs) cs" by (simp add: ctx_inv_def)
  from False v show ?thesis
    using version_content [OF i, of subject version]
    by (auto simp: ctx_GetSchemaBySubjectVersion_def versions_of_empty Let_def
        versions_of_def [symmetric] split: option.splits)
qed

text \<open>The scan for the latest live version finds the largest live version number.\<close>

definition latest_of :: "contextStore \<Rightarrow> string \<Rightarrow> int" where
  "latest_of cs subject = max_key live (gm_entries (subject_versions cs subject)) 0"

lemma latest_loop:
  assumes "fold later_live es (l, i) = (l', j)"
  shows "l' = max_key live es l \<and>
    (l' = l \<and> j = i \<or> l < l' \<and> (\<exists>info. j = Some info \<and> (l', info) \<in> set es \<and> live info))"
  using assms
proof (induction es arbitrary: l i)
  case (Cons e es)
  obtain v info where e: "e = (v, info)" by force
  show ?case
  proof (cases "\<not> si_deleted info \<and> v > l")
    case True
    then have "fold later_live es (v, Some info) = (l', j)" "live info"
      using Cons.prems e by (simp_all add: later_live_def live_def)
    with Cons.IH [of v "Some info"] True e show ?thesis by auto
  next
    case False
    then have "fold later_live es (l, i) = (l', j)" "\<not> (live info \<and> v > l)"
      using Cons.prems e by (auto simp: later_live_def live_def)
    with Cons.IH [of l i] e show ?thesis by auto
  qed
qed simp

lemma latest_lookup:
  "ctx_GetLatestSchema cs subject = ctx_GetSchemaBySubjectVersion cs subject (-1)"
proof (cases "gm_entries (subject_versions cs subject) = []")
  case True
  then show ?thesis by (simp add: ctx_GetLatestSchema_def ctx_GetSchemaBySubjectVersion_def Let_def)
next
  case False
  obtain lv li where f: "fold later_live (gm_entries (subject_versions cs subject)) (0, None) = (lv, li)"
    by force
  from latest_loop [OF f] False show ?thesis
    by (auto simp: ctx_GetLatestSchema_def ctx_GetSchemaBySubjectVersion_def Let_def f live_def
        gm.entry_iff)
qed

lemma get_latest:
  assumes inv: "ctx_inv cs" and info: "versions_of cs subject version = Some info" "live info"
    and max: "\<And>v i. versions_of cs subject v = Some i \<Longrightarrow> live i \<Longrightarrow> v \<le> version"
  shows "ctx_GetSchemaBySubjectVersion cs subject (-1) =
    Inr (fill_record (the (gm_get (cs_schemas cs) (si_schemaID info))) subject version info)"
proof -
  from inv have i: "index_inv {} (versions_of cs) cs" and c: "counters_inv (versions_of cs) cs"
    by (simp_all add: ctx_inv_def)
  have "0 < version" using c info by (fastforce simp: counters_inv_def)
  then have "max_key live (gm_entries (subject_versions cs subject)) 0 = version"
    using info max by (intro max_key_gm_eq) (auto simp: versions_of_def)
  moreover have "gm_entries (subject_versions cs subject) \<noteq> []"
    using info by (auto simp: versions_of_empty)
  ultimately show ?thesis
    using info \<open>0 < version\<close> version_content [OF i info(1)]
    by (auto simp: ctx_GetSchemaBySubjectVersion_def Let_def live_def versions_of_def)
qed

lemma get_latest_none:
  assumes "ctx_inv cs" "\<And>v i. versions_of cs subject v = Some i \<Longrightarrow> si_deleted i"
  shows "ctx_GetSchemaBySubjectVersion cs subject (-1) = Inl ErrSubjectNotFound"
proof -
  have "max_key live (gm_entries (subject_versions cs subject)) 0 = 0"
    using assms(2) by (auto simp: max_key_gm_zero live_def versions_of_def)
  then show ?thesis by (simp add: ctx_GetSchemaBySubjectVersion_def Let_def)
qed

section \<open>The effect of a registration\<close>

lemma assign_schema_id_content:
  assumes inv: "index_inv {} V cs" and asg: "assign_schema_id cs record = (cs', i)"
  shows "\<exists>r. gm_get (cs_schemas cs') i = Some r \<and> sr_ID r = i \<and> sr_Fingerprint r = sr_Fingerprint record"
  using asg
proof (cases rule: assign_schema_id_cases)
  case 1
  with index_fp [OF inv, of "sr_Fingerprint record" i] index_ID [OF inv, of i] show ?thesis by auto
next
  case 2
  then show ?thesis by (auto simp: gm_laws stored_content_def)
qed

lemma assign_schema_id_old:
  assumes asg: "assign_schema_id cs record = (cs', i)"
    and fresh: "gm_get (cs_schemas cs) (cs_nextID cs) = None"
    and "gm_get (cs_schemas cs) j = Some r"
  shows "gm_get (cs_schemas cs') j = Some r"
  using asg assms(2,3) by (cases rule: assign_schema_id_cases) (auto simp: gm_laws)

text \<open>Everything a successful \<open>CreateSchema\<close> does to the version view and the content.\<close>

lemma create_effect:
  assumes it: "range_order it" and inv: "native_inv cs" and room: "has_room cs (sr_Subject record)"
    and run: "ctx_CreateSchema it now now' cs record = (cs', record', None)"
  shows "sr_Version record' = gm_get0 0 (cs_nextSubjectVersion cs) (sr_Subject record) + 1"
    and "versions_of cs' = (versions_of cs)(sr_Subject record :=
           (versions_of cs (sr_Subject record))(sr_Version record' \<mapsto>
              new_version_info (sr_ID record') (sr_Version record') now record))"
    and "\<exists>r. gm_get (cs_schemas cs') (sr_ID record') = Some r \<and> sr_ID r = sr_ID record' \<and>
             sr_Fingerprint r = sr_Fingerprint record"
    and "gm_get (cs_schemas cs) j = Some r \<Longrightarrow> gm_get (cs_schemas cs') j = Some r"
    and "versions_of cs (sr_Subject record) v = Some info \<Longrightarrow> \<not> is_duplicate cs record info"
    and "sr_ID record' = (case gm_get (cs_fingerprints cs) (sr_Fingerprint record) of
            Some i \<Rightarrow> i | None \<Rightarrow> cs_nextID cs)"
    and "gm_get (cs_fingerprints cs) (sr_Fingerprint record) = None \<Longrightarrow>
           gm_get (cs_schemas cs') (sr_ID record') = Some (stored_content (sr_ID record') record)"
proof -
  note parts = native_invD [OF inv]
  from run obtain cs2 schemaID version where r:
    "assign_schema_id (ensure_subject cs (sr_Subject record)) record = (cs2, schemaID)"
    "version = i64 (gm_get0 0 (cs_nextSubjectVersion cs) (sr_Subject record) + 1)"
    "cs' = add_version (cs2\<lparr>cs_nextSubjectVersion :=
                gm_put (sr_Subject record) version (cs_nextSubjectVersion cs2)\<rparr>)
              (sr_Subject record) version (new_version_info schemaID version now record)"
    "record' = record\<lparr>sr_ID := schemaID, sr_Version := version, sr_CreatedAt := now'\<rparr>"
    "versions_of cs2 = versions_of cs"
    "\<And>v info. versions_of cs (sr_Subject record) v = Some info \<Longrightarrow> \<not> is_duplicate cs record info"
    by (rule ctx_CreateSchema_created [OF it]) blast
  show "sr_Version record' = gm_get0 0 (cs_nextSubjectVersion cs) (sr_Subject record) + 1"
    using counters_next_fresh(1) [OF parts(5), of "sr_Subject record"] room r(2,4)
    by (simp add: has_room_def)
  have "versions_of (cs2\<lparr>cs_nextSubjectVersion := m\<rparr>) = versions_of cs" for m
    using versions_of_cong [of "cs2\<lparr>cs_nextSubjectVersion := m\<rparr>" cs2] r(5) by simp
  then show "versions_of cs' = (versions_of cs)(sr_Subject record :=
           (versions_of cs (sr_Subject record))(sr_Version record' \<mapsto>
              new_version_info (sr_ID record') (sr_Version record') now record))"
    unfolding r(3) versions_of_add_version by (simp add: r(4))
  show "\<exists>r. gm_get (cs_schemas cs') (sr_ID record') = Some r \<and> sr_ID r = sr_ID record' \<and>
             sr_Fingerprint r = sr_Fingerprint record"
    using assign_schema_id_content [OF _ r(1), of "versions_of cs"] parts(4) r(3,4) by simp
  show "gm_get (cs_schemas cs') j = Some r" if "gm_get (cs_schemas cs) j = Some r"
    using assign_schema_id_old [OF r(1), of j r] that parts(6) r(3) by simp
  show "\<not> is_duplicate cs record info" if "versions_of cs (sr_Subject record) v = Some info"
    using r(6) that by blast
  show "sr_ID record' = (case gm_get (cs_fingerprints cs) (sr_Fingerprint record) of
            Some i \<Rightarrow> i | None \<Rightarrow> cs_nextID cs)"
    using r(1,4) by (cases rule: assign_schema_id_cases) auto
  show "gm_get (cs_schemas cs') (sr_ID record') = Some (stored_content (sr_ID record') record)"
    if "gm_get (cs_fingerprints cs) (sr_Fingerprint record) = None"
    using r(1) that r(3,4) by (cases rule: assign_schema_id_cases) (auto simp: gm_laws)
qed

text \<open>The new version is above every version the subject ever had and still records.\<close>

lemma create_above:
  assumes "range_order it" "native_inv cs" "has_room cs (sr_Subject record)"
    and "ctx_CreateSchema it now now' cs record = (cs', record', None)"
    and "versions_of cs (sr_Subject record) v = Some info"
  shows "v < sr_Version record'"
proof -
  have "v \<le> gm_get0 0 (cs_nextSubjectVersion cs) (sr_Subject record)"
    using native_counters [OF assms(2)] assms(5) by (auto simp: counters_inv_def)
  then show ?thesis using create_effect(1) [OF assms(1-4)] by simp
qed

lemma create_readback:
  assumes "range_order it" "native_inv cs" "has_room cs (sr_Subject record)"
    and "ctx_CreateSchema it now now' cs record = (cs', record', None)"
  shows "\<exists>content. gm_get (cs_schemas cs') (sr_ID record') = Some content \<and>
     sr_ID content = sr_ID record' \<and> sr_Fingerprint content = sr_Fingerprint record \<and>
     ctx_GetSchemaBySubjectVersion cs' (sr_Subject record) (sr_Version record') =
       Inr (fill_record content (sr_Subject record) (sr_Version record')
              (new_version_info (sr_ID record') (sr_Version record') now record)) \<and>
     ctx_GetLatestSchema cs' (sr_Subject record) =
       ctx_GetSchemaBySubjectVersion cs' (sr_Subject record) (sr_Version record')"
proof -
  note eff = create_effect [OF assms]
  let ?info = "new_version_info (sr_ID record') (sr_Version record') now record"
  have inv': "ctx_inv cs'"
    using ctx_CreateSchema_native [OF assms] by (simp add: native_inv_def)
  have V: "versions_of cs' (sr_Subject record) (sr_Version record') = Some ?info"
    by (simp add: eff(2))
  have "0 \<le> gm_get0 0 (cs_nextSubjectVersion cs) (sr_Subject record)"
    using native_counters [OF assms(2)] by (simp add: counters_inv_def)
  then have pos: "sr_Version record' \<noteq> -1" using eff(1) by simp
  have max: "v \<le> sr_Version record'" if "versions_of cs' (sr_Subject record) v = Some i" for v i
    using create_above [OF assms, of v i] that by (auto simp: eff(2) split: if_splits)
  from eff(3) obtain content where content: "gm_get (cs_schemas cs') (sr_ID record') = Some content"
    "sr_ID content = sr_ID record'" "sr_Fingerprint content = sr_Fingerprint record" by blast
  have get: "ctx_GetSchemaBySubjectVersion cs' (sr_Subject record) (sr_Version record') =
       Inr (fill_record content (sr_Subject record) (sr_Version record') ?info)"
    using get_version [OF inv' pos] V content by (simp add: new_version_info_def)
  have "ctx_GetLatestSchema cs' (sr_Subject record) =
       Inr (fill_record content (sr_Subject record) (sr_Version record') ?info)"
    unfolding latest_lookup
    using get_latest [OF inv' V] max content by (simp add: new_version_info_def live_def)
  with get content show ?thesis by auto
qed

text \<open>Registering the same record again finds the version just made, whatever order the scan visits.\<close>

lemma is_duplicate_cong:
  assumes "gm_get (cs_schemas cs') (si_schemaID info) = gm_get (cs_schemas cs) (si_schemaID info)"
  shows "is_duplicate cs' record info = is_duplicate cs record info"
  using assms by (simp add: is_duplicate_def)

lemma create_again:
  assumes first: "range_order it" "native_inv cs" "has_room cs (sr_Subject record)"
    "ctx_CreateSchema it now now' cs record = (cs', record', None)"
    and it': "range_order it'"
  shows "ctx_CreateSchema it' t t' cs' record =
     (cs', record\<lparr>sr_ID := sr_ID record', sr_Version := sr_Version record'\<rparr>, Some ErrSchemaExists)"
proof -
  note eff = create_effect [OF first]
  let ?info = "new_version_info (sr_ID record') (sr_Version record') now record"
  let ?es = "gm_entries (subject_versions cs' (sr_Subject record))"
  have V: "versions_of cs' (sr_Subject record) (sr_Version record') = Some ?info"
    by (simp add: eff(2))
  have ensure: "ensure_subject cs' (sr_Subject record) = cs'"
    using V by (auto simp: ensure_subject_def versions_of_def subject_versions_def gm_get0_def
        split: option.splits)
  have dup: "is_duplicate cs' record ?info"
    using eff(3) by (auto simp: is_duplicate_def new_version_info_def md_deq.deq_refl rs_deq.deq_refl)
  have only: "info = ?info" if "(v, info) \<in> set ?es" "is_duplicate cs' record info" for v info
  proof (rule ccontr)
    assume "info \<noteq> ?info"
    with that have old: "versions_of cs (sr_Subject record) v = Some info"
      by (auto simp: gm.entry_iff versions_of_def [symmetric] eff(2) split: if_splits)
    from version_content [OF native_index [OF first(2)] old] eff(4)
    have "is_duplicate cs' record info = is_duplicate cs record info"
      by (intro is_duplicate_cong) auto
    with that(2) eff(5) [OF old] show False by simp
  qed
  have "List.find (\<lambda>(_, info). is_duplicate cs' record info) (it' ?es) \<noteq> None"
    using V dup it' by (auto simp: find_None_range gm.entry_iff versions_of_def)
  then obtain v info where found:
    "List.find (\<lambda>(_, info). is_duplicate cs' record info) (it' ?es) = Some (v, info)" by auto
  then have "info = ?info"
    using find_Some_range [OF it' found] only by auto
  with found show ?thesis
    by (simp add: ctx_CreateSchema_def ensure Let_def new_version_info_def)
qed

end
