(* ===== verification/Registry_References.thy ===== *)
theory Registry_References
  imports Registry_Metadata Memory_Schemas "HOL-Library.Product_Lexorder"
begin

text \<open>
  References between schemas (\<open>computeGlobalFingerprint\<close> and \<open>resolveReferences\<close> of
  \<open>internal/registry/registry.go\<close>).  The fingerprint of a schema with references is a hash of its
  content fingerprint and its references in sorted order; the lemmas show that it depends on nothing
  else and that two different sets of references are never hashed from the same text.  The resolver
  is the depth-first closure of the source; its map of visited keys makes it end on cyclic
  references, and the termination proof shows that.
\<close>

section \<open>Fingerprints\<close>

definition hex_digit :: "nat \<Rightarrow> char" where
  "hex_digit d = (if d < 10 then char_of (48 + d) else char_of (87 + d))"

definition EncodeToString :: "string \<Rightarrow> string" where
  "EncodeToString bs =
     concat (map (\<lambda>b. let n = (of_char b :: nat) in [hex_digit (n div 16), hex_digit (n mod 16)]) bs)"

abbreviation NUL :: char where
  "NUL \<equiv> char_of (0::nat)"

text \<open>What identifies a reference, in the order the code compares it.\<close>

definition ref_id :: "Reference \<Rightarrow> string \<times> int \<times> string" where
  "ref_id ref = (rf_Subject ref, rf_Version ref, rf_Name ref)"

definition ref_line :: "string \<times> int \<times> string \<Rightarrow> string" where
  "ref_line = (\<lambda>(subject, version, name).
     [NUL] @ name @ [NUL] @ subject @ [NUL] @ Itoa version)"

definition fingerprint_text :: "string \<Rightarrow> Reference list \<Rightarrow> string" where
  "fingerprint_text schemaFingerprint refs =
     schemaFingerprint @ concat (map (\<lambda>ref. ref_line (ref_id ref)) (sort_key ref_id refs))"

definition computeGlobalFingerprint ::
  "(string \<Rightarrow> string) \<Rightarrow> string \<Rightarrow> Reference list \<Rightarrow> string" where
  "computeGlobalFingerprint sha256 schemaFingerprint refs =
     (if refs = [] then schemaFingerprint
      else EncodeToString (sha256 (fingerprint_text schemaFingerprint refs)))"

section \<open>Resolution\<close>

definition ref_key :: "Reference \<Rightarrow> string" where
  "ref_key ref = rf_Subject ref @ '':'' @ Itoa (rf_Version ref)"

definition resolved_ref :: "Reference \<Rightarrow> SchemaRecord \<Rightarrow> Reference" where
  "resolved_ref ref rec = ref\<lparr>rf_Schema := sr_Schema rec\<rparr>"

text \<open>The key determines subject and version: a numeral has no colon.\<close>

lemma ref_key_inj: "ref_key a = ref_key b \<longleftrightarrow> rf_Subject a = rf_Subject b \<and> rf_Version a = rf_Version b"
proof
  assume eq: "ref_key a = ref_key b"
  have split: "CHR '':'' \<notin> set u \<Longrightarrow> CHR '':'' \<notin> set v \<Longrightarrow> x @ CHR '':'' # u = y @ CHR '':'' # v \<Longrightarrow>
      x = y \<and> u = v" for x y u v :: string
    by (auto simp: append_eq_append_conv2 append_eq_Cons_conv Cons_eq_append_conv)
  have "CHR '':'' \<notin> set (Itoa n)" for n
    by (rule Itoa_no_sep) (simp_all add: digit_value_def)
  with split eq show "rf_Subject a = rf_Subject b \<and> rf_Version a = rf_Version b"
    by (simp add: ref_key_def) (metis Itoa_inj)
qed (simp add: ref_key_def)

text \<open>The recursive closure \<open>resolve\<close>; \<open>seen\<close> and \<open>resolved\<close> are the variables it captures.\<close>

function resolve ::
  "Store \<Rightarrow> string \<Rightarrow> Reference list \<Rightarrow> string list \<Rightarrow> Reference list \<Rightarrow>
     ref_error + string list \<times> Reference list" where
  "resolve s registryCtx [] seen resolved = Inr (seen, resolved)"
| "resolve s registryCtx (ref # refs) seen resolved =
     (if ref_key ref \<in> set seen then resolve s registryCtx refs seen resolved
      else (case Store_GetSchemaBySubjectVersion s registryCtx (rf_Subject ref) (rf_Version ref) of
              Inl err \<Rightarrow> Inl (RefError ref err)
            | Inr rec \<Rightarrow>
                (case resolve s registryCtx (sr_References rec) (ref_key ref # seen) resolved of
                   Inl err \<Rightarrow> Inl err
                 | Inr (seen', resolved') \<Rightarrow>
                     resolve s registryCtx refs seen' (resolved' @ [resolved_ref ref rec]))))"
  by pat_completeness auto

text \<open>The keys that storage can resolve: finitely many, and each marks at most one visit.\<close>

definition resolvable :: "Store \<Rightarrow> string \<Rightarrow> string set" where
  "resolvable s registryCtx =
     {ref_key ref | ref rec.
        Store_GetSchemaBySubjectVersion s registryCtx (rf_Subject ref) (rf_Version ref) = Inr rec}"

lemma get_version_dom:
  assumes "Store_GetSchemaBySubjectVersion s registryCtx subject version = Inr rec"
  shows "\<exists>cs. Store_getContext s registryCtx = Some cs \<and> subject \<in> dom (gm_get (cs_subjectVersions cs)) \<and>
           (version = -1 \<or> version \<in> dom (gm_get (subject_versions cs subject)))"
proof -
  obtain cs where cs: "Store_getContext s registryCtx = Some cs"
    and get: "ctx_GetSchemaBySubjectVersion cs subject version = Inr rec"
    using assms by (auto simp: Store_GetSchemaBySubjectVersion_def split: option.splits)
  have "gm_entries (subject_versions cs subject) \<noteq> []"
    using get by (auto simp: ctx_GetSchemaBySubjectVersion_def Let_def)
  then have "subject \<in> dom (gm_get (cs_subjectVersions cs))"
    by (auto simp: subject_versions_def gm_get0_def split: option.splits)
  moreover have "version = -1 \<or> version \<in> dom (gm_get (subject_versions cs subject))"
    using get by (auto simp: ctx_GetSchemaBySubjectVersion_def Let_def split: if_splits option.splits)
  ultimately show ?thesis using cs by blast
qed

lemma finite_resolvable: "finite (resolvable s registryCtx)"
proof (cases "Store_getContext s registryCtx")
  case None
  then show ?thesis by (simp add: resolvable_def Store_GetSchemaBySubjectVersion_def)
next
  case (Some cs)
  let ?ids = "SIGMA subject : dom (gm_get (cs_subjectVersions cs)).
                insert (-1) (dom (gm_get (subject_versions cs subject)))"
  have "resolvable s registryCtx \<subseteq> (\<lambda>(subject, version). subject @ '':'' @ Itoa version) ` ?ids"
    using Some by (force simp: resolvable_def ref_key_def dest: get_version_dom)
  moreover have "finite ?ids" by (intro finite_SigmaI) (simp_all add: gm.finite_dom)
  ultimately show ?thesis by (rule finite_subset [OF _ finite_imageI])
qed

lemma resolve_seen_grows:
  "resolve_dom (s, c, refs, seen, resolved) \<Longrightarrow> resolve s c refs seen resolved = Inr (seen', resolved') \<Longrightarrow>
     set seen \<subseteq> set seen'"
proof (induction arbitrary: seen' resolved' rule: resolve.pinduct)
  case (1 s registryCtx seen resolved)
  then show ?case by (simp add: resolve.psimps)
next
  case (2 s registryCtx ref refs seen resolved)
  show ?case
    using 2(1,5) 2(2) 2(3) 2(4)
    by (auto simp: resolve.psimps split: if_splits sum.splits prod.splits) (metis insert_subset list.set(2) subsetD)+
qed

termination resolve
proof (relation "inv_image (finite_psubset <*lex*> measure length)
         (\<lambda>(s, c, refs, seen, resolved). (resolvable s c - set seen, refs))", goal_cases)
  case 1
  show ?case by (intro wf_inv_image wf_lex_prod wf_finite_psubset wf_measure)
next
  case (2 s c ref refs seen resolved)
  then show ?case by simp
next
  case (3 s c ref refs seen resolved rec)
  then have "ref_key ref \<in> resolvable s c" by (auto simp: resolvable_def)
  with 3 show ?case by (auto simp: finite_psubset_def finite_resolvable)
next
  case (4 s c ref refs seen resolved rec p seen' resolved')
  then have "ref_key ref \<in> resolvable s c" by (auto simp: resolvable_def)
  moreover have "set (ref_key ref # seen) \<subseteq> set seen'"
    using resolve_seen_grows 4 by blast
  ultimately show ?case using 4(1) by (auto simp: finite_psubset_def finite_resolvable)
qed

definition Registry_resolveReferences ::
  "'p Registry \<Rightarrow> Store \<Rightarrow> string \<Rightarrow> Reference list \<Rightarrow> ref_error + Reference list" where
  [registry_defs]: "Registry_resolveReferences r s registryCtx refs =
     (if refs = [] then Inr refs
      else (case resolve s registryCtx refs [] [] of
              Inl err \<Rightarrow> Inl err | Inr (_, resolved) \<Rightarrow> Inr resolved))"

section \<open>The hashed text determines the references\<close>

definition nul_free :: "Reference list \<Rightarrow> bool" where
  "nul_free refs \<longleftrightarrow> list_all (\<lambda>ref. NUL \<notin> set (rf_Name ref) \<and> NUL \<notin> set (rf_Subject ref)) refs"

definition ref_parts :: "string \<times> int \<times> string \<Rightarrow> string list" where
  "ref_parts = (\<lambda>(subject, version, name). [name, subject, Itoa version])"

lemma ref_parts_inj: "ref_parts a = ref_parts b \<longleftrightarrow> a = b"
  by (auto simp: ref_parts_def Itoa_inj split: prod.splits)

lemma Itoa_nul_free [simp]: "NUL \<notin> set (Itoa n)"
proof (rule Itoa_no_sep)
  have "of_char NUL \<noteq> (of_char (CHR ''-'') :: nat)" by simp
  then show "NUL \<noteq> CHR ''-''" by metis
qed simp

text \<open>Splitting the text at the zero bytes gives the fingerprint and three parts per reference.\<close>

lemma split_lines:
  assumes "NUL \<notin> set fp" "list_all (\<lambda>(subject, version, name). NUL \<notin> set subject \<and> NUL \<notin> set name) ids"
  shows "SplitByte (fp @ concat (map ref_line ids)) NUL = fp # concat (map ref_parts ids)"
  using assms
proof (induction ids arbitrary: fp)
  case Nil
  then show ?case by (simp add: SplitByte_no_sep)
next
  case (Cons i ids)
  obtain subject version name where i: "i = (subject, version, name)" by (cases i)
  have "SplitByte (Itoa version @ concat (map ref_line ids)) NUL = Itoa version # concat (map ref_parts ids)"
    using Cons by (intro Cons.IH) simp_all
  with Cons.prems show ?case
    by (simp add: i ref_line_def ref_parts_def SplitByte_append)
qed

lemma concat_parts_inj: "concat (map ref_parts as) = concat (map ref_parts bs) \<longleftrightarrow> as = bs"
proof (induction as arbitrary: bs)
  case Nil
  then show ?case by (cases bs) (auto simp: ref_parts_def)
next
  case (Cons a as)
  show ?case
  proof (cases bs)
    case (Cons b bs')
    have "length (ref_parts a) = length (ref_parts b)" by (simp add: ref_parts_def split: prod.splits)
    with Cons Cons.IH show ?thesis by (simp add: ref_parts_inj)
  qed (auto simp: ref_parts_def split: prod.splits)
qed

lemma sorted_ids: "map ref_id (sort_key ref_id refs) = sort (map ref_id refs)"
  by (rule properties_for_sort [symmetric]) simp_all

lemma fingerprint_text_ids:
  "fingerprint_text fp refs = fp @ concat (map ref_line (sort (map ref_id refs)))"
  by (simp add: fingerprint_text_def sorted_ids [symmetric] comp_def)

lemma split_fingerprint_text:
  assumes "NUL \<notin> set fp" "nul_free refs"
  shows "SplitByte (fingerprint_text fp refs) NUL = fp # concat (map ref_parts (sort (map ref_id refs)))"
  unfolding fingerprint_text_ids
  using assms by (intro split_lines) (auto simp: list_all_iff nul_free_def ref_id_def)

lemma fingerprint_text_inj:
  assumes "NUL \<notin> set fp" "NUL \<notin> set fp'" "nul_free refs" "nul_free refs'"
  shows "fingerprint_text fp refs = fingerprint_text fp' refs' \<longleftrightarrow>
           fp = fp' \<and> mset (map ref_id refs) = mset (map ref_id refs')"
proof
  assume "fingerprint_text fp refs = fingerprint_text fp' refs'"
  then have "fp = fp'" "sort (map ref_id refs) = sort (map ref_id refs')"
    using split_fingerprint_text [OF assms(1,3)] split_fingerprint_text [OF assms(2,4)]
    by (simp_all add: concat_parts_inj)
  then show "fp = fp' \<and> mset (map ref_id refs) = mset (map ref_id refs')"
    by (metis mset_sort)
qed (metis fingerprint_text_ids sort_mset_eq)

lemma hex_digit_inj: "a < 16 \<Longrightarrow> b < 16 \<Longrightarrow> hex_digit a = hex_digit b \<longleftrightarrow> a = b"
proof
  assume "a < 16" "b < 16" "hex_digit a = hex_digit b"
  then have "of_char (hex_digit a) = (of_char (hex_digit b) :: nat)" by simp
  with \<open>a < 16\<close> \<open>b < 16\<close> show "a = b" by (auto simp: hex_digit_def split: if_splits)
qed simp

lemma EncodeToString_inj: "EncodeToString a = EncodeToString b \<longleftrightarrow> a = b"
proof (induction a arbitrary: b)
  case Nil
  then show ?case by (cases b) (auto simp: EncodeToString_def Let_def)
next
  case (Cons x a)
  show ?case
  proof (cases b)
    case (Cons y b')
    have lt: "(of_char z :: nat) div 16 < 16" for z
      using nat_of_char_less_256 [of z] by (simp add: less_mult_imp_div_less)
    have "hex_digit (of_char x div 16) = hex_digit (of_char y div 16) \<and>
          hex_digit (of_char x mod 16) = hex_digit (of_char y mod 16) \<longleftrightarrow> x = y"
      by (simp add: hex_digit_inj lt) (metis div_mult_mod_eq of_char_eq_iff)
    with Cons.IH [of b'] Cons show ?thesis
      by (auto simp: EncodeToString_def Let_def)
  qed (simp add: EncodeToString_def Let_def)
qed

section \<open>What resolution returns\<close>

lemma ref_key_resolved [simp]: "ref_key (resolved_ref ref rec) = ref_key ref"
  by (simp add: ref_key_def resolved_ref_def)

text \<open>The keys of the references of the schema a reference names.\<close>

definition ref_deps :: "Store \<Rightarrow> string \<Rightarrow> Reference \<Rightarrow> string set" where
  "ref_deps s registryCtx ref =
     (case Store_GetSchemaBySubjectVersion s registryCtx (rf_Subject ref) (rf_Version ref) of
        Inl _ \<Rightarrow> {} | Inr rec \<Rightarrow> ref_key ` set (sr_References rec))"

definition carries_content :: "Store \<Rightarrow> string \<Rightarrow> Reference \<Rightarrow> bool" where
  "carries_content s registryCtx ref \<longleftrightarrow>
     (case Store_GetSchemaBySubjectVersion s registryCtx (rf_Subject ref) (rf_Version ref) of
        Inl _ \<Rightarrow> False | Inr rec \<Rightarrow> rf_Schema ref = sr_Schema rec)"

text \<open>Every reference comes after the references of the schema it names.\<close>

fun in_order :: "Store \<Rightarrow> string \<Rightarrow> string set \<Rightarrow> Reference list \<Rightarrow> bool" where
  "in_order s registryCtx done [] = True"
| "in_order s registryCtx done (ref # refs) =
     (ref_deps s registryCtx ref \<subseteq> done \<and> in_order s registryCtx (insert (ref_key ref) done) refs)"

lemma in_order_append:
  "in_order s c K (xs @ ys) \<longleftrightarrow> in_order s c K xs \<and> in_order s c (K \<union> ref_key ` set xs) ys"
  by (induction xs arbitrary: K) (auto simp: insert_commute Un_commute)

lemma resolve_effect:
  "resolve s c refs seen resolved = Inr (seen', resolved') \<Longrightarrow>
     \<exists>new. resolved' = resolved @ new \<and> distinct (map ref_key new) \<and>
       set seen' = set seen \<union> ref_key ` set new \<and> set seen \<inter> ref_key ` set new = {} \<and>
       ref_key ` set refs \<subseteq> set seen' \<and>
       (\<forall>x\<in>set new. carries_content s c x \<and> ref_deps s c x \<subseteq> set seen')"
proof (induction s c refs seen resolved arbitrary: seen' resolved' rule: resolve.induct)
  case (1 s c seen resolved)
  then show ?case by simp
next
  case (2 s c ref refs seen resolved)
  show ?case
  proof (cases "ref_key ref \<in> set seen")
    case True
    with 2(1) 2(4) show ?thesis by fastforce
  next
    case False
    with 2(4) obtain rec seen1 resolved1 where
      get: "Store_GetSchemaBySubjectVersion s c (rf_Subject ref) (rf_Version ref) = Inr rec" and
      r1: "resolve s c (sr_References rec) (ref_key ref # seen) resolved = Inr (seen1, resolved1)" and
      r2: "resolve s c refs seen1 (resolved1 @ [resolved_ref ref rec]) = Inr (seen', resolved')"
      by (auto split: sum.splits prod.splits)
    obtain new1 where n1: "resolved1 = resolved @ new1" "distinct (map ref_key new1)"
      "set seen1 = insert (ref_key ref) (set seen) \<union> ref_key ` set new1"
      "insert (ref_key ref) (set seen) \<inter> ref_key ` set new1 = {}"
      "ref_key ` set (sr_References rec) \<subseteq> set seen1"
      "\<forall>x\<in>set new1. carries_content s c x \<and> ref_deps s c x \<subseteq> set seen1"
      using 2(2) [OF False get r1] by auto
    obtain new2 where n2: "resolved' = (resolved1 @ [resolved_ref ref rec]) @ new2" "distinct (map ref_key new2)"
      "set seen' = set seen1 \<union> ref_key ` set new2" "set seen1 \<inter> ref_key ` set new2 = {}"
      "ref_key ` set refs \<subseteq> set seen'"
      "\<forall>x\<in>set new2. carries_content s c x \<and> ref_deps s c x \<subseteq> set seen'"
      using 2(3) [OF False get r1 refl r2] by auto
    have "carries_content s c (resolved_ref ref rec)"
      "ref_deps s c (resolved_ref ref rec) \<subseteq> set seen'"
      using get n1 n2 by (auto simp: carries_content_def ref_deps_def resolved_ref_def)
    with False n1 n2 show ?thesis
      by (intro exI [of _ "new1 @ resolved_ref ref rec # new2"]) auto
  qed
qed

text \<open>
  Acyclic references, given by a rank that falls along every reference: then the visited keys that
  are not yet resolved, which are being resolved, are not met again, and the result is in order.
\<close>

definition falls_along :: "Store \<Rightarrow> string \<Rightarrow> (string \<Rightarrow> nat) \<Rightarrow> bool" where
  "falls_along s registryCtx rank \<longleftrightarrow>
     (\<forall>ref. \<forall>k\<in>ref_deps s registryCtx ref. rank k < rank (ref_key ref))"

lemma resolve_in_order:
  "resolve s c refs seen resolved = Inr (seen', resolved @ new) \<Longrightarrow> falls_along s c rank \<Longrightarrow>
     (\<forall>k\<in>set seen - K. \<forall>ref\<in>set refs. rank (ref_key ref) < rank k) \<Longrightarrow> in_order s c K new"
proof (induction s c refs seen resolved arbitrary: seen' new K rule: resolve.induct)
  case (1 s c seen resolved)
  then show ?case by simp
next
  case (2 s c ref refs seen resolved)
  show ?case
  proof (cases "ref_key ref \<in> set seen")
    case True
    with 2(1) [OF True] 2(4-6) show ?thesis by simp
  next
    case False
    with 2(4) obtain rec seen1 resolved1 where
      get: "Store_GetSchemaBySubjectVersion s c (rf_Subject ref) (rf_Version ref) = Inr rec" and
      r1: "resolve s c (sr_References rec) (ref_key ref # seen) resolved = Inr (seen1, resolved1)" and
      r2: "resolve s c refs seen1 (resolved1 @ [resolved_ref ref rec]) = Inr (seen', resolved @ new)"
      by (auto split: sum.splits prod.splits)
    obtain new1 where n1: "resolved1 = resolved @ new1"
      "set seen1 = insert (ref_key ref) (set seen) \<union> ref_key ` set new1"
      "ref_key ` set (sr_References rec) \<subseteq> set seen1"
      using resolve_effect [OF r1] by auto
    obtain new2 where n2: "resolved @ new = (resolved1 @ [resolved_ref ref rec]) @ new2"
      using resolve_effect [OF r2] by (elim exE conjE) (erule that)
    have deps: "ref_deps s c ref = ref_key ` set (sr_References rec)"
      "ref_deps s c (resolved_ref ref rec) = ref_deps s c ref"
      using get by (simp_all add: ref_deps_def resolved_ref_def)
    have less: "rank k < rank (ref_key ref)" if "k \<in> ref_deps s c ref" for k
      using 2(5) that by (simp add: falls_along_def)
    have above: "rank (ref_key ref) < rank k" if "k \<in> set seen" "k \<notin> K" for k
      using 2(6) that by simp
    have "in_order s c K new1"
      using r1 n1(1) 2(5) less above
      by (intro 2(2) [OF False get]) (auto simp: deps dest: less_trans)
    moreover have "ref_deps s c ref \<subseteq> K \<union> ref_key ` set new1"
    proof
      fix k assume k: "k \<in> ref_deps s c ref"
      then have "k \<in> set seen1" using n1(3) by (auto simp: deps)
      with less [OF k] above [of k] n1(2) show "k \<in> K \<union> ref_key ` set new1" by auto
    qed
    moreover have "in_order s c (insert (ref_key ref) (K \<union> ref_key ` set new1)) new2"
      using r2 n2 n1(2) 2(5,6) by (intro 2(3) [OF False get r1 refl]) auto
    ultimately show ?thesis
      using n1(1) n2 by (simp add: in_order_append deps(2))
  qed
qed

lemma resolve_error:
  "resolve s c refs seen resolved = Inl (RefError ref err) \<Longrightarrow>
     Store_GetSchemaBySubjectVersion s c (rf_Subject ref) (rf_Version ref) = Inl err"
  by (induction s c refs seen resolved rule: resolve.induct)
    (auto split: if_splits sum.splits prod.splits)

lemma resolveReferences_cases:
  assumes "Registry_resolveReferences r s c refs = Inr resolved"
  shows "distinct (map ref_key resolved) \<and> ref_key ` set refs \<subseteq> ref_key ` set resolved \<and>
         (\<forall>x\<in>set resolved. carries_content s c x \<and> ref_deps s c x \<subseteq> ref_key ` set resolved)"
proof (cases "refs = []")
  case True
  with assms show ?thesis by (simp add: Registry_resolveReferences_def)
next
  case False
  with assms obtain seen where "resolve s c refs [] [] = Inr (seen, resolved)"
    by (auto simp: Registry_resolveReferences_def split: sum.splits)
  from resolve_effect [OF this] show ?thesis by fastforce
qed

end
