(* ===== verification/Mcp_Confirmation.thy ===== *)
theory Mcp_Confirmation
  imports Json_Value Registry_References
begin

text \<open>
  The two-phase confirmation of destructive MCP tool calls, \<open>internal/mcp/confirmation.go\<close>: the store
  of tokens, which tools need confirmation, and the check each such tool makes first.  The store's
  mutex makes every method one step; the collection of old tokens, which a goroutine runs, is a step
  of its own that may come between any two.  Parameters are the clock readings, the identifiers
  \<open>uuid.New\<close> delivers, SHA-256 and \<open>json.Marshal\<close>.
\<close>

section \<open>The store of tokens\<close>

record confirmationEntry =
  ce_toolName :: string
  ce_argsHash :: string
  ce_preview :: jmap
  ce_expiresAt :: go_time
  ce_used :: bool

record ConfirmationStore =
  cs_tokens :: "(string, confirmationEntry) gomap"
  cs_ttl :: int

definition NewConfirmationStore :: "int \<Rightarrow> ConfirmationStore" where
  "NewConfirmationStore ttl = \<lparr>cs_tokens = gm_empty, cs_ttl = ttl\<rparr>"

text \<open>\<open>sha256.Sum256\<close> and \<open>json.Marshal\<close> of a map, which may fail.\<close>

record digest_lib =
  dl_sha256 :: "string \<Rightarrow> string"
  dl_Marshal :: "jmap \<Rightarrow> string option"

definition cleaned_args :: "jmap \<Rightarrow> jmap" where
  "cleaned_args args = filter (\<lambda>(k, _). k \<noteq> ''dry_run'' \<and> k \<noteq> ''confirm_token'') args"

definition computeArgsHash :: "digest_lib \<Rightarrow> string \<Rightarrow> jmap \<Rightarrow> string" where
  "computeArgsHash lib toolName args =
     (let data = (case dl_Marshal lib (cleaned_args args) of Some d \<Rightarrow> d | None \<Rightarrow> ''{}'')
      in EncodeToString (dl_sha256 lib (toolName @ '':'' @ data)))"

definition ConfirmationStore_Generate ::
  "digest_lib \<Rightarrow> ConfirmationStore \<Rightarrow> string \<Rightarrow> jmap \<Rightarrow> jmap \<Rightarrow> string \<Rightarrow> go_time \<Rightarrow> ConfirmationStore \<times> string" where
  "ConfirmationStore_Generate lib cs toolName args preview uuid now =
     (cs\<lparr>cs_tokens := gm_put uuid
        \<lparr>ce_toolName = toolName, ce_argsHash = computeArgsHash lib toolName args, ce_preview = preview,
         ce_expiresAt = now + cs_ttl cs, ce_used = False\<rparr> (cs_tokens cs)\<rparr>, uuid)"

datatype confirm_error =
  ErrInvalidToken | ErrExpired | ErrUsed | ErrOtherTool string string | ErrOtherArgs

definition ConfirmationStore_Validate ::
  "digest_lib \<Rightarrow> ConfirmationStore \<Rightarrow> string \<Rightarrow> string \<Rightarrow> jmap \<Rightarrow> go_time \<Rightarrow> ConfirmationStore \<times> confirm_error option" where
  "ConfirmationStore_Validate lib cs tokenID toolName args now =
     (case gm_get (cs_tokens cs) tokenID of
        None \<Rightarrow> (cs, Some ErrInvalidToken)
      | Some entry \<Rightarrow>
          if ce_expiresAt entry < now
          then (cs\<lparr>cs_tokens := gm_del tokenID (cs_tokens cs)\<rparr>, Some ErrExpired)
          else if ce_used entry then (cs, Some ErrUsed)
          else if ce_toolName entry \<noteq> toolName then (cs, Some (ErrOtherTool (ce_toolName entry) toolName))
          else if ce_argsHash entry \<noteq> computeArgsHash lib toolName args then (cs, Some ErrOtherArgs)
          else (cs\<lparr>cs_tokens := gm_put tokenID (entry\<lparr>ce_used := True\<rparr>) (cs_tokens cs)\<rparr>, None))"

definition ConfirmationStore_gc :: "ConfirmationStore \<Rightarrow> go_time \<Rightarrow> ConfirmationStore" where
  "ConfirmationStore_gc cs now =
     cs\<lparr>cs_tokens :=
       fold (\<lambda>(id, entry) m. if ce_expiresAt entry < now \<or> ce_used entry then gm_del id m else m)
         (gm_entries (cs_tokens cs)) (cs_tokens cs)\<rparr>"

section \<open>Tools that need confirmation\<close>

text \<open>\<open>strings.EqualFold\<close> with an ASCII word none of whose letters has a fold outside ASCII.\<close>

definition fold_equal :: "string \<Rightarrow> string \<Rightarrow> bool" where
  "fold_equal s t \<longleftrightarrow> map upper_byte s = map upper_byte t"

definition boolArg :: "jmap \<Rightarrow> string \<Rightarrow> bool" where
  "boolArg args key =
     (case jget args key of JBool b \<Rightarrow> b | JStr s \<Rightarrow> fold_equal s ''true'' | _ \<Rightarrow> False)"

definition stringArg :: "jmap \<Rightarrow> string \<Rightarrow> string" where
  "stringArg args key = (case as_string (jget args key) of Some s \<Rightarrow> s | None \<Rightarrow> [])"

definition confirmableTools :: "string \<Rightarrow> (jmap \<Rightarrow> bool) option" where
  "confirmableTools = map_of
     [(''delete_subject'', \<lambda>a. boolArg a ''permanent''),
      (''delete_version'', \<lambda>a. boolArg a ''permanent''),
      (''import_schemas'', \<lambda>_. True),
      (''set_mode'', \<lambda>a. fold_equal (stringArg a ''mode'') ''IMPORT''),
      (''delete_config'', \<lambda>a. stringArg a ''subject'' = []),
      (''delete_kek'', \<lambda>a. boolArg a ''permanent''),
      (''delete_dek'', \<lambda>a. boolArg a ''permanent''),
      (''delete_exporter'', \<lambda>_. True)]"

definition needs_confirmation :: "string \<Rightarrow> jmap \<Rightarrow> bool" where
  "needs_confirmation toolName args = (case confirmableTools toolName of None \<Rightarrow> False | Some predicate \<Rightarrow> predicate args)"

text \<open>What the check answers: go on, or the response it gives instead.\<close>

datatype confirm_outcome =
    Proceed
  | TokenIssued string
  | TokenRejected confirm_error
  | ConfirmationRequired

definition confirmationCheck ::
  "digest_lib \<Rightarrow> ConfirmationStore option \<Rightarrow> string \<Rightarrow> bool \<Rightarrow> string \<Rightarrow> jmap \<Rightarrow> jmap \<Rightarrow> string \<Rightarrow> go_time \<Rightarrow>
     ConfirmationStore option \<times> confirm_outcome" where
  "confirmationCheck lib store toolName dryRun confirmToken args preview uuid now =
     (case store of
        None \<Rightarrow> (None, Proceed)
      | Some cs \<Rightarrow>
          if \<not> needs_confirmation toolName args then (Some cs, Proceed)
          else if dryRun
          then (let (cs', token) = ConfirmationStore_Generate lib cs toolName args preview uuid now
                in (Some cs', TokenIssued token))
          else if confirmToken \<noteq> []
          then (case ConfirmationStore_Validate lib cs confirmToken toolName args now of
                  (cs', Some err) \<Rightarrow> (Some cs', TokenRejected err)
                | (cs', None) \<Rightarrow> (Some cs', Proceed))
          else (Some cs, ConfirmationRequired))"

section \<open>Histories\<close>

datatype mcp_event =
    Call (ev_tool: string) (ev_dry: bool) (ev_confirm: string) (ev_args: jmap) (ev_preview: jmap) (ev_uuid: string)
      (ev_now: go_time)
  | Gc (ev_now: go_time)

fun mcp_step :: "digest_lib \<Rightarrow> ConfirmationStore \<Rightarrow> mcp_event \<Rightarrow> ConfirmationStore \<times> confirm_outcome option" where
  "mcp_step lib cs (Call tool dry tok args preview uuid now) =
     (case confirmationCheck lib (Some cs) tool dry tok args preview uuid now of (cs', out) \<Rightarrow> (the cs', Some out))"
| "mcp_step lib cs (Gc now) = (ConfirmationStore_gc cs now, None)"

definition after :: "digest_lib \<Rightarrow> ConfirmationStore \<Rightarrow> mcp_event list \<Rightarrow> ConfirmationStore" where
  "after lib cs es = foldl (\<lambda>cs e. fst (mcp_step lib cs e)) cs es"

text \<open>What the \<open>i\<close>th event of a history answered.\<close>

definition outcome :: "digest_lib \<Rightarrow> ConfirmationStore \<Rightarrow> mcp_event list \<Rightarrow> nat \<Rightarrow> confirm_outcome option" where
  "outcome lib cs es i = snd (mcp_step lib (after lib cs (take i es)) (es ! i))"

fun issues :: "mcp_event \<Rightarrow> bool" where
  "issues (Call tool dry tok args preview uuid now) \<longleftrightarrow> needs_confirmation tool args \<and> dry"
| "issues (Gc now) \<longleftrightarrow> False"

text \<open>A call that needs confirmation, is no dry run and carries a token.\<close>

fun confirms :: "mcp_event \<Rightarrow> bool" where
  "confirms (Call tool dry tok args preview uuid now) \<longleftrightarrow> needs_confirmation tool args \<and> \<not> dry"
| "confirms (Gc now) \<longleftrightarrow> False"

text \<open>The identifiers of the issued tokens are all different.\<close>

definition fresh_tokens :: "mcp_event list \<Rightarrow> bool" where
  "fresh_tokens es \<longleftrightarrow> distinct (map ev_uuid (filter issues es))"

text \<open>The event that issued a token, as an entry of the store.\<close>

definition issued_as :: "digest_lib \<Rightarrow> int \<Rightarrow> mcp_event \<Rightarrow> string \<Rightarrow> confirmationEntry \<Rightarrow> bool" where
  "issued_as lib ttl e tok entry \<longleftrightarrow>
     issues e \<and> ev_uuid e = tok \<and> ce_toolName entry = ev_tool e \<and>
     ce_argsHash entry = computeArgsHash lib (ev_tool e) (ev_args e) \<and> ce_expiresAt entry = ev_now e + ttl"

section \<open>What a token allows\<close>

lemma gc_subset:
  "gm_get (cs_tokens (ConfirmationStore_gc cs now)) tok = Some entry \<Longrightarrow> gm_get (cs_tokens cs) tok = Some entry"
proof -
  have "gm_get (fold (\<lambda>(id, entry) m. if ce_expiresAt entry < now \<or> ce_used entry then gm_del id m else m) es m) tok
      = Some entry \<Longrightarrow> gm_get m tok = Some entry" for es m
    by (induction es arbitrary: m) (fastforce simp: gm_laws split: if_splits)+
  then show "gm_get (cs_tokens (ConfirmationStore_gc cs now)) tok = Some entry \<Longrightarrow> gm_get (cs_tokens cs) tok = Some entry"
    by (auto simp: ConfirmationStore_gc_def)
qed

lemma step_ttl: "cs_ttl (fst (mcp_step lib cs e)) = cs_ttl cs"
  by (cases e) (auto simp: confirmationCheck_def ConfirmationStore_Generate_def ConfirmationStore_Validate_def
      ConfirmationStore_gc_def split: option.splits)

lemma after_snoc: "after lib cs (es @ [e]) = fst (mcp_step lib (after lib cs es) e)"
  by (simp add: after_def)

lemma after_ttl: "cs_ttl (after lib cs es) = cs_ttl cs"
  by (induction es rule: rev_induct) (simp_all add: after_def step_ttl)

lemma step_store:
  "fst (mcp_step lib cs (Call tool dry tok args preview uuid now)) =
     (if \<not> needs_confirmation tool args then cs
      else if dry then fst (ConfirmationStore_Generate lib cs tool args preview uuid now)
      else if tok \<noteq> [] then fst (ConfirmationStore_Validate lib cs tok tool args now)
      else cs)"
  by (simp add: confirmationCheck_def case_prod_beta split: option.split)

lemma validate_entry:
  assumes "gm_get (cs_tokens (fst (ConfirmationStore_Validate lib cs tok tool args now))) x = Some entry"
  shows "\<exists>old. gm_get (cs_tokens cs) x = Some old \<and> (entry = old \<or> entry = old\<lparr>ce_used := True\<rparr>)"
proof (cases "gm_get (cs_tokens cs) tok")
  case None
  with assms show ?thesis by (simp add: ConfirmationStore_Validate_def)
next
  case (Some e)
  with assms show ?thesis
    by (cases "x = tok") (auto simp: ConfirmationStore_Validate_def gm_laws split: if_splits)
qed

text \<open>An entry after a step was issued by it, or was there before and is used if it was used.\<close>

lemma step_entry:
  assumes "gm_get (cs_tokens (fst (mcp_step lib cs e))) tok = Some entry"
  shows "(issued_as lib (cs_ttl cs) e tok entry) \<or>
    (\<exists>old. gm_get (cs_tokens cs) tok = Some old \<and> (entry = old \<or> entry = old\<lparr>ce_used := True\<rparr>))"
proof (cases e)
  case (Call tool dry ctok args preview uuid now)
  note store = assms [unfolded Call step_store]
  consider (generate) "needs_confirmation tool args" dry
    | (validate) "needs_confirmation tool args" "\<not> dry" "ctok \<noteq> []"
    | (idle) "\<not> needs_confirmation tool args \<or> (\<not> dry \<and> ctok = [])" by blast
  then show ?thesis
  proof cases
    case generate
    with store show ?thesis
      by (cases "tok = uuid") (auto simp: ConfirmationStore_Generate_def issued_as_def gm_laws Call)
  next
    case validate
    with store have "gm_get (cs_tokens (fst (ConfirmationStore_Validate lib cs ctok tool args now))) tok = Some entry" by simp
    then show ?thesis by (intro disjI2 validate_entry)
  next
    case idle
    with store have "gm_get (cs_tokens cs) tok = Some entry" by (auto split: if_splits)
    then show ?thesis by simp
  qed
next
  case (Gc now)
  with assms gc_subset [of cs now tok entry] have "gm_get (cs_tokens cs) tok = Some entry" by simp
  then show ?thesis by simp
qed

lemma step_confirms:
  assumes "snd (mcp_step lib cs e) = Some Proceed" "confirms e"
  shows "\<exists>entry. gm_get (cs_tokens cs) (ev_confirm e) = Some entry \<and> \<not> ce_used entry \<and> ev_now e \<le> ce_expiresAt entry \<and>
      ce_toolName entry = ev_tool e \<and> ce_argsHash entry = computeArgsHash lib (ev_tool e) (ev_args e) \<and>
      gm_get (cs_tokens (fst (mcp_step lib cs e))) (ev_confirm e) = Some (entry\<lparr>ce_used := True\<rparr>)"
  using assms
  by (cases e) (auto simp: confirmationCheck_def ConfirmationStore_Validate_def gm_laws split: if_splits option.splits prod.splits)

text \<open>The history a store records: who issued an entry, and that a token that was used stays used.\<close>

definition used_in :: "digest_lib \<Rightarrow> ConfirmationStore \<Rightarrow> mcp_event list \<Rightarrow> string \<Rightarrow> bool" where
  "used_in lib cs es tok \<longleftrightarrow>
     (\<exists>i<length es. confirms (es ! i) \<and> ev_confirm (es ! i) = tok \<and> outcome lib cs es i = Some Proceed)"

lemma outcome_prefix: "i < length es \<Longrightarrow> outcome lib cs (es @ fs) i = outcome lib cs es i"
  by (simp add: outcome_def nth_append)

lemma used_in_snoc:
  "used_in lib cs (es @ [e]) tok \<longleftrightarrow>
     used_in lib cs es tok \<or>
     (confirms e \<and> ev_confirm e = tok \<and> snd (mcp_step lib (after lib cs es) e) = Some Proceed)"
proof -
  have "outcome lib cs (es @ [e]) (length es) = snd (mcp_step lib (after lib cs es) e)"
    by (simp add: outcome_def)
  moreover have "(\<exists>i<length (es @ [e]). P i) \<longleftrightarrow> (\<exists>i<length es. P i) \<or> P (length es)" for P
    by (auto simp: less_Suc_eq)
  ultimately show ?thesis
    unfolding used_in_def by (simp only: nth_append_length) (auto simp: nth_append outcome_prefix)
qed

lemma fresh_tokens_snoc:
  "fresh_tokens (es @ [e]) \<Longrightarrow> fresh_tokens es \<and> (issues e \<longrightarrow> (\<forall>f\<in>set es. issues f \<longrightarrow> ev_uuid f \<noteq> ev_uuid e))"
  by (auto simp: fresh_tokens_def image_iff split: if_splits)

text \<open>What the store records of a history.\<close>

definition recorded :: "digest_lib \<Rightarrow> int \<Rightarrow> mcp_event list \<Rightarrow> bool" where
  "recorded lib ttl es \<longleftrightarrow>
     (\<forall>tok entry. gm_get (cs_tokens (after lib (NewConfirmationStore ttl) es)) tok = Some entry \<longrightarrow>
        (\<exists>e\<in>set es. issued_as lib ttl e tok entry) \<and> (used_in lib (NewConfirmationStore ttl) es tok \<longrightarrow> ce_used entry)) \<and>
     (\<forall>tok. used_in lib (NewConfirmationStore ttl) es tok \<longrightarrow> (\<exists>e\<in>set es. issues e \<and> ev_uuid e = tok))"

lemma recorded_step:
  assumes "recorded lib ttl es" "fresh_tokens (es @ [e])" shows "recorded lib ttl (es @ [e])"
proof -
  let ?new = "NewConfirmationStore ttl" and ?cs = "after lib (NewConfirmationStore ttl) es"
  have ttl: "cs_ttl ?cs = ttl" by (simp add: after_ttl NewConfirmationStore_def)
  have entries: "\<exists>f\<in>set es. issued_as lib ttl f tok old" "used_in lib ?new es tok \<Longrightarrow> ce_used old"
    if "gm_get (cs_tokens ?cs) tok = Some old" for tok old
    using assms(1) that by (auto simp: recorded_def)
  have issuer: "\<exists>f\<in>set es. issues f \<and> ev_uuid f = tok" if "used_in lib ?new es tok" for tok
    using assms(1) that by (auto simp: recorded_def)
  have confirmed: "\<exists>old. gm_get (cs_tokens ?cs) tok = Some old \<and>
      gm_get (cs_tokens (fst (mcp_step lib ?cs e))) tok = Some (old\<lparr>ce_used := True\<rparr>)"
    if "used_in lib ?new (es @ [e]) tok" "\<not> used_in lib ?new es tok" for tok
    using that step_confirms [of lib ?cs e] by (auto simp: used_in_snoc)
  have "(\<exists>f\<in>set (es @ [e]). issued_as lib ttl f tok entry) \<and> (used_in lib ?new (es @ [e]) tok \<longrightarrow> ce_used entry)"
    if get: "gm_get (cs_tokens (fst (mcp_step lib ?cs e))) tok = Some entry" for tok entry
  proof (cases "issued_as lib ttl e tok entry")
    case True
    then have "\<not> used_in lib ?new es tok"
      using issuer fresh_tokens_snoc [OF assms(2)] by (auto simp: issued_as_def)
    then have "used_in lib ?new (es @ [e]) tok \<Longrightarrow> ce_used entry" using confirmed [of tok] get by auto
    then show ?thesis using True by auto
  next
    case False
    then obtain old where old: "gm_get (cs_tokens ?cs) tok = Some old" "entry = old \<or> entry = old\<lparr>ce_used := True\<rparr>"
      using step_entry [OF get] ttl by auto
    from entries(1) [OF old(1)] old(2) have "\<exists>f\<in>set es. issued_as lib ttl f tok entry" by (auto simp: issued_as_def)
    moreover have "used_in lib ?new (es @ [e]) tok \<Longrightarrow> ce_used entry"
      using confirmed [of tok] get old entries(2) [OF old(1)] by (cases "used_in lib ?new es tok") auto
    ultimately show ?thesis by auto
  qed
  moreover have "\<exists>f\<in>set (es @ [e]). issues f \<and> ev_uuid f = tok" if "used_in lib ?new (es @ [e]) tok" for tok
  proof (cases "used_in lib ?new es tok")
    case True
    then show ?thesis using issuer by auto
  next
    case False
    with confirmed [OF that] entries(1) show ?thesis by (fastforce simp: issued_as_def)
  qed
  ultimately show ?thesis by (simp add: recorded_def after_snoc)
qed

lemma history_recorded: "fresh_tokens es \<Longrightarrow> recorded lib ttl es"
proof (induction es rule: rev_induct)
  case Nil
  show ?case by (simp add: recorded_def after_def NewConfirmationStore_def gm_laws used_in_def)
next
  case (snoc e es)
  then show ?case using recorded_step fresh_tokens_snoc by blast
qed

lemma fresh_tokens_take: "fresh_tokens es \<Longrightarrow> fresh_tokens (take n es)"
proof -
  assume "fresh_tokens es"
  then have "fresh_tokens (take n es @ drop n es)" by simp
  then show ?thesis unfolding fresh_tokens_def filter_append map_append distinct_append by blast
qed


definition sample_digest :: digest_lib where
  "sample_digest = \<lparr>dl_sha256 = drop 16, dl_Marshal = (\<lambda>m. Some (stringArg m ''name''))\<rparr>"

definition sample_calls :: "mcp_event list" where
  "sample_calls =
     [Call ''delete_exporter'' True [] [(''name'', JStr ''e''), (''dry_run'', JBool True)] [] ''t1'' 100,
      Gc 150,
      Call ''delete_exporter'' False ''t1'' [(''name'', JStr ''f'')] [] ''t2'' 200,
      Call ''delete_exporter'' False ''t1'' [(''name'', JStr ''e''), (''confirm_token'', JStr ''t1'')] [] ''t3'' 250,
      Call ''delete_exporter'' False ''t1'' [(''name'', JStr ''e'')] [] ''t4'' 260]"

lemma sample_outcomes:
  "fresh_tokens sample_calls" "confirms (sample_calls ! 3)"
  "map (outcome sample_digest (NewConfirmationStore 300) sample_calls) [0, 1, 2, 3, 4] =
     [Some (TokenIssued ''t1''), None, Some (TokenRejected ErrOtherArgs), Some Proceed, Some (TokenRejected ErrUsed)]"
  by code_simp+


end
