(* ===== verification/Api_Types.thy ===== *)
theory Api_Types
  imports Go_Map
begin

text \<open>
  What the HTTP handlers share: the error codes of the API (\<open>internal/api/types/types.go\<close>), the
  answers a handler can give, and the query of a request.
\<close>

section \<open>Error codes\<close>

definition ErrorCodeSubjectNotFound :: int where "ErrorCodeSubjectNotFound = 40401"
definition ErrorCodeVersionNotFound :: int where "ErrorCodeVersionNotFound = 40402"
definition ErrorCodeSchemaNotFound :: int where "ErrorCodeSchemaNotFound = 40403"
definition ErrorCodeSubjectSoftDeleted :: int where "ErrorCodeSubjectSoftDeleted = 40404"
definition ErrorCodeSubjectNotSoftDeleted :: int where "ErrorCodeSubjectNotSoftDeleted = 40405"
definition ErrorCodeSchemaVersionSoftDeleted :: int where "ErrorCodeSchemaVersionSoftDeleted = 40406"
definition ErrorCodeVersionNotSoftDeleted :: int where "ErrorCodeVersionNotSoftDeleted = 40407"
definition ErrorCodeSubjectCompatNotFound :: int where "ErrorCodeSubjectCompatNotFound = 40408"
definition ErrorCodeSubjectModeNotFound :: int where "ErrorCodeSubjectModeNotFound = 40409"
definition ErrorCodeIncompatibleSchema :: int where "ErrorCodeIncompatibleSchema = 409"
definition ErrorCodeInvalidSchema :: int where "ErrorCodeInvalidSchema = 42201"
definition ErrorCodeInvalidVersion :: int where "ErrorCodeInvalidVersion = 42202"
definition ErrorCodeInvalidCompatibilityLevel :: int where "ErrorCodeInvalidCompatibilityLevel = 42203"
definition ErrorCodeInvalidMode :: int where "ErrorCodeInvalidMode = 42204"
definition ErrorCodeOperationNotPermitted :: int where "ErrorCodeOperationNotPermitted = 42205"
definition ErrorCodeReferenceExists :: int where "ErrorCodeReferenceExists = 42206"
definition ErrorCodeInternalServerError :: int where "ErrorCodeInternalServerError = 50001"
definition ErrorCodeStorageError :: int where "ErrorCodeStorageError = 50002"
definition ErrorCodeExporterNotFound :: int where "ErrorCodeExporterNotFound = 40450"
definition ErrorCodeExporterExists :: int where "ErrorCodeExporterExists = 40950"
definition ErrorCodeKEKNotFound :: int where "ErrorCodeKEKNotFound = 40470"
definition ErrorCodeKEKExists :: int where "ErrorCodeKEKExists = 40970"
definition ErrorCodeDEKNotFound :: int where "ErrorCodeDEKNotFound = 40471"
definition ErrorCodeDEKExists :: int where "ErrorCodeDEKExists = 40971"
definition ErrorCodeUnauthorized :: int where "ErrorCodeUnauthorized = 40101"
definition ErrorCodeForbidden :: int where "ErrorCodeForbidden = 40301"
definition ErrorCodeUserNotFound :: int where "ErrorCodeUserNotFound = 40404"
definition ErrorCodeUserExists :: int where "ErrorCodeUserExists = 40901"
definition ErrorCodeAPIKeyNotFound :: int where "ErrorCodeAPIKeyNotFound = 40405"
definition ErrorCodeAPIKeyExists :: int where "ErrorCodeAPIKeyExists = 40902"
definition ErrorCodeInvalidRole :: int where "ErrorCodeInvalidRole = 42207"
definition ErrorCodeInvalidPassword :: int where "ErrorCodeInvalidPassword = 42208"

section \<open>Answers\<close>

datatype 'b answer = Reply nat 'b | NoContent | Fail nat int string

definition internal_error :: "'b answer" where
  "internal_error = Fail 500 ErrorCodeInternalServerError ''Internal server error''"

section \<open>Query parameters\<close>

text \<open>
  The decoded query string, a list of keys and values in the order of the URL:
  \<open>r.URL.Query().Get(k)\<close> is the first value of \<open>k\<close>, \<open>r.URL.Query()[k]\<close> are all of them.
\<close>

type_synonym query = "(string \<times> string) list"

definition query_values :: "query \<Rightarrow> string \<Rightarrow> string list" where
  "query_values q k = map snd (filter (\<lambda>(k', _). k' = k) q)"

definition query_get :: "query \<Rightarrow> string \<Rightarrow> string" where
  "query_get q k = (case query_values q k of [] \<Rightarrow> [] | v # _ \<Rightarrow> v)"

definition query_true :: "query \<Rightarrow> string \<Rightarrow> bool" where
  "query_true q k \<longleftrightarrow> query_get q k = ''true''"

text \<open>
  \<open>strconv.Atoi\<close> with its error ignored: zero for text that is no numeral, and the nearest 64-bit
  number for one out of range.  Digits are accumulated in 64 bits without sign, and the first digit
  that leaves them ends the loop, whatever follows it.
\<close>

fun uint_val :: "nat \<Rightarrow> string \<Rightarrow> nat option" where
  "uint_val acc [] = Some acc"
| "uint_val acc (c # cs) =
     (case digit_value c of
        None \<Rightarrow> None
      | Some d \<Rightarrow> if 10 * acc + d > 2 ^ 64 - 1 then Some (2 ^ 64 - 1) else uint_val (10 * acc + d) cs)"

definition Atoi_ignored :: "string \<Rightarrow> int" where
  "Atoi_ignored s =
     (let (neg, ds) = (case s of [] \<Rightarrow> (False, [])
                       | c # cs \<Rightarrow> if c = CHR ''-'' then (True, cs)
                                   else if c = CHR ''+'' then (False, cs) else (False, s))
      in if ds = [] then 0
         else case uint_val 0 ds of None \<Rightarrow> 0
              | Some n \<Rightarrow> (if neg then max (- (2 ^ 63)) (- int n) else min max_int64 (int n)))"

lemma digits_val_grows: "digits_val acc ds = Some n \<Longrightarrow> acc \<le> n"
  by (induction acc ds rule: digits_val.induct) (fastforce split: option.splits)+

lemma uint_val_digits: "digits_val acc ds = Some n \<Longrightarrow> n \<le> 2 ^ 64 - 1 \<Longrightarrow> uint_val acc ds = Some n"
  by (induction acc ds rule: digits_val.induct) (fastforce split: option.splits dest: digits_val_grows)+

lemma Atoi_ignored_Some: "Atoi s = Some n \<Longrightarrow> Atoi_ignored s = n"
  by (auto simp: Atoi_def Atoi_ignored_def Let_def in_i64_def max_int64_def uint_val_digits
      simp del: uint_val.simps digits_val.simps split: if_splits option.splits prod.splits list.splits)

section \<open>Substrings and lower case\<close>

text \<open>
  \<open>strings.ToLower\<close>: ASCII letters, and the two characters outside ASCII whose lower case is an ASCII
  letter (the dotted capital i and the Kelvin sign).  The bytes of other characters are kept: the code
  searches the result for ASCII words only.
\<close>

definition lower_byte :: "char \<Rightarrow> char" where
  "lower_byte c = (let n = (of_char c :: int) in if 65 \<le> n \<and> n \<le> 90 then char_of (n + 32) else c)"

fun ToLower :: "string \<Rightarrow> string" where
  "ToLower [] = []"
| "ToLower (c # s) =
     (if c = CHR 0xC4 \<and> HasPrefix s [CHR 0xB0] then CHR ''i'' # ToLower (drop 1 s)
      else if c = CHR 0xE2 \<and> HasPrefix s [CHR 0x84, CHR 0xAA] then CHR ''k'' # ToLower (drop 2 s)
      else lower_byte c # ToLower s)"

text \<open>\<open>strings.Contains\<close>, which the audit log also writes out as a loop of its own.\<close>

fun Contains :: "string \<Rightarrow> string \<Rightarrow> bool" where
  "Contains [] sub \<longleftrightarrow> sub = []"
| "Contains (c # s) sub \<longleftrightarrow> HasPrefix (c # s) sub \<or> Contains s sub"

lemma Contains_iff: "Contains s sub \<longleftrightarrow> (\<exists>a b. s = a @ sub @ b)"
proof (induction s)
  case (Cons c s)
  have "(\<exists>a b. c # s = a @ sub @ b) \<longleftrightarrow> (\<exists>b. c # s = sub @ b) \<or> (\<exists>a b. s = a @ sub @ b)"
  proof
    assume "\<exists>a b. c # s = a @ sub @ b"
    then obtain a b where "c # s = a @ sub @ b" by blast
    then show "(\<exists>b. c # s = sub @ b) \<or> (\<exists>a b. s = a @ sub @ b)" by (cases a) auto
  next
    assume "(\<exists>b. c # s = sub @ b) \<or> (\<exists>a b. s = a @ sub @ b)"
    then show "\<exists>a b. c # s = a @ sub @ b"
    proof
      assume "\<exists>b. c # s = sub @ b"
      then show ?thesis by (metis append_Nil)
    next
      assume "\<exists>a b. s = a @ sub @ b"
      then show ?thesis by (metis append_Cons)
    qed
  qed
  then show ?case using Cons by (simp add: HasPrefix_iff)
qed simp

lemma Contains_appendI: "Contains s sub \<Longrightarrow> Contains (a @ s @ b) sub"
  by (auto simp: Contains_iff) (metis append.assoc)

lemma Contains_prefix: "HasPrefix s pre \<Longrightarrow> Contains pre sub \<Longrightarrow> Contains s sub"
  by (auto simp: Contains_iff HasPrefix_iff) blast

end
