(* ===== verification/Server_Config.thy ===== *)
theory Server_Config
  imports Api_Types Compat_Modes
begin

text \<open>
  The configuration of the server, \<open>internal/config/config.go\<close>: its sections field by field, the
  defaults, the expansion of variables in the file (\<open>os.ExpandEnv\<close>), the overrides by environment
  variables, the validation, and \<open>Load\<close>.  Reading the file, the YAML decoder and the JSON decoder of
  the variables that hold maps are arguments.  A section that another theory models as far as its
  component reads it has the suffix \<open>_file\<close> here.  Of a nilable slice or map nothing observes
  whether it is nil or empty, except that a map decoded from \<open>null\<close> is nil.
\<close>

section \<open>Sections\<close>

type_synonym string_map = "(string, string) gomap"

record ServerConfig =
  server_Host :: string
  server_Port :: int
  server_ReadTimeout :: int
  server_WriteTimeout :: int
  server_ShutdownTimeout :: int
  server_DocsEnabled :: bool
  server_ClusterID :: string
  server_MaxRequestBodySize :: int
  server_MetricsRefreshInterval :: int

record PostgreSQLConfig =
  pg_Host :: string
  pg_Port :: int
  pg_Database :: string
  pg_User :: string
  pg_Password :: string
  pg_SSLMode :: string
  pg_MaxOpenConns :: int
  pg_MaxIdleConns :: int
  pg_ConnMaxLifetime :: int
  pg_ConnectTimeout :: int
  pg_HealthCheckTimeout :: int
  pg_SchemaMaxRetries :: int

record MySQLConfig =
  mysql_Host :: string
  mysql_Port :: int
  mysql_Database :: string
  mysql_User :: string
  mysql_Password :: string
  mysql_TLS :: string
  mysql_MaxOpenConns :: int
  mysql_MaxIdleConns :: int
  mysql_ConnMaxLifetime :: int
  mysql_ConnectTimeout :: int
  mysql_HealthCheckTimeout :: int
  mysql_SchemaMaxRetries :: int

record CassandraConfig =
  cassandra_Hosts :: "string list"
  cassandra_Port :: int
  cassandra_Keyspace :: string
  cassandra_LocalDC :: string
  cassandra_Consistency :: string
  cassandra_ReadConsistency :: string
  cassandra_WriteConsistency :: string
  cassandra_SerialConsistency :: string
  cassandra_Username :: string
  cassandra_Password :: string
  cassandra_Timeout :: string
  cassandra_ConnectTimeout :: string
  cassandra_MaxRetries :: int
  cassandra_IDBlockSize :: int

record VaultConfig =
  vault_Address :: string
  vault_Token :: string
  vault_Namespace :: string
  vault_MountPath :: string
  vault_BasePath :: string
  vault_TLSCertFile :: string
  vault_TLSKeyFile :: string
  vault_TLSCAFile :: string
  vault_TLSSkipVerify :: bool

record StorageConfig =
  storage_Type :: string
  storage_AuthType :: string
  storage_PostgreSQL :: PostgreSQLConfig
  storage_MySQL :: MySQLConfig
  storage_Cassandra :: CassandraConfig
  storage_Vault :: VaultConfig

record CompatibilityConfig =
  compat_DefaultLevel :: string

record LoggingConfig =
  logging_Level :: string
  logging_Format :: string

record TLSConfig =
  tls_Enabled :: bool
  tls_CertFile :: string
  tls_KeyFile :: string
  tls_CAFile :: string
  tls_MinVersion :: string
  tls_ClientAuth :: string
  tls_AutoReload :: bool
  tls_CipherSuites :: "string list"
  tls_AllowInsecureCiphers :: bool

record BootstrapConfig =
  bootstrap_Enabled :: bool
  bootstrap_Username :: string
  bootstrap_Password :: string
  bootstrap_Email :: string

record BasicAuthConfig =
  basic_Realm :: string
  basic_Users :: "string_map option"
  basic_HTPasswd :: string

record LDAPConfig_file =
  ldap_Enabled :: bool
  ldap_URL :: string
  ldap_BindDN :: string
  ldap_BindPassword :: string
  ldap_BaseDN :: string
  ldap_UserSearchFilter :: string
  ldap_UserSearchBase :: string
  ldap_GroupSearchFilter :: string
  ldap_GroupSearchBase :: string
  ldap_UsernameAttribute :: string
  ldap_EmailAttribute :: string
  ldap_GroupAttribute :: string
  ldap_RoleMapping :: "string_map option"
  ldap_DefaultRole :: string
  ldap_StartTLS :: bool
  ldap_InsecureSkipVerify :: bool
  ldap_CACertFile :: string
  ldap_ClientCertFile :: string
  ldap_ClientKeyFile :: string
  ldap_ConnectionTimeout :: int
  ldap_RequestTimeout :: int
  ldap_AllowFallback :: "bool option"

record OIDCConfig_file =
  oidc_Enabled :: bool
  oidc_IssuerURL :: string
  oidc_ClientID :: string
  oidc_ClientSecret :: string
  oidc_UsernameClaim :: string
  oidc_RolesClaim :: string
  oidc_RoleMapping :: "string_map option"
  oidc_DefaultRole :: string
  oidc_RequiredAudience :: string
  oidc_AllowedAlgorithms :: "string list"
  oidc_SkipIssuerCheck :: bool
  oidc_SkipExpiryCheck :: bool

record ConfigAPIKey_file =
  confkey_Name :: string
  confkey_KeyHash :: string
  confkey_Role :: string

record APIKeyConfig =
  apikey_Header :: string
  apikey_QueryParam :: string
  apikey_StorageType :: string
  apikey_Secret :: string
  apikey_KeyPrefix :: string
  apikey_CacheRefreshSeconds :: int
  apikey_Keys :: "ConfigAPIKey_file list"

record JWTConfig_file =
  jwt_Issuer :: string
  jwt_Audience :: string
  jwt_JWKSURL :: string
  jwt_PublicKeyFile :: string
  jwt_Algorithm :: string
  jwt_ClaimsMapping :: "string_map option"
  jwt_DefaultRole :: string
  jwt_JWKSCacheTTL :: int
  jwt_HTTPTimeout :: int

record RBACConfig_file =
  rbac_Enabled :: bool
  rbac_DefaultRole :: string
  rbac_SuperAdmins :: "string list"

record AuthConfig_file =
  auth_Enabled :: bool
  auth_Methods :: "string list"
  auth_Bootstrap :: BootstrapConfig
  auth_Basic :: BasicAuthConfig
  auth_LDAP :: LDAPConfig_file
  auth_OIDC :: OIDCConfig_file
  auth_APIKey :: APIKeyConfig
  auth_JWT :: JWTConfig_file
  auth_RBAC :: RBACConfig_file

record RateLimitConfig_file =
  limit_Enabled :: bool
  limit_RequestsPerSecond :: int
  limit_BurstSize :: int
  limit_PerClient :: bool
  limit_PerEndpoint :: bool

record AuditStdoutConfig =
  stdout_Enabled :: bool
  stdout_FormatType :: string

record AuditFileConfig =
  auditfile_Enabled :: bool
  auditfile_Path :: string
  auditfile_FormatType :: string
  auditfile_MaxSizeMB :: int
  auditfile_MaxBackups :: int
  auditfile_MaxAgeDays :: int
  auditfile_Compress :: "bool option"
  auditfile_Permissions :: string

record AuditSyslogConfig =
  syslog_Enabled :: bool
  syslog_Network :: string
  syslog_Address :: string
  syslog_AppName :: string
  syslog_Facility :: string
  syslog_FormatType :: string
  syslog_TLSCert :: string
  syslog_TLSKey :: string
  syslog_TLSCA :: string

record AuditWebhookConfig =
  webhook_Enabled :: bool
  webhook_URL :: string
  webhook_FormatType :: string
  webhook_Headers :: "string_map option"
  webhook_BatchSize :: int
  webhook_FlushInterval :: string
  webhook_Timeout :: string
  webhook_MaxRetries :: int
  webhook_BufferSize :: int

record AuditOutputsConfig =
  outputs_Stdout :: AuditStdoutConfig
  outputs_File :: AuditFileConfig
  outputs_Syslog :: AuditSyslogConfig
  outputs_Webhook :: AuditWebhookConfig

record AuditConfig_file =
  audit_Enabled :: bool
  audit_LogFile :: string
  audit_Events :: "string list"
  audit_IncludeBody :: bool
  audit_BufferSize :: int
  audit_Outputs :: AuditOutputsConfig

record SecurityMetrics =
  secmetrics_PerPrincipalMetrics :: "bool option"

record SecurityConfig =
  security_TLS :: TLSConfig
  security_Auth :: AuthConfig_file
  security_RateLimiting :: RateLimitConfig_file
  security_Audit :: AuditConfig_file
  security_Metrics :: SecurityMetrics

record MCPConfig_file =
  mcp_Enabled :: bool
  mcp_Host :: string
  mcp_Port :: int
  mcp_AuthToken :: string
  mcp_ReadOnly :: bool
  mcp_ToolPolicy :: string
  mcp_AllowedTools :: "string list"
  mcp_DeniedTools :: "string list"
  mcp_AllowedOrigins :: "string list"
  mcp_RequireConfirmations :: bool
  mcp_ConfirmationTTLSecs :: int
  mcp_LogSchemas :: bool
  mcp_PermissionPreset :: string
  mcp_PermissionScopes :: "string list"
  mcp_ReadHeaderTimeout :: int

record Config =
  cfg_Server :: ServerConfig
  cfg_Storage :: StorageConfig
  cfg_Compatibility :: CompatibilityConfig
  cfg_Logging :: LoggingConfig
  cfg_Security :: SecurityConfig
  cfg_MCP :: MCPConfig_file

section \<open>Defaults\<close>

text \<open>The zero values of the sections.\<close>

definition zero_ServerConfig :: ServerConfig where
  "zero_ServerConfig = \<lparr>server_Host = [], server_Port = 0, server_ReadTimeout = 0,
     server_WriteTimeout = 0, server_ShutdownTimeout = 0, server_DocsEnabled = False, server_ClusterID = [],
     server_MaxRequestBodySize = 0, server_MetricsRefreshInterval = 0\<rparr>"

definition zero_PostgreSQLConfig :: PostgreSQLConfig where
  "zero_PostgreSQLConfig = \<lparr>pg_Host = [], pg_Port = 0, pg_Database = [], pg_User = [],
     pg_Password = [], pg_SSLMode = [], pg_MaxOpenConns = 0, pg_MaxIdleConns = 0, pg_ConnMaxLifetime = 0,
     pg_ConnectTimeout = 0, pg_HealthCheckTimeout = 0, pg_SchemaMaxRetries = 0\<rparr>"

definition zero_MySQLConfig :: MySQLConfig where
  "zero_MySQLConfig = \<lparr>mysql_Host = [], mysql_Port = 0, mysql_Database = [], mysql_User = [],
     mysql_Password = [], mysql_TLS = [], mysql_MaxOpenConns = 0, mysql_MaxIdleConns = 0,
     mysql_ConnMaxLifetime = 0, mysql_ConnectTimeout = 0, mysql_HealthCheckTimeout = 0,
     mysql_SchemaMaxRetries = 0\<rparr>"

definition zero_CassandraConfig :: CassandraConfig where
  "zero_CassandraConfig = \<lparr>cassandra_Hosts = [], cassandra_Port = 0, cassandra_Keyspace = [],
     cassandra_LocalDC = [], cassandra_Consistency = [], cassandra_ReadConsistency = [],
     cassandra_WriteConsistency = [], cassandra_SerialConsistency = [], cassandra_Username = [],
     cassandra_Password = [], cassandra_Timeout = [], cassandra_ConnectTimeout = [],
     cassandra_MaxRetries = 0, cassandra_IDBlockSize = 0\<rparr>"

definition zero_VaultConfig :: VaultConfig where
  "zero_VaultConfig = \<lparr>vault_Address = [], vault_Token = [], vault_Namespace = [],
     vault_MountPath = [], vault_BasePath = [], vault_TLSCertFile = [], vault_TLSKeyFile = [],
     vault_TLSCAFile = [], vault_TLSSkipVerify = False\<rparr>"

definition zero_StorageConfig :: StorageConfig where
  "zero_StorageConfig = \<lparr>storage_Type = [], storage_AuthType = [],
     storage_PostgreSQL = zero_PostgreSQLConfig, storage_MySQL = zero_MySQLConfig,
     storage_Cassandra = zero_CassandraConfig, storage_Vault = zero_VaultConfig\<rparr>"

definition zero_CompatibilityConfig :: CompatibilityConfig where
  "zero_CompatibilityConfig = \<lparr>compat_DefaultLevel = []\<rparr>"

definition zero_LoggingConfig :: LoggingConfig where
  "zero_LoggingConfig = \<lparr>logging_Level = [], logging_Format = []\<rparr>"

definition zero_TLSConfig :: TLSConfig where
  "zero_TLSConfig = \<lparr>tls_Enabled = False, tls_CertFile = [], tls_KeyFile = [], tls_CAFile = [],
     tls_MinVersion = [], tls_ClientAuth = [], tls_AutoReload = False, tls_CipherSuites = [],
     tls_AllowInsecureCiphers = False\<rparr>"

definition zero_BootstrapConfig :: BootstrapConfig where
  "zero_BootstrapConfig = \<lparr>bootstrap_Enabled = False, bootstrap_Username = [],
     bootstrap_Password = [], bootstrap_Email = []\<rparr>"

definition zero_BasicAuthConfig :: BasicAuthConfig where
  "zero_BasicAuthConfig = \<lparr>basic_Realm = [], basic_Users = None, basic_HTPasswd = []\<rparr>"

definition zero_LDAPConfig :: LDAPConfig_file where
  "zero_LDAPConfig = \<lparr>ldap_Enabled = False, ldap_URL = [], ldap_BindDN = [], ldap_BindPassword = [],
     ldap_BaseDN = [], ldap_UserSearchFilter = [], ldap_UserSearchBase = [], ldap_GroupSearchFilter = [],
     ldap_GroupSearchBase = [], ldap_UsernameAttribute = [], ldap_EmailAttribute = [],
     ldap_GroupAttribute = [], ldap_RoleMapping = None, ldap_DefaultRole = [], ldap_StartTLS = False,
     ldap_InsecureSkipVerify = False, ldap_CACertFile = [], ldap_ClientCertFile = [],
     ldap_ClientKeyFile = [], ldap_ConnectionTimeout = 0, ldap_RequestTimeout = 0,
     ldap_AllowFallback = None\<rparr>"

definition zero_OIDCConfig :: OIDCConfig_file where
  "zero_OIDCConfig = \<lparr>oidc_Enabled = False, oidc_IssuerURL = [], oidc_ClientID = [],
     oidc_ClientSecret = [], oidc_UsernameClaim = [], oidc_RolesClaim = [], oidc_RoleMapping = None,
     oidc_DefaultRole = [], oidc_RequiredAudience = [], oidc_AllowedAlgorithms = [],
     oidc_SkipIssuerCheck = False, oidc_SkipExpiryCheck = False\<rparr>"

definition zero_APIKeyConfig :: APIKeyConfig where
  "zero_APIKeyConfig = \<lparr>apikey_Header = [], apikey_QueryParam = [], apikey_StorageType = [],
     apikey_Secret = [], apikey_KeyPrefix = [], apikey_CacheRefreshSeconds = 0, apikey_Keys = []\<rparr>"

definition zero_JWTConfig :: JWTConfig_file where
  "zero_JWTConfig = \<lparr>jwt_Issuer = [], jwt_Audience = [], jwt_JWKSURL = [], jwt_PublicKeyFile = [],
     jwt_Algorithm = [], jwt_ClaimsMapping = None, jwt_DefaultRole = [], jwt_JWKSCacheTTL = 0,
     jwt_HTTPTimeout = 0\<rparr>"

definition zero_RBACConfig :: RBACConfig_file where
  "zero_RBACConfig = \<lparr>rbac_Enabled = False, rbac_DefaultRole = [], rbac_SuperAdmins = []\<rparr>"

definition zero_AuthConfig :: AuthConfig_file where
  "zero_AuthConfig = \<lparr>auth_Enabled = False, auth_Methods = [], auth_Bootstrap = zero_BootstrapConfig,
     auth_Basic = zero_BasicAuthConfig, auth_LDAP = zero_LDAPConfig, auth_OIDC = zero_OIDCConfig,
     auth_APIKey = zero_APIKeyConfig, auth_JWT = zero_JWTConfig, auth_RBAC = zero_RBACConfig\<rparr>"

definition zero_RateLimitConfig :: RateLimitConfig_file where
  "zero_RateLimitConfig = \<lparr>limit_Enabled = False, limit_RequestsPerSecond = 0, limit_BurstSize = 0,
     limit_PerClient = False, limit_PerEndpoint = False\<rparr>"

definition zero_AuditStdoutConfig :: AuditStdoutConfig where
  "zero_AuditStdoutConfig = \<lparr>stdout_Enabled = False, stdout_FormatType = []\<rparr>"

definition zero_AuditFileConfig :: AuditFileConfig where
  "zero_AuditFileConfig = \<lparr>auditfile_Enabled = False, auditfile_Path = [], auditfile_FormatType = [],
     auditfile_MaxSizeMB = 0, auditfile_MaxBackups = 0, auditfile_MaxAgeDays = 0, auditfile_Compress = None,
     auditfile_Permissions = []\<rparr>"

definition zero_AuditSyslogConfig :: AuditSyslogConfig where
  "zero_AuditSyslogConfig = \<lparr>syslog_Enabled = False, syslog_Network = [], syslog_Address = [],
     syslog_AppName = [], syslog_Facility = [], syslog_FormatType = [], syslog_TLSCert = [],
     syslog_TLSKey = [], syslog_TLSCA = []\<rparr>"

definition zero_AuditWebhookConfig :: AuditWebhookConfig where
  "zero_AuditWebhookConfig = \<lparr>webhook_Enabled = False, webhook_URL = [], webhook_FormatType = [],
     webhook_Headers = None, webhook_BatchSize = 0, webhook_FlushInterval = [], webhook_Timeout = [],
     webhook_MaxRetries = 0, webhook_BufferSize = 0\<rparr>"

definition zero_AuditOutputsConfig :: AuditOutputsConfig where
  "zero_AuditOutputsConfig = \<lparr>outputs_Stdout = zero_AuditStdoutConfig,
     outputs_File = zero_AuditFileConfig, outputs_Syslog = zero_AuditSyslogConfig,
     outputs_Webhook = zero_AuditWebhookConfig\<rparr>"

definition zero_AuditConfig :: AuditConfig_file where
  "zero_AuditConfig = \<lparr>audit_Enabled = False, audit_LogFile = [], audit_Events = [],
     audit_IncludeBody = False, audit_BufferSize = 0, audit_Outputs = zero_AuditOutputsConfig\<rparr>"

definition zero_SecurityMetrics :: SecurityMetrics where
  "zero_SecurityMetrics = \<lparr>secmetrics_PerPrincipalMetrics = None\<rparr>"

definition zero_SecurityConfig :: SecurityConfig where
  "zero_SecurityConfig = \<lparr>security_TLS = zero_TLSConfig, security_Auth = zero_AuthConfig,
     security_RateLimiting = zero_RateLimitConfig, security_Audit = zero_AuditConfig,
     security_Metrics = zero_SecurityMetrics\<rparr>"

definition zero_MCPConfig :: MCPConfig_file where
  "zero_MCPConfig = \<lparr>mcp_Enabled = False, mcp_Host = [], mcp_Port = 0, mcp_AuthToken = [],
     mcp_ReadOnly = False, mcp_ToolPolicy = [], mcp_AllowedTools = [], mcp_DeniedTools = [],
     mcp_AllowedOrigins = [], mcp_RequireConfirmations = False, mcp_ConfirmationTTLSecs = 0,
     mcp_LogSchemas = False, mcp_PermissionPreset = [], mcp_PermissionScopes = [],
     mcp_ReadHeaderTimeout = 0\<rparr>"

definition zero_Config :: Config where
  "zero_Config = \<lparr>cfg_Server = zero_ServerConfig, cfg_Storage = zero_StorageConfig,
     cfg_Compatibility = zero_CompatibilityConfig, cfg_Logging = zero_LoggingConfig,
     cfg_Security = zero_SecurityConfig, cfg_MCP = zero_MCPConfig\<rparr>"

definition DefaultConfig :: Config where
  "DefaultConfig = zero_Config
     \<lparr>cfg_Server := zero_ServerConfig
        \<lparr>server_Host := ''0.0.0.0'', server_Port := 8081, server_ReadTimeout := 30, server_WriteTimeout := 30,
         server_ShutdownTimeout := 30\<rparr>,
      cfg_Storage := zero_StorageConfig\<lparr>storage_Type := ''memory''\<rparr>,
      cfg_Compatibility := zero_CompatibilityConfig\<lparr>compat_DefaultLevel := ''BACKWARD''\<rparr>,
      cfg_Logging := zero_LoggingConfig\<lparr>logging_Level := ''info'', logging_Format := ''json''\<rparr>,
      cfg_Security := zero_SecurityConfig
        \<lparr>security_Auth := zero_AuthConfig\<lparr>auth_APIKey := zero_APIKeyConfig\<lparr>apikey_CacheRefreshSeconds := 60\<rparr>\<rparr>\<rparr>,
      cfg_MCP := zero_MCPConfig
        \<lparr>mcp_Host := ''127.0.0.1'', mcp_Port := 9081,
         mcp_AllowedOrigins := [''http://localhost:*'', ''https://localhost:*'', ''vscode-webview://*'']\<rparr>\<rparr>"

section \<open>Expansion of variables\<close>

text \<open>\<open>os.ExpandEnv\<close>: the name after a dollar sign, with the number of bytes it takes.\<close>

type_synonym getenv = "string \<Rightarrow> string"

definition isShellSpecialVar :: "char \<Rightarrow> bool" where
  "isShellSpecialVar c \<longleftrightarrow> c \<in> set ''*#$@!?-0123456789''"

definition isAlphaNum :: "char \<Rightarrow> bool" where
  "isAlphaNum c \<longleftrightarrow>
     c \<in> set ''_0123456789abcdefghijklmnopqrstuvwxyzABCDEFGHIJKLMNOPQRSTUVWXYZ''"

definition getShellName :: "string \<Rightarrow> string \<times> nat" where
  "getShellName s =
     (case s of
        [] \<Rightarrow> ([], 0)
      | c # cs \<Rightarrow>
          if c = CHR ''{''
          then (if length s > 2 \<and> isShellSpecialVar (s ! 1) \<and> s ! 2 = CHR ''}'' then ([s ! 1], 3)
                else (case IndexByte cs (CHR ''}'') of
                        Some i \<Rightarrow> if i = 0 then ([], 2) else (take i cs, i + 2)
                      | None \<Rightarrow> ([], 1)))
          else if isShellSpecialVar c then ([c], 1)
          else (takeWhile isAlphaNum s, length (takeWhile isAlphaNum s)))"

function ExpandEnv :: "getenv \<Rightarrow> string \<Rightarrow> string" where
  "ExpandEnv env [] = []"
| "ExpandEnv env (c # cs) =
     (if c = CHR ''$'' \<and> cs \<noteq> []
      then (case getShellName cs of
              (name, w) \<Rightarrow>
                (if name = [] then (if w > 0 then [] else [c]) else env name) @ ExpandEnv env (drop w cs))
      else c # ExpandEnv env cs)"
  by pat_completeness auto

termination by (relation "measure (\<lambda>(_, s). length s)") auto

section \<open>Overrides\<close>

text \<open>
  One statement of \<open>applyEnvOverrides\<close>: a variable that is set and whose value can be read replaces
  a field.  What the variable holds is a text, a number, a truth value, a list or a JSON object; a value
  that cannot be read is reported in the log and ignored.
\<close>

type_synonym map_decoder = "string \<Rightarrow> string_map option option"

definition override ::
  "getenv \<Rightarrow> string \<Rightarrow> (string \<Rightarrow> 'a option) \<Rightarrow> (('a \<Rightarrow> 'a) \<Rightarrow> Config \<Rightarrow> Config) \<Rightarrow> Config \<Rightarrow> Config" where
  "override env var parse upd c =
     (let v = env var
      in if v \<noteq> [] then (case parse v of Some x \<Rightarrow> upd (\<lambda>_. x) c | None \<Rightarrow> c) else c)"

definition override_unset ::
  "getenv \<Rightarrow> string \<Rightarrow> (Config \<Rightarrow> string) \<Rightarrow> ((string \<Rightarrow> string) \<Rightarrow> Config \<Rightarrow> Config) \<Rightarrow> Config \<Rightarrow> Config" where
  "override_unset env var get upd c =
     (let v = env var in if v \<noteq> [] \<and> get c = [] then upd (\<lambda>_. v) c else c)"

definition envInt :: "string \<Rightarrow> int option" where
  "envInt value = Atoi value"

definition envInt64 :: "string \<Rightarrow> int option" where
  "envInt64 value = Atoi value"

definition envJSON :: "map_decoder \<Rightarrow> string \<Rightarrow> string_map option option" where
  "envJSON unmarshal value = unmarshal value"

definition parse_bool :: "string \<Rightarrow> bool option" where
  "parse_bool v = Some (ToLower v = ''true'' \<or> v = ''1'')"

definition parse_bool_ptr :: "string \<Rightarrow> bool option option" where
  "parse_bool_ptr v = Some (Some (ToLower v = ''true'' \<or> v = ''1''))"

definition parse_list :: "string \<Rightarrow> string list option" where
  "parse_list v = Some (map TrimSpace (SplitByte v (CHR '','')))"

definition server_and_general_overrides :: "getenv \<Rightarrow> Config \<Rightarrow> Config" where
  "server_and_general_overrides env c =
     (let c = override env ''SCHEMA_REGISTRY_HOST'' Some (\<lambda>f. cfg_Server_update (server_Host_update f)) c;
          c = override env ''SCHEMA_REGISTRY_PORT'' envInt (\<lambda>f. cfg_Server_update (server_Port_update f)) c;
          c = override env ''SCHEMA_REGISTRY_SHUTDOWN_TIMEOUT'' envInt (\<lambda>f. cfg_Server_update (server_ShutdownTimeout_update f)) c;
          c = override env ''SCHEMA_REGISTRY_METRICS_REFRESH_INTERVAL'' envInt (\<lambda>f. cfg_Server_update (server_MetricsRefreshInterval_update f)) c;
          c = override env ''SCHEMA_REGISTRY_READ_TIMEOUT'' envInt (\<lambda>f. cfg_Server_update (server_ReadTimeout_update f)) c;
          c = override env ''SCHEMA_REGISTRY_WRITE_TIMEOUT'' envInt (\<lambda>f. cfg_Server_update (server_WriteTimeout_update f)) c;
          c = override env ''SCHEMA_REGISTRY_CLUSTER_ID'' Some (\<lambda>f. cfg_Server_update (server_ClusterID_update f)) c;
          c = override env ''SCHEMA_REGISTRY_MAX_REQUEST_BODY_SIZE'' envInt64 (\<lambda>f. cfg_Server_update (server_MaxRequestBodySize_update f)) c;
          c = override env ''SCHEMA_REGISTRY_STORAGE_TYPE'' Some (\<lambda>f. cfg_Storage_update (storage_Type_update f)) c;
          c = override env ''SCHEMA_REGISTRY_COMPATIBILITY_LEVEL'' Some (\<lambda>f. cfg_Compatibility_update (compat_DefaultLevel_update f)) c;
          c = override env ''SCHEMA_REGISTRY_LOG_LEVEL'' Some (\<lambda>f. cfg_Logging_update (logging_Level_update f)) c
      in override env ''SCHEMA_REGISTRY_LOG_FORMAT'' Some (\<lambda>f. cfg_Logging_update (logging_Format_update f)) c)"

definition postgresql_overrides :: "getenv \<Rightarrow> Config \<Rightarrow> Config" where
  "postgresql_overrides env c =
     (let c = override env ''SCHEMA_REGISTRY_PG_HOST'' Some (\<lambda>f. cfg_Storage_update (storage_PostgreSQL_update (pg_Host_update f))) c;
          c = override env ''SCHEMA_REGISTRY_PG_PORT'' envInt (\<lambda>f. cfg_Storage_update (storage_PostgreSQL_update (pg_Port_update f))) c;
          c = override env ''SCHEMA_REGISTRY_PG_DATABASE'' Some (\<lambda>f. cfg_Storage_update (storage_PostgreSQL_update (pg_Database_update f))) c;
          c = override env ''SCHEMA_REGISTRY_PG_USER'' Some (\<lambda>f. cfg_Storage_update (storage_PostgreSQL_update (pg_User_update f))) c;
          c = override env ''SCHEMA_REGISTRY_PG_PASSWORD'' Some (\<lambda>f. cfg_Storage_update (storage_PostgreSQL_update (pg_Password_update f))) c;
          c = override env ''SCHEMA_REGISTRY_PG_SSLMODE'' Some (\<lambda>f. cfg_Storage_update (storage_PostgreSQL_update (pg_SSLMode_update f))) c;
          c = override env ''SCHEMA_REGISTRY_PG_CONNECT_TIMEOUT'' envInt (\<lambda>f. cfg_Storage_update (storage_PostgreSQL_update (pg_ConnectTimeout_update f))) c;
          c = override env ''SCHEMA_REGISTRY_PG_HEALTH_CHECK_TIMEOUT'' envInt (\<lambda>f. cfg_Storage_update (storage_PostgreSQL_update (pg_HealthCheckTimeout_update f))) c;
          c = override env ''SCHEMA_REGISTRY_PG_SCHEMA_MAX_RETRIES'' envInt (\<lambda>f. cfg_Storage_update (storage_PostgreSQL_update (pg_SchemaMaxRetries_update f))) c;
          c = override env ''SCHEMA_REGISTRY_PG_MAX_OPEN_CONNS'' envInt (\<lambda>f. cfg_Storage_update (storage_PostgreSQL_update (pg_MaxOpenConns_update f))) c;
          c = override env ''SCHEMA_REGISTRY_PG_MAX_IDLE_CONNS'' envInt (\<lambda>f. cfg_Storage_update (storage_PostgreSQL_update (pg_MaxIdleConns_update f))) c
      in override env ''SCHEMA_REGISTRY_PG_CONN_MAX_LIFETIME'' envInt (\<lambda>f. cfg_Storage_update (storage_PostgreSQL_update (pg_ConnMaxLifetime_update f))) c)"

definition mysql_overrides :: "getenv \<Rightarrow> Config \<Rightarrow> Config" where
  "mysql_overrides env c =
     (let c = override env ''SCHEMA_REGISTRY_MYSQL_HOST'' Some (\<lambda>f. cfg_Storage_update (storage_MySQL_update (mysql_Host_update f))) c;
          c = override env ''SCHEMA_REGISTRY_MYSQL_PORT'' envInt (\<lambda>f. cfg_Storage_update (storage_MySQL_update (mysql_Port_update f))) c;
          c = override env ''SCHEMA_REGISTRY_MYSQL_DATABASE'' Some (\<lambda>f. cfg_Storage_update (storage_MySQL_update (mysql_Database_update f))) c;
          c = override env ''SCHEMA_REGISTRY_MYSQL_USER'' Some (\<lambda>f. cfg_Storage_update (storage_MySQL_update (mysql_User_update f))) c;
          c = override env ''SCHEMA_REGISTRY_MYSQL_PASSWORD'' Some (\<lambda>f. cfg_Storage_update (storage_MySQL_update (mysql_Password_update f))) c;
          c = override env ''SCHEMA_REGISTRY_MYSQL_TLS'' Some (\<lambda>f. cfg_Storage_update (storage_MySQL_update (mysql_TLS_update f))) c;
          c = override env ''SCHEMA_REGISTRY_MYSQL_CONNECT_TIMEOUT'' envInt (\<lambda>f. cfg_Storage_update (storage_MySQL_update (mysql_ConnectTimeout_update f))) c;
          c = override env ''SCHEMA_REGISTRY_MYSQL_HEALTH_CHECK_TIMEOUT'' envInt (\<lambda>f. cfg_Storage_update (storage_MySQL_update (mysql_HealthCheckTimeout_update f))) c;
          c = override env ''SCHEMA_REGISTRY_MYSQL_SCHEMA_MAX_RETRIES'' envInt (\<lambda>f. cfg_Storage_update (storage_MySQL_update (mysql_SchemaMaxRetries_update f))) c;
          c = override env ''SCHEMA_REGISTRY_MYSQL_MAX_OPEN_CONNS'' envInt (\<lambda>f. cfg_Storage_update (storage_MySQL_update (mysql_MaxOpenConns_update f))) c;
          c = override env ''SCHEMA_REGISTRY_MYSQL_MAX_IDLE_CONNS'' envInt (\<lambda>f. cfg_Storage_update (storage_MySQL_update (mysql_MaxIdleConns_update f))) c
      in override env ''SCHEMA_REGISTRY_MYSQL_CONN_MAX_LIFETIME'' envInt (\<lambda>f. cfg_Storage_update (storage_MySQL_update (mysql_ConnMaxLifetime_update f))) c)"

definition cassandra_overrides :: "getenv \<Rightarrow> Config \<Rightarrow> Config" where
  "cassandra_overrides env c =
     (let c = override env ''SCHEMA_REGISTRY_CASSANDRA_HOSTS'' parse_list (\<lambda>f. cfg_Storage_update (storage_Cassandra_update (cassandra_Hosts_update f))) c;
          c = override env ''SCHEMA_REGISTRY_CASSANDRA_PORT'' envInt (\<lambda>f. cfg_Storage_update (storage_Cassandra_update (cassandra_Port_update f))) c;
          c = override env ''SCHEMA_REGISTRY_CASSANDRA_KEYSPACE'' Some (\<lambda>f. cfg_Storage_update (storage_Cassandra_update (cassandra_Keyspace_update f))) c;
          c = override env ''SCHEMA_REGISTRY_CASSANDRA_LOCAL_DC'' Some (\<lambda>f. cfg_Storage_update (storage_Cassandra_update (cassandra_LocalDC_update f))) c;
          c = override env ''SCHEMA_REGISTRY_CASSANDRA_CONSISTENCY'' Some (\<lambda>f. cfg_Storage_update (storage_Cassandra_update (cassandra_Consistency_update f))) c;
          c = override env ''SCHEMA_REGISTRY_CASSANDRA_READ_CONSISTENCY'' Some (\<lambda>f. cfg_Storage_update (storage_Cassandra_update (cassandra_ReadConsistency_update f))) c;
          c = override env ''SCHEMA_REGISTRY_CASSANDRA_WRITE_CONSISTENCY'' Some (\<lambda>f. cfg_Storage_update (storage_Cassandra_update (cassandra_WriteConsistency_update f))) c;
          c = override env ''SCHEMA_REGISTRY_CASSANDRA_SERIAL_CONSISTENCY'' Some (\<lambda>f. cfg_Storage_update (storage_Cassandra_update (cassandra_SerialConsistency_update f))) c;
          c = override env ''SCHEMA_REGISTRY_CASSANDRA_USERNAME'' Some (\<lambda>f. cfg_Storage_update (storage_Cassandra_update (cassandra_Username_update f))) c;
          c = override env ''SCHEMA_REGISTRY_CASSANDRA_PASSWORD'' Some (\<lambda>f. cfg_Storage_update (storage_Cassandra_update (cassandra_Password_update f))) c;
          c = override env ''SCHEMA_REGISTRY_CASSANDRA_TIMEOUT'' Some (\<lambda>f. cfg_Storage_update (storage_Cassandra_update (cassandra_Timeout_update f))) c;
          c = override env ''SCHEMA_REGISTRY_CASSANDRA_CONNECT_TIMEOUT'' Some (\<lambda>f. cfg_Storage_update (storage_Cassandra_update (cassandra_ConnectTimeout_update f))) c;
          c = override env ''SCHEMA_REGISTRY_CASSANDRA_MAX_RETRIES'' envInt (\<lambda>f. cfg_Storage_update (storage_Cassandra_update (cassandra_MaxRetries_update f))) c
      in override env ''SCHEMA_REGISTRY_CASSANDRA_ID_BLOCK_SIZE'' envInt (\<lambda>f. cfg_Storage_update (storage_Cassandra_update (cassandra_IDBlockSize_update f))) c)"

definition mcp_overrides :: "getenv \<Rightarrow> Config \<Rightarrow> Config" where
  "mcp_overrides env c =
     (let c = override env ''SCHEMA_REGISTRY_MCP_ENABLED'' parse_bool (\<lambda>f. cfg_MCP_update (mcp_Enabled_update f)) c;
          c = override env ''SCHEMA_REGISTRY_MCP_HOST'' Some (\<lambda>f. cfg_MCP_update (mcp_Host_update f)) c;
          c = override env ''SCHEMA_REGISTRY_MCP_PORT'' envInt (\<lambda>f. cfg_MCP_update (mcp_Port_update f)) c;
          c = override env ''SCHEMA_REGISTRY_MCP_AUTH_TOKEN'' Some (\<lambda>f. cfg_MCP_update (mcp_AuthToken_update f)) c;
          c = override env ''SCHEMA_REGISTRY_MCP_READ_ONLY'' parse_bool (\<lambda>f. cfg_MCP_update (mcp_ReadOnly_update f)) c;
          c = override env ''SCHEMA_REGISTRY_MCP_ALLOWED_ORIGINS'' parse_list (\<lambda>f. cfg_MCP_update (mcp_AllowedOrigins_update f)) c;
          c = override env ''SCHEMA_REGISTRY_MCP_REQUIRE_CONFIRMATIONS'' parse_bool (\<lambda>f. cfg_MCP_update (mcp_RequireConfirmations_update f)) c;
          c = override env ''SCHEMA_REGISTRY_MCP_CONFIRMATION_TTL'' envInt (\<lambda>f. cfg_MCP_update (mcp_ConfirmationTTLSecs_update f)) c;
          c = override env ''SCHEMA_REGISTRY_MCP_LOG_SCHEMAS'' parse_bool (\<lambda>f. cfg_MCP_update (mcp_LogSchemas_update f)) c;
          c = override env ''SCHEMA_REGISTRY_MCP_PERMISSION_PRESET'' Some (\<lambda>f. cfg_MCP_update (mcp_PermissionPreset_update f)) c;
          c = override env ''SCHEMA_REGISTRY_MCP_PERMISSION_SCOPES'' parse_list (\<lambda>f. cfg_MCP_update (mcp_PermissionScopes_update f)) c;
          c = override env ''SCHEMA_REGISTRY_MCP_TOOL_POLICY'' Some (\<lambda>f. cfg_MCP_update (mcp_ToolPolicy_update f)) c;
          c = override env ''SCHEMA_REGISTRY_MCP_ALLOWED_TOOLS'' parse_list (\<lambda>f. cfg_MCP_update (mcp_AllowedTools_update f)) c;
          c = override env ''SCHEMA_REGISTRY_MCP_DENIED_TOOLS'' parse_list (\<lambda>f. cfg_MCP_update (mcp_DeniedTools_update f)) c
      in override env ''SCHEMA_REGISTRY_MCP_READ_HEADER_TIMEOUT'' envInt (\<lambda>f. cfg_MCP_update (mcp_ReadHeaderTimeout_update f)) c)"

definition docs_enabled_overrides :: "getenv \<Rightarrow> Config \<Rightarrow> Config" where
  "docs_enabled_overrides env c =
     override env ''SCHEMA_REGISTRY_DOCS_ENABLED'' parse_bool (\<lambda>f. cfg_Server_update (server_DocsEnabled_update f)) c"

definition auth_type_overrides :: "getenv \<Rightarrow> Config \<Rightarrow> Config" where
  "auth_type_overrides env c =
     override env ''SCHEMA_REGISTRY_AUTH_TYPE'' Some (\<lambda>f. cfg_Storage_update (storage_AuthType_update f)) c"

definition bootstrap_admin_user_overrides :: "getenv \<Rightarrow> Config \<Rightarrow> Config" where
  "bootstrap_admin_user_overrides env c =
     (let c = override env ''SCHEMA_REGISTRY_BOOTSTRAP_ENABLED'' parse_bool (\<lambda>f. cfg_Security_update (security_Auth_update (auth_Bootstrap_update (bootstrap_Enabled_update f)))) c;
          c = override env ''SCHEMA_REGISTRY_BOOTSTRAP_USERNAME'' Some (\<lambda>f. cfg_Security_update (security_Auth_update (auth_Bootstrap_update (bootstrap_Username_update f)))) c;
          c = override env ''SCHEMA_REGISTRY_BOOTSTRAP_PASSWORD'' Some (\<lambda>f. cfg_Security_update (security_Auth_update (auth_Bootstrap_update (bootstrap_Password_update f)))) c
      in override env ''SCHEMA_REGISTRY_BOOTSTRAP_EMAIL'' Some (\<lambda>f. cfg_Security_update (security_Auth_update (auth_Bootstrap_update (bootstrap_Email_update f)))) c)"

definition vault_overrides :: "getenv \<Rightarrow> Config \<Rightarrow> Config" where
  "vault_overrides env c =
     (let c = override env ''SCHEMA_REGISTRY_VAULT_ADDRESS'' Some (\<lambda>f. cfg_Storage_update (storage_Vault_update (vault_Address_update f))) c;
          c = override env ''SCHEMA_REGISTRY_VAULT_TOKEN'' Some (\<lambda>f. cfg_Storage_update (storage_Vault_update (vault_Token_update f))) c;
          c = override_unset env ''VAULT_TOKEN'' (\<lambda>c. vault_Token (storage_Vault (cfg_Storage c))) (\<lambda>f. cfg_Storage_update (storage_Vault_update (vault_Token_update f))) c;
          c = override env ''SCHEMA_REGISTRY_VAULT_NAMESPACE'' Some (\<lambda>f. cfg_Storage_update (storage_Vault_update (vault_Namespace_update f))) c;
          c = override_unset env ''VAULT_NAMESPACE'' (\<lambda>c. vault_Namespace (storage_Vault (cfg_Storage c))) (\<lambda>f. cfg_Storage_update (storage_Vault_update (vault_Namespace_update f))) c;
          c = override env ''SCHEMA_REGISTRY_VAULT_MOUNT_PATH'' Some (\<lambda>f. cfg_Storage_update (storage_Vault_update (vault_MountPath_update f))) c;
          c = override env ''SCHEMA_REGISTRY_VAULT_BASE_PATH'' Some (\<lambda>f. cfg_Storage_update (storage_Vault_update (vault_BasePath_update f))) c;
          c = override env ''SCHEMA_REGISTRY_VAULT_TLS_CERT_FILE'' Some (\<lambda>f. cfg_Storage_update (storage_Vault_update (vault_TLSCertFile_update f))) c;
          c = override env ''SCHEMA_REGISTRY_VAULT_TLS_KEY_FILE'' Some (\<lambda>f. cfg_Storage_update (storage_Vault_update (vault_TLSKeyFile_update f))) c;
          c = override env ''SCHEMA_REGISTRY_VAULT_TLS_CA_FILE'' Some (\<lambda>f. cfg_Storage_update (storage_Vault_update (vault_TLSCAFile_update f))) c
      in override env ''SCHEMA_REGISTRY_VAULT_TLS_SKIP_VERIFY'' parse_bool (\<lambda>f. cfg_Storage_update (storage_Vault_update (vault_TLSSkipVerify_update f))) c)"

definition jwt_overrides :: "getenv \<Rightarrow> Config \<Rightarrow> Config" where
  "jwt_overrides env c =
     (let c = override env ''SCHEMA_REGISTRY_JWT_ISSUER'' Some (\<lambda>f. cfg_Security_update (security_Auth_update (auth_JWT_update (jwt_Issuer_update f)))) c;
          c = override env ''SCHEMA_REGISTRY_JWT_AUDIENCE'' Some (\<lambda>f. cfg_Security_update (security_Auth_update (auth_JWT_update (jwt_Audience_update f)))) c;
          c = override env ''SCHEMA_REGISTRY_JWT_JWKS_URL'' Some (\<lambda>f. cfg_Security_update (security_Auth_update (auth_JWT_update (jwt_JWKSURL_update f)))) c;
          c = override env ''SCHEMA_REGISTRY_JWT_PUBLIC_KEY_FILE'' Some (\<lambda>f. cfg_Security_update (security_Auth_update (auth_JWT_update (jwt_PublicKeyFile_update f)))) c;
          c = override env ''SCHEMA_REGISTRY_JWT_ALGORITHM'' Some (\<lambda>f. cfg_Security_update (security_Auth_update (auth_JWT_update (jwt_Algorithm_update f)))) c;
          c = override env ''SCHEMA_REGISTRY_JWT_DEFAULT_ROLE'' Some (\<lambda>f. cfg_Security_update (security_Auth_update (auth_JWT_update (jwt_DefaultRole_update f)))) c;
          c = override env ''SCHEMA_REGISTRY_JWT_JWKS_CACHE_TTL'' envInt (\<lambda>f. cfg_Security_update (security_Auth_update (auth_JWT_update (jwt_JWKSCacheTTL_update f)))) c
      in override env ''SCHEMA_REGISTRY_JWT_HTTP_TIMEOUT'' envInt (\<lambda>f. cfg_Security_update (security_Auth_update (auth_JWT_update (jwt_HTTPTimeout_update f)))) c)"

definition auth_overrides :: "getenv \<Rightarrow> Config \<Rightarrow> Config" where
  "auth_overrides env c =
     (let c = override env ''SCHEMA_REGISTRY_AUTH_ENABLED'' parse_bool (\<lambda>f. cfg_Security_update (security_Auth_update (auth_Enabled_update f))) c
      in override env ''SCHEMA_REGISTRY_AUTH_METHODS'' parse_list (\<lambda>f. cfg_Security_update (security_Auth_update (auth_Methods_update f))) c)"

definition ldap_overrides :: "map_decoder \<Rightarrow> getenv \<Rightarrow> Config \<Rightarrow> Config" where
  "ldap_overrides unmarshal env c =
     (let c = override env ''SCHEMA_REGISTRY_LDAP_ENABLED'' parse_bool (\<lambda>f. cfg_Security_update (security_Auth_update (auth_LDAP_update (ldap_Enabled_update f)))) c;
          c = override env ''SCHEMA_REGISTRY_LDAP_URL'' Some (\<lambda>f. cfg_Security_update (security_Auth_update (auth_LDAP_update (ldap_URL_update f)))) c;
          c = override env ''SCHEMA_REGISTRY_LDAP_BIND_DN'' Some (\<lambda>f. cfg_Security_update (security_Auth_update (auth_LDAP_update (ldap_BindDN_update f)))) c;
          c = override env ''SCHEMA_REGISTRY_LDAP_BIND_PASSWORD'' Some (\<lambda>f. cfg_Security_update (security_Auth_update (auth_LDAP_update (ldap_BindPassword_update f)))) c;
          c = override env ''SCHEMA_REGISTRY_LDAP_BASE_DN'' Some (\<lambda>f. cfg_Security_update (security_Auth_update (auth_LDAP_update (ldap_BaseDN_update f)))) c;
          c = override env ''SCHEMA_REGISTRY_LDAP_USER_SEARCH_FILTER'' Some (\<lambda>f. cfg_Security_update (security_Auth_update (auth_LDAP_update (ldap_UserSearchFilter_update f)))) c;
          c = override env ''SCHEMA_REGISTRY_LDAP_USER_SEARCH_BASE'' Some (\<lambda>f. cfg_Security_update (security_Auth_update (auth_LDAP_update (ldap_UserSearchBase_update f)))) c;
          c = override env ''SCHEMA_REGISTRY_LDAP_GROUP_SEARCH_FILTER'' Some (\<lambda>f. cfg_Security_update (security_Auth_update (auth_LDAP_update (ldap_GroupSearchFilter_update f)))) c;
          c = override env ''SCHEMA_REGISTRY_LDAP_GROUP_SEARCH_BASE'' Some (\<lambda>f. cfg_Security_update (security_Auth_update (auth_LDAP_update (ldap_GroupSearchBase_update f)))) c;
          c = override env ''SCHEMA_REGISTRY_LDAP_USERNAME_ATTRIBUTE'' Some (\<lambda>f. cfg_Security_update (security_Auth_update (auth_LDAP_update (ldap_UsernameAttribute_update f)))) c;
          c = override env ''SCHEMA_REGISTRY_LDAP_EMAIL_ATTRIBUTE'' Some (\<lambda>f. cfg_Security_update (security_Auth_update (auth_LDAP_update (ldap_EmailAttribute_update f)))) c;
          c = override env ''SCHEMA_REGISTRY_LDAP_GROUP_ATTRIBUTE'' Some (\<lambda>f. cfg_Security_update (security_Auth_update (auth_LDAP_update (ldap_GroupAttribute_update f)))) c;
          c = override env ''SCHEMA_REGISTRY_LDAP_DEFAULT_ROLE'' Some (\<lambda>f. cfg_Security_update (security_Auth_update (auth_LDAP_update (ldap_DefaultRole_update f)))) c;
          c = override env ''SCHEMA_REGISTRY_LDAP_START_TLS'' parse_bool (\<lambda>f. cfg_Security_update (security_Auth_update (auth_LDAP_update (ldap_StartTLS_update f)))) c;
          c = override env ''SCHEMA_REGISTRY_LDAP_INSECURE_SKIP_VERIFY'' parse_bool (\<lambda>f. cfg_Security_update (security_Auth_update (auth_LDAP_update (ldap_InsecureSkipVerify_update f)))) c;
          c = override env ''SCHEMA_REGISTRY_LDAP_CA_CERT_FILE'' Some (\<lambda>f. cfg_Security_update (security_Auth_update (auth_LDAP_update (ldap_CACertFile_update f)))) c;
          c = override env ''SCHEMA_REGISTRY_LDAP_CLIENT_CERT_FILE'' Some (\<lambda>f. cfg_Security_update (security_Auth_update (auth_LDAP_update (ldap_ClientCertFile_update f)))) c;
          c = override env ''SCHEMA_REGISTRY_LDAP_CLIENT_KEY_FILE'' Some (\<lambda>f. cfg_Security_update (security_Auth_update (auth_LDAP_update (ldap_ClientKeyFile_update f)))) c;
          c = override env ''SCHEMA_REGISTRY_LDAP_CONNECTION_TIMEOUT'' envInt (\<lambda>f. cfg_Security_update (security_Auth_update (auth_LDAP_update (ldap_ConnectionTimeout_update f)))) c;
          c = override env ''SCHEMA_REGISTRY_LDAP_REQUEST_TIMEOUT'' envInt (\<lambda>f. cfg_Security_update (security_Auth_update (auth_LDAP_update (ldap_RequestTimeout_update f)))) c;
          c = override env ''SCHEMA_REGISTRY_LDAP_ALLOW_FALLBACK'' parse_bool_ptr (\<lambda>f. cfg_Security_update (security_Auth_update (auth_LDAP_update (ldap_AllowFallback_update f)))) c
      in override env ''SCHEMA_REGISTRY_LDAP_ROLE_MAPPING'' (envJSON unmarshal) (\<lambda>f. cfg_Security_update (security_Auth_update (auth_LDAP_update (ldap_RoleMapping_update f)))) c)"

definition oidc_overrides :: "map_decoder \<Rightarrow> getenv \<Rightarrow> Config \<Rightarrow> Config" where
  "oidc_overrides unmarshal env c =
     (let c = override env ''SCHEMA_REGISTRY_OIDC_ENABLED'' parse_bool (\<lambda>f. cfg_Security_update (security_Auth_update (auth_OIDC_update (oidc_Enabled_update f)))) c;
          c = override env ''SCHEMA_REGISTRY_OIDC_ISSUER_URL'' Some (\<lambda>f. cfg_Security_update (security_Auth_update (auth_OIDC_update (oidc_IssuerURL_update f)))) c;
          c = override env ''SCHEMA_REGISTRY_OIDC_CLIENT_ID'' Some (\<lambda>f. cfg_Security_update (security_Auth_update (auth_OIDC_update (oidc_ClientID_update f)))) c;
          c = override env ''SCHEMA_REGISTRY_OIDC_CLIENT_SECRET'' Some (\<lambda>f. cfg_Security_update (security_Auth_update (auth_OIDC_update (oidc_ClientSecret_update f)))) c;
          c = override env ''SCHEMA_REGISTRY_OIDC_USERNAME_CLAIM'' Some (\<lambda>f. cfg_Security_update (security_Auth_update (auth_OIDC_update (oidc_UsernameClaim_update f)))) c;
          c = override env ''SCHEMA_REGISTRY_OIDC_ROLES_CLAIM'' Some (\<lambda>f. cfg_Security_update (security_Auth_update (auth_OIDC_update (oidc_RolesClaim_update f)))) c;
          c = override env ''SCHEMA_REGISTRY_OIDC_DEFAULT_ROLE'' Some (\<lambda>f. cfg_Security_update (security_Auth_update (auth_OIDC_update (oidc_DefaultRole_update f)))) c;
          c = override env ''SCHEMA_REGISTRY_OIDC_REQUIRED_AUDIENCE'' Some (\<lambda>f. cfg_Security_update (security_Auth_update (auth_OIDC_update (oidc_RequiredAudience_update f)))) c;
          c = override env ''SCHEMA_REGISTRY_OIDC_SKIP_ISSUER_CHECK'' parse_bool (\<lambda>f. cfg_Security_update (security_Auth_update (auth_OIDC_update (oidc_SkipIssuerCheck_update f)))) c;
          c = override env ''SCHEMA_REGISTRY_OIDC_SKIP_EXPIRY_CHECK'' parse_bool (\<lambda>f. cfg_Security_update (security_Auth_update (auth_OIDC_update (oidc_SkipExpiryCheck_update f)))) c;
          c = override env ''SCHEMA_REGISTRY_OIDC_ROLE_MAPPING'' (envJSON unmarshal) (\<lambda>f. cfg_Security_update (security_Auth_update (auth_OIDC_update (oidc_RoleMapping_update f)))) c
      in override env ''SCHEMA_REGISTRY_OIDC_ALLOWED_ALGORITHMS'' parse_list (\<lambda>f. cfg_Security_update (security_Auth_update (auth_OIDC_update (oidc_AllowedAlgorithms_update f)))) c)"

definition api_key_overrides :: "getenv \<Rightarrow> Config \<Rightarrow> Config" where
  "api_key_overrides env c =
     (let c = override env ''SCHEMA_REGISTRY_API_KEY_HEADER'' Some (\<lambda>f. cfg_Security_update (security_Auth_update (auth_APIKey_update (apikey_Header_update f)))) c;
          c = override env ''SCHEMA_REGISTRY_API_KEY_QUERY_PARAM'' Some (\<lambda>f. cfg_Security_update (security_Auth_update (auth_APIKey_update (apikey_QueryParam_update f)))) c;
          c = override env ''SCHEMA_REGISTRY_API_KEY_STORAGE_TYPE'' Some (\<lambda>f. cfg_Security_update (security_Auth_update (auth_APIKey_update (apikey_StorageType_update f)))) c;
          c = override env ''SCHEMA_REGISTRY_API_KEY_SECRET'' Some (\<lambda>f. cfg_Security_update (security_Auth_update (auth_APIKey_update (apikey_Secret_update f)))) c;
          c = override env ''SCHEMA_REGISTRY_API_KEY_PREFIX'' Some (\<lambda>f. cfg_Security_update (security_Auth_update (auth_APIKey_update (apikey_KeyPrefix_update f)))) c
      in override env ''SCHEMA_REGISTRY_API_KEY_CACHE_REFRESH'' envInt (\<lambda>f. cfg_Security_update (security_Auth_update (auth_APIKey_update (apikey_CacheRefreshSeconds_update f)))) c)"

definition basic_auth_overrides :: "map_decoder \<Rightarrow> getenv \<Rightarrow> Config \<Rightarrow> Config" where
  "basic_auth_overrides unmarshal env c =
     (let c = override env ''SCHEMA_REGISTRY_BASIC_REALM'' Some (\<lambda>f. cfg_Security_update (security_Auth_update (auth_Basic_update (basic_Realm_update f)))) c;
          c = override env ''SCHEMA_REGISTRY_BASIC_USERS'' (envJSON unmarshal) (\<lambda>f. cfg_Security_update (security_Auth_update (auth_Basic_update (basic_Users_update f)))) c
      in override env ''SCHEMA_REGISTRY_BASIC_HTPASSWD_FILE'' Some (\<lambda>f. cfg_Security_update (security_Auth_update (auth_Basic_update (basic_HTPasswd_update f)))) c)"

definition jwt_claims_mapping_overrides :: "map_decoder \<Rightarrow> getenv \<Rightarrow> Config \<Rightarrow> Config" where
  "jwt_claims_mapping_overrides unmarshal env c =
     override env ''SCHEMA_REGISTRY_JWT_CLAIMS_MAPPING'' (envJSON unmarshal) (\<lambda>f. cfg_Security_update (security_Auth_update (auth_JWT_update (jwt_ClaimsMapping_update f)))) c"

definition rbac_overrides :: "getenv \<Rightarrow> Config \<Rightarrow> Config" where
  "rbac_overrides env c =
     (let c = override env ''SCHEMA_REGISTRY_RBAC_ENABLED'' parse_bool (\<lambda>f. cfg_Security_update (security_Auth_update (auth_RBAC_update (rbac_Enabled_update f)))) c;
          c = override env ''SCHEMA_REGISTRY_RBAC_DEFAULT_ROLE'' Some (\<lambda>f. cfg_Security_update (security_Auth_update (auth_RBAC_update (rbac_DefaultRole_update f)))) c
      in override env ''SCHEMA_REGISTRY_RBAC_SUPER_ADMINS'' parse_list (\<lambda>f. cfg_Security_update (security_Auth_update (auth_RBAC_update (rbac_SuperAdmins_update f)))) c)"

definition tls_overrides :: "getenv \<Rightarrow> Config \<Rightarrow> Config" where
  "tls_overrides env c =
     (let c = override env ''SCHEMA_REGISTRY_TLS_ENABLED'' parse_bool (\<lambda>f. cfg_Security_update (security_TLS_update (tls_Enabled_update f))) c;
          c = override env ''SCHEMA_REGISTRY_TLS_CERT_FILE'' Some (\<lambda>f. cfg_Security_update (security_TLS_update (tls_CertFile_update f))) c;
          c = override env ''SCHEMA_REGISTRY_TLS_KEY_FILE'' Some (\<lambda>f. cfg_Security_update (security_TLS_update (tls_KeyFile_update f))) c;
          c = override env ''SCHEMA_REGISTRY_TLS_CA_FILE'' Some (\<lambda>f. cfg_Security_update (security_TLS_update (tls_CAFile_update f))) c;
          c = override env ''SCHEMA_REGISTRY_TLS_MIN_VERSION'' Some (\<lambda>f. cfg_Security_update (security_TLS_update (tls_MinVersion_update f))) c;
          c = override env ''SCHEMA_REGISTRY_TLS_CLIENT_AUTH'' Some (\<lambda>f. cfg_Security_update (security_TLS_update (tls_ClientAuth_update f))) c;
          c = override env ''SCHEMA_REGISTRY_TLS_CIPHER_SUITES'' parse_list (\<lambda>f. cfg_Security_update (security_TLS_update (tls_CipherSuites_update f))) c;
          c = override env ''SCHEMA_REGISTRY_TLS_ALLOW_INSECURE_CIPHERS'' parse_bool (\<lambda>f. cfg_Security_update (security_TLS_update (tls_AllowInsecureCiphers_update f))) c
      in override env ''SCHEMA_REGISTRY_TLS_AUTO_RELOAD'' parse_bool (\<lambda>f. cfg_Security_update (security_TLS_update (tls_AutoReload_update f))) c)"

definition rate_limiting_overrides :: "getenv \<Rightarrow> Config \<Rightarrow> Config" where
  "rate_limiting_overrides env c =
     (let c = override env ''SCHEMA_REGISTRY_RATE_LIMIT_ENABLED'' parse_bool (\<lambda>f. cfg_Security_update (security_RateLimiting_update (limit_Enabled_update f))) c;
          c = override env ''SCHEMA_REGISTRY_RATE_LIMIT_RPS'' envInt (\<lambda>f. cfg_Security_update (security_RateLimiting_update (limit_RequestsPerSecond_update f))) c;
          c = override env ''SCHEMA_REGISTRY_RATE_LIMIT_BURST'' envInt (\<lambda>f. cfg_Security_update (security_RateLimiting_update (limit_BurstSize_update f))) c;
          c = override env ''SCHEMA_REGISTRY_RATE_LIMIT_PER_CLIENT'' parse_bool (\<lambda>f. cfg_Security_update (security_RateLimiting_update (limit_PerClient_update f))) c
      in override env ''SCHEMA_REGISTRY_RATE_LIMIT_PER_ENDPOINT'' parse_bool (\<lambda>f. cfg_Security_update (security_RateLimiting_update (limit_PerEndpoint_update f))) c)"

definition audit_overrides :: "getenv \<Rightarrow> Config \<Rightarrow> Config" where
  "audit_overrides env c =
     (let c = override env ''SCHEMA_REGISTRY_AUDIT_ENABLED'' parse_bool (\<lambda>f. cfg_Security_update (security_Audit_update (audit_Enabled_update f))) c;
          c = override env ''SCHEMA_REGISTRY_AUDIT_INCLUDE_BODY'' parse_bool (\<lambda>f. cfg_Security_update (security_Audit_update (audit_IncludeBody_update f))) c;
          c = override env ''SCHEMA_REGISTRY_AUDIT_BUFFER_SIZE'' envInt (\<lambda>f. cfg_Security_update (security_Audit_update (audit_BufferSize_update f))) c;
          c = override env ''SCHEMA_REGISTRY_AUDIT_LOG_FILE'' Some (\<lambda>f. cfg_Security_update (security_Audit_update (audit_LogFile_update f))) c
      in override env ''SCHEMA_REGISTRY_AUDIT_EVENTS'' parse_list (\<lambda>f. cfg_Security_update (security_Audit_update (audit_Events_update f))) c)"

definition audit_stdout_output_overrides :: "getenv \<Rightarrow> Config \<Rightarrow> Config" where
  "audit_stdout_output_overrides env c =
     (let c = override env ''SCHEMA_REGISTRY_AUDIT_STDOUT_ENABLED'' parse_bool (\<lambda>f. cfg_Security_update (security_Audit_update (audit_Outputs_update (outputs_Stdout_update (stdout_Enabled_update f))))) c
      in override env ''SCHEMA_REGISTRY_AUDIT_STDOUT_FORMAT'' Some (\<lambda>f. cfg_Security_update (security_Audit_update (audit_Outputs_update (outputs_Stdout_update (stdout_FormatType_update f))))) c)"

definition audit_file_output_overrides :: "getenv \<Rightarrow> Config \<Rightarrow> Config" where
  "audit_file_output_overrides env c =
     (let c = override env ''SCHEMA_REGISTRY_AUDIT_FILE_ENABLED'' parse_bool (\<lambda>f. cfg_Security_update (security_Audit_update (audit_Outputs_update (outputs_File_update (auditfile_Enabled_update f))))) c;
          c = override env ''SCHEMA_REGISTRY_AUDIT_FILE_PATH'' Some (\<lambda>f. cfg_Security_update (security_Audit_update (audit_Outputs_update (outputs_File_update (auditfile_Path_update f))))) c;
          c = override env ''SCHEMA_REGISTRY_AUDIT_FILE_FORMAT'' Some (\<lambda>f. cfg_Security_update (security_Audit_update (audit_Outputs_update (outputs_File_update (auditfile_FormatType_update f))))) c;
          c = override env ''SCHEMA_REGISTRY_AUDIT_FILE_MAX_SIZE_MB'' envInt (\<lambda>f. cfg_Security_update (security_Audit_update (audit_Outputs_update (outputs_File_update (auditfile_MaxSizeMB_update f))))) c;
          c = override env ''SCHEMA_REGISTRY_AUDIT_FILE_MAX_BACKUPS'' envInt (\<lambda>f. cfg_Security_update (security_Audit_update (audit_Outputs_update (outputs_File_update (auditfile_MaxBackups_update f))))) c;
          c = override env ''SCHEMA_REGISTRY_AUDIT_FILE_MAX_AGE_DAYS'' envInt (\<lambda>f. cfg_Security_update (security_Audit_update (audit_Outputs_update (outputs_File_update (auditfile_MaxAgeDays_update f))))) c;
          c = override env ''SCHEMA_REGISTRY_AUDIT_FILE_COMPRESS'' parse_bool_ptr (\<lambda>f. cfg_Security_update (security_Audit_update (audit_Outputs_update (outputs_File_update (auditfile_Compress_update f))))) c
      in override env ''SCHEMA_REGISTRY_AUDIT_FILE_PERMISSIONS'' Some (\<lambda>f. cfg_Security_update (security_Audit_update (audit_Outputs_update (outputs_File_update (auditfile_Permissions_update f))))) c)"

definition audit_syslog_output_overrides :: "getenv \<Rightarrow> Config \<Rightarrow> Config" where
  "audit_syslog_output_overrides env c =
     (let c = override env ''SCHEMA_REGISTRY_AUDIT_SYSLOG_ENABLED'' parse_bool (\<lambda>f. cfg_Security_update (security_Audit_update (audit_Outputs_update (outputs_Syslog_update (syslog_Enabled_update f))))) c;
          c = override env ''SCHEMA_REGISTRY_AUDIT_SYSLOG_NETWORK'' Some (\<lambda>f. cfg_Security_update (security_Audit_update (audit_Outputs_update (outputs_Syslog_update (syslog_Network_update f))))) c;
          c = override env ''SCHEMA_REGISTRY_AUDIT_SYSLOG_ADDRESS'' Some (\<lambda>f. cfg_Security_update (security_Audit_update (audit_Outputs_update (outputs_Syslog_update (syslog_Address_update f))))) c;
          c = override env ''SCHEMA_REGISTRY_AUDIT_SYSLOG_APP_NAME'' Some (\<lambda>f. cfg_Security_update (security_Audit_update (audit_Outputs_update (outputs_Syslog_update (syslog_AppName_update f))))) c;
          c = override env ''SCHEMA_REGISTRY_AUDIT_SYSLOG_FACILITY'' Some (\<lambda>f. cfg_Security_update (security_Audit_update (audit_Outputs_update (outputs_Syslog_update (syslog_Facility_update f))))) c;
          c = override env ''SCHEMA_REGISTRY_AUDIT_SYSLOG_FORMAT'' Some (\<lambda>f. cfg_Security_update (security_Audit_update (audit_Outputs_update (outputs_Syslog_update (syslog_FormatType_update f))))) c;
          c = override env ''SCHEMA_REGISTRY_AUDIT_SYSLOG_TLS_CERT'' Some (\<lambda>f. cfg_Security_update (security_Audit_update (audit_Outputs_update (outputs_Syslog_update (syslog_TLSCert_update f))))) c;
          c = override env ''SCHEMA_REGISTRY_AUDIT_SYSLOG_TLS_KEY'' Some (\<lambda>f. cfg_Security_update (security_Audit_update (audit_Outputs_update (outputs_Syslog_update (syslog_TLSKey_update f))))) c
      in override env ''SCHEMA_REGISTRY_AUDIT_SYSLOG_TLS_CA'' Some (\<lambda>f. cfg_Security_update (security_Audit_update (audit_Outputs_update (outputs_Syslog_update (syslog_TLSCA_update f))))) c)"

definition audit_webhook_output_overrides :: "map_decoder \<Rightarrow> getenv \<Rightarrow> Config \<Rightarrow> Config" where
  "audit_webhook_output_overrides unmarshal env c =
     (let c = override env ''SCHEMA_REGISTRY_AUDIT_WEBHOOK_ENABLED'' parse_bool (\<lambda>f. cfg_Security_update (security_Audit_update (audit_Outputs_update (outputs_Webhook_update (webhook_Enabled_update f))))) c;
          c = override env ''SCHEMA_REGISTRY_AUDIT_WEBHOOK_URL'' Some (\<lambda>f. cfg_Security_update (security_Audit_update (audit_Outputs_update (outputs_Webhook_update (webhook_URL_update f))))) c;
          c = override env ''SCHEMA_REGISTRY_AUDIT_WEBHOOK_FORMAT'' Some (\<lambda>f. cfg_Security_update (security_Audit_update (audit_Outputs_update (outputs_Webhook_update (webhook_FormatType_update f))))) c;
          c = override env ''SCHEMA_REGISTRY_AUDIT_WEBHOOK_BATCH_SIZE'' envInt (\<lambda>f. cfg_Security_update (security_Audit_update (audit_Outputs_update (outputs_Webhook_update (webhook_BatchSize_update f))))) c;
          c = override env ''SCHEMA_REGISTRY_AUDIT_WEBHOOK_FLUSH_INTERVAL'' Some (\<lambda>f. cfg_Security_update (security_Audit_update (audit_Outputs_update (outputs_Webhook_update (webhook_FlushInterval_update f))))) c;
          c = override env ''SCHEMA_REGISTRY_AUDIT_WEBHOOK_TIMEOUT'' Some (\<lambda>f. cfg_Security_update (security_Audit_update (audit_Outputs_update (outputs_Webhook_update (webhook_Timeout_update f))))) c;
          c = override env ''SCHEMA_REGISTRY_AUDIT_WEBHOOK_MAX_RETRIES'' envInt (\<lambda>f. cfg_Security_update (security_Audit_update (audit_Outputs_update (outputs_Webhook_update (webhook_MaxRetries_update f))))) c;
          c = override env ''SCHEMA_REGISTRY_AUDIT_WEBHOOK_BUFFER_SIZE'' envInt (\<lambda>f. cfg_Security_update (security_Audit_update (audit_Outputs_update (outputs_Webhook_update (webhook_BufferSize_update f))))) c
      in override env ''SCHEMA_REGISTRY_AUDIT_WEBHOOK_HEADERS'' (envJSON unmarshal) (\<lambda>f. cfg_Security_update (security_Audit_update (audit_Outputs_update (outputs_Webhook_update (webhook_Headers_update f))))) c)"

definition security_metrics_overrides :: "getenv \<Rightarrow> Config \<Rightarrow> Config" where
  "security_metrics_overrides env c =
     override env ''SCHEMA_REGISTRY_SECURITY_METRICS_PER_PRINCIPAL'' parse_bool_ptr (\<lambda>f. cfg_Security_update (security_Metrics_update (secmetrics_PerPrincipalMetrics_update f))) c"

definition applyEnvOverrides :: "map_decoder \<Rightarrow> getenv \<Rightarrow> Config \<Rightarrow> Config" where
  "applyEnvOverrides unmarshal env c =
     (let c = server_and_general_overrides env c;
          c = postgresql_overrides env c;
          c = mysql_overrides env c;
          c = cassandra_overrides env c;
          c = mcp_overrides env c;
          c = docs_enabled_overrides env c;
          c = auth_type_overrides env c;
          c = bootstrap_admin_user_overrides env c;
          c = vault_overrides env c;
          c = jwt_overrides env c;
          c = auth_overrides env c;
          c = ldap_overrides unmarshal env c;
          c = oidc_overrides unmarshal env c;
          c = api_key_overrides env c;
          c = basic_auth_overrides unmarshal env c;
          c = jwt_claims_mapping_overrides unmarshal env c;
          c = rbac_overrides env c;
          c = tls_overrides env c;
          c = rate_limiting_overrides env c;
          c = audit_overrides env c;
          c = audit_stdout_output_overrides env c;
          c = audit_file_output_overrides env c;
          c = audit_syslog_output_overrides env c;
          c = audit_webhook_output_overrides unmarshal env c
      in security_metrics_overrides env c)"

section \<open>Validation\<close>

datatype config_error =
    InvalidPort int | InvalidStorageType string | InvalidAuthType string | VaultAddressRequired
  | InvalidLevel string | InvalidAuditFormat string string | NoAuditPath | NoSyslogAddress | NoWebhookURL

definition validStorageTypes :: "string list" where
  "validStorageTypes = [''memory'', ''postgresql'', ''mysql'', ''cassandra'']"

definition validAuthTypes :: "string list" where
  "validAuthTypes = [''vault'', ''postgresql'', ''mysql'', ''cassandra'', ''memory'']"

definition validCompatibility :: "string list" where
  "validCompatibility =
     [''NONE'', ''BACKWARD'', ''BACKWARD_TRANSITIVE'', ''FORWARD'', ''FORWARD_TRANSITIVE'', ''FULL'', ''FULL_TRANSITIVE'']"

definition validFormats :: "string list" where
  "validFormats = [[], ''json'', ''cef'']"

definition validateAuditConfig :: "Config \<Rightarrow> config_error option" where
  "validateAuditConfig c =
     (let outputs = audit_Outputs (security_Audit (cfg_Security c));
          stdout = outputs_Stdout outputs; logfile = outputs_File outputs;
          syslog = outputs_Syslog outputs; webhook = outputs_Webhook outputs
      in if stdout_FormatType stdout \<notin> set validFormats
         then Some (InvalidAuditFormat ''stdout'' (stdout_FormatType stdout))
         else if auditfile_FormatType logfile \<notin> set validFormats
         then Some (InvalidAuditFormat ''file'' (auditfile_FormatType logfile))
         else if syslog_FormatType syslog \<notin> set validFormats
         then Some (InvalidAuditFormat ''syslog'' (syslog_FormatType syslog))
         else if webhook_FormatType webhook \<notin> set validFormats
         then Some (InvalidAuditFormat ''webhook'' (webhook_FormatType webhook))
         else if auditfile_Enabled logfile \<and> auditfile_Path logfile = [] then Some NoAuditPath
         else if syslog_Enabled syslog \<and> syslog_Address syslog = [] then Some NoSyslogAddress
         else if webhook_Enabled webhook \<and> webhook_URL webhook = [] then Some NoWebhookURL
         else None)"

definition Config_Validate :: "Config \<Rightarrow> config_error option" where
  "Config_Validate c =
     (let port = server_Port (cfg_Server c); storage = cfg_Storage c;
          level = compat_DefaultLevel (cfg_Compatibility c)
      in if port < 1 \<or> port > 65535 then Some (InvalidPort port)
         else if storage_Type storage \<notin> set validStorageTypes then Some (InvalidStorageType (storage_Type storage))
         else if storage_AuthType storage \<noteq> [] \<and> storage_AuthType storage \<notin> set validAuthTypes
         then Some (InvalidAuthType (storage_AuthType storage))
         else if storage_AuthType storage = ''vault'' \<and> vault_Address (storage_Vault storage) = []
         then Some VaultAddressRequired
         else if ToUpper level \<notin> set validCompatibility then Some (InvalidLevel level)
         else validateAuditConfig c)"

section \<open>Loading\<close>

record config_env =
  ce_Getenv :: getenv
  ce_ReadFile :: "string \<Rightarrow> string + string"
  ce_Unmarshal :: "string \<Rightarrow> Config \<Rightarrow> string + Config"
  ce_UnmarshalMap :: map_decoder

datatype load_error = ReadFailed string | ParseFailed string | InvalidConfig config_error

definition Load :: "config_env \<Rightarrow> string \<Rightarrow> load_error + Config" where
  "Load env path =
     (case (if path \<noteq> []
            then (case ce_ReadFile env path of
                    Inl err \<Rightarrow> Inl (ReadFailed err)
                  | Inr data \<Rightarrow>
                      (case ce_Unmarshal env (ExpandEnv (ce_Getenv env) data) DefaultConfig of
                         Inl err \<Rightarrow> Inl (ParseFailed err)
                       | Inr cfg \<Rightarrow> Inr cfg))
            else Inr DefaultConfig) of
        Inl e \<Rightarrow> Inl e
      | Inr cfg \<Rightarrow>
          (let cfg = applyEnvOverrides (ce_UnmarshalMap env) (ce_Getenv env) cfg
           in case Config_Validate cfg of Some e \<Rightarrow> Inl (InvalidConfig e) | None \<Rightarrow> Inr cfg))"

definition Config_Address :: "Config \<Rightarrow> string" where
  "Config_Address c = server_Host (cfg_Server c) @ '':'' @ Itoa (server_Port (cfg_Server c))"

definition Config_MCPAddress :: "Config \<Rightarrow> string" where
  "Config_MCPAddress c = mcp_Host (cfg_MCP c) @ '':'' @ Itoa (mcp_Port (cfg_MCP c))"

end
