(* ===== verification/Registry_Schemas.thy ===== *)
theory Registry_Schemas
  imports Registry_References
begin

text \<open>
  Schemas in the registry service (\<open>internal/registry/registry.go\<close>): registration, import,
  compatibility checks, look-ups and deletion over the in-memory store.  A visiting order of a map
  and a reading of the clock, which one request takes several times, are fields of an environment,
  numbered by call site.
\<close>

record go_env =
  ge_versions :: "nat \<Rightarrow> (int \<times> subjectVersionInfo) order"
  ge_strings :: "nat \<Rightarrow> string order"
  ge_now :: "nat \<Rightarrow> go_time"

section \<open>Parsing a request\<close>

definition default_type :: "SchemaType \<Rightarrow> SchemaType" where
  "default_type schemaType = (if schemaType = [] then SchemaTypeAvro else schemaType)"

text \<open>The steps every operation on a schema text starts with: parser, references, parse.\<close>

definition parse_request ::
  "'p Registry \<Rightarrow> Store \<Rightarrow> string \<Rightarrow> string \<Rightarrow> SchemaType \<Rightarrow> Reference list \<Rightarrow>
     (Reference list \<times> 'p) reg_result" where
  "parse_request r s registryCtx schemaStr schemaType refs =
     (case gm_get (rg_schemaParser r) schemaType of
        None \<Rightarrow> Inl (UnsupportedSchemaType schemaType)
      | Some parser \<Rightarrow>
          (case Registry_resolveReferences r s registryCtx refs of
             Inl err \<Rightarrow> Inl (FailedResolveReferences err)
           | Inr resolvedRefs \<Rightarrow>
               (case parser schemaStr resolvedRefs of
                  Inl err \<Rightarrow> Inl (InvalidSchema err)
                | Inr parsed \<Rightarrow> Inr (resolvedRefs, parsed))))"

text \<open>Normalization, when the request or the configuration asks for it.\<close>

definition normalize_request ::
  "'p Registry \<Rightarrow> Store \<Rightarrow> string \<Rightarrow> string \<Rightarrow> bool \<Rightarrow> string \<Rightarrow> 'p \<Rightarrow> string \<times> 'p" where
  "normalize_request r s registryCtx subject requested schemaStr parsed =
     (if requested \<or> Registry_isNormalizeEnabled r s registryCtx subject
      then (let parsed' = ps_Normalize (rg_parsed r) parsed
            in (ps_CanonicalString (rg_parsed r) parsed', parsed'))
      else (schemaStr, parsed))"

definition global_fingerprint :: "'p Registry \<Rightarrow> 'p \<Rightarrow> Reference list \<Rightarrow> string" where
  "global_fingerprint r parsed refs =
     computeGlobalFingerprint (rg_sha256 r) (ps_Fingerprint (rg_parsed r) parsed) refs"

fun existing_with_refs ::
  "'p Registry \<Rightarrow> Store \<Rightarrow> string \<Rightarrow> SchemaRecord list \<Rightarrow> SchemaWithRefs list reg_result" where
  "existing_with_refs r s registryCtx [] = Inr []"
| "existing_with_refs r s registryCtx (sch # schemas) =
     (case Registry_resolveReferences r s registryCtx (sr_References sch) of
        Inl err \<Rightarrow> Inl (FailedResolveExisting err)
      | Inr refs \<Rightarrow>
          (case existing_with_refs r s registryCtx schemas of
             Inl err \<Rightarrow> Inl err
           | Inr rest \<Rightarrow> Inr (\<lparr>sw_Schema = sr_Schema sch, sw_References = refs\<rparr> # rest)))"

definition compat_level :: "'p Registry \<Rightarrow> Store \<Rightarrow> string \<Rightarrow> string \<Rightarrow> Mode" where
  "compat_level r s registryCtx subject =
     (case Registry_GetConfig r s registryCtx subject of
        Inl _ \<Rightarrow> rg_defaultConfig r | Inr compatLevel \<Rightarrow> compatLevel)"

section \<open>Registration\<close>

definition compat_gate ::
  "'p Registry \<Rightarrow> Store \<Rightarrow> string \<Rightarrow> string \<Rightarrow> SchemaType \<Rightarrow> SchemaWithRefs \<Rightarrow> Metadata option \<Rightarrow>
     registry_error option" where
  "compat_gate r s registryCtx subject schemaType newSchema meta =
     (let mode = compat_level r s registryCtx subject
      in if mode = ModeNone then None
         else
           (case (case Store_GetSchemasBySubject s registryCtx subject False of
                    Inr schemas \<Rightarrow> Inr schemas
                  | Inl err \<Rightarrow> if err = ErrSubjectNotFound then Inr [] else Inl err) of
              Inl err \<Rightarrow> Some (FailedGetExisting err)
            | Inr schemas \<Rightarrow>
                (let existingSchemas =
                       Registry_filterByCompatibilityGroup r s registryCtx subject meta schemas
                 in if existingSchemas = [] then None
                    else (case existing_with_refs r s registryCtx existingSchemas of
                            Inl err \<Rightarrow> Some err
                          | Inr existing \<Rightarrow>
                              (let result = Checker_Check (rg_compatChecker r) mode schemaType
                                              newSchema existing
                               in if re_IsCompatible result then None
                                  else Some (IncompatibleSchema (re_Messages result)))))))"

definition reserved_gate ::
  "go_env \<Rightarrow> 'p Registry \<Rightarrow> Store \<Rightarrow> string \<Rightarrow> string \<Rightarrow> 'p \<Rightarrow> Metadata option \<Rightarrow> registry_error option" where
  "reserved_gate e r s registryCtx subject parsed meta =
     (if Registry_isValidateFieldsEnabled r s registryCtx subject
      then (let msgs = Registry_validateReservedFields (ge_strings e 0) (ge_strings e 1) r s registryCtx
                         subject parsed meta
            in if msgs \<noteq> [] then Some (IncompatibleSchema msgs) else None)
      else None)"

definition cas_ok :: "int \<Rightarrow> SchemaRecord \<Rightarrow> bool" where
  "cas_ok cvTarget existing \<longleftrightarrow> cvTarget \<le> 0 \<or> cvTarget = sr_Version existing"

text \<open>The check before storing: a live version with this content, metadata and rules.\<close>

definition found_duplicate ::
  "go_env \<Rightarrow> 'p Registry \<Rightarrow> Store \<Rightarrow> string \<Rightarrow> string \<Rightarrow> string \<Rightarrow> RegisterOpts \<Rightarrow> SchemaRecord option" where
  "found_duplicate e r s registryCtx subject fingerprint opt =
     (case Store_GetSchemaByFingerprint (ge_versions e 0) s registryCtx subject fingerprint False of
        Inl _ \<Rightarrow> None
      | Inr existing \<Rightarrow>
          if metadataEqualForDedup (sr_Metadata existing) (ro_Metadata opt) \<and>
             ruleSetEqual (sr_RuleSet existing) (ro_RuleSet opt) \<and>
             cas_ok (extractConfluentVersionTarget (ro_Metadata opt)) existing
          then Some existing else None)"

definition new_record ::
  "string \<Rightarrow> SchemaType \<Rightarrow> string \<Rightarrow> Reference list \<Rightarrow> RegisterOpts \<Rightarrow> string \<Rightarrow> SchemaRecord" where
  "new_record subject schemaType schemaStr refs opt fingerprint =
     \<lparr>sr_ID = 0, sr_Subject = subject, sr_Version = 0, sr_SchemaType = schemaType,
      sr_Schema = schemaStr, sr_References = refs, sr_Metadata = ro_Metadata opt,
      sr_RuleSet = ro_RuleSet opt, sr_Fingerprint = fingerprint, sr_Deleted = False,
      sr_CreatedAt = 0\<rparr>"

text \<open>Storing the record, and what the service answers when storage finds it already there.\<close>

definition store_record ::
  "go_env \<Rightarrow> Store \<Rightarrow> string \<Rightarrow> int \<Rightarrow> SchemaRecord \<Rightarrow> Store \<times> SchemaRecord reg_result" where
  "store_record e s registryCtx cvTarget rec =
     (case Store_CreateSchema (ge_versions e 1) (ge_now e 0) (ge_now e 1) s registryCtx rec of
        (s', rec', None) \<Rightarrow> (s', Inr (autoPopulateConfluentVersion rec'))
      | (s', rec', Some err) \<Rightarrow>
          (s', if err = ErrSchemaExists
               then (case Store_GetSchemaByFingerprint (ge_versions e 2) s' registryCtx
                            (sr_Subject rec) (sr_Fingerprint rec) False of
                       Inl _ \<Rightarrow> Inl (FailedToStore err)
                     | Inr existing \<Rightarrow>
                         if metadataEqual (sr_Metadata existing) (sr_Metadata rec) \<and>
                            ruleSetEqual (sr_RuleSet existing) (sr_RuleSet rec) \<and>
                            cas_ok cvTarget existing
                         then Inr (autoPopulateConfluentVersion existing)
                         else Inl (FailedToStore err))
               else Inl (FailedToStore err)))"

definition Registry_RegisterSchema ::
  "go_env \<Rightarrow> 'p Registry \<Rightarrow> Store \<Rightarrow> string \<Rightarrow> string \<Rightarrow> string \<Rightarrow> SchemaType \<Rightarrow> Reference list \<Rightarrow>
     RegisterOpts \<Rightarrow> Store \<times> SchemaRecord reg_result" where
  [registry_defs]: "Registry_RegisterSchema e r s registryCtx subject schemaStr0 schemaType0 refs opt =
     (let schemaType = default_type schemaType0
      in case parse_request r s registryCtx schemaStr0 schemaType refs of
           Inl err \<Rightarrow> (s, Inl err)
         | Inr (resolvedRefs, parsed0) \<Rightarrow>
             (case ValidateRuleSet (ro_RuleSet opt) of
                Some err \<Rightarrow> (s, Inl (InvalidRuleSet err))
              | None \<Rightarrow>
                  (let (schemaStr, parsed) =
                         normalize_request r s registryCtx subject (ro_Normalize opt) schemaStr0 parsed0;
                       fingerprint = global_fingerprint r parsed refs
                   in case found_duplicate e r s registryCtx subject fingerprint opt of
                        Some existing \<Rightarrow> (s, Inr (autoPopulateConfluentVersion existing))
                      | None \<Rightarrow>
                          (case compat_gate r s registryCtx subject schemaType
                                  \<lparr>sw_Schema = schemaStr, sw_References = resolvedRefs\<rparr>
                                  (ro_Metadata opt) of
                             Some err \<Rightarrow> (s, Inl err)
                           | None \<Rightarrow>
                               (case reserved_gate e r s registryCtx subject parsed (ro_Metadata opt) of
                                  Some err \<Rightarrow> (s, Inl err)
                                | None \<Rightarrow>
                                    (let prevSchema =
                                           (case Store_GetLatestSchema s registryCtx subject of
                                              Inl _ \<Rightarrow> None | Inr p \<Rightarrow> Some p);
                                         opt1 = Registry_maybeSetMetadataRuleSet r s registryCtx subject
                                                  opt prevSchema;
                                         opt2 = opt1\<lparr>ro_Metadata := stripConfluentVersion (ro_Metadata opt1)\<rparr>
                                     in store_record e s registryCtx
                                          (extractConfluentVersionTarget (ro_Metadata opt))
                                          (new_record subject schemaType schemaStr refs opt2 fingerprint)))))))"

section \<open>Import\<close>

text \<open>Advancing the ID sequence, never back.\<close>

definition advance_ids :: "Store \<Rightarrow> string \<Rightarrow> int \<Rightarrow> Store \<times> storage_error option" where
  "advance_ids s registryCtx maxID =
     (let nextID0 = i64 (maxID + 1);
          nextID = (case Store_GetMaxSchemaID s registryCtx of
                      Inl _ \<Rightarrow> nextID0
                    | Inr currentMax \<Rightarrow>
                        if i64 (currentMax + 1) > nextID0 then i64 (currentMax + 1) else nextID0)
      in Store_SetNextID s registryCtx nextID)"

text \<open>The version an import without one is given: after every version, deleted ones included.\<close>

definition assigned_version :: "Store \<Rightarrow> string \<Rightarrow> string \<Rightarrow> int \<Rightarrow> int" where
  "assigned_version s registryCtx subject version =
     (if version > 0 then version
      else (case Store_GetSchemasBySubject s registryCtx subject True of
              Inl _ \<Rightarrow> 1
            | Inr schemas \<Rightarrow>
                fold (\<lambda>sch v. if sr_Version sch \<ge> v then i64 (sr_Version sch + 1) else v) schemas 1))"

definition import_record ::
  "int \<Rightarrow> string \<Rightarrow> int \<Rightarrow> SchemaType \<Rightarrow> string \<Rightarrow> Reference list \<Rightarrow> string \<Rightarrow> SchemaRecord" where
  "import_record i subject version schemaType schemaStr refs fingerprint =
     \<lparr>sr_ID = i, sr_Subject = subject, sr_Version = version, sr_SchemaType = schemaType,
      sr_Schema = schemaStr, sr_References = refs, sr_Metadata = None, sr_RuleSet = None,
      sr_Fingerprint = fingerprint, sr_Deleted = False, sr_CreatedAt = 0\<rparr>"

definition Registry_RegisterSchemaWithID ::
  "go_env \<Rightarrow> 'p Registry \<Rightarrow> Store \<Rightarrow> string \<Rightarrow> string \<Rightarrow> string \<Rightarrow> SchemaType \<Rightarrow> Reference list \<Rightarrow> int \<Rightarrow>
     int \<Rightarrow> Store \<times> SchemaRecord reg_result" where
  [registry_defs]: "Registry_RegisterSchemaWithID e r s registryCtx subject schemaStr schemaType0 refs i version =
     (let schemaType = default_type schemaType0
      in case parse_request r s registryCtx schemaStr schemaType refs of
           Inl err \<Rightarrow> (s, Inl err)
         | Inr (_, parsed) \<Rightarrow>
             (let fingerprint = global_fingerprint r parsed refs
              in case Store_GetSchemaByFingerprint (ge_versions e 0) s registryCtx subject fingerprint False of
                   Inr existing \<Rightarrow> (s, Inr existing)
                 | Inl _ \<Rightarrow>
                     (let rec = import_record i subject (assigned_version s registryCtx subject version)
                                  schemaType schemaStr refs fingerprint
                      in case Store_ImportSchema (ge_now e 0) (ge_now e 1) s registryCtx rec of
                           (s', rec', Some err) \<Rightarrow>
                             (s', if err = ErrSchemaIDConflict then Inl (ImportIDConflict i)
                                  else if err = ErrSchemaExists
                                  then (case Store_GetSchemaBySubjectVersion s' registryCtx subject
                                               (sr_Version rec) of
                                          Inr existing \<Rightarrow> Inr existing
                                        | Inl _ \<Rightarrow> Inl (FailedToStore err))
                                  else Inl (FailedToStore err))
                         | (s', rec', None) \<Rightarrow>
                             (case advance_ids s' registryCtx i of
                                (s'', Some err) \<Rightarrow> (s'', Inl (FailedAdvanceIDs err))
                              | (s'', None) \<Rightarrow> (s'', Inr rec')))))"

text \<open>
  The batch import.  The texts of a result's error are constructors here.
\<close>

datatype import_error =
    NoError | IDNotPositive | SubjectRequired | VersionNotPositive | SchemaRequired
  | ImportRejected registry_error | IDAlreadyExists | SubjectVersionExists | OtherImportError storage_error

record ImportSchemaRequest =
  iq_ID :: int
  iq_Subject :: string
  iq_Version :: int
  iq_SchemaType :: SchemaType
  iq_Schema :: string
  iq_References :: "Reference list"

record ImportSchemaResult =
  ir_ID :: int
  ir_Subject :: string
  ir_Version :: int
  ir_Success :: bool
  ir_Error :: import_error

record ImportResult =
  im_Imported :: int
  im_Errors :: int
  im_Results :: "ImportSchemaResult list"

definition missing_field :: "ImportSchemaRequest \<Rightarrow> import_error option" where
  "missing_field req =
     (if iq_ID req \<le> 0 then Some IDNotPositive
      else if iq_Subject req = [] then Some SubjectRequired
      else if iq_Version req \<le> 0 then Some VersionNotPositive
      else if iq_Schema req = [] then Some SchemaRequired
      else None)"

text \<open>One pass of the loop: the store, and the error the request's result carries.\<close>

definition import_one ::
  "go_time \<Rightarrow> go_time \<Rightarrow> 'p Registry \<Rightarrow> string \<Rightarrow> ImportSchemaRequest \<Rightarrow> Store \<Rightarrow> Store \<times> import_error" where
  "import_one now now' r registryCtx req s =
     (case missing_field req of
        Some err \<Rightarrow> (s, err)
      | None \<Rightarrow>
          (let schemaType = default_type (iq_SchemaType req)
           in case parse_request r s registryCtx (iq_Schema req) schemaType (iq_References req) of
                Inl err \<Rightarrow> (s, ImportRejected err)
              | Inr (_, parsed) \<Rightarrow>
                  (case Store_ImportSchema now now' s registryCtx
                          (import_record (iq_ID req) (iq_Subject req) (iq_Version req) schemaType
                             (iq_Schema req) (iq_References req)
                             (global_fingerprint r parsed (iq_References req))) of
                     (s', _, Some err) \<Rightarrow>
                       (s', if err = ErrSchemaIDConflict then IDAlreadyExists
                            else if err = ErrSchemaExists then SubjectVersionExists
                            else OtherImportError err)
                   | (s', _, None) \<Rightarrow> (s', NoError))))"

definition import_result :: "ImportSchemaRequest \<Rightarrow> import_error \<Rightarrow> ImportSchemaResult" where
  "import_result req err =
     \<lparr>ir_ID = iq_ID req, ir_Subject = iq_Subject req, ir_Version = iq_Version req,
      ir_Success = (err = NoError), ir_Error = err\<rparr>"

fun import_loop ::
  "go_env \<Rightarrow> 'p Registry \<Rightarrow> string \<Rightarrow> nat \<Rightarrow> ImportSchemaRequest list \<Rightarrow> Store \<Rightarrow> int \<Rightarrow> ImportResult \<Rightarrow>
     Store \<times> int \<times> ImportResult" where
  "import_loop e r registryCtx i [] s maxID result = (s, maxID, result)"
| "import_loop e r registryCtx i (req # reqs) s maxID result =
     (let (s', err) = import_one (ge_now e (2 * i)) (ge_now e (2 * i + 1)) r registryCtx req s;
          maxID' = (if err = NoError \<and> iq_ID req > maxID then iq_ID req else maxID);
          result' = result\<lparr>im_Imported := im_Imported result + (if err = NoError then 1 else 0),
                           im_Errors := im_Errors result + (if err = NoError then 0 else 1),
                           im_Results := im_Results result @ [import_result req err]\<rparr>
      in import_loop e r registryCtx (i + 1) reqs s' maxID' result')"

definition Registry_ImportSchemas ::
  "go_env \<Rightarrow> 'p Registry \<Rightarrow> Store \<Rightarrow> string \<Rightarrow> ImportSchemaRequest list \<Rightarrow>
     Store \<times> ImportResult \<times> storage_error option" where
  [registry_defs]: "Registry_ImportSchemas e r s registryCtx schemas =
     (let (s', maxID, result) =
            import_loop e r registryCtx 0 schemas s 0
              \<lparr>im_Imported = 0, im_Errors = 0, im_Results = []\<rparr>
      in if maxID > 0
         then (let (s'', err) = advance_ids s' registryCtx maxID in (s'', result, err))
         else (s', result, None))"

section \<open>Compatibility checks and look-ups\<close>

definition schemas_to_check ::
  "'p Registry \<Rightarrow> Store \<Rightarrow> string \<Rightarrow> string \<Rightarrow> string \<Rightarrow> SchemaWithRefs list reg_result" where
  "schemas_to_check r s registryCtx subject version =
     (if version = ''latest''
      then (case Store_GetLatestSchema s registryCtx subject of
              Inl err \<Rightarrow> if err = ErrSubjectNotFound then Inr [] else Inl (StorageError err)
            | Inr latest \<Rightarrow> existing_with_refs r s registryCtx [latest])
      else if version = []
      then (case Store_GetSchemasBySubject s registryCtx subject False of
              Inl err \<Rightarrow> if err = ErrSubjectNotFound then Inr [] else Inl (StorageError err)
            | Inr schemas \<Rightarrow> existing_with_refs r s registryCtx schemas)
      else (case Atoi version of
              None \<Rightarrow> Inl (InvalidVersion version)
            | Some versionNum \<Rightarrow>
                (case Store_GetSchemaBySubjectVersion s registryCtx subject versionNum of
                   Inl err \<Rightarrow>
                     if err = ErrSubjectNotFound then Inl (SubjectNotFoundFor subject)
                     else if err = ErrVersionNotFound then Inl (VersionNotFoundFor versionNum subject)
                     else Inl (StorageError err)
                 | Inr sch \<Rightarrow> existing_with_refs r s registryCtx [sch])))"

definition Registry_CheckCompatibility ::
  "'p Registry \<Rightarrow> Store \<Rightarrow> string \<Rightarrow> string \<Rightarrow> string \<Rightarrow> SchemaType \<Rightarrow> Reference list \<Rightarrow> string \<Rightarrow> bool \<Rightarrow>
     Result reg_result" where
  [registry_defs]: "Registry_CheckCompatibility r s registryCtx subject schemaStr0 schemaType0 refs version norm =
     (let schemaType = default_type schemaType0
      in case parse_request r s registryCtx schemaStr0 schemaType refs of
           Inl err \<Rightarrow> Inl err
         | Inr (resolvedRefs, parsed0) \<Rightarrow>
             (let (schemaStr, _) = normalize_request r s registryCtx subject norm schemaStr0 parsed0;
                  mode = compat_level r s registryCtx subject
              in if mode = ModeNone then Inr NewCompatibleResult
                 else (case schemas_to_check r s registryCtx subject version of
                         Inl err \<Rightarrow> Inl err
                       | Inr existing \<Rightarrow>
                           if existing = [] then Inr NewCompatibleResult
                           else Inr (Checker_Check (rg_compatChecker r) mode schemaType
                                       \<lparr>sw_Schema = schemaStr, sw_References = resolvedRefs\<rparr> existing))))"

definition Registry_LookupSchema ::
  "go_env \<Rightarrow> 'p Registry \<Rightarrow> Store \<Rightarrow> string \<Rightarrow> string \<Rightarrow> string \<Rightarrow> SchemaType \<Rightarrow> Reference list \<Rightarrow> bool \<Rightarrow>
     bool \<Rightarrow> SchemaRecord reg_result" where
  [registry_defs]: "Registry_LookupSchema e r s registryCtx subject schemaStr schemaType0 refs deleted norm =
     (case parse_request r s registryCtx schemaStr (default_type schemaType0) refs of
        Inl err \<Rightarrow> Inl err
      | Inr (_, parsed0) \<Rightarrow>
          (let (_, parsed) = normalize_request r s registryCtx subject norm schemaStr parsed0
           in case Store_GetSchemaByFingerprint (ge_versions e 0) s registryCtx subject
                     (global_fingerprint r parsed refs) deleted of
                Inl err \<Rightarrow> Inl (StorageError err) | Inr rec \<Rightarrow> Inr rec))"

definition Registry_FormatSchema ::
  "'p Registry \<Rightarrow> Store \<Rightarrow> string \<Rightarrow> SchemaRecord \<Rightarrow> string \<Rightarrow> string" where
  [registry_defs]: "Registry_FormatSchema r s registryCtx rec format =
     (if format = [] then sr_Schema rec
      else (case gm_get (rg_schemaParser r) (default_type (sr_SchemaType rec)) of
              None \<Rightarrow> sr_Schema rec
            | Some parser \<Rightarrow>
                (let resolvedRefs =
                       map (\<lambda>ref. if rf_Schema ref = []
                                  then (case Store_GetSchemaBySubjectVersion s registryCtx
                                               (rf_Subject ref) (rf_Version ref) of
                                          Inl _ \<Rightarrow> ref
                                        | Inr refSchema \<Rightarrow> ref\<lparr>rf_Schema := sr_Schema refSchema\<rparr>)
                                  else ref) (sr_References rec)
                 in case parser (sr_Schema rec) resolvedRefs of
                      Inl _ \<Rightarrow> sr_Schema rec
                    | Inr parsed \<Rightarrow> ps_FormattedString (rg_parsed r) parsed format)))"

text \<open>The error text of a validation result is the error it is printed from.\<close>

record ValidateResult =
  vr_Valid :: bool
  vr_SchemaType :: string
  vr_Fingerprint :: string
  vr_Canonical :: string
  vr_Error :: "registry_error option"

definition Registry_ValidateSchema ::
  "'p Registry \<Rightarrow> Store \<Rightarrow> string \<Rightarrow> string \<Rightarrow> SchemaType \<Rightarrow> Reference list \<Rightarrow> ValidateResult" where
  [registry_defs]: "Registry_ValidateSchema r s registryCtx schemaStr schemaType0 refs =
     (let schemaType = default_type schemaType0
      in case parse_request r s registryCtx schemaStr schemaType refs of
           Inl err \<Rightarrow> \<lparr>vr_Valid = False, vr_SchemaType = schemaType, vr_Fingerprint = [],
                       vr_Canonical = [], vr_Error = Some err\<rparr>
         | Inr (_, parsed) \<Rightarrow>
             \<lparr>vr_Valid = True, vr_SchemaType = schemaType,
              vr_Fingerprint = ps_Fingerprint (rg_parsed r) parsed,
              vr_Canonical = ps_CanonicalString (rg_parsed r) parsed, vr_Error = None\<rparr>)"

text \<open>
  \<open>NormalizeSchema\<close> alone does not join \<open>ErrFailedResolveReferences\<close> to a resolution error.
\<close>

record NormalizeResult =
  nr_Normalized :: string
  nr_Fingerprint :: string
  nr_SchemaType :: string

definition Registry_NormalizeSchema ::
  "'p Registry \<Rightarrow> Store \<Rightarrow> string \<Rightarrow> string \<Rightarrow> SchemaType \<Rightarrow> Reference list \<Rightarrow> NormalizeResult reg_result" where
  [registry_defs]: "Registry_NormalizeSchema r s registryCtx schemaStr schemaType0 refs =
     (let schemaType = default_type schemaType0
      in case parse_request r s registryCtx schemaStr schemaType refs of
           Inl (FailedResolveReferences err) \<Rightarrow> Inl (FailedResolveUnmarked err)
         | Inl err \<Rightarrow> Inl err
         | Inr (_, parsed) \<Rightarrow>
             (let normalized = ps_Normalize (rg_parsed r) parsed
              in Inr \<lparr>nr_Normalized = ps_CanonicalString (rg_parsed r) normalized,
                      nr_Fingerprint = ps_Fingerprint (rg_parsed r) normalized,
                      nr_SchemaType = schemaType\<rparr>))"

definition Registry_GetVersions ::
  "'p Registry \<Rightarrow> Store \<Rightarrow> string \<Rightarrow> string \<Rightarrow> bool \<Rightarrow> int list result" where
  [registry_defs]: "Registry_GetVersions r s registryCtx subject deleted =
     (case Store_GetSchemasBySubject s registryCtx subject deleted of
        Inl err \<Rightarrow> Inl err | Inr schemas \<Rightarrow> Inr (map sr_Version schemas))"

definition Registry_GetRawSchemaByID :: "'p Registry \<Rightarrow> Store \<Rightarrow> string \<Rightarrow> int \<Rightarrow> string result" where
  [registry_defs]: "Registry_GetRawSchemaByID r s registryCtx i =
     (case Store_GetSchemaByID s registryCtx i of Inl err \<Rightarrow> Inl err | Inr sch \<Rightarrow> Inr (sr_Schema sch))"

definition Registry_GetRawSchemaBySubjectVersion ::
  "'p Registry \<Rightarrow> Store \<Rightarrow> string \<Rightarrow> string \<Rightarrow> int \<Rightarrow> string result" where
  [registry_defs]: "Registry_GetRawSchemaBySubjectVersion r s registryCtx subject version =
     (case Store_GetSchemaBySubjectVersion s registryCtx subject version of
        Inl err \<Rightarrow> Inl err | Inr sch \<Rightarrow> Inr (sr_Schema sch))"

definition Registry_ListContexts :: "'p Registry \<Rightarrow> Store \<Rightarrow> string list result" where
  [registry_defs]: "Registry_ListContexts r s =
     (case Store_ListContexts s of
        Inl err \<Rightarrow> Inl err | Inr contexts \<Rightarrow> Inr (filter (\<lambda>c. c \<noteq> GlobalContext) contexts))"

definition Registry_SubjectCount :: "'p Registry \<Rightarrow> Store \<Rightarrow> int result" where
  [registry_defs]: "Registry_SubjectCount r s =
     (case Store_ListSubjects s DefaultContext False of
        Inl err \<Rightarrow> Inl err | Inr subjects \<Rightarrow> Inr (int (length subjects)))"

definition Registry_SchemaCountsByType ::
  "SchemaRecord order \<Rightarrow> 'p Registry \<Rightarrow> Store \<Rightarrow> (string, int) gomap result" where
  [registry_defs]: "Registry_SchemaCountsByType it r s =
     (case Store_ListSchemas it s DefaultContext
             \<lparr>lp_SubjectPrefix = [], lp_Deleted = False, lp_LatestOnly = False, lp_Offset = 0, lp_Limit = 0\<rparr> of
        Inl err \<Rightarrow> Inl err
      | Inr schemas \<Rightarrow>
          Inr (fold (\<lambda>sch counts.
                 let st = (if sr_SchemaType sch = [] then ''AVRO'' else sr_SchemaType sch)
                 in gm_put st (i64 (gm_get0 0 counts st + 1)) counts) schemas gm_empty))"

section \<open>Deletion\<close>

fun first_referenced :: "Store \<Rightarrow> string \<Rightarrow> string \<Rightarrow> SchemaRecord list \<Rightarrow> registry_error option" where
  "first_referenced s registryCtx subject [] = None"
| "first_referenced s registryCtx subject (sch # schemas) =
     (case Store_GetReferencedBy s registryCtx subject (sr_Version sch) of
        Inl err \<Rightarrow> Some (StorageError err)
      | Inr refs \<Rightarrow> if refs \<noteq> [] then Some (ReferenceExistsTo subject (sr_Version sch))
                    else first_referenced s registryCtx subject schemas)"

definition Registry_DeleteSubject ::
  "'p Registry \<Rightarrow> Store \<Rightarrow> string \<Rightarrow> string \<Rightarrow> bool \<Rightarrow> Store \<times> int list reg_result" where
  [registry_defs]: "Registry_DeleteSubject r s registryCtx subject permanent =
     (let blocked = (if permanent then None
                     else (case Store_GetSchemasBySubject s registryCtx subject False of
                             Inl _ \<Rightarrow> None
                           | Inr schemas \<Rightarrow> first_referenced s registryCtx subject schemas))
      in case blocked of
           Some err \<Rightarrow> (s, Inl err)
         | None \<Rightarrow>
             (case Store_DeleteSubject s registryCtx subject permanent of
                (s', Inl err) \<Rightarrow> (s', Inl (StorageError err))
              | (s', Inr versions) \<Rightarrow>
                  (if permanent
                   then fst (Store_DeleteMode (fst (Store_DeleteConfig s' registryCtx subject))
                               registryCtx subject)
                   else s', Inr versions)))"

definition latest_deleted :: "SchemaRecord list \<Rightarrow> int" where
  "latest_deleted schemas =
     fold (\<lambda>sch resolved. if sr_Deleted sch \<and> sr_Version sch > resolved then sr_Version sch else resolved)
       schemas (-1)"

definition Registry_DeleteVersion ::
  "'p Registry \<Rightarrow> Store \<Rightarrow> string \<Rightarrow> string \<Rightarrow> int \<Rightarrow> bool \<Rightarrow> Store \<times> int reg_result" where
  [registry_defs]: "Registry_DeleteVersion r s registryCtx subject version permanent =
     (let finish = (\<lambda>v. case Store_DeleteSchema s registryCtx subject v permanent of
                          (s', Some err) \<Rightarrow> (s', Inl (StorageError err)) | (s', None) \<Rightarrow> (s', Inr v))
      in if permanent
         then (if version = -1
               then (case Store_GetSchemasBySubject s registryCtx subject True of
                       Inl err \<Rightarrow> (s, Inl (StorageError err))
                     | Inr schemas \<Rightarrow>
                         if latest_deleted schemas = -1 then (s, Inl (StorageError ErrVersionNotFound))
                         else finish (latest_deleted schemas))
               else finish version)
         else (case Store_GetSchemaBySubjectVersion s registryCtx subject version of
                 Inl err \<Rightarrow> (s, Inl (StorageError err))
               | Inr sch \<Rightarrow>
                   (case Store_GetReferencedBy s registryCtx subject (sr_Version sch) of
                      Inl err \<Rightarrow> (s, Inl (StorageError err))
                    | Inr refs \<Rightarrow> if refs \<noteq> [] then (s, Inl ReferenceExists)
                                  else finish (sr_Version sch))))"

end
