(* ===== verification/Memory_Keys.thy ===== *)
theory Memory_Keys
  imports Memory_Store
begin

text \<open>
  The in-memory backend, continued: key encryption keys and data encryption keys
  (\<open>internal/storage/memory/store.go\<close>).
\<close>

section \<open>Key encryption keys\<close>

definition copyStringMap :: "(string, string) gomap option \<Rightarrow> (string, string) gomap option" where
  "copyStringMap m =
     (case m of None \<Rightarrow> None | Some m' \<Rightarrow> Some (gm_put_all (gm_entries m') gm_empty))"

definition copyKEK :: "KEKRecord \<Rightarrow> KEKRecord" where
  "copyKEK kek = kek\<lparr>kek_KmsProps := copyStringMap (kek_KmsProps kek)\<rparr>"

definition Store_CreateKEK ::
  "go_time \<Rightarrow> Store \<Rightarrow> KEKRecord \<Rightarrow> Store \<times> KEKRecord \<times> storage_error option" where
  [store_defs]: "Store_CreateKEK now s kek =
     (if gm_get (st_keks s) (kek_Name kek) \<noteq> None then (s, kek, Some ErrKEKExists)
      else (let kek' = kek\<lparr>kek_Ts := UnixMilli now, kek_CreatedAt := now, kek_UpdatedAt := now\<rparr>
            in (s\<lparr>st_keks := gm_put (kek_Name kek) (copyKEK kek') (st_keks s)\<rparr>, kek', None)))"

definition Store_GetKEK :: "Store \<Rightarrow> string \<Rightarrow> bool \<Rightarrow> KEKRecord result" where
  [store_defs]: "Store_GetKEK s name includeDeleted =
     (case gm_get (st_keks s) name of
        None \<Rightarrow> Inl ErrKEKNotFound
      | Some kek \<Rightarrow>
          if \<not> includeDeleted \<and> kek_Deleted kek then Inl ErrKEKNotFound else Inr (copyKEK kek))"

definition Store_UpdateKEK ::
  "go_time \<Rightarrow> Store \<Rightarrow> KEKRecord \<Rightarrow> Store \<times> KEKRecord \<times> storage_error option" where
  [store_defs]: "Store_UpdateKEK now s kek =
     (case gm_get (st_keks s) (kek_Name kek) of
        None \<Rightarrow> (s, kek, Some ErrKEKNotFound)
      | Some existing \<Rightarrow>
          (let kek' = kek\<lparr>kek_CreatedAt := kek_CreatedAt existing, kek_Ts := UnixMilli now,
                          kek_UpdatedAt := now\<rparr>
           in (s\<lparr>st_keks := gm_put (kek_Name kek) (copyKEK kek') (st_keks s)\<rparr>, kek', None)))"

definition Store_DeleteKEK ::
  "go_time \<Rightarrow> Store \<Rightarrow> string \<Rightarrow> bool \<Rightarrow> Store \<times> storage_error option" where
  [store_defs]: "Store_DeleteKEK now s name permanent =
     (case gm_get (st_keks s) name of
        None \<Rightarrow> (s, Some ErrKEKNotFound)
      | Some kek \<Rightarrow>
          if permanent
          then (s\<lparr>st_keks := gm_del name (st_keks s), st_deks := gm_del name (st_deks s)\<rparr>, None)
          else (s\<lparr>st_keks := gm_put name (kek\<lparr>kek_Deleted := True, kek_Ts := UnixMilli now\<rparr>)
                              (st_keks s)\<rparr>, None))"

definition Store_UndeleteKEK :: "go_time \<Rightarrow> Store \<Rightarrow> string \<Rightarrow> Store \<times> storage_error option" where
  [store_defs]: "Store_UndeleteKEK now s name =
     (case gm_get (st_keks s) name of
        None \<Rightarrow> (s, Some ErrKEKNotFound)
      | Some kek \<Rightarrow>
          if \<not> kek_Deleted kek then (s, Some ErrKEKNotFound)
          else (s\<lparr>st_keks := gm_put name (kek\<lparr>kek_Deleted := False, kek_Ts := UnixMilli now\<rparr>)
                              (st_keks s)\<rparr>, None))"

definition Store_ListKEKs :: "Store \<Rightarrow> bool \<Rightarrow> KEKRecord list result" where
  [store_defs]: "Store_ListKEKs s includeDeleted =
     Inr (sort_key kek_Name
            (map copyKEK (filter (\<lambda>kek. includeDeleted \<or> \<not> kek_Deleted kek)
                            (map snd (gm_entries (st_keks s))))))"

section \<open>Data encryption keys\<close>

text \<open>
  \<open>s.deks[kekName][subject]\<close>; a missing inner map reads as nil.
\<close>

definition dek_versions :: "Store \<Rightarrow> string \<Rightarrow> string \<Rightarrow> (int, DEKRecord) gomap option" where
  "dek_versions s kekName subject =
     (case gm_get (st_deks s) kekName of None \<Rightarrow> None | Some subjects \<Rightarrow> gm_get subjects subject)"

definition put_dek_versions ::
  "string \<Rightarrow> string \<Rightarrow> (int, DEKRecord) gomap \<Rightarrow> Store \<Rightarrow> Store" where
  "put_dek_versions kekName subject versions s =
     s\<lparr>st_deks := gm_put kekName
                   (gm_put subject versions (gm_get0 gm_empty (st_deks s) kekName)) (st_deks s)\<rparr>"

definition del_dek_subject :: "string \<Rightarrow> string \<Rightarrow> Store \<Rightarrow> Store" where
  "del_dek_subject kekName subject s =
     s\<lparr>st_deks := gm_put kekName
                   (gm_del subject (gm_get0 gm_empty (st_deks s) kekName)) (st_deks s)\<rparr>"

definition Store_CreateDEK ::
  "go_time \<Rightarrow> Store \<Rightarrow> DEKRecord \<Rightarrow> Store \<times> DEKRecord \<times> storage_error option" where
  [store_defs]: "Store_CreateDEK now s dek =
     (if gm_get (st_keks s) (dek_KEKName dek) = None then (s, dek, Some ErrKEKNotFound)
      else
        (let versions = (case dek_versions s (dek_KEKName dek) (dek_Subject dek) of
                           None \<Rightarrow> gm_empty | Some vs \<Rightarrow> vs);
             s1 = put_dek_versions (dek_KEKName dek) (dek_Subject dek) versions s;
             dek1 = (if dek_Version dek \<le> 0
                     then dek\<lparr>dek_Version := i64 (max_key (\<lambda>_. True) (gm_entries versions) 0 + 1)\<rparr>
                     else dek)
         in if gm_get versions (dek_Version dek1) \<noteq> None then (s1, dek1, Some ErrDEKExists)
            else
              (let dek2 = dek1\<lparr>dek_Ts := UnixMilli now\<rparr>;
                   stored = dek2\<lparr>dek_KeyMaterial := []\<rparr>
               in (put_dek_versions (dek_KEKName dek) (dek_Subject dek)
                     (gm_put (dek_Version dek2) stored versions) s1, dek2, None))))"

definition dek_matches :: "string \<Rightarrow> DEKRecord \<Rightarrow> bool" where
  "dek_matches algorithm dek \<longleftrightarrow> \<not> (algorithm \<noteq> [] \<and> dek_Algorithm dek \<noteq> algorithm)"

definition Store_GetDEK ::
  "Store \<Rightarrow> string \<Rightarrow> string \<Rightarrow> int \<Rightarrow> string \<Rightarrow> bool \<Rightarrow> DEKRecord result" where
  [store_defs]: "Store_GetDEK s kekName subject version0 algorithm includeDeleted =
     (case dek_versions s kekName subject of
        None \<Rightarrow> Inl ErrDEKNotFound
      | Some versions \<Rightarrow>
          (let latestVersion =
                 max_key (\<lambda>dek. (includeDeleted \<or> \<not> dek_Deleted dek) \<and> dek_matches algorithm dek)
                   (gm_entries versions) 0
           in if version0 \<le> 0 \<and> latestVersion = 0 then Inl ErrDEKNotFound
              else
                (case gm_get versions (if version0 \<le> 0 then latestVersion else version0) of
                   None \<Rightarrow> Inl ErrDEKNotFound
                 | Some dek \<Rightarrow>
                     if \<not> dek_matches algorithm dek then Inl ErrDEKNotFound
                     else if \<not> includeDeleted \<and> dek_Deleted dek then Inl ErrDEKNotFound
                     else Inr dek)))"

definition Store_ListDEKs :: "Store \<Rightarrow> string \<Rightarrow> bool \<Rightarrow> string list result" where
  [store_defs]: "Store_ListDEKs s kekName includeDeleted =
     (if gm_get (st_keks s) kekName = None then Inl ErrKEKNotFound
      else (case gm_get (st_deks s) kekName of
              None \<Rightarrow> Inr []
            | Some subjects \<Rightarrow>
                Inr (sort (map fst
                       (filter (\<lambda>(_, versions). includeDeleted \<or>
                                  list_ex (\<lambda>(_, dek). \<not> dek_Deleted dek) (gm_entries versions))
                          (gm_entries subjects))))))"

definition Store_ListDEKVersions ::
  "Store \<Rightarrow> string \<Rightarrow> string \<Rightarrow> string \<Rightarrow> bool \<Rightarrow> int list result" where
  [store_defs]: "Store_ListDEKVersions s kekName subject algorithm includeDeleted =
     (if gm_get (st_keks s) kekName = None then Inl ErrKEKNotFound
      else (case dek_versions s kekName subject of
              None \<Rightarrow> Inr []
            | Some versions \<Rightarrow>
                Inr (sort (map fst
                       (filter (\<lambda>(_, dek). (includeDeleted \<or> \<not> dek_Deleted dek) \<and>
                                           dek_matches algorithm dek)
                          (gm_entries versions))))))"

text \<open>
  The clock is read once per version the loops of \<open>DeleteDEK\<close> and \<open>UndeleteDEK\<close> touch; \<open>now v\<close>
  is the reading for version \<open>v\<close>.
\<close>

definition Store_DeleteDEK ::
  "(int \<Rightarrow> go_time) \<Rightarrow> Store \<Rightarrow> string \<Rightarrow> string \<Rightarrow> int \<Rightarrow> string \<Rightarrow> bool \<Rightarrow>
     Store \<times> storage_error option" where
  [store_defs]: "Store_DeleteDEK now s kekName subject version algorithm permanent =
     (case dek_versions s kekName subject of
        None \<Rightarrow> (s, Some ErrDEKNotFound)
      | Some versions \<Rightarrow>
          if version = -1
          then
            (if \<not> list_ex (\<lambda>(_, dek). dek_matches algorithm dek) (gm_entries versions)
             then (s, Some ErrDEKNotFound)
             else if permanent
             then (let versions' = DAList.filter (\<lambda>(_, dek). \<not> dek_matches algorithm dek) versions
                   in (if gm_entries versions' = [] then del_dek_subject kekName subject s
                       else put_dek_versions kekName subject versions' s, None))
             else (put_dek_versions kekName subject
                     (gm_map_vals
                        (\<lambda>v dek. if dek_matches algorithm dek
                                 then dek\<lparr>dek_Deleted := True, dek_Ts := UnixMilli (now v)\<rparr>
                                 else dek) versions) s, None))
          else
            (case gm_get versions version of
               None \<Rightarrow> (s, Some ErrDEKNotFound)
             | Some dek \<Rightarrow>
                 if \<not> dek_matches algorithm dek then (s, Some ErrDEKNotFound)
                 else if permanent
                 then (let versions' = gm_del version versions
                       in (if gm_entries versions' = [] then del_dek_subject kekName subject s
                           else put_dek_versions kekName subject versions' s, None))
                 else (put_dek_versions kekName subject
                         (gm_put version
                            (dek\<lparr>dek_Deleted := True, dek_Ts := UnixMilli (now version)\<rparr>) versions) s,
                       None)))"

definition Store_UndeleteDEK ::
  "(int \<Rightarrow> go_time) \<Rightarrow> Store \<Rightarrow> string \<Rightarrow> string \<Rightarrow> int \<Rightarrow> string \<Rightarrow>
     Store \<times> storage_error option" where
  [store_defs]: "Store_UndeleteDEK now s kekName subject version algorithm =
     (case dek_versions s kekName subject of
        None \<Rightarrow> (s, Some ErrDEKNotFound)
      | Some versions \<Rightarrow>
          if version = -1
          then
            (if \<not> list_ex (\<lambda>(_, dek). dek_matches algorithm dek \<and> dek_Deleted dek)
                   (gm_entries versions)
             then (s, Some ErrDEKNotFound)
             else (put_dek_versions kekName subject
                     (gm_map_vals
                        (\<lambda>v dek. if dek_matches algorithm dek \<and> dek_Deleted dek
                                 then dek\<lparr>dek_Deleted := False, dek_Ts := UnixMilli (now v)\<rparr>
                                 else dek) versions) s, None))
          else
            (case gm_get versions version of
               None \<Rightarrow> (s, Some ErrDEKNotFound)
             | Some dek \<Rightarrow>
                 if \<not> dek_matches algorithm dek then (s, Some ErrDEKNotFound)
                 else if \<not> dek_Deleted dek then (s, Some ErrDEKNotFound)
                 else (put_dek_versions kekName subject
                         (gm_put version
                            (dek\<lparr>dek_Deleted := False, dek_Ts := UnixMilli (now version)\<rparr>) versions) s,
                       None)))"

definition Store_UpdateDEK :: "Store \<Rightarrow> DEKRecord \<Rightarrow> Store \<times> storage_error option" where
  [store_defs]: "Store_UpdateDEK s dek =
     (case dek_versions s (dek_KEKName dek) (dek_Subject dek) of
        None \<Rightarrow> (s, Some ErrDEKNotFound)
      | Some versions \<Rightarrow>
          (case gm_get versions (dek_Version dek) of
             None \<Rightarrow> (s, Some ErrDEKNotFound)
           | Some existing \<Rightarrow>
               (put_dek_versions (dek_KEKName dek) (dek_Subject dek)
                  (gm_put (dek_Version dek)
                     (existing\<lparr>dek_EncryptedKeyMaterial := dek_EncryptedKeyMaterial dek,
                               dek_Ts := dek_Ts dek\<rparr>) versions) s, None)))"

end
