(* ===== verification/Memory_Key_Properties.thy ===== *)
theory Memory_Key_Properties
  imports Memory_Keys
begin

text \<open>
  Properties of the encryption keys of the in-memory backend: soft deletion and its reversal,
  stated once for both kinds of key by the locale \<open>soft_deletion\<close>; and the invariant of the nested
  key maps over histories of key operations: no plain key material is kept, every data key is
  filed under its own names, and none survives its key encryption key.
\<close>

section \<open>Soft deletion\<close>

locale soft_deletion =
  fixes look :: "'s \<Rightarrow> 'r option"
    and deleted :: "'r \<Rightarrow> bool"
    and same :: "'r \<Rightarrow> 'r \<Rightarrow> bool"
    and not_found :: storage_error
    and get :: "'s \<Rightarrow> bool \<Rightarrow> storage_error + 'r"
    and soft_delete :: "'s \<Rightarrow> 's \<times> storage_error option"
    and undelete :: "'s \<Rightarrow> 's \<times> storage_error option"
  assumes get_look: "get s includeDeleted =
          (case look s of None \<Rightarrow> Inl not_found
           | Some r \<Rightarrow> if \<not> includeDeleted \<and> deleted r then Inl not_found else Inr r)"
    and same_trans: "same r q \<Longrightarrow> same q p \<Longrightarrow> same r p"
    and delete_found: "look s = Some r \<Longrightarrow> snd (soft_delete s) = None \<and>
          (\<exists>r'. look (fst (soft_delete s)) = Some r' \<and> deleted r' \<and> same r r')"
    and delete_missing: "look s = None \<Longrightarrow> soft_delete s = (s, Some not_found)"
    and undelete_found: "look s = Some r \<Longrightarrow> deleted r \<Longrightarrow> snd (undelete s) = None \<and>
          (\<exists>r'. look (fst (undelete s)) = Some r' \<and> \<not> deleted r' \<and> same r r')"
    and undelete_live: "look s = Some r \<Longrightarrow> \<not> deleted r \<Longrightarrow> undelete s = (s, Some not_found)"
begin

text \<open>A soft-deleted key is hidden, still there for a reader of deleted keys, and can be restored.\<close>

lemma delete_undelete:
  assumes "get s False = Inr r"
  defines "s1 \<equiv> fst (soft_delete s)"
  defines "s2 \<equiv> fst (undelete s1)"
  shows "snd (soft_delete s) = None \<and> get s1 False = Inl not_found \<and>
     (\<exists>q. get s1 True = Inr q \<and> deleted q \<and> same r q) \<and>
     snd (undelete s1) = None \<and> (\<exists>p. get s2 False = Inr p \<and> \<not> deleted p \<and> same r p) \<and>
     undelete s2 = (s2, Some not_found)"
proof -
  have r: "look s = Some r" "\<not> deleted r"
    using assms(1) by (auto simp: get_look split: option.splits if_splits)
  from delete_found [OF r(1)] obtain q where q: "snd (soft_delete s) = None" "look s1 = Some q"
    "deleted q" "same r q" by (auto simp: s1_def)
  from undelete_found [OF q(2,3)] obtain p where p: "snd (undelete s1) = None" "look s2 = Some p"
    "\<not> deleted p" "same q p" by (auto simp: s2_def)
  show ?thesis
    using r q p undelete_live [OF p(2,3)] same_trans [OF q(4) p(4)] by (auto simp: get_look)
qed

end

definition same_kek :: "KEKRecord \<Rightarrow> KEKRecord \<Rightarrow> bool" where
  "same_kek a b \<longleftrightarrow>
     kek_Name a = kek_Name b \<and> kek_KmsType a = kek_KmsType b \<and> kek_KmsKeyID a = kek_KmsKeyID b \<and>
     opt_deep_eq (gm_deep_eq (=)) (kek_KmsProps a) (kek_KmsProps b) \<and> kek_Doc a = kek_Doc b \<and>
     kek_Shared a = kek_Shared b \<and> kek_CreatedAt a = kek_CreatedAt b \<and>
     kek_UpdatedAt a = kek_UpdatedAt b"

definition same_dek :: "DEKRecord \<Rightarrow> DEKRecord \<Rightarrow> bool" where
  "same_dek a b \<longleftrightarrow>
     dek_KEKName a = dek_KEKName b \<and> dek_Subject a = dek_Subject b \<and>
     dek_Version a = dek_Version b \<and> dek_Algorithm a = dek_Algorithm b \<and>
     dek_EncryptedKeyMaterial a = dek_EncryptedKeyMaterial b \<and> dek_KeyMaterial a = dek_KeyMaterial b"

lemma copyKEK_sel [simp]: "kek_Deleted (copyKEK k) = kek_Deleted k"
  by (simp add: copyKEK_def)

lemma same_kek_copy: "same_kek (copyKEK k) (copyKEK (k\<lparr>kek_Deleted := d, kek_Ts := t\<rparr>))"
  by (simp add: same_kek_def copyKEK_def map_opt_deq.deq_refl)

interpretation kek_soft: soft_deletion
  "\<lambda>s. map_option copyKEK (gm_get (st_keks s) name)" kek_Deleted same_kek ErrKEKNotFound
  "\<lambda>s. Store_GetKEK s name" "\<lambda>s. Store_DeleteKEK now s name False" "\<lambda>s. Store_UndeleteKEK now' s name"
  for name now now'
proof
  show "same_kek r p" if "same_kek r q" "same_kek q p" for r q p
    using that map_opt_deq.deq_trans by (auto simp: same_kek_def)
qed (auto simp: Store_GetKEK_def Store_DeleteKEK_def Store_UndeleteKEK_def gm_laws same_kek_copy
    split: option.splits if_splits)

lemma dek_versions_put:
  "dek_versions (put_dek_versions k sub vs s) k' sub' =
     (if k' = k \<and> sub' = sub then Some vs else dek_versions s k' sub')"
  by (auto simp: dek_versions_def put_dek_versions_def gm_laws gm_get0_def split: option.splits)

text \<open>One version of a data key, read with the algorithm it is asked for.\<close>

definition dek_look :: "Store \<Rightarrow> string \<Rightarrow> string \<Rightarrow> int \<Rightarrow> string \<Rightarrow> DEKRecord option" where
  "dek_look s kekName subject version algorithm =
     (case dek_versions s kekName subject of
        None \<Rightarrow> None
      | Some versions \<Rightarrow> (case gm_get versions version of
                            None \<Rightarrow> None
                          | Some dek \<Rightarrow> if dek_matches algorithm dek then Some dek else None))"

lemma dek_soft_laws:
  assumes "0 < version"
  shows "soft_deletion (\<lambda>s. dek_look s kekName subject version algorithm) dek_Deleted same_dek
     ErrDEKNotFound (\<lambda>s. Store_GetDEK s kekName subject version algorithm)
     (\<lambda>s. Store_DeleteDEK now s kekName subject version algorithm False)
     (\<lambda>s. Store_UndeleteDEK now' s kekName subject version algorithm)"
proof
  show "Store_GetDEK s kekName subject version algorithm d =
      (case dek_look s kekName subject version algorithm of None \<Rightarrow> Inl ErrDEKNotFound
       | Some r \<Rightarrow> if \<not> d \<and> dek_Deleted r then Inl ErrDEKNotFound else Inr r)" for s d
    using assms by (auto simp: Store_GetDEK_def dek_look_def Let_def split: option.splits)
qed (use assms in \<open>auto simp: same_dek_def Store_DeleteDEK_def Store_UndeleteDEK_def dek_look_def
      dek_versions_put gm_laws dek_matches_def split: option.splits if_splits\<close>)

section \<open>Histories of key operations\<close>

inductive key_step :: "Store \<Rightarrow> Store \<Rightarrow> bool" where
  create_kek: "Store_CreateKEK now s kek = (s', kek', err) \<Longrightarrow> key_step s s'"
| update_kek: "Store_UpdateKEK now s kek = (s', kek', err) \<Longrightarrow> key_step s s'"
| delete_kek: "Store_DeleteKEK now s name permanent = (s', err) \<Longrightarrow> key_step s s'"
| undelete_kek: "Store_UndeleteKEK now s name = (s', err) \<Longrightarrow> key_step s s'"
| create_dek: "Store_CreateDEK now s dek = (s', dek', err) \<Longrightarrow> key_step s s'"
| update_dek: "Store_UpdateDEK s dek = (s', err) \<Longrightarrow> key_step s s'"
| delete_dek: "Store_DeleteDEK nows s k sub version algorithm permanent = (s', err) \<Longrightarrow> key_step s s'"
| undelete_dek: "Store_UndeleteDEK nows s k sub version algorithm = (s', err) \<Longrightarrow> key_step s s'"

inductive key_reach :: "Store \<Rightarrow> bool" where
  keys_new: "key_reach NewStore"
| keys_step: "key_reach s \<Longrightarrow> key_step s s' \<Longrightarrow> key_reach s'"

definition dek_filed :: "string \<Rightarrow> string \<Rightarrow> (int, DEKRecord) gomap \<Rightarrow> bool" where
  "dek_filed kekName subject versions \<longleftrightarrow>
     (\<forall>v dek. gm_get versions v = Some dek \<longrightarrow>
        dek_KeyMaterial dek = [] \<and> dek_KEKName dek = kekName \<and> dek_Subject dek = subject \<and>
        dek_Version dek = v)"

definition keys_inv :: "Store \<Rightarrow> bool" where
  "keys_inv s \<longleftrightarrow>
     (\<forall>k subject versions. dek_versions s k subject = Some versions \<longrightarrow> dek_filed k subject versions) \<and>
     (\<forall>k. gm_get (st_deks s) k \<noteq> None \<longrightarrow> gm_get (st_keks s) k \<noteq> None) \<and>
     (\<forall>k kek. gm_get (st_keks s) k = Some kek \<longrightarrow> kek_Name kek = k)"

lemma keys_inv_put:
  assumes "keys_inv s" "dek_filed k sub vs" "gm_get (st_keks s) k \<noteq> None"
  shows "keys_inv (put_dek_versions k sub vs s)"
  using assms unfolding keys_inv_def dek_versions_put
  by (auto simp: put_dek_versions_def gm_laws split: if_splits)

lemma dek_versions_del:
  "dek_versions (del_dek_subject k sub s) k' sub' =
     (if k' = k \<and> sub' = sub then None else dek_versions s k' sub')"
  by (auto simp: dek_versions_def del_dek_subject_def gm_laws gm_get0_def split: option.splits)

lemma keys_inv_del:
  assumes "keys_inv s" "gm_get (st_keks s) k \<noteq> None"
  shows "keys_inv (del_dek_subject k sub s)"
  using assms unfolding keys_inv_def dek_versions_del
  by (auto simp: del_dek_subject_def gm_laws split: if_splits)

lemma keys_inv_kek:
  assumes "keys_inv s" "dek_versions s k sub = Some vs"
  shows "dek_filed k sub vs" "gm_get (st_keks s) k \<noteq> None"
  using assms by (auto simp: keys_inv_def dek_versions_def split: option.splits)

lemma keys_inv_name: "keys_inv s \<Longrightarrow> gm_get (st_keks s) k = Some kek \<Longrightarrow> kek_Name kek = k"
  by (simp add: keys_inv_def)

lemma keys_inv_put_kek:
  assumes "keys_inv s" "kek_Name kek = k"
  shows "keys_inv (s\<lparr>st_keks := gm_put k kek (st_keks s)\<rparr>)"
  using assms by (auto simp: keys_inv_def dek_versions_def gm_laws)

lemma keys_inv_drop_kek:
  assumes "keys_inv s"
  shows "keys_inv (s\<lparr>st_keks := gm_del k (st_keks s), st_deks := gm_del k (st_deks s)\<rparr>)"
  using assms by (auto simp: keys_inv_def dek_versions_def gm_laws split: option.splits if_splits)

lemma copyKEK_Name [simp]: "kek_Name (copyKEK k) = kek_Name k"
  by (simp add: copyKEK_def)

lemma dek_filed_simps [simp]:
  "dek_filed k sub gm_empty"
  "dek_filed k sub vs \<Longrightarrow> dek_filed k sub (gm_del v vs)"
  "dek_filed k sub vs \<Longrightarrow> dek_filed k sub (DAList.filter P vs)"
  by (auto simp: dek_filed_def gm_laws gm_get_filter split: if_splits)

lemma dek_filed_put:
  "dek_filed k sub vs \<Longrightarrow> dek_KeyMaterial dek = [] \<Longrightarrow> dek_KEKName dek = k \<Longrightarrow> dek_Subject dek = sub \<Longrightarrow>
   dek_Version dek = v \<Longrightarrow> dek_filed k sub (gm_put v dek vs)"
  by (auto simp: dek_filed_def gm_laws)

lemma dek_filed_map:
  assumes "dek_filed k sub vs"
    and "\<And>v d. dek_KeyMaterial (f v d) = dek_KeyMaterial d \<and> dek_KEKName (f v d) = dek_KEKName d \<and>
      dek_Subject (f v d) = dek_Subject d \<and> dek_Version (f v d) = dek_Version d"
  shows "dek_filed k sub (gm_map_vals f vs)"
  using assms by (auto simp: dek_filed_def)

lemma keys_inv_dek:
  "keys_inv s \<Longrightarrow> dek_versions s k sub = Some vs \<Longrightarrow> gm_get vs v = Some d \<Longrightarrow>
   dek_KeyMaterial d = [] \<and> dek_KEKName d = k \<and> dek_Subject d = sub \<and> dek_Version d = v"
  by (auto simp: keys_inv_def dek_filed_def)

lemma key_step_inv:
  assumes "key_step s s'" "keys_inv s"
  shows "keys_inv s'"
  using assms
proof (induction rule: key_step.induct)
  case (create_dek now s dek s' dek' err)
  let ?vs = "case dek_versions s (dek_KEKName dek) (dek_Subject dek) of None \<Rightarrow> gm_empty | Some vs \<Rightarrow> vs"
  have vs: "dek_filed (dek_KEKName dek) (dek_Subject dek) ?vs"
    using keys_inv_kek(1) [OF create_dek(2)] by (auto split: option.splits)
  have keep: "st_keks (put_dek_versions k sub vs s) = st_keks s" for k sub vs s
    by (simp add: put_dek_versions_def)
  from create_dek vs show ?case
    by (auto simp: Store_CreateDEK_def Let_def keep split: if_splits
        intro!: keys_inv_put dek_filed_put)
next
  case (update_dek s dek s' err)
  then show ?case
    using keys_inv_kek [OF update_dek(2)]
    by (auto simp: Store_UpdateDEK_def Let_def split: option.splits
        intro!: keys_inv_put dek_filed_put dest: keys_inv_dek)
next
  case (delete_dek nows s k sub version algorithm permanent s' err)
  then show ?case
    using keys_inv_kek [OF delete_dek(2)]
    by (auto simp: Store_DeleteDEK_def Let_def split: option.splits if_splits
        intro!: keys_inv_put keys_inv_del dek_filed_put dek_filed_map dest: keys_inv_dek)
next
  case (undelete_dek nows s k sub version algorithm s' err)
  then show ?case
    using keys_inv_kek [OF undelete_dek(2)]
    by (auto simp: Store_UndeleteDEK_def Let_def split: option.splits if_splits
        intro!: keys_inv_put dek_filed_put dek_filed_map dest: keys_inv_dek)
qed (auto simp: store_defs Let_def split: if_splits option.splits
      intro!: keys_inv_put_kek keys_inv_drop_kek dest: keys_inv_name)

lemma key_reach_inv: "key_reach s \<Longrightarrow> keys_inv s"
proof (induction rule: key_reach.induct)
  case keys_new
  show ?case by (simp add: keys_inv_def NewStore_def dek_versions_def)
qed (rule key_step_inv)

section \<open>Properties\<close>

text \<open>
  After any history of key operations, a data encryption key that can be read at all carries
  no plain key material, is the one asked for (same key encryption key, subject and algorithm),
  and its key encryption key exists.
\<close>

lemma no_plain_key_material:
  assumes "key_reach s" "Store_GetDEK s kekName subject version algorithm includeDeleted = Inr dek"
  shows "dek_KeyMaterial dek = [] \<and> dek_KEKName dek = kekName \<and> dek_Subject dek = subject \<and>
     (version > 0 \<longrightarrow> dek_Version dek = version) \<and> (algorithm \<noteq> [] \<longrightarrow> dek_Algorithm dek = algorithm) \<and>
     (\<exists>kek. Store_GetKEK s kekName True = Inr kek \<and> kek_Name kek = kekName)"
proof -
  have inv: "keys_inv s" by (rule key_reach_inv [OF assms(1)])
  from assms(2) obtain versions v where v: "dek_versions s kekName subject = Some versions"
    "gm_get versions v = Some dek" "dek_matches algorithm dek" "version > 0 \<longrightarrow> v = version"
    by (auto simp: Store_GetDEK_def Let_def split: option.splits if_splits)
  obtain kek where "gm_get (st_keks s) kekName = Some kek" using keys_inv_kek(2) [OF inv v(1)] by blast
  moreover have "kek_Name kek = kekName" using inv calculation by (simp add: keys_inv_def)
  ultimately have "Store_GetKEK s kekName True = Inr (copyKEK kek) \<and> kek_Name (copyKEK kek) = kekName"
    by (simp add: Store_GetKEK_def)
  then show ?thesis
    using keys_inv_dek [OF inv v(1,2)] v(3,4) by (auto simp: dek_matches_def)
qed

definition sample_kek :: KEKRecord where
  "sample_kek = \<lparr>kek_Name = ''kek'', kek_KmsType = ''local-kms'', kek_KmsKeyID = ''id'',
     kek_KmsProps = None, kek_Doc = [], kek_Shared = True, kek_Deleted = False, kek_Ts = 0,
     kek_CreatedAt = 0, kek_UpdatedAt = 0\<rparr>"

definition sample_dek :: DEKRecord where
  "sample_dek = \<lparr>dek_KEKName = ''kek'', dek_Subject = ''orders'', dek_Version = 0,
     dek_Algorithm = ''AES256_GCM'', dek_EncryptedKeyMaterial = ''wrapped'',
     dek_KeyMaterial = ''plain'', dek_Deleted = False, dek_Ts = 0\<rparr>"

definition sample_keys :: Store where
  "sample_keys = fst (Store_CreateDEK 1 (fst (Store_CreateKEK 1 NewStore sample_kek)) sample_dek)"

lemma sample_keys_reach: "key_reach sample_keys"
  unfolding sample_keys_def
  by (rule keys_step [OF keys_step [OF keys_new create_kek] create_dek]) (auto simp: prod_eq_iff)

lemmas key_eval = sample_keys_def sample_kek_def sample_dek_def Store_CreateKEK_def Store_CreateDEK_def
  Store_GetDEK_def Store_GetKEK_def NewStore_def dek_versions_def put_dek_versions_def gm_get0_def
  copyKEK_def copyStringMap_def dek_matches_def Let_def gm_eval i64_def max_key_def

lemma no_plain_key_material_witness:
  "\<exists>dek. Store_GetDEK sample_keys ''kek'' ''orders'' (-1) [] False = Inr dek \<and> dek_KeyMaterial dek = [] \<and>
     dek_EncryptedKeyMaterial dek = ''wrapped''"
proof -
  have "\<exists>dek. Store_GetDEK sample_keys ''kek'' ''orders'' (-1) [] False = Inr dek \<and>
      dek_EncryptedKeyMaterial dek = ''wrapped''"
    by (simp add: key_eval)
  with no_plain_key_material [OF sample_keys_reach] show ?thesis by blast
qed

text \<open>
  Soft deletion of a key encryption key hides it, keeps it for readers of deleted keys, and
  is undone by undeletion, which restores every field but the time stamp; a second undeletion fails.
\<close>

lemma kek_delete_undelete:
  assumes "Store_GetKEK s name False = Inr kek"
    and "Store_DeleteKEK now s name False = (s1, err1)" "Store_UndeleteKEK now' s1 name = (s2, err2)"
  shows "err1 = None \<and> Store_GetKEK s1 name False = Inl ErrKEKNotFound \<and>
     (\<exists>q. Store_GetKEK s1 name True = Inr q \<and> kek_Deleted q \<and> same_kek kek q) \<and>
     err2 = None \<and> (\<exists>p. Store_GetKEK s2 name False = Inr p \<and> \<not> kek_Deleted p \<and> same_kek kek p) \<and>
     Store_UndeleteKEK now' s2 name = (s2, Some ErrKEKNotFound)"
  using kek_soft.delete_undelete [OF assms(1), of now now'] assms(2,3) by simp

lemma kek_delete_undelete_witness:
  "Store_GetKEK (fst (Store_DeleteKEK 2 sample_keys ''kek'' False)) ''kek'' False = Inl ErrKEKNotFound"
proof -
  obtain kek where "Store_GetKEK sample_keys ''kek'' False = Inr kek"
    by (simp add: key_eval)
  from kek_delete_undelete [OF this prod.collapse [symmetric] prod.collapse [symmetric], of 2]
  show ?thesis by simp
qed

text \<open>
  The same for one version of a data encryption key.
\<close>

lemma dek_delete_undelete:
  assumes "0 < version" "Store_GetDEK s kekName subject version algorithm False = Inr dek"
    and "Store_DeleteDEK now s kekName subject version algorithm False = (s1, err1)"
    and "Store_UndeleteDEK now' s1 kekName subject version algorithm = (s2, err2)"
  shows "err1 = None \<and> Store_GetDEK s1 kekName subject version algorithm False = Inl ErrDEKNotFound \<and>
     (\<exists>q. Store_GetDEK s1 kekName subject version algorithm True = Inr q \<and> dek_Deleted q \<and>
          same_dek dek q) \<and> err2 = None \<and>
     (\<exists>p. Store_GetDEK s2 kekName subject version algorithm False = Inr p \<and> \<not> dek_Deleted p \<and>
          same_dek dek p)"
  using soft_deletion.delete_undelete [OF dek_soft_laws [OF assms(1)] assms(2), of now now'] assms(3,4)
  by simp

lemma dek_delete_undelete_witness:
  "Store_GetDEK (fst (Store_DeleteDEK (\<lambda>_. 2) sample_keys ''kek'' ''orders'' 1 [] False))
     ''kek'' ''orders'' 1 [] False = Inl ErrDEKNotFound"
proof -
  obtain dek where "Store_GetDEK sample_keys ''kek'' ''orders'' 1 [] False = Inr dek"
    by (simp add: key_eval)
  from dek_delete_undelete [OF _ this prod.collapse [symmetric] prod.collapse [symmetric], of "\<lambda>_. 2"]
  show ?thesis by simp
qed

text \<open>
  A data encryption key created without a version gets one above every version its subject
  has, and can be read back under it; creation fails only when the key encryption key is missing.
\<close>

lemma dek_auto_version:
  assumes "key_reach s" "dek_Version dek \<le> 0"
    and "gm_get (st_keks s) (dek_KEKName dek) \<noteq> None"
    and room: "\<And>versions v d. dek_versions s (dek_KEKName dek) (dek_Subject dek) = Some versions \<Longrightarrow>
          gm_get versions v = Some d \<Longrightarrow> v < max_int64"
    and run: "Store_CreateDEK now s dek = (s', dek', err)"
  shows "err = None \<and>
     (\<forall>versions v d. dek_versions s (dek_KEKName dek) (dek_Subject dek) = Some versions \<and>
        gm_get versions v = Some d \<longrightarrow> v < dek_Version dek') \<and>
     Store_GetDEK s' (dek_KEKName dek) (dek_Subject dek) (dek_Version dek') [] True =
       Inr (dek'\<lparr>dek_KeyMaterial := []\<rparr>)"
proof -
  define vs where "vs = (case dek_versions s (dek_KEKName dek) (dek_Subject dek) of
      None \<Rightarrow> gm_empty | Some vs \<Rightarrow> vs)"
  let ?m = "max_key (\<lambda>_. True) (gm_entries vs) 0"
  have m: "0 \<le> ?m" "?m < max_int64"
  proof -
    show "0 \<le> ?m" by (rule max_key_ge)
    show "?m < max_int64"
    proof (cases "?m = 0")
      case False
      then obtain d where d: "gm_get vs ?m = Some d" using max_key_gm [OF refl False] by blast
      then obtain versions where "dek_versions s (dek_KEKName dek) (dek_Subject dek) = Some versions"
        "vs = versions" by (auto simp: vs_def split: option.splits)
      with d room show ?thesis by simp
    qed (simp add: max_int64_def)
  qed
  then have succ: "i64 (?m + 1) = ?m + 1" by (intro i64_succ) (auto simp: in_i64_def max_int64_def)
  have above: "v < ?m + 1" if "gm_get vs v = Some d" for v d
    using max_key_bound [of v d "gm_entries vs" "\<lambda>_. True" 0] that by (simp add: gm.entry_iff)
  have "gm_get vs (?m + 1) = None" using above by (cases "gm_get vs (?m + 1)") fastforce+
  then have r: "err = None" "dek' = dek\<lparr>dek_Version := ?m + 1, dek_Ts := UnixMilli now\<rparr>"
    "s' = put_dek_versions (dek_KEKName dek) (dek_Subject dek)
        (gm_put (?m + 1) (dek'\<lparr>dek_KeyMaterial := []\<rparr>) vs)
        (put_dek_versions (dek_KEKName dek) (dek_Subject dek) vs s)"
    using run assms(2,3) succ by (auto simp: Store_CreateDEK_def Let_def vs_def [symmetric])
  have "Store_GetDEK s' (dek_KEKName dek) (dek_Subject dek) (dek_Version dek') [] True =
       Inr (dek'\<lparr>dek_KeyMaterial := []\<rparr>)"
    using m unfolding r(3) by (simp add: Store_GetDEK_def dek_versions_put gm_laws r(2) dek_matches_def)
  moreover have "v < dek_Version dek'" if "dek_versions s (dek_KEKName dek) (dek_Subject dek) = Some versions"
    "gm_get versions v = Some d" for versions v d
    using above [of v d] that r(2) by (simp add: vs_def)
  ultimately show ?thesis using r(1) by blast
qed

lemma dek_auto_version_witness:
  "snd (snd (Store_CreateDEK 3 sample_keys sample_dek)) = None"
proof -
  have kek: "gm_get (st_keks sample_keys) ''kek'' \<noteq> None" by (simp add: key_eval)
  have room: "v < max_int64" if "dek_versions sample_keys ''kek'' ''orders'' = Some versions"
    "gm_get versions v = Some d" for versions v d
    using that by (auto simp: key_eval max_int64_def split: if_splits)
  show ?thesis
    using dek_auto_version [OF sample_keys_reach, of sample_dek 3 _ _
        "snd (snd (Store_CreateDEK 3 sample_keys sample_dek))"] kek room
    by (simp add: sample_dek_def [unfolded sample_dek_def] prod_eq_iff) (simp add: sample_dek_def)
qed

end
