(* ===== verification/Memory_Exporters.thy ===== *)
theory Memory_Exporters
  imports Memory_Store
begin

text \<open>
  The in-memory backend, continued: exporters and their statuses
  (\<open>internal/storage/memory/store.go\<close>).
\<close>

definition Store_CreateExporter ::
  "go_time \<Rightarrow> Store \<Rightarrow> ExporterRecord \<Rightarrow> Store \<times> storage_error option" where
  [store_defs]: "Store_CreateExporter now s exporter =
     (if gm_get (st_exporters s) (ex_Name exporter) \<noteq> None then (s, Some ErrExporterExists)
      else (s\<lparr>st_exporters :=
               gm_put (ex_Name exporter) (exporter\<lparr>ex_CreatedAt := now, ex_UpdatedAt := now\<rparr>)
                 (st_exporters s)\<rparr>, None))"

definition Store_GetExporter :: "Store \<Rightarrow> string \<Rightarrow> ExporterRecord result" where
  [store_defs]: "Store_GetExporter s name =
     (case gm_get (st_exporters s) name of
        None \<Rightarrow> Inl ErrExporterNotFound | Some exporter \<Rightarrow> Inr exporter)"

definition Store_UpdateExporter ::
  "go_time \<Rightarrow> Store \<Rightarrow> ExporterRecord \<Rightarrow> Store \<times> storage_error option" where
  [store_defs]: "Store_UpdateExporter now s exporter =
     (case gm_get (st_exporters s) (ex_Name exporter) of
        None \<Rightarrow> (s, Some ErrExporterNotFound)
      | Some existing \<Rightarrow>
          (s\<lparr>st_exporters :=
              gm_put (ex_Name exporter)
                (exporter\<lparr>ex_CreatedAt := ex_CreatedAt existing, ex_UpdatedAt := now\<rparr>)
                (st_exporters s)\<rparr>, None))"

definition Store_DeleteExporter :: "Store \<Rightarrow> string \<Rightarrow> Store \<times> storage_error option" where
  [store_defs]: "Store_DeleteExporter s name =
     (if gm_get (st_exporters s) name = None then (s, Some ErrExporterNotFound)
      else (s\<lparr>st_exporters := gm_del name (st_exporters s),
              st_exporterStatuses := gm_del name (st_exporterStatuses s)\<rparr>, None))"

definition Store_ListExporters :: "Store \<Rightarrow> string list result" where
  [store_defs]: "Store_ListExporters s = Inr (sort (gm_keys (st_exporters s)))"

definition Store_GetExporterStatus :: "Store \<Rightarrow> string \<Rightarrow> ExporterStatusRecord result" where
  [store_defs]: "Store_GetExporterStatus s name =
     (if gm_get (st_exporters s) name = None then Inl ErrExporterNotFound
      else (case gm_get (st_exporterStatuses s) name of
              None \<Rightarrow> Inr (ExporterStatusRecord_zero\<lparr>es_Name := name, es_State := ''PAUSED''\<rparr>)
            | Some status \<Rightarrow> Inr status))"

definition Store_SetExporterStatus ::
  "Store \<Rightarrow> string \<Rightarrow> ExporterStatusRecord \<Rightarrow> Store \<times> storage_error option" where
  [store_defs]: "Store_SetExporterStatus s name status =
     (if gm_get (st_exporters s) name = None then (s, Some ErrExporterNotFound)
      else (s\<lparr>st_exporterStatuses := gm_put name status (st_exporterStatuses s)\<rparr>, None))"

definition Store_GetExporterConfig :: "Store \<Rightarrow> string \<Rightarrow> (string, string) gomap result" where
  [store_defs]: "Store_GetExporterConfig s name =
     (case gm_get (st_exporters s) name of
        None \<Rightarrow> Inl ErrExporterNotFound
      | Some exporter \<Rightarrow>
          Inr (case ex_Config exporter of
                 None \<Rightarrow> gm_empty | Some config \<Rightarrow> gm_put_all (gm_entries config) gm_empty))"

definition Store_UpdateExporterConfig ::
  "go_time \<Rightarrow> Store \<Rightarrow> string \<Rightarrow> (string, string) gomap option \<Rightarrow>
     Store \<times> storage_error option" where
  [store_defs]: "Store_UpdateExporterConfig now s name config =
     (case gm_get (st_exporters s) name of
        None \<Rightarrow> (s, Some ErrExporterNotFound)
      | Some exporter \<Rightarrow>
          (s\<lparr>st_exporters :=
              gm_put name (exporter\<lparr>ex_Config := config, ex_UpdatedAt := now\<rparr>)
                (st_exporters s)\<rparr>, None))"

end
