(* ===== verification/Go_Base64.thy ===== *)
theory Go_Base64
  imports Go_Prelude
begin

text \<open>
  \<open>encoding/base64\<close>: \<open>StdEncoding\<close> with padding, which encodes key material and the credentials of
  Basic authentication, and the decoder of \<open>RawURLEncoding\<close>, in which the numbers of a published key are written.
\<close>

section \<open>Standard encoding\<close>

text \<open>\<open>base64.StdEncoding\<close>, with padding.\<close>

definition b64_alphabet :: string where
  "b64_alphabet = ''ABCDEFGHIJKLMNOPQRSTUVWXYZabcdefghijklmnopqrstuvwxyz0123456789+/''"

definition b64_char :: "nat \<Rightarrow> char" where
  "b64_char n = b64_alphabet ! n"

definition b64_val :: "char \<Rightarrow> nat option" where
  "b64_val c = IndexByte b64_alphabet c"

fun b64_encode :: "nat list \<Rightarrow> string" where
  "b64_encode (x # y # z # rest) =
     b64_char (x div 4) # b64_char (x mod 4 * 16 + y div 16) # b64_char (y mod 16 * 4 + z div 64) #
     b64_char (z mod 64) # b64_encode rest"
| "b64_encode [x, y] =
     [b64_char (x div 4), b64_char (x mod 4 * 16 + y div 16), b64_char (y mod 16 * 4), CHR ''='']"
| "b64_encode [x] = [b64_char (x div 4), b64_char (x mod 4 * 16), CHR ''='', CHR ''='']"
| "b64_encode [] = []"

fun b64_decode :: "string \<Rightarrow> nat list option" where
  "b64_decode (a # b # c # d # rest) =
     (if c = CHR ''='' \<and> d = CHR ''='' \<and> rest = []
      then (case (b64_val a, b64_val b) of
              (Some v, Some w) \<Rightarrow> Some [v * 4 + w div 16] | _ \<Rightarrow> None)
      else if d = CHR ''='' \<and> rest = []
      then (case (b64_val a, b64_val b, b64_val c) of
              (Some v, Some w, Some x) \<Rightarrow> Some [v * 4 + w div 16, w mod 16 * 16 + x div 4] | _ \<Rightarrow> None)
      else (case (b64_val a, b64_val b, b64_val c, b64_val d, b64_decode rest) of
              (Some v, Some w, Some x, Some y, Some bs) \<Rightarrow>
                Some ([v * 4 + w div 16, w mod 16 * 16 + x div 4, x mod 4 * 64 + y] @ bs)
            | _ \<Rightarrow> None))"
| "b64_decode [] = Some []"
| "b64_decode _ = None"

definition b64_EncodeToString :: "string \<Rightarrow> string" where
  "b64_EncodeToString bs = b64_encode (map of_char bs)"

text \<open>The decoder skips line breaks.\<close>

definition b64_DecodeString :: "string \<Rightarrow> string option" where
  "b64_DecodeString s =
     map_option (map char_of)
       (b64_decode (filter (\<lambda>c. (of_char c :: nat) \<noteq> 10 \<and> (of_char c :: nat) \<noteq> 13) s))"

lemma b64_alphabet_ok:
  "list_all (\<lambda>n. b64_val (b64_char n) = Some n \<and> b64_char n \<noteq> CHR ''='' \<and>
     (of_char (b64_char n) :: nat) \<noteq> 10 \<and> (of_char (b64_char n) :: nat) \<noteq> 13) [0..<64]"
  by code_simp

lemma b64_val_char [simp]:
  assumes "n < 64"
  shows "b64_val (b64_char n) = Some n" "b64_char n \<noteq> CHR ''=''"
    "(of_char (b64_char n) :: nat) \<noteq> 10" "(of_char (b64_char n) :: nat) \<noteq> 13"
  using b64_alphabet_ok assms by (auto simp: list_all_iff)

lemma b64_parts:
  fixes x y z :: nat
  assumes "x < 256" "y < 256" "z < 256"
  shows "x div 4 < 64" "x mod 4 * 16 + y div 16 < 64" "y mod 16 * 4 + z div 64 < 64" "z mod 64 < 64"
    "y mod 16 * 4 < 64" "x mod 4 * 16 < 64"
  using assms by linarith+

lemma b64_roundtrip: "\<forall>b\<in>set bs. b < 256 \<Longrightarrow> b64_decode (b64_encode bs) = Some bs"
proof (induction bs rule: b64_encode.induct)
  case (1 x y z rest)
  then have "x < 256" "y < 256" "z < 256" "b64_decode (b64_encode rest) = Some rest" by auto
  then show ?case using b64_parts [of x y z] by simp
next
  case (2 x y)
  then have "x < 256" "y < 256" "y div 16 < 16" by auto
  then show ?case using b64_parts [of x y 0] by simp
next
  case (3 x)
  then show ?case using b64_parts [of x 0 0] by simp
qed simp

lemma b64_no_breaks:
  "\<forall>b\<in>set bs. b < 256 \<Longrightarrow>
     filter (\<lambda>c. (of_char c :: nat) \<noteq> 10 \<and> (of_char c :: nat) \<noteq> 13) (b64_encode bs) = b64_encode bs"
proof (induction bs rule: b64_encode.induct)
  case (1 x y z rest)
  then show ?case using b64_parts [of x y z] by simp
next
  case (2 x y)
  then show ?case using b64_parts [of x y 0] by simp
next
  case (3 x)
  then show ?case using b64_parts [of x 0 0] by simp
qed simp

lemma b64_string_roundtrip: "b64_DecodeString (b64_EncodeToString s) = Some s"
proof -
  have bytes: "\<forall>b\<in>set (map of_char s :: nat list). b < 256" by simp
  show ?thesis
    by (simp add: b64_DecodeString_def b64_EncodeToString_def b64_no_breaks [OF bytes] b64_roundtrip [OF bytes] comp_def)
qed

section \<open>Raw URL encoding\<close>

text \<open>The last two letters of the alphabet are \<open>-\<close> and \<open>_\<close>, and there is no padding.\<close>

definition std_letter :: "char \<Rightarrow> char" where
  "std_letter c = (if c = CHR ''-'' then CHR ''+'' else if c = CHR ''_'' then CHR ''/'' else c)"

definition b64url_DecodeString :: "string \<Rightarrow> string option" where
  "b64url_DecodeString s =
     (let t = filter (\<lambda>c. (of_char c :: nat) \<noteq> 10 \<and> (of_char c :: nat) \<noteq> 13) s
      in if list_ex (\<lambda>c. c = CHR ''+'' \<or> c = CHR ''/'' \<or> c = CHR ''='') t \<or> length t mod 4 = 1 then None
         else b64_DecodeString (map std_letter t @ replicate ((4 - length t mod 4) mod 4) (CHR ''='')))"

end
