(* ===== verification/Registry_Keys.thy ===== *)
theory Registry_Keys
  imports Registry_Config Memory_Key_Properties Memory_Exporters Go_Base64
begin

text \<open>
  Encryption keys and exporters in the registry service
  (\<open>internal/registry/registry_dek.go\<close>, \<open>registry_exporter.go\<close>).  Key material generated by a key
  management service is stored wrapped, as base64 text, and the plain key goes to the caller only.
  The key management service is a field of the registry; what is relied on is that it unwraps what it
  wrapped.
\<close>

section \<open>Key encryption keys\<close>

datatype key_error =
    KEKNameRequired | KmsTypeRequired | KmsKeyIdRequired | SubjectIsRequired | InvalidAlgorithm string
  | KMSNotConfigured | NoKMSProvider string | NoKeyMaterial | DecodeFailed | KMSError string string
  | RoundTripMismatch | KeyStorage storage_error

definition validAlgorithms :: "string list" where
  "validAlgorithms = [''AES128_GCM'', ''AES256_GCM'', ''AES256_SIV'']"

definition Registry_CreateKEK ::
  "go_time \<Rightarrow> 'p Registry \<Rightarrow> Store \<Rightarrow> KEKRecord \<Rightarrow> Store \<times> KEKRecord \<times> key_error option" where
  [registry_defs]: "Registry_CreateKEK now r s kek =
     (if TrimSpace (kek_Name kek) = [] then (s, kek, Some KEKNameRequired)
      else if TrimSpace (kek_KmsType kek) = [] then (s, kek, Some KmsTypeRequired)
      else if TrimSpace (kek_KmsKeyID kek) = [] then (s, kek, Some KmsKeyIdRequired)
      else (case Store_CreateKEK now s kek of
              (s', kek', err) \<Rightarrow> (s', kek', map_option KeyStorage err)))"

definition Registry_UpdateKEK ::
  "go_time \<Rightarrow> 'p Registry \<Rightarrow> Store \<Rightarrow> KEKRecord \<Rightarrow> Store \<times> KEKRecord \<times> key_error option" where
  [registry_defs]: "Registry_UpdateKEK now r s kek =
     (if TrimSpace (kek_Name kek) = [] then (s, kek, Some KEKNameRequired)
      else (case Store_UpdateKEK now s kek of
              (s', kek', err) \<Rightarrow> (s', kek', map_option KeyStorage err)))"

text \<open>\<open>Registry.Get\<close> of the key management registry: nil when there is no provider of the type.\<close>

definition kms_Get :: "(string, KmsProvider) gomap \<Rightarrow> string \<Rightarrow> KmsProvider option" where
  "kms_Get reg kmsType = gm_get reg kmsType"

definition Registry_TestKEK :: "'p Registry \<Rightarrow> KEKRecord \<Rightarrow> key_error option" where
  [registry_defs]: "Registry_TestKEK r kek =
     (case rg_kmsRegistry r of
        None \<Rightarrow> Some KMSNotConfigured
      | Some reg \<Rightarrow>
          (case kms_Get reg (kek_KmsType kek) of
             None \<Rightarrow> Some (NoKMSProvider (kek_KmsType kek))
           | Some provider \<Rightarrow>
               (let testData = ''schema-registry-kek-test''
                in case kp_Wrap provider (kek_KmsKeyID kek) testData (kek_KmsProps kek) of
                     Inl err \<Rightarrow> Some (KMSError ''wrap failed'' err)
                   | Inr wrapped \<Rightarrow>
                       (case kp_Unwrap provider (kek_KmsKeyID kek) wrapped (kek_KmsProps kek) of
                          Inl err \<Rightarrow> Some (KMSError ''unwrap failed'' err)
                        | Inr unwrapped \<Rightarrow>
                            if testData \<noteq> unwrapped then Some RoundTripMismatch else None))))"

section \<open>Data encryption keys\<close>

text \<open>Key material generated on the server, for a shared key whose provider is configured.\<close>

definition generate_material ::
  "'p Registry \<Rightarrow> Store \<Rightarrow> DEKRecord \<Rightarrow> key_error + DEKRecord" where
  "generate_material r s dek =
     (case rg_kmsRegistry r of
        None \<Rightarrow> Inr dek
      | Some reg \<Rightarrow>
          if dek_EncryptedKeyMaterial dek \<noteq> [] then Inr dek
          else (case Store_GetKEK s (dek_KEKName dek) False of
                  Inl err \<Rightarrow> Inl (KeyStorage err)
                | Inr kek \<Rightarrow>
                    if \<not> kek_Shared kek then Inr dek
                    else (case kms_Get reg (kek_KmsType kek) of
                            None \<Rightarrow> Inr dek
                          | Some provider \<Rightarrow>
                              (case kp_GenerateDataKey provider (kek_KmsKeyID kek) (dek_Algorithm dek)
                                      (kek_KmsProps kek) of
                                 Inl err \<Rightarrow> Inl (KMSError ''KMS generate data key'' err)
                               | Inr (plaintext, wrapped) \<Rightarrow>
                                   Inr (dek\<lparr>dek_EncryptedKeyMaterial := b64_EncodeToString wrapped,
                                            dek_KeyMaterial := b64_EncodeToString plaintext\<rparr>)))))"

definition Registry_CreateDEK ::
  "go_time \<Rightarrow> 'p Registry \<Rightarrow> Store \<Rightarrow> DEKRecord \<Rightarrow> Store \<times> DEKRecord \<times> key_error option" where
  [registry_defs]: "Registry_CreateDEK now r s dek =
     (if TrimSpace (dek_KEKName dek) = [] then (s, dek, Some KEKNameRequired)
      else if TrimSpace (dek_Subject dek) = [] then (s, dek, Some SubjectIsRequired)
      else
        (let dek1 = (if dek_Algorithm dek = [] then dek\<lparr>dek_Algorithm := ''AES256_GCM''\<rparr> else dek)
         in if dek_Algorithm dek1 \<notin> set validAlgorithms
            then (s, dek1, Some (InvalidAlgorithm (dek_Algorithm dek1)))
            else (case generate_material r s dek1 of
                    Inl err \<Rightarrow> (s, dek1, Some err)
                  | Inr dek2 \<Rightarrow>
                      (case Store_CreateDEK now s dek2 of
                         (s', dek3, err) \<Rightarrow> (s', dek3, map_option KeyStorage err)))))"

definition Registry_RewrapDEK ::
  "go_time \<Rightarrow> 'p Registry \<Rightarrow> Store \<Rightarrow> string \<Rightarrow> string \<Rightarrow> int \<Rightarrow> string \<Rightarrow> Store \<times> (key_error + DEKRecord)" where
  [registry_defs]: "Registry_RewrapDEK now r s kekName subject version algorithm =
     (case rg_kmsRegistry r of
        None \<Rightarrow> (s, Inl KMSNotConfigured)
      | Some reg \<Rightarrow>
          (case Store_GetKEK s kekName False of
             Inl err \<Rightarrow> (s, Inl (KeyStorage err))
           | Inr kek \<Rightarrow>
               (case kms_Get reg (kek_KmsType kek) of
                  None \<Rightarrow> (s, Inl (NoKMSProvider (kek_KmsType kek)))
                | Some provider \<Rightarrow>
                    (case Store_GetDEK s kekName subject version algorithm False of
                       Inl err \<Rightarrow> (s, Inl (KeyStorage err))
                     | Inr dek \<Rightarrow>
                         if dek_EncryptedKeyMaterial dek = [] then (s, Inl NoKeyMaterial)
                         else
                           (case b64_DecodeString (dek_EncryptedKeyMaterial dek) of
                              None \<Rightarrow> (s, Inl DecodeFailed)
                            | Some ciphertext \<Rightarrow>
                                (case kp_Unwrap provider (kek_KmsKeyID kek) ciphertext (kek_KmsProps kek) of
                                   Inl err \<Rightarrow> (s, Inl (KMSError ''KMS unwrap'' err))
                                 | Inr plaintext \<Rightarrow>
                                     (case kp_Wrap provider (kek_KmsKeyID kek) plaintext (kek_KmsProps kek) of
                                        Inl err \<Rightarrow> (s, Inl (KMSError ''KMS rewrap'' err))
                                      | Inr newCiphertext \<Rightarrow>
                                          (let dek' = dek\<lparr>dek_EncryptedKeyMaterial := b64_EncodeToString newCiphertext,
                                                          dek_Ts := UnixMilli now\<rparr>
                                           in case Store_UpdateDEK s dek' of
                                                (s', Some err) \<Rightarrow> (s', Inl (KeyStorage err))
                                              | (s', None) \<Rightarrow> (s', Inr dek')))))))))"

section \<open>Exporters\<close>

datatype exporter_error = ExporterNameRequired | InvalidContextType string | ExporterStorage storage_error

definition valid_context_type :: "string \<Rightarrow> bool" where
  "valid_context_type t \<longleftrightarrow> t = ''CUSTOM'' \<or> t = ''NONE'' \<or> t = ''AUTO''"

definition Registry_CreateExporter ::
  "go_time \<Rightarrow> go_time \<Rightarrow> 'p Registry \<Rightarrow> Store \<Rightarrow> ExporterRecord \<Rightarrow> Store \<times> exporter_error option" where
  [registry_defs]: "Registry_CreateExporter now now' r s exporter =
     (if TrimSpace (ex_Name exporter) = [] then (s, Some ExporterNameRequired)
      else
        (let exporter1 = exporter\<lparr>ex_ContextType :=
               ToUpper (if ex_ContextType exporter = [] then ''AUTO'' else ex_ContextType exporter)\<rparr>
         in if \<not> valid_context_type (ex_ContextType exporter1)
            then (s, Some (InvalidContextType (ex_ContextType exporter1)))
            else (case Store_CreateExporter now s exporter1 of
                    (s1, Some err) \<Rightarrow> (s1, Some (ExporterStorage err))
                  | (s1, None) \<Rightarrow>
                      (let (s2, err) = Store_SetExporterStatus s1 (ex_Name exporter1)
                             (ExporterStatusRecord_zero\<lparr>es_Name := ex_Name exporter1, es_State := ''PAUSED'',
                                                        es_Ts := UnixMilli now'\<rparr>)
                       in (s2, map_option ExporterStorage err)))))"

definition Registry_UpdateExporter ::
  "go_time \<Rightarrow> 'p Registry \<Rightarrow> Store \<Rightarrow> ExporterRecord \<Rightarrow> Store \<times> exporter_error option" where
  [registry_defs]: "Registry_UpdateExporter now r s exporter =
     (if TrimSpace (ex_Name exporter) = [] then (s, Some ExporterNameRequired)
      else
        (let exporter1 = (if ex_ContextType exporter \<noteq> []
                          then exporter\<lparr>ex_ContextType := ToUpper (ex_ContextType exporter)\<rparr> else exporter)
         in if ex_ContextType exporter \<noteq> [] \<and> \<not> valid_context_type (ex_ContextType exporter1)
            then (s, Some (InvalidContextType (ex_ContextType exporter1)))
            else (let (s', err) = Store_UpdateExporter now s exporter1 in (s', map_option ExporterStorage err))))"

text \<open>The three operations on the status read it, change it and write it back.\<close>

definition change_status ::
  "(ExporterStatusRecord \<Rightarrow> ExporterStatusRecord) \<Rightarrow> Store \<Rightarrow> string \<Rightarrow> Store \<times> storage_error option" where
  "change_status f s name =
     (case Store_GetExporter s name of
        Inl err \<Rightarrow> (s, Some err)
      | Inr _ \<Rightarrow>
          (let status = (case Store_GetExporterStatus s name of
                           Inl _ \<Rightarrow> ExporterStatusRecord_zero\<lparr>es_Name := name\<rparr> | Inr status \<Rightarrow> status)
           in Store_SetExporterStatus s name (f status)))"

definition Registry_PauseExporter ::
  "go_time \<Rightarrow> 'p Registry \<Rightarrow> Store \<Rightarrow> string \<Rightarrow> Store \<times> storage_error option" where
  [registry_defs]: "Registry_PauseExporter now r s name =
     change_status (\<lambda>status. status\<lparr>es_State := ''PAUSED'', es_Ts := UnixMilli now\<rparr>) s name"

definition Registry_ResumeExporter ::
  "go_time \<Rightarrow> 'p Registry \<Rightarrow> Store \<Rightarrow> string \<Rightarrow> Store \<times> storage_error option" where
  [registry_defs]: "Registry_ResumeExporter now r s name =
     change_status (\<lambda>status. status\<lparr>es_State := ''RUNNING'', es_Ts := UnixMilli now\<rparr>) s name"

definition Registry_ResetExporter ::
  "go_time \<Rightarrow> 'p Registry \<Rightarrow> Store \<Rightarrow> string \<Rightarrow> Store \<times> storage_error option" where
  [registry_defs]: "Registry_ResetExporter now r s name =
     change_status (\<lambda>status. status\<lparr>es_Offset := 0, es_Trace := [], es_Ts := UnixMilli now\<rparr>) s name"

section \<open>Properties\<close>

text \<open>What a key management service documents, for one key and its properties.\<close>

definition unwraps_generated :: "KmsProvider \<Rightarrow> KEKRecord \<Rightarrow> bool" where
  "unwraps_generated provider kek \<longleftrightarrow>
     (\<forall>algorithm plaintext wrapped.
        kp_GenerateDataKey provider (kek_KmsKeyID kek) algorithm (kek_KmsProps kek) = Inr (plaintext, wrapped) \<longrightarrow>
        kp_Unwrap provider (kek_KmsKeyID kek) wrapped (kek_KmsProps kek) = Inr plaintext)"

definition unwraps_wrapped :: "KmsProvider \<Rightarrow> KEKRecord \<Rightarrow> bool" where
  "unwraps_wrapped provider kek \<longleftrightarrow>
     (\<forall>plaintext wrapped.
        kp_Wrap provider (kek_KmsKeyID kek) plaintext (kek_KmsProps kek) = Inr wrapped \<longrightarrow>
        kp_Unwrap provider (kek_KmsKeyID kek) wrapped (kek_KmsProps kek) = Inr plaintext)"

text \<open>The plain key behind stored material.\<close>

definition unwrapped_key :: "KmsProvider \<Rightarrow> KEKRecord \<Rightarrow> DEKRecord \<Rightarrow> string option" where
  "unwrapped_key provider kek dek =
     (case b64_DecodeString (dek_EncryptedKeyMaterial dek) of
        None \<Rightarrow> None
      | Some ciphertext \<Rightarrow>
          (case kp_Unwrap provider (kek_KmsKeyID kek) ciphertext (kek_KmsProps kek) of
             Inl _ \<Rightarrow> None | Inr plaintext \<Rightarrow> Some plaintext))"

lemma CreateDEK_stored:
  assumes "Store_CreateDEK now s dek = (s', dek', None)"
  shows "dek_look s' (dek_KEKName dek) (dek_Subject dek) (dek_Version dek') [] = Some (dek'\<lparr>dek_KeyMaterial := []\<rparr>)"
    and "\<exists>v. dek' = dek\<lparr>dek_Version := v, dek_Ts := UnixMilli now\<rparr>"
  using assms
  by (auto simp: Store_CreateDEK_def Let_def dek_look_def dek_versions_put gm_laws dek_matches_def
      split: if_splits) (metis DEKRecord.surjective DEKRecord.update_convs(3))

text \<open>
  C34.  A key the service generates is not lost and not stored in the clear: when a data key is
  created without material under a shared key with a configured provider, the record stored has no
  plain material, and its encrypted material, decoded and unwrapped by the provider, is the plain key
  returned to the caller.
\<close>

theorem generated_key_recoverable:
  assumes "rg_kmsRegistry r = Some reg" "kms_Get reg (kek_KmsType kek) = Some provider"
    and "Store_GetKEK s (dek_KEKName dek) False = Inr kek" "kek_Shared kek" "unwraps_generated provider kek"
    and "dek_EncryptedKeyMaterial dek = []"
    and "Registry_CreateDEK now r s dek = (s', dek', None)"
  shows "\<exists>stored plaintext.
     dek_look s' (dek_KEKName dek) (dek_Subject dek) (dek_Version dek') [] = Some stored \<and>
     dek_KeyMaterial stored = [] \<and> unwrapped_key provider kek stored = Some plaintext \<and>
     dek_KeyMaterial dek' = b64_EncodeToString plaintext"
proof -
  define dek1 where "dek1 = (if dek_Algorithm dek = [] then dek\<lparr>dek_Algorithm := ''AES256_GCM''\<rparr> else dek)"
  obtain dek2 where gen: "generate_material r s dek1 = Inr dek2"
    and create: "Store_CreateDEK now s dek2 = (s', dek', None)"
    using assms(7) by (auto simp: Registry_CreateDEK_def Let_def dek1_def split: if_splits sum.splits prod.splits)
  have dek1: "dek_KEKName dek1 = dek_KEKName dek" "dek_Subject dek1 = dek_Subject dek" "dek_EncryptedKeyMaterial dek1 = []"
    using assms(6) by (simp_all add: dek1_def)
  obtain plaintext wrapped where key:
    "kp_GenerateDataKey provider (kek_KmsKeyID kek) (dek_Algorithm dek1) (kek_KmsProps kek) = Inr (plaintext, wrapped)"
    "dek2 = dek1\<lparr>dek_EncryptedKeyMaterial := b64_EncodeToString wrapped, dek_KeyMaterial := b64_EncodeToString plaintext\<rparr>"
    using gen assms(1-4) dek1 by (auto simp: generate_material_def split: sum.splits)
  obtain v where dek': "dek' = dek2\<lparr>dek_Version := v, dek_Ts := UnixMilli now\<rparr>"
    using CreateDEK_stored(2) [OF create] by blast
  have "unwrapped_key provider kek (dek'\<lparr>dek_KeyMaterial := []\<rparr>) = Some plaintext"
    using assms(5) key by (simp add: unwrapped_key_def unwraps_generated_def dek' b64_string_roundtrip)
  then show ?thesis
    using CreateDEK_stored(1) [OF create] dek1 key(2) dek' by auto
qed

text \<open>
  Rewrapping keeps the key: after a rewrap the stored material, decoded and unwrapped, is the
  plain key it was before; plain material is neither stored nor returned; and a rewrap that fails
  leaves the store as it was.
\<close>

lemma rewrap_preserves_key:
  assumes "key_reach s" "rg_kmsRegistry r = Some reg" "Store_GetKEK s kekName False = Inr kek"
    and "kms_Get reg (kek_KmsType kek) = Some provider" "unwraps_wrapped provider kek"
    and "Registry_RewrapDEK now r s kekName subject version algorithm = (s', res)"
  shows "case res of
      Inl _ \<Rightarrow> s' = s
    | Inr dek' \<Rightarrow>
        \<exists>old new plaintext. dek_look s kekName subject (dek_Version dek') [] = Some old \<and>
          dek_look s' kekName subject (dek_Version dek') [] = Some new \<and>
          unwrapped_key provider kek old = Some plaintext \<and> unwrapped_key provider kek new = Some plaintext \<and>
          dek_KeyMaterial new = [] \<and> dek_KeyMaterial dek' = []"
proof (cases "Store_GetDEK s kekName subject version algorithm False")
  case (Inl err)
  with assms show ?thesis by (auto simp: Registry_RewrapDEK_def)
next
  case (Inr dek)
  obtain versions v where v: "dek_versions s kekName subject = Some versions" "gm_get versions v = Some dek"
    using Inr by (auto simp: Store_GetDEK_def Let_def split: option.splits if_splits)
  have filed: "dek_KeyMaterial dek = []" "dek_KEKName dek = kekName" "dek_Subject dek = subject" "dek_Version dek = v"
    using keys_inv_dek [OF key_reach_inv [OF assms(1)] v] by auto
  have old: "dek_look s kekName subject v [] = Some dek" using v by (simp add: dek_look_def dek_matches_def)
  show ?thesis
  proof (cases res)
    case err: (Inl e)
    with assms(2-4,6) Inr v filed show ?thesis
      by (auto simp: Registry_RewrapDEK_def Let_def Store_UpdateDEK_def split: if_splits option.splits sum.splits prod.splits)
  next
    case ok: (Inr dek')
    then obtain ciphertext plaintext wrapped where key:
      "b64_DecodeString (dek_EncryptedKeyMaterial dek) = Some ciphertext"
      "kp_Unwrap provider (kek_KmsKeyID kek) ciphertext (kek_KmsProps kek) = Inr plaintext"
      "kp_Wrap provider (kek_KmsKeyID kek) plaintext (kek_KmsProps kek) = Inr wrapped"
      "dek' = dek\<lparr>dek_EncryptedKeyMaterial := b64_EncodeToString wrapped, dek_Ts := UnixMilli now\<rparr>"
      "Store_UpdateDEK s dek' = (s', None)"
      using assms(2-4,6) Inr
      by (auto simp: Registry_RewrapDEK_def Let_def split: if_splits option.splits sum.splits prod.splits)
    have new: "dek_look s' kekName subject v [] = Some dek'"
      using key(4,5) v filed by (auto simp: Store_UpdateDEK_def dek_look_def dek_versions_put gm_laws dek_matches_def)
    show ?thesis
      using ok old new key(1-4) filed assms(5)
      by (auto simp: unwrapped_key_def unwraps_wrapped_def b64_string_roundtrip)
  qed
qed

text \<open>A provider for the witnesses: wrapping puts a mark before the key.\<close>

definition sample_provider :: KmsProvider where
  "sample_provider =
     \<lparr>kp_Wrap = (\<lambda>_ plaintext _. Inr (CHR 0x01 # plaintext)),
      kp_Unwrap = (\<lambda>_ wrapped _. case wrapped of [] \<Rightarrow> Inl ''empty'' | _ # plaintext \<Rightarrow> Inr plaintext),
      kp_GenerateDataKey = (\<lambda>_ _ _. Inr ([CHR 0x02], [CHR 0x01, CHR 0x02]))\<rparr>"

definition key_registry :: "unit Registry" where
  "key_registry =
     \<lparr>rg_schemaParser = gm_empty,
      rg_parsed = \<lparr>ps_CanonicalString = (\<lambda>_. []), ps_Fingerprint = (\<lambda>_. []), ps_FormattedString = (\<lambda>_ _. []),
                   ps_Normalize = (\<lambda>p. p), ps_HasTopLevelField = (\<lambda>_ _. False)\<rparr>,
      rg_sha256 = (\<lambda>x. x), rg_compatChecker = NewChecker, rg_defaultConfig = [],
      rg_kmsRegistry = Some (gm_put ''local-kms'' sample_provider gm_empty)\<rparr>"

definition kek_store :: Store where
  "kek_store = fst (Store_CreateKEK 1 NewStore sample_kek)"

definition created_dek :: "Store \<times> DEKRecord \<times> key_error option" where
  "created_dek = Registry_CreateDEK 2 key_registry kek_store (sample_dek\<lparr>dek_EncryptedKeyMaterial := []\<rparr>)"

definition stored_kek :: KEKRecord where
  "stored_kek = copyKEK (copyKEK (sample_kek\<lparr>kek_Ts := UnixMilli 1, kek_CreatedAt := 1, kek_UpdatedAt := 1\<rparr>))"

lemma kek_store_get: "Store_GetKEK kek_store ''kek'' False = Inr stored_kek"
  by (simp add: kek_store_def Store_CreateKEK_def Store_GetKEK_def NewStore_def gm_laws stored_kek_def Let_def)
    (simp add: sample_kek_def copyKEK_def)

lemma sample_provider_laws: "unwraps_generated sample_provider k" "unwraps_wrapped sample_provider k"
  by (auto simp: unwraps_generated_def unwraps_wrapped_def sample_provider_def)

lemma sample_provider_wraps:
  "kp_Wrap sample_provider key plaintext props = Inr (CHR 0x01 # plaintext)"
  "kp_Unwrap sample_provider key (c # plaintext) props = Inr plaintext"
  by (simp_all add: sample_provider_def)

lemma sample_kms_get: "rg_kmsRegistry key_registry = Some (gm_put ''local-kms'' sample_provider gm_empty)"
  "kms_Get (gm_put ''local-kms'' sample_provider gm_empty) (kek_KmsType stored_kek) = Some sample_provider"
  by (simp_all add: key_registry_def kms_Get_def gm_laws stored_kek_def copyKEK_def sample_kek_def)

lemma sample_generated:
  "generate_material key_registry kek_store (sample_dek\<lparr>dek_EncryptedKeyMaterial := []\<rparr>) =
     Inr (sample_dek\<lparr>dek_EncryptedKeyMaterial := b64_EncodeToString [CHR 0x01, CHR 0x02],
                      dek_KeyMaterial := b64_EncodeToString [CHR 0x02]\<rparr>)"
  using kek_store_get sample_kms_get
  by (simp add: generate_material_def sample_dek_def) (simp add: stored_kek_def copyKEK_def sample_kek_def sample_provider_def)

definition generated_dek :: DEKRecord where
  "generated_dek = sample_dek\<lparr>dek_EncryptedKeyMaterial := b64_EncodeToString [CHR 0x01, CHR 0x02],
                               dek_KeyMaterial := b64_EncodeToString [CHR 0x02]\<rparr>"

lemma sample_dek_fields:
  "dek_KEKName sample_dek = ''kek''" "dek_Subject sample_dek = ''orders''" "dek_Algorithm sample_dek = ''AES256_GCM''"
  "TrimSpace ''kek'' \<noteq> []" "TrimSpace ''orders'' \<noteq> []" "''AES256_GCM'' \<in> set validAlgorithms"
  by (simp_all add: sample_dek_def validAlgorithms_def) code_simp+

lemma created_dek_eq:
  "created_dek = (case Store_CreateDEK 2 kek_store generated_dek of (s', dek, err) \<Rightarrow> (s', dek, map_option KeyStorage err))"
  by (simp add: created_dek_def Registry_CreateDEK_def sample_generated sample_dek_fields generated_dek_def)

lemmas generated_eval = generated_dek_def kek_store_def key_eval

lemma created_dek_ok: "Registry_CreateDEK 2 key_registry kek_store (sample_dek\<lparr>dek_EncryptedKeyMaterial := []\<rparr>) =
    (fst created_dek, fst (snd created_dek), None)"
proof -
  have "snd (snd created_dek) = None"
    by (simp add: created_dek_eq generated_eval)
  then show ?thesis by (simp add: created_dek_def prod_eq_iff)
qed

theorem generated_key_recoverable_witness:
  "\<exists>stored plaintext. dek_look (fst created_dek) ''kek'' ''orders'' (dek_Version (fst (snd created_dek))) [] = Some stored \<and>
     dek_KeyMaterial stored = [] \<and> unwrapped_key sample_provider stored_kek stored = Some plaintext"
  using generated_key_recoverable [OF sample_kms_get _ _ sample_provider_laws(1) _ created_dek_ok] kek_store_get
  by (simp add: sample_dek_def) (auto simp: stored_kek_def copyKEK_def sample_kek_def)

definition rewrapped_dek :: "Store \<times> (key_error + DEKRecord)" where
  "rewrapped_dek = Registry_RewrapDEK 3 key_registry (fst created_dek) ''kek'' ''orders'' 1 []"

lemma rewrap_preserves_key_witness:
  "\<exists>dek' new plaintext. snd rewrapped_dek = Inr dek' \<and>
     dek_look (fst rewrapped_dek) ''kek'' ''orders'' (dek_Version dek') [] = Some new \<and>
     unwrapped_key sample_provider stored_kek new = Some plaintext"
proof -
  have store: "fst created_dek = fst (Store_CreateDEK 2 kek_store
      (case generate_material key_registry kek_store (sample_dek\<lparr>dek_EncryptedKeyMaterial := []\<rparr>) of Inl _ \<Rightarrow> sample_dek | Inr d \<Rightarrow> d))"
    (is "_ = fst (Store_CreateDEK 2 kek_store ?d)")
    by (simp add: created_dek_eq sample_generated generated_dek_def split: prod.split)
  have reach: "key_reach (fst created_dek)"
    unfolding store kek_store_def
    by (rule keys_step [OF keys_step [OF keys_new create_kek] create_dek]) (auto simp: prod_eq_iff)
  have kek: "Store_GetKEK (fst created_dek) ''kek'' False = Inr stored_kek"
    using kek_store_get unfolding store Store_GetKEK_def
    by (simp add: Store_CreateDEK_def Let_def put_dek_versions_def)
  have "Store_GetDEK (fst created_dek) ''kek'' ''orders'' 1 [] False =
      Inr (generated_dek\<lparr>dek_Version := 1, dek_Ts := UnixMilli 2, dek_KeyMaterial := []\<rparr>)"
    by (simp add: created_dek_eq generated_eval)
  moreover have "dek_EncryptedKeyMaterial generated_dek = b64_EncodeToString [CHR 0x01, CHR 0x02]"
    "dek_EncryptedKeyMaterial generated_dek \<noteq> []"
    by (simp_all add: generated_dek_def b64_EncodeToString_def)
  moreover have "snd (Store_UpdateDEK (fst created_dek) d) = None"
    if "dek_KEKName d = ''kek''" "dek_Subject d = ''orders''" "dek_Version d = 1" for d
    using that by (simp add: created_dek_eq generated_eval Store_UpdateDEK_def)
  moreover have "dek_KEKName generated_dek = ''kek''" "dek_Subject generated_dek = ''orders''"
    by (simp_all add: generated_dek_def sample_dek_fields)
  ultimately have "\<not> isl (snd rewrapped_dek)"
    using kek sample_kms_get sample_provider_wraps
    by (simp add: rewrapped_dek_def Registry_RewrapDEK_def b64_string_roundtrip case_prod_beta Let_def)
  then obtain dek' where ok: "Registry_RewrapDEK 3 key_registry (fst created_dek) ''kek'' ''orders'' 1 [] =
      (fst rewrapped_dek, Inr dek')" "snd rewrapped_dek = Inr dek'"
    by (cases "snd rewrapped_dek") (auto simp: rewrapped_dek_def prod_eq_iff)
  from rewrap_preserves_key [OF reach sample_kms_get(1) kek sample_kms_get(2) sample_provider_laws(2) ok(1)] ok(2)
  show ?thesis by auto
qed

end
