(* ===== verification/Access_Control.thy ===== *)
theory Access_Control
  imports Go_Map
begin

text \<open>
  Who may do what: roles, permissions and the endpoint table of \<open>internal/auth/rbac.go\<close>, the routes
  the server mounts (\<open>internal/api/server.go\<close>, \<open>mountRegistryRoutes\<close>), and the scopes of the MCP
  tools (\<open>internal/mcp/permissions.go\<close>, \<open>isToolAllowed\<close> of \<open>tools.go\<close>).  A middleware either passes
  the request on or answers with an HTTP error.
\<close>

section \<open>Roles and permissions\<close>

type_synonym Role = string
type_synonym Permission = string

definition RoleSuperAdmin :: Role where "RoleSuperAdmin = ''super_admin''"
definition RoleAdmin :: Role where "RoleAdmin = ''admin''"
definition RoleDeveloper :: Role where "RoleDeveloper = ''developer''"
definition RoleReadOnly :: Role where "RoleReadOnly = ''readonly''"

definition PermissionSchemaRead :: Permission where "PermissionSchemaRead = ''schema:read''"
definition PermissionSchemaWrite :: Permission where "PermissionSchemaWrite = ''schema:write''"
definition PermissionSchemaDelete :: Permission where "PermissionSchemaDelete = ''schema:delete''"
definition PermissionConfigRead :: Permission where "PermissionConfigRead = ''config:read''"
definition PermissionConfigWrite :: Permission where "PermissionConfigWrite = ''config:write''"
definition PermissionModeRead :: Permission where "PermissionModeRead = ''mode:read''"
definition PermissionModeWrite :: Permission where "PermissionModeWrite = ''mode:write''"
definition PermissionImport :: Permission where "PermissionImport = ''import:write''"
definition PermissionEncryptionRead :: Permission where "PermissionEncryptionRead = ''encryption:read''"
definition PermissionEncryptionWrite :: Permission where "PermissionEncryptionWrite = ''encryption:write''"
definition PermissionExporterRead :: Permission where "PermissionExporterRead = ''exporter:read''"
definition PermissionExporterWrite :: Permission where "PermissionExporterWrite = ''exporter:write''"
definition PermissionAdminRead :: Permission where "PermissionAdminRead = ''admin:read''"
definition PermissionAdminWrite :: Permission where "PermissionAdminWrite = ''admin:write''"

lemmas role_names = RoleSuperAdmin_def RoleAdmin_def RoleDeveloper_def RoleReadOnly_def
lemmas permission_names = PermissionSchemaRead_def PermissionSchemaWrite_def PermissionSchemaDelete_def PermissionConfigRead_def PermissionConfigWrite_def PermissionModeRead_def PermissionModeWrite_def PermissionImport_def PermissionEncryptionRead_def PermissionEncryptionWrite_def PermissionExporterRead_def PermissionExporterWrite_def PermissionAdminRead_def PermissionAdminWrite_def

definition rolePermissions :: "(Role, Permission list) gomap" where
  "rolePermissions = gm_of_list
     [(RoleSuperAdmin,
       [PermissionSchemaRead, PermissionSchemaWrite, PermissionSchemaDelete, PermissionConfigRead,
        PermissionConfigWrite, PermissionModeRead, PermissionModeWrite, PermissionImport,
        PermissionAdminRead, PermissionAdminWrite, PermissionEncryptionRead, PermissionEncryptionWrite,
        PermissionExporterRead, PermissionExporterWrite]),
      (RoleAdmin,
       [PermissionSchemaRead, PermissionSchemaWrite, PermissionSchemaDelete, PermissionConfigRead,
        PermissionConfigWrite, PermissionModeRead, PermissionModeWrite, PermissionImport,
        PermissionAdminRead, PermissionEncryptionRead, PermissionEncryptionWrite, PermissionExporterRead,
        PermissionExporterWrite]),
      (RoleDeveloper,
       [PermissionSchemaRead, PermissionSchemaWrite, PermissionConfigRead, PermissionModeRead,
        PermissionEncryptionRead, PermissionExporterRead]),
      (RoleReadOnly,
       [PermissionSchemaRead, PermissionConfigRead, PermissionModeRead, PermissionEncryptionRead,
        PermissionExporterRead])]"

record RBACConfig =
  rc_Enabled :: bool
  rc_DefaultRole :: string
  rc_SuperAdmins :: "string list"

record User =
  au_ID :: int
  au_Username :: string
  au_Role :: string
  au_Method :: string

record Authorizer =
  az_config :: RBACConfig
  az_superAdmins :: "string list"

definition NewAuthorizer :: "RBACConfig \<Rightarrow> Authorizer" where
  "NewAuthorizer cfg = \<lparr>az_config = cfg, az_superAdmins = remdups (rc_SuperAdmins cfg)\<rparr>"

definition Authorizer_IsSuperAdmin :: "Authorizer \<Rightarrow> string \<Rightarrow> bool" where
  "Authorizer_IsSuperAdmin a username \<longleftrightarrow> username \<in> set (az_superAdmins a)"

definition GetRolePermissions :: "Role \<Rightarrow> Permission list" where
  "GetRolePermissions role = gm_get0 [] rolePermissions role"

definition ValidRole :: "string \<Rightarrow> bool" where
  "ValidRole role \<longleftrightarrow> role \<in> {RoleSuperAdmin, RoleAdmin, RoleDeveloper, RoleReadOnly}"

definition effective_role :: "Authorizer \<Rightarrow> User \<Rightarrow> Role" where
  "effective_role a user = (if au_Role user = [] then rc_DefaultRole (az_config a) else au_Role user)"

definition Authorizer_HasPermission :: "Authorizer \<Rightarrow> User option \<Rightarrow> Permission \<Rightarrow> bool" where
  "Authorizer_HasPermission a user perm =
     (case user of
        None \<Rightarrow> False
      | Some user \<Rightarrow>
          if au_Username user \<in> set (az_superAdmins a) then True
          else case gm_get rolePermissions (effective_role a user) of
                 None \<Rightarrow> False
               | Some perms \<Rightarrow> list_ex (\<lambda>p. p = perm) perms)"

section \<open>Endpoints\<close>

datatype pass = Next | Refuse nat string

definition Unauthorized :: pass where "Unauthorized = Refuse 401 ''Unauthorized''"
definition Forbidden :: pass where "Forbidden = Refuse 403 ''Forbidden''"

definition Authorizer_RequirePermission :: "Authorizer \<Rightarrow> Permission \<Rightarrow> User option \<Rightarrow> pass" where
  "Authorizer_RequirePermission a perm user =
     (if \<not> rc_Enabled (az_config a) then Next
      else if user = None then Unauthorized
      else if \<not> Authorizer_HasPermission a user perm then Forbidden
      else Next)"

record EndpointPermission =
  ep_Method :: string
  ep_PathPrefix :: string
  ep_Permission :: Permission

definition endpoint :: "string \<times> string \<times> Permission \<Rightarrow> EndpointPermission" where
  "endpoint = (\<lambda>(m, p, perm). \<lparr>ep_Method = m, ep_PathPrefix = p, ep_Permission = perm\<rparr>)"

definition DefaultEndpointPermissions :: "EndpointPermission list" where
  "DefaultEndpointPermissions = map endpoint
     [(''GET'', ''/subjects'', PermissionSchemaRead),
      (''GET'', ''/schemas'', PermissionSchemaRead),
      (''POST'', ''/schemas'', PermissionSchemaRead),
      (''POST'', ''/subjects/validate'', PermissionSchemaRead),
      (''POST'', ''/subjects/match'', PermissionSchemaRead),
      (''POST'', ''/subjects'', PermissionSchemaWrite),
      (''POST'', ''/compatibility'', PermissionSchemaRead),
      (''DELETE'', ''/subjects'', PermissionSchemaDelete),
      (''GET'', ''/config'', PermissionConfigRead),
      (''PUT'', ''/config'', PermissionConfigWrite),
      (''DELETE'', ''/config'', PermissionConfigWrite),
      (''GET'', ''/mode'', PermissionModeRead),
      (''PUT'', ''/mode'', PermissionModeWrite),
      (''POST'', ''/import'', PermissionImport),
      (''GET'', ''/dek-registry'', PermissionEncryptionRead),
      (''POST'', ''/dek-registry'', PermissionEncryptionWrite),
      (''PUT'', ''/dek-registry'', PermissionEncryptionWrite),
      (''DELETE'', ''/dek-registry'', PermissionEncryptionWrite),
      (''GET'', ''/exporters'', PermissionExporterRead),
      (''POST'', ''/exporters'', PermissionExporterWrite),
      (''PUT'', ''/exporters'', PermissionExporterWrite),
      (''DELETE'', ''/exporters'', PermissionExporterWrite),
      (''DELETE'', ''/mode'', PermissionModeWrite),
      (''GET'', ''/admin'', PermissionAdminRead),
      (''POST'', ''/admin'', PermissionAdminWrite),
      (''PUT'', ''/admin'', PermissionAdminWrite),
      (''DELETE'', ''/admin'', PermissionAdminWrite),
      (''GET'', ''/me'', PermissionSchemaRead),
      (''POST'', ''/me'', PermissionSchemaRead),
      (''GET'', ''/contexts'', PermissionSchemaRead),
      (''GET'', ''/v1/metadata'', PermissionSchemaRead),
      (''GET'', ''/statistics'', PermissionSchemaRead)]"

definition normalizePathForRBAC :: "string \<Rightarrow> string" where
  "normalizePathForRBAC path =
     (let prefix = ''/contexts/''
      in if HasPrefix path prefix
         then (let rest = drop (length prefix) path
               in case IndexByte rest (CHR ''/'') of Some idx \<Rightarrow> drop idx rest | None \<Rightarrow> ''/'')
         else path)"

definition endpoint_matches :: "string \<Rightarrow> string \<Rightarrow> EndpointPermission \<Rightarrow> bool" where
  "endpoint_matches method path ep \<longleftrightarrow> method = ep_Method ep \<and> HasPrefix path (ep_PathPrefix ep)"

definition AuthorizeEndpoint ::
  "Authorizer \<Rightarrow> EndpointPermission list \<Rightarrow> User option \<Rightarrow> string \<Rightarrow> string \<Rightarrow> pass" where
  "AuthorizeEndpoint a permissions user method path =
     (if \<not> rc_Enabled (az_config a) then Next
      else case List.find (endpoint_matches method (normalizePathForRBAC path)) permissions of
             Some ep \<Rightarrow>
               if user = None then Unauthorized
               else if \<not> Authorizer_HasPermission a user (ep_Permission ep) then Forbidden
               else Next
           | None \<Rightarrow> if user \<noteq> None then Forbidden else Next)"

text \<open>The routes of the registry, as \<open>chi\<close> patterns; each is mounted at the root and below a context.\<close>

definition mountRegistryRoutes :: "(string \<times> string \<times> string) list" where
  "mountRegistryRoutes =
     [(''GET'', ''/schemas/types'', ''GetSchemaTypes''),
      (''GET'', ''/schemas'', ''ListSchemas''),
      (''GET'', ''/schemas/ids/{id}'', ''GetSchemaByID''),
      (''GET'', ''/schemas/ids/{id}/schema'', ''GetRawSchemaByID''),
      (''GET'', ''/schemas/ids/{id}/subjects'', ''GetSubjectsBySchemaID''),
      (''GET'', ''/schemas/ids/{id}/versions'', ''GetVersionsBySchemaID''),
      (''GET'', ''/subjects'', ''ListSubjects''),
      (''GET'', ''/subjects/{subject}/versions'', ''GetVersions''),
      (''GET'', ''/subjects/{subject}/versions/{version}'', ''GetVersion''),
      (''GET'', ''/subjects/{subject}/versions/{version}/schema'', ''GetRawSchemaByVersion''),
      (''GET'', ''/subjects/{subject}/versions/{version}/referencedby'', ''GetReferencedBy''),
      (''POST'', ''/subjects/{subject}/versions'', ''RegisterSchema''),
      (''POST'', ''/subjects/{subject}'', ''LookupSchema''),
      (''DELETE'', ''/subjects/{subject}'', ''DeleteSubject''),
      (''DELETE'', ''/subjects/{subject}/versions/{version}'', ''DeleteVersion''),
      (''GET'', ''/subjects/{subject}/metadata'', ''GetSubjectMetadata''),
      (''GET'', ''/config'', ''GetConfig''),
      (''PUT'', ''/config'', ''SetConfig''),
      (''DELETE'', ''/config'', ''DeleteGlobalConfig''),
      (''GET'', ''/config/{subject}'', ''GetConfig''),
      (''PUT'', ''/config/{subject}'', ''SetConfig''),
      (''DELETE'', ''/config/{subject}'', ''DeleteConfig''),
      (''GET'', ''/mode'', ''GetMode''),
      (''PUT'', ''/mode'', ''SetMode''),
      (''DELETE'', ''/mode'', ''DeleteGlobalMode''),
      (''GET'', ''/mode/{subject}'', ''GetMode''),
      (''PUT'', ''/mode/{subject}'', ''SetMode''),
      (''DELETE'', ''/mode/{subject}'', ''DeleteMode''),
      (''POST'', ''/import/schemas'', ''ImportSchemas''),
      (''POST'', ''/compatibility/subjects/{subject}/versions/{version}'', ''CheckCompatibility''),
      (''POST'', ''/compatibility/subjects/{subject}/versions'', ''CheckCompatibility''),
      (''GET'', ''/contexts'', ''GetContexts''),
      (''GET'', ''/exporters'', ''ListExporters''),
      (''POST'', ''/exporters'', ''CreateExporter''),
      (''GET'', ''/exporters/{name}'', ''GetExporter''),
      (''PUT'', ''/exporters/{name}'', ''UpdateExporter''),
      (''DELETE'', ''/exporters/{name}'', ''DeleteExporter''),
      (''PUT'', ''/exporters/{name}/pause'', ''PauseExporter''),
      (''PUT'', ''/exporters/{name}/resume'', ''ResumeExporter''),
      (''PUT'', ''/exporters/{name}/reset'', ''ResetExporter''),
      (''GET'', ''/exporters/{name}/status'', ''GetExporterStatus''),
      (''GET'', ''/exporters/{name}/config'', ''GetExporterConfig''),
      (''PUT'', ''/exporters/{name}/config'', ''UpdateExporterConfig''),
      (''GET'', ''/v1/metadata/id'', ''GetClusterID''),
      (''GET'', ''/v1/metadata/version'', ''GetServerVersion''),
      (''POST'', ''/schemas/validate'', ''ValidateSchema''),
      (''POST'', ''/schemas/normalize'', ''NormalizeSchema''),
      (''POST'', ''/schemas/search'', ''SearchSchemas''),
      (''POST'', ''/schemas/search/field'', ''FindSchemasByField''),
      (''POST'', ''/schemas/search/type'', ''FindSchemasByType''),
      (''POST'', ''/schemas/similar'', ''FindSimilarSchemas''),
      (''POST'', ''/schemas/quality'', ''ScoreSchemaQuality''),
      (''POST'', ''/schemas/complexity'', ''GetSchemaComplexity''),
      (''POST'', ''/subjects/validate'', ''ValidateSubjectName''),
      (''POST'', ''/subjects/match'', ''MatchSubjects''),
      (''GET'', ''/subjects/count'', ''CountSubjects''),
      (''GET'', ''/subjects/{subject}/history'', ''GetSchemaHistory''),
      (''GET'', ''/subjects/{subject}/versions/{version}/dependencies'', ''GetDependencyGraph''),
      (''GET'', ''/subjects/{subject}/versions/{version}/export'', ''ExportSchema''),
      (''POST'', ''/subjects/{subject}/diff'', ''DiffSchemas''),
      (''POST'', ''/subjects/{subject}/evolve'', ''SuggestSchemaEvolution''),
      (''POST'', ''/subjects/{subject}/migrate'', ''PlanMigrationPath''),
      (''GET'', ''/subjects/{subject}/export'', ''ExportSubject''),
      (''GET'', ''/subjects/{subject}/versions/count'', ''CountVersions''),
      (''POST'', ''/compatibility/check'', ''CheckCompatibilityMulti''),
      (''POST'', ''/compatibility/subjects/{subject}/suggest'', ''SuggestCompatibleChange''),
      (''POST'', ''/compatibility/subjects/{subject}/explain'', ''ExplainCompatibilityFailure''),
      (''POST'', ''/compatibility/compare'', ''CompareSubjects''),
      (''GET'', ''/statistics'', ''GetRegistryStatistics''),
      (''GET'', ''/statistics/fields/{field}'', ''CheckFieldConsistency''),
      (''GET'', ''/statistics/patterns'', ''DetectSchemaPatterns'')]"

section \<open>Scopes of the MCP tools\<close>

type_synonym scope = string

definition ScopeSchemaRead :: scope where "ScopeSchemaRead = ''schema_read''"
definition ScopeSchemaWrite :: scope where "ScopeSchemaWrite = ''schema_write''"
definition ScopeSchemaDelete :: scope where "ScopeSchemaDelete = ''schema_delete''"
definition ScopeConfigRead :: scope where "ScopeConfigRead = ''config_read''"
definition ScopeConfigWrite :: scope where "ScopeConfigWrite = ''config_write''"
definition ScopeModeRead :: scope where "ScopeModeRead = ''mode_read''"
definition ScopeModeWrite :: scope where "ScopeModeWrite = ''mode_write''"
definition ScopeImport :: scope where "ScopeImport = ''import''"
definition ScopeEncryptionRead :: scope where "ScopeEncryptionRead = ''encryption_read''"
definition ScopeEncryptionWrite :: scope where "ScopeEncryptionWrite = ''encryption_write''"
definition ScopeExporterRead :: scope where "ScopeExporterRead = ''exporter_read''"
definition ScopeExporterWrite :: scope where "ScopeExporterWrite = ''exporter_write''"
definition ScopeAdminRead :: scope where "ScopeAdminRead = ''admin_read''"
definition ScopeAdminWrite :: scope where "ScopeAdminWrite = ''admin_write''"

lemmas scope_names = ScopeSchemaRead_def ScopeSchemaWrite_def ScopeSchemaDelete_def ScopeConfigRead_def ScopeConfigWrite_def ScopeModeRead_def ScopeModeWrite_def ScopeImport_def ScopeEncryptionRead_def ScopeEncryptionWrite_def ScopeExporterRead_def ScopeExporterWrite_def ScopeAdminRead_def ScopeAdminWrite_def

definition allScopes :: "scope list" where
  "allScopes =
     [ScopeSchemaRead, ScopeSchemaWrite, ScopeSchemaDelete, ScopeConfigRead,
      ScopeConfigWrite, ScopeModeRead, ScopeModeWrite, ScopeImport, ScopeEncryptionRead,
      ScopeEncryptionWrite, ScopeExporterRead, ScopeExporterWrite, ScopeAdminRead, ScopeAdminWrite]"

definition permissionPresets :: "(string, scope list option) gomap" where
  "permissionPresets = gm_of_list
     [(''readonly'', Some
        [ScopeSchemaRead, ScopeConfigRead, ScopeModeRead, ScopeEncryptionRead, ScopeExporterRead]),
      (''developer'', Some
        [ScopeSchemaRead, ScopeConfigRead, ScopeModeRead, ScopeEncryptionRead, ScopeExporterRead,
         ScopeSchemaWrite, ScopeConfigWrite]),
      (''operator'', Some
        [ScopeSchemaRead, ScopeConfigRead, ScopeModeRead, ScopeEncryptionRead, ScopeExporterRead,
         ScopeSchemaWrite, ScopeConfigWrite, ScopeSchemaDelete, ScopeModeWrite, ScopeEncryptionWrite,
         ScopeExporterWrite, ScopeImport]),
      (''admin'', Some
        [ScopeSchemaRead, ScopeConfigRead, ScopeModeRead, ScopeEncryptionRead, ScopeExporterRead,
         ScopeSchemaWrite, ScopeConfigWrite, ScopeSchemaDelete, ScopeModeWrite, ScopeEncryptionWrite,
         ScopeExporterWrite, ScopeImport, ScopeAdminRead, ScopeAdminWrite]),
      (''full'', None)]"

definition scoped :: "scope \<Rightarrow> string list \<Rightarrow> (string \<times> scope) list" where
  "scoped scope tools = map (\<lambda>t. (t, scope)) tools"

definition toolPermissionScope :: "(string \<times> scope) list" where
  "toolPermissionScope =
     scoped []
       [''health_check'', ''get_server_info'', ''get_server_version'', ''get_cluster_id'',
        ''get_schema_types'', ''list_contexts'', ''count_subjects'', ''get_registry_statistics'',
        ''get_metrics_summary'', ''get_metrics_by_category'', ''query_metric'', ''list_metrics''] @
     scoped ScopeSchemaRead
       [''get_schema_by_id'', ''get_raw_schema_by_id'', ''get_schema_version'', ''get_raw_schema_version'',
        ''get_latest_schema'', ''list_versions'', ''get_subjects_for_schema'', ''get_versions_for_schema'',
        ''get_referenced_by'', ''lookup_schema'', ''list_schemas'', ''get_max_schema_id'',
        ''list_subjects'', ''get_schemas_by_subject'', ''get_schema_history'', ''get_dependency_graph'',
        ''export_schema'', ''export_subject'', ''count_versions'', ''search_schemas'',
        ''match_subjects'', ''format_schema'', ''resolve_alias'', ''get_subject_metadata'',
        ''validate_schema'', ''normalize_schema'', ''validate_subject_name'', ''check_compatibility'',
        ''find_schemas_by_field'', ''find_schemas_by_type'', ''find_similar_schemas'', ''score_schema_quality'',
        ''check_field_consistency'', ''get_schema_complexity'', ''detect_schema_patterns'', ''suggest_schema_evolution'',
        ''plan_migration_path'', ''check_compatibility_multi'', ''diff_schemas'', ''compare_subjects'',
        ''suggest_compatible_change'', ''explain_compatibility_failure''] @
     scoped ScopeSchemaWrite
       [''register_schema''] @
     scoped ScopeSchemaDelete
       [''delete_subject'', ''delete_version''] @
     scoped ScopeConfigRead
       [''get_config'', ''get_config_full'', ''get_subject_config_full'', ''get_global_config_direct''] @
     scoped ScopeConfigWrite
       [''set_config'', ''set_config_full'', ''delete_config''] @
     scoped ScopeModeRead
       [''get_mode'', ''check_write_mode''] @
     scoped ScopeModeWrite
       [''set_mode'', ''delete_mode''] @
     scoped ScopeImport
       [''import_schemas''] @
     scoped ScopeEncryptionRead
       [''get_kek'', ''list_keks'', ''get_dek'', ''list_deks'',
        ''list_dek_versions''] @
     scoped ScopeEncryptionWrite
       [''create_kek'', ''update_kek'', ''delete_kek'', ''undelete_kek'',
        ''test_kek'', ''create_dek'', ''delete_dek'', ''undelete_dek'',
        ''rewrap_dek''] @
     scoped ScopeExporterRead
       [''list_exporters'', ''get_exporter'', ''get_exporter_status'', ''get_exporter_config''] @
     scoped ScopeExporterWrite
       [''create_exporter'', ''update_exporter'', ''delete_exporter'', ''pause_exporter'',
        ''resume_exporter'', ''reset_exporter'', ''update_exporter_config''] @
     scoped ScopeAdminRead
       [''list_users'', ''get_user'', ''get_user_by_username'', ''list_apikeys'',
        ''get_apikey'', ''list_roles''] @
     scoped ScopeAdminWrite
       [''create_user'', ''update_user'', ''delete_user'', ''change_password'',
        ''create_apikey'', ''update_apikey'', ''delete_apikey'', ''revoke_apikey'',
        ''rotate_apikey'']"

text \<open>The resolved scopes: \<open>None\<close> is nil, scopes not configured.\<close>

definition resolvePermissionScopes :: "string \<Rightarrow> scope list \<Rightarrow> bool \<Rightarrow> scope list option" where
  "resolvePermissionScopes preset scopes readOnly =
     (case (if preset \<noteq> [] then gm_get permissionPresets preset else None) of
        Some None \<Rightarrow> Some allScopes
      | Some (Some presetScopes) \<Rightarrow> Some presetScopes
      | None \<Rightarrow>
          if scopes \<noteq> [] then Some scopes
          else if readOnly then gm_get0 None permissionPresets ''readonly''
          else None)"

definition isScopeAllowed :: "string \<Rightarrow> scope list option \<Rightarrow> bool" where
  "isScopeAllowed toolName resolvedScopes =
     (case map_of toolPermissionScope toolName of
        None \<Rightarrow> True
      | Some scope \<Rightarrow>
          if scope = [] then True
          else case resolvedScopes of None \<Rightarrow> True | Some scopes \<Rightarrow> scope \<in> set scopes)"

record MCPConfig =
  mc_ReadOnly :: bool
  mc_ToolPolicy :: string
  mc_AllowedTools :: "string list"
  mc_DeniedTools :: "string list"
  mc_PermissionPreset :: string
  mc_PermissionScopes :: "string list"

definition isToolAllowed :: "MCPConfig \<Rightarrow> string \<Rightarrow> bool \<Rightarrow> bool" where
  "isToolAllowed cfg name readOnly =
     (let resolvedScopes =
            resolvePermissionScopes (mc_PermissionPreset cfg) (mc_PermissionScopes cfg) (mc_ReadOnly cfg)
      in if resolvedScopes \<noteq> None then isScopeAllowed name resolvedScopes
         else if mc_ReadOnly cfg \<and> \<not> readOnly then False
         else if mc_ToolPolicy cfg = ''deny_list'' then name \<notin> set (mc_DeniedTools cfg)
         else if mc_ToolPolicy cfg = ''allow_list'' then name \<in> set (mc_AllowedTools cfg)
         else True)"

section \<open>Every route is guarded\<close>

lemma HasPrefix_simps [simp]:
  "HasPrefix s []" "\<not> HasPrefix [] (y # ys)" "HasPrefix (x # xs) (y # ys) \<longleftrightarrow> x = y \<and> HasPrefix xs ys"
  by (auto simp: HasPrefix_def)

lemma HasPrefix_before: "c \<notin> set p \<Longrightarrow> HasPrefix (s @ c # r) p \<longleftrightarrow> HasPrefix s p"
  by (induction s arbitrary: p) (case_tac p; auto)+

lemma HasPrefix_trans: "HasPrefix s p \<Longrightarrow> HasPrefix p q \<Longrightarrow> HasPrefix s q"
  by (auto simp: HasPrefix_iff)

lemma prefixes_comparable: "HasPrefix s p \<Longrightarrow> HasPrefix s q \<Longrightarrow> HasPrefix p q \<or> HasPrefix q p"
  by (auto simp: HasPrefix_iff append_eq_append_conv2)

lemma normalize_context:
  assumes "CHR ''/'' \<notin> set c"
  shows "normalizePathForRBAC (''/contexts/'' @ c @ CHR ''/'' # rest) = CHR ''/'' # rest"
  using IndexByte_append [OF assms, of rest] by (simp add: normalizePathForRBAC_def)

lemma normalize_root: "\<not> HasPrefix path ''/contexts/'' \<Longrightarrow> normalizePathForRBAC path = path"
  by (simp add: normalizePathForRBAC_def)

definition static_part :: "string \<Rightarrow> string" where
  "static_part pattern = takeWhile (\<lambda>c. c \<noteq> CHR ''{'') pattern"

text \<open>The requests of a route: a pattern without parameters stands for itself.\<close>

definition route_path :: "string \<Rightarrow> string \<Rightarrow> bool" where
  "route_path pattern path \<longleftrightarrow>
     (if CHR ''{'' \<in> set pattern then HasPrefix path (static_part pattern) else path = pattern)"

text \<open>The context a route is mounted below: none, or \<open>/contexts/{context}\<close>.\<close>

definition mounted :: "string option \<Rightarrow> string \<Rightarrow> string" where
  "mounted ctx path = (case ctx of None \<Rightarrow> path | Some c \<Rightarrow> ''/contexts/'' @ c @ path)"

lemma routes_listed:
  "list_all (\<lambda>(m, p, h). list_ex (endpoint_matches m (static_part p)) DefaultEndpointPermissions) mountRegistryRoutes"
  by code_simp

lemma routes_rooted:
  "list_all (\<lambda>(m, p, h).
     HasPrefix (static_part p) ''/'' \<and> \<not> HasPrefix (static_part p) ''/contexts/'' \<and>
     (CHR ''{'' \<in> set p \<longrightarrow> \<not> HasPrefix ''/contexts/'' (static_part p))) mountRegistryRoutes"
  by code_simp

lemma route_normalized:
  assumes "(m, p, h) \<in> set mountRegistryRoutes" "route_path p path" "\<And>c. ctx = Some c \<Longrightarrow> CHR ''/'' \<notin> set c"
  shows "normalizePathForRBAC (mounted ctx path) = path" "HasPrefix path (static_part p)"
proof -
  have l: "HasPrefix (static_part p) ''/''" "\<not> HasPrefix (static_part p) ''/contexts/''"
    "CHR ''{'' \<in> set p \<Longrightarrow> \<not> HasPrefix ''/contexts/'' (static_part p)"
    using routes_rooted assms(1) by (auto simp: list_all_iff)
  have static: "CHR ''{'' \<notin> set p \<Longrightarrow> static_part p = p"
    by (auto simp: static_part_def takeWhile_eq_all_conv)
  show pre: "HasPrefix path (static_part p)"
    using assms(2) static by (auto simp: route_path_def HasPrefix_iff split: if_splits)
  have "\<not> HasPrefix path ''/contexts/''"
    using prefixes_comparable [OF pre, of "''/contexts/''"] l(2,3) assms(2) static
    by (auto simp: route_path_def split: if_splits)
  moreover obtain rest where "path = CHR ''/'' # rest"
    using HasPrefix_trans [OF pre l(1)] by (auto simp: HasPrefix_iff)
  ultimately show "normalizePathForRBAC (mounted ctx path) = path"
    using normalize_context [of _ rest] normalize_root [of path] assms(3)
    by (auto simp: mounted_def split: option.split)
qed


definition sample_authorizer :: Authorizer where
  "sample_authorizer = NewAuthorizer \<lparr>rc_Enabled = True, rc_DefaultRole = ''readonly'', rc_SuperAdmins = [''root'']\<rparr>"

definition sample_reader :: User where
  "sample_reader = \<lparr>au_ID = 7, au_Username = ''ann'', au_Role = ''readonly'', au_Method = ''basic''\<rparr>"


text \<open>
  Registration needs the permission to write schemas - except for subjects whose names begin
  with \<open>validate\<close> or \<open>match\<close>: the entries for the two analysis routes are prefixes of these
  subjects' paths and come first, so that any user who may read may register such a subject.
\<close>

lemma register_permission:
  assumes "CHR ''/'' \<notin> set subject" "\<And>c. ctx = Some c \<Longrightarrow> CHR ''/'' \<notin> set c"
  shows "AuthorizeEndpoint a DefaultEndpointPermissions user ''POST''
       (mounted ctx (''/subjects/'' @ subject @ ''/versions'')) =
     Authorizer_RequirePermission a
       (if HasPrefix subject ''validate'' \<or> HasPrefix subject ''match'' then PermissionSchemaRead else PermissionSchemaWrite)
       user"
proof -
  define path where "path = ''/subjects/'' @ subject @ ''/versions''"
  have "route_path ''/subjects/{subject}/versions'' path" by (simp add: route_path_def static_part_def path_def)
  moreover have "(''POST'', ''/subjects/{subject}/versions'', ''RegisterSchema'') \<in> set mountRegistryRoutes"
    by (simp add: mountRegistryRoutes_def)
  ultimately have norm: "normalizePathForRBAC (mounted ctx path) = path"
    using route_normalized(1) assms(2) by blast
  have "List.find (endpoint_matches ''POST'' path) DefaultEndpointPermissions =
      Some (if HasPrefix subject ''validate'' then endpoint (''POST'', ''/subjects/validate'', PermissionSchemaRead)
            else if HasPrefix subject ''match'' then endpoint (''POST'', ''/subjects/match'', PermissionSchemaRead)
            else endpoint (''POST'', ''/subjects'', PermissionSchemaWrite))"
    by (simp add: DefaultEndpointPermissions_def endpoint_def endpoint_matches_def HasPrefix_before path_def)
  then show ?thesis
    unfolding path_def [symmetric]
    by (simp add: AuthorizeEndpoint_def Authorizer_RequirePermission_def norm endpoint_def)
qed

lemma register_permission_witness:
  "AuthorizeEndpoint sample_authorizer DefaultEndpointPermissions (Some sample_reader) ''POST''
     (mounted None (''/subjects/'' @ ''matches-value'' @ ''/versions'')) = Next \<and>
   AuthorizeEndpoint sample_authorizer DefaultEndpointPermissions (Some sample_reader) ''POST''
     (mounted None (''/subjects/'' @ ''orders-value'' @ ''/versions'')) = Forbidden"
proof -
  have no_slash: "CHR ''/'' \<notin> set ''matches-value''" "CHR ''/'' \<notin> set ''orders-value''" by simp_all
  have perms: "Authorizer_HasPermission sample_authorizer (Some sample_reader) PermissionSchemaRead"
    "\<not> Authorizer_HasPermission sample_authorizer (Some sample_reader) PermissionSchemaWrite"
    "rc_Enabled (az_config sample_authorizer)" by code_simp+
  show ?thesis
  proof
    show "AuthorizeEndpoint sample_authorizer DefaultEndpointPermissions (Some sample_reader) ''POST''
        (mounted None (''/subjects/'' @ ''matches-value'' @ ''/versions'')) = Next"
      by (subst register_permission [OF no_slash(1)]) (simp_all add: Authorizer_RequirePermission_def perms)
    show "AuthorizeEndpoint sample_authorizer DefaultEndpointPermissions (Some sample_reader) ''POST''
        (mounted None (''/subjects/'' @ ''orders-value'' @ ''/versions'')) = Forbidden"
      by (subst register_permission [OF no_slash(2)]) (simp_all add: Authorizer_RequirePermission_def perms)
  qed
qed

section \<open>Scopes\<close>

text \<open>Roles and presets grow: what a role may do, the next one may do too.\<close>

lemma roles_nested:
  "list_all (\<lambda>p. p \<in> set (GetRolePermissions RoleDeveloper)) (GetRolePermissions RoleReadOnly)"
  "list_all (\<lambda>p. p \<in> set (GetRolePermissions RoleAdmin)) (GetRolePermissions RoleDeveloper)"
  "list_all (\<lambda>p. p \<in> set (GetRolePermissions RoleSuperAdmin)) (GetRolePermissions RoleAdmin)"
  by code_simp+

definition read_scopes :: "scope list" where
  "read_scopes = [[], ScopeSchemaRead, ScopeConfigRead, ScopeModeRead, ScopeEncryptionRead, ScopeExporterRead]"

text \<open>Read-only MCP servers offer only tools that read - and a preset with a misspelt name offers every tool.\<close>

lemma readonly_preset_reads:
  assumes "map_of toolPermissionScope tool = Some scope"
  shows "isScopeAllowed tool (resolvePermissionScopes ''readonly'' scopes readOnly) \<longleftrightarrow> scope \<in> set read_scopes"
proof -
  have "resolvePermissionScopes ''readonly'' scopes readOnly = Some (tl read_scopes)"
    by (simp add: resolvePermissionScopes_def permissionPresets_def gm_of_list_def gm_laws read_scopes_def)
  then show ?thesis by (simp add: isScopeAllowed_def assms read_scopes_def)
qed

lemma misspelt_preset_allows_all:
  assumes "gm_get permissionPresets preset = None"
  shows "resolvePermissionScopes preset [] False = None" "isScopeAllowed tool (resolvePermissionScopes preset [] False)"
  using assms by (auto simp: resolvePermissionScopes_def isScopeAllowed_def split: option.split)

end
