(* ===== verification/Rate_Limiter.thy ===== *)
theory Rate_Limiter
  imports Access_Control Go_Float
begin

text \<open>
  Rate limiting by token buckets, \<open>internal/auth/ratelimit.go\<close>.  Tokens are \<open>float64\<close> numbers and
  every operation on them is rounded (product and sum separately, as on platforms that do not fuse
  them).  The mutexes make each method one step; the clean-up a goroutine runs is a step of its own.
  The metrics are left out.
\<close>

section \<open>Durations\<close>

text \<open>\<open>Time.Sub\<close>, which saturates, and \<open>Duration.Seconds\<close>.\<close>

definition time_Sub :: "go_time \<Rightarrow> go_time \<Rightarrow> int" where
  "time_Sub now t = max (- (2 ^ 63)) (min (2 ^ 63 - 1) (now - t))"

definition Second :: int where "Second = 1000000000"
definition Hour :: int where "Hour = 3600 * Second"

definition Seconds :: "int \<Rightarrow> go_float" where
  "Seconds d =
     (let sec = sgn d * (\<bar>d\<bar> div Second); nsec = sgn d * (\<bar>d\<bar> mod Second)
      in f_add (f_of_int sec) (f_div (f_of_int nsec) (Fin 1000000000)))"

section \<open>Buckets\<close>

record tokenBucket =
  tb_tokens :: go_float
  tb_maxTokens :: go_float
  tb_refillRate :: go_float
  tb_lastRefill :: go_time

definition newTokenBucket :: "go_float \<Rightarrow> go_float \<Rightarrow> go_time \<Rightarrow> tokenBucket" where
  "newTokenBucket maxTokens refillRate now =
     \<lparr>tb_tokens = maxTokens, tb_maxTokens = maxTokens, tb_refillRate = refillRate, tb_lastRefill = now\<rparr>"

definition refilled :: "tokenBucket \<Rightarrow> go_time \<Rightarrow> go_float" where
  "refilled tb now =
     (let elapsed = Seconds (time_Sub now (tb_lastRefill tb));
          tokens = f_add (tb_tokens tb) (f_mul elapsed (tb_refillRate tb))
      in if f_less (tb_maxTokens tb) tokens then tb_maxTokens tb else tokens)"

definition tokenBucket_allow :: "tokenBucket \<Rightarrow> go_time \<Rightarrow> tokenBucket \<times> bool" where
  "tokenBucket_allow tb now =
     (let tokens = refilled tb now
      in if f_less (Fin 1) tokens \<or> f_eq (Fin 1) tokens
         then (tb\<lparr>tb_tokens := f_sub tokens (Fin 1), tb_lastRefill := now\<rparr>, True)
         else (tb\<lparr>tb_tokens := tokens, tb_lastRefill := now\<rparr>, False))"

definition tokenBucket_remaining :: "tokenBucket \<Rightarrow> int" where
  "tokenBucket_remaining tb = (let v = f_val (tb_tokens tb) in if v < 0 then \<lceil>v\<rceil> else \<lfloor>v\<rfloor>)"

section \<open>The limiter\<close>

record RateLimitConfig =
  rt_Enabled :: bool
  rt_RequestsPerSecond :: int
  rt_BurstSize :: int
  rt_PerClient :: bool
  rt_PerEndpoint :: bool

record RateLimiter =
  rl_config :: RateLimitConfig
  rl_global :: "tokenBucket option"
  rl_clients :: "(string, tokenBucket) gomap"
  rl_endpoints :: "(string, tokenBucket) gomap"

definition config_bucket :: "RateLimitConfig \<Rightarrow> go_time \<Rightarrow> tokenBucket" where
  "config_bucket cfg now = newTokenBucket (f_of_int (rt_BurstSize cfg)) (f_of_int (rt_RequestsPerSecond cfg)) now"

definition NewRateLimiter :: "RateLimitConfig \<Rightarrow> go_time \<Rightarrow> RateLimiter" where
  "NewRateLimiter cfg now =
     \<lparr>rl_config = cfg, rl_global = (if rt_Enabled cfg then Some (config_bucket cfg now) else None),
      rl_clients = gm_empty, rl_endpoints = gm_empty\<rparr>"

text \<open>The look-up of a bucket stores a new one under a key that has none.\<close>

definition getClientBucket :: "RateLimiter \<Rightarrow> string \<Rightarrow> go_time \<Rightarrow> RateLimiter \<times> tokenBucket" where
  "getClientBucket rl clientIP now =
     (case gm_get (rl_clients rl) clientIP of
        Some bucket \<Rightarrow> (rl, bucket)
      | None \<Rightarrow> (let bucket = config_bucket (rl_config rl) now
                in (rl\<lparr>rl_clients := gm_put clientIP bucket (rl_clients rl)\<rparr>, bucket)))"

definition getEndpointBucket :: "RateLimiter \<Rightarrow> string \<Rightarrow> go_time \<Rightarrow> RateLimiter \<times> tokenBucket" where
  "getEndpointBucket rl key now =
     (case gm_get (rl_endpoints rl) key of
        Some bucket \<Rightarrow> (rl, bucket)
      | None \<Rightarrow> (let bucket = config_bucket (rl_config rl) now
                in (rl\<lparr>rl_endpoints := gm_put key bucket (rl_endpoints rl)\<rparr>, bucket)))"

fun lastIndex_from :: "string \<Rightarrow> char \<Rightarrow> nat \<Rightarrow> nat option" where
  "lastIndex_from s sep 0 = None"
| "lastIndex_from s sep (Suc i) = (if s ! i = sep then Some i else lastIndex_from s sep i)"

definition lastIndex :: "string \<Rightarrow> char \<Rightarrow> nat option" where
  "lastIndex s sep = lastIndex_from s sep (length s)"

definition trim_blanks :: "string \<Rightarrow> string" where
  "trim_blanks part =
     (let blank = (\<lambda>c. c = CHR '' '' \<or> c = CHR 0x09) in rev (dropWhile blank (rev (dropWhile blank part))))"

function splitAndTrim :: "string \<Rightarrow> char \<Rightarrow> string list" where
  "splitAndTrim s sep =
     (if s = [] then []
      else let part = trim_blanks (takeWhile (\<lambda>c. c \<noteq> sep) s); rest = drop 1 (dropWhile (\<lambda>c. c \<noteq> sep) s)
           in (if part \<noteq> [] then [part] else []) @ splitAndTrim rest sep)"
  by pat_completeness auto
termination
proof (relation "measure (\<lambda>(s, sep). length s)")
  fix s :: string and sep part rest
  assume "s \<noteq> []" "rest = drop 1 (dropWhile (\<lambda>c. c \<noteq> sep) s)"
  then show "((rest, sep), s, sep) \<in> measure (\<lambda>(s, sep). length s)"
    using length_dropWhile_le [of "\<lambda>c. c \<noteq> sep" s] by (cases "dropWhile (\<lambda>c. c \<noteq> sep) s") auto
qed simp

declare splitAndTrim.simps [simp del]

record http_request =
  hr_Method :: string
  hr_Path :: string
  hr_XForwardedFor :: string
  hr_XRealIP :: string
  hr_RemoteAddr :: string

definition GetClientIP :: "http_request \<Rightarrow> string" where
  "GetClientIP r =
     (let xff = hr_XForwardedFor r; ips = splitAndTrim xff (CHR '',''); addr = hr_RemoteAddr r
      in if xff \<noteq> [] \<and> ips \<noteq> [] then hd ips
         else if hr_XRealIP r \<noteq> [] then hr_XRealIP r
         else
           case (if addr \<noteq> [] \<and> hd addr = CHR ''['' then lastIndex addr (CHR '']'') else None) of
             Some idx \<Rightarrow> take (idx - 1) (drop 1 addr)
           | None \<Rightarrow> (case lastIndex addr (CHR '':'') of Some idx \<Rightarrow> take idx addr | None \<Rightarrow> addr))"

definition TooManyRequests :: pass where "TooManyRequests = Refuse 429 ''Rate limit exceeded''"

definition endpoint_key :: "http_request \<Rightarrow> string" where
  "endpoint_key r = hr_Method r @ '':'' @ hr_Path r"

text \<open>
  The middleware: the bucket of the request, its remaining tokens for the response header, and the
  decision.  The bucket is shared by pointer, so that the table sees its new state.  An enabled
  limiter has a global bucket; reading a nil one would panic, which the server answers with 500.
\<close>

definition RateLimiter_Middleware :: "RateLimiter \<Rightarrow> http_request \<Rightarrow> go_time \<Rightarrow> RateLimiter \<times> int option \<times> pass" where
  "RateLimiter_Middleware rl r now =
     (if \<not> rt_Enabled (rl_config rl) then (rl, None, Next)
      else if rt_PerClient (rl_config rl)
      then (let key = GetClientIP r; (rl1, bucket) = getClientBucket rl key now;
                (bucket', ok) = tokenBucket_allow bucket now
            in (rl1\<lparr>rl_clients := gm_put key bucket' (rl_clients rl1)\<rparr>, Some (tokenBucket_remaining bucket),
                if ok then Next else TooManyRequests))
      else if rt_PerEndpoint (rl_config rl)
      then (let key = endpoint_key r; (rl1, bucket) = getEndpointBucket rl key now;
                (bucket', ok) = tokenBucket_allow bucket now
            in (rl1\<lparr>rl_endpoints := gm_put key bucket' (rl_endpoints rl1)\<rparr>, Some (tokenBucket_remaining bucket),
                if ok then Next else TooManyRequests))
      else case rl_global rl of
             None \<Rightarrow> (rl, None, Refuse 500 ''panic'')
           | Some bucket \<Rightarrow>
               (let (bucket', ok) = tokenBucket_allow bucket now
                in (rl\<lparr>rl_global := Some bucket'\<rparr>, Some (tokenBucket_remaining bucket),
                    if ok then Next else TooManyRequests)))"

definition CleanupStaleClients :: "RateLimiter \<Rightarrow> int \<Rightarrow> go_time \<Rightarrow> RateLimiter" where
  "CleanupStaleClients rl maxAge now =
     rl\<lparr>rl_clients :=
       fold (\<lambda>(key, bucket) m. if time_Sub now (tb_lastRefill bucket) > maxAge then gm_del key m else m)
         (gm_entries (rl_clients rl)) (rl_clients rl)\<rparr>"

section \<open>Rounding from below\<close>

definition at_least :: "int \<Rightarrow> go_float \<Rightarrow> bool" where
  "at_least n x \<longleftrightarrow> x = PosInf \<or> (\<exists>v. x = Fin v \<and> of_int n \<le> v)"

lemma at_least_round: "0 \<le> n \<Longrightarrow> n \<le> 2 ^ 53 \<Longrightarrow> of_int n \<le> r \<Longrightarrow> at_least n (round_f64 r)"
  using round_lower by (simp add: at_least_def)

lemma at_least_mono: "at_least n x \<Longrightarrow> m \<le> n \<Longrightarrow> at_least m x"
  unfolding at_least_def by (metis of_int_le_iff order_trans)

lemma f_add_nonneg: "0 \<le> b \<Longrightarrow> f_add (Fin a) (Fin b) = round_f64 (a + b)"
  by (simp add: f_add_def)

lemma at_least_add:
  assumes "0 \<le> n" "n \<le> 2 ^ 53" "at_least n x" "at_least 0 y" shows "at_least n (f_add x y)" "at_least n (f_add y x)"
proof -
  have inf: "f_add PosInf z = PosInf" "f_add z PosInf = PosInf" if "at_least 0 z" for z
    using that by (auto simp: at_least_def f_add_def)
  show "at_least n (f_add x y)" "at_least n (f_add y x)"
    using assms inf [of x] inf [of y] at_least_mono [OF assms(3,1)] at_least_round [OF assms(1,2)]
    by (auto simp: at_least_def [of _ x] at_least_def [of _ y] at_least_def [of _ PosInf] f_add_nonneg)
qed

lemma at_least_mul:
  assumes "0 \<le> n" "n \<le> 2 ^ 53" "at_least m x" "0 \<le> m" "1 \<le> r" "n \<le> m * r"
  shows "at_least n (f_mul x (Fin (of_int r)))"
proof (cases "x = PosInf")
  case True
  have "\<not> f_neg PosInf" "\<not> f_neg (Fin (of_int r))" "(of_int r :: rat) \<noteq> 0" using assms(5) by (auto simp: f_neg_def)
  then show ?thesis by (simp add: True f_mul_def at_least_def)
next
  case False
  then obtain v where v: "x = Fin v" "of_int m \<le> v" using assms(3) by (auto simp: at_least_def)
  have "0 \<le> v" using v(2) assms(4) by (meson of_int_0_le_iff order_trans)
  have "of_int n \<le> (of_int (m * r) :: rat)" using assms(6) by (simp only: of_int_le_iff)
  also have "\<dots> \<le> v * of_int r" using v(2) assms(5) by (simp add: mult_right_mono)
  finally have prod: "of_int n \<le> v * of_int r" .
  show ?thesis
  proof (cases "v = 0")
    case True
    have "\<not> f_neg (Fin 0)" "\<not> f_neg (Fin (of_int r))" using assms(5) by (auto simp: f_neg_def)
    then show ?thesis using prod by (simp add: v(1) True f_mul_def at_least_def)
  next
    case False
    then show ?thesis
      using at_least_round [OF assms(1,2) prod] assms(5) by (simp add: v(1) f_mul_def)
  qed
qed

lemma at_least_seconds:
  assumes "0 \<le> n" "n \<le> 2 ^ 53" "n * Second \<le> d" "d < 2 ^ 63"
  shows "at_least n (Seconds d)"
proof -
  have d: "0 \<le> d" using assms(1,3) by (simp add: Second_def)
  have parts: "sgn d * (\<bar>d\<bar> div Second) = d div Second" "sgn d * (\<bar>d\<bar> mod Second) = d mod Second"
    using d by (cases "d = 0"; simp)+
  have sec: "0 \<le> d div Second" "d div Second \<le> 2 ^ 53" "n \<le> d div Second"
    using assms d by (simp_all add: Second_def)
  have nsec: "0 \<le> d mod Second" "d mod Second \<le> 2 ^ 53" by (simp_all add: Second_def)
  have "at_least 0 (f_div (Fin (of_int (d mod Second))) (Fin 1000000000))"
  proof (cases "d mod Second = 0")
    case True
    then show ?thesis by (simp add: f_div_def f_neg_def at_least_def)
  next
    case False
    then show ?thesis
      using nsec by (auto simp: f_div_def intro!: at_least_round)
  qed
  moreover have "at_least n (Fin (of_int (d div Second)))" using sec(3) by (simp add: at_least_def)
  ultimately show ?thesis
    using at_least_add(1) [OF assms(1,2)] by (simp add: Seconds_def parts f_of_int_exact [OF sec(1,2)] f_of_int_exact [OF nsec])
qed

section \<open>Buckets stay in range\<close>

definition sane_limits :: "RateLimitConfig \<Rightarrow> bool" where
  "sane_limits cfg \<longleftrightarrow>
     1 \<le> rt_BurstSize cfg \<and> rt_BurstSize cfg \<le> 2 ^ 53 \<and> 1 \<le> rt_RequestsPerSecond cfg \<and> rt_RequestsPerSecond cfg \<le> 2 ^ 53"

definition bucket_ok :: "RateLimitConfig \<Rightarrow> tokenBucket \<Rightarrow> bool" where
  "bucket_ok cfg tb \<longleftrightarrow>
     tb_maxTokens tb = Fin (of_int (rt_BurstSize cfg)) \<and> tb_refillRate tb = Fin (of_int (rt_RequestsPerSecond cfg)) \<and>
     (\<exists>v. tb_tokens tb = Fin v \<and> 0 \<le> v \<and> v \<le> of_int (rt_BurstSize cfg))"

lemma config_bucket_ok: "sane_limits cfg \<Longrightarrow> bucket_ok cfg (config_bucket cfg now)"
  by (simp add: config_bucket_def newTokenBucket_def bucket_ok_def sane_limits_def f_of_int_exact)

lemma refilled_ok:
  assumes cfg: "sane_limits cfg" and ok: "bucket_ok cfg tb" and time: "tb_lastRefill tb \<le> now"
    and n: "0 \<le> s" "s * Second \<le> now - tb_lastRefill tb" "s \<le> 2 ^ 30"
  shows "\<exists>v. refilled tb now = Fin v \<and> 0 \<le> v \<and> v \<le> of_int (rt_BurstSize cfg) \<and>
    of_int (min (s * rt_RequestsPerSecond cfg) (rt_BurstSize cfg)) \<le> v"
proof -
  define b r where "b = rt_BurstSize cfg" and "r = rt_RequestsPerSecond cfg"
  have lim: "1 \<le> b" "b \<le> 2 ^ 53" "1 \<le> r" "r \<le> 2 ^ 53" using cfg by (auto simp: sane_limits_def b_def r_def)
  obtain v where v: "tb_tokens tb = Fin v" "0 \<le> v" "v \<le> of_int b" using ok by (auto simp: bucket_ok_def b_def)
  have max: "tb_maxTokens tb = Fin (of_int b)" and rate: "tb_refillRate tb = Fin (of_int r)"
    using ok by (auto simp: bucket_ok_def b_def r_def)
  define k where "k = min (s * r) b"
  have k: "0 \<le> k" "k \<le> 2 ^ 53" "k \<le> s * r" "k \<le> b" using lim n(1) by (auto simp: k_def)
  have "s * Second \<le> 2 ^ 30 * Second" using n(3) by (simp add: Second_def)
  then have "at_least s (Seconds (time_Sub now (tb_lastRefill tb)))"
    using n time by (intro at_least_seconds) (auto simp: time_Sub_def Second_def)
  then have "at_least k (f_mul (Seconds (time_Sub now (tb_lastRefill tb))) (Fin (of_int r)))"
    using at_least_mul [OF k(1,2) _ n(1) lim(3) k(3)] by simp
  then have "at_least k (f_add (Fin v) (f_mul (Seconds (time_Sub now (tb_lastRefill tb))) (Fin (of_int r))))"
    using at_least_add(2) [OF k(1,2)] v(2) by (simp add: at_least_def [of 0])
  then show ?thesis
    using k lim by (auto simp: refilled_def Let_def v(1) max rate at_least_def f_less_def b_def [symmetric] r_def [symmetric]
        k_def [symmetric] not_less intro: order_trans [of 0 "of_int k"])
qed

lemma allow_ok:
  assumes "sane_limits cfg" "bucket_ok cfg tb" "tb_lastRefill tb \<le> now"
  shows "bucket_ok cfg (fst (tokenBucket_allow tb now))" "tb_lastRefill (fst (tokenBucket_allow tb now)) = now"
proof -
  define b where "b = rt_BurstSize cfg"
  have lim: "b \<le> 2 ^ 53" using assms(1) by (simp add: sane_limits_def b_def)
  obtain v where v: "refilled tb now = Fin v" "0 \<le> v" "v \<le> of_int b"
    using refilled_ok [OF assms, of 0] assms(3) by (auto simp: b_def)
  show "tb_lastRefill (fst (tokenBucket_allow tb now)) = now" by (simp add: tokenBucket_allow_def Let_def)
  show "bucket_ok cfg (fst (tokenBucket_allow tb now))"
  proof (cases "1 \<le> v")
    case True
    obtain w where w: "round_f64 (v - 1) = Fin w" "w \<le> of_int b"
      using round_upper [of "v - 1" b] True v(3) lim by auto
    moreover have "0 \<le> w" using round_lower [of 0 "v - 1"] True w(1) by auto
    ultimately show ?thesis
      using assms(2) v True by (auto simp: tokenBucket_allow_def Let_def bucket_ok_def b_def)
  next
    case False
    then show ?thesis
      using assms(2) v by (auto simp: tokenBucket_allow_def Let_def bucket_ok_def f_less_def f_eq_def b_def)
  qed
qed

lemma allow_verdict:
  assumes "refilled tb now = Fin v" shows "snd (tokenBucket_allow tb now) \<longleftrightarrow> 1 \<le> v"
  by (auto simp: tokenBucket_allow_def Let_def assms f_less_def f_eq_def)

lemma allow_after_wait:
  assumes "sane_limits cfg" "bucket_ok cfg tb" "tb_lastRefill tb + Second \<le> now"
  shows "snd (tokenBucket_allow tb now)"
proof -
  have "tb_lastRefill tb \<le> now" using assms(3) by (simp add: Second_def)
  then obtain v where v: "refilled tb now = Fin v"
      "of_int (min (1 * rt_RequestsPerSecond cfg) (rt_BurstSize cfg)) \<le> v"
    using refilled_ok [OF assms(1,2), of now 1] assms(3) by auto
  have "1 \<le> min (1 * rt_RequestsPerSecond cfg) (rt_BurstSize cfg)" using assms(1) by (simp add: sane_limits_def)
  then have "(1 :: rat) \<le> of_int (min (1 * rt_RequestsPerSecond cfg) (rt_BurstSize cfg))"
    by (simp only: of_int_1_le_iff)
  then have "1 \<le> v" using v(2) by (rule order_trans)
  with v(1) show ?thesis by (simp add: allow_verdict)
qed

lemma full_bucket: 
  assumes "sane_limits cfg" "0 \<le> k" "k \<le> rt_BurstSize cfg"
    "tb = \<lparr>tb_tokens = Fin (of_int k), tb_maxTokens = Fin (of_int (rt_BurstSize cfg)),
           tb_refillRate = Fin (of_int (rt_RequestsPerSecond cfg)), tb_lastRefill = now\<rparr>"
  shows "refilled tb now = Fin (of_int k)"
proof -
  have "Seconds (time_Sub now now) = Fin 0" by (simp add: time_Sub_def) code_simp
  moreover have "f_mul (Fin 0) (Fin (of_int (rt_RequestsPerSecond cfg))) = Fin 0"
    using assms(1) by (simp add: f_mul_def f_neg_def sane_limits_def)
  moreover have "f_add (Fin (of_int k)) (Fin 0) = Fin (of_int k)"
    using f_of_int_exact [of k] assms(1-3) by (simp add: f_add_nonneg f_of_int_def sane_limits_def)
  ultimately show ?thesis using assms(3) by (simp add: refilled_def assms(4) f_less_def)
qed

section \<open>The limiter in use\<close>

text \<open>The bucket that decides on a request.\<close>

definition request_bucket :: "RateLimiter \<Rightarrow> http_request \<Rightarrow> go_time \<Rightarrow> tokenBucket option" where
  "request_bucket rl r now =
     (if rt_PerClient (rl_config rl) then Some (snd (getClientBucket rl (GetClientIP r) now))
      else if rt_PerEndpoint (rl_config rl) then Some (snd (getEndpointBucket rl (endpoint_key r) now))
      else rl_global rl)"

lemma middleware_verdict:
  assumes "rt_Enabled (rl_config rl)" "request_bucket rl r now = Some tb"
  shows "snd (snd (RateLimiter_Middleware rl r now)) = (if snd (tokenBucket_allow tb now) then Next else TooManyRequests)"
  using assms
  by (cases "rt_PerClient (rl_config rl)"; cases "rt_PerEndpoint (rl_config rl)")
    (simp_all add: RateLimiter_Middleware_def request_bucket_def case_prod_beta Let_def)

definition buckets :: "RateLimiter \<Rightarrow> tokenBucket set" where
  "buckets rl = set_option (rl_global rl) \<union> ran (gm_get (rl_clients rl)) \<union> ran (gm_get (rl_endpoints rl))"

definition limiter_ok :: "RateLimitConfig \<Rightarrow> RateLimiter \<Rightarrow> go_time \<Rightarrow> bool" where
  "limiter_ok cfg rl t \<longleftrightarrow>
     rl_config rl = cfg \<and> (rt_Enabled cfg \<longrightarrow> rl_global rl \<noteq> None) \<and>
     (\<forall>tb\<in>buckets rl. bucket_ok cfg tb \<and> tb_lastRefill tb \<le> t)"

lemma ran_put: "ran (gm_get (gm_put k v m)) \<subseteq> insert v (ran (gm_get m))"
  by (auto simp: gm_laws ran_def)

lemma client_bucket:
  "ran (gm_get (rl_clients (fst (getClientBucket rl key now)))) \<subseteq>
     insert (config_bucket (rl_config rl) now) (ran (gm_get (rl_clients rl)))"
  "snd (getClientBucket rl key now) \<in> insert (config_bucket (rl_config rl) now) (ran (gm_get (rl_clients rl)))"
  "rl_global (fst (getClientBucket rl key now)) = rl_global rl"
  "rl_endpoints (fst (getClientBucket rl key now)) = rl_endpoints rl"
  using ran_put [of key "config_bucket (rl_config rl) now" "rl_clients rl"]
  by (auto simp: getClientBucket_def Let_def intro: ranI split: option.split)

lemma endpoint_bucket:
  "ran (gm_get (rl_endpoints (fst (getEndpointBucket rl key now)))) \<subseteq>
     insert (config_bucket (rl_config rl) now) (ran (gm_get (rl_endpoints rl)))"
  "snd (getEndpointBucket rl key now) \<in> insert (config_bucket (rl_config rl) now) (ran (gm_get (rl_endpoints rl)))"
  "rl_global (fst (getEndpointBucket rl key now)) = rl_global rl"
  "rl_clients (fst (getEndpointBucket rl key now)) = rl_clients rl"
  using ran_put [of key "config_bucket (rl_config rl) now" "rl_endpoints rl"]
  by (auto simp: getEndpointBucket_def Let_def intro: ranI split: option.split)

text \<open>The bucket of a request is in the tables or new; after the request, the tables have its successor.\<close>

lemma request_bucket_known:
  "request_bucket rl r now = Some tb \<Longrightarrow> tb \<in> insert (config_bucket (rl_config rl) now) (buckets rl)"
  using client_bucket(2) [of rl "GetClientIP r" now] endpoint_bucket(2) [of rl "endpoint_key r" now]
  by (auto simp: request_bucket_def buckets_def split: if_splits)

lemma middleware_buckets:
  "buckets (fst (RateLimiter_Middleware rl r now)) \<subseteq>
     buckets rl \<union> {config_bucket (rl_config rl) now} \<union>
     (\<lambda>tb. fst (tokenBucket_allow tb now)) ` set_option (request_bucket rl r now)"
proof -
  let ?cfg = "rl_config rl"
  consider (off) "\<not> rt_Enabled ?cfg" | (client) "rt_Enabled ?cfg" "rt_PerClient ?cfg"
    | (point) "rt_Enabled ?cfg" "\<not> rt_PerClient ?cfg" "rt_PerEndpoint ?cfg"
    | (global) "rt_Enabled ?cfg" "\<not> rt_PerClient ?cfg" "\<not> rt_PerEndpoint ?cfg" by blast
  then show ?thesis
  proof cases
    case off
    then show ?thesis by (auto simp: RateLimiter_Middleware_def)
  next
    case client
    let ?g = "getClientBucket rl (GetClientIP r) now"
    from client ran_put [of "GetClientIP r" "fst (tokenBucket_allow (snd ?g) now)" "rl_clients (fst ?g)"]
      client_bucket [of rl "GetClientIP r" now]
    show ?thesis by (simp add: RateLimiter_Middleware_def request_bucket_def case_prod_beta Let_def buckets_def) blast
  next
    case point
    let ?g = "getEndpointBucket rl (endpoint_key r) now"
    from point ran_put [of "endpoint_key r" "fst (tokenBucket_allow (snd ?g) now)" "rl_endpoints (fst ?g)"]
      endpoint_bucket [of rl "endpoint_key r" now]
    show ?thesis by (simp add: RateLimiter_Middleware_def request_bucket_def case_prod_beta Let_def buckets_def) blast
  next
    case global
    then show ?thesis
      by (cases "rl_global rl")
        (auto simp: RateLimiter_Middleware_def request_bucket_def case_prod_beta buckets_def Let_def)
  qed
qed

lemma middleware_keeps:
  "rl_config (fst (RateLimiter_Middleware rl r now)) = rl_config rl"
  "rl_global rl \<noteq> None \<Longrightarrow> rl_global (fst (RateLimiter_Middleware rl r now)) \<noteq> None"
  by (auto simp: RateLimiter_Middleware_def getClientBucket_def getEndpointBucket_def case_prod_beta Let_def
      split: option.splits)

lemma cleanup_buckets: "buckets (CleanupStaleClients rl maxAge now) \<subseteq> buckets rl"
proof -
  have "ran (gm_get (fold (\<lambda>(key, bucket) m. if time_Sub now (tb_lastRefill bucket) > maxAge then gm_del key m else m) es m))
      \<subseteq> ran (gm_get m)" for es m
  proof (induction es arbitrary: m)
    case (Cons e es)
    have "ran (gm_get (gm_del k m)) \<subseteq> ran (gm_get m)" for k by (auto simp: gm_laws ran_def split: if_splits)
    from order_trans [OF Cons.IH [of "gm_del (fst e) m"] this] Cons.IH [of m] show ?case
      by (simp add: case_prod_beta)
  qed simp
  from subsetD [OF this [of "gm_entries (rl_clients rl)" "rl_clients rl"]] show ?thesis
    by (auto simp: CleanupStaleClients_def buckets_def)
qed

inductive limiter_reach :: "RateLimitConfig \<Rightarrow> RateLimiter \<Rightarrow> go_time \<Rightarrow> bool" for cfg where
  start: "limiter_reach cfg (NewRateLimiter cfg t) t"
| request: "limiter_reach cfg rl t \<Longrightarrow> t \<le> now \<Longrightarrow> limiter_reach cfg (fst (RateLimiter_Middleware rl r now)) now"
| cleanup: "limiter_reach cfg rl t \<Longrightarrow> t \<le> now \<Longrightarrow> limiter_reach cfg (CleanupStaleClients rl Hour now) now"

lemma limiter_reach_ok:
  assumes "sane_limits cfg" "limiter_reach cfg rl t" shows "limiter_ok cfg rl t"
  using assms(2)
proof induction
  case (start t)
  show ?case
    using config_bucket_ok [OF assms(1)]
    by (auto simp: limiter_ok_def NewRateLimiter_def buckets_def gm_laws config_bucket_def newTokenBucket_def split: if_splits)
next
  case (request rl t now r)
  have fresh: "bucket_ok cfg (config_bucket cfg now)" "tb_lastRefill (config_bucket cfg now) \<le> now"
    using config_bucket_ok [OF assms(1)] by (auto simp: config_bucket_def newTokenBucket_def)
  have old: "bucket_ok cfg tb \<and> tb_lastRefill tb \<le> now" if "tb \<in> buckets rl" for tb
    using request.IH request.hyps(2) that by (force simp: limiter_ok_def)
  have cfg: "rl_config rl = cfg" using request.IH by (simp add: limiter_ok_def)
  have used: "bucket_ok cfg old \<and> tb_lastRefill old \<le> now" if "request_bucket rl r now = Some old" for old
    using request_bucket_known [OF that] old fresh cfg by auto
  have "bucket_ok cfg tb \<and> tb_lastRefill tb \<le> now" if "tb \<in> buckets (fst (RateLimiter_Middleware rl r now))" for tb
    using subsetD [OF middleware_buckets that] used old fresh allow_ok [OF assms(1)] unfolding cfg by fastforce
  then show ?case using request.IH middleware_keeps by (auto simp: limiter_ok_def)
next
  case (cleanup rl t now)
  then show ?case
    using cleanup_buckets [of rl Hour now]
    by (fastforce simp: limiter_ok_def CleanupStaleClients_def)
qed

text \<open>
  C39.  Nobody is locked out: at any moment of any history of requests and clean-ups, a request is
  let through when the bucket that decides on it (of its client, its endpoint, or the global one)
  was last used a second ago or longer, or does not exist yet, for any configured rate and burst of
  at least one.
\<close>

theorem rate_limit_recovers:
  assumes "limiter_reach cfg rl t" "t \<le> now" "sane_limits cfg" "rt_Enabled cfg"
    and "request_bucket rl r now = Some tb"
    and "tb_lastRefill tb + Second \<le> now \<or> tb = config_bucket cfg now"
  shows "snd (snd (RateLimiter_Middleware rl r now)) = Next"
proof -
  have ok: "limiter_ok cfg rl t" by (rule limiter_reach_ok [OF assms(3,1)])
  have "snd (tokenBucket_allow tb now)"
  proof (cases "tb = config_bucket cfg now")
    case True
    have "refilled tb now = Fin (of_int (rt_BurstSize cfg))"
      using assms(3) by (intro full_bucket [OF assms(3)])
        (auto simp: True config_bucket_def newTokenBucket_def sane_limits_def f_of_int_exact)
    then show ?thesis using assms(3) by (simp add: allow_verdict sane_limits_def)
  next
    case False
    have "tb \<in> buckets rl" using request_bucket_known [OF assms(5)] False ok by (auto simp: limiter_ok_def)
    then have "bucket_ok cfg tb" using ok by (simp add: limiter_ok_def)
    then show ?thesis using allow_after_wait [OF assms(3)] assms(6) False by blast
  qed
  then show ?thesis using middleware_verdict [OF _ assms(5)] assms(4) ok by (simp add: limiter_ok_def)
qed

definition sample_limits :: RateLimitConfig where
  "sample_limits = \<lparr>rt_Enabled = True, rt_RequestsPerSecond = 2, rt_BurstSize = 1, rt_PerClient = True, rt_PerEndpoint = False\<rparr>"

definition sample_request :: http_request where
  "sample_request = \<lparr>hr_Method = ''GET'', hr_Path = ''/subjects'', hr_XForwardedFor = [], hr_XRealIP = ''10.0.0.1'',
     hr_RemoteAddr = ''10.0.0.9:4711''\<rparr>"

definition sample_limiter :: RateLimiter where
  "sample_limiter = fst (RateLimiter_Middleware (NewRateLimiter sample_limits 0) sample_request 5)"

definition sample_bucket :: "rat \<Rightarrow> tokenBucket" where
  "sample_bucket v = \<lparr>tb_tokens = Fin v, tb_maxTokens = Fin 1, tb_refillRate = Fin 2, tb_lastRefill = 5\<rparr>"

lemma sample_eval:
  "GetClientIP sample_request = ''10.0.0.1''"
  "config_bucket sample_limits 5 = sample_bucket 1"
  "tokenBucket_allow (sample_bucket 1) 5 = (sample_bucket 0, True)"
  "snd (tokenBucket_allow (sample_bucket 0) 6) = False"
  by code_simp+

lemma sample_state:
  "rl_config sample_limiter = sample_limits" "request_bucket sample_limiter sample_request now = Some (sample_bucket 0)"
  by (simp_all add: sample_limiter_def RateLimiter_Middleware_def request_bucket_def getClientBucket_def NewRateLimiter_def
      sample_limits_def [symmetric] sample_eval gm_laws Let_def) (simp_all add: sample_limits_def)

theorem rate_limit_recovers_witness:
  "snd (snd (RateLimiter_Middleware sample_limiter sample_request (5 + Second))) = Next \<and>
   snd (snd (RateLimiter_Middleware sample_limiter sample_request 6)) = TooManyRequests"
proof
  have enabled: "rt_Enabled sample_limits" "sane_limits sample_limits" by (simp_all add: sample_limits_def sane_limits_def)
  have "limiter_reach sample_limits sample_limiter 5"
    unfolding sample_limiter_def by (rule limiter_reach.request [OF limiter_reach.start]) simp
  from rate_limit_recovers [OF this _ enabled(2,1) sample_state(2)]
  show "snd (snd (RateLimiter_Middleware sample_limiter sample_request (5 + Second))) = Next"
    by (simp add: sample_bucket_def Second_def)
  show "snd (snd (RateLimiter_Middleware sample_limiter sample_request 6)) = TooManyRequests"
    using enabled(1) by (simp add: middleware_verdict [OF _ sample_state(2)] sample_state(1) sample_eval)
qed

text \<open>The bucket after a series of requests.\<close>

definition bucket_after :: "RateLimitConfig \<Rightarrow> go_time \<Rightarrow> go_time list \<Rightarrow> tokenBucket" where
  "bucket_after cfg t0 ts = foldl (\<lambda>tb t. fst (tokenBucket_allow tb t)) (config_bucket cfg t0) ts"

lemma burst_tokens:
  assumes "sane_limits cfg"
  shows "bucket_after cfg t (replicate k t) =
    \<lparr>tb_tokens = Fin (of_int (max 0 (rt_BurstSize cfg - int k))), tb_maxTokens = Fin (of_int (rt_BurstSize cfg)),
     tb_refillRate = Fin (of_int (rt_RequestsPerSecond cfg)), tb_lastRefill = t\<rparr>" (is "_ = ?b k")
proof (induction k)
  case 0
  then show ?case
    using assms by (simp add: bucket_after_def config_bucket_def newTokenBucket_def sane_limits_def f_of_int_exact)
next
  case (Suc k)
  let ?m = "max 0 (rt_BurstSize cfg - int k)"
  have "replicate (Suc k) t = replicate k t @ [t]" by (simp add: replicate_append_same)
  then have "bucket_after cfg t (replicate (Suc k) t) = fst (tokenBucket_allow (?b k) t)"
    using Suc by (simp add: bucket_after_def)
  moreover have "refilled (?b k) t = Fin (of_int ?m)"
    using assms by (intro full_bucket [OF assms]) (auto simp: sane_limits_def)
  moreover have "1 \<le> ?m \<Longrightarrow> f_sub (Fin (of_int ?m)) (Fin 1) = Fin (of_int (?m - 1))"
    using f_of_int_exact [of "?m - 1"] assms by (simp add: f_of_int_def sane_limits_def)
  ultimately show ?case
    by (cases "1 \<le> ?m") (auto simp: tokenBucket_allow_def Let_def f_less_def f_eq_def max_def split: if_splits)
qed

text \<open>
  The burst is exact: of any number of requests that reach one bucket at the same instant,
  exactly the configured burst is let through, and rounding neither adds nor loses a request.
\<close>

lemma rate_limit_burst:
  assumes "sane_limits cfg"
  shows "snd (tokenBucket_allow (bucket_after cfg t (replicate k t)) t) \<longleftrightarrow> int k < rt_BurstSize cfg"
proof -
  have "refilled (bucket_after cfg t (replicate k t)) t = Fin (of_int (max 0 (rt_BurstSize cfg - int k)))"
    unfolding burst_tokens [OF assms] using assms by (intro full_bucket [OF assms]) (auto simp: sane_limits_def)
  then have "snd (tokenBucket_allow (bucket_after cfg t (replicate k t)) t) \<longleftrightarrow>
      (1 :: rat) \<le> of_int (max 0 (rt_BurstSize cfg - int k))" by (rule allow_verdict)
  also have "\<dots> \<longleftrightarrow> int k < rt_BurstSize cfg" by (simp only: of_int_1_le_iff) auto
  finally show ?thesis .
qed

lemma rate_limit_burst_witness:
  "snd (tokenBucket_allow (bucket_after sample_limits 7 (replicate 0 7)) 7) \<and>
   \<not> snd (tokenBucket_allow (bucket_after sample_limits 7 (replicate 1 7)) 7)"
proof -
  have "sane_limits sample_limits" "rt_BurstSize sample_limits = 1" by code_simp+
  then show ?thesis by (simp add: rate_limit_burst del: replicate.simps)
qed

end
