(* ===== verification/Audit_Log.thy ===== *)
theory Audit_Log
  imports Rate_Limiter Api_Types
begin

text \<open>
  The audit log (\<open>internal/auth/audit.go\<close>, \<open>audit_format.go\<close>, \<open>audit_webhook.go\<close>): the events, the
  logger with its queue, the middleware that turns a served request into an event, the common event
  format, and the batching of the webhook output.  JSON encoding of an event and the text of a time
  are parameters, and so is what the receiver of a webhook answers.  The goroutines that drain the
  two queues are steps of their own.  Metrics and the operational log are left out.
\<close>

section \<open>Events\<close>

type_synonym AuditEventType = string

definition AuditEventSchemaRegister :: AuditEventType where "AuditEventSchemaRegister = ''schema_register''"
definition AuditEventSchemaDeleteSoft :: AuditEventType where "AuditEventSchemaDeleteSoft = ''schema_delete_soft''"
definition AuditEventSchemaDeletePermanent :: AuditEventType where "AuditEventSchemaDeletePermanent = ''schema_delete_permanent''"
definition AuditEventSchemaGet :: AuditEventType where "AuditEventSchemaGet = ''schema_get''"
definition AuditEventSchemaLookup :: AuditEventType where "AuditEventSchemaLookup = ''schema_lookup''"
definition AuditEventSchemaImport :: AuditEventType where "AuditEventSchemaImport = ''schema_import''"
definition AuditEventConfigGet :: AuditEventType where "AuditEventConfigGet = ''config_get''"
definition AuditEventConfigUpdate :: AuditEventType where "AuditEventConfigUpdate = ''config_update''"
definition AuditEventConfigDelete :: AuditEventType where "AuditEventConfigDelete = ''config_delete''"
definition AuditEventModeGet :: AuditEventType where "AuditEventModeGet = ''mode_get''"
definition AuditEventModeUpdate :: AuditEventType where "AuditEventModeUpdate = ''mode_update''"
definition AuditEventModeDelete :: AuditEventType where "AuditEventModeDelete = ''mode_delete''"
definition AuditEventAuthSuccess :: AuditEventType where "AuditEventAuthSuccess = ''auth_success''"
definition AuditEventAuthFailure :: AuditEventType where "AuditEventAuthFailure = ''auth_failure''"
definition AuditEventAuthForbidden :: AuditEventType where "AuditEventAuthForbidden = ''auth_forbidden''"
definition AuditEventSubjectDeleteSoft :: AuditEventType where "AuditEventSubjectDeleteSoft = ''subject_delete_soft''"
definition AuditEventSubjectDeletePermanent :: AuditEventType where "AuditEventSubjectDeletePermanent = ''subject_delete_permanent''"
definition AuditEventSubjectList :: AuditEventType where "AuditEventSubjectList = ''subject_list''"
definition AuditEventUserCreate :: AuditEventType where "AuditEventUserCreate = ''user_create''"
definition AuditEventUserUpdate :: AuditEventType where "AuditEventUserUpdate = ''user_update''"
definition AuditEventUserDelete :: AuditEventType where "AuditEventUserDelete = ''user_delete''"
definition AuditEventPasswordChange :: AuditEventType where "AuditEventPasswordChange = ''password_change''"
definition AuditEventAPIKeyCreate :: AuditEventType where "AuditEventAPIKeyCreate = ''apikey_create''"
definition AuditEventAPIKeyUpdate :: AuditEventType where "AuditEventAPIKeyUpdate = ''apikey_update''"
definition AuditEventAPIKeyDelete :: AuditEventType where "AuditEventAPIKeyDelete = ''apikey_delete''"
definition AuditEventAPIKeyRevoke :: AuditEventType where "AuditEventAPIKeyRevoke = ''apikey_revoke''"
definition AuditEventAPIKeyRotate :: AuditEventType where "AuditEventAPIKeyRotate = ''apikey_rotate''"
definition AuditEventKEKCreate :: AuditEventType where "AuditEventKEKCreate = ''kek_create''"
definition AuditEventKEKUpdate :: AuditEventType where "AuditEventKEKUpdate = ''kek_update''"
definition AuditEventKEKDeleteSoft :: AuditEventType where "AuditEventKEKDeleteSoft = ''kek_delete_soft''"
definition AuditEventKEKDeletePermanent :: AuditEventType where "AuditEventKEKDeletePermanent = ''kek_delete_permanent''"
definition AuditEventKEKUndelete :: AuditEventType where "AuditEventKEKUndelete = ''kek_undelete''"
definition AuditEventKEKTest :: AuditEventType where "AuditEventKEKTest = ''kek_test''"
definition AuditEventDEKCreate :: AuditEventType where "AuditEventDEKCreate = ''dek_create''"
definition AuditEventDEKDeleteSoft :: AuditEventType where "AuditEventDEKDeleteSoft = ''dek_delete_soft''"
definition AuditEventDEKDeletePermanent :: AuditEventType where "AuditEventDEKDeletePermanent = ''dek_delete_permanent''"
definition AuditEventDEKUndelete :: AuditEventType where "AuditEventDEKUndelete = ''dek_undelete''"
definition AuditEventCompatibilityCheck :: AuditEventType where "AuditEventCompatibilityCheck = ''compatibility_check''"
definition AuditEventExporterCreate :: AuditEventType where "AuditEventExporterCreate = ''exporter_create''"
definition AuditEventExporterUpdate :: AuditEventType where "AuditEventExporterUpdate = ''exporter_update''"
definition AuditEventExporterDelete :: AuditEventType where "AuditEventExporterDelete = ''exporter_delete''"
definition AuditEventExporterPause :: AuditEventType where "AuditEventExporterPause = ''exporter_pause''"
definition AuditEventExporterResume :: AuditEventType where "AuditEventExporterResume = ''exporter_resume''"
definition AuditEventExporterReset :: AuditEventType where "AuditEventExporterReset = ''exporter_reset''"
definition AuditEventExporterConfigUpdate :: AuditEventType where "AuditEventExporterConfigUpdate = ''exporter_config_update''"
definition AuditEventServerStartup :: AuditEventType where "AuditEventServerStartup = ''server_startup''"
definition AuditEventServerShutdown :: AuditEventType where "AuditEventServerShutdown = ''server_shutdown''"
definition AuditEventMCPToolCall :: AuditEventType where "AuditEventMCPToolCall = ''mcp_tool_call''"
definition AuditEventMCPToolError :: AuditEventType where "AuditEventMCPToolError = ''mcp_tool_error''"
definition AuditEventMCPAdminAction :: AuditEventType where "AuditEventMCPAdminAction = ''mcp_admin_action''"
definition AuditEventMCPConfirmIssued :: AuditEventType where "AuditEventMCPConfirmIssued = ''mcp_confirm_issued''"
definition AuditEventMCPConfirmRejected :: AuditEventType where "AuditEventMCPConfirmRejected = ''mcp_confirm_rejected''"
definition AuditEventMCPConfirmed :: AuditEventType where "AuditEventMCPConfirmed = ''mcp_confirmed''"
definition AuditEventSecurityWarning :: AuditEventType where "AuditEventSecurityWarning = ''security_warning''"
definition AuditEventAuthLDAPFallback :: AuditEventType where "AuditEventAuthLDAPFallback = ''auth_ldap_fallback''"

record AuditEvent =
  ev_Timestamp :: go_time
  ev_Duration :: int
  ev_EventType :: AuditEventType
  ev_Outcome :: string
  ev_ActorID :: string
  ev_ActorType :: string
  ev_Role :: string
  ev_AuthMethod :: string
  ev_TargetType :: string
  ev_TargetID :: string
  ev_SchemaID :: int
  ev_Version :: int
  ev_SchemaType :: string
  ev_BeforeHash :: string
  ev_AfterHash :: string
  ev_Context :: string
  ev_RequestID :: string
  ev_TransportSecurity :: string
  ev_SourceIP :: string
  ev_UserAgent :: string
  ev_Method :: string
  ev_Path :: string
  ev_StatusCode :: int
  ev_Reason :: string
  ev_Error :: string
  ev_RequestBody :: string
  ev_Metadata :: "(string, string) gomap option"

definition AuditEvent_zero :: AuditEvent where
  "AuditEvent_zero =
     \<lparr>ev_Timestamp = 0, ev_Duration = 0, ev_EventType = [], ev_Outcome = [], ev_ActorID = [], ev_ActorType = [],
      ev_Role = [], ev_AuthMethod = [], ev_TargetType = [], ev_TargetID = [], ev_SchemaID = 0, ev_Version = 0,
      ev_SchemaType = [], ev_BeforeHash = [], ev_AfterHash = [], ev_Context = [], ev_RequestID = [],
      ev_TransportSecurity = [], ev_SourceIP = [], ev_UserAgent = [], ev_Method = [], ev_Path = [],
      ev_StatusCode = 0, ev_Reason = [], ev_Error = [], ev_RequestBody = [], ev_Metadata = None\<rparr>"

record AuditHints =
  hn_BeforeHash :: string
  hn_AfterHash :: string
  hn_SchemaType :: string
  hn_SchemaID :: int
  hn_Version :: int
  hn_Context :: string
  hn_Outcome :: string
  hn_Reason :: string
  hn_TargetType :: string
  hn_TargetID :: string
  hn_ActorID :: string
  hn_ActorType :: string
  hn_Role :: string
  hn_AuthMethod :: string
  hn_SuppressEvent :: bool

definition AuditHints_zero :: AuditHints where
  "AuditHints_zero =
     \<lparr>hn_BeforeHash = [], hn_AfterHash = [], hn_SchemaType = [], hn_SchemaID = 0, hn_Version = 0, hn_Context = [],
      hn_Outcome = [], hn_Reason = [], hn_TargetType = [], hn_TargetID = [], hn_ActorID = [], hn_ActorType = [],
      hn_Role = [], hn_AuthMethod = [], hn_SuppressEvent = False\<rparr>"

section \<open>The common event format\<close>

definition replace_char :: "char \<Rightarrow> string \<Rightarrow> string \<Rightarrow> string" where
  "replace_char c rep s = concat (map (\<lambda>d. if d = c then rep else [d]) s)"

abbreviation Backslash :: char where "Backslash \<equiv> CHR 0x5C"
abbreviation Newline :: char where "Newline \<equiv> CHR 0x0A"
abbreviation Return :: char where "Return \<equiv> CHR 0x0D"

definition cefEscapeHeader :: "string \<Rightarrow> string" where
  "cefEscapeHeader s =
     replace_char (CHR ''|'') [Backslash, CHR ''|''] (replace_char Backslash [Backslash, Backslash] s)"

definition cefEscapeExtValue :: "string \<Rightarrow> string" where
  "cefEscapeExtValue s =
     replace_char Return [Backslash, CHR ''r'']
       (replace_char Newline [Backslash, CHR ''n'']
          (replace_char (CHR ''='') [Backslash, CHR ''='']
             (replace_char Backslash [Backslash, Backslash] s)))"

definition writeExtField :: "string \<Rightarrow> string \<Rightarrow> string \<Rightarrow> string" where
  "writeExtField b key val = b @ (if b \<noteq> [] then '' '' else []) @ key @ ''='' @ cefEscapeExtValue val"

definition cefSeverity :: "AuditEvent \<Rightarrow> int" where
  "cefSeverity event =
     (if ev_Outcome event = ''failure''
      then (if ev_EventType event \<in> set [AuditEventAuthFailure, AuditEventAuthForbidden] then 8 else 5)
      else if ev_EventType event \<in> set [AuditEventAuthFailure, AuditEventAuthForbidden] then 8
      else if ev_EventType event \<in> set
     [AuditEventSchemaRegister, AuditEventSchemaDeleteSoft, AuditEventSchemaDeletePermanent,
      AuditEventSubjectDeleteSoft, AuditEventSubjectDeletePermanent, AuditEventConfigUpdate,
      AuditEventConfigDelete, AuditEventModeUpdate, AuditEventModeDelete,
      AuditEventSchemaImport, AuditEventCompatibilityCheck, AuditEventUserCreate,
      AuditEventUserUpdate, AuditEventUserDelete, AuditEventPasswordChange,
      AuditEventAPIKeyCreate, AuditEventAPIKeyUpdate, AuditEventAPIKeyDelete,
      AuditEventAPIKeyRevoke, AuditEventAPIKeyRotate, AuditEventKEKCreate,
      AuditEventKEKUpdate, AuditEventKEKDeleteSoft, AuditEventKEKDeletePermanent,
      AuditEventKEKUndelete, AuditEventKEKTest, AuditEventDEKCreate,
      AuditEventDEKDeleteSoft, AuditEventDEKDeletePermanent, AuditEventDEKUndelete,
      AuditEventExporterCreate, AuditEventExporterUpdate, AuditEventExporterDelete,
      AuditEventExporterPause, AuditEventExporterResume, AuditEventExporterReset,
      AuditEventExporterConfigUpdate, AuditEventServerStartup, AuditEventServerShutdown,
      AuditEventMCPToolCall, AuditEventMCPToolError, AuditEventMCPAdminAction,
      AuditEventMCPConfirmIssued, AuditEventMCPConfirmRejected, AuditEventMCPConfirmed]
      then 5
      else 3)"

definition cefDescriptions :: "(AuditEventType \<times> string) list" where
  "cefDescriptions =
     [(AuditEventSchemaRegister, ''Schema registered''),
      (AuditEventSchemaDeleteSoft, ''Schema soft-deleted''),
      (AuditEventSchemaDeletePermanent, ''Schema permanently deleted''),
      (AuditEventSchemaGet, ''Schema retrieved''),
      (AuditEventSchemaLookup, ''Schema lookup''),
      (AuditEventSchemaImport, ''Schema imported''),
      (AuditEventConfigGet, ''Config retrieved''),
      (AuditEventConfigUpdate, ''Config updated''),
      (AuditEventConfigDelete, ''Config deleted''),
      (AuditEventModeGet, ''Mode retrieved''),
      (AuditEventModeUpdate, ''Mode updated''),
      (AuditEventModeDelete, ''Mode deleted''),
      (AuditEventAuthSuccess, ''Authentication succeeded''),
      (AuditEventAuthFailure, ''Authentication failed''),
      (AuditEventAuthForbidden, ''Access forbidden''),
      (AuditEventSubjectDeleteSoft, ''Subject soft-deleted''),
      (AuditEventSubjectDeletePermanent, ''Subject permanently deleted''),
      (AuditEventSubjectList, ''Subjects listed''),
      (AuditEventUserCreate, ''User created''),
      (AuditEventUserUpdate, ''User updated''),
      (AuditEventUserDelete, ''User deleted''),
      (AuditEventPasswordChange, ''Password changed''),
      (AuditEventAPIKeyCreate, ''API key created''),
      (AuditEventAPIKeyUpdate, ''API key updated''),
      (AuditEventAPIKeyDelete, ''API key deleted''),
      (AuditEventAPIKeyRevoke, ''API key revoked''),
      (AuditEventAPIKeyRotate, ''API key rotated''),
      (AuditEventKEKCreate, ''KEK created''),
      (AuditEventKEKUpdate, ''KEK updated''),
      (AuditEventKEKDeleteSoft, ''KEK soft-deleted''),
      (AuditEventKEKDeletePermanent, ''KEK permanently deleted''),
      (AuditEventKEKUndelete, ''KEK undeleted''),
      (AuditEventKEKTest, ''KEK tested''),
      (AuditEventDEKCreate, ''DEK created''),
      (AuditEventDEKDeleteSoft, ''DEK soft-deleted''),
      (AuditEventDEKDeletePermanent, ''DEK permanently deleted''),
      (AuditEventDEKUndelete, ''DEK undeleted''),
      (AuditEventExporterCreate, ''Exporter created''),
      (AuditEventExporterUpdate, ''Exporter updated''),
      (AuditEventExporterDelete, ''Exporter deleted''),
      (AuditEventExporterPause, ''Exporter paused''),
      (AuditEventExporterResume, ''Exporter resumed''),
      (AuditEventExporterReset, ''Exporter reset''),
      (AuditEventExporterConfigUpdate, ''Exporter config updated''),
      (AuditEventCompatibilityCheck, ''Compatibility check''),
      (AuditEventServerStartup, ''Server started''),
      (AuditEventServerShutdown, ''Server stopped''),
      (AuditEventMCPToolCall, ''MCP tool call''),
      (AuditEventMCPToolError, ''MCP tool error''),
      (AuditEventMCPAdminAction, ''MCP admin action''),
      (AuditEventMCPConfirmIssued, ''MCP confirmation issued''),
      (AuditEventMCPConfirmRejected, ''MCP confirmation rejected''),
      (AuditEventMCPConfirmed, ''MCP action confirmed'')]"

definition cefDescription :: "AuditEvent \<Rightarrow> string" where
  "cefDescription event =
     (case map_of cefDescriptions (ev_EventType event) of Some d \<Rightarrow> d | None \<Rightarrow> ev_EventType event)"

definition Milliseconds :: "int \<Rightarrow> int" where
  "Milliseconds d = sgn d * (\<bar>d\<bar> div 1000000)"

text \<open>The extension fields in the order they are written.\<close>

definition labelled :: "bool \<Rightarrow> string \<Rightarrow> string \<Rightarrow> string \<Rightarrow> (string \<times> string) list" where
  "labelled present key val lab = (if present then [(key, val), (key @ ''Label'', lab)] else [])"

definition plain :: "string \<Rightarrow> string \<Rightarrow> (string \<times> string) list" where
  "plain key val = (if val \<noteq> [] then [(key, val)] else [])"

definition cef_fields :: "(go_time \<Rightarrow> string) \<Rightarrow> AuditEvent \<Rightarrow> (string \<times> string) list" where
  "cef_fields rfc3339 e =
     [(''rt'', rfc3339 (ev_Timestamp e)), (''outcome'', ev_Outcome e)] @
     plain ''suser'' (ev_ActorID e) @
     labelled (ev_ActorType e \<noteq> []) ''cs1'' (ev_ActorType e) ''actorType'' @
     labelled (ev_AuthMethod e \<noteq> []) ''cs2'' (ev_AuthMethod e) ''authMethod'' @
     labelled (ev_Role e \<noteq> []) ''cs3'' (ev_Role e) ''role'' @
     labelled (ev_TargetType e \<noteq> []) ''cs4'' (ev_TargetType e) ''targetType'' @
     labelled (ev_TargetID e \<noteq> []) ''cs5'' (ev_TargetID e) ''targetID'' @
     plain ''src'' (ev_SourceIP e) @
     plain ''requestClientApplication'' (ev_UserAgent e) @
     [(''requestMethod'', ev_Method e), (''request'', ev_Path e)] @
     labelled (ev_StatusCode e \<noteq> 0) ''cn1'' (Itoa (ev_StatusCode e)) ''statusCode'' @
     labelled (ev_SchemaID e \<noteq> 0) ''cn2'' (Itoa (ev_SchemaID e)) ''schemaID'' @
     labelled (ev_Duration e > 0) ''cn3'' (Itoa (Milliseconds (ev_Duration e))) ''durationMs'' @
     labelled (ev_Context e \<noteq> []) ''cs6'' (ev_Context e) ''context'' @
     plain ''reason'' (ev_Reason e) @
     plain ''msg'' (ev_Error e) @
     plain ''oldFileHash'' (ev_BeforeHash e) @
     plain ''fileHash'' (ev_AfterHash e) @
     plain ''externalId'' (ev_RequestID e)"

definition write_fields :: "(string \<times> string) list \<Rightarrow> string" where
  "write_fields kvs = fold (\<lambda>(key, val) b. writeExtField b key val) kvs []"

definition FormatCEF :: "(go_time \<Rightarrow> string) \<Rightarrow> AuditEvent \<Rightarrow> string" where
  "FormatCEF rfc3339 event =
     ''CEF:0|AxonOps|SchemaRegistry|1.0|'' @ cefEscapeHeader (ev_EventType event) @ ''|'' @
     cefEscapeHeader (cefDescription event) @ ''|'' @ Itoa (cefSeverity event) @ ''|'' @
     write_fields (cef_fields rfc3339 event) @ [Newline]"

definition FormatJSON :: "(AuditEvent \<Rightarrow> string option) \<Rightarrow> AuditEvent \<Rightarrow> string option" where
  "FormatJSON marshal event = map_option (\<lambda>data. data @ [Newline]) (marshal event)"

section \<open>The logger\<close>

text \<open>
  An output with its format, and what has been handed to its \<open>Write\<close> so far.  The queue is \<open>None\<close> in
  the synchronous logger of the tests, otherwise the waiting events; its capacity is fixed.
\<close>

record formattedOutput =
  fo_name :: string
  fo_formatType :: string
  fo_sent :: "string list"

record AuditConfig =
  ac_Enabled :: bool
  ac_Events :: "string list"
  ac_IncludeBody :: bool
  ac_BufferSize :: int
  ac_LogFile :: string
  ac_outputs :: "(string \<times> string) list"

record AuditLogger =
  al_config :: AuditConfig
  al_outputs :: "formattedOutput list"
  al_enabledEvents :: "AuditEventType list"
  al_ch :: "AuditEvent list option"
  al_capacity :: nat

record audit_codec =
  cd_rfc3339 :: "go_time \<Rightarrow> string"
  cd_marshal :: "AuditEvent \<Rightarrow> string option"

definition setDefaultEnabledEvents :: "AuditEventType list" where
  "setDefaultEnabledEvents =
     [AuditEventSchemaRegister, AuditEventSchemaDeleteSoft, AuditEventSchemaDeletePermanent,
      AuditEventSchemaImport, AuditEventSchemaLookup, AuditEventCompatibilityCheck,
      AuditEventConfigUpdate, AuditEventConfigDelete, AuditEventModeUpdate,
      AuditEventModeDelete, AuditEventAuthFailure, AuditEventAuthForbidden,
      AuditEventSubjectDeleteSoft, AuditEventSubjectDeletePermanent, AuditEventUserCreate,
      AuditEventUserUpdate, AuditEventUserDelete, AuditEventPasswordChange,
      AuditEventAPIKeyCreate, AuditEventAPIKeyUpdate, AuditEventAPIKeyDelete,
      AuditEventAPIKeyRevoke, AuditEventAPIKeyRotate, AuditEventKEKCreate,
      AuditEventKEKUpdate, AuditEventKEKDeleteSoft, AuditEventKEKDeletePermanent,
      AuditEventKEKUndelete, AuditEventKEKTest, AuditEventDEKCreate,
      AuditEventDEKDeleteSoft, AuditEventDEKDeletePermanent, AuditEventDEKUndelete,
      AuditEventExporterCreate, AuditEventExporterUpdate, AuditEventExporterDelete,
      AuditEventExporterPause, AuditEventExporterResume, AuditEventExporterReset,
      AuditEventExporterConfigUpdate, AuditEventServerStartup, AuditEventServerShutdown,
      AuditEventMCPToolCall, AuditEventMCPToolError, AuditEventMCPAdminAction,
      AuditEventMCPConfirmIssued, AuditEventMCPConfirmRejected, AuditEventMCPConfirmed,
      AuditEventSecurityWarning, AuditEventAuthLDAPFallback]"

definition enabled_events :: "AuditConfig \<Rightarrow> AuditEventType list" where
  "enabled_events cfg = (if ac_Events cfg = [] then setDefaultEnabledEvents else ac_Events cfg)"

definition normalizeFormat :: "string \<Rightarrow> string" where
  "normalizeFormat f = (if f = ''cef'' then ''cef'' else ''json'')"

definition new_output :: "string \<Rightarrow> string \<Rightarrow> formattedOutput" where
  "new_output name formatType = \<lparr>fo_name = name, fo_formatType = formatType, fo_sent = []\<rparr>"

text \<open>
  The configured outputs, as names and formats in the order standard output, file, syslog, webhook;
  opening them is left out.
\<close>

definition NewAuditLogger :: "AuditConfig \<Rightarrow> AuditLogger" where
  "NewAuditLogger cfg =
     \<lparr>al_config = cfg,
      al_outputs = (if ac_outputs cfg \<noteq> [] then map (\<lambda>(name, f). new_output name (normalizeFormat f)) (ac_outputs cfg)
                    else if ac_LogFile cfg \<noteq> [] then [new_output ''file'' ''json'']
                    else [new_output ''stdout'' ''json'']),
      al_enabledEvents = enabled_events cfg,
      al_ch = Some [],
      al_capacity = nat (if ac_BufferSize cfg \<le> 0 then 10000 else ac_BufferSize cfg)\<rparr>"

definition NewAuditLoggerWithWriter :: "AuditConfig \<Rightarrow> AuditLogger" where
  "NewAuditLoggerWithWriter cfg =
     \<lparr>al_config = cfg, al_outputs = [new_output ''writer'' ''json''], al_enabledEvents = enabled_events cfg,
      al_ch = None, al_capacity = 0\<rparr>"

text \<open>An event that cannot be encoded as JSON ends the loop over the outputs.\<close>

fun write_outputs :: "audit_codec \<Rightarrow> AuditEvent \<Rightarrow> formattedOutput list \<Rightarrow> formattedOutput list" where
  "write_outputs cd event [] = []"
| "write_outputs cd event (fo # fos) =
     (if fo_formatType fo = ''cef''
      then fo\<lparr>fo_sent := fo_sent fo @ [FormatCEF (cd_rfc3339 cd) event]\<rparr> # write_outputs cd event fos
      else case FormatJSON (cd_marshal cd) event of
             None \<Rightarrow> fo # fos
           | Some data \<Rightarrow> fo\<lparr>fo_sent := fo_sent fo @ [data]\<rparr> # write_outputs cd event fos)"

definition AuditLogger_writeEvent :: "audit_codec \<Rightarrow> AuditLogger \<Rightarrow> AuditEvent \<Rightarrow> AuditLogger" where
  "AuditLogger_writeEvent cd al event = al\<lparr>al_outputs := write_outputs cd event (al_outputs al)\<rparr>"

definition AuditLogger_Log :: "audit_codec \<Rightarrow> AuditLogger \<Rightarrow> AuditEvent \<Rightarrow> AuditLogger" where
  "AuditLogger_Log cd al event =
     (if \<not> ac_Enabled (al_config al) then al
      else if ev_EventType event \<notin> set (al_enabledEvents al) then al
      else case al_ch al of
             Some ch \<Rightarrow> if length ch < al_capacity al then al\<lparr>al_ch := Some (ch @ [event])\<rparr> else al
           | None \<Rightarrow> AuditLogger_writeEvent cd al event)"

text \<open>One pass of the drain loop, and what it does once the logger is closed.\<close>

definition AuditLogger_drain :: "audit_codec \<Rightarrow> AuditLogger \<Rightarrow> AuditLogger" where
  "AuditLogger_drain cd al =
     (case al_ch al of
        Some (event # ch) \<Rightarrow> AuditLogger_writeEvent cd (al\<lparr>al_ch := Some ch\<rparr>) event
      | _ \<Rightarrow> al)"

definition AuditLogger_drain_rest :: "audit_codec \<Rightarrow> AuditLogger \<Rightarrow> AuditLogger" where
  "AuditLogger_drain_rest cd al =
     (case al_ch al of
        None \<Rightarrow> al
      | Some ch \<Rightarrow> fold (\<lambda>event al. AuditLogger_writeEvent cd al event) ch (al\<lparr>al_ch := Some []\<rparr>))"

section \<open>From a request to an event\<close>

text \<open>The request as the middleware sees it; the certificates of the peer are counted.\<close>

record audit_request = http_request +
  ar_Query :: query
  ar_TLS :: "nat option"
  ar_UserAgent :: string
  ar_RequestID :: string
  ar_User :: "User option"
  ar_Body :: "string option"

definition TransportSecurityFromRequest :: "audit_request \<Rightarrow> string" where
  "TransportSecurityFromRequest r =
     (case ar_TLS r of None \<Rightarrow> ''none'' | Some n \<Rightarrow> if n > 0 then ''mtls'' else ''tls'')"

definition actorTypeFromAuthMethod :: "string \<Rightarrow> string" where
  "actorTypeFromAuthMethod am =
     (if am = ''api_key'' then ''api_key''
      else if am \<in> {''basic'', ''jwt'', ''oidc'', ''ldap'', ''ldap_fallback''} then ''user''
      else ''anonymous'')"

definition outcomeFromStatusCode :: "nat \<Rightarrow> string" where
  "outcomeFromStatusCode statusCode = (if 200 \<le> statusCode \<and> statusCode < 400 then ''success'' else ''failure'')"

definition reasonFromStatusCode :: "nat \<Rightarrow> string" where
  "reasonFromStatusCode statusCode =
     (if 200 \<le> statusCode \<and> statusCode < 400 then []
      else if statusCode = 401 then ''no_valid_credentials''
      else if statusCode = 403 then ''permission_denied''
      else if statusCode = 404 then ''not_found''
      else if statusCode = 409 then ''already_exists''
      else if statusCode = 400 then ''validation_error''
      else if statusCode = 422 then ''invalid_schema''
      else if statusCode = 429 then ''rate_limited''
      else if statusCode \<ge> 500 then ''internal_error''
      else [])"

text \<open>The tests of \<open>determineEventType\<close> in their order; a \<open>switch\<close> without a matching case falls through.\<close>

definition on_test :: "bool \<Rightarrow> AuditEventType \<Rightarrow> AuditEventType option" where
  "on_test b e = (if b then Some e else None)"

definition by_verb :: "bool \<Rightarrow> string \<Rightarrow> (string \<times> AuditEventType) list \<Rightarrow> AuditEventType option" where
  "by_verb b verb cases = (if b then map_of cases verb else None)"

definition first_match :: "AuditEventType option list \<Rightarrow> AuditEventType" where
  "first_match tests = (case List.find (\<lambda>t. t \<noteq> None) tests of Some (Some e) \<Rightarrow> e | _ \<Rightarrow> [])"

definition event_tests :: "string \<Rightarrow> string \<Rightarrow> bool \<Rightarrow> nat \<Rightarrow> AuditEventType option list" where
  "event_tests path verb permanent statusCode =
     (let has = Contains path;
          versioned = has ''/subjects/'' \<and> has ''/versions'';
          unversioned = has ''/subjects/'' \<and> \<not> has ''/versions'';
          keks = has ''/dek-registry/v1/keks''
      in [on_test (statusCode = 401) AuditEventAuthFailure,
          on_test (statusCode = 403) AuditEventAuthForbidden,
          on_test (has ''/import/'' \<and> verb = ''POST'') AuditEventSchemaImport,
          on_test (has ''/compatibility/'' \<and> verb = ''POST'') AuditEventCompatibilityCheck,
          by_verb versioned verb
            [(''POST'', AuditEventSchemaRegister),
             (''DELETE'', if permanent then AuditEventSchemaDeletePermanent else AuditEventSchemaDeleteSoft),
             (''GET'', AuditEventSchemaGet)],
          on_test (unversioned \<and> verb = ''POST'') AuditEventSchemaLookup,
          on_test (has ''/schemas/ids/'') AuditEventSchemaGet,
          on_test (unversioned \<and> verb = ''DELETE'')
            (if permanent then AuditEventSubjectDeletePermanent else AuditEventSubjectDeleteSoft),
          on_test (path = ''/subjects'' \<and> verb = ''GET'') AuditEventSubjectList,
          by_verb (has ''/admin/users'') verb
            [(''POST'', AuditEventUserCreate), (''PUT'', AuditEventUserUpdate), (''DELETE'', AuditEventUserDelete)],
          on_test (has ''/me/password'' \<and> verb = ''POST'') AuditEventPasswordChange,
          on_test (has ''/admin/apikeys'' \<and> has ''/revoke'' \<and> verb = ''POST'') AuditEventAPIKeyRevoke,
          on_test (has ''/admin/apikeys'' \<and> has ''/rotate'' \<and> verb = ''POST'') AuditEventAPIKeyRotate,
          by_verb (has ''/admin/apikeys'') verb
            [(''POST'', AuditEventAPIKeyCreate), (''PUT'', AuditEventAPIKeyUpdate), (''DELETE'', AuditEventAPIKeyDelete)],
          by_verb (keks \<and> has ''/deks/'') verb
            [(''POST'', if has ''/undelete'' then AuditEventDEKUndelete else AuditEventDEKCreate),
             (''DELETE'', if permanent then AuditEventDEKDeletePermanent else AuditEventDEKDeleteSoft)],
          on_test (keks \<and> \<not> has ''/deks/'' \<and> has ''/deks'' \<and> verb = ''POST'') AuditEventDEKCreate,
          on_test (keks \<and> \<not> has ''/deks'' \<and> has ''/test'' \<and> verb = ''POST'') AuditEventKEKTest,
          by_verb (keks \<and> \<not> has ''/deks'') verb
            [(''POST'', if has ''/undelete'' then AuditEventKEKUndelete else AuditEventKEKCreate),
             (''PUT'', AuditEventKEKUpdate),
             (''DELETE'', if permanent then AuditEventKEKDeletePermanent else AuditEventKEKDeleteSoft)],
          on_test (has ''/exporters'' \<and> has ''/pause'' \<and> verb = ''PUT'') AuditEventExporterPause,
          on_test (has ''/exporters'' \<and> has ''/resume'' \<and> verb = ''PUT'') AuditEventExporterResume,
          on_test (has ''/exporters'' \<and> has ''/reset'' \<and> verb = ''PUT'') AuditEventExporterReset,
          on_test (has ''/exporters'' \<and> has ''/config'' \<and> verb = ''PUT'') AuditEventExporterConfigUpdate,
          by_verb (has ''/exporters'') verb
            [(''POST'', AuditEventExporterCreate), (''PUT'', AuditEventExporterUpdate),
             (''DELETE'', AuditEventExporterDelete)],
          by_verb (has ''/config'') verb
            [(''GET'', AuditEventConfigGet), (''PUT'', AuditEventConfigUpdate), (''DELETE'', AuditEventConfigDelete)],
          by_verb (has ''/mode'') verb
            [(''GET'', AuditEventModeGet), (''PUT'', AuditEventModeUpdate), (''DELETE'', AuditEventModeDelete)]])"

definition determineEventType :: "audit_request \<Rightarrow> nat \<Rightarrow> AuditEventType" where
  "determineEventType r statusCode =
     first_match (event_tests (hr_Path r) (hr_Method r) (query_true (ar_Query r) ''permanent'') statusCode)"

text \<open>The targets are cut out of the path at fixed offsets.\<close>

definition segment :: "nat \<Rightarrow> string \<Rightarrow> string" where
  "segment start path = takeWhile (\<lambda>c. c \<noteq> CHR ''/'') (drop start path)"

definition extractSubject :: "string \<Rightarrow> string" where
  "extractSubject path =
     (if Contains path ''/subjects/'' \<and> 10 < length path then segment 10 path
      else if length path > 8 \<and> Contains path ''/config/'' \<and> segment 8 path \<noteq> [] then segment 8 path
      else if length path > 6 \<and> Contains path ''/mode/'' \<and> segment 6 path \<noteq> [] then segment 6 path
      else [])"

definition prefixed_target :: "string \<Rightarrow> string \<Rightarrow> string" where
  "prefixed_target path pre =
     (if \<not> Contains path pre \<or> length path \<le> length pre then [] else segment (length pre) path)"

definition extractKEKDEKTarget :: "string \<Rightarrow> string \<times> string" where
  "extractKEKDEKTarget path =
     (let pre = ''/dek-registry/v1/keks/''
      in if \<not> Contains path pre \<or> length path \<le> length pre then (''kek'', [])
         else (if Contains (drop (length pre) path) ''/deks'' then ''dek'' else ''kek'', prefixed_target path pre))"

definition extractExporterTarget :: "string \<Rightarrow> string \<times> string" where
  "extractExporterTarget path = (''exporter'', prefixed_target path ''/exporters/'')"

definition extractAdminTarget :: "string \<Rightarrow> string \<Rightarrow> string \<Rightarrow> string \<times> string" where
  "extractAdminTarget path pre targetType = (targetType, prefixed_target path pre)"

definition subject_or_global :: "string \<Rightarrow> string \<Rightarrow> string \<times> string" where
  "subject_or_global targetType path =
     (let subject = extractSubject path in (targetType, if subject \<noteq> [] then subject else ''_global''))"

definition extractTarget :: "string \<Rightarrow> string \<times> string" where
  "extractTarget path =
     (let has = Contains path
      in if has ''/subjects/''
         then (if extractSubject path \<noteq> [] then (''subject'', extractSubject path) else ([], []))
         else if has ''/schemas/ids/''
         then (if 13 < length path then (''schema'', segment 13 path) else ([], []))
         else if has ''/config'' then subject_or_global ''config'' path
         else if has ''/mode'' then subject_or_global ''mode'' path
         else if has ''/dek-registry/v1/keks'' then extractKEKDEKTarget path
         else if has ''/exporters'' then extractExporterTarget path
         else if has ''/admin/users'' then extractAdminTarget path ''/admin/users/'' ''user''
         else if has ''/admin/apikeys'' then extractAdminTarget path ''/admin/apikeys/'' ''apikey''
         else if has ''/import/'' then (''schema'', [])
         else ([], []))"

text \<open>Who acted: the hints of the authentication middleware, or the user of the request.\<close>

definition actor_of :: "AuditHints option \<Rightarrow> User option \<Rightarrow> string \<times> string \<times> string \<times> string" where
  "actor_of hints user =
     (case hints of
        Some h \<Rightarrow>
          if hn_ActorType h \<noteq> [] then (hn_ActorID h, hn_ActorType h, hn_Role h, hn_AuthMethod h)
          else (case user of
                  Some u \<Rightarrow> (au_Username u, actorTypeFromAuthMethod (au_Method u), au_Role u, au_Method u)
                | None \<Rightarrow> ([], ''anonymous'', [], []))
      | None \<Rightarrow>
          (case user of
             Some u \<Rightarrow> (au_Username u, actorTypeFromAuthMethod (au_Method u), au_Role u, au_Method u)
           | None \<Rightarrow> ([], ''anonymous'', [], [])))"

definition audited_body :: "AuditConfig \<Rightarrow> audit_request \<Rightarrow> string" where
  "audited_body cfg r =
     (case ar_Body r of
        Some body \<Rightarrow>
          if ac_IncludeBody cfg then (if length body > 1000 then take 1000 body @ ''...'' else body) else []
      | None \<Rightarrow> [])"

text \<open>
  The event of a request that was answered with a status and left hints; \<open>None\<close> where the middleware
  logs nothing.
\<close>

definition request_event ::
  "AuditConfig \<Rightarrow> audit_request \<Rightarrow> go_time \<Rightarrow> int \<Rightarrow> nat \<Rightarrow> AuditHints \<Rightarrow> AuditEvent option" where
  "request_event cfg r start dur status hints =
     (let eventType = determineEventType r status;
          (actorID, actorType, role, authMethod) = actor_of (Some hints) (ar_User r);
          (targetType, targetID) = extractTarget (hr_Path r)
      in if eventType = [] \<or> hn_SuppressEvent hints then None
         else Some \<lparr>ev_Timestamp = start, ev_Duration = dur, ev_EventType = eventType,
           ev_Outcome = (if hn_Outcome hints \<noteq> [] then hn_Outcome hints else outcomeFromStatusCode status),
           ev_ActorID = actorID, ev_ActorType = actorType, ev_Role = role, ev_AuthMethod = authMethod,
           ev_TargetType = (if hn_TargetType hints \<noteq> [] then hn_TargetType hints else targetType),
           ev_TargetID = (if hn_TargetID hints \<noteq> [] then hn_TargetID hints else targetID),
           ev_SchemaID = hn_SchemaID hints, ev_Version = hn_Version hints, ev_SchemaType = hn_SchemaType hints,
           ev_BeforeHash = hn_BeforeHash hints, ev_AfterHash = hn_AfterHash hints,
           ev_Context = (if hn_Context hints \<noteq> [] then hn_Context hints else ''.''),
           ev_RequestID = ar_RequestID r, ev_TransportSecurity = TransportSecurityFromRequest r,
           ev_SourceIP = GetClientIP (http_request.truncate r), ev_UserAgent = ar_UserAgent r,
           ev_Method = hr_Method r, ev_Path = hr_Path r, ev_StatusCode = int status,
           ev_Reason = (if hn_Reason hints \<noteq> [] then hn_Reason hints else reasonFromStatusCode status),
           ev_Error = [], ev_RequestBody = audited_body cfg r, ev_Metadata = None\<rparr>)"

definition AuditLogger_Middleware ::
  "audit_codec \<Rightarrow> AuditLogger \<Rightarrow> audit_request \<Rightarrow> go_time \<Rightarrow> int \<Rightarrow> nat \<Rightarrow> AuditHints \<Rightarrow> AuditLogger" where
  "AuditLogger_Middleware cd al r start dur status hints =
     (if \<not> ac_Enabled (al_config al) then al
      else case request_event (al_config al) r start dur status hints of
             None \<Rightarrow> al | Some event \<Rightarrow> AuditLogger_Log cd al event)"

section \<open>Events logged directly\<close>

definition ascii_lower :: "string \<Rightarrow> string" where
  "ascii_lower s = map lower_byte s"

definition classifyMCPError :: "string \<Rightarrow> string" where
  "classifyMCPError errMsg =
     (let has = Contains (ascii_lower errMsg)
      in if has ''not found'' then ''not_found''
         else if has ''permission'' \<or> has ''forbidden'' \<or> has ''unauthorized'' then ''permission_denied''
         else if has ''already exists'' \<or> has ''duplicate'' then ''already_exists''
         else if has ''invalid schema'' \<or> has ''parse'' then ''invalid_schema''
         else if has ''incompatible'' then ''incompatible''
         else if has ''invalid'' \<or> has ''required'' \<or> has ''missing'' then ''validation_error''
         else ''internal_error'')"

definition AuditLogger_LogEvent ::
  "audit_codec \<Rightarrow> AuditLogger \<Rightarrow> AuditEventType \<Rightarrow> audit_request \<Rightarrow> AuditHints option \<Rightarrow> go_time \<Rightarrow> nat \<Rightarrow>
     string option \<Rightarrow> AuditLogger" where
  "AuditLogger_LogEvent cd al eventType r hints now status err =
     (let (actorID, actorType, role, authMethod) = actor_of hints (ar_User r);
          (targetType, targetID) = extractTarget (hr_Path r)
      in if \<not> ac_Enabled (al_config al) then al
         else AuditLogger_Log cd al (AuditEvent_zero\<lparr>ev_Timestamp := now, ev_EventType := eventType,
           ev_Outcome := outcomeFromStatusCode status, ev_ActorID := actorID, ev_ActorType := actorType,
           ev_Role := role, ev_AuthMethod := authMethod, ev_TargetType := targetType, ev_TargetID := targetID,
           ev_TransportSecurity := TransportSecurityFromRequest r, ev_SourceIP := GetClientIP (http_request.truncate r),
           ev_UserAgent := ar_UserAgent r, ev_Method := hr_Method r, ev_Path := hr_Path r,
           ev_StatusCode := int status, ev_Reason := reasonFromStatusCode status,
           ev_Error := (case err of Some e \<Rightarrow> e | None \<Rightarrow> [])\<rparr>))"

definition AuditLogger_LogMCPEvent ::
  "audit_codec \<Rightarrow> AuditLogger \<Rightarrow> AuditEventType \<Rightarrow> string \<Rightarrow> string \<Rightarrow> string \<Rightarrow> string \<Rightarrow> string \<Rightarrow> go_time \<Rightarrow>
     int \<Rightarrow> string option \<Rightarrow> string \<Rightarrow> string \<Rightarrow> (string, string) gomap option \<Rightarrow> AuditLogger" where
  "AuditLogger_LogMCPEvent cd al eventType actorID actorType authMethod toolName status now dur err subject
     registryCtx meta =
     (if \<not> ac_Enabled (al_config al) then al
      else AuditLogger_Log cd al (AuditEvent_zero\<lparr>ev_Timestamp := now, ev_Duration := dur, ev_EventType := eventType,
        ev_Outcome := (if err \<noteq> None \<or> status = ''error'' then ''failure'' else ''success''),
        ev_ActorID := actorID, ev_ActorType := actorType, ev_AuthMethod := authMethod,
        ev_TargetType := (if subject \<noteq> [] then ''subject'' else []), ev_TargetID := subject,
        ev_Method := ''MCP'', ev_Path := toolName, ev_Context := registryCtx,
        ev_Reason := (case err of Some e \<Rightarrow> classifyMCPError e
                      | None \<Rightarrow> if status = ''error'' then ''internal_error'' else []),
        ev_Error := (case err of Some e \<Rightarrow> e | None \<Rightarrow> []), ev_Metadata := meta\<rparr>))"

definition AuditLogger_LogMCPConfirmationEvent ::
  "audit_codec \<Rightarrow> AuditLogger \<Rightarrow> AuditEventType \<Rightarrow> string \<Rightarrow> string \<Rightarrow> string \<Rightarrow> string \<Rightarrow> go_time \<Rightarrow> string \<Rightarrow>
     (string, string) gomap option \<Rightarrow> AuditLogger" where
  "AuditLogger_LogMCPConfirmationEvent cd al eventType actorID actorType authMethod toolName now registryCtx meta =
     (if \<not> ac_Enabled (al_config al) then al
      else AuditLogger_Log cd al (AuditEvent_zero\<lparr>ev_Timestamp := now, ev_EventType := eventType,
        ev_Outcome := ''success'', ev_ActorID := actorID, ev_ActorType := actorType, ev_AuthMethod := authMethod,
        ev_Method := ''MCP'', ev_Path := toolName, ev_Context := registryCtx, ev_Metadata := meta\<rparr>))"

section \<open>The webhook output\<close>

text \<open>
  The queue, the batch under construction, the batches handed to \<open>sendBatch\<close>.  What the receiver
  does to each attempt is an argument: no answer, or a status; a request that cannot be built ends the
  attempts.
\<close>

record WebhookOutput =
  wo_batchSize :: nat
  wo_maxRetries :: nat
  wo_capacity :: nat
  wo_ch :: "string list"
  wo_batch :: "string list"
  wo_batches :: "string list list"

definition or_default :: "int \<Rightarrow> nat \<Rightarrow> nat" where
  "or_default n d = (if n \<le> 0 then d else nat n)"

definition NewWebhookOutput :: "string \<Rightarrow> int \<Rightarrow> int \<Rightarrow> int \<Rightarrow> WebhookOutput option" where
  "NewWebhookOutput url batchSize maxRetries bufferSize =
     (if url = [] then None
      else Some \<lparr>wo_batchSize = or_default batchSize 100, wo_maxRetries = or_default maxRetries 3,
                 wo_capacity = or_default bufferSize 10000, wo_ch = [], wo_batch = [], wo_batches = []\<rparr>)"

definition Webhook_Write :: "WebhookOutput \<Rightarrow> string \<Rightarrow> WebhookOutput" where
  "Webhook_Write w data = (if length (wo_ch w) < wo_capacity w then w\<lparr>wo_ch := wo_ch w @ [data]\<rparr> else w)"

definition send_batch :: "WebhookOutput \<Rightarrow> WebhookOutput" where
  "send_batch w = w\<lparr>wo_batches := wo_batches w @ [wo_batch w], wo_batch := []\<rparr>"

definition Webhook_take :: "WebhookOutput \<Rightarrow> WebhookOutput" where
  "Webhook_take w =
     (case wo_ch w of
        [] \<Rightarrow> w
      | data # ch \<Rightarrow>
          (let w' = w\<lparr>wo_ch := ch, wo_batch := wo_batch w @ [data]\<rparr>
           in if length (wo_batch w') \<ge> wo_batchSize w' then send_batch w' else w'))"

definition Webhook_tick :: "WebhookOutput \<Rightarrow> WebhookOutput" where
  "Webhook_tick w = (if wo_batch w \<noteq> [] then send_batch w else w)"

definition Webhook_stop :: "WebhookOutput \<Rightarrow> WebhookOutput" where
  "Webhook_stop w = Webhook_tick ((Webhook_take ^^ length (wo_ch w)) w)"

datatype webhook_answer = NoRequest | NoAnswer | Status nat

datatype delivery = Delivered | Rejected | Exhausted

text \<open>Attempts are counted from zero; \<open>answers n\<close> is what the receiver does to attempt \<open>n\<close>.\<close>

function send_attempts :: "nat \<Rightarrow> (nat \<Rightarrow> webhook_answer) \<Rightarrow> nat \<Rightarrow> delivery \<times> nat" where
  "send_attempts maxRetries answers attempt =
     (if attempt \<ge> maxRetries then (Exhausted, attempt)
      else case answers attempt of
             NoRequest \<Rightarrow> (Rejected, attempt)
           | NoAnswer \<Rightarrow> send_attempts maxRetries answers (attempt + 1)
           | Status n \<Rightarrow>
               if 200 \<le> n \<and> n < 300 then (Delivered, attempt + 1)
               else if n \<ge> 500 then send_attempts maxRetries answers (attempt + 1)
               else (Rejected, attempt + 1))"
  by pat_completeness auto
termination by (relation "measure (\<lambda>(m, _, a). m - a)") auto

declare send_attempts.simps [simp del]

definition backoff :: "nat \<Rightarrow> int" where
  "backoff attempt = min (2 ^ min attempt 30 * 100 * 1000000) (5 * Second)"

end
