(* ===== verification/Memory_Auth.thy ===== *)
theory Memory_Auth
  imports Memory_Store
begin

text \<open>
  The in-memory backend, continued: users and API keys (\<open>internal/storage/memory/store.go\<close>).
  Both are tables with a numeric primary key and a unique secondary index, kept as two maps.
\<close>

section \<open>Users\<close>

definition Store_CreateUser ::
  "go_time \<Rightarrow> Store \<Rightarrow> UserRecord \<Rightarrow> Store \<times> UserRecord \<times> storage_error option" where
  [store_defs]: "Store_CreateUser now s user =
     (if gm_get (st_usersByUsername s) (us_Username user) \<noteq> None then (s, user, Some ErrUserExists)
      else
        (let (s1, user1) =
               (if us_ID user = 0
                then (let n = i64 (st_nextUserID s + 1)
                      in (s\<lparr>st_nextUserID := n\<rparr>, user\<lparr>us_ID := i64 (n - 1)\<rparr>))
                else (s, user));
             user2 = user1\<lparr>us_CreatedAt := now, us_UpdatedAt := now\<rparr>
         in (s1\<lparr>st_users := gm_put (us_ID user2) user2 (st_users s1),
                st_usersByUsername :=
                  gm_put (us_Username user2) (us_ID user2) (st_usersByUsername s1)\<rparr>,
             user2, None)))"

definition Store_GetUserByID :: "Store \<Rightarrow> int \<Rightarrow> UserRecord result" where
  [store_defs]: "Store_GetUserByID s i =
     (case gm_get (st_users s) i of None \<Rightarrow> Inl ErrUserNotFound | Some user \<Rightarrow> Inr user)"

definition Store_GetUserByUsername :: "Store \<Rightarrow> string \<Rightarrow> UserRecord result" where
  [store_defs]: "Store_GetUserByUsername s username =
     (case gm_get (st_usersByUsername s) username of
        None \<Rightarrow> Inl ErrUserNotFound
      | Some i \<Rightarrow> (case gm_get (st_users s) i of
                     None \<Rightarrow> Inl ErrUserNotFound | Some user \<Rightarrow> Inr user))"

definition Store_UpdateUser ::
  "go_time \<Rightarrow> Store \<Rightarrow> UserRecord \<Rightarrow> Store \<times> UserRecord \<times> storage_error option" where
  [store_defs]: "Store_UpdateUser now s user =
     (case gm_get (st_users s) (us_ID user) of
        None \<Rightarrow> (s, user, Some ErrUserNotFound)
      | Some existing \<Rightarrow>
          if us_Username existing \<noteq> us_Username user \<and>
             gm_get (st_usersByUsername s) (us_Username user) \<noteq> None
          then (s, user, Some ErrUserExists)
          else
            (let idx = (if us_Username existing \<noteq> us_Username user
                        then gm_put (us_Username user) (us_ID user)
                               (gm_del (us_Username existing) (st_usersByUsername s))
                        else st_usersByUsername s);
                 user' = user\<lparr>us_UpdatedAt := now\<rparr>
             in (s\<lparr>st_usersByUsername := idx, st_users := gm_put (us_ID user) user' (st_users s)\<rparr>,
                 user', None)))"

definition Store_DeleteUser :: "Store \<Rightarrow> int \<Rightarrow> Store \<times> storage_error option" where
  [store_defs]: "Store_DeleteUser s i =
     (case gm_get (st_users s) i of
        None \<Rightarrow> (s, Some ErrUserNotFound)
      | Some user \<Rightarrow>
          (s\<lparr>st_usersByUsername := gm_del (us_Username user) (st_usersByUsername s),
             st_users := gm_del i (st_users s)\<rparr>, None))"

definition Store_ListUsers :: "Store \<Rightarrow> UserRecord list result" where
  [store_defs]: "Store_ListUsers s = Inr (sort_key us_ID (map snd (gm_entries (st_users s))))"

section \<open>API keys\<close>

definition Store_CreateAPIKey ::
  "go_time \<Rightarrow> Store \<Rightarrow> APIKeyRecord \<Rightarrow> Store \<times> APIKeyRecord \<times> storage_error option" where
  [store_defs]: "Store_CreateAPIKey now s key =
     (if gm_get (st_apiKeysByHash s) (ak_KeyHash key) \<noteq> None then (s, key, Some ErrAPIKeyExists)
      else
        (let (s1, key1) =
               (if ak_ID key = 0
                then (let n = i64 (st_nextAPIKeyID s + 1)
                      in (s\<lparr>st_nextAPIKeyID := n\<rparr>, key\<lparr>ak_ID := i64 (n - 1)\<rparr>))
                else (s, key));
             key2 = key1\<lparr>ak_CreatedAt := now\<rparr>
         in (s1\<lparr>st_apiKeys := gm_put (ak_ID key2) key2 (st_apiKeys s1),
                st_apiKeysByHash := gm_put (ak_KeyHash key2) (ak_ID key2) (st_apiKeysByHash s1)\<rparr>,
             key2, None)))"

definition Store_GetAPIKeyByID :: "Store \<Rightarrow> int \<Rightarrow> APIKeyRecord result" where
  [store_defs]: "Store_GetAPIKeyByID s i =
     (case gm_get (st_apiKeys s) i of None \<Rightarrow> Inl ErrAPIKeyNotFound | Some key \<Rightarrow> Inr key)"

definition Store_GetAPIKeyByHash :: "Store \<Rightarrow> string \<Rightarrow> APIKeyRecord result" where
  [store_defs]: "Store_GetAPIKeyByHash s keyHash =
     (case gm_get (st_apiKeysByHash s) keyHash of
        None \<Rightarrow> Inl ErrAPIKeyNotFound
      | Some i \<Rightarrow> (case gm_get (st_apiKeys s) i of
                     None \<Rightarrow> Inl ErrAPIKeyNotFound | Some key \<Rightarrow> Inr key))"

definition Store_UpdateAPIKey ::
  "Store \<Rightarrow> APIKeyRecord \<Rightarrow> Store \<times> storage_error option" where
  [store_defs]: "Store_UpdateAPIKey s key =
     (case gm_get (st_apiKeys s) (ak_ID key) of
        None \<Rightarrow> (s, Some ErrAPIKeyNotFound)
      | Some existing \<Rightarrow>
          if ak_KeyHash existing \<noteq> ak_KeyHash key \<and>
             gm_get (st_apiKeysByHash s) (ak_KeyHash key) \<noteq> None
          then (s, Some ErrAPIKeyExists)
          else
            (let idx = (if ak_KeyHash existing \<noteq> ak_KeyHash key
                        then gm_put (ak_KeyHash key) (ak_ID key)
                               (gm_del (ak_KeyHash existing) (st_apiKeysByHash s))
                        else st_apiKeysByHash s)
             in (s\<lparr>st_apiKeysByHash := idx, st_apiKeys := gm_put (ak_ID key) key (st_apiKeys s)\<rparr>,
                 None)))"

definition Store_DeleteAPIKey :: "Store \<Rightarrow> int \<Rightarrow> Store \<times> storage_error option" where
  [store_defs]: "Store_DeleteAPIKey s i =
     (case gm_get (st_apiKeys s) i of
        None \<Rightarrow> (s, Some ErrAPIKeyNotFound)
      | Some key \<Rightarrow>
          (s\<lparr>st_apiKeysByHash := gm_del (ak_KeyHash key) (st_apiKeysByHash s),
             st_apiKeys := gm_del i (st_apiKeys s)\<rparr>, None))"

definition Store_ListAPIKeys :: "Store \<Rightarrow> APIKeyRecord list result" where
  [store_defs]: "Store_ListAPIKeys s = Inr (sort_key ak_ID (map snd (gm_entries (st_apiKeys s))))"

definition Store_ListAPIKeysByUserID :: "Store \<Rightarrow> int \<Rightarrow> APIKeyRecord list result" where
  [store_defs]: "Store_ListAPIKeysByUserID s userID =
     Inr (sort_key ak_ID
            (filter (\<lambda>key. ak_UserID key = userID) (map snd (gm_entries (st_apiKeys s)))))"

definition Store_GetAPIKeyByUserAndName ::
  "(int \<times> APIKeyRecord) order \<Rightarrow> Store \<Rightarrow> int \<Rightarrow> string \<Rightarrow> APIKeyRecord result" where
  [store_defs]: "Store_GetAPIKeyByUserAndName it s userID name =
     (case List.find (\<lambda>(_, key). ak_UserID key = userID \<and> ak_Name key = name)
             (it (gm_entries (st_apiKeys s))) of
        None \<Rightarrow> Inl ErrAPIKeyNotFound | Some (_, key) \<Rightarrow> Inr key)"

definition Store_UpdateAPIKeyLastUsed ::
  "go_time \<Rightarrow> Store \<Rightarrow> int \<Rightarrow> Store \<times> storage_error option" where
  [store_defs]: "Store_UpdateAPIKeyLastUsed now s i =
     (case gm_get (st_apiKeys s) i of
        None \<Rightarrow> (s, Some ErrAPIKeyNotFound)
      | Some key \<Rightarrow>
          (s\<lparr>st_apiKeys := gm_put i (key\<lparr>ak_LastUsed := Some now\<rparr>) (st_apiKeys s)\<rparr>, None))"

end
