(* ===== verification/Memory_Accounts.thy ===== *)
theory Memory_Accounts
  imports Memory_Auth
begin

text \<open>
  Users and API keys are tables with a numeric primary key and a unique secondary index.  The
  locale \<open>indexed_table\<close> states what the operations on the two maps promise one by one and proves
  that they keep the maps in step; it is interpreted for both tables.  Histories of account
  operations (\<open>account_step\<close>) then answer look-ups by username and by key hash exactly.
\<close>

text \<open>An index \<open>X\<close> of rows \<open>R\<close> by \<open>key\<close> stays exact when a row goes and when a row is stored.\<close>

lemma exact_remove:
  assumes exact: "\<And>k i. X k = Some i \<longleftrightarrow> (\<exists>r. R i = Some r \<and> key r = k)" and old: "R i = Some old"
  shows "(X(key old := None)) k = Some j \<longleftrightarrow> (\<exists>q. (R(i := None)) j = Some q \<and> key q = k)"
proof (cases "j = i")
  case True
  have "X k \<noteq> Some i" if "k \<noteq> key old" using exact [of k i] old that by auto
  with True show ?thesis by simp
next
  case False
  have "X (key old) = Some i" using exact [of "key old" i] old by auto
  with exact [of "key old" j] False have "\<not> (\<exists>q. R j = Some q \<and> key q = key old)" by simp
  with False exact [of k j] show ?thesis by auto
qed

lemma exact_store:
  assumes exact: "\<And>k i. X k = Some i \<longleftrightarrow> (\<exists>r. R i = Some r \<and> key r = k)"
    and free: "R i = None" "X (key r) = None"
  shows "(X(key r \<mapsto> i)) k = Some j \<longleftrightarrow> (\<exists>q. (R(i \<mapsto> r)) j = Some q \<and> key q = k)"
proof (cases "j = i")
  case True
  have "X k \<noteq> Some i" using exact [of k i] free by simp
  with True show ?thesis by auto
next
  case False
  have "\<not> (\<exists>q. R j = Some q \<and> key q = key r)" using exact [of "key r" j] free by simp
  with False exact [of k j] show ?thesis by auto
qed

locale indexed_table =
  fixes row :: "'s \<Rightarrow> int \<Rightarrow> 'r option"
    and idx :: "'s \<Rightarrow> 'k \<Rightarrow> int option"
    and next_id :: "'s \<Rightarrow> int"
    and rid :: "'r \<Rightarrow> int"
    and key :: "'r \<Rightarrow> 'k"
    and create :: "'s \<Rightarrow> 'r \<Rightarrow> 's \<times> 'r \<times> storage_error option"
    and update :: "'s \<Rightarrow> 'r \<Rightarrow> 's \<times> 'r \<times> storage_error option"
    and delete :: "'s \<Rightarrow> int \<Rightarrow> 's \<times> storage_error option"
  assumes create_dup: "create s r = (s', r', Some e) \<Longrightarrow> s' = s \<and> idx s (key r) \<noteq> None"
    and create_new: "create s r = (s', r', None) \<Longrightarrow> rid r = 0 \<Longrightarrow> in_i64 (next_id s) \<Longrightarrow>
          next_id s < max_int64 \<Longrightarrow>
          idx s (key r) = None \<and> key r' = key r \<and> rid r' = next_id s \<and>
          next_id s' = next_id s + 1 \<and>
          row s' = (row s)(rid r' \<mapsto> r') \<and> idx s' = (idx s)(key r \<mapsto> rid r')"
    and update_err: "update s r = (s', r', Some e) \<Longrightarrow> s' = s"
    and update_ok: "update s r = (s', r', None) \<Longrightarrow>
          row s (rid r) \<noteq> None \<and> rid r' = rid r \<and> key r' = key r \<and>
          row s' = (row s)(rid r \<mapsto> r') \<and> next_id s' = next_id s \<and>
          (if key (the (row s (rid r))) = key r then idx s' = idx s
           else idx s (key r) = None \<and>
                idx s' = (idx s)(key (the (row s (rid r))) := None, key r \<mapsto> rid r))"
    and delete_err: "delete s i = (s', Some e) \<Longrightarrow> s' = s"
    and delete_ok: "delete s i = (s', None) \<Longrightarrow>
          row s i \<noteq> None \<and> row s' = (row s)(i := None) \<and>
          idx s' = (idx s)(key (the (row s i)) := None) \<and> next_id s' = next_id s"
begin

text \<open>The maps in step: IDs are the rows' own and below the sequence, and the index is exact.\<close>

definition in_step :: "'s \<Rightarrow> bool" where
  "in_step s \<longleftrightarrow>
     (\<forall>i r. row s i = Some r \<longrightarrow> rid r = i \<and> i < next_id s) \<and>
     (\<forall>k i. idx s k = Some i \<longleftrightarrow> (\<exists>r. row s i = Some r \<and> key r = k)) \<and>
     1 \<le> next_id s \<and> next_id s \<le> max_int64"

lemma in_step_own: "in_step s \<Longrightarrow> row s i = Some r \<Longrightarrow> rid r = i \<and> i < next_id s"
  by (simp add: in_step_def)

lemma in_step_exact: "in_step s \<Longrightarrow> idx s k = Some i \<longleftrightarrow> (\<exists>r. row s i = Some r \<and> key r = k)"
  by (simp add: in_step_def)

text \<open>Keys are unique.\<close>

lemma key_unique:
  "in_step s \<Longrightarrow> row s i = Some r \<Longrightarrow> row s j = Some q \<Longrightarrow> key r = key q \<Longrightarrow> i = j"
  by (metis in_step_exact option.inject)

lemma in_step_create:
  assumes "in_step s" "rid r = 0" "next_id s < max_int64" "create s r = (s', r', err)"
  shows "in_step s'"
proof (cases err)
  case (Some e)
  with create_dup assms show ?thesis by blast
next
  case None
  have "in_i64 (next_id s)" using assms by (auto simp: in_step_def in_i64_def max_int64_def)
  with create_new [of s r s' r'] assms None
  have c: "idx s (key r) = None" "key r' = key r" "rid r' = next_id s" "next_id s' = next_id s + 1"
    "row s' = (row s)(rid r' \<mapsto> r')" "idx s' = (idx s)(key r \<mapsto> rid r')" by auto
  have fresh: "row s (next_id s) = None"
    using in_step_own [OF assms(1), of "next_id s"] by (cases "row s (next_id s)") auto
  have own: "rid q = i \<and> i < next_id s'" if "row s' i = Some q" for i q
    using that c in_step_own [OF assms(1), of i q] by (auto split: if_splits)
  have exact: "idx s' k = Some i \<longleftrightarrow> (\<exists>q. row s' i = Some q \<and> key q = k)" for k i
    using exact_store [where key = key and r = r', OF in_step_exact [OF assms(1)], of "next_id s"] fresh c
    by simp
  show ?thesis
    unfolding in_step_def using own exact assms(1,3) c(4) by (auto simp: in_step_def)
qed

lemma in_step_update:
  assumes "in_step s" "update s r = (s', r', err)"
  shows "in_step s'"
proof (cases err)
  case (Some e)
  with update_err assms show ?thesis by blast
next
  case None
  then obtain old where old: "row s (rid r) = Some old" using update_ok assms(2) by blast
  with update_ok [of s r s' r'] assms(2) None have u: "rid r' = rid r"
    "key r' = key r" "row s' = (row s)(rid r \<mapsto> r')" "next_id s' = next_id s"
    "if key old = key r then idx s' = idx s
     else idx s (key r) = None \<and> idx s' = (idx s)(key old := None, key r \<mapsto> rid r)" by auto
  have exact: "idx s' k = Some i \<longleftrightarrow> (\<exists>q. row s' i = Some q \<and> key q = k)" for k i
  proof (cases "key old = key r")
    case True
    then show ?thesis using u old in_step_exact [OF assms(1), of k i] by (auto split: if_splits)
  next
    case False
    let ?X = "(idx s)(key old := None)" and ?R = "(row s)(rid r := None)"
    have "(?X(key r' \<mapsto> rid r)) k = Some i \<longleftrightarrow> (\<exists>q. (?R(rid r \<mapsto> r')) i = Some q \<and> key q = k)"
    proof (rule exact_store)
      show "?X k = Some i \<longleftrightarrow> (\<exists>r. ?R i = Some r \<and> key r = k)" for k i
        by (rule exact_remove [OF in_step_exact [OF assms(1)] old])
      show "?X (key r') = None" using u(2,5) False by simp
    qed simp
    then show ?thesis using u False by simp
  qed
  have own: "rid q = i \<and> i < next_id s'" if "row s' i = Some q" for i q
    using that u in_step_own [OF assms(1)] old by (auto split: if_splits)
  show ?thesis
    unfolding in_step_def using own exact assms(1) u(4) by (auto simp: in_step_def)
qed

lemma in_step_delete:
  assumes "in_step s" "delete s i = (s', err)"
  shows "in_step s'"
proof (cases err)
  case (Some e)
  with delete_err assms show ?thesis by blast
next
  case None
  then obtain old where old: "row s i = Some old" using delete_ok assms(2) by blast
  with delete_ok [of s i s'] assms(2) None have d: "row s' = (row s)(i := None)"
    "idx s' = (idx s)(key old := None)" "next_id s' = next_id s" by auto
  have exact: "idx s' k = Some j \<longleftrightarrow> (\<exists>q. row s' j = Some q \<and> key q = k)" for k j
    unfolding d by (rule exact_remove [OF in_step_exact [OF assms(1)] old])
  have own: "rid q = j \<and> j < next_id s'" if "row s' j = Some q" for j q
    using that d in_step_own [OF assms(1)] by (auto split: if_splits)
  show ?thesis
    unfolding in_step_def using own exact assms(1) d(3) by (auto simp: in_step_def)
qed

lemma in_step_cong:
  "row s' = row s \<Longrightarrow> idx s' = idx s \<Longrightarrow> next_id s' = next_id s \<Longrightarrow> in_step s' = in_step s"
  by (simp add: in_step_def)

text \<open>An assignment to a row through a pointer, which keeps its ID and its key.\<close>

lemma in_step_assign:
  assumes "in_step s" "row s p = Some r" "rid r' = rid r" "key r' = key r"
    and "row s' = (row s)(p \<mapsto> r')" "idx s' = idx s" "next_id s' = next_id s"
  shows "in_step s'"
  using assms in_step_own [OF assms(1,2)] unfolding in_step_def by (auto split: if_splits)

text \<open>The index finds a row exactly when there is one.\<close>

lemma by_key_exact:
  assumes "in_step s"
  shows "(\<exists>i. idx s k = Some i \<and> row s i = Some r) \<longleftrightarrow> row s (rid r) = Some r \<and> key r = k"
  using in_step_exact [OF assms] in_step_own [OF assms] by (metis option.inject)

end

interpretation users: indexed_table
  "\<lambda>s. gm_get (st_users s)" "\<lambda>s. gm_get (st_usersByUsername s)" st_nextUserID us_ID us_Username
  "Store_CreateUser now" "Store_UpdateUser now" Store_DeleteUser
  for now
proof
  fix s s' :: Store and r r' :: UserRecord
  assume "Store_CreateUser now s r = (s', r', None)" "us_ID r = 0" "in_i64 (st_nextUserID s)"
    "st_nextUserID s < max_int64"
  then show "gm_get (st_usersByUsername s) (us_Username r) = None \<and> us_Username r' = us_Username r \<and>
      us_ID r' = st_nextUserID s \<and> st_nextUserID s' = st_nextUserID s + 1 \<and>
      gm_get (st_users s') = (gm_get (st_users s))(us_ID r' \<mapsto> r') \<and>
      gm_get (st_usersByUsername s') = (gm_get (st_usersByUsername s))(us_Username r \<mapsto> us_ID r')"
    by (auto simp: Store_CreateUser_def Let_def gm_laws i64_succ split: if_splits)
qed (auto simp: Store_CreateUser_def Store_UpdateUser_def Store_DeleteUser_def Let_def gm_laws
    split: if_splits option.splits)

interpretation api_keys: indexed_table
  "\<lambda>s. gm_get (st_apiKeys s)" "\<lambda>s. gm_get (st_apiKeysByHash s)" st_nextAPIKeyID ak_ID ak_KeyHash
  "Store_CreateAPIKey now" "\<lambda>s r. case Store_UpdateAPIKey s r of (s', err) \<Rightarrow> (s', r, err)"
  Store_DeleteAPIKey
  for now
proof
  fix s s' :: Store and r r' :: APIKeyRecord
  assume "Store_CreateAPIKey now s r = (s', r', None)" "ak_ID r = 0" "in_i64 (st_nextAPIKeyID s)"
    "st_nextAPIKeyID s < max_int64"
  then show "gm_get (st_apiKeysByHash s) (ak_KeyHash r) = None \<and> ak_KeyHash r' = ak_KeyHash r \<and>
      ak_ID r' = st_nextAPIKeyID s \<and> st_nextAPIKeyID s' = st_nextAPIKeyID s + 1 \<and>
      gm_get (st_apiKeys s') = (gm_get (st_apiKeys s))(ak_ID r' \<mapsto> r') \<and>
      gm_get (st_apiKeysByHash s') = (gm_get (st_apiKeysByHash s))(ak_KeyHash r \<mapsto> ak_ID r')"
    by (auto simp: Store_CreateAPIKey_def Let_def gm_laws i64_succ split: if_splits)
qed (auto simp: Store_CreateAPIKey_def Store_UpdateAPIKey_def Store_DeleteAPIKey_def Let_def gm_laws
    split: if_splits option.splits)

section \<open>Histories\<close>

inductive account_step :: "Store \<Rightarrow> Store \<Rightarrow> bool" where
  create_user: "us_ID user = 0 \<Longrightarrow> st_nextUserID s < max_int64 \<Longrightarrow>
    Store_CreateUser now s user = (s', user', err) \<Longrightarrow> account_step s s'"
| update_user: "Store_UpdateUser now s user = (s', user', err) \<Longrightarrow> account_step s s'"
| delete_user: "Store_DeleteUser s i = (s', err) \<Longrightarrow> account_step s s'"
| create_key: "ak_ID key = 0 \<Longrightarrow> st_nextAPIKeyID s < max_int64 \<Longrightarrow>
    Store_CreateAPIKey now s key = (s', key', err) \<Longrightarrow> account_step s s'"
| update_key: "Store_UpdateAPIKey s key = (s', err) \<Longrightarrow> account_step s s'"
| delete_key: "Store_DeleteAPIKey s i = (s', err) \<Longrightarrow> account_step s s'"
| use_key: "Store_UpdateAPIKeyLastUsed now s i = (s', err) \<Longrightarrow> account_step s s'"

inductive account_reach :: "Store \<Rightarrow> bool" where
  accounts_new: "account_reach NewStore"
| accounts_step: "account_reach s \<Longrightarrow> account_step s s' \<Longrightarrow> account_reach s'"

lemma user_ops_keep_keys:
  "Store_CreateUser now s user = (s', user', err) \<Longrightarrow> api_keys.in_step s' = api_keys.in_step s"
  "Store_UpdateUser now s user = (s', user', err) \<Longrightarrow> api_keys.in_step s' = api_keys.in_step s"
  "Store_DeleteUser s i = (s', err') \<Longrightarrow> api_keys.in_step s' = api_keys.in_step s"
  by (rule api_keys.in_step_cong; auto simp: Store_CreateUser_def Store_UpdateUser_def
      Store_DeleteUser_def Let_def split: if_splits option.splits)+

lemma key_ops_keep_users:
  "Store_CreateAPIKey now s key = (s', key', err) \<Longrightarrow> users.in_step s' = users.in_step s"
  "Store_UpdateAPIKey s key = (s', err) \<Longrightarrow> users.in_step s' = users.in_step s"
  "Store_DeleteAPIKey s i = (s', err) \<Longrightarrow> users.in_step s' = users.in_step s"
  "Store_UpdateAPIKeyLastUsed now s i = (s', err) \<Longrightarrow> users.in_step s' = users.in_step s"
  by (rule users.in_step_cong; auto simp: Store_CreateAPIKey_def Store_UpdateAPIKey_def
      Store_DeleteAPIKey_def Store_UpdateAPIKeyLastUsed_def Let_def split: if_splits option.splits)+

lemma use_key_in_step:
  assumes "api_keys.in_step s" "Store_UpdateAPIKeyLastUsed now s i = (s', err)"
  shows "api_keys.in_step s'"
proof (cases "gm_get (st_apiKeys s) i")
  case None
  with assms show ?thesis by (auto simp: Store_UpdateAPIKeyLastUsed_def)
next
  case (Some key)
  with assms(2) have "s' = s\<lparr>st_apiKeys := gm_put i (key\<lparr>ak_LastUsed := Some now\<rparr>) (st_apiKeys s)\<rparr>"
    by (simp add: Store_UpdateAPIKeyLastUsed_def)
  then show ?thesis
    using api_keys.in_step_assign [OF assms(1) Some, of "key\<lparr>ak_LastUsed := Some now\<rparr>" s'] by (simp add: gm_laws)
qed

lemma accounts_in_step: "account_reach s \<Longrightarrow> users.in_step s \<and> api_keys.in_step s"
proof (induction rule: account_reach.induct)
  case accounts_new
  show ?case by (simp add: users.in_step_def api_keys.in_step_def NewStore_def max_int64_def)
next
  case (accounts_step s s')
  then have inv: "users.in_step s" "api_keys.in_step s" by auto
  from accounts_step(2) show ?case
  proof cases
    case (create_user user now user' err)
    then show ?thesis
      using inv users.in_step_create [OF inv(1)] user_ops_keep_keys(1) by metis
  next
    case (update_user now user user' err)
    then show ?thesis
      using inv users.in_step_update [OF inv(1)] user_ops_keep_keys(2) by metis
  next
    case (delete_user i err)
    then show ?thesis using inv users.in_step_delete [OF inv(1)] user_ops_keep_keys(3) by metis
  next
    case (create_key key now key' err)
    then show ?thesis
      using inv api_keys.in_step_create [OF inv(2)] key_ops_keep_users(1) by metis
  next
    case (update_key key err)
    then show ?thesis using inv api_keys.in_step_update [OF inv(2), of key s' key err] key_ops_keep_users(2) by simp
  next
    case (delete_key i err)
    then show ?thesis using inv api_keys.in_step_delete [OF inv(2)] key_ops_keep_users(3) by metis
  next
    case (use_key now i err)
    then show ?thesis using inv use_key_in_step [OF inv(2)] key_ops_keep_users(4) by metis
  qed
qed

text \<open>
  After any history of account operations the look-up by username and the look-up by key
  hash return a record exactly when the table holds it under its ID with that username or hash, so
  no renamed, rotated or deleted credential answers.
\<close>

lemma credential_lookups_exact:
  assumes "account_reach s"
  shows "(Store_GetUserByUsername s username = Inr user \<longleftrightarrow>
            Store_GetUserByID s (us_ID user) = Inr user \<and> us_Username user = username) \<and>
         (Store_GetAPIKeyByHash s keyHash = Inr apiKey \<longleftrightarrow>
            Store_GetAPIKeyByID s (ak_ID apiKey) = Inr apiKey \<and> ak_KeyHash apiKey = keyHash)"
  using users.by_key_exact [of s username user] api_keys.by_key_exact [of s keyHash apiKey]
    accounts_in_step [OF assms]
  by (auto simp: Store_GetUserByUsername_def Store_GetUserByID_def Store_GetAPIKeyByHash_def
      Store_GetAPIKeyByID_def split: option.splits)

definition sample_user :: UserRecord where
  "sample_user = \<lparr>us_ID = 0, us_Username = ''ada'', us_Email = [], us_PasswordHash = ''h'',
     us_Role = ''admin'', us_Enabled = True, us_CreatedAt = 0, us_UpdatedAt = 0\<rparr>"

lemma credential_lookups_exact_witness:
  "Store_GetUserByUsername (fst (Store_CreateUser 7 NewStore sample_user)) ''ada'' =
     Inr (sample_user\<lparr>us_ID := 1, us_CreatedAt := 7, us_UpdatedAt := 7\<rparr>)"
proof -
  let ?s = "fst (Store_CreateUser 7 NewStore sample_user)"
  have "account_step NewStore ?s"
    by (rule create_user [where user = sample_user and now = 7]) (auto simp: sample_user_def NewStore_def
        max_int64_def prod_eq_iff)
  then have reach: "account_reach ?s" by (rule accounts_step [OF accounts_new])
  show ?thesis
    by (subst credential_lookups_exact [OF reach, THEN conjunct1])
      (simp add: sample_user_def NewStore_def Store_CreateUser_def Store_GetUserByID_def Let_def i64_def)
qed

end
