(* ===== verification/Auth_Service.thy ===== *)
theory Auth_Service
  imports Memory_Accounts Access_Control Registry_References
begin

text \<open>
  The service of users and API keys, \<open>internal/auth/service.go\<close>, on the in-memory store: accounts,
  passwords, keys, and the two caches in front of the store.

  The store hands out pointers to its records, and both the service and its caches keep them: an
  assignment to a record obtained from the store is seen by the store and by the caches.  A record
  is therefore named by the ID it was stored under, which is never given out twice; the caches hold
  names, and a record that has left the table stays readable for those who still have its name.
  Parameters are bcrypt, SHA-256 and HMAC, the salts and keys the random source delivers, clock
  readings, and the visiting orders of maps.
\<close>

section \<open>Hexadecimal text and dates\<close>

definition hex_value :: "char \<Rightarrow> nat option" where
  "hex_value c =
     (let n = (of_char c :: nat)
      in if 48 \<le> n \<and> n \<le> 57 then Some (n - 48)
         else if 97 \<le> n \<and> n \<le> 102 then Some (n - 87)
         else if 65 \<le> n \<and> n \<le> 70 then Some (n - 55)
         else None)"

fun hex_DecodeString :: "string \<Rightarrow> string option" where
  "hex_DecodeString [] = Some []"
| "hex_DecodeString [_] = None"
| "hex_DecodeString (a # b # rest) =
     (case (hex_value a, hex_value b, hex_DecodeString rest) of
        (Some x, Some y, Some bs) \<Rightarrow> Some (char_of (16 * x + y) # bs)
      | _ \<Rightarrow> None)"

text \<open>The civil date of a day counted from the epoch, and \<open>Format\<close> with \<open>2006-01-02T15:04:05\<close> in UTC.\<close>

definition civil_date :: "int \<Rightarrow> int \<times> int \<times> int" where
  "civil_date days =
     (let z = days + 719468; era = z div 146097; doe = z mod 146097;
          yoe = (doe - doe div 1460 + doe div 36524 - doe div 146096) div 365;
          doy = doe - (365 * yoe + yoe div 4 - yoe div 100);
          mp = (5 * doy + 2) div 153;
          m = (if mp < 10 then mp + 3 else mp - 9)
      in (yoe + era * 400 + (if m \<le> 2 then 1 else 0), m, doy - (153 * mp + 2) div 5 + 1))"

definition padded :: "nat \<Rightarrow> int \<Rightarrow> string" where
  "padded w n =
     (let digits = nat_digits (nat \<bar>n\<bar>)
      in (if n < 0 then ''-'' else []) @ replicate (w - length digits) (CHR ''0'') @ digits)"

definition Format_seconds :: "go_time \<Rightarrow> string" where
  "Format_seconds t =
     (let secs = t div 1000000000; (y, m, d) = civil_date (secs div 86400); r = secs mod 86400
      in padded 4 y @ ''-'' @ padded 2 m @ ''-'' @ padded 2 d @ ''T'' @
         padded 2 (r div 3600) @ '':'' @ padded 2 (r div 60 mod 60) @ '':'' @ padded 2 (r mod 60))"

section \<open>The state\<close>

text \<open>\<open>bcrypt.GenerateFromPassword\<close> with its salt, \<open>bcrypt.CompareHashAndPassword\<close> (hash first), and the digests.\<close>

record crypt_lib =
  cl_generate :: "string \<Rightarrow> string \<Rightarrow> string option"
  cl_compare :: "string \<Rightarrow> string \<Rightarrow> bool"
  cl_sha256 :: "string \<Rightarrow> string"
  cl_hmac :: "string \<Rightarrow> string \<Rightarrow> string"

record userCacheEntry =
  uc_user :: int
  uc_verifiedAt :: go_time

record Service =
  sv_storage :: Store
  sv_droppedUsers :: "(int, UserRecord) gomap"
  sv_droppedKeys :: "(int, APIKeyRecord) gomap"
  sv_apiSecret :: string
  sv_keyPrefix :: string
  sv_apiKeyCache :: "(string, int) gomap"
  sv_userCredCache :: "(string, userCacheEntry) gomap"
  sv_userCacheTTL :: int
  sv_cacheRefreshInterval :: int

record ServiceConfig =
  sc_APIKeySecret :: string
  sc_APIKeyPrefix :: string
  sc_CacheRefreshInterval :: int
  sc_UserCacheTTL :: int

text \<open>What a pointer to a user or a key reads, and an assignment through it.\<close>

definition user_at :: "Service \<Rightarrow> int \<Rightarrow> UserRecord option" where
  "user_at S p =
     (case gm_get (st_users (sv_storage S)) p of
        Some user \<Rightarrow> Some user | None \<Rightarrow> gm_get (sv_droppedUsers S) p)"

definition key_at :: "Service \<Rightarrow> int \<Rightarrow> APIKeyRecord option" where
  "key_at S p =
     (case gm_get (st_apiKeys (sv_storage S)) p of
        Some key \<Rightarrow> Some key | None \<Rightarrow> gm_get (sv_droppedKeys S) p)"

definition assign_user :: "Service \<Rightarrow> int \<Rightarrow> (UserRecord \<Rightarrow> UserRecord) \<Rightarrow> Service" where
  "assign_user S p f =
     (let st = sv_storage S
      in case gm_get (st_users st) p of
           Some user \<Rightarrow> S\<lparr>sv_storage := st\<lparr>st_users := gm_put p (f user) (st_users st)\<rparr>\<rparr>
         | None \<Rightarrow>
             (case gm_get (sv_droppedUsers S) p of
                Some user \<Rightarrow> S\<lparr>sv_droppedUsers := gm_put p (f user) (sv_droppedUsers S)\<rparr>
              | None \<Rightarrow> S))"

definition assign_key :: "Service \<Rightarrow> int \<Rightarrow> (APIKeyRecord \<Rightarrow> APIKeyRecord) \<Rightarrow> Service" where
  "assign_key S p f =
     (let st = sv_storage S
      in case gm_get (st_apiKeys st) p of
           Some key \<Rightarrow> S\<lparr>sv_storage := st\<lparr>st_apiKeys := gm_put p (f key) (st_apiKeys st)\<rparr>\<rparr>
         | None \<Rightarrow>
             (case gm_get (sv_droppedKeys S) p of
                Some key \<Rightarrow> S\<lparr>sv_droppedKeys := gm_put p (f key) (sv_droppedKeys S)\<rparr>
              | None \<Rightarrow> S))"

section \<open>Errors and requests\<close>

datatype auth_error =
    Stored storage_error
  | InvalidRole string
  | HashFailed
  | NameRequired | UserIDRequired | ExpiryPassed | KeyNotGenerated
  | BootstrapUsernameRequired | BootstrapPasswordRequired | BootstrapListFailed storage_error
  | BootstrapFailed auth_error

type_synonym 'a auth_result = "auth_error + 'a"

record CreateUserRequest =
  cu_Username :: string
  cu_Email :: string
  cu_Password :: string
  cu_Role :: string
  cu_Enabled :: bool

record CreateAPIKeyRequest =
  ck_UserID :: int
  ck_Name :: string
  ck_Role :: string
  ck_ExpiresAt :: go_time

record CreateAPIKeyResponse =
  kr_ID :: int
  kr_Key :: string
  kr_KeyPrefix :: string
  kr_Name :: string
  kr_Role :: string
  kr_UserID :: int
  kr_Enabled :: bool
  kr_CreatedAt :: go_time
  kr_ExpiresAt :: go_time

text \<open>The values of an update map: \<open>interface{}\<close> with the types the code tells apart.\<close>

datatype any_value = AnyString string | AnyBool bool | AnyTime go_time | AnyOther

section \<open>The caches\<close>

definition refreshAPIKeyCache :: "(string \<times> int) order \<Rightarrow> Service \<Rightarrow> Service" where
  "refreshAPIKeyCache it S =
     (case Store_ListAPIKeys (sv_storage S) of
        Inl _ \<Rightarrow> S
      | Inr keys \<Rightarrow>
          (let newKeys = gm_of_list (map (\<lambda>key. (ak_KeyHash key, ak_ID key)) keys);
               kept = DAList.filter (\<lambda>(hash, _). gm_get newKeys hash \<noteq> None) (sv_apiKeyCache S)
           in S\<lparr>sv_apiKeyCache := gm_put_all (it (gm_entries newKeys)) kept\<rparr>))"

definition NewServiceWithConfig :: "(string \<times> int) order \<Rightarrow> Store \<Rightarrow> ServiceConfig \<Rightarrow> Service" where
  "NewServiceWithConfig it store cfg =
     (let secret = (case hex_DecodeString (sc_APIKeySecret cfg) of
                      Some bs \<Rightarrow> bs | None \<Rightarrow> sc_APIKeySecret cfg);
          S = \<lparr>sv_storage = store, sv_droppedUsers = gm_empty, sv_droppedKeys = gm_empty,
               sv_apiSecret = (if sc_APIKeySecret cfg \<noteq> [] then secret else []),
               sv_keyPrefix = sc_APIKeyPrefix cfg, sv_apiKeyCache = gm_empty, sv_userCredCache = gm_empty,
               sv_userCacheTTL = sc_UserCacheTTL cfg, sv_cacheRefreshInterval = sc_CacheRefreshInterval cfg\<rparr>
      in if 0 < sc_CacheRefreshInterval cfg then refreshAPIKeyCache it S else S)"

definition userCredCacheKey :: "crypt_lib \<Rightarrow> string \<Rightarrow> string \<Rightarrow> string" where
  "userCredCacheKey cl username password = EncodeToString (cl_sha256 cl (username @ '':'' @ password))"

definition invalidateUserCredCache :: "Service \<Rightarrow> string \<Rightarrow> Service" where
  "invalidateUserCredCache S username =
     S\<lparr>sv_userCredCache :=
         DAList.filter (\<lambda>(_, entry). map_option us_Username (user_at S (uc_user entry)) \<noteq> Some username)
           (sv_userCredCache S)\<rparr>"

definition invalidateUserCredCacheByID :: "Service \<Rightarrow> int \<Rightarrow> Service" where
  "invalidateUserCredCacheByID S userID =
     S\<lparr>sv_userCredCache :=
         DAList.filter (\<lambda>(_, entry). map_option us_ID (user_at S (uc_user entry)) \<noteq> Some userID)
           (sv_userCredCache S)\<rparr>"

text \<open>The loop stops at the first entry with the ID.\<close>

definition invalidateAPIKeyCache :: "(string \<times> int) order \<Rightarrow> Service \<Rightarrow> int \<Rightarrow> Service" where
  "invalidateAPIKeyCache it S i =
     (case List.find (\<lambda>(_, p). map_option ak_ID (key_at S p) = Some i) (it (gm_entries (sv_apiKeyCache S))) of
        None \<Rightarrow> S
      | Some (hash, _) \<Rightarrow> S\<lparr>sv_apiKeyCache := gm_del hash (sv_apiKeyCache S)\<rparr>)"

section \<open>Users\<close>

definition Service_CreateUser ::
  "crypt_lib \<Rightarrow> string \<Rightarrow> go_time \<Rightarrow> go_time \<Rightarrow> Service \<Rightarrow> CreateUserRequest \<Rightarrow> Service \<times> UserRecord auth_result" where
  "Service_CreateUser cl salt now now' S req =
     (if \<not> ValidRole (cu_Role req) then (S, Inl (InvalidRole (cu_Role req)))
      else case cl_generate cl (cu_Password req) salt of
             None \<Rightarrow> (S, Inl HashFailed)
           | Some hash \<Rightarrow>
               (case Store_CreateUser now' (sv_storage S)
                       \<lparr>us_ID = 0, us_Username = cu_Username req, us_Email = cu_Email req, us_PasswordHash = hash,
                        us_Role = cu_Role req, us_Enabled = cu_Enabled req, us_CreatedAt = now, us_UpdatedAt = now\<rparr> of
                  (st, _, Some e) \<Rightarrow> (S\<lparr>sv_storage := st\<rparr>, Inl (Stored e))
                | (st, user, None) \<Rightarrow> (S\<lparr>sv_storage := st\<rparr>, Inr user)))"

definition Service_GetUserByID :: "Service \<Rightarrow> int \<Rightarrow> UserRecord result" where
  "Service_GetUserByID S i = Store_GetUserByID (sv_storage S) i"

definition Service_GetUserByUsername :: "Service \<Rightarrow> string \<Rightarrow> UserRecord result" where
  "Service_GetUserByUsername S username = Store_GetUserByUsername (sv_storage S) username"

definition Service_ListUsers :: "Service \<Rightarrow> UserRecord list result" where
  "Service_ListUsers S = Store_ListUsers (sv_storage S)"

text \<open>One turn of the update loop: the record is assigned to as the loop goes.\<close>

definition apply_user_update ::
  "crypt_lib \<Rightarrow> string \<Rightarrow> int \<Rightarrow> Service \<Rightarrow> string \<times> any_value \<Rightarrow> Service \<times> auth_error option" where
  "apply_user_update cl salt p S = (\<lambda>(key, value).
     if key = ''email'' then
       (case value of AnyString email \<Rightarrow> (assign_user S p (us_Email_update (\<lambda>_. email)), None) | _ \<Rightarrow> (S, None))
     else if key = ''password'' then
       (case value of
          AnyString password \<Rightarrow>
            (case cl_generate cl password salt of
               None \<Rightarrow> (S, Some HashFailed)
             | Some hash \<Rightarrow> (assign_user S p (us_PasswordHash_update (\<lambda>_. hash)), None))
        | _ \<Rightarrow> (S, None))
     else if key = ''role'' then
       (case value of
          AnyString role \<Rightarrow>
            if \<not> ValidRole role then (S, Some (InvalidRole role))
            else (assign_user S p (us_Role_update (\<lambda>_. role)), None)
        | _ \<Rightarrow> (S, None))
     else if key = ''enabled'' then
       (case value of AnyBool enabled \<Rightarrow> (assign_user S p (us_Enabled_update (\<lambda>_. enabled)), None) | _ \<Rightarrow> (S, None))
     else (S, None))"

text \<open>A range loop whose body may leave the function with an error.\<close>

fun range_until :: "('s \<Rightarrow> 'a \<Rightarrow> 's \<times> 'e option) \<Rightarrow> 's \<Rightarrow> 'a list \<Rightarrow> 's \<times> 'e option" where
  "range_until body S [] = (S, None)"
| "range_until body S (x # xs) =
     (case body S x of (S', Some e) \<Rightarrow> (S', Some e) | (S', None) \<Rightarrow> range_until body S' xs)"

text \<open>
  Writing back: \<open>storage.UpdateUser\<close> is given the pointer, whose record may have been assigned to.
\<close>

definition write_user :: "go_time \<Rightarrow> Service \<Rightarrow> int \<Rightarrow> Service \<times> UserRecord auth_result" where
  "write_user now S p =
     (case user_at S p of
        None \<Rightarrow> (S, Inl (Stored ErrUserNotFound))
      | Some user \<Rightarrow>
          (case Store_UpdateUser now (sv_storage S) user of
             (st, _, Some e) \<Rightarrow> (S\<lparr>sv_storage := st\<rparr>, Inl (Stored e))
           | (st, user', None) \<Rightarrow> (S\<lparr>sv_storage := st\<rparr>, Inr user')))"

definition Service_UpdateUser ::
  "crypt_lib \<Rightarrow> string \<Rightarrow> (string \<times> any_value) order \<Rightarrow> go_time \<Rightarrow> go_time \<Rightarrow> Service \<Rightarrow> int \<Rightarrow>
     (string, any_value) gomap \<Rightarrow> Service \<times> UserRecord auth_result" where
  "Service_UpdateUser cl salt it now now' S i updates =
     (case Store_GetUserByID (sv_storage S) i of
        Inl e \<Rightarrow> (S, Inl (Stored e))
      | Inr _ \<Rightarrow>
          (case range_until (apply_user_update cl salt i) S (it (gm_entries updates)) of
             (S1, Some e) \<Rightarrow> (S1, Inl e)
           | (S1, None) \<Rightarrow>
               (case write_user now' (assign_user S1 i (us_UpdatedAt_update (\<lambda>_. now))) i of
                  (S2, Inl e) \<Rightarrow> (S2, Inl e)
                | (S2, Inr user) \<Rightarrow> (invalidateUserCredCacheByID S2 i, Inr user))))"

text \<open>Deletion is two steps, and another request may come between them.\<close>

definition delete_user_record :: "Service \<Rightarrow> int \<Rightarrow> Service \<times> storage_error option" where
  "delete_user_record S i =
     (let (st, err) = Store_DeleteUser (sv_storage S) i
      in case (gm_get (st_users (sv_storage S)) i, err) of
           (Some user, None) \<Rightarrow>
             (S\<lparr>sv_storage := st, sv_droppedUsers := gm_put i user (sv_droppedUsers S)\<rparr>, None)
         | _ \<Rightarrow> (S\<lparr>sv_storage := st\<rparr>, err))"

definition Service_DeleteUser :: "Service \<Rightarrow> int \<Rightarrow> Service \<times> storage_error option" where
  "Service_DeleteUser S i = delete_user_record (invalidateUserCredCacheByID S i) i"

definition Service_ChangePassword ::
  "crypt_lib \<Rightarrow> string \<Rightarrow> go_time \<Rightarrow> go_time \<Rightarrow> Service \<Rightarrow> int \<Rightarrow> string \<Rightarrow> string \<Rightarrow> Service \<times> auth_error option" where
  "Service_ChangePassword cl salt now now' S i oldPassword newPassword =
     (case Store_GetUserByID (sv_storage S) i of
        Inl e \<Rightarrow> (S, Some (Stored e))
      | Inr user \<Rightarrow>
          if \<not> cl_compare cl (us_PasswordHash user) oldPassword then (S, Some (Stored ErrPermissionDenied))
          else
            (case cl_generate cl newPassword salt of
               None \<Rightarrow> (S, Some HashFailed)
             | Some hash \<Rightarrow>
                 (case write_user now'
                         (assign_user S i (\<lambda>u. u\<lparr>us_PasswordHash := hash, us_UpdatedAt := now\<rparr>)) i of
                    (S2, Inl e) \<Rightarrow> (S2, Some e)
                  | (S2, Inr _) \<Rightarrow> (invalidateUserCredCacheByID S2 i, None))))"

definition drop_credential :: "Service \<Rightarrow> string \<Rightarrow> Service" where
  "drop_credential S key = S\<lparr>sv_userCredCache := gm_del key (sv_userCredCache S)\<rparr>"

definition validate_stored ::
  "crypt_lib \<Rightarrow> Service \<Rightarrow> string \<Rightarrow> string \<Rightarrow> go_time \<Rightarrow> Service \<times> UserRecord result" where
  "validate_stored cl S username password now =
     (case Store_GetUserByUsername (sv_storage S) username of
        Inl _ \<Rightarrow> (S, Inl ErrUserNotFound)
      | Inr user \<Rightarrow>
          if \<not> us_Enabled user then (S, Inl ErrUserDisabled)
          else if \<not> cl_compare cl (us_PasswordHash user) password then (S, Inl ErrUserNotFound)
          else (S\<lparr>sv_userCredCache :=
                    gm_put (userCredCacheKey cl username password)
                      \<lparr>uc_user = us_ID user, uc_verifiedAt = now\<rparr> (sv_userCredCache S)\<rparr>, Inr user))"

definition Service_ValidateCredentials ::
  "crypt_lib \<Rightarrow> go_time \<Rightarrow> go_time \<Rightarrow> Service \<Rightarrow> string \<Rightarrow> string \<Rightarrow> Service \<times> UserRecord result" where
  "Service_ValidateCredentials cl now now' S username password =
     (let cacheKey = userCredCacheKey cl username password
      in case gm_get (sv_userCredCache S) cacheKey of
           None \<Rightarrow> validate_stored cl S username password now'
         | Some entry \<Rightarrow>
             if now - uc_verifiedAt entry < sv_userCacheTTL S
             then (case user_at S (uc_user entry) of
                     None \<Rightarrow> (S, Inl ErrUserNotFound)
                   | Some user \<Rightarrow>
                       if us_Enabled user then (S, Inr user)
                       else (drop_credential S cacheKey, Inl ErrUserDisabled))
             else validate_stored cl (drop_credential S cacheKey) username password now')"

section \<open>API keys\<close>

definition hashAPIKey :: "crypt_lib \<Rightarrow> Service \<Rightarrow> string \<Rightarrow> string" where
  "hashAPIKey cl S rawKey =
     (if sv_apiSecret S \<noteq> [] then EncodeToString (cl_hmac cl (sv_apiSecret S) rawKey)
      else EncodeToString (cl_sha256 cl rawKey))"

definition HashAPIKey :: "crypt_lib \<Rightarrow> string \<Rightarrow> string" where
  "HashAPIKey cl rawKey = EncodeToString (cl_sha256 cl rawKey)"

definition store_api_key :: "go_time \<Rightarrow> Service \<Rightarrow> APIKeyRecord \<Rightarrow> Service \<times> int result" where
  "store_api_key now' S rec =
     (case Store_CreateAPIKey now' (sv_storage S) rec of
        (st, _, Some e) \<Rightarrow> (S\<lparr>sv_storage := st\<rparr>, Inl e)
      | (st, rec', None) \<Rightarrow>
          (S\<lparr>sv_storage := st,
             sv_apiKeyCache := (if 0 < sv_cacheRefreshInterval S
                                then gm_put (ak_KeyHash rec) (ak_ID rec') (sv_apiKeyCache S)
                                else sv_apiKeyCache S)\<rparr>, Inr (ak_ID rec')))"

definition Service_CreateAPIKey ::
  "crypt_lib \<Rightarrow> string option \<Rightarrow> (int \<times> APIKeyRecord) order \<Rightarrow> go_time \<Rightarrow> go_time \<Rightarrow> Service \<Rightarrow>
     CreateAPIKeyRequest \<Rightarrow> Service \<times> CreateAPIKeyResponse auth_result" where
  "Service_CreateAPIKey cl random it now now' S req =
     (if \<not> ValidRole (ck_Role req) then (S, Inl (InvalidRole (ck_Role req)))
      else if ck_Name req = [] then (S, Inl NameRequired)
      else if ck_UserID req \<le> 0 then (S, Inl UserIDRequired)
      else if ck_ExpiresAt req < now then (S, Inl ExpiryPassed)
      else
        case Store_GetAPIKeyByUserAndName it (sv_storage S) (ck_UserID req) (ck_Name req) of
          Inr _ \<Rightarrow> (S, Inl (Stored ErrAPIKeyNameExists))
        | Inl _ \<Rightarrow>
            (case random of
               None \<Rightarrow> (S, Inl KeyNotGenerated)
             | Some keyBytes \<Rightarrow>
                 (let rawKeyHex = EncodeToString keyBytes;
                      rawKey = (if sv_keyPrefix S \<noteq> [] then sv_keyPrefix S @ rawKeyHex else rawKeyHex);
                      display = take 8 rawKeyHex;
                      keyHash = hashAPIKey cl S rawKey;
                      rec = \<lparr>ak_ID = 0, ak_UserID = ck_UserID req, ak_KeyHash = keyHash, ak_KeyPrefix = display,
                             ak_Name = ck_Name req, ak_Role = ck_Role req, ak_Enabled = True, ak_CreatedAt = now,
                             ak_ExpiresAt = ck_ExpiresAt req, ak_LastUsed = None\<rparr>
                  in case store_api_key now' S rec of
                       (S', Inl e) \<Rightarrow> (S', Inl (Stored e))
                     | (S', Inr i) \<Rightarrow>
                         (S', Inr \<lparr>kr_ID = i, kr_Key = rawKey, kr_KeyPrefix = display, kr_Name = ck_Name req,
                                   kr_Role = ck_Role req, kr_UserID = ck_UserID req, kr_Enabled = True,
                                   kr_CreatedAt = now, kr_ExpiresAt = ck_ExpiresAt req\<rparr>))))"

text \<open>
  The time of the last use is written by a goroutine after the answer: \<open>Service_touch\<close> is a step of
  its own.
\<close>

definition Service_touch :: "go_time \<Rightarrow> Service \<Rightarrow> int \<Rightarrow> Service" where
  "Service_touch now S i = S\<lparr>sv_storage := fst (Store_UpdateAPIKeyLastUsed now (sv_storage S) i)\<rparr>"

definition find_api_key :: "Service \<Rightarrow> string \<Rightarrow> Service \<times> APIKeyRecord option" where
  "find_api_key S keyHash =
     (let caching = 0 < sv_cacheRefreshInterval S
      in case (if caching then Option.bind (gm_get (sv_apiKeyCache S) keyHash) (key_at S) else None) of
           Some key \<Rightarrow> (S, Some key)
         | None \<Rightarrow>
             (case Store_GetAPIKeyByHash (sv_storage S) keyHash of
                Inl _ \<Rightarrow> (S, None)
              | Inr key \<Rightarrow>
                  (if caching then S\<lparr>sv_apiKeyCache := gm_put keyHash (ak_ID key) (sv_apiKeyCache S)\<rparr> else S,
                   Some key)))"

definition Service_ValidateAPIKey ::
  "crypt_lib \<Rightarrow> go_time \<Rightarrow> Service \<Rightarrow> string \<Rightarrow> Service \<times> APIKeyRecord result" where
  "Service_ValidateAPIKey cl now S rawKey =
     (case find_api_key S (hashAPIKey cl S rawKey) of
        (S', None) \<Rightarrow> (S', Inl ErrAPIKeyNotFound)
      | (S', Some key) \<Rightarrow>
          (S', if \<not> ak_Enabled key then Inl ErrAPIKeyDisabled
               else if ak_ExpiresAt key < now then Inl ErrAPIKeyExpired
               else Inr key))"

definition Service_GetAPIKeyByID :: "Service \<Rightarrow> int \<Rightarrow> APIKeyRecord result" where
  "Service_GetAPIKeyByID S i = Store_GetAPIKeyByID (sv_storage S) i"

definition Service_ListAPIKeys :: "Service \<Rightarrow> APIKeyRecord list result" where
  "Service_ListAPIKeys S = Store_ListAPIKeys (sv_storage S)"

definition Service_ListAPIKeysByUserID :: "Service \<Rightarrow> int \<Rightarrow> APIKeyRecord list result" where
  "Service_ListAPIKeysByUserID S userID = Store_ListAPIKeysByUserID (sv_storage S) userID"

definition name_taken :: "(int \<times> APIKeyRecord) order \<Rightarrow> Service \<Rightarrow> APIKeyRecord \<Rightarrow> string \<Rightarrow> bool" where
  "name_taken it S key name =
     (name \<noteq> ak_Name key \<and>
      (case Store_GetAPIKeyByUserAndName it (sv_storage S) (ak_UserID key) name of
         Inl _ \<Rightarrow> False | Inr existing \<Rightarrow> ak_ID existing \<noteq> ak_ID key))"

definition apply_key_update ::
  "(int \<times> APIKeyRecord) order \<Rightarrow> go_time \<Rightarrow> int \<Rightarrow> Service \<Rightarrow> string \<times> any_value \<Rightarrow> Service \<times> auth_error option" where
  "apply_key_update it now p S = (\<lambda>(field, value).
     if field = ''name'' then
       (case (value, key_at S p) of
          (AnyString name, Some key) \<Rightarrow>
            if name_taken it S key name then (S, Some (Stored ErrAPIKeyNameExists))
            else (assign_key S p (ak_Name_update (\<lambda>_. name)), None)
        | _ \<Rightarrow> (S, None))
     else if field = ''role'' then
       (case value of
          AnyString role \<Rightarrow>
            if \<not> ValidRole role then (S, Some (InvalidRole role))
            else (assign_key S p (ak_Role_update (\<lambda>_. role)), None)
        | _ \<Rightarrow> (S, None))
     else if field = ''enabled'' then
       (case value of AnyBool enabled \<Rightarrow> (assign_key S p (ak_Enabled_update (\<lambda>_. enabled)), None) | _ \<Rightarrow> (S, None))
     else if field = ''expires_at'' then
       (case value of
          AnyTime expiresAt \<Rightarrow>
            if expiresAt < now then (S, Some ExpiryPassed)
            else (assign_key S p (ak_ExpiresAt_update (\<lambda>_. expiresAt)), None)
        | _ \<Rightarrow> (S, None))
     else (S, None))"

definition write_key :: "Service \<Rightarrow> int \<Rightarrow> Service \<times> APIKeyRecord auth_result" where
  "write_key S p =
     (case key_at S p of
        None \<Rightarrow> (S, Inl (Stored ErrAPIKeyNotFound))
      | Some key \<Rightarrow>
          (case Store_UpdateAPIKey (sv_storage S) key of
             (st, Some e) \<Rightarrow> (S\<lparr>sv_storage := st\<rparr>, Inl (Stored e))
           | (st, None) \<Rightarrow> (S\<lparr>sv_storage := st\<rparr>, Inr key)))"

definition Service_UpdateAPIKey ::
  "(string \<times> any_value) order \<Rightarrow> (int \<times> APIKeyRecord) order \<Rightarrow> (string \<times> int) order \<Rightarrow> go_time \<Rightarrow> Service \<Rightarrow> int \<Rightarrow>
     (string, any_value) gomap \<Rightarrow> Service \<times> APIKeyRecord auth_result" where
  "Service_UpdateAPIKey it itk itc now S i updates =
     (case Store_GetAPIKeyByID (sv_storage S) i of
        Inl e \<Rightarrow> (S, Inl (Stored e))
      | Inr _ \<Rightarrow>
          (case range_until (apply_key_update itk now i) S (it (gm_entries updates)) of
             (S1, Some e) \<Rightarrow> (S1, Inl e)
           | (S1, None) \<Rightarrow>
               (case write_key S1 i of
                  (S2, Inl e) \<Rightarrow> (S2, Inl e)
                | (S2, Inr key) \<Rightarrow> (invalidateAPIKeyCache itc S2 i, Inr key))))"

definition delete_key_record :: "Service \<Rightarrow> int \<Rightarrow> Service \<times> storage_error option" where
  "delete_key_record S i =
     (let (st, err) = Store_DeleteAPIKey (sv_storage S) i
      in case (gm_get (st_apiKeys (sv_storage S)) i, err) of
           (Some key, None) \<Rightarrow>
             (S\<lparr>sv_storage := st, sv_droppedKeys := gm_put i key (sv_droppedKeys S)\<rparr>, None)
         | _ \<Rightarrow> (S\<lparr>sv_storage := st\<rparr>, err))"

definition Service_DeleteAPIKey :: "(string \<times> int) order \<Rightarrow> Service \<Rightarrow> int \<Rightarrow> Service \<times> storage_error option" where
  "Service_DeleteAPIKey itc S i = delete_key_record (invalidateAPIKeyCache itc S i) i"

definition Service_RevokeAPIKey :: "(string \<times> int) order \<Rightarrow> Service \<Rightarrow> int \<Rightarrow> Service \<times> auth_error option" where
  "Service_RevokeAPIKey itc S i =
     (case Store_GetAPIKeyByID (sv_storage S) i of
        Inl e \<Rightarrow> (S, Some (Stored e))
      | Inr _ \<Rightarrow>
          (case write_key (assign_key S i (ak_Enabled_update (\<lambda>_. False))) i of
             (S2, Inl e) \<Rightarrow> (S2, Some e)
           | (S2, Inr _) \<Rightarrow> (invalidateAPIKeyCache itc S2 i, None)))"

definition rotated_name :: "string \<Rightarrow> go_time \<Rightarrow> string" where
  "rotated_name name now = name @ '' (rotated '' @ Format_seconds now @ '')''"

definition Service_RotateAPIKey ::
  "crypt_lib \<Rightarrow> string option \<Rightarrow> (int \<times> APIKeyRecord) order \<Rightarrow> (string \<times> int) order \<Rightarrow> go_time \<Rightarrow> go_time \<Rightarrow> go_time \<Rightarrow>
     Service \<Rightarrow> int \<Rightarrow> go_time \<Rightarrow> Service \<times> CreateAPIKeyResponse auth_result" where
  "Service_RotateAPIKey cl random itk itc now now1 now2 S i newExpiresAt =
     (case Store_GetAPIKeyByID (sv_storage S) i of
        Inl e \<Rightarrow> (S, Inl (Stored e))
      | Inr oldKey \<Rightarrow>
          if newExpiresAt < now then (S, Inl ExpiryPassed)
          else
            (case Service_CreateAPIKey cl random itk now1 now2 S
                    \<lparr>ck_UserID = ak_UserID oldKey, ck_Name = rotated_name (ak_Name oldKey) now,
                     ck_Role = ak_Role oldKey, ck_ExpiresAt = newExpiresAt\<rparr> of
               (S1, Inl e) \<Rightarrow> (S1, Inl e)
             | (S1, Inr newKey) \<Rightarrow> (fst (Service_RevokeAPIKey itc S1 i), Inr newKey)))"

section \<open>The first administrator\<close>

record BootstrapResult =
  br_Created :: bool
  br_Username :: string
  br_Message :: string

definition Service_BootstrapAdmin ::
  "crypt_lib \<Rightarrow> string \<Rightarrow> go_time \<Rightarrow> go_time \<Rightarrow> Service \<Rightarrow> string \<Rightarrow> string \<Rightarrow> string \<Rightarrow>
     Service \<times> BootstrapResult auth_result" where
  "Service_BootstrapAdmin cl salt now now' S username password email =
     (case Store_ListUsers (sv_storage S) of
        Inl e \<Rightarrow> (S, Inl (BootstrapListFailed e))
      | Inr users \<Rightarrow>
          if users \<noteq> []
          then (S, Inr \<lparr>br_Created = False, br_Username = [],
                        br_Message = ''bootstrap skipped: '' @ Itoa (int (length users)) @ '' user(s) already exist''\<rparr>)
          else if username = [] then (S, Inl BootstrapUsernameRequired)
          else if password = [] then (S, Inl BootstrapPasswordRequired)
          else
            (case Service_CreateUser cl salt now now' S
                    \<lparr>cu_Username = username, cu_Email = email, cu_Password = password, cu_Role = ''super_admin'',
                     cu_Enabled = True\<rparr> of
               (S', Inl e) \<Rightarrow> (S', Inl (BootstrapFailed e))
             | (S', Inr user) \<Rightarrow>
                 (S', Inr \<lparr>br_Created = True, br_Username = us_Username user,
                           br_Message = ''bootstrap admin user '' @ [CHR 0x27] @ us_Username user @ [CHR 0x27] @
                                        '' created successfully''\<rparr>)))"

end
