(* ===== verification/Go_Unicode.thy ===== *)
theory Go_Unicode
  imports Go_Prelude
begin

text \<open>
  Strings seen as characters: the decoding a \<open>range\<close> statement applies to the bytes of a string
  (\<open>unicode/utf8\<close>, an invalid byte counting as the replacement character), the encoding back, and the
  functions of \<open>strings\<close> and \<open>unicode\<close> that go character by character.  The tables of Unicode - case,
  folding, the classes of letters and digits - are a parameter; a character is its code point.
\<close>

section \<open>UTF-8\<close>

definition RuneError :: int where
  "RuneError = 0xFFFD"

definition byte_of :: "char \<Rightarrow> int" where
  "byte_of c = of_char c"

definition cont_byte :: "char \<Rightarrow> bool" where
  "cont_byte c \<longleftrightarrow> 0x80 \<le> byte_of c \<and> byte_of c \<le> 0xBF"

text \<open>The range the second byte must be in, by the first byte: no overlong form, no surrogate.\<close>

definition second_ok :: "int \<Rightarrow> int \<Rightarrow> bool" where
  "second_ok b0 b1 \<longleftrightarrow>
     (if b0 = 0xE0 then 0xA0 \<le> b1 \<and> b1 \<le> 0xBF
      else if b0 = 0xED then 0x80 \<le> b1 \<and> b1 \<le> 0x9F
      else if b0 = 0xF0 then 0x90 \<le> b1 \<and> b1 \<le> 0xBF
      else if b0 = 0xF4 then 0x80 \<le> b1 \<and> b1 \<le> 0x8F
      else 0x80 \<le> b1 \<and> b1 \<le> 0xBF)"

text \<open>\<open>utf8.DecodeRuneInString\<close> on a string that is not empty: the character and its width.\<close>

definition decode_rune :: "char \<Rightarrow> string \<Rightarrow> int \<times> nat" where
  "decode_rune c cs =
     (let b0 = byte_of c
      in if b0 < 0x80 then (b0, 1)
         else case cs of
                [] \<Rightarrow> (RuneError, 1)
              | c1 # cs1 \<Rightarrow>
                  (let b1 = byte_of c1
                   in if b0 < 0xC2 \<or> 0xF4 < b0 \<or> \<not> second_ok b0 b1 then (RuneError, 1)
                      else if b0 \<le> 0xDF then ((b0 - 0xC0) * 64 + (b1 - 0x80), 2)
                      else case cs1 of
                             [] \<Rightarrow> (RuneError, 1)
                           | c2 # cs2 \<Rightarrow>
                               (let b2 = byte_of c2
                                in if \<not> cont_byte c2 then (RuneError, 1)
                                   else if b0 \<le> 0xEF
                                   then ((b0 - 0xE0) * 4096 + (b1 - 0x80) * 64 + (b2 - 0x80), 3)
                                   else case cs2 of
                                          [] \<Rightarrow> (RuneError, 1)
                                        | c3 # _ \<Rightarrow>
                                            if \<not> cont_byte c3 then (RuneError, 1)
                                            else ((b0 - 0xF0) * 262144 + (b1 - 0x80) * 4096 +
                                                  (b2 - 0x80) * 64 + (byte_of c3 - 0x80), 4))))"

lemma decode_rune_width: "snd (decode_rune c cs) \<noteq> 0"
  by (simp add: decode_rune_def Let_def split: list.splits)

text \<open>\<open>for i, r := range s\<close>: each character with the position of its first byte.\<close>

function runes_from :: "nat \<Rightarrow> string \<Rightarrow> (nat \<times> int) list" where
  "runes_from i [] = []"
| "runes_from i (c # cs) =
     (let (r, w) = decode_rune c cs in (i, r) # runes_from (i + w) (drop (w - 1) cs))"
  by pat_completeness auto
termination
  by (relation "measure (\<lambda>(i, s). length s)") auto

abbreviation runes_at :: "string \<Rightarrow> (nat \<times> int) list" where
  "runes_at s \<equiv> runes_from 0 s"

definition runes :: "string \<Rightarrow> int list" where
  "runes s = map snd (runes_at s)"

definition byte :: "int \<Rightarrow> char" where
  "byte n = char_of n"

text \<open>\<open>utf8.EncodeRune\<close>, which \<open>string(runes)\<close> applies to each character.\<close>

definition encode_rune :: "int \<Rightarrow> string" where
  "encode_rune r0 =
     (let r = (if r0 < 0 \<or> 0x10FFFF < r0 \<or> (0xD800 \<le> r0 \<and> r0 \<le> 0xDFFF) then RuneError else r0)
      in if r < 0x80 then [byte r]
         else if r < 0x800 then [byte (0xC0 + r div 64), byte (0x80 + r mod 64)]
         else if r < 0x10000
         then [byte (0xE0 + r div 4096), byte (0x80 + r div 64 mod 64), byte (0x80 + r mod 64)]
         else [byte (0xF0 + r div 262144), byte (0x80 + r div 4096 mod 64),
               byte (0x80 + r div 64 mod 64), byte (0x80 + r mod 64)])"

definition string_of_runes :: "int list \<Rightarrow> string" where
  "string_of_runes rs = concat (map encode_rune rs)"

section \<open>Case\<close>

record unicode =
  un_ToLower :: "int \<Rightarrow> int"
  un_ToUpper :: "int \<Rightarrow> int"
  un_IsUpper :: "int \<Rightarrow> bool"
  un_IsLower :: "int \<Rightarrow> bool"
  un_IsDigit :: "int \<Rightarrow> bool"
  un_SameFold :: "int \<Rightarrow> int \<Rightarrow> bool"

text \<open>\<open>strings.ToLower\<close>, \<open>strings.ToUpper\<close> and \<open>strings.EqualFold\<close>.\<close>

definition lower_text :: "unicode \<Rightarrow> string \<Rightarrow> string" where
  "lower_text u s = string_of_runes (map (un_ToLower u) (runes s))"

definition upper_text :: "unicode \<Rightarrow> string \<Rightarrow> string" where
  "upper_text u s = string_of_runes (map (un_ToUpper u) (runes s))"

definition EqualFold :: "unicode \<Rightarrow> string \<Rightarrow> string \<Rightarrow> bool" where
  "EqualFold u s t \<longleftrightarrow> list_all2 (un_SameFold u) (runes s) (runes t)"

text \<open>The tables restricted to ASCII, for evaluation: other characters are left as they are.\<close>

definition ascii_upper :: "int \<Rightarrow> bool" where
  "ascii_upper r \<longleftrightarrow> 65 \<le> r \<and> r \<le> 90"

definition ascii_lower :: "int \<Rightarrow> bool" where
  "ascii_lower r \<longleftrightarrow> 97 \<le> r \<and> r \<le> 122"

definition ascii_tables :: unicode where
  "ascii_tables =
     \<lparr>un_ToLower = (\<lambda>r. if ascii_upper r then r + 32 else r),
      un_ToUpper = (\<lambda>r. if ascii_lower r then r - 32 else r),
      un_IsUpper = ascii_upper, un_IsLower = ascii_lower, un_IsDigit = (\<lambda>r. 48 \<le> r \<and> r \<le> 57),
      un_SameFold = (\<lambda>r t. r = t \<or> (ascii_upper r \<and> t = r + 32) \<or> (ascii_upper t \<and> r = t + 32))\<rparr>"

text \<open>What the tables say of ASCII, which is documented and which the results on ASCII names rest on.\<close>

definition ascii_ok :: "unicode \<Rightarrow> bool" where
  "ascii_ok u \<longleftrightarrow>
     (\<forall>r\<in>{0..<128}. un_ToLower u r = un_ToLower ascii_tables r \<and> un_ToUpper u r = un_ToUpper ascii_tables r \<and>
        (un_IsUpper u r \<longleftrightarrow> ascii_upper r) \<and> (un_IsLower u r \<longleftrightarrow> ascii_lower r) \<and>
        (un_IsDigit u r \<longleftrightarrow> un_IsDigit ascii_tables r))"

lemma ascii_ok_tables: "ascii_ok ascii_tables"
  by (simp add: ascii_ok_def ascii_tables_def)

section \<open>ASCII strings\<close>

definition ascii :: "string \<Rightarrow> bool" where
  "ascii s \<longleftrightarrow> (\<forall>c\<in>set s. byte_of c < 128)"

lemma byte_of_range: "0 \<le> byte_of c" "byte_of c < 256"
proof -
  have "of_char c = int (of_char c)" by (simp only: of_nat_of_char)
  moreover have "(of_char c :: nat) < 256" by (metis UNIV_I imageI lessThan_iff range_nat_of_char atLeastLessThan_iff)
  ultimately show "0 \<le> byte_of c" "byte_of c < 256" by (simp_all add: byte_of_def)
qed

lemma byte_byte_of [simp]: "byte (byte_of c) = c"
  by (simp add: byte_def byte_of_def)

lemma byte_of_byte: "0 \<le> n \<Longrightarrow> n < 256 \<Longrightarrow> byte_of (byte n) = n"
  by (simp add: byte_def byte_of_def)

lemma runes_from_ascii: "ascii s \<Longrightarrow> runes_from i s = zip [i..<i + length s] (map byte_of s)"
proof (induction s arbitrary: i)
  case (Cons c s)
  then show ?case by (simp add: ascii_def decode_rune_def upt_conv_Cons del: upt_Suc)
qed simp

lemma runes_ascii: "ascii s \<Longrightarrow> runes s = map byte_of s"
  by (simp add: runes_def runes_from_ascii)

lemma encode_ascii: "0 \<le> r \<Longrightarrow> r < 128 \<Longrightarrow> encode_rune r = [byte r]"
  by (simp add: encode_rune_def)

lemma string_of_ascii: "\<forall>r\<in>set rs. 0 \<le> r \<and> r < 128 \<Longrightarrow> string_of_runes rs = map byte rs"
  by (induction rs) (simp_all add: string_of_runes_def encode_ascii)

lemma string_of_runes_append [simp]: "string_of_runes (xs @ ys) = string_of_runes xs @ string_of_runes ys"
  by (simp add: string_of_runes_def)

text \<open>A character that is written and read again is the same character.\<close>

definition valid_rune :: "int \<Rightarrow> bool" where
  "valid_rune r \<longleftrightarrow> 0 \<le> r \<and> r \<le> 0x10FFFF \<and> \<not> (0xD800 \<le> r \<and> r \<le> 0xDFFF)"

lemma digit64: "0 \<le> (r :: int) mod 64" "r mod 64 \<le> 63"
  by simp_all

lemma base64_digits:
  fixes r :: int
  shows "r = (r div 4096) * 4096 + (r div 64 mod 64) * 64 + r mod 64"
    "r div 4096 = (r div 262144) * 64 + r div 4096 mod 64"
proof -
  have "r div (64 * 64) = r div 64 div 64" "r div (4096 * 64) = r div 4096 div 64"
    by (rule zdiv_zmult2_eq; simp)+
  then have d: "r div 4096 = r div 64 div 64" "r div 262144 = r div 4096 div 64" by simp_all
  show "r = (r div 4096) * 4096 + (r div 64 mod 64) * 64 + r mod 64"
    unfolding d(1) using div_mult_mod_eq [of r 64] div_mult_mod_eq [of "r div 64" 64] by linarith
  show "r div 4096 = (r div 262144) * 64 + r div 4096 mod 64"
    unfolding d(2) using div_mult_mod_eq [of "r div 4096" 64] by linarith
qed

lemma second_ok_simple: "128 \<le> b1 \<Longrightarrow> b1 \<le> 191 \<Longrightarrow> b0 \<notin> {0xE0, 0xED, 0xF0, 0xF4} \<Longrightarrow> second_ok b0 b1"
  by (simp add: second_ok_def)

lemma second_ok_three:
  fixes q m l :: int
  assumes "0 \<le> m" "m \<le> 63" "0 \<le> l" "l \<le> 63" "0x800 \<le> q * 4096 + m * 64 + l" "q * 4096 + m * 64 + l < 0x10000"
    "q * 4096 + m * 64 + l < 0xD800 \<or> 0xDFFF < q * 4096 + m * 64 + l"
  shows "second_ok (0xE0 + q) (0x80 + m)"
proof -
  consider "q = 0" | "q = 0xD" | "q \<noteq> 0" "q \<noteq> 0xD" by blast
  then show ?thesis
  proof cases
    case 3
    moreover have "q \<noteq> 0x10" "q \<noteq> 0x14" using assms by auto
    ultimately show ?thesis using assms by (intro second_ok_simple) auto
  qed (use assms in \<open>auto simp: second_ok_def\<close>)
qed

lemma second_ok_four:
  fixes q m l :: int
  assumes "0 \<le> m" "m \<le> 63" "0 \<le> l" "l \<le> 4095" "0x10000 \<le> q * 262144 + m * 4096 + l"
    "q * 262144 + m * 4096 + l \<le> 0x10FFFF"
  shows "second_ok (0xF0 + q) (0x80 + m)"
proof -
  consider "q = 0" | "q = 4" | "0 < q" "q < 4" using assms by linarith
  then show ?thesis
  proof cases
    case 3
    then show ?thesis using assms by (intro second_ok_simple) auto
  qed (use assms in \<open>auto simp: second_ok_def\<close>)
qed

lemma decode_encode:
  assumes "valid_rune r" "encode_rune r = c # cs"
  shows "decode_rune c (cs @ s) = (r, Suc (length cs))"
proof -
  consider "0 \<le> r" "r < 0x80" | "0x80 \<le> r" "r < 0x800"
    | "0x800 \<le> r" "r < 0x10000" "r < 0xD800 \<or> 0xDFFF < r" | "0x10000 \<le> r" "r \<le> 0x10FFFF"
    using assms(1) by (fastforce simp: valid_rune_def)
  then show ?thesis
  proof cases
    case 1
    with assms show ?thesis by (auto simp: encode_rune_def decode_rune_def byte_of_byte)
  next
    case 2
    then have "0xC2 \<le> 0xC0 + r div 64" "0xC0 + r div 64 \<le> 0xDF" by linarith+
    moreover have "r = (r div 64) * 64 + r mod 64" "r mod 64 \<le> 63" by presburger+
    moreover have "c = byte (0xC0 + r div 64)" "cs = [byte (0x80 + r mod 64)]"
      using 2 assms by (auto simp: encode_rune_def)
    ultimately show ?thesis by (simp add: decode_rune_def byte_of_byte second_ok_def)
  next
    case 3
    obtain q m l where qml: "q = r div 4096" "m = r div 64 mod 64" "l = r mod 64" by blast
    have r: "r = q * 4096 + m * 64 + l" using base64_digits(1) [of r] by (simp only: qml)
    have range: "0 \<le> m" "m \<le> 63" "0 \<le> l" "l \<le> 63" by (simp_all only: qml digit64)
    have c: "c = byte (0xE0 + q)" "cs = [byte (0x80 + m), byte (0x80 + l)]"
      using 3 assms(2) by (auto simp: encode_rune_def qml)
    have "0 \<le> q" "q \<le> 0xF" "second_ok (0xE0 + q) (0x80 + m)"
      using 3 range by (auto simp: r intro!: second_ok_three [of _ l])
    with range show ?thesis unfolding c r by (simp add: decode_rune_def byte_of_byte cont_byte_def)
  next
    case 4
    obtain q m k l where qml: "q = r div 262144" "m = r div 4096 mod 64" "k = r div 64 mod 64" "l = r mod 64" by blast
    have r: "r = q * 262144 + m * 4096 + k * 64 + l" using base64_digits [of r] unfolding qml by linarith
    have range: "0 \<le> m" "m \<le> 63" "0 \<le> l" "l \<le> 63" "0 \<le> k" "k \<le> 63" by (simp_all only: qml digit64)
    have c: "c = byte (0xF0 + q)" "cs = [byte (0x80 + m), byte (0x80 + k), byte (0x80 + l)]"
      using 4 assms(2) by (auto simp: encode_rune_def qml)
    have "0 \<le> q" "q \<le> 4" "second_ok (0xF0 + q) (0x80 + m)"
      using 4 range by (auto simp: r intro!: second_ok_four [of _ "k * 64 + l"])
    with range show ?thesis unfolding c r by (simp add: decode_rune_def byte_of_byte cont_byte_def)
  qed
qed

lemma encode_nonempty: "encode_rune r \<noteq> []"
  by (simp add: encode_rune_def Let_def)

lemma runes_string_of: "\<forall>r\<in>set rs. valid_rune r \<Longrightarrow> runes (string_of_runes rs) = rs"
proof -
  have "\<forall>r\<in>set rs. valid_rune r \<Longrightarrow> map snd (runes_from i (string_of_runes rs)) = rs" for i
  proof (induction rs arbitrary: i)
    case (Cons r rs)
    obtain c cs where e: "encode_rune r = c # cs" by (meson encode_nonempty neq_Nil_conv)
    have "decode_rune c (cs @ string_of_runes rs) = (r, Suc (length cs))"
      using Cons.prems by (intro decode_encode e) simp
    moreover have "string_of_runes (r # rs) = c # cs @ string_of_runes rs" by (simp add: string_of_runes_def e)
    ultimately show ?case using Cons by simp
  qed (simp add: string_of_runes_def)
  then show "\<forall>r\<in>set rs. valid_rune r \<Longrightarrow> runes (string_of_runes rs) = rs" by (simp add: runes_def)
qed

end
