(* ===== verification/Mcp_Server.thy ===== *)
theory Mcp_Server
  imports Mcp_Confirmation Server_Config Registry_Schemas Registry_Keys Audit_Log Auth_Service Go_Unicode
begin

text \<open>
  The server of the Model Context Protocol (\<open>internal/mcp/server.go\<close>, \<open>middleware.go\<close>) and what all
  tools share (\<open>tools.go\<close>, the helpers of \<open>tools_schema.go\<close>): the two middlewares, the set-up, the
  results of a tool call and the wrapper that records it in the audit log.

  The protocol library decodes a call's arguments into the input structure of its handler; a handler
  here takes the fields of that structure.  The text of a result is the value it is encoded from, and a
  text printed from an error is the error.  A handler answers with a result and never with a Go error,
  which the wrapper would treat in the same way.
\<close>

section \<open>The server\<close>

text \<open>The configuration that decides which tools there are, as the access rules read it.\<close>

definition tool_config :: "MCPConfig_file \<Rightarrow> MCPConfig" where
  "tool_config cfg =
     \<lparr>mc_ReadOnly = mcp_ReadOnly cfg, mc_ToolPolicy = mcp_ToolPolicy cfg, mc_AllowedTools = mcp_AllowedTools cfg,
      mc_DeniedTools = mcp_DeniedTools cfg, mc_PermissionPreset = mcp_PermissionPreset cfg,
      mc_PermissionScopes = mcp_PermissionScopes cfg\<rparr>"

text \<open>The account service is optional; whether there is one is \<open>ms_accounts\<close>.\<close>

record 'p McpServer =
  ms_registry :: "'p Registry"
  ms_accounts :: bool
  ms_config :: MCPConfig_file
  ms_version :: string
  ms_commit :: string
  ms_buildTime :: string
  ms_clusterID :: string

text \<open>\<open>New\<close>: the store of confirmations exists when confirmations are required.\<close>

definition New_confirmStore :: "MCPConfig_file \<Rightarrow> ConfirmationStore option" where
  "New_confirmStore cfg =
     (if mcp_RequireConfirmations cfg
      then (let ttl = i64 (mcp_ConfirmationTTLSecs cfg * 1000000000)
            in Some (NewConfirmationStore (if ttl \<le> 0 then 300 * 1000000000 else ttl)))
      else None)"

definition mcpPrincipal :: "MCPConfig_file \<Rightarrow> string" where
  "mcpPrincipal cfg = (if mcp_AuthToken cfg \<noteq> [] then ''mcp-authenticated'' else ''mcp-anonymous'')"

definition mcpActor :: "MCPConfig_file \<Rightarrow> string \<times> string \<times> string" where
  "mcpActor cfg =
     (if mcp_AuthToken cfg \<noteq> [] then (''mcp-authenticated'', ''mcp_client'', ''bearer_token'')
      else (''mcp-anonymous'', ''anonymous'', []))"

section \<open>Middlewares\<close>

datatype gate = Serve | HttpError nat string

definition TrimPrefix :: "string \<Rightarrow> string \<Rightarrow> string" where
  "TrimPrefix s p = (if HasPrefix s p then drop (length p) s else s)"

text \<open>\<open>subtle.ConstantTimeCompare\<close> compares; its running time is not modelled.\<close>

definition authMiddleware :: "MCPConfig_file \<Rightarrow> string \<Rightarrow> gate" where
  "authMiddleware cfg authorization =
     (if mcp_AuthToken cfg = [] then Serve
      else let token = TrimPrefix authorization ''Bearer ''
           in if token = [] \<or> token = authorization then HttpError 401 ''Unauthorized''
              else if token \<noteq> mcp_AuthToken cfg then HttpError 401 ''Unauthorized''
              else Serve)"

text \<open>\<open>strings.LastIndex\<close> of one byte.\<close>

definition LastIndexByte :: "string \<Rightarrow> char \<Rightarrow> nat option" where
  "LastIndexByte s c = (case IndexByte (rev s) c of None \<Rightarrow> None | Some i \<Rightarrow> Some (length s - 1 - i))"

definition splitOrigin :: "string \<Rightarrow> string \<times> string" where
  "splitOrigin origin =
     (case strings_Index origin ''://'' of
        Some idx \<Rightarrow> (take idx origin, drop (idx + 3) origin)
      | None \<Rightarrow> ([], origin))"

definition splitHostPort :: "string \<Rightarrow> string \<times> string" where
  "splitHostPort authority =
     (case LastIndexByte authority (CHR '':'') of
        Some idx \<Rightarrow> (take idx authority, drop (idx + 1) authority)
      | None \<Rightarrow> (authority, []))"

definition matchHostPattern :: "string \<Rightarrow> string \<Rightarrow> bool" where
  "matchHostPattern pattern host =
     (let pParts = SplitByte pattern (CHR ''.''); oParts = SplitByte host (CHR ''.'')
      in length pParts = length oParts \<and>
         list_all (\<lambda>(pp, op). pp = ''*'' \<or> pp = op) (zip pParts oParts))"

definition mcp_originMatchesPattern :: "unicode \<Rightarrow> string \<Rightarrow> string \<Rightarrow> bool" where
  "mcp_originMatchesPattern u pattern origin =
     (let p = lower_text u pattern; o' = lower_text u origin
      in if \<not> Contains p ''*'' then p = o'
         else if p = ''*'' then True
         else let (pScheme, pAuthority) = splitOrigin p; (oScheme, oAuthority) = splitOrigin o'
              in if pScheme \<noteq> oScheme then False
                 else let (pHost, pPort) = splitHostPort pAuthority; (oHost, oPort) = splitHostPort oAuthority
                      in if pPort = ''*'' then oPort \<noteq> [] \<and> matchHostPattern pHost oHost
                         else if pPort \<noteq> oPort then False
                         else matchHostPattern pHost oHost)"

definition isOriginAllowed :: "unicode \<Rightarrow> MCPConfig_file \<Rightarrow> string \<Rightarrow> bool" where
  "isOriginAllowed u cfg origin =
     list_ex (\<lambda>allowed. allowed = ''*'' \<or> mcp_originMatchesPattern u allowed origin) (mcp_AllowedOrigins cfg)"

definition originMiddleware :: "unicode \<Rightarrow> MCPConfig_file \<Rightarrow> string \<Rightarrow> gate" where
  "originMiddleware u cfg origin =
     (if origin = [] \<or> mcp_AllowedOrigins cfg = [] then Serve
      else if \<not> isOriginAllowed u cfg origin then HttpError 403 ''Forbidden: origin not allowed''
      else Serve)"

text \<open>\<open>Start\<close> puts the origin check before the authentication.\<close>

definition mcp_entry :: "unicode \<Rightarrow> MCPConfig_file \<Rightarrow> string \<Rightarrow> string \<Rightarrow> gate" where
  "mcp_entry u cfg origin authorization =
     (case originMiddleware u cfg origin of HttpError code text \<Rightarrow> HttpError code text | Serve \<Rightarrow> authMiddleware cfg authorization)"

section \<open>Results\<close>

datatype tool_error =
    OfRegistry registry_error | OfStore storage_error | OfKey key_error | OfExporter exporter_error
  | OfAuth auth_error | AtVersion int storage_error | AtSubject string storage_error | Saying string

datatype 'b tool_result =
    Json 'b | Plain string | Error tool_error | Unconfirmed confirm_outcome

text \<open>A request for confirmation is not an error, a rejected token is.\<close>

fun IsError :: "'b tool_result \<Rightarrow> bool" where
  "IsError (Error _) \<longleftrightarrow> True"
| "IsError (Unconfirmed (TokenRejected _)) \<longleftrightarrow> True"
| "IsError _ \<longleftrightarrow> False"

definition resolveContext :: "string \<Rightarrow> string" where
  "resolveContext provided = (if provided \<noteq> [] then provided else DefaultContext)"

text \<open>\<open>if err != nil { return errorResult(err) }; return jsonResult(...)\<close>.\<close>

definition answer_with :: "('e \<Rightarrow> tool_error) \<Rightarrow> ('a \<Rightarrow> 'b) \<Rightarrow> 'e + 'a \<Rightarrow> 'b tool_result" where
  "answer_with err body res = (case res of Inl e \<Rightarrow> Error (err e) | Inr x \<Rightarrow> Json (body x))"

definition answer_text :: "string result \<Rightarrow> 'b tool_result" where
  "answer_text res = (case res of Inl e \<Rightarrow> Error (OfStore e) | Inr raw \<Rightarrow> Plain raw)"

definition answer_done :: "('e \<Rightarrow> tool_error) \<Rightarrow> 'b \<Rightarrow> 'e option \<Rightarrow> 'b tool_result" where
  "answer_done err body res = (case res of Some e \<Rightarrow> Error (err e) | None \<Rightarrow> Json body)"

section \<open>The wrapper of a handler\<close>

text \<open>
  The raw arguments are decoded again for the audit log; \<open>decode\<close> is \<open>json.Unmarshal\<close> into a map.
  A null decodes to the empty string.
\<close>

definition extract_string :: "(string \<Rightarrow> jmap option) \<Rightarrow> string \<Rightarrow> string \<Rightarrow> string" where
  "extract_string decode key raw =
     (if raw = [] then []
      else case decode raw of
             None \<Rightarrow> []
           | Some args \<Rightarrow> (case map_of args key of Some (JStr s) \<Rightarrow> s | _ \<Rightarrow> []))"

definition extractSubjectFromArgs :: "(string \<Rightarrow> jmap option) \<Rightarrow> string \<Rightarrow> string" where
  "extractSubjectFromArgs decode raw = extract_string decode ''subject'' raw"

definition extractContextFromArgs :: "(string \<Rightarrow> jmap option) \<Rightarrow> string \<Rightarrow> string" where
  "extractContextFromArgs decode raw = extract_string decode ''context'' raw"

definition extractSchemaFromArgs :: "(string \<Rightarrow> jmap option) \<Rightarrow> string \<Rightarrow> string" where
  "extractSchemaFromArgs decode raw = extract_string decode ''schema'' raw"

definition audit_metadata :: "string \<Rightarrow> (string, string) gomap option" where
  "audit_metadata schemaBody =
     (if schemaBody = [] then None
      else Some (gm_put ''schema'' (if length schemaBody > 1000 then take 1000 schemaBody @ ''...'' else schemaBody) gm_empty))"

text \<open>What the wrapper logs of a call that gave \<open>result\<close>, when there is an audit logger.\<close>

definition instrumentedHandler ::
  "audit_codec \<Rightarrow> (string \<Rightarrow> jmap option) \<Rightarrow> MCPConfig_file \<Rightarrow> AuditLogger \<Rightarrow> string \<Rightarrow> string \<Rightarrow> go_time \<Rightarrow> int \<Rightarrow>
     'b tool_result \<Rightarrow> AuditLogger" where
  "instrumentedHandler cd decode cfg al name raw now duration result =
     (let status = (if IsError result then ''error'' else ''success'');
          schemaBody = (if mcp_LogSchemas cfg \<and> raw \<noteq> [] then extractSchemaFromArgs decode raw else []);
          auditErr = (if IsError result then Some ''tool returned error'' else None);
          eventType = (if auditErr \<noteq> None then AuditEventMCPToolError else AuditEventMCPToolCall);
          subject = extractSubjectFromArgs decode raw;
          auditCtx = (let c = extractContextFromArgs decode raw in if c = [] then DefaultContext else c);
          (actorID, actorType, authMethod) = mcpActor cfg
      in AuditLogger_LogMCPEvent cd al eventType actorID actorType authMethod name status now duration auditErr subject
           auditCtx (audit_metadata schemaBody))"

section \<open>State and environment\<close>

text \<open>
  The state tools work on: the account service, whose storage the registry shares, and the
  confirmation tokens.
\<close>

record mcp_state =
  mx_service :: Service
  mx_confirm :: "ConfirmationStore option"

text \<open>What a call takes from outside: clocks, visiting orders, regular expressions, digests and the next token.\<close>

record mcp_env =
  me_go :: go_env
  me_now :: "nat \<Rightarrow> go_time"
  me_clock :: "int \<Rightarrow> go_time"
  me_list :: "SchemaRecord order"
  me_types :: "string order"
  me_regexp :: "string \<Rightarrow> string + (string \<Rightarrow> bool)"
  me_digest :: digest_lib
  me_uuid :: string

definition mx_store :: "mcp_state \<Rightarrow> Store" where
  "mx_store st = sv_storage (mx_service st)"

definition on_store :: "(Store \<Rightarrow> Store \<times> 'r) \<Rightarrow> mcp_state \<Rightarrow> mcp_state \<times> 'r" where
  "on_store f st =
     (case f (mx_store st) of (s', res) \<Rightarrow> (st\<lparr>mx_service := (mx_service st)\<lparr>sv_storage := s'\<rparr>\<rparr>, res))"

text \<open>\<open>if result := s.confirmationCheck(...); result != nil { return result }\<close>, then the operation.\<close>

definition confirming ::
  "mcp_env \<Rightarrow> string \<Rightarrow> bool \<Rightarrow> string \<Rightarrow> jmap \<Rightarrow> jmap \<Rightarrow> (Store \<Rightarrow> Store \<times> 'b tool_result) \<Rightarrow> mcp_state \<Rightarrow>
     mcp_state \<times> 'b tool_result" where
  "confirming env tool dryRun confirmToken args preview f st =
     (case confirmationCheck (me_digest env) (mx_confirm st) tool dryRun confirmToken args preview (me_uuid env) (me_now env 0) of
        (cs, Proceed) \<Rightarrow> on_store f (st\<lparr>mx_confirm := cs\<rparr>)
      | (cs, out) \<Rightarrow> (st\<lparr>mx_confirm := cs\<rparr>, Unconfirmed out))"

text \<open>An integer argument: JSON's number with that value.\<close>

definition JInt :: "int \<Rightarrow> json" where
  "JInt n = JNum (Fin (of_int n))"

end
