(* ===== verification/Mcp_Tools.thy ===== *)
theory Mcp_Tools
  imports Mcp_Server
begin

text \<open>
  The tools for schemas, configuration, modes, contexts, encryption keys, exporters and metadata
  (\<open>internal/mcp/tools.go\<close>, \<open>tools_schema.go\<close>, \<open>tools_write.go\<close>, \<open>tools_config.go\<close>, \<open>tools_context.go\<close>,
  \<open>tools_dek.go\<close>, \<open>tools_exporter.go\<close>, \<open>tools_metadata.go\<close>).  A handler that only reads takes the store and
  gives a result; one that writes returns the store as well; one that asks for confirmation works on
  the state.  A \<open>register...\<close> list has the tools a function registers, with their \<open>ReadOnlyHint\<close>.
\<close>

section \<open>What a tool answers\<close>

datatype tool_body =
    RecordJ SchemaRecord | RecordsJ "SchemaRecord list" | StringsJ "string list" | IntsJ "int list"
  | PairsJ "SubjectVersion list" | MaxIdJ int | VersionJ int | CompatJ Result | LevelJ string | ModeJ string
  | ConfigJ ConfigRecord | ImportJ ImportResult | KekJ KEKRecord | KeksJ "KEKRecord list" | DekJ DEKRecord
  | FlagJ string | NameJ string | NameStateJ string string | ExporterJ ExporterRecord
  | StatusJ ExporterStatusRecord | StringMapJ "(string, string) gomap" | AliasJ string string
  | WritableJ bool "string option" | FormattedJ string int string string | MetadataJ Metadata
  | ClusterJ string | ServerInfoJ string "string list" | ServerVersionJ string "string option" "string option"

section \<open>Server and subjects\<close>

definition handleHealthCheck :: "tool_body tool_result" where
  "handleHealthCheck = Plain ''Schema registry is healthy''"

definition handleGetServerInfo :: "'p McpServer \<Rightarrow> tool_body tool_result" where
  "handleGetServerInfo srv = Json (ServerInfoJ (ms_version srv) [''AVRO'', ''PROTOBUF'', ''JSON''])"

definition handleListSubjects ::
  "mcp_env \<Rightarrow> Store \<Rightarrow> bool \<Rightarrow> string \<Rightarrow> string \<Rightarrow> string \<Rightarrow> tool_body tool_result" where
  "handleListSubjects env s deleted prefix pattern ctx =
     (case Store_ListSubjects s (resolveContext ctx) deleted of
        Inl err \<Rightarrow> Error (OfStore err)
      | Inr subjects0 \<Rightarrow>
          (let subjects = (if prefix \<noteq> [] then filter (\<lambda>subj. HasPrefix subj prefix) subjects0 else subjects0)
           in if pattern \<noteq> []
              then (case me_regexp env pattern of
                      Inl err \<Rightarrow> Error (Saying (''invalid regex pattern: '' @ err))
                    | Inr re \<Rightarrow> Json (StringsJ (filter re subjects)))
              else Json (StringsJ subjects)))"

section \<open>Reading schemas\<close>

definition registerSchemaReadTools :: "(string \<times> bool) list" where
  "registerSchemaReadTools =
     [(''get_schema_by_id'', True), (''get_raw_schema_by_id'', True), (''get_schema_version'', True),
      (''get_raw_schema_version'', True), (''get_latest_schema'', True), (''list_versions'', True),
      (''get_subjects_for_schema'', True), (''get_versions_for_schema'', True), (''get_referenced_by'', True),
      (''lookup_schema'', True), (''get_schema_types'', True), (''list_schemas'', True), (''get_max_schema_id'', True)]"

definition handleGetSchemaByID :: "Store \<Rightarrow> int \<Rightarrow> string \<Rightarrow> tool_body tool_result" where
  "handleGetSchemaByID s i ctx = answer_with OfStore RecordJ (Store_GetSchemaByID s (resolveContext ctx) i)"

definition handleGetRawSchemaByID :: "'p McpServer \<Rightarrow> Store \<Rightarrow> int \<Rightarrow> string \<Rightarrow> tool_body tool_result" where
  "handleGetRawSchemaByID srv s i ctx = answer_text (Registry_GetRawSchemaByID (ms_registry srv) s (resolveContext ctx) i)"

definition handleGetSchemaVersion :: "Store \<Rightarrow> string \<Rightarrow> int \<Rightarrow> string \<Rightarrow> tool_body tool_result" where
  "handleGetSchemaVersion s subject version ctx =
     answer_with OfStore RecordJ (Store_GetSchemaBySubjectVersion s (resolveContext ctx) subject version)"

definition handleGetRawSchemaVersion ::
  "'p McpServer \<Rightarrow> Store \<Rightarrow> string \<Rightarrow> int \<Rightarrow> string \<Rightarrow> tool_body tool_result" where
  "handleGetRawSchemaVersion srv s subject version ctx =
     answer_text (Registry_GetRawSchemaBySubjectVersion (ms_registry srv) s (resolveContext ctx) subject version)"

definition handleGetLatestSchema :: "Store \<Rightarrow> string \<Rightarrow> string \<Rightarrow> tool_body tool_result" where
  "handleGetLatestSchema s subject ctx = answer_with OfStore RecordJ (Store_GetLatestSchema s (resolveContext ctx) subject)"

definition handleListVersions :: "'p McpServer \<Rightarrow> Store \<Rightarrow> string \<Rightarrow> bool \<Rightarrow> string \<Rightarrow> tool_body tool_result" where
  "handleListVersions srv s subject deleted ctx =
     answer_with OfStore IntsJ (Registry_GetVersions (ms_registry srv) s (resolveContext ctx) subject deleted)"

definition handleGetSubjectsForSchema :: "Store \<Rightarrow> int \<Rightarrow> bool \<Rightarrow> string \<Rightarrow> tool_body tool_result" where
  "handleGetSubjectsForSchema s i deleted ctx =
     answer_with OfStore StringsJ (Store_GetSubjectsBySchemaID s (resolveContext ctx) i deleted)"

definition handleGetVersionsForSchema :: "Store \<Rightarrow> int \<Rightarrow> bool \<Rightarrow> string \<Rightarrow> tool_body tool_result" where
  "handleGetVersionsForSchema s i deleted ctx =
     answer_with OfStore PairsJ (Store_GetVersionsBySchemaID s (resolveContext ctx) i deleted)"

definition handleGetReferencedBy :: "Store \<Rightarrow> string \<Rightarrow> int \<Rightarrow> string \<Rightarrow> tool_body tool_result" where
  "handleGetReferencedBy s subject version ctx =
     answer_with OfStore PairsJ (Store_GetReferencedBy s (resolveContext ctx) subject version)"

definition handleLookupSchema ::
  "'p McpServer \<Rightarrow> mcp_env \<Rightarrow> Store \<Rightarrow> string \<Rightarrow> string \<Rightarrow> string \<Rightarrow> bool \<Rightarrow> string \<Rightarrow> tool_body tool_result" where
  "handleLookupSchema srv env s subject schema schemaType deleted ctx =
     answer_with OfRegistry RecordJ
       (Registry_LookupSchema (me_go env) (ms_registry srv) s (resolveContext ctx) subject schema schemaType [] deleted False)"

definition handleGetSchemaTypes :: "'p McpServer \<Rightarrow> mcp_env \<Rightarrow> tool_body tool_result" where
  "handleGetSchemaTypes srv env = Json (StringsJ (me_types env (gm_keys (rg_schemaParser (ms_registry srv)))))"

record listSchemasInput =
  ls_SubjectPrefix :: string
  ls_Deleted :: bool
  ls_LatestOnly :: bool
  ls_Offset :: int
  ls_Limit :: int
  ls_Context :: string

definition handleListSchemas :: "mcp_env \<Rightarrow> Store \<Rightarrow> listSchemasInput \<Rightarrow> tool_body tool_result" where
  "handleListSchemas env s inp =
     (let offset = (if ls_Offset inp < 0 then 0 else ls_Offset inp);
          limit0 = (if ls_Limit inp \<le> 0 then 100 else ls_Limit inp);
          limit = (if limit0 > 1000 then 1000 else limit0)
      in answer_with OfStore RecordsJ
           (Store_ListSchemas (me_list env) s (resolveContext (ls_Context inp))
              \<lparr>lp_SubjectPrefix = ls_SubjectPrefix inp, lp_Deleted = ls_Deleted inp, lp_LatestOnly = ls_LatestOnly inp,
               lp_Offset = offset, lp_Limit = limit\<rparr>))"

definition handleGetMaxSchemaID :: "Store \<Rightarrow> string \<Rightarrow> tool_body tool_result" where
  "handleGetMaxSchemaID s ctx = answer_with OfStore MaxIdJ (Store_GetMaxSchemaID s (resolveContext ctx))"

section \<open>Writing schemas\<close>

definition registerSchemaWriteTools :: "(string \<times> bool) list" where
  "registerSchemaWriteTools =
     [(''register_schema'', False), (''delete_subject'', False), (''delete_version'', False), (''check_compatibility'', True)]"

record registerSchemaInput =
  rg_Subject :: string
  rg_Schema :: string
  rg_SchemaType :: string
  rg_References :: "Reference list"
  rg_Normalize :: bool
  rg_Metadata :: "Metadata option"
  rg_RuleSet :: "RuleSet option"
  rg_Context :: string

definition handleRegisterSchema ::
  "'p McpServer \<Rightarrow> mcp_env \<Rightarrow> registerSchemaInput \<Rightarrow> Store \<Rightarrow> Store \<times> tool_body tool_result" where
  "handleRegisterSchema srv env inp s =
     (case Registry_RegisterSchema (me_go env) (ms_registry srv) s (resolveContext (rg_Context inp)) (rg_Subject inp)
             (rg_Schema inp) (rg_SchemaType inp) (rg_References inp)
             \<lparr>ro_Normalize = rg_Normalize inp, ro_Metadata = rg_Metadata inp, ro_RuleSet = rg_RuleSet inp\<rparr> of
        (s', res) \<Rightarrow> (s', answer_with OfRegistry RecordJ res))"

definition handleDeleteSubject ::
  "'p McpServer \<Rightarrow> mcp_env \<Rightarrow> string \<Rightarrow> bool \<Rightarrow> bool \<Rightarrow> string \<Rightarrow> string \<Rightarrow> mcp_state \<Rightarrow> mcp_state \<times> tool_body tool_result" where
  "handleDeleteSubject srv env subject permanent dryRun confirmToken ctx =
     confirming env ''delete_subject'' dryRun confirmToken
       [(''subject'', JStr subject), (''permanent'', JBool permanent)]
       [(''action'', JStr ''delete_subject''), (''subject'', JStr subject), (''permanent'', JBool permanent)]
       (\<lambda>s. case Registry_DeleteSubject (ms_registry srv) s (resolveContext ctx) subject permanent of
              (s', res) \<Rightarrow> (s', answer_with OfRegistry IntsJ res))"

definition handleDeleteVersion ::
  "'p McpServer \<Rightarrow> mcp_env \<Rightarrow> string \<Rightarrow> int \<Rightarrow> bool \<Rightarrow> bool \<Rightarrow> string \<Rightarrow> string \<Rightarrow> mcp_state \<Rightarrow>
     mcp_state \<times> tool_body tool_result" where
  "handleDeleteVersion srv env subject version permanent dryRun confirmToken ctx =
     confirming env ''delete_version'' dryRun confirmToken
       [(''subject'', JStr subject), (''version'', JInt version), (''permanent'', JBool permanent)]
       [(''action'', JStr ''delete_version''), (''subject'', JStr subject), (''version'', JInt version),
        (''permanent'', JBool permanent)]
       (\<lambda>s. case Registry_DeleteVersion (ms_registry srv) s (resolveContext ctx) subject version permanent of
              (s', res) \<Rightarrow> (s', answer_with OfRegistry VersionJ res))"

definition handleCheckCompatibility ::
  "'p McpServer \<Rightarrow> Store \<Rightarrow> string \<Rightarrow> string \<Rightarrow> string \<Rightarrow> Reference list \<Rightarrow> string \<Rightarrow> string \<Rightarrow> tool_body tool_result" where
  "handleCheckCompatibility srv s subject schema schemaType refs version0 ctx =
     (let version = (if version0 = [] then ''latest'' else version0)
      in answer_with OfRegistry CompatJ
           (Registry_CheckCompatibility (ms_registry srv) s (resolveContext ctx) subject schema schemaType refs version False))"

section \<open>Configuration and modes\<close>

definition registerConfigTools :: "(string \<times> bool) list" where
  "registerConfigTools =
     [(''get_config'', True), (''set_config'', False), (''delete_config'', False), (''get_mode'', True),
      (''set_mode'', False), (''delete_mode'', False)]"

definition handleGetConfig :: "'p McpServer \<Rightarrow> Store \<Rightarrow> string \<Rightarrow> string \<Rightarrow> tool_body tool_result" where
  "handleGetConfig srv s subject ctx =
     answer_with OfStore ConfigJ (Registry_GetConfigFull (ms_registry srv) s (resolveContext ctx) subject)"

definition handleSetConfig ::
  "'p McpServer \<Rightarrow> string \<Rightarrow> string \<Rightarrow> bool option \<Rightarrow> string \<Rightarrow> Store \<Rightarrow> Store \<times> tool_body tool_result" where
  "handleSetConfig srv subject level normalizing ctx s =
     (case Registry_SetConfig (ms_registry srv) s (resolveContext ctx) subject level normalizing None of
        (s', res) \<Rightarrow> (s', answer_done OfRegistry (LevelJ level) res))"

definition handleDeleteConfig ::
  "'p McpServer \<Rightarrow> mcp_env \<Rightarrow> string \<Rightarrow> bool \<Rightarrow> string \<Rightarrow> string \<Rightarrow> mcp_state \<Rightarrow> mcp_state \<times> tool_body tool_result" where
  "handleDeleteConfig srv env subject dryRun confirmToken ctx =
     confirming env ''delete_config'' dryRun confirmToken [(''subject'', JStr subject)]
       [(''action'', JStr ''delete_config''), (''subject'', JStr subject)]
       (\<lambda>s. case Registry_DeleteConfig (ms_registry srv) s (resolveContext ctx) subject of
              (s', res) \<Rightarrow> (s', answer_with OfStore LevelJ res))"

definition handleGetMode :: "'p McpServer \<Rightarrow> Store \<Rightarrow> string \<Rightarrow> string \<Rightarrow> tool_body tool_result" where
  "handleGetMode srv s subject ctx =
     answer_with OfRegistry ModeJ (Registry_GetMode (ms_registry srv) s (resolveContext ctx) subject)"

definition handleSetMode ::
  "'p McpServer \<Rightarrow> mcp_env \<Rightarrow> string \<Rightarrow> string \<Rightarrow> bool \<Rightarrow> bool \<Rightarrow> string \<Rightarrow> string \<Rightarrow> mcp_state \<Rightarrow>
     mcp_state \<times> tool_body tool_result" where
  "handleSetMode srv env subject mode force dryRun confirmToken ctx =
     confirming env ''set_mode'' dryRun confirmToken [(''subject'', JStr subject), (''mode'', JStr mode)]
       [(''action'', JStr ''set_mode''), (''subject'', JStr subject), (''mode'', JStr mode)]
       (\<lambda>s. case Registry_SetMode (ms_registry srv) s (resolveContext ctx) subject mode force of
              (s', res) \<Rightarrow> (s', answer_done OfRegistry (ModeJ mode) res))"

definition handleDeleteMode :: "'p McpServer \<Rightarrow> string \<Rightarrow> string \<Rightarrow> Store \<Rightarrow> Store \<times> tool_body tool_result" where
  "handleDeleteMode srv subject ctx s =
     (case Registry_DeleteMode (ms_registry srv) s (resolveContext ctx) subject of
        (s', res) \<Rightarrow> (s', answer_with OfStore ModeJ res))"

section \<open>Contexts and import\<close>

definition registerContextTools :: "(string \<times> bool) list" where
  "registerContextTools = [(''list_contexts'', True), (''import_schemas'', False)]"

definition handleListContexts :: "'p McpServer \<Rightarrow> Store \<Rightarrow> tool_body tool_result" where
  "handleListContexts srv s = answer_with OfStore StringsJ (Registry_ListContexts (ms_registry srv) s)"

text \<open>An \<open>importSchemaItem\<close> has the fields of the request it becomes.\<close>

definition import_line :: "ImportSchemaRequest \<Rightarrow> string" where
  "import_line item = Itoa (iq_ID item) @ '':'' @ iq_Subject item @ '':'' @ Itoa (iq_Version item)"

text \<open>The text \<open>%v\<close> gives for a slice of strings.\<close>

definition slice_text :: "string list \<Rightarrow> string" where
  "slice_text parts = ''['' @ Join parts '' '' @ '']''"

definition hashImportSchemas :: "digest_lib \<Rightarrow> ImportSchemaRequest list \<Rightarrow> string" where
  "hashImportSchemas lib schemas =
     EncodeToString (take 8 (dl_sha256 lib (slice_text (sort (map import_line schemas)))))"

definition handleImportSchemas ::
  "'p McpServer \<Rightarrow> mcp_env \<Rightarrow> ImportSchemaRequest list \<Rightarrow> bool \<Rightarrow> string \<Rightarrow> string \<Rightarrow> mcp_state \<Rightarrow>
     mcp_state \<times> tool_body tool_result" where
  "handleImportSchemas srv env schemas dryRun confirmToken ctx =
     confirming env ''import_schemas'' dryRun confirmToken
       [(''schema_count'', JInt (int (length schemas))),
        (''schemas_hash'', JStr (hashImportSchemas (me_digest env) schemas))]
       [(''action'', JStr ''import_schemas''), (''schema_count'', JInt (int (length schemas)))]
       (\<lambda>s. case Registry_ImportSchemas (me_go env) (ms_registry srv) s (resolveContext ctx) schemas of
              (s', result, err) \<Rightarrow> (s', answer_done OfStore (ImportJ result) err))"

section \<open>Encryption keys\<close>

definition registerDEKTools :: "(string \<times> bool) list" where
  "registerDEKTools =
     [(''create_kek'', False), (''get_kek'', True), (''update_kek'', False), (''delete_kek'', False), (''undelete_kek'', False),
      (''list_keks'', True), (''create_dek'', False), (''get_dek'', True), (''list_deks'', True), (''list_dek_versions'', True),
      (''delete_dek'', False), (''undelete_dek'', False), (''rewrap_dek'', False)]"

text \<open>A record with the given fields, the others at their zero values.\<close>

definition kek_of ::
  "string \<Rightarrow> string \<Rightarrow> string \<Rightarrow> (string, string) gomap option \<Rightarrow> string \<Rightarrow> bool \<Rightarrow> KEKRecord" where
  "kek_of name kmsType kmsKeyID kmsProps doc shared =
     \<lparr>kek_Name = name, kek_KmsType = kmsType, kek_KmsKeyID = kmsKeyID, kek_KmsProps = kmsProps, kek_Doc = doc,
      kek_Shared = shared, kek_Deleted = False, kek_Ts = 0, kek_CreatedAt = 0, kek_UpdatedAt = 0\<rparr>"

definition answer_kek :: "Store \<times> KEKRecord \<times> key_error option \<Rightarrow> Store \<times> tool_body tool_result" where
  "answer_kek res = (case res of (s', kek, err) \<Rightarrow> (s', answer_done OfKey (KekJ kek) err))"

record createKEKInput =
  ci_Name :: string
  ci_KmsType :: string
  ci_KmsKeyID :: string
  ci_KmsProps :: "(string, string) gomap option"
  ci_Doc :: string
  ci_Shared :: bool

definition handleCreateKEK ::
  "'p McpServer \<Rightarrow> mcp_env \<Rightarrow> createKEKInput \<Rightarrow> Store \<Rightarrow> Store \<times> tool_body tool_result" where
  "handleCreateKEK srv env inp s =
     answer_kek (Registry_CreateKEK (me_now env 0) (ms_registry srv) s
       (kek_of (ci_Name inp) (ci_KmsType inp) (ci_KmsKeyID inp) (ci_KmsProps inp) (ci_Doc inp) (ci_Shared inp)))"

definition handleGetKEK :: "Store \<Rightarrow> string \<Rightarrow> bool \<Rightarrow> tool_body tool_result" where
  "handleGetKEK s name deleted = answer_with OfStore KekJ (Store_GetKEK s name deleted)"

definition handleUpdateKEK ::
  "'p McpServer \<Rightarrow> mcp_env \<Rightarrow> string \<Rightarrow> (string, string) gomap option \<Rightarrow> string \<Rightarrow> bool \<Rightarrow> Store \<Rightarrow>
     Store \<times> tool_body tool_result" where
  "handleUpdateKEK srv env name kmsProps doc shared s =
     answer_kek (Registry_UpdateKEK (me_now env 0) (ms_registry srv) s (kek_of name [] [] kmsProps doc shared))"

definition handleDeleteKEK ::
  "'p McpServer \<Rightarrow> mcp_env \<Rightarrow> string \<Rightarrow> bool \<Rightarrow> bool \<Rightarrow> string \<Rightarrow> mcp_state \<Rightarrow> mcp_state \<times> tool_body tool_result" where
  "handleDeleteKEK srv env name permanent dryRun confirmToken =
     confirming env ''delete_kek'' dryRun confirmToken [(''name'', JStr name), (''permanent'', JBool permanent)]
       [(''action'', JStr ''delete_kek''), (''name'', JStr name), (''permanent'', JBool permanent)]
       (\<lambda>s. case Store_DeleteKEK (me_now env 1) s name permanent of
              (s', err) \<Rightarrow> (s', answer_done OfStore (FlagJ ''deleted'') err))"

definition handleUndeleteKEK :: "mcp_env \<Rightarrow> string \<Rightarrow> Store \<Rightarrow> Store \<times> tool_body tool_result" where
  "handleUndeleteKEK env name s =
     (case Store_UndeleteKEK (me_now env 0) s name of (s', err) \<Rightarrow> (s', answer_done OfStore (FlagJ ''undeleted'') err))"

definition handleListKEKs :: "Store \<Rightarrow> bool \<Rightarrow> tool_body tool_result" where
  "handleListKEKs s deleted = answer_with OfStore KeksJ (Store_ListKEKs s deleted)"

definition handleCreateDEK ::
  "'p McpServer \<Rightarrow> mcp_env \<Rightarrow> string \<Rightarrow> string \<Rightarrow> int \<Rightarrow> string \<Rightarrow> string \<Rightarrow> Store \<Rightarrow> Store \<times> tool_body tool_result" where
  "handleCreateDEK srv env kekName subject version algorithm material s =
     (case Registry_CreateDEK (me_now env 0) (ms_registry srv) s
             \<lparr>dek_KEKName = kekName, dek_Subject = subject, dek_Version = version, dek_Algorithm = algorithm,
              dek_EncryptedKeyMaterial = material, dek_KeyMaterial = [], dek_Deleted = False, dek_Ts = 0\<rparr> of
        (s', dek, err) \<Rightarrow> (s', answer_done OfKey (DekJ dek) err))"

definition handleGetDEK ::
  "Store \<Rightarrow> string \<Rightarrow> string \<Rightarrow> int \<Rightarrow> string \<Rightarrow> bool \<Rightarrow> tool_body tool_result" where
  "handleGetDEK s kekName subject version0 algorithm deleted =
     (let version = (if version0 = 0 then 1 else version0)
      in answer_with OfStore DekJ (Store_GetDEK s kekName subject version algorithm deleted))"

definition handleListDEKs :: "Store \<Rightarrow> string \<Rightarrow> bool \<Rightarrow> tool_body tool_result" where
  "handleListDEKs s kekName deleted = answer_with OfStore StringsJ (Store_ListDEKs s kekName deleted)"

definition handleListDEKVersions :: "Store \<Rightarrow> string \<Rightarrow> string \<Rightarrow> string \<Rightarrow> bool \<Rightarrow> tool_body tool_result" where
  "handleListDEKVersions s kekName subject algorithm deleted =
     answer_with OfStore IntsJ (Store_ListDEKVersions s kekName subject algorithm deleted)"

definition handleDeleteDEK ::
  "'p McpServer \<Rightarrow> mcp_env \<Rightarrow> string \<Rightarrow> string \<Rightarrow> int \<Rightarrow> string \<Rightarrow> bool \<Rightarrow> bool \<Rightarrow> string \<Rightarrow> mcp_state \<Rightarrow>
     mcp_state \<times> tool_body tool_result" where
  "handleDeleteDEK srv env kekName subject version algorithm permanent dryRun confirmToken =
     confirming env ''delete_dek'' dryRun confirmToken
       [(''kek_name'', JStr kekName), (''subject'', JStr subject), (''version'', JInt version),
        (''algorithm'', JStr algorithm), (''permanent'', JBool permanent)]
       [(''action'', JStr ''delete_dek''), (''kek_name'', JStr kekName), (''subject'', JStr subject),
        (''permanent'', JBool permanent)]
       (\<lambda>s. case Store_DeleteDEK (me_clock env) s kekName subject version algorithm permanent of
              (s', err) \<Rightarrow> (s', answer_done OfStore (FlagJ ''deleted'') err))"

definition handleUndeleteDEK ::
  "mcp_env \<Rightarrow> string \<Rightarrow> string \<Rightarrow> int \<Rightarrow> string \<Rightarrow> Store \<Rightarrow> Store \<times> tool_body tool_result" where
  "handleUndeleteDEK env kekName subject version algorithm s =
     (case Store_UndeleteDEK (me_clock env) s kekName subject version algorithm of
        (s', err) \<Rightarrow> (s', answer_done OfStore (FlagJ ''undeleted'') err))"

definition handleRewrapDEK ::
  "'p McpServer \<Rightarrow> mcp_env \<Rightarrow> string \<Rightarrow> string \<Rightarrow> int \<Rightarrow> string \<Rightarrow> Store \<Rightarrow> Store \<times> tool_body tool_result" where
  "handleRewrapDEK srv env kekName subject version algorithm s =
     (case Registry_RewrapDEK (me_now env 0) (ms_registry srv) s kekName subject version algorithm of
        (s', res) \<Rightarrow> (s', answer_with OfKey DekJ res))"

section \<open>Exporters\<close>

definition registerExporterTools :: "(string \<times> bool) list" where
  "registerExporterTools =
     [(''list_exporters'', True), (''create_exporter'', False), (''get_exporter'', True), (''update_exporter'', False),
      (''delete_exporter'', False), (''pause_exporter'', False), (''resume_exporter'', False), (''reset_exporter'', False),
      (''get_exporter_status'', True), (''get_exporter_config'', True), (''update_exporter_config'', False)]"

definition handleListExporters :: "Store \<Rightarrow> tool_body tool_result" where
  "handleListExporters s = answer_with OfStore StringsJ (Store_ListExporters s)"

text \<open>The input of the creation and of the update of an exporter.\<close>

record exporterInput =
  xi_Name :: string
  xi_ContextType :: string
  xi_Context :: string
  xi_Subjects :: "string list"
  xi_SubjectRenameFormat :: string
  xi_Config :: "(string, string) gomap option"

definition exporter_record :: "exporterInput \<Rightarrow> ExporterRecord" where
  "exporter_record inp =
     \<lparr>ex_Name = xi_Name inp, ex_ContextType = xi_ContextType inp, ex_Context = xi_Context inp, ex_Subjects = xi_Subjects inp,
      ex_SubjectRenameFormat = xi_SubjectRenameFormat inp, ex_Config = xi_Config inp, ex_CreatedAt = 0, ex_UpdatedAt = 0\<rparr>"

definition handleCreateExporter ::
  "'p McpServer \<Rightarrow> mcp_env \<Rightarrow> exporterInput \<Rightarrow> Store \<Rightarrow> Store \<times> tool_body tool_result" where
  "handleCreateExporter srv env inp s =
     (case Registry_CreateExporter (me_now env 0) (me_now env 1) (ms_registry srv) s (exporter_record inp) of
        (s', err) \<Rightarrow> (s', answer_done OfExporter (NameJ (xi_Name inp)) err))"

definition handleGetExporter :: "Store \<Rightarrow> string \<Rightarrow> tool_body tool_result" where
  "handleGetExporter s name = answer_with OfStore ExporterJ (Store_GetExporter s name)"

definition handleUpdateExporter ::
  "'p McpServer \<Rightarrow> mcp_env \<Rightarrow> exporterInput \<Rightarrow> Store \<Rightarrow> Store \<times> tool_body tool_result" where
  "handleUpdateExporter srv env inp s =
     (case Registry_UpdateExporter (me_now env 0) (ms_registry srv) s (exporter_record inp) of
        (s', err) \<Rightarrow> (s', answer_done OfExporter (NameJ (xi_Name inp)) err))"

definition handleDeleteExporter ::
  "mcp_env \<Rightarrow> string \<Rightarrow> bool \<Rightarrow> string \<Rightarrow> mcp_state \<Rightarrow> mcp_state \<times> tool_body tool_result" where
  "handleDeleteExporter env name dryRun confirmToken =
     confirming env ''delete_exporter'' dryRun confirmToken [(''name'', JStr name)]
       [(''action'', JStr ''delete_exporter''), (''name'', JStr name)]
       (\<lambda>s. case Store_DeleteExporter s name of (s', err) \<Rightarrow> (s', answer_done OfStore (FlagJ ''deleted'') err))"

definition handlePauseExporter :: "'p McpServer \<Rightarrow> mcp_env \<Rightarrow> string \<Rightarrow> Store \<Rightarrow> Store \<times> tool_body tool_result" where
  "handlePauseExporter srv env name s =
     (case Registry_PauseExporter (me_now env 0) (ms_registry srv) s name of
        (s', err) \<Rightarrow> (s', answer_done OfStore (NameStateJ name ''PAUSED'') err))"

definition handleResumeExporter :: "'p McpServer \<Rightarrow> mcp_env \<Rightarrow> string \<Rightarrow> Store \<Rightarrow> Store \<times> tool_body tool_result" where
  "handleResumeExporter srv env name s =
     (case Registry_ResumeExporter (me_now env 0) (ms_registry srv) s name of
        (s', err) \<Rightarrow> (s', answer_done OfStore (NameStateJ name ''RUNNING'') err))"

definition handleResetExporter :: "'p McpServer \<Rightarrow> mcp_env \<Rightarrow> string \<Rightarrow> Store \<Rightarrow> Store \<times> tool_body tool_result" where
  "handleResetExporter srv env name s =
     (case Registry_ResetExporter (me_now env 0) (ms_registry srv) s name of
        (s', err) \<Rightarrow> (s', answer_done OfStore (NameStateJ name ''reset'') err))"

definition handleGetExporterStatus :: "Store \<Rightarrow> string \<Rightarrow> tool_body tool_result" where
  "handleGetExporterStatus s name = answer_with OfStore StatusJ (Store_GetExporterStatus s name)"

definition handleGetExporterConfig :: "Store \<Rightarrow> string \<Rightarrow> tool_body tool_result" where
  "handleGetExporterConfig s name = answer_with OfStore StringMapJ (Store_GetExporterConfig s name)"

definition handleUpdateExporterConfig ::
  "mcp_env \<Rightarrow> string \<Rightarrow> (string, string) gomap option \<Rightarrow> Store \<Rightarrow> Store \<times> tool_body tool_result" where
  "handleUpdateExporterConfig env name config s =
     (case Store_UpdateExporterConfig (me_now env 0) s name config of
        (s', err) \<Rightarrow> (s', answer_done OfStore (NameJ name) err))"

section \<open>Metadata\<close>

definition registerMetadataTools :: "(string \<times> bool) list" where
  "registerMetadataTools =
     [(''get_config_full'', True), (''set_config_full'', False), (''get_subject_config_full'', True), (''resolve_alias'', True),
      (''get_schemas_by_subject'', True), (''check_write_mode'', True), (''test_kek'', False), (''format_schema'', True),
      (''get_global_config_direct'', True), (''get_subject_metadata'', True), (''get_cluster_id'', True),
      (''get_server_version'', True)]"

definition handleGetConfigFull :: "'p McpServer \<Rightarrow> Store \<Rightarrow> string \<Rightarrow> string \<Rightarrow> tool_body tool_result" where
  "handleGetConfigFull srv s subject ctx =
     answer_with OfStore ConfigJ (Registry_GetConfigFull (ms_registry srv) s (resolveContext ctx) subject)"

record setConfigFullInput =
  sf_Subject :: string
  sf_CompatibilityLevel :: string
  sf_Normalize :: "bool option"
  sf_Alias :: string
  sf_CompatibilityGroup :: string
  sf_ValidateFields :: "bool option"
  sf_DefaultMetadata :: "Metadata option"
  sf_OverrideMetadata :: "Metadata option"
  sf_DefaultRuleSet :: "RuleSet option"
  sf_OverrideRuleSet :: "RuleSet option"
  sf_AliasForDeks :: string
  sf_CompatibilityPolicy :: string
  sf_Context :: string

definition handleSetConfigFull :: "'p McpServer \<Rightarrow> setConfigFullInput \<Rightarrow> Store \<Rightarrow> Store \<times> tool_body tool_result" where
  "handleSetConfigFull srv inp s =
     (let opts = \<lparr>so_Alias = sf_Alias inp, so_CompatibilityGroup = sf_CompatibilityGroup inp,
                  so_ValidateFields = sf_ValidateFields inp, so_DefaultMetadata = sf_DefaultMetadata inp,
                  so_OverrideMetadata = sf_OverrideMetadata inp, so_DefaultRuleSet = sf_DefaultRuleSet inp,
                  so_OverrideRuleSet = sf_OverrideRuleSet inp, so_AliasForDeks = sf_AliasForDeks inp,
                  so_CompatibilityPolicy = sf_CompatibilityPolicy inp\<rparr>
      in case Registry_SetConfig (ms_registry srv) s (resolveContext (sf_Context inp)) (sf_Subject inp)
                (sf_CompatibilityLevel inp) (sf_Normalize inp) (Some opts) of
           (s', res) \<Rightarrow> (s', answer_done OfRegistry (LevelJ (sf_CompatibilityLevel inp)) res))"

definition handleGetSubjectConfigFull :: "'p McpServer \<Rightarrow> Store \<Rightarrow> string \<Rightarrow> string \<Rightarrow> tool_body tool_result" where
  "handleGetSubjectConfigFull srv s subject ctx =
     answer_with OfStore ConfigJ (Registry_GetSubjectConfigFull (ms_registry srv) s (resolveContext ctx) subject)"

definition handleResolveAlias :: "'p McpServer \<Rightarrow> Store \<Rightarrow> string \<Rightarrow> string \<Rightarrow> tool_body tool_result" where
  "handleResolveAlias srv s subject ctx =
     Json (AliasJ subject (Registry_ResolveAlias (ms_registry srv) s (resolveContext ctx) subject))"

definition handleGetSchemasBySubject :: "Store \<Rightarrow> string \<Rightarrow> bool \<Rightarrow> string \<Rightarrow> tool_body tool_result" where
  "handleGetSchemasBySubject s subject deleted ctx =
     answer_with OfStore RecordsJ (Store_GetSchemasBySubject s (resolveContext ctx) subject deleted)"

definition handleCheckWriteMode :: "'p McpServer \<Rightarrow> Store \<Rightarrow> string \<Rightarrow> string \<Rightarrow> tool_body tool_result" where
  "handleCheckWriteMode srv s subject ctx =
     answer_with OfRegistry (\<lambda>blockingMode. WritableJ (blockingMode = []) (if blockingMode \<noteq> [] then Some blockingMode else None))
       (Registry_CheckModeForWrite (ms_registry srv) s (resolveContext ctx) subject)"

definition handleTestKEK ::
  "'p McpServer \<Rightarrow> string \<Rightarrow> string \<Rightarrow> string \<Rightarrow> (string, string) gomap option \<Rightarrow> tool_body tool_result" where
  "handleTestKEK srv name kmsType kmsKeyID kmsProps =
     answer_done OfKey (FlagJ ''success'') (Registry_TestKEK (ms_registry srv) (kek_of name kmsType kmsKeyID kmsProps [] False))"

definition handleFormatSchema ::
  "'p McpServer \<Rightarrow> Store \<Rightarrow> string \<Rightarrow> int \<Rightarrow> string \<Rightarrow> string \<Rightarrow> tool_body tool_result" where
  "handleFormatSchema srv s subject version0 format ctx =
     (let version = (if version0 = 0 then -1 else version0); registryCtx = resolveContext ctx
      in answer_with OfStore
           (\<lambda>rec. FormattedJ subject (sr_Version rec) (sr_SchemaType rec)
                    (Registry_FormatSchema (ms_registry srv) s registryCtx rec format))
           (if version = -1 then Store_GetLatestSchema s registryCtx subject
            else Store_GetSchemaBySubjectVersion s registryCtx subject version))"

definition handleGetGlobalConfigDirect :: "'p McpServer \<Rightarrow> Store \<Rightarrow> string \<Rightarrow> tool_body tool_result" where
  "handleGetGlobalConfigDirect srv s ctx =
     answer_with OfStore ConfigJ (Registry_GetGlobalConfigDirect (ms_registry srv) s (resolveContext ctx))"

text \<open>Whether a record's properties have every pair of the filter.\<close>

definition metadata_matches :: "(string, string) gomap \<Rightarrow> SchemaRecord \<Rightarrow> bool" where
  "metadata_matches filt rec =
     (case sr_Metadata rec of
        None \<Rightarrow> False
      | Some meta \<Rightarrow>
          (case md_Properties meta of
             None \<Rightarrow> False
           | Some props \<Rightarrow> list_all (\<lambda>(k, v). gm_get props k = Some v) (gm_entries filt)))"

definition handleGetSubjectMetadata ::
  "Store \<Rightarrow> string \<Rightarrow> (string, string) gomap \<Rightarrow> bool \<Rightarrow> string \<Rightarrow> tool_body tool_result" where
  "handleGetSubjectMetadata s subject metadataFilter deleted ctx =
     (let registryCtx = resolveContext ctx
      in if gm_entries metadataFilter \<noteq> []
         then (case Store_GetSchemasBySubject s registryCtx subject deleted of
                 Inl err \<Rightarrow> Error (OfStore err)
               | Inr schemas \<Rightarrow>
                   (case List.find (metadata_matches metadataFilter) (rev schemas) of
                      Some rec \<Rightarrow> Json (RecordJ rec)
                    | None \<Rightarrow> Error (Saying ''no schema version found matching the specified metadata'')))
         else (case Store_GetLatestSchema s registryCtx subject of
                 Inl err \<Rightarrow> Error (OfStore err)
               | Inr sch \<Rightarrow> Json (MetadataJ (case sr_Metadata sch of Some meta \<Rightarrow> meta | None \<Rightarrow> Metadata_zero))))"

definition handleGetClusterID :: "'p McpServer \<Rightarrow> tool_body tool_result" where
  "handleGetClusterID srv = Json (ClusterJ (if ms_clusterID srv = [] then ''default-cluster'' else ms_clusterID srv))"

definition handleGetServerVersion :: "'p McpServer \<Rightarrow> tool_body tool_result" where
  "handleGetServerVersion srv =
     (let given = (\<lambda>x. if x \<noteq> [] then Some x else None)
      in Json (ServerVersionJ (ms_version srv) (given (ms_commit srv)) (given (ms_buildTime srv))))"

end
