(* ===== verification/Auth_Properties.thy ===== *)
theory Auth_Properties
  imports Auth_Service
begin

text \<open>
  Properties of the account service.  Histories of its operations (\<open>service_step\<close>) keep the
  store's tables in step and both caches sound; a cached look-up then answers what the store would
  answer, so that changed passwords, revoked and deleted credentials take effect at once.
\<close>

section \<open>Assignments through pointers\<close>

text \<open>The effect of assignments to one user: nothing else changes, nor the ID and the name.\<close>

definition user_edit :: "int \<Rightarrow> Service \<Rightarrow> Service \<Rightarrow> bool" where
  "user_edit p S S' \<longleftrightarrow>
     (\<exists>m u u'. S' = S\<lparr>sv_storage := (sv_storage S)\<lparr>st_users := m\<rparr>\<rparr> \<and>
        gm_get (st_users (sv_storage S)) p = Some u \<and> us_ID u' = us_ID u \<and> us_Username u' = us_Username u \<and>
        gm_get m = (gm_get (st_users (sv_storage S)))(p \<mapsto> u'))"

definition key_edit :: "int \<Rightarrow> Service \<Rightarrow> Service \<Rightarrow> bool" where
  "key_edit p S S' \<longleftrightarrow>
     (\<exists>m k k'. S' = S\<lparr>sv_storage := (sv_storage S)\<lparr>st_apiKeys := m\<rparr>\<rparr> \<and>
        gm_get (st_apiKeys (sv_storage S)) p = Some k \<and> ak_ID k' = ak_ID k \<and> ak_KeyHash k' = ak_KeyHash k \<and>
        gm_get m = (gm_get (st_apiKeys (sv_storage S)))(p \<mapsto> k'))"

lemma user_editI:
  assumes "S' = S\<lparr>sv_storage := (sv_storage S)\<lparr>st_users := m\<rparr>\<rparr>" "gm_get (st_users (sv_storage S)) p = Some r"
    and "us_ID r' = us_ID r" "us_Username r' = us_Username r" "gm_get m = (gm_get (st_users (sv_storage S)))(p \<mapsto> r')"
  shows "user_edit p S S'"
  using assms unfolding user_edit_def by blast

lemma user_edit_refl: "gm_get (st_users (sv_storage S)) p = Some u \<Longrightarrow> user_edit p S S"
  unfolding user_edit_def by (rule exI [of _ "st_users (sv_storage S)"]) (auto simp: fun_upd_idem)

lemma key_editI:
  assumes "S' = S\<lparr>sv_storage := (sv_storage S)\<lparr>st_apiKeys := m\<rparr>\<rparr>" "gm_get (st_apiKeys (sv_storage S)) p = Some r"
    and "ak_ID r' = ak_ID r" "ak_KeyHash r' = ak_KeyHash r" "gm_get m = (gm_get (st_apiKeys (sv_storage S)))(p \<mapsto> r')"
  shows "key_edit p S S'"
  using assms unfolding key_edit_def by blast

lemma key_edit_refl: "gm_get (st_apiKeys (sv_storage S)) p = Some u \<Longrightarrow> key_edit p S S"
  unfolding key_edit_def by (rule exI [of _ "st_apiKeys (sv_storage S)"]) (auto simp: fun_upd_idem)

lemma user_edit_trans [trans]: "user_edit p S S' \<Longrightarrow> user_edit p S' S'' \<Longrightarrow> user_edit p S S''"
  unfolding user_edit_def by (elim exE conjE, rule user_editI [unfolded user_edit_def]) auto

lemma key_edit_trans [trans]: "key_edit p S S' \<Longrightarrow> key_edit p S' S'' \<Longrightarrow> key_edit p S S''"
  unfolding key_edit_def by (elim exE conjE, rule key_editI [unfolded key_edit_def]) auto

lemma user_edit_present: "user_edit p S S' \<Longrightarrow> \<exists>u. gm_get (st_users (sv_storage S')) p = Some u"
  unfolding user_edit_def by auto

lemma key_edit_present: "key_edit p S S' \<Longrightarrow> \<exists>k. gm_get (st_apiKeys (sv_storage S')) p = Some k"
  unfolding key_edit_def by auto

lemma assign_user_edit:
  assumes "gm_get (st_users (sv_storage S)) p = Some u" "us_ID (f u) = us_ID u" "us_Username (f u) = us_Username u"
  shows "user_edit p S (assign_user S p f)"
  using assms unfolding user_edit_def assign_user_def
  by (intro exI [of _ "gm_put p (f u) (st_users (sv_storage S))"]) (auto simp: gm_laws Let_def)

lemma assign_key_edit:
  assumes "gm_get (st_apiKeys (sv_storage S)) p = Some u" "ak_ID (f u) = ak_ID u" "ak_KeyHash (f u) = ak_KeyHash u"
  shows "key_edit p S (assign_key S p f)"
  using assms unfolding key_edit_def assign_key_def
  by (intro exI [of _ "gm_put p (f u) (st_apiKeys (sv_storage S))"]) (auto simp: gm_laws Let_def)

lemma user_update_edit:
  assumes "apply_user_update cl salt p S kv = (S', err)" "gm_get (st_users (sv_storage S)) p = Some u"
  shows "user_edit p S S'"
proof -
  obtain key v where kv: "kv = (key, v)" by (cases kv)
  have "S' = S \<or> (\<exists>f. S' = assign_user S p f \<and> us_ID (f u) = us_ID u \<and> us_Username (f u) = us_Username u)"
    using assms(1) unfolding apply_user_update_def kv
    by (auto simp del: not_ex split: if_splits any_value.splits option.splits intro!: exI)
  then show ?thesis using assign_user_edit [OF assms(2)] user_edit_refl [OF assms(2)] by auto
qed

lemma key_update_edit:
  assumes "apply_key_update it now p S kv = (S', err)" "gm_get (st_apiKeys (sv_storage S)) p = Some k"
  shows "key_edit p S S'"
proof -
  obtain key v where kv: "kv = (key, v)" by (cases kv)
  have "S' = S \<or> (\<exists>f. S' = assign_key S p f \<and> ak_ID (f k) = ak_ID k \<and> ak_KeyHash (f k) = ak_KeyHash k)"
    using assms(1) unfolding apply_key_update_def kv
    by (auto simp del: not_ex split: if_splits any_value.splits option.splits intro!: exI)
  then show ?thesis using assign_key_edit [OF assms(2)] key_edit_refl [OF assms(2)] by auto
qed

text \<open>A relation that every turn of a loop extends holds from its start to its end.\<close>

lemma range_until_rel:
  assumes "range_until body S xs = (S', err)" "P S"
    and "\<And>S x S' err. P S \<Longrightarrow> body S x = (S', err) \<Longrightarrow> P S'"
  shows "P S'"
  using assms(1,2)
proof (induction xs arbitrary: S)
  case (Cons x xs)
  obtain S1 e where "body S x = (S1, e)" by (cases "body S x")
  with Cons assms(3) show ?case by (cases e) auto
qed simp

lemma user_updates_edit:
  assumes "range_until (apply_user_update cl salt p) S xs = (S', err)" "gm_get (st_users (sv_storage S)) p = Some u"
  shows "user_edit p S S'"
proof (rule range_until_rel [where P = "user_edit p S", OF assms(1)])
  show "user_edit p S S" using assms(2) by (rule user_edit_refl)
next
  fix T x T' err
  assume "user_edit p S T" "apply_user_update cl salt p T x = (T', err)"
  then show "user_edit p S T'" using user_edit_present user_update_edit user_edit_trans by metis
qed

lemma key_updates_edit:
  assumes "range_until (apply_key_update it now p) S xs = (S', err)" "gm_get (st_apiKeys (sv_storage S)) p = Some k"
  shows "key_edit p S S'"
proof (rule range_until_rel [where P = "key_edit p S", OF assms(1)])
  show "key_edit p S S" using assms(2) by (rule key_edit_refl)
next
  fix T x T' err
  assume "key_edit p S T" "apply_key_update it now p T x = (T', err)"
  then show "key_edit p S T'" using key_edit_present key_update_edit key_edit_trans by metis
qed

lemma write_user_edit:
  assumes "gm_get (st_users (sv_storage S)) p = Some u" "us_ID u = p"
  shows "user_edit p S (fst (write_user now S p))" "snd (write_user now S p) = Inr (u\<lparr>us_UpdatedAt := now\<rparr>)"
proof -
  have w: "write_user now S p =
    (S\<lparr>sv_storage := (sv_storage S)\<lparr>st_users := gm_put p (u\<lparr>us_UpdatedAt := now\<rparr>) (st_users (sv_storage S))\<rparr>\<rparr>,
     Inr (u\<lparr>us_UpdatedAt := now\<rparr>))"
    using assms by (simp add: write_user_def user_at_def Store_UpdateUser_def Let_def)
  show "snd (write_user now S p) = Inr (u\<lparr>us_UpdatedAt := now\<rparr>)" by (simp add: w)
  show "user_edit p S (fst (write_user now S p))"
    unfolding w fst_conv by (rule user_editI [OF refl assms(1), of "u\<lparr>us_UpdatedAt := now\<rparr>"]) (simp_all add: gm_laws)
qed

lemma write_key_edit:
  assumes "gm_get (st_apiKeys (sv_storage S)) p = Some k" "ak_ID k = p"
  shows "key_edit p S (fst (write_key S p))" "snd (write_key S p) = Inr k"
proof -
  have w: "write_key S p = (S\<lparr>sv_storage := (sv_storage S)\<lparr>st_apiKeys := gm_put p k (st_apiKeys (sv_storage S))\<rparr>\<rparr>, Inr k)"
    using assms by (simp add: write_key_def key_at_def Store_UpdateAPIKey_def Let_def)
  show "snd (write_key S p) = Inr k" by (simp add: w)
  show "key_edit p S (fst (write_key S p))"
    unfolding w fst_conv by (rule key_editI [OF refl assms(1), of k]) (simp_all add: gm_laws)
qed

section \<open>Sound caches\<close>

text \<open>
  A cached credential belongs to a stored user with a name without colon (\<open>authenticateBasic\<close> cuts at
  the first colon), and the password it was made from is the user's current one.  A cached key is a
  stored key with that hash.
\<close>

definition colon_free :: "string \<Rightarrow> bool" where
  "colon_free s \<longleftrightarrow> CHR '':'' \<notin> set s"

definition credential_of :: "crypt_lib \<Rightarrow> string \<Rightarrow> UserRecord \<Rightarrow> bool" where
  "credential_of cl k u \<longleftrightarrow> colon_free (us_Username u) \<and>
     (\<exists>password. k = userCredCacheKey cl (us_Username u) password \<and> cl_compare cl (us_PasswordHash u) password)"

definition cached_users_ok :: "crypt_lib \<Rightarrow> Service \<Rightarrow> bool" where
  "cached_users_ok cl S \<longleftrightarrow>
     (\<forall>k e. gm_get (sv_userCredCache S) k = Some e \<longrightarrow>
        (\<exists>u. gm_get (st_users (sv_storage S)) (uc_user e) = Some u \<and> credential_of cl k u))"

definition cached_keys_ok :: "Service \<Rightarrow> bool" where
  "cached_keys_ok S \<longleftrightarrow>
     (\<forall>h p. gm_get (sv_apiKeyCache S) h = Some p \<longrightarrow>
        (\<exists>k. gm_get (st_apiKeys (sv_storage S)) p = Some k \<and> ak_KeyHash k = h))"

definition auth_inv :: "crypt_lib \<Rightarrow> Service \<Rightarrow> bool" where
  "auth_inv cl S \<longleftrightarrow> users.in_step (sv_storage S) \<and> api_keys.in_step (sv_storage S) \<and>
     cached_users_ok cl S \<and> cached_keys_ok S"

lemma auth_invD:
  assumes "auth_inv cl S"
  shows "users.in_step (sv_storage S)" "api_keys.in_step (sv_storage S)" "cached_users_ok cl S" "cached_keys_ok S"
  using assms by (simp_all add: auth_inv_def)

lemma stored_user_id: "auth_inv cl S \<Longrightarrow> gm_get (st_users (sv_storage S)) p = Some u \<Longrightarrow> us_ID u = p"
  using users.in_step_own auth_invD(1) by blast

lemma stored_key_id: "auth_inv cl S \<Longrightarrow> gm_get (st_apiKeys (sv_storage S)) p = Some k \<Longrightarrow> ak_ID k = p"
  using api_keys.in_step_own auth_invD(2) by blast

lemma stored_by_hash:
  assumes "auth_inv cl S"
  shows "Store_GetAPIKeyByHash (sv_storage S) h = Inr k \<longleftrightarrow>
     gm_get (st_apiKeys (sv_storage S)) (ak_ID k) = Some k \<and> ak_KeyHash k = h"
  using api_keys.by_key_exact [OF auth_invD(2) [OF assms], of h k]
  by (auto simp: Store_GetAPIKeyByHash_def split: option.splits)

lemma stored_by_name:
  assumes "auth_inv cl S"
  shows "Store_GetUserByUsername (sv_storage S) name = Inr u \<longleftrightarrow>
     gm_get (st_users (sv_storage S)) (us_ID u) = Some u \<and> us_Username u = name"
  using users.by_key_exact [OF auth_invD(1) [OF assms], of name u]
  by (auto simp: Store_GetUserByUsername_def split: option.splits)

text \<open>The cache key determines name and password when SHA-256 has no collisions and names no colon.\<close>

lemma colon_split:
  "colon_free a \<Longrightarrow> colon_free b \<Longrightarrow> a @ '':'' @ x = b @ '':'' @ y \<longleftrightarrow> a = b \<and> x = y"
proof (induction a arbitrary: b)
  case Nil
  then show ?case by (cases b) (auto simp: colon_free_def)
next
  case (Cons c a)
  then show ?case by (cases b) (auto simp: colon_free_def)
qed

lemma credential_key_inj:
  assumes "inj (cl_sha256 cl)" "colon_free a" "colon_free b"
  shows "userCredCacheKey cl a x = userCredCacheKey cl b y \<longleftrightarrow> a = b \<and> x = y"
  using colon_split [OF assms(2,3)] by (simp add: userCredCacheKey_def EncodeToString_inj inj_eq [OF assms(1)])

section \<open>Reading through a cache\<close>

text \<open>
  A cache of pointers in front of a table: when what a cached pointer reads is what the table
  answers, reading through the cache answers what the table answers.
\<close>

locale read_through =
  fixes ok :: "'s \<Rightarrow> 'k \<Rightarrow> bool"
    and cached :: "'s \<Rightarrow> 'k \<Rightarrow> 'p option"
    and deref :: "'s \<Rightarrow> 'p \<Rightarrow> 'v option"
    and table :: "'s \<Rightarrow> 'k \<Rightarrow> 'v option"
  assumes sound: "ok s k \<Longrightarrow> cached s k = Some p \<Longrightarrow> deref s p = table s k \<and> table s k \<noteq> None"
begin

definition through :: "'s \<Rightarrow> 'k \<Rightarrow> 'v option" where
  "through s k = (case Option.bind (cached s k) (deref s) of Some v \<Rightarrow> Some v | None \<Rightarrow> table s k)"

lemma transparent: "ok s k \<Longrightarrow> through s k = table s k"
  using sound [of s k] unfolding through_def by (cases "cached s k") (auto split: option.splits)

lemma hit: "ok s k \<Longrightarrow> cached s k = Some p \<Longrightarrow> \<exists>v. deref s p = Some v \<and> table s k = Some v"
  using sound by fastforce

end

definition stored_credential :: "crypt_lib \<Rightarrow> Service \<Rightarrow> string \<times> string \<Rightarrow> UserRecord option" where
  "stored_credential cl S = (\<lambda>(username, password).
     case Store_GetUserByUsername (sv_storage S) username of
       Inl _ \<Rightarrow> None
     | Inr u \<Rightarrow> if cl_compare cl (us_PasswordHash u) password then Some u else None)"

definition stored_key :: "Service \<Rightarrow> string \<Rightarrow> APIKeyRecord option" where
  "stored_key S h = (case Store_GetAPIKeyByHash (sv_storage S) h of Inl _ \<Rightarrow> None | Inr k \<Rightarrow> Some k)"

interpretation key_cache: read_through "\<lambda>S _. auth_inv cl S" "\<lambda>S. gm_get (sv_apiKeyCache S)" key_at stored_key
  for cl
proof
  fix S h p
  assume inv: "auth_inv cl S" and "gm_get (sv_apiKeyCache S) h = Some p"
  then obtain k where k: "gm_get (st_apiKeys (sv_storage S)) p = Some k" "ak_KeyHash k = h"
    using auth_invD(4) [OF inv] unfolding cached_keys_ok_def by blast
  then show "key_at S p = stored_key S h \<and> stored_key S h \<noteq> None"
    using stored_by_hash [OF inv, of h k] stored_key_id [OF inv k(1)] by (simp add: key_at_def stored_key_def)
qed

interpretation credential_cache: read_through
  "\<lambda>S (username, _). inj (cl_sha256 cl) \<and> auth_inv cl S \<and> colon_free username"
  "\<lambda>S (username, password). map_option uc_user (gm_get (sv_userCredCache S) (userCredCacheKey cl username password))"
  user_at "stored_credential cl"
  for cl
proof
  fix S np p
  assume "case np of (username, _) \<Rightarrow> inj (cl_sha256 cl) \<and> auth_inv cl S \<and> colon_free username"
    and "(case np of (username, password) \<Rightarrow>
           map_option uc_user (gm_get (sv_userCredCache S) (userCredCacheKey cl username password))) = Some p"
  then obtain n pw e where np: "np = (n, pw)" "p = uc_user e" and inj: "inj (cl_sha256 cl)" and inv: "auth_inv cl S"
    and n: "colon_free n" and e: "gm_get (sv_userCredCache S) (userCredCacheKey cl n pw) = Some e" by auto
  then obtain u where u: "gm_get (st_users (sv_storage S)) p = Some u" "credential_of cl (userCredCacheKey cl n pw) u"
    using auth_invD(3) [OF inv] unfolding cached_users_ok_def by blast
  then have same: "us_Username u = n" "cl_compare cl (us_PasswordHash u) pw"
    using credential_key_inj [OF inj n] unfolding credential_of_def by auto
  then have "Store_GetUserByUsername (sv_storage S) n = Inr u"
    using stored_by_name [OF inv, of n u] u(1) stored_user_id [OF inv u(1)] by simp
  then show "user_at S p = stored_credential cl S np \<and> stored_credential cl S np \<noteq> None"
    using u(1) same(2) by (simp add: np(1) user_at_def stored_credential_def)
qed

text \<open>What the store alone answers to a login and to a key.\<close>

definition credential_verdict :: "crypt_lib \<Rightarrow> Store \<Rightarrow> string \<Rightarrow> string \<Rightarrow> UserRecord result" where
  "credential_verdict cl st username password =
     (case Store_GetUserByUsername st username of
        Inl _ \<Rightarrow> Inl ErrUserNotFound
      | Inr u \<Rightarrow> if \<not> us_Enabled u then Inl ErrUserDisabled
                 else if cl_compare cl (us_PasswordHash u) password then Inr u else Inl ErrUserNotFound)"

definition key_verdict :: "go_time \<Rightarrow> Store \<Rightarrow> string \<Rightarrow> APIKeyRecord result" where
  "key_verdict now st h =
     (case Store_GetAPIKeyByHash st h of
        Inl _ \<Rightarrow> Inl ErrAPIKeyNotFound
      | Inr k \<Rightarrow> if \<not> ak_Enabled k then Inl ErrAPIKeyDisabled
                 else if ak_ExpiresAt k < now then Inl ErrAPIKeyExpired else Inr k)"

lemma validate_stored_verdict: "snd (validate_stored cl S n pw now) = credential_verdict cl (sv_storage S) n pw"
  by (simp add: validate_stored_def credential_verdict_def split: sum.split)

lemma credentials_transparent:
  assumes "inj (cl_sha256 cl)" "auth_inv cl S" "colon_free n"
  shows "snd (Service_ValidateCredentials cl now now' S n pw) = credential_verdict cl (sv_storage S) n pw"
proof (cases "gm_get (sv_userCredCache S) (userCredCacheKey cl n pw)")
  case None
  then show ?thesis by (simp add: Service_ValidateCredentials_def validate_stored_verdict Let_def)
next
  case (Some e)
  then obtain u where "user_at S (uc_user e) = Some u" "stored_credential cl S (n, pw) = Some u"
    using credential_cache.hit [of cl S "(n, pw)" "uc_user e"] assms by auto
  then show ?thesis
    using Some by (auto simp: Service_ValidateCredentials_def validate_stored_verdict Let_def drop_credential_def
        stored_credential_def credential_verdict_def split: sum.splits if_splits)
qed

lemma find_api_key_table:
  assumes "auth_inv cl S"
  shows "snd (find_api_key S h) = stored_key S h"
proof (cases "0 < sv_cacheRefreshInterval S")
  case True
  then have "snd (find_api_key S h) = key_cache.through S h"
    by (simp add: find_api_key_def key_cache.through_def stored_key_def Let_def split: option.split sum.split)
  then show ?thesis using key_cache.transparent assms by metis
next
  case False
  then show ?thesis by (simp add: find_api_key_def stored_key_def split: sum.split)
qed

lemma keys_transparent:
  assumes "auth_inv cl S"
  shows "snd (Service_ValidateAPIKey cl now S rawKey) = key_verdict now (sv_storage S) (hashAPIKey cl S rawKey)"
proof -
  obtain S' r where f: "find_api_key S (hashAPIKey cl S rawKey) = (S', r)" by fastforce
  then have "r = stored_key S (hashAPIKey cl S rawKey)" using find_api_key_table [OF assms] by (metis snd_conv)
  with f show ?thesis
    by (auto simp: Service_ValidateAPIKey_def key_verdict_def stored_key_def split: sum.split)
qed

lemma hashAPIKey_secret: "sv_apiSecret S = sv_apiSecret S' \<Longrightarrow> hashAPIKey cl S = hashAPIKey cl S'"
  by (rule ext) (simp add: hashAPIKey_def)

section \<open>Every operation keeps the caches sound\<close>

lemma user_edit_in_step:
  assumes "auth_inv cl S" "user_edit p S S'"
  shows "users.in_step (sv_storage S')" "api_keys.in_step (sv_storage S')" "cached_keys_ok S'"
proof -
  from assms(2) obtain m u u' where e: "S' = S\<lparr>sv_storage := (sv_storage S)\<lparr>st_users := m\<rparr>\<rparr>"
    "gm_get (st_users (sv_storage S)) p = Some u" "us_ID u' = us_ID u" "us_Username u' = us_Username u"
    "gm_get m = (gm_get (st_users (sv_storage S)))(p \<mapsto> u')" unfolding user_edit_def by blast
  show "users.in_step (sv_storage S')"
    by (rule users.in_step_assign [OF auth_invD(1) [OF assms(1)] e(2,3,4)]) (simp_all add: e(1,5))
  show "api_keys.in_step (sv_storage S')"
    using auth_invD(2) [OF assms(1)] by (simp add: e(1) api_keys.in_step_def)
  show "cached_keys_ok S'" using auth_invD(4) [OF assms(1)] by (simp add: e(1) cached_keys_ok_def)
qed

lemma key_edit_inv:
  assumes "auth_inv cl S" "key_edit p S S'"
  shows "auth_inv cl S'"
proof -
  from assms(2) obtain m k k' where e: "S' = S\<lparr>sv_storage := (sv_storage S)\<lparr>st_apiKeys := m\<rparr>\<rparr>"
    "gm_get (st_apiKeys (sv_storage S)) p = Some k" "ak_ID k' = ak_ID k" "ak_KeyHash k' = ak_KeyHash k"
    "gm_get m = (gm_get (st_apiKeys (sv_storage S)))(p \<mapsto> k')" unfolding key_edit_def by blast
  have "api_keys.in_step (sv_storage S')"
    by (rule api_keys.in_step_assign [OF auth_invD(2) [OF assms(1)] e(2,3,4)]) (simp_all add: e(1,5))
  moreover have "users.in_step (sv_storage S')" "cached_users_ok cl S'"
    using auth_invD(1,3) [OF assms(1)] by (simp_all add: e(1) users.in_step_def cached_users_ok_def)
  moreover have "cached_keys_ok S'"
    using auth_invD(4) [OF assms(1)] e unfolding cached_keys_ok_def by fastforce
  ultimately show ?thesis by (simp add: auth_inv_def)
qed

text \<open>Editing a user and then dropping the cached credentials of that user.\<close>

lemma invalidate_user_gone:
  assumes "auth_inv cl S" "user_edit i S S'"
  shows "gm_get (sv_userCredCache (invalidateUserCredCacheByID S' i)) k = Some e \<longleftrightarrow>
     gm_get (sv_userCredCache S) k = Some e \<and> uc_user e \<noteq> i"
proof -
  from assms(2) obtain m u u' where e: "S' = S\<lparr>sv_storage := (sv_storage S)\<lparr>st_users := m\<rparr>\<rparr>"
    "gm_get (st_users (sv_storage S)) i = Some u" "us_ID u' = us_ID u"
    "gm_get m = (gm_get (st_users (sv_storage S)))(i \<mapsto> u')" unfolding user_edit_def by blast
  have own: "us_ID u = i" by (rule stored_user_id [OF assms(1) e(2)])
  have "map_option us_ID (user_at S' (uc_user e')) = Some i \<longleftrightarrow> uc_user e' = i"
    if c: "gm_get (sv_userCredCache S) k = Some e'" for e'
  proof -
    obtain v where "gm_get (st_users (sv_storage S)) (uc_user e') = Some v"
      using c auth_invD(3) [OF assms(1)] unfolding cached_users_ok_def by blast
    with stored_user_id [OF assms(1) this] own e(3) show ?thesis by (simp add: user_at_def e(1,4))
  qed
  then show ?thesis by (auto simp: invalidateUserCredCacheByID_def gm_get_filter e(1))
qed

lemma user_edit_inv:
  assumes "auth_inv cl S" "user_edit i S S'"
  shows "auth_inv cl (invalidateUserCredCacheByID S' i)"
proof -
  let ?T = "invalidateUserCredCacheByID S' i"
  have frame: "sv_storage ?T = sv_storage S'" "sv_apiKeyCache ?T = sv_apiKeyCache S'"
    by (simp_all add: invalidateUserCredCacheByID_def)
  have "cached_users_ok cl ?T"
    unfolding cached_users_ok_def frame
  proof (intro allI impI)
    fix k e
    assume "gm_get (sv_userCredCache ?T) k = Some e"
    then have e: "gm_get (sv_userCredCache S) k = Some e" "uc_user e \<noteq> i"
      using invalidate_user_gone [OF assms] by blast+
    from e(2) assms(2) have "gm_get (st_users (sv_storage S')) (uc_user e) = gm_get (st_users (sv_storage S)) (uc_user e)"
      unfolding user_edit_def by auto
    with e(1) auth_invD(3) [OF assms(1)]
    show "\<exists>u. gm_get (st_users (sv_storage S')) (uc_user e) = Some u \<and> credential_of cl k u"
      unfolding cached_users_ok_def by simp
  qed
  with user_edit_in_step [OF assms] show ?thesis by (simp add: auth_inv_def frame cached_keys_ok_def)
qed

lemma delete_user_inv:
  assumes "auth_inv cl S" "Service_DeleteUser S i = (S', err)"
  shows "auth_inv cl S'"
proof (cases "gm_get (st_users (sv_storage S)) i")
  case None
  have "S' = invalidateUserCredCacheByID S i"
    using assms(2) None by (simp add: Service_DeleteUser_def delete_user_record_def Store_DeleteUser_def
        invalidateUserCredCacheByID_def Let_def split: option.splits)
  then show ?thesis
    using assms(1) by (auto simp: auth_inv_def cached_users_ok_def cached_keys_ok_def invalidateUserCredCacheByID_def
        gm_get_filter)
next
  case (Some u)
  let ?T = "invalidateUserCredCacheByID S i"
  have inv: "auth_inv cl ?T" by (rule user_edit_inv [OF assms(1) user_edit_refl [OF Some]])
  have st: "sv_storage ?T = sv_storage S" by (simp add: invalidateUserCredCacheByID_def)
  obtain st' where d: "Store_DeleteUser (sv_storage S) i = (st', None)"
    "gm_get (st_users st') = (gm_get (st_users (sv_storage S)))(i := None)"
    using Some by (simp add: Store_DeleteUser_def gm_laws)
  then have S': "S' = ?T\<lparr>sv_storage := st', sv_droppedUsers := gm_put i u (sv_droppedUsers ?T)\<rparr>"
    using assms(2) Some by (simp add: Service_DeleteUser_def delete_user_record_def st)
  have "users.in_step st'" by (rule users.in_step_delete [OF auth_invD(1) [OF assms(1)] d(1)])
  moreover have "api_keys.in_step st'" using user_ops_keep_keys(3) [OF d(1)] auth_invD(2) [OF assms(1)] by simp
  moreover have "st_apiKeys st' = st_apiKeys (sv_storage S)" using d(1) Some by (auto simp: Store_DeleteUser_def)
  moreover have "cached_users_ok cl S'"
    using auth_invD(3) [OF inv] invalidate_user_gone [OF assms(1) user_edit_refl [OF Some]]
    unfolding cached_users_ok_def S' st by (auto simp: d(2))
  ultimately show ?thesis using auth_invD(4) [OF inv] by (simp add: auth_inv_def S' cached_keys_ok_def st)
qed

lemma storage_self: "sv_storage S = st \<Longrightarrow> S\<lparr>sv_storage := st\<rparr> = S"
  by auto

lemma invalidate_key_gone:
  assumes "auth_inv cl S" "range_order it"
  shows "gm_get (sv_apiKeyCache (invalidateAPIKeyCache it S i)) h = Some p \<longleftrightarrow>
     gm_get (sv_apiKeyCache S) h = Some p \<and> p \<noteq> i"
proof -
  have read: "\<exists>k. key_at S q = Some k \<and> ak_ID k = q \<and> ak_KeyHash k = g"
    if c: "gm_get (sv_apiKeyCache S) g = Some q" for g q
    using c auth_invD(4) [OF assms(1)] stored_key_id [OF assms(1)] unfolding cached_keys_ok_def key_at_def by fastforce
  let ?P = "\<lambda>(_, q). map_option ak_ID (key_at S q) = Some i" and ?es = "it (gm_entries (sv_apiKeyCache S))"
  have mem: "(g, q) \<in> set ?es \<longleftrightarrow> gm_get (sv_apiKeyCache S) g = Some q" for g q
    by (simp add: range_order_set [OF assms(2)] gm.entry_iff)
  show ?thesis
  proof (cases "List.find ?P ?es")
    case None
    then have "q \<noteq> i" if c: "gm_get (sv_apiKeyCache S) g = Some q" for g q
      using c mem [of g q] read [OF c] by (auto simp: find_None_iff)
    then show ?thesis using None by (auto simp: invalidateAPIKeyCache_def)
  next
    case (Some hq)
    then obtain g q where gq: "hq = (g, q)" "gm_get (sv_apiKeyCache S) g = Some q" "?P (g, q)"
      using mem find_Some_range [OF assms(2) Some] by (cases hq) (auto simp: gm.entry_iff)
    with read [OF gq(2)] have q: "q = i" by auto
    have only: "g' = g" if c: "gm_get (sv_apiKeyCache S) g' = Some i" for g'
      using read [OF c] read [OF gq(2)] q by auto
    have del: "sv_apiKeyCache (invalidateAPIKeyCache it S i) = gm_del g (sv_apiKeyCache S)"
      using Some gq(1) by (simp add: invalidateAPIKeyCache_def)
    show ?thesis
    proof (cases "h = g")
      case True
      then show ?thesis using gq(2) q by (simp add: del gm_laws)
    next
      case False
      then have "gm_get (sv_apiKeyCache S) h \<noteq> Some i" using only [of h] by blast
      with False show ?thesis by (auto simp: del gm_laws)
    qed
  qed
qed

lemma invalidate_key_frame:
  "sv_storage (invalidateAPIKeyCache it S i) = sv_storage S"
  "sv_userCredCache (invalidateAPIKeyCache it S i) = sv_userCredCache S"
  "sv_apiSecret (invalidateAPIKeyCache it S i) = sv_apiSecret S"
  by (simp_all add: invalidateAPIKeyCache_def split: option.split prod.split)

lemma invalidate_key_inv:
  assumes "auth_inv cl S" "range_order it"
  shows "auth_inv cl (invalidateAPIKeyCache it S i)"
  using auth_invD [OF assms(1)] invalidate_key_gone [OF assms]
  by (simp add: auth_inv_def cached_users_ok_def cached_keys_ok_def invalidate_key_frame)

lemma delete_key_inv:
  assumes "auth_inv cl S" "range_order it" "Service_DeleteAPIKey it S i = (S', err)"
  shows "auth_inv cl S'"
proof (cases "gm_get (st_apiKeys (sv_storage S)) i")
  case None
  then have "S' = invalidateAPIKeyCache it S i"
    using assms(3) by (simp add: Service_DeleteAPIKey_def delete_key_record_def Store_DeleteAPIKey_def
        invalidate_key_frame storage_self Let_def split: option.splits)
  then show ?thesis using invalidate_key_inv [OF assms(1,2)] by simp
next
  case (Some k)
  let ?T = "invalidateAPIKeyCache it S i"
  obtain st' where d: "Store_DeleteAPIKey (sv_storage S) i = (st', None)"
    "gm_get (st_apiKeys st') = (gm_get (st_apiKeys (sv_storage S)))(i := None)"
    using Some by (simp add: Store_DeleteAPIKey_def gm_laws)
  then have S': "S' = ?T\<lparr>sv_storage := st', sv_droppedKeys := gm_put i k (sv_droppedKeys ?T)\<rparr>"
    using assms(3) Some by (simp add: Service_DeleteAPIKey_def delete_key_record_def invalidate_key_frame)
  have "api_keys.in_step st'" by (rule api_keys.in_step_delete [OF auth_invD(2) [OF assms(1)] d(1)])
  moreover have "users.in_step st'" using key_ops_keep_users(3) [OF d(1)] auth_invD(1) [OF assms(1)] by simp
  moreover have "st_users st' = st_users (sv_storage S)" using d(1) Some by (auto simp: Store_DeleteAPIKey_def)
  moreover have "cached_keys_ok S'"
    using auth_invD(4) [OF assms(1)] invalidate_key_gone [OF assms(1,2)] unfolding cached_keys_ok_def S' by (auto simp: d(2))
  ultimately show ?thesis
    using auth_invD(3) [OF assms(1)] by (simp add: auth_inv_def S' cached_users_ok_def invalidate_key_frame)
qed

lemma create_user_inv:
  assumes "auth_inv cl S" "Service_CreateUser cl salt now now' S req = (S', r)" "st_nextUserID (sv_storage S) < max_int64"
  shows "auth_inv cl S'"
proof (cases "S' = S")
  case False
  then obtain u st' u' err where c: "Store_CreateUser now' (sv_storage S) u = (st', u', err)" "us_ID u = 0"
    "S' = S\<lparr>sv_storage := st'\<rparr>"
    using assms(2) by (fastforce simp: Service_CreateUser_def split: if_splits option.splits prod.splits)
  have in_step: "users.in_step st'" "api_keys.in_step st'"
    using users.in_step_create [OF auth_invD(1) [OF assms(1)] c(2) assms(3) c(1)] user_ops_keep_keys(1) [OF c(1)]
      auth_invD(2) [OF assms(1)] by auto
  have "gm_get (st_users st') p = Some v" if "gm_get (st_users (sv_storage S)) p = Some v" for p v
  proof (cases err)
    case None
    have "in_i64 (st_nextUserID (sv_storage S))"
      using auth_invD(1) [OF assms(1)] assms(3) by (auto simp: users.in_step_def in_i64_def max_int64_def)
    with users.create_new [OF c(1) [unfolded None] c(2)] assms(3)
      users.in_step_own [OF auth_invD(1) [OF assms(1)] that] that show ?thesis by auto
  next
    case (Some e)
    with users.create_dup c(1) that show ?thesis by blast
  qed
  moreover have "st_apiKeys st' = st_apiKeys (sv_storage S)"
    using c(1) by (auto simp: Store_CreateUser_def Let_def split: if_splits)
  ultimately show ?thesis
    using auth_invD(3,4) [OF assms(1)] in_step unfolding c(3) auth_inv_def cached_users_ok_def cached_keys_ok_def
    by fastforce
qed (use assms in simp)

lemma created_key_stored:
  assumes "Service_CreateAPIKey cl random it now now' S req = (S', r)"
  shows "S' = S \<or> (\<exists>rec. ak_ID rec = 0 \<and> S' = fst (store_api_key now' S rec))"
  using assms unfolding Service_CreateAPIKey_def
  by (auto simp: Let_def split: if_splits option.splits prod.splits sum.splits) (metis APIKeyRecord.select_convs(1) fst_conv)+

lemma store_key_inv:
  assumes "auth_inv cl S" "ak_ID k = 0" "st_nextAPIKeyID (sv_storage S) < max_int64"
  shows "auth_inv cl (fst (store_api_key now' S k))"
proof -
  define S' where "S' = fst (store_api_key now' S k)"
  obtain st' k' err where create: "Store_CreateAPIKey now' (sv_storage S) k = (st', k', err)"
    by (cases "Store_CreateAPIKey now' (sv_storage S) k") auto
  obtain cache where c: "Store_CreateAPIKey now' (sv_storage S) k = (st', k', err)" "ak_ID k = 0"
    "S' = S\<lparr>sv_storage := st', sv_apiKeyCache := cache\<rparr>"
    "cache = sv_apiKeyCache S \<or> err = None \<and> cache = gm_put (ak_KeyHash k) (ak_ID k') (sv_apiKeyCache S)"
    using create assms(2) S'_def by (cases err) (auto simp: store_api_key_def)
  have in_step: "api_keys.in_step st'" "users.in_step st'"
    using api_keys.in_step_create [OF auth_invD(2) [OF assms(1)] c(2) assms(3) c(1)] key_ops_keep_users(1) [OF c(1)]
      auth_invD(1) [OF assms(1)] by auto
  have i64: "in_i64 (st_nextAPIKeyID (sv_storage S))"
    using auth_invD(2) [OF assms(1)] assms(3) by (auto simp: api_keys.in_step_def in_i64_def max_int64_def)
  have keep: "gm_get (st_apiKeys st') p = Some v" if "gm_get (st_apiKeys (sv_storage S)) p = Some v" for p v
  proof (cases err)
    case None
    with api_keys.create_new [OF c(1) [unfolded None] c(2) i64] assms(3)
      api_keys.in_step_own [OF auth_invD(2) [OF assms(1)] that] that show ?thesis by auto
  next
    case (Some e)
    with api_keys.create_dup c(1) that show ?thesis by blast
  qed
  have new: "gm_get (st_apiKeys st') (ak_ID k') = Some k' \<and> ak_KeyHash k' = ak_KeyHash k" if "err = None"
    using api_keys.create_new [OF c(1) [unfolded that] c(2) i64 assms(3)] by simp
  have "cached_keys_ok S'"
    unfolding cached_keys_ok_def
  proof (intro allI impI)
    fix h p
    assume "gm_get (sv_apiKeyCache S') h = Some p"
    then have "gm_get cache h = Some p" by (simp add: c(3))
    with c(4) have "gm_get (sv_apiKeyCache S) h = Some p \<or> err = None \<and> h = ak_KeyHash k \<and> p = ak_ID k'"
      by (cases "h = ak_KeyHash k") (auto simp: gm_laws)
    then consider "gm_get (sv_apiKeyCache S) h = Some p" | "err = None" "h = ak_KeyHash k" "p = ak_ID k'" by blast
    then show "\<exists>k. gm_get (st_apiKeys (sv_storage S')) p = Some k \<and> ak_KeyHash k = h"
    proof cases
      case 1
      then obtain j where "gm_get (st_apiKeys (sv_storage S)) p = Some j" "ak_KeyHash j = h"
        using auth_invD(4) [OF assms(1)] unfolding cached_keys_ok_def by blast
      with keep show ?thesis by (auto simp: c(3))
    next
      case 2
      with new show ?thesis by (simp add: c(3))
    qed
  qed
  moreover have "st_users st' = st_users (sv_storage S)"
    using c(1) by (auto simp: Store_CreateAPIKey_def Let_def split: if_splits)
  ultimately show ?thesis
    using auth_invD(3) [OF assms(1)] in_step unfolding S'_def [symmetric]
    by (simp add: c(3) auth_inv_def cached_users_ok_def)
qed

lemma create_key_inv:
  assumes "auth_inv cl S" "Service_CreateAPIKey cl random it now now' S req = (S', r)"
    "st_nextAPIKeyID (sv_storage S) < max_int64"
  shows "auth_inv cl S'"
  using created_key_stored [OF assms(2)] store_key_inv [OF assms(1) _ assms(3)] assms(1) by auto

lemma validate_stored_inv:
  assumes "auth_inv cl S" "colon_free n"
  shows "auth_inv cl (fst (validate_stored cl S n pw now))"
proof (cases "Store_GetUserByUsername (sv_storage S) n")
  case (Inr u)
  have u: "gm_get (st_users (sv_storage S)) (us_ID u) = Some u" "us_Username u = n"
    using stored_by_name [OF assms(1)] Inr by auto
  have "cached_users_ok cl (S\<lparr>sv_userCredCache :=
      gm_put (userCredCacheKey cl n pw) \<lparr>uc_user = us_ID u, uc_verifiedAt = now\<rparr> (sv_userCredCache S)\<rparr>)"
    if "cl_compare cl (us_PasswordHash u) pw"
    using auth_invD(3) [OF assms(1)] u assms(2) that
    unfolding cached_users_ok_def credential_of_def by (auto simp: gm_laws)
  then show ?thesis
    using assms(1) Inr by (simp add: validate_stored_def auth_inv_def cached_keys_ok_def)
qed (use assms in \<open>simp add: validate_stored_def\<close>)

lemma drop_credential_inv: "auth_inv cl S \<Longrightarrow> auth_inv cl (drop_credential S k)"
  by (auto simp: auth_inv_def cached_users_ok_def cached_keys_ok_def drop_credential_def gm_laws)

lemma validate_credentials_inv:
  assumes "auth_inv cl S" "colon_free n"
  shows "auth_inv cl (fst (Service_ValidateCredentials cl now now' S n pw))"
  using assms by (simp add: Service_ValidateCredentials_def Let_def validate_stored_inv drop_credential_inv split: option.split)

lemma validate_key_inv:
  assumes "auth_inv cl S"
  shows "auth_inv cl (fst (Service_ValidateAPIKey cl now S rawKey))"
proof -
  let ?h = "hashAPIKey cl S rawKey"
  have "cached_keys_ok (S\<lparr>sv_apiKeyCache := gm_put ?h (ak_ID k) (sv_apiKeyCache S)\<rparr>)"
    if "Store_GetAPIKeyByHash (sv_storage S) ?h = Inr k" for k
    using auth_invD(4) [OF assms] stored_by_hash [OF assms, of ?h k] that
    unfolding cached_keys_ok_def by (auto simp: gm_laws)
  then have "auth_inv cl (fst (find_api_key S ?h))"
    using assms by (simp add: find_api_key_def Let_def auth_inv_def cached_users_ok_def split: option.split sum.split)
  then show ?thesis
    by (cases "find_api_key S ?h"; cases "snd (find_api_key S ?h)") (simp_all add: Service_ValidateAPIKey_def)
qed

lemma refresh_inv:
  assumes "auth_inv cl S" "range_order it"
  shows "auth_inv cl (refreshAPIKeyCache it S)"
proof -
  let ?keys = "sort_key ak_ID (map snd (gm_entries (st_apiKeys (sv_storage S))))"
  let ?new = "gm_of_list (map (\<lambda>k. (ak_KeyHash k, ak_ID k)) ?keys)"
  have new: "\<exists>k. gm_get (st_apiKeys (sv_storage S)) p = Some k \<and> ak_KeyHash k = h"
    if "gm_get ?new h = Some p" for h p
  proof -
    have "(h, p) \<in> set (map (\<lambda>k. (ak_KeyHash k, ak_ID k)) ?keys)"
      using that by (auto simp: gm_of_list_def gm_put_all_def [symmetric] gm_get_put_all dest: map_of_SomeD)
    then obtain q k where k: "gm_get (st_apiKeys (sv_storage S)) q = Some k" "h = ak_KeyHash k" "p = ak_ID k"
      by (auto simp: gm.entry_iff)
    with stored_key_id [OF assms(1) k(1)] show ?thesis by blast
  qed
  have "cached_keys_ok (refreshAPIKeyCache it S)"
    unfolding cached_keys_ok_def
  proof (intro allI impI)
    fix h p
    assume "gm_get (sv_apiKeyCache (refreshAPIKeyCache it S)) h = Some p"
    then have "gm_get (sv_apiKeyCache S) h = Some p \<or> (h, p) \<in> set (it (gm_entries ?new))"
      by (auto simp: refreshAPIKeyCache_def Store_ListAPIKeys_def gm_get_put_all gm_get_filter Let_def
          map_add_Some_iff dest: map_of_SomeD)
    then show "\<exists>k. gm_get (st_apiKeys (sv_storage (refreshAPIKeyCache it S))) p = Some k \<and> ak_KeyHash k = h"
      using auth_invD(4) [OF assms(1)] new
      by (auto simp: refreshAPIKeyCache_def Store_ListAPIKeys_def cached_keys_ok_def range_order_set [OF assms(2)]
          gm.entry_iff Let_def)
  qed
  then show ?thesis
    using assms(1) by (simp add: auth_inv_def cached_users_ok_def refreshAPIKeyCache_def Store_ListAPIKeys_def Let_def)
qed

lemma update_user_effect:
  assumes "auth_inv cl S" "Service_UpdateUser cl salt it now now' S i updates = (S', Inr u)"
  shows "\<exists>T. user_edit i S T \<and> S' = invalidateUserCredCacheByID T i \<and> gm_get (st_users (sv_storage T)) i = Some u"
proof -
  obtain v where v: "gm_get (st_users (sv_storage S)) i = Some v"
    using assms(2) by (fastforce simp: Service_UpdateUser_def Store_GetUserByID_def split: option.splits)
  obtain S1 where loop: "range_until (apply_user_update cl salt i) S (it (gm_entries updates)) = (S1, None)"
    using assms(2) v
    by (cases "range_until (apply_user_update cl salt i) S (it (gm_entries updates))")
      (auto simp: Service_UpdateUser_def Store_GetUserByID_def split: option.splits)
  have e1: "user_edit i S S1" by (rule user_updates_edit [OF loop v])
  let ?T = "assign_user S1 i (us_UpdatedAt_update (\<lambda>_. now))"
  obtain w where "gm_get (st_users (sv_storage S1)) i = Some w" using user_edit_present [OF e1] by blast
  then have e2: "user_edit i S ?T" using user_edit_trans [OF e1 assign_user_edit] by simp
  obtain x where x: "gm_get (st_users (sv_storage ?T)) i = Some x" using user_edit_present [OF e2] by blast
  have own: "us_ID x = i" using users.in_step_own [OF user_edit_in_step(1) [OF assms(1) e2] x] by simp
  obtain W where w: "write_user now' ?T i = (W, Inr (x\<lparr>us_UpdatedAt := now'\<rparr>))"
    using write_user_edit(2) [OF x own] by (metis prod.collapse)
  have "user_edit i S W" using user_edit_trans [OF e2 write_user_edit(1) [OF x own, of now']] w by simp
  moreover have "S' = invalidateUserCredCacheByID W i" "u = x\<lparr>us_UpdatedAt := now'\<rparr>"
    using assms(2) v loop w by (auto simp: Service_UpdateUser_def Store_GetUserByID_def)
  moreover have "gm_get (st_users (sv_storage W)) i = Some (x\<lparr>us_UpdatedAt := now'\<rparr>)"
    using x own w by (auto simp: write_user_def user_at_def Store_UpdateUser_def Let_def gm_laws)
  ultimately show ?thesis by blast
qed

lemma change_password_effect:
  assumes "auth_inv cl S" "Service_ChangePassword cl salt now now' S i old new = (S', err)"
  shows "case err of
       Some _ \<Rightarrow> S' = S
     | None \<Rightarrow> \<exists>T u hash. user_edit i S T \<and> S' = invalidateUserCredCacheByID T i \<and>
           gm_get (st_users (sv_storage S)) i = Some u \<and> cl_compare cl (us_PasswordHash u) old \<and>
           cl_generate cl new salt = Some hash \<and>
           gm_get (st_users (sv_storage T)) i = Some (u\<lparr>us_PasswordHash := hash, us_UpdatedAt := now'\<rparr>)"
proof (cases "\<exists>u hash. gm_get (st_users (sv_storage S)) i = Some u \<and> cl_compare cl (us_PasswordHash u) old \<and>
    cl_generate cl new salt = Some hash")
  case True
  then obtain u hash where u: "gm_get (st_users (sv_storage S)) i = Some u" "cl_compare cl (us_PasswordHash u) old"
    "cl_generate cl new salt = Some hash" by blast
  let ?f = "\<lambda>u. u\<lparr>us_PasswordHash := hash, us_UpdatedAt := now\<rparr>"
  let ?T = "assign_user S i ?f"
  have e: "user_edit i S ?T" by (rule assign_user_edit [OF u(1)]) simp_all
  have x: "gm_get (st_users (sv_storage ?T)) i = Some (?f u)" using u(1) by (simp add: assign_user_def gm_laws Let_def)
  have own: "us_ID (?f u) = i" using stored_user_id [OF assms(1) u(1)] by simp
  obtain W where w: "write_user now' ?T i = (W, Inr ((?f u)\<lparr>us_UpdatedAt := now'\<rparr>))"
    using write_user_edit(2) [OF x own] by (metis prod.collapse)
  have stored: "gm_get (st_users (sv_storage W)) i = Some ((?f u)\<lparr>us_UpdatedAt := now'\<rparr>)"
    using x own w by (auto simp: write_user_def user_at_def Store_UpdateUser_def Let_def gm_laws)
  have "S' = invalidateUserCredCacheByID W i" "err = None"
    using assms(2) u w by (auto simp: Service_ChangePassword_def Store_GetUserByID_def)
  moreover have "user_edit i S W" using user_edit_trans [OF e write_user_edit(1) [OF x own, of now']] w by simp
  ultimately show ?thesis using stored u by auto
next
  case False
  then show ?thesis
    using assms(2) by (auto simp: Service_ChangePassword_def Store_GetUserByID_def split: option.splits if_splits)
qed

lemma revoke_key_effect:
  assumes "auth_inv cl S" "Service_RevokeAPIKey it S i = (S', err)"
  shows "case err of
       Some _ \<Rightarrow> S' = S
     | None \<Rightarrow> \<exists>T k. key_edit i S T \<and> S' = invalidateAPIKeyCache it T i \<and>
           gm_get (st_apiKeys (sv_storage S)) i = Some k \<and>
           gm_get (st_apiKeys (sv_storage T)) i = Some (k\<lparr>ak_Enabled := False\<rparr>)"
proof (cases "gm_get (st_apiKeys (sv_storage S)) i")
  case None
  then show ?thesis using assms(2) by (auto simp: Service_RevokeAPIKey_def Store_GetAPIKeyByID_def)
next
  case (Some k)
  let ?T = "assign_key S i (ak_Enabled_update (\<lambda>_. False))"
  have e: "key_edit i S ?T" by (rule assign_key_edit [OF Some]) simp_all
  have x: "gm_get (st_apiKeys (sv_storage ?T)) i = Some (k\<lparr>ak_Enabled := False\<rparr>)"
    using Some by (simp add: assign_key_def gm_laws Let_def)
  have own: "ak_ID (k\<lparr>ak_Enabled := False\<rparr>) = i" using stored_key_id [OF assms(1) Some] by simp
  obtain W where w: "write_key ?T i = (W, Inr (k\<lparr>ak_Enabled := False\<rparr>))"
    using write_key_edit(2) [OF x own] by (metis prod.collapse)
  have stored: "gm_get (st_apiKeys (sv_storage W)) i = Some (k\<lparr>ak_Enabled := False\<rparr>)"
    using x own w by (auto simp: write_key_def key_at_def Store_UpdateAPIKey_def Let_def gm_laws)
  have "S' = invalidateAPIKeyCache it W i" "err = None"
    using assms(2) Some w by (auto simp: Service_RevokeAPIKey_def Store_GetAPIKeyByID_def)
  moreover have "key_edit i S W" using key_edit_trans [OF e write_key_edit(1) [OF x own]] w by simp
  ultimately show ?thesis using stored Some by auto
qed

lemma revoke_key_inv:
  assumes "auth_inv cl S" "range_order it"
  shows "auth_inv cl (fst (Service_RevokeAPIKey it S i))"
proof -
  obtain S' err where r: "Service_RevokeAPIKey it S i = (S', err)" by fastforce
  show ?thesis
    using revoke_key_effect [OF assms(1) r] r assms(1) key_edit_inv [OF assms(1)] invalidate_key_inv [OF _ assms(2)]
    by (cases err) auto
qed

lemma update_key_inv:
  assumes "auth_inv cl S" "range_order itc" "Service_UpdateAPIKey it itk itc now S i updates = (S', r)"
  shows "auth_inv cl S'"
proof (cases "gm_get (st_apiKeys (sv_storage S)) i")
  case None
  then show ?thesis using assms by (auto simp: Service_UpdateAPIKey_def Store_GetAPIKeyByID_def)
next
  case (Some k)
  obtain S1 e where loop: "range_until (apply_key_update itk now i) S (it (gm_entries updates)) = (S1, e)" by fastforce
  have e1: "key_edit i S S1" by (rule key_updates_edit [OF loop Some])
  have inv1: "auth_inv cl S1" by (rule key_edit_inv [OF assms(1) e1])
  obtain x where x: "gm_get (st_apiKeys (sv_storage S1)) i = Some x" using key_edit_present [OF e1] by blast
  have own: "ak_ID x = i" by (rule stored_key_id [OF inv1 x])
  have "auth_inv cl (fst (write_key S1 i))" by (rule key_edit_inv [OF inv1 write_key_edit(1) [OF x own]])
  then have "auth_inv cl (invalidateAPIKeyCache itc (fst (write_key S1 i)) i)" by (rule invalidate_key_inv [OF _ assms(2)])
  moreover have "S' = S1 \<or> S' = invalidateAPIKeyCache itc (fst (write_key S1 i)) i"
    using assms(3) Some loop write_key_edit(2) [OF x own]
    by (cases e; cases "write_key S1 i") (auto simp: Service_UpdateAPIKey_def Store_GetAPIKeyByID_def)
  ultimately show ?thesis using inv1 by auto
qed

lemma rotate_key_inv:
  assumes "auth_inv cl S" "range_order itc" "st_nextAPIKeyID (sv_storage S) < max_int64"
    "Service_RotateAPIKey cl random itk itc now now1 now2 S i expires = (S', r)"
  shows "auth_inv cl S'"
proof -
  have "S' = S \<or> (\<exists>S1 req q. Service_CreateAPIKey cl random itk now1 now2 S req = (S1, q) \<and>
      (S' = S1 \<or> S' = fst (Service_RevokeAPIKey itc S1 i)))"
    using assms(4) unfolding Service_RotateAPIKey_def
    by (auto split: sum.splits if_splits prod.splits)
  then show ?thesis using create_key_inv [OF assms(1) _ assms(3)] revoke_key_inv [OF _ assms(2)] assms(1) by auto
qed

lemma touch_inv:
  assumes "auth_inv cl S"
  shows "auth_inv cl (Service_touch now S i)"
proof (cases "gm_get (st_apiKeys (sv_storage S)) i")
  case None
  then show ?thesis using assms by (simp add: Service_touch_def Store_UpdateAPIKeyLastUsed_def)
next
  case (Some k)
  have "key_edit i S (Service_touch now S i)"
    using Some by (intro key_editI [OF _ Some, of _ "gm_put i (k\<lparr>ak_LastUsed := Some now\<rparr>) (st_apiKeys (sv_storage S))"
        "k\<lparr>ak_LastUsed := Some now\<rparr>"]) (simp_all add: Service_touch_def Store_UpdateAPIKeyLastUsed_def gm_laws)
  then show ?thesis by (rule key_edit_inv [OF assms])
qed

section \<open>Histories\<close>

text \<open>
  The service's operations as steps, each with its own salts, readings and visiting orders.  A login
  has a name without colon.  An update of a user that fails has changed nothing: an update map with
  a valid role is written whole; with an invalid one the loop may stop half-way
  (\<open>failed_update_changes_password\<close> below).
\<close>

inductive service_step :: "crypt_lib \<Rightarrow> Service \<Rightarrow> Service \<Rightarrow> bool" for cl where
  create_user: "st_nextUserID (sv_storage S) < max_int64 \<Longrightarrow>
    Service_CreateUser cl salt now now' S req = (S', r) \<Longrightarrow> service_step cl S S'"
| update_user: "Service_UpdateUser cl salt it now now' S i updates = (S', r) \<Longrightarrow>
    (\<exists>u. r = Inr u) \<or> S' = S \<Longrightarrow> service_step cl S S'"
| delete_user: "Service_DeleteUser S i = (S', err) \<Longrightarrow> service_step cl S S'"
| change_password: "Service_ChangePassword cl salt now now' S i old new = (S', e) \<Longrightarrow> service_step cl S S'"
| login: "colon_free username \<Longrightarrow>
    Service_ValidateCredentials cl now now' S username password = (S', v) \<Longrightarrow> service_step cl S S'"
| create_key: "st_nextAPIKeyID (sv_storage S) < max_int64 \<Longrightarrow>
    Service_CreateAPIKey cl random itk now now' S kreq = (S', kr) \<Longrightarrow> service_step cl S S'"
| present_key: "Service_ValidateAPIKey cl now S rawKey = (S', kv) \<Longrightarrow> service_step cl S S'"
| use_key: "service_step cl S (Service_touch now S i)"
| update_key: "range_order itc \<Longrightarrow>
    Service_UpdateAPIKey it itk itc now S i updates = (S', ku) \<Longrightarrow> service_step cl S S'"
| delete_key: "range_order itc \<Longrightarrow> Service_DeleteAPIKey itc S i = (S', err) \<Longrightarrow> service_step cl S S'"
| revoke_key: "range_order itc \<Longrightarrow> Service_RevokeAPIKey itc S i = (S', e) \<Longrightarrow> service_step cl S S'"
| rotate_key: "range_order itc \<Longrightarrow> st_nextAPIKeyID (sv_storage S) < max_int64 \<Longrightarrow>
    Service_RotateAPIKey cl random itk itc now now1 now2 S i expires = (S', kr) \<Longrightarrow> service_step cl S S'"
| refresh: "range_order itc \<Longrightarrow> service_step cl S (refreshAPIKeyCache itc S)"

inductive service_reach :: "crypt_lib \<Rightarrow> Service \<Rightarrow> bool" for cl where
  service_new: "account_reach st \<Longrightarrow> range_order it \<Longrightarrow> service_reach cl (NewServiceWithConfig it st cfg)"
| service_next: "service_reach cl S \<Longrightarrow> service_step cl S S' \<Longrightarrow> service_reach cl S'"

lemma service_step_inv:
  assumes "service_step cl S S'" "auth_inv cl S"
  shows "auth_inv cl S'"
  using assms(1)
proof cases
  case (update_user salt it now now' i updates r)
  then show ?thesis
    using update_user_effect [OF assms(2)] user_edit_inv [OF assms(2)] assms(2) by blast
next
  case (change_password salt now now' i old new e)
  then show ?thesis
    using change_password_effect [OF assms(2) change_password] user_edit_inv [OF assms(2)] assms(2)
    by (auto split: option.splits)
next
  case (login username now now' password v)
  then show ?thesis using validate_credentials_inv [OF assms(2) login(1)] by (metis fst_conv)
next
  case (present_key now rawKey kv)
  then show ?thesis using validate_key_inv [OF assms(2)] by (metis fst_conv)
next
  case (revoke_key itc i e)
  then show ?thesis using revoke_key_inv [OF assms(2)] by (metis fst_conv)
next
  case (create_user salt now now' req r)
  then show ?thesis using create_user_inv [OF assms(2)] by blast
next
  case (delete_user i err)
  then show ?thesis using delete_user_inv [OF assms(2)] by blast
next
  case (create_key random itk now now' kreq kr)
  then show ?thesis using create_key_inv [OF assms(2)] by blast
next
  case (use_key now i)
  then show ?thesis using touch_inv [OF assms(2)] by simp
next
  case (update_key itc it itk now i updates ku)
  then show ?thesis using update_key_inv [OF assms(2)] by blast
next
  case (delete_key itc i err)
  then show ?thesis using delete_key_inv [OF assms(2)] by blast
next
  case (rotate_key itc random itk now now1 now2 i expires kr)
  then show ?thesis using rotate_key_inv [OF assms(2)] by blast
next
  case (refresh itc)
  then show ?thesis using refresh_inv [OF assms(2)] by simp
qed

lemma new_service_inv:
  assumes "account_reach st" "range_order it"
  shows "auth_inv cl (NewServiceWithConfig it st cfg)"
proof -
  have "auth_inv cl \<lparr>sv_storage = st, sv_droppedUsers = gm_empty, sv_droppedKeys = gm_empty, sv_apiSecret = a,
     sv_keyPrefix = b, sv_apiKeyCache = gm_empty, sv_userCredCache = gm_empty, sv_userCacheTTL = c,
     sv_cacheRefreshInterval = d\<rparr>" for a b c d
    using accounts_in_step [OF assms(1)] by (simp add: auth_inv_def cached_users_ok_def cached_keys_ok_def)
  then show ?thesis using refresh_inv [OF _ assms(2)] by (simp add: NewServiceWithConfig_def Let_def)
qed

lemma service_reach_inv: "service_reach cl S \<Longrightarrow> auth_inv cl S"
  by (induction rule: service_reach.induct) (use new_service_inv service_step_inv in blast)+

section \<open>Properties\<close>


text \<open>A library for examples: hashes are marked, and digests are the text itself.\<close>

definition plain_crypt :: crypt_lib where
  "plain_crypt = \<lparr>cl_generate = (\<lambda>pw salt. Some (CHR ''#'' # pw)), cl_compare = (\<lambda>h pw. h = CHR ''#'' # pw),
     cl_sha256 = (\<lambda>s. s), cl_hmac = (\<lambda>k s. k @ s)\<rparr>"

lemma plain_crypt_inj: "inj (cl_sha256 plain_crypt)"
  by (simp add: plain_crypt_def)

definition sample_service :: Service where
  "sample_service = NewServiceWithConfig (\<lambda>xs. xs) NewStore
     \<lparr>sc_APIKeySecret = [], sc_APIKeyPrefix = [], sc_CacheRefreshInterval = 60, sc_UserCacheTTL = 60\<rparr>"

definition ada :: CreateUserRequest where
  "ada = \<lparr>cu_Username = ''ada'', cu_Email = [], cu_Password = ''pw'', cu_Role = ''admin'', cu_Enabled = True\<rparr>"

definition with_ada :: Service where
  "with_ada = fst (Service_CreateUser plain_crypt [] 5 6 sample_service ada)"

definition logged_in :: Service where
  "logged_in = fst (Service_ValidateCredentials plain_crypt 10 11 with_ada ''ada'' ''pw'')"

lemma sample_service_reach: "service_reach cl sample_service"
  unfolding sample_service_def by (rule service_new) (simp_all add: accounts_new)

lemma with_ada_reach: "service_reach plain_crypt with_ada"
proof (rule service_next [OF sample_service_reach])
  have "st_nextUserID (sv_storage sample_service) < max_int64"
    by (simp add: sample_service_def NewServiceWithConfig_def refreshAPIKeyCache_def Store_ListAPIKeys_def
        NewStore_def max_int64_def Let_def)
  then show "service_step plain_crypt sample_service with_ada"
    by (rule create_user [of _ _ "[]" 5 6 ada]) (simp add: with_ada_def prod_eq_iff)
qed

lemma logged_in_reach: "service_reach plain_crypt logged_in"
  by (rule service_next [OF with_ada_reach], rule login [of "''ada''" _ 10 11 _ "''pw''"])
    (simp_all add: colon_free_def logged_in_def prod_eq_iff)


text \<open>
  A password change takes effect at once: when it has succeeded, a login of that user succeeds
  for exactly the passwords that match the new hash, also when the old password was cached.
\<close>

lemma changed_password_required:
  assumes "service_reach cl S" "inj (cl_sha256 cl)"
    and "Service_ChangePassword cl salt now now' S i old new = (S', None)"
    and "Store_GetUserByID (sv_storage S) i = Inr u" "colon_free (us_Username u)" "us_Enabled u"
  shows "\<exists>hash. cl_generate cl new salt = Some hash \<and>
     ((\<exists>v. snd (Service_ValidateCredentials cl t t' S' (us_Username u) password) = Inr v) \<longleftrightarrow>
      cl_compare cl hash password)"
proof -
  have inv: "auth_inv cl S" by (rule service_reach_inv [OF assms(1)])
  obtain T w hash where e: "user_edit i S T" "S' = invalidateUserCredCacheByID T i"
    "gm_get (st_users (sv_storage S)) i = Some w" "cl_generate cl new salt = Some hash"
    "gm_get (st_users (sv_storage T)) i = Some (w\<lparr>us_PasswordHash := hash, us_UpdatedAt := now'\<rparr>)"
    using change_password_effect [OF inv assms(3)] by auto
  have w: "w = u" using assms(4) e(3) by (simp add: Store_GetUserByID_def)
  have inv': "auth_inv cl S'" using user_edit_inv [OF inv e(1)] e(2) by simp
  have st: "sv_storage S' = sv_storage T" by (simp add: e(2) invalidateUserCredCacheByID_def)
  have "us_ID u = i" using stored_user_id [OF inv e(3)] w by simp
  then have "Store_GetUserByUsername (sv_storage S') (us_Username u) =
      Inr (u\<lparr>us_PasswordHash := hash, us_UpdatedAt := now'\<rparr>)"
    using e(5) w by (subst stored_by_name [OF inv']) (simp add: st)
  then show ?thesis
    using credentials_transparent [OF assms(2) inv' assms(5), of t t' password] assms(6) e(4)
    by (simp add: credential_verdict_def)
qed

lemma changed_password_required_witness:
  "\<not> (\<exists>v. snd (Service_ValidateCredentials plain_crypt 22 23
            (fst (Service_ChangePassword plain_crypt [] 20 21 logged_in 1 ''pw'' ''new'')) ''ada'' ''pw'') = Inr v) \<and>
   (\<exists>v. snd (Service_ValidateCredentials plain_crypt 22 23
            (fst (Service_ChangePassword plain_crypt [] 20 21 logged_in 1 ''pw'' ''new'')) ''ada'' ''new'') = Inr v)"
proof -
  let ?S = "fst (Service_ChangePassword plain_crypt [] 20 21 logged_in 1 ''pw'' ''new'')"
  let ?u = "\<lparr>us_ID = 1, us_Username = ''ada'', us_Email = [], us_PasswordHash = ''#pw'', us_Role = ''admin'',
     us_Enabled = True, us_CreatedAt = 6, us_UpdatedAt = 6\<rparr>"
  have "snd (Service_ChangePassword plain_crypt [] 20 21 logged_in 1 ''pw'' ''new'') = None" by code_simp
  then have c: "Service_ChangePassword plain_crypt [] 20 21 logged_in 1 ''pw'' ''new'' = (?S, None)"
    by (metis prod.collapse)
  have u: "Store_GetUserByID (sv_storage logged_in) 1 = Inr ?u" by code_simp
  have n: "colon_free (us_Username ?u)" "us_Enabled ?u" by (simp_all add: colon_free_def)
  show ?thesis
    using changed_password_required [OF logged_in_reach plain_crypt_inj c u n, of 22 23 "''pw''"]
      changed_password_required [OF logged_in_reach plain_crypt_inj c u n, of 22 23 "''new''"]
    by (simp add: plain_crypt_def)
qed


definition with_key :: Service where
  "with_key = fst (Service_CreateAPIKey plain_crypt (Some ''k'') (\<lambda>xs. xs) 20 21 with_ada
     \<lparr>ck_UserID = 1, ck_Name = ''ci'', ck_Role = ''developer'', ck_ExpiresAt = 100\<rparr>)"

lemma with_key_reach: "service_reach plain_crypt with_key"
proof (rule service_next [OF with_ada_reach])
  have "st_nextAPIKeyID (sv_storage with_ada) = 1" by code_simp
  then have "st_nextAPIKeyID (sv_storage with_ada) < max_int64" by (simp add: max_int64_def)
  then show "service_step plain_crypt with_ada with_key"
    by (rule create_key [of _ _ "Some ''k''" "\<lambda>xs. xs" 20 21
          "\<lparr>ck_UserID = 1, ck_Name = ''ci'', ck_Role = ''developer'', ck_ExpiresAt = 100\<rparr>"])
      (simp add: with_key_def prod_eq_iff)
qed


text \<open>
  Round trip: the raw key that creating an API key returns is accepted until its expiry, as a key
  with the role and the owner asked for; the store has only its hash.
\<close>

lemma created_key_accepted:
  assumes "service_reach cl S" "st_nextAPIKeyID (sv_storage S) < max_int64"
    and "Service_CreateAPIKey cl random it now now' S req = (S', Inr resp)" "t \<le> ck_ExpiresAt req"
  shows "\<exists>k. snd (Service_ValidateAPIKey cl t S' (kr_Key resp)) = Inr k \<and>
     ak_ID k = kr_ID resp \<and> ak_Role k = ck_Role req \<and> ak_UserID k = ck_UserID req \<and>
     ak_KeyHash k = hashAPIKey cl S (kr_Key resp)"
proof -
  have inv: "auth_inv cl S" by (rule service_reach_inv [OF assms(1)])
  have inv': "auth_inv cl S'" by (rule create_key_inv [OF inv assms(3,2)])
  obtain rec i where rec: "store_api_key now' S rec = (S', Inr i)" "ak_ID rec = 0" "i = kr_ID resp"
    "ak_KeyHash rec = hashAPIKey cl S (kr_Key resp)" "ak_Role rec = ck_Role req" "ak_UserID rec = ck_UserID req"
    "ak_Enabled rec" "ak_ExpiresAt rec = ck_ExpiresAt req"
    using assms(3) by (auto simp: Service_CreateAPIKey_def Let_def split: if_splits option.splits sum.splits prod.splits)
  obtain st' rec' where c: "Store_CreateAPIKey now' (sv_storage S) rec = (st', rec', None)" "i = ak_ID rec'"
    "sv_storage S' = st'" "sv_apiSecret S' = sv_apiSecret S"
    using rec(1) by (fastforce simp: store_api_key_def split: prod.splits option.splits)
  have same: "rec' = rec\<lparr>ak_ID := i, ak_CreatedAt := now'\<rparr>"
    using c(1,2) rec(2) by (auto simp: Store_CreateAPIKey_def Let_def split: if_splits)
  have "gm_get (st_apiKeys st') (ak_ID rec') = Some rec'"
    using c(1) rec(2) by (auto simp: Store_CreateAPIKey_def Let_def gm_laws split: if_splits)
  then have "Store_GetAPIKeyByHash (sv_storage S') (ak_KeyHash rec) = Inr rec'"
    by (subst stored_by_hash [OF inv']) (simp add: c(3) same)
  moreover have "hashAPIKey cl S' (kr_Key resp) = ak_KeyHash rec" using hashAPIKey_secret [OF c(4)] rec(4) by simp
  ultimately have "snd (Service_ValidateAPIKey cl t S' (kr_Key resp)) = Inr rec'"
    using keys_transparent [OF inv', of t "kr_Key resp"] rec(7,8) assms(4) by (simp add: key_verdict_def same)
  then show ?thesis using rec same by simp
qed

lemma created_key_accepted_witness:
  "\<exists>k. snd (Service_ValidateAPIKey plain_crypt 50 with_key ''6b'') = Inr k \<and> ak_Role k = ''developer'' \<and> ak_UserID k = 1"
proof -
  let ?req = "\<lparr>ck_UserID = 1, ck_Name = ''ci'', ck_Role = ''developer'', ck_ExpiresAt = 100\<rparr>"
  let ?resp = "\<lparr>kr_ID = 1, kr_Key = ''6b'', kr_KeyPrefix = ''6b'', kr_Name = ''ci'', kr_Role = ''developer'',
     kr_UserID = 1, kr_Enabled = True, kr_CreatedAt = 20, kr_ExpiresAt = 100\<rparr>"
  have "snd (Service_CreateAPIKey plain_crypt (Some ''k'') (\<lambda>xs. xs) 20 21 with_ada ?req) = Inr ?resp" by code_simp
  then have c: "Service_CreateAPIKey plain_crypt (Some ''k'') (\<lambda>xs. xs) 20 21 with_ada ?req = (with_key, Inr ?resp)"
    by (simp add: with_key_def prod_eq_iff)
  have "st_nextAPIKeyID (sv_storage with_ada) = 1" by code_simp
  then have "st_nextAPIKeyID (sv_storage with_ada) < max_int64" by (simp add: max_int64_def)
  from created_key_accepted [OF with_ada_reach this c, of 50] show ?thesis by auto
qed

section \<open>Where the service falls short\<close>

text \<open>
  An update that names a new password and an invalid role fails; when the loop visits the password
  first, it has been changed all the same, and the cached credential of the old one stays accepted
  until it expires.
\<close>

definition bad_update :: "(string, any_value) gomap" where
  "bad_update = gm_of_list [(''role'', AnyString ''boss''), (''password'', AnyString ''new'')]"

definition half_updated :: "Service \<times> UserRecord auth_result" where
  "half_updated = Service_UpdateUser plain_crypt [] rev 20 21 logged_in 1 bad_update"

lemma failed_update_changes_password:
  "snd half_updated = Inl (InvalidRole ''boss'') \<and>
   map_option us_PasswordHash (gm_get (st_users (sv_storage (fst half_updated))) 1) = Some ''#new'' \<and>
   (case snd (Service_ValidateCredentials plain_crypt 30 31 (fst half_updated) ''ada'' ''pw'') of
      Inl _ \<Rightarrow> False | Inr u \<Rightarrow> us_PasswordHash u = ''#new'')"
  by (intro conjI; code_simp)

text \<open>
  The credentials of a user are dropped before the record is deleted: a login that comes between the
  two steps is cached, and the deleted user is let in until the entry expires.
\<close>

lemma login_during_deletion:
  "(let S1 = invalidateUserCredCacheByID logged_in 1;
        S2 = fst (Service_ValidateCredentials plain_crypt 20 21 S1 ''ada'' ''pw'');
        (S3, err) = delete_user_record S2 1
    in err = None \<and> Store_GetUserByUsername (sv_storage S3) ''ada'' = Inl ErrUserNotFound \<and>
       (case snd (Service_ValidateCredentials plain_crypt 30 31 S3 ''ada'' ''pw'') of Inl _ \<Rightarrow> False | Inr _ \<Rightarrow> True))"
  by code_simp

text \<open>The API keys of a user outlive the user: neither disabling nor deleting the owner affects them.\<close>

lemma keys_outlive_user:
  assumes "service_reach cl S" "Service_DeleteUser S i = (S', err)"
  shows "snd (Service_ValidateAPIKey cl now S' rawKey) = snd (Service_ValidateAPIKey cl now S rawKey)"
proof -
  have inv: "auth_inv cl S" by (rule service_reach_inv [OF assms(1)])
  have same: "st_apiKeys (sv_storage S') = st_apiKeys (sv_storage S)" "sv_apiSecret S = sv_apiSecret S'"
    "st_apiKeysByHash (sv_storage S') = st_apiKeysByHash (sv_storage S)"
    using assms(2) by (auto simp: Service_DeleteUser_def delete_user_record_def Store_DeleteUser_def
        invalidateUserCredCacheByID_def split: option.splits)
  then have "key_verdict now (sv_storage S') = key_verdict now (sv_storage S)"
    by (intro ext) (simp add: key_verdict_def Store_GetAPIKeyByHash_def cong: option.case_cong)
  then show ?thesis
    using keys_transparent [OF inv] keys_transparent [OF delete_user_inv [OF inv assms(2)]] hashAPIKey_secret [OF same(2)]
    by simp
qed

text \<open>Names with a colon share cache entries: a login under one name is answered with another user.\<close>

lemma colon_names_collide: "userCredCacheKey cl ''a:b'' ''c'' = userCredCacheKey cl ''a'' ''b:c''"
  by (simp add: userCredCacheKey_def)

text \<open>The first administrator is created in an empty table only, as an enabled super admin.\<close>

lemma bootstrap_only_first:
  assumes "Service_BootstrapAdmin cl salt now now' S username password email = (S', Inr r)"
  shows "br_Created r \<longleftrightarrow> gm_get (st_users (sv_storage S)) = Map.empty" "\<not> br_Created r \<Longrightarrow> S' = S"
proof -
  have "sort_key us_ID (map snd (gm_entries (st_users (sv_storage S)))) = [] \<longleftrightarrow>
      gm_get (st_users (sv_storage S)) = Map.empty"
    by (metis gm.no_entries list.map_disc_iff set_empty set_sort)
  with assms show "br_Created r \<longleftrightarrow> gm_get (st_users (sv_storage S)) = Map.empty" "\<not> br_Created r \<Longrightarrow> S' = S"
    unfolding Service_BootstrapAdmin_def Store_ListUsers_def
    by (simp_all split: if_splits sum.splits prod.splits) (metis BootstrapResult.select_convs(1))+
qed

end
