(* ===== verification/Admin_Handlers.thy ===== *)
theory Admin_Handlers
  imports Auth_Properties Api_Types
begin

text \<open>
  The HTTP handlers of user and API key administration and of the own account
  (\<open>internal/api/handlers/admin.go\<close>, \<open>account.go\<close>).  A handler takes the identity the middleware left
  in the request, the request's decoded parts (a body that cannot be decoded is \<open>None\<close>) and the
  service, and returns the service, the answer, and the audit record it fills in.

  The audit record has digests of the object before and after.  The handlers take the object before
  the operation but compute its digest afterwards, through the pointer the store handed out; the
  model reads it at the same moment.  The zone-dependent text of a time (\<open>Format(time.RFC3339)\<close>) and
  the digest of an audited object are parameters.
\<close>

section \<open>Answers\<close>

record UserResponse =
  ur_ID :: int
  ur_Username :: string
  ur_Email :: string
  ur_Role :: string
  ur_Enabled :: bool
  ur_CreatedAt :: string
  ur_UpdatedAt :: string

record APIKeyResponse =
  kv_ID :: int
  kv_KeyPrefix :: string
  kv_Name :: string
  kv_Role :: string
  kv_UserID :: int
  kv_Username :: string
  kv_Enabled :: bool
  kv_CreatedAt :: string
  kv_ExpiresAt :: string
  kv_LastUsed :: "string option"

record NewKeyResponse =
  nk_ID :: int
  nk_Key :: string
  nk_KeyPrefix :: string
  nk_Name :: string
  nk_Role :: string
  nk_UserID :: int
  nk_Username :: string
  nk_Enabled :: bool
  nk_CreatedAt :: string
  nk_ExpiresAt :: string

record RoleInfo =
  ri_Name :: string
  ri_Description :: string
  ri_Permissions :: "string list"

datatype admin_body =
    UserBody UserResponse | UsersBody "UserResponse list"
  | KeyBody APIKeyResponse | KeysBody "APIKeyResponse list"
  | NewKeyBody NewKeyResponse | RotatedBody NewKeyResponse int
  | RolesBody "RoleInfo list"

section \<open>The environment of a request\<close>

datatype audited = AuditUser string string string bool | AuditKey string string int bool string

record audit_hint =
  ah_TargetType :: string
  ah_TargetID :: string
  ah_BeforeHash :: string
  ah_AfterHash :: string

record admin_env =
  av_crypt :: crypt_lib
  av_salt :: string
  av_random :: "string option"
  av_updates :: "(string \<times> any_value) order"
  av_keys :: "(int \<times> APIKeyRecord) order"
  av_cache :: "(string \<times> int) order"
  av_now :: go_time
  av_format :: "go_time \<Rightarrow> string"
  av_digest :: "audited \<Rightarrow> string"

type_synonym handled = "Service \<times> admin_body answer \<times> audit_hint option"

definition hashUser :: "admin_env \<Rightarrow> UserRecord \<Rightarrow> string" where
  "hashUser env user = av_digest env (AuditUser (us_Username user) (us_Email user) (us_Role user) (us_Enabled user))"

definition hashAPIKeyMeta :: "admin_env \<Rightarrow> APIKeyRecord \<Rightarrow> string" where
  "hashAPIKeyMeta env key =
     av_digest env (AuditKey (ak_Name key) (ak_Role key) (ak_UserID key) (ak_Enabled key) (ak_KeyPrefix key))"

text \<open>The digest of the object taken before the operation from \<open>S\<close>, read through its pointer in \<open>S'\<close>.\<close>

definition user_before :: "admin_env \<Rightarrow> Service \<Rightarrow> Service \<Rightarrow> int \<Rightarrow> string" where
  "user_before env S S' i =
     (case Service_GetUserByID S i of
        Inl _ \<Rightarrow> [] | Inr _ \<Rightarrow> (case user_at S' i of Some user \<Rightarrow> hashUser env user | None \<Rightarrow> []))"

definition key_before :: "admin_env \<Rightarrow> Service \<Rightarrow> Service \<Rightarrow> int \<Rightarrow> string" where
  "key_before env S S' i =
     (case Service_GetAPIKeyByID S i of
        Inl _ \<Rightarrow> [] | Inr _ \<Rightarrow> (case key_at S' i of Some key \<Rightarrow> hashAPIKeyMeta env key | None \<Rightarrow> []))"

definition user_hint :: "string \<Rightarrow> string \<Rightarrow> string \<Rightarrow> audit_hint" where
  "user_hint target before after' =
     \<lparr>ah_TargetType = ''user'', ah_TargetID = target, ah_BeforeHash = before, ah_AfterHash = after'\<rparr>"

definition key_hint :: "string \<Rightarrow> string \<Rightarrow> string \<Rightarrow> audit_hint" where
  "key_hint target before after' =
     \<lparr>ah_TargetType = ''apikey'', ah_TargetID = target, ah_BeforeHash = before, ah_AfterHash = after'\<rparr>"

section \<open>Conversions and guards\<close>

definition userToResponse :: "admin_env \<Rightarrow> UserRecord \<Rightarrow> UserResponse" where
  "userToResponse env u =
     \<lparr>ur_ID = us_ID u, ur_Username = us_Username u, ur_Email = us_Email u, ur_Role = us_Role u,
      ur_Enabled = us_Enabled u, ur_CreatedAt = av_format env (us_CreatedAt u), ur_UpdatedAt = av_format env (us_UpdatedAt u)\<rparr>"

definition username_of :: "Service \<Rightarrow> int \<Rightarrow> string" where
  "username_of S userID = (case Service_GetUserByID S userID of Inr user \<Rightarrow> us_Username user | Inl _ \<Rightarrow> [])"

definition apiKeyToResponse :: "admin_env \<Rightarrow> Service \<Rightarrow> APIKeyRecord \<Rightarrow> APIKeyResponse" where
  "apiKeyToResponse env S k =
     \<lparr>kv_ID = ak_ID k, kv_KeyPrefix = ak_KeyPrefix k, kv_Name = ak_Name k, kv_Role = ak_Role k, kv_UserID = ak_UserID k,
      kv_Username = username_of S (ak_UserID k), kv_Enabled = ak_Enabled k, kv_CreatedAt = av_format env (ak_CreatedAt k),
      kv_ExpiresAt = av_format env (ak_ExpiresAt k), kv_LastUsed = map_option (av_format env) (ak_LastUsed k)\<rparr>"

definition new_key_response :: "admin_env \<Rightarrow> CreateAPIKeyResponse \<Rightarrow> string \<Rightarrow> NewKeyResponse" where
  "new_key_response env result username =
     \<lparr>nk_ID = kr_ID result, nk_Key = kr_Key result, nk_KeyPrefix = kr_KeyPrefix result, nk_Name = kr_Name result,
      nk_Role = kr_Role result, nk_UserID = kr_UserID result, nk_Username = username, nk_Enabled = kr_Enabled result,
      nk_CreatedAt = av_format env (kr_CreatedAt result), nk_ExpiresAt = av_format env (kr_ExpiresAt result)\<rparr>"

definition new_key_hash :: "admin_env \<Rightarrow> CreateAPIKeyResponse \<Rightarrow> string" where
  "new_key_hash env result =
     av_digest env (AuditKey (kr_Name result) (kr_Role result) (kr_UserID result) (kr_Enabled result) (kr_KeyPrefix result))"

definition requireAdminRead :: "Authorizer \<Rightarrow> User option \<Rightarrow> 'b answer option" where
  "requireAdminRead az user =
     (if user = None then Some (Fail 401 ErrorCodeUnauthorized ''Authentication required'')
      else if \<not> Authorizer_HasPermission az user PermissionAdminRead
      then Some (Fail 403 ErrorCodeForbidden ''Admin read permission required'')
      else None)"

definition requireAdminWrite :: "Authorizer \<Rightarrow> User option \<Rightarrow> 'b answer option" where
  "requireAdminWrite az user =
     (if user = None then Some (Fail 401 ErrorCodeUnauthorized ''Authentication required'')
      else if \<not> Authorizer_HasPermission az user PermissionAdminWrite
      then Some (Fail 403 ErrorCodeForbidden ''Admin write permission required'')
      else None)"

definition bad_request :: "string \<Rightarrow> 'b answer" where
  "bad_request message = Fail 400 ErrorCodeInvalidSchema message"

text \<open>Errors: \<open>errors.Is(err, storage.ErrInvalidRole)\<close> and the text of that error.\<close>

definition role_text :: "string \<Rightarrow> string" where
  "role_text role = ''invalid role: '' @ role"

definition user_error :: "auth_error \<Rightarrow> 'b answer" where
  "user_error e =
     (case e of
        Stored ErrUserNotFound \<Rightarrow> Fail 404 ErrorCodeUserNotFound ''User not found''
      | InvalidRole role \<Rightarrow> Fail 400 ErrorCodeInvalidRole (role_text role)
      | _ \<Rightarrow> internal_error)"

definition key_error_answer :: "auth_error \<Rightarrow> 'b answer" where
  "key_error_answer e =
     (case e of
        Stored ErrAPIKeyNotFound \<Rightarrow> Fail 404 ErrorCodeAPIKeyNotFound ''API key not found''
      | InvalidRole role \<Rightarrow> Fail 400 ErrorCodeInvalidRole (role_text role)
      | _ \<Rightarrow> internal_error)"

text \<open>A guard that answers, and a path parameter that has to be a number.\<close>

definition guarded :: "Service \<Rightarrow> admin_body answer option \<Rightarrow> handled \<Rightarrow> handled" where
  "guarded S refusal body = (case refusal of Some answer \<Rightarrow> (S, answer, None) | None \<Rightarrow> body)"

definition with_id :: "Service \<Rightarrow> string \<Rightarrow> string \<Rightarrow> (int \<Rightarrow> handled) \<Rightarrow> handled" where
  "with_id S idStr message body = (case Atoi idStr of None \<Rightarrow> (S, bad_request message, None) | Some i \<Rightarrow> body i)"

section \<open>Users\<close>

definition Admin_ListUsers :: "admin_env \<Rightarrow> Authorizer \<Rightarrow> User option \<Rightarrow> Service \<Rightarrow> handled" where
  "Admin_ListUsers env az user S =
     guarded S (requireAdminRead az user)
       (case Service_ListUsers S of
          Inl _ \<Rightarrow> (S, internal_error, None)
        | Inr users \<Rightarrow> (S, Reply 200 (UsersBody (map (userToResponse env) users)), None))"

record CreateUserBody =
  cb_Username :: string
  cb_Email :: string
  cb_Password :: string
  cb_Role :: string
  cb_Enabled :: "bool option"

definition Admin_CreateUser ::
  "admin_env \<Rightarrow> Authorizer \<Rightarrow> User option \<Rightarrow> Service \<Rightarrow> CreateUserBody option \<Rightarrow> handled" where
  "Admin_CreateUser env az user S body =
     guarded S (requireAdminWrite az user)
       (case body of
          None \<Rightarrow> (S, bad_request ''Invalid request body'', None)
        | Some req \<Rightarrow>
            if cb_Username req = [] then (S, bad_request ''Username is required'', None)
            else if cb_Password req = [] then (S, Fail 400 ErrorCodeInvalidPassword ''Password is required'', None)
            else if cb_Role req = [] then (S, Fail 400 ErrorCodeInvalidRole ''Role is required'', None)
            else
              (case Service_CreateUser (av_crypt env) (av_salt env) (av_now env) (av_now env) S
                      \<lparr>cu_Username = cb_Username req, cu_Email = cb_Email req, cu_Password = cb_Password req,
                       cu_Role = cb_Role req, cu_Enabled = (case cb_Enabled req of Some b \<Rightarrow> b | None \<Rightarrow> True)\<rparr> of
                 (S', Inl e) \<Rightarrow>
                   (S', (case e of
                           Stored ErrUserExists \<Rightarrow> Fail 409 ErrorCodeUserExists ''User already exists''
                         | InvalidRole role \<Rightarrow> Fail 400 ErrorCodeInvalidRole (role_text role)
                         | _ \<Rightarrow> internal_error), None)
               | (S', Inr u) \<Rightarrow>
                   (S', Reply 201 (UserBody (userToResponse env u)),
                    Some (user_hint (cb_Username req) [] (hashUser env u)))))"

definition Admin_GetUser :: "admin_env \<Rightarrow> Authorizer \<Rightarrow> User option \<Rightarrow> Service \<Rightarrow> string \<Rightarrow> handled" where
  "Admin_GetUser env az user S idStr =
     guarded S (requireAdminRead az user)
       (with_id S idStr ''Invalid user ID'' (\<lambda>i.
          case Service_GetUserByID S i of
            Inl e \<Rightarrow> (S, user_error (Stored e), None)
          | Inr u \<Rightarrow> (S, Reply 200 (UserBody (userToResponse env u)), None)))"

record UpdateUserBody =
  ub_Email :: "string option"
  ub_Password :: "string option"
  ub_Role :: "string option"
  ub_Enabled :: "bool option"

definition put_opt :: "string \<Rightarrow> any_value option \<Rightarrow> (string, any_value) gomap \<Rightarrow> (string, any_value) gomap" where
  "put_opt k v m = (case v of Some x \<Rightarrow> gm_put k x m | None \<Rightarrow> m)"

definition user_updates :: "UpdateUserBody \<Rightarrow> (string, any_value) gomap" where
  "user_updates req =
     put_opt ''enabled'' (map_option AnyBool (ub_Enabled req))
       (put_opt ''role'' (map_option AnyString (ub_Role req))
         (put_opt ''password'' (map_option AnyString (ub_Password req))
           (put_opt ''email'' (map_option AnyString (ub_Email req)) gm_empty)))"

definition Admin_UpdateUser ::
  "admin_env \<Rightarrow> Authorizer \<Rightarrow> User option \<Rightarrow> Service \<Rightarrow> string \<Rightarrow> UpdateUserBody option \<Rightarrow> handled" where
  "Admin_UpdateUser env az user S idStr body =
     guarded S (requireAdminWrite az user)
       (with_id S idStr ''Invalid user ID'' (\<lambda>i.
          case body of
            None \<Rightarrow> (S, bad_request ''Invalid request body'', None)
          | Some req \<Rightarrow>
              (case Service_UpdateUser (av_crypt env) (av_salt env) (av_updates env) (av_now env) (av_now env) S i
                      (user_updates req) of
                 (S', Inl e) \<Rightarrow> (S', user_error e, None)
               | (S', Inr u) \<Rightarrow>
                   (S', Reply 200 (UserBody (userToResponse env u)),
                    Some (user_hint idStr (user_before env S S' i) (hashUser env u))))))"

definition Admin_DeleteUser :: "admin_env \<Rightarrow> Authorizer \<Rightarrow> User option \<Rightarrow> Service \<Rightarrow> string \<Rightarrow> handled" where
  "Admin_DeleteUser env az user S idStr =
     guarded S (requireAdminWrite az user)
       (with_id S idStr ''Invalid user ID'' (\<lambda>i.
          case Service_DeleteUser S i of
            (S', Some e) \<Rightarrow> (S', user_error (Stored e), None)
          | (S', None) \<Rightarrow> (S', NoContent, Some (user_hint idStr (user_before env S S' i) []))))"

section \<open>API keys\<close>

definition Admin_ListAPIKeys :: "admin_env \<Rightarrow> Authorizer \<Rightarrow> User option \<Rightarrow> Service \<Rightarrow> string \<Rightarrow> handled" where
  "Admin_ListAPIKeys env az user S userIDStr =
     guarded S (requireAdminRead az user)
       (let listing = (\<lambda>res. case res of
                         Inl _ \<Rightarrow> (S, internal_error, None)
                       | Inr keys \<Rightarrow> (S, Reply 200 (KeysBody (map (apiKeyToResponse env S) keys)), None))
        in if userIDStr \<noteq> []
           then with_id S userIDStr ''Invalid user ID'' (\<lambda>userID. listing (Service_ListAPIKeysByUserID S userID))
           else listing (Service_ListAPIKeys S))"

record CreateAPIKeyBody =
  kb_Name :: string
  kb_Role :: string
  kb_ExpiresIn :: int
  kb_ForUserID :: "int option"

text \<open>Who will own the key: the user it is created for, or the authenticated identity.\<close>

definition key_owner ::
  "Authorizer \<Rightarrow> User \<Rightarrow> Service \<Rightarrow> int option \<Rightarrow> admin_body answer + int \<times> string" where
  "key_owner az currentUser S forUser =
     (case (case forUser of Some i \<Rightarrow> if 0 < i then Some i else None | None \<Rightarrow> None) of
        Some i \<Rightarrow>
          if \<not> Authorizer_HasPermission az (Some currentUser) PermissionAdminWrite \<or> au_Role currentUser \<noteq> RoleSuperAdmin
          then Inl (Fail 403 ErrorCodeForbidden ''Only super admins can create API keys for other users'')
          else (case Service_GetUserByID S i of
                  Inl _ \<Rightarrow> Inl (Fail 400 ErrorCodeUserNotFound ''Target user not found'')
                | Inr target \<Rightarrow> Inr (us_ID target, us_Username target))
      | None \<Rightarrow>
          if au_ID currentUser \<le> 0 then Inl (bad_request ''Cannot create API key: user not in database'')
          else Inr (au_ID currentUser, au_Username currentUser))"

text \<open>\<open>time.Now().UTC().Add(time.Duration(req.ExpiresIn) * time.Second)\<close>: the product is taken in 64 bits.\<close>

definition expiry_of :: "go_time \<Rightarrow> int \<Rightarrow> go_time" where
  "expiry_of now expiresIn = now + i64 (expiresIn * 1000000000)"

definition Admin_CreateAPIKey ::
  "admin_env \<Rightarrow> Authorizer \<Rightarrow> User option \<Rightarrow> Service \<Rightarrow> CreateAPIKeyBody option \<Rightarrow> handled" where
  "Admin_CreateAPIKey env az user S body =
     guarded S (requireAdminWrite az user)
       (case body of
          None \<Rightarrow> (S, bad_request ''Invalid request body'', None)
        | Some req \<Rightarrow>
            if kb_Name req = [] then (S, bad_request ''Name is required'', None)
            else if kb_Role req = [] then (S, Fail 400 ErrorCodeInvalidRole ''Role is required'', None)
            else if kb_ExpiresIn req \<le> 0
            then (S, bad_request ''expires_in is required and must be positive (duration in seconds)'', None)
            else case user of
              None \<Rightarrow> (S, Fail 401 ErrorCodeUnauthorized ''Authentication required'', None)
            | Some currentUser \<Rightarrow>
                (case key_owner az currentUser S (kb_ForUserID req) of
                   Inl answer \<Rightarrow> (S, answer, None)
                 | Inr (ownerID, ownerName) \<Rightarrow>
                     (case Service_CreateAPIKey (av_crypt env) (av_random env) (av_keys env) (av_now env) (av_now env) S
                             \<lparr>ck_UserID = ownerID, ck_Name = kb_Name req, ck_Role = kb_Role req,
                              ck_ExpiresAt = expiry_of (av_now env) (kb_ExpiresIn req)\<rparr> of
                        (S', Inl e) \<Rightarrow>
                          (S', (case e of
                                  InvalidRole role \<Rightarrow> Fail 400 ErrorCodeInvalidRole (role_text role)
                                | Stored ErrAPIKeyNameExists \<Rightarrow>
                                    Fail 409 ErrorCodeAPIKeyExists ''API key name already exists for this user''
                                | _ \<Rightarrow> internal_error), None)
                      | (S', Inr result) \<Rightarrow>
                          (S', Reply 201 (NewKeyBody (new_key_response env result ownerName)),
                           Some (key_hint (kb_Name req) [] (new_key_hash env result))))))"

definition Admin_GetAPIKey :: "admin_env \<Rightarrow> Authorizer \<Rightarrow> User option \<Rightarrow> Service \<Rightarrow> string \<Rightarrow> handled" where
  "Admin_GetAPIKey env az user S idStr =
     guarded S (requireAdminRead az user)
       (with_id S idStr ''Invalid API key ID'' (\<lambda>i.
          case Service_GetAPIKeyByID S i of
            Inl e \<Rightarrow> (S, key_error_answer (Stored e), None)
          | Inr k \<Rightarrow> (S, Reply 200 (KeyBody (apiKeyToResponse env S k)), None)))"

record UpdateAPIKeyBody =
  uk_Name :: "string option"
  uk_Role :: "string option"
  uk_Enabled :: "bool option"

definition key_updates :: "UpdateAPIKeyBody \<Rightarrow> (string, any_value) gomap" where
  "key_updates req =
     put_opt ''enabled'' (map_option AnyBool (uk_Enabled req))
       (put_opt ''role'' (map_option AnyString (uk_Role req))
         (put_opt ''name'' (map_option AnyString (uk_Name req)) gm_empty))"

definition Admin_UpdateAPIKey ::
  "admin_env \<Rightarrow> Authorizer \<Rightarrow> User option \<Rightarrow> Service \<Rightarrow> string \<Rightarrow> UpdateAPIKeyBody option \<Rightarrow> handled" where
  "Admin_UpdateAPIKey env az user S idStr body =
     guarded S (requireAdminWrite az user)
       (with_id S idStr ''Invalid API key ID'' (\<lambda>i.
          case body of
            None \<Rightarrow> (S, bad_request ''Invalid request body'', None)
          | Some req \<Rightarrow>
              (case Service_UpdateAPIKey (av_updates env) (av_keys env) (av_cache env) (av_now env) S i (key_updates req) of
                 (S', Inl e) \<Rightarrow> (S', key_error_answer e, None)
               | (S', Inr k) \<Rightarrow>
                   (S', Reply 200 (KeyBody (apiKeyToResponse env S' k)),
                    Some (key_hint idStr (key_before env S S' i) (hashAPIKeyMeta env k))))))"

definition Admin_DeleteAPIKey :: "admin_env \<Rightarrow> Authorizer \<Rightarrow> User option \<Rightarrow> Service \<Rightarrow> string \<Rightarrow> handled" where
  "Admin_DeleteAPIKey env az user S idStr =
     guarded S (requireAdminWrite az user)
       (with_id S idStr ''Invalid API key ID'' (\<lambda>i.
          case Service_DeleteAPIKey (av_cache env) S i of
            (S', Some e) \<Rightarrow> (S', key_error_answer (Stored e), None)
          | (S', None) \<Rightarrow> (S', NoContent, Some (key_hint idStr (key_before env S S' i) []))))"

definition Admin_RevokeAPIKey :: "admin_env \<Rightarrow> Authorizer \<Rightarrow> User option \<Rightarrow> Service \<Rightarrow> string \<Rightarrow> handled" where
  "Admin_RevokeAPIKey env az user S idStr =
     guarded S (requireAdminWrite az user)
       (with_id S idStr ''Invalid API key ID'' (\<lambda>i.
          case Service_RevokeAPIKey (av_cache env) S i of
            (S', Some e) \<Rightarrow> (S', key_error_answer e, None)
          | (S', None) \<Rightarrow>
              (case Service_GetAPIKeyByID S' i of
                 Inl _ \<Rightarrow> (S', internal_error, None)
               | Inr k \<Rightarrow>
                   (S', Reply 200 (KeyBody (apiKeyToResponse env S' k)),
                    Some (key_hint idStr (key_before env S S' i) (hashAPIKeyMeta env k))))))"

definition Admin_RotateAPIKey ::
  "admin_env \<Rightarrow> Authorizer \<Rightarrow> User option \<Rightarrow> Service \<Rightarrow> string \<Rightarrow> int option \<Rightarrow> handled" where
  "Admin_RotateAPIKey env az user S idStr body =
     guarded S (requireAdminWrite az user)
       (with_id S idStr ''Invalid API key ID'' (\<lambda>i.
          case body of
            None \<Rightarrow> (S, bad_request ''Invalid request body'', None)
          | Some expiresIn \<Rightarrow>
              if expiresIn \<le> 0
              then (S, bad_request ''expires_in is required and must be positive (duration in seconds)'', None)
              else
                (case Service_RotateAPIKey (av_crypt env) (av_random env) (av_keys env) (av_cache env) (av_now env)
                        (av_now env) (av_now env) S i (expiry_of (av_now env) expiresIn) of
                   (S', Inl e) \<Rightarrow>
                     (S', (case e of
                             Stored ErrAPIKeyNotFound \<Rightarrow> Fail 404 ErrorCodeAPIKeyNotFound ''API key not found''
                           | _ \<Rightarrow> internal_error), None)
                 | (S', Inr result) \<Rightarrow>
                     (S', Reply 200 (RotatedBody (new_key_response env result (username_of S' (kr_UserID result))) i),
                      Some (key_hint idStr (key_before env S S' i) (new_key_hash env result))))))"

definition Admin_ListRoles :: "Authorizer \<Rightarrow> User option \<Rightarrow> Service \<Rightarrow> handled" where
  "Admin_ListRoles az user S =
     guarded S (requireAdminRead az user)
       (S, Reply 200 (RolesBody
          [\<lparr>ri_Name = RoleSuperAdmin, ri_Description = ''Full access to everything including user management'',
            ri_Permissions = GetRolePermissions RoleSuperAdmin\<rparr>,
           \<lparr>ri_Name = RoleAdmin, ri_Description = ''Can manage schemas, configuration, and view admin info'',
            ri_Permissions = GetRolePermissions RoleAdmin\<rparr>,
           \<lparr>ri_Name = RoleDeveloper, ri_Description = ''Can register and read schemas'',
            ri_Permissions = GetRolePermissions RoleDeveloper\<rparr>,
           \<lparr>ri_Name = RoleReadOnly, ri_Description = ''Can only read schemas and configuration'',
            ri_Permissions = GetRolePermissions RoleReadOnly\<rparr>]), None)"

section \<open>The own account\<close>

definition Account_GetCurrentUser :: "admin_env \<Rightarrow> User option \<Rightarrow> Service \<Rightarrow> handled" where
  "Account_GetCurrentUser env user S =
     (case user of
        None \<Rightarrow> (S, Fail 401 ErrorCodeUnauthorized ''Authentication required'', None)
      | Some u \<Rightarrow>
          (case Service_GetUserByID S (au_ID u) of
             Inl e \<Rightarrow> (S, user_error (Stored e), None)
           | Inr fullUser \<Rightarrow> (S, Reply 200 (UserBody (userToResponse env fullUser)), None)))"

definition Account_ChangePassword ::
  "admin_env \<Rightarrow> User option \<Rightarrow> Service \<Rightarrow> (string \<times> string) option \<Rightarrow> handled" where
  "Account_ChangePassword env user S body =
     (case user of
        None \<Rightarrow> (S, Fail 401 ErrorCodeUnauthorized ''Authentication required'', None)
      | Some u \<Rightarrow>
          if au_ID u \<le> 0 then (S, bad_request ''Cannot change password: user not in database'', None)
          else case body of
            None \<Rightarrow> (S, bad_request ''Invalid request body'', None)
          | Some (oldPassword, newPassword) \<Rightarrow>
              if oldPassword = [] then (S, bad_request ''Old password is required'', None)
              else if newPassword = [] then (S, Fail 400 ErrorCodeInvalidPassword ''New password is required'', None)
              else
                (case Service_ChangePassword (av_crypt env) (av_salt env) (av_now env) (av_now env) S (au_ID u)
                        oldPassword newPassword of
                   (S', Some e) \<Rightarrow>
                     (S', (case e of
                             Stored ErrPermissionDenied \<Rightarrow> Fail 403 ErrorCodeForbidden ''Current password is incorrect''
                           | Stored ErrUserNotFound \<Rightarrow> Fail 404 ErrorCodeUserNotFound ''User not found''
                           | _ \<Rightarrow> internal_error), None)
                 | (S', None) \<Rightarrow>
                     (S', NoContent, Some (user_hint (au_Username u) [] []))))"

end
