(* ===== verification/Mcp_Admin.thy ===== *)
theory Mcp_Admin
  imports Mcp_Server Admin_Handlers
begin

text \<open>
  The tools for users and API keys (\<open>internal/mcp/tools_admin.go\<close>).  They call the account service
  directly: there is no caller's identity, so none of the checks of the administration handlers is
  made, and whoever reaches the tools may use them.  They are registered only when the server has an
  account service.
\<close>

section \<open>Registration\<close>

definition registerAdminTools :: "'p McpServer \<Rightarrow> (string \<times> bool) list" where
  "registerAdminTools srv =
     (if \<not> ms_accounts srv then []
      else [(''list_users'', True), (''create_user'', False), (''get_user'', True), (''update_user'', False),
            (''delete_user'', False), (''list_apikeys'', True), (''create_apikey'', False), (''get_apikey'', True),
            (''update_apikey'', False), (''delete_apikey'', False), (''revoke_apikey'', False),
            (''change_password'', False), (''rotate_apikey'', False), (''get_user_by_username'', True),
            (''list_roles'', True)])"

section \<open>Answers\<close>

record userResp =
  up_ID :: int
  up_Username :: string
  up_Email :: string
  up_Role :: string
  up_Enabled :: bool

record apiKeyResp =
  ap_ID :: int
  ap_KeyPrefix :: string
  ap_Name :: string
  ap_Role :: string
  ap_UserID :: int
  ap_Enabled :: bool
  ap_ExpiresAt :: string

text \<open>A new key: its response and the key itself.\<close>

datatype admin_tool_body =
    UserJ userResp | UsersJ "userResp list" | KeyJ apiKeyResp | KeysJ "apiKeyResp list" | NewKeyJ apiKeyResp string
  | DoneJ string | RolesJ "(string \<times> string) list"

definition user_resp :: "UserRecord \<Rightarrow> userResp" where
  "user_resp u =
     \<lparr>up_ID = us_ID u, up_Username = us_Username u, up_Email = us_Email u, up_Role = us_Role u, up_Enabled = us_Enabled u\<rparr>"

definition toAPIKeyResp :: "admin_env \<Rightarrow> APIKeyRecord \<Rightarrow> apiKeyResp" where
  "toAPIKeyResp env k =
     \<lparr>ap_ID = ak_ID k, ap_KeyPrefix = ak_KeyPrefix k, ap_Name = ak_Name k, ap_Role = ak_Role k, ap_UserID = ak_UserID k,
      ap_Enabled = ak_Enabled k, ap_ExpiresAt = av_format env (ak_ExpiresAt k)\<rparr>"

definition toAPIKeyResps :: "admin_env \<Rightarrow> APIKeyRecord list \<Rightarrow> apiKeyResp list" where
  "toAPIKeyResps env keys = map (toAPIKeyResp env) keys"

definition new_key_body :: "admin_env \<Rightarrow> CreateAPIKeyResponse \<Rightarrow> admin_tool_body" where
  "new_key_body env result =
     NewKeyJ \<lparr>ap_ID = kr_ID result, ap_KeyPrefix = kr_KeyPrefix result, ap_Name = kr_Name result, ap_Role = kr_Role result,
              ap_UserID = kr_UserID result, ap_Enabled = kr_Enabled result, ap_ExpiresAt = av_format env (kr_ExpiresAt result)\<rparr>
       (kr_Key result)"

definition bad_expiry :: tool_error where
  "bad_expiry = Saying ''expires_in is required and must be positive (duration in seconds)''"

section \<open>Users\<close>

definition handleListUsers :: "Service \<Rightarrow> admin_tool_body tool_result" where
  "handleListUsers S = answer_with OfStore (\<lambda>users. UsersJ (map user_resp users)) (Service_ListUsers S)"

definition handleCreateUser ::
  "admin_env \<Rightarrow> string \<Rightarrow> string \<Rightarrow> string \<Rightarrow> string \<Rightarrow> bool option \<Rightarrow> Service \<Rightarrow> Service \<times> admin_tool_body tool_result" where
  "handleCreateUser env username email password role enabled S =
     (case Service_CreateUser (av_crypt env) (av_salt env) (av_now env) (av_now env) S
             \<lparr>cu_Username = username, cu_Email = email, cu_Password = password, cu_Role = role,
              cu_Enabled = (case enabled of Some b \<Rightarrow> b | None \<Rightarrow> True)\<rparr> of
        (S', res) \<Rightarrow> (S', answer_with OfAuth (\<lambda>u. UserJ (user_resp u)) res))"

definition handleGetUser :: "Service \<Rightarrow> int \<Rightarrow> admin_tool_body tool_result" where
  "handleGetUser S i = answer_with OfStore (\<lambda>u. UserJ (user_resp u)) (Service_GetUserByID S i)"

definition handleUpdateUser ::
  "admin_env \<Rightarrow> int \<Rightarrow> string option \<Rightarrow> string option \<Rightarrow> string option \<Rightarrow> bool option \<Rightarrow> Service \<Rightarrow>
     Service \<times> admin_tool_body tool_result" where
  "handleUpdateUser env i email password role enabled S =
     (let updates = put_opt ''enabled'' (map_option AnyBool enabled)
                      (put_opt ''role'' (map_option AnyString role)
                        (put_opt ''password'' (map_option AnyString password)
                          (put_opt ''email'' (map_option AnyString email) gm_empty)))
      in case Service_UpdateUser (av_crypt env) (av_salt env) (av_updates env) (av_now env) (av_now env) S i updates of
           (S', res) \<Rightarrow> (S', answer_with OfAuth (\<lambda>u. UserJ (user_resp u)) res))"

definition handleDeleteUser :: "int \<Rightarrow> Service \<Rightarrow> Service \<times> admin_tool_body tool_result" where
  "handleDeleteUser i S =
     (case Service_DeleteUser S i of (S', err) \<Rightarrow> (S', answer_done OfStore (DoneJ ''deleted'') err))"

definition handleChangePassword ::
  "admin_env \<Rightarrow> int \<Rightarrow> string \<Rightarrow> string \<Rightarrow> Service \<Rightarrow> Service \<times> admin_tool_body tool_result" where
  "handleChangePassword env i oldPassword newPassword S =
     (case Service_ChangePassword (av_crypt env) (av_salt env) (av_now env) (av_now env) S i oldPassword newPassword of
        (S', err) \<Rightarrow> (S', answer_done OfAuth (DoneJ ''changed'') err))"

definition handleGetUserByUsername :: "Service \<Rightarrow> string \<Rightarrow> admin_tool_body tool_result" where
  "handleGetUserByUsername S username = answer_with OfStore (\<lambda>u. UserJ (user_resp u)) (Service_GetUserByUsername S username)"

section \<open>API keys\<close>

definition handleListAPIKeys :: "admin_env \<Rightarrow> Service \<Rightarrow> int \<Rightarrow> admin_tool_body tool_result" where
  "handleListAPIKeys env S userID =
     answer_with OfStore (\<lambda>keys. KeysJ (toAPIKeyResps env keys))
       (if userID > 0 then Service_ListAPIKeysByUserID S userID else Service_ListAPIKeys S)"

definition handleCreateAPIKey ::
  "admin_env \<Rightarrow> int \<Rightarrow> string \<Rightarrow> string \<Rightarrow> int \<Rightarrow> Service \<Rightarrow> Service \<times> admin_tool_body tool_result" where
  "handleCreateAPIKey env userID name role expiresIn S =
     (if expiresIn \<le> 0 then (S, Error bad_expiry)
      else (case Service_CreateAPIKey (av_crypt env) (av_random env) (av_keys env) (av_now env) (av_now env) S
                   \<lparr>ck_UserID = userID, ck_Name = name, ck_Role = role, ck_ExpiresAt = expiry_of (av_now env) expiresIn\<rparr> of
              (S', res) \<Rightarrow> (S', answer_with OfAuth (new_key_body env) res)))"

definition handleGetAPIKey :: "admin_env \<Rightarrow> Service \<Rightarrow> int \<Rightarrow> admin_tool_body tool_result" where
  "handleGetAPIKey env S i = answer_with OfStore (\<lambda>k. KeyJ (toAPIKeyResp env k)) (Service_GetAPIKeyByID S i)"

definition handleUpdateAPIKey ::
  "admin_env \<Rightarrow> int \<Rightarrow> string option \<Rightarrow> string option \<Rightarrow> bool option \<Rightarrow> Service \<Rightarrow> Service \<times> admin_tool_body tool_result" where
  "handleUpdateAPIKey env i name role enabled S =
     (let updates = put_opt ''enabled'' (map_option AnyBool enabled)
                      (put_opt ''role'' (map_option AnyString role)
                        (put_opt ''name'' (map_option AnyString name) gm_empty))
      in case Service_UpdateAPIKey (av_updates env) (av_keys env) (av_cache env) (av_now env) S i updates of
           (S', res) \<Rightarrow> (S', answer_with OfAuth (\<lambda>k. KeyJ (toAPIKeyResp env k)) res))"

definition handleDeleteAPIKey :: "admin_env \<Rightarrow> int \<Rightarrow> Service \<Rightarrow> Service \<times> admin_tool_body tool_result" where
  "handleDeleteAPIKey env i S =
     (case Service_DeleteAPIKey (av_cache env) S i of (S', err) \<Rightarrow> (S', answer_done OfStore (DoneJ ''deleted'') err))"

definition handleRevokeAPIKey :: "admin_env \<Rightarrow> int \<Rightarrow> Service \<Rightarrow> Service \<times> admin_tool_body tool_result" where
  "handleRevokeAPIKey env i S =
     (case Service_RevokeAPIKey (av_cache env) S i of (S', err) \<Rightarrow> (S', answer_done OfAuth (DoneJ ''revoked'') err))"

definition handleRotateAPIKey :: "admin_env \<Rightarrow> int \<Rightarrow> int \<Rightarrow> Service \<Rightarrow> Service \<times> admin_tool_body tool_result" where
  "handleRotateAPIKey env i expiresIn S =
     (if expiresIn \<le> 0 then (S, Error bad_expiry)
      else (case Service_RotateAPIKey (av_crypt env) (av_random env) (av_keys env) (av_cache env) (av_now env) (av_now env)
                   (av_now env) S i (expiry_of (av_now env) expiresIn) of
              (S', res) \<Rightarrow> (S', answer_with OfAuth (new_key_body env) res)))"

definition handleListRoles :: "admin_tool_body tool_result" where
  "handleListRoles = Json (RolesJ
     [(''super_admin'', ''Full access to everything including user management''),
      (''admin'', ''Can manage schemas, configuration, and view admin info''),
      (''developer'', ''Can register and read schemas''),
      (''readonly'', ''Can only read schemas and configuration'')])"

end
