(* ===== verification/Schema_Handlers.thy ===== *)
theory Schema_Handlers
  imports Registry_Schemas Audit_Log
begin

text \<open>
  The HTTP handlers of schemas, subjects, configuration and modes
  (\<open>internal/api/handlers/handlers.go\<close>, \<open>context_helpers.go\<close>) over the registry service.  A handler
  takes the request's parts - the registry context the middleware left, the URL parameters, the query,
  the decoded body, \<open>None\<close> when it cannot be decoded - and the store, and returns the store, the
  response and the audit hints it filled in (the middleware's record is always there in the model; with
  auditing off nobody reads it).  A text printed from an error is the error itself; the JSON encoding of
  what is hashed for the audit log is a parameter; metrics and the operational log are left out.
\<close>

section \<open>Requests and responses\<close>

record 'b request =
  rq_ctx :: "string option"
  rq_subject :: string
  rq_version :: string
  rq_id :: string
  rq_query :: query
  rq_body :: "'b option"

datatype message = Text string | ErrorOf registry_error

datatype 'b response = Respond nat 'b | ErrorAnswer nat int message | Panics

definition writeInternalError :: "'b response" where
  "writeInternalError = ErrorAnswer 500 ErrorCodeInternalServerError (Text ''Internal server error'')"

text \<open>References as stored, or with the content of each.\<close>

record ResolvedReference =
  rr_Name :: string
  rr_Subject :: string
  rr_Version :: int
  rr_Schema :: string

datatype refs_out = Stored "Reference list" | Resolved "ResolvedReference list"

record SchemaByIDResponse =
  bi_Schema :: string
  bi_SchemaType :: string
  bi_References :: refs_out
  bi_Metadata :: "Metadata option"
  bi_RuleSet :: "RuleSet option"
  bi_MaxId :: "int option"

record SubjectVersionResponse =
  vb_Subject :: string
  vb_ID :: int
  vb_Version :: int
  vb_SchemaType :: string
  vb_Schema :: string
  vb_References :: refs_out
  vb_Metadata :: "Metadata option"
  vb_RuleSet :: "RuleSet option"

record SchemaListItem =
  li_Subject :: string
  li_Version :: int
  li_ID :: int
  li_SchemaType :: string
  li_Schema :: string
  li_References :: "Reference list"

record ConfigRequest =
  cq_Compatibility :: string
  cq_Normalize :: "bool option"
  cq_ValidateFields :: "bool option"
  cq_Alias :: string
  cq_CompatibilityGroup :: string
  cq_DefaultMetadata :: "Metadata option"
  cq_OverrideMetadata :: "Metadata option"
  cq_DefaultRuleSet :: "RuleSet option"
  cq_OverrideRuleSet :: "RuleSet option"
  cq_AliasForDeks :: string
  cq_CompatibilityPolicy :: string

record ConfigResponse =
  cp_CompatibilityLevel :: string
  cp_Normalize :: "bool option"
  cp_ValidateFields :: "bool option"
  cp_Alias :: string
  cp_CompatibilityGroup :: string
  cp_DefaultMetadata :: "Metadata option"
  cp_OverrideMetadata :: "Metadata option"
  cp_DefaultRuleSet :: "RuleSet option"
  cp_OverrideRuleSet :: "RuleSet option"
  cp_AliasForDeks :: string
  cp_CompatibilityPolicy :: string

record RegisterSchemaRequest =
  rsq_Schema :: string
  rsq_SchemaType :: string
  rsq_References :: "Reference list"
  rsq_ID :: int
  rsq_Version :: int
  rsq_Metadata :: "Metadata option"
  rsq_RuleSet :: "RuleSet option"

record LookupSchemaRequest =
  lk_Schema :: string
  lk_SchemaType :: string
  lk_References :: "Reference list"

record ImportRequestItem =
  ii_ID :: int
  ii_Subject :: string
  ii_Version :: int
  ii_SchemaType :: string
  ii_Schema :: string
  ii_References :: "Reference list"

datatype schema_body =
    SchemaByIDBody SchemaByIDResponse | SubjectVersionBody SubjectVersionResponse
  | StringsBody "string list" | IntsBody "int list" | VersionBody int | RawBody string | IDBody int
  | ConfigBody ConfigResponse | ConfigRequestBody ConfigRequest | ModeBody string
  | CompatBody bool "string list" | PairsBody "SubjectVersion list" | SchemaListBody "SchemaListItem list"
  | ImportBody ImportResult "storage_error option" | MetadataBody Metadata
  | ClusterIDBody string | ServerVersionBody string string string

record 'p Handler =
  hd_registry :: "'p Registry"
  hd_auditLogger :: bool
  hd_clusterID :: string
  hd_version :: string
  hd_commit :: string
  hd_buildTime :: string
  hd_configText :: "ConfigRequest \<Rightarrow> string"
  hd_quote :: "string \<Rightarrow> string"

type_synonym handled_schema = "Store \<times> schema_body response \<times> AuditHints"

definition schemaTypeForResponse :: "SchemaType \<Rightarrow> string" where
  "schemaTypeForResponse st = (if st = [] then SchemaTypeAvro else st)"

section \<open>Errors of the service\<close>

datatype sentinel =
    ErrInvalidSchema | ErrUnsupportedSchemaType | ErrInvalidRuleSet | ErrFailedResolveReferences
  | ErrReferenceExists | ErrInvalidCompatibility | ErrInvalidMode | ErrIncompatibleSchema
  | ErrImportIDConflict | Storage storage_error

text \<open>\<open>errors.Is\<close> follows the chain of wrapped and joined errors.\<close>

fun errors_Is :: "registry_error \<Rightarrow> sentinel \<Rightarrow> bool" where
  "errors_Is (StorageError e) t \<longleftrightarrow> t = Storage e"
| "errors_Is (UnsupportedSchemaType _) t \<longleftrightarrow> t = ErrUnsupportedSchemaType"
| "errors_Is (FailedResolveReferences (RefError _ e)) t \<longleftrightarrow> t = Storage e \<or> t = ErrFailedResolveReferences"
| "errors_Is (FailedResolveUnmarked (RefError _ e)) t \<longleftrightarrow> t = Storage e"
| "errors_Is (InvalidSchema _) t \<longleftrightarrow> t = ErrInvalidSchema"
| "errors_Is (InvalidRuleSet _) t \<longleftrightarrow> t = ErrInvalidRuleSet"
| "errors_Is (FailedGetExisting e) t \<longleftrightarrow> t = Storage e"
| "errors_Is (FailedResolveExisting (RefError _ e)) t \<longleftrightarrow> t = Storage e"
| "errors_Is (IncompatibleSchema _) t \<longleftrightarrow> t = ErrIncompatibleSchema"
| "errors_Is (FailedToStore e) t \<longleftrightarrow> t = Storage e"
| "errors_Is (FailedAdvanceIDs e) t \<longleftrightarrow> t = Storage e"
| "errors_Is (ImportIDConflict _) t \<longleftrightarrow> t = ErrImportIDConflict"
| "errors_Is ReferenceExists t \<longleftrightarrow> t = ErrReferenceExists"
| "errors_Is (ReferenceExistsTo _ _) t \<longleftrightarrow> t = ErrReferenceExists"
| "errors_Is (InvalidVersion _) t \<longleftrightarrow> t = Storage ErrInvalidVersion"
| "errors_Is (SubjectNotFoundFor _) t \<longleftrightarrow> t = Storage ErrSubjectNotFound"
| "errors_Is (VersionNotFoundFor _ _) t \<longleftrightarrow> t = Storage ErrVersionNotFound"
| "errors_Is (InvalidCompatibility _) t \<longleftrightarrow> t = ErrInvalidCompatibility"
| "errors_Is (InvalidMode _) t \<longleftrightarrow> t = ErrInvalidMode"
| "errors_Is (FailedGlobalMode e) t \<longleftrightarrow> t = Storage e"
| "errors_Is (FailedCheckMode e) t \<longleftrightarrow> errors_Is e t"

text \<open>The first matching sentinel decides the answer.\<close>

fun answer_for :: "registry_error \<Rightarrow> (sentinel \<times> 'b response) list \<Rightarrow> 'b response" where
  "answer_for err [] = writeInternalError"
| "answer_for err ((t, a) # cases) = (if errors_Is err t then a else answer_for err cases)"

section \<open>Shared helpers\<close>

abbreviation request_ctx :: "'b request \<Rightarrow> string" where
  "request_ctx rq \<equiv> RegistryContextFromRequest (rq_ctx rq)"

abbreviation request_target :: "'b request \<Rightarrow> string \<times> string" where
  "request_target rq \<equiv> resolveSubjectAndContext (rq_ctx rq) (rq_subject rq)"

abbreviation flag :: "'b request \<Rightarrow> string \<Rightarrow> bool" where
  "flag rq k \<equiv> query_true (rq_query rq) k"

abbreviation param :: "'b request \<Rightarrow> string \<Rightarrow> string" where
  "param rq k \<equiv> query_get (rq_query rq) k"

definition global_rejected :: "'b response" where
  "global_rejected = ErrorAnswer 400 ErrorCodeOperationNotPermitted
     (Text (''Subject operations are not permitted on the '' @ GlobalContext @ '' context''))"

definition subject_not_found :: "'b response" where
  "subject_not_found = ErrorAnswer 404 ErrorCodeSubjectNotFound (Text ''Subject not found'')"

definition version_not_found :: "'b response" where
  "version_not_found = ErrorAnswer 404 ErrorCodeVersionNotFound (Text ''Version not found'')"

definition schema_not_found :: "'b response" where
  "schema_not_found = ErrorAnswer 404 ErrorCodeSchemaNotFound (Text ''Schema not found'')"

definition invalid_id :: "'b response" where
  "invalid_id = ErrorAnswer 400 ErrorCodeInvalidSchema (Text ''Invalid schema ID'')"

definition invalid_body :: "int \<Rightarrow> 'b response" where
  "invalid_body code = ErrorAnswer 400 code (Text ''Invalid request body'')"

definition invalid_version :: "string \<Rightarrow> 'b response" where
  "invalid_version versionStr = ErrorAnswer 422 ErrorCodeInvalidVersion
     (Text (''The specified version '' @ [CHR 0x27] @ versionStr @ [CHR 0x27] @
            '' is not a valid version id. Allowed values are between [1, 2^31-1] and the string '' @
            [CHR 0x22] @ ''latest'' @ [CHR 0x22]))"

definition quoted :: "string \<Rightarrow> string" where
  "quoted s = [CHR 0x27] @ s @ [CHR 0x27]"

definition invalid_type :: "string \<Rightarrow> 'b response" where
  "invalid_type raw = ErrorAnswer 422 ErrorCodeInvalidSchema
     (Text (''Invalid schema type '' @ quoted raw @ ''. Accepted types are AVRO, PROTOBUF, and JSON''))"

text \<open>The mode check in front of a write.\<close>

definition mode_guard :: "string \<Rightarrow> 'p Registry \<Rightarrow> Store \<Rightarrow> string \<Rightarrow> string \<Rightarrow> 'b response option" where
  "mode_guard what r s registryCtx subject =
     (case Registry_CheckModeForWrite r s registryCtx subject of
        Inl _ \<Rightarrow> Some writeInternalError
      | Inr mode \<Rightarrow>
          if mode \<noteq> [] then Some (ErrorAnswer 422 ErrorCodeOperationNotPermitted
                                   (Text (what @ '' is in '' @ mode @ '' mode'')))
          else None)"

abbreviation subject_guard :: "'p Registry \<Rightarrow> Store \<Rightarrow> string \<Rightarrow> string \<Rightarrow> 'b response option" where
  "subject_guard r s registryCtx subject \<equiv> mode_guard (''Subject '' @ quoted subject) r s registryCtx subject"

definition hashString :: "'p Handler \<Rightarrow> string \<Rightarrow> string" where
  "hashString h s = ''sha256:'' @ EncodeToString (rg_sha256 (hd_registry h) s)"

definition hashConfigRequest :: "'p Handler \<Rightarrow> ConfigRequest \<Rightarrow> string" where
  "hashConfigRequest h req = hashString h (hd_configText h (req\<lparr>cq_Compatibility := ToUpper (cq_Compatibility req)\<rparr>))"

text \<open>\<open>xs[start:end]\<close>, which panics when the bounds are out of order or out of range.\<close>

definition go_slice :: "'a list \<Rightarrow> int \<times> int \<Rightarrow> 'a list option" where
  "go_slice xs = (\<lambda>(start, end').
     if 0 \<le> start \<and> start \<le> end' \<and> end' \<le> int (length xs)
     then Some (take (nat (end' - start)) (drop (nat start) xs)) else None)"

definition parsePagination :: "query \<Rightarrow> int \<Rightarrow> int \<times> int" where
  "parsePagination q len =
     (let start0 = (case Atoi (query_get q ''offset'') of Some o' \<Rightarrow> if o' \<ge> 0 then o' else 0 | None \<Rightarrow> 0);
          end0 = (case Atoi (query_get q ''limit'') of Some l \<Rightarrow> if l \<ge> 0 then i64 (start0 + l) else len | None \<Rightarrow> len)
      in (if start0 > len then len else start0, if end0 > len then len else end0))"

definition paged :: "'b request \<Rightarrow> ('a list \<Rightarrow> schema_body) \<Rightarrow> 'a list \<Rightarrow> schema_body response" where
  "paged rq f xs =
     (case go_slice xs (parsePagination (rq_query rq) (int (length xs))) of
        Some ys \<Rightarrow> Respond 200 (f ys) | None \<Rightarrow> Panics)"

definition configToResponse :: "ConfigRecord \<Rightarrow> ConfigResponse" where
  "configToResponse config =
     \<lparr>cp_CompatibilityLevel = cf_CompatibilityLevel config, cp_Normalize = cf_Normalize config,
      cp_ValidateFields = cf_ValidateFields config, cp_Alias = cf_Alias config,
      cp_CompatibilityGroup = cf_CompatibilityGroup config, cp_DefaultMetadata = cf_DefaultMetadata config,
      cp_OverrideMetadata = cf_OverrideMetadata config, cp_DefaultRuleSet = cf_DefaultRuleSet config,
      cp_OverrideRuleSet = cf_OverrideRuleSet config, cp_AliasForDeks = cf_AliasForDeks config,
      cp_CompatibilityPolicy = cf_CompatibilityPolicy config\<rparr>"

definition config_level :: "string \<Rightarrow> ConfigResponse" where
  "config_level level = configToResponse (ConfigRecord_zero\<lparr>cf_CompatibilityLevel := level\<rparr>)"

definition withConfluentVersion :: "Metadata option \<Rightarrow> int \<Rightarrow> Metadata option" where
  "withConfluentVersion meta version =
     (if version \<le> 0 then meta
      else (case meta of
              None \<Rightarrow> Some \<lparr>md_Tags = None, md_Properties = Some (gm_put confluent_version (Itoa version) gm_empty),
                           md_Sensitive = None\<rparr>
            | Some m \<Rightarrow>
                Some (m\<lparr>md_Properties := Some (gm_put confluent_version (Itoa version)
                          (case md_Properties m of None \<Rightarrow> gm_empty | Some props \<Rightarrow> props))\<rparr>)))"

definition resolveReferenceSchemasForResponse :: "Store \<Rightarrow> string \<Rightarrow> Reference list \<Rightarrow> ResolvedReference list" where
  "resolveReferenceSchemasForResponse s registryCtx refs =
     map (\<lambda>ref. \<lparr>rr_Name = rf_Name ref, rr_Subject = rf_Subject ref, rr_Version = rf_Version ref,
                 rr_Schema = (case Store_GetSchemaBySubjectVersion s registryCtx (rf_Subject ref) (rf_Version ref) of
                                Inr rec \<Rightarrow> sr_Schema rec | Inl _ \<Rightarrow> [])\<rparr>) refs"

text \<open>
  \<open>strings.EqualFold(refFormat, "RESOLVED")\<close>: only the letters of the word, and the long s, fold to it.
\<close>

definition wants_resolved :: "'b request \<Rightarrow> SchemaRecord \<Rightarrow> bool" where
  "wants_resolved rq rec \<longleftrightarrow> ToUpper (param rq ''referenceFormat'') = ''RESOLVED'' \<and> sr_References rec \<noteq> []"

definition response_refs :: "'b request \<Rightarrow> Store \<Rightarrow> string \<Rightarrow> SchemaRecord \<Rightarrow> refs_out" where
  "response_refs rq s registryCtx rec =
     (if wants_resolved rq rec then Resolved (resolveReferenceSchemasForResponse s registryCtx (sr_References rec))
      else Stored (sr_References rec))"

definition formatted :: "'p Handler \<Rightarrow> 'b request \<Rightarrow> Store \<Rightarrow> string \<Rightarrow> SchemaRecord \<Rightarrow> string" where
  "formatted h rq s registryCtx rec =
     (if param rq ''format'' \<noteq> [] then Registry_FormatSchema (hd_registry h) s registryCtx rec (param rq ''format'')
      else sr_Schema rec)"

definition subject_version_response :: "string \<Rightarrow> refs_out \<Rightarrow> SchemaRecord \<Rightarrow> SubjectVersionResponse" where
  "subject_version_response schemaStr refs rec =
     \<lparr>vb_Subject = sr_Subject rec, vb_ID = sr_ID rec, vb_Version = sr_Version rec,
      vb_SchemaType = schemaTypeForResponse (sr_SchemaType rec), vb_Schema = schemaStr, vb_References = refs,
      vb_Metadata = withConfluentVersion (sr_Metadata rec) (sr_Version rec), vb_RuleSet = sr_RuleSet rec\<rparr>"

section \<open>Reading schemas by ID\<close>

text \<open>
  The record \<open>GetSchemaByID\<close> returns is the store's own, not a copy.  When the query names a subject the
  handler overwrites metadata and rules of that record with those of the subject's version: the store
  changes.
\<close>

definition overwrite_record :: "Store \<Rightarrow> string \<Rightarrow> int \<Rightarrow> SchemaRecord \<Rightarrow> Store" where
  "overwrite_record s registryCtx i rec =
     (case Store_getContext s registryCtx of
        None \<Rightarrow> s
      | Some cs \<Rightarrow> Store_putContext s registryCtx (cs\<lparr>cs_schemas := gm_put i rec (cs_schemas cs)\<rparr>))"

definition enrich_by_subject :: "Store \<Rightarrow> string \<Rightarrow> int \<Rightarrow> string \<Rightarrow> SchemaRecord \<Rightarrow> Store \<times> SchemaRecord" where
  "enrich_by_subject s registryCtx i subject rec =
     (if subject = [] then (s, rec)
      else (case List.find (\<lambda>sv. sv_Subject sv = subject)
                   (case Store_GetVersionsBySchemaID s registryCtx i True of Inr svs \<Rightarrow> svs | Inl _ \<Rightarrow> []) of
              None \<Rightarrow> (s, rec)
            | Some sv \<Rightarrow>
                (case Store_GetSchemaBySubjectVersion s registryCtx subject (sv_Version sv) of
                   Inl _ \<Rightarrow> (s, rec)
                 | Inr full \<Rightarrow>
                     (let rec' = rec\<lparr>sr_Metadata := sr_Metadata full, sr_RuleSet := sr_RuleSet full\<rparr>
                      in (overwrite_record s registryCtx i rec', rec')))))"

definition GetSchemaByID :: "'p Handler \<Rightarrow> Store \<Rightarrow> unit request \<Rightarrow> AuditHints \<Rightarrow> handled_schema" where
  "GetSchemaByID h s rq hints =
     (let registryCtx = request_ctx rq
      in if rejectGlobalContext registryCtx then (s, global_rejected, hints)
         else case Atoi (rq_id rq) of
                None \<Rightarrow> (s, invalid_id, hints)
              | Some i \<Rightarrow>
                  (case Store_GetSchemaByID s registryCtx i of
                     Inl err \<Rightarrow> (s, if err = ErrSchemaNotFound then schema_not_found else writeInternalError, hints)
                   | Inr rec0 \<Rightarrow>
                       (let (s', rec) = enrich_by_subject s registryCtx i (param rq ''subject'') rec0
                        in (s', Respond 200 (SchemaByIDBody
                             \<lparr>bi_Schema = formatted h rq s' registryCtx rec,
                              bi_SchemaType = schemaTypeForResponse (sr_SchemaType rec),
                              bi_References = response_refs rq s' registryCtx rec,
                              bi_Metadata = sr_Metadata rec, bi_RuleSet = sr_RuleSet rec,
                              bi_MaxId = (if flag rq ''fetchMaxId''
                                          then (case Store_GetMaxSchemaID s' registryCtx of
                                                  Inr maxID \<Rightarrow> Some maxID | Inl _ \<Rightarrow> None)
                                          else None)\<rparr>), hints))))"

definition with_schema_id ::
  "Store \<Rightarrow> 'b request \<Rightarrow> AuditHints \<Rightarrow> (string \<Rightarrow> int \<Rightarrow> schema_body response) \<Rightarrow> handled_schema" where
  "with_schema_id s rq hints body =
     (let registryCtx = request_ctx rq
      in if rejectGlobalContext registryCtx then (s, global_rejected, hints)
         else case Atoi (rq_id rq) of None \<Rightarrow> (s, invalid_id, hints) | Some i \<Rightarrow> (s, body registryCtx i, hints))"

abbreviation by_id_error :: "storage_error \<Rightarrow> 'b response" where
  "by_id_error err \<equiv> if err = ErrSchemaNotFound then schema_not_found else writeInternalError"

definition GetRawSchemaByID :: "'p Handler \<Rightarrow> Store \<Rightarrow> unit request \<Rightarrow> AuditHints \<Rightarrow> handled_schema" where
  "GetRawSchemaByID h s rq hints = with_schema_id s rq hints (\<lambda>registryCtx i.
     case Store_GetSchemaByID s registryCtx i of
       Inl err \<Rightarrow> by_id_error err
     | Inr rec \<Rightarrow> Respond 200 (RawBody (formatted h rq s registryCtx rec)))"

definition GetSubjectsBySchemaID :: "'p Handler \<Rightarrow> Store \<Rightarrow> unit request \<Rightarrow> AuditHints \<Rightarrow> handled_schema" where
  "GetSubjectsBySchemaID h s rq hints = with_schema_id s rq hints (\<lambda>registryCtx i.
     case Store_GetSubjectsBySchemaID s registryCtx i (flag rq ''deleted'') of
       Inl err \<Rightarrow> by_id_error err
     | Inr subjects \<Rightarrow>
         if param rq ''subject'' \<noteq> [] then Respond 200 (StringsBody (filter (\<lambda>x. x = param rq ''subject'') subjects))
         else paged rq StringsBody subjects)"

definition GetVersionsBySchemaID :: "'p Handler \<Rightarrow> Store \<Rightarrow> unit request \<Rightarrow> AuditHints \<Rightarrow> handled_schema" where
  "GetVersionsBySchemaID h s rq hints = with_schema_id s rq hints (\<lambda>registryCtx i.
     case Store_GetVersionsBySchemaID s registryCtx i (flag rq ''deleted'') of
       Inl err \<Rightarrow> by_id_error err
     | Inr versions \<Rightarrow>
         paged rq PairsBody
           (filter (\<lambda>sv. \<not> (param rq ''subject'' \<noteq> [] \<and> sv_Subject sv \<noteq> param rq ''subject'')) versions))"

section \<open>Listing\<close>

definition deleted_only :: "'a list \<Rightarrow> 'a list \<Rightarrow> 'a list" where
  "deleted_only all active = filter (\<lambda>x. x \<notin> set active) all"

definition page_subjects :: "'b request \<Rightarrow> string list \<Rightarrow> string list" where
  "page_subjects rq subjects =
     (let offset = max 0 (Atoi_ignored (param rq ''offset''));
          limit = (if param rq ''limit'' \<noteq> [] then Atoi_ignored (param rq ''limit'') else -1);
          rest = (if offset > 0 then (if offset \<ge> int (length subjects) then [] else drop (nat offset) subjects)
                  else subjects)
      in if limit > 0 \<and> limit < int (length rest) then take (nat limit) rest else rest)"

definition ListSubjects :: "'p Handler \<Rightarrow> Store \<Rightarrow> unit request \<Rightarrow> AuditHints \<Rightarrow> handled_schema" where
  "ListSubjects h s rq hints =
     (let registryCtx = request_ctx rq; deletedOnly = flag rq ''deletedOnly'';
          pre = param rq ''subjectPrefix''
      in if rejectGlobalContext registryCtx then (s, global_rejected, hints)
         else case Store_ListSubjects s registryCtx (flag rq ''deleted'' \<or> deletedOnly) of
                Inl _ \<Rightarrow> (s, writeInternalError, hints)
              | Inr subjects \<Rightarrow>
                  (case (if deletedOnly then map_sum id (deleted_only subjects) (Store_ListSubjects s registryCtx False)
                         else Inr subjects) of
                     Inl _ \<Rightarrow> (s, writeInternalError, hints)
                   | Inr found \<Rightarrow>
                       (s, Respond 200 (StringsBody (page_subjects rq
                          (if pre \<noteq> [] then filter (\<lambda>x. HasPrefix x pre) found else found))), hints)))"

text \<open>The steps every handler of a subject starts with: context and subject, the global context, the alias.\<close>

definition with_subject ::
  "'p Handler \<Rightarrow> Store \<Rightarrow> 'b request \<Rightarrow> AuditHints \<Rightarrow> (string \<Rightarrow> string \<Rightarrow> handled_schema) \<Rightarrow> handled_schema" where
  "with_subject h s rq hints body =
     (let (registryCtx, subject) = request_target rq
      in if rejectGlobalContext registryCtx then (s, global_rejected, hints)
         else body registryCtx (Registry_ResolveAlias (hd_registry h) s registryCtx subject))"

definition GetVersions :: "'p Handler \<Rightarrow> Store \<Rightarrow> unit request \<Rightarrow> AuditHints \<Rightarrow> handled_schema" where
  "GetVersions h s rq hints = with_subject h s rq hints (\<lambda>registryCtx subject.
     (s, let deletedOnly = flag rq ''deletedOnly''
         in case Registry_GetVersions (hd_registry h) s registryCtx subject (flag rq ''deleted'' \<or> deletedOnly) of
              Inl err \<Rightarrow> if err = ErrSubjectNotFound then subject_not_found else writeInternalError
            | Inr versions \<Rightarrow>
                if deletedOnly
                then (case Registry_GetVersions (hd_registry h) s registryCtx subject False of
                        Inl err \<Rightarrow> if err = ErrSubjectNotFound then Respond 200 (IntsBody (deleted_only versions []))
                                   else writeInternalError
                      | Inr active \<Rightarrow> Respond 200 (IntsBody (deleted_only versions active)))
                else paged rq IntsBody versions,
      hints))"

section \<open>Reading versions\<close>

definition later_record :: "SchemaRecord \<Rightarrow> SchemaRecord option \<Rightarrow> SchemaRecord option" where
  "later_record q latest =
     (case latest of None \<Rightarrow> Some q | Some l \<Rightarrow> if sr_Version q > sr_Version l then Some q else Some l)"

definition findDeletedVersion :: "'p Handler \<Rightarrow> Store \<Rightarrow> string \<Rightarrow> string \<Rightarrow> int \<Rightarrow> SchemaRecord result" where
  "findDeletedVersion h s registryCtx subject version =
     (case Store_GetSchemasBySubject s registryCtx subject True of
        Inl err \<Rightarrow> Inl err
      | Inr schemas \<Rightarrow>
          if schemas = [] then Inl ErrSubjectNotFound
          else (case (if version = -1 then fold later_record schemas None
                      else List.find (\<lambda>q. sr_Version q = version) schemas) of
                  Some q \<Rightarrow> Inr q | None \<Rightarrow> Inl ErrVersionNotFound))"

definition isSubjectFullyDeleted :: "'p Handler \<Rightarrow> Store \<Rightarrow> string \<Rightarrow> string \<Rightarrow> bool" where
  "isSubjectFullyDeleted h s registryCtx subject =
     (case Registry_GetVersions (hd_registry h) s registryCtx subject True of
        Inl _ \<Rightarrow> False
      | Inr allVersions \<Rightarrow>
          allVersions \<noteq> [] \<and>
          (case Registry_GetVersions (hd_registry h) s registryCtx subject False of
             Inl err \<Rightarrow> err = ErrSubjectNotFound | Inr activeVersions \<Rightarrow> activeVersions = []))"

definition isVersionSoftDeleted :: "'p Handler \<Rightarrow> Store \<Rightarrow> string \<Rightarrow> string \<Rightarrow> int \<Rightarrow> bool" where
  "isVersionSoftDeleted h s registryCtx subject version =
     (case findDeletedVersion h s registryCtx subject version of Inl _ \<Rightarrow> False | Inr q \<Rightarrow> sr_Deleted q)"

definition version_error ::
  "'p Handler \<Rightarrow> Store \<Rightarrow> string \<Rightarrow> string \<Rightarrow> int \<Rightarrow> bool \<Rightarrow> storage_error \<Rightarrow> schema_body response" where
  "version_error h s registryCtx subject version includeDeleted err =
     (if err = ErrSubjectNotFound then subject_not_found
      else if err = ErrVersionNotFound
      then (if isSubjectFullyDeleted h s registryCtx subject then subject_not_found
            else if \<not> includeDeleted \<and> isVersionSoftDeleted h s registryCtx subject version
            then ErrorAnswer 404 ErrorCodeSchemaVersionSoftDeleted (Text ''Schema version is soft deleted'')
            else version_not_found)
      else writeInternalError)"

definition GetVersion :: "'p Handler \<Rightarrow> Store \<Rightarrow> unit request \<Rightarrow> AuditHints \<Rightarrow> handled_schema" where
  "GetVersion h s rq hints = with_subject h s rq hints (\<lambda>registryCtx subject.
     (s, case ParseVersion (rq_version rq) of
           Inl _ \<Rightarrow> invalid_version (rq_version rq)
         | Inr version \<Rightarrow>
             (let includeDeleted = flag rq ''deleted'';
                  found = (case Store_GetSchemaBySubjectVersion s registryCtx subject version of
                             Inr q \<Rightarrow> Inr q
                           | Inl err \<Rightarrow>
                               if includeDeleted \<and> (err = ErrVersionNotFound \<or> err = ErrSubjectNotFound)
                               then findDeletedVersion h s registryCtx subject version else Inl err)
              in case found of
                   Inl err \<Rightarrow> version_error h s registryCtx subject version includeDeleted err
                 | Inr q \<Rightarrow>
                     Respond 200 (SubjectVersionBody (subject_version_response
                       (formatted h rq s registryCtx q) (response_refs rq s registryCtx q) q))),
      hints))"

definition GetRawSchemaByVersion :: "'p Handler \<Rightarrow> Store \<Rightarrow> unit request \<Rightarrow> AuditHints \<Rightarrow> handled_schema" where
  "GetRawSchemaByVersion h s rq hints = with_subject h s rq hints (\<lambda>registryCtx subject.
     (s, case ParseVersion (rq_version rq) of
           Inl _ \<Rightarrow> invalid_version (rq_version rq)
         | Inr version \<Rightarrow>
             (case Store_GetSchemaBySubjectVersion s registryCtx subject version of
                Inl err \<Rightarrow> version_error h s registryCtx subject version False err
              | Inr q \<Rightarrow> Respond 200 (RawBody (formatted h rq s registryCtx q))),
      hints))"

definition GetReferencedBy :: "'p Handler \<Rightarrow> Store \<Rightarrow> unit request \<Rightarrow> AuditHints \<Rightarrow> handled_schema" where
  "GetReferencedBy h s rq hints = with_subject h s rq hints (\<lambda>registryCtx subject.
     (s, case ParseVersion (rq_version rq) of
           Inl _ \<Rightarrow> invalid_version (rq_version rq)
         | Inr version \<Rightarrow>
             (case Store_GetSchemaBySubjectVersion s registryCtx subject version of
                Inl err \<Rightarrow>
                  if err = ErrSubjectNotFound then subject_not_found
                  else if err = ErrVersionNotFound \<or> err = ErrSchemaNotFound then version_not_found
                  else writeInternalError
              | Inr _ \<Rightarrow>
                  (case Store_GetReferencedBy s registryCtx subject version of
                     Inl _ \<Rightarrow> writeInternalError
                   | Inr refs \<Rightarrow>
                       Respond 200 (IntsBody (List.map_filter (\<lambda>ref.
                         case Store_GetSchemaBySubjectVersion s registryCtx (sv_Subject ref) (sv_Version ref) of
                           Inl _ \<Rightarrow> None | Inr q \<Rightarrow> Some (sr_ID q)) refs)))),
      hints))"

text \<open>\<open>ListSchemas\<close> passes the page on to storage; an unreadable number counts as absent.\<close>

definition ListSchemas :: "SchemaRecord order \<Rightarrow> 'p Handler \<Rightarrow> Store \<Rightarrow> unit request \<Rightarrow> AuditHints \<Rightarrow> handled_schema" where
  "ListSchemas it h s rq hints =
     (let registryCtx = request_ctx rq;
          number = (\<lambda>k. case Atoi (param rq k) of Some n \<Rightarrow> n | None \<Rightarrow> 0)
      in if rejectGlobalContext registryCtx then (s, global_rejected, hints)
         else case Store_ListSchemas it s registryCtx
                     \<lparr>lp_SubjectPrefix = param rq ''subjectPrefix'', lp_Deleted = flag rq ''deleted'',
                      lp_LatestOnly = flag rq ''latestOnly'', lp_Offset = number ''offset'', lp_Limit = number ''limit''\<rparr> of
                Inl _ \<Rightarrow> (s, writeInternalError, hints)
              | Inr schemas \<Rightarrow>
                  (s, Respond 200 (SchemaListBody (map (\<lambda>q.
                     \<lparr>li_Subject = sr_Subject q, li_Version = sr_Version q, li_ID = sr_ID q,
                      li_SchemaType = schemaTypeForResponse (sr_SchemaType q), li_Schema = sr_Schema q,
                      li_References = sr_References q\<rparr>) schemas)), hints))"

definition GetContexts :: "'p Handler \<Rightarrow> Store \<Rightarrow> unit request \<Rightarrow> AuditHints \<Rightarrow> handled_schema" where
  "GetContexts h s rq hints =
     (s, Respond 200 (StringsBody (case Registry_ListContexts (hd_registry h) s of
                                     Inl _ \<Rightarrow> [''.''] | Inr contexts \<Rightarrow> contexts)), hints)"

definition GetClusterID :: "'p Handler \<Rightarrow> schema_body response" where
  "GetClusterID h = Respond 200 (ClusterIDBody (hd_clusterID h))"

definition GetServerVersion :: "'p Handler \<Rightarrow> schema_body response" where
  "GetServerVersion h = Respond 200 (ServerVersionBody (hd_version h) (hd_commit h) (hd_buildTime h))"

text \<open>Repeated keys: the last value stays in the filter.\<close>

definition metadata_filter :: "'b request \<Rightarrow> (string, string) gomap" where
  "metadata_filter rq =
     fold (\<lambda>(k, v) m. gm_put k v m)
       (zip (query_values (rq_query rq) ''key'') (query_values (rq_query rq) ''value'')) gm_empty"

definition has_properties :: "(string, string) gomap \<Rightarrow> SchemaRecord \<Rightarrow> bool" where
  "has_properties filt q \<longleftrightarrow>
     (case sr_Metadata q of
        None \<Rightarrow> False
      | Some meta \<Rightarrow>
          (case md_Properties meta of
             None \<Rightarrow> False
           | Some props \<Rightarrow> list_all (\<lambda>(k, v). gm_get props k = Some v) (gm_entries filt)))"

definition GetSubjectMetadata :: "'p Handler \<Rightarrow> Store \<Rightarrow> unit request \<Rightarrow> AuditHints \<Rightarrow> handled_schema" where
  "GetSubjectMetadata h s rq hints = with_subject h s rq hints (\<lambda>registryCtx subject.
     (s, let keys = query_values (rq_query rq) ''key''; values = query_values (rq_query rq) ''value''
         in if keys \<noteq> [] \<and> length keys = length values
            then (case Store_GetSchemasBySubject s registryCtx subject (flag rq ''deleted'') of
                    Inl err \<Rightarrow> if err = ErrSubjectNotFound then subject_not_found else writeInternalError
                  | Inr schemas \<Rightarrow>
                      (case List.find (has_properties (metadata_filter rq)) (rev schemas) of
                         None \<Rightarrow> ErrorAnswer 404 ErrorCodeSchemaNotFound
                                   (Text ''No schema version found matching the specified metadata'')
                       | Some q \<Rightarrow>
                           Respond 200 (SubjectVersionBody
                             (subject_version_response (sr_Schema q) (Stored (sr_References q)) q))))
            else (case Store_GetLatestSchema s registryCtx subject of
                    Inl err \<Rightarrow> if err = ErrSubjectNotFound then subject_not_found else writeInternalError
                  | Inr q \<Rightarrow>
                      Respond 200 (MetadataBody (case sr_Metadata q of
                        Some meta \<Rightarrow> meta
                      | None \<Rightarrow> \<lparr>md_Tags = None, md_Properties = None, md_Sensitive = None\<rparr>))),
      hints))"


section \<open>Registration and look-up\<close>

definition subject_hints :: "string \<Rightarrow> string \<Rightarrow> string \<Rightarrow> AuditHints \<Rightarrow> AuditHints" where
  "subject_hints target schemaType registryCtx hints =
     hints\<lparr>hn_TargetType := ''subject'', hn_TargetID := target, hn_SchemaType := schemaType, hn_Context := registryCtx\<rparr>"

definition sha_hash :: "string \<Rightarrow> string \<Rightarrow> string" where
  "sha_hash old fingerprint = (if fingerprint \<noteq> [] then ''sha256:'' @ fingerprint else old)"

definition register_error :: "int \<Rightarrow> registry_error \<Rightarrow> schema_body response" where
  "register_error i err =
     (let invalid = ErrorAnswer 422 ErrorCodeInvalidSchema (ErrorOf err)
      in answer_for err
           [(ErrInvalidRuleSet, invalid), (ErrInvalidSchema, invalid), (ErrUnsupportedSchemaType, invalid),
            (ErrFailedResolveReferences, invalid),
            (ErrIncompatibleSchema, ErrorAnswer 409 ErrorCodeIncompatibleSchema (ErrorOf err)),
            (ErrImportIDConflict, ErrorAnswer 422 ErrorCodeOperationNotPermitted
               (Text (''Overwrite new schema with id '' @ Itoa i @ '' is not permitted.'')))])"

text \<open>The hint that an incompatible schema was refused; none of the sentinels tested before can match it.\<close>

definition incompatible_hint :: "registry_error \<Rightarrow> AuditHints \<Rightarrow> AuditHints" where
  "incompatible_hint err hints =
     (case err of IncompatibleSchema _ \<Rightarrow> hints\<lparr>hn_Reason := ''incompatible''\<rparr> | _ \<Rightarrow> hints)"

text \<open>
  The two branches of a registration: with an ID, only in \<open>IMPORT\<close> mode; without, in none of the modes
  that forbid it.  \<open>Inl\<close> is an answer given at once.
\<close>

definition register_branch ::
  "go_env \<Rightarrow> 'p Registry \<Rightarrow> Store \<Rightarrow> string \<Rightarrow> string \<Rightarrow> SchemaType \<Rightarrow> bool \<Rightarrow> RegisterSchemaRequest \<Rightarrow>
     schema_body response + Store \<times> SchemaRecord reg_result" where
  "register_branch e r s registryCtx subject schemaType nrm req =
     (if rsq_ID req > 0
      then (case Registry_GetMode r s registryCtx subject of
              Inl _ \<Rightarrow> Inl (ErrorAnswer 500 ErrorCodeStorageError (Text ''Failed to check mode''))
            | Inr mode \<Rightarrow>
                if mode \<noteq> ''IMPORT''
                then Inl (ErrorAnswer 422 ErrorCodeOperationNotPermitted
                       (Text (''Subject '' @ quoted subject @
                              '' is not in import mode. Registering schemas with explicit IDs requires IMPORT mode.'')))
                else Inr (Registry_RegisterSchemaWithID e r s registryCtx subject (rsq_Schema req) schemaType
                            (rsq_References req) (rsq_ID req) (rsq_Version req)))
      else (case Registry_GetMode r s registryCtx subject of
              Inl _ \<Rightarrow> Inl writeInternalError
            | Inr mode \<Rightarrow>
                if mode = ''READONLY'' \<or> mode = ''READONLY_OVERRIDE''
                then Inl (ErrorAnswer 422 ErrorCodeOperationNotPermitted
                       (Text (''Subject '' @ quoted subject @ '' is in read-only mode'')))
                else if mode = ''IMPORT''
                then Inl (ErrorAnswer 422 ErrorCodeOperationNotPermitted
                       (Text ''Subject is in import mode. Normal registration (without explicit ID) is not permitted in IMPORT mode.''))
                else Inr (Registry_RegisterSchema e r s registryCtx subject (rsq_Schema req) schemaType (rsq_References req)
                            \<lparr>ro_Normalize = nrm, ro_Metadata = rsq_Metadata req, ro_RuleSet = rsq_RuleSet req\<rparr>)))"

definition RegisterSchema ::
  "go_env \<Rightarrow> 'p Handler \<Rightarrow> Store \<Rightarrow> RegisterSchemaRequest request \<Rightarrow> AuditHints \<Rightarrow> handled_schema" where
  "RegisterSchema e h s rq hints0 = with_subject h s rq hints0 (\<lambda>registryCtx subject.
     case rq_body rq of
       None \<Rightarrow> (s, invalid_body ErrorCodeInvalidSchema, hints0)
     | Some req \<Rightarrow>
         if rsq_Schema req = [] then (s, ErrorAnswer 422 ErrorCodeInvalidSchema (Text ''Empty schema''), hints0)
         else case ParseSchemaType (rsq_SchemaType req) of
                (_, False) \<Rightarrow> (s, invalid_type (rsq_SchemaType req), hints0)
              | (schemaType, True) \<Rightarrow>
                  (let hints1 = subject_hints (rq_subject rq) schemaType registryCtx hints0
                   in case subject_guard (hd_registry h) s registryCtx subject of
                        Some blocked \<Rightarrow> (s, blocked, hints1)
                      | None \<Rightarrow>
                          (let prevFingerprint = (case Store_GetLatestSchema s registryCtx subject of
                                                    Inr prev \<Rightarrow> sr_Fingerprint prev | Inl _ \<Rightarrow> []);
                               hints2 = (if rsq_ID req > 0 then hints1\<lparr>hn_SchemaID := rsq_ID req\<rparr> else hints1)
                           in case register_branch e (hd_registry h) s registryCtx subject schemaType
                                     (flag rq ''normalize'') req of
                                Inl blocked \<Rightarrow> (s, blocked, hints2)
                              | Inr (s', Inl err) \<Rightarrow> (s', register_error (rsq_ID req) err, incompatible_hint err hints2)
                              | Inr (s', Inr rec) \<Rightarrow>
                                  (s', Respond 200 (IDBody (sr_ID rec)),
                                   (subject_hints (rq_subject rq) (sr_SchemaType rec) registryCtx hints2)
                                     \<lparr>hn_BeforeHash := sha_hash (hn_BeforeHash hints2) prevFingerprint,
                                      hn_AfterHash := sha_hash (hn_AfterHash hints2) (sr_Fingerprint rec),
                                      hn_SchemaID := sr_ID rec, hn_Version := sr_Version rec\<rparr>))))"

definition lookup_error :: "string \<Rightarrow> registry_error \<Rightarrow> schema_body response" where
  "lookup_error subject err =
     answer_for err
       [(Storage ErrSubjectNotFound, ErrorAnswer 404 ErrorCodeSubjectNotFound
           (Text (''Subject '' @ quoted subject @ '' not found.''))),
        (Storage ErrSchemaNotFound, schema_not_found), (Storage ErrVersionNotFound, schema_not_found),
        (ErrInvalidSchema, ErrorAnswer 422 ErrorCodeInvalidSchema (ErrorOf err))]"

definition LookupSchema ::
  "go_env \<Rightarrow> 'p Handler \<Rightarrow> Store \<Rightarrow> LookupSchemaRequest request \<Rightarrow> AuditHints \<Rightarrow> handled_schema" where
  "LookupSchema e h s rq hints0 = with_subject h s rq hints0 (\<lambda>registryCtx subject.
     case rq_body rq of
       None \<Rightarrow> (s, invalid_body ErrorCodeInvalidSchema, hints0)
     | Some req \<Rightarrow>
         if lk_Schema req = [] then (s, schema_not_found, hints0)
         else case ParseSchemaType (lk_SchemaType req) of
                (_, False) \<Rightarrow> (s, invalid_type (lk_SchemaType req), hints0)
              | (schemaType, True) \<Rightarrow>
                  (let hints1 = subject_hints (rq_subject rq) schemaType registryCtx hints0
                   in case Registry_LookupSchema e (hd_registry h) s registryCtx subject (lk_Schema req) schemaType
                             (lk_References req) (flag rq ''deleted'') (flag rq ''normalize'') of
                        Inl err \<Rightarrow> (s, lookup_error subject err, hints1)
                      | Inr q \<Rightarrow>
                          (s, Respond 200 (SubjectVersionBody
                             (subject_version_response (sr_Schema q) (Stored (sr_References q)) q)),
                           hints1\<lparr>hn_SchemaID := sr_ID q, hn_Version := sr_Version q\<rparr>)))"

definition compat_error :: "string \<Rightarrow> registry_error \<Rightarrow> schema_body response" where
  "compat_error versionStr err =
     answer_for err
       [(ErrInvalidSchema, ErrorAnswer 422 ErrorCodeInvalidSchema (ErrorOf err)),
        (Storage ErrSubjectNotFound,
           if versionStr \<noteq> [] \<and> versionStr \<noteq> ''latest''
           then ErrorAnswer 404 ErrorCodeVersionNotFound (Text (''Version '' @ versionStr @ '' not found''))
           else subject_not_found),
        (Storage ErrVersionNotFound, ErrorAnswer 404 ErrorCodeVersionNotFound (ErrorOf err)),
        (Storage ErrInvalidVersion, ErrorAnswer 422 ErrorCodeInvalidVersion (ErrorOf err))]"

definition CheckCompatibility ::
  "'p Handler \<Rightarrow> Store \<Rightarrow> LookupSchemaRequest request \<Rightarrow> AuditHints \<Rightarrow> handled_schema" where
  "CheckCompatibility h s rq hints = with_subject h s rq hints (\<lambda>registryCtx subject.
     case rq_body rq of
       None \<Rightarrow> (s, invalid_body ErrorCodeInvalidSchema, hints)
     | Some req \<Rightarrow>
         if lk_Schema req = [] then (s, ErrorAnswer 422 ErrorCodeInvalidSchema (Text ''Empty schema''), hints)
         else case ParseSchemaType (lk_SchemaType req) of
                (_, False) \<Rightarrow> (s, ErrorAnswer 422 ErrorCodeInvalidSchema
                                  (Text (''Invalid schema type: '' @ lk_SchemaType req)), hints)
              | (schemaType, True) \<Rightarrow>
                  (case Registry_CheckCompatibility (hd_registry h) s registryCtx subject (lk_Schema req) schemaType
                          (lk_References req) (rq_version rq) (flag rq ''normalize'') of
                     Inl err \<Rightarrow> (s, compat_error (rq_version rq) err, hints)
                   | Inr res \<Rightarrow>
                       (s, Respond 200 (CompatBody (re_IsCompatible res)
                             (if flag rq ''verbose'' then re_Messages res else [])),
                        hints\<lparr>hn_TargetType := ''subject'', hn_TargetID := rq_subject rq, hn_Context := registryCtx\<rparr>)))"

section \<open>Deletion\<close>

definition before_subject :: "Store \<Rightarrow> string \<Rightarrow> string \<Rightarrow> bool \<Rightarrow> string \<times> string" where
  "before_subject s registryCtx subject permanent =
     (case Store_GetLatestSchema s registryCtx subject of
        Inr latest \<Rightarrow> (schemaTypeForResponse (sr_SchemaType latest), sr_Fingerprint latest)
      | Inl _ \<Rightarrow>
          if permanent
          then (case Store_GetSchemasBySubject s registryCtx subject True of
                  Inr schemas \<Rightarrow>
                    if schemas \<noteq> [] then (schemaTypeForResponse (sr_SchemaType (last schemas)), sr_Fingerprint (last schemas))
                    else ([], [])
                | Inl _ \<Rightarrow> ([], []))
          else ([], []))"

definition delete_subject_error :: "string \<Rightarrow> registry_error \<Rightarrow> schema_body response" where
  "delete_subject_error subject err =
     answer_for err
       [(Storage ErrSubjectNotFound, subject_not_found),
        (Storage ErrSubjectDeleted, ErrorAnswer 404 ErrorCodeSubjectSoftDeleted
           (Text (''Subject '' @ quoted subject @ '' was soft deleted. Set permanent=true to delete permanently''))),
        (Storage ErrSubjectNotSoftDeleted, ErrorAnswer 404 ErrorCodeSubjectNotSoftDeleted
           (Text (''Subject '' @ quoted subject @ '' was not deleted first before being permanently deleted''))),
        (ErrReferenceExists, ErrorAnswer 422 ErrorCodeReferenceExists (ErrorOf err))]"

definition DeleteSubject :: "'p Handler \<Rightarrow> Store \<Rightarrow> unit request \<Rightarrow> AuditHints \<Rightarrow> handled_schema" where
  "DeleteSubject h s rq hints = with_subject h s rq hints (\<lambda>registryCtx subject.
     let permanent = flag rq ''permanent''; (schemaType, fingerprint) = before_subject s registryCtx subject permanent
     in case subject_guard (hd_registry h) s registryCtx subject of
          Some blocked \<Rightarrow> (s, blocked, hints)
        | None \<Rightarrow>
            (case Registry_DeleteSubject (hd_registry h) s registryCtx subject permanent of
               (s', Inl err) \<Rightarrow> (s', delete_subject_error subject err, hints)
             | (s', Inr versions) \<Rightarrow>
                 (s', Respond 200 (IntsBody versions),
                  (subject_hints (rq_subject rq) schemaType registryCtx hints)
                    \<lparr>hn_BeforeHash := sha_hash (hn_BeforeHash hints) fingerprint\<rparr>)))"

definition before_version :: "Store \<Rightarrow> string \<Rightarrow> string \<Rightarrow> int \<Rightarrow> bool \<Rightarrow> SchemaRecord option" where
  "before_version s registryCtx subject version permanent =
     (case Store_GetSchemaBySubjectVersion s registryCtx subject version of
        Inr q \<Rightarrow> Some q
      | Inl _ \<Rightarrow>
          if permanent
          then (case Store_GetSchemasBySubject s registryCtx subject True of
                  Inr schemas \<Rightarrow> List.find (\<lambda>q. sr_Version q = version \<or>
                                             (version = -1 \<and> sr_Version q = sr_Version (last schemas))) schemas
                | Inl _ \<Rightarrow> None)
          else None)"

definition delete_version_error :: "string \<Rightarrow> string \<Rightarrow> registry_error \<Rightarrow> schema_body response" where
  "delete_version_error subject versionStr err =
     answer_for err
       [(Storage ErrSubjectNotFound, subject_not_found), (Storage ErrVersionNotFound, version_not_found),
        (Storage ErrVersionNotSoftDeleted, ErrorAnswer 404 ErrorCodeVersionNotSoftDeleted
           (Text (''Subject '' @ quoted subject @ '' Version '' @ versionStr @
                  '' was not deleted first before being permanently deleted''))),
        (ErrReferenceExists, ErrorAnswer 422 ErrorCodeReferenceExists (ErrorOf err))]"

definition DeleteVersion :: "'p Handler \<Rightarrow> Store \<Rightarrow> unit request \<Rightarrow> AuditHints \<Rightarrow> handled_schema" where
  "DeleteVersion h s rq hints = with_subject h s rq hints (\<lambda>registryCtx subject.
     let permanent = flag rq ''permanent''
     in case subject_guard (hd_registry h) s registryCtx subject of
          Some blocked \<Rightarrow> (s, blocked, hints)
        | None \<Rightarrow>
            (case ParseVersion (rq_version rq) of
               Inl _ \<Rightarrow> (s, invalid_version (rq_version rq), hints)
             | Inr version \<Rightarrow>
                 (case Registry_DeleteVersion (hd_registry h) s registryCtx subject version permanent of
                    (s', Inl err) \<Rightarrow> (s', delete_version_error subject (rq_version rq) err, hints)
                  | (s', Inr deletedVersion) \<Rightarrow>
                      (s', Respond 200 (VersionBody deletedVersion),
                       (let hints1 = hints\<lparr>hn_TargetType := ''subject'', hn_TargetID := rq_subject rq,
                                           hn_Context := registryCtx, hn_Version := deletedVersion\<rparr>
                        in case before_version s registryCtx subject version permanent of
                             None \<Rightarrow> hints1
                           | Some q \<Rightarrow>
                               hints1\<lparr>hn_BeforeHash := sha_hash (hn_BeforeHash hints) (sr_Fingerprint q),
                                      hn_SchemaType := schemaTypeForResponse (sr_SchemaType q),
                                      hn_SchemaID := (if sr_ID q \<noteq> 0 then sr_ID q else hn_SchemaID hints)\<rparr>)))))"

section \<open>Configuration\<close>

definition target_hints :: "string \<Rightarrow> string \<Rightarrow> string \<Rightarrow> AuditHints \<Rightarrow> AuditHints" where
  "target_hints targetType target registryCtx hints =
     hints\<lparr>hn_TargetType := targetType, hn_TargetID := target, hn_Context := registryCtx\<rparr>"

definition before_text :: "'p Handler \<Rightarrow> string \<Rightarrow> AuditHints \<Rightarrow> AuditHints" where
  "before_text h prev hints = (if prev \<noteq> [] then hints\<lparr>hn_BeforeHash := hashString h prev\<rparr> else hints)"

definition getPreviousSubjectConfig :: "'p Handler \<Rightarrow> Store \<Rightarrow> string \<Rightarrow> string \<Rightarrow> string" where
  "getPreviousSubjectConfig h s registryCtx subject =
     (case (if subject = [] then Registry_GetGlobalConfig (hd_registry h) s registryCtx
            else Registry_GetSubjectConfig (hd_registry h) s registryCtx subject) of
        Inr config \<Rightarrow> config | Inl _ \<Rightarrow> [])"

definition GetConfig :: "'p Handler \<Rightarrow> Store \<Rightarrow> unit request \<Rightarrow> AuditHints \<Rightarrow> handled_schema" where
  "GetConfig h s rq hints =
     (let (registryCtx, subject) = request_target rq; defaultToGlobal = flag rq ''defaultToGlobal'';
          r = hd_registry h;
          respond = (\<lambda>res. case res of Inr config \<Rightarrow> Respond 200 (ConfigBody (configToResponse config))
                                     | Inl _ \<Rightarrow> writeInternalError)
      in (s, if subject \<noteq> [] \<and> \<not> defaultToGlobal
             then (case Registry_GetSubjectConfigFull r s registryCtx subject of
                     Inl ErrNotFound \<Rightarrow> ErrorAnswer 404 ErrorCodeSubjectCompatNotFound
                       (Text (''Subject '' @ quoted subject @ '' does not have subject-level compatibility configured''))
                   | res \<Rightarrow> respond res)
             else if subject = [] \<and> \<not> defaultToGlobal then respond (Registry_GetGlobalConfigDirect r s registryCtx)
             else respond (Registry_GetConfigFull r s registryCtx subject),
          hints))"

definition config_opts :: "ConfigRequest \<Rightarrow> SetConfigOpts" where
  "config_opts req =
     \<lparr>so_Alias = cq_Alias req, so_CompatibilityGroup = cq_CompatibilityGroup req,
      so_ValidateFields = cq_ValidateFields req, so_DefaultMetadata = cq_DefaultMetadata req,
      so_OverrideMetadata = cq_OverrideMetadata req, so_DefaultRuleSet = cq_DefaultRuleSet req,
      so_OverrideRuleSet = cq_OverrideRuleSet req, so_AliasForDeks = cq_AliasForDeks req,
      so_CompatibilityPolicy = cq_CompatibilityPolicy req\<rparr>"

definition ConfigRequest_zero :: ConfigRequest where
  "ConfigRequest_zero =
     \<lparr>cq_Compatibility = [], cq_Normalize = None, cq_ValidateFields = None, cq_Alias = [], cq_CompatibilityGroup = [],
      cq_DefaultMetadata = None, cq_OverrideMetadata = None, cq_DefaultRuleSet = None, cq_OverrideRuleSet = None,
      cq_AliasForDeks = [], cq_CompatibilityPolicy = []\<rparr>"

definition SetConfig :: "'p Handler \<Rightarrow> Store \<Rightarrow> ConfigRequest request \<Rightarrow> AuditHints \<Rightarrow> handled_schema" where
  "SetConfig h s rq hints =
     (let (registryCtx, subject) = request_target rq; r = hd_registry h
      in case subject_guard r s registryCtx subject of
           Some blocked \<Rightarrow> (s, blocked, hints)
         | None \<Rightarrow>
             (case rq_body rq of
                None \<Rightarrow> (s, invalid_body ErrorCodeInvalidCompatibilityLevel, hints)
              | Some req \<Rightarrow>
                  if cq_Compatibility req = []
                  then (case Registry_GetConfig r s registryCtx subject of
                          Inl _ \<Rightarrow> (s, writeInternalError, hints)
                        | Inr level \<Rightarrow>
                            (s, Respond 200 (ConfigRequestBody (ConfigRequest_zero\<lparr>cq_Compatibility := level\<rparr>)), hints))
                  else (case Registry_SetConfig r s registryCtx subject (cq_Compatibility req) (cq_Normalize req)
                               (Some (config_opts req)) of
                          (s', Some err) \<Rightarrow>
                            (s', answer_for err
                               [(ErrInvalidCompatibility,
                                   ErrorAnswer 422 ErrorCodeInvalidCompatibilityLevel (ErrorOf err)),
                                (ErrInvalidRuleSet, ErrorAnswer 422 ErrorCodeInvalidSchema (ErrorOf err))], hints)
                        | (s', None) \<Rightarrow>
                            (s', Respond 200 (ConfigRequestBody
                               (req\<lparr>cq_Compatibility := ToUpper (cq_Compatibility req)\<rparr>)),
                             (target_hints ''config'' (rq_subject rq) registryCtx
                                (before_text h (getPreviousSubjectConfig h s registryCtx subject) hints))
                               \<lparr>hn_AfterHash := hashConfigRequest h req\<rparr>))))"

definition DeleteConfig :: "'p Handler \<Rightarrow> Store \<Rightarrow> unit request \<Rightarrow> AuditHints \<Rightarrow> handled_schema" where
  "DeleteConfig h s rq hints =
     (let (registryCtx, subject) = request_target rq; r = hd_registry h
      in case subject_guard r s registryCtx subject of
           Some blocked \<Rightarrow> (s, blocked, hints)
         | None \<Rightarrow>
             (case Registry_DeleteConfig r s registryCtx subject of
                (s', Inl err) \<Rightarrow>
                  (s', if err = ErrNotFound
                       then ErrorAnswer 404 ErrorCodeSubjectNotFound (Text ''Config not found for subject'')
                       else writeInternalError, hints)
              | (s', Inr level) \<Rightarrow>
                  (s', Respond 200 (ConfigBody (config_level level)),
                   before_text h level (target_hints ''config'' (rq_subject rq) registryCtx hints))))"

definition DeleteGlobalConfig :: "'p Handler \<Rightarrow> Store \<Rightarrow> unit request \<Rightarrow> AuditHints \<Rightarrow> handled_schema" where
  "DeleteGlobalConfig h s rq hints =
     (let registryCtx = request_ctx rq; r = hd_registry h
      in case mode_guard ''Global config'' r s registryCtx [] of
           Some blocked \<Rightarrow> (s, blocked, hints)
         | None \<Rightarrow>
             (case Registry_DeleteGlobalConfig r s registryCtx of
                (s', Inl _) \<Rightarrow> (s', writeInternalError, hints)
              | (s', Inr level) \<Rightarrow>
                  (s', Respond 200 (ConfigBody (config_level level)),
                   before_text h level (target_hints ''config'' [] registryCtx hints))))"

section \<open>Modes\<close>

definition getPreviousSubjectMode :: "'p Handler \<Rightarrow> Store \<Rightarrow> string \<Rightarrow> string \<Rightarrow> string" where
  "getPreviousSubjectMode h s registryCtx subject =
     (if subject = []
      then (case Registry_GetGlobalModeDirect (hd_registry h) s registryCtx of Inr mode \<Rightarrow> mode | Inl _ \<Rightarrow> [])
      else (case Registry_GetSubjectMode (hd_registry h) s registryCtx subject of Inr mode \<Rightarrow> mode | Inl _ \<Rightarrow> []))"

definition GetModeHandler :: "'p Handler \<Rightarrow> Store \<Rightarrow> unit request \<Rightarrow> AuditHints \<Rightarrow> handled_schema" where
  "GetModeHandler h s rq hints =
     (let (registryCtx, subject) = request_target rq; defaultToGlobal = flag rq ''defaultToGlobal''; r = hd_registry h;
          respond = (\<lambda>res. case res of Inr mode \<Rightarrow> Respond 200 (ModeBody mode) | Inl _ \<Rightarrow> writeInternalError)
      in (s, if subject \<noteq> [] \<and> \<not> defaultToGlobal
             then (case Registry_GetSubjectMode r s registryCtx subject of
                     Inl err \<Rightarrow>
                       if err = ErrNotFound
                       then ErrorAnswer 404 ErrorCodeSubjectModeNotFound
                         (Text (''Subject '' @ quoted subject @ '' does not have subject-level mode configured''))
                       else writeInternalError
                   | Inr mode \<Rightarrow> Respond 200 (ModeBody mode))
             else if subject = [] \<and> \<not> defaultToGlobal then respond (Registry_GetGlobalModeDirect r s registryCtx)
             else respond (Registry_GetMode r s registryCtx subject),
          hints))"

definition SetModeHandler :: "'p Handler \<Rightarrow> Store \<Rightarrow> string request \<Rightarrow> AuditHints \<Rightarrow> handled_schema" where
  "SetModeHandler h s rq hints =
     (let (registryCtx, subject) = request_target rq; r = hd_registry h;
          prevMode = getPreviousSubjectMode h s registryCtx subject;
          changed = (\<lambda>newMode. (target_hints ''mode'' (rq_subject rq) registryCtx (before_text h prevMode hints))
                                  \<lparr>hn_AfterHash := hashString h newMode\<rparr>)
      in case rq_body rq of
           None \<Rightarrow> (s, invalid_body ErrorCodeInvalidMode, hints)
         | Some mode \<Rightarrow>
             if mode = []
             then (case (if subject \<noteq> [] then Registry_DeleteMode r s registryCtx subject
                         else Registry_DeleteGlobalMode r s registryCtx) of
                     (s', Inl err) \<Rightarrow>
                       if err \<noteq> ErrNotFound then (s', writeInternalError, hints)
                       else (s', Respond 200 (ModeBody []), changed ''READWRITE'')
                   | (s', Inr _) \<Rightarrow> (s', Respond 200 (ModeBody []), changed ''READWRITE''))
             else (case Registry_SetMode r s registryCtx subject mode (flag rq ''force'') of
                     (s', Some err) \<Rightarrow>
                       (s', answer_for err
                          [(ErrInvalidMode, ErrorAnswer 422 ErrorCodeInvalidMode (ErrorOf err)),
                           (Storage ErrOperationNotPermitted,
                              ErrorAnswer 422 ErrorCodeOperationNotPermitted (ErrorOf err))], hints)
                   | (s', None) \<Rightarrow> (s', Respond 200 (ModeBody (ToUpper mode)), changed (ToUpper mode))))"

definition DeleteModeHandler :: "'p Handler \<Rightarrow> Store \<Rightarrow> unit request \<Rightarrow> AuditHints \<Rightarrow> handled_schema" where
  "DeleteModeHandler h s rq hints =
     (let (registryCtx, subject) = request_target rq
      in case Registry_DeleteMode (hd_registry h) s registryCtx subject of
           (s', Inl err) \<Rightarrow>
             (s', if err = ErrNotFound then ErrorAnswer 404 ErrorCodeSubjectNotFound (Text ''Mode not found for subject'')
                  else writeInternalError, hints)
         | (s', Inr mode) \<Rightarrow>
             (s', Respond 200 (ModeBody mode),
              before_text h mode (target_hints ''mode'' (rq_subject rq) registryCtx hints)))"

definition DeleteGlobalModeHandler :: "'p Handler \<Rightarrow> Store \<Rightarrow> unit request \<Rightarrow> AuditHints \<Rightarrow> handled_schema" where
  "DeleteGlobalModeHandler h s rq hints =
     (let registryCtx = request_ctx rq
      in case Registry_DeleteGlobalMode (hd_registry h) s registryCtx of
           (s', Inl _) \<Rightarrow> (s', writeInternalError, hints)
         | (s', Inr mode) \<Rightarrow>
             (s', Respond 200 (ModeBody mode), before_text h mode (target_hints ''mode'' [] registryCtx hints)))"


section \<open>Import\<close>

fun storage_error_text :: "storage_error \<Rightarrow> string" where
  "storage_error_text ErrNotFound = ''not found''"
| "storage_error_text ErrSubjectNotFound = ''subject not found''"
| "storage_error_text ErrSchemaNotFound = ''schema not found''"
| "storage_error_text ErrVersionNotFound = ''version not found''"
| "storage_error_text ErrInvalidVersion = ''invalid version''"
| "storage_error_text ErrSubjectDeleted = ''subject has been deleted''"
| "storage_error_text ErrSubjectNotSoftDeleted = ''subject must be soft-deleted before being permanently deleted''"
| "storage_error_text ErrVersionNotSoftDeleted = ''version must be soft-deleted before being permanently deleted''"
| "storage_error_text ErrSchemaExists = ''schema already exists''"
| "storage_error_text ErrUserNotFound = ''user not found''"
| "storage_error_text ErrUserExists = ''user already exists''"
| "storage_error_text ErrAPIKeyNotFound = ''API key not found''"
| "storage_error_text ErrAPIKeyExists = ''API key already exists''"
| "storage_error_text ErrAPIKeyNameExists = ''API key name already exists for this user''"
| "storage_error_text ErrInvalidAPIKey = ''invalid API key''"
| "storage_error_text ErrAPIKeyExpired = ''API key has expired''"
| "storage_error_text ErrAPIKeyDisabled = ''API key is disabled''"
| "storage_error_text ErrUserDisabled = ''user is disabled''"
| "storage_error_text ErrInvalidRole = ''invalid role''"
| "storage_error_text ErrPermissionDenied = ''permission denied''"
| "storage_error_text ErrSchemaIDConflict = ''schema ID already exists''"
| "storage_error_text ErrOperationNotPermitted = ''Cannot import since found existing subjects''"
| "storage_error_text ErrExporterNotFound = ''exporter not found''"
| "storage_error_text ErrExporterExists = ''exporter already exists''"
| "storage_error_text ErrKEKNotFound = ''key encryption key not found''"
| "storage_error_text ErrKEKExists = ''key encryption key already exists''"
| "storage_error_text ErrKEKSoftDeleted = ''key encryption key is soft-deleted''"
| "storage_error_text ErrDEKNotFound = ''data encryption key not found''"
| "storage_error_text ErrDEKExists = ''data encryption key already exists''"
| "storage_error_text ErrDEKSoftDeleted = ''data encryption key is soft-deleted''"

text \<open>The texts of the results of an import; quoting a reference's name is a parameter.\<close>

fun import_error_text :: "(string \<Rightarrow> string) \<Rightarrow> import_error \<Rightarrow> string" where
  "import_error_text quote NoError = []"
| "import_error_text quote IDNotPositive = ''schema ID must be positive''"
| "import_error_text quote SubjectRequired = ''subject is required''"
| "import_error_text quote VersionNotPositive = ''version must be positive''"
| "import_error_text quote SchemaRequired = ''schema is required''"
| "import_error_text quote (ImportRejected err) =
     (case err of
        UnsupportedSchemaType t \<Rightarrow> ''unsupported schema type: '' @ t
      | FailedResolveReferences (RefError ref e) \<Rightarrow>
          ''failed to resolve references: failed to resolve reference '' @ quote (rf_Name ref) @
          '' (subject='' @ rf_Subject ref @ '', version='' @ Itoa (rf_Version ref) @ ''): '' @ storage_error_text e
      | InvalidSchema msg \<Rightarrow> ''invalid schema: '' @ msg
      | _ \<Rightarrow> [])"
| "import_error_text quote IDAlreadyExists = ''schema ID already exists''"
| "import_error_text quote SubjectVersionExists = ''subject/version already exists''"
| "import_error_text quote (OtherImportError e) = storage_error_text e"

definition classifyImportError :: "string \<Rightarrow> string" where
  "classifyImportError errMsg =
     (let has = Contains (ToLower errMsg)
      in if has ''schema id'' \<or> has ''id already'' then ''schema_id_conflict''
         else if has ''version'' \<and> has ''exists'' then ''subject_version_conflict''
         else if has ''parse'' \<or> has ''invalid schema'' then ''invalid_schema''
         else if has ''mode'' then ''mode_not_permitted''
         else ''invalid_request'')"

definition importResultToResponse :: "ImportResult \<Rightarrow> ImportResult" where
  "importResultToResponse result =
     \<lparr>im_Imported = im_Imported result, im_Errors = im_Errors result,
      im_Results = map (\<lambda>r. \<lparr>ir_ID = ir_ID r, ir_Subject = ir_Subject r, ir_Version = ir_Version r,
                             ir_Success = ir_Success r, ir_Error = ir_Error r\<rparr>) (im_Results result)\<rparr>"

definition importStatusCode :: "ImportResult \<Rightarrow> nat" where
  "importStatusCode result = (if im_Imported result = 0 \<and> im_Errors result > 0 then 422 else 200)"

definition import_request :: "ImportRequestItem \<Rightarrow> ImportSchemaRequest" where
  "import_request item =
     \<lparr>iq_ID = ii_ID item, iq_Subject = ii_Subject item, iq_Version = ii_Version item,
      iq_SchemaType = default_type (ToUpper (ii_SchemaType item)), iq_Schema = ii_Schema item,
      iq_References = ii_References item\<rparr>"

definition import_hints :: "ImportRequestItem list \<Rightarrow> AuditHints \<Rightarrow> AuditHints" where
  "import_hints items hints =
     (let subjects = remdups (filter (\<lambda>x. x \<noteq> []) (map ii_Subject items));
          types = remdups (map (\<lambda>item. iq_SchemaType (import_request item)) items)
      in hints\<lparr>hn_TargetID := (case subjects of [x] \<Rightarrow> x | _ \<Rightarrow> hn_TargetID hints),
               hn_SchemaID := (case items of item # _ \<Rightarrow> ii_ID item | [] \<Rightarrow> hn_SchemaID hints),
               hn_SchemaType := (case types of [t] \<Rightarrow> t | _ \<Rightarrow> hn_SchemaType hints)\<rparr>)"

text \<open>
  One audit event per schema of the batch.  The loop over the results reads the request of the same
  index; \<open>None\<close> is the panic when there is none.
\<close>

definition import_event ::
  "'p Handler \<Rightarrow> audit_request \<Rightarrow> go_time \<Rightarrow> int \<Rightarrow> AuditHints \<Rightarrow> string \<Rightarrow> ImportSchemaRequest list \<Rightarrow> nat \<Rightarrow>
     ImportSchemaResult \<Rightarrow> AuditEvent option" where
  "import_event h ar start dur hints registryCtx reqs i res =
     (if i < length reqs
      then (let req = reqs ! i; errMsg = import_error_text (hd_quote h) (ir_Error res)
            in Some (AuditEvent_zero\<lparr>ev_Timestamp := start, ev_Duration := dur, ev_EventType := AuditEventSchemaImport,
                 ev_Outcome := (if ir_Success res then ''success'' else ''failure''),
                 ev_ActorID := hn_ActorID hints,
                 ev_ActorType := (if hn_ActorType hints = [] then ''anonymous'' else hn_ActorType hints),
                 ev_Role := hn_Role hints, ev_AuthMethod := hn_AuthMethod hints,
                 ev_TargetType := ''subject'', ev_TargetID := iq_Subject req, ev_SchemaID := iq_ID req,
                 ev_Version := iq_Version req, ev_SchemaType := iq_SchemaType req,
                 ev_AfterHash := (if ir_Success res then hashString h (iq_Schema req) else []),
                 ev_Context := registryCtx, ev_TransportSecurity := TransportSecurityFromRequest ar,
                 ev_SourceIP := GetClientIP (http_request.truncate ar), ev_UserAgent := ar_UserAgent ar,
                 ev_Method := hr_Method ar, ev_Path := hr_Path ar,
                 ev_StatusCode := (if ir_Success res then 200 else 422),
                 ev_Reason := (if ir_Success res then [] else classifyImportError errMsg),
                 ev_Error := (if ir_Success res then [] else errMsg), ev_RequestID := ar_RequestID ar,
                 ev_Metadata := Some (gm_put ''batch_index'' (Itoa (int i))
                                  (gm_put ''batch_size'' (Itoa (int (length reqs))) gm_empty))\<rparr>))
      else None)"

definition emitPerSchemaAuditEvents ::
  "'p Handler \<Rightarrow> audit_request \<Rightarrow> go_time \<Rightarrow> int \<Rightarrow> AuditHints \<Rightarrow> string \<Rightarrow> ImportSchemaRequest list \<Rightarrow>
     ImportResult \<Rightarrow> AuditHints \<times> AuditEvent list option" where
  "emitPerSchemaAuditEvents h ar start dur hints registryCtx reqs result =
     (if \<not> hd_auditLogger h then (hints, Some [])
      else (hints\<lparr>hn_SuppressEvent := True\<rparr>,
            those (map (\<lambda>(i, res). import_event h ar start dur hints registryCtx reqs i res)
                     (zip [0..<length (im_Results result)] (im_Results result)))))"

definition ImportSchemas ::
  "go_env \<Rightarrow> 'p Handler \<Rightarrow> Store \<Rightarrow> ImportRequestItem list request \<Rightarrow> audit_request \<Rightarrow> go_time \<Rightarrow> int \<Rightarrow> AuditHints \<Rightarrow>
     handled_schema \<times> AuditEvent list" where
  "ImportSchemas e h s rq ar start dur hints0 =
     (let registryCtx = request_ctx rq
      in if rejectGlobalContext registryCtx then ((s, global_rejected, hints0), [])
         else
           (let hints1 = hints0\<lparr>hn_TargetType := ''subject'', hn_Context := registryCtx\<rparr>
            in case Registry_GetMode (hd_registry h) s registryCtx [] of
                 Inl _ \<Rightarrow> ((s, ErrorAnswer 500 ErrorCodeStorageError (Text ''Failed to check mode''), hints1), [])
               | Inr mode \<Rightarrow>
                   if mode \<noteq> ''IMPORT''
                   then ((s, ErrorAnswer 422 ErrorCodeOperationNotPermitted
                       (Text ''Import is not permitted. The registry must be in IMPORT mode to import schemas.''), hints1), [])
                   else case rq_body rq of
                          None \<Rightarrow> ((s, invalid_body ErrorCodeInvalidSchema, hints1), [])
                        | Some items \<Rightarrow>
                            if items = []
                            then ((s, ErrorAnswer 400 ErrorCodeInvalidSchema (Text ''No schemas provided''), hints1), [])
                            else
                              (let hints2 = import_hints items hints1; reqs = map import_request items;
                                   (s', result, err) = Registry_ImportSchemas e (hd_registry h) s registryCtx reqs;
                                   (hints3, events) = emitPerSchemaAuditEvents h ar start dur hints2 registryCtx reqs result
                               in case events of
                                    None \<Rightarrow> ((s', Panics, hints3), [])
                                  | Some evs \<Rightarrow>
                                      ((s', Respond (importStatusCode result)
                                          (ImportBody (importResultToResponse result) err), hints3), evs))))"

end
