(* ===== verification/Schema_Analysis.thy ===== *)
theory Schema_Analysis
  imports Storage_Types Api_Types Go_Unicode Json_Value Go_Map
begin

text \<open>
  The package \<open>internal/analysis\<close>: extraction of the fields of a schema (\<open>fields.go\<close>), edit distance,
  similarity and naming variants (\<open>fuzzy.go\<close>) and the quality score (\<open>quality.go\<close>).  What the code
  takes from outside - the Avro parser, the JSON decoder, the tables of Unicode, compiled regular
  expressions given by a caller, and the order in which it ranges over maps - is the environment
  \<open>analysis_env\<close>; the one regular expression the package itself contains is written out.  Lengths and
  counters stay far below the word size: they are bounded by the number of bytes of a schema.
\<close>

section \<open>Fields\<close>

record FieldInfo =
  fi_Name :: string
  fi_Path :: string
  fi_Type :: string
  fi_Required :: bool
  fi_HasDefault :: bool
  fi_Doc :: string

text \<open>
  What the walk observes of a parsed Avro schema: the concrete schema type and the accessors of it.  A
  reference to a named type is not followed, so a recursive schema is a finite tree.
\<close>

datatype avro_tree =
    PrimitiveSchema string
  | NullSchema
  | RecordSchema "avro_tree_field list"
  | ArraySchema avro_tree
  | MapSchema avro_tree
  | EnumSchema
  | FixedSchema
  | UnionSchema "avro_tree list"
  | RefSchema
  | OtherSchema
and avro_tree_field =
    TreeField (tf_Name: string) (tf_HasDefault: bool) (tf_Doc: string) (tf_Type: avro_tree)

fun avroSchemaTypeName :: "avro_tree \<Rightarrow> string" where
  "avroSchemaTypeName (PrimitiveSchema t) = t"
| "avroSchemaTypeName (RecordSchema _) = ''record''"
| "avroSchemaTypeName (ArraySchema _) = ''array''"
| "avroSchemaTypeName (MapSchema _) = ''map''"
| "avroSchemaTypeName EnumSchema = ''enum''"
| "avroSchemaTypeName FixedSchema = ''fixed''"
| "avroSchemaTypeName (UnionSchema ts) = ''union['' @ Join (map avroSchemaTypeName ts) '','' @ '']''"
| "avroSchemaTypeName RefSchema = ''ref''"
| "avroSchemaTypeName NullSchema = ''null''"
| "avroSchemaTypeName OtherSchema = ''unknown''"

fun isAvroNullable :: "avro_tree \<Rightarrow> bool" where
  "isAvroNullable (UnionSchema ts) \<longleftrightarrow> list_ex (\<lambda>t. t = NullSchema) ts"
| "isAvroNullable _ \<longleftrightarrow> False"

definition join_path :: "string \<Rightarrow> string \<Rightarrow> string" where
  "join_path pre name = (if pre \<noteq> [] then pre @ ''.'' @ name else name)"

text \<open>The walk over a record, with the walk over the type of a field as an argument.\<close>

definition walk_record ::
  "(string \<Rightarrow> avro_tree \<Rightarrow> FieldInfo list) \<Rightarrow> string \<Rightarrow> avro_tree_field list \<Rightarrow> FieldInfo list" where
  "walk_record walk pre fs =
     concat (map (\<lambda>f. let path = join_path pre (tf_Name f)
                      in \<lparr>fi_Name = tf_Name f, fi_Path = path, fi_Type = avroSchemaTypeName (tf_Type f),
                          fi_Required = (\<not> isAvroNullable (tf_Type f)), fi_HasDefault = tf_HasDefault f,
                          fi_Doc = tf_Doc f\<rparr> # walk path (tf_Type f)) fs)"

lemma walk_record_cong [fundef_cong]:
  assumes "pre = pre'" "fs = fs'" "\<And>f path. f \<in> set fs' \<Longrightarrow> walk path (tf_Type f) = walk' path (tf_Type f)"
  shows "walk_record walk pre fs = walk_record walk' pre' fs'"
  unfolding walk_record_def assms(1,2) Let_def using assms(3) by (auto intro!: arg_cong [where f = concat])

lemma size_tree_field: "f \<in> set fs \<Longrightarrow> size (tf_Type f) < size (RecordSchema fs)"
proof -
  assume "f \<in> set fs"
  then have "size f \<le> size_list size fs" by (rule size_list_estimation') simp
  moreover have "size (tf_Type f) < size f" by (cases f) simp
  ultimately show ?thesis by simp
qed

function (sequential) walkAvroFieldType :: "string \<Rightarrow> avro_tree \<Rightarrow> FieldInfo list" where
  "walkAvroFieldType pre (RecordSchema fs) = walk_record walkAvroFieldType pre fs"
| "walkAvroFieldType pre (ArraySchema items) = walkAvroFieldType (pre @ ''[]'') items"
| "walkAvroFieldType pre (MapSchema values) = walkAvroFieldType (pre @ ''{}'') values"
| "walkAvroFieldType pre (UnionSchema ts) =
     concat (map (\<lambda>t. if t = NullSchema then [] else walkAvroFieldType pre t) ts)"
| "walkAvroFieldType pre _ = []"
  by pat_completeness auto
termination
proof (relation "measure (\<lambda>(pre, t). size t)")
  show "((path, tf_Type f), pre, RecordSchema fs) \<in> measure (\<lambda>(pre, t). size t)"
    if "f \<in> set fs" for f path pre fs
    using size_tree_field [OF that] by simp
  show "((pre, t), pre, UnionSchema ts) \<in> measure (\<lambda>(pre, t). size t)" if "t \<in> set ts" for t ts pre
    using size_list_estimation' [OF that, of "size t" size] by simp
qed simp_all

fun walkAvroSchema :: "string \<Rightarrow> avro_tree \<Rightarrow> FieldInfo list" where
  "walkAvroSchema pre (RecordSchema fs) = walk_record walkAvroFieldType pre fs"
| "walkAvroSchema pre _ = []"

text \<open>
  JSON Schema.  Each property of an object contributes one block of fields; the range statement visits
  the properties, and so arranges the blocks, in an order of its own.
\<close>

definition string_elements :: "json \<Rightarrow> string list" where
  "string_elements v = (case as_slice v of None \<Rightarrow> [] | Some xs \<Rightarrow> List.map_filter as_string xs)"

definition json_type_name :: "jmap \<Rightarrow> string" where
  "json_type_name p = (case as_string (jget p ''type'') of Some t \<Rightarrow> t | None \<Rightarrow> ''object'')"

definition json_field :: "string \<Rightarrow> string \<Rightarrow> bool \<Rightarrow> jmap \<Rightarrow> FieldInfo" where
  "json_field name path required p =
     \<lparr>fi_Name = name, fi_Path = path, fi_Type = json_type_name p, fi_Required = required,
      fi_HasDefault = jhas p ''default'',
      fi_Doc = (case as_string (jget p ''description'') of Some d \<Rightarrow> d | None \<Rightarrow> [])\<rparr>"

function walkJSONSchemaProperties ::
  "FieldInfo list order \<Rightarrow> jmap \<Rightarrow> string \<Rightarrow> string list \<Rightarrow> FieldInfo list" where
  "walkJSONSchemaProperties it obj pre parentRequired =
     (case jget obj ''properties'' of
        JObj props \<Rightarrow>
          concat (it (map (\<lambda>(name, propRaw).
            case propRaw of
              JObj p \<Rightarrow>
                (let path = join_path pre name
                 in json_field name path (name \<in> set parentRequired) p #
                    (if json_type_name p = ''object''
                     then walkJSONSchemaProperties it p path (string_elements (jget p ''required'')) else []) @
                    (if json_type_name p = ''array''
                     then (case jget p ''items'' of
                             JObj items \<Rightarrow>
                               if jget items ''type'' = JStr ''object''
                               then walkJSONSchemaProperties it items (path @ ''[]'')
                                      (string_elements (jget items ''required'')) else []
                           | _ \<Rightarrow> []) else []))
            | _ \<Rightarrow> []) props))
      | _ \<Rightarrow> [])"
  by pat_completeness auto
termination
proof (relation "measure (\<lambda>(it, obj, pre, req). size (JObj obj))", goal_cases)
  case (2 it obj pre req props entry name propRaw p path)
  then show ?case
    using size_get [of obj "''properties''" "JObj props"] size_entry [of name "JObj p" props] by simp
next
  case (3 it obj pre req props entry name propRaw p path items)
  then show ?case
    using size_get [of obj "''properties''" "JObj props"] size_entry [of name "JObj p" props]
      size_get [of p "''items''" "JObj items"] by simp
qed simp

declare walkJSONSchemaProperties.simps [simp del]

text \<open>
  The regular expression for a field of a Protobuf message: at the start of a line an optional
  modifier, a type, a name, an equals sign, a number and a semicolon.  White space and word characters
  are disjoint, so the one choice to make is whether the first word is the modifier, which is tried first.
\<close>

definition re_space :: "char \<Rightarrow> bool" where
  "re_space c \<longleftrightarrow> c \<in> {CHR 0x09, CHR 0x0A, CHR 0x0C, CHR 0x0D, CHR 0x20}"

definition re_digit :: "char \<Rightarrow> bool" where
  "re_digit c \<longleftrightarrow> 48 \<le> byte_of c \<and> byte_of c \<le> 57"

definition re_word :: "char \<Rightarrow> bool" where
  "re_word c \<longleftrightarrow> re_digit c \<or> ascii_upper (byte_of c) \<or> ascii_lower (byte_of c) \<or> c = CHR ''_''"

definition spaces :: "string \<Rightarrow> string" where
  "spaces s = dropWhile re_space s"

text \<open>\<open>(\w+)\<close>, and \<open>\s+\<close>: what was read and the rest, if anything was read.\<close>

definition re_words :: "string \<Rightarrow> (string \<times> string) option" where
  "re_words s = (let w = takeWhile re_word s in if w = [] then None else Some (w, drop (length w) s))"

definition re_spaces1 :: "string \<Rightarrow> string option" where
  "re_spaces1 s = (case s of c # cs \<Rightarrow> if re_space c then Some (spaces cs) else None | [] \<Rightarrow> None)"

definition re_char :: "char \<Rightarrow> string \<Rightarrow> string option" where
  "re_char x s = (case s of c # cs \<Rightarrow> if c = x then Some cs else None | [] \<Rightarrow> None)"

definition re_digits :: "string \<Rightarrow> string option" where
  "re_digits s = (let d = takeWhile re_digit s in if d = [] then None else Some (drop (length d) s))"

text \<open>\<open>(\w+)\s+(\w+)\s*=\s*\d+\s*;\<close>\<close>

definition re_typed_field :: "string \<Rightarrow> ((string \<times> string) \<times> string) option" where
  "re_typed_field s =
     (case re_words s of None \<Rightarrow> None | Some (t, s1) \<Rightarrow>
      (case re_spaces1 s1 of None \<Rightarrow> None | Some s2 \<Rightarrow>
       (case re_words s2 of None \<Rightarrow> None | Some (n, s3) \<Rightarrow>
        (case re_char CHR ''='' (spaces s3) of None \<Rightarrow> None | Some s4 \<Rightarrow>
         (case re_digits (spaces s4) of None \<Rightarrow> None | Some s5 \<Rightarrow>
          map_option (Pair (t, n)) (re_char CHR '';'' (spaces s5)))))))"

definition re_modified_field :: "string \<Rightarrow> ((string \<times> string \<times> string) \<times> string) option" where
  "re_modified_field s =
     (case re_words s of
        None \<Rightarrow> None
      | Some (m, s1) \<Rightarrow>
          if m \<in> {''optional'', ''required'', ''repeated''}
          then (case re_spaces1 s1 of
                  None \<Rightarrow> None
                | Some s2 \<Rightarrow> map_option (apfst (Pair m)) (re_typed_field s2))
          else None)"

definition re_field_at :: "string \<Rightarrow> ((string \<times> string \<times> string) \<times> string) option" where
  "re_field_at s0 =
     (let s = spaces s0
      in case re_modified_field s of
           Some r \<Rightarrow> Some r
         | None \<Rightarrow> map_option (apfst (Pair [])) (re_typed_field s))"

lemma re_char_shorter: "re_char x s = Some s' \<Longrightarrow> length s' < length s"
  by (auto simp: re_char_def split: list.splits if_splits)

lemma spaces_length: "length (spaces s) \<le> length s"
  by (simp add: spaces_def length_dropWhile_le)

lemma re_spaces1_length: "re_spaces1 s = Some s' \<Longrightarrow> length s' \<le> length s"
  using spaces_length by (auto simp: re_spaces1_def split: list.splits if_splits intro: le_SucI)

lemma re_typed_field_shorter: "re_typed_field s = Some (r, s') \<Longrightarrow> length s' < length s"
proof -
  assume "re_typed_field s = Some (r, s')"
  then obtain t s1 s2 n s3 s4 s5 where
    "re_words s = Some (t, s1)" "re_spaces1 s1 = Some s2" "re_words s2 = Some (n, s3)"
    "re_char CHR ''='' (spaces s3) = Some s4" "re_digits (spaces s4) = Some s5" "re_char CHR '';'' (spaces s5) = Some s'"
    by (auto simp: re_typed_field_def split: option.splits)
  moreover from this have "length s1 \<le> length s" "length s3 \<le> length s2" "length s5 \<le> length (spaces s4)"
    by (auto simp: re_words_def re_digits_def Let_def split: if_splits)
  ultimately show ?thesis
    using re_char_shorter [of "CHR ''=''" "spaces s3" s4] re_char_shorter [of "CHR '';''" "spaces s5" s']
      spaces_length [of s3] spaces_length [of s4] spaces_length [of s5] re_spaces1_length [of s1 s2] by simp
qed

lemma re_field_at_shorter: "re_field_at s = Some (r, s') \<Longrightarrow> length s' < length s"
proof -
  assume "re_field_at s = Some (r, s')"
  then obtain q where q: "re_modified_field (spaces s) = Some (r, s') \<or> re_typed_field (spaces s) = Some (q, s')"
    by (auto simp: re_field_at_def Let_def split: option.splits)
  have "length s' < length (spaces s)"
  proof (cases "re_typed_field (spaces s) = Some (q, s')")
    case True
    then show ?thesis by (rule re_typed_field_shorter)
  next
    case False
    with q obtain m s1 s2 q' where "re_words (spaces s) = Some (m, s1)" "re_spaces1 s1 = Some s2"
      "re_typed_field s2 = Some (q', s')"
      by (auto simp: re_modified_field_def split: option.splits if_splits)
    moreover from this have "length s1 \<le> length (spaces s)"
      by (auto simp: re_words_def Let_def split: if_splits)
    ultimately show ?thesis using re_typed_field_shorter [of s2 q' s'] re_spaces1_length [of s1 s2] by simp
  qed
  then show ?thesis using spaces_length [of s] by linarith
qed

text \<open>\<open>FindAllStringSubmatch\<close>: leftmost matches that do not overlap; the flag says a line starts here.\<close>

function find_fields :: "bool \<Rightarrow> string \<Rightarrow> (string \<times> string \<times> string) list" where
  "find_fields start [] = []"
| "find_fields start (c # cs) =
     (case (if start then re_field_at (c # cs) else None) of
        Some (m, rest) \<Rightarrow> m # find_fields False rest
      | None \<Rightarrow> find_fields (c = CHR 0x0A) cs)"
  by pat_completeness auto
termination
proof (relation "measure (\<lambda>(start, s). length s)")
  show "((False, rest), start, c # cs) \<in> measure (\<lambda>(start, s). length s)"
    if "(if start then re_field_at (c # cs) else None) = Some p" "(m, rest) = p" for start c cs p m rest
    using that re_field_at_shorter [of "c # cs" m rest] by (auto split: if_splits)
qed simp_all

definition extractProtobufFields :: "string \<Rightarrow> FieldInfo list" where
  "extractProtobufFields schemaStr =
     map (\<lambda>(modifier, typeName, name).
       \<lparr>fi_Name = name, fi_Path = name, fi_Type = typeName, fi_Required = (modifier = ''required''),
        fi_HasDefault = False, fi_Doc = []\<rparr>) (find_fields True schemaStr)"

record analysis_env =
  an_unicode :: unicode
  an_avro :: "string \<Rightarrow> avro_tree option"
  an_json :: "string \<Rightarrow> jmap option"
  an_regexp :: "string \<Rightarrow> string + (string \<Rightarrow> bool)"
  an_blocks :: "FieldInfo list order"
  an_names :: "string order"
  an_types :: "(string \<times> string) order"
  an_counts :: "(string \<times> int) order"

definition extractAvroFields :: "analysis_env \<Rightarrow> string \<Rightarrow> FieldInfo list" where
  "extractAvroFields e schemaStr =
     (case an_avro e schemaStr of None \<Rightarrow> [] | Some schema \<Rightarrow> walkAvroSchema [] schema)"

definition extractJSONSchemaFields :: "analysis_env \<Rightarrow> string \<Rightarrow> FieldInfo list" where
  "extractJSONSchemaFields e schemaStr =
     (case an_json e schemaStr of
        None \<Rightarrow> []
      | Some schema \<Rightarrow>
          walkJSONSchemaProperties (an_blocks e) schema [] (string_elements (jget schema ''required'')))"

definition ExtractFields :: "analysis_env \<Rightarrow> string \<Rightarrow> SchemaType \<Rightarrow> FieldInfo list" where
  "ExtractFields e schemaStr schemaType =
     (if schemaType = SchemaTypeAvro then extractAvroFields e schemaStr
      else if schemaType = SchemaTypeJSON then extractJSONSchemaFields e schemaStr
      else if schemaType = SchemaTypeProtobuf then extractProtobufFields schemaStr
      else [])"

text \<open>\<open>NormalizeFieldName\<close>, and \<open>toSnakeCase\<close> with the same body: the byte before a capital decides.\<close>

definition snake_runes :: "unicode \<Rightarrow> string \<Rightarrow> nat \<times> int \<Rightarrow> int list" where
  "snake_runes u name = (\<lambda>(i, r).
     if r = 45 \<or> r = 46 \<or> r = 32 then [95]
     else (if un_IsUpper u r \<and> i > 0 \<and>
              (let before = byte_of (name ! (i - 1)) in un_IsLower u before \<or> un_IsDigit u before)
           then [95] else []) @ [un_ToLower u r])"

definition NormalizeFieldName :: "unicode \<Rightarrow> string \<Rightarrow> string" where
  "NormalizeFieldName u name = string_of_runes (concat (map (snake_runes u name) (runes_at name)))"

definition toSnakeCase :: "unicode \<Rightarrow> string \<Rightarrow> string" where
  "toSnakeCase u name = string_of_runes (concat (map (snake_runes u name) (runes_at name)))"

section \<open>Similarity\<close>

text \<open>
  The edit distance over two rows of a table.  The rows are slices of the length of the second string
  plus one; each round overwrites one from left to right, reading the other, and swaps them.
\<close>

definition lev_cell :: "string \<Rightarrow> string \<Rightarrow> int list \<Rightarrow> nat \<Rightarrow> int list \<Rightarrow> nat \<Rightarrow> int list" where
  "lev_cell a b prev i cur j =
     (let cost = (if a ! (i - 1) = b ! (j - 1) then 0 else 1)
      in cur[j := min (cur ! (j - 1) + 1) (min (prev ! j + 1) (prev ! (j - 1) + cost))])"

definition lev_row :: "string \<Rightarrow> string \<Rightarrow> int list \<Rightarrow> int list \<Rightarrow> nat \<Rightarrow> int list" where
  "lev_row a b prev cur i = foldl (lev_cell a b prev i) (cur[0 := int i]) [1..<length b + 1]"

definition LevenshteinDistance :: "string \<Rightarrow> string \<Rightarrow> int" where
  "LevenshteinDistance a b =
     (if a = [] then int (length b) else if b = [] then int (length a)
      else let prev0 = map int [0..<length b + 1]; cur0 = replicate (length b + 1) 0;
               (prev, cur) = foldl (\<lambda>(prev, cur) i. (lev_row a b prev cur i, prev)) (prev0, cur0) [1..<length a + 1]
           in prev ! length b)"

definition FuzzyScore :: "unicode \<Rightarrow> string \<Rightarrow> string \<Rightarrow> go_float" where
  "FuzzyScore u query target =
     (let q = lower_text u query; t = lower_text u target
      in if q = t then Fin 1
         else let maxLen = max (length q) (length t)
              in if maxLen = 0 then Fin 1
                 else f_sub (Fin 1) (f_div (f_of_int (LevenshteinDistance q t)) (f_of_int (int maxLen))))"

text \<open>
  \<open>strings.ToUpper(parts[i][:1]) + parts[i][1:]\<close>: the first byte alone is upper-cased, which turns the
  first byte of a longer character into the replacement character.
\<close>

definition capitalize :: "unicode \<Rightarrow> string \<Rightarrow> string" where
  "capitalize u part = (case part of [] \<Rightarrow> [] | c # cs \<Rightarrow> upper_text u [c] @ cs)"

definition NamingVariants :: "unicode \<Rightarrow> string \<Rightarrow> string list" where
  "NamingVariants u name =
     (let parts = SplitByte (toSnakeCase u name) CHR ''_''
      in if parts = [] then [name]
         else rev (remdups (rev
                [Join parts ''_'',
                 concat (lower_text u (hd parts) # map (capitalize u) (tl parts)),
                 concat (map (capitalize u) parts),
                 Join parts ''-''])))"

record FuzzyMatch =
  fm_Value :: string
  fm_Score :: go_float

definition f_ge :: "go_float \<Rightarrow> go_float \<Rightarrow> bool" where
  "f_ge x y \<longleftrightarrow> f_less y x \<or> f_eq x y"

definition MatchFuzzy :: "unicode \<Rightarrow> string \<Rightarrow> string list \<Rightarrow> go_float \<Rightarrow> FuzzyMatch list" where
  "MatchFuzzy u query candidates threshold =
     concat (map (\<lambda>c. let score = FuzzyScore u query c
                      in if f_ge score threshold then [\<lparr>fm_Value = c, fm_Score = score\<rparr>] else []) candidates)"

section \<open>Quality\<close>

record CategoryScore =
  cg_Score :: int
  cg_MaxScore :: int
  cg_Details :: "string list"

record QualityResult =
  qr_OverallScore :: int
  qr_MaxScore :: int
  qr_Grade :: string
  qr_Categories :: "(string, CategoryScore) gomap"
  qr_QuickWins :: "string list"

definition isGoodFieldName :: "unicode \<Rightarrow> string \<Rightarrow> bool" where
  "isGoodFieldName u name \<longleftrightarrow> name \<noteq> [] \<and> (\<forall>r\<in>set (runes name). \<not> un_IsUpper u r \<and> r \<noteq> 45 \<and> r \<noteq> 32)"

definition isSpecificType :: "unicode \<Rightarrow> string \<Rightarrow> bool" where
  "isSpecificType u t \<longleftrightarrow> lower_text u t \<notin> {''string'', ''bytes'', ''any'', ''object''}"

definition in_quotes :: "string \<Rightarrow> string" where
  "in_quotes s = [CHR 0x27] @ s @ [CHR 0x27]"

definition double_quoted :: "string \<Rightarrow> string" where
  "double_quoted s = [CHR 0x22] @ s @ [CHR 0x22]"

text \<open>\<open>25 * n / len(fields)\<close>, and 25 when there are no fields.\<close>

definition share25 :: "('a \<Rightarrow> bool) \<Rightarrow> 'a list \<Rightarrow> int" where
  "share25 good xs = (if xs = [] then 25 else 25 * int (length (filter good xs)) div int (length xs))"

definition naming_category :: "unicode \<Rightarrow> FieldInfo list \<Rightarrow> CategoryScore \<times> string list" where
  "naming_category u fields' =
     (let bad = filter (\<lambda>f. \<not> isGoodFieldName u (fi_Name f)) fields'
      in (\<lparr>cg_Score = share25 (\<lambda>f. isGoodFieldName u (fi_Name f)) fields', cg_MaxScore = 25,
           cg_Details = map (\<lambda>f. ''Field '' @ in_quotes (fi_Name f) @ '' does not follow snake_case convention'') bad\<rparr>,
          map (\<lambda>f. ''Rename '' @ in_quotes (fi_Name f) @ '' to '' @
                   in_quotes (NormalizeFieldName u (fi_Name f))) bad))"

definition documentation_category :: "FieldInfo list \<Rightarrow> CategoryScore \<times> string list" where
  "documentation_category fields' =
     (let documented = length (filter (\<lambda>f. fi_Doc f \<noteq> []) fields');
          none = (fields' \<noteq> [] \<and> documented = 0)
      in (\<lparr>cg_Score = share25 (\<lambda>f. fi_Doc f \<noteq> []) fields', cg_MaxScore = 25,
           cg_Details = (if none then [''No fields have documentation'']
                         else if documented < length fields' then [''Only some fields have documentation'']
                         else [])\<rparr>,
          if none then [''Add documentation/descriptions to fields''] else []))"

definition type_safety_category :: "unicode \<Rightarrow> FieldInfo list \<Rightarrow> CategoryScore" where
  "type_safety_category u fields' =
     \<lparr>cg_Score = share25 (\<lambda>f. isSpecificType u (fi_Type f)) fields', cg_MaxScore = 25,
      cg_Details = map (\<lambda>f. ''Field '' @ in_quotes (fi_Name f) @ '' uses generic type '' @ in_quotes (fi_Type f))
                     (filter (\<lambda>f. \<not> isSpecificType u (fi_Type f)) fields')\<rparr>"

definition evolution_category :: "FieldInfo list \<Rightarrow> string \<Rightarrow> CategoryScore \<times> string list" where
  "evolution_category fields' schemaStr =
     (let defaults = list_ex fi_HasDefault fields';
          missing = (fields' \<noteq> [] \<and> \<not> defaults);
          spaced = (Contains schemaStr ''namespace'' \<or> Contains schemaStr ''package'');
          described = (Contains schemaStr (double_quoted ''doc'') \<or> Contains schemaStr (double_quoted ''description''))
      in (\<lparr>cg_Score = (if defaults then 10 else 0) + (if spaced then 8 else 0) + (if described then 7 else 0),
           cg_MaxScore = 25,
           cg_Details =
             (if defaults then [''Fields with defaults enable backward-compatible evolution'']
              else if missing
              then [''No fields have default values; consider adding defaults for evolution safety''] else []) @
             (if spaced then [] else [''No namespace/package declaration found'']) @
             (if described then [] else [''Schema-level documentation is missing''])\<rparr>,
          (if missing then [''Add default values to optional fields''] else []) @
          (if spaced then [] else [''Add a namespace to prevent naming conflicts''])))"

definition quality_grade :: "int \<Rightarrow> string" where
  "quality_grade pct =
     (if pct \<ge> 90 then ''A'' else if pct \<ge> 80 then ''B'' else if pct \<ge> 70 then ''C''
      else if pct \<ge> 60 then ''D'' else ''F'')"

definition ScoreSchemaQuality ::
  "CategoryScore order \<Rightarrow> unicode \<Rightarrow> FieldInfo list \<Rightarrow> string \<Rightarrow> QualityResult" where
  "ScoreSchemaQuality it u fields' schemaStr =
     (let (naming, wins1) = naming_category u fields';
          (docs, wins2) = documentation_category fields';
          (evolution, wins3) = evolution_category fields' schemaStr;
          categories = gm_put ''evolution'' evolution (gm_put ''type_safety'' (type_safety_category u fields')
                         (gm_put ''documentation'' docs (gm_put ''naming'' naming gm_empty)));
          (overall, most) = fold (\<lambda>cat (overall, most). (overall + cg_Score cat, most + cg_MaxScore cat))
                              (it (map snd (gm_entries categories))) (0, 0);
          pct = (if most > 0 then 100 * overall div most else 0)
      in \<lparr>qr_OverallScore = overall, qr_MaxScore = most, qr_Grade = quality_grade pct,
          qr_Categories = categories, qr_QuickWins = wins1 @ wins2 @ wins3\<rparr>)"


end
