(* ===== verification/Analysis_Handlers.thy ===== *)
theory Analysis_Handlers
  imports Schema_Handlers Schema_Analysis
begin

text \<open>
  The handlers of \<open>internal/api/handlers/analysis.go\<close>: validation, search, similarity, quality,
  naming, history, differences, export, compatibility questions and statistics.  They only read, so a
  handler takes the store and returns the response alone.  Bodies are the decoded structures, \<open>None\<close>
  when decoding failed; an answer carries the values the JSON object is built from, its counts
  included.  The libraries and the orders of range statements are the environment of the analysis.
\<close>

section \<open>Requests and answers\<close>

record SchemaTextRequest =
  tx_Schema :: string
  tx_SchemaType :: string

record SearchRequest =
  sq_Query :: string
  sq_Regex :: bool
  sq_Limit :: int

record FieldSearchRequest =
  fs_Field :: string
  fs_Mode :: string
  fs_Threshold :: go_float
  fs_Limit :: int

record TypeSearchRequest =
  ts_TypePattern :: string
  ts_Regex :: bool
  ts_Limit :: int

record SimilarRequest =
  sm_Subject :: string
  sm_Threshold :: go_float
  sm_Limit :: int

record SchemaOrSubjectRequest =
  so_Schema :: string
  so_SchemaType :: string
  so_Subject :: string

record SubjectNameRequest =
  sn_Subject :: string
  sn_Strategy :: string

record MatchSubjectsRequest =
  mt_Pattern :: string
  mt_Mode :: string
  mt_Threshold :: go_float

record DiffRequest =
  df_Version1 :: int
  df_Version2 :: int

record EvolutionChange =
  ev_Action :: string
  ev_Field :: string
  ev_Type :: string

record MigrationRequest =
  mg_TargetSchema :: string
  mg_SchemaType :: string

record MultiCheckRequest =
  mc_Schema :: string
  mc_SchemaType :: string
  mc_Subjects :: "string list"

record CompareRequest =
  cw_Subject1 :: string
  cw_Subject2 :: string

record search_match =
  se_Subject :: string
  se_Version :: int
  se_SchemaType :: string

record field_match =
  fx_Subject :: string
  fx_FieldName :: string
  fx_FieldType :: string
  fx_FieldPath :: string
  fx_Score :: go_float
  fx_SchemaType :: string

record field_usage =
  fu_Subject :: string
  fu_FieldName :: string
  fu_FieldType :: string

record similar_schema =
  si_Subject :: string
  si_Similarity :: go_float
  si_Shared :: "string list"

record history_entry =
  he_Version :: int
  he_SchemaID :: int
  he_SchemaType :: string

record export_entry =
  ee_Subject :: string
  ee_Version :: int
  ee_ID :: int
  ee_Schema :: string
  ee_SchemaType :: string

record subject_result =
  su_Subject :: string
  su_Compatible :: bool
  su_Error :: "registry_error option"

datatype analysis_body =
    ValidatedBody bool string "registry_error option"
  | NormalizedBody string string string
  | SearchBody string int "search_match list"
  | FieldSearchBody string string int "field_match list"
  | TypeSearchBody string int "field_usage list"
  | SimilarBody string int "similar_schema list"
  | QualityBody QualityResult
  | ComplexityBody string int int string
  | SubjectNameBody string string bool "string list" string
  | MatchedBody string string int "string list"
  | HistoryBody string int "history_entry list"
  | DependenciesBody string int int "SubjectVersion list"
  | DiffBody string int int "(string \<times> string) list" "(string \<times> string) list" "(string \<times> string \<times> string) list"
  | EvolutionBody string int string int string
  | MigrationBody string int string "string list" int
  | ExportSubjectBody string int "export_entry list"
  | ExportSchemaBody string int int string string string
  | MultiCheckBody "subject_result list"
  | SuggestionsBody string string "string list"
  | ExplainBody string string bool "(registry_error \<times> string) option"
  | ComparisonBody string string "string list" "string list" "string list"
  | StatisticsBody int int "(string, int) gomap"
  | ConsistencyBody string bool "(string, int) gomap" "field_usage list"
  | PatternsBody int "(string \<times> int) list" int
  | CountBody int
  | SubjectCountBody string int

section \<open>Shared steps\<close>

abbreviation bad_request :: "string \<Rightarrow> 'b response" where
  "bad_request text \<equiv> ErrorAnswer 400 ErrorCodeInvalidSchema (Text text)"

definition bad_regex :: "string \<Rightarrow> 'b response" where
  "bad_regex err = bad_request (''Invalid regex: '' @ err)"

definition bad_version :: "'b response" where
  "bad_version = ErrorAnswer 400 ErrorCodeInvalidVersion (Text ''Invalid version'')"

definition no_such_version :: "int \<Rightarrow> 'b response" where
  "no_such_version v = ErrorAnswer 404 ErrorCodeVersionNotFound (Text (''Version '' @ Itoa v @ '' not found''))"

definition clamp_limit :: "int \<Rightarrow> int \<Rightarrow> int" where
  "clamp_limit dflt n = (let l = (if n \<le> 0 then dflt else n) in if l > 1000 then 1000 else l)"

definition clamp_threshold :: "go_float \<Rightarrow> go_float \<Rightarrow> go_float" where
  "clamp_threshold dflt t = (let x = (if f_ge (Fin 0) t then dflt else t) in if f_less (Fin 1) x then Fin 1 else x)"

definition latest_of :: "Store \<Rightarrow> string \<Rightarrow> string \<Rightarrow> SchemaRecord option" where
  "latest_of s registryCtx subject =
     (case Store_GetLatestSchema s registryCtx subject of Inl _ \<Rightarrow> None | Inr rec \<Rightarrow> Some rec)"

definition fields_of :: "analysis_env \<Rightarrow> SchemaRecord \<Rightarrow> FieldInfo list" where
  "fields_of e rec = ExtractFields e (sr_Schema rec) (sr_SchemaType rec)"

text \<open>A loop over subjects that stops once enough results are collected.\<close>

fun collect_until :: "int \<Rightarrow> ('a \<Rightarrow> 'b list) \<Rightarrow> 'a list \<Rightarrow> 'b list \<Rightarrow> 'b list" where
  "collect_until limit f [] acc = acc"
| "collect_until limit f (x # xs) acc =
     (if int (length acc) \<ge> limit then acc else collect_until limit f xs (acc @ f x))"

text \<open>What a subject contributes: nothing when its latest schema cannot be read.\<close>

definition from_latest :: "Store \<Rightarrow> string \<Rightarrow> (string \<Rightarrow> SchemaRecord \<Rightarrow> 'b list) \<Rightarrow> string \<Rightarrow> 'b list" where
  "from_latest s registryCtx f subject =
     (case latest_of s registryCtx subject of None \<Rightarrow> [] | Some rec \<Rightarrow> f subject rec)"

definition compatibility_level :: "'p Registry \<Rightarrow> Store \<Rightarrow> string \<Rightarrow> string \<Rightarrow> string" where
  "compatibility_level r s registryCtx subject =
     (case Registry_GetConfigFull r s registryCtx subject of
        Inl _ \<Rightarrow> ''BACKWARD'' | Inr c \<Rightarrow> cf_CompatibilityLevel c)"

definition typed_or_avro :: "analysis_env \<Rightarrow> string \<Rightarrow> SchemaType" where
  "typed_or_avro e raw = (let st = upper_text (an_unicode e) raw in if st = [] then SchemaTypeAvro else st)"

section \<open>Validation and normalization\<close>

definition ValidateSchema ::
  "analysis_env \<Rightarrow> 'p Handler \<Rightarrow> Store \<Rightarrow> SchemaTextRequest request \<Rightarrow> analysis_body response" where
  "ValidateSchema e h s rq =
     (case rq_body rq of
        None \<Rightarrow> invalid_body ErrorCodeInvalidSchema
      | Some req \<Rightarrow>
          if tx_Schema req = [] then bad_request ''Schema is required''
          else (case ParseSchemaType (upper_text (an_unicode e) (tx_SchemaType req)) of
                  (_, False) \<Rightarrow> invalid_type (tx_SchemaType req)
                | (st, True) \<Rightarrow>
                    (let result = Registry_ValidateSchema (hd_registry h) s (request_ctx rq) (tx_Schema req) st []
                     in Respond 200 (ValidatedBody (vr_Valid result) st (vr_Error result)))))"

definition NormalizeSchema ::
  "analysis_env \<Rightarrow> 'p Handler \<Rightarrow> Store \<Rightarrow> SchemaTextRequest request \<Rightarrow> analysis_body response" where
  "NormalizeSchema e h s rq =
     (case rq_body rq of
        None \<Rightarrow> invalid_body ErrorCodeInvalidSchema
      | Some req \<Rightarrow>
          if tx_Schema req = [] then bad_request ''Schema is required''
          else (case ParseSchemaType (upper_text (an_unicode e) (tx_SchemaType req)) of
                  (_, False) \<Rightarrow> invalid_type (tx_SchemaType req)
                | (st, True) \<Rightarrow>
                    (case Registry_NormalizeSchema (hd_registry h) s (request_ctx rq) (tx_Schema req) st [] of
                       Inl err \<Rightarrow> ErrorAnswer 422 ErrorCodeInvalidSchema (ErrorOf err)
                     | Inr result \<Rightarrow>
                         Respond 200 (NormalizedBody st (nr_Normalized result) (nr_Fingerprint result)))))"

section \<open>Search\<close>

text \<open>A pattern is compiled only when it is used as a regular expression.\<close>

definition compiled :: "analysis_env \<Rightarrow> bool \<Rightarrow> string \<Rightarrow> string + (string \<Rightarrow> bool)" where
  "compiled e wanted pattern = (if wanted then an_regexp e pattern else Inr (\<lambda>_. False))"

definition SearchSchemas ::
  "analysis_env \<Rightarrow> 'p Handler \<Rightarrow> Store \<Rightarrow> SearchRequest request \<Rightarrow> analysis_body response" where
  "SearchSchemas e h s rq =
     (case rq_body rq of
        None \<Rightarrow> invalid_body ErrorCodeInvalidSchema
      | Some req \<Rightarrow>
          if sq_Query req = [] then bad_request ''Query is required''
          else (case Store_ListSubjects s (request_ctx rq) False of
                  Inl _ \<Rightarrow> writeInternalError
                | Inr subjects \<Rightarrow>
                    (case compiled e (sq_Regex req) (sq_Query req) of
                       Inl err \<Rightarrow> bad_regex err
                     | Inr re \<Rightarrow>
                         (let hit = (\<lambda>text. if sq_Regex req then re text else Contains text (sq_Query req));
                              matches = collect_until (clamp_limit 50 (sq_Limit req))
                                (from_latest s (request_ctx rq) (\<lambda>subj latest.
                                   if hit (sr_Schema latest)
                                   then [\<lparr>se_Subject = subj, se_Version = sr_Version latest,
                                          se_SchemaType = sr_SchemaType latest\<rparr>] else [])) subjects []
                          in Respond 200 (SearchBody (sq_Query req) (int (length matches)) matches)))))"

text \<open>How well a field matches, by the mode of the search; an unknown mode matches nothing.\<close>

definition field_score ::
  "analysis_env \<Rightarrow> FieldSearchRequest \<Rightarrow> string \<Rightarrow> (string \<Rightarrow> bool) \<Rightarrow> string \<Rightarrow> go_float option" where
  "field_score e req mode re name =
     (if mode = ''exact''
      then (if list_ex (EqualFold (an_unicode e) name) (NamingVariants (an_unicode e) (fs_Field req)) then Some (Fin 1) else None)
      else if mode = ''fuzzy''
      then (let score = FuzzyScore (an_unicode e) (fs_Field req) name
            in if f_ge score (clamp_threshold (round_f64 (6 / 10)) (fs_Threshold req)) then Some score else None)
      else if mode = ''regex'' then (if re name then Some (Fin 1) else None)
      else None)"

definition FindSchemasByField ::
  "analysis_env \<Rightarrow> 'p Handler \<Rightarrow> Store \<Rightarrow> FieldSearchRequest request \<Rightarrow> analysis_body response" where
  "FindSchemasByField e h s rq =
     (case rq_body rq of
        None \<Rightarrow> invalid_body ErrorCodeInvalidSchema
      | Some req \<Rightarrow>
          if fs_Field req = [] then bad_request ''Field is required''
          else (let mode = (if fs_Mode req = [] then ''exact'' else fs_Mode req)
                in case Store_ListSubjects s (request_ctx rq) False of
                     Inl _ \<Rightarrow> writeInternalError
                   | Inr subjects \<Rightarrow>
                       (case compiled e (mode = ''regex'') (fs_Field req) of
                          Inl err \<Rightarrow> bad_regex err
                        | Inr re \<Rightarrow>
                            (let results = collect_until (clamp_limit 50 (fs_Limit req))
                               (from_latest s (request_ctx rq) (\<lambda>subj latest.
                                  List.map_filter (\<lambda>f. map_option (\<lambda>score.
                                    \<lparr>fx_Subject = subj, fx_FieldName = fi_Name f, fx_FieldType = fi_Type f,
                                     fx_FieldPath = fi_Path f, fx_Score = score, fx_SchemaType = sr_SchemaType latest\<rparr>)
                                    (field_score e req mode re (fi_Name f))) (fields_of e latest))) subjects []
                             in Respond 200 (FieldSearchBody (fs_Field req) mode (int (length results)) results)))))"

definition FindSchemasByType ::
  "analysis_env \<Rightarrow> 'p Handler \<Rightarrow> Store \<Rightarrow> TypeSearchRequest request \<Rightarrow> analysis_body response" where
  "FindSchemasByType e h s rq =
     (case rq_body rq of
        None \<Rightarrow> invalid_body ErrorCodeInvalidSchema
      | Some req \<Rightarrow>
          if ts_TypePattern req = [] then bad_request ''type_pattern is required''
          else (case Store_ListSubjects s (request_ctx rq) False of
                  Inl _ \<Rightarrow> writeInternalError
                | Inr subjects \<Rightarrow>
                    (case compiled e (ts_Regex req) (ts_TypePattern req) of
                       Inl err \<Rightarrow> bad_regex err
                     | Inr re \<Rightarrow>
                         (let low = lower_text (an_unicode e);
                              hit = (\<lambda>t. if ts_Regex req then re t
                                         else EqualFold (an_unicode e) t (ts_TypePattern req) \<or>
                                              Contains (low t) (low (ts_TypePattern req)));
                              results = collect_until (clamp_limit 50 (ts_Limit req))
                                (from_latest s (request_ctx rq) (\<lambda>subj latest.
                                   map (\<lambda>f. \<lparr>fu_Subject = subj, fu_FieldName = fi_Name f, fu_FieldType = fi_Type f\<rparr>)
                                     (filter (\<lambda>f. hit (fi_Type f)) (fields_of e latest)))) subjects []
                          in Respond 200 (TypeSearchBody (ts_TypePattern req) (int (length results)) results)))))"

text \<open>The set of the normalized names of the fields of a schema, a map to \<open>true\<close>.\<close>

definition name_set :: "analysis_env \<Rightarrow> FieldInfo list \<Rightarrow> (string, bool) gomap" where
  "name_set e fs = gm_of_list (map (\<lambda>f. (NormalizeFieldName (an_unicode e) (fi_Name f), True)) fs)"

definition gm_mem :: "('k, bool) gomap \<Rightarrow> 'k \<Rightarrow> bool" where
  "gm_mem m k = gm_get0 False m k"

text \<open>Jaccard similarity: shared names over all names.\<close>

definition similarity ::
  "analysis_env \<Rightarrow> (string, bool) gomap \<Rightarrow> (string, bool) gomap \<Rightarrow> (go_float \<times> string list) option" where
  "similarity e source target =
     (let shared = filter (gm_mem target) (an_names e (gm_keys source));
          union = gm_put_all (map (\<lambda>k. (k, True)) (gm_keys source @ gm_keys target)) gm_empty;
          size = length (gm_keys union)
      in if size = 0 then None
         else Some (f_div (f_of_int (int (length shared))) (f_of_int (int size)), shared))"

definition FindSimilarSchemas ::
  "analysis_env \<Rightarrow> 'p Handler \<Rightarrow> Store \<Rightarrow> SimilarRequest request \<Rightarrow> analysis_body response" where
  "FindSimilarSchemas e h s rq =
     (case rq_body rq of
        None \<Rightarrow> invalid_body ErrorCodeInvalidSchema
      | Some req \<Rightarrow>
          if sm_Subject req = [] then bad_request ''Subject is required''
          else (case Store_GetLatestSchema s (request_ctx rq) (sm_Subject req) of
                  Inl _ \<Rightarrow> subject_not_found
                | Inr source \<Rightarrow>
                    (case Store_ListSubjects s (request_ctx rq) False of
                       Inl _ \<Rightarrow> writeInternalError
                     | Inr subjects \<Rightarrow>
                         (let sourceSet = name_set e (fields_of e source);
                              limit = clamp_limit 10 (sm_Limit req);
                              threshold = clamp_threshold (round_f64 (3 / 10)) (sm_Threshold req);
                              results = fold (\<lambda>subj acc.
                                if subj = sm_Subject req \<or> int (length acc) \<ge> limit then acc
                                else (case latest_of s (request_ctx rq) subj of
                                        None \<Rightarrow> acc
                                      | Some latest \<Rightarrow>
                                          (case similarity e sourceSet (name_set e (fields_of e latest)) of
                                             None \<Rightarrow> acc
                                           | Some (sim, shared) \<Rightarrow>
                                               if f_ge sim threshold
                                               then acc @ [\<lparr>si_Subject = subj, si_Similarity = sim, si_Shared = shared\<rparr>]
                                               else acc))) subjects []
                          in Respond 200 (SimilarBody (sm_Subject req) (int (length results)) results)))))"

section \<open>Quality and complexity\<close>

text \<open>The schema of the request, or the latest of the subject it names; then its type.\<close>

definition schema_or_subject ::
  "analysis_env \<Rightarrow> Store \<Rightarrow> SchemaOrSubjectRequest request \<Rightarrow>
     (string \<Rightarrow> SchemaType \<Rightarrow> analysis_body response) \<Rightarrow> analysis_body response" where
  "schema_or_subject e s rq body =
     (case rq_body rq of
        None \<Rightarrow> invalid_body ErrorCodeInvalidSchema
      | Some req \<Rightarrow>
          (case (if so_Schema req = [] \<and> so_Subject req \<noteq> []
                 then map_option (\<lambda>latest. (sr_Schema latest, sr_SchemaType latest))
                        (latest_of s (request_ctx rq) (so_Subject req))
                 else Some (so_Schema req, so_SchemaType req)) of
             None \<Rightarrow> subject_not_found
           | Some (schemaStr, schemaType) \<Rightarrow>
               if schemaStr = [] then bad_request ''Schema or subject is required''
               else (case ParseSchemaType (upper_text (an_unicode e) schemaType) of
                       (_, False) \<Rightarrow> invalid_type schemaType
                     | (st, True) \<Rightarrow> body schemaStr st)))"

definition ScoreSchemaQuality_handler ::
  "CategoryScore order \<Rightarrow> analysis_env \<Rightarrow> 'p Handler \<Rightarrow> Store \<Rightarrow> SchemaOrSubjectRequest request \<Rightarrow>
     analysis_body response" where
  "ScoreSchemaQuality_handler it e h s rq = schema_or_subject e s rq (\<lambda>schemaStr st.
     Respond 200 (QualityBody (ScoreSchemaQuality it (an_unicode e) (ExtractFields e schemaStr st) schemaStr)))"

definition max_depth :: "FieldInfo list \<Rightarrow> int" where
  "max_depth fs =
     fold (\<lambda>f deepest. let depth = int (length (filter (\<lambda>c. c = CHR ''.'') (fi_Path f))) + 1
                       in if depth > deepest then depth else deepest) fs 0"

definition complexity_grade :: "int \<Rightarrow> int \<Rightarrow> string" where
  "complexity_grade n depth =
     (if n > 50 \<or> depth > 5 then ''D'' else if n > 30 \<or> depth > 4 then ''C''
      else if n > 15 \<or> depth > 3 then ''B'' else ''A'')"

definition GetSchemaComplexity ::
  "analysis_env \<Rightarrow> 'p Handler \<Rightarrow> Store \<Rightarrow> SchemaOrSubjectRequest request \<Rightarrow> analysis_body response" where
  "GetSchemaComplexity e h s rq = schema_or_subject e s rq (\<lambda>schemaStr st.
     let fs = ExtractFields e schemaStr st
     in Respond 200 (ComplexityBody st (int (length fs)) (max_depth fs)
                       (complexity_grade (int (length fs)) (max_depth fs))))"

section \<open>Subject names\<close>

definition HasSuffix :: "string \<Rightarrow> string \<Rightarrow> bool" where
  "HasSuffix s p \<longleftrightarrow> length p \<le> length s \<and> drop (length s - length p) s = p"

definition ident_start :: "int \<Rightarrow> bool" where
  "ident_start ch \<longleftrightarrow> ascii_lower ch \<or> ascii_upper ch \<or> ch = 95"

definition isValidIdentifier :: "string \<Rightarrow> bool" where
  "isValidIdentifier s \<longleftrightarrow>
     s \<noteq> [] \<and> (\<forall>(i, ch)\<in>set (runes_at s).
       (i = 0 \<longrightarrow> ident_start ch) \<and> (ident_start ch \<or> (48 \<le> ch \<and> ch \<le> 57)))"

text \<open>The verdict on a name under a strategy: whether it is valid, the issues, a suggestion.\<close>

definition check_subject_name :: "string \<Rightarrow> string \<Rightarrow> bool \<times> string list \<times> string" where
  "check_subject_name strategy subject =
     (if strategy = ''topic_name''
      then (if \<not> HasSuffix subject ''-key'' \<and> \<not> HasSuffix subject ''-value''
            then (False, [''TopicNameStrategy subjects must end with '' @ quoted ''-key'' @ '' or '' @ quoted ''-value''],
                  subject @ ''-value'')
            else (True, [], []))
      else if strategy = ''record_name''
      then (if list_ex (\<lambda>p. p = [] \<or> \<not> isValidIdentifier p) (SplitByte subject CHR ''.'')
            then (False, [''RecordNameStrategy subjects must be valid qualified names (e.g., com.example.User)''], [])
            else (True, [], []))
      else if strategy = ''topic_record_name''
      then (if \<not> Contains subject ''-''
            then (False, [''TopicRecordNameStrategy subjects must contain a topic and record name''], [])
            else (True, [], []))
      else (True, [], []))"

definition ValidateSubjectName ::
  "'p Handler \<Rightarrow> Store \<Rightarrow> SubjectNameRequest request \<Rightarrow> analysis_body response" where
  "ValidateSubjectName h s rq =
     (case rq_body rq of
        None \<Rightarrow> invalid_body ErrorCodeInvalidSchema
      | Some req \<Rightarrow>
          if sn_Subject req = [] then bad_request ''Subject is required''
          else (let strategy = (if sn_Strategy req = [] then ''topic_name'' else sn_Strategy req);
                    (valid, issues, suggestion) = check_subject_name strategy (sn_Subject req)
                in Respond 200 (SubjectNameBody (sn_Subject req) strategy valid issues suggestion)))"

text \<open>
  The loop over the parts of a pattern between its stars: \<open>i\<close> counts the parts, \<open>idx\<close> is how much of
  the text is consumed; \<open>None\<close> is the return of \<open>false\<close>.
\<close>

fun match_parts :: "string \<Rightarrow> nat \<Rightarrow> nat \<Rightarrow> string list \<Rightarrow> nat option" where
  "match_parts o' i idx [] = Some idx"
| "match_parts o' i idx (part # parts) =
     (if part = [] then match_parts o' (Suc i) idx parts
      else case strings_Index (drop idx o') part of
             None \<Rightarrow> None
           | Some pos \<Rightarrow>
               if i = 0 \<and> pos \<noteq> 0 then None
               else match_parts o' (Suc i) (idx + pos + length part) parts)"

definition originMatchesPattern :: "unicode \<Rightarrow> string \<Rightarrow> string \<Rightarrow> bool" where
  "originMatchesPattern u pattern target =
     (let p = lower_text u pattern; o' = lower_text u target
      in if \<not> Contains p ''*'' then p = o'
         else let parts = SplitByte p CHR ''*''
              in case match_parts o' 0 0 parts of
                   None \<Rightarrow> False
                 | Some _ \<Rightarrow> if last parts \<noteq> [] then HasSuffix o' (last parts) else True)"

definition globMatch :: "unicode \<Rightarrow> string \<Rightarrow> string \<Rightarrow> bool" where
  "globMatch u pattern s = originMatchesPattern u pattern s"

definition MatchSubjects ::
  "analysis_env \<Rightarrow> 'p Handler \<Rightarrow> Store \<Rightarrow> MatchSubjectsRequest request \<Rightarrow> analysis_body response" where
  "MatchSubjects e h s rq =
     (case rq_body rq of
        None \<Rightarrow> invalid_body ErrorCodeInvalidSchema
      | Some req \<Rightarrow>
          if mt_Pattern req = [] then bad_request ''Pattern is required''
          else (let mode = (if mt_Mode req = [] then ''regex'' else mt_Mode req);
                    threshold = clamp_threshold (round_f64 (6 / 10)) (mt_Threshold req);
                    answer = (\<lambda>matched. Respond 200 (MatchedBody (mt_Pattern req) mode (int (length matched)) matched))
                in case Store_ListSubjects s (request_ctx rq) False of
                     Inl _ \<Rightarrow> writeInternalError
                   | Inr subjects \<Rightarrow>
                       if mode = ''regex''
                       then (case an_regexp e (mt_Pattern req) of
                               Inl err \<Rightarrow> bad_regex err | Inr re \<Rightarrow> answer (filter re subjects))
                       else if mode = ''glob'' then answer (filter (globMatch (an_unicode e) (mt_Pattern req)) subjects)
                       else if mode = ''fuzzy''
                       then answer (filter (\<lambda>x. f_ge (FuzzyScore (an_unicode e) (mt_Pattern req) x) threshold) subjects)
                       else answer []))"

section \<open>One subject\<close>

text \<open>The start of the handlers of a subject: context and subject, no global context, no alias.\<close>

definition on_subject :: "'b request \<Rightarrow> (string \<Rightarrow> string \<Rightarrow> analysis_body response) \<Rightarrow> analysis_body response" where
  "on_subject rq body =
     (let (registryCtx, subject) = request_target rq
      in if rejectGlobalContext registryCtx then global_rejected else body registryCtx subject)"

definition GetSchemaHistory :: "'p Handler \<Rightarrow> Store \<Rightarrow> unit request \<Rightarrow> analysis_body response" where
  "GetSchemaHistory h s rq = on_subject rq (\<lambda>registryCtx subject.
     case Store_GetSchemasBySubject s registryCtx subject False of
       Inl _ \<Rightarrow> subject_not_found
     | Inr schemas \<Rightarrow>
         (let history = collect_until 50 (\<lambda>x. [\<lparr>he_Version = sr_Version x, he_SchemaID = sr_ID x,
                                               he_SchemaType = sr_SchemaType x\<rparr>]) schemas []
          in Respond 200 (HistoryBody subject (int (length history)) history)))"

text \<open>A version of the subject, as the path names it.\<close>

definition on_version ::
  "Store \<Rightarrow> 'b request \<Rightarrow> (string \<Rightarrow> string \<Rightarrow> int \<Rightarrow> SchemaRecord \<Rightarrow> analysis_body response) \<Rightarrow>
     analysis_body response" where
  "on_version s rq body = on_subject rq (\<lambda>registryCtx subject.
     case Atoi (rq_version rq) of
       None \<Rightarrow> bad_version
     | Some version \<Rightarrow>
         (case Store_GetSchemaBySubjectVersion s registryCtx subject version of
            Inl _ \<Rightarrow> schema_not_found
          | Inr rec \<Rightarrow> body registryCtx subject version rec))"

definition GetDependencyGraph :: "'p Handler \<Rightarrow> Store \<Rightarrow> unit request \<Rightarrow> analysis_body response" where
  "GetDependencyGraph h s rq = on_version s rq (\<lambda>registryCtx subject version rec.
     let refs = (case Store_GetReferencedBy s registryCtx subject version of Inl _ \<Rightarrow> [] | Inr svs \<Rightarrow> svs)
     in Respond 200 (DependenciesBody subject version (sr_ID rec) refs))"

definition type_map :: "FieldInfo list \<Rightarrow> (string, string) gomap" where
  "type_map fs = gm_of_list (map (\<lambda>f. (fi_Name f, fi_Type f)) fs)"

definition added_fields :: "analysis_env \<Rightarrow> (string, string) gomap \<Rightarrow> (string, string) gomap \<Rightarrow> (string \<times> string) list" where
  "added_fields e set1 set2 = filter (\<lambda>(name, t). gm_get set1 name = None) (an_types e (gm_entries set2))"

definition changed_fields ::
  "analysis_env \<Rightarrow> (string, string) gomap \<Rightarrow> (string, string) gomap \<Rightarrow> (string \<times> string \<times> string) list" where
  "changed_fields e set1 set2 =
     List.map_filter (\<lambda>(name, t). case gm_get set1 name of
                        None \<Rightarrow> None | Some t1 \<Rightarrow> if t1 \<noteq> t then Some (name, t1, t) else None)
       (an_types e (gm_entries set2))"

definition DiffSchemas ::
  "analysis_env \<Rightarrow> 'p Handler \<Rightarrow> Store \<Rightarrow> DiffRequest request \<Rightarrow> analysis_body response" where
  "DiffSchemas e h s rq = on_subject rq (\<lambda>registryCtx subject.
     case rq_body rq of
       None \<Rightarrow> invalid_body ErrorCodeInvalidSchema
     | Some req \<Rightarrow>
         (let v1 = (if df_Version1 req = 0 then 1 else df_Version1 req)
          in case Store_GetSchemaBySubjectVersion s registryCtx subject v1 of
               Inl _ \<Rightarrow> no_such_version v1
             | Inr schema1 \<Rightarrow>
                 (case (if df_Version2 req = 0 then map_option sr_Version (latest_of s registryCtx subject)
                        else Some (df_Version2 req)) of
                    None \<Rightarrow> subject_not_found
                  | Some v2 \<Rightarrow>
                      (case Store_GetSchemaBySubjectVersion s registryCtx subject v2 of
                         Inl _ \<Rightarrow> no_such_version v2
                       | Inr schema2 \<Rightarrow>
                           (let set1 = type_map (fields_of e schema1); set2 = type_map (fields_of e schema2)
                            in Respond 200 (DiffBody subject v1 v2 (added_fields e set1 set2)
                                 (added_fields e set2 set1) (changed_fields e set1 set2)))))))"

definition SuggestSchemaEvolution ::
  "'p Handler \<Rightarrow> Store \<Rightarrow> EvolutionChange list request \<Rightarrow> analysis_body response" where
  "SuggestSchemaEvolution h s rq = on_subject rq (\<lambda>registryCtx subject.
     case rq_body rq of
       None \<Rightarrow> invalid_body ErrorCodeInvalidSchema
     | Some changes \<Rightarrow>
         (case latest_of s registryCtx subject of
            None \<Rightarrow> subject_not_found
          | Some latest \<Rightarrow>
              Respond 200 (EvolutionBody subject (sr_Version latest)
                (compatibility_level (hd_registry h) s registryCtx subject) (int (length changes))
                ''Schema evolution suggestions are available via the MCP tool suggest_schema_evolution for richer analysis'')))"

definition migration_steps :: "FieldInfo list \<Rightarrow> FieldInfo list \<Rightarrow> string list" where
  "migration_steps source target =
     (let steps =
        map (\<lambda>f. ''Add field '' @ quoted (fi_Name f) @ '' (type: '' @ fi_Type f @ '') with a default value'')
          (filter (\<lambda>f. fi_Name f \<notin> fi_Name ` set source) target) @
        map (\<lambda>f. ''Remove field '' @ quoted (fi_Name f) @ '' (may require compatibility level change)'')
          (filter (\<lambda>f. fi_Name f \<notin> fi_Name ` set target) source)
      in if steps = []
         then [''No migration steps needed '' @ [CHR 0xE2, CHR 0x80, CHR 0x94] @ '' schemas have the same fields'']
         else steps)"

definition PlanMigrationPath ::
  "analysis_env \<Rightarrow> 'p Handler \<Rightarrow> Store \<Rightarrow> MigrationRequest request \<Rightarrow> analysis_body response" where
  "PlanMigrationPath e h s rq = on_subject rq (\<lambda>registryCtx subject.
     case rq_body rq of
       None \<Rightarrow> invalid_body ErrorCodeInvalidSchema
     | Some req \<Rightarrow>
         if mg_TargetSchema req = [] then bad_request ''target_schema is required''
         else (case latest_of s registryCtx subject of
                 None \<Rightarrow> subject_not_found
               | Some latest \<Rightarrow>
                   (let st = (let t = upper_text (an_unicode e) (mg_SchemaType req)
                              in if t = [] then sr_SchemaType latest else t);
                        steps = migration_steps (fields_of e latest) (ExtractFields e (mg_TargetSchema req) st)
                    in Respond 200 (MigrationBody subject (sr_Version latest)
                         (compatibility_level (hd_registry h) s registryCtx subject) steps (int (length steps))))))"

definition ExportSubject :: "'p Handler \<Rightarrow> Store \<Rightarrow> unit request \<Rightarrow> analysis_body response" where
  "ExportSubject h s rq = on_subject rq (\<lambda>registryCtx subject.
     case Store_GetSchemasBySubject s registryCtx subject False of
       Inl _ \<Rightarrow> subject_not_found
     | Inr schemas \<Rightarrow>
         (let entries = map (\<lambda>x. \<lparr>ee_Subject = subject, ee_Version = sr_Version x, ee_ID = sr_ID x,
                                  ee_Schema = sr_Schema x, ee_SchemaType = sr_SchemaType x\<rparr>) schemas
          in Respond 200 (ExportSubjectBody subject (int (length entries)) entries)))"

definition ExportSchema :: "'p Handler \<Rightarrow> Store \<Rightarrow> unit request \<Rightarrow> analysis_body response" where
  "ExportSchema h s rq = on_version s rq (\<lambda>registryCtx subject version rec.
     Respond 200 (ExportSchemaBody subject version (sr_ID rec) (sr_Schema rec) (sr_SchemaType rec)
       (compatibility_level (hd_registry h) s registryCtx subject)))"

section \<open>Compatibility questions\<close>

definition CheckCompatibilityMulti ::
  "analysis_env \<Rightarrow> 'p Handler \<Rightarrow> Store \<Rightarrow> MultiCheckRequest request \<Rightarrow> analysis_body response" where
  "CheckCompatibilityMulti e h s rq =
     (case rq_body rq of
        None \<Rightarrow> invalid_body ErrorCodeInvalidSchema
      | Some req \<Rightarrow>
          if mc_Schema req = [] then bad_request ''Schema is required''
          else Respond 200 (MultiCheckBody (map (\<lambda>subj.
                 case Registry_CheckCompatibility (hd_registry h) s (request_ctx rq) subj (mc_Schema req)
                        (typed_or_avro e (mc_SchemaType req)) [] ''latest'' False of
                   Inl err \<Rightarrow> \<lparr>su_Subject = subj, su_Compatible = False, su_Error = Some err\<rparr>
                 | Inr result \<Rightarrow> \<lparr>su_Subject = subj, su_Compatible = re_IsCompatible result, su_Error = None\<rparr>)
                 (mc_Subjects req))))"

definition suggestions_for :: "string \<Rightarrow> string list" where
  "suggestions_for level =
     (if level = ''BACKWARD'' \<or> level = ''BACKWARD_TRANSITIVE''
      then [''Add new fields with default values'', ''Do NOT remove existing fields'', ''Do NOT change field types'']
      else if level = ''FORWARD'' \<or> level = ''FORWARD_TRANSITIVE''
      then [''Remove fields (new consumers will ignore them)'', ''Do NOT add required fields without defaults'']
      else if level = ''FULL'' \<or> level = ''FULL_TRANSITIVE''
      then [''Only add optional fields with defaults'', ''Do NOT remove or rename fields'']
      else if level = ''NONE'' then [''Any change is allowed (no compatibility checks)'']
      else [])"

definition SuggestCompatibleChange ::
  "analysis_env \<Rightarrow> 'p Handler \<Rightarrow> Store \<Rightarrow> unit request \<Rightarrow> analysis_body response" where
  "SuggestCompatibleChange e h s rq = on_subject rq (\<lambda>registryCtx subject.
     let level = compatibility_level (hd_registry h) s registryCtx subject
     in Respond 200 (SuggestionsBody subject level (suggestions_for (upper_text (an_unicode e) level))))"

definition ExplainCompatibilityFailure ::
  "analysis_env \<Rightarrow> 'p Handler \<Rightarrow> Store \<Rightarrow> SchemaTextRequest request \<Rightarrow> analysis_body response" where
  "ExplainCompatibilityFailure e h s rq = on_subject rq (\<lambda>registryCtx subject.
     case rq_body rq of
       None \<Rightarrow> invalid_body ErrorCodeInvalidSchema
     | Some req \<Rightarrow>
         if tx_Schema req = [] then bad_request ''Schema is required''
         else (let result = Registry_CheckCompatibility (hd_registry h) s registryCtx subject (tx_Schema req)
                              (typed_or_avro e (tx_SchemaType req)) [] ''latest'' False;
                   level = compatibility_level (hd_registry h) s registryCtx subject
               in Respond 200 (ExplainBody subject level
                    (case result of Inl _ \<Rightarrow> False | Inr res \<Rightarrow> re_IsCompatible res)
                    (case result of
                       Inl err \<Rightarrow> Some (err, ''The schema is not compatible with the existing schema under '' @ level @
                                             '' compatibility'')
                     | Inr _ \<Rightarrow> None))))"

definition CompareSubjects ::
  "analysis_env \<Rightarrow> 'p Handler \<Rightarrow> Store \<Rightarrow> CompareRequest request \<Rightarrow> analysis_body response" where
  "CompareSubjects e h s rq =
     (case rq_body rq of
        None \<Rightarrow> invalid_body ErrorCodeInvalidSchema
      | Some req \<Rightarrow>
          if cw_Subject1 req = [] \<or> cw_Subject2 req = [] then bad_request ''Both subject1 and subject2 are required''
          else (case latest_of s (request_ctx rq) (cw_Subject1 req) of
                  None \<Rightarrow> ErrorAnswer 404 ErrorCodeSubjectNotFound (Text ''Subject1 not found'')
                | Some s1 \<Rightarrow>
                    (case latest_of s (request_ctx rq) (cw_Subject2 req) of
                       None \<Rightarrow> ErrorAnswer 404 ErrorCodeSubjectNotFound (Text ''Subject2 not found'')
                     | Some s2 \<Rightarrow>
                         (let set1 = type_map (fields_of e s1); set2 = type_map (fields_of e s2);
                              names1 = an_names e (gm_keys set1); names2 = an_names e (gm_keys set2)
                          in Respond 200 (ComparisonBody (cw_Subject1 req) (cw_Subject2 req)
                               (filter (\<lambda>n. gm_get set2 n \<noteq> None) names1)
                               (filter (\<lambda>n. gm_get set2 n = None) names1)
                               (filter (\<lambda>n. gm_get set1 n = None) names2))))))"

section \<open>Statistics\<close>

definition count_up :: "string \<Rightarrow> (string, int) gomap \<Rightarrow> (string, int) gomap" where
  "count_up k m = gm_put k (gm_get0 0 m k + 1) m"

definition GetRegistryStatistics :: "'p Handler \<Rightarrow> Store \<Rightarrow> unit request \<Rightarrow> analysis_body response" where
  "GetRegistryStatistics h s rq =
     (case Store_ListSubjects s (request_ctx rq) False of
        Inl _ \<Rightarrow> writeInternalError
      | Inr subjects \<Rightarrow>
          (let (totalVersions, typeCounts) = fold (\<lambda>subj (n, counts).
                 ((case Registry_GetVersions (hd_registry h) s (request_ctx rq) subj False of
                     Inl _ \<Rightarrow> n | Inr versions \<Rightarrow> n + int (length versions)),
                  (case latest_of s (request_ctx rq) subj of
                     None \<Rightarrow> counts | Some latest \<Rightarrow> count_up (sr_SchemaType latest) counts)))
                 subjects (0, gm_empty)
           in Respond 200 (StatisticsBody (int (length subjects)) totalVersions typeCounts)))"

definition same_field :: "unicode \<Rightarrow> string \<Rightarrow> string \<Rightarrow> bool" where
  "same_field u field name \<longleftrightarrow>
     list_ex (\<lambda>v. NormalizeFieldName u v = NormalizeFieldName u name) (NamingVariants u field)"

definition CheckFieldConsistency ::
  "analysis_env \<Rightarrow> 'p Handler \<Rightarrow> Store \<Rightarrow> unit request \<Rightarrow> string \<Rightarrow> analysis_body response" where
  "CheckFieldConsistency e h s rq field =
     (if field = [] then bad_request ''Field name is required''
      else (case Store_ListSubjects s (request_ctx rq) False of
              Inl _ \<Rightarrow> writeInternalError
            | Inr subjects \<Rightarrow>
                (let usages = concat (map (from_latest s (request_ctx rq) (\<lambda>subj latest.
                       map (\<lambda>f. \<lparr>fu_Subject = subj, fu_FieldName = fi_Name f, fu_FieldType = fi_Type f\<rparr>)
                         (filter (\<lambda>f. same_field (an_unicode e) field (fi_Name f)) (fields_of e latest)))) subjects);
                     typeCounts = fold (\<lambda>us. count_up (fu_FieldType us)) usages gm_empty
                 in Respond 200 (ConsistencyBody field (length (gm_keys typeCounts) \<le> 1) typeCounts usages))))"

definition DetectSchemaPatterns ::
  "analysis_env \<Rightarrow> 'p Handler \<Rightarrow> Store \<Rightarrow> unit request \<Rightarrow> analysis_body response" where
  "DetectSchemaPatterns e h s rq =
     (case Store_ListSubjects s (request_ctx rq) False of
        Inl _ \<Rightarrow> writeInternalError
      | Inr subjects \<Rightarrow>
          (let names = concat (map (from_latest s (request_ctx rq) (\<lambda>subj latest.
                 map (\<lambda>f. NormalizeFieldName (an_unicode e) (fi_Name f)) (fields_of e latest))) subjects);
               common = filter (\<lambda>(name, n). n \<ge> 2) (an_counts e (gm_entries (fold count_up names gm_empty)))
           in Respond 200 (PatternsBody (int (length subjects)) common (int (length common)))))"

definition CountSubjects :: "'p Handler \<Rightarrow> Store \<Rightarrow> unit request \<Rightarrow> analysis_body response" where
  "CountSubjects h s rq =
     (case Store_ListSubjects s (request_ctx rq) False of
        Inl _ \<Rightarrow> writeInternalError
      | Inr subjects \<Rightarrow> Respond 200 (CountBody (int (length subjects))))"

definition CountVersions :: "'p Handler \<Rightarrow> Store \<Rightarrow> unit request \<Rightarrow> analysis_body response" where
  "CountVersions h s rq = on_subject rq (\<lambda>registryCtx subject.
     case Registry_GetVersions (hd_registry h) s registryCtx subject False of
       Inl _ \<Rightarrow> subject_not_found
     | Inr versions \<Rightarrow> Respond 200 (SubjectCountBody subject (int (length versions))))"


end
