(* ===== verification/Mcp_Insight.thy ===== *)
theory Mcp_Insight
  imports Mcp_Server Analysis_Handlers
begin

text \<open>
  The tools that examine schemas: validation, history, the graph of dependencies, export and statistics
  (\<open>internal/mcp/tools_validation.go\<close>), compatibility over several subjects, differences and advice
  (\<open>tools_comparison.go\<close>), search, similarity, quality, patterns, suggestions and migration plans
  (\<open>tools_intelligence.go\<close>).  All of them only read.  The orders in which maps are visited and the
  result of an unstable sort among equals belong to the environment; the regular expressions of the
  naming strategies are written out.
\<close>

section \<open>Environment and answers\<close>

record insight_env =
  ie_an :: analysis_env
  ie_scores :: "CategoryScore order"
  ie_similar :: "similar_schema order"
  ie_fields :: "nat \<Rightarrow> (string \<times> FieldInfo) order"
  ie_quote :: "string \<Rightarrow> string"

record schemaHistoryEntry =
  hy_Version :: int
  hy_ID :: int
  hy_SchemaType :: string
  hy_Schema :: string
  hy_References :: "Reference list"

datatype dependencyNode =
  DependencyNode (dn_Subject: string) (dn_Version: int) (dn_Depth: int) (dn_Children: "dependencyNode list")

record exportedVersion =
  xv_Version :: int
  xv_ID :: int
  xv_SchemaType :: string
  xv_Schema :: string
  xv_References :: "Reference list"
  xv_Metadata :: "Metadata option"
  xv_RuleSet :: "RuleSet option"

record compatMultiResult =
  cm_Subject :: string
  cm_IsCompatible :: bool
  cm_Messages :: "string list"
  cm_Error :: "registry_error option"

record fieldDiff =
  fd_Field :: string
  fd_Change :: string
  fd_OldType :: string
  fd_NewType :: string

record compatExplanation =
  cx_Message :: string
  cx_Explanation :: string
  cx_Suggestion :: string

record fieldSchemaMatch =
  fm_Subject :: string
  fm_Field :: string
  fm_FieldType :: string
  fm_Path :: string
  fm_Score :: "go_float option"

record migrationStep =
  mp_Step :: int
  mp_Action :: string
  mp_Description :: string

datatype insight_body =
    ValidateJ ValidateResult | NormalizeJ NormalizeResult
  | NameCheckJ bool string string "string option"
  | SearchJ "search_match list" int
  | HistoryJ string "schemaHistoryEntry list" int
  | GraphJ dependencyNode
  | ExportVersionJ string exportedVersion "string option"
  | ExportSubjectJ string "exportedVersion list" int "string option"
  | RegistryStatsJ int int "(string, int) gomap" "int option" "int option"
  | CountOfJ "string option" int
  | MultiJ bool "compatMultiResult list"
  | DiffsJ string int int "fieldDiff list" int
  | CompareJ string string string string int int "string list" "fieldDiff list"
  | AdviceJ string string string "string list"
  | MatchesJ "string list" int
  | ExplainJ bool "(string \<times> compatExplanation list) option"
  | FieldMatchesJ "fieldSchemaMatch list" int
  | SimilarJ string "similar_schema list" int
  | QualityJ QualityResult
  | ConsistencyJ string bool "(string, int) gomap" "fieldSchemaMatch list" int
  | ComplexityJ int int int int string
  | PatternsJ int "(string, int) gomap" "(string \<times> int) list" "(string \<times> int) list" go_float int
  | SuggestJ jmap
  | PlanJ string int string "migrationStep list" int

section \<open>Validation\<close>

definition registerValidationTools :: "(string \<times> bool) list" where
  "registerValidationTools =
     [(''validate_schema'', True), (''normalize_schema'', True), (''validate_subject_name'', True), (''search_schemas'', True),
      (''get_schema_history'', True), (''get_dependency_graph'', True), (''export_schema'', True), (''export_subject'', True),
      (''get_registry_statistics'', True), (''count_versions'', True), (''count_subjects'', True)]"

definition handleValidateSchema ::
  "'p McpServer \<Rightarrow> Store \<Rightarrow> string \<Rightarrow> string \<Rightarrow> Reference list \<Rightarrow> string \<Rightarrow> insight_body tool_result" where
  "handleValidateSchema srv s schema schemaType refs ctx =
     Json (ValidateJ (Registry_ValidateSchema (ms_registry srv) s (resolveContext ctx) schema schemaType refs))"

definition handleNormalizeSchema ::
  "'p McpServer \<Rightarrow> Store \<Rightarrow> string \<Rightarrow> string \<Rightarrow> Reference list \<Rightarrow> string \<Rightarrow> insight_body tool_result" where
  "handleNormalizeSchema srv s schema schemaType refs ctx =
     answer_with OfRegistry NormalizeJ (Registry_NormalizeSchema (ms_registry srv) s (resolveContext ctx) schema schemaType refs)"

definition letter :: "char \<Rightarrow> bool" where
  "letter c \<longleftrightarrow> (let n = (of_char c :: nat) in (65 \<le> n \<and> n \<le> 90) \<or> (97 \<le> n \<and> n \<le> 122))"

definition digit :: "char \<Rightarrow> bool" where
  "digit c \<longleftrightarrow> (let n = (of_char c :: nat) in 48 \<le> n \<and> n \<le> 57)"

definition topic_char :: "char \<Rightarrow> bool" where
  "topic_char c \<longleftrightarrow> letter c \<or> digit c \<or> c \<in> {CHR ''.'', CHR ''_'', CHR ''-''}"

definition record_char :: "char \<Rightarrow> bool" where
  "record_char c \<longleftrightarrow> letter c \<or> digit c \<or> c \<in> {CHR ''.'', CHR ''_''}"

text \<open>\<open>[a-zA-Z0-9._-]+\<close> and \<open>[a-zA-Z_][a-zA-Z0-9_.]*\<close>.\<close>

definition topic_text :: "string \<Rightarrow> bool" where
  "topic_text s \<longleftrightarrow> s \<noteq> [] \<and> list_all topic_char s"

definition record_text :: "string \<Rightarrow> bool" where
  "record_text s \<longleftrightarrow> s \<noteq> [] \<and> (letter (hd s) \<or> hd s = CHR ''_'') \<and> list_all record_char (tl s)"

text \<open>
  A record name has no dash: in \<open>^[a-zA-Z0-9._-]+-[a-zA-Z_][a-zA-Z0-9_.]*$\<close> the dash between the two is
  the last one of the text.
\<close>

definition subjectNamePatterns :: "string \<Rightarrow> (string \<Rightarrow> bool) option" where
  "subjectNamePatterns = map_of
     [(''topic_name'', \<lambda>s. (HasSuffix s ''-key'' \<and> topic_text (take (length s - 4) s)) \<or>
                           (HasSuffix s ''-value'' \<and> topic_text (take (length s - 6) s))),
      (''record_name'', record_text),
      (''topic_record_name'', \<lambda>s. case LastIndexByte s (CHR ''-'') of
                                    None \<Rightarrow> False
                                  | Some i \<Rightarrow> topic_text (take i s) \<and> record_text (drop (i + 1) s))]"

definition handleValidateSubjectName :: "string \<Rightarrow> string \<Rightarrow> insight_body tool_result" where
  "handleValidateSubjectName subject strategy0 =
     (let strategy = (if strategy0 = [] then ''topic_name'' else strategy0)
      in case subjectNamePatterns strategy of
           None \<Rightarrow> Json (NameCheckJ False subject strategy
                      (Some ''unknown strategy; supported: topic_name, record_name, topic_record_name''))
         | Some pattern \<Rightarrow>
             Json (NameCheckJ (pattern subject) subject strategy
               (if \<not> pattern subject
                then Some (''subject name does not match the '' @ strategy @ '' naming strategy'') else None)))"

definition handleSearchSchemas ::
  "insight_env \<Rightarrow> Store \<Rightarrow> string \<Rightarrow> bool \<Rightarrow> int \<Rightarrow> string \<Rightarrow> insight_body tool_result" where
  "handleSearchSchemas env s pattern regex limit ctx =
     (let registryCtx = resolveContext ctx
      in case Store_ListSubjects s registryCtx False of
           Inl err \<Rightarrow> Error (OfStore err)
         | Inr subjects \<Rightarrow>
             (case compiled (ie_an env) regex pattern of
                Inl err \<Rightarrow> Error (Saying err)
              | Inr re \<Rightarrow>
                  (let matches = collect_until (clamp_limit 100 limit)
                         (from_latest s registryCtx (\<lambda>subj rec.
                            if (if regex then re (sr_Schema rec) else Contains (sr_Schema rec) pattern)
                            then [\<lparr>se_Subject = sr_Subject rec, se_Version = sr_Version rec,
                                   se_SchemaType = sr_SchemaType rec\<rparr>] else [])) subjects []
                   in Json (SearchJ matches (int (length matches))))))"

definition handleGetSchemaHistory :: "Store \<Rightarrow> string \<Rightarrow> string \<Rightarrow> insight_body tool_result" where
  "handleGetSchemaHistory s subject ctx =
     answer_with OfStore
       (\<lambda>schemas. HistoryJ subject
          (map (\<lambda>r. \<lparr>hy_Version = sr_Version r, hy_ID = sr_ID r, hy_SchemaType = sr_SchemaType r,
                     hy_Schema = sr_Schema r, hy_References = sr_References r\<rparr>) schemas) (int (length schemas)))
       (Store_GetSchemasBySubject s (resolveContext ctx) subject False)"

section \<open>The graph of dependencies\<close>

text \<open>
  The children of a node, with the map of the nodes already expanded.  The first argument is how many
  levels are left, \<open>maxDepth - node.Depth\<close>.
\<close>

definition node_key :: "string \<Rightarrow> int \<Rightarrow> string" where
  "node_key subject version = subject @ '':'' @ Itoa version"

fun buildDependencyTree ::
  "nat \<Rightarrow> Store \<Rightarrow> string \<Rightarrow> string \<Rightarrow> int \<Rightarrow> int \<Rightarrow> string list \<Rightarrow> string list \<times> dependencyNode list" where
  "buildDependencyTree 0 s registryCtx subject version depth seen = (seen, [])"
| "buildDependencyTree (Suc n) s registryCtx subject version depth seen =
     (if node_key subject version \<in> set seen then (seen, [])
      else let seen1 = node_key subject version # seen
           in case Store_GetReferencedBy s registryCtx subject version of
                Inl _ \<Rightarrow> (seen1, [])
              | Inr refs \<Rightarrow>
                  foldl (\<lambda>(seen', children) ref.
                    let (seen'', below) =
                          buildDependencyTree n s registryCtx (sv_Subject ref) (sv_Version ref) (depth + 1) seen'
                    in (seen'', children @ [DependencyNode (sv_Subject ref) (sv_Version ref) (depth + 1) below]))
                    (seen1, []) refs)"

definition handleGetDependencyGraph :: "Store \<Rightarrow> string \<Rightarrow> int \<Rightarrow> int \<Rightarrow> string \<Rightarrow> insight_body tool_result" where
  "handleGetDependencyGraph s subject version maxDepth0 ctx =
     (let maxDepth = (if maxDepth0 \<le> 0 then 10 else maxDepth0)
      in Json (GraphJ (DependencyNode subject version 0
           (snd (buildDependencyTree (nat maxDepth) s (resolveContext ctx) subject version 0 [])))))"

section \<open>Export and statistics\<close>

definition exported :: "SchemaRecord \<Rightarrow> exportedVersion" where
  "exported r =
     \<lparr>xv_Version = sr_Version r, xv_ID = sr_ID r, xv_SchemaType = sr_SchemaType r, xv_Schema = sr_Schema r,
      xv_References = sr_References r, xv_Metadata = sr_Metadata r, xv_RuleSet = sr_RuleSet r\<rparr>"

definition exported_level :: "'p McpServer \<Rightarrow> Store \<Rightarrow> string \<Rightarrow> string \<Rightarrow> string option" where
  "exported_level srv s registryCtx subject =
     (case Registry_GetConfigFull (ms_registry srv) s registryCtx subject of
        Inl _ \<Rightarrow> None | Inr config \<Rightarrow> Some (cf_CompatibilityLevel config))"

definition handleExportSchema :: "'p McpServer \<Rightarrow> Store \<Rightarrow> string \<Rightarrow> int \<Rightarrow> string \<Rightarrow> insight_body tool_result" where
  "handleExportSchema srv s subject version0 ctx =
     (let version = (if version0 \<le> 0 then -1 else version0); registryCtx = resolveContext ctx
      in answer_with OfStore
           (\<lambda>rec. ExportVersionJ (sr_Subject rec) (exported rec) (exported_level srv s registryCtx subject))
           (Store_GetSchemaBySubjectVersion s registryCtx subject version))"

definition handleExportSubject :: "'p McpServer \<Rightarrow> Store \<Rightarrow> string \<Rightarrow> string \<Rightarrow> insight_body tool_result" where
  "handleExportSubject srv s subject ctx =
     (let registryCtx = resolveContext ctx
      in answer_with OfStore
           (\<lambda>schemas. ExportSubjectJ subject (map exported schemas) (int (length schemas))
                        (exported_level srv s registryCtx subject))
           (Store_GetSchemasBySubject s registryCtx subject False))"

definition handleGetRegistryStatistics :: "'p McpServer \<Rightarrow> Store \<Rightarrow> string \<Rightarrow> insight_body tool_result" where
  "handleGetRegistryStatistics srv s ctx =
     (let registryCtx = resolveContext ctx
      in case Store_ListSubjects s registryCtx False of
           Inl err \<Rightarrow> Error (OfStore err)
         | Inr subjects \<Rightarrow>
             (let (totalVersions, typeCounts) =
                    fold (\<lambda>subj (n, counts).
                      case Registry_GetVersions (ms_registry srv) s registryCtx subj False of
                        Inl _ \<Rightarrow> (n, counts)
                      | Inr versions \<Rightarrow>
                          (n + int (length versions),
                           if versions \<noteq> []
                           then (case latest_of s registryCtx subj of
                                   None \<Rightarrow> counts | Some rec \<Rightarrow> count_up (sr_SchemaType rec) counts)
                           else counts)) subjects (0, gm_empty);
                  size = (\<lambda>res. case res of Inl _ \<Rightarrow> None | Inr xs \<Rightarrow> Some (int (length xs)))
              in Json (RegistryStatsJ (int (length subjects)) totalVersions typeCounts
                   (case Store_ListKEKs s False of Inl _ \<Rightarrow> None | Inr keks \<Rightarrow> Some (int (length keks)))
                   (size (Store_ListExporters s)))))"

definition handleCountVersions :: "'p McpServer \<Rightarrow> Store \<Rightarrow> string \<Rightarrow> string \<Rightarrow> insight_body tool_result" where
  "handleCountVersions srv s subject ctx =
     answer_with OfStore (\<lambda>versions. CountOfJ (Some subject) (int (length versions)))
       (Registry_GetVersions (ms_registry srv) s (resolveContext ctx) subject False)"

definition handleCountSubjects :: "Store \<Rightarrow> string \<Rightarrow> insight_body tool_result" where
  "handleCountSubjects s ctx =
     answer_with OfStore (\<lambda>subjects. CountOfJ None (int (length subjects))) (Store_ListSubjects s (resolveContext ctx) False)"

section \<open>Comparison\<close>

definition registerComparisonTools :: "(string \<times> bool) list" where
  "registerComparisonTools =
     [(''check_compatibility_multi'', True), (''diff_schemas'', True), (''compare_subjects'', True),
      (''suggest_compatible_change'', True), (''match_subjects'', True), (''explain_compatibility_failure'', True)]"

definition handleCheckCompatibilityMulti ::
  "'p McpServer \<Rightarrow> Store \<Rightarrow> string list \<Rightarrow> string \<Rightarrow> string \<Rightarrow> Reference list \<Rightarrow> string \<Rightarrow> insight_body tool_result" where
  "handleCheckCompatibilityMulti srv s subjects schema schemaType refs ctx =
     (let results = map (\<lambda>subj.
            case Registry_CheckCompatibility (ms_registry srv) s (resolveContext ctx) subj schema schemaType refs ''latest'' False of
              Inl err \<Rightarrow> \<lparr>cm_Subject = subj, cm_IsCompatible = False, cm_Messages = [], cm_Error = Some err\<rparr>
            | Inr result \<Rightarrow> \<lparr>cm_Subject = subj, cm_IsCompatible = re_IsCompatible result,
                             cm_Messages = re_Messages result, cm_Error = None\<rparr>) subjects
      in Json (MultiJ (list_all cm_IsCompatible results) results))"

definition path_map :: "FieldInfo list \<Rightarrow> (string, FieldInfo) gomap" where
  "path_map fs = gm_of_list (map (\<lambda>f. (fi_Path f, f)) fs)"

text \<open>A path occurs once among the differences, so that sorting by it leaves no choice.\<close>

definition old_diffs :: "(string, FieldInfo) gomap \<Rightarrow> (string, FieldInfo) gomap \<Rightarrow> fieldDiff list" where
  "old_diffs fromMap toMap =
     List.map_filter (\<lambda>(path, fOld).
       case gm_get toMap path of
         None \<Rightarrow> Some \<lparr>fd_Field = path, fd_Change = ''removed'', fd_OldType = fi_Type fOld, fd_NewType = []\<rparr>
       | Some fNew \<Rightarrow>
           if fi_Type fOld \<noteq> fi_Type fNew
           then Some \<lparr>fd_Field = path, fd_Change = ''modified'', fd_OldType = fi_Type fOld, fd_NewType = fi_Type fNew\<rparr>
           else None) (gm_entries fromMap)"

definition new_diffs :: "(string, FieldInfo) gomap \<Rightarrow> (string, FieldInfo) gomap \<Rightarrow> fieldDiff list" where
  "new_diffs fromMap toMap =
     map (\<lambda>(path, fNew). \<lparr>fd_Field = path, fd_Change = ''added'', fd_OldType = [], fd_NewType = fi_Type fNew\<rparr>)
       (filter (\<lambda>(path, _). gm_get fromMap path = None) (gm_entries toMap))"

definition computeFieldDiffs :: "FieldInfo list \<Rightarrow> FieldInfo list \<Rightarrow> fieldDiff list" where
  "computeFieldDiffs from to =
     (let fromMap = path_map from; toMap = path_map to
      in sort_key fd_Field (old_diffs fromMap toMap @ new_diffs fromMap toMap))"

definition handleDiffSchemas ::
  "insight_env \<Rightarrow> Store \<Rightarrow> string \<Rightarrow> int \<Rightarrow> int \<Rightarrow> string \<Rightarrow> insight_body tool_result" where
  "handleDiffSchemas env s subject versionFrom versionTo0 ctx =
     (let registryCtx = resolveContext ctx
      in case Store_GetSchemaBySubjectVersion s registryCtx subject versionFrom of
           Inl err \<Rightarrow> Error (AtVersion versionFrom err)
         | Inr recordFrom \<Rightarrow>
             (let versionTo = (if versionTo0 = 0 then -1 else versionTo0)
              in case Store_GetSchemaBySubjectVersion s registryCtx subject versionTo of
                   Inl err \<Rightarrow> Error (AtVersion versionTo err)
                 | Inr recordTo \<Rightarrow>
                     (let diffs = computeFieldDiffs (fields_of (ie_an env) recordFrom) (fields_of (ie_an env) recordTo)
                      in Json (DiffsJ subject versionFrom (sr_Version recordTo) diffs (int (length diffs))))))"

definition handleCompareSubjects ::
  "insight_env \<Rightarrow> Store \<Rightarrow> string \<Rightarrow> string \<Rightarrow> string \<Rightarrow> insight_body tool_result" where
  "handleCompareSubjects env s subjectA subjectB ctx =
     (let registryCtx = resolveContext ctx
      in case Store_GetLatestSchema s registryCtx subjectA of
           Inl err \<Rightarrow> Error (AtSubject subjectA err)
         | Inr recordA \<Rightarrow>
             (case Store_GetLatestSchema s registryCtx subjectB of
                Inl err \<Rightarrow> Error (AtSubject subjectB err)
              | Inr recordB \<Rightarrow>
                  (let fieldsA = fields_of (ie_an env) recordA; fieldsB = fields_of (ie_an env) recordB;
                       setA = gm_of_list (map (\<lambda>f. (fi_Path f, True)) fieldsA);
                       setB = gm_of_list (map (\<lambda>f. (fi_Path f, True)) fieldsB)
                   in Json (CompareJ subjectA subjectB (sr_SchemaType recordA) (sr_SchemaType recordB)
                        (int (length fieldsA)) (int (length fieldsB)) (sort (filter (gm_mem setB) (gm_keys setA)))
                        (computeFieldDiffs fieldsA fieldsB)))))"

text \<open>An arrow, as the bytes of its UTF-8 encoding.\<close>

definition arrow :: string where
  "arrow = [CHR 0xE2, CHR 0x86, CHR 0x92]"

definition none_advice :: "string list" where
  "none_advice = [''With NONE compatibility, any change is allowed.'']"

definition compatibilityAdvice :: "string \<Rightarrow> string \<Rightarrow> string list" where
  "compatibilityAdvice level changeType =
     (if changeType = ''add_field'' then
        (if Contains level ''BACKWARD''
         then [''New fields MUST have a default value for backward compatibility.'',
               ''Consumers using the old schema will ignore the new field.'']
         else if Contains level ''FORWARD''
         then [''New fields can be added freely in forward-compatible mode.'',
               ''However, old producers won'' @ [CHR 0x27] @ ''t populate the new field.'']
         else if Contains level ''FULL''
         then [''New fields MUST have a default value for full compatibility.'',
               ''Both old and new consumers/producers must handle the field'' @ [CHR 0x27] @ ''s presence or absence.'']
         else none_advice)
      else if changeType = ''remove_field'' then
        (if Contains level ''BACKWARD''
         then [''Removing fields is allowed in backward-compatible mode if the field had a default value.'',
               ''Consumers using the new schema must not depend on the removed field.'']
         else if Contains level ''FORWARD''
         then [''Removing fields is NOT forward-compatible. Old consumers still expect the field.'',
               ''Consider deprecating the field first by adding documentation.'']
         else if Contains level ''FULL''
         then [''Removing fields is only safe if the field had a default value.'',
               ''Ensure no consumers depend on the removed field.'']
         else none_advice)
      else if changeType = ''rename_field'' then
        [''Field renames are NOT directly compatible in any mode.'',
         ''Instead, add a new field with the desired name and a default value,'',
         ''then deprecate the old field. In Avro, use aliases for backward compatibility.'']
      else if changeType = ''change_type'' then
        [''Type changes are generally incompatible.'',
         ''Some promotions are allowed (e.g., int'' @ arrow @ ''long, float'' @ arrow @ ''double in Avro).'',
         ''For incompatible type changes, create a new field and deprecate the old one.'']
      else [''Supported change types: add_field, remove_field, rename_field, change_type''])"

definition handleSuggestCompatibleChange ::
  "'p McpServer \<Rightarrow> Store \<Rightarrow> string \<Rightarrow> string \<Rightarrow> string \<Rightarrow> insight_body tool_result" where
  "handleSuggestCompatibleChange srv s subject changeType ctx =
     (let level = (case Registry_GetConfig (ms_registry srv) s (resolveContext ctx) subject of
                     Inl _ \<Rightarrow> ''BACKWARD'' | Inr l \<Rightarrow> l)
      in Json (AdviceJ subject level changeType (compatibilityAdvice level changeType)))"

definition handleMatchSubjects :: "insight_env \<Rightarrow> Store \<Rightarrow> string \<Rightarrow> bool \<Rightarrow> string \<Rightarrow> insight_body tool_result" where
  "handleMatchSubjects env s pattern regex ctx =
     (case Store_ListSubjects s (resolveContext ctx) False of
        Inl err \<Rightarrow> Error (OfStore err)
      | Inr subjects \<Rightarrow>
          (case compiled (ie_an env) regex pattern of
             Inl err \<Rightarrow> Error (Saying err)
           | Inr re \<Rightarrow>
               (let matches = filter (\<lambda>subj. if regex then re subj else Contains subj pattern) subjects
                in Json (MatchesJ matches (int (length matches))))))"

definition explainMessage :: "unicode \<Rightarrow> string \<Rightarrow> string \<Rightarrow> compatExplanation" where
  "explainMessage u msg level =
     (let has = Contains (lower_text u msg);
          (explanation, suggestion) =
            (if has ''missing'' \<or> has ''removed''
             then (''A field was removed that consumers may still depend on.'',
                   ''Add a default value to the field before removing it, or keep the field and mark it as deprecated.'')
             else if has ''type'' \<and> (has ''change'' \<or> has ''mismatch'')
             then (''A field'' @ [CHR 0x27] @ ''s type was changed in a way that is not promotable.'',
                   ''Use type promotion (e.g., int'' @ arrow @ ''long) or add a new field with the desired type.'')
             else if has ''default''
             then (''A new field was added without a default value.'',
                   ''Add a default value to the new field so old data can be read with the new schema.'')
             else if has ''enum'' \<or> has ''symbol''
             then (''Enum symbols were changed in an incompatible way.'',
                   ''Only add new enum symbols; do not remove or rename existing ones.'')
             else (''The schema change violates the '' @ level @ '' compatibility contract.'',
                   ''Review the compatibility rules for '' @ level @ '' mode and adjust the schema accordingly.''))
      in \<lparr>cx_Message = msg, cx_Explanation = explanation, cx_Suggestion = suggestion\<rparr>)"

definition level_or_empty :: "'p McpServer \<Rightarrow> Store \<Rightarrow> string \<Rightarrow> string \<Rightarrow> string" where
  "level_or_empty srv s registryCtx subject =
     (case Registry_GetConfig (ms_registry srv) s registryCtx subject of Inl _ \<Rightarrow> [] | Inr level \<Rightarrow> level)"

definition handleExplainCompatibilityFailure ::
  "'p McpServer \<Rightarrow> insight_env \<Rightarrow> Store \<Rightarrow> string \<Rightarrow> string \<Rightarrow> string \<Rightarrow> Reference list \<Rightarrow> string \<Rightarrow> string \<Rightarrow>
     insight_body tool_result" where
  "handleExplainCompatibilityFailure srv env s subject schema schemaType refs version0 ctx =
     (let version = (if version0 = [] then ''latest'' else version0); registryCtx = resolveContext ctx
      in case Registry_CheckCompatibility (ms_registry srv) s registryCtx subject schema schemaType refs version False of
           Inl err \<Rightarrow> Error (OfRegistry err)
         | Inr result \<Rightarrow>
             if re_IsCompatible result then Json (ExplainJ True None)
             else (let level = level_or_empty srv s registryCtx subject
                   in Json (ExplainJ False (Some (level,
                        map (\<lambda>msg. explainMessage (an_unicode (ie_an env)) msg level) (re_Messages result))))))"

section \<open>Search and similarity\<close>

definition registerIntelligenceTools :: "(string \<times> bool) list" where
  "registerIntelligenceTools =
     [(''find_schemas_by_field'', True), (''find_schemas_by_type'', True), (''find_similar_schemas'', True),
      (''score_schema_quality'', True), (''check_field_consistency'', True), (''get_schema_complexity'', True),
      (''detect_schema_patterns'', True), (''suggest_schema_evolution'', True), (''plan_migration_path'', True)]"

text \<open>The fields of the latest schemas of the subjects that \<open>pick\<close> takes, each with what it is shown as.\<close>

definition latest_fields ::
  "insight_env \<Rightarrow> Store \<Rightarrow> string \<Rightarrow> string list \<Rightarrow> (string \<Rightarrow> FieldInfo \<Rightarrow> 'm option) \<Rightarrow> 'm list" where
  "latest_fields env s registryCtx subjects pick =
     concat (map (from_latest s registryCtx (\<lambda>subj rec. List.map_filter (pick subj) (fields_of (ie_an env) rec))) subjects)"

definition maxResults :: nat where
  "maxResults = 1000"

definition field_match_of :: "string \<Rightarrow> FieldInfo \<Rightarrow> go_float option \<Rightarrow> fieldSchemaMatch" where
  "field_match_of subj f score =
     \<lparr>fm_Subject = subj, fm_Field = fi_Name f, fm_FieldType = fi_Type f, fm_Path = fi_Path f, fm_Score = score\<rparr>"

text \<open>
  Both searches leave their loops when they have \<open>maxResults\<close> matches, in the middle of a schema if need be.
\<close>

definition handleFindSchemasByField ::
  "insight_env \<Rightarrow> Store \<Rightarrow> string \<Rightarrow> string \<Rightarrow> go_float \<Rightarrow> string \<Rightarrow> insight_body tool_result" where
  "handleFindSchemasByField env s field matchType0 threshold0 ctx =
     (let registryCtx = resolveContext ctx; u = an_unicode (ie_an env)
      in case Store_ListSubjects s registryCtx False of
           Inl err \<Rightarrow> Error (OfStore err)
         | Inr subjects \<Rightarrow>
             (let matchType = (if matchType0 = [] then ''exact'' else matchType0);
                  threshold = clamp_threshold (round_f64 (7 / 10)) threshold0
              in case compiled (ie_an env) (matchType = ''regex'') field of
                   Inl err \<Rightarrow> Error (Saying err)
                 | Inr re \<Rightarrow>
                     (let pick = (\<lambda>subj f.
                            if matchType = ''exact''
                            then (if EqualFold u (fi_Name f) field then Some (field_match_of subj f None) else None)
                            else if matchType = ''fuzzy''
                            then (let score = FuzzyScore u field (fi_Name f)
                                  in if f_ge score threshold then Some (field_match_of subj f (Some score)) else None)
                            else if matchType = ''regex''
                            then (if re (fi_Name f) then Some (field_match_of subj f None) else None)
                            else None);
                          matches = take maxResults (latest_fields env s registryCtx subjects pick)
                      in Json (FieldMatchesJ matches (int (length matches))))))"

definition handleFindSchemasByType ::
  "insight_env \<Rightarrow> Store \<Rightarrow> string \<Rightarrow> bool \<Rightarrow> string \<Rightarrow> insight_body tool_result" where
  "handleFindSchemasByType env s typePattern regex ctx =
     (let registryCtx = resolveContext ctx
      in case Store_ListSubjects s registryCtx False of
           Inl err \<Rightarrow> Error (OfStore err)
         | Inr subjects \<Rightarrow>
             (case compiled (ie_an env) regex typePattern of
                Inl err \<Rightarrow> Error (Saying err)
              | Inr re \<Rightarrow>
                  (let pick = (\<lambda>subj f.
                         if (if regex then re (fi_Type f) else EqualFold (an_unicode (ie_an env)) (fi_Type f) typePattern)
                         then Some (field_match_of subj f None) else None);
                       matches = take maxResults (latest_fields env s registryCtx subjects pick)
                   in Json (FieldMatchesJ matches (int (length matches))))))"

text \<open>Jaccard similarity, the union counted as \<open>len(a) + len(b) - intersect\<close>.\<close>

definition jaccard :: "(string, bool) gomap \<Rightarrow> (string, bool) gomap \<Rightarrow> (go_float \<times> string list) option" where
  "jaccard source other =
     (let common = filter (gm_mem other) (gm_keys source); shared = int (length common);
          union = int (length (gm_keys source)) + int (length (gm_keys other)) - shared
      in if union = 0 then None else Some (f_div (f_of_int shared) (f_of_int union), sort common))"

definition handleFindSimilarSchemas ::
  "insight_env \<Rightarrow> Store \<Rightarrow> string \<Rightarrow> go_float \<Rightarrow> string \<Rightarrow> insight_body tool_result" where
  "handleFindSimilarSchemas env s subject threshold0 ctx =
     (let threshold = clamp_threshold (round_f64 (3 / 10)) threshold0; registryCtx = resolveContext ctx; e = ie_an env
      in case Store_GetLatestSchema s registryCtx subject of
           Inl err \<Rightarrow> Error (OfStore err)
         | Inr rec \<Rightarrow>
             (let sourceSet = name_set e (fields_of e rec)
              in case Store_ListSubjects s registryCtx False of
                   Inl err \<Rightarrow> Error (OfStore err)
                 | Inr subjects \<Rightarrow>
                     (let matches = concat (map (from_latest s registryCtx (\<lambda>subj other.
                            case jaccard sourceSet (name_set e (fields_of e other)) of
                              None \<Rightarrow> []
                            | Some (sim, common) \<Rightarrow>
                                if f_ge sim threshold
                                then [\<lparr>si_Subject = subj, si_Similarity = sim, si_Shared = common\<rparr>] else []))
                            (filter (\<lambda>subj. subj \<noteq> subject) subjects));
                          sorted = sort_key (\<lambda>m. - f_val (si_Similarity m)) (ie_similar env matches)
                      in Json (SimilarJ subject sorted (int (length sorted))))))"

section \<open>Quality, consistency, complexity\<close>

text \<open>The schema given, or the latest one of the subject.\<close>

definition given_schema ::
  "Store \<Rightarrow> string \<Rightarrow> string \<Rightarrow> string \<Rightarrow> string \<Rightarrow> (string \<Rightarrow> SchemaType \<Rightarrow> insight_body) \<Rightarrow> insight_body tool_result" where
  "given_schema s subject schema schemaType ctx body =
     (case (if subject \<noteq> [] \<and> schema = []
            then (case Store_GetLatestSchema s (resolveContext ctx) subject of
                    Inl err \<Rightarrow> Inl err | Inr rec \<Rightarrow> Inr (sr_Schema rec, sr_SchemaType rec))
            else Inr (schema, schemaType)) of
        Inl err \<Rightarrow> Error (OfStore err)
      | Inr (schemaStr, st) \<Rightarrow>
          if schemaStr = [] then Error (Saying ''missing required input: schema or subject'')
          else Json (body schemaStr st))"

definition handleScoreSchemaQuality ::
  "insight_env \<Rightarrow> Store \<Rightarrow> string \<Rightarrow> string \<Rightarrow> string \<Rightarrow> string \<Rightarrow> insight_body tool_result" where
  "handleScoreSchemaQuality env s subject schema schemaType ctx =
     given_schema s subject schema schemaType ctx (\<lambda>schemaStr st.
       QualityJ (ScoreSchemaQuality (ie_scores env) (an_unicode (ie_an env)) (ExtractFields (ie_an env) schemaStr st) schemaStr))"

definition handleCheckFieldConsistency :: "insight_env \<Rightarrow> Store \<Rightarrow> string \<Rightarrow> string \<Rightarrow> insight_body tool_result" where
  "handleCheckFieldConsistency env s field ctx =
     (let registryCtx = resolveContext ctx; u = an_unicode (ie_an env)
      in case Store_ListSubjects s registryCtx False of
           Inl err \<Rightarrow> Error (OfStore err)
         | Inr subjects \<Rightarrow>
             (let usages = latest_fields env s registryCtx subjects (\<lambda>subj f.
                    if EqualFold u (NormalizeFieldName u (fi_Name f)) (NormalizeFieldName u field)
                    then Some (field_match_of subj f None) else None);
                  typeCounts = fold (\<lambda>us. count_up (fm_FieldType us)) usages gm_empty
              in Json (ConsistencyJ field (length (gm_keys typeCounts) \<le> 1) typeCounts usages (int (length usages)))))"

definition parent_paths :: "FieldInfo list \<Rightarrow> (string, bool) gomap" where
  "parent_paths fs =
     gm_of_list (List.map_filter (\<lambda>f. case LastIndexByte (fi_Path f) (CHR ''.'') of
                                        Some idx \<Rightarrow> if idx > 0 then Some (take idx (fi_Path f), True) else None
                                      | None \<Rightarrow> None) fs)"

definition handleGetSchemaComplexity ::
  "insight_env \<Rightarrow> Store \<Rightarrow> string \<Rightarrow> string \<Rightarrow> string \<Rightarrow> string \<Rightarrow> insight_body tool_result" where
  "handleGetSchemaComplexity env s subject schema schemaType ctx =
     given_schema s subject schema schemaType ctx (\<lambda>schemaStr st.
       let fs = ExtractFields (ie_an env) schemaStr st
       in ComplexityJ (int (length fs)) (max_depth fs) (int (length (filter (\<lambda>f. HasPrefix (fi_Type f) ''union['') fs)))
            (int (length (gm_keys (parent_paths fs)))) (complexity_grade (int (length fs)) (max_depth fs)))"

section \<open>Patterns\<close>

record pattern_counts =
  pc_suffixes :: "(string, int) gomap"
  pc_types :: "(string, int) gomap"
  pc_fields :: "(string, int) gomap"
  pc_versions :: int
  pc_multi :: int

definition count_suffix :: "string \<Rightarrow> pattern_counts \<Rightarrow> pattern_counts" where
  "count_suffix subj pc =
     (let parts = SplitByte subj (CHR ''-'')
      in if length parts > 1 then pc\<lparr>pc_suffixes := count_up (last parts) (pc_suffixes pc)\<rparr> else pc)"

definition count_subject ::
  "insight_env \<Rightarrow> 'p McpServer \<Rightarrow> Store \<Rightarrow> string \<Rightarrow> string \<Rightarrow> pattern_counts \<Rightarrow> pattern_counts" where
  "count_subject env srv s registryCtx subj pc0 =
     (let pc1 = count_suffix subj pc0
      in case Registry_GetVersions (ms_registry srv) s registryCtx subj False of
           Inl _ \<Rightarrow> pc1
         | Inr versions \<Rightarrow>
             (let pc2 = pc1\<lparr>pc_versions := pc_versions pc1 + int (length versions),
                            pc_multi := pc_multi pc1 + (if length versions > 1 then 1 else 0)\<rparr>
              in case latest_of s registryCtx subj of
                   None \<Rightarrow> pc2
                 | Some rec \<Rightarrow>
                     pc2\<lparr>pc_types := count_up (sr_SchemaType rec) (pc_types pc2),
                         pc_fields := fold count_up
                           (remdups (map (\<lambda>f. NormalizeFieldName (an_unicode (ie_an env)) (fi_Name f))
                              (fields_of (ie_an env) rec))) (pc_fields pc2)\<rparr>))"

definition frequent :: "insight_env \<Rightarrow> int \<Rightarrow> (string, int) gomap \<Rightarrow> (string \<times> int) list" where
  "frequent env threshold counts =
     sort_key (\<lambda>(_, n). - n) (filter (\<lambda>(_, n). n \<ge> threshold) (an_counts (ie_an env) (gm_entries counts)))"

definition handleDetectSchemaPatterns ::
  "'p McpServer \<Rightarrow> insight_env \<Rightarrow> Store \<Rightarrow> string \<Rightarrow> insight_body tool_result" where
  "handleDetectSchemaPatterns srv env s ctx =
     (let registryCtx = resolveContext ctx
      in case Store_ListSubjects s registryCtx False of
           Inl err \<Rightarrow> Error (OfStore err)
         | Inr subjects \<Rightarrow>
             (let pc = fold (count_subject env srv s registryCtx) subjects
                         \<lparr>pc_suffixes = gm_empty, pc_types = gm_empty, pc_fields = gm_empty, pc_versions = 0, pc_multi = 0\<rparr>;
                  n = int (length subjects); threshold = max 2 (n * 3 div 10)
              in Json (PatternsJ n (pc_types pc) (frequent env 2 (pc_suffixes pc)) (frequent env threshold (pc_fields pc))
                   (if n > 0 then f_div (f_of_int (pc_versions pc)) (f_of_int n) else Fin 0) (pc_multi pc))))"

section \<open>Suggestions\<close>

definition suggestAddField :: "SchemaType \<Rightarrow> string \<Rightarrow> string \<Rightarrow> string \<Rightarrow> jmap" where
  "suggestAddField schemaType level fieldName0 fieldType0 =
     (let fieldName = (if fieldName0 = [] then ''new_field'' else fieldName0);
          fieldType = (if fieldType0 = [] then ''string'' else fieldType0);
          needsDefault = Contains level ''BACKWARD'' \<or> Contains level ''FULL'';
          q = [CHR 0x22];
          rest = (if schemaType = SchemaTypeAvro
                  then (if needsDefault
                        then [(''advice'', JStr (''Add with default value for '' @ level @ '' compatibility'')),
                              (''snippet'', JStr (''{'' @ q @ ''name'' @ q @ '':'' @ q @ fieldName @ q @ '','' @ q @ ''type'' @ q @
                                 '':['' @ q @ ''null'' @ q @ '','' @ q @ fieldType @ q @ ''],'' @ q @ ''default'' @ q @ '':null}''))]
                        else [(''advice'', JStr (''Add without default since compatibility level is '' @ level)),
                              (''snippet'', JStr (''{'' @ q @ ''name'' @ q @ '':'' @ q @ fieldName @ q @ '','' @ q @ ''type'' @ q @
                                 '':'' @ q @ fieldType @ q @ ''}''))])
                  else if schemaType = SchemaTypeJSON
                  then [(''advice'', JStr ''Add to properties; do not add to required array if backward-compatible''),
                        (''snippet'', JStr (q @ fieldName @ q @ '':{'' @ q @ ''type'' @ q @ '':'' @ q @ fieldType @ q @ ''}''))]
                  else if schemaType = SchemaTypeProtobuf
                  then [(''advice'', JStr ''Add with a new unique field number''),
                        (''snippet'', JStr (fieldType @ '' '' @ fieldName @ '' = <next_number>;''))]
                  else [])
      in [(''change_type'', JStr ''add_field''), (''field_name'', JStr fieldName), (''field_type'', JStr fieldType)] @ rest)"

definition suggestDeprecateField :: "SchemaType \<Rightarrow> string \<Rightarrow> jmap" where
  "suggestDeprecateField schemaType fieldName =
     (let q = [CHR 0x22]; strs = (\<lambda>xs. JArr (map JStr xs));
          rest = (if schemaType = SchemaTypeAvro
                  then [(''advice'', JStr ''Add @deprecated to doc, add aliases for future rename, set default value''),
                        (''steps'', strs
                          [''1. Add '' @ q @ ''doc'' @ q @ '': '' @ q @ ''@deprecated Use new_field instead'' @ q @ '' to the field'',
                           ''2. Add a default value if one doesn'' @ [CHR 0x27] @ ''t exist'',
                           ''3. In a future version, the field can be removed after all consumers migrate''])]
                  else if schemaType = SchemaTypeJSON
                  then [(''advice'', JStr ''Mark as deprecated in description, remove from required array''),
                        (''steps'', strs
                          [''1. Add '' @ q @ ''deprecated'' @ q @ '': true to the field'' @ [CHR 0x27] @ ''s schema'',
                           ''2. Remove the field from the '' @ q @ ''required'' @ q @ '' array if present'',
                           ''3. Add '' @ q @ ''description'' @ q @ '': '' @ q @ ''Deprecated: use new_field instead'' @ q])]
                  else if schemaType = SchemaTypeProtobuf
                  then [(''advice'', JStr ''Use the deprecated option on the field''),
                        (''steps'', strs
                          [''1. Add [deprecated = true] option to the field'', ''2. Add a comment explaining the migration path''])]
                  else [])
      in [(''change_type'', JStr ''deprecate_field''), (''field_name'', JStr fieldName)] @ rest)"

definition suggestAddEnumSymbol :: "SchemaType \<Rightarrow> string \<Rightarrow> jmap" where
  "suggestAddEnumSymbol schemaType symbol0 =
     (let symbol = (if symbol0 = [] then ''NEW_SYMBOL'' else symbol0);
          rest = (if schemaType = SchemaTypeAvro
                  then [(''advice'', JStr ''Add the new symbol to the end of the symbols array. This is backward-compatible.''),
                        (''note'', JStr ''Never remove or reorder existing symbols.'')]
                  else if schemaType = SchemaTypeProtobuf
                  then [(''advice'', JStr ''Add the new value to the enum with the next available number.''),
                        (''note'', JStr ''Never reuse field numbers from removed enum values.'')]
                  else [(''advice'', JStr ''Add the new value to the enum array.'')])
      in [(''change_type'', JStr ''add_enum_symbol''), (''symbol'', JStr symbol)] @ rest)"

definition handleSuggestSchemaEvolution ::
  "'p McpServer \<Rightarrow> Store \<Rightarrow> string \<Rightarrow> string \<Rightarrow> string \<Rightarrow> string \<Rightarrow> string \<Rightarrow> string \<Rightarrow> insight_body tool_result" where
  "handleSuggestSchemaEvolution srv s subject changeType fieldName fieldType enumSymbol ctx =
     (let registryCtx = resolveContext ctx
      in case Store_GetLatestSchema s registryCtx subject of
           Inl err \<Rightarrow> Error (OfStore err)
         | Inr rec \<Rightarrow>
             (let level = level_or_empty srv s registryCtx subject;
                  suggestion =
                    (if changeType = ''add_field'' then Some (suggestAddField (sr_SchemaType rec) level fieldName fieldType)
                     else if changeType = ''deprecate_field'' then Some (suggestDeprecateField (sr_SchemaType rec) fieldName)
                     else if changeType = ''add_enum_symbol'' then Some (suggestAddEnumSymbol (sr_SchemaType rec) enumSymbol)
                     else None)
              in case suggestion of
                   None \<Rightarrow>
                     Json (SuggestJ [(''error'', JStr ''unsupported change_type''),
                       (''supported_types'', JArr (map JStr [''add_field'', ''deprecate_field'', ''add_enum_symbol'']))])
                 | Some m \<Rightarrow>
                     Json (SuggestJ (m @ [(''subject'', JStr subject), (''current_version'', JInt (sr_Version rec)),
                                          (''compatibility_level'', JStr level)]))))"

section \<open>Migration plans\<close>

definition add_steps :: "insight_env \<Rightarrow> string \<Rightarrow> (string, FieldInfo) gomap \<Rightarrow> (string, FieldInfo) gomap \<Rightarrow> (string \<times> string) list" where
  "add_steps env level sourceMap targetMap =
     map (\<lambda>(path, tField). (''add_field'',
       ''Add field '' @ [CHR 0x27] @ path @ [CHR 0x27] @ '' of type '' @ [CHR 0x27] @ fi_Type tField @ [CHR 0x27] @
       (if Contains level ''BACKWARD'' \<or> Contains level ''FULL'' then '' with a default value'' else [])))
       (filter (\<lambda>(path, _). gm_get sourceMap path = None) (ie_fields env 0 (gm_entries targetMap)))"

definition change_steps :: "insight_env \<Rightarrow> (string, FieldInfo) gomap \<Rightarrow> (string, FieldInfo) gomap \<Rightarrow> (string \<times> string) list" where
  "change_steps env sourceMap targetMap =
     List.map_filter (\<lambda>(path, sField).
       case gm_get targetMap path of
         None \<Rightarrow> None
       | Some tField \<Rightarrow>
           if fi_Type sField \<noteq> fi_Type tField
           then Some (''change_type'',
             ''Change type of '' @ [CHR 0x27] @ path @ [CHR 0x27] @ '' from '' @ [CHR 0x27] @ fi_Type sField @ [CHR 0x27] @
             '' to '' @ [CHR 0x27] @ fi_Type tField @ [CHR 0x27] @
             ''. Consider adding a new field instead if this is not a type promotion.'')
           else None) (ie_fields env 1 (gm_entries sourceMap))"

definition remove_steps :: "insight_env \<Rightarrow> (string, FieldInfo) gomap \<Rightarrow> (string, FieldInfo) gomap \<Rightarrow> (string \<times> string) list" where
  "remove_steps env sourceMap targetMap =
     map (\<lambda>(path, _). (''remove_field'',
       ''Remove field '' @ [CHR 0x27] @ path @ [CHR 0x27] @
       ''. Deprecate it first if not already deprecated. Ensure no consumers depend on it.''))
       (filter (\<lambda>(path, _). gm_get targetMap path = None) (ie_fields env 2 (gm_entries sourceMap)))"

definition numbered_steps :: "(string \<times> string) list \<Rightarrow> migrationStep list" where
  "numbered_steps steps =
     map (\<lambda>(n, action, desc). \<lparr>mp_Step = int n, mp_Action = action, mp_Description = desc\<rparr>)
       (zip [1..<length steps + 1] steps)"

definition handlePlanMigrationPath ::
  "'p McpServer \<Rightarrow> insight_env \<Rightarrow> Store \<Rightarrow> string \<Rightarrow> string \<Rightarrow> string \<Rightarrow> string \<Rightarrow> insight_body tool_result" where
  "handlePlanMigrationPath srv env s subject targetSchema schemaType0 ctx =
     (let registryCtx = resolveContext ctx
      in case Store_GetLatestSchema s registryCtx subject of
           Inl err \<Rightarrow> Error (OfStore err)
         | Inr rec \<Rightarrow>
             (let schemaType = (if schemaType0 \<noteq> [] then schemaType0 else sr_SchemaType rec);
                  level = level_or_empty srv s registryCtx subject;
                  sourceMap = path_map (ExtractFields (ie_an env) (sr_Schema rec) schemaType);
                  targetMap = path_map (ExtractFields (ie_an env) targetSchema schemaType);
                  steps = numbered_steps (add_steps env level sourceMap targetMap @ change_steps env sourceMap targetMap @
                                    remove_steps env sourceMap targetMap)
              in Json (PlanJ subject (sr_Version rec) level steps (int (length steps)))))"


end
