(* ===== verification/Mcp_Metrics.thy ===== *)
theory Mcp_Metrics
  imports Mcp_Server
begin

text \<open>
  The tools that show metrics (\<open>internal/mcp/tools_metrics.go\<close>).  They read the text the metrics handler
  renders, which is a parameter, line by line.  The text of a line break is the byte 10; \<open>quote\<close> is \<open>%q\<close>.
\<close>

section \<open>Lines\<close>

definition newline :: string where
  "newline = [CHR 0x0A]"

definition registerMetricsTools :: "(string \<times> bool) list" where
  "registerMetricsTools =
     [(''get_metrics_summary'', True), (''get_metrics_by_category'', True), (''query_metric'', True), (''list_metrics'', True)]"

definition parseMetricLines :: "string \<Rightarrow> string list" where
  "parseMetricLines text = filter (\<lambda>line. line \<noteq> []) (SplitByte text (CHR 0x0A))"

text \<open>A sample line is one that is not a comment.\<close>

definition sample_line :: "string \<Rightarrow> bool" where
  "sample_line line \<longleftrightarrow> \<not> HasPrefix line ''#''"

definition backtick :: string where
  "backtick = [CHR 0x60]"

definition writeMetricValue :: "string list \<Rightarrow> string \<Rightarrow> string \<Rightarrow> string" where
  "writeMetricValue lines' name desc =
     ''- **'' @ desc @ ''**: '' @ name @ '' = '' @
     (case List.find (\<lambda>line. sample_line line \<and> (HasPrefix line (name @ '' '') \<or> HasPrefix line (name @ ''{''))) lines' of
        Some line \<Rightarrow> backtick @ TrimPrefix line (name @ '' '') @ backtick
      | None \<Rightarrow> ''(not yet initialized)'') @ newline"

definition writeMatchingMetrics :: "string list \<Rightarrow> string \<Rightarrow> string" where
  "writeMatchingMetrics lines' prefix =
     concat (map (\<lambda>line. ''- '' @ backtick @ line @ backtick @ newline)
       (filter (\<lambda>line. sample_line line \<and> HasPrefix line prefix) lines'))"

section \<open>The summary\<close>

text \<open>A section of the summary: its heading, then what it shows; an empty line follows all but the last.\<close>

definition summary_section :: "string \<Rightarrow> string list \<Rightarrow> string" where
  "summary_section heading parts = ''## '' @ heading @ newline @ concat parts"

definition handleGetMetricsSummary :: "string \<Rightarrow> 'b tool_result" where
  "handleGetMetricsSummary metricsText =
     (let lines' = parseMetricLines metricsText; val = writeMetricValue lines'; like = writeMatchingMetrics lines'
      in Plain (''# Schema Registry Metrics Summary'' @ newline @ newline @
           Join
             [summary_section ''Wire-Compatible Counters''
                [''These counters use the '' @ backtick @ ''kafka_schema_registry_'' @ backtick @
                 '' prefix for Grafana dashboard compatibility.'' @ newline,
                 val ''kafka_schema_registry_registered_count'' ''Schemas registered (total)'',
                 val ''kafka_schema_registry_deleted_count'' ''Schemas deleted (total)'',
                 val ''kafka_schema_registry_api_success_count'' ''Successful API calls (2xx/3xx)'',
                 val ''kafka_schema_registry_api_failure_count'' ''Failed API calls (4xx/5xx)'',
                 val ''kafka_schema_registry_master_slave_role'' ''Leader role (1=leader, 0=follower)'',
                 val ''kafka_schema_registry_node_count'' ''Cluster node count''],
              summary_section ''Schema Counts by Type''
                [like ''kafka_schema_registry_schemas_created'', like ''kafka_schema_registry_schemas_deleted''],
              summary_section ''Request Metrics''
                [val ''schema_registry_requests_in_flight'' ''Requests in flight'', like ''schema_registry_requests_total''],
              summary_section ''Schema Metrics''
                [like ''schema_registry_schemas_total'', val ''schema_registry_subjects_total'' ''Total subjects'',
                 like ''schema_registry_registrations_total''],
              summary_section ''Compatibility Metrics''
                [like ''schema_registry_compatibility_checks_total'', like ''schema_registry_compatibility_errors_total''],
              summary_section ''Storage Metrics''
                [like ''schema_registry_storage_operations_total'', like ''schema_registry_storage_errors_total''],
              summary_section ''Cache Metrics''
                [like ''schema_registry_cache_hits_total'', like ''schema_registry_cache_misses_total'',
                 like ''schema_registry_cache_size''],
              summary_section ''Auth Metrics''
                [like ''schema_registry_auth_attempts_total'', like ''schema_registry_auth_failures_total''],
              summary_section ''Rate Limit Metrics'' [like ''schema_registry_rate_limit_hits_total''],
              summary_section ''MCP Metrics''
                [val ''schema_registry_mcp_tool_calls_active'' ''Active MCP tool calls'',
                 like ''schema_registry_mcp_tool_calls_total'', like ''schema_registry_mcp_tool_call_errors_total'',
                 like ''schema_registry_mcp_confirmations_total'', like ''schema_registry_mcp_policy_denials_total'',
                 like ''schema_registry_mcp_permission_denied_total''],
              summary_section ''Per-Principal Metrics''
                [like ''schema_registry_principal_requests_total'', like ''schema_registry_principal_mcp_calls_total'']]
             newline))"

section \<open>One category\<close>

definition categoryPrefixes :: "(string \<times> string list) list" where
  "categoryPrefixes =
     [(''request'', [''schema_registry_request'']),
      (''schema'', [''schema_registry_schema'', ''schema_registry_subject'', ''schema_registry_registration'']),
      (''compatibility'', [''schema_registry_compatibility'']),
      (''storage'', [''schema_registry_storage'']),
      (''cache'', [''schema_registry_cache'']),
      (''auth'', [''schema_registry_auth'']),
      (''rate_limit'', [''schema_registry_rate_limit'']),
      (''mcp'', [''schema_registry_mcp'']),
      (''principal'', [''schema_registry_principal'']),
      (''wire_compatible'', [''kafka_schema_registry_'']),
      (''runtime'', [''go_'']),
      (''process'', [''process_''])]"

text \<open>
  \<open>strings.Title\<close> of a category: its names begin with a lower-case letter and are one word, for an
  underscore does not separate words.
\<close>

definition category_title :: "string \<Rightarrow> string" where
  "category_title category =
     map (\<lambda>c. if c = CHR ''_'' then CHR '' '' else c) (case category of [] \<Rightarrow> [] | c # cs \<Rightarrow> upper_byte c # cs)"

definition handleGetMetricsByCategory :: "(string \<Rightarrow> string) \<Rightarrow> string \<Rightarrow> string \<Rightarrow> 'b tool_result" where
  "handleGetMetricsByCategory quote metricsText category =
     (let cats = Join (sort (map fst categoryPrefixes)) '', ''
      in if category = [] then Error (Saying (''category is required. Valid categories: '' @ cats))
         else case map_of categoryPrefixes category of
                None \<Rightarrow> Error (Saying (''unknown category '' @ quote category @ ''. Valid categories: '' @ cats))
              | Some prefixes \<Rightarrow>
                  (let matches = filter (\<lambda>line. list_ex (\<lambda>prefix.
                         HasPrefix line prefix \<or> (HasPrefix line ''# '' \<and> Contains line prefix)) prefixes)
                         (parseMetricLines metricsText)
                   in if matches = []
                      then Plain (''No metrics found for category '' @ quote category @
                             ''. Metrics in this category may not have been initialized yet '' @
                             ''(counters appear after their first increment).'')
                      else Plain (''# '' @ category_title category @ '' Metrics'' @ newline @ newline @
                             concat (map (\<lambda>line. line @ newline) matches))))"

definition handleQueryMetric :: "(string \<Rightarrow> string) \<Rightarrow> string \<Rightarrow> string \<Rightarrow> 'b tool_result" where
  "handleQueryMetric quote metricsText name =
     (if name = [] then Error (Saying ''metric name is required'')
      else let matches = filter (\<lambda>line. Contains line name) (parseMetricLines metricsText)
           in if matches = [] then Error (Saying (''no metrics found matching '' @ quote name))
              else Plain (Join matches newline))"

section \<open>All metrics\<close>

definition metric_name :: "string \<Rightarrow> string" where
  "metric_name line = takeWhile (\<lambda>c. c \<noteq> CHR ''{'' \<and> c \<noteq> CHR '' '') line"

definition metric_category :: "string \<Rightarrow> string" where
  "metric_category name =
     (if HasPrefix name ''kafka_schema_registry_'' then ''Wire-Compatible''
      else if HasPrefix name ''schema_registry_request'' then ''Request''
      else if HasPrefix name ''schema_registry_schema'' \<or> HasPrefix name ''schema_registry_subject'' \<or>
              HasPrefix name ''schema_registry_registration'' then ''Schema''
      else if HasPrefix name ''schema_registry_compatibility'' then ''Compatibility''
      else if HasPrefix name ''schema_registry_storage'' then ''Storage''
      else if HasPrefix name ''schema_registry_cache'' then ''Cache''
      else if HasPrefix name ''schema_registry_auth'' then ''Auth''
      else if HasPrefix name ''schema_registry_rate_limit'' then ''Rate Limit''
      else if HasPrefix name ''schema_registry_mcp'' then ''MCP''
      else if HasPrefix name ''schema_registry_principal'' then ''Principal''
      else if HasPrefix name ''go_'' then ''Go Runtime''
      else if HasPrefix name ''process_'' then ''Process''
      else ''Other'')"

definition metric_categories :: "string list" where
  "metric_categories =
     [''Wire-Compatible'', ''Request'', ''Schema'', ''Compatibility'', ''Storage'', ''Cache'', ''Auth'', ''Rate Limit'',
      ''MCP'', ''Principal'', ''Go Runtime'', ''Process'', ''Other'']"

text \<open>The names of the samples, sorted, each once.\<close>

definition metric_names :: "string \<Rightarrow> string list" where
  "metric_names metricsText =
     sort (remdups (map metric_name (filter sample_line (parseMetricLines metricsText))))"

definition listed_in :: "string \<Rightarrow> string \<Rightarrow> string list" where
  "listed_in metricsText cat = filter (\<lambda>name. metric_category name = cat) (metric_names metricsText)"

definition handleListMetrics :: "string \<Rightarrow> 'b tool_result" where
  "handleListMetrics metricsText =
     Plain (''# Available Metrics'' @ newline @ newline @
       concat (map (\<lambda>cat.
         let metricList = listed_in metricsText cat
         in if metricList = [] then []
            else ''## '' @ cat @ '' ('' @ Itoa (int (length metricList)) @ '')'' @ newline @
                 concat (map (\<lambda>m. ''- '' @ m @ newline) metricList) @ newline) metric_categories))"

lemma if_in: "x \<in> A \<Longrightarrow> y \<in> A \<Longrightarrow> (if b then x else y) \<in> A"
  by simp

lemma category_known: "metric_category name \<in> set metric_categories"
  unfolding metric_category_def by (intro if_in) (simp_all add: metric_categories_def)

text \<open>Every metric is listed, in one category.\<close>

lemma categories_partition:
  assumes "name \<in> set (metric_names text)"
  shows "\<exists>!cat. cat \<in> set metric_categories \<and> name \<in> set (listed_in text cat)"
  using assms category_known [of name] by (auto simp: listed_in_def)

end
