(* ===== verification/Mcp_Dispatch.thy ===== *)
theory Mcp_Dispatch
  imports Mcp_Tools Mcp_Admin Mcp_Insight Mcp_Metrics
begin

text \<open>
  Tool calls: which tools a server registers (\<open>registerTools\<close>, \<open>addToolIfAllowed\<close> of
  \<open>internal/mcp/tools.go\<close>), a call as its tool with the decoded input, and what it does to the state.  The
  constructors of a call have the fields of the input structure as arguments, in its order.
\<close>

section \<open>Registration\<close>

definition registerTools :: "'p McpServer \<Rightarrow> (string \<times> bool) list" where
  "registerTools srv =
     [(''health_check'', True), (''get_server_info'', True)] @ registerSchemaReadTools @ registerSchemaWriteTools @ registerConfigTools @ registerContextTools @
     registerDEKTools @ registerExporterTools @ registerMetadataTools @ registerAdminTools srv @ registerValidationTools @
     registerComparisonTools @ registerIntelligenceTools @ registerMetricsTools @ [(''list_subjects'', True)]"

definition addToolIfAllowed :: "'p McpServer \<Rightarrow> string \<times> bool \<Rightarrow> bool" where
  "addToolIfAllowed srv = (\<lambda>(name, readOnly). isToolAllowed (tool_config (ms_config srv)) name readOnly)"

definition tools_of :: "'p McpServer \<Rightarrow> string list" where
  "tools_of srv = map fst (filter (addToolIfAllowed srv) (registerTools srv))"

section \<open>Calls\<close>

datatype schema_call =
    HealthCheck
  | GetServerInfo
  | ListSubjects bool string string string
  | GetSchemaByID int string
  | GetRawSchemaByID int string
  | GetSchemaVersion string int string
  | GetRawSchemaVersion string int string
  | GetLatestSchema string string
  | ListVersions string bool string
  | GetSubjectsForSchema int bool string
  | GetVersionsForSchema int bool string
  | GetReferencedBy string int string
  | LookupSchema string string string bool string
  | GetSchemaTypes
  | ListSchemas listSchemasInput
  | GetMaxSchemaID string
  | RegisterSchema registerSchemaInput
  | DeleteSubject string bool bool string string
  | DeleteVersion string int bool bool string string
  | CheckCompatibility string string string "Reference list" string string

fun schema_tool :: "schema_call \<Rightarrow> string" where
  "schema_tool HealthCheck = ''health_check''"
| "schema_tool GetServerInfo = ''get_server_info''"
| "schema_tool (ListSubjects _ _ _ _) = ''list_subjects''"
| "schema_tool (GetSchemaByID _ _) = ''get_schema_by_id''"
| "schema_tool (GetRawSchemaByID _ _) = ''get_raw_schema_by_id''"
| "schema_tool (GetSchemaVersion _ _ _) = ''get_schema_version''"
| "schema_tool (GetRawSchemaVersion _ _ _) = ''get_raw_schema_version''"
| "schema_tool (GetLatestSchema _ _) = ''get_latest_schema''"
| "schema_tool (ListVersions _ _ _) = ''list_versions''"
| "schema_tool (GetSubjectsForSchema _ _ _) = ''get_subjects_for_schema''"
| "schema_tool (GetVersionsForSchema _ _ _) = ''get_versions_for_schema''"
| "schema_tool (GetReferencedBy _ _ _) = ''get_referenced_by''"
| "schema_tool (LookupSchema _ _ _ _ _) = ''lookup_schema''"
| "schema_tool GetSchemaTypes = ''get_schema_types''"
| "schema_tool (ListSchemas _) = ''list_schemas''"
| "schema_tool (GetMaxSchemaID _) = ''get_max_schema_id''"
| "schema_tool (RegisterSchema _) = ''register_schema''"
| "schema_tool (DeleteSubject _ _ _ _ _) = ''delete_subject''"
| "schema_tool (DeleteVersion _ _ _ _ _ _) = ''delete_version''"
| "schema_tool (CheckCompatibility _ _ _ _ _ _) = ''check_compatibility''"

datatype config_call =
    GetConfig string string
  | SetConfig string string "bool option" string
  | DeleteConfig string bool string string
  | GetMode string string
  | SetMode string string bool bool string string
  | DeleteMode string string
  | ListContexts
  | ImportSchemas "ImportSchemaRequest list" bool string string
  | GetConfigFull string string
  | SetConfigFull setConfigFullInput
  | GetSubjectConfigFull string string
  | ResolveAlias string string
  | GetSchemasBySubject string bool string
  | CheckWriteMode string string
  | TestKEK string string string "(string, string) gomap option"
  | FormatSchema string int string string
  | GetGlobalConfigDirect string
  | GetSubjectMetadata string "(string, string) gomap" bool string
  | GetClusterID
  | GetServerVersion

fun config_tool :: "config_call \<Rightarrow> string" where
  "config_tool (GetConfig _ _) = ''get_config''"
| "config_tool (SetConfig _ _ _ _) = ''set_config''"
| "config_tool (DeleteConfig _ _ _ _) = ''delete_config''"
| "config_tool (GetMode _ _) = ''get_mode''"
| "config_tool (SetMode _ _ _ _ _ _) = ''set_mode''"
| "config_tool (DeleteMode _ _) = ''delete_mode''"
| "config_tool ListContexts = ''list_contexts''"
| "config_tool (ImportSchemas _ _ _ _) = ''import_schemas''"
| "config_tool (GetConfigFull _ _) = ''get_config_full''"
| "config_tool (SetConfigFull _) = ''set_config_full''"
| "config_tool (GetSubjectConfigFull _ _) = ''get_subject_config_full''"
| "config_tool (ResolveAlias _ _) = ''resolve_alias''"
| "config_tool (GetSchemasBySubject _ _ _) = ''get_schemas_by_subject''"
| "config_tool (CheckWriteMode _ _) = ''check_write_mode''"
| "config_tool (TestKEK _ _ _ _) = ''test_kek''"
| "config_tool (FormatSchema _ _ _ _) = ''format_schema''"
| "config_tool (GetGlobalConfigDirect _) = ''get_global_config_direct''"
| "config_tool (GetSubjectMetadata _ _ _ _) = ''get_subject_metadata''"
| "config_tool GetClusterID = ''get_cluster_id''"
| "config_tool GetServerVersion = ''get_server_version''"

datatype key_call =
    CreateKEK createKEKInput
  | GetKEK string bool
  | UpdateKEK string "(string, string) gomap option" string bool
  | DeleteKEK string bool bool string
  | UndeleteKEK string
  | ListKEKs bool
  | CreateDEK string string int string string
  | GetDEK string string int string bool
  | ListDEKs string bool
  | ListDEKVersions string string string bool
  | DeleteDEK string string int string bool bool string
  | UndeleteDEK string string int string
  | RewrapDEK string string int string

fun key_tool :: "key_call \<Rightarrow> string" where
  "key_tool (CreateKEK _) = ''create_kek''"
| "key_tool (GetKEK _ _) = ''get_kek''"
| "key_tool (UpdateKEK _ _ _ _) = ''update_kek''"
| "key_tool (DeleteKEK _ _ _ _) = ''delete_kek''"
| "key_tool (UndeleteKEK _) = ''undelete_kek''"
| "key_tool (ListKEKs _) = ''list_keks''"
| "key_tool (CreateDEK _ _ _ _ _) = ''create_dek''"
| "key_tool (GetDEK _ _ _ _ _) = ''get_dek''"
| "key_tool (ListDEKs _ _) = ''list_deks''"
| "key_tool (ListDEKVersions _ _ _ _) = ''list_dek_versions''"
| "key_tool (DeleteDEK _ _ _ _ _ _ _) = ''delete_dek''"
| "key_tool (UndeleteDEK _ _ _ _) = ''undelete_dek''"
| "key_tool (RewrapDEK _ _ _ _) = ''rewrap_dek''"

datatype exporter_call =
    ListExporters
  | CreateExporter exporterInput
  | GetExporter string
  | UpdateExporter exporterInput
  | DeleteExporter string bool string
  | PauseExporter string
  | ResumeExporter string
  | ResetExporter string
  | GetExporterStatus string
  | GetExporterConfig string
  | UpdateExporterConfig string "(string, string) gomap option"

fun exporter_tool :: "exporter_call \<Rightarrow> string" where
  "exporter_tool ListExporters = ''list_exporters''"
| "exporter_tool (CreateExporter _) = ''create_exporter''"
| "exporter_tool (GetExporter _) = ''get_exporter''"
| "exporter_tool (UpdateExporter _) = ''update_exporter''"
| "exporter_tool (DeleteExporter _ _ _) = ''delete_exporter''"
| "exporter_tool (PauseExporter _) = ''pause_exporter''"
| "exporter_tool (ResumeExporter _) = ''resume_exporter''"
| "exporter_tool (ResetExporter _) = ''reset_exporter''"
| "exporter_tool (GetExporterStatus _) = ''get_exporter_status''"
| "exporter_tool (GetExporterConfig _) = ''get_exporter_config''"
| "exporter_tool (UpdateExporterConfig _ _) = ''update_exporter_config''"

datatype admin_call =
    ListUsers
  | CreateUser string string string string "bool option"
  | GetUser int
  | UpdateUser int "string option" "string option" "string option" "bool option"
  | DeleteUser int
  | ListAPIKeys int
  | CreateAPIKey int string string int
  | GetAPIKey int
  | UpdateAPIKey int "string option" "string option" "bool option"
  | DeleteAPIKey int
  | RevokeAPIKey int
  | ChangePassword int string string
  | RotateAPIKey int int
  | GetUserByUsername string
  | ListRoles

fun admin_tool :: "admin_call \<Rightarrow> string" where
  "admin_tool ListUsers = ''list_users''"
| "admin_tool (CreateUser _ _ _ _ _) = ''create_user''"
| "admin_tool (GetUser _) = ''get_user''"
| "admin_tool (UpdateUser _ _ _ _ _) = ''update_user''"
| "admin_tool (DeleteUser _) = ''delete_user''"
| "admin_tool (ListAPIKeys _) = ''list_apikeys''"
| "admin_tool (CreateAPIKey _ _ _ _) = ''create_apikey''"
| "admin_tool (GetAPIKey _) = ''get_apikey''"
| "admin_tool (UpdateAPIKey _ _ _ _) = ''update_apikey''"
| "admin_tool (DeleteAPIKey _) = ''delete_apikey''"
| "admin_tool (RevokeAPIKey _) = ''revoke_apikey''"
| "admin_tool (ChangePassword _ _ _) = ''change_password''"
| "admin_tool (RotateAPIKey _ _) = ''rotate_apikey''"
| "admin_tool (GetUserByUsername _) = ''get_user_by_username''"
| "admin_tool ListRoles = ''list_roles''"

datatype insight_call =
    ValidateSchemaCall string string "Reference list" string
  | NormalizeSchemaCall string string "Reference list" string
  | ValidateSubjectNameCall string string
  | SearchSchemasCall string bool int string
  | GetSchemaHistoryCall string string
  | GetDependencyGraphCall string int int string
  | ExportSchemaCall string int string
  | ExportSubjectCall string string
  | GetRegistryStatisticsCall string
  | CountVersionsCall string string
  | CountSubjectsCall string
  | CheckCompatibilityMultiCall "string list" string string "Reference list" string
  | DiffSchemasCall string int int string
  | CompareSubjectsCall string string string
  | SuggestCompatibleChangeCall string string string
  | MatchSubjectsCall string bool string
  | ExplainCompatibilityFailureCall string string string "Reference list" string string
  | FindSchemasByFieldCall string string go_float string
  | FindSchemasByTypeCall string bool string
  | FindSimilarSchemasCall string go_float string
  | ScoreSchemaQualityCall string string string string
  | CheckFieldConsistencyCall string string
  | GetSchemaComplexityCall string string string string
  | DetectSchemaPatternsCall string
  | SuggestSchemaEvolutionCall string string string string string string
  | PlanMigrationPathCall string string string string
  | GetMetricsSummaryCall
  | GetMetricsByCategoryCall string
  | QueryMetricCall string
  | ListMetricsCall

fun insight_tool :: "insight_call \<Rightarrow> string" where
  "insight_tool (ValidateSchemaCall _ _ _ _) = ''validate_schema''"
| "insight_tool (NormalizeSchemaCall _ _ _ _) = ''normalize_schema''"
| "insight_tool (ValidateSubjectNameCall _ _) = ''validate_subject_name''"
| "insight_tool (SearchSchemasCall _ _ _ _) = ''search_schemas''"
| "insight_tool (GetSchemaHistoryCall _ _) = ''get_schema_history''"
| "insight_tool (GetDependencyGraphCall _ _ _ _) = ''get_dependency_graph''"
| "insight_tool (ExportSchemaCall _ _ _) = ''export_schema''"
| "insight_tool (ExportSubjectCall _ _) = ''export_subject''"
| "insight_tool (GetRegistryStatisticsCall _) = ''get_registry_statistics''"
| "insight_tool (CountVersionsCall _ _) = ''count_versions''"
| "insight_tool (CountSubjectsCall _) = ''count_subjects''"
| "insight_tool (CheckCompatibilityMultiCall _ _ _ _ _) = ''check_compatibility_multi''"
| "insight_tool (DiffSchemasCall _ _ _ _) = ''diff_schemas''"
| "insight_tool (CompareSubjectsCall _ _ _) = ''compare_subjects''"
| "insight_tool (SuggestCompatibleChangeCall _ _ _) = ''suggest_compatible_change''"
| "insight_tool (MatchSubjectsCall _ _ _) = ''match_subjects''"
| "insight_tool (ExplainCompatibilityFailureCall _ _ _ _ _ _) = ''explain_compatibility_failure''"
| "insight_tool (FindSchemasByFieldCall _ _ _ _) = ''find_schemas_by_field''"
| "insight_tool (FindSchemasByTypeCall _ _ _) = ''find_schemas_by_type''"
| "insight_tool (FindSimilarSchemasCall _ _ _) = ''find_similar_schemas''"
| "insight_tool (ScoreSchemaQualityCall _ _ _ _) = ''score_schema_quality''"
| "insight_tool (CheckFieldConsistencyCall _ _) = ''check_field_consistency''"
| "insight_tool (GetSchemaComplexityCall _ _ _ _) = ''get_schema_complexity''"
| "insight_tool (DetectSchemaPatternsCall _) = ''detect_schema_patterns''"
| "insight_tool (SuggestSchemaEvolutionCall _ _ _ _ _ _) = ''suggest_schema_evolution''"
| "insight_tool (PlanMigrationPathCall _ _ _ _) = ''plan_migration_path''"
| "insight_tool GetMetricsSummaryCall = ''get_metrics_summary''"
| "insight_tool (GetMetricsByCategoryCall _) = ''get_metrics_by_category''"
| "insight_tool (QueryMetricCall _) = ''query_metric''"
| "insight_tool ListMetricsCall = ''list_metrics''"

section \<open>What a call does\<close>

text \<open>A tool that only looks at the state, and one that works on the account service.\<close>

definition looking :: "'b tool_result \<Rightarrow> mcp_state \<Rightarrow> mcp_state \<times> 'b tool_result" where
  "looking res st = (st, res)"

definition on_service :: "(Service \<Rightarrow> Service \<times> 'r) \<Rightarrow> mcp_state \<Rightarrow> mcp_state \<times> 'r" where
  "on_service f st = (case f (mx_service st) of (S', res) \<Rightarrow> (st\<lparr>mx_service := S'\<rparr>, res))"

fun schema_run ::
  "'p McpServer \<Rightarrow> mcp_env \<Rightarrow> schema_call \<Rightarrow> mcp_state \<Rightarrow> mcp_state \<times> tool_body tool_result" where
  "schema_run srv env HealthCheck st = looking (handleHealthCheck) st"
| "schema_run srv env GetServerInfo st = looking (handleGetServerInfo srv) st"
| "schema_run srv env (ListSubjects a b c d) st = looking (handleListSubjects env (mx_store st) a b c d) st"
| "schema_run srv env (GetSchemaByID a b) st = looking (handleGetSchemaByID (mx_store st) a b) st"
| "schema_run srv env (GetRawSchemaByID a b) st = looking (handleGetRawSchemaByID srv (mx_store st) a b) st"
| "schema_run srv env (GetSchemaVersion a b c) st = looking (handleGetSchemaVersion (mx_store st) a b c) st"
| "schema_run srv env (GetRawSchemaVersion a b c) st = looking (handleGetRawSchemaVersion srv (mx_store st) a b c) st"
| "schema_run srv env (GetLatestSchema a b) st = looking (handleGetLatestSchema (mx_store st) a b) st"
| "schema_run srv env (ListVersions a b c) st = looking (handleListVersions srv (mx_store st) a b c) st"
| "schema_run srv env (GetSubjectsForSchema a b c) st = looking (handleGetSubjectsForSchema (mx_store st) a b c) st"
| "schema_run srv env (GetVersionsForSchema a b c) st = looking (handleGetVersionsForSchema (mx_store st) a b c) st"
| "schema_run srv env (GetReferencedBy a b c) st = looking (handleGetReferencedBy (mx_store st) a b c) st"
| "schema_run srv env (LookupSchema a b c d e) st = looking (handleLookupSchema srv env (mx_store st) a b c d e) st"
| "schema_run srv env GetSchemaTypes st = looking (handleGetSchemaTypes srv env) st"
| "schema_run srv env (ListSchemas a) st = looking (handleListSchemas env (mx_store st) a) st"
| "schema_run srv env (GetMaxSchemaID a) st = looking (handleGetMaxSchemaID (mx_store st) a) st"
| "schema_run srv env (RegisterSchema a) st = on_store (handleRegisterSchema srv env a) st"
| "schema_run srv env (DeleteSubject a b c d e) st = handleDeleteSubject srv env a b c d e st"
| "schema_run srv env (DeleteVersion a b c d e f) st = handleDeleteVersion srv env a b c d e f st"
| "schema_run srv env (CheckCompatibility a b c d e f) st = looking (handleCheckCompatibility srv (mx_store st) a b c d e f) st"

fun config_run ::
  "'p McpServer \<Rightarrow> mcp_env \<Rightarrow> config_call \<Rightarrow> mcp_state \<Rightarrow> mcp_state \<times> tool_body tool_result" where
  "config_run srv env (GetConfig a b) st = looking (handleGetConfig srv (mx_store st) a b) st"
| "config_run srv env (SetConfig a b c d) st = on_store (handleSetConfig srv a b c d) st"
| "config_run srv env (DeleteConfig a b c d) st = handleDeleteConfig srv env a b c d st"
| "config_run srv env (GetMode a b) st = looking (handleGetMode srv (mx_store st) a b) st"
| "config_run srv env (SetMode a b c d e f) st = handleSetMode srv env a b c d e f st"
| "config_run srv env (DeleteMode a b) st = on_store (handleDeleteMode srv a b) st"
| "config_run srv env ListContexts st = looking (handleListContexts srv (mx_store st)) st"
| "config_run srv env (ImportSchemas a b c d) st = handleImportSchemas srv env a b c d st"
| "config_run srv env (GetConfigFull a b) st = looking (handleGetConfigFull srv (mx_store st) a b) st"
| "config_run srv env (SetConfigFull a) st = on_store (handleSetConfigFull srv a) st"
| "config_run srv env (GetSubjectConfigFull a b) st = looking (handleGetSubjectConfigFull srv (mx_store st) a b) st"
| "config_run srv env (ResolveAlias a b) st = looking (handleResolveAlias srv (mx_store st) a b) st"
| "config_run srv env (GetSchemasBySubject a b c) st = looking (handleGetSchemasBySubject (mx_store st) a b c) st"
| "config_run srv env (CheckWriteMode a b) st = looking (handleCheckWriteMode srv (mx_store st) a b) st"
| "config_run srv env (TestKEK a b c d) st = looking (handleTestKEK srv a b c d) st"
| "config_run srv env (FormatSchema a b c d) st = looking (handleFormatSchema srv (mx_store st) a b c d) st"
| "config_run srv env (GetGlobalConfigDirect a) st = looking (handleGetGlobalConfigDirect srv (mx_store st) a) st"
| "config_run srv env (GetSubjectMetadata a b c d) st = looking (handleGetSubjectMetadata (mx_store st) a b c d) st"
| "config_run srv env GetClusterID st = looking (handleGetClusterID srv) st"
| "config_run srv env GetServerVersion st = looking (handleGetServerVersion srv) st"

fun key_run ::
  "'p McpServer \<Rightarrow> mcp_env \<Rightarrow> key_call \<Rightarrow> mcp_state \<Rightarrow> mcp_state \<times> tool_body tool_result" where
  "key_run srv env (CreateKEK a) st = on_store (handleCreateKEK srv env a) st"
| "key_run srv env (GetKEK a b) st = looking (handleGetKEK (mx_store st) a b) st"
| "key_run srv env (UpdateKEK a b c d) st = on_store (handleUpdateKEK srv env a b c d) st"
| "key_run srv env (DeleteKEK a b c d) st = handleDeleteKEK srv env a b c d st"
| "key_run srv env (UndeleteKEK a) st = on_store (handleUndeleteKEK env a) st"
| "key_run srv env (ListKEKs a) st = looking (handleListKEKs (mx_store st) a) st"
| "key_run srv env (CreateDEK a b c d e) st = on_store (handleCreateDEK srv env a b c d e) st"
| "key_run srv env (GetDEK a b c d e) st = looking (handleGetDEK (mx_store st) a b c d e) st"
| "key_run srv env (ListDEKs a b) st = looking (handleListDEKs (mx_store st) a b) st"
| "key_run srv env (ListDEKVersions a b c d) st = looking (handleListDEKVersions (mx_store st) a b c d) st"
| "key_run srv env (DeleteDEK a b c d e f g) st = handleDeleteDEK srv env a b c d e f g st"
| "key_run srv env (UndeleteDEK a b c d) st = on_store (handleUndeleteDEK env a b c d) st"
| "key_run srv env (RewrapDEK a b c d) st = on_store (handleRewrapDEK srv env a b c d) st"

fun exporter_run ::
  "'p McpServer \<Rightarrow> mcp_env \<Rightarrow> exporter_call \<Rightarrow> mcp_state \<Rightarrow> mcp_state \<times> tool_body tool_result" where
  "exporter_run srv env ListExporters st = looking (handleListExporters (mx_store st)) st"
| "exporter_run srv env (CreateExporter a) st = on_store (handleCreateExporter srv env a) st"
| "exporter_run srv env (GetExporter a) st = looking (handleGetExporter (mx_store st) a) st"
| "exporter_run srv env (UpdateExporter a) st = on_store (handleUpdateExporter srv env a) st"
| "exporter_run srv env (DeleteExporter a b c) st = handleDeleteExporter env a b c st"
| "exporter_run srv env (PauseExporter a) st = on_store (handlePauseExporter srv env a) st"
| "exporter_run srv env (ResumeExporter a) st = on_store (handleResumeExporter srv env a) st"
| "exporter_run srv env (ResetExporter a) st = on_store (handleResetExporter srv env a) st"
| "exporter_run srv env (GetExporterStatus a) st = looking (handleGetExporterStatus (mx_store st) a) st"
| "exporter_run srv env (GetExporterConfig a) st = looking (handleGetExporterConfig (mx_store st) a) st"
| "exporter_run srv env (UpdateExporterConfig a b) st = on_store (handleUpdateExporterConfig env a b) st"

fun admin_run ::
  "admin_env \<Rightarrow> admin_call \<Rightarrow> mcp_state \<Rightarrow> mcp_state \<times> admin_tool_body tool_result" where
  "admin_run env ListUsers st = looking (handleListUsers (mx_service st)) st"
| "admin_run env (CreateUser a b c d e) st = on_service (handleCreateUser env a b c d e) st"
| "admin_run env (GetUser a) st = looking (handleGetUser (mx_service st) a) st"
| "admin_run env (UpdateUser a b c d e) st = on_service (handleUpdateUser env a b c d e) st"
| "admin_run env (DeleteUser a) st = on_service (handleDeleteUser a) st"
| "admin_run env (ListAPIKeys a) st = looking (handleListAPIKeys env (mx_service st) a) st"
| "admin_run env (CreateAPIKey a b c d) st = on_service (handleCreateAPIKey env a b c d) st"
| "admin_run env (GetAPIKey a) st = looking (handleGetAPIKey env (mx_service st) a) st"
| "admin_run env (UpdateAPIKey a b c d) st = on_service (handleUpdateAPIKey env a b c d) st"
| "admin_run env (DeleteAPIKey a) st = on_service (handleDeleteAPIKey env a) st"
| "admin_run env (RevokeAPIKey a) st = on_service (handleRevokeAPIKey env a) st"
| "admin_run env (ChangePassword a b c) st = on_service (handleChangePassword env a b c) st"
| "admin_run env (RotateAPIKey a b) st = on_service (handleRotateAPIKey env a b) st"
| "admin_run env (GetUserByUsername a) st = looking (handleGetUserByUsername (mx_service st) a) st"
| "admin_run env ListRoles st = looking (handleListRoles) st"

fun insight_run ::
  "'p McpServer \<Rightarrow> insight_env \<Rightarrow> string \<Rightarrow> insight_call \<Rightarrow> mcp_state \<Rightarrow> mcp_state \<times> insight_body tool_result" where
  "insight_run srv env metrics (ValidateSchemaCall a b c d) st = looking (handleValidateSchema srv (mx_store st) a b c d) st"
| "insight_run srv env metrics (NormalizeSchemaCall a b c d) st = looking (handleNormalizeSchema srv (mx_store st) a b c d) st"
| "insight_run srv env metrics (ValidateSubjectNameCall a b) st = looking (handleValidateSubjectName a b) st"
| "insight_run srv env metrics (SearchSchemasCall a b c d) st = looking (handleSearchSchemas env (mx_store st) a b c d) st"
| "insight_run srv env metrics (GetSchemaHistoryCall a b) st = looking (handleGetSchemaHistory (mx_store st) a b) st"
| "insight_run srv env metrics (GetDependencyGraphCall a b c d) st = looking (handleGetDependencyGraph (mx_store st) a b c d) st"
| "insight_run srv env metrics (ExportSchemaCall a b c) st = looking (handleExportSchema srv (mx_store st) a b c) st"
| "insight_run srv env metrics (ExportSubjectCall a b) st = looking (handleExportSubject srv (mx_store st) a b) st"
| "insight_run srv env metrics (GetRegistryStatisticsCall a) st = looking (handleGetRegistryStatistics srv (mx_store st) a) st"
| "insight_run srv env metrics (CountVersionsCall a b) st = looking (handleCountVersions srv (mx_store st) a b) st"
| "insight_run srv env metrics (CountSubjectsCall a) st = looking (handleCountSubjects (mx_store st) a) st"
| "insight_run srv env metrics (CheckCompatibilityMultiCall a b c d e) st = looking (handleCheckCompatibilityMulti srv (mx_store st) a b c d e) st"
| "insight_run srv env metrics (DiffSchemasCall a b c d) st = looking (handleDiffSchemas env (mx_store st) a b c d) st"
| "insight_run srv env metrics (CompareSubjectsCall a b c) st = looking (handleCompareSubjects env (mx_store st) a b c) st"
| "insight_run srv env metrics (SuggestCompatibleChangeCall a b c) st = looking (handleSuggestCompatibleChange srv (mx_store st) a b c) st"
| "insight_run srv env metrics (MatchSubjectsCall a b c) st = looking (handleMatchSubjects env (mx_store st) a b c) st"
| "insight_run srv env metrics (ExplainCompatibilityFailureCall a b c d e f) st = looking (handleExplainCompatibilityFailure srv env (mx_store st) a b c d e f) st"
| "insight_run srv env metrics (FindSchemasByFieldCall a b c d) st = looking (handleFindSchemasByField env (mx_store st) a b c d) st"
| "insight_run srv env metrics (FindSchemasByTypeCall a b c) st = looking (handleFindSchemasByType env (mx_store st) a b c) st"
| "insight_run srv env metrics (FindSimilarSchemasCall a b c) st = looking (handleFindSimilarSchemas env (mx_store st) a b c) st"
| "insight_run srv env metrics (ScoreSchemaQualityCall a b c d) st = looking (handleScoreSchemaQuality env (mx_store st) a b c d) st"
| "insight_run srv env metrics (CheckFieldConsistencyCall a b) st = looking (handleCheckFieldConsistency env (mx_store st) a b) st"
| "insight_run srv env metrics (GetSchemaComplexityCall a b c d) st = looking (handleGetSchemaComplexity env (mx_store st) a b c d) st"
| "insight_run srv env metrics (DetectSchemaPatternsCall a) st = looking (handleDetectSchemaPatterns srv env (mx_store st) a) st"
| "insight_run srv env metrics (SuggestSchemaEvolutionCall a b c d e f) st = looking (handleSuggestSchemaEvolution srv (mx_store st) a b c d e f) st"
| "insight_run srv env metrics (PlanMigrationPathCall a b c d) st = looking (handlePlanMigrationPath srv env (mx_store st) a b c d) st"
| "insight_run srv env metrics GetMetricsSummaryCall st = looking (handleGetMetricsSummary metrics) st"
| "insight_run srv env metrics (GetMetricsByCategoryCall a) st = looking (handleGetMetricsByCategory (ie_quote env) metrics a) st"
| "insight_run srv env metrics (QueryMetricCall a) st = looking (handleQueryMetric (ie_quote env) metrics a) st"
| "insight_run srv env metrics ListMetricsCall st = looking (handleListMetrics metrics) st"

section \<open>All calls\<close>

datatype mcp_call =
    SchemaCall schema_call | ConfigCall config_call | KeyCall key_call | ExporterCall exporter_call
  | AdminCall admin_call | InsightCall insight_call

datatype mcp_body = ToolBody tool_body | AdminBody admin_tool_body | InsightBody insight_body

text \<open>The environment of a call; the last part is the text of the metrics.\<close>

record call_env =
  ve_tools :: mcp_env
  ve_admin :: admin_env
  ve_insight :: insight_env
  ve_metrics :: string

fun tool_name :: "mcp_call \<Rightarrow> string" where
  "tool_name (SchemaCall c) = schema_tool c"
| "tool_name (ConfigCall c) = config_tool c"
| "tool_name (KeyCall c) = key_tool c"
| "tool_name (ExporterCall c) = exporter_tool c"
| "tool_name (AdminCall c) = admin_tool c"
| "tool_name (InsightCall c) = insight_tool c"

definition as_body :: "('a \<Rightarrow> mcp_body) \<Rightarrow> mcp_state \<times> 'a tool_result \<Rightarrow> mcp_state \<times> mcp_body tool_result" where
  "as_body f = map_prod (\<lambda>st. st) (map_tool_result f)"

fun run_tool :: "'p McpServer \<Rightarrow> call_env \<Rightarrow> mcp_call \<Rightarrow> mcp_state \<Rightarrow> mcp_state \<times> mcp_body tool_result" where
  "run_tool srv env (SchemaCall c) st = as_body ToolBody (schema_run srv (ve_tools env) c st)"
| "run_tool srv env (ConfigCall c) st = as_body ToolBody (config_run srv (ve_tools env) c st)"
| "run_tool srv env (KeyCall c) st = as_body ToolBody (key_run srv (ve_tools env) c st)"
| "run_tool srv env (ExporterCall c) st = as_body ToolBody (exporter_run srv (ve_tools env) c st)"
| "run_tool srv env (AdminCall c) st = as_body AdminBody (admin_run (ve_admin env) c st)"
| "run_tool srv env (InsightCall c) st = as_body InsightBody (insight_run srv (ve_insight env) (ve_metrics env) c st)"

text \<open>A tool that is not registered is unknown to the protocol library: nothing happens.\<close>

definition call_tool ::
  "'p McpServer \<Rightarrow> call_env \<Rightarrow> mcp_call \<Rightarrow> mcp_state \<Rightarrow> mcp_state \<times> mcp_body tool_result option" where
  "call_tool srv env c st =
     (if tool_name c \<in> set (tools_of srv)
      then (case run_tool srv env c st of (st', res) \<Rightarrow> (st', Some res))
      else (st, None))"

text \<open>A session: calls one after another, and the collection of old tokens between them.\<close>

datatype session_event = Calling call_env mcp_call | Collecting go_time

fun session_step :: "'p McpServer \<Rightarrow> session_event \<Rightarrow> mcp_state \<Rightarrow> mcp_state" where
  "session_step srv (Calling env c) st = fst (call_tool srv env c st)"
| "session_step srv (Collecting now) st = st\<lparr>mx_confirm := map_option (\<lambda>cs. ConfirmationStore_gc cs now) (mx_confirm st)\<rparr>"

definition session :: "'p McpServer \<Rightarrow> session_event list \<Rightarrow> mcp_state \<Rightarrow> mcp_state" where
  "session srv es st = fold (session_step srv) es st"

end
