(* ===== verification/Mcp_Resources.thy ===== *)
theory Mcp_Resources
  imports Mcp_Tools
begin

text \<open>
  The resources of the protocol (\<open>internal/mcp/resources.go\<close>): values read by their URI.  Host and path
  of a URI come from \<open>url.Parse\<close>, a parameter; the path is already decoded there.  Unlike tools,
  resources are registered for every configuration.
\<close>

section \<open>Parameters of a URI\<close>

text \<open>\<open>strings.SplitN\<close> with a separator of one byte and a positive number of parts.\<close>

fun SplitN :: "nat \<Rightarrow> string \<Rightarrow> char \<Rightarrow> string list" where
  "SplitN 0 s c = []"
| "SplitN (Suc 0) s c = [s]"
| "SplitN (Suc (Suc n)) s c =
     (case IndexByte s c of None \<Rightarrow> [s] | Some i \<Rightarrow> take i s # SplitN (Suc n) (drop (i + 1) s) c)"

datatype resource_error =
    UnparsableURI | NoParameter string string | NotANumber string string | SchemaIDNotPositive int
  | Doing string tool_error

type_synonym parse_url = "string \<Rightarrow> (string \<times> string) option"

text \<open>Host and path with the context prefix \<open>contexts/{context}\<close> taken away.\<close>

definition without_context :: "string \<Rightarrow> string \<Rightarrow> string \<Rightarrow> string \<times> string" where
  "without_context host path param =
     (if host = ''contexts'' \<and> param \<noteq> ''context'' \<and> length path > 1
      then (case SplitN 3 (drop 1 path) (CHR ''/'') of
              [_, h] \<Rightarrow> (h, [])
            | [_, h, rest] \<Rightarrow> (h, CHR ''/'' # rest)
            | _ \<Rightarrow> (host, path))
      else (host, path))"

definition first_part :: "string \<Rightarrow> string" where
  "first_part path = hd (SplitN 2 (drop 1 path) (CHR ''/''))"

definition extractURIParam :: "parse_url \<Rightarrow> string \<Rightarrow> string \<Rightarrow> resource_error + string" where
  "extractURIParam parse uri param =
     (case parse uri of
        None \<Rightarrow> Inl UnparsableURI
      | Some (host0, path0) \<Rightarrow>
          (let (host, path) = without_context host0 path0 param;
               missing = Inl (NoParameter param uri);
               found = (\<lambda>hosts. if host \<in> set hosts \<and> length path > 1 then Inr (first_part path) else missing)
           in if param = ''subject'' then found [''subjects'']
              else if param = ''version''
              then (let parts = SplitByte (drop 1 path) (CHR ''/'')
                    in if host = ''subjects'' \<and> length path > 1 \<and> length parts \<ge> 3 \<and> parts ! 1 = ''versions''
                       then Inr (parts ! 2) else missing)
              else if param = ''id'' then found [''schemas'']
              else if param = ''name'' then found [''exporters'', ''keks'']
              else if param = ''context'' then found [''contexts'']
              else missing))"

definition resolveResourceContext :: "parse_url \<Rightarrow> string \<Rightarrow> string" where
  "resolveResourceContext parse uri =
     (case extractURIParam parse uri ''context'' of Inl _ \<Rightarrow> DefaultContext | Inr registryCtx \<Rightarrow> registryCtx)"

section \<open>Answers\<close>

datatype resource_body =
    Plainly tool_body
  | ServerInfoR string string string "string list"
  | ServerConfigR ConfigRecord string
  | SubjectR string SchemaRecord ConfigRecord
  | StatusR bool string string

type_synonym resource_result = "resource_error + resource_body"

definition reading :: "string \<Rightarrow> ('e \<Rightarrow> tool_error) \<Rightarrow> 'e + 'a \<Rightarrow> ('a \<Rightarrow> resource_result) \<Rightarrow> resource_result" where
  "reading what err res body = (case res of Inl e \<Rightarrow> Inl (Doing what (err e)) | Inr x \<Rightarrow> body x)"

definition plainly :: "('a \<Rightarrow> tool_body) \<Rightarrow> 'a \<Rightarrow> resource_result" where
  "plainly body x = Inr (Plainly (body x))"

definition with_param :: "parse_url \<Rightarrow> string \<Rightarrow> string \<Rightarrow> (string \<Rightarrow> resource_result) \<Rightarrow> resource_result" where
  "with_param parse uri param body = (case extractURIParam parse uri param of Inl e \<Rightarrow> Inl e | Inr x \<Rightarrow> body x)"

text \<open>An ID of a schema; whether it has to be positive depends on the resource.\<close>

definition with_resource_id :: "bool \<Rightarrow> parse_url \<Rightarrow> string \<Rightarrow> (int \<Rightarrow> resource_result) \<Rightarrow> resource_result" where
  "with_resource_id positive parse uri body = with_param parse uri ''id'' (\<lambda>idStr.
     case Atoi idStr of
       None \<Rightarrow> Inl (NotANumber ''schema ID'' idStr)
     | Some i \<Rightarrow> if positive \<and> i \<le> 0 then Inl (SchemaIDNotPositive i) else body i)"

section \<open>Fixed resources\<close>

definition handleServerInfoResource :: "'p McpServer \<Rightarrow> resource_result" where
  "handleServerInfoResource srv =
     Inr (ServerInfoR (ms_version srv) (ms_commit srv) (ms_buildTime srv) [''AVRO'', ''PROTOBUF'', ''JSON''])"

definition handleServerConfigResource :: "'p McpServer \<Rightarrow> parse_url \<Rightarrow> Store \<Rightarrow> string \<Rightarrow> resource_result" where
  "handleServerConfigResource srv parse s uri =
     (let registryCtx = resolveResourceContext parse uri
      in reading ''get global config'' OfStore (Registry_GetConfigFull (ms_registry srv) s registryCtx []) (\<lambda>config.
           reading ''get global mode'' OfRegistry (Registry_GetMode (ms_registry srv) s registryCtx []) (\<lambda>mode.
             Inr (ServerConfigR config mode))))"

definition handleSubjectsResource :: "parse_url \<Rightarrow> Store \<Rightarrow> string \<Rightarrow> resource_result" where
  "handleSubjectsResource parse s uri =
     reading ''list subjects'' OfStore (Store_ListSubjects s (resolveResourceContext parse uri) False) (plainly StringsJ)"

definition handleTypesResource :: resource_result where
  "handleTypesResource = Inr (Plainly (StringsJ [''AVRO'', ''PROTOBUF'', ''JSON'']))"

definition handleContextsResource :: "'p McpServer \<Rightarrow> Store \<Rightarrow> resource_result" where
  "handleContextsResource srv s = reading ''list contexts'' OfStore (Registry_ListContexts (ms_registry srv) s) (plainly StringsJ)"

definition handleGlobalModeResource :: "'p McpServer \<Rightarrow> parse_url \<Rightarrow> Store \<Rightarrow> string \<Rightarrow> resource_result" where
  "handleGlobalModeResource srv parse s uri =
     reading ''get global mode'' OfRegistry
       (Registry_GetMode (ms_registry srv) s (resolveResourceContext parse uri) []) (plainly ModeJ)"

definition handleKEKsListResource :: "Store \<Rightarrow> resource_result" where
  "handleKEKsListResource s = reading ''list KEKs'' OfStore (Store_ListKEKs s False) (plainly KeksJ)"

definition handleExportersListResource :: "Store \<Rightarrow> resource_result" where
  "handleExportersListResource s = reading ''list exporters'' OfStore (Store_ListExporters s) (plainly StringsJ)"

text \<open>Whether the storage is healthy is the storage's answer.\<close>

definition handleStatusResource :: "'p McpServer \<Rightarrow> bool \<Rightarrow> resource_result" where
  "handleStatusResource srv healthy = Inr (StatusR healthy (ms_version srv) (ms_clusterID srv))"

section \<open>Resources of a subject\<close>

definition handleSubjectDetailResource :: "'p McpServer \<Rightarrow> parse_url \<Rightarrow> Store \<Rightarrow> string \<Rightarrow> resource_result" where
  "handleSubjectDetailResource srv parse s uri = with_param parse uri ''subject'' (\<lambda>subject.
     let registryCtx = resolveResourceContext parse uri
     in reading ''get latest schema'' OfStore (Store_GetLatestSchema s registryCtx subject) (\<lambda>latest.
          reading ''get config'' OfStore (Registry_GetConfigFull (ms_registry srv) s registryCtx subject) (\<lambda>config.
            Inr (SubjectR subject latest config))))"

definition handleSubjectVersionsResource :: "'p McpServer \<Rightarrow> parse_url \<Rightarrow> Store \<Rightarrow> string \<Rightarrow> resource_result" where
  "handleSubjectVersionsResource srv parse s uri = with_param parse uri ''subject'' (\<lambda>subject.
     reading ''get versions'' OfStore
       (Registry_GetVersions (ms_registry srv) s (resolveResourceContext parse uri) subject False) (plainly IntsJ))"

definition handleSubjectVersionDetailResource :: "parse_url \<Rightarrow> Store \<Rightarrow> string \<Rightarrow> resource_result" where
  "handleSubjectVersionDetailResource parse s uri = with_param parse uri ''subject'' (\<lambda>subject.
     with_param parse uri ''version'' (\<lambda>versionStr.
       case Atoi versionStr of
         None \<Rightarrow> Inl (NotANumber ''version'' versionStr)
       | Some version \<Rightarrow>
           reading ''get schema'' OfStore
             (Store_GetSchemaBySubjectVersion s (resolveResourceContext parse uri) subject version) (plainly RecordJ)))"

definition handleSubjectConfigResource :: "'p McpServer \<Rightarrow> parse_url \<Rightarrow> Store \<Rightarrow> string \<Rightarrow> resource_result" where
  "handleSubjectConfigResource srv parse s uri = with_param parse uri ''subject'' (\<lambda>subject.
     reading ''get config'' OfStore
       (Registry_GetConfigFull (ms_registry srv) s (resolveResourceContext parse uri) subject) (plainly ConfigJ))"

definition handleSubjectModeResource :: "'p McpServer \<Rightarrow> parse_url \<Rightarrow> Store \<Rightarrow> string \<Rightarrow> resource_result" where
  "handleSubjectModeResource srv parse s uri = with_param parse uri ''subject'' (\<lambda>subject.
     reading ''get mode'' OfRegistry
       (Registry_GetMode (ms_registry srv) s (resolveResourceContext parse uri) subject) (plainly ModeJ))"

section \<open>Resources of a schema, an exporter, a key\<close>

definition handleSchemaByIDResource :: "parse_url \<Rightarrow> Store \<Rightarrow> string \<Rightarrow> resource_result" where
  "handleSchemaByIDResource parse s uri = with_resource_id True parse uri (\<lambda>i.
     reading ''get schema'' OfStore (Store_GetSchemaByID s (resolveResourceContext parse uri) i) (plainly RecordJ))"

definition handleSchemaSubjectsResource :: "parse_url \<Rightarrow> Store \<Rightarrow> string \<Rightarrow> resource_result" where
  "handleSchemaSubjectsResource parse s uri = with_resource_id True parse uri (\<lambda>i.
     reading ''get subjects for schema'' OfStore
       (Store_GetSubjectsBySchemaID s (resolveResourceContext parse uri) i False) (plainly StringsJ))"

definition handleSchemaVersionsResource :: "parse_url \<Rightarrow> Store \<Rightarrow> string \<Rightarrow> resource_result" where
  "handleSchemaVersionsResource parse s uri = with_resource_id False parse uri (\<lambda>i.
     reading ''get versions for schema'' OfStore
       (Store_GetVersionsBySchemaID s (resolveResourceContext parse uri) i False) (plainly PairsJ))"

definition handleExporterDetailResource :: "parse_url \<Rightarrow> Store \<Rightarrow> string \<Rightarrow> resource_result" where
  "handleExporterDetailResource parse s uri = with_param parse uri ''name'' (\<lambda>name.
     reading ''get exporter'' OfStore (Store_GetExporter s name) (plainly ExporterJ))"

definition handleKEKDetailResource :: "parse_url \<Rightarrow> Store \<Rightarrow> string \<Rightarrow> resource_result" where
  "handleKEKDetailResource parse s uri = with_param parse uri ''name'' (\<lambda>name.
     reading ''get KEK'' OfStore (Store_GetKEK s name False) (plainly KekJ))"

definition handleKEKDEKsResource :: "parse_url \<Rightarrow> Store \<Rightarrow> string \<Rightarrow> resource_result" where
  "handleKEKDEKsResource parse s uri = with_param parse uri ''name'' (\<lambda>name.
     reading ''list DEKs'' OfStore (Store_ListDEKs s name False) (plainly StringsJ))"

section \<open>The table of resources\<close>

text \<open>
  The URIs and templates with their handlers, as \<open>registerResources\<close> lists them; the protocol library
  finds the entry a URI belongs to.
\<close>

definition registerResources ::
  "'p McpServer \<Rightarrow> parse_url \<Rightarrow> bool \<Rightarrow> (string \<times> (Store \<Rightarrow> string \<Rightarrow> resource_result)) list" where
  "registerResources srv parse healthy =
     [(''schema://server/info'', \<lambda>s uri. handleServerInfoResource srv),
      (''schema://server/config'', handleServerConfigResource srv parse),
      (''schema://subjects'', handleSubjectsResource parse),
      (''schema://types'', \<lambda>s uri. handleTypesResource),
      (''schema://contexts'', \<lambda>s uri. handleContextsResource srv s),
      (''schema://mode'', handleGlobalModeResource srv parse),
      (''schema://keks'', \<lambda>s uri. handleKEKsListResource s),
      (''schema://exporters'', \<lambda>s uri. handleExportersListResource s),
      (''schema://status'', \<lambda>s uri. handleStatusResource srv healthy),
      (''schema://subjects/{subject}'', handleSubjectDetailResource srv parse),
      (''schema://subjects/{subject}/versions'', handleSubjectVersionsResource srv parse),
      (''schema://subjects/{subject}/versions/{version}'', handleSubjectVersionDetailResource parse),
      (''schema://subjects/{subject}/config'', handleSubjectConfigResource srv parse),
      (''schema://subjects/{subject}/mode'', handleSubjectModeResource srv parse),
      (''schema://schemas/{id}'', handleSchemaByIDResource parse),
      (''schema://schemas/{id}/subjects'', handleSchemaSubjectsResource parse),
      (''schema://schemas/{id}/versions'', handleSchemaVersionsResource parse),
      (''schema://exporters/{name}'', handleExporterDetailResource parse),
      (''schema://keks/{name}'', handleKEKDetailResource parse),
      (''schema://keks/{name}/deks'', handleKEKDEKsResource parse),
      (''schema://contexts/{context}/subjects'', handleSubjectsResource parse),
      (''schema://contexts/{context}/config'', handleServerConfigResource srv parse),
      (''schema://contexts/{context}/mode'', handleGlobalModeResource srv parse),
      (''schema://contexts/{context}/subjects/{subject}'', handleSubjectDetailResource srv parse),
      (''schema://contexts/{context}/subjects/{subject}/versions'', handleSubjectVersionsResource srv parse),
      (''schema://contexts/{context}/subjects/{subject}/versions/{version}'', handleSubjectVersionDetailResource parse),
      (''schema://contexts/{context}/subjects/{subject}/config'', handleSubjectConfigResource srv parse),
      (''schema://contexts/{context}/subjects/{subject}/mode'', handleSubjectModeResource srv parse),
      (''schema://contexts/{context}/schemas/{id}'', handleSchemaByIDResource parse),
      (''schema://contexts/{context}/schemas/{id}/subjects'', handleSchemaSubjectsResource parse),
      (''schema://contexts/{context}/schemas/{id}/versions'', handleSchemaVersionsResource parse)]"

end
