(* ===== verification/Mcp_Properties.thy ===== *)
theory Mcp_Properties
  imports Mcp_Dispatch Mcp_Resources
begin

text \<open>
  What the server of the protocol promises: the permission scopes of its configuration guard the parts
  of the state, the origin check compares what it should, resources are addressed as their templates
  say; and where the tools differ from the handlers of the other interface.
\<close>

section \<open>Which part of the store an operation touches\<close>

definition catalog_only :: "Store \<Rightarrow> Store \<Rightarrow> bool" where
  "catalog_only s s' \<longleftrightarrow> s' = s\<lparr>st_contexts := st_contexts s'\<rparr>"

definition keys_only :: "Store \<Rightarrow> Store \<Rightarrow> bool" where
  "keys_only s s' \<longleftrightarrow> s' = s\<lparr>st_keks := st_keks s', st_deks := st_deks s'\<rparr>"

definition exporters_only :: "Store \<Rightarrow> Store \<Rightarrow> bool" where
  "exporters_only s s' \<longleftrightarrow> s' = s\<lparr>st_exporters := st_exporters s', st_exporterStatuses := st_exporterStatuses s'\<rparr>"

named_theorems touches \<open>what the operations of the store and the service touch\<close>

lemma catalog_only_refl [simp]: "catalog_only s s"
  by (simp add: catalog_only_def)

lemma catalog_only_trans: "catalog_only s t \<Longrightarrow> catalog_only t u \<Longrightarrow> catalog_only s u"
  by (cases s; cases t; cases u) (simp add: catalog_only_def)

lemma catalog_only_put [touches]: "catalog_only s (Store_putContext s c x)"
  by (simp add: catalog_only_def Store_putContext_def)

lemma keys_only_refl [simp]: "keys_only s s"
  by (simp add: keys_only_def)

lemma keys_only_put [touches]:
  "keys_only s (s\<lparr>st_keks := ks\<rparr>)" "keys_only s (s\<lparr>st_keks := ks, st_deks := ds\<rparr>)"
  "keys_only s (put_dek_versions k subj vs s)" "keys_only s (del_dek_subject k subj s)"
  "keys_only s (put_dek_versions k subj vs (put_dek_versions k subj ws s))"
  by (simp_all add: keys_only_def put_dek_versions_def del_dek_subject_def)

lemma exporters_only_refl [simp]: "exporters_only s s"
  by (simp add: exporters_only_def)

lemma exporters_only_trans: "exporters_only s t \<Longrightarrow> exporters_only t u \<Longrightarrow> exporters_only s u"
  by (cases s; cases t; cases u) (simp add: exporters_only_def)

lemma exporters_only_put [touches]:
  "exporters_only s (s\<lparr>st_exporters := xs\<rparr>)" "exporters_only s (s\<lparr>st_exporterStatuses := ys\<rparr>)"
  "exporters_only s (s\<lparr>st_exporters := xs, st_exporterStatuses := ys\<rparr>)"
  by (simp_all add: exporters_only_def)

section \<open>The catalog\<close>

lemma catalog_store_touches [touches]:
  "catalog_only s (fst (Store_SetConfig s c subj cfg))" "catalog_only s (fst (Store_DeleteConfig s c subj))"
  "catalog_only s (fst (Store_SetGlobalConfig s c cfg))" "catalog_only s (fst (Store_DeleteGlobalConfig s c))"
  "catalog_only s (fst (Store_SetMode s c subj m))" "catalog_only s (fst (Store_DeleteMode s c subj))"
  "catalog_only s (fst (Store_SetGlobalMode s c m))" "catalog_only s (fst (Store_DeleteGlobalMode s c))"
  "catalog_only s (fst (Store_SetNextID s c i))"
  by (auto simp: store_defs Let_def touches split: option.splits)

lemma catalog_delete_touches [touches]:
  "catalog_only s (fst (Store_DeleteSubject s c subj perm))" "catalog_only s (fst (Store_DeleteSchema s c subj v perm))"
  by (auto simp: store_defs Let_def touches case_prod_beta split: option.splits)

lemma catalog_create_touches [touches]:
  "catalog_only s (fst (Store_CreateSchema it now now' s c rec))" "catalog_only s (fst (Store_ImportSchema now now' s c rec))"
  by (auto simp: store_defs Let_def touches case_prod_beta)

lemma advance_touches [touches]: "catalog_only s (fst (advance_ids s c i))"
  by (simp add: advance_ids_def Let_def touches)

lemma store_record_touches [touches]: "catalog_only s (fst (store_record e s c cv rec))"
  by (auto simp: store_record_def Let_def case_prod_beta touches split: option.split)

lemma register_touches [touches]: "catalog_only s (fst (Registry_RegisterSchema e r s c subj sch st refs opt))"
  by (auto simp: Registry_RegisterSchema_def Let_def case_prod_beta touches split: sum.split option.split)

lemma set_config_touches [touches]: "catalog_only s (fst (Registry_SetConfig r s c subj level n opts))"
  by (auto simp: Registry_SetConfig_def Let_def case_prod_beta touches split: option.split)

lemma delete_config_touches [touches]: "catalog_only s (fst (Registry_DeleteConfig r s c subj))"
  by (auto simp: Registry_DeleteConfig_def Registry_DeleteGlobalConfig_def Let_def case_prod_beta touches
      split: option.split sum.split)

lemma set_mode_touches [touches]: "catalog_only s (fst (Registry_SetMode r s c subj m force))"
  by (auto simp: Registry_SetMode_def Let_def case_prod_beta touches split: option.split sum.split)

lemma delete_mode_touches [touches]: "catalog_only s (fst (Registry_DeleteMode r s c subj))"
  by (auto simp: Registry_DeleteMode_def Registry_DeleteGlobalMode_def Let_def case_prod_beta touches
      split: option.split sum.split)

lemma delete_version_touches [touches]: "catalog_only s (fst (Registry_DeleteVersion r s c subj v perm))"
  by (auto simp: Registry_DeleteVersion_def Let_def case_prod_beta touches split: option.split sum.split)

lemma delete_all_touches:
  "catalog_only s (fst (Store_DeleteMode (fst (Store_DeleteConfig (fst (Store_DeleteSubject s c subj perm)) c subj)) c subj))"
  by (rule catalog_only_trans [OF catalog_only_trans [OF catalog_delete_touches(1) catalog_store_touches(2)]
        catalog_store_touches(6)])

lemma delete_subject_touches [touches]: "catalog_only s (fst (Registry_DeleteSubject r s c subj perm))"
  by (auto simp: Registry_DeleteSubject_def Let_def case_prod_beta touches delete_all_touches split: option.split sum.split)

lemma import_one_touches [touches]: "catalog_only s (fst (import_one now now' r c req s))"
  by (auto simp: import_one_def Let_def case_prod_beta touches split: option.split sum.split)

lemma import_loop_touches: "catalog_only s (fst (import_loop e r c i reqs s m res))"
proof (induction reqs arbitrary: i s m res)
  case (Cons req reqs)
  show ?case
    unfolding import_loop.simps Let_def case_prod_beta fst_conv
    by (rule catalog_only_trans [OF import_one_touches Cons.IH])
qed simp

lemma import_touches [touches]: "catalog_only s (fst (Registry_ImportSchemas e r s c reqs))"
  by (auto simp: Registry_ImportSchemas_def Let_def case_prod_beta intro: import_loop_touches
      catalog_only_trans [OF import_loop_touches advance_touches])

section \<open>Keys and exporters\<close>

lemma key_store_touches [touches]:
  "keys_only s (fst (Store_CreateKEK now s kek))" "keys_only s (fst (Store_UpdateKEK now s kek))"
  "keys_only s (fst (Store_DeleteKEK now s name perm))" "keys_only s (fst (Store_UndeleteKEK now s name))"
  "keys_only s (fst (Store_UpdateDEK s dek))"
  by (auto simp: store_defs Let_def touches split: option.split)

lemma dek_store_touches [touches]:
  "keys_only s (fst (Store_CreateDEK now s dek))" "keys_only s (fst (Store_DeleteDEK clock s k subj v a perm))"
  "keys_only s (fst (Store_UndeleteDEK clock s k subj v a))"
  by (auto simp: store_defs Let_def touches split: option.split)

lemma key_registry_touches [touches]:
  "keys_only s (fst (Registry_CreateKEK now r s kek))" "keys_only s (fst (Registry_UpdateKEK now r s kek))"
  "keys_only s (fst (Registry_CreateDEK now r s dek))" "keys_only s (fst (Registry_RewrapDEK now r s k subj v a))"
  by (auto simp: registry_defs Let_def case_prod_beta touches split: option.split sum.split)

lemma exporter_store_touches [touches]:
  "exporters_only s (fst (Store_CreateExporter now s x))" "exporters_only s (fst (Store_UpdateExporter now s x))"
  "exporters_only s (fst (Store_DeleteExporter s name))" "exporters_only s (fst (Store_SetExporterStatus s name status))"
  "exporters_only s (fst (Store_UpdateExporterConfig now s name config))"
  by (auto simp: store_defs Let_def touches split: option.split)

lemma exporter_registry_touches [touches]:
  "exporters_only s (fst (Registry_CreateExporter now now' r s x))" "exporters_only s (fst (Registry_UpdateExporter now r s x))"
  "exporters_only s (fst (change_status f s name))"
  by (auto simp: Registry_CreateExporter_def Registry_UpdateExporter_def change_status_def Let_def case_prod_beta touches
      split: option.split sum.split intro: exporters_only_trans [OF exporter_store_touches(1) exporter_store_touches(4)])

section \<open>Accounts\<close>

text \<open>The parts of a service's storage that are not accounts.\<close>

definition registry_part ::
  "Store \<Rightarrow> (string, contextStore) gomap \<times> (string, KEKRecord) gomap \<times>
     (string, (string, (int, DEKRecord) gomap) gomap) gomap \<times> (string, ExporterRecord) gomap \<times>
     (string, ExporterStatusRecord) gomap" where
  "registry_part s = (st_contexts s, st_keks s, st_deks s, st_exporters s, st_exporterStatuses s)"

definition accounts_only :: "Service \<Rightarrow> Service \<Rightarrow> bool" where
  "accounts_only S S' \<longleftrightarrow> registry_part (sv_storage S') = registry_part (sv_storage S)"

lemma accounts_only_refl [simp]: "accounts_only S S"
  by (simp add: accounts_only_def)

lemma accounts_only_trans: "accounts_only S T \<Longrightarrow> accounts_only T U \<Longrightarrow> accounts_only S U"
  by (simp add: accounts_only_def)

lemma accounts_store_touches [touches]:
  "registry_part (fst (Store_CreateUser now s u)) = registry_part s" "registry_part (fst (Store_UpdateUser now s u)) = registry_part s"
  "registry_part (fst (Store_DeleteUser s i)) = registry_part s" "registry_part (fst (Store_CreateAPIKey now s k)) = registry_part s"
  "registry_part (fst (Store_UpdateAPIKey s k)) = registry_part s" "registry_part (fst (Store_DeleteAPIKey s i)) = registry_part s"
  by (auto simp: store_defs Let_def registry_part_def split: option.split)

lemma cache_touches [touches]:
  "accounts_only S (invalidateUserCredCacheByID T i) \<longleftrightarrow> accounts_only S T" "accounts_only S (invalidateAPIKeyCache it T i) \<longleftrightarrow> accounts_only S T"
  by (auto simp: accounts_only_def invalidateUserCredCacheByID_def invalidateAPIKeyCache_def split: option.split prod.split)

lemma assign_touches [touches]: "accounts_only S (assign_user T p f) \<longleftrightarrow> accounts_only S T" "accounts_only S (assign_key T p g) \<longleftrightarrow> accounts_only S T"
  by (simp_all add: accounts_only_def assign_user_def assign_key_def registry_part_def Let_def split: option.split)

lemma write_touches [touches]: "accounts_only S (fst (write_user now T p)) \<longleftrightarrow> accounts_only S T" "accounts_only S (fst (write_key T p)) \<longleftrightarrow> accounts_only S T"
  by (auto simp: accounts_only_def write_user_def write_key_def case_prod_beta touches split: option.split)

lemma delete_record_touches [touches]:
  "accounts_only S (fst (delete_user_record T i)) \<longleftrightarrow> accounts_only S T" "accounts_only S (fst (delete_key_record T i)) \<longleftrightarrow> accounts_only S T"
  by (auto simp: accounts_only_def delete_user_record_def delete_key_record_def case_prod_beta Let_def touches split: option.split)

lemma store_key_touches [touches]: "accounts_only S (fst (store_api_key now T k)) \<longleftrightarrow> accounts_only S T"
  by (auto simp: accounts_only_def store_api_key_def case_prod_beta touches split: option.split)

lemma range_until_touches:
  "(\<And>T x. accounts_only T (fst (body T x))) \<Longrightarrow> accounts_only S (fst (range_until body S xs))"
proof (induction xs arbitrary: S)
  case (Cons x xs)
  then show ?case
    by (auto simp: case_prod_beta intro: accounts_only_trans split: option.split)
qed simp

lemma apply_touches:
  "accounts_only S (fst (apply_user_update cl salt p S kv))" "accounts_only S (fst (apply_key_update it now p S kv))"
  by (auto simp: apply_user_update_def apply_key_update_def case_prod_beta touches split: any_value.split option.split)

lemmas update_loops_touch = range_until_touches [OF apply_touches(1)] range_until_touches [OF apply_touches(2)]

lemma user_service_touches [touches]:
  "accounts_only S (fst (Service_CreateUser cl salt now now' S req))" "accounts_only S (fst (Service_DeleteUser S i))"
  "accounts_only S (fst (Service_UpdateUser cl salt it now now' S i updates))"
  "accounts_only S (fst (Service_ChangePassword cl salt now now' S i old new))"
  by (auto simp: Service_CreateUser_def Service_DeleteUser_def Service_UpdateUser_def Service_ChangePassword_def case_prod_beta
      touches update_loops_touch accounts_only_def [of S "sv_storage_update f S" for f] split: option.split sum.split)

lemma key_create_touches [touches]: "accounts_only S (fst (Service_CreateAPIKey cl random it now now' S req))"
  by (auto simp: Service_CreateAPIKey_def case_prod_beta Let_def touches split: option.split sum.split)

lemma key_revoke_touches [touches]: "accounts_only S (fst (Service_RevokeAPIKey itc T i)) \<longleftrightarrow> accounts_only S T"
  by (auto simp: Service_RevokeAPIKey_def case_prod_beta touches split: option.split sum.split)

lemma key_service_touches [touches]:
  "accounts_only S (fst (Service_UpdateAPIKey it itk itc now S i updates))" "accounts_only S (fst (Service_DeleteAPIKey itc S i))"
  "accounts_only S (fst (Service_RotateAPIKey cl random itk itc now now1 now2 S i expires))"
  by (auto simp: Service_UpdateAPIKey_def Service_DeleteAPIKey_def Service_RotateAPIKey_def case_prod_beta
      touches update_loops_touch split: option.split sum.split)

section \<open>What a tool touches\<close>

text \<open>A step of the storage alone, as \<open>R\<close> allows.\<close>

definition store_via :: "(Store \<Rightarrow> Store \<Rightarrow> bool) \<Rightarrow> mcp_state \<Rightarrow> mcp_state \<Rightarrow> bool" where
  "store_via R st st' \<longleftrightarrow> mx_service st' = (mx_service st)\<lparr>sv_storage := mx_store st'\<rparr> \<and> R (mx_store st) (mx_store st')"

lemma via_refl: "(\<And>s. R s s) \<Longrightarrow> store_via R st st"
  by (simp add: store_via_def mx_store_def)

lemma via_on_store: "(\<And>s. R s (fst (f s))) \<Longrightarrow> store_via R st (fst (on_store f st))"
  by (simp add: store_via_def mx_store_def on_store_def case_prod_beta)

lemma via_confirming:
  assumes "\<And>s. R s s" "\<And>s. R s (fst (f s))"
  shows "store_via R st (fst (confirming env tool dryRun token args preview f st))"
  using assms by (auto simp: confirming_def store_via_def mx_store_def on_store_def case_prod_beta
      split: prod.split confirm_outcome.split)

definition tool_scope :: "string \<Rightarrow> scope" where
  "tool_scope name = (case map_of toolPermissionScope name of Some scope \<Rightarrow> scope | None \<Rightarrow> [])"

definition catalog_scopes :: "scope list" where
  "catalog_scopes = [ScopeSchemaWrite, ScopeSchemaDelete, ScopeConfigWrite, ScopeModeWrite, ScopeImport]"

lemma schema_run_touches: "store_via catalog_only st (fst (schema_run srv env c st))"
  by (cases c) (auto simp: looking_def via_refl handleRegisterSchema_def handleDeleteSubject_def handleDeleteVersion_def
      Let_def case_prod_beta touches intro!: via_on_store via_confirming split: sum.split)

lemma config_run_touches: "store_via catalog_only st (fst (config_run srv env c st))"
  by (cases c) (auto simp: looking_def via_refl handleSetConfig_def handleDeleteConfig_def handleSetMode_def handleDeleteMode_def
      handleImportSchemas_def handleSetConfigFull_def Let_def case_prod_beta touches intro!: via_on_store via_confirming split: sum.split)

lemma key_run_touches: "store_via keys_only st (fst (key_run srv env c st))"
  by (cases c) (auto simp: looking_def via_refl handleCreateKEK_def handleUpdateKEK_def handleDeleteKEK_def handleUndeleteKEK_def
      handleCreateDEK_def handleDeleteDEK_def handleUndeleteDEK_def handleRewrapDEK_def answer_kek_def
      Let_def case_prod_beta touches intro!: via_on_store via_confirming)

lemma exporter_run_touches: "store_via exporters_only st (fst (exporter_run srv env c st))"
  by (cases c) (auto simp: looking_def via_refl handleCreateExporter_def handleUpdateExporter_def handleDeleteExporter_def
      handlePauseExporter_def handleResumeExporter_def handleResetExporter_def handleUpdateExporterConfig_def
      Registry_PauseExporter_def Registry_ResumeExporter_def Registry_ResetExporter_def
      Let_def case_prod_beta touches intro!: via_on_store via_confirming)

lemma admin_run_touches:
  "accounts_only (mx_service st) (mx_service (fst (admin_run env c st)))" "mx_confirm (fst (admin_run env c st)) = mx_confirm st"
  by (cases c; simp add: looking_def on_service_def handleCreateUser_def handleUpdateUser_def handleDeleteUser_def
      handleCreateAPIKey_def handleUpdateAPIKey_def handleDeleteAPIKey_def handleRevokeAPIKey_def handleChangePassword_def
      handleRotateAPIKey_def Let_def case_prod_beta touches)+

lemma insight_run_looks: "fst (insight_run srv env metrics c st) = st"
  by (cases c) (simp_all add: looking_def)

section \<open>Tools without a writing scope only look\<close>

lemma catalog_tools:
  "list_all (\<lambda>name. tool_scope name \<in> set catalog_scopes)
     [''register_schema'', ''delete_subject'', ''delete_version'', ''set_config'', ''delete_config'', ''set_config_full'',
      ''set_mode'', ''delete_mode'', ''import_schemas'']"
  by code_simp

lemma key_tools:
  "list_all (\<lambda>name. tool_scope name = ScopeEncryptionWrite)
     [''create_kek'', ''update_kek'', ''delete_kek'', ''undelete_kek'', ''create_dek'', ''delete_dek'', ''undelete_dek'',
      ''rewrap_dek'']"
  by code_simp

lemma exporter_tools:
  "list_all (\<lambda>name. tool_scope name = ScopeExporterWrite)
     [''create_exporter'', ''update_exporter'', ''delete_exporter'', ''pause_exporter'', ''resume_exporter'',
      ''reset_exporter'', ''update_exporter_config'']"
  by code_simp

lemma admin_tools:
  "list_all (\<lambda>name. tool_scope name = ScopeAdminWrite)
     [''create_user'', ''update_user'', ''delete_user'', ''create_apikey'', ''update_apikey'', ''delete_apikey'',
      ''revoke_apikey'', ''change_password'', ''rotate_apikey'']"
  by code_simp

lemmas writing_tools = catalog_tools [simplified] key_tools [simplified] exporter_tools [simplified] admin_tools [simplified]

lemma schema_run_looks: "tool_scope (schema_tool c) \<notin> set catalog_scopes \<Longrightarrow> fst (schema_run srv env c st) = st"
  by (cases c) (simp_all add: looking_def writing_tools)

lemma config_run_looks: "tool_scope (config_tool c) \<notin> set catalog_scopes \<Longrightarrow> fst (config_run srv env c st) = st"
  by (cases c) (simp_all add: looking_def writing_tools)

lemma key_run_looks: "tool_scope (key_tool c) \<noteq> ScopeEncryptionWrite \<Longrightarrow> fst (key_run srv env c st) = st"
  by (cases c) (simp_all add: looking_def writing_tools)

lemma exporter_run_looks: "tool_scope (exporter_tool c) \<noteq> ScopeExporterWrite \<Longrightarrow> fst (exporter_run srv env c st) = st"
  by (cases c) (simp_all add: looking_def writing_tools)

lemma admin_run_looks: "tool_scope (admin_tool c) \<noteq> ScopeAdminWrite \<Longrightarrow> fst (admin_run env c st) = st"
  by (cases c) (simp_all add: looking_def writing_tools)

section \<open>Scopes guard the parts of the state\<close>

definition mcp_scopes :: "'p McpServer \<Rightarrow> scope list option" where
  "mcp_scopes srv =
     (let cfg = tool_config (ms_config srv)
      in resolvePermissionScopes (mc_PermissionPreset cfg) (mc_PermissionScopes cfg) (mc_ReadOnly cfg))"

text \<open>The views of the state: the catalog, the keys, the exporters, and all the rest, which are the accounts.\<close>

definition catalog_view :: "mcp_state \<Rightarrow> (string, contextStore) gomap" where
  "catalog_view st = st_contexts (mx_store st)"

definition keys_view ::
  "mcp_state \<Rightarrow> (string, KEKRecord) gomap \<times> (string, (string, (int, DEKRecord) gomap) gomap) gomap" where
  "keys_view st = (st_keks (mx_store st), st_deks (mx_store st))"

definition exporters_view :: "mcp_state \<Rightarrow> (string, ExporterRecord) gomap \<times> (string, ExporterStatusRecord) gomap" where
  "exporters_view st = (st_exporters (mx_store st), st_exporterStatuses (mx_store st))"

definition accounts_view :: "mcp_state \<Rightarrow> Service" where
  "accounts_view st = (mx_service st)\<lparr>sv_storage := (mx_store st)
     \<lparr>st_contexts := gm_empty, st_keks := gm_empty, st_deks := gm_empty, st_exporters := gm_empty, st_exporterStatuses := gm_empty\<rparr>\<rparr>"

lemmas view_defs = catalog_view_def keys_view_def exporters_view_def accounts_view_def mx_store_def

lemma via_catalog_views:
  "store_via catalog_only st st' \<Longrightarrow> keys_view st' = keys_view st \<and> exporters_view st' = exporters_view st \<and> accounts_view st' = accounts_view st"
  by (cases st; cases st'; cases "mx_service st"; cases "mx_store st"; cases "mx_store st'")
    (simp add: store_via_def catalog_only_def view_defs)

lemma via_keys_views:
  "store_via keys_only st st' \<Longrightarrow> catalog_view st' = catalog_view st \<and> exporters_view st' = exporters_view st \<and> accounts_view st' = accounts_view st"
  by (cases st; cases st'; cases "mx_service st"; cases "mx_store st"; cases "mx_store st'")
    (simp add: store_via_def keys_only_def view_defs)

lemma via_exporters_views:
  "store_via exporters_only st st' \<Longrightarrow> catalog_view st' = catalog_view st \<and> keys_view st' = keys_view st \<and> accounts_view st' = accounts_view st"
  by (cases st; cases st'; cases "mx_service st"; cases "mx_store st"; cases "mx_store st'")
    (simp add: store_via_def exporters_only_def view_defs)

lemma accounts_only_views:
  "accounts_only (mx_service st) (mx_service st') \<Longrightarrow>
     catalog_view st' = catalog_view st \<and> keys_view st' = keys_view st \<and> exporters_view st' = exporters_view st"
  by (simp add: accounts_only_def registry_part_def view_defs)

lemma isScopeAllowed_iff: "isScopeAllowed name (Some allowed) \<longleftrightarrow> tool_scope name = [] \<or> tool_scope name \<in> set allowed"
  by (auto simp: isScopeAllowed_def tool_scope_def split: option.split)

lemma registered_allowed:
  "mcp_scopes srv = Some allowed \<Longrightarrow>
     isToolAllowed (tool_config (ms_config srv)) name ro \<longleftrightarrow> tool_scope name = [] \<or> tool_scope name \<in> set allowed"
  by (simp add: isToolAllowed_def mcp_scopes_def Let_def isScopeAllowed_iff)

text \<open>A part of the state that only tools with certain scopes change.\<close>

locale guarded_part =
  fixes srv :: "'p McpServer" and view :: "mcp_state \<Rightarrow> 'v" and guards :: "scope list"
  assumes tools: "tool_scope (tool_name c) \<notin> set guards \<Longrightarrow> view (fst (run_tool srv env c st)) = view st"
    and tokens: "view (st\<lparr>mx_confirm := cs\<rparr>) = view st"
    and named: "[] \<notin> set guards"
begin

lemma registered_scope:
  assumes "mcp_scopes srv = Some allowed" "name \<in> set (tools_of srv)" "tool_scope name \<in> set guards"
  shows "tool_scope name \<in> set allowed"
  using assms named by (auto simp: tools_of_def addToolIfAllowed_def registered_allowed)

lemma step_keeps:
  assumes "mcp_scopes srv = Some allowed" "set allowed \<inter> set guards = {}"
  shows "view (session_step srv e st) = view st"
proof (cases e)
  case (Calling env c)
  then show ?thesis
    using assms registered_scope [OF assms(1), of "tool_name c"] tools [of c env st]
    by (auto simp: call_tool_def case_prod_beta)
qed (simp add: tokens)

lemma session_keeps:
  assumes "mcp_scopes srv = Some allowed" "set allowed \<inter> set guards = {}"
  shows "view (session srv es st) = view st"
  by (induction es arbitrary: st) (simp_all add: session_def step_keeps [OF assms])

end

lemma run_tool_state:
  "fst (run_tool srv env c st) =
     (case c of SchemaCall x \<Rightarrow> fst (schema_run srv (ve_tools env) x st) | ConfigCall x \<Rightarrow> fst (config_run srv (ve_tools env) x st)
      | KeyCall x \<Rightarrow> fst (key_run srv (ve_tools env) x st) | ExporterCall x \<Rightarrow> fst (exporter_run srv (ve_tools env) x st)
      | AdminCall x \<Rightarrow> fst (admin_run (ve_admin env) x st) | InsightCall _ \<Rightarrow> st)"
  by (cases c) (simp_all add: as_body_def insight_run_looks)

lemmas tool_views =
  schema_run_touches [THEN via_catalog_views] config_run_touches [THEN via_catalog_views] key_run_touches [THEN via_keys_views]
  exporter_run_touches [THEN via_exporters_views] admin_run_touches(1) [THEN accounts_only_views]

lemmas tool_looks = schema_run_looks config_run_looks key_run_looks exporter_run_looks admin_run_looks

lemma tokens_kept:
  "catalog_view (st\<lparr>mx_confirm := cs\<rparr>) = catalog_view st" "keys_view (st\<lparr>mx_confirm := cs\<rparr>) = keys_view st"
  "exporters_view (st\<lparr>mx_confirm := cs\<rparr>) = exporters_view st" "accounts_view (st\<lparr>mx_confirm := cs\<rparr>) = accounts_view st"
  by (simp_all add: view_defs)

lemma scopes_named:
  "[] \<notin> set catalog_scopes" "[] \<noteq> ScopeEncryptionWrite" "[] \<noteq> ScopeExporterWrite" "[] \<noteq> ScopeAdminWrite"
  by (simp_all add: catalog_scopes_def scope_names)

lemmas guarding = run_tool_state tool_views tool_looks tokens_kept scopes_named

interpretation mcp_catalog: guarded_part srv catalog_view catalog_scopes for srv :: "'p McpServer"
  by unfold_locales (auto simp: guarding split: mcp_call.splits)

interpretation mcp_keys: guarded_part srv keys_view "[ScopeEncryptionWrite]" for srv :: "'p McpServer"
  by unfold_locales (auto simp: guarding split: mcp_call.splits)

interpretation mcp_exporters: guarded_part srv exporters_view "[ScopeExporterWrite]" for srv :: "'p McpServer"
  by unfold_locales (auto simp: guarding split: mcp_call.splits)

interpretation mcp_accounts: guarded_part srv accounts_view "[ScopeAdminWrite]" for srv :: "'p McpServer"
  by unfold_locales (auto simp: guarding split: mcp_call.splits)

lemma scopes_keep_state:
  assumes "mcp_scopes srv = Some allowed"
  shows "set catalog_scopes \<inter> set allowed = {} \<Longrightarrow> catalog_view (session srv es st) = catalog_view st"
    and "ScopeEncryptionWrite \<notin> set allowed \<Longrightarrow> keys_view (session srv es st) = keys_view st"
    and "ScopeExporterWrite \<notin> set allowed \<Longrightarrow> exporters_view (session srv es st) = exporters_view st"
    and "ScopeAdminWrite \<notin> set allowed \<Longrightarrow> accounts_view (session srv es st) = accounts_view st"
  using assms mcp_catalog.session_keeps mcp_keys.session_keeps mcp_exporters.session_keeps mcp_accounts.session_keeps by fastforce+

text \<open>The views together are the service, so a server whose scopes only read never changes it.\<close>

lemma views_determine:
  assumes "catalog_view st' = catalog_view st" "keys_view st' = keys_view st" "exporters_view st' = exporters_view st" "accounts_view st' = accounts_view st"
  shows "mx_service st' = mx_service st"
  using assms
  by (cases "mx_service st"; cases "mx_service st'"; cases "mx_store st"; cases "mx_store st'") (simp add: view_defs)

definition writing_scopes :: "scope list" where
  "writing_scopes = catalog_scopes @ [ScopeEncryptionWrite, ScopeExporterWrite, ScopeAdminWrite]"

lemma reading_scopes_only_read:
  assumes "mcp_scopes srv = Some allowed" "set writing_scopes \<inter> set allowed = {}"
  shows "mx_service (session srv es st) = mx_service st"
  using assms scopes_keep_state [OF assms(1)] by (intro views_determine) (auto simp: writing_scopes_def)

text \<open>A server for developers, on a registry without parsers, and a session that sets the default level.\<close>

definition developer_server :: "unit McpServer" where
  "developer_server =
     \<lparr>ms_registry = key_registry, ms_accounts = True,
      ms_config = (cfg_MCP DefaultConfig)\<lparr>mcp_PermissionPreset := ''developer''\<rparr>, ms_version = ''1'', ms_commit = [],
      ms_buildTime = [], ms_clusterID = []\<rparr>"

definition level_call :: mcp_call where
  "level_call = ConfigCall (SetConfig [] ''FULL'' None [])"

definition empty_state :: mcp_state where
  "empty_state =
     \<lparr>mx_service = NewServiceWithConfig id NewStore
        \<lparr>sc_APIKeySecret = [], sc_APIKeyPrefix = [], sc_CacheRefreshInterval = 0, sc_UserCacheTTL = 0\<rparr>,
      mx_confirm = None\<rparr>"

lemma developer_scopes:
  "mcp_scopes developer_server =
     Some [ScopeSchemaRead, ScopeConfigRead, ScopeModeRead, ScopeEncryptionRead, ScopeExporterRead, ScopeSchemaWrite, ScopeConfigWrite]"
  by (simp add: mcp_scopes_def developer_server_def tool_config_def resolvePermissionScopes_def permissionPresets_def
      gm_of_list_def gm_laws)

lemma developer_sets_level: "''set_config'' \<in> set (tools_of developer_server)"
proof -
  have "(''set_config'', False) \<in> set (registerTools developer_server)"
    by (simp add: registerTools_def registerConfigTools_def del: list.inject)
  moreover have "tool_scope ''set_config'' = ScopeConfigWrite" by code_simp
  ultimately show ?thesis
    using developer_scopes by (force simp: tools_of_def addToolIfAllowed_def registered_allowed)
qed

lemma level_changes: "catalog_view (session developer_server [Calling env level_call] empty_state) \<noteq> catalog_view empty_state"
proof
  let ?s = "session developer_server [Calling env level_call] empty_state"
  have *: "catalog_view ?s = st_contexts (fst (Registry_SetConfig key_registry NewStore DefaultContext [] ''FULL'' None None))"
    using developer_sets_level
    by (simp add: session_def call_tool_def level_call_def as_body_def on_store_def handleSetConfig_def case_prod_beta
        resolveContext_def view_defs developer_server_def empty_state_def NewServiceWithConfig_def)
  have valid: "isValidCompatibility (ToUpper ''FULL'')" by code_simp
  assume "catalog_view ?s = catalog_view empty_state"
  then have "gm_get (catalog_view ?s) DefaultContext = gm_get (st_contexts NewStore) DefaultContext"
    by (simp add: view_defs empty_state_def NewServiceWithConfig_def)
  then show False
    using valid unfolding *
    by (simp add: Registry_SetConfig_def Let_def Store_SetGlobalConfig_def Store_putContext_def Store_getOrCreateContext_def
        NewStore_def newContextStore_def gm_laws)
qed

text \<open>
  C17. The permission scopes of a server of the protocol (its preset, its list, or read-only) guard the
  parts of the state.  Whatever tools are called in a session, in whatever order, with whatever
  arguments, tokens and clocks: when a subject, schema, configuration or mode has changed, the server
  has one of the scopes for writing to the catalog; when a key has changed, the one for encryption;
  when an exporter has changed, the one for exporters; and when anything of the accounts, their keys or
  their caches has changed, the one for administration.
\<close>

theorem scopes_guard_state:
  assumes "mcp_scopes srv = Some allowed"
  shows "(catalog_view (session srv es st) \<noteq> catalog_view st \<longrightarrow> set catalog_scopes \<inter> set allowed \<noteq> {}) \<and>
         (keys_view (session srv es st) \<noteq> keys_view st \<longrightarrow> ScopeEncryptionWrite \<in> set allowed) \<and>
         (exporters_view (session srv es st) \<noteq> exporters_view st \<longrightarrow> ScopeExporterWrite \<in> set allowed) \<and>
         (accounts_view (session srv es st) \<noteq> accounts_view st \<longrightarrow> ScopeAdminWrite \<in> set allowed)"
  using scopes_keep_state [OF assms, of es st] by blast

theorem scopes_guard_state_witness:
  "\<exists>allowed. mcp_scopes developer_server = Some allowed \<and> (\<forall>env.
     let after = session developer_server [Calling env level_call] empty_state
     in catalog_view after \<noteq> catalog_view empty_state \<and> set catalog_scopes \<inter> set allowed \<noteq> {} \<and>
        keys_view after = keys_view empty_state \<and> exporters_view after = exporters_view empty_state \<and>
        accounts_view after = accounts_view empty_state)"
  using developer_scopes level_changes scopes_guard_state [OF developer_scopes]
  by (fastforce simp: scope_names Let_def)

section \<open>Where the tools differ from what they say\<close>

text \<open>
  \<open>update_kek\<close> builds a new record from its arguments, which the storage writes over the old one: the type
  and the key of the provider are lost, so what the key wraps can no longer be unwrapped, and a deleted
  key is back.
\<close>

lemma update_kek_forgets_provider:
  assumes "gm_get (st_keks s) name = Some kek" "TrimSpace name \<noteq> []"
  shows "\<exists>kek'. Store_GetKEK (fst (handleUpdateKEK srv env name props doc shared s)) name False = Inr kek' \<and>
                kek_KmsType kek' = [] \<and> kek_KmsKeyID kek' = [] \<and> \<not> kek_Deleted kek'"
  using assms
  by (simp add: handleUpdateKEK_def Registry_UpdateKEK_def Store_UpdateKEK_def Store_GetKEK_def kek_of_def answer_kek_def
      copyKEK_def gm_laws Let_def)

text \<open>A dry run is done for real when no confirmation is asked for.\<close>

lemma dry_run_runs:
  "mx_confirm st = None \<or> \<not> needs_confirmation tool args \<Longrightarrow> confirming env tool True token args preview f st = on_store f st"
  by (cases st) (auto simp: confirming_def confirmationCheck_def split: option.split)

text \<open>
  The token for a deletion does not name the registry context: a token from a dry run in one context
  confirms the deletion in another.
\<close>

lemma token_for_every_context:
  "mx_confirm (fst (handleDeleteSubject srv env subject permanent dryRun token ctx st)) =
   mx_confirm (fst (handleDeleteSubject srv env subject permanent dryRun token ctx' st))"
  "\<exists>out. snd (handleDeleteSubject srv env subject permanent dryRun token ctx st) = Unconfirmed out \<Longrightarrow>
   snd (handleDeleteSubject srv env subject permanent dryRun token ctx' st) =
   snd (handleDeleteSubject srv env subject permanent dryRun token ctx st)"
  by (auto simp: handleDeleteSubject_def confirming_def on_store_def case_prod_beta answer_with_def
      split: prod.splits confirm_outcome.splits sum.splits)

text \<open>Without a version \<open>get_dek\<close> reads version 1, and the deletion of version 0 finds nothing.\<close>

lemma get_dek_first: "handleGetDEK s kek subject 0 algorithm deleted = handleGetDEK s kek subject 1 algorithm deleted"
  by (simp add: handleGetDEK_def)

text \<open>Every failure of a tool is logged with the same reason.\<close>

lemma tool_failures_internal: "classifyMCPError ''tool returned error'' = ''internal_error''"
  by code_simp

text \<open>
  The differences of two versions: a path is among them exactly when the versions have different types
  there or only one of them has it, once, in the order of the paths.
\<close>

definition type_at :: "FieldInfo list \<Rightarrow> string \<Rightarrow> string option" where
  "type_at fs path = map_option fi_Type (gm_get (path_map fs) path)"

lemma old_diff_paths:
  "path \<in> fd_Field ` set (old_diffs a b) \<longleftrightarrow>
     (\<exists>f. gm_get a path = Some f \<and> map_option fi_Type (gm_get b path) \<noteq> Some (fi_Type f))"
proof
  assume "path \<in> fd_Field ` set (old_diffs a b)"
  then show "\<exists>f. gm_get a path = Some f \<and> map_option fi_Type (gm_get b path) \<noteq> Some (fi_Type f)"
    by (auto simp: old_diffs_def set_map_filter gm.entry_iff split: option.splits if_splits)
next
  assume "\<exists>f. gm_get a path = Some f \<and> map_option fi_Type (gm_get b path) \<noteq> Some (fi_Type f)"
  then obtain f where f: "(path, f) \<in> set (gm_entries a)" "map_option fi_Type (gm_get b path) \<noteq> Some (fi_Type f)"
    by (auto simp: gm.entry_iff)
  then have "\<exists>d. d \<in> set (old_diffs a b) \<and> fd_Field d = path"
    unfolding old_diffs_def set_map_filter by (cases "gm_get b path") (auto intro!: exI bexI [OF _ f(1)])
  then show "path \<in> fd_Field ` set (old_diffs a b)" by blast
qed

lemma diff_paths: "path \<in> fd_Field ` set (computeFieldDiffs from to) \<longleftrightarrow> type_at from path \<noteq> type_at to path"
proof -
  have "path \<in> fd_Field ` set (new_diffs a b) \<longleftrightarrow> gm_get a path = None \<and> (\<exists>f. gm_get b path = Some f)" for a b
    by (force simp: new_diffs_def gm.entry_iff)
  then show ?thesis
    by (cases "gm_get (path_map from) path"; cases "gm_get (path_map to) path")
      (auto simp: computeFieldDiffs_def Let_def image_Un type_at_def old_diff_paths)
qed

end
