(* ===== verification/Glob_Match.thy ===== *)
theory Glob_Match
  imports Analysis_Handlers
begin

text \<open>
  The wildcard matcher of \<open>originMatchesPattern\<close> against the meaning of a pattern: a star stands for
  any text, every other character for itself.  The loop is greedy - it takes the first occurrence of
  each part and never goes back - and this theory shows that nothing is lost by it.
\<close>

section \<open>The meaning of a pattern\<close>

inductive glob :: "string \<Rightarrow> string \<Rightarrow> bool" where
  glob_end: "glob [] []"
| glob_char: "c \<noteq> CHR ''*'' \<Longrightarrow> glob p s \<Longrightarrow> glob (c # p) (c # s)"
| glob_star: "glob p s \<Longrightarrow> glob (CHR ''*'' # p) (u @ s)"

inductive_simps glob_Nil: "glob [] s"
inductive_simps glob_Cons: "glob (c # p) s"

lemma glob_star_iff: "glob (CHR ''*'' # p) s \<longleftrightarrow> (\<exists>u v. s = u @ v \<and> glob p v)"
  by (auto simp: glob_Cons)

lemma glob_literal: "CHR ''*'' \<notin> set q \<Longrightarrow> glob (q @ p) s \<longleftrightarrow> (\<exists>v. s = q @ v \<and> glob p v)"
proof (induction q arbitrary: s)
  case (Cons c q)
  then show ?case by (auto simp: glob_Cons)
qed simp

lemma glob_text: "CHR ''*'' \<notin> set p \<Longrightarrow> glob p s \<longleftrightarrow> s = p"
  using glob_literal [of p "[]" s] by (auto simp: glob_Nil)

text \<open>What must follow a star: the remaining parts in order, the last one at the end.\<close>

fun after_star :: "string list \<Rightarrow> string \<Rightarrow> bool" where
  "after_star [] s \<longleftrightarrow> s = []"
| "after_star [q] s \<longleftrightarrow> (\<exists>u. s = u @ q)"
| "after_star (q # q' # qs) s \<longleftrightarrow> (\<exists>u v. s = u @ q @ v \<and> after_star (q' # qs) v)"

lemma after_star_more: "qs \<noteq> [] \<Longrightarrow> after_star qs s \<Longrightarrow> after_star qs (u @ s)"
proof (induction qs s rule: after_star.induct)
  case (3 q q' qs s)
  then obtain w v where "s = w @ q @ v" "after_star (q' # qs) v" by auto
  then have "u @ s = (u @ w) @ q @ v \<and> after_star (q' # qs) v" by simp
  then show ?case unfolding after_star.simps by blast
qed (auto simp: append_assoc [symmetric] simp del: append_assoc)

lemma glob_after_star:
  assumes "qs \<noteq> []" "\<forall>q\<in>set qs. CHR ''*'' \<notin> set q"
  shows "glob (CHR ''*'' # Join qs ''*'') s \<longleftrightarrow> after_star qs s"
  using assms
proof (induction qs s rule: after_star.induct)
  case (2 q s)
  then show ?case by (auto simp: glob_star_iff glob_text)
next
  case (3 q q' qs s)
  have "glob (q @ CHR ''*'' # Join (q' # qs) ''*'') v \<longleftrightarrow>
      (\<exists>w. v = q @ w \<and> after_star (q' # qs) w)" for v
    using 3 by (simp add: glob_literal)
  then show ?case by (auto simp: glob_star_iff)
qed simp

lemma Join_SplitByte: "Join (SplitByte s c) [c] = s"
proof (induction s)
  case (Cons x s)
  then show ?case
    using SplitByte_nonempty [of s c] by (cases "SplitByte s c" rule: list.exhaust; cases "tl (SplitByte s c)") auto
qed simp

section \<open>The greedy loop\<close>

lemma HasSuffix_iff: "HasSuffix s p \<longleftrightarrow> (\<exists>u. s = u @ p)"
proof
  assume "HasSuffix s p"
  then have "s = take (length s - length p) s @ p" unfolding HasSuffix_def by (metis append_take_drop_id)
  then show "\<exists>u. s = u @ p" ..
qed (auto simp: HasSuffix_def)

lemma suffix_of_rest:
  assumes "length q \<le> length (drop idx s)" shows "HasSuffix s q \<longleftrightarrow> HasSuffix (drop idx s) q"
proof (cases "idx \<le> length s")
  case True
  then have "length s - (idx + length q) + idx = length s - length q" "length q \<le> length s"
    using assms by simp_all
  then show ?thesis using assms by (simp add: HasSuffix_def)
qed (use assms in \<open>simp add: HasSuffix_def\<close>)

lemma shorter_suffix: "a @ v = b @ x \<Longrightarrow> length x \<le> length v \<Longrightarrow> \<exists>y. v = y @ x"
  by (auto simp: append_eq_append_conv2)

lemma match_rest:
  assumes "parts \<noteq> []" "0 < i"
  shows "(match_parts o' i idx parts \<noteq> None \<and> (last parts \<noteq> [] \<longrightarrow> HasSuffix o' (last parts))) \<longleftrightarrow>
    after_star parts (drop idx o')"
  using assms
proof (induction parts arbitrary: i idx rule: induct_list012)
  case (2 q)
  show ?case
  proof (cases "strings_Index (drop idx o') q")
    case None
    then show ?thesis using Index_None [of "drop idx o'" q _ "[]"] by auto
  next
    case (Some pos)
    from Index_Some [OF Some] obtain u v where "drop idx o' = u @ q @ v" by blast
    then have "length q \<le> length (drop idx o')" by (simp only: length_append)
    then show ?thesis
      using Some "2.prems" suffix_of_rest [of q idx o'] by (auto simp: HasSuffix_iff)
  qed
next
  case (3 q q' qs)
  let ?rest = "q' # qs"
  show ?case
  proof (cases "q = []")
    case True
    have "after_star (q # ?rest) t \<longleftrightarrow> after_star ?rest t" for t
      using after_star_more [of ?rest] True by auto
    then show ?thesis using 3 True by simp
  next
    case False
    show ?thesis
    proof (cases "strings_Index (drop idx o') q")
      case None
      then show ?thesis using Index_None [of "drop idx o'" q] False by auto
    next
      case (Some pos)
      from Index_Some [OF Some] obtain u v where uv: "drop idx o' = u @ q @ v" "length u = pos"
        and least: "\<And>w x. drop idx o' = w @ q @ x \<Longrightarrow> pos \<le> length w" by blast
      have v: "drop (idx + pos + length q) o' = v"
        using arg_cong [OF uv(1), of "drop (pos + length q)"] uv(2) by (simp add: add.commute add.left_commute)
      have "after_star (q # ?rest) (drop idx o') \<longleftrightarrow> after_star ?rest v"
      proof
        assume "after_star (q # ?rest) (drop idx o')"
        then obtain w x where wx: "drop idx o' = w @ q @ x" "after_star ?rest x" by auto
        have "length x \<le> length v"
          using least [OF wx(1)] arg_cong [OF uv(1), of length] arg_cong [OF wx(1), of length] uv(2)
          by (simp only: length_append)
        moreover have "(u @ q) @ v = (w @ q) @ x" using uv(1) wx(1) by simp
        ultimately obtain y where "v = y @ x" using shorter_suffix by blast
        then show "after_star ?rest v" using wx(2) after_star_more by simp
      next
        assume "after_star ?rest v"
        then show "after_star (q # ?rest) (drop idx o')" using uv(1) by auto
      qed
      moreover have "match_parts o' i idx (q # ?rest) = match_parts o' (Suc i) (idx + pos + length q) ?rest"
        using False Some 3(4) by simp
      ultimately show ?thesis using 3(2) [of "Suc i" "idx + pos + length q"] v by simp
    qed
  qed
qed simp

text \<open>The first part must stand at the start; the rest follows a star.\<close>

lemma first_part:
  assumes "rest \<noteq> []"
  shows "(match_parts o' 0 0 (q # rest) \<noteq> None \<and> (last rest \<noteq> [] \<longrightarrow> HasSuffix o' (last rest))) \<longleftrightarrow>
    (\<exists>v. o' = q @ v \<and> after_star rest v)"
proof (cases "q = []")
  case True
  then show ?thesis using match_rest [OF assms, of "Suc 0" o' 0] by simp
next
  case False
  show ?thesis
  proof (cases "HasPrefix o' q")
    case True
    then obtain v where v: "o' = q @ v" by (auto simp: HasPrefix_iff)
    have "strings_Index o' q = Some 0" using True by (subst strings_Index.simps) simp
    then have "match_parts o' 0 0 (q # rest) = match_parts o' (Suc 0) (length q) rest" using False by simp
    then show ?thesis using match_rest [OF assms, of "Suc 0" o' "length q"] v by auto
  next
    case no: False
    have "strings_Index o' q \<noteq> Some 0" using Index_Some [of o' q 0] no by (auto simp: HasPrefix_iff)
    then have "match_parts o' 0 0 (q # rest) = None" using False by (auto split: option.splits)
    then show ?thesis using no by (auto simp: HasPrefix_iff)
  qed
qed

lemma Contains_char: "Contains s [c] \<longleftrightarrow> c \<in> set s"
  by (induction s) (auto simp: HasPrefix_def)

lemma glob_decided: "originMatchesPattern u pattern target \<longleftrightarrow> glob (lower_text u pattern) (lower_text u target)"
proof -
  let ?p = "lower_text u pattern" let ?o = "lower_text u target"
  show ?thesis
  proof (cases "CHR ''*'' \<in> set ?p")
    case False
    then show ?thesis by (auto simp: originMatchesPattern_def Let_def Contains_char glob_text)
  next
    case True
    obtain q rest where parts: "SplitByte ?p CHR ''*'' = q # rest" by (meson SplitByte_nonempty neq_Nil_conv)
    have clean: "\<forall>x\<in>set (q # rest). CHR ''*'' \<notin> set x" using SplitByte_parts parts by metis
    have joined: "Join (q # rest) ''*'' = ?p" using Join_SplitByte [of ?p "CHR ''*''"] parts by simp
    have ne: "rest \<noteq> []"
    proof
      assume "rest = []"
      then show False using True joined clean by simp
    qed
    then have "?p = q @ CHR ''*'' # Join rest ''*''" using joined by (cases rest) simp_all
    then have "glob ?p ?o \<longleftrightarrow> (\<exists>v. ?o = q @ v \<and> after_star rest v)"
      using clean glob_after_star [OF ne] by (simp add: glob_literal)
    then show ?thesis
      using first_part [OF ne, of ?o q] True parts ne
      by (auto simp: originMatchesPattern_def Let_def Contains_char simp del: match_parts.simps split: option.splits)
  qed
qed

end
