(* ===== verification/Mcp_Addresses.thy ===== *)
theory Mcp_Addresses
  imports Mcp_Resources Glob_Match
begin

text \<open>
  Addresses at the server of the protocol: which origins a pattern with a wildcard lets in, and how the
  URI of a resource is taken apart.
\<close>

section \<open>Addresses of resources\<close>

text \<open>Host and path of the URI \<open>schema://\<close>, with or without a context in front.\<close>

definition slashed :: "string list \<Rightarrow> string" where
  "slashed parts = concat (map (\<lambda>p. CHR ''/'' # p) parts)"

definition resource_address :: "string option \<Rightarrow> string \<Rightarrow> string list \<Rightarrow> string \<times> string" where
  "resource_address registryCtx host parts =
     (case registryCtx of None \<Rightarrow> (host, slashed parts) | Some c \<Rightarrow> (''contexts'', slashed (c # host # parts)))"

definition plain_part :: "string \<Rightarrow> bool" where
  "plain_part p \<longleftrightarrow> p \<noteq> [] \<and> CHR ''/'' \<notin> set p"

lemma slashed_simps [simp]: "slashed [] = []" "slashed (p # ps) = CHR ''/'' # p @ slashed ps"
  by (simp_all add: slashed_def)

lemma slashed_cases: "slashed ps = [] \<or> (\<exists>r. slashed ps = CHR ''/'' # r)"
  by (cases ps) auto

lemma first_part_slashed:
  assumes "CHR ''/'' \<notin> set p" shows "first_part (CHR ''/'' # p @ slashed ps) = p"
  using slashed_cases [of ps] assms
  by (auto simp: first_part_def IndexByte_append IndexByte_None numeral_2_eq_2 split: option.split
      dest: IndexByte_None [THEN iffD2])

lemma SplitByte_slashed:
  assumes "CHR ''/'' \<notin> set p" shows "\<exists>more. SplitByte (p @ slashed ps) (CHR ''/'') = p # more"
  using slashed_cases [of ps] assms by (auto simp: SplitByte_append SplitByte_no_sep)

lemma SplitN_slashed:
  assumes "CHR ''/'' \<notin> set c" "CHR ''/'' \<notin> set h"
  shows "SplitN 3 (c @ CHR ''/'' # h @ CHR ''/'' # r) (CHR ''/'') = [c, h, r]"
  using assms by (simp add: numeral_3_eq_3 IndexByte_append)

lemma without_context_address:
  assumes "key \<noteq> ''context''" "host \<noteq> ''contexts''" "CHR ''/'' \<notin> set host" "registryCtx \<noteq> None \<longrightarrow> plain_part (the registryCtx)" "parts \<noteq> []"
  shows "case_prod without_context (resource_address registryCtx host parts) key = (host, slashed parts)"
  using assms SplitN_slashed
  by (cases parts; cases registryCtx) (auto simp: resource_address_def without_context_def plain_part_def)

lemma context_of_address:
  assumes "parse uri = Some (resource_address registryCtx host parts)" "host \<noteq> ''contexts''" "registryCtx \<noteq> None \<longrightarrow> plain_part (the registryCtx)"
  shows "resolveResourceContext parse uri = (case registryCtx of None \<Rightarrow> DefaultContext | Some c \<Rightarrow> c)"
  using assms first_part_slashed [of "the registryCtx" "host # parts"]
  by (cases registryCtx)
    (auto simp: resolveResourceContext_def extractURIParam_def resource_address_def without_context_def plain_part_def Let_def)

text \<open>
  The URI of a version of a subject, with or without a context in front, is taken apart into the
  context, the subject and the version it was put together from (whatever follows the version), as long
  as none of them is empty or holds a slash.
\<close>

lemma resource_address_read:
  assumes "parse uri = Some (resource_address registryCtx ''subjects'' (subject # ''versions'' # version # rest))"
    and "plain_part subject" "plain_part version" "registryCtx \<noteq> None \<longrightarrow> plain_part (the registryCtx)"
  shows "resolveResourceContext parse uri = (case registryCtx of None \<Rightarrow> DefaultContext | Some c \<Rightarrow> c) \<and>
         extractURIParam parse uri ''subject'' = Inr subject \<and> extractURIParam parse uri ''version'' = Inr version"
proof -
  have stripped: "case_prod without_context (resource_address registryCtx ''subjects'' (subject # ''versions'' # version # rest)) key =
      (''subjects'', slashed (subject # ''versions'' # version # rest))" if "key \<noteq> ''context''" for key
    using that assms(4) by (intro without_context_address) auto
  obtain more where more: "SplitByte (version @ slashed rest) (CHR ''/'') = version # more"
    using SplitByte_slashed assms(3) plain_part_def by blast
  have split: "SplitByte (subject @ ''/versions/'' @ version @ slashed rest) (CHR ''/'') = subject # ''versions'' # version # more"
    using SplitByte_append [of "CHR ''/''" subject] SplitByte_append [of "CHR ''/''" "''versions''" "version @ slashed rest"] assms(2) more
    by (simp add: plain_part_def)
  show ?thesis
    using context_of_address [of parse uri, OF assms(1)] assms stripped [of "''subject''"] stripped [of "''version''"] split
      first_part_slashed [of subject "''versions'' # version # rest"]
    by (auto simp: extractURIParam_def plain_part_def Let_def case_prod_beta)
qed

lemma resource_address_read_witness:
  "let parse = (\<lambda>_. Some (resource_address (Some ''.staging'') ''subjects'' [''orders'', ''versions'', ''3'', ''raw'']))
   in resolveResourceContext parse [] = ''.staging'' \<and> extractURIParam parse [] ''subject'' = Inr ''orders'' \<and>
      extractURIParam parse [] ''version'' = Inr ''3''"
  using resource_address_read [of "\<lambda>_. Some (resource_address (Some ''.staging'') ''subjects'' [''orders'', ''versions'', ''3'', ''raw''])"
      "[]" "Some ''.staging''" "''orders''" "''3''" "[''raw'']"]
  by (simp add: plain_part_def)

text \<open>A subject with an escaped slash arrives unescaped and is cut at the slash: it cannot be addressed.\<close>

lemma subject_cut_at_slash:
  assumes "parse uri = Some (resource_address None ''subjects'' [p @ CHR ''/'' # q])" "plain_part p"
  shows "extractURIParam parse uri ''subject'' = Inr p"
  using assms first_part_slashed [of p "[q]"]
  by (simp add: extractURIParam_def resource_address_def without_context_def Let_def plain_part_def)

section \<open>Origins\<close>

lemma Index_unique:
  assumes "CHR '':'' \<notin> set u" shows "strings_Index (u @ ''://'' @ v) ''://'' = Some (length u)"
proof (cases "strings_Index (u @ ''://'' @ v) ''://''")
  case None
  then show ?thesis using Index_None by blast
next
  case (Some i)
  from Index_Some [OF this] obtain a b where ab: "u @ ''://'' @ v = a @ ''://'' @ b" "length a = i" "i \<le> length u" by blast
  have "\<not> i < length u"
  proof
    assume less: "i < length u"
    have "(a @ ''://'' @ b) ! i = CHR '':''" using ab(2) by (simp add: nth_append)
    then have "u ! i = CHR '':''" using ab(1) less by (metis nth_append)
    then show False using assms less nth_mem by metis
  qed
  then show ?thesis using Some ab(3) by simp
qed

lemma splitOrigin_full: "CHR '':'' \<notin> set scheme \<Longrightarrow> splitOrigin (scheme @ ''://'' @ authority) = (scheme, authority)"
  using Index_unique [of scheme authority] by (simp add: splitOrigin_def)

lemma splitOrigin_scheme:
  assumes "splitOrigin s = (scheme, authority)" "scheme \<noteq> []" shows "s = scheme @ ''://'' @ authority"
proof (cases "strings_Index s ''://''")
  case (Some i)
  from Index_Some [OF this] obtain a b where "s = a @ ''://'' @ b" "length a = i" by blast
  then show ?thesis using assms(1) Some by (auto simp: splitOrigin_def)
qed (use assms in \<open>simp add: splitOrigin_def\<close>)

lemma splitHostPort_plain: "CHR '':'' \<notin> set host \<Longrightarrow> splitHostPort host = (host, [])"
  by (simp add: splitHostPort_def LastIndexByte_def IndexByte_None [THEN iffD2])

lemma splitHostPort_last:
  assumes "CHR '':'' \<notin> set port" shows "splitHostPort (host @ CHR '':'' # port) = (host, port)"
  using assms IndexByte_append [of "CHR '':''" "rev port" "rev host"]
  by (simp add: splitHostPort_def LastIndexByte_def)

lemma splitHostPort_cases:
  assumes "splitHostPort s = (host, port)"
  shows "(s = host \<and> port = [] \<and> CHR '':'' \<notin> set s) \<or> (s = host @ CHR '':'' # port \<and> CHR '':'' \<notin> set port)"
proof (cases "CHR '':'' \<in> set s")
  case True
  then obtain a b where s: "s = a @ CHR '':'' # b" "CHR '':'' \<notin> set b" by (meson split_list_last)
  then show ?thesis using assms splitHostPort_last [of b a] by simp
next
  case False
  then show ?thesis using assms splitHostPort_plain [of s] by simp
qed

lemma SplitByte_subset: "p \<in> set (SplitByte s c) \<Longrightarrow> set p \<subseteq> set s"
  by (induction s arbitrary: p) (fastforce split: if_splits list.splits)+

lemma parts_match:
  assumes "''*'' \<notin> set ps"
  shows "length ps = length os \<and> list_all (\<lambda>(pp, op). pp = ''*'' \<or> pp = op) (zip ps os) \<longleftrightarrow> ps = os"
  using assms by (induction ps arbitrary: os) (case_tac os; auto)+

lemma match_below:
  assumes "CHR ''*'' \<notin> set domain"
  shows "matchHostPattern (''*.'' @ domain) host \<longleftrightarrow> (\<exists>label. host = label @ ''.'' @ domain \<and> CHR ''.'' \<notin> set label)"
proof -
  have no: "''*'' \<notin> set (SplitByte domain (CHR ''.''))" using SplitByte_subset assms by fastforce
  have "matchHostPattern (''*.'' @ domain) host \<longleftrightarrow> (\<exists>label. SplitByte host (CHR ''.'') = label # SplitByte domain (CHR ''.''))"
    using parts_match [OF no] SplitByte_nonempty [of host "CHR ''.''"]
    by (cases "SplitByte host (CHR ''.'')") (auto simp: matchHostPattern_def)
  also have "\<dots> \<longleftrightarrow> (\<exists>label. host = label @ ''.'' @ domain \<and> CHR ''.'' \<notin> set label)"
  proof safe
    fix label assume l: "SplitByte host (CHR ''.'') = label # SplitByte domain (CHR ''.'')"
    have "host = label @ ''.'' @ domain"
      using Join_SplitByte [of host "CHR ''.''"] Join_SplitByte [of domain "CHR ''.''"] SplitByte_nonempty [of domain "CHR ''.''"]
      by (cases "SplitByte domain (CHR ''.'')") (auto simp: l)
    moreover have "CHR ''.'' \<notin> set label" using SplitByte_parts [of label host] l by simp
    ultimately show "\<exists>label. host = label @ ''.'' @ domain \<and> CHR ''.'' \<notin> set label" by blast
  qed (auto simp: SplitByte_append)
  finally show ?thesis .
qed

text \<open>
  C18. A pattern \<open>scheme://*.domain\<close> lets in the origins of that scheme whose host is the domain with
  exactly one more label in front, and no other: not the domain itself, not a host that merely ends in
  its text, not a deeper one, none with a port.  (Letter case is ignored; a bare colon at the end counts
  as no port.)
\<close>

theorem subdomain_origins:
  assumes "lower_text u pattern = scheme @ ''://*.'' @ domain"
    and "scheme \<noteq> []" "CHR '':'' \<notin> set scheme" "CHR '':'' \<notin> set domain" "CHR ''*'' \<notin> set domain"
  shows "mcp_originMatchesPattern u pattern origin \<longleftrightarrow>
           (\<exists>label ending. lower_text u origin = scheme @ ''://'' @ label @ ''.'' @ domain @ ending \<and> CHR ''.'' \<notin> set label \<and>
              (ending = [] \<and> CHR '':'' \<notin> set label \<or> ending = '':''))"
    (is "_ = (\<exists>label ending. ?is label ending)")
proof -
  obtain oScheme authority where o: "splitOrigin (lower_text u origin) = (oScheme, authority)" by fastforce
  obtain host port where hp: "splitHostPort authority = (host, port)" by fastforce
  have p: "splitOrigin (scheme @ ''://*.'' @ domain) = (scheme, ''*.'' @ domain)" "splitHostPort (''*.'' @ domain) = (''*.'' @ domain, [])"
    using splitOrigin_full [OF assms(3), of "''*.'' @ domain"] splitHostPort_plain [of "''*.'' @ domain"] assms(4) by simp_all
  have star: "Contains (scheme @ ''://*.'' @ domain) ''*''" unfolding Contains_iff by (rule exI [of _ "scheme @ ''://''"]) simp
  have "mcp_originMatchesPattern u pattern origin \<longleftrightarrow> oScheme = scheme \<and> port = [] \<and> matchHostPattern (''*.'' @ domain) host"
    using assms(2,3) star p o hp unfolding mcp_originMatchesPattern_def assms(1) Let_def
    by (cases scheme) auto
  also have "\<dots> \<longleftrightarrow> (\<exists>label ending. ?is label ending)"
  proof
    assume *: "oScheme = scheme \<and> port = [] \<and> matchHostPattern (''*.'' @ domain) host"
    obtain label where l: "host = label @ ''.'' @ domain" "CHR ''.'' \<notin> set label" using * match_below [OF assms(5)] by blast
    have "lower_text u origin = scheme @ ''://'' @ authority" using splitOrigin_scheme [OF o] * assms(2) by simp
    then show "\<exists>label ending. ?is label ending" using splitHostPort_cases [OF hp] * l by force
  next
    assume "\<exists>label ending. ?is label ending"
    then obtain label ending where *: "?is label ending" by blast
    have "oScheme = scheme" "authority = label @ ''.'' @ domain @ ending"
      using * o splitOrigin_full [OF assms(3), of "label @ ''.'' @ domain @ ending"] by auto
    moreover from this have "host = label @ ''.'' @ domain" "port = []"
      using * hp assms(4) splitHostPort_plain [of authority] splitHostPort_last [of "[]" "label @ ''.'' @ domain"] by auto
    ultimately show "oScheme = scheme \<and> port = [] \<and> matchHostPattern (''*.'' @ domain) host"
      using * match_below [OF assms(5)] by blast
  qed
  finally show ?thesis .
qed

theorem subdomain_origins_witness:
  "mcp_originMatchesPattern ascii_tables ''https://*.example.com'' ''https://App.example.com'' \<and>
   \<not> mcp_originMatchesPattern ascii_tables ''https://*.example.com'' ''https://example.com''"
proof -
  have low: "lower_text ascii_tables ''https://*.example.com'' = ''https'' @ ''://*.'' @ ''example.com''"
    "lower_text ascii_tables ''https://App.example.com'' = ''https'' @ ''://'' @ ''app'' @ ''.'' @ ''example.com'' @ []"
    "lower_text ascii_tables ''https://example.com'' = ''https://example.com''" by code_simp+
  have iff: "mcp_originMatchesPattern ascii_tables ''https://*.example.com'' origin \<longleftrightarrow>
      (\<exists>label ending. lower_text ascii_tables origin = ''https'' @ ''://'' @ label @ ''.'' @ ''example.com'' @ ending \<and> CHR ''.'' \<notin> set label \<and>
         (ending = [] \<and> CHR '':'' \<notin> set label \<or> ending = '':''))" for origin
    by (rule subdomain_origins [OF low(1)]) simp_all
  have "mcp_originMatchesPattern ascii_tables ''https://*.example.com'' ''https://App.example.com''"
    unfolding iff low by (rule exI [of _ "''app''"], rule exI [of _ "[]"]) simp
  moreover have "''https://example.com'' \<noteq> ''https'' @ ''://'' @ label @ ''.'' @ ''example.com'' @ ending" for label ending
    by (rule notI, drule arg_cong [where f = length]) simp
  then have "\<not> mcp_originMatchesPattern ascii_tables ''https://*.example.com'' ''https://example.com''"
    unfolding iff low by blast
  ultimately show ?thesis by blast
qed

end
