(* ===== verification/Avro_Compat.thy ===== *)
theory Avro_Compat
  imports Compat_Modes
begin

text \<open>
  The Avro compatibility checker, \<open>internal/compatibility/avro/checker.go\<close>.  The schema type
  mirrors what the checker observes of a parsed schema (its \<open>Type()\<close> and the accessors of that
  type); a schema of any other type is \<open>AOther\<close>.  Parsing is the work of a library and a parameter
  (\<open>avro_lib\<close>).  The recursive methods are written with the recursive call as a parameter and tied
  together by \<open>checkSchemas\<close>.
\<close>

datatype avro_type =
    TString | TBytes | TInt | TLong | TFloat | TDouble | TBoolean | TNull
  | TRecord | TEnum | TArray | TMap | TUnion | TFixed | TOther string

datatype avro_primitive = PString | PBytes | PInt | PLong | PFloat | PDouble | PBoolean | PNull

datatype avro_schema =
    APrimitive avro_primitive
  | ARecord string "string list" "avro_field list"
  | AEnum string "string list" string
  | AArray avro_schema
  | AMap avro_schema
  | AUnion "avro_schema list"
  | AFixed string int
  | AOther string
and avro_field =
    AField (af_Name: string) (af_Aliases: "string list") (af_HasDefault: bool) (af_Type: avro_schema)

fun primitive_type :: "avro_primitive \<Rightarrow> avro_type" where
  "primitive_type PString = TString" | "primitive_type PBytes = TBytes"
| "primitive_type PInt = TInt" | "primitive_type PLong = TLong"
| "primitive_type PFloat = TFloat" | "primitive_type PDouble = TDouble"
| "primitive_type PBoolean = TBoolean" | "primitive_type PNull = TNull"

fun avro_Type :: "avro_schema \<Rightarrow> avro_type" where
  "avro_Type (APrimitive p) = primitive_type p"
| "avro_Type (ARecord _ _ _) = TRecord"
| "avro_Type (AEnum _ _ _) = TEnum"
| "avro_Type (AArray _) = TArray"
| "avro_Type (AMap _) = TMap"
| "avro_Type (AUnion _) = TUnion"
| "avro_Type (AFixed _ _) = TFixed"
| "avro_Type (AOther t) = TOther t"

text \<open>The accessors of the concrete schema types; on another type they are never called.\<close>

fun avro_FullName :: "avro_schema \<Rightarrow> string" where
  "avro_FullName (ARecord n _ _) = n" | "avro_FullName (AEnum n _ _) = n"
| "avro_FullName (AFixed n _) = n" | "avro_FullName _ = []"

fun avro_Aliases :: "avro_schema \<Rightarrow> string list" where
  "avro_Aliases (ARecord _ as _) = as" | "avro_Aliases _ = []"

fun avro_Fields :: "avro_schema \<Rightarrow> avro_field list" where
  "avro_Fields (ARecord _ _ fs) = fs" | "avro_Fields _ = []"

fun avro_Symbols :: "avro_schema \<Rightarrow> string list" where
  "avro_Symbols (AEnum _ syms _) = syms" | "avro_Symbols _ = []"

fun avro_Default :: "avro_schema \<Rightarrow> string" where
  "avro_Default (AEnum _ _ d) = d" | "avro_Default _ = []"

fun avro_Items :: "avro_schema \<Rightarrow> avro_schema" where
  "avro_Items (AArray s) = s" | "avro_Items s = s"

fun avro_Values :: "avro_schema \<Rightarrow> avro_schema" where
  "avro_Values (AMap s) = s" | "avro_Values s = s"

fun avro_Types :: "avro_schema \<Rightarrow> avro_schema list" where
  "avro_Types (AUnion ts) = ts" | "avro_Types _ = []"

fun avro_Size :: "avro_schema \<Rightarrow> int" where
  "avro_Size (AFixed _ n) = n" | "avro_Size _ = 0"

fun type_string :: "avro_type \<Rightarrow> string" where
  "type_string TString = ''string''" | "type_string TBytes = ''bytes''"
| "type_string TInt = ''int''" | "type_string TLong = ''long''"
| "type_string TFloat = ''float''" | "type_string TDouble = ''double''"
| "type_string TBoolean = ''boolean''" | "type_string TNull = ''null''"
| "type_string TRecord = ''record''" | "type_string TEnum = ''enum''"
| "type_string TArray = ''array''" | "type_string TMap = ''map''"
| "type_string TUnion = ''union''" | "type_string TFixed = ''fixed''"
| "type_string (TOther t) = t"

section \<open>The checker\<close>

definition pathOrRoot :: "string \<Rightarrow> string" where
  "pathOrRoot path = (if path = [] then ''root'' else path)"

definition appendPath :: "string \<Rightarrow> string \<Rightarrow> string" where
  "appendPath path segment = (if path = [] then segment else path @ ''.'' @ segment)"

definition canPromote :: "avro_schema \<Rightarrow> avro_schema \<Rightarrow> bool" where
  "canPromote writer reader =
     (let wt = avro_Type writer; rt = avro_Type reader
      in case wt of
           TInt \<Rightarrow> rt = TLong \<or> rt = TFloat \<or> rt = TDouble
         | TLong \<Rightarrow> rt = TFloat \<or> rt = TDouble
         | TFloat \<Rightarrow> rt = TDouble
         | TString \<Rightarrow> rt = TBytes
         | TBytes \<Rightarrow> rt = TString
         | _ \<Rightarrow> False)"

definition isPromotable :: "avro_schema \<Rightarrow> avro_schema \<Rightarrow> bool" where
  "isPromotable writer reader = canPromote writer reader"

definition recordNamesMatch :: "avro_schema \<Rightarrow> avro_schema \<Rightarrow> bool" where
  "recordNamesMatch reader writer \<longleftrightarrow>
     avro_FullName reader = avro_FullName writer \<or>
     list_ex (\<lambda>alias. avro_FullName reader = alias) (avro_Aliases writer) \<or>
     list_ex (\<lambda>alias. avro_FullName writer = alias) (avro_Aliases reader)"

definition writer_fields :: "avro_field list \<Rightarrow> (string, avro_field) gomap" where
  "writer_fields fs =
     fold (\<lambda>f m. fold (\<lambda>alias m. gm_put alias f m) (af_Aliases f) (gm_put (af_Name f) f m))
       fs gm_empty"

definition findWriterField :: "avro_field \<Rightarrow> (string, avro_field) gomap \<Rightarrow> avro_field option" where
  "findWriterField readerField writerFields =
     (case gm_get writerFields (af_Name readerField) of
        Some wfd \<Rightarrow> Some wfd
      | None \<Rightarrow>
          (case List.find (\<lambda>alias. gm_get writerFields alias \<noteq> None) (af_Aliases readerField) of
             Some alias \<Rightarrow> gm_get writerFields alias
           | None \<Rightarrow> None))"

type_synonym schema_check = "avro_schema \<Rightarrow> avro_schema \<Rightarrow> string \<Rightarrow> Result"

definition checkRecord :: "schema_check \<Rightarrow> schema_check" where
  "checkRecord check reader writer path =
     (if \<not> recordNamesMatch reader writer
      then Result_AddMessage NewCompatibleResult
             (pathOrRoot path @ '': record name mismatch: reader has '' @ avro_FullName reader @
              '', writer has '' @ avro_FullName writer)
      else
        (let writerFields = writer_fields (avro_Fields writer)
         in fold (\<lambda>rf result.
              case findWriterField rf writerFields of
                None \<Rightarrow>
                  if af_HasDefault rf then result
                  else Result_AddMessage result
                         (pathOrRoot path @ '': reader field '' @ [CHR 0x27] @ af_Name rf @ [CHR 0x27] @
                          '' has no default and is missing from writer'')
              | Some wfd \<Rightarrow>
                  Result_Merge result (check (af_Type rf) (af_Type wfd) (appendPath path (af_Name rf))))
              (avro_Fields reader) NewCompatibleResult))"

definition checkEnum :: schema_check where
  "checkEnum reader writer path =
     (if avro_FullName reader \<noteq> avro_FullName writer
      then Result_AddMessage NewCompatibleResult
             (pathOrRoot path @ '': enum name mismatch: reader has '' @ avro_FullName reader @
              '', writer has '' @ avro_FullName writer)
      else fold (\<lambda>ws result.
             if ws \<notin> set (avro_Symbols reader) \<and> avro_Default reader = []
             then Result_AddMessage result
                    (pathOrRoot path @ '': writer enum symbol '' @ [CHR 0x27] @ ws @ [CHR 0x27] @
                     '' not found in reader and no default set'')
             else result) (avro_Symbols writer) NewCompatibleResult)"

definition checkUnion :: "schema_check \<Rightarrow> schema_check" where
  "checkUnion check reader writer path =
     fold (\<lambda>wt result.
       if list_ex (\<lambda>rt. re_IsCompatible (check rt wt path)) (avro_Types reader) then result
       else Result_AddMessage result
              (pathOrRoot path @ '': writer union type '' @ type_string (avro_Type wt) @
               '' is not compatible with any reader union type''))
       (avro_Types writer) NewCompatibleResult"

definition checkReaderUnion :: "schema_check \<Rightarrow> schema_check" where
  "checkReaderUnion check reader writer path =
     (if list_ex (\<lambda>rt. re_IsCompatible (check rt writer path)) (avro_Types reader)
      then NewCompatibleResult
      else NewIncompatibleResult
             [pathOrRoot path @ '': writer type '' @ type_string (avro_Type writer) @
              '' is not compatible with any type in reader union''])"

definition checkWriterUnion :: "schema_check \<Rightarrow> schema_check" where
  "checkWriterUnion check reader writer path =
     (case List.find (\<lambda>wt. \<not> re_IsCompatible (check reader wt path)) (avro_Types writer) of
        Some wt \<Rightarrow>
          NewIncompatibleResult
            [pathOrRoot path @ '': reader type '' @ type_string (avro_Type reader) @
             '' cannot read writer union type '' @ type_string (avro_Type wt)]
      | None \<Rightarrow> NewCompatibleResult)"

definition checkFixed :: schema_check where
  "checkFixed reader writer path =
     (let result = (if avro_FullName reader \<noteq> avro_FullName writer
                    then Result_AddMessage NewCompatibleResult
                           (pathOrRoot path @ '': fixed name mismatch: reader has '' @
                            avro_FullName reader @ '', writer has '' @ avro_FullName writer)
                    else NewCompatibleResult)
      in if avro_Size reader \<noteq> avro_Size writer
         then Result_AddMessage result
                (pathOrRoot path @ '': fixed size mismatch: reader has '' @ Itoa (avro_Size reader) @
                 '', writer has '' @ Itoa (avro_Size writer))
         else result)"

definition checkArray :: "schema_check \<Rightarrow> schema_check" where
  "checkArray check reader writer path =
     check (avro_Items reader) (avro_Items writer) (appendPath path ''[]'')"

definition checkMap :: "schema_check \<Rightarrow> schema_check" where
  "checkMap check reader writer path =
     check (avro_Values reader) (avro_Values writer) (appendPath path ''{}'')"

section \<open>Tying the knot\<close>

lemma field_map_range:
  "gm_get (fold (\<lambda>f m. fold (\<lambda>alias m. gm_put alias f m) (af_Aliases f) (gm_put (af_Name f) f m)) fs m) k
     = Some wfd \<Longrightarrow> wfd \<in> set fs \<or> (\<exists>k. gm_get m k = Some wfd)"
proof (induction fs arbitrary: m)
  case (Cons f fs)
  have aliases: "gm_get (fold (\<lambda>alias m. gm_put alias f m) as m) k = Some wfd \<Longrightarrow>
      wfd = f \<or> (\<exists>k. gm_get m k = Some wfd)" for as m k
    by (induction as arbitrary: m) (fastforce simp: gm_laws split: if_splits)+
  let ?m = "fold (\<lambda>alias m. gm_put alias f m) (af_Aliases f) (gm_put (af_Name f) f m)"
  from Cons.prems have "wfd \<in> set fs \<or> (\<exists>k. gm_get ?m k = Some wfd)"
    by (intro Cons.IH) simp
  moreover have "wfd = f \<or> (\<exists>k. gm_get m k = Some wfd)" if "gm_get ?m k' = Some wfd" for k'
    using aliases [OF that] by (auto simp: gm_laws split: if_splits)
  ultimately show ?case by auto
qed auto

lemma findWriterField_mem: "findWriterField rf (writer_fields wFields) = Some wfd \<Longrightarrow> wfd \<in> set wFields"
  by (auto simp: findWriterField_def writer_fields_def split: option.splits dest!: field_map_range)

lemma checkRecord_cong [fundef_cong]:
  assumes "r = r'" "w = w'" "path = path'"
    and "\<And>rf wfd p. rf \<in> set (avro_Fields r') \<Longrightarrow> wfd \<in> set (avro_Fields w') \<Longrightarrow>
      check (af_Type rf) (af_Type wfd) p = check' (af_Type rf) (af_Type wfd) p"
  shows "checkRecord check r w path = checkRecord check' r' w' path'"
  unfolding checkRecord_def assms(1-3) Let_def
  by (rule if_cong [OF refl refl], rule fold_cong [OF refl refl])
    (auto simp: fun_eq_iff assms(4) dest!: findWriterField_mem split: option.split)

lemma checkUnion_cong [fundef_cong]:
  assumes "r = r'" "w = w'" "path = path'"
    and "\<And>rt wt p. rt \<in> set (avro_Types r') \<Longrightarrow> wt \<in> set (avro_Types w') \<Longrightarrow> check rt wt p = check' rt wt p"
  shows "checkUnion check r w path = checkUnion check' r' w' path'"
  using assms by (auto simp: checkUnion_def list_ex_iff intro!: fold_cong ext)

lemma checkReaderUnion_cong [fundef_cong]:
  assumes "r = r'" "w = w'" "path = path'"
    and "\<And>rt p. rt \<in> set (avro_Types r') \<Longrightarrow> check rt w' p = check' rt w' p"
  shows "checkReaderUnion check r w path = checkReaderUnion check' r' w' path'"
  using assms by (auto simp: checkReaderUnion_def list_ex_iff)

lemma find_cong_set: "(\<And>x. x \<in> set xs \<Longrightarrow> P x = Q x) \<Longrightarrow> List.find P xs = List.find Q xs"
  by (induction xs) auto

lemma checkWriterUnion_cong [fundef_cong]:
  assumes "r = r'" "w = w'" "path = path'"
    and "\<And>wt p. wt \<in> set (avro_Types w') \<Longrightarrow> check r' wt p = check' r' wt p"
  shows "checkWriterUnion check r w path = checkWriterUnion check' r' w' path'"
proof -
  have "List.find (\<lambda>wt. \<not> re_IsCompatible (check r' wt path')) (avro_Types w') =
      List.find (\<lambda>wt. \<not> re_IsCompatible (check' r' wt path')) (avro_Types w')"
    by (rule find_cong_set) (simp add: assms(4))
  with assms(1-3) show ?thesis by (simp add: checkWriterUnion_def)
qed

lemma checkArray_cong [fundef_cong]:
  assumes "r = r'" "w = w'" "path = path'"
    and "check (avro_Items r') (avro_Items w') (appendPath path' ''[]'') =
         check' (avro_Items r') (avro_Items w') (appendPath path' ''[]'')"
  shows "checkArray check r w path = checkArray check' r' w' path'"
  using assms by (simp add: checkArray_def)

lemma checkMap_cong [fundef_cong]:
  assumes "r = r'" "w = w'" "path = path'"
    and "check (avro_Values r') (avro_Values w') (appendPath path' ''{}'') =
         check' (avro_Values r') (avro_Values w') (appendPath path' ''{}'')"
  shows "checkMap check r w path = checkMap check' r' w' path'"
  using assms by (simp add: checkMap_def)

lemma primitive_type_distinct [simp]:
  "primitive_type p \<noteq> TRecord" "primitive_type p \<noteq> TEnum" "primitive_type p \<noteq> TArray"
  "primitive_type p \<noteq> TMap" "primitive_type p \<noteq> TUnion" "primitive_type p \<noteq> TFixed"
  "primitive_type p \<noteq> TOther s"
  "TRecord \<noteq> primitive_type p" "TEnum \<noteq> primitive_type p" "TArray \<noteq> primitive_type p"
  "TMap \<noteq> primitive_type p" "TUnion \<noteq> primitive_type p" "TFixed \<noteq> primitive_type p"
  "TOther s \<noteq> primitive_type p"
  by (cases p; simp)+

lemma size_field: "f \<in> set (avro_Fields s) \<Longrightarrow> size (af_Type f) < size s"
proof (cases s)
  case (ARecord n as fs)
  assume "f \<in> set (avro_Fields s)"
  then have "f \<in> set fs" using ARecord by simp
  then have "size f < Suc (size_list size fs)" by (induction fs) auto
  moreover have "size (af_Type f) < size f" by (cases f) simp
  ultimately show ?thesis using ARecord by simp
qed simp_all

lemma size_member: "t \<in> set (avro_Types s) \<Longrightarrow> size t < size s"
proof (cases s)
  case (AUnion ts)
  assume "t \<in> set (avro_Types s)"
  then have "t \<in> set ts" using AUnion by simp
  then have "size t < Suc (size_list size ts)" by (induction ts) auto
  then show ?thesis using AUnion by simp
qed simp_all

lemma size_items: "avro_Type s = TArray \<Longrightarrow> size (avro_Items s) < size s"
  by (cases s) auto

lemma size_values: "avro_Type s = TMap \<Longrightarrow> size (avro_Values s) < size s"
  by (cases s) auto

function checkSchemas :: schema_check where
  "checkSchemas reader writer path =
     (if isPromotable writer reader then NewCompatibleResult
      else if avro_Type reader \<noteq> avro_Type writer \<and> \<not> canPromote writer reader
      then (if avro_Type reader = TUnion then checkReaderUnion checkSchemas reader writer path
            else if avro_Type writer = TUnion then checkWriterUnion checkSchemas reader writer path
            else Result_AddMessage NewCompatibleResult
                   (pathOrRoot path @ '': type mismatch: reader has '' @
                    type_string (avro_Type reader) @ '', writer has '' @
                    type_string (avro_Type writer)))
      else if avro_Type reader = TRecord then checkRecord checkSchemas reader writer path
      else if avro_Type reader = TEnum then checkEnum reader writer path
      else if avro_Type reader = TArray then checkArray checkSchemas reader writer path
      else if avro_Type reader = TMap then checkMap checkSchemas reader writer path
      else if avro_Type reader = TUnion then checkUnion checkSchemas reader writer path
      else if avro_Type reader = TFixed then checkFixed reader writer path
      else NewCompatibleResult)"
  by pat_completeness auto

termination
  by (relation "measure (\<lambda>(r, w, _). size r + size w)")
    (auto simp: isPromotable_def add_strict_mono size_items size_values dest!: size_field size_member)

declare checkSchemas.simps [simp del]

section \<open>Parsing and the entry point\<close>

text \<open>
  The Avro library, as the checker uses it: \<open>Parse\<close>, and \<open>ParseWithCache\<close>, which also records the
  named types it meets in the cache it is given.  Errors are their texts.
\<close>

record 'cache avro_lib =
  al_Parse :: "string \<Rightarrow> string + avro_schema"
  al_newCache :: 'cache
  al_ParseWithCache :: "'cache \<Rightarrow> string \<Rightarrow> 'cache \<times> (string + avro_schema)"

fun parse_references :: "'cache avro_lib \<Rightarrow> 'cache \<Rightarrow> Reference list \<Rightarrow> string + 'cache" where
  "parse_references lib cache [] = Inr cache"
| "parse_references lib cache (ref # refs) =
     (if rf_Schema ref \<noteq> []
      then (case al_ParseWithCache lib cache (rf_Schema ref) of
              (_, Inl err) \<Rightarrow> Inl (''invalid reference schema '' @ [CHR 0x22] @ rf_Name ref @ [CHR 0x22] @
                                  '': '' @ err)
            | (cache', Inr _) \<Rightarrow> parse_references lib cache' refs)
      else parse_references lib cache refs)"

definition parseSchema :: "'cache avro_lib \<Rightarrow> SchemaWithRefs \<Rightarrow> string + avro_schema" where
  "parseSchema lib s =
     (if sw_References s \<noteq> []
      then (case parse_references lib (al_newCache lib) (sw_References s) of
              Inl err \<Rightarrow> Inl err
            | Inr cache \<Rightarrow> snd (al_ParseWithCache lib cache (sw_Schema s)))
      else al_Parse lib (sw_Schema s))"

definition AvroChecker_Check :: "'cache avro_lib \<Rightarrow> SchemaChecker" where
  "AvroChecker_Check lib reader writer =
     (case parseSchema lib reader of
        Inl err \<Rightarrow> NewIncompatibleResult [''invalid reader schema: '' @ err]
      | Inr readerSchema \<Rightarrow>
          (case parseSchema lib writer of
             Inl err \<Rightarrow> NewIncompatibleResult [''invalid writer schema: '' @ err]
           | Inr writerSchema \<Rightarrow> checkSchemas readerSchema writerSchema []))"

section \<open>Verdicts\<close>

text \<open>What each method decides, without its messages.\<close>

lemma record_verdict:
  "re_IsCompatible (checkRecord check r w p) \<longleftrightarrow>
     recordNamesMatch r w \<and>
     (\<forall>rf\<in>set (avro_Fields r).
        case findWriterField rf (writer_fields (avro_Fields w)) of
          None \<Rightarrow> af_HasDefault rf
        | Some wfd \<Rightarrow> re_IsCompatible (check (af_Type rf) (af_Type wfd) (appendPath p (af_Name rf))))"
proof -
  let ?ok = "\<lambda>rf. case findWriterField rf (writer_fields (avro_Fields w)) of
      None \<Rightarrow> af_HasDefault rf
    | Some wfd \<Rightarrow> re_IsCompatible (check (af_Type rf) (af_Type wfd) (appendPath p (af_Name rf)))"
  show ?thesis
    unfolding checkRecord_def Let_def
    by (cases "recordNamesMatch r w") (simp_all add: fold_verdict [where P = ?ok] list_all_iff
        split: option.split)
qed

lemma enum_verdict:
  "re_IsCompatible (checkEnum r w p) \<longleftrightarrow>
     avro_FullName r = avro_FullName w \<and>
     (set (avro_Symbols w) \<subseteq> set (avro_Symbols r) \<or> avro_Default r \<noteq> [])"
  unfolding checkEnum_def
  by (auto simp: fold_verdict [where P = "\<lambda>ws. ws \<in> set (avro_Symbols r) \<or> avro_Default r \<noteq> []"] list_all_iff)

lemma union_verdict:
  "re_IsCompatible (checkUnion check r w p) \<longleftrightarrow>
     (\<forall>wt\<in>set (avro_Types w). \<exists>rt\<in>set (avro_Types r). re_IsCompatible (check rt wt p))"
  unfolding checkUnion_def
  by (subst fold_verdict [where P = "\<lambda>wt. list_ex (\<lambda>rt. re_IsCompatible (check rt wt p)) (avro_Types r)"])
    (auto simp: list_all_iff list_ex_iff)

lemma reader_union_verdict:
  "re_IsCompatible (checkReaderUnion check r w p) \<longleftrightarrow>
     (\<exists>rt\<in>set (avro_Types r). re_IsCompatible (check rt w p))"
  by (auto simp: checkReaderUnion_def list_ex_iff)

lemma writer_union_verdict:
  "re_IsCompatible (checkWriterUnion check r w p) \<longleftrightarrow>
     (\<forall>wt\<in>set (avro_Types w). re_IsCompatible (check r wt p))"
  by (auto simp: checkWriterUnion_def find_None_iff split: option.splits)
    (auto simp: find_Some_iff)

lemma fixed_verdict:
  "re_IsCompatible (checkFixed r w p) \<longleftrightarrow> avro_FullName r = avro_FullName w \<and> avro_Size r = avro_Size w"
  by (simp add: checkFixed_def)

lemmas verdicts = record_verdict enum_verdict union_verdict reader_union_verdict writer_union_verdict
  fixed_verdict checkArray_def checkMap_def

end
