(* ===== verification/Avro_Properties.thy ===== *)
theory Avro_Properties
  imports Avro_Compat
begin

text \<open>
  The verdict of the Avro checker as a relation: \<open>reads r w\<close> holds when data written with \<open>w\<close> can
  be resolved by a reader with \<open>r\<close>, rule by rule as the Avro specification resolves schemas.  The
  checker decides it (\<open>avro_decides_reads\<close>), always says why when the answer is no, accepts every
  well-formed schema against itself, and accepts added fields with defaults.
\<close>

inductive reads :: "avro_schema \<Rightarrow> avro_schema \<Rightarrow> bool" where
  promote: "canPromote w r \<Longrightarrow> reads r w"
| primitive: "reads (APrimitive p) (APrimitive p)"
| other: "reads (AOther t) (AOther t)"
| array: "reads r w \<Longrightarrow> reads (AArray r) (AArray w)"
| map_values: "reads r w \<Longrightarrow> reads (AMap r) (AMap w)"
| enum: "set ws \<subseteq> set rs \<or> d \<noteq> [] \<Longrightarrow> reads (AEnum n rs d) (AEnum n ws d')"
| fixed: "reads (AFixed n k) (AFixed n k)"
| union: "(\<And>w. w \<in> set ws \<Longrightarrow> \<exists>r\<in>set rs. reads r w) \<Longrightarrow> reads (AUnion rs) (AUnion ws)"
| reader_union: "avro_Type w \<noteq> TUnion \<Longrightarrow> r \<in> set rs \<Longrightarrow> reads r w \<Longrightarrow> reads (AUnion rs) w"
| writer_union: "avro_Type r \<noteq> TUnion \<Longrightarrow> (\<And>w. w \<in> set ws \<Longrightarrow> reads r w) \<Longrightarrow> reads r (AUnion ws)"
| record_fields: "recordNamesMatch (ARecord rn ra rfs) (ARecord wn wa wfs) \<Longrightarrow>
    (\<And>rf. rf \<in> set rfs \<Longrightarrow>
       (findWriterField rf (writer_fields wfs) = None \<and> af_HasDefault rf) \<or>
       (\<exists>wfd. findWriterField rf (writer_fields wfs) = Some wfd \<and> reads (af_Type rf) (af_Type wfd))) \<Longrightarrow>
    reads (ARecord rn ra rfs) (ARecord wn wa wfs)"

lemma canPromote_types: "canPromote w r \<Longrightarrow> avro_Type r \<noteq> TUnion \<and> avro_Type w \<noteq> TUnion"
  by (auto simp: canPromote_def Let_def split: avro_type.splits)

lemma no_promotion [simp]:
  "\<not> canPromote (ARecord n as fs) r" "\<not> canPromote (AEnum n syms d) r" "\<not> canPromote (AArray s) r"
  "\<not> canPromote (AMap s) r" "\<not> canPromote (AUnion ts) r" "\<not> canPromote (AFixed n k) r"
  "\<not> canPromote (AOther t) r" "\<not> canPromote (APrimitive p) (APrimitive p)"
  by (auto simp: canPromote_def split: avro_type.splits) (cases p; simp)+

text \<open>One step of the recursion, as a verdict.\<close>

lemma verdict_step:
  "re_IsCompatible (checkSchemas r w p) \<longleftrightarrow>
     canPromote w r \<or>
     (if avro_Type r \<noteq> avro_Type w
      then (if avro_Type r = TUnion then \<exists>rt\<in>set (avro_Types r). re_IsCompatible (checkSchemas rt w p)
            else avro_Type w = TUnion \<and> (\<forall>wt\<in>set (avro_Types w). re_IsCompatible (checkSchemas r wt p)))
      else if avro_Type r = TRecord then re_IsCompatible (checkRecord checkSchemas r w p)
      else if avro_Type r = TEnum then re_IsCompatible (checkEnum r w p)
      else if avro_Type r = TArray
      then re_IsCompatible (checkSchemas (avro_Items r) (avro_Items w) (appendPath p ''[]''))
      else if avro_Type r = TMap
      then re_IsCompatible (checkSchemas (avro_Values r) (avro_Values w) (appendPath p ''{}''))
      else if avro_Type r = TUnion
      then \<forall>wt\<in>set (avro_Types w). \<exists>rt\<in>set (avro_Types r). re_IsCompatible (checkSchemas rt wt p)
      else avro_Type r = TFixed \<longrightarrow> re_IsCompatible (checkFixed r w p))"
  by (subst checkSchemas.simps)
    (simp add: isPromotable_def union_verdict reader_union_verdict writer_union_verdict
      checkArray_def checkMap_def)

lemma reads_accepted: "reads r w \<Longrightarrow> re_IsCompatible (checkSchemas r w p)"
proof (induction r w arbitrary: p rule: reads.induct)
  case (record_fields rn ra rfs wn wa wfs)
  have "case findWriterField rf (writer_fields wfs) of None \<Rightarrow> af_HasDefault rf
      | Some wfd \<Rightarrow> re_IsCompatible (checkSchemas (af_Type rf) (af_Type wfd) (appendPath p (af_Name rf)))"
    if "rf \<in> set rfs" for rf
    using record_fields(2) [OF that] by (auto split: option.split)
  with record_fields(1) show ?case by (simp add: verdict_step [of "ARecord _ _ _"] record_verdict)
next
  case (reader_union w r rs)
  then show ?case by (auto simp: verdict_step [of "AUnion _"])
next
  case (writer_union r ws)
  then show ?case by (auto simp: verdict_step [of r])
next
  case (union ws rs)
  then show ?case by (auto simp: verdict_step [of "AUnion _"])
qed (auto simp: verdict_step [of "APrimitive _"] verdict_step [of "AOther _"] verdict_step [of "AArray _"]
    verdict_step [of "AMap _"] verdict_step [of "AEnum _ _ _"] verdict_step [of "AFixed _ _"]
    verdict_step enum_verdict fixed_verdict)

lemma primitive_type_inj: "primitive_type p = primitive_type q \<Longrightarrow> p = q"
  by (cases p; cases q; simp)

lemma accepted_reads: "re_IsCompatible (checkSchemas r w p) \<Longrightarrow> reads r w"
proof (induction "size r + size w" arbitrary: r w p rule: less_induct)
  case less
  have IH: "reads r' w'" if "re_IsCompatible (checkSchemas r' w' p')" "size r' + size w' < size r + size w"
    for r' w' p' using less.hyps [OF that(2,1)] .
  show ?case
  proof (cases "canPromote w r")
    case True
    then show ?thesis by (rule promote)
  next
    case np: False
    consider "avro_Type r \<noteq> avro_Type w" "avro_Type r = TUnion" | "avro_Type r \<noteq> avro_Type w" "avro_Type r \<noteq> TUnion"
      | "avro_Type r = avro_Type w" by blast
    then show ?thesis
    proof cases
      case 1
      then obtain rs where rs: "r = AUnion rs" by (cases r) auto
      with less.prems np 1 obtain rt where rt: "rt \<in> set rs" "re_IsCompatible (checkSchemas rt w p)"
        by (auto simp: verdict_step [of "AUnion rs"])
      moreover have "size rt < size r" using rt(1) size_member [of rt r] by (simp add: rs)
      ultimately show ?thesis
        unfolding rs using 1 rs by (intro reader_union [OF _ rt(1) IH [OF rt(2)]]) auto
    next
      case 2
      with less.prems np have u: "avro_Type w = TUnion"
        "\<forall>wt\<in>set (avro_Types w). re_IsCompatible (checkSchemas r wt p)"
        by (auto simp: verdict_step [of r])
      then obtain ws where ws: "w = AUnion ws" by (cases w) auto
      have "reads r wt" if "wt \<in> set ws" for wt
        using u(2) that size_member [of wt w] IH [of r wt p] by (simp add: ws)
      then show ?thesis unfolding ws using 2 by (intro writer_union) auto
    next
      case 3
      show ?thesis
      proof (cases r)
        case (APrimitive a)
        then obtain b where "w = APrimitive b" using 3 by (cases w) auto
        with 3 APrimitive primitive_type_inj show ?thesis by (auto intro: primitive)
      next
        case (ARecord rn ra rfs)
        then obtain wn wa wfs where w: "w = ARecord wn wa wfs" using 3 by (cases w) auto
        from less.prems have v: "recordNamesMatch r w"
          "\<And>rf. rf \<in> set rfs \<Longrightarrow> case findWriterField rf (writer_fields wfs) of None \<Rightarrow> af_HasDefault rf
             | Some wfd \<Rightarrow> re_IsCompatible (checkSchemas (af_Type rf) (af_Type wfd) (appendPath p (af_Name rf)))"
          using np 3 by (auto simp: verdict_step [of "ARecord _ _ _"] record_verdict ARecord w)
        show ?thesis
          unfolding ARecord w
        proof (rule record_fields)
          fix rf assume rf: "rf \<in> set rfs"
          show "(findWriterField rf (writer_fields wfs) = None \<and> af_HasDefault rf) \<or>
            (\<exists>wfd. findWriterField rf (writer_fields wfs) = Some wfd \<and> reads (af_Type rf) (af_Type wfd))"
          proof (cases "findWriterField rf (writer_fields wfs)")
            case (Some wfd)
            have "size (af_Type rf) < size r" "size (af_Type wfd) < size w"
              using size_field [of rf r] size_field [of wfd w] rf findWriterField_mem [OF Some]
              by (simp_all add: ARecord w)
            with v(2) [OF rf] IH Some show ?thesis by force
          qed (use v(2) [OF rf] in simp)
        qed (use v(1) in \<open>simp add: ARecord w\<close>)
      next
        case (AEnum n rs d)
        then obtain m ws e where "w = AEnum m ws e" using 3 by (cases w) auto
        with less.prems AEnum show ?thesis
          by (auto simp: verdict_step [of "AEnum _ _ _"] enum_verdict intro!: enum)
      next
        case (AArray ri)
        then obtain wi where "w = AArray wi" using 3 by (cases w) auto
        with less.prems AArray show ?thesis
          by (auto simp: verdict_step [of "AArray _"] intro!: array IH)
      next
        case (AMap rv)
        then obtain wv where "w = AMap wv" using 3 by (cases w) auto
        with less.prems AMap show ?thesis
          by (auto simp: verdict_step [of "AMap _"] intro!: map_values IH)
      next
        case (AUnion rs)
        then obtain ws where ws: "w = AUnion ws" using 3 by (cases w) auto
        have "\<exists>rt\<in>set rs. reads rt wt" if "wt \<in> set ws" for wt
        proof -
          from less.prems that obtain rt where rt: "rt \<in> set rs" "re_IsCompatible (checkSchemas rt wt p)"
            by (auto simp: verdict_step [of "AUnion _"] AUnion ws)
          have "size rt < size r" "size wt < size w"
            using size_member [of rt r] size_member [of wt w] rt that by (simp_all add: AUnion ws)
          then show ?thesis using IH [OF rt(2)] rt(1) by auto
        qed
        then show ?thesis unfolding AUnion ws by (rule union)
      next
        case (AFixed n k)
        then obtain m j where "w = AFixed m j" using 3 by (cases w) auto
        with less.prems AFixed show ?thesis
          by (auto simp: verdict_step [of "AFixed _ _"] fixed_verdict intro: fixed)
      next
        case (AOther s)
        then have "w = AOther s" using 3 by (cases w) auto
        with AOther show ?thesis by (simp add: other)
      qed
    qed
  qed
qed

section \<open>Honest results\<close>

lemma checkSchemas_honest: "honest (checkSchemas r w p)"
proof (induction r w p rule: checkSchemas.induct)
  case (1 reader writer path)
  have rec: "honest (checkRecord checkSchemas reader writer path)"
    if c: "\<not> isPromotable writer reader" "\<not> (avro_Type reader \<noteq> avro_Type writer \<and> \<not> canPromote writer reader)"
      "avro_Type reader = TRecord"
  proof -
    have "honest (checkSchemas (af_Type rf) (af_Type wfd) q)"
      if "rf \<in> set (avro_Fields reader)" "findWriterField rf (writer_fields (avro_Fields writer)) = Some wfd"
      for rf wfd q
      using "1.IH"(3) [OF c that(1) findWriterField_mem [OF that(2)]] .
    then show ?thesis
      by (auto simp: checkRecord_def Let_def split: option.splits intro!: fold_honest)
  qed
  have "honest (checkEnum reader writer path)" "honest (checkFixed reader writer path)"
    "honest (checkUnion checkSchemas reader writer path)"
    by (auto simp: checkEnum_def checkFixed_def checkUnion_def Let_def intro!: fold_honest)
  moreover have "honest (checkReaderUnion checkSchemas reader writer path)"
    "honest (checkWriterUnion checkSchemas reader writer path)"
    by (auto simp: checkReaderUnion_def checkWriterUnion_def split: option.splits)
  ultimately show ?case
    using rec "1.IH"(4,5)
    by (subst checkSchemas.simps) (auto simp: checkArray_def checkMap_def)
qed

interpretation avro: schema_checker "AvroChecker_Check lib" for lib
  by unfold_locales (auto simp: AvroChecker_Check_def checkSchemas_honest split: sum.splits)

section \<open>Reflexivity and evolution\<close>

definition field_keys :: "avro_field \<Rightarrow> string list" where
  "field_keys f = af_Name f # af_Aliases f"

text \<open>Well-formed: within a record every name and alias belongs to one field.\<close>

function (sequential) avro_ok :: "avro_schema \<Rightarrow> bool" where
  "avro_ok (ARecord _ _ fs) \<longleftrightarrow>
     distinct (concat (map field_keys fs)) \<and> (\<forall>f\<in>set fs. avro_ok (af_Type f))"
| "avro_ok (AArray s) \<longleftrightarrow> avro_ok s"
| "avro_ok (AMap s) \<longleftrightarrow> avro_ok s"
| "avro_ok (AUnion ts) \<longleftrightarrow> (\<forall>t\<in>set ts. avro_ok t)"
| "avro_ok _ \<longleftrightarrow> True"
  by pat_completeness auto

termination
proof (relation "measure size")
  show "(af_Type f, ARecord n as fs) \<in> measure size" if "f \<in> set fs" for n as fs f
    using size_field [of f "ARecord n as fs"] that by simp
  show "(t, AUnion ts) \<in> measure size" if "t \<in> set ts" for t ts
    using size_member [of t "AUnion ts"] that by simp
qed auto

lemma put_all_same:
  "gm_get (fold (\<lambda>alias m. gm_put alias f m) as m) k = (if k \<in> set as then Some f else gm_get m k)"
  by (induction as arbitrary: m) (auto simp: gm_laws)

lemma writer_fields_get:
  assumes "distinct (concat (map field_keys fs))"
  shows "gm_get (writer_fields fs) k = Some f \<longleftrightarrow> f \<in> set fs \<and> k \<in> set (field_keys f)"
proof -
  have "gm_get (fold (\<lambda>f m. fold (\<lambda>alias m. gm_put alias f m) (af_Aliases f) (gm_put (af_Name f) f m)) fs m) k =
      Some f \<longleftrightarrow> (f \<in> set fs \<and> k \<in> set (field_keys f)) \<or>
        (gm_get m k = Some f \<and> k \<notin> set (concat (map field_keys fs)))"
    if "distinct (concat (map field_keys fs))" for m fs
    using that
  proof (induction fs arbitrary: m)
    case (Cons g fs)
    then have IH: "gm_get (fold (\<lambda>f m. fold (\<lambda>alias m. gm_put alias f m) (af_Aliases f) (gm_put (af_Name f) f m)) fs m) k =
      Some f \<longleftrightarrow> (f \<in> set fs \<and> k \<in> set (field_keys f)) \<or>
        (gm_get m k = Some f \<and> k \<notin> set (concat (map field_keys fs)))" for m by simp
    have step: "gm_get (fold (\<lambda>alias m. gm_put alias g m) (af_Aliases g) (gm_put (af_Name g) g m)) k =
        (if k \<in> set (field_keys g) then Some g else gm_get m k)"
      by (auto simp: put_all_same gm_laws field_keys_def)
    have apart: "set (field_keys g) \<inter> set (concat (map field_keys fs)) = {}" using Cons.prems by auto
    show ?case
      unfolding fold.simps comp_def IH step using apart by (auto split: if_splits)
  qed simp
  from this [OF assms, of gm_empty] show ?thesis by (simp add: writer_fields_def)
qed

lemma find_own_field:
  assumes "distinct (concat (map field_keys fs))" "f \<in> set fs"
  shows "findWriterField f (writer_fields fs) = Some f"
  using writer_fields_get [OF assms(1), of "af_Name f" f] assms(2)
  by (simp add: findWriterField_def field_keys_def)

lemma find_new_field:
  assumes "distinct (concat (map field_keys fs))"
    and "set (field_keys f) \<inter> set (concat (map field_keys fs)) = {}"
  shows "findWriterField f (writer_fields fs) = None"
proof -
  have "gm_get (writer_fields fs) k = None" if "k \<in> set (field_keys f)" for k
    using writer_fields_get [OF assms(1), of k] assms(2) that
    by (cases "gm_get (writer_fields fs) k") auto
  then show ?thesis
    by (auto simp: findWriterField_def field_keys_def split: option.splits) (auto simp: find_Some_iff)
qed

lemma reads_refl: "avro_ok s \<Longrightarrow> reads s s"
proof (induction "size s" arbitrary: s rule: less_induct)
  case less
  show ?case
  proof (cases s)
    case (ARecord n as fs)
    have "reads (af_Type f) (af_Type f)" if "f \<in> set fs" for f
      using less that size_field [of f s] by (simp add: ARecord)
    then show ?thesis
      unfolding ARecord using less.prems find_own_field
      by (intro record_fields) (auto simp: recordNamesMatch_def ARecord)
  next
    case (AUnion ts)
    have "reads t t" if "t \<in> set ts" for t
      using less that size_member [of t s] by (simp add: AUnion)
    then show ?thesis unfolding AUnion by (intro union) blast
  qed (use less in \<open>auto intro: primitive other array map_values enum fixed\<close>)
qed

section \<open>Properties\<close>


text \<open>
  Registering an unchanged schema is always compatible: a schema in which no two fields of a
  record share a name or alias is accepted against itself under every mode and any history of
  copies of itself.
\<close>

lemma avro_unchanged_compatible:
  assumes "parseSchema lib s = Inr schema" "avro_ok schema"
  shows "re_IsCompatible (Checker_Check (Checker_Register c ''AVRO'' (AvroChecker_Check lib)) mode ''AVRO''
     s (replicate n s))"
proof -
  have "re_IsCompatible (AvroChecker_Check lib s s)"
    using assms reads_accepted [OF reads_refl] by (simp add: AvroChecker_Check_def)
  moreover have "replicate n s \<noteq> [] \<Longrightarrow> last (replicate n s) = s" by simp
  ultimately have "mode_ok (AvroChecker_Check lib) mode s (replicate n s)"
    by (auto simp: mode_ok_def pair_ok_def list_all_iff)
  then show ?thesis by (simp add: avro.Check_verdict [OF registered])
qed

definition long_lib :: "unit avro_lib" where
  "long_lib = \<lparr>al_Parse = (\<lambda>_. Inr (APrimitive PLong)), al_newCache = (),
     al_ParseWithCache = (\<lambda>_ _. ((), Inr (APrimitive PLong)))\<rparr>"

lemma avro_unchanged_compatible_witness:
  "re_IsCompatible (Checker_Check (Checker_Register NewChecker ''AVRO'' (AvroChecker_Check long_lib))
     ModeFullTransitive ''AVRO'' \<lparr>sw_Schema = ''long'', sw_References = []\<rparr>
     (replicate 2 \<lparr>sw_Schema = ''long'', sw_References = []\<rparr>))"
  by (rule avro_unchanged_compatible [of long_lib _ "APrimitive PLong"])
    (simp_all add: parseSchema_def long_lib_def)

text \<open>
  Record evolution: when every reader field is a field of the writer or new to it in name and
  aliases, the reader is accepted exactly when all its new fields have defaults; fields only the
  writer has do not matter.
\<close>

lemma avro_field_evolution:
  assumes "avro_ok (ARecord name wAliases wFields)"
    and "\<forall>rf\<in>set rFields. rf \<in> set wFields \<or>
       set (field_keys rf) \<inter> set (concat (map field_keys wFields)) = {}"
  shows "re_IsCompatible (checkSchemas (ARecord name rAliases rFields) (ARecord name wAliases wFields) path) \<longleftrightarrow>
     (\<forall>rf\<in>set rFields. rf \<notin> set wFields \<longrightarrow> af_HasDefault rf)"
proof -
  have d: "distinct (concat (map field_keys wFields))" using assms(1) by simp
  have field: "(case findWriterField rf (writer_fields wFields) of None \<Rightarrow> af_HasDefault rf
      | Some wfd \<Rightarrow> re_IsCompatible (checkSchemas (af_Type rf) (af_Type wfd) p)) \<longleftrightarrow>
      (rf \<notin> set wFields \<longrightarrow> af_HasDefault rf)" if "rf \<in> set rFields" for rf p
  proof (cases "rf \<in> set wFields")
    case True
    with assms(1) have "avro_ok (af_Type rf)" by simp
    then show ?thesis using True find_own_field [OF d True] reads_accepted [OF reads_refl] by simp
  next
    case False
    with assms(2) that find_new_field [OF d] show ?thesis by auto
  qed
  show ?thesis
    by (simp add: verdict_step [of "ARecord _ _ _"] record_verdict recordNamesMatch_def field)
qed

lemma avro_field_evolution_witness:
  "\<not> re_IsCompatible (checkSchemas
       (ARecord ''R'' [] [AField ''a'' [] False (APrimitive PInt), AField ''b'' [] False (APrimitive PInt)])
       (ARecord ''R'' [] [AField ''a'' [] False (APrimitive PInt)]) [])"
  by (subst avro_field_evolution) (simp_all add: field_keys_def)

end
