(* ===== verification/Catalog_Spec.thy ===== *)
theory Catalog_Spec
  imports Storage_Types
begin

text \<open>
  What a schema store promises, with no ID sequence, no reverse index and no collection of unused
  content: a \<^emph>\<open>catalogue\<close> gives for each subject and version the complete record a client reads.
  Content is shared by fingerprint, deletion has two phases, and a permanent deletion takes one
  record away and touches no other.  The locale \<open>schema_catalog\<close> states that an implementation
  follows the catalogue and derives what its clients rely on.
\<close>

type_synonym catalog = "string \<Rightarrow> int \<Rightarrow> SchemaRecord option"

definition same_content :: "SchemaRecord \<Rightarrow> SchemaRecord \<Rightarrow> bool" where
  "same_content r q \<longleftrightarrow>
     sr_ID r = sr_ID q \<and> sr_SchemaType r = sr_SchemaType q \<and> sr_Schema r = sr_Schema q \<and>
     sr_References r = sr_References q \<and> sr_Fingerprint r = sr_Fingerprint q"

definition spec_get :: "catalog \<Rightarrow> string \<Rightarrow> int \<Rightarrow> storage_error + SchemaRecord" where
  "spec_get A subject version =
     (case A subject version of
        None \<Rightarrow> Inl (if A subject = Map.empty then ErrSubjectNotFound else ErrVersionNotFound)
      | Some r \<Rightarrow> if sr_Deleted r then Inl ErrVersionNotFound else Inr r)"

definition spec_is_latest :: "catalog \<Rightarrow> string \<Rightarrow> SchemaRecord \<Rightarrow> bool" where
  "spec_is_latest A subject r \<longleftrightarrow>
     (\<exists>version. A subject version = Some r \<and> \<not> sr_Deleted r \<and>
        (\<forall>v q. A subject v = Some q \<and> \<not> sr_Deleted q \<longrightarrow> v \<le> version))"

definition spec_delete ::
  "catalog \<Rightarrow> string \<Rightarrow> int \<Rightarrow> bool \<Rightarrow> catalog \<times> storage_error option" where
  "spec_delete A subject version permanent =
     (if A subject = Map.empty then (A, Some ErrSubjectNotFound)
      else case A subject version of
             None \<Rightarrow> (A, Some ErrVersionNotFound)
           | Some r \<Rightarrow>
               if permanent \<and> \<not> sr_Deleted r then (A, Some ErrVersionNotSoftDeleted)
               else if permanent then (A(subject := (A subject)(version := None)), None)
               else (A(subject := (A subject)(version \<mapsto> r\<lparr>sr_Deleted := True\<rparr>)), None))"

definition spec_delete_subject ::
  "catalog \<Rightarrow> string \<Rightarrow> bool \<Rightarrow> catalog \<times> (storage_error + int list)" where
  "spec_delete_subject A subject permanent =
     (let allDeleted = (\<forall>v r. A subject v = Some r \<longrightarrow> sr_Deleted r)
      in if A subject = Map.empty then (A, Inl ErrSubjectNotFound)
         else if permanent \<and> \<not> allDeleted then (A, Inl ErrSubjectNotSoftDeleted)
         else if \<not> permanent \<and> allDeleted then (A, Inl ErrSubjectDeleted)
         else if permanent
         then (A(subject := Map.empty), Inr (sorted_list_of_set (dom (A subject))))
         else (A(subject := (\<lambda>v. map_option (\<lambda>r. r\<lparr>sr_Deleted := True\<rparr>) (A subject v))),
               Inr (sorted_list_of_set {v. \<exists>r. A subject v = Some r \<and> \<not> sr_Deleted r})))"

text \<open>
  A registration adds a record \<open>r\<close> under a version above all others; it shares the content and the
  ID of every record with its fingerprint, and otherwise brings its own content under a fresh ID.
\<close>

definition spec_create :: "catalog \<Rightarrow> SchemaRecord \<Rightarrow> catalog \<Rightarrow> SchemaRecord \<Rightarrow> bool" where
  "spec_create A record A' r \<longleftrightarrow>
     A' = A(sr_Subject record := (A (sr_Subject record))(sr_Version r \<mapsto> r)) \<and>
     (\<forall>v q. A (sr_Subject record) v = Some q \<longrightarrow> v < sr_Version r) \<and> 1 \<le> sr_Version r \<and>
     sr_Subject r = sr_Subject record \<and> sr_Fingerprint r = sr_Fingerprint record \<and>
     sr_Metadata r = sr_Metadata record \<and> sr_RuleSet r = sr_RuleSet record \<and> \<not> sr_Deleted r \<and>
     (\<forall>s v q. A s v = Some q \<and> sr_Fingerprint q = sr_Fingerprint record \<longrightarrow> same_content r q) \<and>
     (\<forall>s v q. A s v = Some q \<and> sr_Fingerprint q \<noteq> sr_Fingerprint record \<longrightarrow> sr_ID q \<noteq> sr_ID r) \<and>
     ((\<forall>s v q. A s v = Some q \<longrightarrow> sr_Fingerprint q \<noteq> sr_Fingerprint record) \<longrightarrow>
        same_content r (record\<lparr>sr_ID := sr_ID r\<rparr>))"

locale schema_catalog =
  fixes inv :: "'s \<Rightarrow> bool"
    and view :: "'s \<Rightarrow> catalog"
    and create :: "'s \<Rightarrow> SchemaRecord \<Rightarrow> 's \<Rightarrow> SchemaRecord \<Rightarrow> bool"
    and delete :: "'s \<Rightarrow> string \<Rightarrow> int \<Rightarrow> bool \<Rightarrow> 's \<times> storage_error option"
    and delete_subject :: "'s \<Rightarrow> string \<Rightarrow> bool \<Rightarrow> 's \<times> (storage_error + int list)"
    and get :: "'s \<Rightarrow> string \<Rightarrow> int \<Rightarrow> storage_error + SchemaRecord"
    and latest :: "'s \<Rightarrow> string \<Rightarrow> storage_error + SchemaRecord"
    and content :: "'s \<Rightarrow> int \<Rightarrow> SchemaRecord option"
  assumes create_inv: "inv s \<Longrightarrow> create s record s' r' \<Longrightarrow> inv s'"
    and create_view: "inv s \<Longrightarrow> create s record s' r' \<Longrightarrow>
          \<exists>r. spec_create (view s) record (view s') r \<and> sr_ID r' = sr_ID r \<and> sr_Version r' = sr_Version r"
    and delete_inv: "inv s \<Longrightarrow> inv (fst (delete s subject version permanent))"
    and delete_view: "inv s \<Longrightarrow>
          spec_delete (view s) subject version permanent =
            (view (fst (delete s subject version permanent)), snd (delete s subject version permanent))"
    and delete_subject_inv: "inv s \<Longrightarrow> inv (fst (delete_subject s subject permanent))"
    and delete_subject_view: "inv s \<Longrightarrow>
          spec_delete_subject (view s) subject permanent =
            (view (fst (delete_subject s subject permanent)), snd (delete_subject s subject permanent))"
    and get_view: "inv s \<Longrightarrow> version \<noteq> -1 \<Longrightarrow> get s subject version = spec_get (view s) subject version"
    and latest_view: "inv s \<Longrightarrow> latest s subject = Inr r \<longleftrightarrow> spec_is_latest (view s) subject r"
    and content_view: "inv s \<Longrightarrow>
          content s i \<noteq> None \<longleftrightarrow> (\<exists>subject version r. view s subject version = Some r \<and> sr_ID r = i)"
begin

text \<open>A registered record can be read back under its version, and is the latest.\<close>

lemma create_then_latest:
  assumes "inv s" "create s record s' r'"
  shows "\<exists>r. get s' (sr_Subject record) (sr_Version r') = Inr r \<and>
     latest s' (sr_Subject record) = Inr r \<and>
     sr_ID r = sr_ID r' \<and> sr_Version r = sr_Version r' \<and> sr_Subject r = sr_Subject record \<and>
     sr_Fingerprint r = sr_Fingerprint record \<and> sr_Metadata r = sr_Metadata record \<and>
     sr_RuleSet r = sr_RuleSet record \<and> \<not> sr_Deleted r"
proof -
  from create_view [OF assms] obtain r where r: "spec_create (view s) record (view s') r"
    "sr_ID r' = sr_ID r" "sr_Version r' = sr_Version r" by blast
  then have view': "view s' (sr_Subject record) (sr_Version r) = Some r" "sr_Version r \<noteq> -1"
    and fields: "sr_Subject r = sr_Subject record" "sr_Fingerprint r = sr_Fingerprint record"
      "sr_Metadata r = sr_Metadata record" "sr_RuleSet r = sr_RuleSet record" "\<not> sr_Deleted r"
    and above: "\<And>v q. view s' (sr_Subject record) v = Some q \<Longrightarrow> v \<le> sr_Version r"
    by (auto simp: spec_create_def split: if_splits intro: less_imp_le)
  have "get s' (sr_Subject record) (sr_Version r) = Inr r"
    using get_view [OF create_inv [OF assms]] view' fields by (simp add: spec_get_def)
  moreover have "latest s' (sr_Subject record) = Inr r"
    using latest_view [OF create_inv [OF assms]] view' fields above
    by (auto simp: spec_is_latest_def)
  ultimately show ?thesis using r(2,3) fields by auto
qed

text \<open>A registration leaves every record already in the catalogue as it is.\<close>

lemma create_keeps:
  assumes "inv s" "create s record s' r'" "view s subject version = Some q"
  shows "view s' subject version = Some q"
proof -
  obtain r where "view s' = (view s)(sr_Subject record := (view s (sr_Subject record))(sr_Version r \<mapsto> r))"
    "\<And>v q. view s (sr_Subject record) v = Some q \<Longrightarrow> v < sr_Version r"
    using create_view [OF assms(1,2)] unfolding spec_create_def by blast
  with assms(3) show ?thesis by fastforce
qed

text \<open>A permanent deletion succeeds only on a soft-deleted version.\<close>

lemma permanent_needs_soft:
  assumes "inv s" "snd (delete s subject version True) = None"
  shows "\<exists>r. view s subject version = Some r \<and> sr_Deleted r"
  using delete_view [OF assms(1), of subject version True] assms(2)
  by (auto simp: spec_delete_def split: if_splits option.splits)

lemma soft_then_permanent:
  assumes "inv s" "view s subject version = Some r"
  defines "s1 \<equiv> fst (delete s subject version False)"
  defines "s2 \<equiv> fst (delete s1 subject version True)"
  shows "snd (delete s subject version False) = None"
    and "get s1 subject version = Inl ErrVersionNotFound \<or> version = -1"
    and "snd (delete s1 subject version True) = None"
    and "view s2 = (view s)(subject := (view s subject)(version := None))"
proof -
  have ne: "view s subject \<noteq> Map.empty" using assms(2) by auto
  have inv1: "inv s1" unfolding s1_def by (rule delete_inv [OF assms(1)])
  have d1: "view s1 = (view s)(subject := (view s subject)(version \<mapsto> r\<lparr>sr_Deleted := True\<rparr>))"
    and e1: "snd (delete s subject version False) = None"
    using delete_view [OF assms(1), of subject version False] assms(2) ne
    by (auto simp: spec_delete_def s1_def)
  show "snd (delete s subject version False) = None" by (rule e1)
  show "get s1 subject version = Inl ErrVersionNotFound \<or> version = -1"
    using get_view [OF inv1, of version subject] d1 by (auto simp: spec_get_def)
  have "view s1 subject \<noteq> Map.empty" using d1 by (auto simp: fun_eq_iff)
  with delete_view [OF inv1, of subject version True] d1
  show "snd (delete s1 subject version True) = None"
    and "view s2 = (view s)(subject := (view s subject)(version := None))"
    by (auto simp: spec_delete_def s2_def)
qed

text \<open>Content outlives a permanent deletion exactly when another version uses it.\<close>

lemma content_collected:
  assumes "inv s" "snd (delete s subject version True) = None"
  shows "content (fst (delete s subject version True)) i \<noteq> None \<longleftrightarrow>
     (\<exists>subj v r. (subj, v) \<noteq> (subject, version) \<and> view s subj v = Some r \<and> sr_ID r = i)"
proof -
  have "view (fst (delete s subject version True)) =
      (view s)(subject := (view s subject)(version := None))"
    using delete_view [OF assms(1), of subject version True] assms(2)
    by (auto simp: spec_delete_def split: if_splits option.splits)
  then have "view (fst (delete s subject version True)) subj v =
      (if (subj, v) = (subject, version) then None else view s subj v)" for subj v
    by simp
  then show ?thesis
    using content_view [OF delete_inv [OF assms(1)], of subject version True i]
    by (metis option.distinct(1))
qed

end

end
