(* ===== verification/Memory_Catalog.thy ===== *)
theory Memory_Catalog
  imports Memory_Schemas Catalog_Spec
begin

text \<open>
  The in-memory backend implements the catalogue of \<open>Catalog_Spec\<close>: the ID sequence, fingerprint
  map, reverse index and the collection of unused content are implementation only.
\<close>

definition catalog_of :: "contextStore \<Rightarrow> catalog" where
  "catalog_of cs subject version =
     map_option (\<lambda>info. fill_record (the (gm_get (cs_schemas cs) (si_schemaID info))) subject version info)
       (versions_of cs subject version)"

lemma catalog_None: "catalog_of cs subject version = None \<longleftrightarrow> versions_of cs subject version = None"
  by (simp add: catalog_of_def)

lemma catalog_empty: "catalog_of cs subject = Map.empty \<longleftrightarrow> versions_of cs subject = Map.empty"
  by (auto simp: fun_eq_iff catalog_of_def)

lemma catalog_Some:
  "catalog_of cs subject version = Some r \<longleftrightarrow>
     (\<exists>info. versions_of cs subject version = Some info \<and>
        r = fill_record (the (gm_get (cs_schemas cs) (si_schemaID info))) subject version info)"
  by (auto simp: catalog_of_def)

lemma fill_record_sel [simp]:
  "sr_ID (fill_record c s v info) = sr_ID c" "sr_Subject (fill_record c s v info) = s"
  "sr_Version (fill_record c s v info) = v" "sr_SchemaType (fill_record c s v info) = sr_SchemaType c"
  "sr_Schema (fill_record c s v info) = sr_Schema c"
  "sr_References (fill_record c s v info) = sr_References c"
  "sr_Metadata (fill_record c s v info) = si_metadata info"
  "sr_RuleSet (fill_record c s v info) = si_ruleSet info"
  "sr_Fingerprint (fill_record c s v info) = sr_Fingerprint c"
  "sr_Deleted (fill_record c s v info) = si_deleted info"
  "sr_CreatedAt (fill_record c s v info) = si_createdAt info"
  by (simp_all add: fill_record_def)

lemma fill_record_deleted [simp]:
  "fill_record c s v (info\<lparr>si_deleted := True\<rparr>) = (fill_record c s v info)\<lparr>sr_Deleted := True\<rparr>"
  by (simp add: fill_record_def)

lemma catalog_ID:
  assumes "ctx_inv cs" "versions_of cs subject version = Some info"
  shows "sr_ID (the (gm_get (cs_schemas cs) (si_schemaID info))) = si_schemaID info"
  using version_content [of "{}" "versions_of cs" cs subject version info] assms
  by (auto simp: ctx_inv_def)

section \<open>Reads\<close>

lemma get_catalog:
  assumes "ctx_inv cs" "version \<noteq> -1"
  shows "ctx_GetSchemaBySubjectVersion cs subject version = spec_get (catalog_of cs) subject version"
  using get_version [OF assms, of subject]
  by (auto simp: spec_get_def catalog_empty split: option.splits) (auto simp: catalog_of_def)

lemma latest_catalog:
  assumes inv: "ctx_inv cs"
  shows "ctx_GetLatestSchema cs subject = Inr r \<longleftrightarrow> spec_is_latest (catalog_of cs) subject r"
proof -
  let ?v = "max_key live (gm_entries (subject_versions cs subject)) 0"
  have one: "ctx_GetLatestSchema cs subject = Inr r" if "spec_is_latest (catalog_of cs) subject r" for r
  proof -
    from that obtain version info where "versions_of cs subject version = Some info" "live info"
      "r = fill_record (the (gm_get (cs_schemas cs) (si_schemaID info))) subject version info"
      "\<And>v i. versions_of cs subject v = Some i \<Longrightarrow> live i \<Longrightarrow> v \<le> version"
      by (auto simp: spec_is_latest_def catalog_Some live_def)
    with get_latest [OF inv] show ?thesis by (simp add: latest_lookup)
  qed
  show ?thesis
  proof
    assume run: "ctx_GetLatestSchema cs subject = Inr r"
    then have "?v \<noteq> 0"
      by (auto simp: latest_lookup ctx_GetSchemaBySubjectVersion_def Let_def split: if_splits)
    from max_key_gm [OF refl this] obtain info where
      "versions_of cs subject ?v = Some info" "live info"
      "\<And>v i. versions_of cs subject v = Some i \<Longrightarrow> live i \<Longrightarrow> v \<le> ?v"
      by (auto simp: versions_of_def)
    then have "spec_is_latest (catalog_of cs) subject
        (fill_record (the (gm_get (cs_schemas cs) (si_schemaID info))) subject ?v info)"
      unfolding spec_is_latest_def by (intro exI [of _ ?v]) (auto simp: catalog_Some live_def)
    with one run show "spec_is_latest (catalog_of cs) subject r" by fastforce
  qed (rule one)
qed

lemma content_users:
  assumes "ctx_inv cs"
  shows "gm_get (cs_schemas cs) i \<noteq> None \<longleftrightarrow>
     (\<exists>s v info. versions_of cs s v = Some info \<and> si_schemaID info = i)"
proof -
  from assms have inv: "index_inv {} (versions_of cs) cs" by (simp add: ctx_inv_def)
  have "users_of cs i \<noteq> [] \<longleftrightarrow> (\<exists>s v info. versions_of cs s v = Some info \<and> si_schemaID info = i)"
  proof
    assume "users_of cs i \<noteq> []"
    then have "hd (users_of cs i) \<in> set (users_of cs i)" by simp
    with index_users [OF inv] show "\<exists>s v info. versions_of cs s v = Some info \<and> si_schemaID info = i"
      by blast
  next
    assume "\<exists>s v info. versions_of cs s v = Some info \<and> si_schemaID info = i"
    then obtain s v where "\<lparr>sv_Subject = s, sv_Version = v\<rparr> \<in> set (users_of cs i)"
      using index_users [OF inv] by force
    then show "users_of cs i \<noteq> []" by auto
  qed
  with index_content [OF inv, of i] show ?thesis by simp
qed

section \<open>Writes\<close>

lemma create_catalog:
  assumes run: "range_order it" "native_inv cs" "has_room cs (sr_Subject record)"
    "ctx_CreateSchema it now now' cs record = (cs', record', None)"
  shows "\<exists>r. spec_create (catalog_of cs) record (catalog_of cs') r \<and>
     sr_ID record' = sr_ID r \<and> sr_Version record' = sr_Version r"
proof -
  note eff = create_effect [OF run] and parts = native_invD [OF run(2)]
  let ?info = "new_version_info (sr_ID record') (sr_Version record') now record"
  from eff(3) obtain content where c: "gm_get (cs_schemas cs') (sr_ID record') = Some content"
    "sr_ID content = sr_ID record'" "sr_Fingerprint content = sr_Fingerprint record" by blast
  define r where "r = fill_record content (sr_Subject record) (sr_Version record') ?info"
  have old: "fill_record (the (gm_get (cs_schemas cs') (si_schemaID info))) s v info =
      fill_record (the (gm_get (cs_schemas cs) (si_schemaID info))) s v info"
    if "versions_of cs s v = Some info" for s v info
    using version_content [OF parts(4) that] eff(4) by fastforce
  have view: "catalog_of cs' = (catalog_of cs)(sr_Subject record :=
      (catalog_of cs (sr_Subject record))(sr_Version r \<mapsto> r))"
    using old c(1)
    by (auto simp: fun_eq_iff catalog_of_def eff(2) r_def new_version_info_def intro!: map_option_cong)
  have shared: "gm_get (cs_schemas cs) j = Some q \<Longrightarrow> sr_Fingerprint q = sr_Fingerprint record \<longleftrightarrow>
      j = sr_ID record'" for j q
    using parts(2,3) eff(4) c index_fp [OF parts(4)]
    by (auto simp: eff(6) dedup_inv_def ids_below_def split: option.splits) fastforce+
  have "same_content r q \<longleftrightarrow> sr_Fingerprint q = sr_Fingerprint record"
    "sr_ID q = sr_ID r \<longleftrightarrow> sr_Fingerprint q = sr_Fingerprint record"
    if q: "catalog_of cs s v = Some q" for s v q
  proof -
    from q obtain info where info: "versions_of cs s v = Some info"
      "q = fill_record (the (gm_get (cs_schemas cs) (si_schemaID info))) s v info"
      by (auto simp: catalog_Some)
    from version_content [OF parts(4) info(1)] obtain qc where
      qc: "gm_get (cs_schemas cs) (si_schemaID info) = Some qc" "sr_ID qc = si_schemaID info" by blast
    with shared [OF qc(1)] eff(4) [OF qc(1)] c info(2)
    show "sr_ID q = sr_ID r \<longleftrightarrow> sr_Fingerprint q = sr_Fingerprint record"
      by (auto simp: r_def)
    from shared [OF qc(1)] eff(4) [OF qc(1)] c info(2) qc
    show "same_content r q \<longleftrightarrow> sr_Fingerprint q = sr_Fingerprint record"
      by (auto simp: r_def same_content_def)
  qed
  moreover have "same_content r (record\<lparr>sr_ID := sr_ID r\<rparr>)"
    if none: "\<forall>s v q. catalog_of cs s v = Some q \<longrightarrow> sr_Fingerprint q \<noteq> sr_Fingerprint record"
  proof -
    have "gm_get (cs_fingerprints cs) (sr_Fingerprint record) = None"
    proof (rule ccontr)
      assume "gm_get (cs_fingerprints cs) (sr_Fingerprint record) \<noteq> None"
      then obtain i q where q: "gm_get (cs_schemas cs) i = Some q" "sr_Fingerprint q = sr_Fingerprint record"
        using index_fp [OF parts(4)] by blast
      then obtain s v info where "versions_of cs s v = Some info" "si_schemaID info = i"
        using content_users [OF parts(1), of i] by auto
      then have "catalog_of cs s v = Some (fill_record q s v info)" using q by (auto simp: catalog_Some)
      with q none show False by fastforce
    qed
    with eff(7) c show ?thesis by (simp add: r_def same_content_def stored_content_def)
  qed
  moreover have "v < sr_Version r" if "catalog_of cs (sr_Subject record) v = Some q" for v q
    using that create_above [OF run] by (auto simp: catalog_Some r_def)
  moreover have "1 \<le> sr_Version r"
    using eff(1) parts(5) by (simp add: r_def counters_inv_def)
  ultimately have "spec_create (catalog_of cs) record (catalog_of cs') r"
    unfolding spec_create_def using view c by (auto simp: r_def new_version_info_def)
  then show ?thesis using c by (auto simp: r_def)
qed

text \<open>Content that survives is unchanged, so what a deletion leaves keeps its records.\<close>

lemma catalog_shrink:
  assumes "ctx_inv cs'" "versions_of cs' s v = versions_of cs s v"
    and "\<And>j r. gm_get (cs_schemas cs') j = Some r \<Longrightarrow> gm_get (cs_schemas cs) j = Some r"
  shows "catalog_of cs' s v = catalog_of cs s v"
proof (cases "versions_of cs' s v")
  case (Some info)
  with version_content [of "{}" "versions_of cs'" cs' s v info] assms(1) obtain r where
    "gm_get (cs_schemas cs') (si_schemaID info) = Some r" by (auto simp: ctx_inv_def)
  with assms(2) assms(3) [of "si_schemaID info" r] Some show ?thesis
    by (simp add: catalog_of_def flip: assms(2))
qed (use assms in \<open>simp add: catalog_of_def\<close>)

lemma release_content:
  "gm_get (cs_schemas (release_schema subject version i cs)) j = Some r \<Longrightarrow>
     gm_get (cs_schemas cs) j = Some r"
  by (simp add: release_schemas split: if_splits)

lemma release_all_content:
  "gm_get (cs_schemas (fold (\<lambda>(version, info). release_schema subject version (si_schemaID info)) es cs)) j
     = Some r \<Longrightarrow> gm_get (cs_schemas cs) j = Some r"
  by (induction es arbitrary: cs) (auto dest: release_content)

lemma delete_catalog:
  assumes inv: "ctx_inv cs" and run: "ctx_DeleteSchema cs subject version permanent = (cs', err)"
  shows "spec_delete (catalog_of cs) subject version permanent = (catalog_of cs', err)"
proof (cases "versions_of cs subject version")
  case None
  then have "catalog_of cs subject version = None" by (simp add: catalog_None)
  with None run show ?thesis
    by (auto simp: ctx_DeleteSchema_def spec_delete_def Let_def versions_of_empty catalog_empty
        versions_of_def [symmetric] split: if_splits option.splits)
next
  case (Some info)
  then have ne: "gm_entries (subject_versions cs subject) \<noteq> []" "catalog_of cs subject \<noteq> Map.empty"
    by (auto simp: versions_of_empty catalog_empty)
  have get: "gm_get (subject_versions cs subject) version = Some info"
    using Some by (simp add: versions_of_def)
  let ?r = "fill_record (the (gm_get (cs_schemas cs) (si_schemaID info))) subject version info"
  have cat: "catalog_of cs subject version = Some ?r" using Some by (simp add: catalog_of_def)
  consider "permanent" "\<not> si_deleted info" | "permanent" "si_deleted info" | "\<not> permanent" by blast
  then show ?thesis
  proof cases
    case 1
    with run ne get cat show ?thesis by (auto simp: ctx_DeleteSchema_def spec_delete_def Let_def)
  next
    case 2
    let ?cs1 = "cs\<lparr>cs_subjectVersions :=
      gm_put subject (gm_del version (subject_versions cs subject)) (cs_subjectVersions cs)\<rparr>"
    from 2 run ne get have r: "cs' = release_schema subject version (si_schemaID info) ?cs1" "err = None"
      by (auto simp: ctx_DeleteSchema_def Let_def)
    have V: "versions_of cs' = (versions_of cs)(subject := (versions_of cs subject)(version := None))"
      by (simp add: r versions_of_put gm_laws) (simp add: versions_of_def)
    have "gm_get (cs_schemas cs') j = Some q \<Longrightarrow> gm_get (cs_schemas cs) j = Some q" for j q
      unfolding r by (drule release_content) simp
    then have "catalog_of cs' = (catalog_of cs)(subject := (catalog_of cs subject)(version := None))"
      using V by (auto simp: fun_eq_iff catalog_None intro!: catalog_shrink [OF ctx_DeleteSchema_inv [OF inv run]])
    with 2 ne cat r show ?thesis by (auto simp: spec_delete_def)
  next
    case 3
    with run ne get have r: "err = None" "cs' = cs\<lparr>cs_subjectVersions :=
        gm_put subject (gm_put version (info\<lparr>si_deleted := True\<rparr>) (subject_versions cs subject))
          (cs_subjectVersions cs)\<rparr>"
      by (auto simp: ctx_DeleteSchema_def Let_def)
    have V: "versions_of cs' = (versions_of cs)(subject :=
        (versions_of cs subject)(version \<mapsto> info\<lparr>si_deleted := True\<rparr>))"
      by (simp add: r versions_of_put gm_laws) (simp add: versions_of_def)
    have "catalog_of cs' = (catalog_of cs)(subject :=
        (catalog_of cs subject)(version \<mapsto> ?r\<lparr>sr_Deleted := True\<rparr>))"
      by (auto simp: fun_eq_iff catalog_of_def V) (simp_all add: r)
    with 3 ne cat r show ?thesis by (auto simp: spec_delete_def)
  qed
qed

text \<open>The sorted keys a range collects, as a set.\<close>

lemma sorted_keys:
  "sort (map fst (filter P (gm_entries m))) = sorted_list_of_set {k. \<exists>v. gm_get m k = Some v \<and> P (k, v)}"
proof -
  have "set (map fst (filter P (gm_entries m))) = {k. \<exists>v. gm_get m k = Some v \<and> P (k, v)}"
    using gm.entry_iff [of _ _ m] by force
  with gm.keys_of_filter_distinct [of P m] show ?thesis
    by (metis sorted_list_of_set_sort_remdups distinct_remdups_id)
qed

lemma delete_subject_catalog:
  assumes inv: "ctx_inv cs" and run: "ctx_DeleteSubject cs subject permanent = (cs', res)"
  shows "spec_delete_subject (catalog_of cs) subject permanent = (catalog_of cs', res)"
proof (cases "versions_of cs subject = Map.empty")
  case True
  with run show ?thesis
    by (simp add: ctx_DeleteSubject_def spec_delete_subject_def Let_def versions_of_empty catalog_empty)
next
  case False
  let ?es = "gm_entries (subject_versions cs subject)"
  have all: "list_all (\<lambda>(_, info). si_deleted info) ?es \<longleftrightarrow>
      (\<forall>v r. catalog_of cs subject v = Some r \<longrightarrow> sr_Deleted r)" (is "?all = _")
    by (auto simp: list_all_iff gm.scan_all catalog_Some versions_of_def) (metis fill_record_sel(10))
  have ne: "?es \<noteq> []" "catalog_of cs subject \<noteq> Map.empty"
    using False by (auto simp: versions_of_empty catalog_empty)
  consider "permanent \<noteq> ?all" | "permanent" "?all" | "\<not> permanent" "\<not> ?all" by blast
  then show ?thesis
  proof cases
    case 1
    with run ne all show ?thesis
      by (auto simp: ctx_DeleteSubject_def spec_delete_subject_def Let_def split: if_splits)
  next
    case 2
    let ?cs1 = "fold (\<lambda>(version, info). release_schema subject version (si_schemaID info)) ?es cs"
    from 2 run ne have r: "cs' = ?cs1\<lparr>cs_subjectVersions := gm_del subject (cs_subjectVersions ?cs1),
        cs_nextSubjectVersion := gm_del subject (cs_nextSubjectVersion ?cs1),
        cs_configs := gm_del subject (cs_configs ?cs1), cs_modes := gm_del subject (cs_modes ?cs1)\<rparr>"
      "res = Inr (sort (map fst (filter (\<lambda>_. True) ?es)))"
      by (auto simp: ctx_DeleteSubject_def Let_def)
    have V: "versions_of cs' = (versions_of cs)(subject := Map.empty)"
      by (simp add: r versions_of_def subject_versions_def fun_eq_iff)
    have "gm_get (cs_schemas cs') j = Some q \<Longrightarrow> gm_get (cs_schemas cs) j = Some q" for j q
      using release_all_content [of subject ?es cs j q] by (simp add: r)
    then have "catalog_of cs' = (catalog_of cs)(subject := Map.empty)"
      using V by (auto simp: fun_eq_iff catalog_None intro!: catalog_shrink [OF ctx_DeleteSubject_inv [OF inv run]])
    moreover have "{k. \<exists>v. gm_get (subject_versions cs subject) k = Some v} = dom (catalog_of cs subject)"
      by (auto simp: catalog_of_def versions_of_def dom_def)
    ultimately show ?thesis
      unfolding r(2) sorted_keys using 2 ne all by (simp add: spec_delete_subject_def)
  next
    case 3
    from 3 run ne have r: "cs' = cs\<lparr>cs_subjectVersions := gm_put subject
        (gm_map_vals (\<lambda>_ info. info\<lparr>si_deleted := True\<rparr>) (subject_versions cs subject))
        (cs_subjectVersions cs)\<rparr>"
      "res = Inr (sort (map fst (filter (\<lambda>(_, info). \<not> si_deleted info) ?es)))"
      by (auto simp: ctx_DeleteSubject_def Let_def)
    have V: "versions_of cs' s v = (if s = subject
        then map_option (\<lambda>info. info\<lparr>si_deleted := True\<rparr>) (versions_of cs s v)
        else versions_of cs s v)" for s v
      by (simp add: r versions_of_put) (simp add: versions_of_def)
    have "catalog_of cs' = (catalog_of cs)(subject :=
        (\<lambda>v. map_option (\<lambda>r. r\<lparr>sr_Deleted := True\<rparr>) (catalog_of cs subject v)))"
      by (auto simp: fun_eq_iff catalog_of_def V option.map_comp comp_def) (simp_all add: r)
    moreover have "{k. \<exists>v. gm_get (subject_versions cs subject) k = Some v \<and> \<not> si_deleted v} =
        {v. \<exists>r. catalog_of cs subject v = Some r \<and> \<not> sr_Deleted r}"
      by (auto simp: catalog_Some versions_of_def)
    ultimately show ?thesis
      using 3 ne all by (simp add: spec_delete_subject_def r(2) sorted_keys)
  qed
qed

section \<open>The store implements the catalogue\<close>

definition mem_view :: "string \<Rightarrow> Store \<Rightarrow> catalog" where
  "mem_view c s = catalog_of (Store_getOrCreateContext s c)"

text \<open>A successful registration, with the visiting order and clock readings of that run.\<close>

definition mem_create :: "string \<Rightarrow> Store \<Rightarrow> SchemaRecord \<Rightarrow> Store \<Rightarrow> SchemaRecord \<Rightarrow> bool" where
  "mem_create c s record s' record' \<longleftrightarrow>
     (\<exists>it now now'. range_order it \<and> has_room (Store_getOrCreateContext s c) (sr_Subject record) \<and>
        Store_CreateSchema it now now' s c record = (s', record', None))"

definition mem_content :: "string \<Rightarrow> Store \<Rightarrow> int \<Rightarrow> SchemaRecord option" where
  "mem_content c s i = (case Store_GetSchemaByID s c i of Inl _ \<Rightarrow> None | Inr r \<Rightarrow> Some r)"

lemma new_context_empty [simp]:
  "versions_of newContextStore subject = Map.empty" "catalog_of newContextStore subject = Map.empty"
  by (simp_all add: catalog_of_def fun_eq_iff versions_of_def subject_versions_def newContextStore_def)

lemma store_native: "store_inv s \<Longrightarrow> ctx_inv (Store_getOrCreateContext s c)"
  using store_inv_getOrCreate native_ctx by blast

lemma getOrCreate_cases:
  obtains "Store_getContext s c = None" "Store_getOrCreateContext s c = newContextStore"
  | "Store_getContext s c = Some (Store_getOrCreateContext s c)"
  by (cases "gm_get (st_contexts s) c")
    (auto simp: Store_getContext_def Store_getOrCreateContext_def)

lemma mem_delete:
  assumes "store_inv s" "Store_DeleteSchema s c subject version permanent = (s', err)"
  shows "spec_delete (mem_view c s) subject version permanent = (mem_view c s', err)"
proof (cases rule: getOrCreate_cases [of s c])
  case 1
  with assms show ?thesis by (simp add: Store_DeleteSchema_def spec_delete_def mem_view_def)
next
  case 2
  with assms delete_catalog [OF store_native [OF assms(1)], of c subject version permanent]
  show ?thesis by (auto simp: Store_DeleteSchema_def mem_view_def split: prod.splits)
qed

lemma mem_delete_subject:
  assumes "store_inv s" "Store_DeleteSubject s c subject permanent = (s', res)"
  shows "spec_delete_subject (mem_view c s) subject permanent = (mem_view c s', res)"
proof (cases rule: getOrCreate_cases [of s c])
  case 1
  with assms show ?thesis
    by (simp add: Store_DeleteSubject_def spec_delete_subject_def mem_view_def)
next
  case 2
  with assms delete_subject_catalog [OF store_native [OF assms(1)], of c subject permanent]
  show ?thesis by (auto simp: Store_DeleteSubject_def mem_view_def split: prod.splits)
qed

lemma Store_CreateSchema_run:
  "Store_CreateSchema it now now' s c record = (s', r', err) \<longleftrightarrow>
     (\<exists>cs'. ctx_CreateSchema it now now' (Store_getOrCreateContext s c) record = (cs', r', err) \<and>
        s' = Store_putContext s c cs')"
  by (cases "ctx_CreateSchema it now now' (Store_getOrCreateContext s c) record")
    (auto simp: Store_CreateSchema_def)

lemma mem_create_catalog:
  assumes "store_inv s" "mem_create c s record s' r'"
  shows "\<exists>r. spec_create (mem_view c s) record (mem_view c s') r \<and> sr_ID r' = sr_ID r \<and>
     sr_Version r' = sr_Version r"
proof -
  from assms(2) obtain it now now' cs' where "range_order it"
    "has_room (Store_getOrCreateContext s c) (sr_Subject record)"
    "ctx_CreateSchema it now now' (Store_getOrCreateContext s c) record = (cs', r', None)"
    "s' = Store_putContext s c cs'"
    by (auto simp: mem_create_def Store_CreateSchema_run)
  then show ?thesis
    using create_catalog [OF _ store_inv_getOrCreate [OF assms(1)]] by (simp add: mem_view_def)
qed

lemma mem_get:
  assumes "store_inv s" "version \<noteq> -1"
  shows "Store_GetSchemaBySubjectVersion s c subject version = spec_get (mem_view c s) subject version"
proof (cases rule: getOrCreate_cases [of s c])
  case 1
  then show ?thesis by (simp add: Store_GetSchemaBySubjectVersion_def mem_view_def spec_get_def)
next
  case 2
  with get_catalog [OF store_native [OF assms(1)] assms(2)] show ?thesis
    by (simp add: Store_GetSchemaBySubjectVersion_def mem_view_def)
qed

lemma mem_latest:
  assumes "store_inv s"
  shows "Store_GetLatestSchema s c subject = Inr r \<longleftrightarrow> spec_is_latest (mem_view c s) subject r"
proof (cases rule: getOrCreate_cases [of s c])
  case 1
  then show ?thesis by (simp add: Store_GetLatestSchema_def mem_view_def spec_is_latest_def)
next
  case 2
  with latest_catalog [OF store_native [OF assms(1)]] show ?thesis
    by (simp add: Store_GetLatestSchema_def mem_view_def)
qed

lemma mem_content_view:
  assumes "store_inv s"
  shows "mem_content c s i \<noteq> None \<longleftrightarrow>
    (\<exists>subject version r. mem_view c s subject version = Some r \<and> sr_ID r = i)"
proof (cases rule: getOrCreate_cases [of s c])
  case 1
  then show ?thesis by (simp add: mem_content_def Store_GetSchemaByID_def mem_view_def)
next
  case 2
  let ?cs = "Store_getOrCreateContext s c"
  have inv: "ctx_inv ?cs" by (rule store_native [OF assms])
  have "(\<exists>s v info. versions_of ?cs s v = Some info \<and> si_schemaID info = i) \<longleftrightarrow>
      (\<exists>s v r. catalog_of ?cs s v = Some r \<and> sr_ID r = i)"
    using catalog_ID [OF inv] by (fastforce simp: catalog_Some)
  with content_users [OF inv, of i] 2 show ?thesis
    by (auto simp: mem_content_def Store_GetSchemaByID_def mem_view_def split: option.splits)
qed

interpretation mem: schema_catalog store_inv "mem_view c" "mem_create c"
  "\<lambda>s. Store_DeleteSchema s c" "\<lambda>s. Store_DeleteSubject s c"
  "\<lambda>s. Store_GetSchemaBySubjectVersion s c" "\<lambda>s. Store_GetLatestSchema s c" "mem_content c"
  for c :: string
proof
  fix s s' :: Store and "record" r' r :: SchemaRecord and subject :: string and version i :: int
    and permanent :: bool
  assume inv: "store_inv s"
  show "store_inv s'" if "mem_create c s record s' r'"
    using that inv store_step.step_create store_step_inv by (auto simp: mem_create_def) blast
  show "\<exists>r. spec_create (mem_view c s) record (mem_view c s') r \<and> sr_ID r' = sr_ID r \<and>
     sr_Version r' = sr_Version r" if "mem_create c s record s' r'"
    using mem_create_catalog [OF inv that] .
  show "store_inv (fst (Store_DeleteSchema s c subject version permanent))"
    using inv store_step_inv [OF store_step.step_delete] by (metis prod.collapse)
  show "spec_delete (mem_view c s) subject version permanent =
    (mem_view c (fst (Store_DeleteSchema s c subject version permanent)),
     snd (Store_DeleteSchema s c subject version permanent))"
    using mem_delete [OF inv] by (metis prod.collapse)
  show "store_inv (fst (Store_DeleteSubject s c subject permanent))"
    using inv store_step_inv [OF store_step.step_delete_subject] by (metis prod.collapse)
  show "spec_delete_subject (mem_view c s) subject permanent =
    (mem_view c (fst (Store_DeleteSubject s c subject permanent)),
     snd (Store_DeleteSubject s c subject permanent))"
    using mem_delete_subject [OF inv] by (metis prod.collapse)
  show "Store_GetSchemaBySubjectVersion s c subject version = spec_get (mem_view c s) subject version"
    if "version \<noteq> -1" using mem_get [OF inv that] .
  show "Store_GetLatestSchema s c subject = Inr r \<longleftrightarrow> spec_is_latest (mem_view c s) subject r"
    by (rule mem_latest [OF inv])
  show "mem_content c s i \<noteq> None \<longleftrightarrow>
    (\<exists>subject version r. mem_view c s subject version = Some r \<and> sr_ID r = i)"
    by (rule mem_content_view [OF inv])
qed

section \<open>Listing the versions of a subject\<close>

lemma collect_eq:
  assumes "ctx_inv cs"
  shows "collect_records cs subject P (subject_versions cs subject) =
     map (\<lambda>(v, info). fill_record (the (gm_get (cs_schemas cs) (si_schemaID info))) subject v info)
       (filter P (gm_entries (subject_versions cs subject)))"
proof -
  have inv: "index_inv {} (versions_of cs) cs" using assms by (simp add: ctx_inv_def)
  have present: "\<exists>c. gm_get (cs_schemas cs) (si_schemaID info) = Some c"
    if "(v, info) \<in> set (gm_entries (subject_versions cs subject))" for v info
    using version_content [OF inv, of subject v info] that by (auto simp: gm.entry_iff versions_of_def)
  have "List.map_filter (\<lambda>(version, info). if P (version, info)
          then map_option (\<lambda>schema. fill_record schema subject version info)
                 (gm_get (cs_schemas cs) (si_schemaID info)) else None) es =
      map (\<lambda>(v, info). fill_record (the (gm_get (cs_schemas cs) (si_schemaID info))) subject v info)
        (filter P es)"
    if "set es \<subseteq> set (gm_entries (subject_versions cs subject))" for es
    using that
  proof (induction es)
    case (Cons e es)
    with present [of "fst e" "snd e"] show ?case by (cases e) (auto simp: map_filter_simps)
  qed (simp add: map_filter_simps)
  then show ?thesis by (simp add: collect_records_def)
qed

lemma collect_versions:
  "ctx_inv cs \<Longrightarrow> map sr_Version (collect_records cs subject P (subject_versions cs subject)) =
     map fst (filter P (gm_entries (subject_versions cs subject)))"
  by (simp add: collect_eq comp_def split_def)

lemma collect_set:
  assumes "ctx_inv cs"
  shows "r \<in> set (collect_records cs subject P (subject_versions cs subject)) \<longleftrightarrow>
     (\<exists>v info. versions_of cs subject v = Some info \<and> P (v, info) \<and>
        r = fill_record (the (gm_get (cs_schemas cs) (si_schemaID info))) subject v info)"
  unfolding collect_eq [OF assms] using gm.entry_iff [of _ _ "subject_versions cs subject"]
  by (force simp: versions_of_def)

lemma listed_view:
  assumes "store_inv s" "Store_GetSchemasBySubject s c subject includeDeleted = Inr rs"
  shows "sorted_wrt (<) (map sr_Version rs)"
    and "set rs = {r. \<exists>v. mem_view c s subject v = Some r \<and> (includeDeleted \<or> \<not> sr_Deleted r)}"
proof -
  from assms(2) obtain cs where cs: "Store_getContext s c = Some cs"
    "ctx_GetSchemasBySubject cs subject includeDeleted = Inr rs"
    by (auto simp: Store_GetSchemasBySubject_def split: option.splits)
  let ?P = "\<lambda>(_, info). includeDeleted \<or> \<not> si_deleted info"
  have inv: "ctx_inv cs"
    using cs(1) assms(1) store_inv_get native_ctx by blast
  have rs: "rs = sort_key sr_Version (collect_records cs subject ?P (subject_versions cs subject))"
    using cs(2) by (auto simp: ctx_GetSchemasBySubject_def Let_def split: if_splits)
  have "mset (map sr_Version rs) = mset (map fst (filter ?P (gm_entries (subject_versions cs subject))))"
    unfolding rs collect_versions [OF inv, symmetric] by simp
  then have "distinct (map sr_Version rs)"
    using gm.keys_of_filter_distinct mset_eq_imp_distinct_iff by blast
  moreover have "sorted (map sr_Version rs)" by (simp add: rs)
  ultimately show "sorted_wrt (<) (map sr_Version rs)" by (simp add: strict_sorted_iff)
  have "mem_view c s = catalog_of cs" using cs(1) getOrCreate_get by (simp add: mem_view_def)
  moreover have "set rs = {r. \<exists>v. catalog_of cs subject v = Some r \<and> (includeDeleted \<or> \<not> sr_Deleted r)}"
    unfolding set_eq_iff rs set_sort collect_set [OF inv] mem_Collect_eq catalog_Some
    by (metis (no_types, lifting) case_prod_conv fill_record_sel(10))
  ultimately show "set rs = {r. \<exists>v. mem_view c s subject v = Some r \<and> (includeDeleted \<or> \<not> sr_Deleted r)}"
    by simp
qed

lemma not_listed:
  assumes "store_inv s" "Store_GetSchemasBySubject s c subject includeDeleted = Inl err"
    and "mem_view c s subject v = Some r"
  shows "\<not> includeDeleted \<and> sr_Deleted r"
proof -
  have "Store_getContext s c = Some (Store_getOrCreateContext s c)"
    using assms(3) by (cases rule: getOrCreate_cases [of s c]) (auto simp: mem_view_def)
  then obtain cs where cs: "Store_getContext s c = Some cs" by blast
  let ?P = "\<lambda>(_, info). includeDeleted \<or> \<not> si_deleted info"
  have inv: "ctx_inv cs"
    using cs(1) assms(1) store_inv_get native_ctx by blast
  from assms(3) cs obtain info where info: "versions_of cs subject v = Some info"
    "r = fill_record (the (gm_get (cs_schemas cs) (si_schemaID info))) subject v info"
    by (auto simp: mem_view_def getOrCreate_get catalog_Some)
  have "gm_entries (subject_versions cs subject) \<noteq> []"
    using info(1) versions_of_empty [of cs subject] by auto
  then have "collect_records cs subject ?P (subject_versions cs subject) = []"
    using assms(2) cs
    by (auto simp: Store_GetSchemasBySubject_def ctx_GetSchemasBySubject_def Let_def split: if_splits)
  then have "\<not> ?P (v, info)" using collect_set [OF inv, of r subject ?P] info by auto
  with info(2) show ?thesis by simp
qed

end
