(* ===== verification/Registry_Catalog.thy ===== *)
theory Registry_Catalog
  imports Registry_Schemas Memory_Catalog
begin

text \<open>
  What the registry's writes do to the catalogue of the store below (\<open>mem_view\<close>): the outcomes of a
  registration, what the look-up by fingerprint and the reverse references return, and the
  histories of registry writes with the invariant that no reference dangles.
\<close>

definition env_ok :: "go_env \<Rightarrow> bool" where
  "env_ok e \<longleftrightarrow> (\<forall>n. range_order (ge_versions e n) \<and> range_order (ge_strings e n))"

lemma auto_fields [simp]:
  "sr_ID (autoPopulateConfluentVersion rec) = sr_ID rec"
  "sr_Subject (autoPopulateConfluentVersion rec) = sr_Subject rec"
  "sr_Version (autoPopulateConfluentVersion rec) = sr_Version rec"
  "sr_SchemaType (autoPopulateConfluentVersion rec) = sr_SchemaType rec"
  "sr_Schema (autoPopulateConfluentVersion rec) = sr_Schema rec"
  "sr_References (autoPopulateConfluentVersion rec) = sr_References rec"
  "sr_RuleSet (autoPopulateConfluentVersion rec) = sr_RuleSet rec"
  "sr_Fingerprint (autoPopulateConfluentVersion rec) = sr_Fingerprint rec"
  "sr_Deleted (autoPopulateConfluentVersion rec) = sr_Deleted rec"
  by (simp_all add: autoPopulateConfluentVersion_def Let_def)

section \<open>Reading\<close>

lemma view_context: "Store_getContext s c = Some cs \<Longrightarrow> mem_view c s = catalog_of cs"
  by (simp add: mem_view_def getOrCreate_get)

lemma view_no_context: "Store_getContext s c = None \<Longrightarrow> mem_view c s subject = Map.empty"
  by (simp add: mem_view_def Store_getContext_def Store_getOrCreateContext_def)

lemma view_version:
  assumes "store_inv s" "mem_view c s subject v = Some q"
  shows "1 \<le> v \<and> sr_Version q = v \<and> sr_Subject q = subject"
  using native_counters [OF store_inv_getOrCreate [OF assms(1)], of c] assms(2)
  by (auto simp: mem_view_def catalog_Some counters_inv_def)

lemma find_in_gomap:
  assumes "range_order it" "List.find P (it (gm_entries m)) = Some (v, info)"
  shows "gm_get m v = Some info \<and> P (v, info)"
  using find_Some_range [OF assms] by (simp add: gm.entry_iff)

lemma by_fingerprint:
  assumes it: "range_order it"
    and get: "Store_GetSchemaByFingerprint it s c subject fingerprint includeDeleted = Inr q"
  shows "mem_view c s subject (sr_Version q) = Some q \<and> sr_Fingerprint q = fingerprint \<and>
         (includeDeleted \<or> \<not> sr_Deleted q)"
proof -
  obtain cs where cs: "Store_getContext s c = Some cs"
    "ctx_GetSchemaByFingerprint it cs subject fingerprint includeDeleted = Inr q"
    using get by (auto simp: Store_GetSchemaByFingerprint_def split: option.splits)
  then obtain v info where f:
    "List.find (\<lambda>(_, info). \<not> (si_deleted info \<and> \<not> includeDeleted) \<and>
         (case gm_get (cs_schemas cs) (si_schemaID info) of
            None \<Rightarrow> False | Some schema \<Rightarrow> sr_Fingerprint schema = fingerprint))
       (it (gm_entries (subject_versions cs subject))) = Some (v, info)"
    "q = fill_record (the (gm_get (cs_schemas cs) (si_schemaID info))) subject v info"
    by (auto simp: ctx_GetSchemaByFingerprint_def Let_def split: if_splits option.splits)
  from find_in_gomap [OF it f(1)] f(2) show ?thesis
    by (auto simp: view_context [OF cs(1)] catalog_Some versions_of_def split: option.splits)
qed

lemma by_version:
  assumes "store_inv s"
  shows "Store_GetSchemaBySubjectVersion s c subject v = Inr q \<Longrightarrow>
           mem_view c s subject (sr_Version q) = Some q \<and> \<not> sr_Deleted q \<and> (v \<noteq> -1 \<longrightarrow> sr_Version q = v)"
proof (cases "v = -1")
  case True
  assume "Store_GetSchemaBySubjectVersion s c subject v = Inr q"
  then have "Store_GetLatestSchema s c subject = Inr q"
    using True by (simp add: Store_GetLatestSchema_def Store_GetSchemaBySubjectVersion_def latest_lookup
        split: option.splits)
  then show ?thesis
    using mem_latest [OF assms] view_version [OF assms] True by (auto simp: spec_is_latest_def)
next
  case False
  assume "Store_GetSchemaBySubjectVersion s c subject v = Inr q"
  then have "mem_view c s subject v = Some q" "\<not> sr_Deleted q"
    using mem_get [OF assms False] by (auto simp: spec_get_def split: option.splits if_splits)
  then show ?thesis using view_version [OF assms] by auto
qed

text \<open>The references the reverse look-up finds: those of live schemas, by subject and version.\<close>

lemma map_filter_Nil_iff: "List.map_filter f xs = [] \<longleftrightarrow> (\<forall>x\<in>set xs. f x = None)"
  by (induction xs) (auto simp: List.map_filter_simps split: option.splits)

lemma no_references:
  assumes inv: "store_inv s" and "Store_GetReferencedBy s c subject v = Inr []"
    and q: "mem_view c s subj w = Some q" "\<not> sr_Deleted q" and ref: "ref \<in> set (sr_References q)"
  shows "rf_Subject ref \<noteq> subject \<or> rf_Version ref \<noteq> v"
proof (cases "Store_getContext s c")
  case None
  with q show ?thesis by (simp add: view_no_context)
next
  case (Some cs)
  have native: "native_inv cs" using Some inv store_inv_get by blast
  from q Some obtain info where info: "versions_of cs subj w = Some info" "\<not> si_deleted info"
    "q = fill_record (the (gm_get (cs_schemas cs) (si_schemaID info))) subj w info"
    by (auto simp: view_context catalog_Some)
  obtain content where content: "gm_get (cs_schemas cs) (si_schemaID info) = Some content"
    using version_content [OF native_index [OF native] info(1)] by auto
  obtain versions where vs: "gm_get (cs_subjectVersions cs) subj = Some versions" "gm_get versions w = Some info"
    using info(1) by (auto simp: versions_of_def subject_versions_def gm_get0_def split: option.splits)
  have "ctx_GetReferencedBy cs subject v = []"
    using assms(2) Some by (simp add: Store_GetReferencedBy_def)
  then have "\<not> list_ex (\<lambda>ref. rf_Subject ref = subject \<and> rf_Version ref = v) (sr_References content)"
    using vs info(2) content
    by (fastforce simp: ctx_GetReferencedBy_def concat_eq_Nil_conv map_filter_Nil_iff gm.entry_iff
        gm.scan_all split: option.splits if_splits)
  then show ?thesis using ref info(3) content by (auto simp: list_ex_iff)
qed

section \<open>The outcomes of a registration\<close>

lemma view_ensure: "mem_view c (Store_putContext s c (ensure_subject (Store_getOrCreateContext s c) subject)) = mem_view c s"
proof -
  have "catalog_of (ensure_subject cs subject) = catalog_of cs" for cs
    by (simp add: catalog_of_def fun_eq_iff)
  then show ?thesis by (simp add: mem_view_def)
qed

lemma store_record_cases:
  assumes "env_ok e" "has_room (Store_getOrCreateContext s c) (sr_Subject rec)"
    and run: "store_record e s c cvTarget rec = (s', res)"
  obtains (created) rec' where "mem_create c s rec s' rec'" "res = Inr (autoPopulateConfluentVersion rec')"
  | (exists) existing where "mem_view c s' = mem_view c s"
      "mem_view c s (sr_Subject rec) (sr_Version existing) = Some existing" "\<not> sr_Deleted existing"
      "sr_Fingerprint existing = sr_Fingerprint rec" "res = Inr (autoPopulateConfluentVersion existing)"
      "metadataEqual (sr_Metadata existing) (sr_Metadata rec)" "ruleSetEqual (sr_RuleSet existing) (sr_RuleSet rec)"
  | (refused) "mem_view c s' = mem_view c s" "res = Inl (FailedToStore ErrSchemaExists)"
proof -
  have it: "range_order (ge_versions e n)" for n using assms(1) by (simp add: env_ok_def)
  obtain s1 rec' err where create:
    "Store_CreateSchema (ge_versions e 1) (ge_now e 0) (ge_now e 1) s c rec = (s1, rec', err)"
    by (metis prod_cases3)
  show thesis
  proof (cases err)
    case None
    then have "mem_create c s rec s' rec'" "res = Inr (autoPopulateConfluentVersion rec')"
      using run create assms(2) it by (auto simp: store_record_def mem_create_def)
    then show thesis by (rule created)
  next
    case (Some error)
    with create obtain cs where "ctx_CreateSchema (ge_versions e 1) (ge_now e 0) (ge_now e 1)
        (Store_getOrCreateContext s c) rec = (cs, rec', Some error)" "s1 = Store_putContext s c cs"
      by (auto simp: Store_CreateSchema_run)
    with ctx_CreateSchema_exists [OF it] view_ensure have same: "mem_view c s1 = mem_view c s"
      and error: "error = ErrSchemaExists" by metis+
    have s1: "s' = s1" using run create Some by (auto simp: store_record_def)
    show thesis
    proof (cases "Store_GetSchemaByFingerprint (ge_versions e 2) s1 c (sr_Subject rec) (sr_Fingerprint rec) False")
      case (Inl x)
      with run create Some error same s1 show thesis by (intro refused) (auto simp: store_record_def)
    next
      case (Inr existing)
      from by_fingerprint [OF it Inr] run create Some error same s1 Inr show thesis
        by (auto simp: store_record_def split: if_splits intro: exists refused)
    qed
  qed
qed

text \<open>The three ends of \<open>RegisterSchema\<close>: refused before storing, found, or handed to storage.\<close>

lemma register_cases:
  assumes run: "Registry_RegisterSchema e r s c subject schemaStr schemaType refs opt = (s', res)"
  obtains (refused) err where "s' = s" "res = Inl err"
  | (found) resolvedRefs parsed0 schemaStr' parsed existing where "s' = s"
      "parse_request r s c schemaStr (default_type schemaType) refs = Inr (resolvedRefs, parsed0)"
      "(schemaStr', parsed) = normalize_request r s c subject (ro_Normalize opt) schemaStr parsed0"
      "found_duplicate e r s c subject (global_fingerprint r parsed refs) opt = Some existing"
      "res = Inr (autoPopulateConfluentVersion existing)"
  | (stored) resolvedRefs parsed0 schemaStr' parsed opt' where
      "parse_request r s c schemaStr (default_type schemaType) refs = Inr (resolvedRefs, parsed0)"
      "(schemaStr', parsed) = normalize_request r s c subject (ro_Normalize opt) schemaStr parsed0"
      "ValidateRuleSet (ro_RuleSet opt) = None"
      "compat_gate r s c subject (default_type schemaType)
         \<lparr>sw_Schema = schemaStr', sw_References = resolvedRefs\<rparr> (ro_Metadata opt) = None"
      "reserved_gate e r s c subject parsed (ro_Metadata opt) = None"
      "store_record e s c (extractConfluentVersionTarget (ro_Metadata opt))
         (new_record subject (default_type schemaType) schemaStr' refs opt' (global_fingerprint r parsed refs)) =
         (s', res)"
proof (cases "parse_request r s c schemaStr (default_type schemaType) refs")
  case (Inl err)
  with run show thesis by (auto simp: Registry_RegisterSchema_def Let_def intro: refused)
next
  case (Inr p)
  obtain resolvedRefs parsed0 where p: "p = (resolvedRefs, parsed0)" by (cases p)
  obtain schemaStr' parsed where n:
    "(schemaStr', parsed) = normalize_request r s c subject (ro_Normalize opt) schemaStr parsed0"
    by (metis prod.exhaust)
  note eqs = Inr [unfolded p] n [symmetric]
  show thesis
  proof (cases "ValidateRuleSet (ro_RuleSet opt)")
    case (Some err)
    with run eqs show thesis by (auto simp: Registry_RegisterSchema_def Let_def intro: refused)
  next
    case None
    show thesis
    proof (cases "found_duplicate e r s c subject (global_fingerprint r parsed refs) opt")
      case (Some existing)
      with run eqs None show thesis
        by (intro found [OF _ Inr [unfolded p] n Some]) (auto simp: Registry_RegisterSchema_def Let_def)
    next
      case nodup: None
      show thesis
      proof (cases "compat_gate r s c subject (default_type schemaType)
          \<lparr>sw_Schema = schemaStr', sw_References = resolvedRefs\<rparr> (ro_Metadata opt)")
        case (Some err)
        with run eqs None nodup show thesis
          by (auto simp: Registry_RegisterSchema_def Let_def intro: refused)
      next
        case nogate: None
        show thesis
        proof (cases "reserved_gate e r s c subject parsed (ro_Metadata opt)")
          case (Some err)
          with run eqs None nodup nogate show thesis
            by (auto simp: Registry_RegisterSchema_def Let_def intro: refused)
        next
          case noreserved: None
          from run eqs None nodup nogate noreserved show thesis
            by (intro stored [OF Inr [unfolded p] n None nogate noreserved])
              (auto simp: Registry_RegisterSchema_def Let_def)
        qed
      qed
    qed
  qed
qed

lemma found_duplicate_view:
  assumes "env_ok e" "found_duplicate e r s c subject fingerprint opt = Some existing"
  shows "mem_view c s subject (sr_Version existing) = Some existing" "\<not> sr_Deleted existing"
    "sr_Fingerprint existing = fingerprint"
  using assms by_fingerprint [of "ge_versions e 0" s c subject fingerprint False existing]
  by (auto simp: found_duplicate_def env_ok_def split: sum.splits if_splits)

end
