(* ===== verification/Registry_Histories.thy ===== *)
theory Registry_Histories
  imports Registry_Catalog
begin

text \<open>
  Histories of registry writes.  \<open>registry_step r c\<close> is one request to the service in the context
  \<open>c\<close>: a registration, a deletion, a change of configuration or mode.  Every such request is a
  sequence of steps of the store below, so the store's invariant holds throughout; over the
  histories the references of live schemas resolve, because registration checks them and deletion
  of a referenced version is refused.  An import stores what it is given and is not such a step.
\<close>

section \<open>Steps\<close>

inductive registry_step :: "'p Registry \<Rightarrow> string \<Rightarrow> Store \<Rightarrow> Store \<Rightarrow> bool"
  for r :: "'p Registry" and c :: string where
  reg_register: "env_ok e \<Longrightarrow> nul_free refs \<Longrightarrow> has_room (Store_getOrCreateContext s c) subject \<Longrightarrow>
    Registry_RegisterSchema e r s c subject schemaStr schemaType refs opt = (s', res) \<Longrightarrow>
    registry_step r c s s'"
| reg_delete_version: "Registry_DeleteVersion r s c subject version permanent = (s', dv) \<Longrightarrow>
    registry_step r c s s'"
| reg_delete_subject: "Registry_DeleteSubject r s c subject permanent = (s', ds) \<Longrightarrow>
    registry_step r c s s'"
| reg_set_config: "Registry_SetConfig r s c subject level norm opts = (s', err) \<Longrightarrow> registry_step r c s s'"
| reg_delete_config: "Registry_DeleteConfig r s c subject = (s', prev) \<Longrightarrow> registry_step r c s s'"
| reg_set_mode: "Registry_SetMode r s c subject mode force = (s', err) \<Longrightarrow> registry_step r c s s'"
| reg_delete_mode: "Registry_DeleteMode r s c subject = (s', prev) \<Longrightarrow> registry_step r c s s'"

inductive registry_reach :: "'p Registry \<Rightarrow> Store \<Rightarrow> bool" for r :: "'p Registry" where
  registry_new: "registry_reach r NewStore"
| registry_next: "registry_reach r s \<Longrightarrow> registry_step r c s s' \<Longrightarrow> registry_reach r s'"

section \<open>What a request does to the store below\<close>

text \<open>Configuration and mode requests change no version.\<close>

lemma config_view:
  "mem_view c' (fst (Store_SetConfig s c subject config)) = mem_view c' s"
  "mem_view c' (fst (Store_SetGlobalConfig s c config)) = mem_view c' s"
  "mem_view c' (fst (Store_DeleteConfig s c subject)) = mem_view c' s"
  "mem_view c' (fst (Store_DeleteGlobalConfig s c)) = mem_view c' s"
  "mem_view c' (fst (Store_SetMode s c subject mode)) = mem_view c' s"
  "mem_view c' (fst (Store_SetGlobalMode s c mode)) = mem_view c' s"
  "mem_view c' (fst (Store_DeleteMode s c subject)) = mem_view c' s"
  "mem_view c' (fst (Store_DeleteGlobalMode s c)) = mem_view c' s"
proof -
  have cat: "catalog_of (cs\<lparr>cs_configs := m\<rparr>) = catalog_of cs" "catalog_of (cs\<lparr>cs_modes := n\<rparr>) = catalog_of cs"
    "catalog_of (cs\<lparr>cs_globalConfig := g\<rparr>) = catalog_of cs" "catalog_of (cs\<lparr>cs_globalMode := h\<rparr>) = catalog_of cs"
    for cs m n g h
    using versions_of_cong [of "cs\<lparr>cs_configs := m\<rparr>" cs] versions_of_cong [of "cs\<lparr>cs_modes := n\<rparr>" cs]
      versions_of_cong [of "cs\<lparr>cs_globalConfig := g\<rparr>" cs] versions_of_cong [of "cs\<lparr>cs_globalMode := h\<rparr>" cs]
    by (simp_all add: catalog_of_def fun_eq_iff)
  show "mem_view c' (fst (Store_SetConfig s c subject config)) = mem_view c' s"
    "mem_view c' (fst (Store_SetGlobalConfig s c config)) = mem_view c' s"
    "mem_view c' (fst (Store_DeleteConfig s c subject)) = mem_view c' s"
    "mem_view c' (fst (Store_DeleteGlobalConfig s c)) = mem_view c' s"
    "mem_view c' (fst (Store_SetMode s c subject mode)) = mem_view c' s"
    "mem_view c' (fst (Store_SetGlobalMode s c mode)) = mem_view c' s"
    "mem_view c' (fst (Store_DeleteMode s c subject)) = mem_view c' s"
    "mem_view c' (fst (Store_DeleteGlobalMode s c)) = mem_view c' s"
    by (auto simp: store_defs mem_view_def Let_def cat getOrCreate_get split: option.splits if_splits)
qed

lemma step_other_context: "store_step c s s' \<Longrightarrow> c' \<noteq> c \<Longrightarrow> Store_getContext s' c' = Store_getContext s c'"
  by (cases rule: store_step.cases)
    (auto simp: store_defs Let_def Store_putContext_def Store_getContext_def gm_laws
      split: prod.splits option.splits if_splits)

lemma steps_other_view:
  assumes "(store_step c)\<^sup>*\<^sup>* s s'" "c' \<noteq> c"
  shows "mem_view c' s' = mem_view c' s"
  using assms(1)
proof (induction rule: rtranclp_induct)
  case (step s1 s2)
  from step_other_context [OF step(2) assms(2)] step(3) show ?case
    by (simp add: mem_view_def Store_getOrCreateContext_def Store_getContext_def)
qed simp

lemma steps_inv: "(store_step c)\<^sup>*\<^sup>* s s' \<Longrightarrow> store_inv s \<Longrightarrow> store_inv s'"
  by (induction rule: rtranclp_induct) (auto intro: store_step_inv)

lemma steps_reach: "(store_step c)\<^sup>*\<^sup>* s s' \<Longrightarrow> store_reach s \<Longrightarrow> store_reach s'"
  by (induction rule: rtranclp_induct) (auto intro: reach_step)

lemma register_steps:
  assumes "env_ok e" "has_room (Store_getOrCreateContext s c) subject"
    and run: "Registry_RegisterSchema e r s c subject schemaStr schemaType refs opt = (s', res)"
  shows "(store_step c)\<^sup>*\<^sup>* s s'"
  using run
proof (cases rule: register_cases)
  case (stored resolvedRefs parsed0 schemaStr' parsed opt')
  let ?rec = "new_record subject (default_type schemaType) schemaStr' refs opt' (global_fingerprint r parsed refs)"
  obtain s1 rec' err where create:
    "Store_CreateSchema (ge_versions e 1) (ge_now e 0) (ge_now e 1) s c ?rec = (s1, rec', err)"
    by (metis prod_cases3)
  have "s1 = s'" using stored(6) create by (auto simp: store_record_def split: option.splits)
  moreover have "store_step c s s1"
    using step_create [OF _ _ create] assms(1,2) by (simp add: env_ok_def new_record_def)
  ultimately show ?thesis by auto
qed simp_all

lemma delete_version_steps:
  "Registry_DeleteVersion r s c subject version permanent = (s', res) \<Longrightarrow> (store_step c)\<^sup>*\<^sup>* s s'"
  by (auto simp: Registry_DeleteVersion_def Let_def split: if_splits sum.splits prod.splits option.splits
      intro: step_delete)

lemma delete_subject_steps:
  assumes "Registry_DeleteSubject r s c subject permanent = (s', res)"
  shows "(store_step c)\<^sup>*\<^sup>* s s'"
proof -
  obtain s1 d where del: "Store_DeleteSubject s c subject permanent = (s1, d)" by (metis prod.exhaust)
  obtain s2 e2 where cfg: "Store_DeleteConfig s1 c subject = (s2, e2)" by (metis prod.exhaust)
  obtain s3 e3 where md: "Store_DeleteMode s2 c subject = (s3, e3)" by (metis prod.exhaust)
  have steps: "store_step c s s1" "store_step c s1 s2" "store_step c s2 s3"
    using step_delete_subject [OF del] step_delete_config [OF cfg] step_delete_mode [OF md] by auto
  have "s' = s \<or> s' = s1 \<or> s' = s3"
    using assms del cfg md
    by (auto simp: Registry_DeleteSubject_def Let_def split: if_splits sum.splits option.splits)
  then show ?thesis using steps by (metis converse_rtranclp_into_rtranclp rtranclp.rtrancl_refl)
qed

lemma config_steps:
  "Registry_SetConfig r s c subject level norm opts = (s1, err) \<Longrightarrow> (store_step c)\<^sup>*\<^sup>* s s1"
  "Registry_DeleteConfig r s c subject = (s2, prev) \<Longrightarrow> (store_step c)\<^sup>*\<^sup>* s s2"
  "Registry_SetMode r s c subject mode force = (s3, err') \<Longrightarrow> (store_step c)\<^sup>*\<^sup>* s s3"
  "Registry_DeleteMode r s c subject = (s4, prev') \<Longrightarrow> (store_step c)\<^sup>*\<^sup>* s s4"
  by (auto simp: Registry_SetConfig_def Registry_DeleteConfig_def Registry_DeleteGlobalConfig_def
      Registry_SetMode_def Registry_DeleteMode_def Registry_DeleteGlobalMode_def Let_def
      split: if_splits sum.splits option.splits prod.splits
      intro: step_set_config step_delete_config step_set_global_config step_delete_global_config
        step_set_mode step_delete_mode step_set_global_mode step_delete_global_mode)

lemma config_request_view:
  "Registry_SetConfig r s c subject level norm opts = (s1, err) \<Longrightarrow> mem_view c' s1 = mem_view c' s"
  "Registry_DeleteConfig r s c subject = (s2, prev) \<Longrightarrow> mem_view c' s2 = mem_view c' s"
  "Registry_SetMode r s c subject mode force = (s3, err') \<Longrightarrow> mem_view c' s3 = mem_view c' s"
  "Registry_DeleteMode r s c subject = (s4, prev') \<Longrightarrow> mem_view c' s4 = mem_view c' s"
  using config_view
  by (auto simp: Registry_SetConfig_def Registry_DeleteConfig_def Registry_DeleteGlobalConfig_def
      Registry_SetMode_def Registry_DeleteMode_def Registry_DeleteGlobalMode_def Let_def
      split: if_splits sum.splits option.splits prod.splits) (metis fst_conv)+

lemma registry_step_steps: "registry_step r c s s' \<Longrightarrow> (store_step c)\<^sup>*\<^sup>* s s'"
  by (cases rule: registry_step.cases)
    (auto intro: register_steps delete_version_steps delete_subject_steps config_steps)

lemma registry_reach_store: "registry_reach r s \<Longrightarrow> store_reach s"
  by (induction rule: registry_reach.induct) (auto intro: reach_new steps_reach registry_step_steps)

lemma registry_reach_inv: "registry_reach r s \<Longrightarrow> store_inv s"
  using registry_reach_store store_reach_inv by blast

section \<open>References of live schemas resolve\<close>

text \<open>
  A reference by version number; -1 names whatever is latest and is not protected by the reverse
  look-up, which compares numbers.
\<close>

definition live_in :: "catalog \<Rightarrow> string \<Rightarrow> int \<Rightarrow> bool" where
  "live_in A subject v \<longleftrightarrow> (\<exists>q. A subject v = Some q \<and> \<not> sr_Deleted q)"

definition closed_catalog :: "catalog \<Rightarrow> bool" where
  "closed_catalog A \<longleftrightarrow>
     (\<forall>subject v q ref. A subject v = Some q \<and> \<not> sr_Deleted q \<and> ref \<in> set (sr_References q) \<and>
        rf_Version ref \<noteq> -1 \<longrightarrow> live_in A (rf_Subject ref) (rf_Version ref))"

text \<open>Every fingerprint was computed from the content and the references stored with it.\<close>

definition traced_catalog :: "'p Registry \<Rightarrow> catalog \<Rightarrow> bool" where
  "traced_catalog r A \<longleftrightarrow>
     (\<forall>subject v q. A subject v = Some q \<longrightarrow>
        nul_free (sr_References q) \<and> (\<exists>p. sr_Fingerprint q = global_fingerprint r p (sr_References q)))"

text \<open>
  What deduplication by fingerprint relies on: SHA-256 and the parsers' fingerprints do not collide
  on different references.
\<close>

definition collision_free :: "'p Registry \<Rightarrow> bool" where
  "collision_free r \<longleftrightarrow>
     (\<forall>p p' refs refs'. nul_free refs \<and> nul_free refs' \<and>
        global_fingerprint r p refs = global_fingerprint r p' refs' \<longrightarrow>
        mset (map ref_id refs) = mset (map ref_id refs'))"

lemma closed_live:
  "closed_catalog A \<Longrightarrow> A subject v = Some q \<Longrightarrow> \<not> sr_Deleted q \<Longrightarrow> ref \<in> set (sr_References q) \<Longrightarrow>
     rf_Version ref \<noteq> -1 \<Longrightarrow> live_in A (rf_Subject ref) (rf_Version ref)"
  unfolding closed_catalog_def by blast

text \<open>A new record has the references of the request, up to order, also when content is shared.\<close>

lemma create_references:
  assumes traced: "traced_catalog r A" and "collision_free r" and create: "spec_create A rec A' q"
    and nul: "nul_free (sr_References rec)"
    and fp: "sr_Fingerprint rec = global_fingerprint r p (sr_References rec)"
  shows "nul_free (sr_References q) \<and>
      mset (map ref_id (sr_References q)) = mset (map ref_id (sr_References rec)) \<and>
      (\<exists>p. sr_Fingerprint q = global_fingerprint r p (sr_References q))"
proof -
  have fpq: "sr_Fingerprint q = sr_Fingerprint rec" using create by (simp add: spec_create_def)
  show ?thesis
  proof (cases "\<exists>s v x. A s v = Some x \<and> sr_Fingerprint x = sr_Fingerprint rec")
    case True
    then obtain s v x where x: "A s v = Some x" "sr_Fingerprint x = sr_Fingerprint rec" by blast
    with traced obtain p' where p': "nul_free (sr_References x)"
      "sr_Fingerprint x = global_fingerprint r p' (sr_References x)"
      unfolding traced_catalog_def by metis
    have "same_content q x" using create x unfolding spec_create_def by blast
    then have "sr_References q = sr_References x" by (simp add: same_content_def)
    then show ?thesis using assms(2) nul fp x(2) fpq p' unfolding collision_free_def by metis
  next
    case False
    then have "same_content q (rec\<lparr>sr_ID := sr_ID q\<rparr>)" using create unfolding spec_create_def by blast
    then have "sr_References q = sr_References rec" by (simp add: same_content_def)
    with nul fp fpq show ?thesis by metis
  qed
qed

text \<open>A catalogue stays closed when live records stay, and new live records resolve.\<close>

lemma closed_create:
  assumes "closed_catalog A" "traced_catalog r A" "collision_free r"
    and create: "spec_create A rec A' q" and nul: "nul_free (sr_References rec)"
    and fp: "sr_Fingerprint rec = global_fingerprint r p (sr_References rec)"
    and resolved: "\<And>ref. ref \<in> set (sr_References rec) \<Longrightarrow> rf_Version ref \<noteq> -1 \<Longrightarrow>
          live_in A (rf_Subject ref) (rf_Version ref)"
  shows "closed_catalog A' \<and> traced_catalog r A'"
proof -
  have A': "A' = A(sr_Subject rec := (A (sr_Subject rec))(sr_Version q \<mapsto> q))"
    and fresh: "\<And>v x. A (sr_Subject rec) v = Some x \<Longrightarrow> v < sr_Version q"
    using create by (auto simp: spec_create_def)
  note q = create_references [OF assms(2,3) create nul fp]
  have keep: "live_in A s v \<Longrightarrow> live_in A' s v" for s v
    using fresh by (fastforce simp: A' live_in_def)
  have new: "live_in A (rf_Subject ref) (rf_Version ref)" if "ref \<in> set (sr_References q)" "rf_Version ref \<noteq> -1" for ref
  proof -
    have "ref_id ref \<in> set (map ref_id (sr_References rec))"
      using q that(1) by (metis image_eqI list.set_map set_mset_mset)
    then obtain ref' where "ref' \<in> set (sr_References rec)" "ref_id ref' = ref_id ref" by auto
    with resolved [of ref'] that(2) show ?thesis by (simp add: ref_id_def)
  qed
  have old: "A' subject v = Some x \<Longrightarrow> x = q \<or> A subject v = Some x" for subject v x
    by (auto simp: A' split: if_splits)
  have "closed_catalog A'"
    unfolding closed_catalog_def using old new keep closed_live [OF assms(1)] by blast
  moreover have "traced_catalog r A'"
    using assms(2) q old unfolding traced_catalog_def by metis
  ultimately show ?thesis ..
qed

text \<open>Deletion of versions that no live record names.\<close>

lemma closed_shrink:
  assumes "closed_catalog A" "traced_catalog r A"
    and live: "\<And>subject v q. A' subject v = Some q \<Longrightarrow> \<not> sr_Deleted q \<Longrightarrow> A subject v = Some q"
    and old: "\<And>subject v q. A' subject v = Some q \<Longrightarrow> \<exists>x. A subject v = Some x \<and> sr_References q = sr_References x \<and>
               sr_Fingerprint q = sr_Fingerprint x"
    and kept: "\<And>subject v q ref. A subject v = Some q \<Longrightarrow> \<not> sr_Deleted q \<Longrightarrow> ref \<in> set (sr_References q) \<Longrightarrow>
          live_in A (rf_Subject ref) (rf_Version ref) \<Longrightarrow> live_in A' (rf_Subject ref) (rf_Version ref)"
  shows "closed_catalog A' \<and> traced_catalog r A'"
proof
  show "closed_catalog A'"
    unfolding closed_catalog_def using closed_live [OF assms(1)] live kept by blast
  show "traced_catalog r A'"
    using assms(2) old unfolding traced_catalog_def by (metis (no_types))
qed

lemma resolve_resolves:
  assumes "store_inv s" "Registry_resolveReferences r s c refs = Inr resolved" "ref \<in> set refs"
    "rf_Version ref \<noteq> -1"
  shows "live_in (mem_view c s) (rf_Subject ref) (rf_Version ref)"
proof -
  obtain x where x: "x \<in> set resolved" "ref_key x = ref_key ref" "carries_content s c x"
    using resolveReferences_cases [OF assms(2)] assms(3) by (metis (no_types, lifting) image_iff subsetD)
  have "rf_Subject x = rf_Subject ref \<and> rf_Version x = rf_Version ref"
    using ref_key_inj x(2) by blast
  with x(3) obtain rec where "Store_GetSchemaBySubjectVersion s c (rf_Subject ref) (rf_Version ref) = Inr rec"
    by (auto simp: carries_content_def split: sum.splits)
  from by_version [OF assms(1) this] assms(4) show ?thesis by (auto simp: live_in_def)
qed

definition refs_inv :: "'p Registry \<Rightarrow> catalog \<Rightarrow> bool" where
  "refs_inv r A \<longleftrightarrow> closed_catalog A \<and> traced_catalog r A"

lemma register_refs:
  assumes "store_inv s" "refs_inv r (mem_view c s)" "collision_free r" "env_ok e" "nul_free refs"
    and room: "has_room (Store_getOrCreateContext s c) subject"
    and run: "Registry_RegisterSchema e r s c subject schemaStr schemaType refs opt = (s', res)"
  shows "refs_inv r (mem_view c s')"
  using run
proof (cases rule: register_cases)
  case (stored resolvedRefs parsed0 schemaStr' parsed opt')
  let ?rec = "new_record subject (default_type schemaType) schemaStr' refs opt' (global_fingerprint r parsed refs)"
  have rec: "sr_Subject ?rec = subject" "sr_References ?rec = refs" "sr_Fingerprint ?rec = global_fingerprint r parsed refs"
    by (simp_all add: new_record_def)
  obtain resolved where "Registry_resolveReferences r s c refs = Inr resolved"
    using stored(1) by (auto simp: parse_request_def split: option.splits sum.splits)
  note live = resolve_resolves [OF assms(1) this]
  have room': "has_room (Store_getOrCreateContext s c) (sr_Subject ?rec)" using room rec by simp
  from assms(4) room' stored(6) show ?thesis
  proof (cases rule: store_record_cases)
    case (created rec')
    obtain q where "spec_create (mem_view c s) ?rec (mem_view c s') q"
      using mem_create_catalog [OF assms(1) created(1)] by blast
    then show ?thesis
      using closed_create [of "mem_view c s" r ?rec "mem_view c s'" q parsed] assms(2,3,5) live rec
      by (auto simp: refs_inv_def)
  qed (use assms(2) in auto)
qed (use assms(2) in auto)

lemma spec_delete_cases:
  assumes "spec_delete A subject version permanent = (A', err)"
  obtains "A' = A"
  | x where "permanent" "A subject version = Some x" "sr_Deleted x"
      "A' = A(subject := (A subject)(version := None))"
  | x where "\<not> permanent" "A subject version = Some x"
      "A' = A(subject := (A subject)(version \<mapsto> x\<lparr>sr_Deleted := True\<rparr>))"
  using assms by (auto simp: spec_delete_def split: if_splits option.splits)

lemma delete_refs:
  assumes "refs_inv r A" "spec_delete A subject version permanent = (A', err)"
    and free: "\<And>subj v q ref. \<not> permanent \<Longrightarrow> A subj v = Some q \<Longrightarrow> \<not> sr_Deleted q \<Longrightarrow> ref \<in> set (sr_References q) \<Longrightarrow>
          rf_Subject ref \<noteq> subject \<or> rf_Version ref \<noteq> version"
  shows "refs_inv r A'"
  using assms(2)
proof (cases rule: spec_delete_cases)
  case (2 x)
  show ?thesis
    using assms(1) 2 unfolding refs_inv_def
    by (intro closed_shrink [of A]) (auto simp: live_in_def split: if_splits)
next
  case (3 x)
  show ?thesis
    unfolding refs_inv_def
  proof (rule closed_shrink [of A])
    fix subj v q ref
    assume "A subj v = Some q" "\<not> sr_Deleted q" "ref \<in> set (sr_References q)"
      and "live_in A (rf_Subject ref) (rf_Version ref)"
    then show "live_in A' (rf_Subject ref) (rf_Version ref)"
      using free [OF 3(1)] 3(3) by (fastforce simp: live_in_def)
  qed (use assms(1) 3 in \<open>auto simp: refs_inv_def split: if_splits\<close>)
qed (use assms(1) in simp)

lemma delete_version_refs:
  assumes "store_inv s" "refs_inv r (mem_view c s)"
    and run: "Registry_DeleteVersion r s c subject version permanent = (s', res)"
  shows "refs_inv r (mem_view c s')"
proof -
  have del: "refs_inv r (mem_view c s1)"
    if "Store_DeleteSchema s c subject v perm = (s1, err)"
      "\<not> perm \<Longrightarrow> Store_GetReferencedBy s c subject v = Inr []" for s1 err v perm
    using delete_refs [OF assms(2) mem_delete [OF assms(1) that(1)]] no_references [OF assms(1)] that(2)
    by blast
  show ?thesis
    using run assms(2) del [of _ True] del [of _ False]
    by (auto simp: Registry_DeleteVersion_def Let_def split: if_splits sum.splits prod.splits option.splits)
qed

lemma first_referenced_None:
  "first_referenced s c subject schemas = None \<Longrightarrow> sch \<in> set schemas \<Longrightarrow>
     Store_GetReferencedBy s c subject (sr_Version sch) = Inr []"
  by (induction schemas) (auto split: sum.splits if_splits)

lemma delete_all_refs:
  assumes refs: "refs_inv r A" and spec: "spec_delete_subject A subject permanent = (A', d)"
    and free: "\<And>subj v q ref. \<not> permanent \<Longrightarrow> A subj v = Some q \<Longrightarrow> \<not> sr_Deleted q \<Longrightarrow> ref \<in> set (sr_References q) \<Longrightarrow>
          live_in A (rf_Subject ref) (rf_Version ref) \<Longrightarrow> rf_Subject ref \<noteq> subject"
  shows "refs_inv r A'"
proof -
  have A': "A' = fst (spec_delete_subject A subject permanent)" by (simp add: spec)
  consider "A' = A" | "permanent" "\<forall>v q. A subject v = Some q \<longrightarrow> sr_Deleted q" "A' = A(subject := Map.empty)"
    | "\<not> permanent" "A' = A(subject := (\<lambda>v. map_option (\<lambda>r. r\<lparr>sr_Deleted := True\<rparr>) (A subject v)))"
    using A' by (cases permanent; cases "A subject = Map.empty";
        cases "\<forall>v q. A subject v = Some q \<longrightarrow> sr_Deleted q")
      (simp_all add: spec_delete_subject_def)
  then show ?thesis
  proof cases
    case 1
    with refs show ?thesis by simp
  next
    case 2
    show ?thesis using refs 2(2) unfolding refs_inv_def 2(3)
      by (intro closed_shrink [of A]) (auto simp: live_in_def split: if_splits)
  next
    case 3
    show ?thesis using refs free [OF 3(1)] unfolding refs_inv_def 3(2)
      by (intro closed_shrink [of A]) (auto simp: live_in_def split: if_splits)
  qed
qed

lemma delete_subject_refs:
  assumes inv: "store_inv s" and refs: "refs_inv r (mem_view c s)"
    and run: "Registry_DeleteSubject r s c subject permanent = (s', res)"
  shows "refs_inv r (mem_view c s')"
proof -
  let ?A = "mem_view c s"
  obtain s1 d where del: "Store_DeleteSubject s c subject permanent = (s1, d)" by (metis prod.exhaust)
  have same: "mem_view c s' = mem_view c s \<or> mem_view c s' = mem_view c s1"
    and checked: "mem_view c s' \<noteq> mem_view c s \<Longrightarrow> \<not> permanent \<Longrightarrow>
      Store_GetSchemasBySubject s c subject False = Inr schemas \<Longrightarrow> first_referenced s c subject schemas = None" for schemas
    using run del by (auto simp: Registry_DeleteSubject_def Let_def config_view split: if_splits sum.splits option.splits)
  show ?thesis
  proof (cases "mem_view c s' = ?A")
    case True
    with refs show ?thesis by simp
  next
    case False
    then have A': "mem_view c s' = mem_view c s1" using same by simp
    have spec: "spec_delete_subject ?A subject permanent = (mem_view c s', d)"
      using mem_delete_subject [OF inv del] A' by simp
    have free: "rf_Subject ref \<noteq> subject" if "\<not> permanent" "?A subj v = Some q" "\<not> sr_Deleted q"
      "ref \<in> set (sr_References q)" "live_in ?A (rf_Subject ref) (rf_Version ref)" for subj v q ref
    proof
      assume sub: "rf_Subject ref = subject"
      with that(5) obtain x where x: "?A subject (rf_Version ref) = Some x" "\<not> sr_Deleted x"
        by (auto simp: live_in_def)
      then obtain schemas where list: "Store_GetSchemasBySubject s c subject False = Inr schemas"
        using not_listed [OF inv] by (cases "Store_GetSchemasBySubject s c subject False") blast+
      then have "x \<in> set schemas" using listed_view(2) [OF inv list] x by auto
      then have "Store_GetReferencedBy s c subject (rf_Version ref) = Inr []"
        using first_referenced_None [OF checked [OF False that(1) list]] view_version [OF inv x(1)] by metis
      then show False using no_references [OF inv _ that(2-4)] sub by blast
    qed
    show ?thesis by (rule delete_all_refs [OF refs spec free])
  qed
qed

theorem registry_reach_refs:
  assumes "registry_reach r s" "collision_free r"
  shows "refs_inv r (mem_view c s)"
  using assms(1)
proof (induction arbitrary: c)
  case registry_new
  have "mem_view c NewStore subject = Map.empty" for subject
    by (simp add: mem_view_def NewStore_def Store_getOrCreateContext_def gm_laws)
  then show ?case by (simp add: refs_inv_def closed_catalog_def traced_catalog_def)
next
  case (registry_next s c' s')
  have inv: "store_inv s" by (rule registry_reach_inv [OF registry_next(1)])
  show ?case
  proof (cases "c = c'")
    case False
    with registry_next show ?thesis using steps_other_view [OF registry_step_steps] by metis
  next
    case True
    from registry_next(2) show ?thesis unfolding True
      by (cases rule: registry_step.cases)
        (auto intro: register_refs [OF inv registry_next.IH assms(2)]
            delete_version_refs [OF inv registry_next.IH] delete_subject_refs [OF inv registry_next.IH]
            simp: config_request_view registry_next.IH)
  qed
qed

end
