(* ===== verification/Registry_Import.thy ===== *)
theory Registry_Import
  imports Registry_Catalog
begin

text \<open>
  Import with given IDs: what a batch does to the ID sequence and to the result it returns.
\<close>

abbreviation next_id :: "string \<Rightarrow> Store \<Rightarrow> int" where
  "next_id c s \<equiv> cs_nextID (Store_getOrCreateContext s c)"

abbreviation used_ids :: "string \<Rightarrow> Store \<Rightarrow> int set" where
  "used_ids c s \<equiv> dom (gm_get (cs_schemas (Store_getOrCreateContext s c)))"

lemma ids_below_used: "ids_below (Store_getOrCreateContext s c) \<longleftrightarrow> (\<forall>i\<in>used_ids c s. i < next_id c s)"
  by (auto simp: ids_below_def)

lemma import_schema_ids:
  assumes "Store_ImportSchema now now' s c rec = (s', rec', err)"
  shows "next_id c s' = next_id c s"
    and "used_ids c s' \<subseteq> used_ids c s \<union> (if err = None then {sr_ID rec} else {})"
  using assms
  by (auto simp: Store_ImportSchema_def ctx_ImportSchema_def Let_def gm_laws
      split: prod.splits if_splits option.splits)

lemma import_one_ids:
  assumes "import_one now now' r c req s = (s', err)"
  shows "next_id c s' = next_id c s"
    and "used_ids c s' \<subseteq> used_ids c s \<union> (if err = NoError then {iq_ID req} else {})"
  using assms import_schema_ids [of now now' s c]
  by (auto simp: import_one_def missing_field_def import_record_def Let_def
      split: if_splits option.splits sum.splits prod.splits) fastforce+

definition result_ok :: "ImportResult \<Rightarrow> bool" where
  "result_ok result \<longleftrightarrow>
     im_Imported result = int (length (filter ir_Success (im_Results result))) \<and>
     im_Errors result = int (length (filter (\<lambda>x. \<not> ir_Success x) (im_Results result)))"

lemma import_loop_effect:
  assumes "import_loop e r c i reqs s maxID result = (s', maxID', result')"
  shows "next_id c s' = next_id c s \<and> maxID \<le> maxID' \<and> maxID' \<in> insert maxID (iq_ID ` set reqs) \<and>
     (\<forall>j\<in>used_ids c s'. j \<in> used_ids c s \<or> j \<le> maxID') \<and> (result_ok result \<longrightarrow> result_ok result') \<and>
     (\<exists>errs. length errs = length reqs \<and>
        im_Results result' = im_Results result @ map2 import_result reqs errs \<and>
        (\<forall>res\<in>set (map2 import_result reqs errs). ir_Success res \<longrightarrow> ir_ID res \<le> maxID'))"
  using assms
proof (induction reqs arbitrary: i s maxID result)
  case Nil
  then show ?case by simp
next
  case (Cons req reqs)
  obtain s1 err where one: "import_one (ge_now e (2 * i)) (ge_now e (2 * i + 1)) r c req s = (s1, err)"
    by (metis prod.exhaust)
  define maxID1 where "maxID1 = (if err = NoError \<and> iq_ID req > maxID then iq_ID req else maxID)"
  define result1 where "result1 = result\<lparr>im_Imported := im_Imported result + (if err = NoError then 1 else 0),
      im_Errors := im_Errors result + (if err = NoError then 0 else 1),
      im_Results := im_Results result @ [import_result req err]\<rparr>"
  have loop: "import_loop e r c (i + 1) reqs s1 maxID1 result1 = (s', maxID', result')"
    using Cons.prems one by (simp add: maxID1_def result1_def Let_def)
  have ok: "result_ok result \<longrightarrow> result_ok result1"
    by (simp add: result_ok_def result1_def import_result_def)
  note IH = Cons.IH [OF loop]
  from IH obtain errs where errs: "length errs = length reqs"
    "im_Results result' = im_Results result1 @ map2 import_result reqs errs"
    "\<forall>res\<in>set (map2 import_result reqs errs). ir_Success res \<longrightarrow> ir_ID res \<le> maxID'" by blast
  have max: "maxID1 \<le> maxID'" "maxID \<le> maxID1" "err = NoError \<Longrightarrow> iq_ID req \<le> maxID1"
    using IH by (auto simp: maxID1_def)
  have "\<exists>errs. length errs = length (req # reqs) \<and>
      im_Results result' = im_Results result @ map2 import_result (req # reqs) errs \<and>
      (\<forall>res\<in>set (map2 import_result (req # reqs) errs). ir_Success res \<longrightarrow> ir_ID res \<le> maxID')"
    using errs max by (intro exI [of _ "err # errs"]) (auto simp: result1_def import_result_def)
  moreover have "\<forall>j\<in>used_ids c s'. j \<in> used_ids c s \<or> j \<le> maxID'"
  proof
    fix j assume "j \<in> used_ids c s'"
    then consider "j \<in> used_ids c s1" | "j \<le> maxID'" using IH by blast
    then show "j \<in> used_ids c s \<or> j \<le> maxID'"
    proof cases
      case 1
      then have "j \<in> used_ids c s \<or> err = NoError \<and> j = iq_ID req"
        using import_one_ids(2) [OF one] by (auto split: if_splits)
      with max show ?thesis by auto
    qed simp
  qed
  moreover have "maxID' \<in> insert maxID (iq_ID ` set (req # reqs))"
    using IH by (auto simp: maxID1_def split: if_splits)
  ultimately show ?case
    using IH ok max import_one_ids(1) [OF one] by auto
qed

lemma advance_ids_effect:
  assumes "1 \<le> next_id c s" "next_id c s \<le> max_int64" "0 < maxID" "maxID < max_int64"
    and "advance_ids s c maxID = (s', err)"
  shows "err = None" "next_id c s' = max (next_id c s) (maxID + 1)" "used_ids c s' = used_ids c s"
proof -
  have "i64 (maxID + 1) = maxID + 1" using assms by (intro i64_succ) (auto simp: in_i64_def max_int64_def)
  moreover have "i64 (next_id c s - 1) = next_id c s - 1"
    using assms by (intro i64_id) (auto simp: in_i64_def max_int64_def)
  moreover have "i64 (next_id c s) = next_id c s"
    using assms by (intro i64_id) (auto simp: in_i64_def max_int64_def)
  ultimately show "err = None" "next_id c s' = max (next_id c s) (maxID + 1)" "used_ids c s' = used_ids c s"
    using assms(1,3,5)
    by (auto simp: advance_ids_def Store_SetNextID_def Store_GetMaxSchemaID_def Let_def max_def
        Store_getOrCreateContext_def Store_getContext_def Store_putContext_def gm_laws newContextStore_def
        split: option.splits if_splits)
qed

lemma import_batch:
  assumes below: "ids_below (Store_getOrCreateContext s c)"
    and nxt: "1 \<le> next_id c s" "next_id c s \<le> max_int64"
    and ids: "\<forall>req\<in>set reqs. iq_ID req < max_int64"
    and run: "Registry_ImportSchemas e r s c reqs = (s', result, err)"
  shows "err = None \<and> ids_below (Store_getOrCreateContext s' c) \<and> next_id c s \<le> next_id c s' \<and> result_ok result \<and>
     (\<exists>errs. length errs = length reqs \<and> im_Results result = map2 import_result reqs errs) \<and>
     (\<forall>res\<in>set (im_Results result). ir_Success res \<longrightarrow> ir_ID res < next_id c s')"
proof -
  obtain s1 maxID where loop:
    "import_loop e r c 0 reqs s 0 \<lparr>im_Imported = 0, im_Errors = 0, im_Results = []\<rparr> = (s1, maxID, result)"
    and rest: "if maxID > 0 then advance_ids s1 c maxID = (s', err) else s' = s1 \<and> err = None"
    using run by (auto simp: Registry_ImportSchemas_def Let_def split: prod.splits if_splits)
  note eff = import_loop_effect [OF loop, simplified]
  have same: "next_id c s1 = next_id c s" using eff by simp
  have new: "\<forall>j\<in>used_ids c s1. j \<in> used_ids c s \<or> j \<le> maxID" using eff by blast
  have res: "\<forall>x\<in>set (im_Results result). ir_Success x \<longrightarrow> ir_ID x \<le> maxID" using eff by auto
  have adv: "err = None \<and> next_id c s' = max (next_id c s) (maxID + 1) \<and> used_ids c s' = used_ids c s1"
  proof (cases "maxID > 0")
    case True
    have "maxID < max_int64" using eff ids True by auto
    with advance_ids_effect [of s1 c maxID s' err] rest True nxt same show ?thesis by simp
  next
    case False
    with eff have "maxID = 0" by simp
    with rest nxt same show ?thesis by simp
  qed
  have fresh: "i < next_id c s'" if "i \<in> used_ids c s'" for i
  proof -
    have "i \<in> used_ids c s1" using adv that by simp
    then have "i \<in> used_ids c s \<or> i \<le> maxID" using new by blast
    then have "i < next_id c s \<or> i \<le> maxID" using below unfolding ids_below_used by blast
    then show ?thesis using adv by auto
  qed
  have le: "maxID < next_id c s'" using adv by simp
  have "\<forall>x\<in>set (im_Results result). ir_Success x \<longrightarrow> ir_ID x < next_id c s'"
    using res le by fastforce
  moreover have "result_ok result" using eff by (simp add: result_ok_def)
  moreover have "\<exists>errs. length errs = length reqs \<and> im_Results result = map2 import_result reqs errs"
    using eff by auto
  ultimately show ?thesis
    using adv fresh unfolding ids_below_used by simp
qed

end
