(* ===== verification/Memory_Properties.thy ===== *)
theory Memory_Properties
  imports Memory_Catalog
begin

text \<open>
  The properties of the schema operations of the in-memory backend, over the stores that a history
  of client writes reaches (\<open>store_reach\<close>).
\<close>

section \<open>Records for the witnesses\<close>

definition sample_record :: "string \<Rightarrow> string \<Rightarrow> SchemaRecord" where
  "sample_record subject fingerprint =
     \<lparr>sr_ID = 0, sr_Subject = subject, sr_Version = 0, sr_SchemaType = SchemaTypeAvro,
      sr_Schema = ''long'', sr_References = [], sr_Metadata = None, sr_RuleSet = None,
      sr_Fingerprint = fingerprint, sr_Deleted = False, sr_CreatedAt = 0\<rparr>"

definition sample_create :: "Store \<Rightarrow> Store \<times> SchemaRecord \<times> storage_error option" where
  "sample_create s = Store_CreateSchema (\<lambda>xs. xs) 5 6 s ''.'' (sample_record ''orders'' ''f1'')"

definition sample_store :: Store where
  "sample_store = fst (sample_create NewStore)"

lemmas sample_eval = sample_store_def sample_create_def sample_record_def store_defs Let_def
  NewStore_def Store_getOrCreateContext_def Store_getContext_def Store_putContext_def
  DefaultContext_def newContextStore_def ctx_CreateSchema_def ensure_subject_def
  subject_versions_def gm_get0_def assign_schema_id_def add_version_def new_version_info_def
  stored_content_def is_duplicate_def gm_eval

lemma sample_room: "has_room (Store_getOrCreateContext NewStore ''.'') ''orders''"
  by (simp add: has_room_def max_int64_def sample_eval)

lemma sample_create_eval:
  "Store_CreateSchema (\<lambda>xs. xs) 5 6 NewStore ''.'' (sample_record ''orders'' ''f1'') =
     (sample_store, (sample_record ''orders'' ''f1'')\<lparr>sr_ID := 1, sr_Version := 1, sr_CreatedAt := 6\<rparr>,
      None)"
  by (simp add: sample_store_def sample_create_def prod_eq_iff)
    (simp add: sample_eval i64_def)

lemma sample_reach: "store_reach sample_store"
  by (rule reach_step [OF reach_new step_create [OF range_order_id _ sample_create_eval]])
    (simp add: sample_record_def sample_room)

definition sample_soft :: Store where
  "sample_soft = fst (Store_DeleteSchema sample_store ''.'' ''orders'' 1 False)"

lemma sample_soft_reach: "store_reach sample_soft"
  unfolding sample_soft_def
  by (rule reach_step [OF sample_reach step_delete]) (rule prod.collapse [symmetric])

definition sample_shared :: Store where
  "sample_shared =
     fst (Store_CreateSchema (\<lambda>xs. xs) 5 6 sample_store ''.'' (sample_record ''payments'' ''f1''))"

lemma sample_shared_reach: "store_reach sample_shared"
  unfolding sample_shared_def
proof (rule reach_step [OF sample_reach step_create [OF range_order_id]])
  show "has_room (Store_getOrCreateContext sample_store ''.'') (sr_Subject (sample_record ''payments'' ''f1''))"
    by (simp add: has_room_def max_int64_def sample_eval i64_def)
qed (simp add: prod_eq_iff)

section \<open>Invariant and refinement\<close>





text \<open>
  A registered schema can be read back at once under the version returned, and as the latest
  version, with the ID returned and the fingerprint, metadata and rules given.
\<close>

lemma create_then_read:
  assumes "store_reach s" "range_order it"
    and "has_room (Store_getOrCreateContext s c) (sr_Subject record)"
    and "Store_CreateSchema it now now' s c record = (s', record', None)"
  shows "\<exists>r. Store_GetSchemaBySubjectVersion s' c (sr_Subject record) (sr_Version record') = Inr r \<and>
     Store_GetLatestSchema s' c (sr_Subject record) = Inr r \<and>
     sr_ID r = sr_ID record' \<and> sr_Version r = sr_Version record' \<and>
     sr_Subject r = sr_Subject record \<and> sr_Fingerprint r = sr_Fingerprint record \<and>
     sr_Metadata r = sr_Metadata record \<and> sr_RuleSet r = sr_RuleSet record \<and> \<not> sr_Deleted r"
  using mem.create_then_latest [OF store_reach_inv [OF assms(1)], of c "record" s' record'] assms(2-4)
  by (auto simp: mem_create_def)

lemma create_then_read_witness:
  "\<exists>r. Store_GetLatestSchema sample_store ''.'' ''orders'' = Inr r \<and> sr_ID r = 1 \<and> sr_Fingerprint r = ''f1''"
  using create_then_read [OF reach_new range_order_id _ sample_create_eval]
  by (simp add: sample_room sample_record_def) blast

text \<open>
  Registering the same record a second time answers \<open>ErrSchemaExists\<close> with the ID and
  version of the first registration and leaves the context as it is, in whatever order the scan
  for duplicates visits the versions.
\<close>

lemma create_idempotent:
  assumes "store_reach s" "range_order it" "range_order it'"
    and "has_room (Store_getOrCreateContext s c) (sr_Subject record)"
    and "Store_CreateSchema it now now' s c record = (s', record', None)"
    and "Store_CreateSchema it' t t' s' c record = (s'', record'', err)"
  shows "err = Some ErrSchemaExists \<and> sr_ID record'' = sr_ID record' \<and>
     sr_Version record'' = sr_Version record' \<and> Store_getContext s'' c' = Store_getContext s' c'"
proof -
  from assms(5) obtain cs' where run:
    "ctx_CreateSchema it now now' (Store_getOrCreateContext s c) record = (cs', record', None)"
    "s' = Store_putContext s c cs'"
    by (auto simp: Store_CreateSchema_run)
  from create_again [OF assms(2) store_inv_getOrCreate [OF store_reach_inv [OF assms(1)]] assms(4) run(1) assms(3)]
  show ?thesis using assms(6) run(2) by (auto simp: Store_CreateSchema_run)
qed

lemma create_idempotent_witness:
  "snd (snd (sample_create sample_store)) = Some ErrSchemaExists"
  using create_idempotent [OF reach_new range_order_id range_order_id _ sample_create_eval,
      of 5 6 "fst (sample_create sample_store)" "fst (snd (sample_create sample_store))"
        "snd (snd (sample_create sample_store))"]
  by (simp add: sample_room sample_record_def [of "''orders''"]) (simp add: sample_create_def sample_record_def)

text \<open>
  C25.  Deletion refines the catalogue on every branch: unknown subject, unknown version, permanent
  deletion of a version that is not soft-deleted, soft deletion, and permanent deletion, which
  takes away one record and no other although it also collects unused content.
\<close>

theorem delete_refines_catalog:
  assumes "store_reach s" "Store_DeleteSchema s c subject version permanent = (s', err)"
  shows "spec_delete (mem_view c s) subject version permanent = (mem_view c s', err)"
  using mem.delete_view [OF store_reach_inv [OF assms(1)], of c subject version permanent] assms(2)
  by simp

theorem delete_refines_catalog_witness:
  "\<exists>s'. Store_DeleteSchema sample_store ''.'' ''orders'' 1 True = (s', Some ErrVersionNotSoftDeleted) \<and>
     spec_delete (mem_view ''.'' sample_store) ''orders'' 1 True =
       (mem_view ''.'' s', Some ErrVersionNotSoftDeleted)"
proof -
  obtain s' where "Store_DeleteSchema sample_store ''.'' ''orders'' 1 True = (s', Some ErrVersionNotSoftDeleted)"
    by (simp add: sample_eval ctx_DeleteSchema_def i64_def)
  with delete_refines_catalog [OF sample_reach] show ?thesis by blast
qed

text \<open>
  C26.  Deleting a subject refines the catalogue, with its precondition errors, and returns exactly
  the versions it deleted in ascending order.
\<close>

theorem delete_subject_refines_catalog:
  assumes "store_reach s" "Store_DeleteSubject s c subject permanent = (s', res)"
  shows "spec_delete_subject (mem_view c s) subject permanent = (mem_view c s', res)"
  using mem.delete_subject_view [OF store_reach_inv [OF assms(1)], of c subject permanent] assms(2)
  by simp

theorem delete_subject_refines_catalog_witness:
  "\<exists>s'. Store_DeleteSubject sample_store ''.'' ''orders'' False = (s', Inr [1]) \<and>
     spec_delete_subject (mem_view ''.'' sample_store) ''orders'' False = (mem_view ''.'' s', Inr [1])"
proof -
  obtain s' where "Store_DeleteSubject sample_store ''.'' ''orders'' False = (s', Inr [1])"
    by (simp add: sample_eval ctx_DeleteSubject_def i64_def)
  with delete_subject_refines_catalog [OF sample_reach] show ?thesis by blast
qed

text \<open>
  C27.  After a permanent deletion the content of an ID can still be read exactly when some other
  version, of any subject of the context and soft-deleted or not, uses that ID.
\<close>

theorem content_collected_exactly:
  assumes "store_reach s" "Store_DeleteSchema s c subject version True = (s', None)"
  shows "(\<exists>r. Store_GetSchemaByID s' c i = Inr r) \<longleftrightarrow>
     (\<exists>subj v r. (subj, v) \<noteq> (subject, version) \<and> mem_view c s subj v = Some r \<and> sr_ID r = i)"
proof -
  have "mem_content c s' i \<noteq> None \<longleftrightarrow>
     (\<exists>subj v r. (subj, v) \<noteq> (subject, version) \<and> mem_view c s subj v = Some r \<and> sr_ID r = i)"
    using mem.content_collected [OF store_reach_inv [OF assms(1)], of c subject version i] assms(2)
    by simp
  then show ?thesis by (auto simp: mem_content_def split: sum.splits)
qed

theorem content_collected_exactly_witness:
  "\<not> (\<exists>r. Store_GetSchemaByID (fst (Store_DeleteSchema sample_soft ''.'' ''orders'' 1 True)) ''.'' 1 = Inr r)"
proof -
  have run: "Store_DeleteSchema sample_soft ''.'' ''orders'' 1 True =
      (fst (Store_DeleteSchema sample_soft ''.'' ''orders'' 1 True), None)"
    by (simp add: prod_eq_iff sample_soft_def sample_eval ctx_DeleteSchema_def i64_def)
  have "mem_view ''.'' sample_soft subj v = Some r \<longrightarrow> (subj, v) = (''orders'', 1)" for subj v r
    by (simp add: mem_view_def catalog_of_def versions_of_def sample_soft_def sample_eval
        ctx_DeleteSchema_def i64_def)
  with content_collected_exactly [OF sample_soft_reach run, of 1] show ?thesis by blast
qed

text \<open>
  In one context two versions carry the same schema ID exactly when their content has the
  same fingerprint.
\<close>

lemma one_id_per_content:
  assumes "store_reach s" "mem_view c s subj v = Some r" "mem_view c s subj' v' = Some r'"
  shows "sr_ID r = sr_ID r' \<longleftrightarrow> sr_Fingerprint r = sr_Fingerprint r'"
proof -
  let ?cs = "Store_getOrCreateContext s c"
  have inv: "native_inv ?cs" using assms(1) store_reach_inv store_inv_getOrCreate by blast
  note parts = native_invD [OF inv]
  from assms(2,3) obtain info info' where i: "versions_of ?cs subj v = Some info"
    "versions_of ?cs subj' v' = Some info'"
    "r = fill_record (the (gm_get (cs_schemas ?cs) (si_schemaID info))) subj v info"
    "r' = fill_record (the (gm_get (cs_schemas ?cs) (si_schemaID info'))) subj' v' info'"
    by (auto simp: mem_view_def catalog_Some)
  with version_content [OF parts(4) i(1)] version_content [OF parts(4) i(2)] parts(3)
  show ?thesis by (auto simp: dedup_inv_def) (metis option.inject)+
qed

lemma one_id_per_content_witness:
  "\<exists>r r'. mem_view ''.'' sample_shared ''orders'' 1 = Some r \<and>
     mem_view ''.'' sample_shared ''payments'' 1 = Some r' \<and> sr_ID r = sr_ID r'"
proof -
  have "\<exists>r r'. mem_view ''.'' sample_shared ''orders'' 1 = Some r \<and>
     mem_view ''.'' sample_shared ''payments'' 1 = Some r' \<and> sr_Fingerprint r = sr_Fingerprint r'"
    by (simp add: mem_view_def catalog_of_def versions_of_def fill_record_def sample_shared_def
        sample_eval i64_def)
  with one_id_per_content [OF sample_shared_reach] show ?thesis by blast
qed



text \<open>
  \<open>GetLatestSchema\<close> and \<open>GetSchemaBySubjectVersion\<close> with version -1 are one operation,
  on every store and on every branch, errors included.
\<close>

lemma latest_is_version_minus_one:
  "Store_GetLatestSchema s c subject = Store_GetSchemaBySubjectVersion s c subject (-1)"
  by (simp add: Store_GetLatestSchema_def Store_GetSchemaBySubjectVersion_def latest_lookup
      split: option.splits)

section \<open>Listings\<close>

text \<open>
  The versions listed for a subject come in strictly ascending order and are exactly the
  records of the catalogue, without the soft-deleted ones unless they are asked for.
\<close>

lemma versions_listed:
  assumes "store_reach s" "Store_GetSchemasBySubject s c subject includeDeleted = Inr rs"
  shows "sorted_wrt (<) (map sr_Version rs) \<and>
     set rs = {r. \<exists>v. mem_view c s subject v = Some r \<and> (includeDeleted \<or> \<not> sr_Deleted r)}"
  using listed_view [OF store_reach_inv [OF assms(1)] assms(2)] by blast

lemma versions_listed_witness:
  "\<exists>rs. Store_GetSchemasBySubject sample_store ''.'' ''orders'' False = Inr rs \<and>
     set rs = {r. \<exists>v. mem_view ''.'' sample_store ''orders'' v = Some r \<and> \<not> sr_Deleted r}"
proof -
  have "\<exists>rs. Store_GetSchemasBySubject sample_store ''.'' ''orders'' False = Inr rs"
    by (simp add: sample_eval ctx_GetSchemasBySubject_def collect_records_def map_filter_simps i64_def)
  with versions_listed [OF sample_reach] show ?thesis by fastforce
qed

text \<open>
  The look-up of the versions that use a schema ID returns each of them once and misses none
  (of the live ones, or of all when deleted versions are asked for).
\<close>

lemma versions_by_id_complete:
  assumes "store_reach s" "Store_GetVersionsBySchemaID s c i includeDeleted = Inr svs"
  shows "distinct svs \<and>
     (\<forall>sv. sv \<in> set svs \<longleftrightarrow>
        (\<exists>r. mem_view c s (sv_Subject sv) (sv_Version sv) = Some r \<and> sr_ID r = i \<and>
             (includeDeleted \<or> \<not> sr_Deleted r)))"
proof -
  from assms(2) obtain cs where cs: "Store_getContext s c = Some cs"
    "svs = visible_users cs i includeDeleted"
    by (auto simp: Store_GetVersionsBySchemaID_def split: option.splits if_splits)
  have inv: "ctx_inv cs"
    using cs(1) assms(1) store_reach_inv store_inv_get native_ctx by blast
  then have index: "index_inv {} (versions_of cs) cs" by (simp add: ctx_inv_def)
  have view: "mem_view c s = catalog_of cs" using cs(1) getOrCreate_get by (simp add: mem_view_def)
  have visible: "(case gm_get (cs_subjectVersions cs) subj of None \<Rightarrow> False
      | Some versions \<Rightarrow> (case gm_get versions v of None \<Rightarrow> False
          | Some info \<Rightarrow> includeDeleted \<or> \<not> si_deleted info)) \<longleftrightarrow>
      (\<exists>info. versions_of cs subj v = Some info \<and> (includeDeleted \<or> \<not> si_deleted info))" for subj v
    by (auto simp: versions_of_def subject_versions_def gm_get0_def split: option.splits)
  have svs: "svs = filter (\<lambda>sv. \<exists>info. versions_of cs (sv_Subject sv) (sv_Version sv) = Some info \<and>
      (includeDeleted \<or> \<not> si_deleted info)) (users_of cs i)"
    unfolding cs(2) visible_users_def visible by (simp add: users_of_def)
  show ?thesis
    unfolding svs view
    using index_users [OF index] index_distinct [OF index] catalog_ID [OF inv]
    by (auto simp: catalog_Some)
qed

lemma versions_by_id_complete_witness:
  "\<exists>svs. Store_GetVersionsBySchemaID sample_shared ''.'' 1 False = Inr svs \<and> distinct svs \<and>
     \<lparr>sv_Subject = ''payments'', sv_Version = 1\<rparr> \<in> set svs"
proof -
  have "\<exists>svs. Store_GetVersionsBySchemaID sample_shared ''.'' 1 False = Inr svs \<and>
      \<lparr>sv_Subject = ''payments'', sv_Version = 1\<rparr> \<in> set svs"
    by (simp add: sample_shared_def sample_eval visible_users_def i64_def)
  with versions_by_id_complete [OF sample_shared_reach] show ?thesis by blast
qed

lemma page_nat:
  assumes "0 < limit"
  shows "page (int offset) (int limit) xs = take limit (drop offset xs)"
  using assms by (auto simp: page_def Let_def)

text \<open>
  Paging loses and repeats nothing: the first \<open>n\<close> pages of \<open>limit\<close> records are the first
  \<open>n * limit\<close> records of the list.
\<close>

lemma pages_partition:
  assumes "0 < limit"
  shows "concat (map (\<lambda>k. page (int (k * limit)) (int limit) xs) [0..<n]) = take (n * limit) xs"
proof (induction n)
  case (Suc n)
  have "take (Suc n * limit) xs = take (n * limit) xs @ take limit (drop (n * limit) xs)"
    by (metis add.commute mult_Suc take_add)
  with Suc show ?case using page_nat [OF assms, of "n * limit" xs] by simp
qed simp

lemma pages_partition_witness:
  "page 0 2 [10, 20, 30 :: int] @ page 2 2 [10, 20, 30] = [10, 20, 30]"
  using pages_partition [of 2 "[10, 20, 30 :: int]" 2] by (simp add: page_def upt_rec)

end
