(* ===== verification/Registry_Properties.thy ===== *)
theory Registry_Properties
  imports Registry_Histories Registry_Import Memory_Properties
begin

text \<open>The properties of the registry service, with a small registry for their witnesses.\<close>

section \<open>A registry for the witnesses\<close>

definition sample_env :: go_env where
  "sample_env = \<lparr>ge_versions = (\<lambda>_ xs. xs), ge_strings = (\<lambda>_ xs. xs), ge_now = (\<lambda>n. 7)\<rparr>"

definition sample_parsed :: "string ParsedSchema" where
  "sample_parsed =
     \<lparr>ps_CanonicalString = (\<lambda>p. p), ps_Fingerprint = (\<lambda>p. CHR ''#'' # filter (\<lambda>c. c \<noteq> NUL) p),
      ps_FormattedString = (\<lambda>p f. p), ps_Normalize = (\<lambda>p. p), ps_HasTopLevelField = (\<lambda>p f. False)\<rparr>"

definition sample_registry :: "string Registry" where
  "sample_registry =
     \<lparr>rg_schemaParser = gm_put SchemaTypeAvro (\<lambda>str refs. if str = [] then Inl ''empty'' else Inr str) gm_empty,
      rg_parsed = sample_parsed, rg_sha256 = (\<lambda>x. x), rg_compatChecker = NewChecker,
      rg_defaultConfig = ''NONE'', rg_kmsRegistry = None\<rparr>"

definition no_opts :: RegisterOpts where
  "no_opts = \<lparr>ro_Normalize = False, ro_Metadata = None, ro_RuleSet = None\<rparr>"

definition money_ref :: Reference where
  "money_ref = \<lparr>rf_Name = ''m'', rf_Subject = ''money'', rf_Version = 1, rf_Schema = []\<rparr>"

definition sample_run1 :: "Store \<times> SchemaRecord reg_result" where
  "sample_run1 = Registry_RegisterSchema sample_env sample_registry NewStore ''.'' ''money'' ''long'' [] [] no_opts"

definition sample_run2 :: "Store \<times> SchemaRecord reg_result" where
  "sample_run2 = Registry_RegisterSchema sample_env sample_registry (fst sample_run1) ''.'' ''orders'' ''order''
                   [] [money_ref] no_opts"

lemma sample_env_ok: "env_ok sample_env"
  by (simp add: env_ok_def sample_env_def)

lemma sample_room1: "has_room (Store_getOrCreateContext NewStore ''.'') ''money''"
  by code_simp

lemma sample_room2: "has_room (Store_getOrCreateContext (fst sample_run1) ''.'') ''orders''"
  by code_simp

lemma sample_result1: "\<exists>rec. snd sample_run1 = Inr rec \<and> sr_Version rec = 1"
proof -
  have "(case snd sample_run1 of Inl _ \<Rightarrow> 0 | Inr rec \<Rightarrow> sr_Version rec) = 1" by code_simp
  then show ?thesis by (auto split: sum.splits)
qed

lemma sample_result2: "\<exists>rec. snd sample_run2 = Inr rec \<and> sr_Version rec = 1"
proof -
  have "(case snd sample_run2 of Inl _ \<Rightarrow> 0 | Inr rec \<Rightarrow> sr_Version rec) = 1" by code_simp
  then show ?thesis by (auto split: sum.splits)
qed

lemma sample_history: "registry_reach sample_registry (fst sample_run2)"
proof -
  have run1: "Registry_RegisterSchema sample_env sample_registry NewStore ''.'' ''money'' ''long'' [] [] no_opts =
      (fst sample_run1, snd sample_run1)" by (simp add: sample_run1_def)
  have run2: "Registry_RegisterSchema sample_env sample_registry (fst sample_run1) ''.'' ''orders'' ''order'' []
      [money_ref] no_opts = (fst sample_run2, snd sample_run2)" by (simp add: sample_run2_def)
  have "nul_free ([] :: Reference list)" "nul_free [money_ref]" by code_simp+
  then show ?thesis
    using registry_next [OF registry_next [OF registry_new reg_register [OF sample_env_ok _ sample_room1 run1]]
        reg_register [OF sample_env_ok _ sample_room2 run2]] by simp
qed

lemma sample_collision_free: "collision_free sample_registry"
proof -
  have nul: "NUL \<notin> set (ps_Fingerprint sample_parsed p)" for p
  proof -
    have "of_char NUL \<noteq> (of_char (CHR ''#'') :: nat)" by simp
    then have "NUL \<noteq> CHR ''#''" by metis
    then show ?thesis by (simp add: sample_parsed_def)
  qed
  have hash: "EncodeToString x \<noteq> CHR ''#'' # y" for x y
  proof (cases x)
    case (Cons b bs)
    have "of_char (hex_digit n) \<noteq> (of_char (CHR ''#'') :: nat)" if "n < 16" for n
      using that by (simp add: hex_digit_def)
    then have "n < 16 \<Longrightarrow> hex_digit n \<noteq> CHR ''#''" for n by metis
    moreover have "(of_char b :: nat) div 16 < 16"
      using nat_of_char_less_256 [of b] by (simp add: less_mult_imp_div_less)
    ultimately show ?thesis by (simp add: Cons EncodeToString_def Let_def)
  qed (simp add: EncodeToString_def)
  have fp: "ps_Fingerprint sample_parsed p = CHR ''#'' # filter (\<lambda>c. c \<noteq> NUL) p" for p
    by (simp add: sample_parsed_def)
  have gf: "global_fingerprint sample_registry p refs =
      (if refs = [] then ps_Fingerprint sample_parsed p
       else EncodeToString (fingerprint_text (ps_Fingerprint sample_parsed p) refs))" for p refs
    by (simp add: global_fingerprint_def computeGlobalFingerprint_def sample_registry_def)
  show ?thesis
    unfolding collision_free_def gf
    using fingerprint_text_inj [OF nul nul] hash hash [symmetric]
    by (auto simp: EncodeToString_inj fp split: if_splits)
qed

section \<open>Registration\<close>

text \<open>
  C21.  What a registration returns is really registered: the version it names exists afterwards,
  is live, and carries the ID and fingerprint returned, the fingerprint being the one of the request;
  and every version registered before is still there, unchanged.
\<close>

theorem register_returns_registered:
  assumes "store_reach s" "env_ok e" "has_room (Store_getOrCreateContext s c) subject"
    and "Registry_RegisterSchema e r s c subject schemaStr schemaType refs opt = (s', Inr rec)"
  shows "\<exists>q. Store_GetSchemaBySubjectVersion s' c subject (sr_Version rec) = Inr q \<and>
     sr_ID q = sr_ID rec \<and> sr_Fingerprint q = sr_Fingerprint rec \<and>
     (\<exists>p. sr_Fingerprint q = global_fingerprint r p refs) \<and>
     (\<forall>subj v x. mem_view c s subj v = Some x \<longrightarrow> mem_view c s' subj v = Some x)"
proof -
  have inv: "store_inv s" by (rule store_reach_inv [OF assms(1)])
  have inv': "store_inv s'" using steps_inv [OF register_steps [OF assms(2-4)] inv] .
  have read: "Store_GetSchemaBySubjectVersion s' c subject v = Inr q"
    if "mem_view c s' subject v = Some q" "\<not> sr_Deleted q" for v q
    using mem_get [OF inv', of v c subject] view_version [OF inv' that(1)] that by (auto simp: spec_get_def)
  from assms(4) show ?thesis
  proof (cases rule: register_cases)
    case (found resolvedRefs parsed0 schemaStr' parsed existing)
    note ex = found_duplicate_view [OF assms(2) found(4)]
    have "Store_GetSchemaBySubjectVersion s' c subject (sr_Version existing) = Inr existing"
      using read [of "sr_Version existing" existing] ex found(1) by simp
    with ex found show ?thesis by (intro exI [of _ existing]) auto
  next
    case (stored resolvedRefs parsed0 schemaStr' parsed opt')
    let ?rec = "new_record subject (default_type schemaType) schemaStr' refs opt' (global_fingerprint r parsed refs)"
    have rec: "sr_Subject ?rec = subject" "sr_Fingerprint ?rec = global_fingerprint r parsed refs"
      by (simp_all add: new_record_def)
    have "has_room (Store_getOrCreateContext s c) (sr_Subject ?rec)" using assms(3) rec by simp
    with assms(2) show ?thesis using stored(6)
    proof (cases rule: store_record_cases)
      case (created rec')
      then obtain q where "Store_GetSchemaBySubjectVersion s' c subject (sr_Version rec') = Inr q"
        "sr_ID q = sr_ID rec'" "sr_Fingerprint q = global_fingerprint r parsed refs"
        using mem.create_then_latest [OF inv created(1)] rec by auto
      moreover have "sr_Fingerprint rec' = sr_Fingerprint ?rec"
        using created(1) by (auto simp: mem_create_def Store_CreateSchema_run ctx_CreateSchema_def Let_def
            split: option.splits prod.splits)
      ultimately show ?thesis
        using created mem.create_keeps [OF inv created(1)] rec by (intro exI [of _ q]) auto
    next
      case (exists existing)
      then have "Store_GetSchemaBySubjectVersion s' c subject (sr_Version existing) = Inr existing"
        using rec by (intro read) simp_all
      with exists rec show ?thesis by (intro exI [of _ existing]) auto
    qed simp
  qed simp
qed

theorem register_returns_registered_witness:
  "\<exists>q. Store_GetSchemaBySubjectVersion (fst sample_run1) ''.'' ''money'' 1 = Inr q \<and> sr_Fingerprint q = ''#long''"
proof -
  obtain rec where rec: "snd sample_run1 = Inr rec" "sr_Version rec = 1" using sample_result1 by blast
  have run: "Registry_RegisterSchema sample_env sample_registry NewStore ''.'' ''money'' ''long'' [] [] no_opts =
      (fst sample_run1, Inr rec)"
    using rec(1) by (simp add: sample_run1_def prod_eq_iff)
  obtain q where q: "Store_GetSchemaBySubjectVersion (fst sample_run1) ''.'' ''money'' 1 = Inr q"
    using register_returns_registered [OF reach_new sample_env_ok sample_room1 run] rec(2) by auto
  have "(case Store_GetSchemaBySubjectVersion (fst sample_run1) ''.'' ''money'' 1 of
      Inl _ \<Rightarrow> [] | Inr q \<Rightarrow> sr_Fingerprint q) = ''#long''" by code_simp
  with q show ?thesis by simp
qed

text \<open>
  C22.  A registration that fails leaves the catalogue of every context as it was.
\<close>

theorem register_error_changes_nothing:
  assumes "store_reach s" "env_ok e" "has_room (Store_getOrCreateContext s c) subject"
    and "Registry_RegisterSchema e r s c subject schemaStr schemaType refs opt = (s', Inl err)"
  shows "mem_view c' s' = mem_view c' s"
proof (cases "c' = c")
  case False
  then show ?thesis using steps_other_view [OF register_steps [OF assms(2-4)]] by simp
next
  case True
  from assms(4) show ?thesis
  proof (cases rule: register_cases)
    case (stored resolvedRefs parsed0 schemaStr' parsed opt')
    have "has_room (Store_getOrCreateContext s c)
        (sr_Subject (new_record subject (default_type schemaType) schemaStr' refs opt' (global_fingerprint r parsed refs)))"
      using assms(3) by (simp add: new_record_def)
    with assms(2) show ?thesis using stored(6) by (cases rule: store_record_cases) (auto simp: True)
  qed simp_all
qed

theorem register_error_changes_nothing_witness:
  "mem_view ''.'' (fst (Registry_RegisterSchema sample_env sample_registry NewStore ''.'' ''money'' [] [] [] no_opts)) =
     mem_view ''.'' NewStore"
proof -
  have "\<exists>err. snd (Registry_RegisterSchema sample_env sample_registry NewStore ''.'' ''money'' [] [] [] no_opts) = Inl err"
    using isl_def by (rule iffD1) code_simp
  then obtain err where "Registry_RegisterSchema sample_env sample_registry NewStore ''.'' ''money'' [] [] [] no_opts =
      (fst (Registry_RegisterSchema sample_env sample_registry NewStore ''.'' ''money'' [] [] [] no_opts), Inl err)"
    by (auto simp: prod_eq_iff)
  from register_error_changes_nothing [OF reach_new sample_env_ok sample_room1 this, of "''.''"] show ?thesis .
qed



section \<open>References\<close>

text \<open>
  C29.  Resolution ends on every store, cyclic references included, with an error that names a
  reference storage does not return, or with a list that has each subject and version once, covers
  the references given and those of every schema it lists, carries the content storage has, and, when
  references are acyclic, lists every schema after the ones it refers to.
\<close>

theorem references_resolved:
  "case Registry_resolveReferences r s c refs of
     Inl (RefError ref err) \<Rightarrow> Store_GetSchemaBySubjectVersion s c (rf_Subject ref) (rf_Version ref) = Inl err
   | Inr resolved \<Rightarrow>
       distinct (map ref_key resolved) \<and> ref_key ` set refs \<subseteq> ref_key ` set resolved \<and>
       list_all (\<lambda>x. carries_content s c x \<and> ref_deps s c x \<subseteq> ref_key ` set resolved) resolved \<and>
       ((\<exists>rank. falls_along s c rank) \<longrightarrow> in_order s c {} resolved)"
proof (cases "Registry_resolveReferences r s c refs")
  case (Inl e)
  then show ?thesis
    by (cases e) (auto simp: Registry_resolveReferences_def dest: resolve_error split: if_splits sum.splits)
next
  case (Inr resolved)
  have "in_order s c {} resolved" if "falls_along s c rank" for rank
  proof (cases "refs = []")
    case True
    with Inr show ?thesis by (simp add: Registry_resolveReferences_def)
  next
    case False
    with Inr obtain seen where "resolve s c refs [] [] = Inr (seen, [] @ resolved)"
      by (auto simp: Registry_resolveReferences_def split: sum.splits)
    from resolve_in_order [OF this that] show ?thesis by simp
  qed
  with Inr resolveReferences_cases [OF Inr] show ?thesis by (auto simp: list_all_iff)
qed

theorem references_resolved_witness:
  "\<exists>resolved. Registry_resolveReferences sample_registry (fst sample_run2) ''.'' [money_ref] = Inr resolved \<and>
     distinct (map ref_key resolved) \<and> ref_key money_ref \<in> ref_key ` set resolved"
proof -
  have "\<not> isl (Registry_resolveReferences sample_registry (fst sample_run2) ''.'' [money_ref])" by code_simp
  with references_resolved [where r = sample_registry and s = "fst sample_run2" and c = "''.''" and refs = "[money_ref]"]
  show ?thesis by (auto split: sum.splits)
qed

text \<open>
  The fingerprint of a schema with references is determined by the content fingerprint and the
  multiset of references, in whatever order they are given, and determines both, as far as SHA-256
  does not collide on the two texts and no name or subject contains a zero byte.
\<close>

lemma fingerprint_identifies:
  assumes "refs \<noteq> []" "refs' \<noteq> []" "nul_free refs" "nul_free refs'" "NUL \<notin> set fp" "NUL \<notin> set fp'"
    and "sha256 (fingerprint_text fp refs) = sha256 (fingerprint_text fp' refs') \<Longrightarrow>
           fingerprint_text fp refs = fingerprint_text fp' refs'"
  shows "computeGlobalFingerprint sha256 fp refs = computeGlobalFingerprint sha256 fp' refs' \<longleftrightarrow>
           fp = fp' \<and> mset (map ref_id refs) = mset (map ref_id refs')"
  using fingerprint_text_inj [OF assms(5,6,3,4)] assms(1,2,7)
  by (auto simp: computeGlobalFingerprint_def EncodeToString_inj)

definition other_ref :: Reference where
  "other_ref = money_ref\<lparr>rf_Version := 2\<rparr>"

lemma fingerprint_identifies_witness:
  "computeGlobalFingerprint (\<lambda>x. x) ''f'' [money_ref, other_ref] =
     computeGlobalFingerprint (\<lambda>x. x) ''f'' [other_ref, money_ref]"
proof -
  have "nul_free [money_ref, other_ref]" "nul_free [other_ref, money_ref]" "NUL \<notin> set ''f''" by code_simp+
  with fingerprint_identifies [of "[money_ref, other_ref]" "[other_ref, money_ref]" "''f''" "''f''" "\<lambda>x. x"]
  show ?thesis by (simp add: add_mset_commute)
qed

text \<open>
  The zero bytes matter: the separators are not escaped, so that one reference to a subject whose
  name contains them and two ordinary references are hashed from the same text.
\<close>

lemma fingerprint_separator_collision:
  "computeGlobalFingerprint sha256 fp
     [\<lparr>rf_Name = ''a'', rf_Subject = ''b'' @ [NUL] @ ''1'' @ [NUL] @ ''c'' @ [NUL] @ ''d'', rf_Version = 2, rf_Schema = []\<rparr>] =
   computeGlobalFingerprint sha256 fp
     [\<lparr>rf_Name = ''a'', rf_Subject = ''b'', rf_Version = 1, rf_Schema = []\<rparr>,
      \<lparr>rf_Name = ''c'', rf_Subject = ''d'', rf_Version = 2, rf_Schema = []\<rparr>]"
proof -
  have "Itoa 1 = ''1''" by code_simp
  then show ?thesis
    by (simp add: computeGlobalFingerprint_def fingerprint_text_def ref_line_def ref_id_def)
qed

section \<open>Configuration and modes\<close>

lemma set_config_outcome:
  assumes "Registry_SetConfig r s c subject level norm opts = (s', err)"
  shows "err \<noteq> None \<and> s' = s \<or>
     err = None \<and> isValidCompatibility (ToUpper level) \<and>
     (\<exists>config. cf_CompatibilityLevel config = ToUpper level \<and>
        s' = (if subject = [] then fst (Store_SetGlobalConfig s c config) else fst (Store_SetConfig s c subject config)))"
proof (cases "isValidCompatibility (ToUpper level)")
  case True
  let ?config0 = "ConfigRecord_zero\<lparr>cf_CompatibilityLevel := ToUpper level, cf_Normalize := norm\<rparr>"
  let ?config = "case opts of None \<Rightarrow> ?config0 | Some opt \<Rightarrow> apply_config_opts opt ?config0"
  have "cf_CompatibilityLevel ?config = ToUpper level"
    by (simp add: apply_config_opts_def split: option.splits)
  moreover have "snd (Store_SetGlobalConfig s c x) = None" "snd (Store_SetConfig s c subject x) = None" for x
    by (simp_all add: Store_SetGlobalConfig_def Store_SetConfig_def Let_def)
  moreover have "s' = s \<and> err \<noteq> None \<or>
      s' = fst (if subject = [] then Store_SetGlobalConfig s c ?config else Store_SetConfig s c subject ?config) \<and>
      err = map_option StorageError (snd (if subject = [] then Store_SetGlobalConfig s c ?config
        else Store_SetConfig s c subject ?config))"
    using assms True by (auto simp: Registry_SetConfig_def Let_def split_def split: option.splits)
  ultimately show ?thesis using True by (auto intro!: exI [of _ ?config])
qed (use assms in \<open>auto simp: Registry_SetConfig_def Let_def\<close>)

text \<open>
  A compatibility level that was set, for a subject or for a context, is the level in force
  there, in upper case; a configuration request for one subject changes no other subject that has
  its own configuration, and one with an unknown level or invalid rules changes nothing.
\<close>

lemma set_config_effective:
  assumes "Registry_SetConfig r s c subject level norm opts = (s', err)"
  shows "case err of
      None \<Rightarrow> isValidCompatibility (ToUpper level) \<and> Registry_GetConfig r s' c subject = Inr (ToUpper level) \<and>
        (\<forall>c' subject'. subject' \<noteq> [] \<and> (c', subject') \<noteq> (c, subject) \<longrightarrow>
           Store_GetConfig s' c' subject' = Store_GetConfig s c' subject')
    | Some _ \<Rightarrow> s' = s"
proof (cases err)
  case (Some e)
  with assms show ?thesis by (auto dest: set_config_outcome)
next
  case None
  with set_config_outcome [OF assms] obtain config where
    "isValidCompatibility (ToUpper level)" "cf_CompatibilityLevel config = ToUpper level"
    "s' = (if subject = [] then fst (Store_SetGlobalConfig s c config) else fst (Store_SetConfig s c subject config))"
    by auto
  with None show ?thesis
    by (auto simp: Registry_GetConfig_def Store_SetGlobalConfig_def Store_SetConfig_def Store_GetConfig_def
        Store_GetGlobalConfig_def Let_def gm_laws getOrCreate_get split: option.splits)
      (auto simp: Store_getOrCreateContext_def Store_getContext_def newContextStore_def split: option.splits)
qed

lemma set_config_effective_witness:
  "Registry_GetConfig sample_registry (fst (Registry_SetConfig sample_registry NewStore ''.'' ''orders'' ''full'' None None))
     ''.'' ''orders'' = Inr ''FULL''"
proof -
  let ?run = "Registry_SetConfig sample_registry NewStore ''.'' ''orders'' ''full'' None None"
  have "snd ?run = None" "ToUpper ''full'' = ''FULL''" by code_simp+
  with set_config_effective [OF prod.collapse [of ?run, symmetric]]
  show ?thesis by simp
qed

text \<open>
  The global read-only override is a kill switch: once it is set on the default context, the
  mode in force is \<open>READONLY_OVERRIDE\<close> for every subject of every context, whatever modes they have
  of their own, and the check that guards writes answers it.
\<close>

lemma read_only_override_everywhere:
  assumes "Registry_SetMode r s DefaultContext [] mode force = (s', None)"
    and "ToUpper mode = ''READONLY_OVERRIDE''"
  shows "Registry_GetMode r s' c subject = Inr ''READONLY_OVERRIDE'' \<and>
     Registry_CheckModeForWrite r s' c subject = Inr ''READONLY_OVERRIDE''"
proof -
  have "s' = fst (Store_SetGlobalMode s DefaultContext \<lparr>mo_Subject = [], mo_Mode = ''READONLY_OVERRIDE''\<rparr>)"
    using assms by (auto simp: Registry_SetMode_def Let_def split: if_splits prod.splits)
  then have "Registry_resolveGlobalMode r s' = ''READONLY_OVERRIDE''"
    by (simp add: Registry_resolveGlobalMode_def store_defs Let_def Store_putContext_def Store_getContext_def gm_laws)
  then show ?thesis by (simp add: Registry_GetMode_def Registry_CheckModeForWrite_def)
qed

lemma read_only_override_everywhere_witness:
  "Registry_CheckModeForWrite sample_registry
     (fst (Registry_SetMode sample_registry sample_store DefaultContext [] ''readonly_override'' False)) ''.team'' ''orders'' =
   Inr ''READONLY_OVERRIDE''"
proof -
  let ?run = "Registry_SetMode sample_registry sample_store DefaultContext [] ''readonly_override'' False"
  have "snd ?run = None" "ToUpper ''readonly_override'' = ''READONLY_OVERRIDE''" by code_simp+
  with read_only_override_everywhere [of sample_registry sample_store "''readonly_override''" False "fst ?run" "''.team''" "''orders''"]
  show ?thesis by (simp add: prod_eq_iff)
qed

text \<open>
  Import mode is entered without force only where no live schema is: on success either the
  mode was \<open>IMPORT\<close> already, or the subject (the context, when no subject is given) has no live
  version.
\<close>

lemma import_mode_guarded:
  assumes "store_reach s" "Registry_SetMode r s c subject mode False = (s', None)" "ToUpper mode = ''IMPORT''"
    and "Registry_GetMode r s c subject \<noteq> Inr ''IMPORT''"
  shows "\<forall>subj v q. (subject = [] \<or> subj = subject) \<and> mem_view c s subj v = Some q \<longrightarrow> sr_Deleted q"
proof (intro allI impI, elim conjE)
  fix subj v q assume subj: "subject = [] \<or> subj = subject" and q: "mem_view c s subj v = Some q"
  have none: "Registry_hasSubjects r s c subject = Inr False"
    using assms(2-4) by (auto simp: Registry_SetMode_def Let_def split: if_splits sum.splits)
  show "sr_Deleted q"
  proof (cases rule: getOrCreate_cases [of s c])
    case 1
    with q show ?thesis by (simp add: view_no_context)
  next
    case 2
    let ?cs = "Store_getOrCreateContext s c"
    have "\<not> has_live (subject_versions ?cs subj)"
    proof (cases "subject = []")
      case True
      with none 2 have "filter (\<lambda>(_, versions). has_live versions) (gm_entries (cs_subjectVersions ?cs)) = []"
        by (simp add: Registry_hasSubjects_def Store_ListSubjects_def) (metis map_is_Nil_conv set_empty set_sort)
      then show ?thesis
        by (auto simp: filter_empty_conv subject_versions_def gm_get0_def gm.scan_all has_live_def
            split: option.splits)
    next
      case False
      with none 2 subj show ?thesis by (simp add: Registry_hasSubjects_def Store_SubjectExists_def)
    qed
    moreover obtain info where "gm_get (subject_versions ?cs subj) v = Some info" "sr_Deleted q = si_deleted info"
      using q by (auto simp: mem_view_def catalog_Some versions_of_def)
    ultimately show ?thesis by (auto simp: has_live_def list_ex_iff gm.scan_ex)
  qed
qed

lemma import_mode_guarded_witness:
  "\<exists>q. mem_view ''.'' sample_soft ''orders'' 1 = Some q \<and> sr_Deleted q"
proof -
  let ?run = "Registry_SetMode sample_registry sample_soft ''.'' ''orders'' ''import'' False"
  have "snd ?run = None" "ToUpper ''import'' = ''IMPORT''" by code_simp+
  moreover have "(case Registry_GetMode sample_registry sample_soft ''.'' ''orders'' of Inl _ \<Rightarrow> [] | Inr m \<Rightarrow> m) = ''READWRITE''"
    by code_simp
  ultimately have "\<forall>subj v q. (''orders'' = [] \<or> subj = ''orders'') \<and> mem_view ''.'' sample_soft subj v = Some q \<longrightarrow> sr_Deleted q"
    by (intro import_mode_guarded [OF sample_soft_reach, of sample_registry "''.''" "''orders''" "''import''" "fst ?run"])
      (auto simp: prod_eq_iff split: sum.splits)
  moreover have "map_option sr_Version (mem_view ''.'' sample_soft ''orders'' 1) = Some 1" by code_simp
  ultimately show ?thesis by auto
qed

section \<open>Metadata and rules\<close>

text \<open>
  What is stored is the merge of three layers: a property, a tag or a rule of a name comes from
  the configured override if that has it, otherwise from the request, otherwise from the configured
  default; the sensitive fields are those of all three; rule names stay unique.
\<close>

lemma three_layer_merge:
  assumes "Registry_GetConfigFull r s c subject = Inr config"
    and "ro_Metadata opts = Some m" "ro_RuleSet opts = Some rules"
    and "sel \<in> {rs_MigrationRules, rs_DomainRules, rs_EncodingRules}"
    and "names_unique (Option.bind (cf_DefaultRuleSet config) sel)" "names_unique (sel rules)"
      "names_unique (Option.bind (cf_OverrideRuleSet config) sel)"
    and "Registry_maybeSetMetadataRuleSet r s c subject opts prev = result"
  shows "meta_prop (ro_Metadata result) =
           meta_prop (cf_DefaultMetadata config) ++ meta_prop (Some m) ++ meta_prop (cf_OverrideMetadata config) \<and>
         meta_tag (ro_Metadata result) =
           meta_tag (cf_DefaultMetadata config) ++ meta_tag (Some m) ++ meta_tag (cf_OverrideMetadata config) \<and>
         meta_sensitive (ro_Metadata result) =
           meta_sensitive (cf_DefaultMetadata config) \<union> meta_sensitive (Some m) \<union>
           meta_sensitive (cf_OverrideMetadata config) \<and>
         rule_named (Option.bind (ro_RuleSet result) sel) =
           rule_named (Option.bind (cf_DefaultRuleSet config) sel) ++ rule_named (sel rules) ++
           rule_named (Option.bind (cf_OverrideRuleSet config) sel) \<and>
         names_unique (Option.bind (ro_RuleSet result) sel)"
proof -
  let ?meta = "mergeMetadata (mergeMetadata (cf_DefaultMetadata config) (Some m)) (cf_OverrideMetadata config)"
  let ?rules = "mergeRuleSet (mergeRuleSet (cf_DefaultRuleSet config) (Some rules)) (cf_OverrideRuleSet config)"
  have some: "?meta \<noteq> None" "?rules \<noteq> None"
    by (simp_all add: mergeMetadata_def mergeRuleSet_def split: option.splits)
  then have "ro_Metadata result = ?meta" "ro_RuleSet result = ?rules"
    using assms(1-3) by (simp_all add: assms(8) [symmetric] Registry_maybeSetMetadataRuleSet_def Let_def)
  moreover have "names_unique (Option.bind (Some rules) sel)" using assms(6) by simp
  note inner = mergeRuleSet_rules [OF assms(4,5) this]
  note outer = mergeRuleSet_rules [OF assms(4) inner(2) assms(7)]
  ultimately show ?thesis by (simp add: mergeMetadata_says inner outer)
qed

definition owner_meta :: Metadata where
  "owner_meta = Metadata_zero\<lparr>md_Properties := Some (gm_put ''owner'' ''team'' gm_empty)\<rparr>"

lemma three_layer_merge_witness:
  "meta_prop (ro_Metadata (Registry_maybeSetMetadataRuleSet sample_registry NewStore ''.'' ''orders''
      \<lparr>ro_Normalize = False, ro_Metadata = Some owner_meta, ro_RuleSet = Some RuleSet_zero\<rparr> None)) ''owner'' = Some ''team''"
proof -
  have "Registry_GetConfigFull sample_registry NewStore ''.'' ''orders'' =
      Inr (ConfigRecord_zero\<lparr>cf_CompatibilityLevel := ''NONE''\<rparr>)"
    by (simp add: Registry_GetConfigFull_def store_defs NewStore_def DefaultContext_def newContextStore_def Store_getContext_def
        gm_laws GlobalContext_def sample_registry_def)
  from three_layer_merge [OF this _ _ _ _ _ _ refl, of "\<lparr>ro_Normalize = False, ro_Metadata = Some owner_meta, ro_RuleSet = Some RuleSet_zero\<rparr>"
      owner_meta RuleSet_zero rs_DomainRules None]
  show ?thesis
    by (simp add: names_unique_def ConfigRecord_zero_def RuleSet_zero_def meta_prop_def owner_meta_def nilable_get_def gm_laws)
qed

text \<open>
  A response can be sent back: when the look-up by fingerprint finds a version, a request that
  carries the metadata of the response for that version, with the \<open>confluent:version\<close> the response
  added, and its rules, is recognised as that version.
\<close>

lemma response_recognised:
  assumes "Store_GetSchemaByFingerprint (ge_versions e 0) s c subject fingerprint False = Inr existing"
    and "0 < sr_Version existing" "in_i64 (sr_Version existing)"
    and "\<not> has_confluent_version (sr_Metadata existing)" "no_empty_properties (sr_Metadata existing)"
    and "ro_Metadata opt = sr_Metadata (autoPopulateConfluentVersion existing)" "ro_RuleSet opt = sr_RuleSet existing"
  shows "found_duplicate e r s c subject fingerprint opt = Some existing"
proof -
  have "metadataEqualForDedup (sr_Metadata existing) (ro_Metadata opt)"
    unfolding metadataEqualForDedup_def assms(6) strip_unchanged [OF assms(4)]
    using strip_auto [OF assms(4,5)] by (rule meta_eq.deq_sym)
  moreover have "cas_ok (extractConfluentVersionTarget (ro_Metadata opt)) existing"
    using auto_target [OF assms(2,3)] by (simp add: cas_ok_def assms(6))
  ultimately show ?thesis
    using assms(1) by (simp add: found_duplicate_def assms(7) rules_eq.deq_refl)
qed

lemma response_recognised_witness:
  "\<exists>existing. Store_GetSchemaByFingerprint (ge_versions sample_env 0) (fst sample_run1) ''.'' ''money'' ''#long'' False = Inr existing \<and>
     found_duplicate sample_env sample_registry (fst sample_run1) ''.'' ''money'' ''#long''
       \<lparr>ro_Normalize = False, ro_Metadata = sr_Metadata (autoPopulateConfluentVersion existing),
        ro_RuleSet = sr_RuleSet existing\<rparr> = Some existing"
proof -
  have "(case Store_GetSchemaByFingerprint (ge_versions sample_env 0) (fst sample_run1) ''.'' ''money'' ''#long'' False of
      Inl _ \<Rightarrow> (0, False) | Inr q \<Rightarrow> (sr_Version q, Option.is_none (sr_Metadata q))) = (1, True)"
    by code_simp
  then obtain q where q: "Store_GetSchemaByFingerprint (ge_versions sample_env 0) (fst sample_run1) ''.'' ''money'' ''#long'' False = Inr q"
    "sr_Version q = 1" "sr_Metadata q = None"
    by (auto simp: Option.is_none_def split: sum.splits)
  from response_recognised [OF q(1), of "\<lparr>ro_Normalize = False, ro_Metadata = sr_Metadata (autoPopulateConfluentVersion q),
        ro_RuleSet = sr_RuleSet q\<rparr>" sample_registry] q
  show ?thesis by (simp add: in_i64_def has_confluent_version_def no_empty_properties_def)
qed

section \<open>Import\<close>

text \<open>
  C30.  A batch import never rewinds the ID sequence and leaves it above every ID in use, the ones
  imported included, so that a later registration gets an ID nobody has; the answer has one result
  per request, in order, and counts successes and errors.
\<close>

theorem import_keeps_ids_fresh:
  assumes "ids_below (Store_getOrCreateContext s c)"
    and "1 \<le> next_id c s" "next_id c s \<le> max_int64"
    and "\<forall>req\<in>set reqs. iq_ID req < max_int64"
    and "Registry_ImportSchemas e r s c reqs = (s', result, err)"
  shows "err = None \<and> ids_below (Store_getOrCreateContext s' c) \<and> next_id c s \<le> next_id c s' \<and> result_ok result \<and>
     (\<exists>errs. length errs = length reqs \<and> im_Results result = map2 import_result reqs errs) \<and>
     (\<forall>res\<in>set (im_Results result). ir_Success res \<longrightarrow> ir_ID res < next_id c s')"
  by (rule import_batch [OF assms])

definition sample_request :: ImportSchemaRequest where
  "sample_request = \<lparr>iq_ID = 70, iq_Subject = ''orders'', iq_Version = 3, iq_SchemaType = [],
     iq_Schema = ''long'', iq_References = []\<rparr>"

theorem import_keeps_ids_fresh_witness:
  "let (s', result, err) = Registry_ImportSchemas sample_env sample_registry NewStore ''.'' [sample_request]
   in err = None \<and> im_Imported result = 1 \<and> 70 < next_id ''.'' s'"
proof -
  let ?run = "Registry_ImportSchemas sample_env sample_registry NewStore ''.'' [sample_request]"
  obtain s' result err where run: "?run = (s', result, err)" by (metis prod_cases3)
  have "(case ?run of (s', result, err) \<Rightarrow> (map (\<lambda>x. (ir_ID x, ir_Success x)) (im_Results result), im_Imported result)) =
      ([(70, True)], 1)" by code_simp
  then have res: "map (\<lambda>x. (ir_ID x, ir_Success x)) (im_Results result) = [(70, True)]" "im_Imported result = 1"
    by (simp_all add: run)
  then obtain x where x: "x \<in> set (im_Results result)" "ir_ID x = 70" "ir_Success x" by auto
  have ctx: "Store_getOrCreateContext NewStore ''.'' = newContextStore"
    by (simp add: NewStore_def Store_getOrCreateContext_def DefaultContext_def gm_laws)
  have "next_id ''.'' NewStore = 1" "iq_ID sample_request = 70"
    unfolding ctx by (simp_all add: newContextStore_def sample_request_def)
  with import_keeps_ids_fresh [OF _ _ _ _ run] ids_below_new x res(2) run show ?thesis
    by (auto simp: ctx max_int64_def)
qed

section \<open>Two behaviours of registration\<close>

definition with_property :: "string \<Rightarrow> string \<Rightarrow> RegisterOpts" where
  "with_property k v =
     \<lparr>ro_Normalize = False,
      ro_Metadata = Some (Metadata_zero\<lparr>md_Properties := Some (gm_put k v gm_empty)\<rparr>), ro_RuleSet = None\<rparr>"

text \<open>
  A \<open>confluent:version\<close> that does not match the version of a schema already registered is an error,
  not a new version: storage finds the same content and metadata and refuses.
\<close>

lemma version_target_mismatch_fails:
  "(case snd (Registry_RegisterSchema sample_env sample_registry (fst sample_run1) ''.'' ''money'' ''long'' [] []
               (with_property ''confluent:version'' ''5'')) of
      Inl (FailedToStore err) \<Rightarrow> err = ErrSchemaExists | _ \<Rightarrow> False)"
  by code_simp

text \<open>
  Where two live versions have one content and different metadata, registering the first again
  succeeds or fails with the order in which the runtime visits the versions.
\<close>

definition rev_env :: go_env where
  "rev_env = sample_env\<lparr>ge_versions := (\<lambda>_. rev)\<rparr>"

definition twice_registered :: Store where
  "twice_registered =
     fst (Registry_RegisterSchema sample_env sample_registry
       (fst (Registry_RegisterSchema sample_env sample_registry NewStore ''.'' ''money'' ''long'' [] [] (with_property ''a'' ''1'')))
       ''.'' ''money'' ''long'' [] [] (with_property ''b'' ''2''))"

lemma registration_depends_on_order:
  "env_ok sample_env \<and> env_ok rev_env \<and>
   (case snd (Registry_RegisterSchema sample_env sample_registry twice_registered ''.'' ''money'' ''long'' [] []
               (with_property ''a'' ''1'')) of
      Inr rec \<Rightarrow> sr_Version rec = 1 | _ \<Rightarrow> False) \<and>
   (case snd (Registry_RegisterSchema rev_env sample_registry twice_registered ''.'' ''money'' ''long'' [] []
               (with_property ''a'' ''1'')) of
      Inl (FailedToStore err) \<Rightarrow> err = ErrSchemaExists | _ \<Rightarrow> False)"
proof -
  have "env_ok rev_env" by (simp add: env_ok_def rev_env_def sample_env_def)
  moreover have "(case snd (Registry_RegisterSchema sample_env sample_registry twice_registered ''.'' ''money'' ''long'' [] []
               (with_property ''a'' ''1'')) of
      Inr rec \<Rightarrow> sr_Version rec = 1 | _ \<Rightarrow> False)" by code_simp
  moreover have "(case snd (Registry_RegisterSchema rev_env sample_registry twice_registered ''.'' ''money'' ''long'' [] []
               (with_property ''a'' ''1'')) of
      Inl (FailedToStore err) \<Rightarrow> err = ErrSchemaExists | _ \<Rightarrow> False)" by code_simp
  ultimately show ?thesis using sample_env_ok by blast
qed

end
