(* ===== verification/Json_Compat.thy ===== *)
theory Json_Compat
  imports Json_Value Compat_Modes
begin

text \<open>
  The JSON Schema compatibility checker, \<open>internal/compatibility/jsonschema/checker.go\<close>.  The
  methods share a result object to which they only append messages (\<open>result.AddMessage\<close>); each is
  modelled by the list of messages it appends, in order, or \<open>None\<close> when it panics: the comparison
  of two \<open>pattern\<close> values by \<open>!=\<close> does when both are objects or both are arrays.  The range loops
  over objects visit the entries in the order of the list, which orders messages and nothing else.
  Decoding (\<open>json.Unmarshal\<close>) is a parameter of the entry point; a text that decodes into a nil map
  (\<open>null\<close>) is an empty object here.  The recursive methods take the recursive call as an argument and
  are tied together by \<open>checkCompatibility\<close>, whose recursion descends in both schemas.
\<close>

type_synonym checks = "string list option"
type_synonym json_check = "jmap \<Rightarrow> jmap \<Rightarrow> string \<Rightarrow> checks"

definition silent :: checks where "silent = Some []"
definition say :: "string \<Rightarrow> checks" where "say msg = Some [msg]"

primrec run_all :: "checks list \<Rightarrow> checks" where
  "run_all [] = Some []"
| "run_all (c # cs) =
     (case c of None \<Rightarrow> None | Some msgs \<Rightarrow> map_option (\<lambda>rest. msgs @ rest) (run_all cs))"

text \<open>The check against a local result, of which only the verdict is used.\<close>

definition local_check :: "checks \<Rightarrow> string \<Rightarrow> checks" where
  "local_check c msg =
     (case c of None \<Rightarrow> None | Some msgs \<Rightarrow> if msgs \<noteq> [] then say msg else silent)"

definition squote :: "string \<Rightarrow> string" where
  "squote s = [CHR 0x27] @ s @ [CHR 0x27]"

definition joinPath :: "string \<Rightarrow> string \<Rightarrow> string" where
  "joinPath base prop = (if base = [] then prop else base @ ''.'' @ prop)"

definition js_pathOrRoot :: "string \<Rightarrow> string" where
  "js_pathOrRoot path = (if path = [] then ''root'' else path)"

definition at_path :: "string \<Rightarrow> string" where
  "at_path path = '' at '' @ squote (js_pathOrRoot path)"

section \<open>Helper functions\<close>

definition getType :: "jmap \<Rightarrow> json" where
  "getType schema = jget schema ''type''"

fun typeString :: "json \<Rightarrow> string" where
  "typeString (JStr s) = s"
| "typeString _ = []"

definition getTypeString :: "jmap \<Rightarrow> string" where
  "getTypeString schema = typeString (getType schema)"

definition getProperties :: "jmap \<Rightarrow> jmap" where
  "getProperties schema = (case as_map (jget schema ''properties'') of Some props \<Rightarrow> props | None \<Rightarrow> [])"

definition getRequiredSet :: "jmap \<Rightarrow> string list" where
  "getRequiredSet schema =
     (case as_slice (jget schema ''required'') of
        Some required \<Rightarrow> remdups (List.map_filter as_string required)
      | None \<Rightarrow> [])"

definition getItems :: "jmap \<Rightarrow> jmap option" where
  "getItems schema = as_map (jget schema ''items'')"

definition getEnum :: "jmap \<Rightarrow> json list option" where
  "getEnum schema = as_slice (jget schema ''enum'')"

definition hasOpenContentModel :: "jmap \<Rightarrow> bool" where
  "hasOpenContentModel schema =
     (if \<not> jhas schema ''additionalProperties'' then True
      else case as_bool (jget schema ''additionalProperties'') of Some boolVal \<Rightarrow> boolVal | None \<Rightarrow> False)"

definition hasCoveringPatternProperties :: "jmap \<Rightarrow> bool" where
  "hasCoveringPatternProperties schema =
     (if \<not> jhas schema ''patternProperties'' then False
      else case as_map (jget schema ''patternProperties'') of Some ppMap \<Rightarrow> length ppMap > 0 | None \<Rightarrow> False)"

definition getSchemaArrayValue :: "jmap \<Rightarrow> string \<Rightarrow> jmap list" where
  "getSchemaArrayValue schema key =
     (case as_slice (jget schema key) of None \<Rightarrow> [] | Some arr \<Rightarrow> List.map_filter as_map arr)"

definition schemaExistsIn :: "jmap \<Rightarrow> jmap list \<Rightarrow> bool" where
  "schemaExistsIn schema schemas \<longleftrightarrow> list_ex (\<lambda>s. deep_eq (JObj schema) (JObj s)) schemas"

definition deduplicateSchemas :: "jmap list \<Rightarrow> jmap list" where
  "deduplicateSchemas schemas =
     fold (\<lambda>s result. if schemaExistsIn s result then result else result @ [s]) schemas []"

fun toFloat64 :: "json \<Rightarrow> go_float" where
  "toFloat64 (JNum x) = x"
| "toFloat64 _ = Fin 0"

definition getAdditionalPropertiesSchema :: "jmap \<Rightarrow> jmap option" where
  "getAdditionalPropertiesSchema schema =
     (if \<not> jhas schema ''additionalProperties'' then None
      else as_map (jget schema ''additionalProperties''))"

definition getTupleItems :: "jmap \<Rightarrow> json list" where
  "getTupleItems schema =
     (case as_slice (jget schema ''prefixItems'') of
        Some prefixItems \<Rightarrow> prefixItems
      | None \<Rightarrow> (case as_slice (jget schema ''items'') of Some items \<Rightarrow> items | None \<Rightarrow> []))"

definition getAdditionalItemsSchema :: "jmap \<Rightarrow> jmap option" where
  "getAdditionalItemsSchema schema =
     (if jhas schema ''prefixItems'' then as_map (jget schema ''items'')
      else as_map (jget schema ''additionalItems''))"

definition hasCompositionKeyword :: "jmap \<Rightarrow> bool" where
  "hasCompositionKeyword schema \<longleftrightarrow> jhas schema ''oneOf'' \<or> jhas schema ''anyOf'' \<or> jhas schema ''allOf''"

definition hasObjectKeywords :: "jmap \<Rightarrow> bool" where
  "hasObjectKeywords schema \<longleftrightarrow>
     list_ex (jhas schema) [''properties'', ''required'', ''patternProperties'', ''additionalProperties'']"

definition hasArrayKeywords :: "jmap \<Rightarrow> bool" where
  "hasArrayKeywords schema \<longleftrightarrow>
     list_ex (jhas schema)
       [''prefixItems'', ''additionalItems'', ''items'', ''minItems'', ''maxItems'', ''uniqueItems'']"

section \<open>Types\<close>

definition isTypePromotion :: "string \<Rightarrow> string \<Rightarrow> bool" where
  "isTypePromotion oldType newType \<longleftrightarrow> oldType = ''integer'' \<and> newType = ''number''"

fun normalizeType :: "json \<Rightarrow> string list" where
  "normalizeType (JStr s) = [s]"
| "normalizeType (JArr arr) = sort (List.map_filter as_string arr)"
| "normalizeType _ = []"

definition areTypesCompatible :: "json \<Rightarrow> json \<Rightarrow> bool" where
  "areTypesCompatible newType oldType =
     (if oldType = JNull then True
      else if newType = JNull then True
      else list_all (\<lambda>ot. list_ex (\<lambda>nt. nt = ot \<or> isTypePromotion ot nt) (normalizeType newType))
             (normalizeType oldType))"

section \<open>Keyword checks\<close>

definition checkConstraintChange :: "jmap \<Rightarrow> jmap \<Rightarrow> string \<Rightarrow> string \<Rightarrow> bool \<Rightarrow> string list" where
  "checkConstraintChange newSchema oldSchema constraint path isMinConstraint =
     (let newHas = jhas newSchema constraint; oldHas = jhas oldSchema constraint;
          newNum = toFloat64 (jget newSchema constraint); oldNum = toFloat64 (jget oldSchema constraint);
          msg = squote constraint @ '' constraint tightened'' @ at_path path @ '' (was '' @
                fmt_v (jget oldSchema constraint) @ '', now '' @ fmt_v (jget newSchema constraint) @ '')''
      in if \<not> newHas \<and> \<not> oldHas then []
         else if isMinConstraint
         then (if newHas \<and> (\<not> oldHas \<or> f_less oldNum newNum) then [msg] else [])
         else (if newHas \<and> (\<not> oldHas \<or> f_less newNum oldNum) then [msg] else []))"

definition checkEnumCompatibility :: "jmap \<Rightarrow> jmap \<Rightarrow> string \<Rightarrow> string list" where
  "checkEnumCompatibility newSchema oldSchema path =
     (case (getEnum oldSchema, getEnum newSchema) of
        (None, Some _) \<Rightarrow> [''Enum constraint added'' @ at_path path]
      | (None, None) \<Rightarrow> []
      | (Some _, None) \<Rightarrow> []
      | (Some oldEnum, Some newEnum) \<Rightarrow>
          (let newEnumSet = map fmt_v newEnum
           in map (\<lambda>oldVal. ''Enum value '' @ squote oldVal @ '' was removed'' @ at_path path)
                (filter (\<lambda>oldVal. oldVal \<notin> set newEnumSet) (remdups (map fmt_v oldEnum)))))"

definition checkConstCompatibility :: "jmap \<Rightarrow> jmap \<Rightarrow> string \<Rightarrow> string list" where
  "checkConstCompatibility newSchema oldSchema path =
     (let oldHas = jhas oldSchema ''const''; newHas = jhas newSchema ''const'';
          oldConst = jget oldSchema ''const''; newConst = jget newSchema ''const''
      in if \<not> newHas then []
         else if \<not> oldHas then [''const constraint added'' @ at_path path]
         else if \<not> deep_eq oldConst newConst
         then [''const value changed'' @ at_path path @ '' from '' @ squote (fmt_v oldConst) @ '' to '' @
               squote (fmt_v newConst)]
         else [])"

definition checkPattern :: "jmap \<Rightarrow> jmap \<Rightarrow> string \<Rightarrow> checks" where
  "checkPattern newSchema oldSchema path =
     (let oldHas = jhas oldSchema ''pattern''; newHas = jhas newSchema ''pattern'';
          oldPattern = jget oldSchema ''pattern''; newPattern = jget newSchema ''pattern''
      in if oldHas \<and> newHas
         then (case iface_eq oldPattern newPattern of
                 None \<Rightarrow> None
               | Some True \<Rightarrow> silent
               | Some False \<Rightarrow>
                   say (''pattern changed'' @ at_path path @ '' from '' @ squote (fmt_v oldPattern) @
                        '' to '' @ squote (fmt_v newPattern)))
         else if \<not> oldHas \<and> newHas then say (''pattern constraint added'' @ at_path path)
         else silent)"

definition checkStringConstraints :: json_check where
  "checkStringConstraints newSchema oldSchema path =
     run_all
       [Some (checkConstraintChange newSchema oldSchema ''minLength'' path True),
        Some (checkConstraintChange newSchema oldSchema ''maxLength'' path False),
        checkPattern newSchema oldSchema path]"

definition multiple_changed :: "go_float \<Rightarrow> go_float \<Rightarrow> bool" where
  "multiple_changed oldVal newVal \<longleftrightarrow>
     \<not> f_eq oldVal (Fin 0) \<and> \<not> f_eq newVal (Fin 0) \<and>
     (let ratio = f_div oldVal newVal
      in f_less (round_f64 (1 / 1000000000)) (f_abs (f_sub ratio (f_round ratio))))"

definition checkMultipleOf :: "jmap \<Rightarrow> jmap \<Rightarrow> string \<Rightarrow> string list" where
  "checkMultipleOf newSchema oldSchema path =
     (let oldMul = jget oldSchema ''multipleOf''; newMul = jget newSchema ''multipleOf'';
          oldHas = jhas oldSchema ''multipleOf''; newHas = jhas newSchema ''multipleOf''
      in if oldHas \<and> newHas
         then (if multiple_changed (toFloat64 oldMul) (toFloat64 newMul)
               then [''multipleOf changed'' @ at_path path @ '' from '' @ fmt_v oldMul @ '' to '' @ fmt_v newMul]
               else [])
         else if \<not> oldHas \<and> newHas then [''multipleOf constraint added'' @ at_path path]
         else [])"

definition checkNumericConstraints :: "jmap \<Rightarrow> jmap \<Rightarrow> string \<Rightarrow> string list" where
  "checkNumericConstraints newSchema oldSchema path =
     checkConstraintChange newSchema oldSchema ''minimum'' path True @
     checkConstraintChange newSchema oldSchema ''maximum'' path False @
     checkConstraintChange newSchema oldSchema ''exclusiveMinimum'' path True @
     checkConstraintChange newSchema oldSchema ''exclusiveMaximum'' path False @
     checkMultipleOf newSchema oldSchema path"

definition checkPropertyCountConstraints :: "jmap \<Rightarrow> jmap \<Rightarrow> string \<Rightarrow> string list" where
  "checkPropertyCountConstraints newSchema oldSchema path =
     checkConstraintChange newSchema oldSchema ''minProperties'' path True @
     checkConstraintChange newSchema oldSchema ''maxProperties'' path False"

definition checkNotSchema :: "jmap \<Rightarrow> jmap \<Rightarrow> string \<Rightarrow> string list" where
  "checkNotSchema newSchema oldSchema path =
     (if \<not> jhas newSchema ''not'' then []
      else if \<not> jhas oldSchema ''not'' then [squote ''not'' @ '' constraint added'' @ at_path path]
      else
        case (as_map (jget oldSchema ''not''), as_map (jget newSchema ''not'')) of
          (Some oldNotMap, Some newNotMap) \<Rightarrow>
            (let oldNotType = getTypeString oldNotMap; newNotType = getTypeString newNotMap
             in (if oldNotType \<noteq> [] \<and> newNotType \<noteq> [] \<and> oldNotType \<noteq> newNotType \<and>
                    \<not> isTypePromotion newNotType oldNotType
                 then [squote ''not'' @ '' schema changed'' @ at_path path @ '' from '' @ squote oldNotType @
                       '' to '' @ squote newNotType]
                 else []) @
                (if \<not> deep_eq (JObj oldNotMap) (JObj newNotMap) \<and> oldNotType = newNotType \<and>
                    length newNotMap < length oldNotMap
                 then [squote ''not'' @ '' schema broadened'' @ at_path path]
                 else []))
        | _ \<Rightarrow> [])"

definition checkUniqueItems :: "jmap \<Rightarrow> jmap \<Rightarrow> string \<Rightarrow> string list" where
  "checkUniqueItems newSchema oldSchema path =
     (if \<not> jhas newSchema ''uniqueItems'' then []
      else if jget newSchema ''uniqueItems'' = JBool True \<and>
              (\<not> jhas oldSchema ''uniqueItems'' \<or> jget oldSchema ''uniqueItems'' \<noteq> JBool True)
      then [''uniqueItems constraint added'' @ at_path path]
      else [])"

definition checkItemsBoolean :: "jmap \<Rightarrow> jmap \<Rightarrow> string \<Rightarrow> string list" where
  "checkItemsBoolean newSchema oldSchema path =
     (let both = (jhas oldSchema ''items'' \<and> jhas newSchema ''items'')
      in if both
         then (case (as_bool (jget oldSchema ''items''), as_bool (jget newSchema ''items'')) of
                 (Some oldBool, Some newBool) \<Rightarrow>
                   if oldBool \<and> \<not> newBool then [''items changed from allowed to forbidden'' @ at_path path] else []
               | (None, Some newBool) \<Rightarrow>
                   if \<not> newBool then [''items changed from schema to forbidden'' @ at_path path] else []
               | _ \<Rightarrow> [])
         else [])"

definition added_keys :: "string \<Rightarrow> jmap \<Rightarrow> jmap \<Rightarrow> string \<Rightarrow> string list" where
  "added_keys what newDepsMap oldDepsMap path =
     map (\<lambda>(propName, _). what @ '' for property '' @ squote propName @ at_path path)
       (filter (\<lambda>(propName, _). \<not> jhas oldDepsMap propName) newDepsMap)"

definition checkDependentRequired :: "jmap \<Rightarrow> jmap \<Rightarrow> string \<Rightarrow> string list" where
  "checkDependentRequired newSchema oldSchema path =
     (if \<not> jhas newSchema ''dependentRequired'' then []
      else if \<not> jhas oldSchema ''dependentRequired'' then [''dependentRequired added'' @ at_path path]
      else
        case (as_map (jget oldSchema ''dependentRequired''), as_map (jget newSchema ''dependentRequired'')) of
          (Some oldDepsMap, Some newDepsMap) \<Rightarrow>
            added_keys ''dependentRequired added'' newDepsMap oldDepsMap path @
            added_keys ''dependentRequired removed'' oldDepsMap newDepsMap path @
            map (\<lambda>(propName, _). ''dependentRequired changed for property '' @ squote propName @ at_path path)
              (filter (\<lambda>(propName, oldDep).
                 case map_of newDepsMap propName of None \<Rightarrow> False | Some newDep \<Rightarrow> \<not> deep_eq oldDep newDep)
                 oldDepsMap)
        | _ \<Rightarrow> [])"

section \<open>Composition\<close>

definition type_options :: "jmap \<Rightarrow> jmap list" where
  "type_options schema =
     (if getType schema \<noteq> JNull then map (\<lambda>typ. [(''type'', JStr typ)]) (normalizeType (getType schema)) else [])"

definition collectSumTypeOptions :: "jmap \<Rightarrow> jmap list" where
  "collectSumTypeOptions schema =
     (let oneOf = getSchemaArrayValue schema ''oneOf''; anyOf = getSchemaArrayValue schema ''anyOf'';
          allOf = getSchemaArrayValue schema ''allOf'';
          typeSet = remdups (filter (\<lambda>t. t \<noteq> []) (map getTypeString allOf))
      in if length oneOf > 0 then oneOf
         else if length anyOf > 0 then anyOf
         else if length allOf > 0 \<and> length typeSet = 1 then [[(''type'', JStr (hd typeSet))]]
         else type_options schema)"

definition collectSumTypeOptionsExcludeAllOf :: "jmap \<Rightarrow> jmap list" where
  "collectSumTypeOptionsExcludeAllOf schema =
     (let oneOf = getSchemaArrayValue schema ''oneOf''; anyOf = getSchemaArrayValue schema ''anyOf''
      in if length oneOf > 0 then oneOf else if length anyOf > 0 then anyOf else type_options schema)"

definition hasCompatibleSumOption :: "jmap list \<Rightarrow> jmap \<Rightarrow> bool" where
  "hasCompatibleSumOption newOptions oldOpt =
     (let oldType = getTypeString oldOpt
      in list_ex (\<lambda>newOpt. let newType = getTypeString newOpt
                           in newType = oldType \<or>
                              (oldType \<noteq> [] \<and> newType \<noteq> [] \<and> isTypePromotion oldType newType)) newOptions)"

definition checkSumTypeCompatibility :: "jmap \<Rightarrow> jmap \<Rightarrow> string \<Rightarrow> string list" where
  "checkSumTypeCompatibility newSchema oldSchema path =
     (let oldOptions = collectSumTypeOptions oldSchema; newOptions = collectSumTypeOptions newSchema
      in map (\<lambda>oldOpt. let oldType = getTypeString oldOpt
                       in ''Type option '' @ squote (if oldType = [] then ''schema'' else oldType) @
                          '' removed'' @ at_path path)
           (filter (\<lambda>oldOpt. \<not> hasCompatibleSumOption newOptions oldOpt) oldOptions))"

definition hasMatchingElement :: "jmap \<Rightarrow> jmap list \<Rightarrow> bool" where
  "hasMatchingElement newElem oldSchemas \<longleftrightarrow>
     list_ex (\<lambda>oldElem.
       length newElem > 0 \<and> length oldElem > 0 \<and>
       (let sharedKeys = length (filter (\<lambda>(k, _). jhas oldElem k) newElem)
        in sharedKeys > 0 \<and> sharedKeys = length newElem)) oldSchemas"

definition schemaSubsumedBy :: "jmap \<Rightarrow> jmap \<Rightarrow> bool" where
  "schemaSubsumedBy newConstraint oldSchema =
     (let newType = getTypeString newConstraint; oldType = typeString (getType oldSchema)
      in if newType \<noteq> [] \<and> oldType \<noteq> [] then newType = oldType \<or> isTypePromotion oldType newType
         else deep_eq (JObj newConstraint) (JObj oldSchema))"

text \<open>An element of a new \<open>allOf\<close> that the old schema, which has none, already guarantees.\<close>

definition allOf_covered :: "jmap \<Rightarrow> jmap \<Rightarrow> bool" where
  "allOf_covered oldSchema newElem =
     (let newType = getTypeString newElem; oldType = typeString (getType oldSchema);
          oldSumOptions = collectSumTypeOptionsExcludeAllOf oldSchema
      in (newType \<noteq> [] \<and> oldType \<noteq> [] \<and> (newType = oldType \<or> isTypePromotion oldType newType)) \<or>
         (newType \<noteq> [] \<and> length oldSumOptions > 0 \<and>
          list_ex (\<lambda>oldOpt. let oldOptType = getTypeString oldOpt
                            in newType = oldOptType \<or> isTypePromotion oldOptType newType) oldSumOptions) \<or>
         schemaSubsumedBy newElem oldSchema)"

text \<open>An element of the new \<open>allOf\<close> against the elements of the old one.\<close>

definition allOf_element :: "jmap list \<Rightarrow> string \<Rightarrow> jmap \<Rightarrow> string list" where
  "allOf_element oldDeduped path newElem =
     (let newType = getTypeString newElem
      in if schemaExistsIn newElem oldDeduped then []
         else if newType \<noteq> [] \<and>
                 list_ex (\<lambda>oldElem. let oldType = getTypeString oldElem
                                    in oldType = newType \<or> isTypePromotion oldType newType) oldDeduped
         then []
         else
           case (getEnum newElem, List.find (\<lambda>oldElem. getEnum oldElem \<noteq> None) oldDeduped) of
             (Some _, Some oldElem) \<Rightarrow> checkEnumCompatibility newElem oldElem path
           | _ \<Rightarrow> if hasMatchingElement newElem oldDeduped then []
                  else [''New constraint added to allOf'' @ at_path path])"

definition allOf_type_change :: "string \<Rightarrow> jmap \<Rightarrow> jmap \<Rightarrow> string list" where
  "allOf_type_change path oldElem newElem =
     (let oldType = getTypeString oldElem; newType = getTypeString newElem
      in if newType \<noteq> [] \<and> oldType \<noteq> [] \<and> newType \<noteq> oldType \<and> \<not> isTypePromotion oldType newType \<and>
            jhas oldElem ''type'' \<and> jhas newElem ''type'' \<and> length oldElem = 1 \<and> length newElem = 1
         then [''Type changed in allOf'' @ at_path path @ '' from '' @ squote oldType @ '' to '' @ squote newType]
         else [])"

definition checkAllOfCompatibility :: "jmap \<Rightarrow> jmap \<Rightarrow> string \<Rightarrow> string list" where
  "checkAllOfCompatibility newSchema oldSchema path =
     (let oldAllOf = getSchemaArrayValue oldSchema ''allOf''; newAllOf = getSchemaArrayValue newSchema ''allOf'';
          oldDeduped = deduplicateSchemas oldAllOf; newDeduped = deduplicateSchemas newAllOf
      in if length newDeduped = 0 then []
         else if length oldDeduped = 0
         then (if list_all (allOf_covered oldSchema) newDeduped then []
               else [''New constraint added to allOf'' @ at_path path])
         else concat (map (allOf_element oldDeduped path) newDeduped) @
              concat (map (\<lambda>oldElem. concat (map (allOf_type_change path oldElem) newDeduped)) oldDeduped))"

definition composed_pairs :: "jmap \<Rightarrow> jmap \<Rightarrow> string \<Rightarrow> (jmap \<times> jmap) list" where
  "composed_pairs newSchema oldSchema keyword =
     (let oldElems = getSchemaArrayValue oldSchema keyword; newElems = getSchemaArrayValue newSchema keyword
      in if length oldElems > 0 \<and> length newElems > 0 \<and> length oldElems = length newElems
         then zip newElems oldElems else [])"

text \<open>The loop over the pairs returns at the first pair that is not compatible.\<close>

fun first_changed :: "json_check \<Rightarrow> string \<Rightarrow> (jmap \<times> jmap) list \<Rightarrow> checks" where
  "first_changed check path [] = silent"
| "first_changed check path ((newElem, oldElem) # pairs) =
     (case check newElem oldElem path of
        None \<Rightarrow> None
      | Some msgs \<Rightarrow> if msgs \<noteq> [] then say (''Composed schema element changed'' @ at_path path)
                     else first_changed check path pairs)"

definition checkCompositionSubschemas :: "json_check \<Rightarrow> json_check" where
  "checkCompositionSubschemas check newSchema oldSchema path =
     first_changed check path (concat (map (composed_pairs newSchema oldSchema) [''oneOf'', ''anyOf'']))"

definition checkCompositionCompatibility :: "json_check \<Rightarrow> json_check" where
  "checkCompositionCompatibility check newSchema oldSchema path =
     run_all
       [Some (checkSumTypeCompatibility newSchema oldSchema path),
        Some (checkAllOfCompatibility newSchema oldSchema path),
        checkCompositionSubschemas check newSchema oldSchema path]"

section \<open>Objects\<close>

definition removed_property :: "json_check \<Rightarrow> jmap \<Rightarrow> jmap \<Rightarrow> string \<Rightarrow> string \<times> json \<Rightarrow> checks" where
  "removed_property check newSchema newProps path = (\<lambda>(propName, oldProp).
     (let propPath = joinPath path propName
      in if jhas newProps propName then silent
         else if oldProp = JBool False then silent
         else if hasOpenContentModel newSchema then silent
         else if hasCoveringPatternProperties newSchema then silent
         else case getAdditionalPropertiesSchema newSchema of
                Some readerAPSchema \<Rightarrow>
                  (case as_map oldProp of
                     Some oldPropMap \<Rightarrow>
                       local_check (check readerAPSchema oldPropMap propPath)
                         (''Property '' @ squote propPath @ '' removed but not covered by additionalProperties'')
                   | None \<Rightarrow> silent)
              | None \<Rightarrow> say (''Property '' @ squote propPath @ '' was removed'')))"

definition new_property :: "json_check \<Rightarrow> jmap \<Rightarrow> jmap \<Rightarrow> jmap \<Rightarrow> string \<Rightarrow> string \<times> json \<Rightarrow> checks" where
  "new_property check newSchema oldSchema oldProps path = (\<lambda>(propName, newProp).
     (let propPath = joinPath path propName; isRequired = (propName \<in> set (getRequiredSet newSchema))
      in if \<not> jhas oldProps propName
         then (if newProp = JBool True then silent
               else if isRequired then say (''New required property '' @ squote propPath @ '' was added'')
               else if hasOpenContentModel oldSchema
               then say (''Property '' @ squote propPath @ '' was added to open content model'')
               else case (getAdditionalPropertiesSchema oldSchema, as_map newProp) of
                      (Some apSchema, Some newPropMap) \<Rightarrow>
                        local_check (check newPropMap apSchema propPath)
                          (''Property '' @ squote propPath @
                           '' added with type incompatible with additionalProperties'')
                    | _ \<Rightarrow> silent)
         else if propName \<notin> set (getRequiredSet oldSchema) \<and> isRequired
         then say (''Property '' @ squote propPath @ '' changed from optional to required'')
         else silent))"

definition existing_property :: "json_check \<Rightarrow> jmap \<Rightarrow> string \<Rightarrow> string \<times> json \<Rightarrow> checks" where
  "existing_property check oldProps path = (\<lambda>(propName, newProp).
     (if jhas oldProps propName
      then (case (as_map newProp, as_map (jget oldProps propName)) of
              (Some newPropMap, Some oldPropMap) \<Rightarrow> check newPropMap oldPropMap (joinPath path propName)
            | _ \<Rightarrow> silent)
      else silent))"

text \<open>The last loop of the method, over the required names, has no effect.\<close>

definition checkObjectCompatibility :: "json_check \<Rightarrow> json_check" where
  "checkObjectCompatibility check newSchema oldSchema path =
     (let newProps = getProperties newSchema; oldProps = getProperties oldSchema
      in run_all
           (map (removed_property check newSchema newProps path) oldProps @
            map (new_property check newSchema oldSchema oldProps path) newProps @
            map (existing_property check oldProps path) newProps))"

definition checkAdditionalPropertiesCompatibility :: "json_check \<Rightarrow> json_check" where
  "checkAdditionalPropertiesCompatibility check newSchema oldSchema path =
     (let newAP = jget newSchema ''additionalProperties''; oldAP = jget oldSchema ''additionalProperties'';
          oldAllows = (\<not> jhas oldSchema ''additionalProperties'' \<or> oldAP = JBool True)
      in run_all
           [if oldAllows \<and> jhas newSchema ''additionalProperties'' \<and> newAP = JBool False
            then say (''additionalProperties changed from allowed to forbidden'' @ at_path path) else silent,
            case (as_map newAP, as_map oldAP) of
              (Some newAPSchema, Some oldAPSchema) \<Rightarrow>
                check newAPSchema oldAPSchema (joinPath path ''additionalProperties'')
            | (Some _, None) \<Rightarrow>
                if oldAllows then say (''additionalProperties narrowed'' @ at_path path) else silent
            | _ \<Rightarrow> silent])"

section \<open>Arrays\<close>

definition item_path :: "string \<Rightarrow> nat \<Rightarrow> string" where
  "item_path path i = joinPath path (''items/'' @ Itoa (int i))"

definition tuple_pair :: "json_check \<Rightarrow> json list \<Rightarrow> json list \<Rightarrow> string \<Rightarrow> nat \<Rightarrow> checks" where
  "tuple_pair check newTuple oldTuple path i =
     (case (as_map (oldTuple ! i), as_map (newTuple ! i)) of
        (Some oldItem, Some newItem) \<Rightarrow> check newItem oldItem (item_path path i)
      | _ \<Rightarrow> silent)"

definition tuple_added :: "json_check \<Rightarrow> json list \<Rightarrow> jmap option \<Rightarrow> string \<Rightarrow> nat \<Rightarrow> checks" where
  "tuple_added check newTuple oldAISchema path i =
     (case (as_map (newTuple ! i), oldAISchema) of
        (Some newItem, Some ai) \<Rightarrow>
          local_check (check newItem ai (item_path path i))
            (''Item added at position '' @ Itoa (int i) @ '' not covered by additionalItems'')
      | _ \<Rightarrow> silent)"

definition tuple_removed :: "json_check \<Rightarrow> json list \<Rightarrow> jmap option \<Rightarrow> string \<Rightarrow> nat \<Rightarrow> checks" where
  "tuple_removed check oldTuple newAISchema path i =
     (case (as_map (oldTuple ! i), newAISchema) of
        (Some oldItem, Some ai) \<Rightarrow>
          local_check (check ai oldItem (item_path path i))
            (''Item removed at position '' @ Itoa (int i) @ '' not covered by additionalItems'')
      | _ \<Rightarrow> silent)"

definition checkTupleItems :: "json_check \<Rightarrow> json_check" where
  "checkTupleItems check newSchema oldSchema path =
     (let oldTuple = getTupleItems oldSchema; newTuple = getTupleItems newSchema;
          oldLen = length oldTuple; newLen = length newTuple
      in if oldLen = 0 \<and> newLen = 0 then silent
         else run_all
           (map (tuple_pair check newTuple oldTuple path) [0..<min oldLen newLen] @
            map (tuple_added check newTuple (getAdditionalItemsSchema oldSchema) path) [oldLen..<newLen] @
            map (tuple_removed check oldTuple (getAdditionalItemsSchema newSchema) path) [newLen..<oldLen]))"

definition checkArrayCompatibility :: "json_check \<Rightarrow> json_check" where
  "checkArrayCompatibility check newSchema oldSchema path =
     run_all
       [case (getItems newSchema, getItems oldSchema) of
          (Some newItems, Some oldItems) \<Rightarrow> check newItems oldItems (joinPath path ''items'')
        | (Some _, None) \<Rightarrow>
            if \<not> jhas oldSchema ''items'' then say (''items schema added'' @ at_path path) else silent
        | _ \<Rightarrow> silent,
        checkTupleItems check newSchema oldSchema path,
        Some (checkConstraintChange newSchema oldSchema ''minItems'' path True),
        Some (checkConstraintChange newSchema oldSchema ''maxItems'' path False)]"

definition checkAdditionalItems :: "json_check \<Rightarrow> json_check" where
  "checkAdditionalItems check newSchema oldSchema path =
     (let newAI = jget newSchema ''additionalItems''; oldAI = jget oldSchema ''additionalItems''
      in run_all
           [if (\<not> jhas oldSchema ''additionalItems'' \<or> oldAI = JBool True) \<and>
               jhas newSchema ''additionalItems'' \<and> newAI = JBool False
            then say (''additionalItems changed from allowed to forbidden'' @ at_path path) else silent,
            case (as_map newAI, as_map oldAI) of
              (Some newAISchema, Some oldAISchema) \<Rightarrow>
                check newAISchema oldAISchema (joinPath path ''additionalItems'')
            | _ \<Rightarrow> silent])"

section \<open>Dependencies\<close>

definition changed_dependency :: "json_check \<Rightarrow> jmap \<Rightarrow> string \<Rightarrow> string \<times> json \<Rightarrow> checks" where
  "changed_dependency check newDepsMap path = (\<lambda>(propName, oldDep).
     (case map_of newDepsMap propName of
        None \<Rightarrow>
          (case as_map oldDep of
             Some _ \<Rightarrow> silent
           | None \<Rightarrow> say (''dependency removed for property '' @ squote propName @ at_path path))
      | Some newDep \<Rightarrow>
          (case (as_map oldDep, as_map newDep) of
             (Some oldDepSchema, Some newDepSchema) \<Rightarrow>
               check newDepSchema oldDepSchema (joinPath path (''dependencies/'' @ propName))
           | _ \<Rightarrow> if \<not> deep_eq oldDep newDep
                  then say (''dependency changed for property '' @ squote propName @ at_path path) else silent)))"

definition checkDependencies :: "json_check \<Rightarrow> json_check" where
  "checkDependencies check newSchema oldSchema path =
     (if \<not> jhas newSchema ''dependencies'' then silent
      else if \<not> jhas oldSchema ''dependencies'' then say (''dependencies added'' @ at_path path)
      else
        case (as_map (jget oldSchema ''dependencies''), as_map (jget newSchema ''dependencies'')) of
          (Some oldDepsMap, Some newDepsMap) \<Rightarrow>
            run_all (Some (added_keys ''dependency added'' newDepsMap oldDepsMap path) #
                     map (changed_dependency check newDepsMap path) oldDepsMap)
        | _ \<Rightarrow> silent)"

definition changed_dependent_schema :: "json_check \<Rightarrow> jmap \<Rightarrow> string \<Rightarrow> string \<times> json \<Rightarrow> checks" where
  "changed_dependent_schema check newDepsMap path = (\<lambda>(propName, oldDep).
     (case map_of newDepsMap propName of
        None \<Rightarrow> silent
      | Some newDep \<Rightarrow>
          (case (as_map oldDep, as_map newDep) of
             (Some oldDepSchema, Some newDepSchema) \<Rightarrow>
               check newDepSchema oldDepSchema (joinPath path (''dependencies/'' @ propName))
           | _ \<Rightarrow> silent)))"

definition checkDependentSchemas :: "json_check \<Rightarrow> json_check" where
  "checkDependentSchemas check newSchema oldSchema path =
     (if \<not> jhas newSchema ''dependentSchemas'' then silent
      else if \<not> jhas oldSchema ''dependentSchemas'' then say (''dependentSchemas added'' @ at_path path)
      else
        case (as_map (jget oldSchema ''dependentSchemas''), as_map (jget newSchema ''dependentSchemas'')) of
          (Some oldDepsMap, Some newDepsMap) \<Rightarrow>
            run_all (Some (added_keys ''dependentSchema added'' newDepsMap oldDepsMap path) #
                     map (changed_dependent_schema check newDepsMap path) oldDepsMap)
        | _ \<Rightarrow> silent)"

section \<open>Tying the knot\<close>

definition compatibility_body :: "json_check \<Rightarrow> json_check" where
  "compatibility_body check newSchema oldSchema path =
     (let composed = (hasCompositionKeyword newSchema \<or> hasCompositionKeyword oldSchema);
          composition = (if composed then checkCompositionCompatibility check newSchema oldSchema path else silent);
          newType = getType newSchema; oldType = getType oldSchema;
          isObject = (typeString newType = ''object'' \<or> typeString oldType = ''object'' \<or>
                      hasObjectKeywords newSchema \<or> hasObjectKeywords oldSchema);
          isArray = (typeString newType = ''array'' \<or> typeString oldType = ''array'' \<or>
                     hasArrayKeywords newSchema \<or> hasArrayKeywords oldSchema)
      in if composed \<and> newType = JNull \<and> oldType = JNull \<and>
            \<not> hasObjectKeywords newSchema \<and> \<not> hasObjectKeywords oldSchema
         then composition
         else run_all
           [composition,
            if \<not> areTypesCompatible newType oldType
            then say (''Type changed at '' @ js_pathOrRoot path @ '' from '' @ squote (fmt_v oldType) @
                      '' to '' @ squote (fmt_v newType))
            else silent,
            if isObject then checkObjectCompatibility check newSchema oldSchema path else silent,
            if isArray then checkArrayCompatibility check newSchema oldSchema path else silent,
            Some (checkEnumCompatibility newSchema oldSchema path),
            Some (checkConstCompatibility newSchema oldSchema path),
            checkAdditionalPropertiesCompatibility check newSchema oldSchema path,
            checkStringConstraints newSchema oldSchema path,
            Some (checkNumericConstraints newSchema oldSchema path),
            Some (checkPropertyCountConstraints newSchema oldSchema path),
            Some (checkNotSchema newSchema oldSchema path),
            checkDependencies check newSchema oldSchema path,
            Some (checkDependentRequired newSchema oldSchema path),
            checkDependentSchemas check newSchema oldSchema path,
            Some (checkUniqueItems newSchema oldSchema path),
            checkAdditionalItems check newSchema oldSchema path,
            Some (checkItemsBoolean newSchema oldSchema path)])"

text \<open>
  Every recursive call is on schemas held by the two at hand.  \<open>smaller\<close> is that relation, and
  \<open>agree\<close> says that two candidates for the recursive call agree on smaller schemas.
\<close>

definition smaller :: "jmap \<Rightarrow> jmap \<Rightarrow> bool" where
  "smaller m n \<longleftrightarrow> size (JObj m) < size (JObj n)"

definition agree :: "jmap \<Rightarrow> jmap \<Rightarrow> json_check \<Rightarrow> json_check \<Rightarrow> bool" where
  "agree new old check check' \<longleftrightarrow>
     (\<forall>n' o' p. smaller n' new \<longrightarrow> smaller o' old \<longrightarrow> check n' o' p = check' n' o' p)"

lemma agreeD: "agree new old check check' \<Longrightarrow> smaller n' new \<Longrightarrow> smaller o' old \<Longrightarrow> check n' o' p = check' n' o' p"
  by (simp add: agree_def)

named_theorems smaller_intros \<open>which schemas are smaller\<close>

lemma smaller_get [smaller_intros]: "jget m k = JObj n \<Longrightarrow> smaller n m"
  using size_get [of m k "JObj n"] by (simp add: smaller_def)

lemma smaller_entry [smaller_intros]: "jget m k = JObj es \<Longrightarrow> (x, JObj n) \<in> set es \<Longrightarrow> smaller n m"
  using size_get [of m k "JObj es"] size_entry [of x "JObj n" es] by (simp add: smaller_def)

lemma smaller_get_get [smaller_intros]: "jget m k = JObj es \<Longrightarrow> jget es x = JObj n \<Longrightarrow> smaller n m"
  using size_get [of m k "JObj es"] size_get [of es x "JObj n"] by (simp add: smaller_def)

lemma smaller_element [smaller_intros]: "jget m k = JArr xs \<Longrightarrow> JObj n \<in> set xs \<Longrightarrow> smaller n m"
  using size_get [of m k "JArr xs"] size_element [of "JObj n" xs] by (simp add: smaller_def)

lemma properties_smaller [smaller_intros]:
  "(x, JObj n) \<in> set (getProperties m) \<Longrightarrow> smaller n m"
  "jget (getProperties m) x = JObj n \<Longrightarrow> smaller n m"
  by (auto simp: getProperties_def jget_def [of "[]"] split: option.splits intro: smaller_intros)

lemma parts_smaller [smaller_intros]:
  "getAdditionalPropertiesSchema m = Some n \<Longrightarrow> smaller n m"
  "getItems m = Some n \<Longrightarrow> smaller n m"
  "getAdditionalItemsSchema m = Some n \<Longrightarrow> smaller n m"
  "JObj n \<in> set (getTupleItems m) \<Longrightarrow> smaller n m"
  "n \<in> set (getSchemaArrayValue m k) \<Longrightarrow> smaller n m"
  by (auto simp: getAdditionalPropertiesSchema_def getItems_def getAdditionalItemsSchema_def getTupleItems_def
      getSchemaArrayValue_def List.map_filter_def split: option.splits if_splits intro: smaller_intros)

lemma removed_property_cong:
  assumes "agree new old check check'" "(k, v) \<in> set (getProperties old)"
  shows "removed_property check new ps path (k, v) = removed_property check' new ps path (k, v)"
  using assms
  by (auto simp: removed_property_def Let_def agreeD [OF assms(1)] smaller_intros split: option.split)

lemma new_property_cong:
  assumes "agree new old check check'" "(k, v) \<in> set (getProperties new)"
  shows "new_property check new old ps path (k, v) = new_property check' new old ps path (k, v)"
  using assms
  by (auto simp: new_property_def Let_def agreeD [OF assms(1)] smaller_intros split: option.split)

lemma existing_property_cong:
  assumes "agree new old check check'" "(k, v) \<in> set (getProperties new)"
  shows "existing_property check (getProperties old) path (k, v) =
    existing_property check' (getProperties old) path (k, v)"
  using assms
  by (auto simp: existing_property_def agreeD [OF assms(1)] smaller_intros split: option.split)

lemma object_cong:
  assumes "agree new old check check'"
  shows "checkObjectCompatibility check new old path = checkObjectCompatibility check' new old path"
proof -
  have "map (removed_property check new (getProperties new) path) (getProperties old) =
      map (removed_property check' new (getProperties new) path) (getProperties old)"
    using removed_property_cong [OF assms] by auto
  moreover have "map (new_property check new old (getProperties old) path) (getProperties new) =
      map (new_property check' new old (getProperties old) path) (getProperties new)"
    using new_property_cong [OF assms] by auto
  moreover have "map (existing_property check (getProperties old) path) (getProperties new) =
      map (existing_property check' (getProperties old) path) (getProperties new)"
    using existing_property_cong [OF assms] by auto
  ultimately show ?thesis by (simp only: checkObjectCompatibility_def Let_def)
qed

lemma composition_cong:
  assumes "agree new old check check'"
  shows "checkCompositionCompatibility check new old path = checkCompositionCompatibility check' new old path"
proof -
  have first: "first_changed check path ps = first_changed check' path ps"
    if "\<And>n o'. (n, o') \<in> set ps \<Longrightarrow> smaller n new \<and> smaller o' old" for ps
    using that
  proof (induction ps)
    case (Cons e ps)
    obtain n o' where e: "e = (n, o')" by (cases e)
    with Cons.prems [of n o'] have "check n o' path = check' n o' path" by (auto intro: agreeD [OF assms])
    moreover have "first_changed check path ps = first_changed check' path ps"
      using Cons.prems by (intro Cons.IH) auto
    ultimately show ?case by (simp only: e first_changed.simps)
  qed simp
  have "smaller n new \<and> smaller o' old" if "(n, o') \<in> set (composed_pairs new old k)" for n o' k
    using that by (auto simp: composed_pairs_def Let_def split: if_splits
        dest: set_zip_leftD set_zip_rightD intro: smaller_intros)
  then have "checkCompositionSubschemas check new old path = checkCompositionSubschemas check' new old path"
    unfolding checkCompositionSubschemas_def by (intro first) auto
  then show ?thesis by (simp add: checkCompositionCompatibility_def)
qed

lemma tuple_cong:
  assumes "agree new old check check'"
  shows "checkTupleItems check new old path = checkTupleItems check' new old path"
proof -
  have mem: "getTupleItems m ! i = JObj n \<Longrightarrow> i < length (getTupleItems m) \<Longrightarrow> smaller n m" for n m i
    by (metis nth_mem parts_smaller(4))
  have "map (tuple_pair check (getTupleItems new) (getTupleItems old) path)
        [0..<min (length (getTupleItems old)) (length (getTupleItems new))] =
      map (tuple_pair check' (getTupleItems new) (getTupleItems old) path)
        [0..<min (length (getTupleItems old)) (length (getTupleItems new))]"
    by (auto simp: tuple_pair_def mem agreeD [OF assms] split: option.split)
  moreover have "map (tuple_added check (getTupleItems new) (getAdditionalItemsSchema old) path)
        [length (getTupleItems old)..<length (getTupleItems new)] =
      map (tuple_added check' (getTupleItems new) (getAdditionalItemsSchema old) path)
        [length (getTupleItems old)..<length (getTupleItems new)]"
    by (auto simp: tuple_added_def mem agreeD [OF assms] smaller_intros split: option.split)
  moreover have "map (tuple_removed check (getTupleItems old) (getAdditionalItemsSchema new) path)
        [length (getTupleItems new)..<length (getTupleItems old)] =
      map (tuple_removed check' (getTupleItems old) (getAdditionalItemsSchema new) path)
        [length (getTupleItems new)..<length (getTupleItems old)]"
    by (auto simp: tuple_removed_def mem agreeD [OF assms] smaller_intros split: option.split)
  ultimately show ?thesis by (simp only: checkTupleItems_def Let_def)
qed

lemma keyword_cong:
  assumes "agree new old check check'"
  shows "checkArrayCompatibility check new old path = checkArrayCompatibility check' new old path"
    and "checkAdditionalPropertiesCompatibility check new old path =
         checkAdditionalPropertiesCompatibility check' new old path"
    and "checkAdditionalItems check new old path = checkAdditionalItems check' new old path"
proof -
  show "checkArrayCompatibility check new old path = checkArrayCompatibility check' new old path"
    by (cases "getItems new"; cases "getItems old")
      (simp_all add: checkArrayCompatibility_def tuple_cong [OF assms] agreeD [OF assms] smaller_intros)
  show "checkAdditionalPropertiesCompatibility check new old path =
      checkAdditionalPropertiesCompatibility check' new old path"
    by (cases "as_map (jget new ''additionalProperties'')"; cases "as_map (jget old ''additionalProperties'')")
      (simp_all only: checkAdditionalPropertiesCompatibility_def Let_def as_Some as_map.simps option.case prod.case
        agreeD [OF assms] smaller_get)
  show "checkAdditionalItems check new old path = checkAdditionalItems check' new old path"
    by (cases "as_map (jget new ''additionalItems'')"; cases "as_map (jget old ''additionalItems'')")
      (simp_all only: checkAdditionalItems_def Let_def as_Some as_map.simps option.case prod.case
        agreeD [OF assms] smaller_get)
qed

lemma dependencies_cong:
  assumes "agree new old check check'"
  shows "checkDependencies check new old path = checkDependencies check' new old path"
    and "checkDependentSchemas check new old path = checkDependentSchemas check' new old path"
proof -
  have eq: "changed_dependency check nd path (k, v) = changed_dependency check' nd path (k, v)"
    "changed_dependent_schema check nd path (k, v) = changed_dependent_schema check' nd path (k, v)"
    if "jget new x = JObj nd" "jget old x = JObj od" "(k, v) \<in> set od" for nd od x k v
    using that smaller_entry [OF that(1)] smaller_entry [OF that(2)]
    by (auto simp: changed_dependency_def changed_dependent_schema_def agreeD [OF assms] dest!: map_of_SomeD
        split: option.split)
  show "checkDependencies check new old path = checkDependencies check' new old path"
    by (auto simp: checkDependencies_def split: option.split
        intro!: arg_cong [where f = "map_option _"] arg_cong [where f = run_all] eq(1))
  show "checkDependentSchemas check new old path = checkDependentSchemas check' new old path"
    by (auto simp: checkDependentSchemas_def split: option.split
        intro!: arg_cong [where f = "map_option _"] arg_cong [where f = run_all] eq(2))
qed

lemma compatibility_body_cong [fundef_cong]:
  assumes "new = new'" "old = old'" "path = path'"
    and "\<And>n' o' p. size (JObj n') < size (JObj new') \<Longrightarrow> size (JObj o') < size (JObj old') \<Longrightarrow>
      check n' o' p = check' n' o' p"
  shows "compatibility_body check new old path = compatibility_body check' new' old' path'"
proof -
  have "agree new' old' check check'" using assms(4) by (simp add: agree_def smaller_def)
  then show ?thesis
    unfolding assms(1-3) compatibility_body_def
    by (simp only: object_cong composition_cong keyword_cong dependencies_cong)
qed

function checkCompatibility :: json_check where
  "checkCompatibility newSchema oldSchema path = compatibility_body checkCompatibility newSchema oldSchema path"
  by pat_completeness auto
termination
  by (relation "measure (\<lambda>(new, old, path). size (JObj new))") simp_all

declare checkCompatibility.simps [simp del]

section \<open>References and the entry point\<close>

definition getDefinitions :: "jmap \<Rightarrow> jmap option" where
  "getDefinitions schema =
     (case as_map (jget schema ''definitions'') of
        Some defs \<Rightarrow> Some defs
      | None \<Rightarrow> as_map (jget schema ''$defs''))"

definition js_resolveLocalRef :: "string \<Rightarrow> jmap option \<Rightarrow> jmap option" where
  "js_resolveLocalRef ref defs =
     (case defs of
        None \<Rightarrow> None
      | Some defs \<Rightarrow>
          (case List.find (\<lambda>prefix. HasPrefix ref prefix \<and> as_map (jget defs (drop (length prefix) ref)) \<noteq> None)
             [''#/definitions/'', ''#/$defs/''] of
             Some prefix \<Rightarrow> as_map (jget defs (drop (length prefix) ref))
           | None \<Rightarrow> None))"

definition js_resolveRef :: "string \<Rightarrow> jmap option \<Rightarrow> (string, jmap) gomap \<Rightarrow> jmap option" where
  "js_resolveRef ref defs extRefs =
     (case js_resolveLocalRef ref defs of Some resolved \<Rightarrow> Some resolved | None \<Rightarrow> gm_get extRefs ref)"

text \<open>What the loop stores for an entry: a reference is replaced, an object or an element of an array visited.\<close>

fun resolve_value :: "jmap option \<Rightarrow> (string, jmap) gomap \<Rightarrow> json \<Rightarrow> json" where
  "resolve_value defs extRefs (JObj v) =
     (case as_string (jget v ''$ref'') of
        Some ref \<Rightarrow> (case js_resolveRef ref defs extRefs of Some resolved \<Rightarrow> JObj resolved | None \<Rightarrow> JObj v)
      | None \<Rightarrow>
          JObj (map (\<lambda>(key, val).
            (key, if key = ''definitions'' \<or> key = ''$defs'' then val else resolve_value defs extRefs val)) v))"
| "resolve_value defs extRefs (JArr xs) =
     JArr (map (\<lambda>item. if as_map item \<noteq> None then resolve_value defs extRefs item else item) xs)"
| "resolve_value defs extRefs v = v"

definition resolveRefsInMap :: "jmap \<Rightarrow> jmap option \<Rightarrow> (string, jmap) gomap \<Rightarrow> jmap" where
  "resolveRefsInMap schema defs extRefs =
     map (\<lambda>(key, val).
       (key, if key = ''definitions'' \<or> key = ''$defs'' then val else resolve_value defs extRefs val)) schema"

definition resolveAllRefs :: "jmap \<Rightarrow> (string, jmap) gomap \<Rightarrow> jmap" where
  "resolveAllRefs schema extRefs = resolveRefsInMap schema (getDefinitions schema) extRefs"

definition buildExternalRefMap :: "(string \<Rightarrow> string + jmap) \<Rightarrow> Reference list \<Rightarrow> (string, jmap) gomap" where
  "buildExternalRefMap unmarshal refs =
     fold (\<lambda>ref result.
       if rf_Schema ref = [] then result
       else case unmarshal (rf_Schema ref) of Inl err \<Rightarrow> result | Inr parsed \<Rightarrow> gm_put (rf_Name ref) parsed result)
       refs gm_empty"

definition JsonChecker_Check :: "(string \<Rightarrow> string + jmap) \<Rightarrow> SchemaWithRefs \<Rightarrow> SchemaWithRefs \<Rightarrow> Result option" where
  "JsonChecker_Check unmarshal reader writer =
     (case unmarshal (sw_Schema reader) of
        Inl err \<Rightarrow> Some (NewIncompatibleResult [''failed to parse new schema: '' @ err])
      | Inr newSchema \<Rightarrow>
          (case unmarshal (sw_Schema writer) of
             Inl err \<Rightarrow> Some (NewIncompatibleResult [''failed to parse old schema: '' @ err])
           | Inr oldSchema \<Rightarrow>
               map_option (\<lambda>msgs. fold (\<lambda>msg result. Result_AddMessage result msg) msgs NewCompatibleResult)
                 (checkCompatibility
                    (resolveAllRefs newSchema (buildExternalRefMap unmarshal (sw_References reader)))
                    (resolveAllRefs oldSchema (buildExternalRefMap unmarshal (sw_References writer))) [])))"

end
