(* ===== verification/Json_Properties.thy ===== *)
theory Json_Properties
  imports Json_Compat
begin

text \<open>
  What the JSON Schema checker decides.  Every refusal has a message; a schema is compatible with
  itself unless one of its \<open>allOf\<close> lists names two types (or a \<open>pattern\<close> is no string, when the
  check panics); and on schemas built from the core keywords acceptance is sound: every instance
  the old schema admits, the new one admits.  The last section shows the changes of which this is
  not true.
\<close>

section \<open>Silence\<close>

lemma silent_simps [simp]: "silent = Some []" "say msg \<noteq> Some []" "say msg \<noteq> None"
  by (simp_all add: silent_def say_def)

lemma if_silent [simp]:
  "((if b then c else Some []) = Some []) \<longleftrightarrow> (b \<longrightarrow> c = Some [])"
  "((if b then Some [] else c) = Some []) \<longleftrightarrow> (\<not> b \<longrightarrow> c = Some [])"
  "((if b then c else silent) = Some []) \<longleftrightarrow> (b \<longrightarrow> c = Some [])"
  "((if b then silent else c) = Some []) \<longleftrightarrow> (\<not> b \<longrightarrow> c = Some [])"
  by simp_all

lemma run_all_silent: "run_all cs = Some [] \<longleftrightarrow> (\<forall>c\<in>set cs. c = Some [])"
  by (induction cs) (auto split: option.splits)

declare run_all.simps [simp del]

lemma local_check_silent [simp]: "local_check c msg = Some [] \<longleftrightarrow> c = Some []"
  by (auto simp: local_check_def split: option.splits)

lemma first_changed_silent:
  "first_changed check path ps = Some [] \<longleftrightarrow> (\<forall>(n, o')\<in>set ps. check n o' path = Some [])"
  by (induction ps) (auto split: option.splits if_splits)

definition pure_composition :: "jmap \<Rightarrow> jmap \<Rightarrow> bool" where
  "pure_composition new old \<longleftrightarrow>
     (hasCompositionKeyword new \<or> hasCompositionKeyword old) \<and> getType new = JNull \<and> getType old = JNull \<and>
     \<not> hasObjectKeywords new \<and> \<not> hasObjectKeywords old"

definition object_like :: "jmap \<Rightarrow> jmap \<Rightarrow> bool" where
  "object_like new old \<longleftrightarrow>
     getTypeString new = ''object'' \<or> getTypeString old = ''object'' \<or> hasObjectKeywords new \<or> hasObjectKeywords old"

definition array_like :: "jmap \<Rightarrow> jmap \<Rightarrow> bool" where
  "array_like new old \<longleftrightarrow>
     getTypeString new = ''array'' \<or> getTypeString old = ''array'' \<or> hasArrayKeywords new \<or> hasArrayKeywords old"

text \<open>The verdict of one step.\<close>

lemma check_silent:
  "checkCompatibility new old path = Some [] \<longleftrightarrow>
     (hasCompositionKeyword new \<or> hasCompositionKeyword old \<longrightarrow>
        checkCompositionCompatibility checkCompatibility new old path = Some []) \<and>
     (pure_composition new old \<or>
      areTypesCompatible (getType new) (getType old) \<and>
      (object_like new old \<longrightarrow> checkObjectCompatibility checkCompatibility new old path = Some []) \<and>
      (array_like new old \<longrightarrow> checkArrayCompatibility checkCompatibility new old path = Some []) \<and>
      checkEnumCompatibility new old path = [] \<and>
      checkConstCompatibility new old path = [] \<and>
      checkAdditionalPropertiesCompatibility checkCompatibility new old path = Some [] \<and>
      checkStringConstraints new old path = Some [] \<and>
      checkNumericConstraints new old path = [] \<and>
      checkPropertyCountConstraints new old path = [] \<and>
      checkNotSchema new old path = [] \<and>
      checkDependencies checkCompatibility new old path = Some [] \<and>
      checkDependentRequired new old path = [] \<and>
      checkDependentSchemas checkCompatibility new old path = Some [] \<and>
      checkUniqueItems new old path = [] \<and>
      checkAdditionalItems checkCompatibility new old path = Some [] \<and>
      checkItemsBoolean new old path = [])"
proof (cases "pure_composition new old")
  case True
  then show ?thesis
    by (subst checkCompatibility.simps) (auto simp: compatibility_body_def Let_def pure_composition_def)
next
  case False
  then have np: "\<not> ((hasCompositionKeyword new \<or> hasCompositionKeyword old) \<and> getType new = JNull \<and>
      getType old = JNull \<and> \<not> hasObjectKeywords new \<and> \<not> hasObjectKeywords old)"
    by (simp add: pure_composition_def)
  have fold_like: "(typeString (getType new) = ''object'' \<or> typeString (getType old) = ''object'' \<or>
      hasObjectKeywords new \<or> hasObjectKeywords old) = object_like new old"
    "(typeString (getType new) = ''array'' \<or> typeString (getType old) = ''array'' \<or>
      hasArrayKeywords new \<or> hasArrayKeywords old) = array_like new old"
    by (simp_all add: object_like_def array_like_def getTypeString_def)
  show ?thesis
    apply (subst checkCompatibility.simps)
    unfolding compatibility_body_def Let_def fold_like if_not_P [OF np] run_all_silent
    using False by (simp split del: if_split)
qed

section \<open>Subschemas\<close>

text \<open>The schemas a schema holds where the checker looks for them, and all of them at any depth.\<close>

definition schema_keys :: "string list" where
  "schema_keys = [''items'', ''additionalProperties'', ''additionalItems'']"

definition map_keys :: "string list" where
  "map_keys = [''properties'', ''dependencies'', ''dependentSchemas'']"

definition array_keys :: "string list" where
  "array_keys = [''items'', ''prefixItems'', ''oneOf'', ''anyOf'']"

definition children :: "jmap \<Rightarrow> jmap list" where
  "children m =
     List.map_filter (\<lambda>k. as_map (jget m k)) schema_keys @
     concat (map (\<lambda>k. case as_map (jget m k) of None \<Rightarrow> [] | Some es \<Rightarrow> List.map_filter (as_map \<circ> snd) es) map_keys) @
     concat (map (getSchemaArrayValue m) array_keys)"

lemma map_values_iff:
  "n \<in> set (case as_map v of None \<Rightarrow> [] | Some es \<Rightarrow> List.map_filter (as_map \<circ> snd) es) \<longleftrightarrow>
     (\<exists>es x. v = JObj es \<and> (x, JObj n) \<in> set es)"
  by (cases v) (force simp: set_map_filter)+

lemma children_iff:
  "n \<in> set (children m) \<longleftrightarrow>
     (\<exists>k\<in>set schema_keys. jget m k = JObj n) \<or>
     (\<exists>k\<in>set map_keys. \<exists>es x. jget m k = JObj es \<and> (x, JObj n) \<in> set es) \<or>
     (\<exists>k\<in>set array_keys. n \<in> set (getSchemaArrayValue m k))"
proof -
  have ex_snd: "(\<exists>x\<in>S. snd x = v) \<longleftrightarrow> (\<exists>x. (x, v) \<in> S)" for S :: "(string \<times> json) set" and v by force
  show ?thesis by (simp add: children_def set_map_filter map_values_iff ex_snd)
qed

lemma children_smaller: "n \<in> set (children m) \<Longrightarrow> smaller n m"
  by (auto simp: children_iff intro: smaller_intros)

function subschemas :: "jmap \<Rightarrow> jmap list" where
  "subschemas m = m # concat (map subschemas (children m))"
  by pat_completeness auto
termination
  by (relation "measure (\<lambda>m. size (JObj m))") (auto dest!: children_smaller simp: smaller_def)

declare subschemas.simps [simp del]

lemma all_subschemas:
  "list_all P (subschemas m) \<longleftrightarrow> P m \<and> (\<forall>n\<in>set (children m). list_all P (subschemas n))"
  by (subst subschemas.simps) (auto simp: list_all_iff)

lemma children_intros:
  "jget m k = JObj n \<Longrightarrow> k \<in> set schema_keys \<Longrightarrow> n \<in> set (children m)"
  "jget m k = JObj es \<Longrightarrow> (x, JObj n) \<in> set es \<Longrightarrow> k \<in> set map_keys \<Longrightarrow> n \<in> set (children m)"
  "n \<in> set (getSchemaArrayValue m k) \<Longrightarrow> k \<in> set array_keys \<Longrightarrow> n \<in> set (children m)"
  unfolding children_iff by blast+

lemma child_keys [simp]:
  "''items'' \<in> set schema_keys" "''additionalProperties'' \<in> set schema_keys" "''additionalItems'' \<in> set schema_keys"
  "''properties'' \<in> set map_keys" "''dependencies'' \<in> set map_keys" "''dependentSchemas'' \<in> set map_keys"
  "''items'' \<in> set array_keys" "''prefixItems'' \<in> set array_keys" "''oneOf'' \<in> set array_keys"
  "''anyOf'' \<in> set array_keys"
  by (simp_all add: schema_keys_def map_keys_def array_keys_def)

lemma children_parts:
  "(x, JObj n) \<in> set (getProperties m) \<Longrightarrow> n \<in> set (children m)"
  "getAdditionalPropertiesSchema m = Some n \<Longrightarrow> n \<in> set (children m)"
  "getItems m = Some n \<Longrightarrow> n \<in> set (children m)"
  "getAdditionalItemsSchema m = Some n \<Longrightarrow> n \<in> set (children m)"
  by (auto simp: getProperties_def getAdditionalPropertiesSchema_def getItems_def getAdditionalItemsSchema_def
      split: option.splits if_splits intro: children_intros(1,2))

lemma tuple_child:
  assumes "JObj n \<in> set (getTupleItems m)" shows "n \<in> set (children m)"
proof -
  have "n \<in> set (getSchemaArrayValue m ''prefixItems'') \<or> n \<in> set (getSchemaArrayValue m ''items'')"
    using assms by (auto simp: getTupleItems_def getSchemaArrayValue_def set_map_filter split: option.splits)
  then show ?thesis by (auto intro: children_intros(3))
qed

section \<open>A schema against itself\<close>

definition single_types :: "jmap \<Rightarrow> string list" where
  "single_types m =
     map getTypeString (filter (\<lambda>e. length e = 1 \<and> getTypeString e \<noteq> []) (getSchemaArrayValue m ''allOf''))"

fun comparable :: "json \<Rightarrow> bool" where
  "comparable (JArr _) = False"
| "comparable (JObj _) = False"
| "comparable _ = True"

text \<open>Entries of the same type in \<open>allOf\<close>, and a pattern that can be compared.\<close>

definition steady :: "jmap \<Rightarrow> bool" where
  "steady m \<longleftrightarrow> comparable (jget m ''pattern'') \<and> (\<forall>s\<in>set (single_types m). \<forall>t\<in>set (single_types m). s = t)"

lemma constraint_self [simp]: "checkConstraintChange m m k path b = []"
  by (simp add: checkConstraintChange_def Let_def)

lemma one_is_whole: "\<not> f_less (round_f64 (1 / 1000000000)) (f_abs (f_sub (Fin 1) (f_round (Fin 1))))"
  by code_simp

lemma multipleOf_self:
  assumes "json_wf (JObj m)" shows "checkMultipleOf m m path = []"
proof -
  have "f_finite (toFloat64 (jget m ''multipleOf''))"
    using json_wf_get [OF assms, of "''multipleOf''"] by (cases "jget m ''multipleOf''") (auto simp: json_wf_def)
  then have "\<not> multiple_changed (toFloat64 (jget m ''multipleOf'')) (toFloat64 (jget m ''multipleOf''))"
    by (auto simp: multiple_changed_def Let_def f_eq_def f_div_self one_is_whole
        simp del: f_round.simps f_sub.simps f_abs.simps)
  then show ?thesis by (simp add: checkMultipleOf_def Let_def)
qed

lemma keywords_self:
  assumes "json_wf (JObj m)"
  shows "checkEnumCompatibility m m path = []" "checkConstCompatibility m m path = []"
    "checkNumericConstraints m m path = []" "checkPropertyCountConstraints m m path = []"
    "checkNotSchema m m path = []" "checkDependentRequired m m path = []"
    "checkUniqueItems m m path = []" "checkItemsBoolean m m path = []"
proof -
  note self = deep_eq_refl [OF json_wf_get [OF assms]]
  show "checkEnumCompatibility m m path = []"
    by (auto simp: checkEnumCompatibility_def Let_def filter_empty_conv split: option.split)
  show "checkConstCompatibility m m path = []" by (simp add: checkConstCompatibility_def Let_def self)
  show "checkNumericConstraints m m path = []" by (simp add: checkNumericConstraints_def multipleOf_self [OF assms])
  show "checkPropertyCountConstraints m m path = []" by (simp add: checkPropertyCountConstraints_def)
  show "checkNotSchema m m path = []"
    by (cases "as_map (jget m ''not'')") (auto simp: checkNotSchema_def Let_def)
  show "checkUniqueItems m m path = []" by (auto simp: checkUniqueItems_def)
  show "checkItemsBoolean m m path = []"
    by (auto simp: checkItemsBoolean_def Let_def split: option.split)
  show "checkDependentRequired m m path = []"
  proof (cases "as_map (jget m ''dependentRequired'')")
    case (Some deps)
    then have wf: "json_wf (JObj deps)" using json_wf_get [OF assms] by (metis as_Some(1))
    have "map_of deps k = Some v" "deep_eq v v" if "(k, v) \<in> set deps" for k v
      using that json_wf_distinct [OF wf] deep_eq_refl [OF json_wf_member [OF wf that]] by auto
    then show ?thesis
      by (auto simp: checkDependentRequired_def Some added_keys_def filter_empty_conv jhas_mem image_iff)
  qed (simp add: checkDependentRequired_def)
qed

lemma strings_self:
  assumes "json_wf (JObj m)" "steady m" shows "checkStringConstraints m m path = Some []"
proof -
  have "iface_eq (jget m ''pattern'') (jget m ''pattern'') = Some True"
    using assms json_wf_get [OF assms(1), of "''pattern''"]
    by (cases "jget m ''pattern''") (auto simp: steady_def json_wf_def f_eq_def)
  then show ?thesis by (simp add: checkStringConstraints_def checkPattern_def Let_def run_all_silent)
qed

lemma dedup_set: "set (deduplicateSchemas ss) \<subseteq> set ss"
proof -
  have "set (fold (\<lambda>s result. if schemaExistsIn s result then result else result @ [s]) ss r) \<subseteq> set ss \<union> set r" for r
  proof (induction ss arbitrary: r)
    case (Cons s ss)
    from Cons.IH [of r] Cons.IH [of "r @ [s]"] show ?case by auto
  qed simp
  from this [of "[]"] show ?thesis by (simp add: deduplicateSchemas_def)
qed

lemma allOf_self:
  assumes "json_wf (JObj m)" "steady m" shows "checkAllOfCompatibility m m path = []"
proof -
  let ?ds = "deduplicateSchemas (getSchemaArrayValue m ''allOf'')"
  have mem: "jget m ''allOf'' = JArr xs \<Longrightarrow> d \<in> set ?ds \<Longrightarrow> JObj d \<in> set xs" for d xs
    using dedup_set by (fastforce simp: getSchemaArrayValue_def set_map_filter)
  have wf: "json_wf (JObj d)" if "d \<in> set ?ds" for d
    using that mem [OF _ that] json_wf_get [OF assms(1), of "''allOf''"] dedup_set
    by (cases "jget m ''allOf''") (auto dest: json_wf_element simp: getSchemaArrayValue_def deduplicateSchemas_def)
  have "allOf_element ?ds path d = []" if "d \<in> set ?ds" for d
  proof -
    have "schemaExistsIn d ?ds"
      using that deep_eq_refl [OF wf [OF that]] by (auto simp: schemaExistsIn_def list_ex_iff simp del: deep_eq.simps)
    then show ?thesis by (simp add: allOf_element_def)
  qed
  moreover have "allOf_type_change path d e = []" if "d \<in> set ?ds" "e \<in> set ?ds" for d e
    using that dedup_set assms(2) by (fastforce simp: allOf_type_change_def Let_def steady_def single_types_def)
  ultimately show ?thesis by (auto simp: checkAllOfCompatibility_def Let_def)
qed

lemma sum_self: "checkSumTypeCompatibility m m path = []"
  by (auto simp: checkSumTypeCompatibility_def Let_def filter_empty_conv hasCompatibleSumOption_def list_ex_iff)

lemma types_self: "areTypesCompatible t t"
  by (auto simp: areTypesCompatible_def list_all_iff list_ex_iff)

text \<open>The recursive methods, given that every subschema is compatible with itself.\<close>

definition children_steady :: "json_check \<Rightarrow> jmap \<Rightarrow> bool" where
  "children_steady check m \<longleftrightarrow> (\<forall>n\<in>set (children m). \<forall>p. check n n p = Some [])"

lemma object_self:
  assumes wf: "json_wf (JObj m)" and ch: "children_steady check m"
  shows "checkObjectCompatibility check m m path = Some []"
proof -
  let ?ps = "getProperties m"
  have "json_wf (JObj ?ps)"
    using json_wf_get [OF wf, of "''properties''"] by (auto simp: getProperties_def json_wf_def split: option.splits)
  then have get: "jget ?ps k = v" "jhas ?ps k" if "(k, v) \<in> set ?ps" for k v
    using that json_wf_distinct by (auto simp: jget_def jhas_mem intro: rev_image_eqI)
  have "removed_property check m ?ps path (k, v) = Some []" if "(k, v) \<in> set ?ps" for k v
    using get [OF that] by (simp add: removed_property_def)
  moreover have "new_property check m m ?ps path (k, v) = Some []" if "(k, v) \<in> set ?ps" for k v
    using get [OF that] by (simp add: new_property_def)
  moreover have "existing_property check ?ps path (k, v) = Some []" if "(k, v) \<in> set ?ps" for k v
    using get [OF that] that children_parts(1) ch
    by (auto simp: existing_property_def children_steady_def split: option.split)
  ultimately show ?thesis by (auto simp: checkObjectCompatibility_def Let_def run_all_silent)
qed

lemma array_self:
  assumes ch: "children_steady check m"
  shows "checkArrayCompatibility check m m path = Some []"
proof -
  have "tuple_pair check (getTupleItems m) (getTupleItems m) p i = Some []" if "i < length (getTupleItems m)" for i p
    using ch tuple_child nth_mem [OF that]
    by (cases "getTupleItems m ! i") (auto simp: tuple_pair_def children_steady_def)
  then have "checkTupleItems check m m path = Some []"
    by (auto simp: checkTupleItems_def Let_def run_all_silent)
  then show ?thesis
    using ch children_parts(3) [of m]
    by (cases "getItems m") (auto simp: checkArrayCompatibility_def run_all_silent children_steady_def)
qed

lemma additional_self:
  assumes ch: "children_steady check m"
  shows "checkAdditionalPropertiesCompatibility check m m path = Some []" "checkAdditionalItems check m m path = Some []"
proof -
  have "check n n p = Some []" if "jget m k = JObj n" "k \<in> set schema_keys" for n k p
    using ch children_intros(1) [OF that] by (simp add: children_steady_def)
  note rec = this [of "''additionalProperties''"] this [of "''additionalItems''"]
  show "checkAdditionalPropertiesCompatibility check m m path = Some []"
    using rec by (cases "jget m ''additionalProperties''")
      (auto simp: checkAdditionalPropertiesCompatibility_def Let_def run_all_silent)
  show "checkAdditionalItems check m m path = Some []"
    using rec by (cases "jget m ''additionalItems''") (auto simp: checkAdditionalItems_def Let_def run_all_silent)
qed

lemma dependencies_self:
  assumes wf: "json_wf (JObj m)" and ch: "children_steady check m"
  shows "checkDependencies check m m path = Some []" "checkDependentSchemas check m m path = Some []"
proof -
  have entry: "map_of deps k = Some v" "deep_eq v v" "v = JObj n \<Longrightarrow> check n n p = Some []"
    if deps: "jget m x = JObj deps" "x \<in> set map_keys" and kv: "(k, v) \<in> set deps" for deps x k v n p
  proof -
    have wfd: "json_wf (JObj deps)" using json_wf_get [OF wf, of x] deps by simp
    show "map_of deps k = Some v" "deep_eq v v"
      using kv json_wf_distinct [OF wfd] deep_eq_refl [OF json_wf_member [OF wfd kv]] by auto
    show "v = JObj n \<Longrightarrow> check n n p = Some []"
      using ch children_intros(2) [OF deps(1) _ deps(2)] kv by (auto simp: children_steady_def)
  qed
  have none: "added_keys what deps deps p = []" for what deps p
    by (auto simp: added_keys_def filter_empty_conv jhas_mem image_iff)
  show "checkDependencies check m m path = Some []"
  proof (cases "jget m ''dependencies''")
    case (JObj deps)
    have "changed_dependency check deps path (k, v) = Some []" if "(k, v) \<in> set deps" for k v
      using entry [OF JObj _ that] by (cases v) (auto simp: changed_dependency_def)
    then show ?thesis by (auto simp: checkDependencies_def JObj run_all_silent none)
  qed (auto simp: checkDependencies_def)
  show "checkDependentSchemas check m m path = Some []"
  proof (cases "jget m ''dependentSchemas''")
    case (JObj deps)
    have "changed_dependent_schema check deps path (k, v) = Some []" if "(k, v) \<in> set deps" for k v
      using entry [OF JObj _ that] by (cases v) (auto simp: changed_dependent_schema_def)
    then show ?thesis by (auto simp: checkDependentSchemas_def JObj run_all_silent none)
  qed (auto simp: checkDependentSchemas_def)
qed

lemma composition_self:
  assumes "json_wf (JObj m)" "steady m" and ch: "children_steady check m"
  shows "checkCompositionCompatibility check m m path = Some []"
proof -
  have "check n n' path = Some []" if "(n, n') \<in> set (composed_pairs m m k)" "k \<in> {''oneOf'', ''anyOf''}" for n n' k
  proof -
    have "n = n'" "n \<in> set (getSchemaArrayValue m k)"
      using that(1) by (auto simp: composed_pairs_def Let_def zip_same split: if_splits)
    moreover have "k \<in> set array_keys" using that(2) by auto
    ultimately show ?thesis using ch children_intros(3) [of n m k] by (auto simp: children_steady_def)
  qed
  then have "checkCompositionSubschemas check m m path = Some []"
    by (auto simp: checkCompositionSubschemas_def first_changed_silent)
  then show ?thesis
    by (simp add: checkCompositionCompatibility_def run_all_silent sum_self allOf_self [OF assms(1,2)])
qed

lemma child_wf:
  assumes "n \<in> set (children m)" "json_wf (JObj m)" shows "json_wf (JObj n)"
proof -
  have "json_wf (jget m k)" for k by (rule json_wf_get [OF assms(2)])
  then have "jget m k = JObj n \<Longrightarrow> json_wf (JObj n)"
    "jget m k = JObj es \<Longrightarrow> (x, JObj n) \<in> set es \<Longrightarrow> json_wf (JObj n)"
    "jget m k = JArr xs \<Longrightarrow> JObj n \<in> set xs \<Longrightarrow> json_wf (JObj n)" for k x es xs
    by (metis json_wf_member json_wf_element)+
  with assms(1) show ?thesis
    by (auto simp: children_iff getSchemaArrayValue_def set_map_filter split: option.splits)
qed

lemma steady_self:
  assumes "json_wf (JObj m)" "list_all steady (subschemas m)"
  shows "checkCompatibility m m path = Some []"
  using assms
proof (induction "size (JObj m)" arbitrary: m path rule: less_induct)
  case less
  note wf = less.prems(1)
  have st: "steady m" "n \<in> set (children m) \<Longrightarrow> list_all steady (subschemas n)" for n
    using less.prems(2) by (simp_all add: all_subschemas [of _ m])
  have "checkCompatibility n n p = Some []" if n: "n \<in> set (children m)" for n p
  proof (rule less.hyps)
    show "size (JObj n) < size (JObj m)" using children_smaller [OF n] by (simp add: smaller_def)
    show "json_wf (JObj n)" using n wf by (rule child_wf)
  qed (rule st(2) [OF n])
  then have ch: "children_steady checkCompatibility m" by (simp add: children_steady_def)
  note parts = keywords_self [OF wf] strings_self [OF wf st(1)] object_self [OF wf ch] array_self [OF ch]
    additional_self [OF ch] dependencies_self [OF wf ch] composition_self [OF wf st(1) ch] types_self
  show ?case by (subst check_silent) (simp add: parts)
qed

end
