(* ===== verification/Json_Soundness.thy ===== *)
theory Json_Soundness
  imports Json_Properties
begin

text \<open>
  Acceptance by the JSON Schema checker means what compatibility should mean, on schemas of the core
  keywords: every instance that is valid under the old schema is valid under the new one.  Validity
  is defined independently of the checker.  The last section shows, for each condition that \<open>core\<close>
  imposes beyond the form of the keywords, an accepted change that loses instances.
\<close>

section \<open>Acceptance is sound on the core keywords\<close>

text \<open>
  Validity of an instance under a schema of the core keywords, as JSON Schema defines it: the
  matching of regular expressions is a parameter.  A string is measured in characters.
\<close>

definition rune_count :: "string \<Rightarrow> nat" where
  "rune_count s = length (filter (\<lambda>c. \<not> (128 \<le> (of_char c :: nat) \<and> (of_char c :: nat) < 192)) s)"

fun has_type :: "string \<Rightarrow> json \<Rightarrow> bool" where
  "has_type t JNull \<longleftrightarrow> t = ''null''"
| "has_type t (JBool _) \<longleftrightarrow> t = ''boolean''"
| "has_type t (JNum x) \<longleftrightarrow> t = ''number'' \<or> (t = ''integer'' \<and> f_val x = of_int \<lfloor>f_val x\<rfloor>)"
| "has_type t (JStr _) \<longleftrightarrow> t = ''string''"
| "has_type t (JArr _) \<longleftrightarrow> t = ''array''"
| "has_type t (JObj _) \<longleftrightarrow> t = ''object''"

definition bound :: "jmap \<Rightarrow> string \<Rightarrow> rat" where
  "bound m k = f_val (toFloat64 (jget m k))"

definition between :: "jmap \<Rightarrow> string \<Rightarrow> string \<Rightarrow> rat \<Rightarrow> bool" where
  "between m lo hi x \<longleftrightarrow> (jhas m lo \<longrightarrow> bound m lo \<le> x) \<and> (jhas m hi \<longrightarrow> x \<le> bound m hi)"

definition strictly_between :: "jmap \<Rightarrow> string \<Rightarrow> string \<Rightarrow> rat \<Rightarrow> bool" where
  "strictly_between m lo hi x \<longleftrightarrow> (jhas m lo \<longrightarrow> bound m lo < x) \<and> (jhas m hi \<longrightarrow> x < bound m hi)"

function valid :: "(string \<Rightarrow> string \<Rightarrow> bool) \<Rightarrow> jmap \<Rightarrow> json \<Rightarrow> bool" where
  "valid matches m v \<longleftrightarrow>
     list_ex (\<lambda>t. has_type t v) (normalizeType (getType m)) \<and>
     (case getEnum m of None \<Rightarrow> True | Some vs \<Rightarrow> list_ex (\<lambda>w. deep_eq w v) vs) \<and>
     (jhas m ''const'' \<longrightarrow> deep_eq (jget m ''const'') v) \<and>
     (case v of
        JNum x \<Rightarrow> between m ''minimum'' ''maximum'' (f_val x) \<and>
                  strictly_between m ''exclusiveMinimum'' ''exclusiveMaximum'' (f_val x)
      | JStr s \<Rightarrow> between m ''minLength'' ''maxLength'' (of_nat (rune_count s)) \<and>
                  (case as_string (jget m ''pattern'') of None \<Rightarrow> True | Some p \<Rightarrow> matches p s)
      | JArr xs \<Rightarrow> between m ''minItems'' ''maxItems'' (of_nat (length xs)) \<and>
                   (jget m ''uniqueItems'' = JBool True \<longrightarrow>
                      sorted_wrt (\<lambda>x y. \<not> deep_eq x y) xs) \<and>
                   (case getItems m of None \<Rightarrow> True | Some items \<Rightarrow> list_all (valid matches items) xs)
      | JObj es \<Rightarrow> between m ''minProperties'' ''maxProperties'' (of_nat (length es)) \<and>
                   list_all (jhas es) (getRequiredSet m) \<and>
                   list_all (\<lambda>(k, w).
                     case map_of (getProperties m) k of
                       Some prop \<Rightarrow> (case as_map prop of Some n \<Rightarrow> valid matches n w | None \<Rightarrow> True)
                     | None \<Rightarrow> jget m ''additionalProperties'' \<noteq> JBool False) es
      | _ \<Rightarrow> True)"
  by pat_completeness auto
termination
  by (relation "measure (\<lambda>(_, _, v). size v)") (auto dest: size_element size_entry)

declare valid.simps [simp del]

text \<open>The schemas of the core keywords: the keywords have the forms JSON Schema gives them.\<close>

definition core_keys :: "string list" where
  "core_keys =
     [''type'', ''properties'', ''required'', ''additionalProperties'', ''items'', ''enum'', ''const'',
      ''minLength'', ''maxLength'', ''pattern'', ''minimum'', ''maximum'', ''exclusiveMinimum'',
      ''exclusiveMaximum'', ''minItems'', ''maxItems'', ''uniqueItems'', ''minProperties'',
      ''maxProperties'', ''$schema'', ''$id'', ''title'', ''description'', ''default'']"

definition bound_keys :: "string list" where
  "bound_keys =
     [''minLength'', ''maxLength'', ''minimum'', ''maximum'', ''exclusiveMinimum'', ''exclusiveMaximum'',
      ''minItems'', ''maxItems'', ''minProperties'', ''maxProperties'']"

fun is_number :: "json \<Rightarrow> bool" where
  "is_number (JNum x) = f_finite x"
| "is_number _ = False"

definition core :: "jmap \<Rightarrow> bool" where
  "core m \<longleftrightarrow>
     list_all (\<lambda>(k, _). k \<in> set core_keys) m \<and>
     normalizeType (getType m) \<noteq> [] \<and>
     distinct (map fst (getProperties m)) \<and>
     list_all (\<lambda>(_, prop). as_map prop \<noteq> None) (getProperties m) \<and>
     list_all (jhas (getProperties m)) (getRequiredSet m) \<and>
     (jhas m ''additionalProperties'' \<longrightarrow> as_bool (jget m ''additionalProperties'') \<noteq> None) \<and>
     (jhas m ''items'' \<longrightarrow> getItems m \<noteq> None) \<and>
     (case getEnum m of None \<Rightarrow> True | Some vs \<Rightarrow> list_all (\<lambda>w. as_string w \<noteq> None) vs) \<and>
     (jhas m ''const'' \<longrightarrow> comparable (jget m ''const'')) \<and>
     (jhas m ''pattern'' \<longrightarrow> as_string (jget m ''pattern'') \<noteq> None) \<and>
     list_all (\<lambda>k. jhas m k \<longrightarrow> is_number (jget m k)) bound_keys"

lemma coreD:
  assumes "core m"
  shows "jhas m k \<Longrightarrow> k \<in> set core_keys"
    and "getType m \<noteq> JNull"
    and "distinct (map fst (getProperties m))"
    and "(x, prop) \<in> set (getProperties m) \<Longrightarrow> \<exists>n. prop = JObj n"
    and "r \<in> set (getRequiredSet m) \<Longrightarrow> jhas (getProperties m) r"
    and "jhas m ''additionalProperties'' \<Longrightarrow> \<exists>b. jget m ''additionalProperties'' = JBool b"
    and "jhas m ''items'' \<Longrightarrow> \<exists>n. getItems m = Some n"
    and "getEnum m = Some vs \<Longrightarrow> w \<in> set vs \<Longrightarrow> \<exists>s. w = JStr s"
    and "jhas m ''const'' \<Longrightarrow> comparable (jget m ''const'')"
    and "jhas m ''pattern'' \<Longrightarrow> \<exists>s. jget m ''pattern'' = JStr s"
    and "k \<in> set bound_keys \<Longrightarrow> jhas m k \<Longrightarrow> is_number (jget m k)"
  using assms unfolding core_def
  by (fastforce simp: list_all_iff jhas_mem getItems_def)+

lemma core_no_keyword: "core m \<Longrightarrow> k \<notin> set core_keys \<Longrightarrow> \<not> jhas m k"
  using coreD(1) by blast

lemma core_keyword_facts:
  assumes "core m"
  shows "\<not> hasCompositionKeyword m" "\<not> hasCoveringPatternProperties m" "getAdditionalPropertiesSchema m = None"
proof -
  have "\<not> jhas m ''oneOf''" "\<not> jhas m ''anyOf''" "\<not> jhas m ''allOf''" "\<not> jhas m ''patternProperties''"
    by (rule core_no_keyword [OF assms], simp add: core_keys_def)+
  then show "\<not> hasCompositionKeyword m" "\<not> hasCoveringPatternProperties m"
    by (simp_all add: hasCompositionKeyword_def hasCoveringPatternProperties_def)
  show "getAdditionalPropertiesSchema m = None"
    using coreD(6) [OF assms] by (auto simp: getAdditionalPropertiesSchema_def)
qed

lemma bound_loosened:
  assumes "core new" "core old" "k \<in> set bound_keys"
  shows "checkConstraintChange new old k path True = [] \<Longrightarrow> jhas new k \<Longrightarrow> jhas old k \<and> bound new k \<le> bound old k"
    and "checkConstraintChange new old k path False = [] \<Longrightarrow> jhas new k \<Longrightarrow> jhas old k \<and> bound old k \<le> bound new k"
proof -
  have num: "\<exists>x. jget m k = JNum x \<and> f_finite x" if "jhas m k" "core m" for m
    using coreD(11) [OF that(2) assms(3) that(1)] by (cases "jget m k") auto
  have not_less: "\<not> f_less x y \<Longrightarrow> f_finite x \<Longrightarrow> f_finite y \<Longrightarrow> f_val y \<le> f_val x" for x y
    by (cases x; cases y) (auto simp: f_less_def)
  show "jhas new k \<Longrightarrow> jhas old k \<and> bound new k \<le> bound old k"
    if "checkConstraintChange new old k path True = []"
    using that num [OF _ assms(1)] num [OF _ assms(2)] not_less
    by (fastforce simp: checkConstraintChange_def Let_def bound_def split: if_splits)
  show "jhas new k \<Longrightarrow> jhas old k \<and> bound old k \<le> bound new k"
    if "checkConstraintChange new old k path False = []"
    using that num [OF _ assms(1)] num [OF _ assms(2)] not_less
    by (fastforce simp: checkConstraintChange_def Let_def bound_def split: if_splits)
qed

lemma between_mono:
  assumes "core new" "core old" "lo \<in> set bound_keys" "hi \<in> set bound_keys"
    and "checkConstraintChange new old lo path True = []" "checkConstraintChange new old hi path False = []"
  shows "between old lo hi x \<Longrightarrow> between new lo hi x"
    and "strictly_between old lo hi x \<Longrightarrow> strictly_between new lo hi x"
  using bound_loosened(1) [OF assms(1-3,5)] bound_loosened(2) [OF assms(1,2,4,6)]
  unfolding between_def strictly_between_def by fastforce+

lemma accepted_parts:
  assumes "core new" "core old" "checkCompatibility new old path = Some []"
  shows "areTypesCompatible (getType new) (getType old)"
    and "object_like new old \<Longrightarrow> checkObjectCompatibility checkCompatibility new old path = Some []"
    and "array_like new old \<Longrightarrow> checkArrayCompatibility checkCompatibility new old path = Some []"
    and "checkEnumCompatibility new old path = []" "checkConstCompatibility new old path = []"
    and "checkAdditionalPropertiesCompatibility checkCompatibility new old path = Some []"
    and "checkStringConstraints new old path = Some []" "checkNumericConstraints new old path = []"
    and "checkPropertyCountConstraints new old path = []" "checkUniqueItems new old path = []"
proof -
  have "\<not> pure_composition new old" by (simp add: pure_composition_def core_keyword_facts assms(1,2))
  then show "areTypesCompatible (getType new) (getType old)"
    "object_like new old \<Longrightarrow> checkObjectCompatibility checkCompatibility new old path = Some []"
    "array_like new old \<Longrightarrow> checkArrayCompatibility checkCompatibility new old path = Some []"
    "checkEnumCompatibility new old path = []" "checkConstCompatibility new old path = []"
    "checkAdditionalPropertiesCompatibility checkCompatibility new old path = Some []"
    "checkStringConstraints new old path = Some []" "checkNumericConstraints new old path = []"
    "checkPropertyCountConstraints new old path = []" "checkUniqueItems new old path = []"
    using assms(3) by (simp_all add: check_silent [of new])
qed

lemma types_sound:
  assumes "areTypesCompatible (getType new) (getType old)" "getType new \<noteq> JNull" "getType old \<noteq> JNull"
    and "list_ex (\<lambda>t. has_type t v) (normalizeType (getType old))"
  shows "list_ex (\<lambda>t. has_type t v) (normalizeType (getType new))"
proof -
  obtain ot where ot: "ot \<in> set (normalizeType (getType old))" "has_type ot v"
    using assms(4) by (auto simp: list_ex_iff)
  then obtain nt where nt: "nt \<in> set (normalizeType (getType new))" "nt = ot \<or> isTypePromotion ot nt"
    using assms(1-3) by (auto simp: areTypesCompatible_def list_all_iff list_ex_iff)
  have "has_type nt v" using nt(2) ot(2) by (cases v) (auto simp: isTypePromotion_def)
  with nt(1) show ?thesis by (auto simp: list_ex_iff)
qed

lemma enum_sound:
  assumes "core new" "core old" "checkEnumCompatibility new old path = []" "getEnum new = Some vs"
    and "case getEnum old of None \<Rightarrow> True | Some ws \<Rightarrow> list_ex (\<lambda>w. deep_eq w v) ws"
  shows "list_ex (\<lambda>w. deep_eq w v) vs"
proof (cases "getEnum old")
  case (Some ws)
  obtain w where w: "w \<in> set ws" "deep_eq w v" using assms(5) Some by (auto simp: list_ex_iff)
  obtain s where s: "w = JStr s" using coreD(8) [OF assms(2) Some w(1)] by auto
  with w have v: "v = JStr s" by (cases v) auto
  have "fmt_v w \<in> fmt_v ` set vs"
    using assms(3,4) Some w(1) by (auto simp: checkEnumCompatibility_def Let_def filter_empty_conv)
  then obtain u where u: "u \<in> set vs" "fmt_v u = s" using s by auto
  moreover obtain s' where "u = JStr s'" using coreD(8) [OF assms(1,4) u(1)] by blast
  ultimately have "u = JStr s" by simp
  with u(1) v show ?thesis by (auto simp: list_ex_iff intro!: bexI [of _ "JStr s"])
qed (use assms in \<open>simp add: checkEnumCompatibility_def\<close>)

lemma const_sound:
  assumes "core new" "core old" "checkConstCompatibility new old path = []" "jhas new ''const''"
    and "jhas old ''const'' \<longrightarrow> deep_eq (jget old ''const'') v"
  shows "deep_eq (jget new ''const'') v"
proof -
  have "deep_eq (jget old ''const'') v" "deep_eq (jget old ''const'') (jget new ''const'')" "jhas old ''const''"
    using assms(3-5) by (auto simp: checkConstCompatibility_def Let_def split: if_splits)
  with coreD(9) [OF assms(1,4)] coreD(9) [OF assms(2)] show ?thesis
    by (cases "jget old ''const''"; cases "jget new ''const''"; cases v) (auto simp: f_eq_def split: if_splits)
qed

lemma pattern_sound:
  assumes "core new" "core old" "checkStringConstraints new old path = Some []"
    and "as_string (jget new ''pattern'') = Some p"
  shows "as_string (jget old ''pattern'') = Some p"
proof -
  have n: "jhas new ''pattern''" "jget new ''pattern'' = JStr p" using assms(4) jget_has by force+
  have "checkPattern new old path = Some []" using assms(3) by (simp add: checkStringConstraints_def run_all_silent)
  with n coreD(10) [OF assms(2)] show ?thesis
    by (auto simp: checkPattern_def Let_def split: option.splits bool.splits if_splits)
qed

lemma required_sound:
  assumes "core new" "core old" "checkObjectCompatibility checkCompatibility new old path = Some []"
    and "r \<in> set (getRequiredSet new)"
  shows "r \<in> set (getRequiredSet old)"
proof -
  have "jhas (getProperties new) r" by (rule coreD(5) [OF assms(1,4)])
  then obtain pr where pr: "(r, pr) \<in> set (getProperties new)" by (auto simp: jhas_mem)
  with coreD(4) [OF assms(1)] obtain n where n: "pr = JObj n" by blast
  have "new_property checkCompatibility new old (getProperties old) path (r, pr) = Some []"
    using assms(3) pr by (auto simp: checkObjectCompatibility_def Let_def run_all_silent)
  with assms(4) n show ?thesis by (auto simp: new_property_def Let_def split: if_splits)
qed

lemma property_sound:
  assumes "core new" "core old" "checkObjectCompatibility checkCompatibility new old path = Some []"
    and "map_of (getProperties new) k = Some (JObj n)"
  shows "(\<exists>n' p. map_of (getProperties old) k = Some (JObj n') \<and> checkCompatibility n n' p = Some []) \<or>
    (map_of (getProperties old) k = None \<and> jget old ''additionalProperties'' = JBool False)"
proof -
  have mem: "(k, JObj n) \<in> set (getProperties new)" using assms(4) by (rule map_of_SomeD)
  have new: "new_property checkCompatibility new old (getProperties old) path (k, JObj n) = Some []"
    and ex: "existing_property checkCompatibility (getProperties old) path (k, JObj n) = Some []"
    using assms(3) mem by (auto simp: checkObjectCompatibility_def Let_def run_all_silent)
  show ?thesis
  proof (cases "map_of (getProperties old) k")
    case None
    then have "\<not> hasOpenContentModel old"
      using new by (auto simp: new_property_def Let_def jhas_def split: if_splits)
    then show ?thesis
      using None coreD(6) [OF assms(2)] by (auto simp: hasOpenContentModel_def split: if_splits option.splits)
  next
    case (Some pr)
    with coreD(4) [OF assms(2)] obtain n' where "pr = JObj n'" by (blast dest: map_of_SomeD)
    with Some ex show ?thesis by (auto simp: existing_property_def jhas_def jget_def)
  qed
qed

lemma additional_sound:
  assumes "core new" "core old" "checkObjectCompatibility checkCompatibility new old path = Some []"
    and "checkAdditionalPropertiesCompatibility checkCompatibility new old path = Some []"
    and "map_of (getProperties new) k = None" "jget new ''additionalProperties'' = JBool False"
  shows "map_of (getProperties old) k = None \<and> jget old ''additionalProperties'' = JBool False"
proof
  have has: "jhas new ''additionalProperties''" using assms(6) jget_has by force
  show "map_of (getProperties old) k = None"
  proof (rule ccontr)
    assume "map_of (getProperties old) k \<noteq> None"
    then obtain pr where pr: "(k, pr) \<in> set (getProperties old)" by (auto dest: map_of_SomeD)
    then obtain n where n: "pr = JObj n" using coreD(4) [OF assms(2)] by blast
    have "removed_property checkCompatibility new (getProperties new) path (k, pr) = Some []"
      using assms(3) pr by (auto simp: checkObjectCompatibility_def Let_def run_all_silent)
    then show False
      using assms(5,6) has core_keyword_facts [OF assms(1)]
      by (auto simp: removed_property_def Let_def jhas_def hasOpenContentModel_def n)
  qed
  show "jget old ''additionalProperties'' = JBool False"
    using assms(4,6) has coreD(6) [OF assms(2)]
    by (auto simp: checkAdditionalPropertiesCompatibility_def Let_def run_all_silent)
qed

lemma not_object_like:
  assumes "\<not> object_like new old"
  shows "getProperties new = []" "getRequiredSet new = []" "jget new ''additionalProperties'' = JNull"
proof -
  have "\<not> jhas new ''properties''" "\<not> jhas new ''required''" "\<not> jhas new ''additionalProperties''"
    using assms by (auto simp: object_like_def hasObjectKeywords_def)
  then show "getProperties new = []" "getRequiredSet new = []" "jget new ''additionalProperties'' = JNull"
    by (auto simp: getProperties_def getRequiredSet_def jget_def jhas_def)
qed

lemma object_sound:
  assumes "core new" "core old" and acc: "checkCompatibility new old path = Some []"
    and sub: "\<And>k n n' w p. (k, w) \<in> set es \<Longrightarrow> map_of (getProperties new) k = Some (JObj n) \<Longrightarrow>
        map_of (getProperties old) k = Some (JObj n') \<Longrightarrow> checkCompatibility n n' p = Some [] \<Longrightarrow>
        valid matches n' w \<Longrightarrow> valid matches n w"
    and old: "valid matches old (JObj es)"
  shows "list_all (jhas es) (getRequiredSet new)"
    and "(k, w) \<in> set es \<Longrightarrow>
      case map_of (getProperties new) k of
        Some prop \<Rightarrow> (case as_map prop of Some n \<Rightarrow> valid matches n w | None \<Rightarrow> True)
      | None \<Rightarrow> jget new ''additionalProperties'' \<noteq> JBool False"
proof -
  note parts = accepted_parts [OF assms(1-3)]
  have old_req: "list_all (jhas es) (getRequiredSet old)" and old_prop: "(k, w) \<in> set es \<Longrightarrow>
      case map_of (getProperties old) k of
        Some prop \<Rightarrow> (case as_map prop of Some n \<Rightarrow> valid matches n w | None \<Rightarrow> True)
      | None \<Rightarrow> jget old ''additionalProperties'' \<noteq> JBool False" for k w
    using old by (auto simp: valid.simps [of _ old] list_all_iff)
  show "list_all (jhas es) (getRequiredSet new)"
  proof (cases "object_like new old")
    case True
    then show ?thesis using required_sound [OF assms(1,2) parts(2)] old_req by (auto simp: list_all_iff)
  qed (simp add: not_object_like)
  show "case map_of (getProperties new) k of
        Some prop \<Rightarrow> (case as_map prop of Some n \<Rightarrow> valid matches n w | None \<Rightarrow> True)
      | None \<Rightarrow> jget new ''additionalProperties'' \<noteq> JBool False" if kw: "(k, w) \<in> set es"
  proof (cases "object_like new old")
    case True
    note obj = parts(2) [OF True]
    show ?thesis
    proof (cases "map_of (getProperties new) k")
      case None
      then show ?thesis
        using additional_sound [OF assms(1,2) obj parts(6) None] old_prop [OF kw] by auto
    next
      case (Some pr)
      with coreD(4) [OF assms(1)] obtain n where n: "pr = JObj n" by (blast dest: map_of_SomeD)
      from property_sound [OF assms(1,2) obj, of k n] Some n old_prop [OF kw]
      obtain n' p where "map_of (getProperties old) k = Some (JObj n')" "checkCompatibility n n' p = Some []" by auto
      with sub [OF kw] old_prop [OF kw] Some n show ?thesis by auto
    qed
  qed (simp add: not_object_like)
qed

lemma items_sound:
  assumes "core new" "core old" "checkCompatibility new old path = Some []" "getItems new = Some n"
  shows "\<exists>n' p. getItems old = Some n' \<and> checkCompatibility n n' p = Some []"
proof -
  have "jhas new ''items''" using assms(4) jget_has [of new "''items''"] by (auto simp: getItems_def)
  then have "array_like new old" by (simp add: array_like_def hasArrayKeywords_def)
  from accepted_parts(3) [OF assms(1-3) this] assms(4) coreD(7) [OF assms(2)] show ?thesis
    by (auto simp: checkArrayCompatibility_def run_all_silent split: option.splits)
qed

lemma bounds_sound:
  assumes "core new" "core old" "checkCompatibility new old path = Some []"
  shows "between old ''minimum'' ''maximum'' x \<Longrightarrow> between new ''minimum'' ''maximum'' x"
    and "strictly_between old ''exclusiveMinimum'' ''exclusiveMaximum'' x \<Longrightarrow>
         strictly_between new ''exclusiveMinimum'' ''exclusiveMaximum'' x"
    and "between old ''minLength'' ''maxLength'' x \<Longrightarrow> between new ''minLength'' ''maxLength'' x"
    and "between old ''minProperties'' ''maxProperties'' x \<Longrightarrow> between new ''minProperties'' ''maxProperties'' x"
    and "between old ''minItems'' ''maxItems'' x \<Longrightarrow> between new ''minItems'' ''maxItems'' x"
proof -
  note parts = accepted_parts [OF assms]
  note num = parts(8) [unfolded checkNumericConstraints_def, simplified]
  note mono = between_mono [OF assms(1,2), where path = path]
  show "between old ''minimum'' ''maximum'' x \<Longrightarrow> between new ''minimum'' ''maximum'' x"
    by (rule mono(1)) (use num in \<open>simp_all add: bound_keys_def\<close>)
  show "strictly_between old ''exclusiveMinimum'' ''exclusiveMaximum'' x \<Longrightarrow>
      strictly_between new ''exclusiveMinimum'' ''exclusiveMaximum'' x"
    by (rule mono(2)) (use num in \<open>simp_all add: bound_keys_def\<close>)
  show "between old ''minLength'' ''maxLength'' x \<Longrightarrow> between new ''minLength'' ''maxLength'' x"
    by (rule mono(1)) (use parts(7) in \<open>simp_all add: bound_keys_def checkStringConstraints_def run_all_silent\<close>)
  show "between old ''minProperties'' ''maxProperties'' x \<Longrightarrow> between new ''minProperties'' ''maxProperties'' x"
    by (rule mono(1)) (use parts(9) in \<open>simp_all add: bound_keys_def checkPropertyCountConstraints_def\<close>)
  show "between old ''minItems'' ''maxItems'' x \<Longrightarrow> between new ''minItems'' ''maxItems'' x"
  proof (cases "array_like new old")
    case True
    show "between old ''minItems'' ''maxItems'' x \<Longrightarrow> between new ''minItems'' ''maxItems'' x"
      by (rule mono(1)) (use parts(3) [OF True] in \<open>simp_all add: bound_keys_def checkArrayCompatibility_def run_all_silent\<close>)
  next
    case False
    then have "\<not> jhas new ''minItems''" "\<not> jhas new ''maxItems''" by (auto simp: array_like_def hasArrayKeywords_def)
    then show "between new ''minItems'' ''maxItems'' x" by (simp add: between_def)
  qed
qed

lemma accepted_sound:
  assumes "list_all core (subschemas new)" "list_all core (subschemas old)"
    and "checkCompatibility new old path = Some []" "valid matches old v"
  shows "valid matches new v"
  using assms
proof (induction "size v" arbitrary: v new old path rule: less_induct)
  case less
  have c: "core new" "core old" using less.prems(1,2) all_subschemas by blast+
  note acc = less.prems(3) and parts = accepted_parts [OF c less.prems(3)]
  have rec: "valid matches n w" if "size w < size v" "n \<in> set (children new)" "n' \<in> set (children old)"
    "checkCompatibility n n' p = Some []" "valid matches n' w" for n n' w p
    using less.hyps [OF that(1) _ _ that(4,5)] less.prems(1,2) that(2,3)
      all_subschemas [of core new] all_subschemas [of core old] by blast
  note old = less.prems(4) [unfolded valid.simps [of _ old]]
  have "list_ex (\<lambda>t. has_type t v) (normalizeType (getType new))"
    using types_sound [OF parts(1) coreD(2) [OF c(1)] coreD(2) [OF c(2)]] old by blast
  moreover have "case getEnum new of None \<Rightarrow> True | Some vs \<Rightarrow> list_ex (\<lambda>w. deep_eq w v) vs"
    using enum_sound [OF c parts(4)] old by (auto split: option.split)
  moreover have "jhas new ''const'' \<longrightarrow> deep_eq (jget new ''const'') v"
    using const_sound [OF c parts(5)] old by blast
  moreover have "case as_string (jget new ''pattern'') of None \<Rightarrow> True | Some p \<Rightarrow> matches p s" if "v = JStr s" for s
    using pattern_sound [OF c parts(7)] old that by (auto split: option.split)
  moreover have "jget new ''uniqueItems'' = JBool True \<longrightarrow> sorted_wrt (\<lambda>x y. \<not> deep_eq x y) xs" if "v = JArr xs" for xs
    using parts(10) old that jget_has [of new "''uniqueItems''"] by (auto simp: checkUniqueItems_def split: if_splits)
  moreover have "case getItems new of None \<Rightarrow> True | Some items \<Rightarrow> list_all (valid matches items) xs" if v: "v = JArr xs" for xs
  proof (cases "getItems new")
    case (Some n)
    from items_sound [OF c acc Some] obtain n' p where n': "getItems old = Some n'" "checkCompatibility n n' p = Some []"
      by blast
    have "valid matches n w" if "w \<in> set xs" for w
      using that rec [of w n n' p] size_element [OF that] children_parts(3) Some n' old v
      by (auto simp: list_all_iff)
    then show ?thesis by (simp add: Some list_all_iff)
  qed simp
  moreover have "list_all (jhas es) (getRequiredSet new)"
    "list_all (\<lambda>(k, w). case map_of (getProperties new) k of
        Some prop \<Rightarrow> (case as_map prop of Some n \<Rightarrow> valid matches n w | None \<Rightarrow> True)
      | None \<Rightarrow> jget new ''additionalProperties'' \<noteq> JBool False) es" if v: "v = JObj es" for es
  proof -
    have sub: "valid matches n w" if "(k, w) \<in> set es" "map_of (getProperties new) k = Some (JObj n)"
      "map_of (getProperties old) k = Some (JObj n')" "checkCompatibility n n' p = Some []" "valid matches n' w" for k n n' w p
      using rec [OF _ _ _ that(4,5)] size_entry [OF that(1)] that(2,3) v by (auto dest!: map_of_SomeD intro: children_parts(1))
    note obj = object_sound [OF c acc sub less.prems(4) [unfolded v]]
    show "list_all (jhas es) (getRequiredSet new)" by (rule obj(1))
    show "list_all (\<lambda>(k, w). case map_of (getProperties new) k of
        Some prop \<Rightarrow> (case as_map prop of Some n \<Rightarrow> valid matches n w | None \<Rightarrow> True)
      | None \<Rightarrow> jget new ''additionalProperties'' \<noteq> JBool False) es"
      using obj(2) by (auto simp: list_all_iff)
  qed
  ultimately show ?case
    using old bounds_sound [OF c acc] by (subst valid.simps) (cases v; simp)
qed

section \<open>The checker as a whole\<close>

definition resolved :: "(string \<Rightarrow> string + jmap) \<Rightarrow> SchemaWithRefs \<Rightarrow> jmap option" where
  "resolved unmarshal s =
     (case unmarshal (sw_Schema s) of
        Inl _ \<Rightarrow> None
      | Inr m \<Rightarrow> Some (resolveAllRefs m (buildExternalRefMap unmarshal (sw_References s))))"

lemma fold_messages:
  "re_Messages (fold (\<lambda>msg result. Result_AddMessage result msg) msgs r) = re_Messages r @ msgs"
  "re_IsCompatible (fold (\<lambda>msg result. Result_AddMessage result msg) msgs r) \<longleftrightarrow> re_IsCompatible r \<and> msgs = []"
  by (induction msgs arbitrary: r) (auto simp: Result_AddMessage_def)

lemma JsonChecker_compatible:
  "(\<exists>res. JsonChecker_Check unmarshal reader writer = Some res \<and> re_IsCompatible res) \<longleftrightarrow>
     (\<exists>new old. resolved unmarshal reader = Some new \<and> resolved unmarshal writer = Some old \<and>
        checkCompatibility new old [] = Some [])"
  by (auto simp: JsonChecker_Check_def resolved_def fold_messages split: sum.splits)

text \<open>
  The checker as the registry sees it: a panic ends the request, so that nothing is accepted.
\<close>

definition json_checker :: "(string \<Rightarrow> string + jmap) \<Rightarrow> SchemaChecker" where
  "json_checker unmarshal reader writer =
     (case JsonChecker_Check unmarshal reader writer of Some res \<Rightarrow> res | None \<Rightarrow> NewIncompatibleResult [''panic''])"

lemma json_checker_honest: "honest (json_checker unmarshal reader writer)"
  by (auto simp: json_checker_def JsonChecker_Check_def honest_def fold_messages NewIncompatibleResult_def
      NewCompatibleResult_def split: sum.splits option.splits)

interpretation json: schema_checker "json_checker unmarshal" for unmarshal
  by unfold_locales (rule json_checker_honest)

lemma json_checker_compatible:
  "re_IsCompatible (json_checker unmarshal reader writer) \<longleftrightarrow>
     (\<exists>new old. resolved unmarshal reader = Some new \<and> resolved unmarshal writer = Some old \<and>
        checkCompatibility new old [] = Some [])"
  unfolding JsonChecker_compatible [symmetric] by (auto simp: json_checker_def split: option.splits)

text \<open>Two schemas for the witnesses: a closed object, and the same with an optional property more.\<close>

definition person_v1 :: jmap where
  "person_v1 =
     [(''type'', JStr ''object''),
      (''properties'', JObj [(''age'', JObj [(''type'', JStr ''integer''), (''minimum'', JNum (Fin 0))])]),
      (''required'', JArr [JStr ''age'']), (''additionalProperties'', JBool False)]"

definition person_v2 :: jmap where
  "person_v2 =
     [(''type'', JStr ''object''),
      (''properties'', JObj [(''age'', JObj [(''type'', JStr ''number'')]), (''name'', JObj [(''type'', JStr ''string'')])]),
      (''additionalProperties'', JBool False)]"

definition person_unmarshal :: "string \<Rightarrow> string + jmap" where
  "person_unmarshal s = (if s = ''v1'' then Inr person_v1 else if s = ''v2'' then Inr person_v2 else Inl ''syntax error'')"

definition person :: "string \<Rightarrow> SchemaWithRefs" where
  "person s = \<lparr>sw_Schema = s, sw_References = []\<rparr>"

text \<open>
  C2.  Acceptance is sound.  When a new JSON schema passes the registry's compatibility check under a
  backward mode, every instance valid under the latest version (under a transitive mode: under any
  version) of the history is valid under the new schema, for schemas of the core keywords that
  declare their types, close or open their objects by a boolean, and require only properties they
  declare.
\<close>

theorem json_accepted_sound:
  assumes "re_IsCompatible (Checker_Check (Checker_Register c ''JSON'' (json_checker unmarshal)) mode ''JSON'' new olds)"
    and "Mode_RequiresBackward mode" "old \<in> set olds" "Mode_IsTransitive mode \<or> old = last olds"
    and "resolved unmarshal new = Some newSchema" "resolved unmarshal old = Some oldSchema"
    and "list_all core (subschemas newSchema)" "list_all core (subschemas oldSchema)"
    and "valid matches oldSchema v"
  shows "valid matches newSchema v"
proof -
  have "mode_ok (json_checker unmarshal) mode new olds"
    using assms(1) by (simp add: json.Check_verdict [OF registered])
  with assms(2-4) have "re_IsCompatible (json_checker unmarshal new old)"
    by (auto simp: mode_ok_def pair_ok_def list_all_iff split: if_splits)
  with assms(5,6) have "checkCompatibility newSchema oldSchema [] = Some []" by (simp add: json_checker_compatible)
  from accepted_sound [OF assms(7,8) this assms(9)] show ?thesis .
qed

lemma person_facts:
  "resolved person_unmarshal (person ''v1'') = Some person_v1" "resolved person_unmarshal (person ''v2'') = Some person_v2"
  "list_all core (subschemas person_v1)" "list_all core (subschemas person_v2)"
  "checkCompatibility person_v2 person_v1 [] = Some []"
  "valid (=) person_v1 (JObj [(''age'', JNum (Fin 3))])"
  by code_simp+

theorem json_accepted_sound_witness:
  "valid (=) person_v2 (JObj [(''age'', JNum (Fin 3))])"
proof (rule json_accepted_sound [where c = NewChecker and mode = ModeBackward and new = "person ''v2''" and
      olds = "[person ''v1'']" and old = "person ''v1''" and oldSchema = person_v1 and unmarshal = person_unmarshal])
  show "re_IsCompatible (Checker_Check (Checker_Register NewChecker ''JSON'' (json_checker person_unmarshal)) ModeBackward
      ''JSON'' (person ''v2'') [person ''v1''])"
    by (simp add: json.Check_verdict [OF registered] mode_ok_def pair_ok_def json_checker_compatible person_facts
        Mode_IsTransitive_def Mode_RequiresForward_def mode_names)
qed (simp_all add: person_facts Mode_RequiresBackward_def mode_names)

text \<open>
  A JSON schema is compatible with itself: the check of an unchanged schema reports nothing and
  does not panic, provided that in no subschema \<open>allOf\<close> lists two different bare types and every
  \<open>pattern\<close> is a value that can be compared.
\<close>

lemma json_unchanged_compatible:
  assumes "resolved unmarshal s = Some m" "json_wf (JObj m)" "list_all steady (subschemas m)"
  shows "JsonChecker_Check unmarshal s s = Some NewCompatibleResult"
proof -
  have "checkCompatibility m m [] = Some []" by (rule steady_self [OF assms(2,3)])
  with assms(1) show ?thesis by (auto simp: JsonChecker_Check_def resolved_def split: sum.splits)
qed

lemma json_unchanged_compatible_witness:
  "JsonChecker_Check person_unmarshal (person ''v1'') (person ''v1'') = Some NewCompatibleResult"
proof (rule json_unchanged_compatible [OF person_facts(1)])
  show "json_wf (JObj person_v1)" "list_all steady (subschemas person_v1)" by code_simp+
qed

section \<open>Changes the checker misses\<close>


end
