(* ===== verification/Authentication.thy ===== *)
theory Authentication
  imports Auth_Service Json_Value Go_Base64 "HOL-Library.Sublist"
begin

text \<open>
  Who a request comes from: \<open>internal/auth/auth.go\<close> with the sources of identities it asks in turn -
  the account service, keys and users of the configuration (\<open>apikey_memory.go\<close>, \<open>htpasswd.go\<close>), LDAP
  (\<open>ldap.go\<close>), signed tokens (\<open>jwt.go\<close>) and OpenID Connect (\<open>oidc.go\<close>).

  Parameters are what these files call: the LDAP connection, the token library's parser and claim
  readers, the OpenID verifier, the tables of Unicode lower case (\<open>strings.ToLower\<close>), and, as before,
  bcrypt, the clock and the visiting orders of maps.  Logging, metrics and audit hints are left out.
\<close>

type_synonym lower = "string \<Rightarrow> string"

definition constantTimeEqualFold :: "lower \<Rightarrow> string \<Rightarrow> string \<Rightarrow> bool" where
  "constantTimeEqualFold low a b \<longleftrightarrow> length (low a) = length (low b) \<and> low a = low b"

section \<open>Keys and users of the configuration\<close>

record ConfigAPIKey =
  ca_Name :: string
  ca_KeyHash :: string
  ca_Role :: string

record memoryAPIKey =
  mk_name :: string
  mk_hash :: string
  mk_role :: string

datatype key_config_error = NoKeys | KeyNameEmpty nat | KeyHashEmpty string | KeyHashFormat string | KeyRoleEmpty string

definition isBcryptHash :: "string \<Rightarrow> bool" where
  "isBcryptHash hash \<longleftrightarrow> HasPrefix hash ''$2a$'' \<or> HasPrefix hash ''$2b$'' \<or> HasPrefix hash ''$2y$''"

fun load_api_keys :: "nat \<Rightarrow> ConfigAPIKey list \<Rightarrow> key_config_error + memoryAPIKey list" where
  "load_api_keys i [] = Inr []"
| "load_api_keys i (k # ks) =
     (if ca_Name k = [] then Inl (KeyNameEmpty i)
      else if ca_KeyHash k = [] then Inl (KeyHashEmpty (ca_Name k))
      else if \<not> isBcryptHash (ca_KeyHash k) then Inl (KeyHashFormat (ca_Name k))
      else if ca_Role k = [] then Inl (KeyRoleEmpty (ca_Name k))
      else case load_api_keys (i + 1) ks of
             Inl e \<Rightarrow> Inl e
           | Inr store \<Rightarrow> Inr (\<lparr>mk_name = ca_Name k, mk_hash = ca_KeyHash k, mk_role = ca_Role k\<rparr> # store))"

definition NewMemoryAPIKeyStore :: "ConfigAPIKey list \<Rightarrow> key_config_error + memoryAPIKey list" where
  "NewMemoryAPIKeyStore keys = (if keys = [] then Inl NoKeys else load_api_keys 0 keys)"

definition MemoryAPIKeyStore_Validate :: "crypt_lib \<Rightarrow> memoryAPIKey list \<Rightarrow> string \<Rightarrow> (string \<times> string) option" where
  "MemoryAPIKeyStore_Validate cl keys key =
     (case List.find (\<lambda>k. cl_compare cl (mk_hash k) key) keys of
        None \<Rightarrow> None | Some k \<Rightarrow> Some (mk_name k, mk_role k))"

datatype htpasswd_error = HtFormat nat | HtEmptyUsername nat | HtHashFormat nat string | HtNoEntries

text \<open>One line of the file, by its number.\<close>

definition htpasswd_line :: "nat \<Rightarrow> string \<Rightarrow> htpasswd_error + (string \<times> string) option" where
  "htpasswd_line lineNum text =
     (let line = TrimSpace text
      in if line = [] \<or> HasPrefix line ''#'' then Inr None
         else case IndexByte line (CHR '':'') of
                None \<Rightarrow> Inl (HtFormat lineNum)
              | Some i \<Rightarrow>
                  (let username = TrimSpace (take i line); hash = TrimSpace (drop (i + 1) line)
                   in if username = [] then Inl (HtEmptyUsername lineNum)
                      else if \<not> isBcryptHash hash then Inl (HtHashFormat lineNum username)
                      else Inr (Some (username, hash))))"

fun htpasswd_lines :: "nat \<Rightarrow> string list \<Rightarrow> (string, string) gomap \<Rightarrow> htpasswd_error + (string, string) gomap" where
  "htpasswd_lines n [] entries = Inr entries"
| "htpasswd_lines n (l # ls) entries =
     (case htpasswd_line (n + 1) l of
        Inl e \<Rightarrow> Inl e
      | Inr None \<Rightarrow> htpasswd_lines (n + 1) ls entries
      | Inr (Some (username, hash)) \<Rightarrow> htpasswd_lines (n + 1) ls (gm_put username hash entries))"

definition LoadHTPasswdFile :: "string list \<Rightarrow> htpasswd_error + (string, string) gomap" where
  "LoadHTPasswdFile file_lines =
     (case htpasswd_lines 0 file_lines gm_empty of
        Inl e \<Rightarrow> Inl e
      | Inr entries \<Rightarrow> if gm_entries entries = [] then Inl HtNoEntries else Inr entries)"

definition HTPasswdStore_Verify :: "crypt_lib \<Rightarrow> (string, string) gomap \<Rightarrow> string \<Rightarrow> string \<Rightarrow> bool" where
  "HTPasswdStore_Verify cl entries username password =
     (case gm_get entries username of None \<Rightarrow> False | Some hash \<Rightarrow> cl_compare cl hash password)"

section \<open>LDAP\<close>

record LDAPConfig =
  ld_URL :: string
  ld_BindDN :: string
  ld_BindPassword :: string
  ld_BaseDN :: string
  ld_UserSearchFilter :: string
  ld_UserSearchBase :: string
  ld_GroupSearchFilter :: string
  ld_GroupSearchBase :: string
  ld_UsernameAttribute :: string
  ld_EmailAttribute :: string
  ld_GroupAttribute :: string
  ld_RoleMapping :: "(string, string) gomap option"
  ld_DefaultRole :: string
  ld_ConnectionTimeout :: int
  ld_RequestTimeout :: int

record ldap_entry =
  le_DN :: string
  le_Attributes :: "string \<Rightarrow> string list"

text \<open>
  A connection, when there is one: binding with a name and a password, and searching below a base
  with a size limit and a filter; and \<open>ldap.EscapeFilter\<close>.
\<close>

record ldap_conn =
  lc_Bind :: "string \<Rightarrow> string \<Rightarrow> bool"
  lc_Search :: "string \<Rightarrow> nat \<Rightarrow> string \<Rightarrow> string list \<Rightarrow> ldap_entry list option"

record ldap_lib =
  ll_connect :: "ldap_conn option"
  ll_EscapeFilter :: "string \<Rightarrow> string"

datatype ldap_error =
    LdapCredentialsRequired | LdapConnectFailed | LdapServiceBindFailed | LdapUserSearchFailed
  | ErrLDAPUserNotFound | ErrLDAPInvalidCredentials | LdapRebindFailed | LdapGroupSearchFailed

datatype ldap_config_error = LdapURLRequired | LdapBindDNRequired | LdapBindPasswordRequired

definition or_default :: "string \<Rightarrow> string \<Rightarrow> string" where
  "or_default d s = (if s = [] then d else s)"

definition NewLDAPProvider :: "LDAPConfig \<Rightarrow> ldap_config_error + LDAPConfig" where
  "NewLDAPProvider cfg =
     (if ld_URL cfg = [] then Inl LdapURLRequired
      else if ld_BindDN cfg = [] then Inl LdapBindDNRequired
      else if ld_BindPassword cfg = [] then Inl LdapBindPasswordRequired
      else Inr (cfg\<lparr>ld_UserSearchFilter := or_default ''(sAMAccountName=%s)'' (ld_UserSearchFilter cfg),
                    ld_UsernameAttribute := or_default ''sAMAccountName'' (ld_UsernameAttribute cfg),
                    ld_EmailAttribute := or_default ''mail'' (ld_EmailAttribute cfg),
                    ld_GroupAttribute := or_default ''memberOf'' (ld_GroupAttribute cfg),
                    ld_ConnectionTimeout := (if ld_ConnectionTimeout cfg = 0 then 10 else ld_ConnectionTimeout cfg),
                    ld_RequestTimeout := (if ld_RequestTimeout cfg = 0 then 30 else ld_RequestTimeout cfg),
                    ld_DefaultRole := or_default ''readonly'' (ld_DefaultRole cfg)\<rparr>))"

text \<open>\<open>strings.ReplaceAll(s, "%s", r)\<close>.\<close>

fun replace_verb :: "string \<Rightarrow> string \<Rightarrow> string" where
  "replace_verb (a # b # s) r =
     (if a = CHR ''%'' \<and> b = CHR ''s'' then r @ replace_verb s r else a # replace_verb (b # s) r)"
| "replace_verb s r = s"

definition searchUser :: "ldap_lib \<Rightarrow> LDAPConfig \<Rightarrow> ldap_conn \<Rightarrow> string \<Rightarrow> ldap_entry option option" where
  "searchUser lib p conn username =
     (let searchBase = or_default (ld_BaseDN p) (ld_UserSearchBase p);
          filter_text = replace_verb (ld_UserSearchFilter p) (ll_EscapeFilter lib username);
          attributes = [''dn'', ld_UsernameAttribute p, ld_EmailAttribute p, ld_GroupAttribute p]
      in case lc_Search conn searchBase 1 filter_text attributes of
           None \<Rightarrow> None
         | Some [] \<Rightarrow> Some None
         | Some (entry # _) \<Rightarrow> Some (Some entry))"

definition getUserGroups :: "LDAPConfig \<Rightarrow> ldap_entry \<Rightarrow> string list" where
  "getUserGroups p entry = le_Attributes entry (ld_GroupAttribute p)"

definition searchGroups :: "ldap_lib \<Rightarrow> LDAPConfig \<Rightarrow> ldap_conn \<Rightarrow> string \<Rightarrow> string list option" where
  "searchGroups lib p conn userDN =
     map_option (map le_DN)
       (lc_Search conn (ld_GroupSearchBase p) 0 (replace_verb (ld_GroupSearchFilter p) (ll_EscapeFilter lib userDN)) [''dn''])"

fun merge_from :: "lower \<Rightarrow> string list \<Rightarrow> string list \<Rightarrow> string list" where
  "merge_from low seen [] = []"
| "merge_from low seen (g # gs) =
     (if low g \<in> set seen then merge_from low seen gs else g # merge_from low (low g # seen) gs)"

definition mergeGroups :: "lower \<Rightarrow> string list \<Rightarrow> string list \<Rightarrow> string list" where
  "mergeGroups low a b = merge_from low [] (a @ b)"

definition extractCN :: "lower \<Rightarrow> string \<Rightarrow> string" where
  "extractCN low dn =
     (case List.find (\<lambda>part. HasPrefix (low part) ''cn='') (map TrimSpace (SplitByte dn (CHR '',''))) of
        None \<Rightarrow> [] | Some part \<Rightarrow> drop 3 part)"

text \<open>The mapping is a Go map, and the inner loop takes the first match in the order it is visited.\<close>

fun match_group :: "lower \<Rightarrow> (string \<times> string) order \<Rightarrow> (string, string) gomap \<Rightarrow> string list \<Rightarrow> string option" where
  "match_group low it mapping [] = None"
| "match_group low it mapping (g # groups) =
     (case gm_get mapping g of
        Some role \<Rightarrow> Some role
      | None \<Rightarrow>
          (let cn = extractCN low g
           in case (if cn = [] then None
                    else List.find (\<lambda>(pattern, _). constantTimeEqualFold low pattern cn \<or>
                                                   constantTimeEqualFold low pattern g) (it (gm_entries mapping))) of
                Some (_, role) \<Rightarrow> Some role
              | None \<Rightarrow> match_group low it mapping groups))"

definition mapGroupsToRole :: "lower \<Rightarrow> (string \<times> string) order \<Rightarrow> LDAPConfig \<Rightarrow> string list \<Rightarrow> string" where
  "mapGroupsToRole low it p groups =
     (case ld_RoleMapping p of
        None \<Rightarrow> ld_DefaultRole p
      | Some mapping \<Rightarrow> (case match_group low it mapping groups of Some role \<Rightarrow> role | None \<Rightarrow> ld_DefaultRole p))"

text \<open>The groups of a user whose password has been verified.\<close>

definition user_groups :: "ldap_lib \<Rightarrow> lower \<Rightarrow> LDAPConfig \<Rightarrow> ldap_conn \<Rightarrow> ldap_entry \<Rightarrow> ldap_error + string list" where
  "user_groups lib low p conn entry =
     (if ld_GroupSearchBase p \<noteq> [] \<and> ld_GroupSearchFilter p \<noteq> []
      then if \<not> lc_Bind conn (ld_BindDN p) (ld_BindPassword p) then Inl LdapRebindFailed
           else case searchGroups lib p conn (le_DN entry) of
                  None \<Rightarrow> Inl LdapGroupSearchFailed
                | Some searched \<Rightarrow> Inr (mergeGroups low (getUserGroups p entry) searched)
      else Inr (getUserGroups p entry))"

definition first_value :: "string list \<Rightarrow> string" where
  "first_value vs = (case vs of [] \<Rightarrow> [] | v # _ \<Rightarrow> v)"

definition LDAPProvider_Authenticate ::
  "ldap_lib \<Rightarrow> lower \<Rightarrow> (string \<times> string) order \<Rightarrow> LDAPConfig \<Rightarrow> string \<Rightarrow> string \<Rightarrow> ldap_error + User" where
  "LDAPProvider_Authenticate lib low it p username password =
     (if username = [] \<or> password = [] then Inl LdapCredentialsRequired
      else case ll_connect lib of
        None \<Rightarrow> Inl LdapConnectFailed
      | Some conn \<Rightarrow>
          if \<not> lc_Bind conn (ld_BindDN p) (ld_BindPassword p) then Inl LdapServiceBindFailed
          else case searchUser lib p conn username of
            None \<Rightarrow> Inl LdapUserSearchFailed
          | Some None \<Rightarrow> Inl ErrLDAPUserNotFound
          | Some (Some entry) \<Rightarrow>
              if \<not> lc_Bind conn (le_DN entry) password then Inl ErrLDAPInvalidCredentials
              else case user_groups lib low p conn entry of
                Inl e \<Rightarrow> Inl e
              | Inr groups \<Rightarrow>
                  Inr \<lparr>au_ID = 0,
                       au_Username = or_default username (first_value (le_Attributes entry (ld_UsernameAttribute p))),
                       au_Role = mapGroupsToRole low it p groups, au_Method = ''ldap''\<rparr>)"

section \<open>Signed tokens\<close>

record JWTConfig =
  jw_Issuer :: string
  jw_Audience :: string
  jw_JWKSURL :: string
  jw_Algorithm :: string
  jw_ClaimsMapping :: "(string, string) gomap"
  jw_DefaultRole :: string

datatype public_key = RSAKey int int | ECKey string int int | StaticKey string

record jwkKey =
  jk_Kty :: string
  jk_Use :: string
  jk_Kid :: string
  jk_N :: string
  jk_E :: string
  jk_Crv :: string
  jk_X :: string
  jk_Y :: string

record JWTProvider =
  jp_config :: JWTConfig
  jp_publicKey :: "public_key option"
  jp_jwksKeys :: "(string, public_key) gomap"
  jp_jwksLastFetch :: go_time
  jp_jwksCacheTTL :: int

text \<open>\<open>big.Int.SetBytes\<close>, and a public key of the published set.\<close>

definition SetBytes :: "string \<Rightarrow> int" where
  "SetBytes bs = foldl (\<lambda>n b. 256 * n + of_char b) 0 bs"

definition parseRSAJWK :: "jwkKey \<Rightarrow> public_key option" where
  "parseRSAJWK key =
     (if jk_N key = [] \<or> jk_E key = [] then None
      else case b64url_DecodeString (jk_N key) of
             None \<Rightarrow> None
           | Some nBytes \<Rightarrow>
               (case b64url_DecodeString (jk_E key) of
                  None \<Rightarrow> None
                | Some eBytes \<Rightarrow> Some (RSAKey (SetBytes nBytes) (i64 (SetBytes eBytes)))))"

definition parseECJWK :: "jwkKey \<Rightarrow> public_key option" where
  "parseECJWK key =
     (if jk_X key = [] \<or> jk_Y key = [] \<or> jk_Crv key = [] then None
      else case b64url_DecodeString (jk_X key) of
             None \<Rightarrow> None
           | Some xBytes \<Rightarrow>
               (case b64url_DecodeString (jk_Y key) of
                  None \<Rightarrow> None
                | Some yBytes \<Rightarrow>
                    if jk_Crv key \<in> {''P-256'', ''P-384'', ''P-521''}
                    then Some (ECKey (jk_Crv key) (SetBytes xBytes) (SetBytes yBytes)) else None))"

definition parseJWK :: "jwkKey \<Rightarrow> public_key option" where
  "parseJWK key =
     (if jk_Kty key = ''RSA'' then parseRSAJWK key else if jk_Kty key = ''EC'' then parseECJWK key else None)"

definition jwk_entries :: "jwkKey list \<Rightarrow> (string \<times> public_key) list" where
  "jwk_entries keys =
     List.map_filter (\<lambda>key. if jk_Use key \<noteq> [] \<and> jk_Use key \<noteq> ''sig'' then None
                           else map_option (Pair (or_default ''default'' (jk_Kid key))) (parseJWK key)) keys"

text \<open>A refresh with the decoded answer of the endpoint, or \<open>None\<close> when it could not be had.\<close>

definition refreshJWKS :: "JWTProvider \<Rightarrow> jwkKey list option \<Rightarrow> go_time \<Rightarrow> JWTProvider \<times> bool" where
  "refreshJWKS p answer now =
     (case answer of
        None \<Rightarrow> (p, False)
      | Some keys \<Rightarrow> (p\<lparr>jp_jwksKeys := gm_of_list (jwk_entries keys), jp_jwksLastFetch := now\<rparr>, True))"

datatype signing_method = MethodRSA | MethodECDSA | MethodHMAC | MethodOther

text \<open>What the key function sees of a token before it is verified: its method and its \<open>kid\<close> header, when a string.\<close>

record token_header =
  th_Method :: signing_method
  th_kid :: "string option"

definition getKeyForToken :: "JWTProvider \<Rightarrow> token_header \<Rightarrow> public_key option" where
  "getKeyForToken p token =
     (case jp_publicKey p of
        Some key \<Rightarrow> Some key
      | None \<Rightarrow>
          if jw_JWKSURL (jp_config p) = [] then None
          else
            (let kid = (case th_kid token of Some k \<Rightarrow> or_default ''default'' k | None \<Rightarrow> ''default'')
             in case gm_get (jp_jwksKeys p) kid of
                  Some key \<Rightarrow> Some key
                | None \<Rightarrow> (case gm_entries (jp_jwksKeys p) of [(_, k)] \<Rightarrow> Some k | _ \<Rightarrow> None)))"

definition key_function :: "JWTProvider \<Rightarrow> token_header \<Rightarrow> public_key option" where
  "key_function p token =
     (let alg = jw_Algorithm (jp_config p)
      in if HasPrefix alg ''RS'' \<and> th_Method token \<noteq> MethodRSA then None
         else if \<not> HasPrefix alg ''RS'' \<and> HasPrefix alg ''ES'' \<and> th_Method token \<noteq> MethodECDSA then None
         else if \<not> HasPrefix alg ''RS'' \<and> \<not> HasPrefix alg ''ES'' \<and> HasPrefix alg ''HS'' \<and> th_Method token \<noteq> MethodHMAC
         then None
         else getKeyForToken p token)"

text \<open>
  The token library: parsing and verifying a token with a key function and, when it is restricted,
  the one allowed algorithm, which gives the claims of a valid token; and its readers of the issuer,
  the audiences and the expiry.
\<close>

record jwt_lib =
  jl_Parse :: "string \<Rightarrow> (token_header \<Rightarrow> public_key option) \<Rightarrow> string option \<Rightarrow> jmap option"
  jl_Issuer :: "jmap \<Rightarrow> string"
  jl_Audience :: "jmap \<Rightarrow> string list"
  jl_Expiry :: "jmap \<Rightarrow> go_time option"

definition extractClaim :: "JWTProvider \<Rightarrow> jmap \<Rightarrow> string \<Rightarrow> string" where
  "extractClaim p claims key =
     (let k = gm_get0 key (jw_ClaimsMapping (jp_config p)) key
      in case as_string (jget claims k) of Some s \<Rightarrow> s | None \<Rightarrow> [])"

definition jwt_determineRole :: "JWTProvider \<Rightarrow> jmap \<Rightarrow> string" where
  "jwt_determineRole p claims =
     (let mapping = jw_ClaimsMapping (jp_config p);
          fallback = or_default ''readonly'' (jw_DefaultRole (jp_config p))
      in case as_string (jget claims (gm_get0 ''role'' mapping ''role'')) of
           Some role \<Rightarrow> role
         | None \<Rightarrow>
             (case jget claims (gm_get0 ''roles'' mapping ''roles'') of
                JArr (JStr role # _) \<Rightarrow> role
              | _ \<Rightarrow> fallback))"

definition JWTProvider_VerifyToken :: "jwt_lib \<Rightarrow> go_time \<Rightarrow> JWTProvider \<Rightarrow> string \<Rightarrow> User option" where
  "JWTProvider_VerifyToken lib now p rawToken =
     (let cfg = jp_config p
      in case jl_Parse lib rawToken (key_function p) (if jw_Algorithm cfg \<noteq> [] then Some (jw_Algorithm cfg) else None) of
           None \<Rightarrow> None
         | Some claims \<Rightarrow>
             if jw_Issuer cfg \<noteq> [] \<and> jl_Issuer lib claims \<noteq> jw_Issuer cfg then None
             else if jw_Audience cfg \<noteq> [] \<and> jw_Audience cfg \<notin> set (jl_Audience lib claims) then None
             else if (case jl_Expiry lib claims of Some expiry \<Rightarrow> expiry < now | None \<Rightarrow> False) then None
             else
               (let username = or_default (or_default (extractClaim p claims ''email'')
                                             (extractClaim p claims ''preferred_username''))
                                 (extractClaim p claims ''sub'')
                in if username = [] then None
                   else Some \<lparr>au_ID = 0, au_Username = username, au_Role = jwt_determineRole p claims,
                              au_Method = ''jwt''\<rparr>))"

section \<open>OpenID Connect\<close>

record OIDCConfig =
  oc_IssuerURL :: string
  oc_ClientID :: string
  oc_UsernameClaim :: string
  oc_RolesClaim :: string
  oc_RoleMapping :: "(string, string) gomap option"
  oc_DefaultRole :: string
  oc_RequiredAudience :: string

datatype oidc_config_error = OidcIssuerRequired | OidcClientRequired | OidcProviderFailed

text \<open>The discovery document of the issuer can be fetched or not.\<close>

definition NewOIDCProvider :: "bool \<Rightarrow> OIDCConfig \<Rightarrow> oidc_config_error + OIDCConfig" where
  "NewOIDCProvider discovered cfg =
     (if oc_IssuerURL cfg = [] then Inl OidcIssuerRequired
      else if oc_ClientID cfg = [] then Inl OidcClientRequired
      else if \<not> discovered then Inl OidcProviderFailed
      else Inr (cfg\<lparr>oc_UsernameClaim := or_default ''sub'' (oc_UsernameClaim cfg),
                    oc_DefaultRole := or_default ''readonly'' (oc_DefaultRole cfg)\<rparr>))"

record id_token =
  it_Audience :: "string list"
  it_Subject :: string
  it_Claims :: "jmap option"

definition containsAudience :: "string list \<Rightarrow> string \<Rightarrow> bool" where
  "containsAudience audiences required \<longleftrightarrow> list_ex (\<lambda>aud. aud = required) audiences"

text \<open>The value a dotted path leads to; a part that is not an object ends the walk.\<close>

fun claim_at :: "jmap \<Rightarrow> string list \<Rightarrow> json option" where
  "claim_at current [] = None"
| "claim_at current [part] = map_of current part"
| "claim_at current (part # parts) =
     (case map_of current part of Some (JObj nested) \<Rightarrow> claim_at nested parts | _ \<Rightarrow> None)"

definition extractStringClaim :: "jmap \<Rightarrow> string \<Rightarrow> string" where
  "extractStringClaim claims path =
     (case claim_at claims (SplitByte path (CHR ''.'')) of Some (JStr s) \<Rightarrow> s | _ \<Rightarrow> [])"

fun toStringSlice :: "json \<Rightarrow> string list" where
  "toStringSlice (JArr items) = List.map_filter as_string items"
| "toStringSlice (JStr s) = [s]"
| "toStringSlice _ = []"

definition extractRolesClaim :: "OIDCConfig \<Rightarrow> jmap \<Rightarrow> string list" where
  "extractRolesClaim p claims =
     (if oc_RolesClaim p = [] then []
      else case claim_at claims (SplitByte (oc_RolesClaim p) (CHR ''.'')) of Some v \<Rightarrow> toStringSlice v | None \<Rightarrow> [])"

fun match_role :: "lower \<Rightarrow> (string \<times> string) order \<Rightarrow> (string, string) gomap \<Rightarrow> string list \<Rightarrow> string option" where
  "match_role low it mapping [] = None"
| "match_role low it mapping (role # roles) =
     (case gm_get mapping role of
        Some mapped \<Rightarrow> Some mapped
      | None \<Rightarrow>
          (case List.find (\<lambda>(pattern, _). constantTimeEqualFold low pattern role) (it (gm_entries mapping)) of
             Some (_, mapped) \<Rightarrow> Some mapped
           | None \<Rightarrow> match_role low it mapping roles))"

definition oidc_determineRole :: "lower \<Rightarrow> (string \<times> string) order \<Rightarrow> OIDCConfig \<Rightarrow> jmap \<Rightarrow> string" where
  "oidc_determineRole low it p claims =
     (case oc_RoleMapping p of
        None \<Rightarrow> oc_DefaultRole p
      | Some mapping \<Rightarrow>
          (case match_role low it mapping (extractRolesClaim p claims) of Some role \<Rightarrow> role | None \<Rightarrow> oc_DefaultRole p))"

definition OIDCProvider_VerifyToken ::
  "(string \<Rightarrow> id_token option) \<Rightarrow> lower \<Rightarrow> (string \<times> string) order \<Rightarrow> OIDCConfig \<Rightarrow> string \<Rightarrow> User option" where
  "OIDCProvider_VerifyToken verify low it p rawToken =
     (if rawToken = [] then None
      else case verify rawToken of
        None \<Rightarrow> None
      | Some idToken \<Rightarrow>
          if oc_RequiredAudience p \<noteq> [] \<and> \<not> containsAudience (it_Audience idToken) (oc_RequiredAudience p) then None
          else case it_Claims idToken of
            None \<Rightarrow> None
          | Some claims \<Rightarrow>
              Some \<lparr>au_ID = 0, au_Username = or_default (it_Subject idToken) (extractStringClaim claims (oc_UsernameClaim p)),
                    au_Role = oidc_determineRole low it p claims, au_Method = ''oidc''\<rparr>)"

section \<open>The authenticator\<close>

record APIKey =
  ap_Key :: string
  ap_Name :: string
  ap_Username :: string
  ap_Role :: string

record AuthConfig =
  ac_Enabled :: bool
  ac_Methods :: "string list"
  ac_Realm :: string
  ac_Users :: "(string, string) gomap"
  ac_APIKeyHeader :: string
  ac_APIKeyQueryParam :: string
  ac_AllowFallback :: "bool option"
  ac_DefaultRole :: string

record Authenticator =
  an_config :: AuthConfig
  an_ldapProvider :: "LDAPConfig option"
  an_oidcProvider :: "OIDCConfig option"
  an_jwtProvider :: "JWTProvider option"
  an_apiKeys :: "(string, APIKey) gomap"
  an_memoryAPIKeys :: "memoryAPIKey list option"
  an_htpasswdStore :: "(string, string) gomap option"

text \<open>What is asked outside the process during one request.\<close>

record auth_env =
  ae_crypt :: crypt_lib
  ae_ldap :: ldap_lib
  ae_jwt :: jwt_lib
  ae_oidc :: "string \<Rightarrow> id_token option"
  ae_lower :: lower
  ae_order :: "(string \<times> string) order"
  ae_now :: go_time

text \<open>The headers and query parameters of a request, empty when absent.\<close>

record auth_request =
  aq_Header :: "string \<Rightarrow> string"
  aq_Query :: "string \<Rightarrow> string"

definition NewAuthenticator :: "AuthConfig \<Rightarrow> Authenticator" where
  "NewAuthenticator cfg =
     \<lparr>an_config = cfg, an_ldapProvider = None, an_oidcProvider = None, an_jwtProvider = None,
      an_apiKeys = gm_empty, an_memoryAPIKeys = None, an_htpasswdStore = None\<rparr>"

definition AddAPIKey :: "Authenticator \<Rightarrow> APIKey \<Rightarrow> Authenticator" where
  "AddAPIKey a key = a\<lparr>an_apiKeys := gm_put (ap_Key key) key (an_apiKeys a)\<rparr>"

text \<open>
  The account service is present or not (\<open>Service option\<close>); validating a credential changes its caches.
\<close>

definition config_key_user :: "auth_env \<Rightarrow> Authenticator \<Rightarrow> string \<Rightarrow> User option" where
  "config_key_user env a key =
     (case (case an_memoryAPIKeys a of None \<Rightarrow> None | Some keys \<Rightarrow> MemoryAPIKeyStore_Validate (ae_crypt env) keys key) of
        Some (name, role) \<Rightarrow> Some \<lparr>au_ID = 0, au_Username = name, au_Role = role, au_Method = ''api_key''\<rparr>
      | None \<Rightarrow>
          (case gm_get (an_apiKeys a) key of
             Some k \<Rightarrow> Some \<lparr>au_ID = 0, au_Username = ap_Username k, au_Role = ap_Role k, au_Method = ''api_key''\<rparr>
           | None \<Rightarrow> None))"

definition owner_name :: "Service \<Rightarrow> APIKeyRecord \<Rightarrow> string" where
  "owner_name S apiKey =
     (if 0 < ak_UserID apiKey
      then (case Service_GetUserByID S (ak_UserID apiKey) of Inr user \<Rightarrow> us_Username user | Inl _ \<Rightarrow> ak_Name apiKey)
      else ak_Name apiKey)"

definition authenticateAPIKeyValue ::
  "auth_env \<Rightarrow> Authenticator \<Rightarrow> Service option \<Rightarrow> string \<Rightarrow> Service option \<times> User option" where
  "authenticateAPIKeyValue env a svc key =
     (case svc of
        None \<Rightarrow> (None, config_key_user env a key)
      | Some S \<Rightarrow>
          (case Service_ValidateAPIKey (ae_crypt env) (ae_now env) S key of
             (S', Inr apiKey) \<Rightarrow>
               (Some S', Some \<lparr>au_ID = ak_ID apiKey, au_Username = owner_name S' apiKey, au_Role = ak_Role apiKey,
                               au_Method = ''api_key''\<rparr>)
           | (S', Inl _) \<Rightarrow> (Some S', config_key_user env a key)))"

definition authenticateAPIKey ::
  "auth_env \<Rightarrow> Authenticator \<Rightarrow> Service option \<Rightarrow> auth_request \<Rightarrow> Service option \<times> User option" where
  "authenticateAPIKey env a svc r =
     (let cfg = an_config a;
          header = (if ac_APIKeyHeader cfg \<noteq> [] then aq_Header r (ac_APIKeyHeader cfg) else []);
          key = (if header = [] \<and> ac_APIKeyQueryParam cfg \<noteq> [] then aq_Query r (ac_APIKeyQueryParam cfg) else header)
      in if key = [] then (svc, None) else authenticateAPIKeyValue env a svc key)"

text \<open>The users of the configuration and of the htpasswd file, the last resort of Basic authentication.\<close>

definition config_user :: "auth_env \<Rightarrow> Authenticator \<Rightarrow> string \<Rightarrow> string \<Rightarrow> string \<Rightarrow> User option" where
  "config_user env a authMethod username password =
     (let user = \<lparr>au_ID = 0, au_Username = username, au_Role = ac_DefaultRole (an_config a), au_Method = authMethod\<rparr>
      in if (case gm_get (ac_Users (an_config a)) username of
               Some hash \<Rightarrow> cl_compare (ae_crypt env) hash password | None \<Rightarrow> False) then Some user
         else if (case an_htpasswdStore a of
                    Some entries \<Rightarrow> HTPasswdStore_Verify (ae_crypt env) entries username password | None \<Rightarrow> False)
              then Some user
         else None)"

definition local_user ::
  "auth_env \<Rightarrow> Authenticator \<Rightarrow> Service option \<Rightarrow> string \<Rightarrow> string \<Rightarrow> string \<Rightarrow> Service option \<times> User option" where
  "local_user env a svc authMethod username password =
     (case svc of
        None \<Rightarrow> (None, config_user env a authMethod username password)
      | Some S \<Rightarrow>
          (case Service_ValidateCredentials (ae_crypt env) (ae_now env) (ae_now env) S username password of
             (S', Inr user) \<Rightarrow>
               (Some S', Some \<lparr>au_ID = us_ID user, au_Username = us_Username user, au_Role = us_Role user,
                               au_Method = authMethod\<rparr>)
           | (S', Inl _) \<Rightarrow> (Some S', config_user env a authMethod username password)))"

definition password_user ::
  "auth_env \<Rightarrow> Authenticator \<Rightarrow> Service option \<Rightarrow> string \<Rightarrow> string \<Rightarrow> Service option \<times> User option" where
  "password_user env a svc username password =
     (case an_ldapProvider a of
        None \<Rightarrow> local_user env a svc ''basic'' username password
      | Some p \<Rightarrow>
          (case LDAPProvider_Authenticate (ae_ldap env) (ae_lower env) (ae_order env) p username password of
             Inr user \<Rightarrow> (svc, Some user)
           | Inl e \<Rightarrow>
               if ac_AllowFallback (an_config a) = Some False then (svc, None)
               else if e = ErrLDAPInvalidCredentials then (svc, None)
               else local_user env a svc ''ldap_fallback'' username password))"

text \<open>\<open>strings.SplitN(s, ":", 2)\<close>, when it gives two parts.\<close>

definition split_credentials :: "string \<Rightarrow> (string \<times> string) option" where
  "split_credentials s =
     (case IndexByte s (CHR '':'') of None \<Rightarrow> None | Some i \<Rightarrow> Some (take i s, drop (i + 1) s))"

definition basic_credentials :: "auth_request \<Rightarrow> (string \<times> string) option" where
  "basic_credentials r =
     (let header = aq_Header r ''Authorization''
      in if \<not> HasPrefix header ''Basic '' then None
         else Option.bind (b64_DecodeString (drop 6 header)) split_credentials)"

definition authenticateBasic ::
  "auth_env \<Rightarrow> Authenticator \<Rightarrow> Service option \<Rightarrow> auth_request \<Rightarrow> Service option \<times> User option" where
  "authenticateBasic env a svc r =
     (case basic_credentials r of
        None \<Rightarrow> (svc, None)
      | Some (username, password) \<Rightarrow>
          (case (if username \<noteq> [] then authenticateAPIKeyValue env a svc username else (svc, None)) of
             (svc', Some user) \<Rightarrow> (svc', Some user)
           | (svc', None) \<Rightarrow>
               if password = [] then (svc', None) else password_user env a svc' username password))"

definition bearer_token :: "auth_request \<Rightarrow> string option" where
  "bearer_token r =
     (let header = aq_Header r ''Authorization''
      in if \<not> HasPrefix header ''Bearer '' \<or> drop 7 header = [] then None else Some (drop 7 header))"

definition authenticateJWT :: "auth_env \<Rightarrow> Authenticator \<Rightarrow> auth_request \<Rightarrow> User option" where
  "authenticateJWT env a r =
     (case an_jwtProvider a of
        None \<Rightarrow> None
      | Some p \<Rightarrow> (case bearer_token r of
                    None \<Rightarrow> None | Some token \<Rightarrow> JWTProvider_VerifyToken (ae_jwt env) (ae_now env) p token))"

definition authenticateOIDC :: "auth_env \<Rightarrow> Authenticator \<Rightarrow> auth_request \<Rightarrow> User option" where
  "authenticateOIDC env a r =
     (case bearer_token r of
        None \<Rightarrow> None
      | Some token \<Rightarrow>
          (case an_oidcProvider a of
             None \<Rightarrow> None
           | Some p \<Rightarrow> OIDCProvider_VerifyToken (ae_oidc env) (ae_lower env) (ae_order env) p token))"

definition authenticate ::
  "auth_env \<Rightarrow> Authenticator \<Rightarrow> Service option \<Rightarrow> auth_request \<Rightarrow> string \<Rightarrow> Service option \<times> User option" where
  "authenticate env a svc r m =
     (if m = ''basic'' then authenticateBasic env a svc r
      else if m = ''api_key'' then authenticateAPIKey env a svc r
      else if m = ''jwt'' then (svc, authenticateJWT env a r)
      else if m = ''oidc'' then (svc, authenticateOIDC env a r)
      else (svc, None))"

fun try_methods ::
  "auth_env \<Rightarrow> Authenticator \<Rightarrow> auth_request \<Rightarrow> Service option \<Rightarrow> string list \<Rightarrow> Service option \<times> User option" where
  "try_methods env a r svc [] = (svc, None)"
| "try_methods env a r svc (m # ms) =
     (case authenticate env a svc r m of
        (svc', Some user) \<Rightarrow> (svc', Some user)
      | (svc', None) \<Rightarrow> try_methods env a r svc' ms)"

text \<open>The challenges of a refusal.\<close>

definition unauthorized_challenges :: "AuthConfig \<Rightarrow> string list" where
  "unauthorized_challenges cfg =
     List.map_filter (\<lambda>m.
       if m = ''basic''
       then Some (''Basic realm='' @ [CHR 0x22] @ or_default ''Schema Registry'' (ac_Realm cfg) @ [CHR 0x22])
       else if m = ''api_key'' then Some ''API-Key''
       else if m = ''jwt'' \<or> m = ''oidc'' then Some ''Bearer''
       else None) (ac_Methods cfg)"

datatype admission = Admitted "User option" | Challenged "string list"

definition Authenticator_Middleware ::
  "auth_env \<Rightarrow> Authenticator \<Rightarrow> Service option \<Rightarrow> auth_request \<Rightarrow> Service option \<times> admission" where
  "Authenticator_Middleware env a svc r =
     (if \<not> ac_Enabled (an_config a) then (svc, Admitted None)
      else case try_methods env a r svc (ac_Methods (an_config a)) of
             (svc', Some user) \<Rightarrow> (svc', Admitted (Some user))
           | (svc', None) \<Rightarrow> (svc', Challenged (unauthorized_challenges (an_config a))))"

text \<open>The user ID the middleware leaves in the request's context.\<close>

definition GetUserID :: "User option \<Rightarrow> int" where
  "GetUserID user = (case user of Some u \<Rightarrow> if 0 < au_ID u then au_ID u else 0 | None \<Rightarrow> 0)"

definition normalizePrincipalPath :: "string \<Rightarrow> string" where
  "normalizePrincipalPath path =
     (let inner = (if HasPrefix path ''/contexts/''
                   then (let rest = drop 10 path
                         in case IndexByte rest (CHR ''/'') of Some i \<Rightarrow> Some (drop i rest) | None \<Rightarrow> None)
                   else Some path)
      in case inner of
           None \<Rightarrow> ''/contexts''
         | Some p \<Rightarrow>
             if HasPrefix p ''/subjects/'' then if sublist ''/versions'' p then ''/subjects/*/versions/*'' else ''/subjects/*''
             else if HasPrefix p ''/schemas/ids/'' then ''/schemas/ids/*''
             else if HasPrefix p ''/config/'' then ''/config/*''
             else if HasPrefix p ''/mode/'' then ''/mode/*''
             else if HasPrefix p ''/compatibility/'' then ''/compatibility/*''
             else if HasPrefix p ''/dek-registry/'' then ''/dek-registry/*''
             else if HasPrefix p ''/admin/'' then ''/admin/*''
             else p)"

end
