(* ===== verification/Authentication_Properties.thy ===== *)
theory Authentication_Properties
  imports Authentication Auth_Properties
begin

text \<open>
  What admission by the authentication middleware means: \<open>vouched\<close> says, source by source and without
  caches, who may be taken for whom; every admitted identity is vouched for.
\<close>

section \<open>Identities\<close>

abbreviation uses :: "Authenticator \<Rightarrow> string \<Rightarrow> bool" where
  "uses a m \<equiv> m \<in> set (ac_Methods (an_config a))"

text \<open>A key is presented in the header, in the query, or as the username of Basic authentication.\<close>

definition presented :: "Authenticator \<Rightarrow> auth_request \<Rightarrow> string \<Rightarrow> bool" where
  "presented a r key \<longleftrightarrow> key \<noteq> [] \<and>
     (uses a ''api_key'' \<and>
        (ac_APIKeyHeader (an_config a) \<noteq> [] \<and> key = aq_Header r (ac_APIKeyHeader (an_config a)) \<or>
         ac_APIKeyQueryParam (an_config a) \<noteq> [] \<and> key = aq_Query r (ac_APIKeyQueryParam (an_config a))) \<or>
      uses a ''basic'' \<and> (\<exists>password. basic_credentials r = Some (key, password)))"

text \<open>
  Local accounts answer when there is no directory, or when the directory neither accepted nor refused
  the password and falling back is not forbidden.
\<close>

definition local_allowed :: "auth_env \<Rightarrow> Authenticator \<Rightarrow> string \<Rightarrow> string \<Rightarrow> string \<Rightarrow> bool" where
  "local_allowed env a username password m \<longleftrightarrow>
     (case an_ldapProvider a of
        None \<Rightarrow> m = ''basic''
      | Some p \<Rightarrow>
          m = ''ldap_fallback'' \<and> ac_AllowFallback (an_config a) \<noteq> Some False \<and>
          (\<exists>e. LDAPProvider_Authenticate (ae_ldap env) (ae_lower env) (ae_order env) p username password = Inl e \<and>
               e \<noteq> ErrLDAPInvalidCredentials))"

inductive vouched :: "auth_env \<Rightarrow> Authenticator \<Rightarrow> Service option \<Rightarrow> auth_request \<Rightarrow> User \<Rightarrow> bool"
  for env a svc r where
  stored_key: "presented a r key \<Longrightarrow> svc = Some S \<Longrightarrow>
    key_verdict (ae_now env) (sv_storage S) (hashAPIKey (ae_crypt env) S key) = Inr k \<Longrightarrow>
    vouched env a svc r \<lparr>au_ID = ak_ID k, au_Username = owner_name S k, au_Role = ak_Role k, au_Method = ''api_key''\<rparr>"
| hashed_key: "presented a r key \<Longrightarrow> an_memoryAPIKeys a = Some keys \<Longrightarrow> k \<in> set keys \<Longrightarrow>
    cl_compare (ae_crypt env) (mk_hash k) key \<Longrightarrow>
    vouched env a svc r \<lparr>au_ID = 0, au_Username = mk_name k, au_Role = mk_role k, au_Method = ''api_key''\<rparr>"
| listed_key: "presented a r key \<Longrightarrow> gm_get (an_apiKeys a) key = Some k \<Longrightarrow>
    vouched env a svc r \<lparr>au_ID = 0, au_Username = ap_Username k, au_Role = ap_Role k, au_Method = ''api_key''\<rparr>"
| stored_user: "uses a ''basic'' \<Longrightarrow> basic_credentials r = Some (username, password) \<Longrightarrow> password \<noteq> [] \<Longrightarrow>
    local_allowed env a username password m \<Longrightarrow> svc = Some S \<Longrightarrow>
    credential_verdict (ae_crypt env) (sv_storage S) username password = Inr u \<Longrightarrow>
    vouched env a svc r \<lparr>au_ID = us_ID u, au_Username = us_Username u, au_Role = us_Role u, au_Method = m\<rparr>"
| configured_user: "uses a ''basic'' \<Longrightarrow> basic_credentials r = Some (username, password) \<Longrightarrow> password \<noteq> [] \<Longrightarrow>
    local_allowed env a username password m \<Longrightarrow>
    gm_get (ac_Users (an_config a)) username = Some hash \<or>
      an_htpasswdStore a = Some entries \<and> gm_get entries username = Some hash \<Longrightarrow>
    cl_compare (ae_crypt env) hash password \<Longrightarrow>
    vouched env a svc r \<lparr>au_ID = 0, au_Username = username, au_Role = ac_DefaultRole (an_config a), au_Method = m\<rparr>"
| directory: "uses a ''basic'' \<Longrightarrow> basic_credentials r = Some (username, password) \<Longrightarrow> an_ldapProvider a = Some p \<Longrightarrow>
    LDAPProvider_Authenticate (ae_ldap env) (ae_lower env) (ae_order env) p username password = Inr user \<Longrightarrow>
    vouched env a svc r user"
| signed_token: "uses a ''jwt'' \<Longrightarrow> bearer_token r = Some token \<Longrightarrow> an_jwtProvider a = Some q \<Longrightarrow>
    JWTProvider_VerifyToken (ae_jwt env) (ae_now env) q token = Some user \<Longrightarrow> vouched env a svc r user"
| openid_token: "uses a ''oidc'' \<Longrightarrow> bearer_token r = Some token \<Longrightarrow> an_oidcProvider a = Some o' \<Longrightarrow>
    OIDCProvider_VerifyToken (ae_oidc env) (ae_lower env) (ae_order env) o' token = Some user \<Longrightarrow>
    vouched env a svc r user"

section \<open>Validation reads\<close>

text \<open>Two states of the service that answer alike: the same store and secret, both reachable.\<close>

definition alike :: "crypt_lib \<Rightarrow> Service \<Rightarrow> Service \<Rightarrow> bool" where
  "alike cl S S' \<longleftrightarrow> auth_inv cl S' \<and> sv_storage S' = sv_storage S \<and> sv_apiSecret S' = sv_apiSecret S"

definition alike_opt :: "crypt_lib \<Rightarrow> Service option \<Rightarrow> Service option \<Rightarrow> bool" where
  "alike_opt cl svc svc' \<longleftrightarrow> (case svc of None \<Rightarrow> svc' = None | Some S \<Rightarrow> \<exists>S'. svc' = Some S' \<and> alike cl S S')"

lemma present_key_alike:
  assumes "alike cl S T"
  shows "alike cl S (fst (Service_ValidateAPIKey cl now T key))"
proof -
  have "auth_inv cl (fst (Service_ValidateAPIKey cl now T key))"
    using assms validate_key_inv unfolding alike_def by blast
  moreover have "sv_storage (fst (Service_ValidateAPIKey cl now T key)) = sv_storage T"
    "sv_apiSecret (fst (Service_ValidateAPIKey cl now T key)) = sv_apiSecret T"
    by (simp_all add: Service_ValidateAPIKey_def find_api_key_def Let_def split: option.split sum.split)
  ultimately show ?thesis using assms by (simp add: alike_def)
qed

lemma login_alike:
  assumes "alike cl S T" "colon_free username"
  shows "alike cl S (fst (Service_ValidateCredentials cl now now' T username password))"
proof -
  have "auth_inv cl (fst (Service_ValidateCredentials cl now now' T username password))"
    using assms validate_credentials_inv unfolding alike_def by blast
  moreover have "sv_storage (fst (Service_ValidateCredentials cl now now' T username password)) = sv_storage T"
    "sv_apiSecret (fst (Service_ValidateCredentials cl now now' T username password)) = sv_apiSecret T"
    by (simp_all add: Service_ValidateCredentials_def validate_stored_def drop_credential_def Let_def
        split: option.split sum.split)
  ultimately show ?thesis using assms by (simp add: alike_def)
qed

lemma basic_name_colon_free:
  assumes "basic_credentials r = Some (username, password)"
  shows "colon_free username"
proof -
  obtain s i where "IndexByte s (CHR '':'') = Some i" "username = take i s"
    using assms by (auto simp: basic_credentials_def split_credentials_def Let_def bind_eq_Some_conv
        split: if_splits option.splits)
  then show ?thesis using IndexByte_Some [of s "CHR '':''" i] by (auto simp: colon_free_def in_set_conv_nth)
qed

section \<open>Every admitted identity is vouched for\<close>

lemma config_key_vouched:
  assumes "presented a r key" "config_key_user env a key = Some user"
  shows "vouched env a svc r user"
  using assms
  by (auto simp: config_key_user_def MemoryAPIKeyStore_Validate_def find_Some_iff
      intro: vouched.hashed_key vouched.listed_key split: option.splits)

lemma config_user_vouched:
  assumes "uses a ''basic''" "basic_credentials r = Some (username, password)" "password \<noteq> []"
    "local_allowed env a username password m" "config_user env a m username password = Some user"
  shows "vouched env a svc r user"
proof -
  obtain hash where "gm_get (ac_Users (an_config a)) username = Some hash \<or>
      (\<exists>entries. an_htpasswdStore a = Some entries \<and> gm_get entries username = Some hash)"
    and "cl_compare (ae_crypt env) hash password"
    using assms(5) by (auto simp: config_user_def Let_def HTPasswdStore_Verify_def split: option.splits if_splits)
  moreover have "user = \<lparr>au_ID = 0, au_Username = username, au_Role = ac_DefaultRole (an_config a), au_Method = m\<rparr>"
    using assms(5) by (auto simp: config_user_def Let_def split: if_splits)
  ultimately show ?thesis using vouched.configured_user [OF assms(1-4)] by blast
qed

lemma api_key_vouched:
  assumes "alike_opt (ae_crypt env) svc svc1" "presented a r key"
    and "authenticateAPIKeyValue env a svc1 key = (svc2, res)"
  shows "alike_opt (ae_crypt env) svc svc2" "res = Some user \<Longrightarrow> vouched env a svc r user"
proof -
  have "alike_opt (ae_crypt env) svc svc2 \<and> (res = Some user \<longrightarrow> vouched env a svc r user)"
  proof (cases svc)
    case None
    then show ?thesis
      using assms config_key_vouched by (auto simp: alike_opt_def authenticateAPIKeyValue_def)
  next
    case (Some S)
    with assms(1) obtain T where T: "svc1 = Some T" "alike (ae_crypt env) S T" by (auto simp: alike_opt_def)
    obtain T' v where v: "Service_ValidateAPIKey (ae_crypt env) (ae_now env) T key = (T', v)" by fastforce
    have T': "alike (ae_crypt env) S T'" using present_key_alike [OF T(2)] v by (metis fst_conv)
    have verdict: "v = key_verdict (ae_now env) (sv_storage S) (hashAPIKey (ae_crypt env) S key)"
      using keys_transparent [of "ae_crypt env" T "ae_now env" key] v T(2) hashAPIKey_secret [of T S "ae_crypt env"]
      by (simp add: alike_def)
    show ?thesis
    proof (cases v)
      case (Inl e)
      then show ?thesis
        using assms(2,3) T(1) v T' Some config_key_vouched by (auto simp: authenticateAPIKeyValue_def alike_opt_def)
    next
      case (Inr k)
      have "owner_name T' k = owner_name S k"
        using T' by (simp add: owner_name_def Service_GetUserByID_def alike_def)
      moreover have "key_verdict (ae_now env) (sv_storage S) (hashAPIKey (ae_crypt env) S key) = Inr k"
        using verdict Inr by simp
      ultimately show ?thesis
        using assms(3) T(1) v T' Some Inr vouched.stored_key [OF assms(2) Some]
        by (auto simp: authenticateAPIKeyValue_def alike_opt_def)
    qed
  qed
  then show "alike_opt (ae_crypt env) svc svc2" "res = Some user \<Longrightarrow> vouched env a svc r user" by auto
qed

lemma local_vouched:
  assumes "alike_opt (ae_crypt env) svc svc1" "inj (cl_sha256 (ae_crypt env))"
    and basic: "uses a ''basic''" "basic_credentials r = Some (username, password)" "password \<noteq> []"
    and allowed: "local_allowed env a username password m"
    and "local_user env a svc1 m username password = (svc2, res)"
  shows "alike_opt (ae_crypt env) svc svc2 \<and> (res = Some user \<longrightarrow> vouched env a svc r user)"
proof (cases svc)
  case None
  then show ?thesis
    using assms(1,7) config_user_vouched [OF basic allowed] by (auto simp: alike_opt_def local_user_def)
next
  case (Some S)
  with assms(1) obtain T where T: "svc1 = Some T" "alike (ae_crypt env) S T" by (auto simp: alike_opt_def)
  have n: "colon_free username" by (rule basic_name_colon_free [OF basic(2)])
  obtain T' v where v: "Service_ValidateCredentials (ae_crypt env) (ae_now env) (ae_now env) T username password = (T', v)"
    by fastforce
  have T': "alike (ae_crypt env) S T'" using login_alike [OF T(2) n] v by (metis fst_conv)
  have verdict: "v = credential_verdict (ae_crypt env) (sv_storage S) username password"
    using credentials_transparent [OF assms(2) _ n, of T "ae_now env" "ae_now env" password] v T(2)
    by (simp add: alike_def)
  show ?thesis
  proof (cases v)
    case (Inl e)
    then show ?thesis
      using assms(7) T(1) v T' Some config_user_vouched [OF basic allowed] by (auto simp: local_user_def alike_opt_def)
  next
    case (Inr u)
    then have "vouched env a svc r \<lparr>au_ID = us_ID u, au_Username = us_Username u, au_Role = us_Role u, au_Method = m\<rparr>"
      using vouched.stored_user [OF basic allowed Some] verdict by simp
    then show ?thesis using assms(7) T(1) v T' Some Inr by (auto simp: local_user_def alike_opt_def)
  qed
qed

lemma password_vouched:
  assumes "alike_opt (ae_crypt env) svc svc1" "inj (cl_sha256 (ae_crypt env))"
    and basic: "uses a ''basic''" "basic_credentials r = Some (username, password)" "password \<noteq> []"
    and pw: "password_user env a svc1 username password = (svc2, res)"
  shows "alike_opt (ae_crypt env) svc svc2 \<and> (res = Some user \<longrightarrow> vouched env a svc r user)"
proof (cases "an_ldapProvider a")
  case None
  then have "local_allowed env a username password ''basic''" by (simp add: local_allowed_def)
  from local_vouched [OF assms(1-5) this] pw None show ?thesis by (simp add: password_user_def)
next
  case (Some p)
  show ?thesis
  proof (cases "LDAPProvider_Authenticate (ae_ldap env) (ae_lower env) (ae_order env) p username password")
    case (Inr u)
    then show ?thesis using pw Some assms(1) vouched.directory [OF basic(1,2) Some Inr] by (auto simp: password_user_def)
  next
    case (Inl e)
    show ?thesis
    proof (cases "ac_AllowFallback (an_config a) = Some False \<or> e = ErrLDAPInvalidCredentials")
      case True
      then show ?thesis using pw Some Inl assms(1) by (auto simp: password_user_def split: if_splits)
    next
      case False
      then have "local_allowed env a username password ''ldap_fallback''" using Some Inl by (simp add: local_allowed_def)
      from local_vouched [OF assms(1-5) this] pw Some Inl False show ?thesis by (simp add: password_user_def)
    qed
  qed
qed

lemma basic_vouched:
  assumes "alike_opt (ae_crypt env) svc svc1" "inj (cl_sha256 (ae_crypt env))" "uses a ''basic''"
    and auth: "authenticateBasic env a svc1 r = (svc2, res)"
  shows "alike_opt (ae_crypt env) svc svc2 \<and> (res = Some user \<longrightarrow> vouched env a svc r user)"
proof (cases "basic_credentials r")
  case None
  then show ?thesis using auth assms(1) by (auto simp: authenticateBasic_def)
next
  case (Some np)
  then obtain n pw where np: "basic_credentials r = Some (n, pw)" by (cases np) auto
  define first where "first = (if n \<noteq> [] then authenticateAPIKeyValue env a svc1 n else (svc1, None))"
  obtain svc' res' where first: "first = (svc', res')" by (cases first)
  have "alike_opt (ae_crypt env) svc svc' \<and> (res' = Some user \<longrightarrow> vouched env a svc r user)"
  proof (cases "n = []")
    case True
    then show ?thesis using first assms(1) by (simp add: first_def)
  next
    case False
    then have "presented a r n" using np assms(3) by (auto simp: presented_def)
    with False first show ?thesis using api_key_vouched [OF assms(1)] by (auto simp: first_def)
  qed
  moreover from this have "alike_opt (ae_crypt env) svc svc2 \<and> (res = Some user \<longrightarrow> vouched env a svc r user)"
    if "pw \<noteq> []" "password_user env a svc' n pw = (svc2, res)"
    using password_vouched [OF _ assms(2,3) np that] by blast
  ultimately show ?thesis
    using auth np first by (cases res') (auto simp: authenticateBasic_def first_def [symmetric] split: if_splits)
qed

lemma method_vouched:
  assumes "alike_opt (ae_crypt env) svc svc1" "inj (cl_sha256 (ae_crypt env))" "uses a m"
    and auth: "authenticate env a svc1 r m = (svc2, res)"
  shows "alike_opt (ae_crypt env) svc svc2 \<and> (res = Some user \<longrightarrow> vouched env a svc r user)"
proof -
  consider (basic) "m = ''basic''" | (key) "m = ''api_key''" | (jwt) "m = ''jwt''" | (oidc) "m = ''oidc''"
    | (none) "m \<notin> {''basic'', ''api_key'', ''jwt'', ''oidc''}" by auto
  then show ?thesis
  proof cases
    case basic
    then show ?thesis using basic_vouched [OF assms(1,2)] assms(3) auth by (simp add: authenticate_def)
  next
    case key
    define k where "k = (let cfg = an_config a;
        header = (if ac_APIKeyHeader cfg \<noteq> [] then aq_Header r (ac_APIKeyHeader cfg) else [])
      in if header = [] \<and> ac_APIKeyQueryParam cfg \<noteq> [] then aq_Query r (ac_APIKeyQueryParam cfg) else header)"
    have a: "authenticateAPIKey env a svc1 r = (if k = [] then (svc1, None) else authenticateAPIKeyValue env a svc1 k)"
      by (simp add: authenticateAPIKey_def k_def Let_def)
    show ?thesis
    proof (cases "k = []")
      case True
      then show ?thesis using a auth key assms(1) by (simp add: authenticate_def)
    next
      case False
      then have "presented a r k" using assms(3) key by (auto simp: presented_def k_def Let_def split: if_splits)
      with False a auth key show ?thesis using api_key_vouched [OF assms(1)] by (auto simp: authenticate_def)
    qed
  next
    case jwt
    then show ?thesis
      using auth assms(1,3) vouched.signed_token [of a r _ _ env user svc]
      by (auto simp: authenticate_def authenticateJWT_def split: option.splits)
  next
    case oidc
    then show ?thesis
      using auth assms(1,3) vouched.openid_token [of a r _ _ env user svc]
      by (auto simp: authenticate_def authenticateOIDC_def split: option.splits)
  next
    case none
    then show ?thesis using auth assms(1) by (simp add: authenticate_def)
  qed
qed

lemma methods_vouched:
  assumes "inj (cl_sha256 (ae_crypt env))" "alike_opt (ae_crypt env) svc svc1"
    "set ms \<subseteq> set (ac_Methods (an_config a))" "try_methods env a r svc1 ms = (svc2, Some user)"
  shows "vouched env a svc r user"
  using assms(2-4)
proof (induction ms arbitrary: svc1)
  case (Cons m ms)
  obtain svc' res where m: "authenticate env a svc1 r m = (svc', res)" by fastforce
  have "uses a m" using Cons.prems(2) by simp
  note vouch = method_vouched [OF Cons.prems(1) assms(1) this m, of user]
  show ?case
  proof (cases res)
    case None
    then show ?thesis using Cons.IH [of svc'] vouch Cons.prems m by simp
  next
    case (Some u)
    then show ?thesis using vouch Cons.prems(3) m by simp
  qed
qed simp


definition sample_ldap :: ldap_lib where
  "sample_ldap = \<lparr>ll_connect = None, ll_EscapeFilter = (\<lambda>s. s)\<rparr>"

definition sample_auth_env :: auth_env where
  "sample_auth_env = \<lparr>ae_crypt = plain_crypt, ae_ldap = sample_ldap,
     ae_jwt = \<lparr>jl_Parse = (\<lambda>_ _ _. None), jl_Issuer = (\<lambda>_. []), jl_Audience = (\<lambda>_. []), jl_Expiry = (\<lambda>_. None)\<rparr>,
     ae_oidc = (\<lambda>_. None), ae_lower = (\<lambda>s. s), ae_order = (\<lambda>xs. xs), ae_now = 30\<rparr>"

definition sample_authenticator :: Authenticator where
  "sample_authenticator = NewAuthenticator
     \<lparr>ac_Enabled = True, ac_Methods = [''api_key'', ''basic''], ac_Realm = [], ac_Users = gm_empty,
      ac_APIKeyHeader = ''X-API-Key'', ac_APIKeyQueryParam = [], ac_AllowFallback = None, ac_DefaultRole = ''readonly''\<rparr>"

definition ada_request :: auth_request where
  "ada_request = \<lparr>aq_Header = (\<lambda>h. if h = ''Authorization'' then ''Basic YWRhOnB3'' else []), aq_Query = (\<lambda>_. [])\<rparr>"


section \<open>The directory\<close>

text \<open>
  When the directory refuses the password, no local account is asked: unless the name is a valid API
  key, Basic authentication fails.
\<close>

lemma directory_refusal_final:
  assumes "an_ldapProvider a = Some p" "basic_credentials r = Some (username, password)"
    and "LDAPProvider_Authenticate (ae_ldap env) (ae_lower env) (ae_order env) p username password =
         Inl ErrLDAPInvalidCredentials"
    and "username \<noteq> []" "authenticateAPIKeyValue env a svc username = (svc', None)"
  shows "authenticateBasic env a svc r = (svc', None)"
  using assms by (simp add: authenticateBasic_def password_user_def)

text \<open>
  A directory that cannot be reached, or whose group search fails after it has accepted the password,
  is treated like a user it does not know: the local password lets the user in.
\<close>

lemma directory_outage_falls_back:
  assumes "ll_connect (ae_ldap env) = None" "an_ldapProvider a = Some p"
    and "ac_AllowFallback (an_config a) \<noteq> Some False" "username \<noteq> []" "password \<noteq> []"
  shows "password_user env a svc username password = local_user env a svc ''ldap_fallback'' username password"
  using assms by (simp add: password_user_def LDAPProvider_Authenticate_def)

text \<open>A role mapping is a map: which of two patterns that differ in case wins depends on the visiting order.\<close>

lemma role_depends_on_order:
  fixes low :: lower
  defines "mapping \<equiv> gm_of_list [(''OPS'', ''admin''), (''Ops'', ''readonly'')]"
  assumes "low ''ops'' = ''ops''" "low ''OPS'' = ''ops''" "low ''Ops'' = ''ops''" "low ''cn=ops'' = ''cn=ops''"
  shows "match_group low (\<lambda>xs. xs) mapping [''cn=ops''] \<noteq> match_group low rev mapping [''cn=ops'']"
proof -
  have entries: "gm_entries mapping = [(''OPS'', ''admin''), (''Ops'', ''readonly'')]" "gm_get mapping ''cn=ops'' = None"
    unfolding mapping_def by code_simp+
  have "map TrimSpace (SplitByte ''cn=ops'' (CHR '','')) = [''cn=ops'']" by code_simp
  then have "extractCN low ''cn=ops'' = ''ops''" by (simp add: extractCN_def assms(2-5) HasPrefix_def)
  then show ?thesis by (simp add: entries constantTimeEqualFold_def assms(2-5))
qed

section \<open>Identities from API keys\<close>

text \<open>
  A user authenticated by a stored key carries the ID of the key, under the name of its owner: what
  the handlers take for the user's ID is the ID of some other record.
\<close>

lemma key_identity_confused:
  assumes "Service_ValidateAPIKey (ae_crypt env) (ae_now env) S key = (S', Inr k)"
    and "Service_GetUserByID S' (ak_UserID k) = Inr owner" "0 < ak_UserID k" "0 < ak_ID k"
    and "authenticateAPIKeyValue env a (Some S) key = (svc', Some user)"
  shows "au_Username user = us_Username owner \<and> GetUserID (Some user) = ak_ID k"
  using assms by (auto simp: authenticateAPIKeyValue_def owner_name_def GetUserID_def)

end
