(* ===== verification/Admin_Properties.thy ===== *)
theory Admin_Properties
  imports Admin_Handlers Authentication_Properties
begin

text \<open>
  Properties of the administration handlers: every call needs the administrative permission, and what
  the handlers make of the identities the authenticator delivers.
\<close>

section \<open>Every call is guarded\<close>

datatype admin_call =
    ListUsers | CreateUser "CreateUserBody option" | GetUser string | UpdateUser string "UpdateUserBody option"
  | DeleteUser string | ListAPIKeys string | CreateAPIKey "CreateAPIKeyBody option" | GetAPIKey string
  | UpdateAPIKey string "UpdateAPIKeyBody option" | DeleteAPIKey string | RevokeAPIKey string
  | RotateAPIKey string "int option" | ListRoles

text \<open>The routes below \<open>/admin\<close> of \<open>server.go\<close>.\<close>

fun serve_admin :: "admin_env \<Rightarrow> Authorizer \<Rightarrow> User option \<Rightarrow> Service \<Rightarrow> admin_call \<Rightarrow> handled" where
  "serve_admin env az user S ListUsers = Admin_ListUsers env az user S"
| "serve_admin env az user S (CreateUser body) = Admin_CreateUser env az user S body"
| "serve_admin env az user S (GetUser i) = Admin_GetUser env az user S i"
| "serve_admin env az user S (UpdateUser i body) = Admin_UpdateUser env az user S i body"
| "serve_admin env az user S (DeleteUser i) = Admin_DeleteUser env az user S i"
| "serve_admin env az user S (ListAPIKeys u) = Admin_ListAPIKeys env az user S u"
| "serve_admin env az user S (CreateAPIKey body) = Admin_CreateAPIKey env az user S body"
| "serve_admin env az user S (GetAPIKey i) = Admin_GetAPIKey env az user S i"
| "serve_admin env az user S (UpdateAPIKey i body) = Admin_UpdateAPIKey env az user S i body"
| "serve_admin env az user S (DeleteAPIKey i) = Admin_DeleteAPIKey env az user S i"
| "serve_admin env az user S (RevokeAPIKey i) = Admin_RevokeAPIKey env az user S i"
| "serve_admin env az user S (RotateAPIKey i body) = Admin_RotateAPIKey env az user S i body"
| "serve_admin env az user S ListRoles = Admin_ListRoles az user S"

fun reads_only :: "admin_call \<Rightarrow> bool" where
  "reads_only ListUsers \<longleftrightarrow> True"
| "reads_only (GetUser _) \<longleftrightarrow> True"
| "reads_only (ListAPIKeys _) \<longleftrightarrow> True"
| "reads_only (GetAPIKey _) \<longleftrightarrow> True"
| "reads_only ListRoles \<longleftrightarrow> True"
| "reads_only _ \<longleftrightarrow> False"

definition admin_permission :: "admin_call \<Rightarrow> Permission" where
  "admin_permission call = (if reads_only call then PermissionAdminRead else PermissionAdminWrite)"

lemma guarded_refused: "guarded S (Some ans) body = (S, ans, None)"
  by (simp add: guarded_def)

lemma require_refuses:
  assumes "\<not> (user \<noteq> None \<and> Authorizer_HasPermission az user PermissionAdminRead)"
  shows "\<exists>status code message. (status = 401 \<or> status = 403) \<and> requireAdminRead az user = Some (Fail status code message)"
  using assms by (auto simp: requireAdminRead_def)

lemma require_write_refuses:
  assumes "\<not> (user \<noteq> None \<and> Authorizer_HasPermission az user PermissionAdminWrite)"
  shows "\<exists>status code message. (status = 401 \<or> status = 403) \<and> requireAdminWrite az user = Some (Fail status code message)"
  using assms by (auto simp: requireAdminWrite_def)

lemma admin_refused:
  assumes "\<not> (user \<noteq> None \<and> Authorizer_HasPermission az user (admin_permission call))"
  shows "\<exists>status code message. (status = 401 \<or> status = 403) \<and> serve_admin env az user S call = (S, Fail status code message, None)"
proof (cases "reads_only call")
  case True
  then obtain status code message where r: "status = 401 \<or> status = 403"
    "(requireAdminRead az user :: admin_body answer option) = Some (Fail status code message)"
    using require_refuses [of user az] assms by (auto simp: admin_permission_def)
  have "serve_admin env az user S call = (S, Fail status code message, None)"
    using True by (cases call) (simp_all add: Admin_ListUsers_def Admin_GetUser_def Admin_ListAPIKeys_def
        Admin_GetAPIKey_def Admin_ListRoles_def r(2) guarded_refused)
  with r(1) show ?thesis by blast
next
  case False
  then obtain status code message where r: "status = 401 \<or> status = 403"
    "(requireAdminWrite az user :: admin_body answer option) = Some (Fail status code message)"
    using require_write_refuses [of user az] assms by (auto simp: admin_permission_def)
  have "serve_admin env az user S call = (S, Fail status code message, None)"
    using False by (cases call) (simp_all add: Admin_CreateUser_def Admin_UpdateUser_def Admin_DeleteUser_def
        Admin_CreateAPIKey_def Admin_UpdateAPIKey_def Admin_DeleteAPIKey_def Admin_RevokeAPIKey_def
        Admin_RotateAPIKey_def r(2) guarded_refused)
  with r(1) show ?thesis by blast
qed

lemma reads_change_nothing: "reads_only call \<Longrightarrow> fst (serve_admin env az user S call) = S"
  by (cases call) (simp_all add: Admin_ListUsers_def Admin_GetUser_def Admin_ListAPIKeys_def Admin_GetAPIKey_def
      Admin_ListRoles_def guarded_def with_id_def Let_def split: option.split sum.split)

text \<open>
  C8.  Administration is guarded: a call without the permission it needs is refused with 401 or 403
  and changes nothing, and the accounts change only by calls of users with \<open>admin:write\<close>.
\<close>

theorem admin_calls_guarded:
  "(\<not> (user \<noteq> None \<and> Authorizer_HasPermission az user (admin_permission call)) \<longrightarrow>
      (\<exists>status code message. (status = 401 \<or> status = 403) \<and>
         serve_admin env az user S call = (S, Fail status code message, None))) \<and>
   (fst (serve_admin env az user S call) \<noteq> S \<longrightarrow> Authorizer_HasPermission az user PermissionAdminWrite)"
proof -
  have changes: "Authorizer_HasPermission az user PermissionAdminWrite" if "fst (serve_admin env az user S call) \<noteq> S"
  proof -
    have "\<not> reads_only call" using that reads_change_nothing by blast
    then have "admin_permission call = PermissionAdminWrite" by (simp add: admin_permission_def)
    moreover have "Authorizer_HasPermission az user (admin_permission call)"
    proof (rule ccontr)
      assume "\<not> Authorizer_HasPermission az user (admin_permission call)"
      then obtain answer where "serve_admin env az user S call = (S, answer, None)"
        using admin_refused [of user az call env S] by blast
      with that show False by simp
    qed
    ultimately show ?thesis by simp
  qed
  show ?thesis
    by (intro conjI impI) (erule admin_refused, erule changes)
qed

definition admin_env0 :: admin_env where
  "admin_env0 = \<lparr>av_crypt = plain_crypt, av_salt = [], av_random = Some ''j'', av_updates = (\<lambda>xs. xs), av_keys = (\<lambda>xs. xs),
     av_cache = (\<lambda>xs. xs), av_now = 40, av_format = (\<lambda>_. []), av_digest = (\<lambda>_. [])\<rparr>"

theorem admin_calls_guarded_witness:
  "\<exists>status code message. (status = 401 \<or> status = 403) \<and>
     serve_admin admin_env0 sample_authorizer (Some sample_reader) with_ada (DeleteUser ''1'') =
       (with_ada, Fail status code message, None)"
proof -
  have "\<not> Authorizer_HasPermission sample_authorizer (Some sample_reader) (admin_permission (DeleteUser ''1''))"
    by code_simp
  then show ?thesis using admin_calls_guarded [of "Some sample_reader" sample_authorizer "DeleteUser ''1''"] by blast
qed

section \<open>Audit records\<close>

text \<open>
  The record an update of a user leaves in the audit log shows no change: the digest ``before'' is
  computed after the update, through the same pointer.
\<close>

lemma audit_hides_user_change:
  assumes "service_reach (av_crypt env) S"
    and "Admin_UpdateUser env az user S idStr body = (S', answer, Some hint)"
  shows "ah_BeforeHash hint = ah_AfterHash hint"
proof -
  have inv: "auth_inv (av_crypt env) S" by (rule service_reach_inv [OF assms(1)])
  obtain i req u where u: "Service_UpdateUser (av_crypt env) (av_salt env) (av_updates env) (av_now env) (av_now env) S i
      (user_updates req) = (S', Inr u)" "hint = user_hint idStr (user_before env S S' i) (hashUser env u)"
    using assms(2) by (auto simp: Admin_UpdateUser_def guarded_def with_id_def split: option.splits sum.splits prod.splits)
  from update_user_effect [OF inv u(1)] have "user_at S' i = Some u"
    by (auto simp: user_at_def invalidateUserCredCacheByID_def)
  moreover obtain v where "Service_GetUserByID S i = Inr v"
    using u(1) by (auto simp: Service_UpdateUser_def Service_GetUserByID_def split: sum.splits)
  ultimately show ?thesis by (simp add: u(2) user_before_def user_hint_def)
qed

section \<open>Keys and owners\<close>

text \<open>A lifetime of more than 292 years in seconds overflows: this one ends after 0.3 seconds.\<close>

lemma lifetime_wraps: "expiry_of now 18446744074 = now + 290448384"
  by (simp add: expiry_of_def i64_def)

text \<open>Lifetimes up to that bound are exact.\<close>

lemma lifetime_exact: "0 \<le> secs \<Longrightarrow> secs \<le> 9223372036 \<Longrightarrow> expiry_of now secs = now + secs * 1000000000"
  by (simp add: expiry_of_def in_i64_def)

text \<open>
  With an API key, the own account is that of the user whose ID is the key's: here Bob's key (number
  1) answers with Ada's account (user 1), and a key he creates belongs to Ada.
\<close>

definition with_bob :: Service where
  "with_bob = fst (Service_CreateUser plain_crypt [] 7 8 with_ada
     \<lparr>cu_Username = ''bob'', cu_Email = [], cu_Password = ''x'', cu_Role = ''super_admin'', cu_Enabled = True\<rparr>)"

definition bobs_key :: Service where
  "bobs_key = fst (Service_CreateAPIKey plain_crypt (Some ''k'') (\<lambda>xs. xs) 20 21 with_bob
     \<lparr>ck_UserID = 2, ck_Name = ''ci'', ck_Role = ''super_admin'', ck_ExpiresAt = 100\<rparr>)"

definition as_bob :: "User option" where
  "as_bob = snd (authenticateAPIKeyValue sample_auth_env sample_authenticator (Some bobs_key) ''6b'')"

lemma key_answers_for_another:
  "map_option au_Username as_bob = Some ''bob'' \<and>
   (case Account_GetCurrentUser admin_env0 as_bob bobs_key of
      (_, Reply status (UserBody u), _) \<Rightarrow> ur_Username u = ''ada'' | _ \<Rightarrow> False) \<and>
   (case Admin_CreateAPIKey admin_env0 sample_authorizer as_bob bobs_key
           (Some \<lparr>kb_Name = ''new'', kb_Role = ''readonly'', kb_ExpiresIn = 60, kb_ForUserID = None\<rparr>) of
      (_, Reply status (NewKeyBody k), _) \<Rightarrow> nk_UserID k = 1 \<and> nk_Username k = ''bob'' | _ \<Rightarrow> False)"
  by (intro conjI; code_simp)

text \<open>Renaming a key to a name in use is answered with 500, creating one with 409.\<close>

lemma rename_conflict_is_500: "key_error_answer (Stored ErrAPIKeyNameExists) = internal_error"
  by (simp add: key_error_answer_def)

end
