(* ===== verification/Audit_Properties.thy ===== *)
theory Audit_Properties
  imports Audit_Log "HOL-Library.Sublist"
begin

text \<open>
  What the audit log guarantees: every request that can change something is audited under the default
  configuration; events leave the queue in the order they entered it; an event in the common event
  format is one line from which its fields can be read back; the webhook loses nothing it accepted.
\<close>

section \<open>Routes and their requests\<close>

text \<open>The routes outside the registry: encryption keys, the own account, administration.\<close>

definition setupRouter_routes :: "(string \<times> string \<times> string) list" where
  "setupRouter_routes =
     [(''GET'', ''/dek-registry/v1/keks'', ''ListKEKs''),
      (''POST'', ''/dek-registry/v1/keks'', ''CreateKEK''),
      (''GET'', ''/dek-registry/v1/keks/{name}'', ''GetKEK''),
      (''PUT'', ''/dek-registry/v1/keks/{name}'', ''UpdateKEK''),
      (''DELETE'', ''/dek-registry/v1/keks/{name}'', ''DeleteKEK''),
      (''POST'', ''/dek-registry/v1/keks/{name}/undelete'', ''UndeleteKEK''),
      (''POST'', ''/dek-registry/v1/keks/{name}/test'', ''TestKEK''),
      (''GET'', ''/dek-registry/v1/keks/{name}/deks'', ''ListDEKs''),
      (''POST'', ''/dek-registry/v1/keks/{name}/deks'', ''CreateDEK''),
      (''GET'', ''/dek-registry/v1/keks/{name}/deks/{subject}'', ''GetDEK''),
      (''POST'', ''/dek-registry/v1/keks/{name}/deks/{subject}'', ''CreateDEKWithSubject''),
      (''DELETE'', ''/dek-registry/v1/keks/{name}/deks/{subject}'', ''DeleteDEK''),
      (''POST'', ''/dek-registry/v1/keks/{name}/deks/{subject}/undelete'', ''UndeleteDEK''),
      (''GET'', ''/dek-registry/v1/keks/{name}/deks/{subject}/versions'', ''ListDEKVersions''),
      (''GET'', ''/dek-registry/v1/keks/{name}/deks/{subject}/versions/{version}'', ''GetDEKVersion''),
      (''DELETE'', ''/dek-registry/v1/keks/{name}/deks/{subject}/versions/{version}'', ''DeleteDEKVersion''),
      (''POST'', ''/dek-registry/v1/keks/{name}/deks/{subject}/versions/{version}/undelete'', ''UndeleteDEKVersion''),
      (''GET'', ''/me/'', ''GetCurrentUser''),
      (''POST'', ''/me/password'', ''ChangePassword''),
      (''GET'', ''/admin/users'', ''ListUsers''),
      (''POST'', ''/admin/users'', ''CreateUser''),
      (''GET'', ''/admin/users/{id}'', ''GetUser''),
      (''PUT'', ''/admin/users/{id}'', ''UpdateUser''),
      (''DELETE'', ''/admin/users/{id}'', ''DeleteUser''),
      (''GET'', ''/admin/apikeys'', ''ListAPIKeys''),
      (''POST'', ''/admin/apikeys'', ''CreateAPIKey''),
      (''GET'', ''/admin/apikeys/{id}'', ''GetAPIKey''),
      (''PUT'', ''/admin/apikeys/{id}'', ''UpdateAPIKey''),
      (''DELETE'', ''/admin/apikeys/{id}'', ''DeleteAPIKey''),
      (''POST'', ''/admin/apikeys/{id}/revoke'', ''RevokeAPIKey''),
      (''POST'', ''/admin/apikeys/{id}/rotate'', ''RotateAPIKey''),
      (''GET'', ''/admin/roles'', ''ListRoles'')]"

text \<open>All routes behind authentication: those of the registry twice, at the root and below a context.\<close>

definition all_routes :: "(string \<times> string \<times> string) list" where
  "all_routes =
     mountRegistryRoutes @ setupRouter_routes @
     map (\<lambda>(m, p, h). (m, ''/contexts/{context}'' @ p, h)) mountRegistryRoutes"

text \<open>The handlers that only read, although they are reached by \<open>POST\<close>.\<close>

definition read_only_posts :: "string list" where
  "read_only_posts =
     [''LookupSchema'', ''CheckCompatibility'', ''ValidateSchema'', ''NormalizeSchema'', ''SearchSchemas'',
      ''FindSchemasByField'', ''FindSchemasByType'', ''FindSimilarSchemas'', ''ScoreSchemaQuality'',
      ''GetSchemaComplexity'', ''ValidateSubjectName'', ''MatchSubjects'', ''DiffSchemas'',
      ''SuggestSchemaEvolution'', ''PlanMigrationPath'', ''CheckCompatibilityMulti'', ''SuggestCompatibleChange'',
      ''ExplainCompatibilityFailure'', ''CompareSubjects'']"

definition writing_route :: "string \<times> string \<times> string \<Rightarrow> bool" where
  "writing_route = (\<lambda>(m, p, h). m \<noteq> ''GET'' \<and> h \<notin> set read_only_posts)"

text \<open>A request of a route: its path has the segments of the pattern, the parameters filled in.\<close>

abbreviation segments :: "string \<Rightarrow> string list" where
  "segments s \<equiv> SplitByte s (CHR ''/'')"

definition is_param :: "string \<Rightarrow> bool" where
  "is_param p \<longleftrightarrow> HasPrefix p ''{''"

definition seg_ok :: "string \<Rightarrow> string \<Rightarrow> bool" where
  "seg_ok p s \<longleftrightarrow> (if is_param p then s \<noteq> [] else s = p)"

definition route_request :: "string \<Rightarrow> string \<Rightarrow> bool" where
  "route_request pattern path \<longleftrightarrow> list_all2 seg_ok (segments pattern) (segments path)"

section \<open>Segments and substrings\<close>

lemma split_cut: "segments (u @ CHR ''/'' # v) = segments u @ segments v"
proof (induction u)
  case (Cons c u)
  then show ?case using SplitByte_nonempty [of u "CHR ''/''"] by (auto split: list.splits)
qed simp

lemma split_join: "ss \<noteq> [] \<Longrightarrow> Join (ss @ ts) ''/'' = (if ts = [] then Join ss ''/'' else Join ss ''/'' @ ''/'' @ Join ts ''/'')"
  by (induction ss "''/''" rule: Join.induct) (auto simp: neq_Nil_conv)

lemma join_split: "Join (segments s) ''/'' = s"
proof (induction s)
  case (Cons c s)
  obtain y ys where y: "segments s = y # ys" using SplitByte_nonempty [of s "CHR ''/''"] by (cases "segments s") auto
  then show ?case using Cons by (cases ys) auto
qed simp

text \<open>A run of segments behind the first one shows in the path, and a run in the path is one of segments.\<close>

lemma run_contained:
  assumes "segments path = xs @ ys @ zs" "xs \<noteq> []" "ys \<noteq> []"
  shows "Contains path (''/'' @ Join ys ''/'')" "zs \<noteq> [] \<Longrightarrow> Contains path (''/'' @ Join ys ''/'' @ ''/'')"
proof -
  have "path = Join (xs @ ys @ zs) ''/''" using assms(1) join_split [of path] by simp
  then have p: "path = Join xs ''/'' @ ''/'' @ Join ys ''/'' @ (if zs = [] then [] else ''/'' @ Join zs ''/'')"
    using assms(2,3) by (simp add: split_join)
  then show "Contains path (''/'' @ Join ys ''/'')"
    unfolding Contains_iff
    by (intro exI [of _ "Join xs ''/''"] exI [of _ "if zs = [] then [] else ''/'' @ Join zs ''/''"]) simp
  show "Contains path (''/'' @ Join ys ''/'' @ ''/'')" if "zs \<noteq> []"
    using p that unfolding Contains_iff
    by (intro exI [of _ "Join xs ''/''"] exI [of _ "Join zs ''/''"]) simp
qed

lemma contained_run:
  assumes "Contains path (''/'' @ a @ ''/'' @ b @ ''/'')" "CHR ''/'' \<notin> set a" "CHR ''/'' \<notin> set b"
  shows "\<exists>xs ys. segments path = xs @ [a, b] @ ys \<and> ys \<noteq> []"
proof -
  obtain u v where "path = u @ CHR ''/'' # a @ CHR ''/'' # b @ CHR ''/'' # v"
    using assms(1) by (auto simp: Contains_iff)
  then have "segments path = segments u @ [a, b] @ segments v"
    using assms(2,3) by (simp add: split_cut SplitByte_no_sep)
  then show ?thesis using SplitByte_nonempty by blast
qed

lemma contained_segment:
  assumes "Contains path (''/'' @ a)" "CHR ''/'' \<notin> set a"
  shows "\<exists>seg\<in>set (tl (segments path)). HasPrefix seg a"
proof -
  obtain u v where p: "path = u @ CHR ''/'' # a @ v" using assms(1) by (auto simp: Contains_iff)
  have "HasPrefix (hd (segments (a @ v))) a"
    using assms(2)
  proof (induction a)
    case (Cons c a)
    then show ?case using SplitByte_nonempty [of "a @ v" "CHR ''/''"] by (auto simp: HasPrefix_def split: list.splits)
  qed (simp add: HasPrefix_def)
  then have "\<exists>seg\<in>set (segments (a @ v)). HasPrefix seg a" using SplitByte_nonempty hd_in_set by blast
  moreover have "set (segments (a @ v)) \<subseteq> set (tl (segments path))"
    using SplitByte_nonempty [of u "CHR ''/''"] by (simp add: p split_cut)
  ultimately show ?thesis by blast
qed

section \<open>Every write is audited\<close>

definition fires :: "AuditEventType option \<Rightarrow> bool" where
  "fires t \<longleftrightarrow> t \<noteq> None"

lemma fires_tests [simp]:
  "fires (on_test b e) \<longleftrightarrow> b" "fires (by_verb b verb cs) \<longleftrightarrow> b \<and> verb \<in> set (map fst cs)"
  by (auto simp: fires_def on_test_def by_verb_def map_of_eq_None_iff simp del: not_None_eq)

definition fires_in :: "AuditEventType list \<Rightarrow> AuditEventType option \<Rightarrow> bool" where
  "fires_in A t \<longleftrightarrow> (\<forall>e. t = Some e \<longrightarrow> e \<in> set A)"

lemma fires_in_test: "(b \<Longrightarrow> e \<in> set A) \<Longrightarrow> fires_in A (on_test b e)"
  by (auto simp: fires_in_def on_test_def)

lemma fires_in_verb: "list_all (\<lambda>(k, e). k = verb \<longrightarrow> e \<in> set A) cs \<Longrightarrow> fires_in A (by_verb b verb cs)"
  by (fastforce simp: fires_in_def by_verb_def list_all_iff dest: map_of_SomeD split: if_splits)

lemma default_types:
  assumes "verb \<noteq> ''GET''" "\<not> Contains path ''/schemas/ids/''"
  shows "list_all (fires_in setDefaultEnabledEvents) (event_tests path verb permanent status)"
  unfolding event_tests_def Let_def list.pred_inject
  by (intro conjI TrueI fires_in_test fires_in_verb)
    (simp_all add: setDefaultEnabledEvents_def assms not_sym [OF assms(1)])

lemma first_match_in:
  assumes "list_all (fires_in A) tests" "list_ex fires tests"
  shows "first_match tests \<in> set A"
  using assms by (induction tests) (auto simp: first_match_def fires_in_def fires_def)

text \<open>Path and verb that make one of the tests fire.\<close>

definition audit_keys :: "(string list \<times> bool \<times> string list) list" where
  "audit_keys =
     [([''subjects''], True, [''POST'', ''DELETE'']),
      ([''import''], True, [''POST'']),
      ([''config''], False, [''PUT'', ''DELETE'']),
      ([''mode''], False, [''PUT'', ''DELETE'']),
      ([''exporters''], False, [''POST'', ''PUT'', ''DELETE'']),
      ([''admin'', ''users''], False, [''POST'', ''PUT'', ''DELETE'']),
      ([''admin'', ''apikeys''], False, [''POST'', ''PUT'', ''DELETE'']),
      ([''me'', ''password''], False, [''POST'']),
      ([''dek-registry'', ''v1'', ''keks''], False, [''POST''])]"

definition key_text :: "string list \<Rightarrow> bool \<Rightarrow> string" where
  "key_text ys trailing = ''/'' @ Join ys ''/'' @ (if trailing then ''/'' else [])"

lemma key_fires:
  assumes "(ys, trailing, verbs) \<in> set audit_keys" "Contains path (key_text ys trailing)" "verb \<in> set verbs"
  shows "list_ex fires (event_tests path verb permanent status)"
  using assms
  unfolding audit_keys_def list.set insert_iff empty_iff prod.inject
  by (elim disjE conjE FalseE; cases "Contains path ''/versions''"; auto simp: key_text_def event_tests_def Let_def)

lemma kek_fires:
  assumes "Contains path ''/dek-registry/v1/keks''"
    and "verb = ''DELETE'' \<and> Contains path ''/deks/'' \<or> verb \<in> {''PUT'', ''DELETE''} \<and> \<not> Contains path ''/deks''"
  shows "list_ex fires (event_tests path verb permanent status)"
  using assms by (elim disjE conjE) (simp_all add: event_tests_def Let_def)

text \<open>A run of literal segments in a pattern, not at its start, and with a segment behind it if so asked.\<close>

definition has_run :: "bool \<Rightarrow> string list \<Rightarrow> string list \<Rightarrow> bool" where
  "has_run trailing ys ss \<longleftrightarrow>
     list_ex (\<lambda>suf. prefix ys suf \<and> (trailing \<longrightarrow> length ys < length suf)) (suffixes (tl ss)) \<and>
     ss \<noteq> [] \<and> ys \<noteq> [] \<and> list_all (\<lambda>y. \<not> is_param y) ys"

lemma has_run_path:
  assumes "route_request pattern path" "has_run trailing ys (segments pattern)"
  shows "Contains path (key_text ys trailing)"
proof -
  obtain p ps where ps: "segments pattern = p # ps" using assms(2) by (cases "segments pattern") (auto simp: has_run_def)
  from assms(2) obtain xs zs where run: "ps = xs @ ys @ zs" "trailing \<Longrightarrow> zs \<noteq> []" "ys \<noteq> []" "\<forall>y\<in>set ys. \<not> is_param y"
    by (auto simp: has_run_def ps list_ex_iff list_all_iff suffix_def prefix_def)
  have "list_all2 seg_ok ((p # xs) @ ys @ zs) (segments path)"
    using assms(1) by (simp add: route_request_def ps run)
  then obtain xs' ys' zs' where s: "segments path = xs' @ ys' @ zs'" "list_all2 seg_ok (p # xs) xs'"
    "list_all2 seg_ok ys ys'" "list_all2 seg_ok zs zs'"
    unfolding list_all2_append1 by blast
  have "ys' = ys" using s(3) run(4) by (induction rule: list_all2_induct) (auto simp: seg_ok_def)
  then show ?thesis
    using run_contained [of path xs' ys zs'] s run by (cases trailing) (auto simp: key_text_def)
qed

text \<open>No writing route can be taken for a look-up by ID.\<close>

definition may_be :: "string \<Rightarrow> string \<Rightarrow> bool" where
  "may_be a p \<longleftrightarrow> is_param p \<or> p = a"

fun adjacent :: "string \<Rightarrow> string \<Rightarrow> string list \<Rightarrow> bool" where
  "adjacent a b (p # q # r # ps) \<longleftrightarrow> may_be a p \<and> may_be b q \<or> adjacent a b (q # r # ps)"
| "adjacent a b _ \<longleftrightarrow> False"

lemma adjacent_at: "may_be a p \<Longrightarrow> may_be b q \<Longrightarrow> adjacent a b (ps @ p # q # r # qs)"
proof (induction ps)
  case (Cons x ps)
  then show ?case by (cases ps; cases "tl ps") auto
qed simp

lemma not_adjacent:
  assumes "route_request pattern path" "Contains path (''/'' @ a @ ''/'' @ b @ ''/'')"
    "CHR ''/'' \<notin> set a" "CHR ''/'' \<notin> set b"
  shows "adjacent a b (segments pattern)"
proof -
  obtain xs ys where s: "segments path = xs @ [a, b] @ ys" "ys \<noteq> []" using contained_run [OF assms(2-4)] by blast
  then have "list_all2 seg_ok (segments pattern) (xs @ [a, b] @ ys)" using assms(1) by (simp add: route_request_def)
  then obtain ps p q qs where p: "segments pattern = ps @ [p, q] @ qs" "seg_ok p a" "seg_ok q b" "list_all2 seg_ok qs ys"
    unfolding list_all2_append2 by (auto simp: list_all2_Cons2)
  then obtain r qs' where "qs = r # qs'" using s(2) by (cases qs) auto
  moreover have "may_be a p" "may_be b q" using p(2,3) by (auto simp: may_be_def seg_ok_def split: if_splits)
  ultimately show ?thesis using adjacent_at [of a p b q ps r qs'] p(1) by simp
qed

definition writing_segments :: "(string \<times> string list) list" where
  "writing_segments = map (\<lambda>(m, p, h). (m, segments p)) (filter writing_route all_routes)"

lemma no_route_by_id: "list_all (\<lambda>(m, ps). m \<noteq> ''GET'' \<and> \<not> adjacent ''schemas'' ''ids'' ps) writing_segments"
  by code_simp

definition kek_segments :: "string list" where
  "kek_segments = [[], ''dek-registry'', ''v1'', ''keks'', ''{name}'']"

lemma routes_keyed:
  "list_all (\<lambda>(m, ps).
     list_ex (\<lambda>(ys, tr, verbs). has_run tr ys ps \<and> list_ex (\<lambda>v. v = m) verbs) audit_keys \<or>
     has_run False [''dek-registry'', ''v1'', ''keks''] ps \<and>
     (has_run True [''deks''] ps \<and> m = ''DELETE'' \<or> ps = kek_segments \<and> (m = ''PUT'' \<or> m = ''DELETE'')))
   writing_segments"
  by code_simp

lemma kek_name_hides:
  assumes "route_request pattern path" "segments pattern = kek_segments" "Contains path ''/deks''"
  shows "HasPrefix path ''/dek-registry/v1/keks/deks''"
proof -
  obtain name where s: "segments path = [[], ''dek-registry'', ''v1'', ''keks'', name]"
    using assms(1,2) by (auto simp: route_request_def kek_segments_def list_all2_Cons1 seg_ok_def is_param_def HasPrefix_def)
  then have "path = ''/dek-registry/v1/keks/'' @ name" using join_split [of path] by simp
  moreover have "HasPrefix name ''deks''" using contained_segment [of path "''deks''"] assms(3) s by (auto simp: HasPrefix_def)
  ultimately show ?thesis by (auto simp: HasPrefix_iff)
qed



definition sample_audit_request :: "string \<Rightarrow> string \<Rightarrow> audit_request" where
  "sample_audit_request verb path =
     \<lparr>hr_Method = verb, hr_Path = path, hr_XForwardedFor = [], hr_XRealIP = [], hr_RemoteAddr = ''10.0.0.9:5123'',
      ar_Query = [(''permanent'', ''true'')], ar_TLS = Some 0, ar_UserAgent = ''curl'', ar_RequestID = ''r-1'',
      ar_User = None, ar_Body = None\<rparr>"


text \<open>
  The exception is real: deleting or changing a key encryption key whose name begins with \<open>deks\<close> has
  no event type, and nothing is logged.  A writing request whose path contains \<open>/schemas/ids/\<close>, which an
  escaped subject name can bring about, passes for a look-up and is not logged by default either.
  Below a context the target is cut out at the offset of the root path, so that the context's name
  stands for the subject.
\<close>

lemma key_named_deks_unaudited:
  "determineEventType (sample_audit_request ''DELETE'' ''/dek-registry/v1/keks/deks-main'') 200 = []"
  "determineEventType (sample_audit_request ''PUT'' ''/dek-registry/v1/keks/deks-main'') 200 = []"
  by code_simp+

lemma write_taken_for_lookup:
  "determineEventType (sample_audit_request ''PUT'' ''/config/a/schemas/ids/b'') 200 = AuditEventSchemaGet \<and>
   AuditEventSchemaGet \<notin> set setDefaultEnabledEvents"
  by code_simp

lemma context_taken_for_subject:
  "extractTarget ''/contexts/.team/subjects/orders/versions'' = (''subject'', ''.team'')"
  "extractTarget ''/subjects/orders/versions'' = (''subject'', ''orders'')"
  by code_simp+

section \<open>Order of delivery\<close>

text \<open>What the goroutines can do to a logger: log an event, drain one, drain the rest on closing.\<close>

inductive audit_run :: "audit_codec \<Rightarrow> AuditLogger \<Rightarrow> AuditEvent list \<Rightarrow> AuditLogger \<Rightarrow> bool" for cd al0 where
  start: "audit_run cd al0 [] al0"
| log: "audit_run cd al0 es al \<Longrightarrow> audit_run cd al0 (es @ [e]) (AuditLogger_Log cd al e)"
| drain: "audit_run cd al0 es al \<Longrightarrow> audit_run cd al0 es (AuditLogger_drain cd al)"
| drain_rest: "audit_run cd al0 es al \<Longrightarrow> audit_run cd al0 es (AuditLogger_drain_rest cd al)"

definition wanted :: "AuditConfig \<Rightarrow> AuditEvent \<Rightarrow> bool" where
  "wanted cfg e \<longleftrightarrow> ac_Enabled cfg \<and> ev_EventType e \<in> set (enabled_events cfg)"

definition line_of :: "audit_codec \<Rightarrow> string \<Rightarrow> AuditEvent \<Rightarrow> string" where
  "line_of cd formatType e =
     (if formatType = ''cef'' then FormatCEF (cd_rfc3339 cd) e else the (FormatJSON (cd_marshal cd) e))"

lemma write_outputs_line:
  "cd_marshal cd e \<noteq> None \<Longrightarrow>
     write_outputs cd e fos = map (\<lambda>fo. fo\<lparr>fo_sent := fo_sent fo @ [line_of cd (fo_formatType fo) e]\<rparr>) fos"
  by (induction fos) (auto simp: line_of_def FormatJSON_def)

text \<open>The state of a logger that has written \<open>sent\<close> and still holds \<open>ch\<close>.\<close>

definition logger_at :: "audit_codec \<Rightarrow> AuditConfig \<Rightarrow> AuditEvent list \<Rightarrow> AuditEvent list \<Rightarrow> AuditLogger \<Rightarrow> bool" where
  "logger_at cd cfg sent ch al \<longleftrightarrow>
     al_config al = cfg \<and> al_enabledEvents al = enabled_events cfg \<and>
     al_capacity al = al_capacity (NewAuditLogger cfg) \<and> al_ch al = Some ch \<and>
     al_outputs al = map (\<lambda>fo. fo\<lparr>fo_sent := map (line_of cd (fo_formatType fo)) sent\<rparr>) (al_outputs (NewAuditLogger cfg))"

lemma logger_at_write:
  assumes "logger_at cd cfg sent (e # ch) al" "cd_marshal cd e \<noteq> None"
  shows "logger_at cd cfg (sent @ [e]) ch (AuditLogger_writeEvent cd (al\<lparr>al_ch := Some ch\<rparr>) e)"
  using assms by (simp add: logger_at_def AuditLogger_writeEvent_def write_outputs_line)

lemma logger_at_rest:
  assumes "logger_at cd cfg sent ch al" "\<forall>e\<in>set ch. cd_marshal cd e \<noteq> None"
  shows "logger_at cd cfg (sent @ ch) [] (fold (\<lambda>e al. AuditLogger_writeEvent cd al e) ch (al\<lparr>al_ch := Some []\<rparr>))"
  using assms
proof (induction ch arbitrary: sent al)
  case Nil
  then show ?case by (simp add: logger_at_def)
next
  case (Cons e ch)
  let ?al = "AuditLogger_writeEvent cd (al\<lparr>al_ch := Some ch\<rparr>) e"
  have "logger_at cd cfg (sent @ [e]) ch ?al" using Cons.prems by (auto intro: logger_at_write)
  moreover have "AuditLogger_writeEvent cd (al\<lparr>al_ch := Some []\<rparr>) e = ?al\<lparr>al_ch := Some []\<rparr>"
    by (cases al) (simp add: AuditLogger_writeEvent_def)
  ultimately show ?case using Cons.IH [of "sent @ [e]" ?al] Cons.prems(2) by simp
qed

lemma logger_at_new: "logger_at cd cfg [] [] (NewAuditLogger cfg)"
  by (auto simp: logger_at_def NewAuditLogger_def new_output_def map_idI)

lemma logger_at_log:
  assumes "logger_at cd cfg sent ch al"
  shows "logger_at cd cfg sent
     (if wanted cfg e \<and> length ch < al_capacity (NewAuditLogger cfg) then ch @ [e] else ch) (AuditLogger_Log cd al e)"
  using assms by (auto simp: logger_at_def AuditLogger_Log_def wanted_def)

lemma subseq_filter_set: "subseq xs (filter P es) \<Longrightarrow> set xs \<subseteq> set es"
proof
  fix x
  assume "subseq xs (filter P es)" "x \<in> set xs"
  then obtain y where "y \<in> set (filter P es)" "x = y" by (rule list_emb_set)
  then show "x \<in> set es" by simp
qed

lemma audit_run_at:
  assumes "audit_run cd (NewAuditLogger cfg) es al" "\<forall>e\<in>set es. cd_marshal cd e \<noteq> None"
  shows "\<exists>sent ch. logger_at cd cfg sent ch al \<and> subseq (sent @ ch) (filter (wanted cfg) es) \<and>
     (length (filter (wanted cfg) es) \<le> al_capacity (NewAuditLogger cfg) \<longrightarrow> sent @ ch = filter (wanted cfg) es)"
  using assms
proof (induction rule: audit_run.induct)
  case start
  then show ?case using logger_at_new by force
next
  case (log es al e)
  then obtain sent ch where at: "logger_at cd cfg sent ch al" "subseq (sent @ ch) (filter (wanted cfg) es)"
    "length (filter (wanted cfg) es) \<le> al_capacity (NewAuditLogger cfg) \<Longrightarrow> sent @ ch = filter (wanted cfg) es" by auto
  have len: "length ch \<le> length (filter (wanted cfg) es)" using list_emb_length [OF at(2)] by simp
  have "subseq (sent @ ch @ [e]) (filter (wanted cfg) es @ [e])"
    using list_emb_append_mono [OF at(2), of "[e]" "[e]"] by simp
  moreover have "subseq (sent @ ch) (filter (wanted cfg) es @ [e])" using at(2) by (rule list_emb_prefix)
  ultimately show ?case using logger_at_log [OF at(1), of e] at len by (fastforce split: if_splits)
next
  case (drain es al)
  then obtain sent ch where at: "logger_at cd cfg sent ch al" "subseq (sent @ ch) (filter (wanted cfg) es)"
    "length (filter (wanted cfg) es) \<le> al_capacity (NewAuditLogger cfg) \<Longrightarrow> sent @ ch = filter (wanted cfg) es" by auto
  show ?case
  proof (cases ch)
    case Nil
    then show ?thesis using at by (intro exI [of _ sent] exI [of _ ch]) (auto simp: logger_at_def AuditLogger_drain_def)
  next
    case (Cons e ch')
    have "e \<in> set es" using subseq_filter_set [OF at(2)] Cons by simp
    then have "logger_at cd cfg (sent @ [e]) ch' (AuditLogger_drain cd al)"
      using logger_at_write [of cd cfg sent e ch' al] at(1) Cons drain.prems by (auto simp: AuditLogger_drain_def logger_at_def)
    with at Cons show ?thesis by (intro exI [of _ "sent @ [e]"] exI [of _ ch']) simp
  qed
next
  case (drain_rest es al)
  then obtain sent ch where at: "logger_at cd cfg sent ch al" "subseq (sent @ ch) (filter (wanted cfg) es)"
    "length (filter (wanted cfg) es) \<le> al_capacity (NewAuditLogger cfg) \<Longrightarrow> sent @ ch = filter (wanted cfg) es" by auto
  have "\<forall>e\<in>set ch. cd_marshal cd e \<noteq> None" using subseq_filter_set [OF at(2)] drain_rest.prems by auto
  then have "logger_at cd cfg (sent @ ch) [] (AuditLogger_drain_rest cd al)"
    using logger_at_rest [OF at(1)] at(1) by (auto simp: AuditLogger_drain_rest_def logger_at_def)
  with at show ?case by (intro exI [of _ "sent @ ch"] exI [of _ "[]"]) simp
qed



definition sample_codec :: audit_codec where
  "sample_codec = \<lparr>cd_rfc3339 = Itoa, cd_marshal = (\<lambda>e. Some (ev_EventType e))\<rparr>"

definition sample_audit_config :: AuditConfig where
  "sample_audit_config = \<lparr>ac_Enabled = True, ac_Events = [], ac_IncludeBody = False, ac_BufferSize = 1,
     ac_LogFile = [], ac_outputs = [(''stdout'', []), (''syslog'', ''cef'')]\<rparr>"

definition sample_event :: "AuditEventType \<Rightarrow> AuditEvent" where
  "sample_event eventType = AuditEvent_zero\<lparr>ev_EventType := eventType, ev_Outcome := ''success''\<rparr>"


section \<open>One line, readable back\<close>

lemma replace_concat: "replace_char c rep (concat (map f s)) = concat (map (\<lambda>x. replace_char c rep (f x)) s)"
  by (induction s) (auto simp: replace_char_def)

definition esc :: "char \<Rightarrow> string" where
  "esc c = (if c = Backslash then [Backslash, Backslash] else if c = CHR ''='' then [Backslash, CHR ''='']
            else if c = Newline then [Backslash, CHR ''n''] else if c = Return then [Backslash, CHR ''r''] else [c])"

lemma escape_chars: "cefEscapeExtValue s = concat (map esc s)"
proof -
  have "replace_char Backslash [Backslash, Backslash] s = concat (map (\<lambda>c. if c = Backslash then [Backslash, Backslash] else [c]) s)"
    by (simp add: replace_char_def)
  then show ?thesis
    unfolding cefEscapeExtValue_def
    by (simp add: replace_concat) (rule arg_cong [of _ _ concat], rule map_cong, auto simp: replace_char_def esc_def)
qed

fun unescape :: "string \<Rightarrow> string" where
  "unescape (c # d # s) =
     (if c = Backslash then (if d = CHR ''n'' then Newline else if d = CHR ''r'' then Return else d) # unescape s
      else c # unescape (d # s))"
| "unescape s = s"

lemma unescape_escape: "unescape (cefEscapeExtValue s) = s"
proof -
  have "unescape (esc c @ t) = c # unescape t" for c t by (cases t) (auto simp: esc_def)
  then show ?thesis unfolding escape_chars by (induction s) auto
qed

text \<open>Reading the extensions back: cut at the unescaped signs of equality, a key is what follows the last space.\<close>

definition pre :: "string \<Rightarrow> string list \<Rightarrow> string list" where
  "pre x ss = (case ss of [] \<Rightarrow> [x] | y # ys \<Rightarrow> (x @ y) # ys)"

fun split_eq :: "string \<Rightarrow> string list" where
  "split_eq [] = [[]]"
| "split_eq [c] = (if c = CHR ''='' then [[], []] else [[c]])"
| "split_eq (c # d # s) =
     (if c = Backslash then pre [c, d] (split_eq s)
      else if c = CHR ''='' then [] # split_eq (d # s)
      else pre [c] (split_eq (d # s)))"

definition cut_key :: "string \<Rightarrow> string \<times> string" where
  "cut_key seg =
     (rev (tl (dropWhile (\<lambda>c. c \<noteq> CHR '' '') (rev seg))), rev (takeWhile (\<lambda>c. c \<noteq> CHR '' '') (rev seg)))"

fun pair_up :: "string \<Rightarrow> string list \<Rightarrow> (string \<times> string) list" where
  "pair_up k [] = []"
| "pair_up k [v] = [(k, unescape v)]"
| "pair_up k (seg # segs) = (k, unescape (fst (cut_key seg))) # pair_up (snd (cut_key seg)) segs"

definition parse_fields :: "string \<Rightarrow> (string \<times> string) list" where
  "parse_fields s = (case split_eq s of [] \<Rightarrow> [] | k # segs \<Rightarrow> pair_up k segs)"

definition key_ok :: "string \<Rightarrow> bool" where
  "key_ok k \<longleftrightarrow> k \<noteq> [] \<and> list_all (\<lambda>c. c \<noteq> CHR '' '' \<and> c \<noteq> CHR ''='' \<and> c \<noteq> Backslash \<and> c \<noteq> Newline) k"

lemma split_eq_nonempty: "split_eq s \<noteq> []"
  by (induction s rule: split_eq.induct) (auto simp: pre_def split: list.splits)

lemma split_eq_plain: "c \<noteq> Backslash \<Longrightarrow> c \<noteq> CHR ''='' \<Longrightarrow> split_eq (c # s) = pre [c] (split_eq s)"
  by (cases s) (auto simp: pre_def)

lemma split_eq_sign: "split_eq (CHR ''='' # s) = [] # split_eq s"
  by (cases s) auto

lemma pre_pre [simp]: "ss \<noteq> [] \<Longrightarrow> pre x (pre y ss) = pre (x @ y) ss" "pre [] ss = (if ss = [] then [[]] else ss)"
  by (auto simp: pre_def split: list.splits)

lemma split_eq_key: "key_ok k \<or> k = [] \<Longrightarrow> split_eq (k @ s) = pre k (split_eq s)"
proof (induction k)
  case (Cons c k)
  then have "split_eq (k @ s) = pre k (split_eq s)" by (cases k) (auto simp: key_ok_def split_eq_nonempty)
  with Cons.prems show ?case by (simp add: split_eq_plain key_ok_def split_eq_nonempty)
qed (simp add: split_eq_nonempty)

lemma split_eq_value: "split_eq (cefEscapeExtValue v @ s) = pre (cefEscapeExtValue v) (split_eq s)"
  unfolding escape_chars
proof (induction v)
  case (Cons c v)
  have "split_eq (esc c @ t) = pre (esc c) (split_eq t)" for t
    by (cases t) (auto simp: esc_def split_eq_plain pre_def)
  then show ?case using Cons by (simp add: split_eq_nonempty)
qed (simp add: split_eq_nonempty)

fun fields_text :: "(string \<times> string) list \<Rightarrow> string" where
  "fields_text [] = []"
| "fields_text [(k, v)] = k @ ''='' @ cefEscapeExtValue v"
| "fields_text ((k, v) # kvs) = k @ ''='' @ cefEscapeExtValue v @ '' '' @ fields_text kvs"

lemma write_fields_from:
  "b \<noteq> [] \<Longrightarrow> fold (\<lambda>(key, val) b. writeExtField b key val) kvs b = b @ (if kvs = [] then [] else '' '' @ fields_text kvs)"
proof (induction kvs arbitrary: b)
  case (Cons kv kvs)
  obtain k v where kv: "kv = (k, v)" by force
  have "writeExtField b k v \<noteq> []" by (simp add: writeExtField_def)
  then show ?case using Cons by (cases kvs) (auto simp: kv writeExtField_def)
qed simp

lemma write_fields_text: "write_fields kvs = fields_text kvs"
proof (cases kvs)
  case (Cons kv rest)
  obtain k v where kv: "kv = (k, v)" by force
  show ?thesis
    using write_fields_from [of "k @ ''='' @ cefEscapeExtValue v" rest]
    by (cases rest) (auto simp: write_fields_def Cons kv writeExtField_def)
qed (simp add: write_fields_def)

lemma cut_key_at: "key_ok k \<Longrightarrow> cut_key (v @ '' '' @ k) = (v, k)"
proof -
  assume "key_ok k"
  then have k: "\<forall>c\<in>set (rev k). c \<noteq> CHR '' ''" by (auto simp: key_ok_def list_all_iff)
  show ?thesis
    using takeWhile_append2 [of "rev k" "\<lambda>c. c \<noteq> CHR '' ''" "CHR '' '' # rev v"]
      dropWhile_append2 [of "rev k" "\<lambda>c. c \<noteq> CHR '' ''" "CHR '' '' # rev v"] k
    by (simp add: cut_key_def)
qed

lemma parse_pairs:
  "list_all (\<lambda>(k, v). key_ok k) kvs \<Longrightarrow> kvs \<noteq> [] \<Longrightarrow>
     \<exists>segs. split_eq (fields_text kvs) = fst (hd kvs) # segs \<and> segs \<noteq> [] \<and> pair_up (fst (hd kvs)) segs = kvs"
proof (induction kvs rule: fields_text.induct)
  case (2 k v)
  have "split_eq (cefEscapeExtValue v) = [cefEscapeExtValue v]" using split_eq_value [of v "[]"] by (simp add: pre_def)
  then show ?case using 2 by (simp add: split_eq_key split_eq_sign pre_def unescape_escape)
next
  case (3 k v kv kvs)
  obtain k' v' where kv: "kv = (k', v')" by force
  from 3 obtain segs where segs: "split_eq (fields_text (kv # kvs)) = k' # segs" "segs \<noteq> []" "pair_up k' segs = kv # kvs"
    by (auto simp: kv)
  have "split_eq (cefEscapeExtValue v @ CHR '' '' # fields_text (kv # kvs)) = (cefEscapeExtValue v @ '' '' @ k') # segs"
    by (simp add: split_eq_value split_eq_plain segs pre_def)
  then have s: "split_eq (fields_text ((k, v) # kv # kvs)) = k # (cefEscapeExtValue v @ '' '' @ k') # segs"
    using 3(2) by (simp add: kv split_eq_key split_eq_sign pre_def)
  have "cut_key (cefEscapeExtValue v @ '' '' @ k') = (cefEscapeExtValue v, k')"
    using 3(2) by (intro cut_key_at) (simp add: kv)
  with s segs show ?case by (cases segs) (auto simp: unescape_escape)
qed simp

lemma field_keys:
  "key_ok k \<Longrightarrow> list_all (\<lambda>(k, v). key_ok k) (plain k v)"
  "key_ok k \<Longrightarrow> list_all (\<lambda>(k, v). key_ok k) (labelled b k v l)"
  by (auto simp: plain_def labelled_def key_ok_def)

lemma cef_keys_ok: "list_all (\<lambda>(k, v). key_ok k) (cef_fields rfc e)"
  unfolding cef_fields_def list_all_append
  by (intro conjI field_keys) (simp_all add: key_ok_def)

lemma escaped_one_line: "Newline \<notin> set (cefEscapeExtValue s)" "Newline \<notin> set (cefEscapeHeader s) \<longleftrightarrow> Newline \<notin> set s"
  by (auto simp: escape_chars esc_def cefEscapeHeader_def replace_char_def split: if_splits)

lemma fields_one_line: "list_all (\<lambda>(k, v). key_ok k) kvs \<Longrightarrow> Newline \<notin> set (fields_text kvs)"
  by (induction kvs rule: fields_text.induct) (auto simp: escaped_one_line key_ok_def list_all_iff)

lemma Itoa_one_line: "Newline \<notin> set (Itoa n)"
  using nat_digits_no_sep [of Newline] by (auto simp: Itoa_def digit_value_def)

lemma description_one_line: "Newline \<notin> set (ev_EventType e) \<Longrightarrow> Newline \<notin> set (cefDescription e)"
proof -
  have "list_all (\<lambda>(k, d). \<not> list_ex (\<lambda>c. c = Newline) d) cefDescriptions" by code_simp
  then show "Newline \<notin> set (ev_EventType e) \<Longrightarrow> Newline \<notin> set (cefDescription e)"
    by (auto simp: cefDescription_def list_all_iff list_ex_iff split: option.splits dest!: map_of_SomeD)
qed

text \<open>
  C13.  No part of a request can forge an audit record: whatever stands in the path, the user agent, the
  actor, the error and the other fields, an event in the common event format is one line, and its
  extension fields can be read back exactly, so that no value can end the line, pass for a further
  field or hide one.
\<close>

theorem cef_not_forgeable:
  assumes "Newline \<notin> set (ev_EventType e)"
  shows "\<exists>header. FormatCEF rfc e = header @ write_fields (cef_fields rfc e) @ [Newline] \<and>
     Newline \<notin> set (header @ write_fields (cef_fields rfc e)) \<and>
     parse_fields (write_fields (cef_fields rfc e)) = cef_fields rfc e"
proof -
  have "cef_fields rfc e \<noteq> []" by (simp add: cef_fields_def)
  from parse_pairs [OF cef_keys_ok this] have "parse_fields (write_fields (cef_fields rfc e)) = cef_fields rfc e"
    by (auto simp: write_fields_text parse_fields_def)
  moreover have "Newline \<notin> set (write_fields (cef_fields rfc e))"
    unfolding write_fields_text by (rule fields_one_line [OF cef_keys_ok])
  moreover have "Newline \<notin> set (''CEF:0|AxonOps|SchemaRegistry|1.0|'' @ cefEscapeHeader (ev_EventType e) @ ''|'' @
     cefEscapeHeader (cefDescription e) @ ''|'' @ Itoa (cefSeverity e) @ ''|'')"
    using assms by (simp add: escaped_one_line Itoa_one_line description_one_line)
  ultimately show ?thesis
    unfolding FormatCEF_def
    by (intro exI [of _ "''CEF:0|AxonOps|SchemaRegistry|1.0|'' @ cefEscapeHeader (ev_EventType e) @ ''|'' @
     cefEscapeHeader (cefDescription e) @ ''|'' @ Itoa (cefSeverity e) @ ''|''"]) simp
qed

definition forged_event :: AuditEvent where
  "forged_event = AuditEvent_zero\<lparr>ev_EventType := AuditEventSchemaRegister, ev_Outcome := ''failure'',
     ev_Path := ''/subjects/x outcome=success'' @ [Newline] @ ''CEF:0|'', ev_UserAgent := [Backslash]\<rparr>"

theorem cef_not_forgeable_witness:
  "parse_fields (write_fields (cef_fields Itoa forged_event)) = cef_fields Itoa forged_event"
proof -
  have "Newline \<notin> set (ev_EventType forged_event)" by code_simp
  from cef_not_forgeable [OF this] show ?thesis by blast
qed


section \<open>Batches of the webhook\<close>

inductive webhook_run :: "WebhookOutput \<Rightarrow> string list \<Rightarrow> WebhookOutput \<Rightarrow> bool" for w0 where
  start: "webhook_run w0 [] w0"
| data: "webhook_run w0 ds w \<Longrightarrow> webhook_run w0 (ds @ [d]) (Webhook_Write w d)"
| take: "webhook_run w0 ds w \<Longrightarrow> webhook_run w0 ds (Webhook_take w)"
| tick: "webhook_run w0 ds w \<Longrightarrow> webhook_run w0 ds (Webhook_tick w)"

definition webhook_data :: "WebhookOutput \<Rightarrow> string list" where
  "webhook_data w = concat (wo_batches w) @ wo_batch w @ wo_ch w"

definition batches_ok :: "WebhookOutput \<Rightarrow> bool" where
  "batches_ok w \<longleftrightarrow> length (wo_batch w) < wo_batchSize w \<and>
     (\<forall>b\<in>set (wo_batches w). b \<noteq> [] \<and> length b \<le> wo_batchSize w)"

lemma webhook_take_ok:
  "batches_ok w \<Longrightarrow> batches_ok (Webhook_take w)" "webhook_data (Webhook_take w) = webhook_data w"
  "wo_batchSize (Webhook_take w) = wo_batchSize w" "wo_capacity (Webhook_take w) = wo_capacity w"
  "wo_ch (Webhook_take w) = tl (wo_ch w)"
  by (auto simp: Webhook_take_def send_batch_def batches_ok_def webhook_data_def Let_def split: list.splits)

lemma webhook_tick_ok:
  "batches_ok w \<Longrightarrow> batches_ok (Webhook_tick w)" "webhook_data (Webhook_tick w) = webhook_data w"
  "wo_batchSize (Webhook_tick w) = wo_batchSize w" "wo_capacity (Webhook_tick w) = wo_capacity w"
  "wo_ch (Webhook_tick w) = wo_ch w" "wo_batch (Webhook_tick w) = []"
  by (auto simp: Webhook_tick_def send_batch_def batches_ok_def webhook_data_def)

lemma webhook_takes_ok:
  "batches_ok w \<Longrightarrow> batches_ok ((Webhook_take ^^ n) w)" "webhook_data ((Webhook_take ^^ n) w) = webhook_data w"
  "wo_ch ((Webhook_take ^^ n) w) = drop n (wo_ch w)"
  by (induction n) (auto simp: webhook_take_ok drop_Suc tl_drop)

lemma webhook_run_ok:
  assumes "webhook_run w0 ds w" "wo_ch w0 = []" "wo_batch w0 = []" "wo_batches w0 = []" "wo_batchSize w0 > 0"
  shows "batches_ok w \<and> wo_capacity w = wo_capacity w0 \<and> subseq (webhook_data w) ds \<and>
     (length ds \<le> wo_capacity w0 \<longrightarrow> webhook_data w = ds)"
  using assms
proof (induction rule: webhook_run.induct)
  case start
  then show ?case by (simp add: batches_ok_def webhook_data_def)
next
  case (data ds w d)
  then have "subseq (webhook_data w @ [d]) (ds @ [d])" "subseq (webhook_data w) (ds @ [d])"
    using list_emb_append_mono [of "(=)" "webhook_data w" ds "[d]" "[d]"] by (auto intro: list_emb_prefix)
  moreover have "length (wo_ch w) \<le> length ds"
    using list_emb_length [of "(=)" "webhook_data w" ds] data by (simp add: webhook_data_def)
  moreover have "batches_ok (Webhook_Write w d)"
    using data by (simp add: Webhook_Write_def batches_ok_def)
  ultimately show ?case using data by (auto simp: Webhook_Write_def webhook_data_def)
qed (simp_all add: webhook_take_ok webhook_tick_ok)

lemma attempts_bounded: "attempt \<le> m \<Longrightarrow> snd (send_attempts m answers attempt) \<le> m"
  by (induction m answers attempt rule: send_attempts.induct)
    (subst send_attempts.simps, auto split: webhook_answer.split)

text \<open>
  The webhook hands on what it accepted: batches are never empty and never larger than configured,
  put end to end they are the accepted events in order, with none missing while no more were written
  than the buffer holds; stopping leaves nothing behind; and a batch is offered at most as often as
  configured.
\<close>

lemma webhook_batches:
  assumes "NewWebhookOutput url batchSize maxRetries bufferSize = Some w0" "webhook_run w0 ds w"
  shows "concat (wo_batches (Webhook_stop w)) = webhook_data w \<and> subseq (webhook_data w) ds \<and>
     (length ds \<le> wo_capacity w0 \<longrightarrow> webhook_data w = ds) \<and>
     (\<forall>b\<in>set (wo_batches (Webhook_stop w)). b \<noteq> [] \<and> length b \<le> wo_batchSize (Webhook_stop w)) \<and>
     snd (send_attempts (wo_maxRetries w0) answers 0) \<le> wo_maxRetries w0"
proof -
  have w0: "wo_ch w0 = []" "wo_batch w0 = []" "wo_batches w0 = []" "wo_batchSize w0 > 0"
    using assms(1) by (auto simp: NewWebhookOutput_def or_default_def split: if_splits)
  have run: "batches_ok w" "subseq (webhook_data w) ds" "length ds \<le> wo_capacity w0 \<longrightarrow> webhook_data w = ds"
    using webhook_run_ok [OF assms(2) w0] by auto
  have "batches_ok (Webhook_stop w)" "webhook_data (Webhook_stop w) = webhook_data w"
    using run(1) by (simp_all add: Webhook_stop_def webhook_tick_ok webhook_takes_ok)
  moreover have "wo_ch (Webhook_stop w) = []" "wo_batch (Webhook_stop w) = []"
    by (simp_all add: Webhook_stop_def webhook_tick_ok webhook_takes_ok)
  ultimately show ?thesis using run attempts_bounded [of 0] by (simp add: batches_ok_def webhook_data_def)
qed

end
