(* ===== verification/Schema_Handler_Properties.thy ===== *)
theory Schema_Handler_Properties
  imports Schema_Handlers Registry_Properties
begin

text \<open>
  What the HTTP interface of schemas, configuration and modes guarantees: modes are enforced on every
  write, responses are well typed, a version is answered for as the catalogue has it; and where the
  handlers do something else than they mean to.
\<close>

section \<open>Calls\<close>

text \<open>One call for each route of the registry that the handlers serve.\<close>

datatype read_op =
    ByID | RawByID | SubjectsByID | VersionsByID | Subjects | Versions | OneVersion | RawVersion
  | ReferencedBy | SchemaList | ContextList | SubjectMetadata | ReadConfig | ReadMode

datatype schema_call =
    ReadCall read_op "unit request"
  | LookupCall "LookupSchemaRequest request" | CompatCall "LookupSchemaRequest request"
  | RegisterCall "RegisterSchemaRequest request"
  | DeleteSubjectCall "unit request" | DeleteVersionCall "unit request"
  | SetConfigCall "ConfigRequest request" | DeleteConfigCall "unit request" | DeleteGlobalConfigCall "unit request"
  | ImportCall "ImportRequestItem list request"
  | SetModeCall "string request" | DeleteModeCall "unit request" | DeleteGlobalModeCall "unit request"

text \<open>What a call takes from the runtime: orders and clock, the rest of the request, start and duration.\<close>

record api_env =
  ap_go :: go_env
  ap_list :: "SchemaRecord order"
  ap_audit :: audit_request
  ap_start :: go_time
  ap_dur :: int

primrec serve_read :: "api_env \<Rightarrow> 'p Handler \<Rightarrow> Store \<Rightarrow> unit request \<Rightarrow> AuditHints \<Rightarrow> read_op \<Rightarrow> handled_schema" where
  "serve_read env h s rq hints ByID = GetSchemaByID h s rq hints"
| "serve_read env h s rq hints RawByID = GetRawSchemaByID h s rq hints"
| "serve_read env h s rq hints SubjectsByID = GetSubjectsBySchemaID h s rq hints"
| "serve_read env h s rq hints VersionsByID = GetVersionsBySchemaID h s rq hints"
| "serve_read env h s rq hints Subjects = ListSubjects h s rq hints"
| "serve_read env h s rq hints Versions = GetVersions h s rq hints"
| "serve_read env h s rq hints OneVersion = GetVersion h s rq hints"
| "serve_read env h s rq hints RawVersion = GetRawSchemaByVersion h s rq hints"
| "serve_read env h s rq hints ReferencedBy = GetReferencedBy h s rq hints"
| "serve_read env h s rq hints SchemaList = ListSchemas (ap_list env) h s rq hints"
| "serve_read env h s rq hints ContextList = GetContexts h s rq hints"
| "serve_read env h s rq hints SubjectMetadata = GetSubjectMetadata h s rq hints"
| "serve_read env h s rq hints ReadConfig = GetConfig h s rq hints"
| "serve_read env h s rq hints ReadMode = GetModeHandler h s rq hints"

primrec serve_schema :: "api_env \<Rightarrow> 'p Handler \<Rightarrow> Store \<Rightarrow> AuditHints \<Rightarrow> schema_call \<Rightarrow> handled_schema" where
  "serve_schema env h s hints (ReadCall op rq) = serve_read env h s rq hints op"
| "serve_schema env h s hints (LookupCall rq) = LookupSchema (ap_go env) h s rq hints"
| "serve_schema env h s hints (CompatCall rq) = CheckCompatibility h s rq hints"
| "serve_schema env h s hints (RegisterCall rq) = RegisterSchema (ap_go env) h s rq hints"
| "serve_schema env h s hints (DeleteSubjectCall rq) = DeleteSubject h s rq hints"
| "serve_schema env h s hints (DeleteVersionCall rq) = DeleteVersion h s rq hints"
| "serve_schema env h s hints (SetConfigCall rq) = SetConfig h s rq hints"
| "serve_schema env h s hints (DeleteConfigCall rq) = DeleteConfig h s rq hints"
| "serve_schema env h s hints (DeleteGlobalConfigCall rq) = DeleteGlobalConfig h s rq hints"
| "serve_schema env h s hints (ImportCall rq) =
     fst (ImportSchemas (ap_go env) h s rq (ap_audit env) (ap_start env) (ap_dur env) hints)"
| "serve_schema env h s hints (SetModeCall rq) = SetModeHandler h s rq hints"
| "serve_schema env h s hints (DeleteModeCall rq) = DeleteModeHandler h s rq hints"
| "serve_schema env h s hints (DeleteGlobalModeCall rq) = DeleteGlobalModeHandler h s rq hints"

lemmas read_defs = GetSchemaByID_def GetRawSchemaByID_def GetSubjectsBySchemaID_def GetVersionsBySchemaID_def
  ListSubjects_def GetVersions_def GetVersion_def GetRawSchemaByVersion_def GetReferencedBy_def ListSchemas_def
  GetContexts_def GetSubjectMetadata_def GetConfig_def GetModeHandler_def

section \<open>Modes\<close>

text \<open>The context and subject whose mode decides a write; \<open>None\<close> for reads and for the mode itself.\<close>

definition aliased :: "'p Handler \<Rightarrow> Store \<Rightarrow> 'b request \<Rightarrow> string \<times> string" where
  "aliased h s rq = (let (c, x) = request_target rq in (c, Registry_ResolveAlias (hd_registry h) s c x))"

primrec write_target :: "'p Handler \<Rightarrow> Store \<Rightarrow> schema_call \<Rightarrow> (string \<times> string) option" where
  "write_target h s (ReadCall op rq) = None"
| "write_target h s (LookupCall rq) = None"
| "write_target h s (CompatCall rq) = None"
| "write_target h s (RegisterCall rq) = Some (aliased h s rq)"
| "write_target h s (DeleteSubjectCall rq) = Some (aliased h s rq)"
| "write_target h s (DeleteVersionCall rq) = Some (aliased h s rq)"
| "write_target h s (SetConfigCall rq) = Some (request_target rq)"
| "write_target h s (DeleteConfigCall rq) = Some (request_target rq)"
| "write_target h s (DeleteGlobalConfigCall rq) = Some (request_ctx rq, [])"
| "write_target h s (ImportCall rq) = Some (request_ctx rq, [])"
| "write_target h s (SetModeCall rq) = None"
| "write_target h s (DeleteModeCall rq) = None"
| "write_target h s (DeleteGlobalModeCall rq) = None"

definition mode_call :: "schema_call \<Rightarrow> bool" where
  "mode_call call \<longleftrightarrow>
     (case call of SetModeCall _ \<Rightarrow> True | DeleteModeCall _ \<Rightarrow> True | DeleteGlobalModeCall _ \<Rightarrow> True | _ \<Rightarrow> False)"

text \<open>The read that overwrites the stored record.\<close>

definition enriching :: "schema_call \<Rightarrow> bool" where
  "enriching call \<longleftrightarrow> (case call of ReadCall ByID rq \<Rightarrow> param rq ''subject'' \<noteq> [] | _ \<Rightarrow> False)"

definition refused :: "'b response \<Rightarrow> bool" where
  "refused resp \<longleftrightarrow> (case resp of ErrorAnswer n _ _ \<Rightarrow> n = 400 \<or> n = 422 | _ \<Rightarrow> False)"

lemma guard_blocks:
  assumes "Registry_GetMode r s c x \<in> {Inr ''READONLY'', Inr ''READONLY_OVERRIDE''}"
  obtains resp :: "string \<Rightarrow> schema_body response"
    where "\<And>what. mode_guard what r s c x = Some (resp what)" "\<And>what. refused (resp what)"
proof -
  obtain mode where mode: "Registry_CheckModeForWrite r s c x = Inr mode" "mode \<noteq> []"
    using assms by (auto simp: Registry_CheckModeForWrite_def)
  show thesis
    by (rule that [of "\<lambda>what. ErrorAnswer 422 ErrorCodeOperationNotPermitted (Text (what @ '' is in '' @ mode @ '' mode''))"])
      (simp_all add: mode_guard_def mode refused_def)
qed

lemma refused_answers [simp]:
  "refused global_rejected" "refused (invalid_body code)" "refused (invalid_type raw)"
  "refused (ErrorAnswer 422 code msg)" "refused (ErrorAnswer 400 code msg)"
  by (simp_all add: refused_def global_rejected_def invalid_body_def invalid_type_def)

text \<open>Each write of a subject, or of a context as a whole, stops at the mode.\<close>

definition stopped :: "Store \<Rightarrow> handled_schema \<Rightarrow> bool" where
  "stopped s res \<longleftrightarrow> fst res = s \<and> refused (fst (snd res))"

lemma stoppedI [intro, simp]: "refused resp \<Longrightarrow> stopped s (s, resp, hints)"
  by (simp add: stopped_def)

lemma stopped_with_subject:
  assumes "aliased h s rq = (c, x)" and "stopped s (body c x)"
  shows "stopped s (with_subject h s rq hints body)"
  using assms by (auto simp: with_subject_def aliased_def Let_def split: prod.splits)

abbreviation read_only :: "'p Handler \<Rightarrow> Store \<Rightarrow> string \<times> string \<Rightarrow> bool" where
  "read_only h s cx \<equiv>
     Registry_GetMode (hd_registry h) s (fst cx) (snd cx) \<in> {Inr ''READONLY'', Inr ''READONLY_OVERRIDE''}"

lemma register_stopped: "read_only h s (aliased h s rq) \<Longrightarrow> stopped s (RegisterSchema e h s rq hints)"
  unfolding RegisterSchema_def
  by (rule stopped_with_subject [OF prod.collapse [symmetric]], elim guard_blocks)
    (simp split: option.split prod.split bool.split)

lemma delete_subject_stopped: "read_only h s (aliased h s rq) \<Longrightarrow> stopped s (DeleteSubject h s rq hints)"
  unfolding DeleteSubject_def
  by (rule stopped_with_subject [OF prod.collapse [symmetric]], elim guard_blocks)
    (simp add: Let_def case_prod_beta)

lemma delete_version_stopped: "read_only h s (aliased h s rq) \<Longrightarrow> stopped s (DeleteVersion h s rq hints)"
  unfolding DeleteVersion_def
  by (rule stopped_with_subject [OF prod.collapse [symmetric]], elim guard_blocks)
    (simp add: Let_def case_prod_beta)

lemma set_config_stopped: "read_only h s (request_target rq) \<Longrightarrow> stopped s (SetConfig h s rq hints)"
  by (elim guard_blocks) (simp add: SetConfig_def Let_def case_prod_beta)

lemma delete_config_stopped: "read_only h s (request_target rq) \<Longrightarrow> stopped s (DeleteConfig h s rq hints)"
  by (elim guard_blocks) (simp add: DeleteConfig_def Let_def case_prod_beta)

lemma delete_global_config_stopped: "read_only h s (request_ctx rq, []) \<Longrightarrow> stopped s (DeleteGlobalConfig h s rq hints)"
  by (elim guard_blocks) (simp add: DeleteGlobalConfig_def Let_def)

lemma import_stopped: "read_only h s (request_ctx rq, []) \<Longrightarrow> stopped s (fst (ImportSchemas e h s rq ar start dur hints))"
  by (auto simp: ImportSchemas_def Let_def)

lemma write_blocked: "write_target h s call = Some cx \<Longrightarrow> read_only h s cx \<Longrightarrow> stopped s (serve_schema env h s hints call)"
  by (cases call)
    (auto simp: register_stopped delete_subject_stopped delete_version_stopped set_config_stopped delete_config_stopped
       delete_global_config_stopped import_stopped)


text \<open>Calls one after the other, each with its own view of the runtime.\<close>

fun serve_all ::
  "'p Handler \<Rightarrow> Store \<Rightarrow> (api_env \<times> AuditHints \<times> schema_call) list \<Rightarrow> Store \<times> schema_body response list" where
  "serve_all h s [] = (s, [])"
| "serve_all h s ((env, hints, call) # calls) =
     (let (s', resp, _) = serve_schema env h s hints call; (s'', resps) = serve_all h s' calls in (s'', resp # resps))"

lemma read_keeps_store: "\<not> enriching (ReadCall op rq) \<Longrightarrow> fst (serve_read env h s rq hints op) = s"
  by (cases op)
    (auto simp: read_defs enriching_def with_schema_id_def with_subject_def enrich_by_subject_def Let_def
      split: option.split sum.split prod.split)

lemma query_keeps_store:
  "fst (LookupSchema e h s rq hints) = s" "fst (CheckCompatibility h s rq hints) = s"
  by (auto simp: LookupSchema_def CheckCompatibility_def with_subject_def Let_def
      split: option.split prod.split bool.split sum.split)

lemma override_everywhere:
  "Registry_resolveGlobalMode r s = ''READONLY_OVERRIDE'' \<Longrightarrow> Registry_GetMode r s c x = Inr ''READONLY_OVERRIDE''"
  by (simp add: Registry_GetMode_def)

lemma override_call:
  assumes "Registry_resolveGlobalMode (hd_registry h) s = ''READONLY_OVERRIDE''" "\<not> mode_call call" "\<not> enriching call"
  shows "fst (serve_schema env h s hints call) = s"
proof (cases "write_target h s call")
  case None
  with assms(2,3) show ?thesis
    by (cases call) (simp_all add: mode_call_def read_keeps_store query_keeps_store)
next
  case (Some cx)
  with write_blocked [OF this, of env hints] show ?thesis
    by (simp add: stopped_def override_everywhere [OF assms(1)])
qed

lemma set_mode_override:
  assumes "Registry_SetMode r s DefaultContext [] mode force = (s', None)" "ToUpper mode = ''READONLY_OVERRIDE''"
  shows "Registry_resolveGlobalMode r s' = ''READONLY_OVERRIDE''"
proof -
  have "s' = fst (Store_SetGlobalMode s DefaultContext \<lparr>mo_Subject = [], mo_Mode = ''READONLY_OVERRIDE''\<rparr>)"
    using assms by (auto simp: Registry_SetMode_def Let_def split: if_splits prod.splits)
  then show ?thesis
    by (simp add: Registry_resolveGlobalMode_def store_defs Let_def Store_putContext_def Store_getContext_def gm_laws)
qed


section \<open>Requests for the witnesses\<close>

definition sample_handler :: "string Handler" where
  "sample_handler =
     \<lparr>hd_registry = sample_registry, hd_auditLogger = True, hd_clusterID = ''c'', hd_version = ''v'', hd_commit = ''x'',
      hd_buildTime = ''t'', hd_configText = cq_Compatibility, hd_quote = (\<lambda>s. s)\<rparr>"

definition plain_request :: "'b option \<Rightarrow> 'b request" where
  "plain_request body =
     \<lparr>rq_ctx = None, rq_subject = ''orders'', rq_version = ''1'', rq_id = ''1'', rq_query = [], rq_body = body\<rparr>"

definition quiet_request :: audit_request where
  "quiet_request =
     \<lparr>hr_Method = ''POST'', hr_Path = ''/import/schemas'', hr_XForwardedFor = [], hr_XRealIP = [],
      hr_RemoteAddr = ''10.0.0.9:5123'', ar_Query = [], ar_TLS = None, ar_UserAgent = [], ar_RequestID = [],
      ar_User = None, ar_Body = None\<rparr>"

definition sample_api_env :: api_env where
  "sample_api_env = \<lparr>ap_go = sample_env, ap_list = (\<lambda>xs. xs), ap_audit = quiet_request, ap_start = 0, ap_dur = 0\<rparr>"

definition override_request :: "string request" where
  "override_request = (plain_request (Some ''readonly_override''))\<lparr>rq_subject := []\<rparr>"

definition override_store :: Store where
  "override_store = fst (serve_schema sample_api_env sample_handler sample_store AuditHints_zero (SetModeCall override_request))"



definition kill_calls :: "(api_env \<times> AuditHints \<times> schema_call) list" where
  "kill_calls =
     [(sample_api_env, AuditHints_zero, DeleteSubjectCall (plain_request None)),
      (sample_api_env, AuditHints_zero, ReadCall Versions (plain_request None))]"


section \<open>Types of the responses\<close>

text \<open>The body a call answers with, its status, and the error codes that go with a status.\<close>

primrec read_body :: "read_op \<Rightarrow> schema_body \<Rightarrow> bool" where
  "read_body ByID b = (case b of SchemaByIDBody _ \<Rightarrow> True | _ \<Rightarrow> False)"
| "read_body RawByID b = (case b of RawBody _ \<Rightarrow> True | _ \<Rightarrow> False)"
| "read_body SubjectsByID b = (case b of StringsBody _ \<Rightarrow> True | _ \<Rightarrow> False)"
| "read_body VersionsByID b = (case b of PairsBody _ \<Rightarrow> True | _ \<Rightarrow> False)"
| "read_body Subjects b = (case b of StringsBody _ \<Rightarrow> True | _ \<Rightarrow> False)"
| "read_body Versions b = (case b of IntsBody _ \<Rightarrow> True | _ \<Rightarrow> False)"
| "read_body OneVersion b = (case b of SubjectVersionBody _ \<Rightarrow> True | _ \<Rightarrow> False)"
| "read_body RawVersion b = (case b of RawBody _ \<Rightarrow> True | _ \<Rightarrow> False)"
| "read_body ReferencedBy b = (case b of IntsBody _ \<Rightarrow> True | _ \<Rightarrow> False)"
| "read_body SchemaList b = (case b of SchemaListBody _ \<Rightarrow> True | _ \<Rightarrow> False)"
| "read_body ContextList b = (case b of StringsBody _ \<Rightarrow> True | _ \<Rightarrow> False)"
| "read_body SubjectMetadata b = (case b of MetadataBody _ \<Rightarrow> True | SubjectVersionBody _ \<Rightarrow> True | _ \<Rightarrow> False)"
| "read_body ReadConfig b = (case b of ConfigBody _ \<Rightarrow> True | _ \<Rightarrow> False)"
| "read_body ReadMode b = (case b of ModeBody _ \<Rightarrow> True | _ \<Rightarrow> False)"

primrec body_type :: "schema_call \<Rightarrow> schema_body \<Rightarrow> bool" where
  "body_type (ReadCall op rq) b = read_body op b"
| "body_type (LookupCall rq) b = (case b of SubjectVersionBody _ \<Rightarrow> True | _ \<Rightarrow> False)"
| "body_type (CompatCall rq) b = (case b of CompatBody _ _ \<Rightarrow> True | _ \<Rightarrow> False)"
| "body_type (RegisterCall rq) b = (case b of IDBody _ \<Rightarrow> True | _ \<Rightarrow> False)"
| "body_type (DeleteSubjectCall rq) b = (case b of IntsBody _ \<Rightarrow> True | _ \<Rightarrow> False)"
| "body_type (DeleteVersionCall rq) b = (case b of VersionBody _ \<Rightarrow> True | _ \<Rightarrow> False)"
| "body_type (SetConfigCall rq) b = (case b of ConfigRequestBody _ \<Rightarrow> True | _ \<Rightarrow> False)"
| "body_type (DeleteConfigCall rq) b = (case b of ConfigBody _ \<Rightarrow> True | _ \<Rightarrow> False)"
| "body_type (DeleteGlobalConfigCall rq) b = (case b of ConfigBody _ \<Rightarrow> True | _ \<Rightarrow> False)"
| "body_type (ImportCall rq) b = (case b of ImportBody _ _ \<Rightarrow> True | _ \<Rightarrow> False)"
| "body_type (SetModeCall rq) b = (case b of ModeBody _ \<Rightarrow> True | _ \<Rightarrow> False)"
| "body_type (DeleteModeCall rq) b = (case b of ModeBody _ \<Rightarrow> True | _ \<Rightarrow> False)"
| "body_type (DeleteGlobalModeCall rq) b = (case b of ModeBody _ \<Rightarrow> True | _ \<Rightarrow> False)"

definition status_of :: "schema_call \<Rightarrow> nat \<Rightarrow> bool" where
  "status_of call n \<longleftrightarrow> n = 200 \<or> (n = 422 \<and> (case call of ImportCall _ \<Rightarrow> True | _ \<Rightarrow> False))"

definition coded :: "nat \<Rightarrow> int \<Rightarrow> bool" where
  "coded n code \<longleftrightarrow>
     code div 100 = int n \<or> n = 409 \<and> code = 409 \<or> n = 400 \<and> code \<in> {42201, 42203, 42204, 42205}"

definition typed :: "(schema_body \<Rightarrow> bool) \<Rightarrow> (nat \<Rightarrow> bool) \<Rightarrow> bool \<Rightarrow> schema_body response \<Rightarrow> bool" where
  "typed body status panics resp \<longleftrightarrow>
     (case resp of Respond n b \<Rightarrow> status n \<and> body b | ErrorAnswer n code _ \<Rightarrow> coded n code | Panics \<Rightarrow> panics)"

text \<open>A page whose offset and limit add up to more than a 64-bit integer holds.\<close>

definition page_overflows :: "query \<Rightarrow> bool" where
  "page_overflows q \<longleftrightarrow>
     (case (Atoi (query_get q ''offset''), Atoi (query_get q ''limit'')) of
        (Some a, Some b) \<Rightarrow> 0 \<le> a \<and> 0 \<le> b \<and> a + b \<ge> 2 ^ 63 | _ \<Rightarrow> False)"

definition may_panic :: "schema_call \<Rightarrow> bool" where
  "may_panic call \<longleftrightarrow>
     (case call of ReadCall op rq \<Rightarrow> op \<in> {SubjectsByID, VersionsByID, Versions} \<and> page_overflows (rq_query rq) | _ \<Rightarrow> False)"

lemmas code_names = ErrorCodeSubjectNotFound_def ErrorCodeVersionNotFound_def ErrorCodeSchemaNotFound_def
  ErrorCodeSubjectSoftDeleted_def ErrorCodeSubjectNotSoftDeleted_def ErrorCodeSchemaVersionSoftDeleted_def
  ErrorCodeVersionNotSoftDeleted_def ErrorCodeSubjectCompatNotFound_def ErrorCodeSubjectModeNotFound_def
  ErrorCodeIncompatibleSchema_def ErrorCodeInvalidSchema_def ErrorCodeInvalidVersion_def
  ErrorCodeInvalidCompatibilityLevel_def ErrorCodeInvalidMode_def ErrorCodeOperationNotPermitted_def
  ErrorCodeReferenceExists_def ErrorCodeInternalServerError_def ErrorCodeStorageError_def

lemma typed_simps [simp]:
  "typed body status panics (Respond n b) \<longleftrightarrow> status n \<and> body b"
  "typed body status panics (ErrorAnswer n code msg) \<longleftrightarrow> coded n code"
  "typed body status panics Panics \<longleftrightarrow> panics"
  "typed body status panics writeInternalError" "typed body status panics global_rejected"
  "typed body status panics subject_not_found" "typed body status panics version_not_found"
  "typed body status panics schema_not_found" "typed body status panics invalid_id"
  "typed body status panics (invalid_version v)" "typed body status panics (invalid_type raw)"
  by (simp_all add: typed_def writeInternalError_def global_rejected_def subject_not_found_def version_not_found_def
      schema_not_found_def invalid_id_def invalid_version_def invalid_type_def coded_def code_names)

lemma typed_invalid_body [simp]: "code \<in> {42201, 42203, 42204} \<Longrightarrow> typed body status panics (invalid_body code)"
  by (auto simp: invalid_body_def coded_def)

lemma typed_answer_for: "list_all (\<lambda>(_, a). typed body status panics a) cs \<Longrightarrow> typed body status panics (answer_for err cs)"
  by (induction err cs rule: answer_for.induct) auto

lemma typed_errors [simp]:
  "typed body status panics (register_error i err)" "typed body status panics (lookup_error x err)"
  "typed body status panics (compat_error v err)" "typed body status panics (delete_subject_error x err)"
  "typed body status panics (delete_version_error x v err)" "typed body status panics (version_error h s c x ver inc serr)"
  unfolding register_error_def lookup_error_def compat_error_def delete_subject_error_def delete_version_error_def
    version_error_def Let_def
  by (simp_all add: typed_answer_for coded_def code_names)

lemma typed_guard: "mode_guard what r s c x = Some resp \<Longrightarrow> typed body status panics resp"
  by (auto simp: mode_guard_def coded_def code_names split: sum.splits if_splits)

lemma Atoi_range: "Atoi str = Some n \<Longrightarrow> in_i64 n"
  by (auto simp: Atoi_def Let_def split: option.splits if_splits prod.splits)

lemma page_in_range:
  assumes "\<not> page_overflows q"
  shows "\<exists>a b. parsePagination q (int n) = (a, b) \<and> 0 \<le> a \<and> a \<le> b \<and> b \<le> int n"
  using assms Atoi_range [of "query_get q ''limit''"]
  by (auto simp: parsePagination_def page_overflows_def Let_def in_i64_def split: option.splits)

lemma typed_paged:
  assumes "\<And>ys. body (f ys)" "status 200" "page_overflows (rq_query rq) \<Longrightarrow> panics"
  shows "typed body status panics (paged rq f xs)"
proof (cases "page_overflows (rq_query rq)")
  case False
  then obtain a b where "parsePagination (rq_query rq) (int (length xs)) = (a, b)" "0 \<le> a" "a \<le> b" "b \<le> int (length xs)"
    using page_in_range by blast
  with assms show ?thesis by (simp add: paged_def go_slice_def)
qed (simp add: paged_def assms split: option.split)

lemma typed_with_subject:
  assumes "\<And>c x. typed body status panics (fst (snd (f c x)))"
  shows "typed body status panics (fst (snd (with_subject h s rq hints f)))"
  using assms by (simp add: with_subject_def case_prod_beta Let_def)

lemma typed_with_schema_id:
  assumes "\<And>c i. typed body status panics (f c i)"
  shows "typed body status panics (fst (snd (with_schema_id s rq hints f)))"
  using assms by (simp add: with_schema_id_def Let_def split: option.split)

lemma typed_read:
  "typed (read_body op) (status_of (ReadCall op rq)) (may_panic (ReadCall op rq)) (fst (snd (serve_read env h s rq hints op)))"
proof (cases op)
  case ByID
  then show ?thesis by (auto simp: GetSchemaByID_def status_of_def Let_def split: option.split sum.split prod.split)
next
  case RawByID
  then show ?thesis
    by (auto simp: GetRawSchemaByID_def status_of_def intro!: typed_with_schema_id split: sum.split)
next
  case SubjectsByID
  then show ?thesis
    by (auto simp: GetSubjectsBySchemaID_def status_of_def may_panic_def intro!: typed_with_schema_id typed_paged split: sum.split)
next
  case VersionsByID
  then show ?thesis
    by (auto simp: GetVersionsBySchemaID_def status_of_def may_panic_def intro!: typed_with_schema_id typed_paged split: sum.split)
next
  case Subjects
  then show ?thesis by (auto simp: ListSubjects_def status_of_def Let_def split: sum.split)
next
  case Versions
  then show ?thesis
    by (auto simp: GetVersions_def status_of_def may_panic_def Let_def intro!: typed_with_subject typed_paged split: sum.split)
next
  case OneVersion
  then show ?thesis
    by (auto simp: GetVersion_def status_of_def Let_def intro!: typed_with_subject split: sum.split)
next
  case RawVersion
  then show ?thesis by (auto simp: GetRawSchemaByVersion_def status_of_def intro!: typed_with_subject split: sum.split)
next
  case ReferencedBy
  then show ?thesis by (auto simp: GetReferencedBy_def status_of_def intro!: typed_with_subject split: sum.split)
next
  case SchemaList
  then show ?thesis by (auto simp: ListSchemas_def status_of_def Let_def split: sum.split)
next
  case ContextList
  then show ?thesis by (simp add: GetContexts_def status_of_def)
next
  case SubjectMetadata
  then show ?thesis
    by (auto simp: GetSubjectMetadata_def status_of_def Let_def coded_def code_names intro!: typed_with_subject
        split: sum.split option.split)
next
  case ReadConfig
  then show ?thesis
    by (auto simp: GetConfig_def status_of_def Let_def coded_def code_names case_prod_beta split: sum.split storage_error.split)
next
  case ReadMode
  then show ?thesis
    by (auto simp: GetModeHandler_def status_of_def Let_def coded_def code_names case_prod_beta split: sum.split)
qed

lemma import_results_length:
  "import_loop e r c i reqs s m res = (s', m', res') \<Longrightarrow> length (im_Results res') = length (im_Results res) + length reqs"
  by (induction reqs arbitrary: i s m res) (auto simp: Let_def split: prod.splits)

lemma those_None: "those xs = None \<longleftrightarrow> None \<in> set xs"
  by (induction xs) (auto split: option.splits)

lemma import_events_total:
  assumes "length (im_Results result) \<le> length reqs"
  shows "snd (emitPerSchemaAuditEvents h ar start dur hints c reqs result) \<noteq> None"
proof -
  have "import_event h ar start dur hints c reqs i res \<noteq> None"
    if "(i, res) \<in> set (zip [0..<length (im_Results result)] (im_Results result))" for i res
    using that assms by (auto simp: import_event_def Let_def set_zip)
  then have "those (map2 (import_event h ar start dur hints c reqs) [0..<length (im_Results result)] (im_Results result)) \<noteq> None"
    unfolding those_None by force
  then show ?thesis by (simp add: emitPerSchemaAuditEvents_def)
qed

lemma typed_import:
  "typed (body_type (ImportCall rq)) (status_of (ImportCall rq)) False (fst (snd (fst (ImportSchemas e h s rq ar start dur hints))))"
proof -
  have len: "length (im_Results (fst (snd (Registry_ImportSchemas e r s c (map import_request items))))) = length (map import_request items)" for r c items
    by (auto simp: Registry_ImportSchemas_def Let_def dest: import_results_length split: prod.split)
  have total: "(snd (emitPerSchemaAuditEvents h ar start dur hints' c (map import_request items)
      (fst (snd (Registry_ImportSchemas e r s c' (map import_request items))))) = None) = False" for hints' c items r c'
    using import_events_total [OF eq_imp_le [OF len]] by blast
  show ?thesis
    by (simp add: ImportSchemas_def Let_def case_prod_beta coded_def code_names status_of_def importStatusCode_def
        total split: sum.split option.split)
qed

lemma typed_query:
  "typed (body_type (LookupCall rq)) (status_of (LookupCall rq)) False (fst (snd (LookupSchema e h s rq hints)))"
  "typed (body_type (CompatCall rq)) (status_of (CompatCall rq)) False (fst (snd (CheckCompatibility h s rq hints)))"
  unfolding LookupSchema_def CheckCompatibility_def
  by (auto intro!: typed_with_subject simp: status_of_def coded_def code_names Let_def
      split: option.split prod.split bool.split sum.split)

lemma typed_register:
  "typed (body_type (RegisterCall rq)) (status_of (RegisterCall rq)) False (fst (snd (RegisterSchema e h s rq hints)))"
  unfolding RegisterSchema_def
proof (rule typed_with_subject, goal_cases)
  case (1 c x)
  have branch: "typed (body_type (RegisterCall rq)) (status_of (RegisterCall rq)) False resp"
    if "register_branch e r s c x t nrm req = Inl resp" for r t nrm req resp
    using that by (auto simp: register_branch_def coded_def code_names split: sum.splits if_splits)
  show ?case
    by (simp add: Let_def split: option.split prod.split sum.split bool.split)
      (use typed_guard branch in \<open>auto simp: status_of_def coded_def code_names\<close>)
qed

lemma typed_write:
  "typed (body_type (DeleteSubjectCall rq)) (status_of (DeleteSubjectCall rq)) False (fst (snd (DeleteSubject h s rq hints)))"
  "typed (body_type (DeleteVersionCall rq)) (status_of (DeleteVersionCall rq)) False (fst (snd (DeleteVersion h s rq hints)))"
  "typed (body_type (DeleteConfigCall rq)) (status_of (DeleteConfigCall rq)) False (fst (snd (DeleteConfig h s rq hints)))"
  "typed (body_type (DeleteGlobalConfigCall rq)) (status_of (DeleteGlobalConfigCall rq)) False (fst (snd (DeleteGlobalConfig h s rq hints)))"
  "typed (body_type (DeleteModeCall rq)) (status_of (DeleteModeCall rq)) False (fst (snd (DeleteModeHandler h s rq hints)))"
  "typed (body_type (DeleteGlobalModeCall rq)) (status_of (DeleteGlobalModeCall rq)) False (fst (snd (DeleteGlobalModeHandler h s rq hints)))"
  by (auto simp: DeleteSubject_def DeleteVersion_def DeleteConfig_def DeleteGlobalConfig_def DeleteModeHandler_def
      DeleteGlobalModeHandler_def status_of_def coded_def code_names Let_def intro!: typed_with_subject intro: typed_guard
      split: option.split prod.split sum.split)

lemma typed_set:
  "typed (body_type (SetConfigCall rq)) (status_of (SetConfigCall rq)) False (fst (snd (SetConfig h s rq hints)))"
  "typed (body_type (SetModeCall rq')) (status_of (SetModeCall rq')) False (fst (snd (SetModeHandler h s rq' hints)))"
  by (auto simp: SetConfig_def SetModeHandler_def typed_answer_for status_of_def coded_def code_names Let_def
      intro: typed_guard split: option.split prod.split sum.split)


text \<open>The panic is real: a page at the end of the range kills the handler of the versions of a subject.\<close>

definition last_page :: query where
  "last_page = [(''offset'', ''1''), (''limit'', ''9223372036854775807'')]"

lemma pagination_overflow_panics:
  "fst (snd (GetVersions sample_handler sample_store ((plain_request None)\<lparr>rq_query := last_page\<rparr>) AuditHints_zero)) = Panics"
proof -
  have "Atoi ''1'' = Some 1" "Atoi ''9223372036854775807'' = Some (2 ^ 63 - 1)"
    by (simp_all add: Atoi_def digit_value_def in_i64_def)
  then have "parsePagination last_page 1 = (1, - (2 ^ 63))"
    by (simp add: parsePagination_def last_page_def query_get_def query_values_def i64_def)
  then have page: "go_slice [1 :: int] (parsePagination last_page (int (length [1 :: int]))) = None"
    by (simp add: go_slice_def)
  have flags: "query_true last_page ''deleted'' = False" "query_true last_page ''deletedOnly'' = False"
    "rejectGlobalContext ''.'' = False" "request_target ((plain_request None)\<lparr>rq_query := last_page\<rparr>) = (''.'', ''orders'')"
    "Registry_ResolveAlias (hd_registry sample_handler) sample_store ''.'' ''orders'' = ''orders''"
    "Registry_GetVersions (hd_registry sample_handler) sample_store ''.'' ''orders'' False = Inr [1]"
    by code_simp+
  have query: "rq_query ((plain_request None :: unit request)\<lparr>rq_query := last_page\<rparr>) = last_page" by simp
  show ?thesis
    by (simp only: GetVersions_def with_subject_def query flags Let_def prod.case request.simps if_False simp_thms sum.case
        paged_def page option.case fst_conv snd_conv)
qed

section \<open>Answering for a version\<close>

text \<open>
  What \<open>GET /subjects/{subject}/versions/{version}\<close> owes its client, from the catalogue alone: the record, or
  the code that says why there is none.
\<close>

definition all_gone :: "catalog \<Rightarrow> string \<Rightarrow> bool" where
  "all_gone A x \<longleftrightarrow> (\<forall>v q. A x v = Some q \<longrightarrow> sr_Deleted q)"

definition spec_version :: "catalog \<Rightarrow> string \<Rightarrow> int \<Rightarrow> bool \<Rightarrow> int + SchemaRecord" where
  "spec_version A x v includeDeleted =
     (case A x v of
        Some q \<Rightarrow>
          if includeDeleted \<or> \<not> sr_Deleted q then Inr q
          else if all_gone A x then Inl ErrorCodeSubjectNotFound else Inl ErrorCodeSchemaVersionSoftDeleted
      | None \<Rightarrow> if all_gone A x then Inl ErrorCodeSubjectNotFound else Inl ErrorCodeVersionNotFound)"

lemma listing_total:
  "Store_GetSchemasBySubject s c x inc = Inl err \<Longrightarrow> err = ErrSubjectNotFound"
  "Store_GetSchemasBySubject s c x inc = Inr rs \<Longrightarrow> rs \<noteq> []"
  by (auto simp: Store_GetSchemasBySubject_def ctx_GetSchemasBySubject_def Let_def split: option.splits if_splits)
    (metis set_empty set_sort)

lemma listing_cases:
  assumes "store_inv s"
  obtains (none) "Store_GetSchemasBySubject s c x inc = Inl ErrSubjectNotFound"
      "\<And>v q. mem_view c s x v = Some q \<Longrightarrow> \<not> inc \<and> sr_Deleted q"
  | (some) rs where "Store_GetSchemasBySubject s c x inc = Inr rs" "rs \<noteq> []"
      "set rs = {q. \<exists>v. mem_view c s x v = Some q \<and> (inc \<or> \<not> sr_Deleted q)}"
      "\<exists>v q. mem_view c s x v = Some q \<and> (inc \<or> \<not> sr_Deleted q)"
proof (cases "Store_GetSchemasBySubject s c x inc")
  case (Inl err)
  then show thesis using none listing_total(1) not_listed [OF assms] by metis
next
  case (Inr rs)
  note rs = listing_total(2) [OF Inr] listed_view(2) [OF assms Inr]
  from rs(1) have "hd rs \<in> set rs" by simp
  with some [OF Inr rs] rs(2) show thesis by blast
qed

lemma fully_deleted:
  assumes "store_inv s"
  shows "isSubjectFullyDeleted h s c x \<longleftrightarrow> mem_view c s x \<noteq> Map.empty \<and> all_gone (mem_view c s) x"
proof (cases rule: listing_cases [OF assms, of c x True])
  case 1
  then have "mem_view c s x = Map.empty" by (auto simp: fun_eq_iff) (metis option.exhaust)
  with 1 show ?thesis by (simp add: isSubjectFullyDeleted_def Registry_GetVersions_def)
next
  case (2 rs)
  then have "mem_view c s x \<noteq> Map.empty" by (auto simp: fun_eq_iff)
  moreover have "(case Store_GetSchemasBySubject s c x False of Inl err \<Rightarrow> True | Inr _ \<Rightarrow> False) \<longleftrightarrow> all_gone (mem_view c s) x"
    by (cases rule: listing_cases [OF assms, of c x False]) (auto simp: all_gone_def neq_Nil_conv)
  ultimately show ?thesis
    using 2(1,2) listing_total [of s c x False]
    by (auto simp: isSubjectFullyDeleted_def Registry_GetVersions_def split: sum.splits)
qed

lemma find_unique:
  "q \<in> set xs \<Longrightarrow> P q \<Longrightarrow> (\<And>y. y \<in> set xs \<Longrightarrow> P y \<Longrightarrow> y = q) \<Longrightarrow> List.find P xs = Some q"
proof (induction xs)
  case (Cons a xs)
  show ?case
  proof (cases "P a")
    case True
    moreover have "a = q" by (rule Cons.prems(3)) (simp_all add: True)
    ultimately show ?thesis by simp
  next
    case False
    then have "q \<in> set xs" using Cons.prems(1,2) by auto
    from Cons.IH [OF this Cons.prems(2)] Cons.prems(3) have "List.find P xs = Some q" by simp
    with False show ?thesis by simp
  qed
qed simp

lemma find_deleted:
  assumes "store_inv s" "v \<noteq> -1"
  shows "findDeletedVersion h s c x v =
    (case mem_view c s x v of
       Some q \<Rightarrow> Inr q | None \<Rightarrow> Inl (if mem_view c s x = Map.empty then ErrSubjectNotFound else ErrVersionNotFound))"
proof (cases rule: listing_cases [OF assms(1), of c x True])
  case 1
  then have "mem_view c s x = Map.empty" by (auto simp: fun_eq_iff) (metis option.exhaust)
  with 1 show ?thesis by (simp add: findDeletedVersion_def)
next
  case (2 rs)
  then have "mem_view c s x \<noteq> Map.empty" by (auto simp: fun_eq_iff)
  moreover have "List.find (\<lambda>q. sr_Version q = v) rs = mem_view c s x v"
  proof (cases "mem_view c s x v")
    case None
    then show ?thesis using 2(3) view_version [OF assms(1)] by (auto simp: find_None_iff)
  next
    case (Some q)
    then have "q \<in> set rs" "sr_Version q = v" using 2(3) view_version [OF assms(1)] by auto
    moreover have "q' = q" if "q' \<in> set rs" "sr_Version q' = v" for q'
      using that 2(3) view_version [OF assms(1)] Some by auto
    ultimately show ?thesis unfolding Some by (rule find_unique)
  qed
  ultimately show ?thesis using 2(1,2) assms(2) by (simp add: findDeletedVersion_def split: option.split)
qed

lemma soft_deleted:
  assumes "store_inv s" "v \<noteq> -1"
  shows "isVersionSoftDeleted h s c x v \<longleftrightarrow> (\<exists>q. mem_view c s x v = Some q \<and> sr_Deleted q)"
  by (simp add: isVersionSoftDeleted_def find_deleted [OF assms] split: option.split)

lemma gone_if_empty: "A x = Map.empty \<Longrightarrow> all_gone A x"
  by (simp add: all_gone_def)

definition found_response :: "'p Handler \<Rightarrow> unit request \<Rightarrow> Store \<Rightarrow> string \<Rightarrow> int + SchemaRecord \<Rightarrow> schema_body response \<Rightarrow> bool" where
  "found_response h rq s c res resp \<longleftrightarrow>
     (case res of
        Inl code \<Rightarrow> (\<exists>msg. resp = ErrorAnswer 404 code msg)
      | Inr q \<Rightarrow> resp = Respond 200 (SubjectVersionBody
                    (subject_version_response (formatted h rq s c q) (response_refs rq s c q) q)))"

text \<open>
  C11.  \<open>GET /subjects/{subject}/versions/{version}\<close> answers for every version as the catalogue has it.  In any
  store the operations reach, for a version number: the record of the version with status 200 when it
  is live, or deleted softly and asked for with \<open>deleted=true\<close>; else 404 with \<open>40401\<close> when the subject
  has no live version at all, \<open>40406\<close> when the version is deleted softly, \<open>40402\<close> when there is none.
\<close>

theorem version_answered:
  assumes "store_reach s" "aliased h s rq = (c, x)" "\<not> rejectGlobalContext c"
    and "ParseVersion (rq_version rq) = Inr v" "v \<noteq> -1"
  shows "found_response h rq s c (spec_version (mem_view c s) x v (flag rq ''deleted'')) (fst (snd (GetVersion h s rq hints)))"
proof -
  note inv = store_reach_inv [OF assms(1)]
  have get: "Store_GetSchemaBySubjectVersion s c x v = spec_get (mem_view c s) x v"
    by (rule mem_get [OF inv assms(5)])
  have target: "fst (request_target rq) = c" "Registry_ResolveAlias (hd_registry h) s c (snd (request_target rq)) = x"
    using assms(2) by (auto simp: aliased_def case_prod_beta Let_def)
  show ?thesis
    using gone_if_empty [of "mem_view c s" x]
    by (auto simp: GetVersion_def with_subject_def case_prod_beta target assms(3,4) get spec_get_def spec_version_def
        find_deleted [OF inv assms(5)] version_error_def fully_deleted [OF inv] soft_deleted [OF inv assms(5)]
        found_response_def subject_not_found_def version_not_found_def all_gone_def Let_def
        split: option.split)
qed

theorem version_answered_witness:
  "\<exists>msg. fst (snd (GetVersion sample_handler sample_soft (plain_request None) AuditHints_zero)) =
     ErrorAnswer 404 ErrorCodeSubjectNotFound msg"
proof -
  have rq: "aliased sample_handler sample_soft (plain_request None :: unit request) = (''.'', ''orders'')"
    "ParseVersion (rq_version (plain_request None :: unit request)) = Inr 1" "\<not> rejectGlobalContext ''.''"
    "flag (plain_request None :: unit request) ''deleted'' = False" by code_simp+
  have "mem_view ''.'' sample_soft ''orders'' v = Some q \<longrightarrow> sr_Deleted q" for v q
    by (auto simp: mem_view_def catalog_of_def versions_of_def sample_soft_def sample_eval ctx_DeleteSchema_def i64_def)
  then have "spec_version (mem_view ''.'' sample_soft) ''orders'' 1 False = Inl ErrorCodeSubjectNotFound"
    by (simp add: spec_version_def all_gone_def split: option.split)
  with version_answered [OF sample_soft_reach rq(1,3,2), of AuditHints_zero] rq(4) show ?thesis
    by (simp add: found_response_def)
qed

section \<open>Registration\<close>

lemma register_branch_mode:
  assumes "register_branch e r s c x t nrm req = Inr res"
  shows "\<exists>mode. Registry_GetMode r s c x = Inr mode \<and> (rsq_ID req > 0 \<longleftrightarrow> mode = ''IMPORT'') \<and>
    mode \<notin> {''READONLY'', ''READONLY_OVERRIDE''}"
  using assms by (auto simp: register_branch_def split: sum.splits if_splits)

text \<open>
  C10.  A schema is registered only as the mode of its subject allows: whenever the handler of
  \<open>POST /subjects/{subject}/versions\<close> answers with success, or leaves another store than it found, the mode
  in force for the subject - its alias resolved - is not read-only, and it is \<open>IMPORT\<close> exactly when the
  request names a schema ID.
\<close>

theorem registration_follows_mode:
  assumes "RegisterSchema e h s rq hints = (s', resp, hints')" "s' \<noteq> s \<or> (\<exists>n b. resp = Respond n b)"
    and "rq_body rq = Some req" "aliased h s rq = (c, x)"
  shows "\<exists>mode. Registry_GetMode (hd_registry h) s c x = Inr mode \<and> (rsq_ID req > 0 \<longleftrightarrow> mode = ''IMPORT'') \<and>
    mode \<notin> {''READONLY'', ''READONLY_OVERRIDE''}"
proof -
  have target: "fst (request_target rq) = c" "Registry_ResolveAlias (hd_registry h) s c (snd (request_target rq)) = x"
    using assms(4) by (auto simp: aliased_def case_prod_beta Let_def)
  have block: "\<not> (\<exists>n b. resp = Respond n b)" if "mode_guard w (hd_registry h) s c x = Some resp" for w and resp :: "schema_body response"
    using that by (auto simp: mode_guard_def writeInternalError_def split: sum.splits if_splits)
  have branch: "\<not> (\<exists>n b. resp = Respond n b)" if "register_branch e (hd_registry h) s c x t nrm req = Inl resp" for t nrm resp
    using that by (auto simp: register_branch_def writeInternalError_def split: sum.splits if_splits)
  obtain t res where "register_branch e (hd_registry h) s c x t (flag rq ''normalize'') req = Inr res"
    using assms(1-3) block branch
    by (auto simp: RegisterSchema_def with_subject_def case_prod_beta target Let_def global_rejected_def invalid_type_def
        split: if_splits prod.splits bool.splits option.splits sum.splits)
  then show ?thesis by (rule register_branch_mode)
qed

definition import_schema_request :: "RegisterSchemaRequest request" where
  "import_schema_request = (plain_request (Some
     \<lparr>rsq_Schema = ''order'', rsq_SchemaType = [], rsq_References = [], rsq_ID = 9, rsq_Version = 3,
      rsq_Metadata = None, rsq_RuleSet = None\<rparr>))\<lparr>rq_subject := ''parts''\<rparr>"

definition import_store :: Store where
  "import_store = fst (Registry_SetMode sample_registry sample_store ''.'' ''parts'' ''import'' False)"

theorem registration_follows_mode_witness:
  "fst (snd (RegisterSchema sample_env sample_handler import_store import_schema_request AuditHints_zero)) = Respond 200 (IDBody 9) \<and>
   Registry_GetMode sample_registry import_store ''.'' ''parts'' = Inr ''IMPORT''"
proof -
  let ?run = "RegisterSchema sample_env sample_handler import_store import_schema_request AuditHints_zero"
  have "(case fst (snd ?run) of Respond n (IDBody i) \<Rightarrow> n = 200 \<and> i = 9 | _ \<Rightarrow> False) = True" by code_simp
  then have ok: "fst (snd ?run) = Respond 200 (IDBody 9)" by (simp split: response.splits schema_body.splits)
  then have run: "?run = (fst ?run, Respond 200 (IDBody 9), snd (snd ?run))" by (simp add: prod_eq_iff)
  have target: "aliased sample_handler import_store import_schema_request = (''.'', ''parts'')"
    and "(case rq_body import_schema_request of Some req \<Rightarrow> rsq_ID req > 0 | None \<Rightarrow> False) = True" by code_simp+
  then obtain req where req: "rq_body import_schema_request = Some req" "rsq_ID req > 0" by (auto split: option.splits)
  have "hd_registry sample_handler = sample_registry" by (simp add: sample_handler_def)
  with registration_follows_mode [OF run disjI2 req(1) target] req(2) ok show ?thesis by auto
qed

section \<open>Where the handlers do something else\<close>

text \<open>
  \<open>GET /schemas/ids/{id}?subject=\<close> writes into the store: a schema shared by two subjects is read back with the
  metadata of whichever subject was asked for last.
\<close>

definition owned :: "string \<Rightarrow> RegisterOpts" where
  "owned who = no_opts\<lparr>ro_Metadata := Some \<lparr>md_Tags = None, md_Properties = Some (gm_put ''owner'' who gm_empty), md_Sensitive = None\<rparr>\<rparr>"

definition shared_store :: Store where
  "shared_store = fst (Registry_RegisterSchema sample_env sample_registry
     (fst (Registry_RegisterSchema sample_env sample_registry NewStore ''.'' ''money'' ''long'' [] [] (owned ''a'')))
     ''.'' ''orders'' ''long'' [] [] (owned ''b''))"

definition id_metadata :: "handled_schema \<Rightarrow> Metadata option" where
  "id_metadata res = (case fst (snd res) of Respond _ (SchemaByIDBody b) \<Rightarrow> bi_Metadata b | _ \<Rightarrow> None)"

definition for_subject :: "string \<Rightarrow> unit request" where
  "for_subject x = (plain_request None)\<lparr>rq_query := [(''subject'', x)]\<rparr>"

lemma read_by_id_writes:
  "id_metadata (GetSchemaByID sample_handler shared_store (plain_request None) AuditHints_zero) = None"
  "id_metadata (GetSchemaByID sample_handler
     (fst (GetSchemaByID sample_handler shared_store (for_subject ''orders'') AuditHints_zero)) (plain_request None) AuditHints_zero)
   = ro_Metadata (owned ''b'')"
  by code_simp+

text \<open>A reference that cannot be resolved is answered for as if the subject itself were missing.\<close>

lemma missing_reference_blamed_on_subject:
  "lookup_error x (FailedResolveUnmarked (RefError ref ErrSubjectNotFound)) =
     ErrorAnswer 404 ErrorCodeSubjectNotFound (Text (''Subject '' @ quoted x @ '' not found.''))"
  by (simp add: lookup_error_def)

text \<open>An import refused for its ID that is not positive is audited as a conflict of IDs.\<close>

lemma bad_id_classified_as_conflict: "classifyImportError (import_error_text quote IDNotPositive) = ''schema_id_conflict''"
  by code_simp

end
