(* ===== verification/Key_Handlers.thy ===== *)
theory Key_Handlers
  imports Schema_Handlers Registry_Keys
begin

text \<open>
  The HTTP handlers of encryption keys (\<open>internal/api/handlers/dek.go\<close>) and exporters
  (\<open>internal/api/handlers/exporter.go\<close>).  As with the other handlers, a request is its decoded parts and a
  handler returns store, answer and audit hints.  What is hashed for the audit log is encoded as JSON by
  functions of the record \<open>audit_texts\<close>; quoting and the text of a base64 error belong to Go's library.
\<close>

section \<open>Requests and responses\<close>

record 'b key_request =
  kr_name :: string
  kr_subject :: string
  kr_version :: string
  kr_query :: query
  kr_body :: "'b option"

record CreateKEKRequest =
  ck_Name :: string
  ck_KmsType :: string
  ck_KmsKeyID :: string
  ck_KmsProps :: "(string, string) gomap option"
  ck_Doc :: string
  ck_Shared :: bool

record UpdateKEKRequest =
  uk_KmsProps :: "(string, string) gomap option"
  uk_Doc :: string
  uk_Shared :: "bool option"

record KEKResponse =
  kp_Name :: string
  kp_KmsType :: string
  kp_KmsKeyID :: string
  kp_KmsProps :: "(string, string) gomap option"
  kp_Doc :: string
  kp_Shared :: bool
  kp_Ts :: int
  kp_Deleted :: bool

record CreateDEKRequest =
  cd_Subject :: string
  cd_Version :: int
  cd_Algorithm :: string
  cd_EncryptedKeyMaterial :: string

record DEKResponse =
  dp_KEKName :: string
  dp_Subject :: string
  dp_Version :: int
  dp_Algorithm :: string
  dp_EncryptedKeyMaterial :: string
  dp_KeyMaterial :: string
  dp_Ts :: int
  dp_Deleted :: bool

record CreateExporterRequest =
  xq_Name :: string
  xq_ContextType :: string
  xq_Context :: string
  xq_Subjects :: "string list"
  xq_SubjectRenameFormat :: string
  xq_Config :: "(string, string) gomap option"

record ExporterResponse =
  xp_Name :: string
  xp_ContextType :: string
  xp_Context :: string
  xp_Subjects :: "string list"
  xp_SubjectRenameFormat :: string
  xp_Config :: "(string, string) gomap option"

datatype key_body =
    NamesBody "string list" | VersionsBody "int list" | KEKBody KEKResponse | DEKBody DEKResponse
  | ExporterNameBody string | ExporterBody ExporterResponse | StatusBody ExporterStatusRecord
  | ExporterConfigBody "(string, string) gomap"

type_synonym handled_key = "Store \<times> key_body answer \<times> AuditHints"

record audit_texts =
  at_kek :: "string \<times> string \<times> string \<times> string \<times> bool \<times> bool \<Rightarrow> string"
  at_dek :: "string \<times> int \<times> string \<times> bool \<Rightarrow> string"
  at_exporter :: "string \<times> string \<times> string \<times> string list \<times> string \<Rightarrow> string"
  at_status :: "string \<times> int \<Rightarrow> string"
  at_quote :: "string \<Rightarrow> string"
  at_decode :: string

definition kekToResponse :: "KEKRecord \<Rightarrow> KEKResponse" where
  "kekToResponse kek =
     \<lparr>kp_Name = kek_Name kek, kp_KmsType = kek_KmsType kek, kp_KmsKeyID = kek_KmsKeyID kek,
      kp_KmsProps = kek_KmsProps kek, kp_Doc = kek_Doc kek, kp_Shared = kek_Shared kek, kp_Ts = kek_Ts kek,
      kp_Deleted = kek_Deleted kek\<rparr>"

definition dekToResponse :: "DEKRecord \<Rightarrow> DEKResponse" where
  "dekToResponse dek =
     \<lparr>dp_KEKName = dek_KEKName dek, dp_Subject = dek_Subject dek, dp_Version = dek_Version dek,
      dp_Algorithm = dek_Algorithm dek, dp_EncryptedKeyMaterial = dek_EncryptedKeyMaterial dek,
      dp_KeyMaterial = dek_KeyMaterial dek, dp_Ts = dek_Ts dek, dp_Deleted = dek_Deleted dek\<rparr>"

definition dekToGetResponse :: "DEKRecord \<Rightarrow> DEKResponse" where
  "dekToGetResponse dek =
     \<lparr>dp_KEKName = dek_KEKName dek, dp_Subject = dek_Subject dek, dp_Version = dek_Version dek,
      dp_Algorithm = dek_Algorithm dek, dp_EncryptedKeyMaterial = dek_EncryptedKeyMaterial dek,
      dp_KeyMaterial = [], dp_Ts = dek_Ts dek, dp_Deleted = dek_Deleted dek\<rparr>"

section \<open>Digests for the audit log\<close>

definition hashKEK :: "'p Handler \<Rightarrow> audit_texts \<Rightarrow> KEKRecord \<Rightarrow> string" where
  "hashKEK h texts kek =
     hashString h (at_kek texts (kek_Name kek, kek_KmsType kek, kek_KmsKeyID kek, kek_Doc kek, kek_Shared kek, kek_Deleted kek))"

definition hashDEK :: "'p Handler \<Rightarrow> audit_texts \<Rightarrow> DEKRecord \<Rightarrow> string" where
  "hashDEK h texts dek = hashString h (at_dek texts (dek_Subject dek, dek_Version dek, dek_Algorithm dek, dek_Deleted dek))"

definition hashExporter :: "'p Handler \<Rightarrow> audit_texts \<Rightarrow> ExporterRecord \<Rightarrow> string" where
  "hashExporter h texts x =
     hashString h (at_exporter texts (ex_Name x, ex_ContextType x, ex_Context x, ex_Subjects x, ex_SubjectRenameFormat x))"

definition hashExporterStatus :: "'p Handler \<Rightarrow> audit_texts \<Rightarrow> ExporterStatusRecord \<Rightarrow> string" where
  "hashExporterStatus h texts status = hashString h (at_status texts (es_State status, es_Offset status))"

definition before_hash :: "('r \<Rightarrow> string) \<Rightarrow> 'r result \<Rightarrow> AuditHints \<Rightarrow> AuditHints" where
  "before_hash f existing hints = (case existing of Inr x \<Rightarrow> hints\<lparr>hn_BeforeHash := f x\<rparr> | Inl _ \<Rightarrow> hints)"

definition after_hash :: "('r \<Rightarrow> string) \<Rightarrow> 'r result \<Rightarrow> AuditHints \<Rightarrow> AuditHints" where
  "after_hash f restored hints = (case restored of Inr x \<Rightarrow> hints\<lparr>hn_AfterHash := f x\<rparr> | Inl _ \<Rightarrow> hints)"

definition key_hints :: "string \<Rightarrow> string \<Rightarrow> AuditHints \<Rightarrow> AuditHints" where
  "key_hints targetType target hints = hints\<lparr>hn_TargetType := targetType, hn_TargetID := target\<rparr>"

section \<open>Errors\<close>

definition kek_missing :: "string \<Rightarrow> 'b answer" where
  "kek_missing name = Fail 404 ErrorCodeKEKNotFound (''Key encryption key not found: '' @ name)"

definition dek_missing :: "'b answer" where
  "dek_missing = Fail 404 ErrorCodeDEKNotFound ''Data encryption key not found''"

definition exporter_missing :: "string \<Rightarrow> 'b answer" where
  "exporter_missing name = Fail 404 ErrorCodeExporterNotFound (''Exporter not found: '' @ name)"

definition kek_error :: "string \<Rightarrow> storage_error \<Rightarrow> 'b answer" where
  "kek_error name err = (if err = ErrKEKNotFound then kek_missing name else internal_error)"

definition dek_error :: "string \<Rightarrow> storage_error \<Rightarrow> 'b answer" where
  "dek_error name err =
     (if err = ErrKEKNotFound then kek_missing name
      else if err = ErrDEKNotFound then dek_missing else internal_error)"

definition exporter_error_answer :: "string \<Rightarrow> storage_error \<Rightarrow> 'b answer" where
  "exporter_error_answer name err = (if err = ErrExporterNotFound then exporter_missing name else internal_error)"

definition unreadable_body :: "'b answer" where
  "unreadable_body = Fail 400 ErrorCodeInvalidSchema ''Invalid request body''"

definition bad_version :: "'b answer" where
  "bad_version = Fail 422 ErrorCodeInvalidVersion ''Invalid version: must be a positive integer''"

text \<open>
  The texts of the service's errors.  The same condition has another text in the creation of a data key,
  its rewrapping and the test of a key.
\<close>

fun create_error_text :: "string \<Rightarrow> key_error \<Rightarrow> string" where
  "create_error_text nameText KEKNameRequired = nameText @ '' is required''"
| "create_error_text nameText KmsTypeRequired = ''kmsType is required''"
| "create_error_text nameText KmsKeyIdRequired = ''kmsKeyId is required''"
| "create_error_text nameText SubjectIsRequired = ''subject is required''"
| "create_error_text nameText (InvalidAlgorithm a) =
     ''invalid algorithm: '' @ a @ '' (must be AES128_GCM, AES256_GCM, or AES256_SIV)''"
| "create_error_text nameText (KMSError what err) = what @ '': '' @ err"
| "create_error_text nameText (KeyStorage err) = storage_error_text err"
| "create_error_text nameText _ = []"

fun rewrap_error_text :: "audit_texts \<Rightarrow> key_error \<Rightarrow> string" where
  "rewrap_error_text texts KMSNotConfigured = ''KMS not configured: rewrap requires a KMS provider''"
| "rewrap_error_text texts (NoKMSProvider t) = ''no KMS provider registered for type '' @ at_quote texts t"
| "rewrap_error_text texts NoKeyMaterial = ''DEK has no encrypted key material to rewrap''"
| "rewrap_error_text texts DecodeFailed = ''decode encrypted key material: '' @ at_decode texts"
| "rewrap_error_text texts (KMSError what err) = what @ '': '' @ err"
| "rewrap_error_text texts (KeyStorage err) = storage_error_text err"
| "rewrap_error_text texts _ = []"

fun test_error_text :: "audit_texts \<Rightarrow> key_error \<Rightarrow> string" where
  "test_error_text texts KMSNotConfigured = ''KMS not configured''"
| "test_error_text texts (NoKMSProvider t) = ''no KMS provider for type '' @ at_quote texts t"
| "test_error_text texts (KMSError what err) = what @ '': '' @ err"
| "test_error_text texts RoundTripMismatch = ''round-trip test failed: plaintext mismatch''"
| "test_error_text texts _ = []"

fun exporter_error_text :: "exporter_error \<Rightarrow> string" where
  "exporter_error_text ExporterNameRequired = ''exporter name is required''"
| "exporter_error_text (InvalidContextType t) = ''invalid context type: '' @ t @ '' (must be AUTO, CUSTOM, or NONE)''"
| "exporter_error_text (ExporterStorage err) = storage_error_text err"

section \<open>Pages\<close>

definition parsePaginationParams :: "query \<Rightarrow> int \<times> int" where
  "parsePaginationParams q =
     (let offset = query_get q ''offset''; limit = query_get q ''limit''
      in (if offset \<noteq> [] then max 0 (Atoi_ignored offset) else 0, if limit \<noteq> [] then Atoi_ignored limit else 0))"

definition applyPagination :: "query \<Rightarrow> 'a list \<Rightarrow> 'a list" where
  "applyPagination q items =
     (let (offset, limit) = parsePaginationParams q
      in if offset > 0 \<and> offset \<ge> int (length items) then []
         else (let rest = (if offset > 0 then drop (nat offset) items else items)
               in if limit > 0 \<and> limit < int (length rest) then take (nat limit) rest else rest))"

definition positive_version :: "string \<Rightarrow> int option" where
  "positive_version v = (case Atoi v of Some n \<Rightarrow> if n \<le> 0 then None else Some n | None \<Rightarrow> None)"

abbreviation kflag :: "'b key_request \<Rightarrow> string \<Rightarrow> bool" where
  "kflag rq k \<equiv> query_true (kr_query rq) k"

abbreviation algorithm :: "'b key_request \<Rightarrow> string" where
  "algorithm rq \<equiv> query_get (kr_query rq) ''algorithm''"

section \<open>Key encryption keys\<close>

definition ListKEKs :: "Store \<Rightarrow> unit key_request \<Rightarrow> AuditHints \<Rightarrow> handled_key" where
  "ListKEKs s rq hints =
     (s, case Store_ListKEKs s (kflag rq ''deleted'') of
           Inl _ \<Rightarrow> internal_error
         | Inr keks \<Rightarrow> Reply 200 (NamesBody (applyPagination (kr_query rq) (map kek_Name keks))),
      hints)"

definition KEKRecord_zero :: KEKRecord where
  "KEKRecord_zero =
     \<lparr>kek_Name = [], kek_KmsType = [], kek_KmsKeyID = [], kek_KmsProps = None, kek_Doc = [], kek_Shared = False,
      kek_Deleted = False, kek_Ts = 0, kek_CreatedAt = 0, kek_UpdatedAt = 0\<rparr>"

definition new_kek :: "CreateKEKRequest \<Rightarrow> KEKRecord" where
  "new_kek req = KEKRecord_zero
     \<lparr>kek_Name := ck_Name req, kek_KmsType := ck_KmsType req, kek_KmsKeyID := ck_KmsKeyID req,
      kek_KmsProps := ck_KmsProps req, kek_Doc := ck_Doc req, kek_Shared := ck_Shared req\<rparr>"

definition CreateKEK ::
  "go_time \<Rightarrow> audit_texts \<Rightarrow> 'p Handler \<Rightarrow> Store \<Rightarrow> CreateKEKRequest key_request \<Rightarrow> AuditHints \<Rightarrow> handled_key" where
  "CreateKEK now texts h s rq hints =
     (case kr_body rq of
        None \<Rightarrow> (s, unreadable_body, hints)
      | Some req \<Rightarrow>
          (case Registry_CreateKEK now (hd_registry h) s (new_kek req) of
             (s', kek, Some err) \<Rightarrow>
               (s', if err = KeyStorage ErrKEKExists
                    then Fail 409 ErrorCodeKEKExists (''Key encryption key already exists: '' @ ck_Name req)
                    else Fail 422 ErrorCodeInvalidSchema (create_error_text ''KEK name'' err), hints)
           | (s', kek, None) \<Rightarrow>
               (s', Reply 200 (KEKBody (kekToResponse kek)),
                (key_hints ''kek'' (ck_Name req) hints)\<lparr>hn_AfterHash := hashKEK h texts kek\<rparr>)))"

definition GetKEK :: "Store \<Rightarrow> unit key_request \<Rightarrow> AuditHints \<Rightarrow> handled_key" where
  "GetKEK s rq hints =
     (s, case Store_GetKEK s (kr_name rq) (kflag rq ''deleted'') of
           Inl err \<Rightarrow> kek_error (kr_name rq) err | Inr kek \<Rightarrow> Reply 200 (KEKBody (kekToResponse kek)),
      hints)"

definition updated_kek :: "UpdateKEKRequest \<Rightarrow> KEKRecord \<Rightarrow> KEKRecord" where
  "updated_kek req kek =
     kek\<lparr>kek_KmsProps := (if uk_KmsProps req \<noteq> None then uk_KmsProps req else kek_KmsProps kek),
         kek_Doc := (if uk_Doc req \<noteq> [] then uk_Doc req else kek_Doc kek),
         kek_Shared := (case uk_Shared req of Some b \<Rightarrow> b | None \<Rightarrow> kek_Shared kek)\<rparr>"

definition UpdateKEK ::
  "go_time \<Rightarrow> audit_texts \<Rightarrow> 'p Handler \<Rightarrow> Store \<Rightarrow> UpdateKEKRequest key_request \<Rightarrow> AuditHints \<Rightarrow> handled_key" where
  "UpdateKEK now texts h s rq hints =
     (case kr_body rq of
        None \<Rightarrow> (s, unreadable_body, hints)
      | Some req \<Rightarrow>
          (case Store_GetKEK s (kr_name rq) False of
             Inl err \<Rightarrow> (s, kek_error (kr_name rq) err, hints)
           | Inr existing \<Rightarrow>
               (case Registry_UpdateKEK now (hd_registry h) s (updated_kek req existing) of
                  (s', _, Some _) \<Rightarrow> (s', internal_error, hints)
                | (s', kek, None) \<Rightarrow>
                    (s', Reply 200 (KEKBody (kekToResponse kek)),
                     (key_hints ''kek'' (kr_name rq) hints)
                       \<lparr>hn_BeforeHash := hashKEK h texts existing, hn_AfterHash := hashKEK h texts kek\<rparr>))))"

definition DeleteKEK :: "go_time \<Rightarrow> audit_texts \<Rightarrow> 'p Handler \<Rightarrow> Store \<Rightarrow> unit key_request \<Rightarrow> AuditHints \<Rightarrow> handled_key" where
  "DeleteKEK now texts h s rq hints =
     (case Store_DeleteKEK now s (kr_name rq) (kflag rq ''permanent'') of
        (s', Some err) \<Rightarrow> (s', kek_error (kr_name rq) err, hints)
      | (s', None) \<Rightarrow>
          (s', NoContent,
           before_hash (hashKEK h texts) (Store_GetKEK s (kr_name rq) True) (key_hints ''kek'' (kr_name rq) hints)))"

definition UndeleteKEK :: "go_time \<Rightarrow> audit_texts \<Rightarrow> 'p Handler \<Rightarrow> Store \<Rightarrow> unit key_request \<Rightarrow> AuditHints \<Rightarrow> handled_key" where
  "UndeleteKEK now texts h s rq hints =
     (case Store_UndeleteKEK now s (kr_name rq) of
        (s', Some err) \<Rightarrow> (s', kek_error (kr_name rq) err, hints)
      | (s', None) \<Rightarrow>
          (s', NoContent,
           after_hash (hashKEK h texts) (Store_GetKEK s' (kr_name rq) False)
             (before_hash (hashKEK h texts) (Store_GetKEK s (kr_name rq) True) (key_hints ''kek'' (kr_name rq) hints))))"

definition TestKEK :: "audit_texts \<Rightarrow> 'p Handler \<Rightarrow> Store \<Rightarrow> unit key_request \<Rightarrow> AuditHints \<Rightarrow> handled_key" where
  "TestKEK texts h s rq hints =
     (s, case Store_GetKEK s (kr_name rq) False of
           Inl err \<Rightarrow> kek_error (kr_name rq) err
         | Inr kek \<Rightarrow>
             (case Registry_TestKEK (hd_registry h) kek of
                Some err \<Rightarrow> Fail 422 ErrorCodeInvalidSchema (''KMS connection test failed: '' @ test_error_text texts err)
              | None \<Rightarrow> Reply 200 (KEKBody (kekToResponse kek))),
      hints)"

section \<open>Data encryption keys\<close>

definition ListDEKs :: "Store \<Rightarrow> unit key_request \<Rightarrow> AuditHints \<Rightarrow> handled_key" where
  "ListDEKs s rq hints =
     (s, case Store_ListDEKs s (kr_name rq) (kflag rq ''deleted'') of
           Inl err \<Rightarrow> kek_error (kr_name rq) err
         | Inr subjects \<Rightarrow> Reply 200 (NamesBody (applyPagination (kr_query rq) subjects)),
      hints)"

definition new_dek :: "string \<Rightarrow> string \<Rightarrow> CreateDEKRequest \<Rightarrow> DEKRecord" where
  "new_dek kekName subject req =
     \<lparr>dek_KEKName = kekName, dek_Subject = subject, dek_Version = cd_Version req, dek_Algorithm = cd_Algorithm req,
      dek_EncryptedKeyMaterial = cd_EncryptedKeyMaterial req, dek_KeyMaterial = [], dek_Deleted = False, dek_Ts = 0\<rparr>"

definition create_dek_answer ::
  "go_time \<Rightarrow> audit_texts \<Rightarrow> 'p Handler \<Rightarrow> Store \<Rightarrow> string \<Rightarrow> DEKRecord \<Rightarrow> AuditHints \<Rightarrow> handled_key" where
  "create_dek_answer now texts h s kekName dek0 hints =
     (case Registry_CreateDEK now (hd_registry h) s dek0 of
        (s', _, Some err) \<Rightarrow>
          (s', if err = KeyStorage ErrKEKNotFound then kek_missing kekName
               else if err = KeyStorage ErrDEKExists then Fail 409 ErrorCodeDEKExists ''Data encryption key already exists''
               else Fail 422 ErrorCodeInvalidSchema (create_error_text ''kekName'' err), hints)
      | (s', dek, None) \<Rightarrow>
          (s', Reply 200 (DEKBody (dekToResponse dek)),
           (key_hints ''dek'' kekName hints)\<lparr>hn_AfterHash := hashDEK h texts dek\<rparr>))"

definition CreateDEK ::
  "go_time \<Rightarrow> audit_texts \<Rightarrow> 'p Handler \<Rightarrow> Store \<Rightarrow> CreateDEKRequest key_request \<Rightarrow> AuditHints \<Rightarrow> handled_key" where
  "CreateDEK now texts h s rq hints =
     (case kr_body rq of
        None \<Rightarrow> (s, unreadable_body, hints)
      | Some req \<Rightarrow> create_dek_answer now texts h s (kr_name rq) (new_dek (kr_name rq) (cd_Subject req) req) hints)"

definition rewrapDEK ::
  "go_time \<Rightarrow> audit_texts \<Rightarrow> 'p Handler \<Rightarrow> Store \<Rightarrow> 'b key_request \<Rightarrow> AuditHints \<Rightarrow> handled_key" where
  "rewrapDEK now texts h s rq hints =
     (case Registry_RewrapDEK now (hd_registry h) s (kr_name rq) (kr_subject rq) (-1) (algorithm rq) of
        (s', Inl err) \<Rightarrow>
          (s', if err = KeyStorage ErrKEKNotFound then kek_missing (kr_name rq)
               else if err = KeyStorage ErrDEKNotFound then dek_missing
               else Fail 422 ErrorCodeInvalidSchema (rewrap_error_text texts err), hints)
      | (s', Inr dek) \<Rightarrow> (s', Reply 200 (DEKBody (dekToGetResponse dek)), hints))"

text \<open>The body may be empty: \<open>Some None\<close>.\<close>

definition CreateDEKRequest_zero :: CreateDEKRequest where
  "CreateDEKRequest_zero = \<lparr>cd_Subject = [], cd_Version = 0, cd_Algorithm = [], cd_EncryptedKeyMaterial = []\<rparr>"

definition CreateDEKWithSubject ::
  "go_time \<Rightarrow> audit_texts \<Rightarrow> 'p Handler \<Rightarrow> Store \<Rightarrow> CreateDEKRequest option key_request \<Rightarrow> AuditHints \<Rightarrow> handled_key" where
  "CreateDEKWithSubject now texts h s rq hints =
     (if kflag rq ''rewrap'' then rewrapDEK now texts h s rq hints
      else case kr_body rq of
             None \<Rightarrow> (s, unreadable_body, hints)
           | Some body \<Rightarrow>
               (let req = (case body of Some req \<Rightarrow> req | None \<Rightarrow> CreateDEKRequest_zero)
                in create_dek_answer now texts h s (kr_name rq) (new_dek (kr_name rq) (kr_subject rq) req) hints))"

definition get_dek_answer :: "Store \<Rightarrow> 'b key_request \<Rightarrow> int \<Rightarrow> key_body answer" where
  "get_dek_answer s rq version =
     (case Store_GetDEK s (kr_name rq) (kr_subject rq) version (algorithm rq) (kflag rq ''deleted'') of
        Inl err \<Rightarrow> dek_error (kr_name rq) err | Inr dek \<Rightarrow> Reply 200 (DEKBody (dekToGetResponse dek)))"

definition GetDEK :: "Store \<Rightarrow> unit key_request \<Rightarrow> AuditHints \<Rightarrow> handled_key" where
  "GetDEK s rq hints = (s, get_dek_answer s rq (-1), hints)"

definition GetDEKVersion :: "Store \<Rightarrow> unit key_request \<Rightarrow> AuditHints \<Rightarrow> handled_key" where
  "GetDEKVersion s rq hints =
     (s, case positive_version (kr_version rq) of None \<Rightarrow> bad_version | Some v \<Rightarrow> get_dek_answer s rq v, hints)"

definition ListDEKVersions :: "Store \<Rightarrow> unit key_request \<Rightarrow> AuditHints \<Rightarrow> handled_key" where
  "ListDEKVersions s rq hints =
     (s, case Store_ListDEKVersions s (kr_name rq) (kr_subject rq) (algorithm rq) (kflag rq ''deleted'') of
           Inl err \<Rightarrow> kek_error (kr_name rq) err
         | Inr versions \<Rightarrow> Reply 200 (VersionsBody (applyPagination (kr_query rq) versions)),
      hints)"

definition delete_dek_answer ::
  "(int \<Rightarrow> go_time) \<Rightarrow> audit_texts \<Rightarrow> 'p Handler \<Rightarrow> Store \<Rightarrow> 'b key_request \<Rightarrow> int \<Rightarrow> AuditHints \<Rightarrow> handled_key" where
  "delete_dek_answer now texts h s rq version hints =
     (case Store_DeleteDEK now s (kr_name rq) (kr_subject rq) version (algorithm rq) (kflag rq ''permanent'') of
        (s', Some err) \<Rightarrow> (s', dek_error (kr_name rq) err, hints)
      | (s', None) \<Rightarrow>
          (s', NoContent,
           before_hash (hashDEK h texts) (Store_GetDEK s (kr_name rq) (kr_subject rq) version (algorithm rq) True)
             (key_hints ''dek'' (kr_name rq) hints)))"

definition undelete_dek_answer ::
  "(int \<Rightarrow> go_time) \<Rightarrow> audit_texts \<Rightarrow> 'p Handler \<Rightarrow> Store \<Rightarrow> 'b key_request \<Rightarrow> int \<Rightarrow> AuditHints \<Rightarrow> handled_key" where
  "undelete_dek_answer now texts h s rq version hints =
     (case Store_UndeleteDEK now s (kr_name rq) (kr_subject rq) version (algorithm rq) of
        (s', Some err) \<Rightarrow> (s', dek_error (kr_name rq) err, hints)
      | (s', None) \<Rightarrow>
          (s', NoContent,
           after_hash (hashDEK h texts) (Store_GetDEK s' (kr_name rq) (kr_subject rq) version (algorithm rq) False)
             (before_hash (hashDEK h texts) (Store_GetDEK s (kr_name rq) (kr_subject rq) version (algorithm rq) True)
                (key_hints ''dek'' (kr_name rq) hints))))"

text \<open>The version is noted in the hints when the operation succeeds.\<close>

definition noting_version :: "int \<Rightarrow> handled_key \<Rightarrow> handled_key" where
  "noting_version version res =
     (case res of (s', NoContent, hints) \<Rightarrow> (s', NoContent, hints\<lparr>hn_Version := version\<rparr>) | _ \<Rightarrow> res)"

definition DeleteDEK ::
  "(int \<Rightarrow> go_time) \<Rightarrow> audit_texts \<Rightarrow> 'p Handler \<Rightarrow> Store \<Rightarrow> unit key_request \<Rightarrow> AuditHints \<Rightarrow> handled_key" where
  "DeleteDEK now texts h s rq hints = delete_dek_answer now texts h s rq (-1) hints"

definition UndeleteDEK ::
  "(int \<Rightarrow> go_time) \<Rightarrow> audit_texts \<Rightarrow> 'p Handler \<Rightarrow> Store \<Rightarrow> unit key_request \<Rightarrow> AuditHints \<Rightarrow> handled_key" where
  "UndeleteDEK now texts h s rq hints = undelete_dek_answer now texts h s rq (-1) hints"

definition DeleteDEKVersion ::
  "(int \<Rightarrow> go_time) \<Rightarrow> audit_texts \<Rightarrow> 'p Handler \<Rightarrow> Store \<Rightarrow> unit key_request \<Rightarrow> AuditHints \<Rightarrow> handled_key" where
  "DeleteDEKVersion now texts h s rq hints =
     (case positive_version (kr_version rq) of
        None \<Rightarrow> (s, bad_version, hints)
      | Some v \<Rightarrow> noting_version v (delete_dek_answer now texts h s rq v hints))"

definition UndeleteDEKVersion ::
  "(int \<Rightarrow> go_time) \<Rightarrow> audit_texts \<Rightarrow> 'p Handler \<Rightarrow> Store \<Rightarrow> unit key_request \<Rightarrow> AuditHints \<Rightarrow> handled_key" where
  "UndeleteDEKVersion now texts h s rq hints =
     (case positive_version (kr_version rq) of
        None \<Rightarrow> (s, bad_version, hints)
      | Some v \<Rightarrow> noting_version v (undelete_dek_answer now texts h s rq v hints))"

section \<open>Exporters\<close>

definition ListExporters :: "Store \<Rightarrow> unit key_request \<Rightarrow> AuditHints \<Rightarrow> handled_key" where
  "ListExporters s rq hints =
     (s, case Store_ListExporters s of Inl _ \<Rightarrow> internal_error | Inr names \<Rightarrow> Reply 200 (NamesBody names), hints)"

definition exporter_of :: "string \<Rightarrow> CreateExporterRequest \<Rightarrow> ExporterRecord" where
  "exporter_of name req =
     \<lparr>ex_Name = name, ex_ContextType = xq_ContextType req, ex_Context = xq_Context req, ex_Subjects = xq_Subjects req,
      ex_SubjectRenameFormat = xq_SubjectRenameFormat req, ex_Config = xq_Config req, ex_CreatedAt = 0, ex_UpdatedAt = 0\<rparr>"

text \<open>The service sets the context type of the record the handler passed to it.\<close>

definition with_context_type :: "string \<Rightarrow> ExporterRecord \<Rightarrow> ExporterRecord" where
  "with_context_type dflt x =
     x\<lparr>ex_ContextType := ToUpper (if ex_ContextType x = [] then dflt else ex_ContextType x)\<rparr>"

definition CreateExporter ::
  "go_time \<Rightarrow> go_time \<Rightarrow> audit_texts \<Rightarrow> 'p Handler \<Rightarrow> Store \<Rightarrow> CreateExporterRequest key_request \<Rightarrow> AuditHints \<Rightarrow> handled_key" where
  "CreateExporter now now' texts h s rq hints =
     (case kr_body rq of
        None \<Rightarrow> (s, unreadable_body, hints)
      | Some req \<Rightarrow>
          if xq_Name req = [] then (s, Fail 422 ErrorCodeInvalidSchema ''Exporter name is required'', hints)
          else
            (let exporter = exporter_of (xq_Name req) req; hints1 = key_hints ''exporter'' (xq_Name req) hints
             in case Registry_CreateExporter now now' (hd_registry h) s exporter of
                  (s', Some err) \<Rightarrow>
                    (s', if err = ExporterStorage ErrExporterExists
                         then Fail 409 ErrorCodeExporterExists (''Exporter already exists: '' @ xq_Name req)
                         else Fail 422 ErrorCodeInvalidSchema (exporter_error_text err), hints1)
                | (s', None) \<Rightarrow>
                    (s', Reply 200 (ExporterNameBody (xq_Name req)),
                     hints1\<lparr>hn_AfterHash := hashExporter h texts (with_context_type ''AUTO'' exporter)\<rparr>)))"

definition GetExporter :: "Store \<Rightarrow> unit key_request \<Rightarrow> AuditHints \<Rightarrow> handled_key" where
  "GetExporter s rq hints =
     (s, case Store_GetExporter s (kr_name rq) of
           Inl err \<Rightarrow> exporter_error_answer (kr_name rq) err
         | Inr x \<Rightarrow>
             Reply 200 (ExporterBody
               \<lparr>xp_Name = ex_Name x, xp_ContextType = ex_ContextType x, xp_Context = ex_Context x,
                xp_Subjects = ex_Subjects x, xp_SubjectRenameFormat = ex_SubjectRenameFormat x, xp_Config = ex_Config x\<rparr>),
      hints)"

definition UpdateExporter ::
  "go_time \<Rightarrow> audit_texts \<Rightarrow> 'p Handler \<Rightarrow> Store \<Rightarrow> CreateExporterRequest key_request \<Rightarrow> AuditHints \<Rightarrow> handled_key" where
  "UpdateExporter now texts h s rq hints =
     (case kr_body rq of
        None \<Rightarrow> (s, unreadable_body, hints)
      | Some req \<Rightarrow>
          (let exporter = exporter_of (kr_name rq) req
           in case Registry_UpdateExporter now (hd_registry h) s exporter of
                (s', Some err) \<Rightarrow>
                  (s', if err = ExporterStorage ErrExporterNotFound then exporter_missing (kr_name rq)
                       else Fail 422 ErrorCodeInvalidSchema (exporter_error_text err), hints)
              | (s', None) \<Rightarrow>
                  (s', Reply 200 (ExporterNameBody (kr_name rq)),
                   (before_hash (hashExporter h texts) (Store_GetExporter s (kr_name rq))
                      (key_hints ''exporter'' (kr_name rq) hints))
                     \<lparr>hn_AfterHash := hashExporter h texts (with_context_type [] exporter)\<rparr>)))"

definition DeleteExporter :: "audit_texts \<Rightarrow> 'p Handler \<Rightarrow> Store \<Rightarrow> unit key_request \<Rightarrow> AuditHints \<Rightarrow> handled_key" where
  "DeleteExporter texts h s rq hints =
     (case Store_DeleteExporter s (kr_name rq) of
        (s', Some err) \<Rightarrow> (s', exporter_error_answer (kr_name rq) err, hints)
      | (s', None) \<Rightarrow>
          (s', Reply 200 (ExporterNameBody (kr_name rq)),
           before_hash (hashExporter h texts) (Store_GetExporter s (kr_name rq)) (key_hints ''exporter'' (kr_name rq) hints)))"

text \<open>
  The status read before the change is the stored record itself when there is one, and the change is made
  in place: the digest of the status before, taken afterwards, is that of the new one.
\<close>

definition status_seen_before :: "Store \<Rightarrow> Store \<Rightarrow> string \<Rightarrow> ExporterStatusRecord result" where
  "status_seen_before s s' name =
     (if gm_get (st_exporters s) name \<noteq> None \<and> gm_get (st_exporterStatuses s) name \<noteq> None
      then Store_GetExporterStatus s' name else Store_GetExporterStatus s name)"

definition changed_status ::
  "audit_texts \<Rightarrow> 'p Handler \<Rightarrow> Store \<Rightarrow> unit key_request \<Rightarrow> AuditHints \<Rightarrow> Store \<times> storage_error option \<Rightarrow> handled_key" where
  "changed_status texts h s rq hints res =
     (case res of
        (s', Some err) \<Rightarrow> (s', exporter_error_answer (kr_name rq) err, hints)
      | (s', None) \<Rightarrow>
          (s', Reply 200 (ExporterNameBody (kr_name rq)),
           after_hash (hashExporterStatus h texts) (Store_GetExporterStatus s' (kr_name rq))
             (before_hash (hashExporterStatus h texts) (status_seen_before s s' (kr_name rq))
                (key_hints ''exporter'' (kr_name rq) hints))))"

definition PauseExporter :: "go_time \<Rightarrow> audit_texts \<Rightarrow> 'p Handler \<Rightarrow> Store \<Rightarrow> unit key_request \<Rightarrow> AuditHints \<Rightarrow> handled_key" where
  "PauseExporter now texts h s rq hints =
     changed_status texts h s rq hints (Registry_PauseExporter now (hd_registry h) s (kr_name rq))"

definition ResumeExporter :: "go_time \<Rightarrow> audit_texts \<Rightarrow> 'p Handler \<Rightarrow> Store \<Rightarrow> unit key_request \<Rightarrow> AuditHints \<Rightarrow> handled_key" where
  "ResumeExporter now texts h s rq hints =
     changed_status texts h s rq hints (Registry_ResumeExporter now (hd_registry h) s (kr_name rq))"

definition ResetExporter :: "go_time \<Rightarrow> audit_texts \<Rightarrow> 'p Handler \<Rightarrow> Store \<Rightarrow> unit key_request \<Rightarrow> AuditHints \<Rightarrow> handled_key" where
  "ResetExporter now texts h s rq hints =
     changed_status texts h s rq hints (Registry_ResetExporter now (hd_registry h) s (kr_name rq))"

definition GetExporterStatus :: "Store \<Rightarrow> unit key_request \<Rightarrow> AuditHints \<Rightarrow> handled_key" where
  "GetExporterStatus s rq hints =
     (s, case Store_GetExporterStatus s (kr_name rq) of
           Inl err \<Rightarrow> exporter_error_answer (kr_name rq) err | Inr status \<Rightarrow> Reply 200 (StatusBody status), hints)"

definition GetExporterConfig :: "Store \<Rightarrow> unit key_request \<Rightarrow> AuditHints \<Rightarrow> handled_key" where
  "GetExporterConfig s rq hints =
     (s, case Store_GetExporterConfig s (kr_name rq) of
           Inl err \<Rightarrow> exporter_error_answer (kr_name rq) err | Inr config \<Rightarrow> Reply 200 (ExporterConfigBody config), hints)"

definition UpdateExporterConfig ::
  "go_time \<Rightarrow> audit_texts \<Rightarrow> 'p Handler \<Rightarrow> Store \<Rightarrow> (string, string) gomap option key_request \<Rightarrow> AuditHints \<Rightarrow> handled_key" where
  "UpdateExporterConfig now texts h s rq hints =
     (case kr_body rq of
        None \<Rightarrow> (s, unreadable_body, hints)
      | Some config \<Rightarrow>
          (case Store_UpdateExporterConfig now s (kr_name rq) config of
             (s', Some err) \<Rightarrow> (s', exporter_error_answer (kr_name rq) err, hints)
           | (s', None) \<Rightarrow>
               (s', Reply 200 (ExporterNameBody (kr_name rq)),
                after_hash (hashExporter h texts) (Store_GetExporter s' (kr_name rq))
                  (before_hash (hashExporter h texts) (Store_GetExporter s' (kr_name rq))
                     (key_hints ''exporter'' (kr_name rq) hints)))))"

end
