(* ===== verification/Key_Handler_Properties.thy ===== *)
theory Key_Handler_Properties
  imports Key_Handlers
begin

text \<open>
  What the HTTP interface of encryption keys and exporters guarantees: a plain key leaves the registry once,
  in the answer to the call that generated it; and what its audit digests hide.
\<close>

section \<open>Calls\<close>

datatype key_read =
    ListKEKsOp | GetKEKOp | TestKEKOp | ListDEKsOp | GetDEKOp | GetDEKVersionOp | ListDEKVersionsOp
  | ListExportersOp | GetExporterOp | GetExporterStatusOp | GetExporterConfigOp

datatype key_write =
    DeleteKEKOp | UndeleteKEKOp | DeleteDEKOp | UndeleteDEKOp | DeleteDEKVersionOp | UndeleteDEKVersionOp
  | DeleteExporterOp | PauseOp | ResumeOp | ResetOp

datatype key_call =
    KeyRead key_read "unit key_request" | KeyWrite key_write "unit key_request"
  | CreateKEKCall "CreateKEKRequest key_request" | UpdateKEKCall "UpdateKEKRequest key_request"
  | CreateDEKCall "CreateDEKRequest key_request" | CreateDEKWithSubjectCall "CreateDEKRequest option key_request"
  | CreateExporterCall "CreateExporterRequest key_request" | UpdateExporterCall "CreateExporterRequest key_request"
  | UpdateExporterConfigCall "(string, string) gomap option key_request"

primrec serve_key_read :: "audit_texts \<Rightarrow> 'p Handler \<Rightarrow> Store \<Rightarrow> unit key_request \<Rightarrow> AuditHints \<Rightarrow> key_read \<Rightarrow> handled_key" where
  "serve_key_read texts h s rq hints ListKEKsOp = ListKEKs s rq hints"
| "serve_key_read texts h s rq hints GetKEKOp = GetKEK s rq hints"
| "serve_key_read texts h s rq hints TestKEKOp = TestKEK texts h s rq hints"
| "serve_key_read texts h s rq hints ListDEKsOp = ListDEKs s rq hints"
| "serve_key_read texts h s rq hints GetDEKOp = GetDEK s rq hints"
| "serve_key_read texts h s rq hints GetDEKVersionOp = GetDEKVersion s rq hints"
| "serve_key_read texts h s rq hints ListDEKVersionsOp = ListDEKVersions s rq hints"
| "serve_key_read texts h s rq hints ListExportersOp = ListExporters s rq hints"
| "serve_key_read texts h s rq hints GetExporterOp = GetExporter s rq hints"
| "serve_key_read texts h s rq hints GetExporterStatusOp = GetExporterStatus s rq hints"
| "serve_key_read texts h s rq hints GetExporterConfigOp = GetExporterConfig s rq hints"

text \<open>The clock is read as often as the operations need: \<open>clock n\<close> is its \<open>n\<close>th reading.\<close>

primrec serve_key_write ::
  "(int \<Rightarrow> go_time) \<Rightarrow> audit_texts \<Rightarrow> 'p Handler \<Rightarrow> Store \<Rightarrow> unit key_request \<Rightarrow> AuditHints \<Rightarrow> key_write \<Rightarrow> handled_key" where
  "serve_key_write clock texts h s rq hints DeleteKEKOp = DeleteKEK (clock 0) texts h s rq hints"
| "serve_key_write clock texts h s rq hints UndeleteKEKOp = UndeleteKEK (clock 0) texts h s rq hints"
| "serve_key_write clock texts h s rq hints DeleteDEKOp = DeleteDEK clock texts h s rq hints"
| "serve_key_write clock texts h s rq hints UndeleteDEKOp = UndeleteDEK clock texts h s rq hints"
| "serve_key_write clock texts h s rq hints DeleteDEKVersionOp = DeleteDEKVersion clock texts h s rq hints"
| "serve_key_write clock texts h s rq hints UndeleteDEKVersionOp = UndeleteDEKVersion clock texts h s rq hints"
| "serve_key_write clock texts h s rq hints DeleteExporterOp = DeleteExporter texts h s rq hints"
| "serve_key_write clock texts h s rq hints PauseOp = PauseExporter (clock 0) texts h s rq hints"
| "serve_key_write clock texts h s rq hints ResumeOp = ResumeExporter (clock 0) texts h s rq hints"
| "serve_key_write clock texts h s rq hints ResetOp = ResetExporter (clock 0) texts h s rq hints"

primrec serve_key ::
  "(int \<Rightarrow> go_time) \<Rightarrow> audit_texts \<Rightarrow> 'p Handler \<Rightarrow> Store \<Rightarrow> AuditHints \<Rightarrow> key_call \<Rightarrow> handled_key" where
  "serve_key clock texts h s hints (KeyRead op rq) = serve_key_read texts h s rq hints op"
| "serve_key clock texts h s hints (KeyWrite op rq) = serve_key_write clock texts h s rq hints op"
| "serve_key clock texts h s hints (CreateKEKCall rq) = CreateKEK (clock 0) texts h s rq hints"
| "serve_key clock texts h s hints (UpdateKEKCall rq) = UpdateKEK (clock 0) texts h s rq hints"
| "serve_key clock texts h s hints (CreateDEKCall rq) = CreateDEK (clock 0) texts h s rq hints"
| "serve_key clock texts h s hints (CreateDEKWithSubjectCall rq) = CreateDEKWithSubject (clock 0) texts h s rq hints"
| "serve_key clock texts h s hints (CreateExporterCall rq) = CreateExporter (clock 0) (clock 1) texts h s rq hints"
| "serve_key clock texts h s hints (UpdateExporterCall rq) = UpdateExporter (clock 0) texts h s rq hints"
| "serve_key clock texts h s hints (UpdateExporterConfigCall rq) = UpdateExporterConfig (clock 0) texts h s rq hints"

fun serve_keys ::
  "audit_texts \<Rightarrow> 'p Handler \<Rightarrow> Store \<Rightarrow> ((int \<Rightarrow> go_time) \<times> AuditHints \<times> key_call) list \<Rightarrow> Store \<times> key_body answer list" where
  "serve_keys texts h s [] = (s, [])"
| "serve_keys texts h s ((clock, hints, call) # calls) =
     (let (s', resp, _) = serve_key clock texts h s hints call; (s'', resps) = serve_keys texts h s' calls
      in (s'', resp # resps))"

section \<open>Plain keys\<close>

text \<open>The material an answer shows, and the calls that may show it.\<close>

definition shows_key :: "key_body answer \<Rightarrow> string" where
  "shows_key resp = (case resp of Reply _ (DEKBody d) \<Rightarrow> dp_KeyMaterial d | _ \<Rightarrow> [])"

definition creating_dek :: "key_call \<Rightarrow> bool" where
  "creating_dek call \<longleftrightarrow>
     (case call of CreateDEKCall _ \<Rightarrow> True | CreateDEKWithSubjectCall rq \<Rightarrow> \<not> kflag rq ''rewrap'' | _ \<Rightarrow> False)"

definition just_generated :: "'p Handler \<Rightarrow> string \<Rightarrow> bool" where
  "just_generated h key \<longleftrightarrow>
     (\<exists>reg kmsType provider keyID alg props plaintext wrapped.
        rg_kmsRegistry (hd_registry h) = Some reg \<and> kms_Get reg kmsType = Some provider \<and>
        kp_GenerateDataKey provider keyID alg props = Inr (plaintext, wrapped) \<and> key = b64_EncodeToString plaintext)"

lemma shows_key_simps [simp]:
  "shows_key (Fail n code msg) = []" "shows_key internal_error = []" "shows_key NoContent = []"
  "shows_key (kek_error name err) = []" "shows_key (dek_error name err) = []" "shows_key (kek_missing name) = []"
  "shows_key dek_missing = []" "shows_key unreadable_body = []" "shows_key bad_version = []"
  "shows_key (exporter_error_answer name err) = []" "shows_key (exporter_missing name) = []"
  "shows_key (Reply n (DEKBody (dekToGetResponse dek))) = []" "shows_key (Reply n (DEKBody (dekToResponse dek))) = dek_KeyMaterial dek"
  "shows_key (Reply n (NamesBody xs)) = []" "shows_key (Reply n (VersionsBody vs)) = []" "shows_key (Reply n (KEKBody k)) = []"
  "shows_key (Reply n (ExporterNameBody x)) = []" "shows_key (Reply n (ExporterBody xr)) = []"
  "shows_key (Reply n (StatusBody st)) = []" "shows_key (Reply n (ExporterConfigBody m)) = []"
  by (simp_all add: shows_key_def internal_error_def kek_error_def dek_error_def kek_missing_def dek_missing_def
      unreadable_body_def bad_version_def exporter_error_answer_def exporter_missing_def dekToGetResponse_def dekToResponse_def)

lemma read_shows_nothing: "shows_key (fst (snd (serve_key_read texts h s rq hints op))) = []"
  by (cases op)
    (simp_all add: ListKEKs_def GetKEK_def TestKEK_def ListDEKs_def GetDEK_def GetDEKVersion_def ListDEKVersions_def
      get_dek_answer_def ListExporters_def GetExporter_def GetExporterStatus_def GetExporterConfig_def
      split: sum.split option.split)

lemma noting_version [simp]:
  "fst (noting_version v res) = fst res" "fst (snd (noting_version v res)) = fst (snd res)"
  by (auto simp: noting_version_def split: prod.split answer.split)

lemma new_dek_material [simp]: "dek_KeyMaterial (new_dek name subject req) = []"
  by (simp add: new_dek_def)

lemmas dek_write_defs = DeleteDEK_def UndeleteDEK_def DeleteDEKVersion_def UndeleteDEKVersion_def delete_dek_answer_def
  undelete_dek_answer_def

lemma write_shows_nothing: "shows_key (fst (snd (serve_key_write clock texts h s rq hints op))) = []"
  by (cases op)
    (simp_all add: DeleteKEK_def UndeleteKEK_def dek_write_defs DeleteExporter_def
      PauseExporter_def ResumeExporter_def ResetExporter_def changed_status_def
      split: prod.split option.split)

lemma other_shows_nothing:
  "shows_key (fst (snd (CreateKEK now texts h s rq1 hints))) = []"
  "shows_key (fst (snd (UpdateKEK now texts h s rq2 hints))) = []"
  "shows_key (fst (snd (CreateExporter now now' texts h s rq3 hints))) = []"
  "shows_key (fst (snd (UpdateExporter now texts h s rq4 hints))) = []"
  "shows_key (fst (snd (UpdateExporterConfig now texts h s rq5 hints))) = []"
  by (simp_all add: CreateKEK_def UpdateKEK_def CreateExporter_def UpdateExporter_def UpdateExporterConfig_def Let_def
      split: option.split prod.split sum.split)

lemma generated_material:
  assumes "generate_material r s dek = Inr dek'" "dek_KeyMaterial dek = []" "dek_KeyMaterial dek' \<noteq> []"
  shows "\<exists>reg kmsType provider keyID alg props plaintext wrapped.
    rg_kmsRegistry r = Some reg \<and> kms_Get reg kmsType = Some provider \<and>
    kp_GenerateDataKey provider keyID alg props = Inr (plaintext, wrapped) \<and> dek_KeyMaterial dek' = b64_EncodeToString plaintext"
  using assms by (auto simp: generate_material_def split: option.splits if_splits sum.splits) blast

lemma create_shows_generated:
  assumes "dek_KeyMaterial dek = []" "shows_key (fst (snd (create_dek_answer now texts h s name dek hints))) \<noteq> []"
  shows "just_generated h (shows_key (fst (snd (create_dek_answer now texts h s name dek hints))))"
proof -
  obtain s' dek' where run: "Registry_CreateDEK now (hd_registry h) s dek = (s', dek', None)"
    using assms(2) by (auto simp: create_dek_answer_def split: prod.splits option.splits if_splits)
  then obtain dek1 dek2 where gen: "generate_material (hd_registry h) s dek1 = Inr dek2" "dek_KeyMaterial dek1 = []"
    and create: "Store_CreateDEK now s dek2 = (s', dek', None)"
    using assms(1) by (auto simp: Registry_CreateDEK_def Let_def split: if_splits sum.splits prod.splits)
  have "dek_KeyMaterial dek' = dek_KeyMaterial dek2" using CreateDEK_stored(2) [OF create] by auto
  moreover have "shows_key (fst (snd (create_dek_answer now texts h s name dek hints))) = dek_KeyMaterial dek'"
    by (simp add: create_dek_answer_def run)
  ultimately show ?thesis
    using generated_material [OF gen] assms(2) by (simp add: just_generated_def)
qed

lemma call_shows:
  assumes "shows_key (fst (snd (serve_key clock texts h s hints call))) \<noteq> []"
  shows "creating_dek call \<and> just_generated h (shows_key (fst (snd (serve_key clock texts h s hints call))))"
proof (cases call)
  case (CreateDEKCall rq)
  with assms show ?thesis
    by (auto simp: CreateDEK_def creating_dek_def intro: create_shows_generated [OF new_dek_material] split: option.splits)
next
  case (CreateDEKWithSubjectCall rq)
  with assms show ?thesis
    by (auto simp: CreateDEKWithSubject_def creating_dek_def rewrapDEK_def Let_def
        intro: create_shows_generated [OF new_dek_material] split: option.splits if_splits prod.splits sum.splits)
qed (use assms in \<open>simp_all add: read_shows_nothing write_shows_nothing other_shows_nothing\<close>)

lemma keys_inv_same: "st_keks s' = st_keks s \<Longrightarrow> st_deks s' = st_deks s \<Longrightarrow> keys_inv s' = keys_inv s"
  by (simp add: keys_inv_def dek_versions_def)

lemma exporters_keep_keys:
  "st_keks (fst (Registry_CreateExporter now now' r s x)) = st_keks s"
  "st_deks (fst (Registry_CreateExporter now now' r s x)) = st_deks s"
  "st_keks (fst (Registry_UpdateExporter now r s x)) = st_keks s"
  "st_deks (fst (Registry_UpdateExporter now r s x)) = st_deks s"
  "st_keks (fst (change_status f s name)) = st_keks s" "st_deks (fst (change_status f s name)) = st_deks s"
  "st_keks (fst (Store_DeleteExporter s name)) = st_keks s" "st_deks (fst (Store_DeleteExporter s name)) = st_deks s"
  "st_keks (fst (Store_UpdateExporterConfig now s name config)) = st_keks s"
  "st_deks (fst (Store_UpdateExporterConfig now s name config)) = st_deks s"
  by (auto simp: Registry_CreateExporter_def Registry_UpdateExporter_def change_status_def Store_CreateExporter_def
      Store_UpdateExporter_def Store_SetExporterStatus_def Store_DeleteExporter_def Store_UpdateExporterConfig_def Let_def
      split: option.split sum.split prod.split)

lemma key_step_run:
  "key_step s (fst (Registry_CreateKEK now r s kek)) \<or> fst (Registry_CreateKEK now r s kek) = s"
  "key_step s (fst (Registry_UpdateKEK now r s kek)) \<or> fst (Registry_UpdateKEK now r s kek) = s"
  "key_step s (fst (Registry_CreateDEK now r s dek)) \<or> fst (Registry_CreateDEK now r s dek) = s"
  "key_step s (fst (Registry_RewrapDEK now r s k sub v alg)) \<or> fst (Registry_RewrapDEK now r s k sub v alg) = s"
  by (auto simp: Registry_CreateKEK_def Registry_UpdateKEK_def Registry_CreateDEK_def Registry_RewrapDEK_def Let_def
      intro: key_step.intros split: prod.split sum.split option.split)

lemma key_step_store:
  "key_step s (fst (Store_DeleteKEK now s name permanent))" "key_step s (fst (Store_UndeleteKEK now s name))"
  "key_step s (fst (Store_DeleteDEK nows s k sub v alg permanent))" "key_step s (fst (Store_UndeleteDEK nows s k sub v alg))"
  by (rule key_step.intros(3,4,7,8) [OF prod.collapse [symmetric]])+

lemma service_keeps_inv:
  assumes "keys_inv s"
  shows "keys_inv (fst (Registry_CreateKEK now r s kek))" "keys_inv (fst (Registry_UpdateKEK now r s kek))"
    "keys_inv (fst (Registry_CreateDEK now r s dek))" "keys_inv (fst (Registry_RewrapDEK now r s k sub v alg))"
    "keys_inv (fst (Store_DeleteKEK now s name permanent))" "keys_inv (fst (Store_UndeleteKEK now s name))"
    "keys_inv (fst (Store_DeleteDEK nows s k sub v alg permanent))" "keys_inv (fst (Store_UndeleteDEK nows s k sub v alg))"
  using key_step_run key_step_store key_step_inv assms by metis+

lemma exporters_keep_inv:
  assumes "keys_inv s"
  shows "keys_inv (fst (Registry_CreateExporter now now' r s x))" "keys_inv (fst (Registry_UpdateExporter now r s x))"
    "keys_inv (fst (change_status f s name))" "keys_inv (fst (Store_DeleteExporter s name))"
    "keys_inv (fst (Store_UpdateExporterConfig now s name config))"
  using assms by (simp_all add: keys_inv_same [OF exporters_keep_keys(1,2)] keys_inv_same [OF exporters_keep_keys(3,4)]
      keys_inv_same [OF exporters_keep_keys(5,6)] keys_inv_same [OF exporters_keep_keys(7,8)]
      keys_inv_same [OF exporters_keep_keys(9,10)])

text \<open>Where each handler leaves the store.\<close>

lemma fst_case_option: "fst (case m of None \<Rightarrow> a | Some x \<Rightarrow> f x) = (case m of None \<Rightarrow> fst a | Some x \<Rightarrow> fst (f x))"
  by (cases m) simp_all

lemma create_dek_store: "fst (create_dek_answer now texts h s name dek hints) = fst (Registry_CreateDEK now (hd_registry h) s dek)"
  by (simp add: create_dek_answer_def case_prod_beta fst_case_option split: option.split)

lemma delete_dek_store:
  "fst (delete_dek_answer nows texts h s rq v hints) =
     fst (Store_DeleteDEK nows s (kr_name rq) (kr_subject rq) v (algorithm rq) (kflag rq ''permanent''))"
  "fst (undelete_dek_answer nows texts h s rq v hints) =
     fst (Store_UndeleteDEK nows s (kr_name rq) (kr_subject rq) v (algorithm rq))"
  by (simp_all add: delete_dek_answer_def undelete_dek_answer_def case_prod_beta split: option.split)

lemma changed_status_store: "fst (changed_status texts h s rq hints res) = fst res"
  by (simp add: changed_status_def case_prod_beta split: option.split)

lemma read_keeps: "fst (serve_key_read texts h s rq hints op) = s"
  by (cases op)
    (simp_all add: ListKEKs_def GetKEK_def TestKEK_def ListDEKs_def GetDEK_def GetDEKVersion_def ListDEKVersions_def
      ListExporters_def GetExporter_def GetExporterStatus_def GetExporterConfig_def)

lemma write_keeps_inv: "keys_inv s \<Longrightarrow> keys_inv (fst (serve_key_write clock texts h s rq hints op))"
  by (cases op)
    (simp_all add: DeleteKEK_def UndeleteKEK_def DeleteDEK_def UndeleteDEK_def DeleteDEKVersion_def UndeleteDEKVersion_def
      DeleteExporter_def PauseExporter_def ResumeExporter_def ResetExporter_def Registry_PauseExporter_def
      Registry_ResumeExporter_def Registry_ResetExporter_def delete_dek_store changed_status_store case_prod_beta
      service_keeps_inv exporters_keep_inv split: option.split)

lemma call_keeps_inv: "keys_inv s \<Longrightarrow> keys_inv (fst (serve_key clock texts h s hints call))"
  by (cases call)
    (simp_all add: read_keeps write_keeps_inv CreateKEK_def UpdateKEK_def CreateDEK_def CreateDEKWithSubject_def rewrapDEK_def
      CreateExporter_def UpdateExporter_def UpdateExporterConfig_def create_dek_store case_prod_beta Let_def
      service_keeps_inv exporters_keep_inv split: option.split sum.split)


lemma serve_keys_inv: "keys_inv s \<Longrightarrow> keys_inv (fst (serve_keys texts h s calls))"
proof (induction texts h s calls rule: serve_keys.induct)
  case (2 texts h s clock hints call calls)
  show ?case
    using 2(1) [OF refl prod.collapse prod.collapse call_keeps_inv [OF 2(2)]] by (simp add: case_prod_beta Let_def)
qed simp

lemma keys_inv_read: "keys_inv s \<Longrightarrow> Store_GetDEK s k sub v alg inc = Inr dek \<Longrightarrow> dek_KeyMaterial dek = []"
  by (auto simp: Store_GetDEK_def Let_def split: option.splits if_splits dest: keys_inv_dek)


definition key_handler :: "unit Handler" where
  "key_handler =
     \<lparr>hd_registry = key_registry, hd_auditLogger = True, hd_clusterID = [], hd_version = [], hd_commit = [],
      hd_buildTime = [], hd_configText = cq_Compatibility, hd_quote = (\<lambda>s. s)\<rparr>"

definition sample_texts :: audit_texts where
  "sample_texts =
     \<lparr>at_kek = fst, at_dek = fst, at_exporter = fst, at_status = fst, at_quote = (\<lambda>s. s), at_decode = []\<rparr>"

definition key_request_of :: "'b option \<Rightarrow> 'b key_request" where
  "key_request_of body = \<lparr>kr_name = ''kek'', kr_subject = ''orders'', kr_version = ''1'', kr_query = [], kr_body = body\<rparr>"

definition key_calls :: "((int \<Rightarrow> go_time) \<times> AuditHints \<times> key_call) list" where
  "key_calls =
     map (\<lambda>call. (\<lambda>n. 2, AuditHints_zero, call))
       [CreateKEKCall (key_request_of (Some \<lparr>ck_Name = ''kek'', ck_KmsType = ''local-kms'', ck_KmsKeyID = ''id'',
          ck_KmsProps = None, ck_Doc = [], ck_Shared = True\<rparr>)),
        CreateDEKWithSubjectCall (key_request_of (Some None)), KeyRead GetDEKOp (key_request_of None)]"


section \<open>What the audit digests hide\<close>

text \<open>
  Pausing, resuming or resetting an exporter whose status is stored records the new status as the status
  before; a new configuration of an exporter never shows, since the digest leaves the configuration out.
\<close>

lemma status_change_hidden:
  assumes "serve_key_write clock texts h s rq hints op = (s', Reply 200 b, hints')" "op \<in> {PauseOp, ResumeOp, ResetOp}"
    and "gm_get (st_exporterStatuses s) (kr_name rq) \<noteq> None"
  shows "hn_BeforeHash hints' = hn_AfterHash hints'"
  using assms
  by (auto simp: PauseExporter_def ResumeExporter_def ResetExporter_def Registry_PauseExporter_def Registry_ResumeExporter_def
      Registry_ResetExporter_def changed_status_def change_status_def Store_GetExporter_def Store_SetExporterStatus_def
      Store_GetExporterStatus_def status_seen_before_def exporter_error_answer_def exporter_missing_def before_hash_def after_hash_def gm_laws
      split: option.splits prod.splits sum.splits if_splits)

lemma config_change_hidden:
  assumes "UpdateExporterConfig now texts h s rq hints = (s', Reply 200 b, hints')"
  shows "hn_BeforeHash hints' = hn_AfterHash hints'"
  using assms
  by (auto simp: UpdateExporterConfig_def Store_UpdateExporterConfig_def Store_GetExporter_def before_hash_def after_hash_def
      unreadable_body_def exporter_error_answer_def exporter_missing_def gm_laws split: option.splits)

text \<open>
  A data key is created under a key that is deleted softly when the client brings the material, and refused
  with 404 when the registry would generate it.
\<close>

lemma dek_under_deleted_kek:
  assumes "gm_get (st_keks s) k = Some kek" "kek_Deleted kek" "dek_versions s k sub = None"
    and "dek_EncryptedKeyMaterial dek \<noteq> []" "dek_KEKName dek = k" "dek_Subject dek = sub" "dek_Version dek = 1"
    and "TrimSpace k \<noteq> []" "TrimSpace sub \<noteq> []" "dek_Algorithm dek \<in> set validAlgorithms"
  shows "snd (snd (Registry_CreateDEK now r s dek)) = None"
    and "rg_kmsRegistry r = Some reg \<Longrightarrow>
      snd (snd (Registry_CreateDEK now r s (dek\<lparr>dek_EncryptedKeyMaterial := []\<rparr>))) = Some (KeyStorage ErrKEKNotFound)"
  using assms
  by (auto simp: Registry_CreateDEK_def generate_material_def Store_GetKEK_def Store_CreateDEK_def Let_def validAlgorithms_def
      split: option.split)

end
