(* ===== verification/Proto_Compat.thy ===== *)
theory Proto_Compat
  imports Compat_Modes
begin

text \<open>
  The Protobuf compatibility checker, \<open>internal/compatibility/protobuf/checker.go\<close>.  Descriptors are
  the part of \<open>protoreflect\<close> the checker observes.  The type of a field is a reference, because
  message types may be cyclic: a field names its message, and a file carries the messages it and
  its imports declare, by full name, which the linker keeps unique.  Compiling a file is the work
  of a library and a parameter (\<open>proto_lib\<close>).  The comparison of message structures threads the
  set of visited pairs through its loop; its termination rests on that set.
\<close>

section \<open>Descriptors\<close>

datatype Kind =
    BoolKind | EnumKind | Int32Kind | Sint32Kind | Uint32Kind | Int64Kind | Sint64Kind | Uint64Kind
  | Sfixed32Kind | Fixed32Kind | FloatKind | Sfixed64Kind | Fixed64Kind | DoubleKind | StringKind
  | BytesKind | MessageKind | GroupKind

datatype Cardinality = Optional | Required | Repeated

record OneofDescriptor =
  oo_Name :: string
  oo_IsSynthetic :: bool

record FieldDescriptor =
  fd_Name :: string
  fd_Number :: int
  fd_Kind :: Kind
  fd_Cardinality :: Cardinality
  fd_ContainingOneof :: "OneofDescriptor option"
  fd_Message :: string
  fd_Enum :: string

record EnumValueDescriptor =
  ev_Name :: string
  ev_Number :: int

record EnumDescriptor =
  ed_Name :: string
  ed_FullName :: string
  ed_Values :: "EnumValueDescriptor list"

datatype MessageDescriptor =
  MessageDescriptor (md_Name: string) (md_FullName: string) (md_Path: string)
    (md_Fields: "FieldDescriptor list") (md_Messages: "MessageDescriptor list")
    (md_Enums: "EnumDescriptor list") (md_IsMapEntry: bool)

record MethodDescriptor =
  mt_Name :: string
  mt_Input :: string
  mt_Output :: string
  mt_IsStreamingClient :: bool
  mt_IsStreamingServer :: bool

record ServiceDescriptor =
  sd_FullName :: string
  sd_Methods :: "MethodDescriptor list"

type_synonym message_env = "(string, MessageDescriptor) gomap"

record FileDescriptor =
  fl_Package :: string
  fl_Messages :: "MessageDescriptor list"
  fl_Enums :: "EnumDescriptor list"
  fl_Services :: "ServiceDescriptor list"
  fl_types :: message_env

text \<open>\<open>Message()\<close> of a field.  A name that is not linked is a placeholder, which has no fields.\<close>

definition env_message :: "message_env \<Rightarrow> string \<Rightarrow> MessageDescriptor" where
  "env_message env name =
     (case gm_get env name of
        Some msg \<Rightarrow> msg
      | None \<Rightarrow> MessageDescriptor [] name [] [] [] [] False)"

abbreviation field_message :: "message_env \<Rightarrow> FieldDescriptor \<Rightarrow> MessageDescriptor" where
  "field_message env f \<equiv> env_message env (fd_Message f)"

definition ByNumber :: "FieldDescriptor list \<Rightarrow> int \<Rightarrow> FieldDescriptor option" where
  "ByNumber fs n = List.find (\<lambda>f. fd_Number f = n) fs"

definition protoTypeName :: "FieldDescriptor \<Rightarrow> string" where
  "protoTypeName f =
     (case fd_Kind f of
        BoolKind \<Rightarrow> ''bool'' | Int32Kind \<Rightarrow> ''int32'' | Sint32Kind \<Rightarrow> ''sint32''
      | Uint32Kind \<Rightarrow> ''uint32'' | Int64Kind \<Rightarrow> ''int64'' | Sint64Kind \<Rightarrow> ''sint64''
      | Uint64Kind \<Rightarrow> ''uint64'' | Sfixed32Kind \<Rightarrow> ''sfixed32'' | Fixed32Kind \<Rightarrow> ''fixed32''
      | FloatKind \<Rightarrow> ''float'' | Sfixed64Kind \<Rightarrow> ''sfixed64'' | Fixed64Kind \<Rightarrow> ''fixed64''
      | DoubleKind \<Rightarrow> ''double'' | StringKind \<Rightarrow> ''string'' | BytesKind \<Rightarrow> ''bytes''
      | MessageKind \<Rightarrow> fd_Message f | EnumKind \<Rightarrow> fd_Enum f | GroupKind \<Rightarrow> ''group'')"

section \<open>Types\<close>

definition compatibleGroups :: "Kind list list" where
  "compatibleGroups =
     [[Int32Kind, Uint32Kind, Int64Kind, Uint64Kind, BoolKind],
      [Sint32Kind, Sint64Kind],
      [Fixed32Kind, Sfixed32Kind],
      [Fixed64Kind, Sfixed64Kind],
      [StringKind, BytesKind]]"

definition varintKinds :: "Kind list" where
  "varintKinds = [Int32Kind, Uint32Kind, Int64Kind, Uint64Kind, BoolKind]"

definition areKindsWireCompatible :: "Kind \<Rightarrow> Kind \<Rightarrow> bool" where
  "areKindsWireCompatible newKind oldKind =
     (if list_ex (\<lambda>g. List.member g oldKind \<and> List.member g newKind) compatibleGroups then True
      else if oldKind = EnumKind \<or> newKind = EnumKind
      then (let otherKind = (if oldKind \<noteq> EnumKind then oldKind else newKind)
            in if otherKind = EnumKind then False else List.member varintKinds otherKind)
      else False)"

type_synonym messagePair = "string \<times> string"

function areMessagesStructurallyCompatible ::
    "message_env \<Rightarrow> message_env \<Rightarrow> MessageDescriptor \<Rightarrow> MessageDescriptor \<Rightarrow> messagePair set \<Rightarrow>
     bool \<times> messagePair set"
  and structural_fields ::
    "message_env \<Rightarrow> message_env \<Rightarrow> MessageDescriptor \<Rightarrow> FieldDescriptor list \<Rightarrow> messagePair set \<Rightarrow>
     bool \<times> messagePair set"
where
  "areMessagesStructurallyCompatible newEnv oldEnv newMsg oldMsg visited =
     (if md_FullName newMsg = md_FullName oldMsg \<and> md_Path newMsg = md_Path oldMsg
      then (True, visited)
      else if (md_FullName newMsg, md_FullName oldMsg) \<in> visited then (True, visited)
      else structural_fields newEnv oldEnv newMsg (md_Fields oldMsg)
             (insert (md_FullName newMsg, md_FullName oldMsg) visited))"
| "structural_fields newEnv oldEnv newMsg [] visited = (True, visited)"
| "structural_fields newEnv oldEnv newMsg (oldField # rest) visited =
     (case ByNumber (md_Fields newMsg) (fd_Number oldField) of
        None \<Rightarrow> structural_fields newEnv oldEnv newMsg rest visited
      | Some newField \<Rightarrow>
          if fd_Kind oldField \<noteq> fd_Kind newField
          then (if \<not> areKindsWireCompatible (fd_Kind newField) (fd_Kind oldField)
                then (False, visited)
                else structural_fields newEnv oldEnv newMsg rest visited)
          else if fd_Kind oldField = MessageKind
          then (case areMessagesStructurallyCompatible newEnv oldEnv
                       (field_message newEnv newField) (field_message oldEnv oldField) visited of
                  (ok, visited') \<Rightarrow>
                    if \<not> ok then (False, visited')
                    else structural_fields newEnv oldEnv newMsg rest visited')
          else structural_fields newEnv oldEnv newMsg rest visited)"
  by pat_completeness auto

text \<open>
  Termination.  A pair that is compared is added to the visited set; a pair of linked messages is
  one of finitely many; and a placeholder has no fields to descend into.
\<close>

definition env_messages :: "message_env \<Rightarrow> MessageDescriptor set" where
  "env_messages env = ran (gm_get env)"

definition linked_pairs :: "message_env \<Rightarrow> message_env \<Rightarrow> messagePair set" where
  "linked_pairs newEnv oldEnv =
     md_FullName ` env_messages newEnv \<times> md_FullName ` env_messages oldEnv"

lemma finite_linked_pairs [simp]: "finite (linked_pairs newEnv oldEnv)"
proof -
  have "finite (env_messages env)" for env
    unfolding env_messages_def by (rule finite_ran) (rule gm.finite_dom)
  then show ?thesis by (simp add: linked_pairs_def)
qed

lemma field_message_linked: "field_message env f \<in> env_messages env \<or> md_Fields (field_message env f) = []"
  by (auto simp: env_message_def env_messages_def ran_def split: option.split)

definition pair_rank :: "message_env \<Rightarrow> message_env \<Rightarrow> MessageDescriptor \<Rightarrow> MessageDescriptor \<Rightarrow> nat" where
  "pair_rank newEnv oldEnv newMsg oldMsg =
     (if newMsg \<in> env_messages newEnv \<and> oldMsg \<in> env_messages oldEnv \<or>
         md_Fields newMsg = [] \<or> md_Fields oldMsg = [] then 1 else 3)"

definition fields_rank :: "MessageDescriptor \<Rightarrow> FieldDescriptor list \<Rightarrow> nat" where
  "fields_rank newMsg fs = (if fs \<noteq> [] \<and> md_Fields newMsg \<noteq> [] then 2 else 0)"

lemma pair_rank_referenced [simp]:
  "pair_rank newEnv oldEnv (field_message newEnv f) (field_message oldEnv g) = 1"
  using field_message_linked [of newEnv f] field_message_linked [of oldEnv g]
  by (auto simp: pair_rank_def)

lemma fields_rank_rest: "fields_rank m rest \<le> fields_rank m (f # rest)"
  by (simp add: fields_rank_def)

lemma found_in_fields: "ByNumber fs n = Some f \<Longrightarrow> fs \<noteq> []"
  by (auto simp: ByNumber_def)

lemma unvisited_mono:
  "visited \<subseteq> visited' \<Longrightarrow>
   card (linked_pairs newEnv oldEnv - visited') \<le> card (linked_pairs newEnv oldEnv - visited)"
  by (rule card_mono) auto

lemma unvisited_insert:
  assumes "p \<in> linked_pairs newEnv oldEnv" "p \<notin> visited"
  shows "card (linked_pairs newEnv oldEnv - insert p visited) < card (linked_pairs newEnv oldEnv - visited)"
  using assms by (intro psubset_card_mono) auto

lemma visited_grows:
  "areMessagesStructurallyCompatible_structural_fields_dom (Inl (newEnv, oldEnv, newMsg, oldMsg, visited)) \<Longrightarrow>
     visited \<subseteq> snd (areMessagesStructurallyCompatible newEnv oldEnv newMsg oldMsg visited)"
  "areMessagesStructurallyCompatible_structural_fields_dom (Inr (newEnv, oldEnv, newMsg, fs, visited)) \<Longrightarrow>
     visited \<subseteq> snd (structural_fields newEnv oldEnv newMsg fs visited)"
proof (induction newEnv oldEnv newMsg oldMsg visited and newEnv oldEnv newMsg fs visited
    rule: areMessagesStructurallyCompatible_structural_fields.pinduct)
  case (1 newEnv oldEnv newMsg oldMsg visited)
  then show ?case
    by (auto simp: areMessagesStructurallyCompatible.psimps)
next
  case (2 newEnv oldEnv newMsg visited)
  then show ?case by (simp add: structural_fields.psimps)
next
  case (3 newEnv oldEnv newMsg oldField rest visited)
  then show ?case
    by (simp add: structural_fields.psimps split: option.split prod.split) fastforce
qed

termination areMessagesStructurallyCompatible
proof (relation "measures
    [\<lambda>x. case x of Inl (ne, oe, nm, om, v) \<Rightarrow> card (linked_pairs ne oe - v)
                 | Inr (ne, oe, nm, fs, v) \<Rightarrow> card (linked_pairs ne oe - v),
     \<lambda>x. case x of Inl (ne, oe, nm, om, v) \<Rightarrow> pair_rank ne oe nm om
                 | Inr (ne, oe, nm, fs, v) \<Rightarrow> fields_rank nm fs,
     \<lambda>x. case x of Inl _ \<Rightarrow> 0 | Inr (ne, oe, nm, fs, v) \<Rightarrow> length fs]", goal_cases)
  case (2 newEnv oldEnv newMsg oldMsg visited)
  let ?p = "(md_FullName newMsg, md_FullName oldMsg)"
  show ?case
  proof (cases "newMsg \<in> env_messages newEnv \<and> oldMsg \<in> env_messages oldEnv")
    case True
    then have "?p \<in> linked_pairs newEnv oldEnv" by (auto simp: linked_pairs_def)
    with 2 show ?thesis using unvisited_insert [of ?p newEnv oldEnv visited] by simp
  next
    case False
    then have "fields_rank newMsg (md_Fields oldMsg) < pair_rank newEnv oldEnv newMsg oldMsg"
      by (simp add: fields_rank_def pair_rank_def)
    then show ?thesis
      using unvisited_mono [OF subset_insertI [of visited ?p], of newEnv oldEnv] by auto
  qed
next
  case (6 newEnv oldEnv newMsg oldField rest visited newField ok visited')
  then have "visited \<subseteq> visited'"
    by (metis snd_conv visited_grows(1))
  then show ?case
    using unvisited_mono [of visited visited' newEnv oldEnv] fields_rank_rest [of newMsg rest oldField]
    by (auto simp: le_less)
qed (auto simp: fields_rank_def dest: found_in_fields)


definition proto_areTypesCompatible ::
  "message_env \<Rightarrow> message_env \<Rightarrow> FieldDescriptor \<Rightarrow> FieldDescriptor \<Rightarrow> bool" where
  "proto_areTypesCompatible newEnv oldEnv newField oldField =
     (let newKind = fd_Kind newField; oldKind = fd_Kind oldField
      in if newKind = oldKind
         then (if newKind = MessageKind
               then fst (areMessagesStructurallyCompatible newEnv oldEnv
                           (field_message newEnv newField) (field_message oldEnv oldField) {})
               else if newKind = EnumKind then fd_Enum newField = fd_Enum oldField
               else True)
         else areKindsWireCompatible newKind oldKind)"

section \<open>Fields\<close>

definition in_quotes :: "string \<Rightarrow> string" where
  "in_quotes s = [CHR 0x27] @ s @ [CHR 0x27]"

definition real_oneof :: "FieldDescriptor \<Rightarrow> bool" where
  "real_oneof f = (case fd_ContainingOneof f of None \<Rightarrow> False | Some oo \<Rightarrow> \<not> oo_IsSynthetic oo)"

definition length_delimited :: "Kind \<Rightarrow> bool" where
  "length_delimited kind \<longleftrightarrow> \<not> (kind \<noteq> StringKind \<and> kind \<noteq> BytesKind \<and> kind \<noteq> MessageKind)"

definition check_cardinality ::
  "FieldDescriptor \<Rightarrow> FieldDescriptor \<Rightarrow> string \<Rightarrow> Result \<Rightarrow> Result" where
  "check_cardinality newField oldField msgName result =
     (let oldCard = fd_Cardinality oldField; newCard = fd_Cardinality newField;
          note = (\<lambda>text. Result_AddMessage result
                   (''Message '' @ in_quotes msgName @ '': field '' @ in_quotes (fd_Name newField) @ text))
      in if oldCard \<noteq> newCard
         then (if oldCard = Optional \<and> newCard = Repeated
               then (if \<not> length_delimited (fd_Kind oldField)
                     then note '' changed from optional to repeated'' else result)
               else if oldCard = Required \<and> newCard \<noteq> Required then result
               else if newCard = Required \<and> oldCard \<noteq> Required
               then note '' changed from optional to required''
               else if oldCard = Repeated \<and> newCard \<noteq> Repeated
               then (if \<not> length_delimited (fd_Kind newField)
                     then note '' changed from repeated to singular'' else result)
               else result)
         else result)"

definition checkFieldCompatibility ::
  "message_env \<Rightarrow> message_env \<Rightarrow> FieldDescriptor \<Rightarrow> FieldDescriptor \<Rightarrow> string \<Rightarrow> Result \<Rightarrow> Result" where
  "checkFieldCompatibility newEnv oldEnv newField oldField msgName result =
     (let fieldName = fd_Name newField; fieldNum = fd_Number newField;
          result = (if \<not> proto_areTypesCompatible newEnv oldEnv newField oldField
                    then Result_AddMessage result
                           (''Message '' @ in_quotes msgName @ '': field '' @ Itoa fieldNum @
                            '' type changed from '' @ in_quotes (protoTypeName oldField) @ '' to '' @
                            in_quotes (protoTypeName newField))
                    else result);
          result = check_cardinality newField oldField msgName result
      in if real_oneof oldField \<noteq> real_oneof newField
         then (if real_oneof oldField \<and> \<not> real_oneof newField
               then Result_AddMessage result
                      (''Message '' @ in_quotes msgName @ '': field '' @ in_quotes fieldName @
                       '' oneof membership changed'')
               else result)
         else result)"

section \<open>Enums and services\<close>

definition proto_checkEnumCompatibility :: "EnumDescriptor \<Rightarrow> EnumDescriptor \<Rightarrow> Result \<Rightarrow> Result" where
  "proto_checkEnumCompatibility newEnum oldEnum result =
     (let oldValues = gm_of_list (map (\<lambda>v. (ev_Number v, v)) (ed_Values oldEnum))
      in snd (fold (\<lambda>newValue (oldValues, result).
           case gm_get oldValues (ev_Number newValue) of
             Some oldValue \<Rightarrow> (gm_del (ev_Number newValue) oldValues, result)
           | None \<Rightarrow> (oldValues, result)) (ed_Values newEnum) (oldValues, result)))"

text \<open>The loop both enum checks run: the pairs of the same key, each new one once.\<close>

definition check_enum_lists ::
  "(EnumDescriptor \<Rightarrow> string) \<Rightarrow> EnumDescriptor list \<Rightarrow> EnumDescriptor list \<Rightarrow> Result \<Rightarrow> Result" where
  "check_enum_lists key newEnums olds result =
     snd (fold (\<lambda>e (oldEnums, result).
       case gm_get oldEnums (key e) of
         Some oldE \<Rightarrow> (gm_del (key e) oldEnums, proto_checkEnumCompatibility e oldE result)
       | None \<Rightarrow> (oldEnums, result)) newEnums (gm_of_list (map (\<lambda>e. (key e, e)) olds), result))"

definition checkNestedEnums :: "MessageDescriptor \<Rightarrow> MessageDescriptor \<Rightarrow> Result \<Rightarrow> Result" where
  "checkNestedEnums newMsg oldMsg result =
     check_enum_lists ed_Name (md_Enums newMsg) (md_Enums oldMsg) result"

definition checkEnums :: "FileDescriptor \<Rightarrow> FileDescriptor \<Rightarrow> Result \<Rightarrow> Result" where
  "checkEnums reader writer result =
     check_enum_lists ed_FullName (fl_Enums reader) (fl_Enums writer) result"

definition check_method :: "string \<Rightarrow> MethodDescriptor \<Rightarrow> MethodDescriptor \<Rightarrow> Result \<Rightarrow> Result" where
  "check_method svcName newMethod oldMethod result =
     (let prefix = ''Service '' @ in_quotes svcName @ '': method '' @ in_quotes (mt_Name newMethod);
          note = (\<lambda>changed text result.
                    if changed then Result_AddMessage result (prefix @ text) else result)
      in note (mt_IsStreamingServer newMethod \<noteq> mt_IsStreamingServer oldMethod)
           '' server streaming changed''
        (note (mt_IsStreamingClient newMethod \<noteq> mt_IsStreamingClient oldMethod)
           '' client streaming changed''
        (note (mt_Output newMethod \<noteq> mt_Output oldMethod)
           ('' output type changed from '' @ in_quotes (mt_Output oldMethod) @ '' to '' @
            in_quotes (mt_Output newMethod))
        (note (mt_Input newMethod \<noteq> mt_Input oldMethod)
           ('' input type changed from '' @ in_quotes (mt_Input oldMethod) @ '' to '' @
            in_quotes (mt_Input newMethod)) result))))"

definition checkServiceCompatibility ::
  "ServiceDescriptor \<Rightarrow> ServiceDescriptor \<Rightarrow> Result \<Rightarrow> Result" where
  "checkServiceCompatibility newSvc oldSvc result =
     (let svcName = sd_FullName newSvc;
          oldMethods = gm_of_list (map (\<lambda>m. (mt_Name m, m)) (sd_Methods oldSvc));
          (oldMethods, result) =
            fold (\<lambda>newMethod (oldMethods, result).
              case gm_get oldMethods (mt_Name newMethod) of
                Some oldMethod \<Rightarrow>
                  (gm_del (mt_Name newMethod) oldMethods, check_method svcName newMethod oldMethod result)
              | None \<Rightarrow> (oldMethods, result)) (sd_Methods newSvc) (oldMethods, result)
      in fold (\<lambda>(name, _) result.
           Result_AddMessage result
             (''Service '' @ in_quotes svcName @ '': method '' @ in_quotes name @ '' was removed''))
           (gm_entries oldMethods) result)"

definition checkServices :: "FileDescriptor \<Rightarrow> FileDescriptor \<Rightarrow> Result \<Rightarrow> Result" where
  "checkServices reader writer result =
     (let oldServices = gm_of_list (map (\<lambda>s. (sd_FullName s, s)) (fl_Services writer));
          (oldServices, result) =
            fold (\<lambda>newSvc (oldServices, result).
              case gm_get oldServices (sd_FullName newSvc) of
                Some oldSvc \<Rightarrow>
                  (gm_del (sd_FullName newSvc) oldServices, checkServiceCompatibility newSvc oldSvc result)
              | None \<Rightarrow> (oldServices, result)) (fl_Services reader) (oldServices, result)
      in fold (\<lambda>(name, _) result. Result_AddMessage result (''Service '' @ in_quotes name @ '' was removed''))
           (gm_entries oldServices) result)"

section \<open>Messages\<close>

text \<open>One new field: its old counterpart, the fields that move into a oneof, the old fields left.\<close>

type_synonym field_state =
  "(int, FieldDescriptor) gomap \<times> (string, string list) gomap \<times> Result"

definition check_new_field ::
  "message_env \<Rightarrow> message_env \<Rightarrow> string \<Rightarrow> FieldDescriptor \<Rightarrow> field_state \<Rightarrow> field_state" where
  "check_new_field newEnv oldEnv msgName newField st =
     (case st of (oldFields, moved, result) \<Rightarrow>
        (let num = fd_Number newField
         in case gm_get oldFields num of
              None \<Rightarrow>
                (oldFields, moved,
                 if fd_Cardinality newField = Required
                 then Result_AddMessage result
                        (''Message '' @ in_quotes msgName @ '': new required field '' @
                         in_quotes (fd_Name newField) @ '' (number '' @ Itoa num @ '') added'')
                 else result)
            | Some oldField \<Rightarrow>
                (gm_del num oldFields,
                 (if \<not> real_oneof oldField \<and> real_oneof newField
                  then (let oneofName = oo_Name (the (fd_ContainingOneof newField))
                        in gm_put oneofName (gm_get0 [] moved oneofName @ [fd_Name newField]) moved)
                  else moved),
                 checkFieldCompatibility newEnv oldEnv newField oldField msgName result)))"

definition check_moved ::
  "MessageDescriptor \<Rightarrow> MessageDescriptor \<Rightarrow> string \<times> string list \<Rightarrow> Result \<Rightarrow> Result" where
  "check_moved newMsg oldMsg e result =
     (case e of (oneofName, movedFields) \<Rightarrow>
        (let msgName = md_FullName newMsg;
             oldFieldNums = map fd_Number (md_Fields oldMsg)
         in if length movedFields > 1
            then Result_AddMessage result
                   (''Message '' @ in_quotes msgName @ '': multiple fields moved into oneof '' @
                    in_quotes oneofName @ '', creating mutual exclusion'')
            else (let movedFieldName = hd movedFields;
                      otherPreExistingMember =
                        list_ex (\<lambda>nf. real_oneof nf \<and>
                            oo_Name (the (fd_ContainingOneof nf)) = oneofName \<and>
                            fd_Name nf \<noteq> movedFieldName \<and> List.member oldFieldNums (fd_Number nf))
                          (md_Fields newMsg)
                  in if otherPreExistingMember
                     then Result_AddMessage result
                            (''Message '' @ in_quotes msgName @ '': field '' @ in_quotes movedFieldName @
                             '' moved into existing oneof '' @ in_quotes oneofName)
                     else result)))"

definition check_removed :: "string \<Rightarrow> int \<times> FieldDescriptor \<Rightarrow> Result \<Rightarrow> Result" where
  "check_removed msgName e result =
     (case e of (num, oldField) \<Rightarrow>
        if fd_Cardinality oldField = Required
        then Result_AddMessage result
               (''Message '' @ in_quotes msgName @ '': required field '' @ in_quotes (fd_Name oldField) @
                '' (number '' @ Itoa num @ '') was removed'')
        else if real_oneof oldField
        then Result_AddMessage result
               (''Message '' @ in_quotes msgName @ '': field '' @ in_quotes (fd_Name oldField) @
                '' (number '' @ Itoa num @ '') was removed from oneof'')
        else result)"

definition check_message_fields ::
  "message_env \<Rightarrow> message_env \<Rightarrow> MessageDescriptor \<Rightarrow> MessageDescriptor \<Rightarrow> Result \<Rightarrow> Result" where
  "check_message_fields newEnv oldEnv newMsg oldMsg result =
     (let msgName = md_FullName newMsg;
          oldFields = gm_of_list (map (\<lambda>f. (fd_Number f, f)) (md_Fields oldMsg));
          (oldFields, moved, result) =
            fold (check_new_field newEnv oldEnv msgName) (md_Fields newMsg)
              (oldFields, gm_empty, result);
          result = fold (check_moved newMsg oldMsg) (gm_entries moved) result
      in fold (check_removed msgName) (gm_entries oldFields) result)"

type_synonym message_check = "MessageDescriptor \<Rightarrow> MessageDescriptor \<Rightarrow> Result \<Rightarrow> Result"

definition checkNestedMessages :: "message_check \<Rightarrow> message_check" where
  "checkNestedMessages check newMsg oldMsg result =
     (let oldNested = gm_of_list (map (\<lambda>nm. (md_Name nm, nm))
                        (filter (\<lambda>nm. \<not> md_IsMapEntry nm) (md_Messages oldMsg)));
          (oldNested, result) =
            fold (\<lambda>nm (oldNested, result).
              if md_IsMapEntry nm then (oldNested, result)
              else case gm_get oldNested (md_Name nm) of
                     Some oldNm \<Rightarrow> (gm_del (md_Name nm) oldNested, check nm oldNm result)
                   | None \<Rightarrow> (oldNested, result)) (md_Messages newMsg) (oldNested, result)
      in fold (\<lambda>(name, _) result.
           Result_AddMessage result
             (''Nested message '' @ [CHR 0x27] @ md_FullName oldMsg @ ''.'' @ name @ [CHR 0x27] @
              '' was removed'')) (gm_entries oldNested) result)"

lemma checkNestedMessages_cong [fundef_cong]:
  assumes "n = n'" "m = m'" "r = r'"
    and "\<And>nm om q. nm \<in> set (md_Messages n') \<Longrightarrow> check nm om q = check' nm om q"
  shows "checkNestedMessages check n m r = checkNestedMessages check' n' m' r'"
proof -
  have "fold (\<lambda>nm (old, q). if md_IsMapEntry nm then (old, q)
         else case gm_get old (md_Name nm) of
                Some om \<Rightarrow> (gm_del (md_Name nm) old, check nm om q) | None \<Rightarrow> (old, q)) (md_Messages n') st =
      fold (\<lambda>nm (old, q). if md_IsMapEntry nm then (old, q)
         else case gm_get old (md_Name nm) of
                Some om \<Rightarrow> (gm_del (md_Name nm) old, check' nm om q) | None \<Rightarrow> (old, q)) (md_Messages n') st"
    for st :: "(string, MessageDescriptor) gomap \<times> Result"
    by (rule fold_cong [OF refl refl]) (auto simp: fun_eq_iff assms(4) split: option.split)
  with assms(1-3) show ?thesis by (simp only: checkNestedMessages_def)
qed

lemma size_nested: "nm \<in> set (md_Messages m) \<Longrightarrow> size nm < size m"
proof (cases m)
  case (MessageDescriptor n f p fs ms es b)
  assume "nm \<in> set (md_Messages m)"
  then have "nm \<in> set ms" using MessageDescriptor by simp
  then have "size nm < Suc (size_list size ms)" by (induction ms) auto
  then show ?thesis using MessageDescriptor by simp
qed

function checkMessageCompatibility :: "message_env \<Rightarrow> message_env \<Rightarrow> message_check" where
  "checkMessageCompatibility newEnv oldEnv newMsg oldMsg result =
     (let result = check_message_fields newEnv oldEnv newMsg oldMsg result;
          result = checkNestedMessages (checkMessageCompatibility newEnv oldEnv) newMsg oldMsg result
      in checkNestedEnums newMsg oldMsg result)"
  by pat_completeness auto

termination
  by (relation "measure (\<lambda>(_, _, newMsg, _, _). size newMsg)") (auto simp: size_nested)

declare checkMessageCompatibility.simps [simp del]

definition checkMessages :: "FileDescriptor \<Rightarrow> FileDescriptor \<Rightarrow> Result \<Rightarrow> Result" where
  "checkMessages reader writer result =
     (let oldMessages = gm_of_list (map (\<lambda>m. (md_FullName m, m)) (fl_Messages writer));
          (oldMessages, result) =
            fold (\<lambda>newMsg (oldMessages, result).
              case gm_get oldMessages (md_FullName newMsg) of
                None \<Rightarrow> (oldMessages, result)
              | Some oldMsg \<Rightarrow>
                  (gm_del (md_FullName newMsg) oldMessages,
                   checkMessageCompatibility (fl_types reader) (fl_types writer) newMsg oldMsg result))
              (fl_Messages reader) (oldMessages, result)
      in fold (\<lambda>(name, _) result. Result_AddMessage result (''Message '' @ in_quotes name @ '' was removed''))
           (gm_entries oldMessages) result)"

section \<open>Parsing and the entry point\<close>

text \<open>
  The library: the parser, which only reports errors, and the compiler, which reads the files it
  needs through a resolver.
\<close>

record checkerResolver =
  cr_content :: string
  cr_refs :: "(string, string) gomap"

record proto_lib =
  pb_Parse :: "string \<Rightarrow> string option"
  pb_Compile :: "(string \<Rightarrow> string + string) \<Rightarrow> string + FileDescriptor list"

definition newCheckerResolver :: "string \<Rightarrow> Reference list \<Rightarrow> checkerResolver" where
  "newCheckerResolver content refs =
     \<lparr>cr_content = content,
      cr_refs = fold (\<lambda>ref m. if rf_Name ref \<noteq> [] then gm_put (rf_Name ref) (rf_Schema ref) m else m)
                  refs gm_empty\<rparr>"

definition FindFileByPath :: "checkerResolver \<Rightarrow> string \<Rightarrow> string + string" where
  "FindFileByPath r path =
     (if path = ''schema.proto'' then Inr (cr_content r)
      else case gm_get (cr_refs r) path of
             Some content \<Rightarrow>
               if content \<noteq> [] then Inr content else Inl (''file not found: '' @ path)
           | None \<Rightarrow> Inl (''file not found: '' @ path))"

definition parseSchemaWithRefs :: "proto_lib \<Rightarrow> SchemaWithRefs \<Rightarrow> string + FileDescriptor" where
  "parseSchemaWithRefs lib s =
     (case pb_Parse lib (sw_Schema s) of
        Some err \<Rightarrow> Inl err
      | None \<Rightarrow>
          (case pb_Compile lib (FindFileByPath (newCheckerResolver (sw_Schema s) (sw_References s))) of
             Inl err \<Rightarrow> Inl err
           | Inr [] \<Rightarrow> Inl ''no files compiled''
           | Inr (file # _) \<Rightarrow> Inr file))"

definition check_files :: "FileDescriptor \<Rightarrow> FileDescriptor \<Rightarrow> Result" where
  "check_files readerFD writerFD =
     (let result = NewCompatibleResult;
          result = (if fl_Package readerFD \<noteq> fl_Package writerFD
                    then Result_AddMessage result
                           (''Package changed from '' @ in_quotes (fl_Package writerFD) @ '' to '' @
                            in_quotes (fl_Package readerFD))
                    else result);
          result = checkMessages readerFD writerFD result
      in checkEnums readerFD writerFD result)"

definition ProtoChecker_Check :: "proto_lib \<Rightarrow> SchemaChecker" where
  "ProtoChecker_Check lib reader writer =
     (case parseSchemaWithRefs lib reader of
        Inl err \<Rightarrow> NewIncompatibleResult [''failed to parse new schema: '' @ err]
      | Inr readerFD \<Rightarrow>
          (case parseSchemaWithRefs lib writer of
             Inl err \<Rightarrow> NewIncompatibleResult [''failed to parse old schema: '' @ err]
           | Inr writerFD \<Rightarrow> check_files readerFD writerFD))"

end
