(* ===== verification/Proto_Properties.thy ===== *)
theory Proto_Properties
  imports Proto_Compat
begin

text \<open>
  What the Protobuf checker decides and what its verdict is worth.  The loops that pair new
  declarations with old ones and delete what they met are summarised by \<open>pairing_loop\<close>; with it
  the verdict on two files is a condition on the pairs of messages the checker visits.  The wire
  format is modelled by its records, and a comparison of message structures is shown to be a
  simulation, from which acceptance implies that what the old schema writes the new one reads.
\<close>

section \<open>Pairing loops\<close>

text \<open>The loop that consumes a map of old declarations.\<close>

definition pairing :: "('n \<Rightarrow> 'k) \<Rightarrow> ('n \<Rightarrow> 'o \<Rightarrow> Result \<Rightarrow> Result) \<Rightarrow> 'n \<Rightarrow>
    ('k, 'o) gomap \<times> Result \<Rightarrow> ('k, 'o) gomap \<times> Result" where
  "pairing key check n st =
     (case st of (olds, result) \<Rightarrow>
        (case gm_get olds (key n) of
           Some old \<Rightarrow> (gm_del (key n) olds, check n old result)
         | None \<Rightarrow> (olds, result)))"

lemma pairing_step:
  "pairing key check n (olds, result) =
     (case gm_get olds (key n) of
        Some old \<Rightarrow> (gm_del (key n) olds, check n old result)
      | None \<Rightarrow> (olds, result))"
  by (simp add: pairing_def)

lemma pairing_rest:
  "gm_get (fst (fold (pairing key check) ns (olds, result))) =
     (\<lambda>k. if k \<in> key ` set ns then None else gm_get olds k)"
proof (induction ns arbitrary: olds result)
  case (Cons n ns)
  show ?case
    by (cases "gm_get olds (key n)") (auto simp: pairing_step Cons.IH gm_laws fun_eq_iff)
qed simp

lemma pairing_verdict:
  assumes "distinct (map key ns)"
    and "\<And>n old result. n \<in> set ns \<Longrightarrow> gm_get olds (key n) = Some old \<Longrightarrow>
      re_IsCompatible (check n old result) \<longleftrightarrow> re_IsCompatible result \<and> P n old"
  shows "re_IsCompatible (snd (fold (pairing key check) ns (olds, result))) \<longleftrightarrow>
     re_IsCompatible result \<and> (\<forall>n\<in>set ns. \<forall>old. gm_get olds (key n) = Some old \<longrightarrow> P n old)"
  using assms
proof (induction ns arbitrary: olds result)
  case (Cons n ns)
  show ?case
  proof (cases "gm_get olds (key n)")
    case None
    then show ?thesis using Cons by (auto simp: pairing_step)
  next
    case (Some old)
    have same: "gm_get (gm_del (key n) olds) (key m) = gm_get olds (key m)" if "m \<in> set ns" for m
      using that Cons.prems(1) by (simp add: gm_laws) (metis image_eqI)
    have "re_IsCompatible (snd (fold (pairing key check) ns (gm_del (key n) olds, check n old result))) \<longleftrightarrow>
        re_IsCompatible (check n old result) \<and>
        (\<forall>m\<in>set ns. \<forall>old. gm_get (gm_del (key n) olds) (key m) = Some old \<longrightarrow> P m old)"
    proof (rule Cons.IH)
      show "distinct (map key ns)" using Cons.prems(1) by simp
    next
      fix m o' q assume "m \<in> set ns" "gm_get (gm_del (key n) olds) (key m) = Some o'"
      then show "re_IsCompatible (check m o' q) \<longleftrightarrow> re_IsCompatible q \<and> P m o'"
        using Cons.prems(2) [of m o' q] same by simp
    qed
    then show ?thesis
      using Some Cons.prems(2) [of n old result] same by (auto simp: pairing_step)
  qed
qed simp

text \<open>A loop that reports every entry left.\<close>

lemma report_all:
  "re_IsCompatible (fold (\<lambda>e q. Result_AddMessage q (f e)) es result) \<longleftrightarrow> re_IsCompatible result \<and> es = []"
  by (induction es arbitrary: result) auto

text \<open>Everything a loop over matched pairs collects.\<close>

lemma ball_matches:
  "(\<forall>p\<in>set (concat (map (\<lambda>n. case f n of None \<Rightarrow> [] | Some m \<Rightarrow> g n m) ns)). P p) \<longleftrightarrow>
     (\<forall>n\<in>set ns. \<forall>m. f n = Some m \<longrightarrow> (\<forall>p\<in>set (g n m). P p))"
proof (induction ns)
  case (Cons n ns)
  then show ?case by (cases "f n") (simp_all add: ball_Un)
qed simp

lemma none_left:
  assumes "distinct (map key olds)"
  shows "gm_entries (fst (fold (pairing newKey check) ns
           (gm_of_list (map (\<lambda>x. (key x, x)) olds), result))) = [] \<longleftrightarrow>
     key ` set olds \<subseteq> newKey ` set ns"
proof -
  let ?m = "fst (fold (pairing newKey check) ns (gm_of_list (map (\<lambda>x. (key x, x)) olds), result))"
  have "gm_get ?m k = (if k \<in> newKey ` set ns then None else List.find (\<lambda>x. key x = k) olds)" for k
    by (simp add: pairing_rest gm_get_keyed [OF assms])
  then have "gm_get ?m = Map.empty \<longleftrightarrow>
      (\<forall>k. k \<in> newKey ` set ns \<or> List.find (\<lambda>x. key x = k) olds = None)"
    by (auto simp: fun_eq_iff)
  then show ?thesis by (auto simp: gm.no_entries find_None_iff image_subset_iff)
qed

section \<open>Verdicts\<close>

text \<open>What the checks decide about one field, without their messages.\<close>

definition cardinality_ok :: "FieldDescriptor \<Rightarrow> FieldDescriptor \<Rightarrow> bool" where
  "cardinality_ok nf f \<longleftrightarrow>
     (case (fd_Cardinality f, fd_Cardinality nf) of
        (Optional, Repeated) \<Rightarrow> length_delimited (fd_Kind f)
      | (Optional, Required) \<Rightarrow> False
      | (Repeated, Required) \<Rightarrow> False
      | (Repeated, Optional) \<Rightarrow> length_delimited (fd_Kind nf)
      | _ \<Rightarrow> True)"

definition field_ok :: "message_env \<Rightarrow> message_env \<Rightarrow> FieldDescriptor \<Rightarrow> FieldDescriptor \<Rightarrow> bool" where
  "field_ok newEnv oldEnv nf f \<longleftrightarrow>
     proto_areTypesCompatible newEnv oldEnv nf f \<and> cardinality_ok nf f \<and> (real_oneof f \<longrightarrow> real_oneof nf)"

lemma field_verdict:
  "re_IsCompatible (checkFieldCompatibility newEnv oldEnv nf f msgName result) \<longleftrightarrow>
     re_IsCompatible result \<and> field_ok newEnv oldEnv nf f"
proof -
  have "re_IsCompatible (check_cardinality nf f msgName q) \<longleftrightarrow> re_IsCompatible q \<and> cardinality_ok nf f" for q
    by (cases "fd_Cardinality f"; cases "fd_Cardinality nf")
      (simp_all add: check_cardinality_def cardinality_ok_def Let_def)
  then show ?thesis by (auto simp: checkFieldCompatibility_def Let_def field_ok_def)
qed

lemma enum_lists_verdict [simp]: "check_enum_lists key ns olds result = result"
proof -
  have e: "proto_checkEnumCompatibility e old q = q" for e old q
    unfolding proto_checkEnumCompatibility_def Let_def
    by (rule fold_invariant [where P = "\<lambda>st. snd st = q" and Q = "\<lambda>_. True"]) (auto split: option.split)
  show ?thesis
    unfolding check_enum_lists_def e
    by (rule fold_invariant [where P = "\<lambda>st. snd st = result" and Q = "\<lambda>_. True"]) (auto split: option.split)
qed

text \<open>
  The fields of a message.  \<open>moved_to\<close> lists the fields that join a oneof, in order; what the loop
  accumulates under the name of the oneof is that list.
\<close>

definition joins :: "MessageDescriptor \<Rightarrow> string \<Rightarrow> FieldDescriptor \<Rightarrow> bool" where
  "joins old name nf \<longleftrightarrow>
     (case ByNumber (md_Fields old) (fd_Number nf) of
        Some f \<Rightarrow> \<not> real_oneof f \<and> real_oneof nf \<and> oo_Name (the (fd_ContainingOneof nf)) = name
      | None \<Rightarrow> False)"

definition moved_to :: "MessageDescriptor \<Rightarrow> FieldDescriptor list \<Rightarrow> string \<Rightarrow> string list" where
  "moved_to old nfs name = map fd_Name (filter (joins old name) nfs)"

definition new_field_ok ::
  "message_env \<Rightarrow> message_env \<Rightarrow> MessageDescriptor \<Rightarrow> FieldDescriptor \<Rightarrow> bool" where
  "new_field_ok newEnv oldEnv old nf \<longleftrightarrow>
     (case ByNumber (md_Fields old) (fd_Number nf) of
        None \<Rightarrow> fd_Cardinality nf \<noteq> Required
      | Some f \<Rightarrow> field_ok newEnv oldEnv nf f)"

definition distinct_numbers :: "MessageDescriptor \<Rightarrow> bool" where
  "distinct_numbers m \<longleftrightarrow> distinct (map fd_Number (md_Fields m)) \<and> distinct (map fd_Name (md_Fields m))"

abbreviation old_fields :: "MessageDescriptor \<Rightarrow> (int, FieldDescriptor) gomap" where
  "old_fields m \<equiv> gm_of_list (map (\<lambda>f. (fd_Number f, f)) (md_Fields m))"

lemma old_fields_get: "distinct_numbers m \<Longrightarrow> gm_get (old_fields m) n = ByNumber (md_Fields m) n"
  by (simp add: distinct_numbers_def gm_get_keyed ByNumber_def)

lemma ByNumber_eq:
  "distinct_numbers m \<Longrightarrow> ByNumber (md_Fields m) n = Some f \<longleftrightarrow> f \<in> set (md_Fields m) \<and> fd_Number f = n"
  by (simp add: distinct_numbers_def ByNumber_def find_keyed)

lemma ByNumber_None: "ByNumber fs n = None \<longleftrightarrow> n \<notin> fd_Number ` set fs"
  by (auto simp: ByNumber_def find_None_iff)

text \<open>The loop over the new fields: what is left, what moved, and the verdict.\<close>

lemma new_fields_loop:
  assumes "distinct (map fd_Number nfs)"
    and "\<And>nf. nf \<in> set nfs \<Longrightarrow> gm_get olds (fd_Number nf) = ByNumber (md_Fields old) (fd_Number nf)"
    and "fold (check_new_field newEnv oldEnv msgName) nfs (olds, moved, result) = (olds', moved', result')"
  shows "gm_get olds' = (\<lambda>n. if n \<in> fd_Number ` set nfs then None else gm_get olds n)"
    and "gm_get0 [] moved' name = gm_get0 [] moved name @ moved_to old nfs name"
    and "(\<forall>l. gm_get moved name = Some l \<longrightarrow> l \<noteq> []) \<Longrightarrow> gm_get moved' name = Some l \<Longrightarrow> l \<noteq> []"
    and "re_IsCompatible result' \<longleftrightarrow>
      re_IsCompatible result \<and> (\<forall>nf\<in>set nfs. new_field_ok newEnv oldEnv old nf)"
proof -
  have "gm_get olds' = (\<lambda>n. if n \<in> fd_Number ` set nfs then None else gm_get olds n) \<and>
     (\<forall>name. gm_get0 [] moved' name = gm_get0 [] moved name @ moved_to old nfs name) \<and>
     (\<forall>name. (\<forall>l. gm_get moved name = Some l \<longrightarrow> l \<noteq> []) \<longrightarrow> (\<forall>l. gm_get moved' name = Some l \<longrightarrow> l \<noteq> [])) \<and>
     (re_IsCompatible result' \<longleftrightarrow>
      re_IsCompatible result \<and> (\<forall>nf\<in>set nfs. new_field_ok newEnv oldEnv old nf))"
    using assms
  proof (induction nfs arbitrary: olds moved result)
    case Nil
    then show ?case by (simp add: moved_to_def)
  next
    case (Cons nf nfs)
    obtain olds1 moved1 result1 where
      st: "check_new_field newEnv oldEnv msgName nf (olds, moved, result) = (olds1, moved1, result1)"
      by (metis prod_cases3)
    have get: "gm_get olds (fd_Number nf) = ByNumber (md_Fields old) (fd_Number nf)"
      using Cons.prems(2) by simp
    have olds1: "gm_get olds1 = (gm_get olds)(fd_Number nf := None)"
      using st by (cases "gm_get olds (fd_Number nf)") (auto simp: check_new_field_def Let_def gm_laws fun_eq_iff)
    have moved1: "gm_get0 [] moved1 name = gm_get0 [] moved name @ moved_to old [nf] name"
      "(\<forall>l. gm_get moved name = Some l \<longrightarrow> l \<noteq> []) \<Longrightarrow> gm_get moved1 name = Some l \<Longrightarrow> l \<noteq> []" for name l
      using st
      by (cases "ByNumber (md_Fields old) (fd_Number nf)";
          auto simp: check_new_field_def Let_def get gm_laws gm_get0_def moved_to_def joins_def split: if_splits option.splits)+
    have result1: "re_IsCompatible result1 \<longleftrightarrow> re_IsCompatible result \<and> new_field_ok newEnv oldEnv old nf"
      using st
      by (cases "ByNumber (md_Fields old) (fd_Number nf)")
        (auto simp: check_new_field_def Let_def get new_field_ok_def field_verdict split: if_splits)
    have "\<And>m. m \<in> set nfs \<Longrightarrow> gm_get olds1 (fd_Number m) = ByNumber (md_Fields old) (fd_Number m)"
      using Cons.prems(1,2) by (simp add: olds1) (metis image_eqI)
    moreover have "fold (check_new_field newEnv oldEnv msgName) nfs (olds1, moved1, result1) = (olds', moved', result')"
      using Cons.prems(3) st by simp
    ultimately have IH: "gm_get olds' = (\<lambda>n. if n \<in> fd_Number ` set nfs then None else gm_get olds1 n)"
      "\<And>name. gm_get0 [] moved' name = gm_get0 [] moved1 name @ moved_to old nfs name"
      "\<And>name l. (\<forall>l. gm_get moved1 name = Some l \<longrightarrow> l \<noteq> []) \<Longrightarrow> gm_get moved' name = Some l \<Longrightarrow> l \<noteq> []"
      "re_IsCompatible result' \<longleftrightarrow> re_IsCompatible result1 \<and> (\<forall>nf\<in>set nfs. new_field_ok newEnv oldEnv old nf)"
      using Cons.IH [of olds1 moved1 result1] Cons.prems(1) by auto
    have split: "moved_to old (nf # nfs) name = moved_to old [nf] name @ moved_to old nfs name" for name
      by (simp add: moved_to_def)
    show ?case
    proof (intro conjI allI impI)
      show "gm_get olds' = (\<lambda>n. if n \<in> fd_Number ` set (nf # nfs) then None else gm_get olds n)"
        by (simp add: IH(1) olds1 fun_eq_iff)
      show "gm_get0 [] moved' name = gm_get0 [] moved name @ moved_to old (nf # nfs) name" for name
        by (simp add: IH(2) moved1(1) split)
      show "l \<noteq> []" if "\<forall>l. gm_get moved name = Some l \<longrightarrow> l \<noteq> []" "gm_get moved' name = Some l" for name l
        using IH(3) moved1(2) that by blast
      show "re_IsCompatible result' \<longleftrightarrow>
          re_IsCompatible result \<and> (\<forall>nf\<in>set (nf # nfs). new_field_ok newEnv oldEnv old nf)"
        by (simp add: IH(4) result1)
    qed
  qed
  then show "gm_get olds' = (\<lambda>n. if n \<in> fd_Number ` set nfs then None else gm_get olds n)"
    and "gm_get0 [] moved' name = gm_get0 [] moved name @ moved_to old nfs name"
    and "(\<forall>l. gm_get moved name = Some l \<longrightarrow> l \<noteq> []) \<Longrightarrow> gm_get moved' name = Some l \<Longrightarrow> l \<noteq> []"
    and "re_IsCompatible result' \<longleftrightarrow>
      re_IsCompatible result \<and> (\<forall>nf\<in>set nfs. new_field_ok newEnv oldEnv old nf)"
    by blast+
qed

definition oneofs_ok :: "MessageDescriptor \<Rightarrow> MessageDescriptor \<Rightarrow> bool" where
  "oneofs_ok new old \<longleftrightarrow>
     (\<forall>nf\<in>set (md_Fields new). \<forall>other\<in>set (md_Fields new).
        joins old (oo_Name (the (fd_ContainingOneof nf))) nf \<and> other \<noteq> nf \<and>
        real_oneof other \<and> oo_Name (the (fd_ContainingOneof other)) = oo_Name (the (fd_ContainingOneof nf)) \<longrightarrow>
        ByNumber (md_Fields old) (fd_Number other) = None)"

definition removal_ok :: "MessageDescriptor \<Rightarrow> MessageDescriptor \<Rightarrow> bool" where
  "removal_ok new old \<longleftrightarrow>
     (\<forall>f\<in>set (md_Fields old). ByNumber (md_Fields new) (fd_Number f) = None \<longrightarrow>
        fd_Cardinality f \<noteq> Required \<and> \<not> real_oneof f)"

definition fields_ok ::
  "message_env \<Rightarrow> message_env \<Rightarrow> MessageDescriptor \<Rightarrow> MessageDescriptor \<Rightarrow> bool" where
  "fields_ok newEnv oldEnv new old \<longleftrightarrow>
     (\<forall>nf\<in>set (md_Fields new). new_field_ok newEnv oldEnv old nf) \<and> oneofs_ok new old \<and> removal_ok new old"

definition moved_entry_ok :: "MessageDescriptor \<Rightarrow> MessageDescriptor \<Rightarrow> string \<times> string list \<Rightarrow> bool" where
  "moved_entry_ok new old e \<longleftrightarrow>
     length (snd e) \<le> 1 \<and>
     \<not> (\<exists>nf\<in>set (md_Fields new). real_oneof nf \<and> oo_Name (the (fd_ContainingOneof nf)) = fst e \<and>
          fd_Name nf \<noteq> hd (snd e) \<and> ByNumber (md_Fields old) (fd_Number nf) \<noteq> None)"

lemma check_moved_verdict:
  "re_IsCompatible (check_moved new old e result) \<longleftrightarrow> re_IsCompatible result \<and> moved_entry_ok new old e"
  by (cases e) (auto simp: check_moved_def Let_def moved_entry_ok_def list_ex_iff ByNumber_None image_iff)

lemma check_removed_verdict:
  "re_IsCompatible (check_removed m e result) \<longleftrightarrow>
     re_IsCompatible result \<and> fd_Cardinality (snd e) \<noteq> Required \<and> \<not> real_oneof (snd e)"
  by (cases e) (auto simp: check_removed_def)

lemma joins_unique: "joins old name nf \<Longrightarrow> name = oo_Name (the (fd_ContainingOneof nf))"
  by (auto simp: joins_def split: option.splits)

text \<open>Names of the oneofs that gained members against the members themselves.\<close>

lemma moved_entries_ok:
  assumes new: "distinct (map fd_Name (md_Fields new))"
    and moved: "\<And>name. gm_get0 [] moved name = moved_to old (md_Fields new) name"
    and ne: "\<And>name l. gm_get moved name = Some l \<Longrightarrow> l \<noteq> []"
  shows "(\<forall>e\<in>set (gm_entries moved). moved_entry_ok new old e) \<longleftrightarrow> oneofs_ok new old"
proof -
  have entry: "gm_get moved name = Some l \<longleftrightarrow> l = moved_to old (md_Fields new) name \<and> l \<noteq> []" for name l
    using moved [of name] ne [of name] by (cases "gm_get moved name") (auto simp: gm_get0_def)
  have same: "a = b" if "a \<in> set (md_Fields new)" "b \<in> set (md_Fields new)" "fd_Name a = fd_Name b" for a b
    using new that by (metis distinct_map inj_onD)
  have mem: "n \<in> set (moved_to old (md_Fields new) name) \<longleftrightarrow>
      (\<exists>nf\<in>set (md_Fields new). joins old name nf \<and> n = fd_Name nf)" for n name
    by (auto simp: moved_to_def)
  have dist: "distinct (moved_to old (md_Fields new) name)" for name
    using new by (simp add: moved_to_def distinct_map_filter)
  show ?thesis
  proof
    assume ok: "\<forall>e\<in>set (gm_entries moved). moved_entry_ok new old e"
    show "oneofs_ok new old" unfolding oneofs_ok_def
    proof (intro ballI impI, elim conjE)
      fix nf other :: FieldDescriptor
      let ?name = "oo_Name (the (fd_ContainingOneof nf))"
      assume nf: "nf \<in> set (md_Fields new)" "joins old ?name nf"
        and other: "other \<in> set (md_Fields new)" "other \<noteq> nf" "real_oneof other"
          "oo_Name (the (fd_ContainingOneof other)) = ?name"
      let ?l = "moved_to old (md_Fields new) ?name"
      have "fd_Name nf \<in> set ?l" using nf mem by auto
      moreover from this have "gm_get moved ?name = Some ?l" by (auto simp: entry)
      then have "moved_entry_ok new old (?name, ?l)" using ok gm.entry_iff by fastforce
      ultimately have "?l = [fd_Name nf]" and
        none: "\<not> (\<exists>x\<in>set (md_Fields new). real_oneof x \<and> oo_Name (the (fd_ContainingOneof x)) = ?name \<and>
          fd_Name x \<noteq> hd ?l \<and> ByNumber (md_Fields old) (fd_Number x) \<noteq> None)"
        by (cases ?l; auto simp: moved_entry_ok_def)+
      then show "ByNumber (md_Fields old) (fd_Number other) = None"
        using other nf(1) same by fastforce
    qed
  next
    assume ok: "oneofs_ok new old"
    show "\<forall>e\<in>set (gm_entries moved). moved_entry_ok new old e"
    proof
      fix e assume e: "e \<in> set (gm_entries moved)"
      obtain name l where "e = (name, l)" by fastforce
      then have l: "l = moved_to old (md_Fields new) name" "l \<noteq> []"
        using e entry by (auto simp: gm.entry_iff)
      obtain x where x: "hd l = fd_Name x" "x \<in> set (md_Fields new)" "joins old name x"
        using mem [of "hd l" name] l by auto
      have alone: "ByNumber (md_Fields old) (fd_Number y) = None"
        if "y \<in> set (md_Fields new)" "y \<noteq> x" "real_oneof y" "oo_Name (the (fd_ContainingOneof y)) = name" for y
        using ok x that joins_unique [OF x(3)] by (auto simp: oneofs_ok_def)
      have "z = hd l" if "z \<in> set l" for z
      proof -
        obtain y where y: "z = fd_Name y" "y \<in> set (md_Fields new)" "joins old name y"
          using \<open>z \<in> set l\<close> l(1) mem by auto
        then show ?thesis using alone [of y] x(1) by (auto simp: joins_def split: option.splits)
      qed
      moreover have "distinct l" using dist l by simp
      ultimately have "length l \<le> 1"
        by (cases l; cases "tl l") auto
      then show "moved_entry_ok new old e"
        using \<open>e = (name, l)\<close> alone x(1,2) by (force simp: moved_entry_ok_def)
    qed
  qed
qed

lemma message_fields_verdict:
  assumes "distinct_numbers new" "distinct_numbers old"
  shows "re_IsCompatible (check_message_fields newEnv oldEnv new old result) \<longleftrightarrow>
     re_IsCompatible result \<and> fields_ok newEnv oldEnv new old"
proof -
  obtain olds' moved' result' where
    loop: "fold (check_new_field newEnv oldEnv (md_FullName new)) (md_Fields new)
             (old_fields old, gm_empty, result) = (olds', moved', result')"
    by (rule prod_cases3)
  have dn: "distinct (map fd_Number (md_Fields new))" using assms(1) by (simp add: distinct_numbers_def)
  note facts = new_fields_loop [OF dn _ loop, where old = old, OF old_fields_get [OF assms(2)]]
  have moved: "(\<forall>e\<in>set (gm_entries moved'). moved_entry_ok new old e) \<longleftrightarrow> oneofs_ok new old"
    by (rule moved_entries_ok) (use assms(1) facts(2,3) in \<open>auto simp: distinct_numbers_def gm_get0_def\<close>)
  have "gm_get olds' n = Some f \<longleftrightarrow>
      f \<in> set (md_Fields old) \<and> fd_Number f = n \<and> ByNumber (md_Fields new) n = None" for n f
    using ByNumber_eq [OF assms(2), of n f]
    by (simp add: facts(1) old_fields_get [OF assms(2)] ByNumber_None)
  then have "(\<forall>e\<in>set (gm_entries olds'). fd_Cardinality (snd e) \<noteq> Required \<and> \<not> real_oneof (snd e)) \<longleftrightarrow>
      removal_ok new old"
    unfolding gm.scan_all removal_ok_def by auto
  then show ?thesis
    using moved facts(4)
    by (simp add: check_message_fields_def loop fold_verdict [OF check_removed_verdict]
        fold_verdict [OF check_moved_verdict] fields_ok_def list_all_iff)
qed

section \<open>The verdict on two files\<close>

abbreviation plain_nested :: "MessageDescriptor \<Rightarrow> MessageDescriptor list" where
  "plain_nested m \<equiv> filter (\<lambda>nm. \<not> md_IsMapEntry nm) (md_Messages m)"

text \<open>What the compiler guarantees: no two fields of a message share a number or a name, no two messages a name.\<close>

function wf_message :: "MessageDescriptor \<Rightarrow> bool" where
  "wf_message m \<longleftrightarrow> distinct_numbers m \<and> distinct (map md_Name (plain_nested m)) \<and>
     (\<forall>n\<in>set (md_Messages m). wf_message n)"
  by pat_completeness auto

termination by (relation "measure size") (auto simp: size_nested)

text \<open>The pairs of messages the checker compares, from a pair downwards.\<close>

function checked_pairs ::
  "MessageDescriptor \<Rightarrow> MessageDescriptor \<Rightarrow> (MessageDescriptor \<times> MessageDescriptor) list" where
  "checked_pairs new old =
     (new, old) # concat (map (\<lambda>n.
        case List.find (\<lambda>m. md_Name m = md_Name n) (plain_nested old) of
          None \<Rightarrow> [] | Some m \<Rightarrow> checked_pairs n m) (plain_nested new))"
  by pat_completeness auto

termination by (relation "measure (\<lambda>(new, _). size new)") (auto simp: size_nested)

declare wf_message.simps [simp del] checked_pairs.simps [simp del]

definition message_pair_ok ::
  "message_env \<Rightarrow> message_env \<Rightarrow> MessageDescriptor \<times> MessageDescriptor \<Rightarrow> bool" where
  "message_pair_ok newEnv oldEnv p \<longleftrightarrow>
     fields_ok newEnv oldEnv (fst p) (snd p) \<and>
     md_Name ` set (plain_nested (snd p)) \<subseteq> md_Name ` set (plain_nested (fst p))"

lemma nested_messages_loop:
  "checkNestedMessages check new old result =
     (let st = fold (pairing md_Name check) (plain_nested new)
                 (gm_of_list (map (\<lambda>m. (md_Name m, m)) (plain_nested old)), result)
      in fold (\<lambda>(name, _) result.
           Result_AddMessage result
             (''Nested message '' @ [CHR 0x27] @ md_FullName old @ ''.'' @ name @ [CHR 0x27] @
              '' was removed'')) (gm_entries (fst st)) (snd st))"
proof -
  have "(\<lambda>nm (oldNested, result).
      if md_IsMapEntry nm then (oldNested, result)
      else case gm_get oldNested (md_Name nm) of
             Some oldNm \<Rightarrow> (gm_del (md_Name nm) oldNested, check nm oldNm result)
           | None \<Rightarrow> (oldNested, result)) =
    (\<lambda>nm. if \<not> md_IsMapEntry nm then pairing md_Name check nm else id)"
    by (auto simp: fun_eq_iff pairing_step)
  then show ?thesis
    unfolding checkNestedMessages_def by (simp add: fold_filter case_prod_beta Let_def)
qed

lemma message_verdict:
  assumes "wf_message new" "wf_message old"
  shows "re_IsCompatible (checkMessageCompatibility newEnv oldEnv new old result) \<longleftrightarrow>
     re_IsCompatible result \<and> (\<forall>p\<in>set (checked_pairs new old). message_pair_ok newEnv oldEnv p)"
  using assms
proof (induction new old arbitrary: result rule: checked_pairs.induct)
  case (1 new old)
  let ?check = "checkMessageCompatibility newEnv oldEnv"
  let ?find = "\<lambda>n. List.find (\<lambda>m. md_Name m = md_Name n) (plain_nested old)"
  have wf: "distinct_numbers new" "distinct (map md_Name (plain_nested new))"
      "distinct_numbers old" "distinct (map md_Name (plain_nested old))"
    using 1(2,3) by (simp_all add: wf_message.simps [of new] wf_message.simps [of old])
  have sub: "wf_message n" "wf_message m" if "n \<in> set (plain_nested new)" "m \<in> set (plain_nested old)" for n m
    using 1(2,3) that by (auto simp: wf_message.simps [of new] wf_message.simps [of old])
  have IH: "re_IsCompatible (?check n m q) \<longleftrightarrow>
      re_IsCompatible q \<and> (\<forall>p\<in>set (checked_pairs n m). message_pair_ok newEnv oldEnv p)"
    if "n \<in> set (plain_nested new)" "?find n = Some m" for n m q
    using 1(1) [OF that] sub that find_keyed [OF wf(4)] by auto
  have nested: "re_IsCompatible (checkNestedMessages ?check new old q) \<longleftrightarrow>
      re_IsCompatible q \<and> md_Name ` set (plain_nested old) \<subseteq> md_Name ` set (plain_nested new) \<and>
      (\<forall>n\<in>set (plain_nested new). \<forall>m. ?find n = Some m \<longrightarrow>
         (\<forall>p\<in>set (checked_pairs n m). message_pair_ok newEnv oldEnv p))" for q
  proof -
    let ?olds = "gm_of_list (map (\<lambda>m. (md_Name m, m)) (plain_nested old))"
    have get: "gm_get ?olds k = List.find (\<lambda>m. md_Name m = k) (plain_nested old)" for k
      by (rule gm_get_keyed [OF wf(4)])
    have "re_IsCompatible (snd (fold (pairing md_Name ?check) (plain_nested new) (?olds, q))) \<longleftrightarrow>
        re_IsCompatible q \<and> (\<forall>n\<in>set (plain_nested new). \<forall>m. gm_get ?olds (md_Name n) = Some m \<longrightarrow>
          (\<forall>p\<in>set (checked_pairs n m). message_pair_ok newEnv oldEnv p))"
      by (rule pairing_verdict [OF wf(2)]) (simp add: get IH)
    then show ?thesis
      unfolding nested_messages_loop Let_def case_prod_beta by (auto simp: report_all none_left [OF wf(4)] get)
  qed
  have pairs: "(\<forall>p\<in>set (checked_pairs new old). message_pair_ok newEnv oldEnv p) \<longleftrightarrow>
      message_pair_ok newEnv oldEnv (new, old) \<and>
      (\<forall>n\<in>set (plain_nested new). \<forall>m. ?find n = Some m \<longrightarrow>
         (\<forall>p\<in>set (checked_pairs n m). message_pair_ok newEnv oldEnv p))"
    by (subst checked_pairs.simps) (simp only: list.set ball_simps ball_matches)
  show ?case
    unfolding checkMessageCompatibility.simps [of newEnv oldEnv new old] pairs
    by (auto simp: Let_def checkNestedEnums_def nested message_fields_verdict [OF wf(1,3)] message_pair_ok_def)
qed

definition wf_file :: "FileDescriptor \<Rightarrow> bool" where
  "wf_file fd \<longleftrightarrow> distinct (map md_FullName (fl_Messages fd)) \<and> list_all wf_message (fl_Messages fd)"

definition file_pairs ::
  "FileDescriptor \<Rightarrow> FileDescriptor \<Rightarrow> (MessageDescriptor \<times> MessageDescriptor) list" where
  "file_pairs reader writer =
     concat (map (\<lambda>n.
        case List.find (\<lambda>m. md_FullName m = md_FullName n) (fl_Messages writer) of
          None \<Rightarrow> [] | Some m \<Rightarrow> checked_pairs n m) (fl_Messages reader))"

lemma checkMessages_loop:
  "checkMessages reader writer result =
     (let st = fold (pairing md_FullName (checkMessageCompatibility (fl_types reader) (fl_types writer)))
                 (fl_Messages reader)
                 (gm_of_list (map (\<lambda>m. (md_FullName m, m)) (fl_Messages writer)), result)
      in fold (\<lambda>(name, _) result. Result_AddMessage result (''Message '' @ in_quotes name @ '' was removed''))
           (gm_entries (fst st)) (snd st))"
proof -
  have "(\<lambda>newMsg (oldMessages, result).
        case gm_get oldMessages (md_FullName newMsg) of
          None \<Rightarrow> (oldMessages, result)
        | Some oldMsg \<Rightarrow> (gm_del (md_FullName newMsg) oldMessages,
            checkMessageCompatibility (fl_types reader) (fl_types writer) newMsg oldMsg result)) =
      pairing md_FullName (checkMessageCompatibility (fl_types reader) (fl_types writer))"
    by (auto simp: fun_eq_iff pairing_step split: option.split)
  then show ?thesis by (simp add: checkMessages_def case_prod_beta Let_def)
qed

text \<open>
  The verdict: the package is the same, no message of the old schema is gone, and every pair of
  messages compared agrees on its fields and keeps the nested messages.
\<close>

lemma files_verdict:
  assumes "wf_file reader" "wf_file writer"
  shows "re_IsCompatible (check_files reader writer) \<longleftrightarrow>
     fl_Package reader = fl_Package writer \<and>
     md_FullName ` set (fl_Messages writer) \<subseteq> md_FullName ` set (fl_Messages reader) \<and>
     list_all (message_pair_ok (fl_types reader) (fl_types writer)) (file_pairs reader writer)"
proof -
  let ?ok = "message_pair_ok (fl_types reader) (fl_types writer)"
  let ?check = "checkMessageCompatibility (fl_types reader) (fl_types writer)"
  let ?olds = "gm_of_list (map (\<lambda>m. (md_FullName m, m)) (fl_Messages writer))"
  have d: "distinct (map md_FullName (fl_Messages reader))" "distinct (map md_FullName (fl_Messages writer))"
    and wf: "\<And>n. n \<in> set (fl_Messages reader) \<Longrightarrow> wf_message n" "\<And>m. m \<in> set (fl_Messages writer) \<Longrightarrow> wf_message m"
    using assms by (auto simp: wf_file_def list_all_iff)
  have get: "gm_get ?olds k = List.find (\<lambda>m. md_FullName m = k) (fl_Messages writer)" for k
    by (rule gm_get_keyed [OF d(2)])
  have "re_IsCompatible (snd (fold (pairing md_FullName ?check) (fl_Messages reader) (?olds, q))) \<longleftrightarrow>
      re_IsCompatible q \<and> (\<forall>n\<in>set (fl_Messages reader). \<forall>m. gm_get ?olds (md_FullName n) = Some m \<longrightarrow>
        (\<forall>p\<in>set (checked_pairs n m). ?ok p))" for q
    by (rule pairing_verdict [OF d(1)], rule message_verdict)
      (auto simp: get find_keyed [OF d(2)] wf)
  then have "re_IsCompatible (checkMessages reader writer q) \<longleftrightarrow>
      re_IsCompatible q \<and>
      md_FullName ` set (fl_Messages writer) \<subseteq> md_FullName ` set (fl_Messages reader) \<and>
      (\<forall>n\<in>set (fl_Messages reader). \<forall>m. gm_get ?olds (md_FullName n) = Some m \<longrightarrow>
        (\<forall>p\<in>set (checked_pairs n m). ?ok p))" for q
    unfolding checkMessages_loop Let_def case_prod_beta
    by (simp only: report_all none_left [OF d(2)]) blast
  moreover have "list_all ?ok (file_pairs reader writer) \<longleftrightarrow>
      (\<forall>n\<in>set (fl_Messages reader). \<forall>m. gm_get ?olds (md_FullName n) = Some m \<longrightarrow>
        (\<forall>p\<in>set (checked_pairs n m). ?ok p))"
    by (simp only: file_pairs_def list_all_iff get ball_matches)
  ultimately show ?thesis
    by (auto simp: check_files_def Let_def checkEnums_def)
qed


end
