(* ===== verification/Proto_Soundness.thy ===== *)
theory Proto_Soundness
  imports Proto_Properties
begin

text \<open>
  What the verdict of the Protobuf checker is worth.  The wire format is modelled by its records;
  a relation between new and old messages that the fields of a pair preserve is a simulation, and
  what the old message of a pair writes the new one reads.  The pairs the checker compares and
  the pairs a structural comparison visits form such a relation, so acceptance is sound for
  schemas whose message types are declared in the schema itself.  The lemmas at the end show that
  it is not for map values and imported types.
\<close>

section \<open>The wire format\<close>

text \<open>
  A message on the wire is a list of records, a field number and a value each.  A length-delimited
  value is read as bytes, as a packed list or as a message, depending on the field.
\<close>

datatype wire =
    WVarint int | WFixed64 int | WFixed32 int | WBytes string | WPacked "wire list" | WSub "(int \<times> wire) list"

fun wire_type :: "Kind \<Rightarrow> nat" where
  "wire_type Fixed64Kind = 1" | "wire_type Sfixed64Kind = 1" | "wire_type DoubleKind = 1"
| "wire_type StringKind = 2" | "wire_type BytesKind = 2" | "wire_type MessageKind = 2"
| "wire_type GroupKind = 3"
| "wire_type Fixed32Kind = 5" | "wire_type Sfixed32Kind = 5" | "wire_type FloatKind = 5"
| "wire_type _ = 0"

fun value_type :: "wire \<Rightarrow> nat" where
  "value_type (WVarint _) = 0" | "value_type (WFixed64 _) = 1" | "value_type (WFixed32 _) = 5"
| "value_type _ = 2"

abbreviation packable :: "Kind \<Rightarrow> bool" where
  "packable k \<equiv> wire_type k \<in> {0, 1, 5}"

text \<open>The kinds the checker takes for compatible are encoded alike.\<close>

lemma compatible_kinds:
  "areKindsWireCompatible k k' \<Longrightarrow> wire_type k = wire_type k' \<and> k \<noteq> MessageKind \<and> k' \<noteq> MessageKind"
  by (cases k; cases k'; simp add: areKindsWireCompatible_def compatibleGroups_def varintKinds_def Let_def)

lemma compatible_kinds_bytes:
  "areKindsWireCompatible k k' \<Longrightarrow> k \<in> {StringKind, BytesKind} \<longleftrightarrow> k' \<in> {StringKind, BytesKind}"
  by (cases k; cases k'; simp add: areKindsWireCompatible_def compatibleGroups_def varintKinds_def Let_def)

text \<open>
  The required fields of a message are there (asked for by \<open>strict\<close>), every record has the form its
  field asks for, and, for a writer (\<open>known\<close>), every record is one of a field of the message.
\<close>

definition has_required :: "bool \<Rightarrow> MessageDescriptor \<Rightarrow> int list \<Rightarrow> bool" where
  "has_required strict m numbers \<longleftrightarrow>
     (strict \<longrightarrow> (\<forall>f\<in>set (md_Fields m). fd_Cardinality f = Required \<longrightarrow> fd_Number f \<in> set numbers))"

lemma size_record: "r \<in> set rs \<Longrightarrow> size (snd r) < size (WSub rs)"
proof -
  assume "r \<in> set rs"
  then have "size_prod (\<lambda>_. 0) size r \<le> size_list (size_prod (\<lambda>_. 0) size) rs"
    by (induction rs) auto
  then show ?thesis by (cases r) simp
qed

function (sequential) fits :: "bool \<Rightarrow> bool \<Rightarrow> message_env \<Rightarrow> FieldDescriptor \<Rightarrow> wire \<Rightarrow> bool" where
  "fits known strict env f (WBytes b) \<longleftrightarrow> fd_Kind f \<in> {StringKind, BytesKind}"
| "fits known strict env f (WPacked ws) \<longleftrightarrow>
     packable (fd_Kind f) \<and> (strict \<longrightarrow> fd_Cardinality f = Repeated) \<and>
     (\<forall>w\<in>set ws. value_type w = wire_type (fd_Kind f))"
| "fits known strict env f (WSub rs) \<longleftrightarrow>
     fd_Kind f = MessageKind \<and> has_required strict (field_message env f) (map fst rs) \<and>
     (\<forall>r\<in>set rs. case ByNumber (md_Fields (field_message env f)) (fst r) of
        None \<Rightarrow> \<not> known | Some g \<Rightarrow> fits known strict env g (snd r))"
| "fits known strict env f w \<longleftrightarrow> value_type w = wire_type (fd_Kind f)"
  by pat_completeness auto

termination
  by (relation "measure (\<lambda>(_, _, _, _, w). size w)") (auto dest: size_record simp del: wire.size)

definition fits_message :: "bool \<Rightarrow> bool \<Rightarrow> message_env \<Rightarrow> MessageDescriptor \<Rightarrow> (int \<times> wire) list \<Rightarrow> bool" where
  "fits_message known strict env m rs \<longleftrightarrow>
     has_required strict m (map fst rs) \<and>
     (\<forall>r\<in>set rs. case ByNumber (md_Fields m) (fst r) of
        None \<Rightarrow> \<not> known | Some g \<Rightarrow> fits known strict env g (snd r))"

abbreviation writes_wire :: "bool \<Rightarrow> message_env \<Rightarrow> MessageDescriptor \<Rightarrow> (int \<times> wire) list \<Rightarrow> bool" where
  "writes_wire \<equiv> fits_message True"

abbreviation reads_wire :: "bool \<Rightarrow> message_env \<Rightarrow> MessageDescriptor \<Rightarrow> (int \<times> wire) list \<Rightarrow> bool" where
  "reads_wire \<equiv> fits_message False"

section \<open>Simulation of messages\<close>

definition field_reads :: "bool \<Rightarrow> FieldDescriptor \<Rightarrow> FieldDescriptor \<Rightarrow> bool" where
  "field_reads strict nf f \<longleftrightarrow>
     (fd_Kind nf = fd_Kind f \<or> areKindsWireCompatible (fd_Kind nf) (fd_Kind f)) \<and>
     (strict \<and> fd_Cardinality f = Repeated \<and> packable (fd_Kind f) \<longrightarrow> fd_Cardinality nf = Repeated)"

definition kept_fields ::
  "MessageDescriptor \<Rightarrow> FieldDescriptor list \<Rightarrow> (FieldDescriptor \<times> FieldDescriptor) set" where
  "kept_fields n fs = {(nf, f). f \<in> set fs \<and> ByNumber (md_Fields n) (fd_Number f) = Some nf}"

definition simulation ::
  "bool \<Rightarrow> message_env \<Rightarrow> message_env \<Rightarrow> (MessageDescriptor \<times> MessageDescriptor) set \<Rightarrow> bool" where
  "simulation strict newEnv oldEnv R \<longleftrightarrow>
     (\<forall>(n, m)\<in>R.
        (\<forall>(nf, f)\<in>kept_fields n (md_Fields m).
           field_reads strict nf f \<and>
           (fd_Kind nf = MessageKind \<and> fd_Kind f = MessageKind \<longrightarrow>
              (field_message newEnv nf, field_message oldEnv f) \<in> R)) \<and>
        (strict \<longrightarrow> (\<forall>nf\<in>set (md_Fields n). fd_Cardinality nf = Required \<longrightarrow>
           (\<exists>f\<in>set (md_Fields m). fd_Number f = fd_Number nf \<and> fd_Cardinality f = Required))))"

lemma ByNumber_mem: "ByNumber fs n = Some f \<Longrightarrow> f \<in> set fs \<and> fd_Number f = n"
  by (auto simp: ByNumber_def find_Some_iff)

lemma required_kept:
  assumes "simulation strict newEnv oldEnv R" "(n, m) \<in> R" "has_required strict m numbers"
  shows "has_required strict n numbers"
  using assms by (fastforce simp: simulation_def has_required_def)

lemma simulation_fits:
  assumes "simulation strict newEnv oldEnv R"
    and "fits True strict oldEnv f w" "field_reads strict nf f"
    and "fd_Kind nf = MessageKind \<and> fd_Kind f = MessageKind \<longrightarrow>
      (field_message newEnv nf, field_message oldEnv f) \<in> R"
  shows "fits False strict newEnv nf w"
  using assms
proof (induction "True" strict oldEnv f w arbitrary: nf rule: fits.induct)
  case (1 strict oldEnv f b)
  then show ?case using compatible_kinds_bytes by (auto simp: field_reads_def)
next
  case (2 strict oldEnv f ws)
  then show ?case using compatible_kinds by (auto simp: field_reads_def)
next
  case (3 strict oldEnv f rs)
  let ?n = "field_message newEnv nf" and ?m = "field_message oldEnv f"
  have kinds: "fd_Kind f = MessageKind" "fd_Kind nf = MessageKind"
    using 3(3,4) compatible_kinds by (auto simp: field_reads_def)
  then have R: "(?n, ?m) \<in> R" using 3(5) by simp
  have "case ByNumber (md_Fields ?n) (fst r) of None \<Rightarrow> \<not> False | Some ng \<Rightarrow> fits False strict newEnv ng (snd r)"
    if r: "r \<in> set rs" for r
  proof -
    obtain g where g: "ByNumber (md_Fields ?m) (fst r) = Some g" "fits True strict oldEnv g (snd r)"
      using 3(3) r by (auto split: option.splits)
    have "fits False strict newEnv ng (snd r)" if ng: "ByNumber (md_Fields ?n) (fst r) = Some ng" for ng
    proof (rule 3(1) [OF r g(1) 3(2) g(2)])
      have "(ng, g) \<in> kept_fields ?n (md_Fields ?m)"
        using ng ByNumber_mem [OF g(1)] by (simp add: kept_fields_def)
      then show "field_reads strict ng g" "fd_Kind ng = MessageKind \<and> fd_Kind g = MessageKind \<longrightarrow>
          (field_message newEnv ng, field_message oldEnv g) \<in> R"
        using 3(2) R by (auto simp: simulation_def)
    qed
    then show ?thesis by (simp split: option.split)
  qed
  then show ?case using required_kept [OF 3(2) R] 3(3) kinds(2) by simp
qed (use compatible_kinds in \<open>auto simp: field_reads_def\<close>)

text \<open>What the old message writes, a message that simulates it reads.\<close>

lemma simulation_reads:
  assumes sim: "simulation strict newEnv oldEnv R" and R: "(n, m) \<in> R" and w: "writes_wire strict oldEnv m rs"
  shows "reads_wire strict newEnv n rs"
proof -
  have "fits False strict newEnv ng (snd r)" if r: "r \<in> set rs" "ByNumber (md_Fields n) (fst r) = Some ng" for r ng
  proof -
    obtain g where g: "ByNumber (md_Fields m) (fst r) = Some g" "fits True strict oldEnv g (snd r)"
      using w r(1) by (fastforce simp: fits_message_def split: option.splits)
    then have "(ng, g) \<in> kept_fields n (md_Fields m)"
      using r(2) ByNumber_mem [OF g(1)] by (simp add: kept_fields_def)
    then show ?thesis
      using sim R g(2) by (intro simulation_fits [OF sim g(2)]) (auto simp: simulation_def)
  qed
  then show ?thesis
    using w required_kept [OF sim R] by (auto simp: fits_message_def split: option.split)
qed

section \<open>The structural comparison is a simulation\<close>

definition wf_env :: "message_env \<Rightarrow> bool" where
  "wf_env env \<longleftrightarrow> list_all (\<lambda>(name, m). md_FullName m = name) (gm_entries env)"

lemma env_message_name: "wf_env env \<Longrightarrow> md_FullName (env_message env name) = name"
  using gm.entry_iff [of name _ env] by (fastforce simp: wf_env_def list_all_iff env_message_def split: option.split)

definition same_place :: "MessageDescriptor \<Rightarrow> MessageDescriptor \<Rightarrow> bool" where
  "same_place n m \<longleftrightarrow> md_FullName n = md_FullName m \<and> md_Path n = md_Path m"

definition assumed :: "messagePair set \<Rightarrow> MessageDescriptor \<Rightarrow> MessageDescriptor \<Rightarrow> bool" where
  "assumed V n m \<longleftrightarrow> same_place n m \<or> (md_FullName n, md_FullName m) \<in> V"

definition fields_agree ::
  "message_env \<Rightarrow> message_env \<Rightarrow> messagePair set \<Rightarrow> MessageDescriptor \<Rightarrow> FieldDescriptor list \<Rightarrow> bool" where
  "fields_agree newEnv oldEnv V n fs \<longleftrightarrow>
     (\<forall>(nf, f)\<in>kept_fields n fs.
        (fd_Kind nf = fd_Kind f \<or> areKindsWireCompatible (fd_Kind nf) (fd_Kind f)) \<and>
        (fd_Kind nf = MessageKind \<and> fd_Kind f = MessageKind \<longrightarrow>
           assumed V (field_message newEnv nf) (field_message oldEnv f)))"

definition name_agrees :: "message_env \<Rightarrow> message_env \<Rightarrow> messagePair set \<Rightarrow> messagePair \<Rightarrow> bool" where
  "name_agrees newEnv oldEnv V p \<longleftrightarrow>
     fields_agree newEnv oldEnv V (env_message newEnv (fst p)) (md_Fields (env_message oldEnv (snd p)))"

lemma fields_agree_mono: "fields_agree newEnv oldEnv V n fs \<Longrightarrow> V \<subseteq> V' \<Longrightarrow> fields_agree newEnv oldEnv V' n fs"
  by (fastforce simp: fields_agree_def assumed_def)

lemma fields_agree_simps [simp]:
  "fields_agree newEnv oldEnv V n []"
  "fields_agree newEnv oldEnv V n (f # fs) \<longleftrightarrow>
     fields_agree newEnv oldEnv V n fs \<and>
     (case ByNumber (md_Fields n) (fd_Number f) of
        None \<Rightarrow> True
      | Some nf \<Rightarrow>
          (fd_Kind nf = fd_Kind f \<or> areKindsWireCompatible (fd_Kind nf) (fd_Kind f)) \<and>
          (fd_Kind nf = MessageKind \<and> fd_Kind f = MessageKind \<longrightarrow>
             assumed V (field_message newEnv nf) (field_message oldEnv f)))"
  by (auto simp: fields_agree_def kept_fields_def split: option.split)

text \<open>
  A successful comparison has expanded every pair it added to the visited set: what it assumed of
  a pair when it met it again is established when it ends.
\<close>

declare areMessagesStructurallyCompatible.simps [simp del]

lemma structural_result:
  assumes "wf_env newEnv" "wf_env oldEnv"
  shows "areMessagesStructurallyCompatible newEnv oldEnv n m V = (True, V') \<Longrightarrow>
      n = env_message newEnv (md_FullName n) \<Longrightarrow> m = env_message oldEnv (md_FullName m) \<Longrightarrow>
      V \<subseteq> V' \<and> assumed V' n m \<and> (\<forall>p\<in>V' - V. name_agrees newEnv oldEnv V' p)"
    and "structural_fields newEnv oldEnv n fs V = (True, V') \<Longrightarrow>
      V \<subseteq> V' \<and> fields_agree newEnv oldEnv V' n fs \<and> (\<forall>p\<in>V' - V. name_agrees newEnv oldEnv V' p)"
  using assms
proof (induction newEnv oldEnv n m V and newEnv oldEnv n fs V arbitrary: V' and V'
    rule: areMessagesStructurallyCompatible_structural_fields.induct)
  case (1 newEnv oldEnv n m V)
  let ?p = "(md_FullName n, md_FullName m)"
  show ?case
  proof (cases "same_place n m \<or> ?p \<in> V")
    case True
    then have "V' = V" using 1(2)
      by (auto simp: same_place_def areMessagesStructurallyCompatible.simps [of newEnv oldEnv n m] split: if_splits)
    then show ?thesis using True by (auto simp: assumed_def)
  next
    case False
    then have *: "\<not> (md_FullName n = md_FullName m \<and> md_Path n = md_Path m)" "?p \<notin> V"
      by (auto simp: same_place_def)
    then have "structural_fields newEnv oldEnv n (md_Fields m) (insert ?p V) = (True, V')"
      using 1(2) by (auto simp: areMessagesStructurallyCompatible.simps [of newEnv oldEnv n m] split: if_splits)
    from 1(1) [OF * this 1(5,6)]
    have V': "insert ?p V \<subseteq> V'" "fields_agree newEnv oldEnv V' n (md_Fields m)"
        "\<forall>p\<in>V' - insert ?p V. name_agrees newEnv oldEnv V' p"
      by auto
    moreover have "name_agrees newEnv oldEnv V' ?p"
      using V'(2) 1(3,4) by (simp add: name_agrees_def)
    ultimately show ?thesis by (auto simp: assumed_def)
  qed
next
  case (2 newEnv oldEnv n V)
  then show ?case by simp
next
  case (3 newEnv oldEnv n f rest V)
  show ?case
  proof (cases "ByNumber (md_Fields n) (fd_Number f)")
    case None
    then show ?thesis using 3 by simp
  next
    case (Some nf)
    show ?thesis
    proof (cases "fd_Kind f = fd_Kind nf \<and> fd_Kind f = MessageKind")
      case False
      then show ?thesis using 3 Some by (auto split: if_splits)
    next
      case True
      let ?n = "field_message newEnv nf" and ?m = "field_message oldEnv f"
      obtain ok V1 where c: "areMessagesStructurallyCompatible newEnv oldEnv ?n ?m V = (ok, V1)"
        by fastforce
      have ok: "ok" "structural_fields newEnv oldEnv n rest V1 = (True, V')"
        using 3(6) Some True c by (auto split: if_splits)
      have first: "V \<subseteq> V1 \<and> assumed V1 ?n ?m \<and> (\<forall>p\<in>V1 - V. name_agrees newEnv oldEnv V1 p)"
        by (rule 3(3) [OF Some]) (use True c ok 3(7,8) in \<open>auto simp: env_message_name\<close>)
      have second: "V1 \<subseteq> V' \<and> fields_agree newEnv oldEnv V' n rest \<and> (\<forall>p\<in>V' - V1. name_agrees newEnv oldEnv V' p)"
        by (rule 3(4) [OF Some]) (use True c ok 3(7,8) in auto)
      have "name_agrees newEnv oldEnv V' p" if "p \<in> V' - V" for p
        using first second that fields_agree_mono [of newEnv oldEnv V1 _ _ V']
        by (cases "p \<in> V1") (auto simp: name_agrees_def)
      then show ?thesis
        using first second Some True by (auto simp: assumed_def)
    qed
  qed
qed

section \<open>Acceptance\<close>

lemma find_mem: "List.find P xs = Some x \<Longrightarrow> x \<in> set xs"
  by (metis find_Some_iff nth_mem)

lemma checked_wf:
  "wf_message new \<Longrightarrow> wf_message old \<Longrightarrow> (n, m) \<in> set (checked_pairs new old) \<Longrightarrow> wf_message n \<and> wf_message m"
proof (induction new old rule: checked_pairs.induct)
  case (1 new old)
  show ?case
  proof (cases "(n, m) = (new, old)")
    case False
    then have "\<exists>a\<in>set (plain_nested new). \<exists>b. List.find (\<lambda>m. md_Name m = md_Name a) (plain_nested old) = Some b \<and>
        (n, m) \<in> set (checked_pairs a b)"
      using 1(4) by (subst (asm) checked_pairs.simps) (force split: option.splits)
    then obtain a b where ab: "a \<in> set (plain_nested new)"
        "List.find (\<lambda>m. md_Name m = md_Name a) (plain_nested old) = Some b" "(n, m) \<in> set (checked_pairs a b)"
      by blast
    then have "b \<in> set (plain_nested old)" using find_mem by fast
    then have "wf_message a" "wf_message b"
      using ab(1) 1(2,3) by (auto simp: wf_message.simps [of new] wf_message.simps [of old])
    then show ?thesis using 1(1) [OF ab(1,2)] ab(3) by blast
  qed (use 1 in simp)
qed

lemma file_pairs_wf:
  assumes "wf_file reader" "wf_file writer" "(n, m) \<in> set (file_pairs reader writer)"
  shows "wf_message n" "wf_message m"
proof -
  obtain a b where ab: "a \<in> set (fl_Messages reader)"
      "List.find (\<lambda>m. md_FullName m = md_FullName a) (fl_Messages writer) = Some b"
      "(n, m) \<in> set (checked_pairs a b)"
    using assms(3) by (force simp: file_pairs_def split: option.splits)
  then have "b \<in> set (fl_Messages writer)" using find_mem by fast
  with ab(1) assms(1,2) have "wf_message a" "wf_message b" by (auto simp: wf_file_def list_all_iff)
  then show "wf_message n" "wf_message m" using checked_wf ab(3) by blast+
qed

text \<open>
  A type both files know under the same name and path is declared by both at the same place, as a
  message and not as the entry of a map: then the checker compares the two.
\<close>

definition own_types :: "FileDescriptor \<Rightarrow> FileDescriptor \<Rightarrow> bool" where
  "own_types reader writer \<longleftrightarrow>
     list_all (\<lambda>name.
         md_Path (env_message (fl_types reader) name) = md_Path (env_message (fl_types writer) name) \<longrightarrow>
         (env_message (fl_types reader) name, env_message (fl_types writer) name) \<in>
           set (file_pairs reader writer))
       (gm_keys (fl_types reader) @ gm_keys (fl_types writer))"

text \<open>No kept field changes the message type it refers to.\<close>

definition same_types :: "FileDescriptor \<Rightarrow> FileDescriptor \<Rightarrow> bool" where
  "same_types reader writer \<longleftrightarrow>
     list_all (\<lambda>(n, m). list_all (\<lambda>f.
         case ByNumber (md_Fields n) (fd_Number f) of
           None \<Rightarrow> True
         | Some nf \<Rightarrow>
             fd_Kind nf = MessageKind \<and> fd_Kind f = MessageKind \<longrightarrow>
             same_place (field_message (fl_types reader) nf) (field_message (fl_types writer) f))
       (md_Fields m)) (file_pairs reader writer)"

definition structural_pairs ::
  "message_env \<Rightarrow> message_env \<Rightarrow> (MessageDescriptor \<times> MessageDescriptor) set" where
  "structural_pairs newEnv oldEnv =
     {(env_message newEnv a, env_message oldEnv b) | a b.
        \<exists>V. (a, b) \<in> V \<and> (\<forall>p\<in>V. name_agrees newEnv oldEnv V p)}"

definition related ::
  "bool \<Rightarrow> FileDescriptor \<Rightarrow> FileDescriptor \<Rightarrow> (MessageDescriptor \<times> MessageDescriptor) set" where
  "related strict reader writer =
     set (file_pairs reader writer) \<union> {(n, m). md_Fields n = []} \<union>
     (if strict then {} else structural_pairs (fl_types reader) (fl_types writer))"

lemma kept_pair_ok:
  assumes "wf_message m" "fields_ok newEnv oldEnv n m" "(nf, f) \<in> kept_fields n (md_Fields m)"
  shows "field_ok newEnv oldEnv nf f"
proof -
  have "nf \<in> set (md_Fields n)" "fd_Number nf = fd_Number f" "f \<in> set (md_Fields m)"
    using assms(3) by (auto simp: kept_fields_def dest: ByNumber_mem)
  moreover have "distinct_numbers m" using assms(1) by (simp add: wf_message.simps [of m])
  ultimately have "ByNumber (md_Fields m) (fd_Number nf) = Some f" by (simp add: ByNumber_eq)
  with assms(2) \<open>nf \<in> set (md_Fields n)\<close> show ?thesis by (auto simp: fields_ok_def new_field_ok_def)
qed

lemma field_ok_reads:
  assumes "field_ok newEnv oldEnv nf f"
  shows "field_reads strict nf f"
proof -
  have kinds: "fd_Kind nf = fd_Kind f \<or> areKindsWireCompatible (fd_Kind nf) (fd_Kind f)"
    using assms by (auto simp: field_ok_def proto_areTypesCompatible_def Let_def split: if_splits)
  then have "wire_type (fd_Kind nf) = wire_type (fd_Kind f)" using compatible_kinds by auto
  moreover have "wire_type k = 2" if "length_delimited k" for k
    using that by (auto simp: length_delimited_def)
  ultimately have "fd_Cardinality nf = Repeated" if "fd_Cardinality f = Repeated" "packable (fd_Kind f)"
    using assms that by (cases "fd_Cardinality nf") (auto simp: field_ok_def cardinality_ok_def)
  with kinds show ?thesis by (auto simp: field_reads_def)
qed

lemma placed_related:
  assumes "wf_env (fl_types reader)" "wf_env (fl_types writer)" "own_types reader writer"
    and "same_place (field_message (fl_types reader) nf) (field_message (fl_types writer) f)"
  shows "(field_message (fl_types reader) nf, field_message (fl_types writer) f) \<in> related strict reader writer"
proof -
  have names: "fd_Message nf = fd_Message f"
    using assms(4) by (simp add: same_place_def env_message_name assms(1,2))
  show ?thesis
  proof (cases "fd_Message f \<in> set (gm_keys (fl_types reader) @ gm_keys (fl_types writer))")
    case True
    then show ?thesis
      using assms(3,4) names by (auto simp: own_types_def same_place_def related_def list_all_iff)
  next
    case False
    then have "md_Fields (field_message (fl_types reader) nf) = []"
      by (simp add: names gm_keys_set env_message_def domIff)
    then show ?thesis by (simp add: related_def)
  qed
qed

lemma related_simulation:
  assumes wf: "wf_file reader" "wf_file writer"
    and env: "wf_env (fl_types reader)" "wf_env (fl_types writer)"
    and own: "own_types reader writer" and same: "strict \<longrightarrow> same_types reader writer"
    and ok: "list_all (message_pair_ok (fl_types reader) (fl_types writer)) (file_pairs reader writer)"
  shows "simulation strict (fl_types reader) (fl_types writer) (related strict reader writer)"
  unfolding simulation_def
proof (intro ballI, clarify)
  let ?ne = "fl_types reader" and ?oe = "fl_types writer" and ?R = "related strict reader writer"
  fix n m assume R: "(n, m) \<in> ?R"
  let ?kept = "\<forall>(nf, f)\<in>kept_fields n (md_Fields m). field_reads strict nf f \<and>
      (fd_Kind nf = MessageKind \<and> fd_Kind f = MessageKind \<longrightarrow> (field_message ?ne nf, field_message ?oe f) \<in> ?R)"
  let ?required = "strict \<longrightarrow> (\<forall>nf\<in>set (md_Fields n). fd_Cardinality nf = Required \<longrightarrow>
      (\<exists>f\<in>set (md_Fields m). fd_Number f = fd_Number nf \<and> fd_Cardinality f = Required))"
  consider (compared) "(n, m) \<in> set (file_pairs reader writer)" | (bare) "md_Fields n = []"
    | (structural) "\<not> strict" "(n, m) \<in> structural_pairs ?ne ?oe"
    using R by (auto simp: related_def split: if_splits)
  then show "?kept \<and> ?required"
  proof cases
    case compared
    then have fields: "fields_ok ?ne ?oe n m" using ok by (auto simp: list_all_iff message_pair_ok_def)
    note wfm = file_pairs_wf(2) [OF wf compared]
    have "(field_message ?ne nf, field_message ?oe f) \<in> ?R"
      if kf: "(nf, f) \<in> kept_fields n (md_Fields m)" and k: "fd_Kind nf = MessageKind" "fd_Kind f = MessageKind" for nf f
    proof (cases strict)
      case True
      then have "same_place (field_message ?ne nf) (field_message ?oe f)"
        using same compared kf k by (fastforce simp: same_types_def list_all_iff kept_fields_def)
      then show ?thesis by (rule placed_related [OF env own])
    next
      case False
      have "fst (areMessagesStructurallyCompatible ?ne ?oe (field_message ?ne nf) (field_message ?oe f) {})"
        using kept_pair_ok [OF wfm fields kf] k by (simp add: field_ok_def proto_areTypesCompatible_def)
      then obtain V where
        "areMessagesStructurallyCompatible ?ne ?oe (field_message ?ne nf) (field_message ?oe f) {} = (True, V)"
        by (metis prod.collapse)
      then have V: "assumed V (field_message ?ne nf) (field_message ?oe f)" "\<forall>p\<in>V. name_agrees ?ne ?oe V p"
        using structural_result(1) [OF env] by (auto simp: env_message_name env)
      show ?thesis
      proof (cases "same_place (field_message ?ne nf) (field_message ?oe f)")
        case True
        then show ?thesis by (rule placed_related [OF env own])
      next
        case nsame: False
        then have "(fd_Message nf, fd_Message f) \<in> V" using V(1) by (simp add: assumed_def env_message_name env)
        then show ?thesis using V(2) False by (auto simp: related_def structural_pairs_def)
      qed
    qed
    moreover have "field_reads strict nf f" if "(nf, f) \<in> kept_fields n (md_Fields m)" for nf f
      by (rule field_ok_reads [OF kept_pair_ok [OF wfm fields that]])
    moreover have "?required"
    proof (intro impI ballI)
      fix nf assume nf: "nf \<in> set (md_Fields n)" "fd_Cardinality nf = Required"
      then have "new_field_ok ?ne ?oe m nf" using fields by (simp add: fields_ok_def)
      then obtain f where "ByNumber (md_Fields m) (fd_Number nf) = Some f" "field_ok ?ne ?oe nf f"
        using nf(2) by (auto simp: new_field_ok_def split: option.splits)
      then show "\<exists>f\<in>set (md_Fields m). fd_Number f = fd_Number nf \<and> fd_Cardinality f = Required"
        using nf(2) ByNumber_mem
        by (cases "fd_Cardinality f") (force simp: field_ok_def cardinality_ok_def)+
    qed
    ultimately show ?thesis by blast
  next
    case bare
    then show ?thesis by (simp add: kept_fields_def ByNumber_def)
  next
    case structural
    then obtain a b V where ab: "n = env_message ?ne a" "m = env_message ?oe b" "(a, b) \<in> V"
        "\<forall>p\<in>V. name_agrees ?ne ?oe V p"
      by (auto simp: structural_pairs_def)
    then have agree: "fields_agree ?ne ?oe V n (md_Fields m)" by (force simp: name_agrees_def)
    have "field_reads strict nf f \<and>
      (fd_Kind nf = MessageKind \<and> fd_Kind f = MessageKind \<longrightarrow> (field_message ?ne nf, field_message ?oe f) \<in> ?R)"
      if kf: "(nf, f) \<in> kept_fields n (md_Fields m)" for nf f
    proof -
      have kinds: "fd_Kind nf = fd_Kind f \<or> areKindsWireCompatible (fd_Kind nf) (fd_Kind f)"
        and known: "fd_Kind nf = MessageKind \<and> fd_Kind f = MessageKind \<longrightarrow>
          assumed V (field_message ?ne nf) (field_message ?oe f)"
        using agree kf by (auto simp: fields_agree_def)
      have "(field_message ?ne nf, field_message ?oe f) \<in> ?R" if "assumed V (field_message ?ne nf) (field_message ?oe f)"
      proof (cases "same_place (field_message ?ne nf) (field_message ?oe f)")
        case True
        then show ?thesis by (rule placed_related [OF env own])
      next
        case False
        then have "(fd_Message nf, fd_Message f) \<in> V" using that by (simp add: assumed_def env_message_name env)
        then show ?thesis using ab(4) structural(1) by (auto simp: related_def structural_pairs_def)
      qed
      then show ?thesis using kinds known structural(1) by (simp add: field_reads_def)
    qed
    then show ?thesis using structural(1) by blast
  qed
qed

definition compiled :: "FileDescriptor \<Rightarrow> bool" where
  "compiled fd \<longleftrightarrow> wf_file fd \<and> wf_env (fl_types fd)"

lemma accepted_files_readable:
  assumes "compiled reader" "compiled writer" "own_types reader writer" "strict \<longrightarrow> same_types reader writer"
    and "re_IsCompatible (check_files reader writer)" "m \<in> set (fl_Messages writer)"
  shows "\<exists>n\<in>set (fl_Messages reader). md_FullName n = md_FullName m \<and>
     (\<forall>rs. writes_wire strict (fl_types writer) m rs \<longrightarrow> reads_wire strict (fl_types reader) n rs)"
proof -
  have wf: "wf_file reader" "wf_file writer" "wf_env (fl_types reader)" "wf_env (fl_types writer)"
    using assms(1,2) by (simp_all add: compiled_def)
  note verdict = assms(5) [unfolded files_verdict [OF wf(1,2)]]
  have sim: "simulation strict (fl_types reader) (fl_types writer) (related strict reader writer)"
    using verdict by (intro related_simulation wf assms(3,4)) simp
  obtain n where n: "n \<in> set (fl_Messages reader)" "md_FullName n = md_FullName m"
    using verdict assms(6) by (metis image_eqI imageE subsetD)
  have "List.find (\<lambda>x. md_FullName x = md_FullName n) (fl_Messages writer) = Some m"
    using wf(2) assms(6) n(2) by (simp add: wf_file_def find_keyed)
  moreover have "(n, m) \<in> set (checked_pairs n m)" by (simp add: checked_pairs.simps [of n m])
  ultimately have "(n, m) \<in> set (file_pairs reader writer)"
    using n(1) by (force simp: file_pairs_def)
  then have "(n, m) \<in> related strict reader writer" by (simp add: related_def)
  then show ?thesis using n simulation_reads [OF sim] by blast
qed

text \<open>
  C3.  A Protobuf schema that is accepted reads what its predecessor wrote: for two schemas whose
  message types are their own, every message of the old schema is still there, and every sequence of records
  it writes - nested messages at any depth, cyclic and renamed types included - is one the new
  message reads, each known record having the encoding of its field.  When no kept field refers to
  another message type, this also holds of required fields and packed lists (\<open>strict\<close>).
\<close>

theorem proto_accepted_readable:
  assumes "parseSchemaWithRefs lib new = Inr reader" "parseSchemaWithRefs lib old = Inr writer"
    and "compiled reader" "compiled writer" "own_types reader writer" "strict \<longrightarrow> same_types reader writer"
    and "re_IsCompatible (ProtoChecker_Check lib new old)" "m \<in> set (fl_Messages writer)"
  shows "\<exists>n\<in>set (fl_Messages reader). md_FullName n = md_FullName m \<and>
     (\<forall>rs. writes_wire strict (fl_types writer) m rs \<longrightarrow> reads_wire strict (fl_types reader) n rs)"
proof -
  have "re_IsCompatible (check_files reader writer)"
    using assms(1,2,7) by (simp add: ProtoChecker_Check_def)
  then show ?thesis by (rule accepted_files_readable [OF assms(3-6) _ assms(8)])
qed

text \<open>An order whose items are renamed to products, a message type that refers to itself.\<close>

definition plain_field :: "string \<Rightarrow> int \<Rightarrow> Kind \<Rightarrow> string \<Rightarrow> FieldDescriptor" where
  "plain_field name n k msg =
     \<lparr>fd_Name = name, fd_Number = n, fd_Kind = k, fd_Cardinality = Optional, fd_ContainingOneof = None,
      fd_Message = msg, fd_Enum = []\<rparr>"

definition plain_message :: "string \<Rightarrow> string \<Rightarrow> FieldDescriptor list \<Rightarrow> MessageDescriptor" where
  "plain_message name full fs = MessageDescriptor name full ''schema.proto'' fs [] [] False"

definition plain_file :: "MessageDescriptor list \<Rightarrow> FileDescriptor" where
  "plain_file ms =
     \<lparr>fl_Package = ''p'', fl_Messages = ms, fl_Enums = [], fl_Services = [],
      fl_types = gm_of_list (map (\<lambda>m. (md_FullName m, m)) ms)\<rparr>"

definition old_order :: FileDescriptor where
  "old_order = plain_file
     [plain_message ''Order'' ''p.Order''
        [plain_field ''qty'' 1 Int32Kind [], plain_field ''item'' 2 MessageKind ''p.Item''],
      plain_message ''Item'' ''p.Item''
        [plain_field ''name'' 1 StringKind [], plain_field ''parent'' 2 MessageKind ''p.Item'']]"

definition new_order :: FileDescriptor where
  "new_order = plain_file
     [plain_message ''Order'' ''p.Order''
        [plain_field ''qty'' 1 Int64Kind [], plain_field ''item'' 2 MessageKind ''p.Product''],
      plain_message ''Item'' ''p.Item''
        [plain_field ''name'' 1 StringKind [], plain_field ''parent'' 2 MessageKind ''p.Item''],
      plain_message ''Product'' ''p.Product''
        [plain_field ''label'' 1 BytesKind [], plain_field ''parent'' 2 MessageKind ''p.Product'']]"

definition two_files :: "FileDescriptor \<Rightarrow> FileDescriptor \<Rightarrow> proto_lib" where
  "two_files new old =
     \<lparr>pb_Parse = (\<lambda>_. None),
      pb_Compile = (\<lambda>open_file. case open_file ''schema.proto'' of
         Inl e \<Rightarrow> Inl e | Inr s \<Rightarrow> Inr [if s = ''new'' then new else old])\<rparr>"

abbreviation text_of :: "string \<Rightarrow> SchemaWithRefs" where
  "text_of s \<equiv> \<lparr>sw_Schema = s, sw_References = []\<rparr>"

lemma two_files_parse:
  "parseSchemaWithRefs (two_files new old) (text_of ''new'') = Inr new"
  "parseSchemaWithRefs (two_files new old) (text_of ''old'') = Inr old"
  by (simp_all add: parseSchemaWithRefs_def two_files_def FindFileByPath_def newCheckerResolver_def)

theorem proto_accepted_readable_witness:
  "\<exists>n\<in>set (fl_Messages new_order). md_FullName n = ''p.Order'' \<and>
     reads_wire False (fl_types new_order) n
       [(1, WVarint 3), (2, WSub [(1, WBytes ''bolt''), (2, WSub [(1, WBytes ''box'')])])]"
proof -
  let ?m = "hd (fl_Messages old_order)"
  have ok: "compiled new_order" "compiled old_order" "own_types new_order old_order"
      "re_IsCompatible (ProtoChecker_Check (two_files new_order old_order) (text_of ''new'') (text_of ''old''))"
      "?m \<in> set (fl_Messages old_order)" "md_FullName ?m = ''p.Order''"
    by code_simp+
  have "writes_wire False (fl_types old_order) ?m
      [(1, WVarint 3), (2, WSub [(1, WBytes ''bolt''), (2, WSub [(1, WBytes ''box'')])])]"
    by code_simp
  then show ?thesis
    using proto_accepted_readable [OF two_files_parse ok(1-3) _ ok(4,5), of False] ok(6) by auto
qed

section \<open>Reports\<close>

text \<open>
  The checker reports every incompatibility with a message, which is what the checker that applies
  a mode relies on.
\<close>

lemma if_honest: "honest x \<Longrightarrow> honest y \<Longrightarrow> honest (if b then x else y)"
  by simp

lemma field_honest: "honest q \<Longrightarrow> honest (checkFieldCompatibility newEnv oldEnv nf f msgName q)"
proof -
  assume q: "honest q"
  have card: "honest (check_cardinality nf f msgName q)" if "honest q" for q
    unfolding check_cardinality_def Let_def by (intro if_honest honest_results(3) that)
  show ?thesis
    unfolding checkFieldCompatibility_def Let_def by (intro if_honest honest_results(3) card q)
qed

lemma message_fields_honest:
  assumes "honest q"
  shows "honest (check_message_fields newEnv oldEnv n m q)"
proof -
  obtain olds moved q' where
    loop: "fold (check_new_field newEnv oldEnv (md_FullName n)) (md_Fields n) (old_fields m, gm_empty, q) =
      (olds, moved, q')"
    by (rule prod_cases3)
  have "honest (snd (snd (fold (check_new_field newEnv oldEnv (md_FullName n)) fs st)))"
    if "honest (snd (snd st))" for fs and st :: field_state
    using that
    by (induction fs arbitrary: st)
      (auto simp: check_new_field_def Let_def field_honest case_prod_beta split: option.split)
  from this [of "(old_fields m, gm_empty, q)" "md_Fields n"] have "honest q'" using assms loop by simp
  then show ?thesis
    unfolding check_message_fields_def Let_def loop prod.case
    by (intro fold_honest) (auto simp: check_removed_def check_moved_def Let_def split: prod.split)
qed

lemma pairing_honest:
  assumes "\<And>x m q. honest q \<Longrightarrow> x \<in> set xs \<Longrightarrow> honest (check x m q)"
  shows "honest (snd st) \<Longrightarrow> honest (snd (fold (pairing key check) xs st))"
  using assms
proof (induction xs arbitrary: st)
  case (Cons x xs)
  then have "honest (snd (pairing key check x st))" by (auto simp: pairing_def split: prod.split option.split)
  then show ?case using Cons by simp
qed simp

lemma message_honest: "honest q \<Longrightarrow> honest (checkMessageCompatibility newEnv oldEnv n m q)"
proof (induction n arbitrary: m q rule: measure_induct_rule [of size])
  case (less n)
  let ?check = "checkMessageCompatibility newEnv oldEnv"
  have "honest (snd (fold (pairing md_Name ?check) (plain_nested n) (olds, check_message_fields newEnv oldEnv n m q)))"
    for olds
    by (rule pairing_honest) (use less size_nested message_fields_honest in auto)
  then have "honest (checkNestedMessages ?check n m (check_message_fields newEnv oldEnv n m q))"
    unfolding nested_messages_loop Let_def by (intro fold_honest) (auto split: prod.split)
  then show ?case
    by (simp add: checkMessageCompatibility.simps [of newEnv oldEnv n m] Let_def checkNestedEnums_def)
qed

lemma files_honest: "honest (check_files reader writer)"
proof -
  let ?check = "checkMessageCompatibility (fl_types reader) (fl_types writer)"
  have "honest (checkMessages reader writer q)" if "honest q" for q
  proof -
    have "honest (snd (fold (pairing md_FullName ?check) (fl_Messages reader) (olds, q)))" for olds
      by (rule pairing_honest) (use that message_honest in auto)
    then show ?thesis
      unfolding checkMessages_loop Let_def by (intro fold_honest) (auto split: prod.split)
  qed
  then show ?thesis by (simp add: check_files_def Let_def checkEnums_def)
qed

interpretation proto_checker: schema_checker "ProtoChecker_Check lib" for lib
  by unfold_locales (auto simp: ProtoChecker_Check_def files_honest split: sum.split)

section \<open>A schema against itself\<close>

lemma checked_diagonal: "wf_message n \<Longrightarrow> (a, b) \<in> set (checked_pairs n n) \<Longrightarrow> a = b"
proof (induction n arbitrary: a b rule: measure_induct_rule [of size])
  case (less n)
  have d: "distinct (map md_Name (plain_nested n))" and sub: "\<And>x. x \<in> set (md_Messages n) \<Longrightarrow> wf_message x"
    using less.prems(1) by (simp_all add: wf_message.simps [of n])
  have self: "List.find (\<lambda>m. md_Name m = md_Name x) (plain_nested n) = Some x" if "x \<in> set (plain_nested n)" for x
    using that by (simp add: find_keyed [OF d])
  have below: "\<forall>p\<in>set (checked_pairs x x). fst p = snd p" if "x \<in> set (plain_nested n)" for x
    using that less.IH [OF size_nested] sub by auto
  have "\<forall>p\<in>set (checked_pairs n n). fst p = snd p"
    unfolding checked_pairs.simps [of n n] list.set ball_simps ball_matches
    using self below by simp
  then show ?case using less.prems(2) by auto
qed

lemma fields_ok_refl:
  assumes "distinct_numbers n"
  shows "fields_ok env env n n"
proof -
  have self: "ByNumber (md_Fields n) (fd_Number f) = Some f" if "f \<in> set (md_Fields n)" for f
    using that by (simp add: ByNumber_eq [OF assms])
  have "field_ok env env f f" for f
    by (cases "fd_Cardinality f")
      (simp_all add: field_ok_def proto_areTypesCompatible_def Let_def cardinality_ok_def
        areMessagesStructurallyCompatible.simps)
  then show ?thesis
    by (auto simp: fields_ok_def new_field_ok_def oneofs_ok_def joins_def removal_ok_def self)
qed

lemma files_refl:
  assumes "wf_file fd"
  shows "re_IsCompatible (check_files fd fd)"
proof -
  have "message_pair_ok (fl_types fd) (fl_types fd) p" if p: "p \<in> set (file_pairs fd fd)" for p
  proof -
    obtain a b where ab: "p = (a, b)" by fastforce
    have d: "distinct (map md_FullName (fl_Messages fd))" using assms by (simp add: wf_file_def)
    obtain n m where "n \<in> set (fl_Messages fd)" "(a, b) \<in> set (checked_pairs n m)"
        "List.find (\<lambda>m. md_FullName m = md_FullName n) (fl_Messages fd) = Some m"
      using p ab by (force simp: file_pairs_def split: option.splits)
    moreover from this have "m = n" using d find_keyed [OF d] by (metis option.inject)
    ultimately have "a = b" using assms checked_diagonal by (auto simp: wf_file_def list_all_iff)
    moreover have "distinct_numbers a"
      using file_pairs_wf(1) [OF assms assms] p ab by (metis wf_message.simps)
    ultimately show ?thesis using ab fields_ok_refl by (simp add: message_pair_ok_def)
  qed
  then show ?thesis by (simp add: files_verdict [OF assms assms] list_all_iff)
qed

text \<open>
  A schema is compatible with itself: checking a Protobuf schema against its own text reports nothing,
  whatever it declares - oneofs, required fields, maps, nested and cyclic types.
\<close>

lemma proto_unchanged_compatible:
  assumes "parseSchemaWithRefs lib s = Inr fd" "compiled fd"
  shows "ProtoChecker_Check lib s s = NewCompatibleResult"
proof -
  have "re_IsCompatible (ProtoChecker_Check lib s s)"
    using assms files_refl by (simp add: ProtoChecker_Check_def compiled_def)
  then show ?thesis
    using proto_checker.check_honest [of lib s s] by (simp add: honest_def NewCompatibleResult_def)
qed

lemma proto_unchanged_compatible_witness:
  "compiled new_order \<and>
   ProtoChecker_Check (two_files new_order old_order) (text_of ''new'') (text_of ''new'') = NewCompatibleResult"
proof -
  have c: "compiled new_order" by code_simp
  with proto_unchanged_compatible [OF two_files_parse(1) c] show ?thesis by blast
qed

section \<open>Changes that are missed\<close>

text \<open>The messages of a file and its imports, the entries of maps included.\<close>

definition linked_file :: "MessageDescriptor list \<Rightarrow> MessageDescriptor list \<Rightarrow> FileDescriptor" where
  "linked_file ms others =
     \<lparr>fl_Package = ''p'', fl_Messages = ms, fl_Enums = [], fl_Services = [],
      fl_types = gm_of_list (map (\<lambda>m. (md_FullName m, m)) (ms @ others))\<rparr>"

definition map_entry :: "Kind \<Rightarrow> MessageDescriptor" where
  "map_entry k = MessageDescriptor ''StockEntry'' ''p.Shop.StockEntry'' ''schema.proto''
     [plain_field ''key'' 1 StringKind [], plain_field ''value'' 2 k []] [] [] True"

definition shop :: "Kind \<Rightarrow> FileDescriptor" where
  "shop k = linked_file
     [MessageDescriptor ''Shop'' ''p.Shop'' ''schema.proto''
        [(plain_field ''stock'' 1 MessageKind ''p.Shop.StockEntry'')\<lparr>fd_Cardinality := Repeated\<rparr>]
        [map_entry k] [] False] [map_entry k]"

definition importing :: "Kind \<Rightarrow> FileDescriptor" where
  "importing k = linked_file
     [plain_message ''Shop'' ''p.Shop'' [plain_field ''owner'' 1 MessageKind ''c.Person'']]
     [MessageDescriptor ''Person'' ''c.Person'' ''common.proto'' [plain_field ''age'' 1 k []] [] [] False]"

definition numbered :: "string \<Rightarrow> Cardinality \<Rightarrow> FileDescriptor" where
  "numbered t c = plain_file
     [plain_message ''Shop'' ''p.Shop'' [plain_field ''box'' 1 MessageKind t],
      plain_message ''Old'' ''p.Old'' [(plain_field ''n'' 1 Int32Kind [])\<lparr>fd_Cardinality := Repeated\<rparr>],
      plain_message ''New'' ''p.New'' [(plain_field ''n'' 1 Int32Kind [])\<lparr>fd_Cardinality := c\<rparr>]]"

text \<open>
  The type of a map's values may change: the entry types have the same name and path, so the
  structural comparison does not open them, and the check of nested messages skips them.
\<close>

lemma map_value_change_accepted:
  "re_IsCompatible (check_files (shop StringKind) (shop Int32Kind)) \<and>
   writes_wire False (fl_types (shop Int32Kind)) (hd (fl_Messages (shop Int32Kind)))
     [(1, WSub [(1, WBytes ''bolt''), (2, WVarint 7)])] \<and>
   \<not> reads_wire False (fl_types (shop StringKind)) (hd (fl_Messages (shop StringKind)))
     [(1, WSub [(1, WBytes ''bolt''), (2, WVarint 7)])]"
  by (intro conjI; code_simp)

text \<open>A message type of an imported file may change in any way: it keeps its name and path.\<close>

lemma imported_change_accepted:
  "re_IsCompatible (check_files (importing StringKind) (importing Int32Kind)) \<and>
   writes_wire False (fl_types (importing Int32Kind)) (hd (fl_Messages (importing Int32Kind)))
     [(1, WSub [(1, WVarint 7)])] \<and>
   \<not> reads_wire False (fl_types (importing StringKind)) (hd (fl_Messages (importing StringKind)))
     [(1, WSub [(1, WVarint 7)])]"
  by (intro conjI; code_simp)

text \<open>The structural comparison ignores cardinality: a packed list may become a singular or required field.\<close>

lemma structure_ignores_cardinality:
  "re_IsCompatible (check_files (numbered ''p.New'' Required) (numbered ''p.Old'' Required)) \<and>
   writes_wire True (fl_types (numbered ''p.Old'' Required)) (hd (fl_Messages (numbered ''p.Old'' Required)))
     [(1, WSub [(1, WPacked [WVarint 7])])] \<and>
   \<not> reads_wire True (fl_types (numbered ''p.New'' Required)) (hd (fl_Messages (numbered ''p.New'' Required)))
     [(1, WSub [(1, WPacked [WVarint 7])])]"
  by (intro conjI; code_simp)

end
