(* ===== verification/Config_Properties.thy ===== *)
theory Config_Properties
  imports Server_Config
begin

text \<open>
  What loading the configuration guarantees.  The overrides run one after the other over the whole
  configuration; \<open>Config_from\<close> says field by field which variable decides it, and the two are equal: no
  variable touches a field that is not its own, and the order does not matter, except that the
  standard variables of Vault come second.  A configuration that \<open>Load\<close> returns is valid.
\<close>

section \<open>Overrides, field by field\<close>

definition chosen :: "getenv \<Rightarrow> string \<Rightarrow> (string \<Rightarrow> 'a option) \<Rightarrow> 'a \<Rightarrow> 'a" where
  "chosen env var parse old =
     (let v = env var in if v \<noteq> [] then (case parse v of Some x \<Rightarrow> x | None \<Rightarrow> old) else old)"

definition fallback :: "getenv \<Rightarrow> string \<Rightarrow> string \<Rightarrow> string" where
  "fallback env var old = (if old = [] then env var else old)"

lemma override_upd: "upd (\<lambda>x. x) c = c \<Longrightarrow> override env var parse upd c = upd (chosen env var parse) c"
  by (cases "env var = []"; cases "parse (env var)") (simp_all add: override_def chosen_def [abs_def])

text \<open>Updating a field with the identity.\<close>

lemma ServerConfig_ids [simp]:
  "server_Host_update (\<lambda>x. x) = (\<lambda>s. s)"
  "server_Port_update (\<lambda>x. x) = (\<lambda>s. s)"
  "server_ShutdownTimeout_update (\<lambda>x. x) = (\<lambda>s. s)"
  "server_MetricsRefreshInterval_update (\<lambda>x. x) = (\<lambda>s. s)"
  "server_ReadTimeout_update (\<lambda>x. x) = (\<lambda>s. s)"
  "server_WriteTimeout_update (\<lambda>x. x) = (\<lambda>s. s)"
  "server_ClusterID_update (\<lambda>x. x) = (\<lambda>s. s)"
  "server_MaxRequestBodySize_update (\<lambda>x. x) = (\<lambda>s. s)"
  "server_DocsEnabled_update (\<lambda>x. x) = (\<lambda>s. s)"
  by (simp_all add: fun_eq_iff)

lemma PostgreSQLConfig_ids [simp]:
  "pg_Host_update (\<lambda>x. x) = (\<lambda>s. s)"
  "pg_Port_update (\<lambda>x. x) = (\<lambda>s. s)"
  "pg_Database_update (\<lambda>x. x) = (\<lambda>s. s)"
  "pg_User_update (\<lambda>x. x) = (\<lambda>s. s)"
  "pg_Password_update (\<lambda>x. x) = (\<lambda>s. s)"
  "pg_SSLMode_update (\<lambda>x. x) = (\<lambda>s. s)"
  "pg_ConnectTimeout_update (\<lambda>x. x) = (\<lambda>s. s)"
  "pg_HealthCheckTimeout_update (\<lambda>x. x) = (\<lambda>s. s)"
  "pg_SchemaMaxRetries_update (\<lambda>x. x) = (\<lambda>s. s)"
  "pg_MaxOpenConns_update (\<lambda>x. x) = (\<lambda>s. s)"
  "pg_MaxIdleConns_update (\<lambda>x. x) = (\<lambda>s. s)"
  "pg_ConnMaxLifetime_update (\<lambda>x. x) = (\<lambda>s. s)"
  by (simp_all add: fun_eq_iff)

lemma MySQLConfig_ids [simp]:
  "mysql_Host_update (\<lambda>x. x) = (\<lambda>s. s)"
  "mysql_Port_update (\<lambda>x. x) = (\<lambda>s. s)"
  "mysql_Database_update (\<lambda>x. x) = (\<lambda>s. s)"
  "mysql_User_update (\<lambda>x. x) = (\<lambda>s. s)"
  "mysql_Password_update (\<lambda>x. x) = (\<lambda>s. s)"
  "mysql_TLS_update (\<lambda>x. x) = (\<lambda>s. s)"
  "mysql_ConnectTimeout_update (\<lambda>x. x) = (\<lambda>s. s)"
  "mysql_HealthCheckTimeout_update (\<lambda>x. x) = (\<lambda>s. s)"
  "mysql_SchemaMaxRetries_update (\<lambda>x. x) = (\<lambda>s. s)"
  "mysql_MaxOpenConns_update (\<lambda>x. x) = (\<lambda>s. s)"
  "mysql_MaxIdleConns_update (\<lambda>x. x) = (\<lambda>s. s)"
  "mysql_ConnMaxLifetime_update (\<lambda>x. x) = (\<lambda>s. s)"
  by (simp_all add: fun_eq_iff)

lemma CassandraConfig_ids [simp]:
  "cassandra_Hosts_update (\<lambda>x. x) = (\<lambda>s. s)"
  "cassandra_Port_update (\<lambda>x. x) = (\<lambda>s. s)"
  "cassandra_Keyspace_update (\<lambda>x. x) = (\<lambda>s. s)"
  "cassandra_LocalDC_update (\<lambda>x. x) = (\<lambda>s. s)"
  "cassandra_Consistency_update (\<lambda>x. x) = (\<lambda>s. s)"
  "cassandra_ReadConsistency_update (\<lambda>x. x) = (\<lambda>s. s)"
  "cassandra_WriteConsistency_update (\<lambda>x. x) = (\<lambda>s. s)"
  "cassandra_SerialConsistency_update (\<lambda>x. x) = (\<lambda>s. s)"
  "cassandra_Username_update (\<lambda>x. x) = (\<lambda>s. s)"
  "cassandra_Password_update (\<lambda>x. x) = (\<lambda>s. s)"
  "cassandra_Timeout_update (\<lambda>x. x) = (\<lambda>s. s)"
  "cassandra_ConnectTimeout_update (\<lambda>x. x) = (\<lambda>s. s)"
  "cassandra_MaxRetries_update (\<lambda>x. x) = (\<lambda>s. s)"
  "cassandra_IDBlockSize_update (\<lambda>x. x) = (\<lambda>s. s)"
  by (simp_all add: fun_eq_iff)

lemma VaultConfig_ids [simp]:
  "vault_Address_update (\<lambda>x. x) = (\<lambda>s. s)"
  "vault_Token_update (\<lambda>x. x) = (\<lambda>s. s)"
  "vault_Namespace_update (\<lambda>x. x) = (\<lambda>s. s)"
  "vault_MountPath_update (\<lambda>x. x) = (\<lambda>s. s)"
  "vault_BasePath_update (\<lambda>x. x) = (\<lambda>s. s)"
  "vault_TLSCertFile_update (\<lambda>x. x) = (\<lambda>s. s)"
  "vault_TLSKeyFile_update (\<lambda>x. x) = (\<lambda>s. s)"
  "vault_TLSCAFile_update (\<lambda>x. x) = (\<lambda>s. s)"
  "vault_TLSSkipVerify_update (\<lambda>x. x) = (\<lambda>s. s)"
  by (simp_all add: fun_eq_iff)

lemma StorageConfig_ids [simp]:
  "storage_Type_update (\<lambda>x. x) = (\<lambda>s. s)"
  "storage_PostgreSQL_update (\<lambda>x. x) = (\<lambda>s. s)"
  "storage_MySQL_update (\<lambda>x. x) = (\<lambda>s. s)"
  "storage_Cassandra_update (\<lambda>x. x) = (\<lambda>s. s)"
  "storage_AuthType_update (\<lambda>x. x) = (\<lambda>s. s)"
  "storage_Vault_update (\<lambda>x. x) = (\<lambda>s. s)"
  by (simp_all add: fun_eq_iff)

lemma CompatibilityConfig_ids [simp]:
  "compat_DefaultLevel_update (\<lambda>x. x) = (\<lambda>s. s)"
  by (simp_all add: fun_eq_iff)

lemma LoggingConfig_ids [simp]:
  "logging_Level_update (\<lambda>x. x) = (\<lambda>s. s)"
  "logging_Format_update (\<lambda>x. x) = (\<lambda>s. s)"
  by (simp_all add: fun_eq_iff)

lemma TLSConfig_ids [simp]:
  "tls_Enabled_update (\<lambda>x. x) = (\<lambda>s. s)"
  "tls_CertFile_update (\<lambda>x. x) = (\<lambda>s. s)"
  "tls_KeyFile_update (\<lambda>x. x) = (\<lambda>s. s)"
  "tls_CAFile_update (\<lambda>x. x) = (\<lambda>s. s)"
  "tls_MinVersion_update (\<lambda>x. x) = (\<lambda>s. s)"
  "tls_ClientAuth_update (\<lambda>x. x) = (\<lambda>s. s)"
  "tls_CipherSuites_update (\<lambda>x. x) = (\<lambda>s. s)"
  "tls_AllowInsecureCiphers_update (\<lambda>x. x) = (\<lambda>s. s)"
  "tls_AutoReload_update (\<lambda>x. x) = (\<lambda>s. s)"
  by (simp_all add: fun_eq_iff)

lemma BootstrapConfig_ids [simp]:
  "bootstrap_Enabled_update (\<lambda>x. x) = (\<lambda>s. s)"
  "bootstrap_Username_update (\<lambda>x. x) = (\<lambda>s. s)"
  "bootstrap_Password_update (\<lambda>x. x) = (\<lambda>s. s)"
  "bootstrap_Email_update (\<lambda>x. x) = (\<lambda>s. s)"
  by (simp_all add: fun_eq_iff)

lemma BasicAuthConfig_ids [simp]:
  "basic_Realm_update (\<lambda>x. x) = (\<lambda>s. s)"
  "basic_Users_update (\<lambda>x. x) = (\<lambda>s. s)"
  "basic_HTPasswd_update (\<lambda>x. x) = (\<lambda>s. s)"
  by (simp_all add: fun_eq_iff)

lemma LDAPConfig_file_ids [simp]:
  "ldap_Enabled_update (\<lambda>x. x) = (\<lambda>s. s)"
  "ldap_URL_update (\<lambda>x. x) = (\<lambda>s. s)"
  "ldap_BindDN_update (\<lambda>x. x) = (\<lambda>s. s)"
  "ldap_BindPassword_update (\<lambda>x. x) = (\<lambda>s. s)"
  "ldap_BaseDN_update (\<lambda>x. x) = (\<lambda>s. s)"
  "ldap_UserSearchFilter_update (\<lambda>x. x) = (\<lambda>s. s)"
  "ldap_UserSearchBase_update (\<lambda>x. x) = (\<lambda>s. s)"
  "ldap_GroupSearchFilter_update (\<lambda>x. x) = (\<lambda>s. s)"
  "ldap_GroupSearchBase_update (\<lambda>x. x) = (\<lambda>s. s)"
  "ldap_UsernameAttribute_update (\<lambda>x. x) = (\<lambda>s. s)"
  "ldap_EmailAttribute_update (\<lambda>x. x) = (\<lambda>s. s)"
  "ldap_GroupAttribute_update (\<lambda>x. x) = (\<lambda>s. s)"
  "ldap_DefaultRole_update (\<lambda>x. x) = (\<lambda>s. s)"
  "ldap_StartTLS_update (\<lambda>x. x) = (\<lambda>s. s)"
  "ldap_InsecureSkipVerify_update (\<lambda>x. x) = (\<lambda>s. s)"
  "ldap_CACertFile_update (\<lambda>x. x) = (\<lambda>s. s)"
  "ldap_ClientCertFile_update (\<lambda>x. x) = (\<lambda>s. s)"
  "ldap_ClientKeyFile_update (\<lambda>x. x) = (\<lambda>s. s)"
  "ldap_ConnectionTimeout_update (\<lambda>x. x) = (\<lambda>s. s)"
  "ldap_RequestTimeout_update (\<lambda>x. x) = (\<lambda>s. s)"
  "ldap_AllowFallback_update (\<lambda>x. x) = (\<lambda>s. s)"
  "ldap_RoleMapping_update (\<lambda>x. x) = (\<lambda>s. s)"
  by (simp_all add: fun_eq_iff)

lemma OIDCConfig_file_ids [simp]:
  "oidc_Enabled_update (\<lambda>x. x) = (\<lambda>s. s)"
  "oidc_IssuerURL_update (\<lambda>x. x) = (\<lambda>s. s)"
  "oidc_ClientID_update (\<lambda>x. x) = (\<lambda>s. s)"
  "oidc_ClientSecret_update (\<lambda>x. x) = (\<lambda>s. s)"
  "oidc_UsernameClaim_update (\<lambda>x. x) = (\<lambda>s. s)"
  "oidc_RolesClaim_update (\<lambda>x. x) = (\<lambda>s. s)"
  "oidc_DefaultRole_update (\<lambda>x. x) = (\<lambda>s. s)"
  "oidc_RequiredAudience_update (\<lambda>x. x) = (\<lambda>s. s)"
  "oidc_SkipIssuerCheck_update (\<lambda>x. x) = (\<lambda>s. s)"
  "oidc_SkipExpiryCheck_update (\<lambda>x. x) = (\<lambda>s. s)"
  "oidc_RoleMapping_update (\<lambda>x. x) = (\<lambda>s. s)"
  "oidc_AllowedAlgorithms_update (\<lambda>x. x) = (\<lambda>s. s)"
  by (simp_all add: fun_eq_iff)

lemma APIKeyConfig_ids [simp]:
  "apikey_Header_update (\<lambda>x. x) = (\<lambda>s. s)"
  "apikey_QueryParam_update (\<lambda>x. x) = (\<lambda>s. s)"
  "apikey_StorageType_update (\<lambda>x. x) = (\<lambda>s. s)"
  "apikey_Secret_update (\<lambda>x. x) = (\<lambda>s. s)"
  "apikey_KeyPrefix_update (\<lambda>x. x) = (\<lambda>s. s)"
  "apikey_CacheRefreshSeconds_update (\<lambda>x. x) = (\<lambda>s. s)"
  by (simp_all add: fun_eq_iff)

lemma JWTConfig_file_ids [simp]:
  "jwt_Issuer_update (\<lambda>x. x) = (\<lambda>s. s)"
  "jwt_Audience_update (\<lambda>x. x) = (\<lambda>s. s)"
  "jwt_JWKSURL_update (\<lambda>x. x) = (\<lambda>s. s)"
  "jwt_PublicKeyFile_update (\<lambda>x. x) = (\<lambda>s. s)"
  "jwt_Algorithm_update (\<lambda>x. x) = (\<lambda>s. s)"
  "jwt_DefaultRole_update (\<lambda>x. x) = (\<lambda>s. s)"
  "jwt_JWKSCacheTTL_update (\<lambda>x. x) = (\<lambda>s. s)"
  "jwt_HTTPTimeout_update (\<lambda>x. x) = (\<lambda>s. s)"
  "jwt_ClaimsMapping_update (\<lambda>x. x) = (\<lambda>s. s)"
  by (simp_all add: fun_eq_iff)

lemma RBACConfig_file_ids [simp]:
  "rbac_Enabled_update (\<lambda>x. x) = (\<lambda>s. s)"
  "rbac_DefaultRole_update (\<lambda>x. x) = (\<lambda>s. s)"
  "rbac_SuperAdmins_update (\<lambda>x. x) = (\<lambda>s. s)"
  by (simp_all add: fun_eq_iff)

lemma AuthConfig_file_ids [simp]:
  "auth_Bootstrap_update (\<lambda>x. x) = (\<lambda>s. s)"
  "auth_JWT_update (\<lambda>x. x) = (\<lambda>s. s)"
  "auth_Enabled_update (\<lambda>x. x) = (\<lambda>s. s)"
  "auth_Methods_update (\<lambda>x. x) = (\<lambda>s. s)"
  "auth_LDAP_update (\<lambda>x. x) = (\<lambda>s. s)"
  "auth_OIDC_update (\<lambda>x. x) = (\<lambda>s. s)"
  "auth_APIKey_update (\<lambda>x. x) = (\<lambda>s. s)"
  "auth_Basic_update (\<lambda>x. x) = (\<lambda>s. s)"
  "auth_RBAC_update (\<lambda>x. x) = (\<lambda>s. s)"
  by (simp_all add: fun_eq_iff)

lemma RateLimitConfig_file_ids [simp]:
  "limit_Enabled_update (\<lambda>x. x) = (\<lambda>s. s)"
  "limit_RequestsPerSecond_update (\<lambda>x. x) = (\<lambda>s. s)"
  "limit_BurstSize_update (\<lambda>x. x) = (\<lambda>s. s)"
  "limit_PerClient_update (\<lambda>x. x) = (\<lambda>s. s)"
  "limit_PerEndpoint_update (\<lambda>x. x) = (\<lambda>s. s)"
  by (simp_all add: fun_eq_iff)

lemma AuditStdoutConfig_ids [simp]:
  "stdout_Enabled_update (\<lambda>x. x) = (\<lambda>s. s)"
  "stdout_FormatType_update (\<lambda>x. x) = (\<lambda>s. s)"
  by (simp_all add: fun_eq_iff)

lemma AuditFileConfig_ids [simp]:
  "auditfile_Enabled_update (\<lambda>x. x) = (\<lambda>s. s)"
  "auditfile_Path_update (\<lambda>x. x) = (\<lambda>s. s)"
  "auditfile_FormatType_update (\<lambda>x. x) = (\<lambda>s. s)"
  "auditfile_MaxSizeMB_update (\<lambda>x. x) = (\<lambda>s. s)"
  "auditfile_MaxBackups_update (\<lambda>x. x) = (\<lambda>s. s)"
  "auditfile_MaxAgeDays_update (\<lambda>x. x) = (\<lambda>s. s)"
  "auditfile_Compress_update (\<lambda>x. x) = (\<lambda>s. s)"
  "auditfile_Permissions_update (\<lambda>x. x) = (\<lambda>s. s)"
  by (simp_all add: fun_eq_iff)

lemma AuditSyslogConfig_ids [simp]:
  "syslog_Enabled_update (\<lambda>x. x) = (\<lambda>s. s)"
  "syslog_Network_update (\<lambda>x. x) = (\<lambda>s. s)"
  "syslog_Address_update (\<lambda>x. x) = (\<lambda>s. s)"
  "syslog_AppName_update (\<lambda>x. x) = (\<lambda>s. s)"
  "syslog_Facility_update (\<lambda>x. x) = (\<lambda>s. s)"
  "syslog_FormatType_update (\<lambda>x. x) = (\<lambda>s. s)"
  "syslog_TLSCert_update (\<lambda>x. x) = (\<lambda>s. s)"
  "syslog_TLSKey_update (\<lambda>x. x) = (\<lambda>s. s)"
  "syslog_TLSCA_update (\<lambda>x. x) = (\<lambda>s. s)"
  by (simp_all add: fun_eq_iff)

lemma AuditWebhookConfig_ids [simp]:
  "webhook_Enabled_update (\<lambda>x. x) = (\<lambda>s. s)"
  "webhook_URL_update (\<lambda>x. x) = (\<lambda>s. s)"
  "webhook_FormatType_update (\<lambda>x. x) = (\<lambda>s. s)"
  "webhook_BatchSize_update (\<lambda>x. x) = (\<lambda>s. s)"
  "webhook_FlushInterval_update (\<lambda>x. x) = (\<lambda>s. s)"
  "webhook_Timeout_update (\<lambda>x. x) = (\<lambda>s. s)"
  "webhook_MaxRetries_update (\<lambda>x. x) = (\<lambda>s. s)"
  "webhook_BufferSize_update (\<lambda>x. x) = (\<lambda>s. s)"
  "webhook_Headers_update (\<lambda>x. x) = (\<lambda>s. s)"
  by (simp_all add: fun_eq_iff)

lemma AuditOutputsConfig_ids [simp]:
  "outputs_Stdout_update (\<lambda>x. x) = (\<lambda>s. s)"
  "outputs_File_update (\<lambda>x. x) = (\<lambda>s. s)"
  "outputs_Syslog_update (\<lambda>x. x) = (\<lambda>s. s)"
  "outputs_Webhook_update (\<lambda>x. x) = (\<lambda>s. s)"
  by (simp_all add: fun_eq_iff)

lemma AuditConfig_file_ids [simp]:
  "audit_Enabled_update (\<lambda>x. x) = (\<lambda>s. s)"
  "audit_IncludeBody_update (\<lambda>x. x) = (\<lambda>s. s)"
  "audit_BufferSize_update (\<lambda>x. x) = (\<lambda>s. s)"
  "audit_LogFile_update (\<lambda>x. x) = (\<lambda>s. s)"
  "audit_Events_update (\<lambda>x. x) = (\<lambda>s. s)"
  "audit_Outputs_update (\<lambda>x. x) = (\<lambda>s. s)"
  by (simp_all add: fun_eq_iff)

lemma SecurityMetrics_ids [simp]:
  "secmetrics_PerPrincipalMetrics_update (\<lambda>x. x) = (\<lambda>s. s)"
  by (simp_all add: fun_eq_iff)

lemma SecurityConfig_ids [simp]:
  "security_Auth_update (\<lambda>x. x) = (\<lambda>s. s)"
  "security_TLS_update (\<lambda>x. x) = (\<lambda>s. s)"
  "security_RateLimiting_update (\<lambda>x. x) = (\<lambda>s. s)"
  "security_Audit_update (\<lambda>x. x) = (\<lambda>s. s)"
  "security_Metrics_update (\<lambda>x. x) = (\<lambda>s. s)"
  by (simp_all add: fun_eq_iff)

lemma MCPConfig_file_ids [simp]:
  "mcp_Enabled_update (\<lambda>x. x) = (\<lambda>s. s)"
  "mcp_Host_update (\<lambda>x. x) = (\<lambda>s. s)"
  "mcp_Port_update (\<lambda>x. x) = (\<lambda>s. s)"
  "mcp_AuthToken_update (\<lambda>x. x) = (\<lambda>s. s)"
  "mcp_ReadOnly_update (\<lambda>x. x) = (\<lambda>s. s)"
  "mcp_AllowedOrigins_update (\<lambda>x. x) = (\<lambda>s. s)"
  "mcp_RequireConfirmations_update (\<lambda>x. x) = (\<lambda>s. s)"
  "mcp_ConfirmationTTLSecs_update (\<lambda>x. x) = (\<lambda>s. s)"
  "mcp_LogSchemas_update (\<lambda>x. x) = (\<lambda>s. s)"
  "mcp_PermissionPreset_update (\<lambda>x. x) = (\<lambda>s. s)"
  "mcp_PermissionScopes_update (\<lambda>x. x) = (\<lambda>s. s)"
  "mcp_ToolPolicy_update (\<lambda>x. x) = (\<lambda>s. s)"
  "mcp_AllowedTools_update (\<lambda>x. x) = (\<lambda>s. s)"
  "mcp_DeniedTools_update (\<lambda>x. x) = (\<lambda>s. s)"
  "mcp_ReadHeaderTimeout_update (\<lambda>x. x) = (\<lambda>s. s)"
  by (simp_all add: fun_eq_iff)

lemma Config_ids [simp]:
  "cfg_Server_update (\<lambda>x. x) = (\<lambda>s. s)"
  "cfg_Storage_update (\<lambda>x. x) = (\<lambda>s. s)"
  "cfg_Compatibility_update (\<lambda>x. x) = (\<lambda>s. s)"
  "cfg_Logging_update (\<lambda>x. x) = (\<lambda>s. s)"
  "cfg_MCP_update (\<lambda>x. x) = (\<lambda>s. s)"
  "cfg_Security_update (\<lambda>x. x) = (\<lambda>s. s)"
  by (simp_all add: fun_eq_iff)

definition ServerConfig_from :: "getenv \<Rightarrow> ServerConfig \<Rightarrow> ServerConfig" where
  "ServerConfig_from env s = s
     \<lparr>server_Host := chosen env ''SCHEMA_REGISTRY_HOST'' Some (server_Host s),
      server_Port := chosen env ''SCHEMA_REGISTRY_PORT'' envInt (server_Port s),
      server_ReadTimeout := chosen env ''SCHEMA_REGISTRY_READ_TIMEOUT'' envInt (server_ReadTimeout s),
      server_WriteTimeout := chosen env ''SCHEMA_REGISTRY_WRITE_TIMEOUT'' envInt (server_WriteTimeout s),
      server_ShutdownTimeout := chosen env ''SCHEMA_REGISTRY_SHUTDOWN_TIMEOUT'' envInt (server_ShutdownTimeout s),
      server_DocsEnabled := chosen env ''SCHEMA_REGISTRY_DOCS_ENABLED'' parse_bool (server_DocsEnabled s),
      server_ClusterID := chosen env ''SCHEMA_REGISTRY_CLUSTER_ID'' Some (server_ClusterID s),
      server_MaxRequestBodySize := chosen env ''SCHEMA_REGISTRY_MAX_REQUEST_BODY_SIZE'' envInt64 (server_MaxRequestBodySize s),
      server_MetricsRefreshInterval := chosen env ''SCHEMA_REGISTRY_METRICS_REFRESH_INTERVAL'' envInt (server_MetricsRefreshInterval s)\<rparr>"

definition PostgreSQLConfig_from :: "getenv \<Rightarrow> PostgreSQLConfig \<Rightarrow> PostgreSQLConfig" where
  "PostgreSQLConfig_from env s = s
     \<lparr>pg_Host := chosen env ''SCHEMA_REGISTRY_PG_HOST'' Some (pg_Host s),
      pg_Port := chosen env ''SCHEMA_REGISTRY_PG_PORT'' envInt (pg_Port s),
      pg_Database := chosen env ''SCHEMA_REGISTRY_PG_DATABASE'' Some (pg_Database s),
      pg_User := chosen env ''SCHEMA_REGISTRY_PG_USER'' Some (pg_User s),
      pg_Password := chosen env ''SCHEMA_REGISTRY_PG_PASSWORD'' Some (pg_Password s),
      pg_SSLMode := chosen env ''SCHEMA_REGISTRY_PG_SSLMODE'' Some (pg_SSLMode s),
      pg_MaxOpenConns := chosen env ''SCHEMA_REGISTRY_PG_MAX_OPEN_CONNS'' envInt (pg_MaxOpenConns s),
      pg_MaxIdleConns := chosen env ''SCHEMA_REGISTRY_PG_MAX_IDLE_CONNS'' envInt (pg_MaxIdleConns s),
      pg_ConnMaxLifetime := chosen env ''SCHEMA_REGISTRY_PG_CONN_MAX_LIFETIME'' envInt (pg_ConnMaxLifetime s),
      pg_ConnectTimeout := chosen env ''SCHEMA_REGISTRY_PG_CONNECT_TIMEOUT'' envInt (pg_ConnectTimeout s),
      pg_HealthCheckTimeout := chosen env ''SCHEMA_REGISTRY_PG_HEALTH_CHECK_TIMEOUT'' envInt (pg_HealthCheckTimeout s),
      pg_SchemaMaxRetries := chosen env ''SCHEMA_REGISTRY_PG_SCHEMA_MAX_RETRIES'' envInt (pg_SchemaMaxRetries s)\<rparr>"

definition MySQLConfig_from :: "getenv \<Rightarrow> MySQLConfig \<Rightarrow> MySQLConfig" where
  "MySQLConfig_from env s = s
     \<lparr>mysql_Host := chosen env ''SCHEMA_REGISTRY_MYSQL_HOST'' Some (mysql_Host s),
      mysql_Port := chosen env ''SCHEMA_REGISTRY_MYSQL_PORT'' envInt (mysql_Port s),
      mysql_Database := chosen env ''SCHEMA_REGISTRY_MYSQL_DATABASE'' Some (mysql_Database s),
      mysql_User := chosen env ''SCHEMA_REGISTRY_MYSQL_USER'' Some (mysql_User s),
      mysql_Password := chosen env ''SCHEMA_REGISTRY_MYSQL_PASSWORD'' Some (mysql_Password s),
      mysql_TLS := chosen env ''SCHEMA_REGISTRY_MYSQL_TLS'' Some (mysql_TLS s),
      mysql_MaxOpenConns := chosen env ''SCHEMA_REGISTRY_MYSQL_MAX_OPEN_CONNS'' envInt (mysql_MaxOpenConns s),
      mysql_MaxIdleConns := chosen env ''SCHEMA_REGISTRY_MYSQL_MAX_IDLE_CONNS'' envInt (mysql_MaxIdleConns s),
      mysql_ConnMaxLifetime := chosen env ''SCHEMA_REGISTRY_MYSQL_CONN_MAX_LIFETIME'' envInt (mysql_ConnMaxLifetime s),
      mysql_ConnectTimeout := chosen env ''SCHEMA_REGISTRY_MYSQL_CONNECT_TIMEOUT'' envInt (mysql_ConnectTimeout s),
      mysql_HealthCheckTimeout := chosen env ''SCHEMA_REGISTRY_MYSQL_HEALTH_CHECK_TIMEOUT'' envInt (mysql_HealthCheckTimeout s),
      mysql_SchemaMaxRetries := chosen env ''SCHEMA_REGISTRY_MYSQL_SCHEMA_MAX_RETRIES'' envInt (mysql_SchemaMaxRetries s)\<rparr>"

definition CassandraConfig_from :: "getenv \<Rightarrow> CassandraConfig \<Rightarrow> CassandraConfig" where
  "CassandraConfig_from env s = s
     \<lparr>cassandra_Hosts := chosen env ''SCHEMA_REGISTRY_CASSANDRA_HOSTS'' parse_list (cassandra_Hosts s),
      cassandra_Port := chosen env ''SCHEMA_REGISTRY_CASSANDRA_PORT'' envInt (cassandra_Port s),
      cassandra_Keyspace := chosen env ''SCHEMA_REGISTRY_CASSANDRA_KEYSPACE'' Some (cassandra_Keyspace s),
      cassandra_LocalDC := chosen env ''SCHEMA_REGISTRY_CASSANDRA_LOCAL_DC'' Some (cassandra_LocalDC s),
      cassandra_Consistency := chosen env ''SCHEMA_REGISTRY_CASSANDRA_CONSISTENCY'' Some (cassandra_Consistency s),
      cassandra_ReadConsistency := chosen env ''SCHEMA_REGISTRY_CASSANDRA_READ_CONSISTENCY'' Some (cassandra_ReadConsistency s),
      cassandra_WriteConsistency := chosen env ''SCHEMA_REGISTRY_CASSANDRA_WRITE_CONSISTENCY'' Some (cassandra_WriteConsistency s),
      cassandra_SerialConsistency := chosen env ''SCHEMA_REGISTRY_CASSANDRA_SERIAL_CONSISTENCY'' Some (cassandra_SerialConsistency s),
      cassandra_Username := chosen env ''SCHEMA_REGISTRY_CASSANDRA_USERNAME'' Some (cassandra_Username s),
      cassandra_Password := chosen env ''SCHEMA_REGISTRY_CASSANDRA_PASSWORD'' Some (cassandra_Password s),
      cassandra_Timeout := chosen env ''SCHEMA_REGISTRY_CASSANDRA_TIMEOUT'' Some (cassandra_Timeout s),
      cassandra_ConnectTimeout := chosen env ''SCHEMA_REGISTRY_CASSANDRA_CONNECT_TIMEOUT'' Some (cassandra_ConnectTimeout s),
      cassandra_MaxRetries := chosen env ''SCHEMA_REGISTRY_CASSANDRA_MAX_RETRIES'' envInt (cassandra_MaxRetries s),
      cassandra_IDBlockSize := chosen env ''SCHEMA_REGISTRY_CASSANDRA_ID_BLOCK_SIZE'' envInt (cassandra_IDBlockSize s)\<rparr>"

definition VaultConfig_from :: "getenv \<Rightarrow> VaultConfig \<Rightarrow> VaultConfig" where
  "VaultConfig_from env s = s
     \<lparr>vault_Address := chosen env ''SCHEMA_REGISTRY_VAULT_ADDRESS'' Some (vault_Address s),
      vault_Token := fallback env ''VAULT_TOKEN'' (chosen env ''SCHEMA_REGISTRY_VAULT_TOKEN'' Some (vault_Token s)),
      vault_Namespace := fallback env ''VAULT_NAMESPACE'' (chosen env ''SCHEMA_REGISTRY_VAULT_NAMESPACE'' Some (vault_Namespace s)),
      vault_MountPath := chosen env ''SCHEMA_REGISTRY_VAULT_MOUNT_PATH'' Some (vault_MountPath s),
      vault_BasePath := chosen env ''SCHEMA_REGISTRY_VAULT_BASE_PATH'' Some (vault_BasePath s),
      vault_TLSCertFile := chosen env ''SCHEMA_REGISTRY_VAULT_TLS_CERT_FILE'' Some (vault_TLSCertFile s),
      vault_TLSKeyFile := chosen env ''SCHEMA_REGISTRY_VAULT_TLS_KEY_FILE'' Some (vault_TLSKeyFile s),
      vault_TLSCAFile := chosen env ''SCHEMA_REGISTRY_VAULT_TLS_CA_FILE'' Some (vault_TLSCAFile s),
      vault_TLSSkipVerify := chosen env ''SCHEMA_REGISTRY_VAULT_TLS_SKIP_VERIFY'' parse_bool (vault_TLSSkipVerify s)\<rparr>"

definition StorageConfig_from :: "getenv \<Rightarrow> StorageConfig \<Rightarrow> StorageConfig" where
  "StorageConfig_from env s = s
     \<lparr>storage_Type := chosen env ''SCHEMA_REGISTRY_STORAGE_TYPE'' Some (storage_Type s),
      storage_AuthType := chosen env ''SCHEMA_REGISTRY_AUTH_TYPE'' Some (storage_AuthType s),
      storage_PostgreSQL := PostgreSQLConfig_from env (storage_PostgreSQL s),
      storage_MySQL := MySQLConfig_from env (storage_MySQL s),
      storage_Cassandra := CassandraConfig_from env (storage_Cassandra s),
      storage_Vault := VaultConfig_from env (storage_Vault s)\<rparr>"

definition CompatibilityConfig_from :: "getenv \<Rightarrow> CompatibilityConfig \<Rightarrow> CompatibilityConfig" where
  "CompatibilityConfig_from env s = s
     \<lparr>compat_DefaultLevel := chosen env ''SCHEMA_REGISTRY_COMPATIBILITY_LEVEL'' Some (compat_DefaultLevel s)\<rparr>"

definition LoggingConfig_from :: "getenv \<Rightarrow> LoggingConfig \<Rightarrow> LoggingConfig" where
  "LoggingConfig_from env s = s
     \<lparr>logging_Level := chosen env ''SCHEMA_REGISTRY_LOG_LEVEL'' Some (logging_Level s),
      logging_Format := chosen env ''SCHEMA_REGISTRY_LOG_FORMAT'' Some (logging_Format s)\<rparr>"

definition TLSConfig_from :: "getenv \<Rightarrow> TLSConfig \<Rightarrow> TLSConfig" where
  "TLSConfig_from env s = s
     \<lparr>tls_Enabled := chosen env ''SCHEMA_REGISTRY_TLS_ENABLED'' parse_bool (tls_Enabled s),
      tls_CertFile := chosen env ''SCHEMA_REGISTRY_TLS_CERT_FILE'' Some (tls_CertFile s),
      tls_KeyFile := chosen env ''SCHEMA_REGISTRY_TLS_KEY_FILE'' Some (tls_KeyFile s),
      tls_CAFile := chosen env ''SCHEMA_REGISTRY_TLS_CA_FILE'' Some (tls_CAFile s),
      tls_MinVersion := chosen env ''SCHEMA_REGISTRY_TLS_MIN_VERSION'' Some (tls_MinVersion s),
      tls_ClientAuth := chosen env ''SCHEMA_REGISTRY_TLS_CLIENT_AUTH'' Some (tls_ClientAuth s),
      tls_AutoReload := chosen env ''SCHEMA_REGISTRY_TLS_AUTO_RELOAD'' parse_bool (tls_AutoReload s),
      tls_CipherSuites := chosen env ''SCHEMA_REGISTRY_TLS_CIPHER_SUITES'' parse_list (tls_CipherSuites s),
      tls_AllowInsecureCiphers := chosen env ''SCHEMA_REGISTRY_TLS_ALLOW_INSECURE_CIPHERS'' parse_bool (tls_AllowInsecureCiphers s)\<rparr>"

definition BootstrapConfig_from :: "getenv \<Rightarrow> BootstrapConfig \<Rightarrow> BootstrapConfig" where
  "BootstrapConfig_from env s = s
     \<lparr>bootstrap_Enabled := chosen env ''SCHEMA_REGISTRY_BOOTSTRAP_ENABLED'' parse_bool (bootstrap_Enabled s),
      bootstrap_Username := chosen env ''SCHEMA_REGISTRY_BOOTSTRAP_USERNAME'' Some (bootstrap_Username s),
      bootstrap_Password := chosen env ''SCHEMA_REGISTRY_BOOTSTRAP_PASSWORD'' Some (bootstrap_Password s),
      bootstrap_Email := chosen env ''SCHEMA_REGISTRY_BOOTSTRAP_EMAIL'' Some (bootstrap_Email s)\<rparr>"

definition BasicAuthConfig_from :: "map_decoder \<Rightarrow> getenv \<Rightarrow> BasicAuthConfig \<Rightarrow> BasicAuthConfig" where
  "BasicAuthConfig_from unmarshal env s = s
     \<lparr>basic_Realm := chosen env ''SCHEMA_REGISTRY_BASIC_REALM'' Some (basic_Realm s),
      basic_Users := chosen env ''SCHEMA_REGISTRY_BASIC_USERS'' (envJSON unmarshal) (basic_Users s),
      basic_HTPasswd := chosen env ''SCHEMA_REGISTRY_BASIC_HTPASSWD_FILE'' Some (basic_HTPasswd s)\<rparr>"

definition LDAPConfig_from :: "map_decoder \<Rightarrow> getenv \<Rightarrow> LDAPConfig_file \<Rightarrow> LDAPConfig_file" where
  "LDAPConfig_from unmarshal env s = s
     \<lparr>ldap_Enabled := chosen env ''SCHEMA_REGISTRY_LDAP_ENABLED'' parse_bool (ldap_Enabled s),
      ldap_URL := chosen env ''SCHEMA_REGISTRY_LDAP_URL'' Some (ldap_URL s),
      ldap_BindDN := chosen env ''SCHEMA_REGISTRY_LDAP_BIND_DN'' Some (ldap_BindDN s),
      ldap_BindPassword := chosen env ''SCHEMA_REGISTRY_LDAP_BIND_PASSWORD'' Some (ldap_BindPassword s),
      ldap_BaseDN := chosen env ''SCHEMA_REGISTRY_LDAP_BASE_DN'' Some (ldap_BaseDN s),
      ldap_UserSearchFilter := chosen env ''SCHEMA_REGISTRY_LDAP_USER_SEARCH_FILTER'' Some (ldap_UserSearchFilter s),
      ldap_UserSearchBase := chosen env ''SCHEMA_REGISTRY_LDAP_USER_SEARCH_BASE'' Some (ldap_UserSearchBase s),
      ldap_GroupSearchFilter := chosen env ''SCHEMA_REGISTRY_LDAP_GROUP_SEARCH_FILTER'' Some (ldap_GroupSearchFilter s),
      ldap_GroupSearchBase := chosen env ''SCHEMA_REGISTRY_LDAP_GROUP_SEARCH_BASE'' Some (ldap_GroupSearchBase s),
      ldap_UsernameAttribute := chosen env ''SCHEMA_REGISTRY_LDAP_USERNAME_ATTRIBUTE'' Some (ldap_UsernameAttribute s),
      ldap_EmailAttribute := chosen env ''SCHEMA_REGISTRY_LDAP_EMAIL_ATTRIBUTE'' Some (ldap_EmailAttribute s),
      ldap_GroupAttribute := chosen env ''SCHEMA_REGISTRY_LDAP_GROUP_ATTRIBUTE'' Some (ldap_GroupAttribute s),
      ldap_RoleMapping := chosen env ''SCHEMA_REGISTRY_LDAP_ROLE_MAPPING'' (envJSON unmarshal) (ldap_RoleMapping s),
      ldap_DefaultRole := chosen env ''SCHEMA_REGISTRY_LDAP_DEFAULT_ROLE'' Some (ldap_DefaultRole s),
      ldap_StartTLS := chosen env ''SCHEMA_REGISTRY_LDAP_START_TLS'' parse_bool (ldap_StartTLS s),
      ldap_InsecureSkipVerify := chosen env ''SCHEMA_REGISTRY_LDAP_INSECURE_SKIP_VERIFY'' parse_bool (ldap_InsecureSkipVerify s),
      ldap_CACertFile := chosen env ''SCHEMA_REGISTRY_LDAP_CA_CERT_FILE'' Some (ldap_CACertFile s),
      ldap_ClientCertFile := chosen env ''SCHEMA_REGISTRY_LDAP_CLIENT_CERT_FILE'' Some (ldap_ClientCertFile s),
      ldap_ClientKeyFile := chosen env ''SCHEMA_REGISTRY_LDAP_CLIENT_KEY_FILE'' Some (ldap_ClientKeyFile s),
      ldap_ConnectionTimeout := chosen env ''SCHEMA_REGISTRY_LDAP_CONNECTION_TIMEOUT'' envInt (ldap_ConnectionTimeout s),
      ldap_RequestTimeout := chosen env ''SCHEMA_REGISTRY_LDAP_REQUEST_TIMEOUT'' envInt (ldap_RequestTimeout s),
      ldap_AllowFallback := chosen env ''SCHEMA_REGISTRY_LDAP_ALLOW_FALLBACK'' parse_bool_ptr (ldap_AllowFallback s)\<rparr>"

definition OIDCConfig_from :: "map_decoder \<Rightarrow> getenv \<Rightarrow> OIDCConfig_file \<Rightarrow> OIDCConfig_file" where
  "OIDCConfig_from unmarshal env s = s
     \<lparr>oidc_Enabled := chosen env ''SCHEMA_REGISTRY_OIDC_ENABLED'' parse_bool (oidc_Enabled s),
      oidc_IssuerURL := chosen env ''SCHEMA_REGISTRY_OIDC_ISSUER_URL'' Some (oidc_IssuerURL s),
      oidc_ClientID := chosen env ''SCHEMA_REGISTRY_OIDC_CLIENT_ID'' Some (oidc_ClientID s),
      oidc_ClientSecret := chosen env ''SCHEMA_REGISTRY_OIDC_CLIENT_SECRET'' Some (oidc_ClientSecret s),
      oidc_UsernameClaim := chosen env ''SCHEMA_REGISTRY_OIDC_USERNAME_CLAIM'' Some (oidc_UsernameClaim s),
      oidc_RolesClaim := chosen env ''SCHEMA_REGISTRY_OIDC_ROLES_CLAIM'' Some (oidc_RolesClaim s),
      oidc_RoleMapping := chosen env ''SCHEMA_REGISTRY_OIDC_ROLE_MAPPING'' (envJSON unmarshal) (oidc_RoleMapping s),
      oidc_DefaultRole := chosen env ''SCHEMA_REGISTRY_OIDC_DEFAULT_ROLE'' Some (oidc_DefaultRole s),
      oidc_RequiredAudience := chosen env ''SCHEMA_REGISTRY_OIDC_REQUIRED_AUDIENCE'' Some (oidc_RequiredAudience s),
      oidc_AllowedAlgorithms := chosen env ''SCHEMA_REGISTRY_OIDC_ALLOWED_ALGORITHMS'' parse_list (oidc_AllowedAlgorithms s),
      oidc_SkipIssuerCheck := chosen env ''SCHEMA_REGISTRY_OIDC_SKIP_ISSUER_CHECK'' parse_bool (oidc_SkipIssuerCheck s),
      oidc_SkipExpiryCheck := chosen env ''SCHEMA_REGISTRY_OIDC_SKIP_EXPIRY_CHECK'' parse_bool (oidc_SkipExpiryCheck s)\<rparr>"

definition APIKeyConfig_from :: "getenv \<Rightarrow> APIKeyConfig \<Rightarrow> APIKeyConfig" where
  "APIKeyConfig_from env s = s
     \<lparr>apikey_Header := chosen env ''SCHEMA_REGISTRY_API_KEY_HEADER'' Some (apikey_Header s),
      apikey_QueryParam := chosen env ''SCHEMA_REGISTRY_API_KEY_QUERY_PARAM'' Some (apikey_QueryParam s),
      apikey_StorageType := chosen env ''SCHEMA_REGISTRY_API_KEY_STORAGE_TYPE'' Some (apikey_StorageType s),
      apikey_Secret := chosen env ''SCHEMA_REGISTRY_API_KEY_SECRET'' Some (apikey_Secret s),
      apikey_KeyPrefix := chosen env ''SCHEMA_REGISTRY_API_KEY_PREFIX'' Some (apikey_KeyPrefix s),
      apikey_CacheRefreshSeconds := chosen env ''SCHEMA_REGISTRY_API_KEY_CACHE_REFRESH'' envInt (apikey_CacheRefreshSeconds s)\<rparr>"

definition JWTConfig_from :: "map_decoder \<Rightarrow> getenv \<Rightarrow> JWTConfig_file \<Rightarrow> JWTConfig_file" where
  "JWTConfig_from unmarshal env s = s
     \<lparr>jwt_Issuer := chosen env ''SCHEMA_REGISTRY_JWT_ISSUER'' Some (jwt_Issuer s),
      jwt_Audience := chosen env ''SCHEMA_REGISTRY_JWT_AUDIENCE'' Some (jwt_Audience s),
      jwt_JWKSURL := chosen env ''SCHEMA_REGISTRY_JWT_JWKS_URL'' Some (jwt_JWKSURL s),
      jwt_PublicKeyFile := chosen env ''SCHEMA_REGISTRY_JWT_PUBLIC_KEY_FILE'' Some (jwt_PublicKeyFile s),
      jwt_Algorithm := chosen env ''SCHEMA_REGISTRY_JWT_ALGORITHM'' Some (jwt_Algorithm s),
      jwt_ClaimsMapping := chosen env ''SCHEMA_REGISTRY_JWT_CLAIMS_MAPPING'' (envJSON unmarshal) (jwt_ClaimsMapping s),
      jwt_DefaultRole := chosen env ''SCHEMA_REGISTRY_JWT_DEFAULT_ROLE'' Some (jwt_DefaultRole s),
      jwt_JWKSCacheTTL := chosen env ''SCHEMA_REGISTRY_JWT_JWKS_CACHE_TTL'' envInt (jwt_JWKSCacheTTL s),
      jwt_HTTPTimeout := chosen env ''SCHEMA_REGISTRY_JWT_HTTP_TIMEOUT'' envInt (jwt_HTTPTimeout s)\<rparr>"

definition RBACConfig_from :: "getenv \<Rightarrow> RBACConfig_file \<Rightarrow> RBACConfig_file" where
  "RBACConfig_from env s = s
     \<lparr>rbac_Enabled := chosen env ''SCHEMA_REGISTRY_RBAC_ENABLED'' parse_bool (rbac_Enabled s),
      rbac_DefaultRole := chosen env ''SCHEMA_REGISTRY_RBAC_DEFAULT_ROLE'' Some (rbac_DefaultRole s),
      rbac_SuperAdmins := chosen env ''SCHEMA_REGISTRY_RBAC_SUPER_ADMINS'' parse_list (rbac_SuperAdmins s)\<rparr>"

definition AuthConfig_from :: "map_decoder \<Rightarrow> getenv \<Rightarrow> AuthConfig_file \<Rightarrow> AuthConfig_file" where
  "AuthConfig_from unmarshal env s = s
     \<lparr>auth_Enabled := chosen env ''SCHEMA_REGISTRY_AUTH_ENABLED'' parse_bool (auth_Enabled s),
      auth_Methods := chosen env ''SCHEMA_REGISTRY_AUTH_METHODS'' parse_list (auth_Methods s),
      auth_Bootstrap := BootstrapConfig_from env (auth_Bootstrap s),
      auth_Basic := BasicAuthConfig_from unmarshal env (auth_Basic s),
      auth_LDAP := LDAPConfig_from unmarshal env (auth_LDAP s),
      auth_OIDC := OIDCConfig_from unmarshal env (auth_OIDC s),
      auth_APIKey := APIKeyConfig_from env (auth_APIKey s),
      auth_JWT := JWTConfig_from unmarshal env (auth_JWT s),
      auth_RBAC := RBACConfig_from env (auth_RBAC s)\<rparr>"

definition RateLimitConfig_from :: "getenv \<Rightarrow> RateLimitConfig_file \<Rightarrow> RateLimitConfig_file" where
  "RateLimitConfig_from env s = s
     \<lparr>limit_Enabled := chosen env ''SCHEMA_REGISTRY_RATE_LIMIT_ENABLED'' parse_bool (limit_Enabled s),
      limit_RequestsPerSecond := chosen env ''SCHEMA_REGISTRY_RATE_LIMIT_RPS'' envInt (limit_RequestsPerSecond s),
      limit_BurstSize := chosen env ''SCHEMA_REGISTRY_RATE_LIMIT_BURST'' envInt (limit_BurstSize s),
      limit_PerClient := chosen env ''SCHEMA_REGISTRY_RATE_LIMIT_PER_CLIENT'' parse_bool (limit_PerClient s),
      limit_PerEndpoint := chosen env ''SCHEMA_REGISTRY_RATE_LIMIT_PER_ENDPOINT'' parse_bool (limit_PerEndpoint s)\<rparr>"

definition AuditStdoutConfig_from :: "getenv \<Rightarrow> AuditStdoutConfig \<Rightarrow> AuditStdoutConfig" where
  "AuditStdoutConfig_from env s = s
     \<lparr>stdout_Enabled := chosen env ''SCHEMA_REGISTRY_AUDIT_STDOUT_ENABLED'' parse_bool (stdout_Enabled s),
      stdout_FormatType := chosen env ''SCHEMA_REGISTRY_AUDIT_STDOUT_FORMAT'' Some (stdout_FormatType s)\<rparr>"

definition AuditFileConfig_from :: "getenv \<Rightarrow> AuditFileConfig \<Rightarrow> AuditFileConfig" where
  "AuditFileConfig_from env s = s
     \<lparr>auditfile_Enabled := chosen env ''SCHEMA_REGISTRY_AUDIT_FILE_ENABLED'' parse_bool (auditfile_Enabled s),
      auditfile_Path := chosen env ''SCHEMA_REGISTRY_AUDIT_FILE_PATH'' Some (auditfile_Path s),
      auditfile_FormatType := chosen env ''SCHEMA_REGISTRY_AUDIT_FILE_FORMAT'' Some (auditfile_FormatType s),
      auditfile_MaxSizeMB := chosen env ''SCHEMA_REGISTRY_AUDIT_FILE_MAX_SIZE_MB'' envInt (auditfile_MaxSizeMB s),
      auditfile_MaxBackups := chosen env ''SCHEMA_REGISTRY_AUDIT_FILE_MAX_BACKUPS'' envInt (auditfile_MaxBackups s),
      auditfile_MaxAgeDays := chosen env ''SCHEMA_REGISTRY_AUDIT_FILE_MAX_AGE_DAYS'' envInt (auditfile_MaxAgeDays s),
      auditfile_Compress := chosen env ''SCHEMA_REGISTRY_AUDIT_FILE_COMPRESS'' parse_bool_ptr (auditfile_Compress s),
      auditfile_Permissions := chosen env ''SCHEMA_REGISTRY_AUDIT_FILE_PERMISSIONS'' Some (auditfile_Permissions s)\<rparr>"

definition AuditSyslogConfig_from :: "getenv \<Rightarrow> AuditSyslogConfig \<Rightarrow> AuditSyslogConfig" where
  "AuditSyslogConfig_from env s = s
     \<lparr>syslog_Enabled := chosen env ''SCHEMA_REGISTRY_AUDIT_SYSLOG_ENABLED'' parse_bool (syslog_Enabled s),
      syslog_Network := chosen env ''SCHEMA_REGISTRY_AUDIT_SYSLOG_NETWORK'' Some (syslog_Network s),
      syslog_Address := chosen env ''SCHEMA_REGISTRY_AUDIT_SYSLOG_ADDRESS'' Some (syslog_Address s),
      syslog_AppName := chosen env ''SCHEMA_REGISTRY_AUDIT_SYSLOG_APP_NAME'' Some (syslog_AppName s),
      syslog_Facility := chosen env ''SCHEMA_REGISTRY_AUDIT_SYSLOG_FACILITY'' Some (syslog_Facility s),
      syslog_FormatType := chosen env ''SCHEMA_REGISTRY_AUDIT_SYSLOG_FORMAT'' Some (syslog_FormatType s),
      syslog_TLSCert := chosen env ''SCHEMA_REGISTRY_AUDIT_SYSLOG_TLS_CERT'' Some (syslog_TLSCert s),
      syslog_TLSKey := chosen env ''SCHEMA_REGISTRY_AUDIT_SYSLOG_TLS_KEY'' Some (syslog_TLSKey s),
      syslog_TLSCA := chosen env ''SCHEMA_REGISTRY_AUDIT_SYSLOG_TLS_CA'' Some (syslog_TLSCA s)\<rparr>"

definition AuditWebhookConfig_from :: "map_decoder \<Rightarrow> getenv \<Rightarrow> AuditWebhookConfig \<Rightarrow> AuditWebhookConfig" where
  "AuditWebhookConfig_from unmarshal env s = s
     \<lparr>webhook_Enabled := chosen env ''SCHEMA_REGISTRY_AUDIT_WEBHOOK_ENABLED'' parse_bool (webhook_Enabled s),
      webhook_URL := chosen env ''SCHEMA_REGISTRY_AUDIT_WEBHOOK_URL'' Some (webhook_URL s),
      webhook_FormatType := chosen env ''SCHEMA_REGISTRY_AUDIT_WEBHOOK_FORMAT'' Some (webhook_FormatType s),
      webhook_Headers := chosen env ''SCHEMA_REGISTRY_AUDIT_WEBHOOK_HEADERS'' (envJSON unmarshal) (webhook_Headers s),
      webhook_BatchSize := chosen env ''SCHEMA_REGISTRY_AUDIT_WEBHOOK_BATCH_SIZE'' envInt (webhook_BatchSize s),
      webhook_FlushInterval := chosen env ''SCHEMA_REGISTRY_AUDIT_WEBHOOK_FLUSH_INTERVAL'' Some (webhook_FlushInterval s),
      webhook_Timeout := chosen env ''SCHEMA_REGISTRY_AUDIT_WEBHOOK_TIMEOUT'' Some (webhook_Timeout s),
      webhook_MaxRetries := chosen env ''SCHEMA_REGISTRY_AUDIT_WEBHOOK_MAX_RETRIES'' envInt (webhook_MaxRetries s),
      webhook_BufferSize := chosen env ''SCHEMA_REGISTRY_AUDIT_WEBHOOK_BUFFER_SIZE'' envInt (webhook_BufferSize s)\<rparr>"

definition AuditOutputsConfig_from :: "map_decoder \<Rightarrow> getenv \<Rightarrow> AuditOutputsConfig \<Rightarrow> AuditOutputsConfig" where
  "AuditOutputsConfig_from unmarshal env s = s
     \<lparr>outputs_Stdout := AuditStdoutConfig_from env (outputs_Stdout s),
      outputs_File := AuditFileConfig_from env (outputs_File s),
      outputs_Syslog := AuditSyslogConfig_from env (outputs_Syslog s),
      outputs_Webhook := AuditWebhookConfig_from unmarshal env (outputs_Webhook s)\<rparr>"

definition AuditConfig_from :: "map_decoder \<Rightarrow> getenv \<Rightarrow> AuditConfig_file \<Rightarrow> AuditConfig_file" where
  "AuditConfig_from unmarshal env s = s
     \<lparr>audit_Enabled := chosen env ''SCHEMA_REGISTRY_AUDIT_ENABLED'' parse_bool (audit_Enabled s),
      audit_LogFile := chosen env ''SCHEMA_REGISTRY_AUDIT_LOG_FILE'' Some (audit_LogFile s),
      audit_Events := chosen env ''SCHEMA_REGISTRY_AUDIT_EVENTS'' parse_list (audit_Events s),
      audit_IncludeBody := chosen env ''SCHEMA_REGISTRY_AUDIT_INCLUDE_BODY'' parse_bool (audit_IncludeBody s),
      audit_BufferSize := chosen env ''SCHEMA_REGISTRY_AUDIT_BUFFER_SIZE'' envInt (audit_BufferSize s),
      audit_Outputs := AuditOutputsConfig_from unmarshal env (audit_Outputs s)\<rparr>"

definition SecurityMetrics_from :: "getenv \<Rightarrow> SecurityMetrics \<Rightarrow> SecurityMetrics" where
  "SecurityMetrics_from env s = s
     \<lparr>secmetrics_PerPrincipalMetrics := chosen env ''SCHEMA_REGISTRY_SECURITY_METRICS_PER_PRINCIPAL'' parse_bool_ptr (secmetrics_PerPrincipalMetrics s)\<rparr>"

definition SecurityConfig_from :: "map_decoder \<Rightarrow> getenv \<Rightarrow> SecurityConfig \<Rightarrow> SecurityConfig" where
  "SecurityConfig_from unmarshal env s = s
     \<lparr>security_TLS := TLSConfig_from env (security_TLS s),
      security_Auth := AuthConfig_from unmarshal env (security_Auth s),
      security_RateLimiting := RateLimitConfig_from env (security_RateLimiting s),
      security_Audit := AuditConfig_from unmarshal env (security_Audit s),
      security_Metrics := SecurityMetrics_from env (security_Metrics s)\<rparr>"

definition MCPConfig_from :: "getenv \<Rightarrow> MCPConfig_file \<Rightarrow> MCPConfig_file" where
  "MCPConfig_from env s = s
     \<lparr>mcp_Enabled := chosen env ''SCHEMA_REGISTRY_MCP_ENABLED'' parse_bool (mcp_Enabled s),
      mcp_Host := chosen env ''SCHEMA_REGISTRY_MCP_HOST'' Some (mcp_Host s),
      mcp_Port := chosen env ''SCHEMA_REGISTRY_MCP_PORT'' envInt (mcp_Port s),
      mcp_AuthToken := chosen env ''SCHEMA_REGISTRY_MCP_AUTH_TOKEN'' Some (mcp_AuthToken s),
      mcp_ReadOnly := chosen env ''SCHEMA_REGISTRY_MCP_READ_ONLY'' parse_bool (mcp_ReadOnly s),
      mcp_ToolPolicy := chosen env ''SCHEMA_REGISTRY_MCP_TOOL_POLICY'' Some (mcp_ToolPolicy s),
      mcp_AllowedTools := chosen env ''SCHEMA_REGISTRY_MCP_ALLOWED_TOOLS'' parse_list (mcp_AllowedTools s),
      mcp_DeniedTools := chosen env ''SCHEMA_REGISTRY_MCP_DENIED_TOOLS'' parse_list (mcp_DeniedTools s),
      mcp_AllowedOrigins := chosen env ''SCHEMA_REGISTRY_MCP_ALLOWED_ORIGINS'' parse_list (mcp_AllowedOrigins s),
      mcp_RequireConfirmations := chosen env ''SCHEMA_REGISTRY_MCP_REQUIRE_CONFIRMATIONS'' parse_bool (mcp_RequireConfirmations s),
      mcp_ConfirmationTTLSecs := chosen env ''SCHEMA_REGISTRY_MCP_CONFIRMATION_TTL'' envInt (mcp_ConfirmationTTLSecs s),
      mcp_LogSchemas := chosen env ''SCHEMA_REGISTRY_MCP_LOG_SCHEMAS'' parse_bool (mcp_LogSchemas s),
      mcp_PermissionPreset := chosen env ''SCHEMA_REGISTRY_MCP_PERMISSION_PRESET'' Some (mcp_PermissionPreset s),
      mcp_PermissionScopes := chosen env ''SCHEMA_REGISTRY_MCP_PERMISSION_SCOPES'' parse_list (mcp_PermissionScopes s),
      mcp_ReadHeaderTimeout := chosen env ''SCHEMA_REGISTRY_MCP_READ_HEADER_TIMEOUT'' envInt (mcp_ReadHeaderTimeout s)\<rparr>"

definition Config_from :: "map_decoder \<Rightarrow> getenv \<Rightarrow> Config \<Rightarrow> Config" where
  "Config_from unmarshal env s = s
     \<lparr>cfg_Server := ServerConfig_from env (cfg_Server s),
      cfg_Storage := StorageConfig_from env (cfg_Storage s),
      cfg_Compatibility := CompatibilityConfig_from env (cfg_Compatibility s),
      cfg_Logging := LoggingConfig_from env (cfg_Logging s),
      cfg_Security := SecurityConfig_from unmarshal env (cfg_Security s),
      cfg_MCP := MCPConfig_from env (cfg_MCP s)\<rparr>"

section \<open>The groups\<close>

lemma vault_fallbacks:
  "override_unset env var (\<lambda>c. vault_Token (storage_Vault (cfg_Storage c)))
     (\<lambda>f. cfg_Storage_update (storage_Vault_update (vault_Token_update f))) c =
   cfg_Storage_update (storage_Vault_update (vault_Token_update (fallback env var))) c"
  "override_unset env var (\<lambda>c. vault_Namespace (storage_Vault (cfg_Storage c)))
     (\<lambda>f. cfg_Storage_update (storage_Vault_update (vault_Namespace_update f))) c =
   cfg_Storage_update (storage_Vault_update (vault_Namespace_update (fallback env var))) c"
  by (simp_all add: override_unset_def fallback_def Let_def)

lemma postgresql_overrides_eq:
  "postgresql_overrides env c = cfg_Storage_update (storage_PostgreSQL_update (PostgreSQLConfig_from env)) c"
  by (simp add: postgresql_overrides_def Let_def override_upd PostgreSQLConfig_from_def [abs_def])

lemma mysql_overrides_eq:
  "mysql_overrides env c = cfg_Storage_update (storage_MySQL_update (MySQLConfig_from env)) c"
  by (simp add: mysql_overrides_def Let_def override_upd MySQLConfig_from_def [abs_def])

lemma cassandra_overrides_eq:
  "cassandra_overrides env c = cfg_Storage_update (storage_Cassandra_update (CassandraConfig_from env)) c"
  by (simp add: cassandra_overrides_def Let_def override_upd CassandraConfig_from_def [abs_def])

lemma mcp_overrides_eq:
  "mcp_overrides env c = cfg_MCP_update (MCPConfig_from env) c"
  by (simp add: mcp_overrides_def Let_def override_upd MCPConfig_from_def [abs_def])

lemma bootstrap_admin_user_overrides_eq:
  "bootstrap_admin_user_overrides env c = cfg_Security_update (security_Auth_update (auth_Bootstrap_update (BootstrapConfig_from env))) c"
  by (simp add: bootstrap_admin_user_overrides_def Let_def override_upd BootstrapConfig_from_def [abs_def])

lemma vault_overrides_eq:
  "vault_overrides env c = cfg_Storage_update (storage_Vault_update (VaultConfig_from env)) c"
  by (simp add: vault_overrides_def Let_def override_upd vault_fallbacks VaultConfig_from_def [abs_def])

lemma ldap_overrides_eq:
  "ldap_overrides unmarshal env c = cfg_Security_update (security_Auth_update (auth_LDAP_update (LDAPConfig_from unmarshal env))) c"
  by (simp add: ldap_overrides_def Let_def override_upd LDAPConfig_from_def [abs_def])

lemma oidc_overrides_eq:
  "oidc_overrides unmarshal env c = cfg_Security_update (security_Auth_update (auth_OIDC_update (OIDCConfig_from unmarshal env))) c"
  by (simp add: oidc_overrides_def Let_def override_upd OIDCConfig_from_def [abs_def])

lemma api_key_overrides_eq:
  "api_key_overrides env c = cfg_Security_update (security_Auth_update (auth_APIKey_update (APIKeyConfig_from env))) c"
  by (simp add: api_key_overrides_def Let_def override_upd APIKeyConfig_from_def [abs_def])

lemma basic_auth_overrides_eq:
  "basic_auth_overrides unmarshal env c = cfg_Security_update (security_Auth_update (auth_Basic_update (BasicAuthConfig_from unmarshal env))) c"
  by (simp add: basic_auth_overrides_def Let_def override_upd BasicAuthConfig_from_def [abs_def])

lemma rbac_overrides_eq:
  "rbac_overrides env c = cfg_Security_update (security_Auth_update (auth_RBAC_update (RBACConfig_from env))) c"
  by (simp add: rbac_overrides_def Let_def override_upd RBACConfig_from_def [abs_def])

lemma tls_overrides_eq:
  "tls_overrides env c = cfg_Security_update (security_TLS_update (TLSConfig_from env)) c"
  by (simp add: tls_overrides_def Let_def override_upd TLSConfig_from_def [abs_def])

lemma rate_limiting_overrides_eq:
  "rate_limiting_overrides env c = cfg_Security_update (security_RateLimiting_update (RateLimitConfig_from env)) c"
  by (simp add: rate_limiting_overrides_def Let_def override_upd RateLimitConfig_from_def [abs_def])

lemma audit_stdout_output_overrides_eq:
  "audit_stdout_output_overrides env c = cfg_Security_update (security_Audit_update (audit_Outputs_update (outputs_Stdout_update (AuditStdoutConfig_from env)))) c"
  by (simp add: audit_stdout_output_overrides_def Let_def override_upd AuditStdoutConfig_from_def [abs_def])

lemma audit_file_output_overrides_eq:
  "audit_file_output_overrides env c = cfg_Security_update (security_Audit_update (audit_Outputs_update (outputs_File_update (AuditFileConfig_from env)))) c"
  by (simp add: audit_file_output_overrides_def Let_def override_upd AuditFileConfig_from_def [abs_def])

lemma audit_syslog_output_overrides_eq:
  "audit_syslog_output_overrides env c = cfg_Security_update (security_Audit_update (audit_Outputs_update (outputs_Syslog_update (AuditSyslogConfig_from env)))) c"
  by (simp add: audit_syslog_output_overrides_def Let_def override_upd AuditSyslogConfig_from_def [abs_def])

lemma audit_webhook_output_overrides_eq:
  "audit_webhook_output_overrides unmarshal env c = cfg_Security_update (security_Audit_update (audit_Outputs_update (outputs_Webhook_update (AuditWebhookConfig_from unmarshal env)))) c"
  by (simp add: audit_webhook_output_overrides_def Let_def override_upd AuditWebhookConfig_from_def [abs_def])

lemma security_metrics_overrides_eq:
  "security_metrics_overrides env c = cfg_Security_update (security_Metrics_update (SecurityMetrics_from env)) c"
  by (simp add: security_metrics_overrides_def Let_def override_upd SecurityMetrics_from_def [abs_def])

lemmas group_eqs = server_and_general_overrides_def postgresql_overrides_eq mysql_overrides_eq
  cassandra_overrides_eq mcp_overrides_eq docs_enabled_overrides_def
  auth_type_overrides_def bootstrap_admin_user_overrides_eq vault_overrides_eq
  jwt_overrides_def auth_overrides_def ldap_overrides_eq
  oidc_overrides_eq api_key_overrides_eq basic_auth_overrides_eq
  jwt_claims_mapping_overrides_def rbac_overrides_eq tls_overrides_eq
  rate_limiting_overrides_eq audit_overrides_def audit_stdout_output_overrides_eq
  audit_file_output_overrides_eq audit_syslog_output_overrides_eq audit_webhook_output_overrides_eq
  security_metrics_overrides_eq

lemma overrides_eq: "applyEnvOverrides unmarshal env c = Config_from unmarshal env c"
  by (simp add: applyEnvOverrides_def Let_def group_eqs override_upd
      Config_from_def ServerConfig_from_def StorageConfig_from_def CompatibilityConfig_from_def LoggingConfig_from_def SecurityConfig_from_def AuthConfig_from_def JWTConfig_from_def AuditConfig_from_def AuditOutputsConfig_from_def SecurityMetrics_from_def)


section \<open>Loading\<close>

lemma chosen_unset: "env var = [] \<Longrightarrow> chosen env var parse old = old"
  by (simp add: chosen_def)

lemma fallback_unset: "env var = [] \<Longrightarrow> fallback env var old = old"
  by (simp add: fallback_def)

text \<open>Variables that are not set change nothing; a number that cannot be read is as good as none.\<close>

lemma no_overrides: "(\<And>var. env var = []) \<Longrightarrow> applyEnvOverrides unmarshal env c = c"
  unfolding overrides_eq
  by (simp add: Config_from_def ServerConfig_from_def StorageConfig_from_def CompatibilityConfig_from_def
      LoggingConfig_from_def SecurityConfig_from_def AuthConfig_from_def JWTConfig_from_def AuditConfig_from_def
      AuditOutputsConfig_from_def SecurityMetrics_from_def PostgreSQLConfig_from_def MySQLConfig_from_def
      CassandraConfig_from_def VaultConfig_from_def TLSConfig_from_def BootstrapConfig_from_def
      BasicAuthConfig_from_def LDAPConfig_from_def OIDCConfig_from_def APIKeyConfig_from_def RBACConfig_from_def
      RateLimitConfig_from_def AuditStdoutConfig_from_def AuditFileConfig_from_def AuditSyslogConfig_from_def
      AuditWebhookConfig_from_def MCPConfig_from_def chosen_unset fallback_unset)

lemma unreadable_port_ignored:
  "Atoi (env ''SCHEMA_REGISTRY_PORT'') = None \<Longrightarrow>
   server_Port (cfg_Server (applyEnvOverrides unmarshal env c)) = server_Port (cfg_Server c)"
  by (simp add: overrides_eq Config_from_def ServerConfig_from_def chosen_def envInt_def Let_def)

text \<open>What \<open>Validate\<close> accepts.\<close>

definition outputs_addressed :: "AuditOutputsConfig \<Rightarrow> bool" where
  "outputs_addressed outputs \<longleftrightarrow>
     (auditfile_Enabled (outputs_File outputs) \<longrightarrow> auditfile_Path (outputs_File outputs) \<noteq> []) \<and>
     (syslog_Enabled (outputs_Syslog outputs) \<longrightarrow> syslog_Address (outputs_Syslog outputs) \<noteq> []) \<and>
     (webhook_Enabled (outputs_Webhook outputs) \<longrightarrow> webhook_URL (outputs_Webhook outputs) \<noteq> [])"

definition formats_known :: "AuditOutputsConfig \<Rightarrow> bool" where
  "formats_known outputs \<longleftrightarrow>
     {stdout_FormatType (outputs_Stdout outputs), auditfile_FormatType (outputs_File outputs),
      syslog_FormatType (outputs_Syslog outputs), webhook_FormatType (outputs_Webhook outputs)} \<subseteq> set validFormats"

lemma audit_valid_iff:
  "validateAuditConfig c = None \<longleftrightarrow>
     formats_known (audit_Outputs (security_Audit (cfg_Security c))) \<and>
     outputs_addressed (audit_Outputs (security_Audit (cfg_Security c)))"
  unfolding validateAuditConfig_def Let_def formats_known_def outputs_addressed_def
  by (simp add: insert_subset del: set_simps)

lemma levels_are_modes: "level \<in> set validCompatibility \<longleftrightarrow> Mode_IsValid level"
  by (auto simp: validCompatibility_def Mode_IsValid_def mode_names)

lemma valid_iff:
  "Config_Validate c = None \<longleftrightarrow>
     1 \<le> server_Port (cfg_Server c) \<and> server_Port (cfg_Server c) \<le> 65535 \<and>
     storage_Type (cfg_Storage c) \<in> set validStorageTypes \<and>
     storage_AuthType (cfg_Storage c) \<in> insert [] (set validAuthTypes) \<and>
     (storage_AuthType (cfg_Storage c) = ''vault'' \<longrightarrow> vault_Address (storage_Vault (cfg_Storage c)) \<noteq> []) \<and>
     Mode_IsValid (ToUpper (compat_DefaultLevel (cfg_Compatibility c))) \<and>
     formats_known (audit_Outputs (security_Audit (cfg_Security c))) \<and>
     outputs_addressed (audit_Outputs (security_Audit (cfg_Security c)))"
  unfolding Config_Validate_def Let_def levels_are_modes [symmetric] by (auto simp: audit_valid_iff simp del: set_simps)

text \<open>The configuration before the overrides: the defaults, or what the expanded file makes of them.\<close>

definition file_config :: "config_env \<Rightarrow> string \<Rightarrow> Config \<Rightarrow> bool" where
  "file_config env path base \<longleftrightarrow>
     (if path = [] then base = DefaultConfig
      else \<exists>text. ce_ReadFile env path = Inr text \<and>
             ce_Unmarshal env (ExpandEnv (ce_Getenv env) text) DefaultConfig = Inr base)"

text \<open>
  C37.  A server starts only with a configuration it can serve: what \<open>Load\<close> returns - from defaults,
  file and environment - has a port between 1 and 65535, a known storage backend and, if any, a known
  backend for accounts, with an address when that is Vault, a default level that is a compatibility mode
  up to case, audit formats that exist and a target for every audit output that is enabled; and it is the
  file's configuration, or the defaults, under the overrides.
\<close>

theorem loaded_config_valid:
  assumes "Load env path = Inr c"
  shows "1 \<le> server_Port (cfg_Server c) \<and> server_Port (cfg_Server c) \<le> 65535 \<and>
     storage_Type (cfg_Storage c) \<in> set validStorageTypes \<and>
     storage_AuthType (cfg_Storage c) \<in> insert [] (set validAuthTypes) \<and>
     (storage_AuthType (cfg_Storage c) = ''vault'' \<longrightarrow> vault_Address (storage_Vault (cfg_Storage c)) \<noteq> []) \<and>
     Mode_IsValid (ToUpper (compat_DefaultLevel (cfg_Compatibility c))) \<and>
     formats_known (audit_Outputs (security_Audit (cfg_Security c))) \<and>
     outputs_addressed (audit_Outputs (security_Audit (cfg_Security c))) \<and>
     (\<exists>base. c = Config_from (ce_UnmarshalMap env) (ce_Getenv env) base \<and> file_config env path base)"
proof -
  obtain base where base: "c = applyEnvOverrides (ce_UnmarshalMap env) (ce_Getenv env) base" "file_config env path base"
    and valid: "Config_Validate c = None"
    using assms by (auto simp: Load_def Let_def file_config_def split: if_splits sum.splits option.splits)
  then have "\<exists>base. c = Config_from (ce_UnmarshalMap env) (ce_Getenv env) base \<and> file_config env path base"
    unfolding overrides_eq by blast
  then show ?thesis using valid [unfolded valid_iff] by blast
qed

definition setting :: "string \<Rightarrow> string \<Rightarrow> config_env" where
  "setting var value =
     \<lparr>ce_Getenv = (\<lambda>x. if x = var then value else []), ce_ReadFile = (\<lambda>_. Inl ''no such file''),
      ce_Unmarshal = (\<lambda>_ c. Inr c), ce_UnmarshalMap = (\<lambda>_. None)\<rparr>"

theorem loaded_config_valid_witness:
  "\<exists>c. Load (setting ''SCHEMA_REGISTRY_COMPATIBILITY_LEVEL'' ''full'') [] = Inr c \<and>
     Mode_IsValid (ToUpper (compat_DefaultLevel (cfg_Compatibility c)))"
proof -
  have "\<not> isl (Load (setting ''SCHEMA_REGISTRY_COMPATIBILITY_LEVEL'' ''full'') [])" by code_simp
  then obtain c where c: "Load (setting ''SCHEMA_REGISTRY_COMPATIBILITY_LEVEL'' ''full'') [] = Inr c"
    by (cases "Load (setting ''SCHEMA_REGISTRY_COMPATIBILITY_LEVEL'' ''full'') []") auto
  then show ?thesis using loaded_config_valid [OF c] by blast
qed

text \<open>With no file and no variables the server runs with the defaults.\<close>

lemma defaults_valid: "Config_Validate DefaultConfig = None"
  by code_simp

lemma defaults_load:
  assumes "\<And>var. ce_Getenv env var = []"
  shows "Load env [] = Inr DefaultConfig"
  using no_overrides [of "ce_Getenv env"] assms
  by (simp add: Load_def Let_def defaults_valid)

section \<open>What validation misses\<close>

text \<open>
  The default level is compared without regard to case but used as it is.  A level in small letters
  passes validation and is a mode that demands nothing: every schema is compatible with every history.
\<close>

lemma lower_case_level_checks_nothing:
  assumes "gm_get (ch_checkers ch) schemaType = Some checker"
  shows "\<exists>c. Load (setting ''SCHEMA_REGISTRY_COMPATIBILITY_LEVEL'' ''backward'') [] = Inr c \<and>
     re_IsCompatible (Checker_Check ch (compat_DefaultLevel (cfg_Compatibility c)) schemaType new olds)"
proof -
  let ?load = "Load (setting ''SCHEMA_REGISTRY_COMPATIBILITY_LEVEL'' ''backward'') []"
  have "case ?load of Inl _ \<Rightarrow> False | Inr c \<Rightarrow> compat_DefaultLevel (cfg_Compatibility c) = ''backward''"
    by code_simp
  then obtain c where c: "?load = Inr c" "compat_DefaultLevel (cfg_Compatibility c) = ''backward''"
    by (cases ?load) auto
  have "check_one checker ''backward'' new e q = q" for e q
    by (cases e) (simp add: check_one_def Mode_RequiresBackward_def Mode_RequiresForward_def mode_names Let_def)
  then have "fold (check_one checker ''backward'' new) es q = q" for es q
    by (induction es) auto
  then have "re_IsCompatible (Checker_Check ch ''backward'' schemaType new olds)"
    using assms by (simp add: Checker_Check_def Let_def)
  then show ?thesis using c by auto
qed

text \<open>
  A bcrypt hash written into the file does not survive the expansion of variables, and a dollar sign
  cannot be escaped.
\<close>

lemma hash_expanded:
  assumes "\<And>x. env x = []"
  shows "ExpandEnv env ''$2a$10$abc.DEF'' = ''a0.DEF''" "ExpandEnv env ''$$'' = []"
  using assms by (simp_all add: getShellName_def isShellSpecialVar_def isAlphaNum_def)

text \<open>Text without a dollar sign is left as it is.\<close>

lemma expand_plain: "CHR ''$'' \<notin> set s \<Longrightarrow> ExpandEnv env s = s"
  by (induction s) auto

end
