(* ===== verification/Edit_Distance.thy ===== *)
theory Edit_Distance
  imports Schema_Analysis
begin

text \<open>
  The edit distance of \<open>fuzzy.go\<close> against its definition: the least number of single-character
  insertions, deletions and replacements that turn one string into the other.  A recursive distance
  links the two: it is that least number, and the two-row loop computes it on the prefixes.
\<close>

section \<open>Edits\<close>

inductive edit :: "'a list \<Rightarrow> 'a list \<Rightarrow> bool" where
  inserted: "edit (u @ v) (u @ x # v)"
| deleted: "edit (u @ x # v) (u @ v)"
| replaced: "edit (u @ x # v) (u @ y # v)"

lemma edit_Cons: "edit xs ys \<Longrightarrow> edit (x # xs) (x # ys)"
  by (induction rule: edit.induct) (metis append_Cons edit.intros)+

lemma edit_rev: "edit xs ys \<Longrightarrow> edit (rev xs) (rev ys)"
  by (induction rule: edit.induct) (simp_all add: edit.intros)

lemma edits_map: "(edit ^^ n) xs ys \<Longrightarrow> (\<And>a b. edit a b \<Longrightarrow> edit (f a) (f b)) \<Longrightarrow> (edit ^^ n) (f xs) (f ys)"
proof (induction n arbitrary: ys)
  case (Suc n)
  then show ?case by (metis relpowp_Suc_E relpowp_Suc_I)
qed simp

section \<open>The recursive distance\<close>

fun distance :: "'a list \<Rightarrow> 'a list \<Rightarrow> nat" where
  "distance [] ys = length ys"
| "distance (x # xs) [] = Suc (length xs)"
| "distance (x # xs) (y # ys) =
     min (distance (x # xs) ys + 1) (min (distance xs (y # ys) + 1) (distance xs ys + (if x = y then 0 else 1)))"

lemma distance_Nil [simp]: "distance xs [] = length xs"
  by (cases xs) simp_all

lemma distance_self [simp]: "distance xs xs = 0"
  by (induction xs) simp_all

lemma edit_first: "edit v (x # v)" "edit (x # v) v" "edit (x # v) (y # v)"
  using edit.intros [of "[]"] by simp_all

lemma edits_step: "edit xs ys \<Longrightarrow> (edit ^^ n) ys zs \<Longrightarrow> (edit ^^ Suc n) xs zs"
  by (metis relpowp_Suc_I2)

lemma edits_last: "(edit ^^ n) xs ys \<Longrightarrow> edit ys zs \<Longrightarrow> (edit ^^ Suc n) xs zs"
  by auto

text \<open>The distance is a number of edits that is enough.\<close>

lemma distance_edits: "(edit ^^ distance xs ys) xs ys"
proof (induction xs ys rule: distance.induct)
  case (1 ys)
  show ?case
  proof (induction ys)
    case (Cons y ys)
    then show ?case using edits_last [OF _ edit_first(1)] by simp
  qed simp
next
  case (2 x xs)
  show ?case
  proof (induction xs arbitrary: x)
    case Nil
    then show ?case using edit_first(2) [of x "[]"] by auto
  next
    case (Cons z xs)
    then show ?case using edits_step [OF edit_first(2) [of x "z # xs"] Cons] by simp
  qed
next
  case (3 x xs y ys)
  let ?i = "distance (x # xs) ys" let ?d = "distance xs (y # ys)" let ?c = "distance xs ys"
  have i: "(edit ^^ (?i + 1)) (x # xs) (y # ys)"
    unfolding Suc_eq_plus1 [symmetric] by (rule edits_last [OF 3(1) edit_first(1)])
  have d: "(edit ^^ (?d + 1)) (x # xs) (y # ys)"
    unfolding Suc_eq_plus1 [symmetric] by (rule edits_step [OF edit_first(2) 3(2)])
  have copy: "(edit ^^ ?c) (x # xs) (x # ys)" using 3(3) edit_Cons by (rule edits_map)
  have c: "(edit ^^ (?c + (if x = y then 0 else 1))) (x # xs) (y # ys)"
  proof (cases "x = y")
    case False
    then show ?thesis using edits_last [OF copy edit_first(3) [of x ys y]] by simp
  qed (use copy in simp)
  show ?case unfolding distance.simps min_def using i d c by presburger
qed

text \<open>One edit changes the distance to any string by at most one.\<close>

lemma distance_insert_right: "distance xs (y # ys) \<le> distance xs ys + 1"
  by (cases xs) simp_all

lemma distance_drop_first: "distance v zs \<le> distance (x # v) zs + 1"
proof (induction zs)
  case (Cons z zs)
  then show ?case using distance_insert_right [of v z zs] by (auto simp: min_def split: if_splits)
qed simp

lemma distance_add_first: "distance (x # v) zs \<le> distance v zs + 1"
  by (cases zs) simp_all

lemma distance_swap_first: "distance (x # v) zs \<le> distance (y # v) zs + 1"
proof (induction zs)
  case (Cons z zs)
  then show ?case by (auto simp: min_def split: if_splits)
qed simp

lemma distance_lift:
  assumes "\<And>zs. distance p zs \<le> distance q zs + 1"
  shows "distance (w # p) zs \<le> distance (w # q) zs + 1"
proof (induction zs)
  case Nil
  then show ?case using assms [of "[]"] by simp
next
  case (Cons z zs)
  then show ?case using assms [of zs] assms [of "z # zs"] by (auto simp: min_def split: if_splits)
qed

lemma distance_lifts:
  assumes "\<And>zs. distance p zs \<le> distance q zs + 1"
  shows "distance (u @ p) zs \<le> distance (u @ q) zs + 1"
proof (induction u arbitrary: zs)
  case (Cons w u)
  then show ?case using distance_lift [of "u @ p" "u @ q"] by simp
qed (use assms in simp)

lemma distance_edit: "edit xs ys \<Longrightarrow> distance xs zs \<le> distance ys zs + 1"
  by (induction rule: edit.induct)
    (rule distance_lifts, rule distance_drop_first distance_add_first distance_swap_first)+

lemma distance_least: "(edit ^^ n) xs ys \<Longrightarrow> distance xs ys \<le> n"
proof (induction n arbitrary: xs)
  case (Suc n)
  then obtain zs where "edit xs zs" "(edit ^^ n) zs ys" by (meson relpowp_Suc_E2)
  then show ?case using Suc.IH [of zs] distance_edit [of xs zs ys] by simp
qed simp

lemma distance_is_least: "distance xs ys = (LEAST n. (edit ^^ n) xs ys)"
  by (rule sym, rule Least_equality) (rule distance_edits, rule distance_least)

lemma distance_rev: "distance (rev xs) (rev ys) = distance xs ys"
proof -
  have le: "distance (rev xs) (rev ys) \<le> distance xs ys" for xs ys :: "'a list"
    using distance_edits [of xs ys] edits_map [where f = rev] edit_rev distance_least by blast
  show ?thesis using le [of xs ys] le [of "rev xs" "rev ys"] by simp
qed

lemma distance_bound: "distance xs ys \<le> max (length xs) (length ys)"
  by (induction xs ys rule: distance.induct) (auto simp: min_def max_def split: if_splits)

lemma distance_zero: "distance xs ys = 0 \<longleftrightarrow> xs = ys"
  by (metis distance_edits distance_self relpowp_0_E)

section \<open>The two rows\<close>

text \<open>The entries of row \<open>i\<close>: the distances between the prefix of length \<open>i\<close> and each prefix.\<close>

definition prefix_distance :: "string \<Rightarrow> string \<Rightarrow> nat \<Rightarrow> nat \<Rightarrow> int" where
  "prefix_distance a b i j = int (distance (rev (take i a)) (rev (take j b)))"

lemma prefix_distance_step:
  assumes "i < length a" "j < length b"
  shows "prefix_distance a b (Suc i) (Suc j) =
    min (prefix_distance a b (Suc i) j + 1)
      (min (prefix_distance a b i (Suc j) + 1) (prefix_distance a b i j + (if a ! i = b ! j then 0 else 1)))"
  using assms by (simp add: prefix_distance_def take_Suc_conv_app_nth) (simp add: min_def)

lemma prefix_distance_zero: "prefix_distance a b 0 j = int (min (length b) j)"
  "i \<le> length a \<Longrightarrow> prefix_distance a b i 0 = int i"
  by (simp_all add: prefix_distance_def)

text \<open>After the entries up to \<open>k\<close> of a row are written they are right, and the rest can be anything.\<close>

lemma lev_cells:
  assumes "i < length a" "k \<le> length b" "length prev = Suc (length b)" "length cur = Suc (length b)"
    and prev: "\<And>j. j \<le> length b \<Longrightarrow> prev ! j = prefix_distance a b i j"
  defines "row \<equiv> foldl (lev_cell a b prev (Suc i)) (cur[0 := int (Suc i)]) [1..<k + 1]"
  shows "length row = Suc (length b) \<and> (\<forall>j\<le>k. row ! j = prefix_distance a b (Suc i) j)"
  unfolding row_def using assms(2)
proof (induction k)
  case 0
  then show ?case using assms(1,4) by (simp add: prefix_distance_zero)
next
  case (Suc k)
  obtain row where row: "foldl (lev_cell a b prev (Suc i)) (cur[0 := int (Suc i)]) [1..<k + 1] = row" by blast
  have IH: "length row = Suc (length b)" "\<forall>j\<le>k. row ! j = prefix_distance a b (Suc i) j"
    using Suc row by simp_all
  have cell: "lev_cell a b prev (Suc i) row (Suc k) = row[Suc k := prefix_distance a b (Suc i) (Suc k)]"
    using Suc.prems IH prev prefix_distance_step [OF assms(1), of k b] by (simp add: lev_cell_def)
  have "[1..<Suc k + 1] = [1..<k + 1] @ [Suc k]" by simp
  then have "foldl (lev_cell a b prev (Suc i)) (cur[0 := int (Suc i)]) [1..<Suc k + 1] =
      row[Suc k := prefix_distance a b (Suc i) (Suc k)]"
    by (simp only: foldl_append row foldl.simps cell)
  then show ?case using IH Suc.prems by (simp only:) (auto simp: nth_list_update le_Suc_eq)
qed

definition row_ok :: "string \<Rightarrow> string \<Rightarrow> nat \<Rightarrow> int list \<times> int list \<Rightarrow> bool" where
  "row_ok a b i = (\<lambda>(prev, cur).
     length prev = Suc (length b) \<and> length cur = Suc (length b) \<and>
     (\<forall>j\<le>length b. prev ! j = prefix_distance a b i j))"

lemma lev_rows:
  assumes "i \<le> length a"
  shows "row_ok a b i (foldl (\<lambda>(prev, cur) i. (lev_row a b prev cur i, prev))
    (map int [0..<length b + 1], replicate (length b + 1) 0) [1..<i + 1])"
  using assms
proof (induction i)
  case 0
  have "map int [0..<length b + 1] ! j = int j" if "j \<le> length b" for j
    using that by (subst nth_map) (simp_all del: upt_Suc)
  then show ?case by (simp add: row_ok_def prefix_distance_zero del: upt_Suc)
next
  case (Suc i)
  obtain prev cur where fold: "foldl (\<lambda>(prev, cur) i. (lev_row a b prev cur i, prev))
    (map int [0..<length b + 1], replicate (length b + 1) 0) [1..<i + 1] = (prev, cur)" by fastforce
  have ok: "row_ok a b i (prev, cur)" using Suc fold by simp
  have "length (lev_row a b prev cur (Suc i)) = Suc (length b) \<and>
      (\<forall>j\<le>length b. lev_row a b prev cur (Suc i) ! j = prefix_distance a b (Suc i) j)"
    unfolding lev_row_def using ok Suc.prems by (intro lev_cells) (auto simp: row_ok_def)
  moreover have "foldl (\<lambda>(prev, cur) i. (lev_row a b prev cur i, prev))
    (map int [0..<length b + 1], replicate (length b + 1) 0) [1..<Suc i + 1] = (lev_row a b prev cur (Suc i), prev)"
    using fold by simp
  ultimately show ?case using ok by (auto simp: row_ok_def)
qed

lemma levenshtein_distance: "LevenshteinDistance a b = int (distance a b)"
proof (cases "a = [] \<or> b = []")
  case False
  obtain prev cur where fold: "foldl (\<lambda>(prev, cur) i. (lev_row a b prev cur i, prev))
    (map int [0..<length b + 1], replicate (length b + 1) 0) [1..<length a + 1] = (prev, cur)" by fastforce
  then have "row_ok a b (length a) (prev, cur)" using lev_rows [of "length a" a b] by simp
  then have "prev ! length b = int (distance (rev a) (rev b))" by (simp add: row_ok_def prefix_distance_def)
  then show ?thesis using False fold by (simp add: LevenshteinDistance_def Let_def distance_rev)
qed (auto simp: LevenshteinDistance_def)

end
