(* ===== verification/Analysis_Properties.thy ===== *)
theory Analysis_Properties
  imports Edit_Distance Glob_Match
begin

text \<open>
  Properties of the schema analysis: the wildcard matcher and the edit distance against their
  definitions, the range of similarity and quality scores, names, searches, differences and the
  consistency check.
\<close>

section \<open>Wildcards and distances\<close>

text \<open>
  C31.  The wildcard matcher of subject searches decides exactly the meaning of the pattern: it answers yes
  if and only if the lower-cased text is an instance of the lower-cased pattern, where a star stands for
  any text and every other character for itself.  The loop never reconsiders where it placed a part.
\<close>

theorem glob_exact: "globMatch u pattern s \<longleftrightarrow> glob (lower_text u pattern) (lower_text u s)"
  by (simp add: globMatch_def glob_decided)

text \<open>
  C32.  The two-row loop computes the edit distance: the least number of single-character insertions,
  deletions and replacements that turn the one string into the other.
\<close>

theorem edit_distance_least: "LevenshteinDistance a b = int (LEAST n. (edit ^^ n) a b)"
  by (simp add: levenshtein_distance distance_is_least)

lemma distance_facts:
  "LevenshteinDistance a b = 0 \<longleftrightarrow> a = b" "0 \<le> LevenshteinDistance a b"
  "LevenshteinDistance a b \<le> int (max (length a) (length b))"
  using distance_bound [of a b] by (simp_all add: levenshtein_distance distance_zero)

section \<open>Scores\<close>

definition unit_score :: "go_float \<Rightarrow> bool" where
  "unit_score x \<longleftrightarrow> (\<exists>v. x = Fin v \<and> 0 \<le> v \<and> v \<le> 1)"

lemma round_unit: "0 \<le> r \<Longrightarrow> r \<le> 1 \<Longrightarrow> unit_score (round_f64 r)"
  using round_upper [of r 1] round_lower [of 0 r] by (auto simp: unit_score_def)

lemma ratio_unit:
  assumes "0 \<le> a" "a \<le> b" "b \<le> 2 ^ 53" "0 < b"
  shows "unit_score (f_div (f_of_int a) (f_of_int b))"
proof -
  have "f_of_int a = Fin (of_int a)" "f_of_int b = Fin (of_int b)" using assms by (simp_all add: f_of_int_exact)
  moreover have "unit_score (round_f64 (of_int a / of_int b))" using assms by (intro round_unit) simp_all
  ultimately show ?thesis using assms by (auto simp: f_div_def Let_def f_neg_def unit_score_def)
qed

lemma complement_unit: "unit_score x \<Longrightarrow> unit_score (f_sub (Fin 1) x)"
  by (auto simp: unit_score_def [of x] intro!: round_unit)

lemma fuzzy_score_unit:
  assumes "length (lower_text u query) \<le> 2 ^ 53" "length (lower_text u target) \<le> 2 ^ 53"
  shows "unit_score (FuzzyScore u query target)"
proof -
  let ?q = "lower_text u query" let ?t = "lower_text u target"
  have "unit_score (f_sub (Fin 1) (f_div (f_of_int (LevenshteinDistance ?q ?t)) (f_of_int (int (max (length ?q) (length ?t))))))"
    if "?q \<noteq> ?t"
  proof (rule complement_unit, rule ratio_unit)
    show "int (max (length ?q) (length ?t)) \<le> 2 ^ 53" using assms by simp
    show "0 < int (max (length ?q) (length ?t))" using that by (auto simp: less_max_iff_disj)
  qed (use distance_facts in simp_all)
  then show ?thesis by (auto simp: FuzzyScore_def Let_def unit_score_def)
qed

lemma fuzzy_score_self: "FuzzyScore u name name = Fin 1"
  by (simp add: FuzzyScore_def)

text \<open>The shares of a category and the bounds of the whole score.\<close>

lemma share25_bounds: "0 \<le> share25 good xs" "share25 good xs \<le> 25"
proof -
  have "25 * int (length (filter good xs)) div int (length xs) \<le> 25 * int (length xs) div int (length xs)" if "xs \<noteq> []"
    using that by (intro zdiv_mono1) simp_all
  then show "share25 good xs \<le> 25" by (auto simp: share25_def split: if_splits)
  show "0 \<le> share25 good xs" by (simp add: share25_def pos_imp_zdiv_nonneg_iff)
qed

lemma share25_full: "share25 good xs = 25 \<longleftrightarrow> (\<forall>x\<in>set xs. good x)"
proof (cases "xs = []")
  case False
  let ?n = "int (length xs)" and ?g = "int (length (filter good xs))"
  have n: "0 < ?n" using False by simp
  show ?thesis
  proof
    assume "share25 good xs = 25"
    then have "25 * ?g div ?n = 25" using False by (simp add: share25_def)
    then have "25 * ?n + 25 * ?g mod ?n = 25 * ?g" using div_mult_mod_eq [of "25 * ?g" ?n] by simp
    then have "25 * ?n \<le> 25 * ?g" using pos_mod_sign [OF n, of "25 * ?g"] by linarith
    then have "\<not> length (filter good xs) < length xs" by simp
    then show "\<forall>x\<in>set xs. good x" by (meson length_filter_less)
  qed (use False in \<open>simp add: share25_def\<close>)
qed (simp add: share25_def)

lemma category_scores:
  "fold (\<lambda>cat (overall, most). (overall + cg_Score cat, most + cg_MaxScore cat)) cats (a, b) =
     (a + sum_list (map cg_Score cats), b + sum_list (map cg_MaxScore cats))"
  by (induction cats arbitrary: a b) simp_all

definition quality_categories :: "unicode \<Rightarrow> FieldInfo list \<Rightarrow> string \<Rightarrow> CategoryScore list" where
  "quality_categories u fs schemaStr =
     [fst (naming_category u fs), fst (documentation_category fs), type_safety_category u fs,
      fst (evolution_category fs schemaStr)]"

lemma category_bounds:
  assumes "c \<in> set (quality_categories u fs schemaStr)"
  shows "0 \<le> cg_Score c \<and> cg_Score c \<le> 25 \<and> cg_MaxScore c = 25"
  using assms share25_bounds
  by (auto simp: quality_categories_def naming_category_def documentation_category_def type_safety_category_def
      evolution_category_def Let_def)

lemma quality_result:
  assumes "range_order it"
  shows "map snd (gm_entries (qr_Categories (ScoreSchemaQuality it u fs schemaStr))) = quality_categories u fs schemaStr"
    "qr_OverallScore (ScoreSchemaQuality it u fs schemaStr) = sum_list (map cg_Score (quality_categories u fs schemaStr))"
    "qr_MaxScore (ScoreSchemaQuality it u fs schemaStr) = 100"
    "qr_Grade (ScoreSchemaQuality it u fs schemaStr) = quality_grade (qr_OverallScore (ScoreSchemaQuality it u fs schemaStr))"
proof -
  let ?cats = "quality_categories u fs schemaStr"
  have perm: "sum_list (map f (it ?cats)) = sum_list (map f ?cats)" for f :: "CategoryScore \<Rightarrow> int"
  proof -
    have "mset (map f (it ?cats)) = mset (map f ?cats)" using assms by (simp add: range_order_def)
    then show ?thesis by (simp only: flip: sum_mset_sum_list)
  qed
  have "map cg_MaxScore ?cats = [25, 25, 25, 25]"
    using category_bounds [of _ u fs schemaStr] by (simp add: quality_categories_def)
  then have most: "sum_list (map cg_MaxScore ?cats) = 100" by simp
  let ?m = "gm_put ''evolution'' (fst (evolution_category fs schemaStr)) (gm_put ''type_safety'' (type_safety_category u fs)
    (gm_put ''documentation'' (fst (documentation_category fs)) (gm_put ''naming'' (fst (naming_category u fs)) gm_empty)))"
  have entries: "map snd (gm_entries ?m) = ?cats" by (simp add: gm_eval quality_categories_def)
  have result: "ScoreSchemaQuality it u fs schemaStr =
    \<lparr>qr_OverallScore = sum_list (map cg_Score ?cats), qr_MaxScore = 100,
     qr_Grade = quality_grade (sum_list (map cg_Score ?cats)), qr_Categories = ?m,
     qr_QuickWins = snd (naming_category u fs) @ snd (documentation_category fs) @ snd (evolution_category fs schemaStr)\<rparr>"
    unfolding ScoreSchemaQuality_def case_prod_beta Let_def by (simp only: entries) (simp add: category_scores [unfolded case_prod_beta] perm most)
  show "map snd (gm_entries (qr_Categories (ScoreSchemaQuality it u fs schemaStr))) = ?cats"
    "qr_OverallScore (ScoreSchemaQuality it u fs schemaStr) = sum_list (map cg_Score ?cats)"
    "qr_MaxScore (ScoreSchemaQuality it u fs schemaStr) = 100"
    "qr_Grade (ScoreSchemaQuality it u fs schemaStr) = quality_grade (qr_OverallScore (ScoreSchemaQuality it u fs schemaStr))"
    unfolding result by (simp_all only: QualityResult.simps entries)
qed

text \<open>
  A quality report is within its scale whatever order the categories are summed in: each category
  scores between 0 and 25, the overall score is their sum, between 0 and 100, and the grade follows from it.
\<close>

lemma quality_in_range:
  assumes "range_order it"
  shows "qr_MaxScore (ScoreSchemaQuality it u fs schemaStr) = 100 \<and>
    0 \<le> qr_OverallScore (ScoreSchemaQuality it u fs schemaStr) \<and>
    qr_OverallScore (ScoreSchemaQuality it u fs schemaStr) \<le> 100 \<and>
    qr_OverallScore (ScoreSchemaQuality it u fs schemaStr) =
      sum_list (map (cg_Score \<circ> snd) (gm_entries (qr_Categories (ScoreSchemaQuality it u fs schemaStr)))) \<and>
    (\<forall>(name, c)\<in>set (gm_entries (qr_Categories (ScoreSchemaQuality it u fs schemaStr))). 0 \<le> cg_Score c \<and> cg_Score c \<le> 25) \<and>
    qr_Grade (ScoreSchemaQuality it u fs schemaStr) =
      quality_grade (qr_OverallScore (ScoreSchemaQuality it u fs schemaStr))"
proof -
  note r = quality_result [OF assms, of u fs schemaStr]
  have b: "0 \<le> cg_Score c \<and> cg_Score c \<le> 25" if "c \<in> set (quality_categories u fs schemaStr)" for c
    using category_bounds [OF that] by simp
  have "0 \<le> sum_list (map cg_Score (quality_categories u fs schemaStr)) \<and>
      sum_list (map cg_Score (quality_categories u fs schemaStr)) \<le> 100"
    using b [of "quality_categories u fs schemaStr ! 0"] b [of "quality_categories u fs schemaStr ! 1"]
      b [of "quality_categories u fs schemaStr ! 2"] b [of "quality_categories u fs schemaStr ! 3"]
    by (simp add: quality_categories_def)
  moreover have "0 \<le> cg_Score c \<and> cg_Score c \<le> 25"
    if "(name, c) \<in> set (gm_entries (qr_Categories (ScoreSchemaQuality it u fs schemaStr)))" for name c
  proof (rule b)
    show "c \<in> set (quality_categories u fs schemaStr)" unfolding r(1) [symmetric] using that by force
  qed
  ultimately show ?thesis using r by (auto simp flip: map_map)
qed

lemma quality_in_range_witness:
  "qr_OverallScore (ScoreSchemaQuality rev ascii_tables
     [\<lparr>fi_Name = ''UserId'', fi_Path = ''UserId'', fi_Type = ''long'', fi_Required = True, fi_HasDefault = True, fi_Doc = []\<rparr>]
     ''namespace'') \<le> 100"
  using quality_in_range [of rev ascii_tables] range_order_rev by blast

section \<open>Names\<close>

lemma ascii_okD:
  assumes "ascii_ok u" "0 \<le> r" "r < 128"
  shows "un_ToLower u r = (if ascii_upper r then r + 32 else r)" "un_IsUpper u r \<longleftrightarrow> ascii_upper r"
  using assms by (simp_all add: ascii_ok_def ascii_tables_def)

definition plain_rune :: "int \<Rightarrow> bool" where
  "plain_rune r \<longleftrightarrow> 0 \<le> r \<and> r < 128 \<and> \<not> ascii_upper r \<and> r \<noteq> 45 \<and> r \<noteq> 46 \<and> r \<noteq> 32"

lemma snake_runes_plain:
  assumes "ascii_ok u" "0 \<le> r" "r < 128" "x \<in> set (snake_runes u name (i, r))" shows "plain_rune x"
  using assms ascii_okD [OF assms(1-3)]
  by (auto simp: snake_runes_def plain_rune_def ascii_upper_def split: if_splits)

lemma snake_runes_same: "ascii_ok u \<Longrightarrow> plain_rune r \<Longrightarrow> snake_runes u name (i, r) = [r]"
  by (simp add: snake_runes_def plain_rune_def ascii_okD)

lemma ascii_runes_at: "ascii s \<Longrightarrow> (i, r) \<in> set (runes_at s) \<Longrightarrow> 0 \<le> r \<and> r < 128"
  by (auto simp: runes_from_ascii set_zip ascii_def byte_of_range)

definition plain_name :: "string \<Rightarrow> bool" where
  "plain_name s \<longleftrightarrow> (\<forall>c\<in>set s. plain_rune (byte_of c))"

lemma plain_ascii: "plain_name s \<Longrightarrow> ascii s"
  by (simp add: plain_name_def ascii_def plain_rune_def)

lemma normalized_plain:
  assumes "ascii_ok u" "ascii name" shows "plain_name (NormalizeFieldName u name)"
proof -
  let ?rs = "concat (map (snake_runes u name) (runes_at name))"
  have rs: "plain_rune x" if "x \<in> set ?rs" for x
    using that assms snake_runes_plain ascii_runes_at by fastforce
  then have "NormalizeFieldName u name = map byte ?rs"
    unfolding NormalizeFieldName_def by (intro string_of_ascii) (auto simp: plain_rune_def)
  moreover have "byte_of (byte x) = x" if "plain_rune x" for x
    using that by (intro byte_of_byte) (simp_all add: plain_rune_def)
  ultimately show ?thesis using rs by (auto simp: plain_name_def simp del: set_concat)
qed

lemma normalize_plain:
  assumes "ascii_ok u" "plain_name s" shows "NormalizeFieldName u s = s"
proof -
  have "concat (map (snake_runes u s) (runes_at s)) = map snd (runes_at s)"
  proof -
    have "snake_runes u s p = [snd p]" if "p \<in> set (runes_at s)" for p
    proof -
      obtain i r where p: "p = (i, r)" by fastforce
      have "r \<in> byte_of ` set s"
        using that plain_ascii [OF assms(2)] by (auto simp: p runes_from_ascii dest!: set_zip_rightD)
      then show ?thesis using assms by (auto simp: p plain_name_def snake_runes_same)
    qed
    then have "map (snake_runes u s) (runes_at s) = map (\<lambda>p. [snd p]) (runes_at s)" by (rule map_cong [OF refl])
    then show ?thesis by (simp only: concat_map_singleton)
  qed
  also have "\<dots> = map byte_of s" using runes_ascii [OF plain_ascii [OF assms(2)]] by (simp add: runes_def)
  finally have "NormalizeFieldName u s = string_of_runes (map byte_of s)" by (simp add: NormalizeFieldName_def)
  also have "\<dots> = s" using plain_ascii [OF assms(2)] by (subst string_of_ascii) (auto simp: ascii_def byte_of_range o_def)
  finally show ?thesis .
qed

lemma normalized_nonempty: "name \<noteq> [] \<Longrightarrow> NormalizeFieldName u name \<noteq> []"
proof -
  assume "name \<noteq> []"
  then obtain c cs where "name = c # cs" by (cases name) auto
  then obtain i r rest where r: "runes_at name = (i, r) # rest" by (auto simp: case_prod_beta Let_def)
  have "snake_runes u name (i, r) \<noteq> []" by (simp add: snake_runes_def)
  then show ?thesis unfolding NormalizeFieldName_def r
    by (cases "snake_runes u name (i, r)") (auto simp: string_of_runes_def encode_nonempty)
qed

text \<open>
  The name a report suggests is a good name: for an ASCII field name that is not empty, the normalized
  name passes the naming check, and normalizing it again leaves it as it is.
\<close>

lemma suggested_name_good:
  assumes "ascii_ok u" "ascii name" "name \<noteq> []"
  shows "isGoodFieldName u (NormalizeFieldName u name) \<and>
    NormalizeFieldName u (NormalizeFieldName u name) = NormalizeFieldName u name"
proof -
  let ?n = "NormalizeFieldName u name"
  have plain: "plain_name ?n" using assms by (intro normalized_plain)
  have "\<not> un_IsUpper u (byte_of c) \<and> byte_of c \<noteq> 45 \<and> byte_of c \<noteq> 32" if "c \<in> set ?n" for c
    using plain that ascii_okD(2) [OF assms(1)] by (auto simp: plain_name_def plain_rune_def)
  then have "isGoodFieldName u ?n"
    using normalized_nonempty [OF assms(3)] runes_ascii [OF plain_ascii [OF plain]] by (auto simp: isGoodFieldName_def)
  then show ?thesis using normalize_plain [OF assms(1) plain] by simp
qed

lemma suggested_name_good_witness:
  "isGoodFieldName ascii_tables (NormalizeFieldName ascii_tables ''User-Id2X'') \<and>
   NormalizeFieldName ascii_tables ''User-Id2X'' = ''user_id2_x''"
proof -
  have "NormalizeFieldName ascii_tables ''User-Id2X'' = ''user_id2_x''" by code_simp
  then show ?thesis
    using suggested_name_good [OF ascii_ok_tables, of "''User-Id2X''"] by (simp add: ascii_def byte_of_def)
qed

text \<open>A part that starts with a character of several bytes is damaged when it is capitalized.\<close>

lemma capitalize_damages:
  "capitalize ascii_tables [CHR 0xC3, CHR 0xA9] = [CHR 0xEF, CHR 0xBF, CHR 0xBD, CHR 0xA9]"
  by code_simp

section \<open>Differences\<close>

lemma type_map_dom: "gm_get (type_map fs) name = None \<longleftrightarrow> name \<notin> fi_Name ` set fs"
  by (simp add: type_map_def gm_get_of_list map_of_eq_None_iff image_image)

lemma added_set:
  "range_order (an_types e) \<Longrightarrow>
     (name, t) \<in> set (added_fields e set1 set2) \<longleftrightarrow> gm_get set2 name = Some t \<and> gm_get set1 name = None"
  by (simp add: added_fields_def gm.entry_iff)

lemma changed_set:
  "range_order (an_types e) \<Longrightarrow>
     (name, t1, t2) \<in> set (changed_fields e set1 set2) \<longleftrightarrow>
       gm_get set1 name = Some t1 \<and> gm_get set2 name = Some t2 \<and> t1 \<noteq> t2"
  by (auto simp: changed_fields_def set_map_filter gm.entry_iff split: option.splits if_splits
      intro!: bexI [of _ "(name, t2)"])

text \<open>The field types after a difference is applied: removed names go, added and changed ones are set.\<close>

definition patched ::
  "(string \<times> string) list \<Rightarrow> (string \<times> string) list \<Rightarrow> (string \<times> string \<times> string) list \<Rightarrow>
     (string \<Rightarrow> string option) \<Rightarrow> string \<Rightarrow> string option" where
  "patched added removed changed m name =
     (if name \<in> fst ` set removed then None
      else case map_of (added @ map (\<lambda>(n, t1, t2). (n, t2)) changed) name of Some t \<Rightarrow> Some t | None \<Rightarrow> m name)"

lemma difference_patches:
  assumes "range_order (an_types e)"
  shows "patched (added_fields e set1 set2) (added_fields e set2 set1) (changed_fields e set1 set2) (gm_get set1) =
    gm_get set2"
proof
  fix name
  let ?set = "added_fields e set1 set2 @ map (\<lambda>(n, t1, t2). (n, t2)) (changed_fields e set1 set2)"
  have mem: "(name, t) \<in> set ?set \<longleftrightarrow> gm_get set2 name = Some t \<and> gm_get set1 name \<noteq> Some t" for t
  proof -
    have "(name, t) \<in> set (map (\<lambda>(n, t1, t2). (n, t2)) xs) \<longleftrightarrow> (\<exists>t1. (name, t1, t) \<in> set xs)" for xs
      by (induction xs) auto
    then have "(name, t) \<in> set ?set \<longleftrightarrow> (name, t) \<in> set (added_fields e set1 set2) \<or>
        (\<exists>t1. (name, t1, t) \<in> set (changed_fields e set1 set2))" unfolding set_append by blast
    then show ?thesis
      unfolding added_set [OF assms] changed_set [OF assms] by (cases "gm_get set1 name") auto
  qed
  have removed: "name \<in> fst ` set (added_fields e set2 set1) \<longleftrightarrow> gm_get set2 name = None \<and> gm_get set1 name \<noteq> None"
  proof -
    have "name \<in> fst ` set xs \<longleftrightarrow> (\<exists>t. (name, t) \<in> set xs)" for xs :: "(string \<times> string) list" by force
    then show ?thesis by (simp only: added_set [OF assms]) auto
  qed
  show "patched (added_fields e set1 set2) (added_fields e set2 set1) (changed_fields e set1 set2) (gm_get set1) name =
      gm_get set2 name"
  proof (cases "map_of ?set name")
    case None
    then have "(name, t) \<notin> set ?set" for t by (metis map_of_eq_None_iff fst_conv image_eqI)
    with None show ?thesis using removed mem unfolding patched_def
      by (cases "gm_get set2 name") (auto split: option.splits)
  next
    case (Some t)
    then have "gm_get set2 name = Some t" using mem map_of_SomeD by fast
    with Some show ?thesis using removed by (simp add: patched_def)
  qed
qed

text \<open>
  C33.  The difference of two versions is complete: when \<open>DiffSchemas\<close> answers, both versions are in the
  store, and applying the reported removals, additions and changes to the field types of the first gives
  the field types of the second (a name that occurs at several paths stands for its last occurrence).
\<close>

theorem diff_is_patch:
  assumes "range_order (an_types e)" "DiffSchemas e h s rq = Respond 200 (DiffBody subject v1 v2 added removed changed)"
  shows "\<exists>schema1 schema2.
    Store_GetSchemaBySubjectVersion s (fst (request_target rq)) subject v1 = Inr schema1 \<and>
    Store_GetSchemaBySubjectVersion s (fst (request_target rq)) subject v2 = Inr schema2 \<and>
    patched added removed changed (gm_get (type_map (fields_of e schema1))) = gm_get (type_map (fields_of e schema2))"
  using assms(2) difference_patches [OF assms(1)]
  unfolding DiffSchemas_def on_subject_def Let_def
  by (auto simp: global_rejected_def invalid_body_def no_such_version_def subject_not_found_def
      split: if_splits option.splits sum.splits prod.splits)

definition diff_record :: "string \<Rightarrow> SchemaRecord" where
  "diff_record schemaStr =
     \<lparr>sr_ID = 0, sr_Subject = ''orders'', sr_Version = 0, sr_SchemaType = SchemaTypeProtobuf, sr_Schema = schemaStr,
      sr_References = [], sr_Metadata = None, sr_RuleSet = None, sr_Fingerprint = schemaStr, sr_Deleted = False,
      sr_CreatedAt = 0\<rparr>"

definition diff_store :: Store where
  "diff_store =
     fst (Store_CreateSchema (\<lambda>xs. xs) 5 6 (fst (Store_CreateSchema (\<lambda>xs. xs) 5 6 NewStore ''.''
       (diff_record ''int32 a = 1;''))) ''.'' (diff_record ''optional int64 a = 1;''))"

definition diff_env :: analysis_env where
  "diff_env = \<lparr>an_unicode = ascii_tables, an_avro = (\<lambda>_. None), an_json = (\<lambda>_. None), an_regexp = (\<lambda>_. Inl []),
     an_blocks = (\<lambda>xs. xs), an_names = (\<lambda>xs. xs), an_types = (\<lambda>xs. xs), an_counts = (\<lambda>xs. xs)\<rparr>"

definition diff_request :: "DiffRequest request" where
  "diff_request = \<lparr>rq_ctx = None, rq_subject = ''orders'', rq_version = [], rq_id = [], rq_query = [],
     rq_body = Some \<lparr>df_Version1 = 0, df_Version2 = 0\<rparr>\<rparr>"

lemma diff_answer:
  "DiffSchemas diff_env h diff_store diff_request =
     Respond 200 (DiffBody ''orders'' 1 2 [] [] [(''a'', ''int32'', ''int64'')])"
  by code_simp

theorem diff_is_patch_witness:
  "\<exists>schema2. Store_GetSchemaBySubjectVersion diff_store ''.'' ''orders'' 2 = Inr schema2 \<and>
     gm_get (type_map (fields_of diff_env schema2)) ''a'' = Some ''int64''"
proof -
  have "range_order (an_types diff_env)" by (simp add: diff_env_def)
  note diff_is_patch [OF this diff_answer [of "undefined :: unit Handler"]]
  moreover have "fst (request_target diff_request) = ''.''" by code_simp
  ultimately obtain schema1 schema2 where
    "Store_GetSchemaBySubjectVersion diff_store ''.'' ''orders'' 2 = Inr schema2"
    "patched [] [] [(''a'', ''int32'', ''int64'')] (gm_get (type_map (fields_of diff_env schema1))) =
       gm_get (type_map (fields_of diff_env schema2))" by auto
  from this(1) fun_cong [OF this(2), of "''a''"] show ?thesis by (auto simp: patched_def)
qed

section \<open>Consistency\<close>

lemma count_up_keys: "dom (gm_get (fold (\<lambda>x. count_up (f x)) xs m)) = dom (gm_get m) \<union> f ` set xs"
proof (induction xs arbitrary: m)
  case (Cons x xs)
  have "dom (gm_get (count_up (f x) m)) = insert (f x) (dom (gm_get m))" by (auto simp: count_up_def gm_laws)
  then show ?case using Cons by auto
qed simp

lemma one_type:
  "length (gm_keys (fold (\<lambda>us. count_up (fu_FieldType us)) usages gm_empty)) \<le> 1 \<longleftrightarrow>
     (\<forall>x\<in>set usages. \<forall>y\<in>set usages. fu_FieldType x = fu_FieldType y)"
proof -
  let ?m = "fold (\<lambda>us. count_up (fu_FieldType us)) usages gm_empty"
  have "length (gm_keys ?m) = card (dom (gm_get ?m))" by (simp add: gm_keys_def card_dom_gm)
  also have "dom (gm_get ?m) = fu_FieldType ` set usages" by (simp add: count_up_keys)
  finally have n: "length (gm_keys ?m) = card (fu_FieldType ` set usages)" .
  have "card (fu_FieldType ` set usages) \<le> Suc 0 \<longleftrightarrow>
      (\<forall>a\<in>fu_FieldType ` set usages. \<forall>b\<in>fu_FieldType ` set usages. a = b)"
    by (rule card_le_Suc0_iff_eq) simp
  then show ?thesis using n by simp
qed

text \<open>A field is reported consistent exactly when all its reported usages have one type.\<close>

lemma consistency_decided:
  assumes "CheckFieldConsistency e h s rq field = Respond 200 (ConsistencyBody f consistent counts usages)"
  shows "consistent \<longleftrightarrow> (\<forall>x\<in>set usages. \<forall>y\<in>set usages. fu_FieldType x = fu_FieldType y)"
  using assms one_type unfolding CheckFieldConsistency_def Let_def
  by (auto simp: writeInternalError_def split: if_splits sum.splits)

section \<open>Searches\<close>

text \<open>When a subject contributes at most one result, the search returns the first ones up to the limit.\<close>

lemma collect_until_take:
  assumes "\<And>x. length (f x) \<le> 1" "int (length acc) \<le> limit"
  shows "collect_until limit f xs acc = acc @ take (nat limit - length acc) (concat (map f xs))"
  using assms(2)
proof (induction xs arbitrary: acc)
  case (Cons x xs)
  show ?case
  proof (cases "int (length acc) \<ge> limit")
    case True
    then show ?thesis using Cons.prems by simp
  next
    case False
    have "length (acc @ f x) \<le> nat limit" using assms(1) [of x] False by simp
    moreover from this have "collect_until limit f xs (acc @ f x) =
        (acc @ f x) @ take (nat limit - length (acc @ f x)) (concat (map f xs))" using False by (intro Cons.IH) simp
    ultimately show ?thesis using False by simp
  qed
qed simp

text \<open>With several results per subject the limit is only looked at between subjects.\<close>

lemma search_exceeds_limit: "collect_until 1 (\<lambda>x. [x, x, x]) [a] [] = [a, a, a]"
  by simp

section \<open>Advice\<close>

text \<open>
  An incompatible schema gets no explanation: the answer carries one only when the check itself failed,
  as when the schema cannot be parsed.
\<close>

lemma explanation_only_for_errors:
  assumes "ExplainCompatibilityFailure e h s rq = Respond 200 (ExplainBody subject level compatible explanation)"
    "rq_body rq = Some req" "rejectGlobalContext (fst (request_target rq)) = False"
  shows "explanation \<noteq> None \<longleftrightarrow>
    (\<exists>err. Registry_CheckCompatibility (hd_registry h) s (fst (request_target rq)) (snd (request_target rq))
       (tx_Schema req) (typed_or_avro e (tx_SchemaType req)) [] ''latest'' False = Inl err)"
  using assms unfolding ExplainCompatibilityFailure_def on_subject_def Let_def
  by (auto split: if_splits sum.splits prod.splits)

lemma unknown_strategy_accepted:
  "strategy \<notin> {''topic_name'', ''record_name'', ''topic_record_name''} \<Longrightarrow> check_subject_name strategy subject = (True, [], [])"
  by (simp add: check_subject_name_def)


end
