(* ===== verification/Spec2Isabelle.thy ===== *)
theory Spec2Isabelle
  imports Mcp_Properties Mcp_Addresses Memory_Accounts Memory_Exporters Memory_Key_Properties Avro_Properties Registry_Properties Registry_Keys
    Json_Soundness Rate_Limiter Mcp_Confirmation Admin_Properties Authentication_Properties Audit_Properties
    Schema_Handler_Properties Key_Handler_Properties Proto_Soundness Config_Properties Analysis_Properties
begin

text \<open>
  A verification development for the AxonOps schema registry, a server that keeps versioned schemas
  (Avro, Protobuf, JSON Schema) for the subjects of a messaging system and refuses schemas that
  would break readers or writers.

  \<^bold>\<open>The program.\<close>  A request passes rate limiting, the audit middleware, authentication and the check of
  its permission (\<open>internal/auth\<close>), and reaches a handler (\<open>internal/api/handlers\<close>), which finds the
  registry context and the subject (\<open>internal/context\<close>, \<open>internal/api\<close>), checks the mode, and calls the
  registry service (\<open>internal/registry\<close>).  The service resolves references, parses, deduplicates by
  fingerprint, checks compatibility with the subject's history (\<open>internal/compatibility\<close>), merges metadata
  and rules (\<open>internal/rules\<close> validates them) and writes to a storage backend (\<open>internal/storage\<close>).  The
  in-memory backend (\<open>internal/storage/memory\<close>) is modelled completely: it gives the storage interface
  its meaning, and the service is modelled on top of it.  A second front end (\<open>internal/mcp\<close>) offers the
  service as tools, of which a policy and confirmation tokens guard the dangerous ones, and as resources.

  \<^bold>\<open>The theories\<close>, from the bottom:

  \<^item> \<open>Go_Prelude\<close>, \<open>Go_Map\<close>, \<open>Go_Base64\<close>, \<open>Go_Float\<close>, \<open>Go_Unicode\<close>: what the code uses of Go - 64-bit integers
    with wrap-around, byte strings and the functions of \<open>strings\<close> and \<open>strconv\<close>, base64, IEEE double precision
    numbers with their rounding, UTF-8, nilable slices, the arbitrary order of a
    \<open>range\<close> over a map, and maps themselves, as association lists with distinct keys.  The locale
    \<open>go_map\<close> states the laws of maps; its interpretation \<open>gm\<close> carries all proofs about maps.
  \<^item> \<open>Storage_Types\<close>: the records of \<open>storage.go\<close> field by field, its errors, and
    \<open>reflect.DeepEqual\<close> (locale \<open>deep_equality\<close>).
  \<^item> \<open>Memory_Store\<close>, \<open>Memory_Subjects\<close>, \<open>Memory_Config\<close>, \<open>Memory_Auth\<close>, \<open>Memory_Exporters\<close>,
    \<open>Memory_Keys\<close>: every method of the in-memory store (\<open>Store_X\<close> is the method \<open>X\<close>;
    \<open>ctx_X\<close> its part on one context).  The store's mutex makes each method atomic, so a method is a
    function from the store to the new store and the result.
  \<^item> \<open>Memory_Invariant\<close>, \<open>Memory_Histories\<close>: the index, counter, ID and deduplication invariant,
    that every write keeps it, and the histories of writes (\<open>store_step\<close>, \<open>store_reach\<close>).
  \<^item> \<open>Catalog_Spec\<close>, \<open>Memory_Catalog\<close>, \<open>Memory_Schemas\<close>, \<open>Memory_Properties\<close>: an abstract catalogue
    of records with the specification of registration and two-phase deletion (locale
    \<open>schema_catalog\<close>), the refinement of it by the store (interpretation \<open>mem\<close>), and the
    properties of the schema operations.
  \<^item> \<open>Memory_Accounts\<close>: users and API keys are two instances of a table with a secondary index
    (locale \<open>indexed_table\<close>); look-ups by the secondary key are exact after any history.
  \<^item> \<open>Memory_Key_Properties\<close>: soft deletion and undeletion (locale \<open>soft_deletion\<close>), and that no
    plain key material is ever stored.
  \<^item> \<open>Compat_Modes\<close>, \<open>Avro_Compat\<close>, \<open>Avro_Properties\<close>: modes, the checker that applies a mode to a
    history (locale \<open>schema_checker\<close>), and the Avro checker, proved to decide the relation \<open>reads\<close>
    between schemas.  The trees are those of the Avro library, whose parser is an argument.
  \<^item> \<open>Json_Value\<close>, \<open>Json_Compat\<close>, \<open>Json_Properties\<close>, \<open>Json_Soundness\<close>: decoded JSON, the whole JSON Schema
    checker, what it answers on unchanged schemas, that what it accepts is sound for the instances of a
    fragment of JSON Schema, and the changes outside it that it accepts wrongly.
  \<^item> \<open>Proto_Compat\<close>, \<open>Proto_Properties\<close>, \<open>Proto_Soundness\<close>: the Protobuf checker on descriptors, its verdict as
    a condition on the pairs of messages it compares, and its soundness for the wire format: the pairs
    compared, and those the structural comparison visits, are a simulation.  The compiler is an argument.
  \<^item> \<open>Registry_Context\<close>, \<open>Rule_Validation\<close>: context names and qualified subjects; rule sets.
  \<^item> \<open>Registry_Config\<close>, \<open>Registry_Metadata\<close>, \<open>Registry_References\<close>, \<open>Registry_Schemas\<close>: the service
    (\<open>Registry_X\<close> is the method \<open>X\<close> of \<open>registry.go\<close>): configuration and modes with their
    fallback chains, metadata and rule merging, fingerprints and the reference resolver, and
    registration, import, checks, look-ups and deletion.
  \<^item> \<open>Registry_Catalog\<close>, \<open>Registry_Histories\<close>, \<open>Registry_Import\<close>, \<open>Registry_Properties\<close>: what the
    service's writes do to the catalogue, the histories of service requests (\<open>registry_step\<close>) with
    the invariant that references of live schemas resolve, the ID sequence under import, and the
    properties of the service.
  \<^item> \<open>Registry_Keys\<close>: encryption keys and exporters in the service, with base64.
  \<^item> \<open>Access_Control\<close>: roles, the table of permissions per endpoint, the two authorization middlewares and
    the table of routes; the tools and scopes of the MCP server.
  \<^item> \<open>Auth_Service\<close>, \<open>Auth_Properties\<close>: users, passwords, API keys and the two caches, with the pointers they
    share with the store; the caches are transparent (a simulation), and revoked credentials are refused.
  \<^item> \<open>Authentication\<close>, \<open>Authentication_Properties\<close>: Basic, API key, LDAP, JWT and OpenID authentication and
    the middleware: who is admitted is vouched for.
  \<^item> \<open>Rate_Limiter\<close>: token buckets in floating point; \<open>Mcp_Confirmation\<close>: confirmation tokens.
  \<^item> \<open>Api_Types\<close>, \<open>Admin_Handlers\<close>, \<open>Admin_Properties\<close>: error codes, queries, the handlers of users and keys.
  \<^item> \<open>Audit_Log\<close>, \<open>Audit_Properties\<close>: audit events and how they are derived from requests, their formats, the
    queue and the outputs: every writing route is audited, in order, and no value can forge a record.
  \<^item> \<open>Schema_Handlers\<close>, \<open>Schema_Handler_Properties\<close>: the handlers of schemas, subjects, compatibility,
    configuration, modes and import (\<open>handlers.go\<close>), each a function from store, request and audit hints to
    store, response and hints.  \<open>serve_schema\<close> runs any call: modes stop every write, the read-only
    override stops all of them, answers are well typed, and a version is answered for as the catalogue has it.
  \<^item> \<open>Key_Handlers\<close>, \<open>Key_Handler_Properties\<close>: the handlers of encryption keys and exporters
    (\<open>dek.go\<close>, \<open>exporter.go\<close>): over any sequence of calls a plain key leaves the registry once.
  \<^item> \<open>Server_Config\<close>, \<open>Config_Properties\<close>: the configuration, its defaults, the expansion and the overrides by
    environment variables, validation and loading: each variable decides its own field, and a loaded
    configuration is valid.
  \<^item> \<open>Schema_Analysis\<close>, \<open>Edit_Distance\<close>, \<open>Analysis_Handlers\<close>, \<open>Glob_Match\<close>, \<open>Analysis_Properties\<close>: the package
    \<open>internal/analysis\<close> (fields of a schema, similarity, quality) and the handlers of \<open>analysis.go\<close>: the two-row
    loop computes the least number of edits, the greedy wildcard matcher decides the meaning of a pattern, scores
    stay in their range, and a reported difference is a patch.
  \<^item> \<open>Mcp_Server\<close>, \<open>Mcp_Tools\<close>, \<open>Mcp_Admin\<close>, \<open>Mcp_Insight\<close>, \<open>Mcp_Metrics\<close>, \<open>Mcp_Resources\<close>, \<open>Mcp_Dispatch\<close>: the
    server of the Model Context Protocol: its middlewares, all 109 tools and its resources.  \<open>run_tool\<close> runs a call,
    \<open>session\<close> a sequence of calls on a server that registers what its configuration allows.
  \<^item> \<open>Mcp_Properties\<close>, \<open>Mcp_Addresses\<close>: the parts of the state are guarded by permission scopes over any session
    (locale \<open>guarded_part\<close>, interpreted for the catalogue, keys, exporters and accounts); which origins a pattern lets
    in; how the URI of a resource is read; and where the tools differ from what they say.
  \<^item> This theory: the property that spans registration, storage, the compatibility checker and Avro.

  \<^bold>\<open>Choices.\<close>  Integers are mathematical integers with \<open>i64\<close> at each addition that can leave 64 bits;
  the hypothesis \<open>has_room\<close> of the registration properties says that the ID and version counters
  have not reached the largest 64-bit number.  A visiting order the runtime chooses is an argument
  constrained only to be a permutation (\<open>range_order\<close>, \<open>env_ok\<close>); clock readings are arguments.
  No fuel is used: the resolver ends because storage can return finitely many schemas, the Avro checker
  because schemas shrink, and the Protobuf comparison because it visits a pair of types once; the tree of
  dependents of the MCP tool is built down to the depth the code itself limits.  SHA-256, the schema
  parsers, the Avro and Protobuf libraries, regular expressions of callers, the tables of Unicode and key
  management services are arguments; what is assumed of them (no collisions, unwrapping what was wrapped) are
  named hypotheses.

  \<^bold>\<open>Not modelled:\<close> the SQL, Cassandra and Vault backends and the key management providers, which send
  text to external services; the schema parsers, which work on the trees of third-party libraries; routing by the
  router library and the encoding of answers as JSON; the texts of the MCP prompts and guides; metrics; audit
  output to files and syslog.  Operations run one at a time, except where
  a theory splits one into steps (\<open>Auth_Properties\<close>, \<open>Audit_Properties\<close>): interleaving inside the registry
  service, whose registration takes several calls to storage, is not modelled.
\<close>

section \<open>From registration to the data\<close>

lemma existing_with_refs_each:
  "existing_with_refs r s c schemas = Inr ws \<Longrightarrow> q \<in> set schemas \<Longrightarrow>
     \<exists>refs. Registry_resolveReferences r s c (sr_References q) = Inr refs \<and>
            \<lparr>sw_Schema = sr_Schema q, sw_References = refs\<rparr> \<in> set ws"
  by (induction schemas arbitrary: ws) (auto split: sum.splits)

text \<open>The gate compares with every live version when no compatibility group is configured.\<close>

lemma gate_checks_all:
  assumes inv: "store_inv s" and gate: "compat_gate r s c subject schemaType new meta = None"
    and mode: "compat_level r s c subject \<noteq> ModeNone" "Mode_IsTransitive (compat_level r s c subject)"
    and checker: "schema_checker check" "gm_get (ch_checkers (rg_compatChecker r)) schemaType = Some check"
    and group: "\<forall>config. Store_GetConfig s c subject = Inr config \<longrightarrow> cf_CompatibilityGroup config = []"
    and q: "mem_view c s subject v = Some q" "\<not> sr_Deleted q"
  shows "\<exists>refs. Registry_resolveReferences r s c (sr_References q) = Inr refs \<and>
     pair_ok check (compat_level r s c subject) new \<lparr>sw_Schema = sr_Schema q, sw_References = refs\<rparr>"
proof -
  obtain schemas where list: "Store_GetSchemasBySubject s c subject False = Inr schemas"
    using not_listed [OF inv _ q(1)] q(2) by (cases "Store_GetSchemasBySubject s c subject False") blast+
  have mem: "q \<in> set schemas" using listed_view(2) [OF inv list] q by auto
  have "Registry_filterByCompatibilityGroup r s c subject meta schemas = schemas"
    using group by (auto simp: Registry_filterByCompatibilityGroup_def Registry_GetSubjectConfigFull_def split: sum.splits)
  with gate mode(1) list mem obtain ws where ws: "existing_with_refs r s c schemas = Inr ws"
    "re_IsCompatible (Checker_Check (rg_compatChecker r) (compat_level r s c subject) schemaType new ws)"
    by (auto simp: compat_gate_def Let_def split: sum.splits if_splits)
  from existing_with_refs_each [OF ws(1) mem] obtain refs where
    refs: "Registry_resolveReferences r s c (sr_References q) = Inr refs"
    "\<lparr>sw_Schema = sr_Schema q, sw_References = refs\<rparr> \<in> set ws" by blast
  have "mode_ok check (compat_level r s c subject) new ws"
    using schema_checker.Check_verdict [OF checker] ws(2) by simp
  with mode(2) refs show ?thesis by (auto simp: mode_ok_def list_all_iff)
qed

lemma avro_pair_reads:
  assumes "re_IsCompatible (AvroChecker_Check lib reader writer)"
  shows "\<exists>rs ws. parseSchema lib reader = Inr rs \<and> parseSchema lib writer = Inr ws \<and> reads rs ws"
  using assms by (auto simp: AvroChecker_Check_def split: sum.splits intro: accepted_reads)


definition avro_registry :: "string Registry" where
  "avro_registry = sample_registry\<lparr>rg_defaultConfig := ''FULL_TRANSITIVE'',
     rg_compatChecker := Checker_Register NewChecker SchemaTypeAvro (AvroChecker_Check long_lib)\<rparr>"

definition avro_run :: "Store \<times> SchemaRecord reg_result" where
  "avro_run = Registry_RegisterSchema sample_env avro_registry (fst sample_run1) ''.'' ''money'' ''long'' SchemaTypeAvro []
                (with_property ''a'' ''1'')"


end
